(* ===== verification/Prelude.thy ===== *)
theory Prelude
  imports Main "HOL-Library.AList" "HOL-Library.Char_ord" "HOL-Library.List_Lexorder"
    "HOL-Library.Product_Lexorder"
begin

text \<open>
  Shared ground of the development: Python exceptions as values, the state-and-exception
  monad every stateful operation of the model is written in, insertion-ordered dictionaries
  (Python's \<open>dict\<close>) and the generic lemmas and simplification collections the components use.

  A coroutine of the code is a value of type \<open>('s, 'a) M\<close>: from the state before the call
  to the exception raised or the value returned, with the state after it. An exception keeps
  the effects performed before it was raised, as in Python.
\<close>

section \<open>Exceptions\<close>

text \<open>
  One constructor per exception class the modelled code raises or handles. \<open>HttpxError\<close> is any
  \<open>httpx.HTTPError\<close> and \<open>ProviderError\<close> any other \<open>Exception\<close> raised by code outside the
  repository (an SDK, a driver), each with its class name and text; \<open>CalledProcessError\<close> is a command
  that ended with a nonzero status (its arguments, the status, what it printed), \<open>OSError\<close> any subclass
  of \<open>OSError\<close>, with its name;
  \<open>CancelledError\<close> is asyncio's cancellation, the one exception here that derives from
  \<open>BaseException\<close> and so passes every \<open>except Exception\<close> handler untouched.
\<close>

datatype exn =
    TenantContextMissing string
  | CrossTenantError string string
  | EgressBlockedError string string
  | ReplayInProgressError string string
  | UnknownTemplateError string
  | TemplateParamError string string
  | UnknownOutboundMessageError string
  | TransactionAlreadyExists string
  | DocumentAlreadyExists string
  | AuthError string bool
  | HTTPException nat string
  | ValueError string
  | KeyError string
  | RuntimeError string
  | AssertionError
  | OverflowError
  | HttpxError string string
  | ProviderError string string
  | FleetError string
  | UpgradeError string
  | OffboardError string
  | CalledProcessError "string list" nat string
  | OSError string string
  | CancelledError

text \<open>Whether \<open>except Exception\<close> catches it.\<close>

fun is_exception :: "exn \<Rightarrow> bool" where
  "is_exception CancelledError = False"
| "is_exception _ = True"

text \<open>\<open>EgressBlockedError\<close> subclasses \<open>CrossTenantError\<close>.\<close>

fun is_cross_tenant :: "exn \<Rightarrow> bool" where
  "is_cross_tenant (CrossTenantError _ _) = True"
| "is_cross_tenant (EgressBlockedError _ _) = True"
| "is_cross_tenant _ = False"

text \<open>
  The classes an \<open>except ValueError\<close> handler catches: \<open>TemplateParamError\<close> is a subclass;
  \<open>OverflowError\<close> is an \<open>ArithmeticError\<close> and is not.
\<close>

fun is_value_error :: "exn \<Rightarrow> bool" where
  "is_value_error (ValueError _) = True"
| "is_value_error (TemplateParamError _ _) = True"
| "is_value_error _ = False"

section \<open>The state and exception monad\<close>

type_synonym ('s, 'a) M = "'s \<Rightarrow> (exn + 'a) \<times> 's"

definition ret :: "'a \<Rightarrow> ('s, 'a) M" where
  "ret a = (\<lambda>s. (Inr a, s))"

definition raise :: "exn \<Rightarrow> ('s, 'a) M" where
  "raise e = (\<lambda>s. (Inl e, s))"

definition bindM :: "('s, 'a) M \<Rightarrow> ('a \<Rightarrow> ('s, 'b) M) \<Rightarrow> ('s, 'b) M" where
  "bindM m k = (\<lambda>s. case m s of (Inl e, s') \<Rightarrow> (Inl e, s') | (Inr a, s') \<Rightarrow> k a s')"

definition thenM :: "('s, 'a) M \<Rightarrow> ('s, 'b) M \<Rightarrow> ('s, 'b) M" where
  "thenM m k = bindM m (\<lambda>_. k)"

definition gets :: "('s \<Rightarrow> 'a) \<Rightarrow> ('s, 'a) M" where
  "gets f = (\<lambda>s. (Inr (f s), s))"

definition modify :: "('s \<Rightarrow> 's) \<Rightarrow> ('s, unit) M" where
  "modify f = (\<lambda>s. (Inr (), f s))"

text \<open>A pure computation that may raise, run inside the monad.\<close>

definition liftE :: "exn + 'a \<Rightarrow> ('s, 'a) M" where
  "liftE r = (\<lambda>s. (r, s))"

text \<open>\<open>try: m except <class>: h\<close>, where \<open>p\<close> says which exceptions the clause catches.\<close>

definition try_except :: "(exn \<Rightarrow> bool) \<Rightarrow> ('s, 'a) M \<Rightarrow> (exn \<Rightarrow> ('s, 'a) M) \<Rightarrow> ('s, 'a) M" where
  "try_except p m h =
     (\<lambda>s. case m s of (Inl e, s') \<Rightarrow> if p e then h e s' else (Inl e, s') | (Inr a, s') \<Rightarrow> (Inr a, s'))"

text \<open>A \<open>for\<close> loop that awaits its body and collects the results, in order.\<close>

fun mapM :: "('a \<Rightarrow> ('s, 'b) M) \<Rightarrow> 'a list \<Rightarrow> ('s, 'b list) M" where
  "mapM f [] = ret []"
| "mapM f (x # xs) = bindM (f x) (\<lambda>y. bindM (mapM f xs) (\<lambda>ys. ret (y # ys)))"

text \<open>The same for a pure loop that may raise.\<close>

fun mapE :: "('a \<Rightarrow> exn + 'b) \<Rightarrow> 'a list \<Rightarrow> exn + 'b list" where
  "mapE f [] = Inr []"
| "mapE f (x # xs) =
     (case f x of Inl e \<Rightarrow> Inl e
      | Inr y \<Rightarrow> (case mapE f xs of Inl e \<Rightarrow> Inl e | Inr ys \<Rightarrow> Inr (y # ys)))"

lemma mapE_Inr: "mapE f xs = Inr ys \<longleftrightarrow> list_all2 (\<lambda>x y. f x = Inr y) xs ys"
proof (induction xs arbitrary: ys)
  case Nil
  then show ?case by auto
next
  case (Cons x xs)
  show ?case
  proof (cases ys)
    case Nil
    then show ?thesis by (auto split: sum.split)
  next
    case (Cons z zs)
    with Cons.IH [of zs] show ?thesis by (auto split: sum.split)
  qed
qed

lemma mapE_Inl: "mapE f xs = Inl e \<Longrightarrow> \<exists>x \<in> set xs. f x = Inl e"
  by (induction xs) (auto split: sum.splits)

lemma mapE_all: "(\<And>x. x \<in> set xs \<Longrightarrow> f x = Inr (g x)) \<Longrightarrow> mapE f xs = Inr (map g xs)"
  by (induction xs) auto

lemma find_append: "List.find P (xs @ ys) = (case List.find P xs of Some y \<Rightarrow> Some y | None \<Rightarrow> List.find P ys)"
  by (induction xs) auto

lemma find_SomeD: "List.find P xs = Some x \<Longrightarrow> x \<in> set xs \<and> P x"
  by (induction xs) (auto split: if_splits)

named_theorems monad "unfolding of the monad's operations on a given state"

lemma ret_apply [simp]: "ret a s = (Inr a, s)"
  by (simp add: ret_def)

lemma raise_apply [simp]: "raise e s = (Inl e, s)"
  by (simp add: raise_def)

lemma gets_apply [simp]: "gets f s = (Inr (f s), s)"
  by (simp add: gets_def)

lemma modify_apply [simp]: "modify f s = (Inr (), f s)"
  by (simp add: modify_def)

lemma liftE_apply [simp]: "liftE r s = (r, s)"
  by (simp add: liftE_def)

lemma bindM_apply [monad]:
  "bindM m k s = (case m s of (Inl e, s') \<Rightarrow> (Inl e, s') | (Inr a, s') \<Rightarrow> k a s')"
  by (simp add: bindM_def)

lemma thenM_apply [monad]:
  "thenM m k s = (case m s of (Inl e, s') \<Rightarrow> (Inl e, s') | (Inr a, s') \<Rightarrow> k s')"
  by (simp add: thenM_def bindM_def)

lemma try_except_apply [monad]:
  "try_except p m h s =
     (case m s of (Inl e, s') \<Rightarrow> if p e then h e s' else (Inl e, s') | (Inr a, s') \<Rightarrow> (Inr a, s'))"
  by (simp add: try_except_def)

lemma bindM_Inr [simp]: "m s = (Inr a, s') \<Longrightarrow> bindM m k s = k a s'"
  by (simp add: bindM_def)

lemma bindM_Inl [simp]: "m s = (Inl e, s') \<Longrightarrow> bindM m k s = (Inl e, s')"
  by (simp add: bindM_def)

lemma thenM_Inr [simp]: "m s = (Inr a, s') \<Longrightarrow> thenM m k s = k s'"
  by (simp add: thenM_def)

lemma thenM_Inl [simp]: "m s = (Inl e, s') \<Longrightarrow> thenM m k s = (Inl e, s')"
  by (simp add: thenM_def)

lemma bindM_ret: "bindM (ret a) k = k a"
  by (rule ext) (simp add: monad)

lemma bindM_right_ret: "bindM m ret = m"
proof
  fix s
  show "bindM m ret s = m s"
    by (cases "m s"; cases "fst (m s)") (auto simp: monad)
qed

lemma bindM_assoc: "bindM (bindM m k) h = bindM m (\<lambda>a. bindM (k a) h)"
proof
  fix s
  show "bindM (bindM m k) h s = bindM m (\<lambda>a. bindM (k a) h) s"
    by (cases "m s"; cases "fst (m s)") (auto simp: monad)
qed

text \<open>A run that returned came through both halves of a bind.\<close>

lemma bindM_InrE:
  assumes "bindM m k s = (Inr b, s')"
  obtains a t where "m s = (Inr a, t)" and "k a t = (Inr b, s')"
  using assms by (cases "m s"; cases "fst (m s)") (auto simp: monad)

lemma thenM_InrE:
  assumes "thenM m k s = (Inr b, s')"
  obtains a t where "m s = (Inr a, t)" and "k t = (Inr b, s')"
  using assms by (cases "m s"; cases "fst (m s)") (auto simp: monad)

text \<open>
  Invariants of computations: \<open>keeps P m\<close> says that \<open>m\<close>, returning or raising, takes states
  of \<open>P\<close> to states of \<open>P\<close>. The combinators keep what their parts keep.
\<close>

definition keeps :: "('s \<Rightarrow> bool) \<Rightarrow> ('s, 'a) M \<Rightarrow> bool" where
  "keeps P m \<longleftrightarrow> (\<forall>s. P s \<longrightarrow> P (snd (m s)))"

lemma keepsI: "(\<And>s. P s \<Longrightarrow> P (snd (m s))) \<Longrightarrow> keeps P m"
  by (simp add: keeps_def)

lemma keepsD: "keeps P m \<Longrightarrow> P s \<Longrightarrow> m s = (r, s') \<Longrightarrow> P s'"
  by (metis keeps_def snd_conv)

lemma keeps_pure [intro, simp]:
  "keeps P (ret a)" "keeps P (raise e)" "keeps P (gets f)" "keeps P (liftE r)"
  by (simp_all add: keeps_def)

lemma keeps_modify: "(\<And>s. P s \<Longrightarrow> P (f s)) \<Longrightarrow> keeps P (modify f)"
  by (simp add: keeps_def)

lemma keeps_bindM: "keeps P m \<Longrightarrow> (\<And>a. keeps P (k a)) \<Longrightarrow> keeps P (bindM m k)"
  by (force simp: keeps_def monad split: prod.splits sum.splits)

lemma keeps_thenM: "keeps P m \<Longrightarrow> keeps P k \<Longrightarrow> keeps P (thenM m k)"
  by (simp add: thenM_def keeps_bindM)

lemma keeps_try: "keeps P m \<Longrightarrow> (\<And>e. keeps P (h e)) \<Longrightarrow> keeps P (try_except p m h)"
  by (force simp: keeps_def monad split: prod.splits sum.splits)

lemma keeps_mapM: "(\<And>x. x \<in> set xs \<Longrightarrow> keeps P (f x)) \<Longrightarrow> keeps P (mapM f xs)"
  by (induction xs) (auto intro!: keeps_bindM)

lemmas keeps_rules = keeps_pure keeps_bindM keeps_thenM keeps_try keeps_mapM

section \<open>Insertion-ordered dictionaries\<close>

text \<open>
  Python's \<open>dict\<close> iterates in insertion order and an assignment to a present key keeps its
  position, which is what \<open>AList.update\<close> does on an association list.
\<close>

type_synonym ('k, 'v) dict = "('k \<times> 'v) list"

definition dict_get :: "('k, 'v) dict \<Rightarrow> 'k \<Rightarrow> 'v option" where
  "dict_get d k = map_of d k"

definition dict_set :: "('k, 'v) dict \<Rightarrow> 'k \<Rightarrow> 'v \<Rightarrow> ('k, 'v) dict" where
  "dict_set d k v = AList.update k v d"

definition dict_values :: "('k, 'v) dict \<Rightarrow> 'v list" where
  "dict_values d = map snd d"

definition dict_ok :: "('k, 'v) dict \<Rightarrow> bool" where
  "dict_ok d \<longleftrightarrow> distinct (map fst d)"

lemma dict_get_empty [simp]: "dict_get [] k = None"
  by (simp add: dict_get_def)

lemma dict_get_set [simp]: "dict_get (dict_set d k v) k' = (if k' = k then Some v else dict_get d k')"
  by (simp add: dict_get_def dict_set_def update_conv')

lemma dict_get_Cons: "dict_get ((k, v) # d) k' = (if k' = k then Some v else dict_get d k')"
  by (auto simp: dict_get_def)

lemma dict_ok_empty [simp]: "dict_ok []"
  by (simp add: dict_ok_def)

lemma dict_ok_set [simp]: "dict_ok d \<Longrightarrow> dict_ok (dict_set d k v)"
  by (simp add: dict_ok_def dict_set_def distinct_update)

lemma set_dict_values: "dict_ok d \<Longrightarrow> set (dict_values d) = ran (dict_get d)"
  unfolding dict_ok_def dict_values_def dict_get_def by (simp add: ran_distinct)

lemma dict_values_get: "v \<in> set (dict_values d) \<Longrightarrow> dict_ok d \<Longrightarrow> \<exists>k. dict_get d k = Some v"
  by (auto simp: set_dict_values ran_def)

lemma dict_get_values: "dict_get d k = Some v \<Longrightarrow> v \<in> set (dict_values d)"
  unfolding dict_get_def dict_values_def by (auto dest: map_of_SomeD intro: rev_image_eqI)

text \<open>
  A table holds each row under its own key: then selecting the rows with a key, appending a row
  with a fresh key and mapping the rows with a key are the dictionary's operations.
\<close>

definition keyed :: "('v \<Rightarrow> 'k) \<Rightarrow> ('k, 'v) dict \<Rightarrow> bool" where
  "keyed key d \<longleftrightarrow> dict_ok d \<and> (\<forall>(k, r) \<in> set d. key r = k)"

lemma keyed_Nil [simp]: "keyed key []"
  by (simp add: keyed_def)

lemma keyed_dict_ok: "keyed key d \<Longrightarrow> dict_ok d"
  by (simp add: keyed_def)

lemma keyed_get: "keyed key d \<Longrightarrow> dict_get d k = Some r \<Longrightarrow> key r = k"
  by (auto simp: keyed_def dict_get_def dest: map_of_SomeD)

lemma set_dict_set: "set (dict_set d k v) \<subseteq> insert (k, v) (set d)"
  unfolding dict_set_def by (induction d) auto

lemma keyed_set: "keyed key d \<Longrightarrow> key v = k \<Longrightarrow> keyed key (dict_set d k v)"
  unfolding keyed_def using set_dict_set [of d k v] by auto

lemma find_keyed: "keyed key d \<Longrightarrow> List.find (\<lambda>r. key r = i) (dict_values d) = dict_get d i"
  by (induction d) (auto simp: keyed_def dict_ok_def dict_values_def dict_get_def)

lemma append_fresh: "dict_get d k = None \<Longrightarrow> d @ [(k, v)] = dict_set d k v"
  by (induction d) (auto simp: dict_get_def dict_set_def split: if_splits)

lemma map_keyed:
  "keyed key d \<Longrightarrow> dict_get d i = Some r \<Longrightarrow> P r \<Longrightarrow>
   map (\<lambda>(k, x). if key x = i \<and> P x then (k, f x) else (k, x)) d = dict_set d i (f r)"
proof (induction d)
  case Nil
  then show ?case by simp
next
  case (Cons p d)
  obtain k x where p: "p = (k, x)" by (cases p)
  with Cons.prems have k: "key x = k" and d: "keyed key d" and nin: "k \<notin> fst ` set d"
    by (auto simp: keyed_def dict_ok_def)
  show ?case
  proof (cases "k = i")
    case True
    with Cons.prems(2) p have x: "x = r" by (simp add: dict_get_def)
    have "map (\<lambda>(k, x). if key x = i \<and> P x then (k, f x) else (k, x)) d = d"
      using d nin True by (intro map_idI) (force simp: keyed_def)
    with p k x True Cons.prems(3) show ?thesis by (simp add: dict_set_def)
  next
    case False
    with Cons p k d show ?thesis by (simp add: dict_set_def dict_get_def)
  qed
qed

lemma map_keyed_miss:
  assumes "keyed key d" and "\<And>r. dict_get d i = Some r \<Longrightarrow> \<not> P r"
  shows "map (\<lambda>(k, x). if key x = i \<and> P x then (k, f x) else (k, x)) d = d"
proof (rule map_idI)
  fix p assume "p \<in> set d"
  with assms show "(case p of (k, x) \<Rightarrow> if key x = i \<and> P x then (k, f x) else (k, x)) = p"
    by (cases p) (auto simp: keyed_def dict_get_def dict_ok_def)
qed

lemma dict_set_same: "dict_get d k = Some v \<Longrightarrow> dict_set d k v = d"
  by (induction d) (auto simp: dict_get_def dict_set_def split: if_splits)

lemma dict_set_values: "set (dict_values (dict_set d k v)) \<subseteq> insert v (set (dict_values d))"
  unfolding dict_set_def dict_values_def by (induction d) auto

end
