(* ===== verification/PyText.thy ===== *)
theory PyText
  imports Prelude
begin

text \<open>
  The parts of Python's \<open>str\<close>, \<open>int\<close> formatting and \<open>datetime.date\<close> the code uses.

  A \<open>str\<close> is the list of its UTF-8 bytes, so every text the code writes (its dashes and
  ellipses included) is representable; \<open>py_len\<close> counts code points as \<open>len\<close> does, and
  the byte order of UTF-8 is the code point order of Python's comparison. \<open>lower\<close> and
  \<open>strip\<close> act on ASCII letters and ASCII white space and leave the bytes of other
  characters alone.

  A \<open>date\<close> is its proleptic Gregorian ordinal (\<open>date.toordinal()\<close>): day 1 is 0001-01-01 and
  day 3652059 is 9999-12-31. Adding a \<open>timedelta\<close> outside that range raises
  \<open>OverflowError\<close>.
\<close>

section \<open>Strings\<close>

definition em_dash :: string where
  "em_dash = [CHR 0xE2, CHR 0x80, CHR 0x94]"

definition is_continuation :: "char \<Rightarrow> bool" where
  "is_continuation c \<longleftrightarrow> 128 \<le> (of_char c :: nat) \<and> (of_char c :: nat) < 192"

definition py_len :: "string \<Rightarrow> nat" where
  "py_len s = length (filter (\<lambda>c. \<not> is_continuation c) s)"

definition lower_char :: "char \<Rightarrow> char" where
  "lower_char c =
     (let n = (of_char c :: nat) in if 65 \<le> n \<and> n \<le> 90 then char_of (n + 32) else c)"

definition lower :: "string \<Rightarrow> string" where
  "lower s = map lower_char s"

definition is_space :: "char \<Rightarrow> bool" where
  "is_space c \<longleftrightarrow>
     (let n = (of_char c :: nat) in (9 \<le> n \<and> n \<le> 13) \<or> (28 \<le> n \<and> n \<le> 32))"

definition lstrip :: "string \<Rightarrow> string" where
  "lstrip s = dropWhile is_space s"

definition strip :: "string \<Rightarrow> string" where
  "strip s = rev (lstrip (rev (lstrip s)))"

fun startswith :: "string \<Rightarrow> string \<Rightarrow> bool" where
  "startswith s [] = True"
| "startswith [] (p # ps) = False"
| "startswith (c # cs) (p # ps) = (c = p \<and> startswith cs ps)"

definition endswith :: "string \<Rightarrow> string \<Rightarrow> bool" where
  "endswith s p = startswith (rev s) (rev p)"

text \<open>\<open>sub in s\<close>.\<close>

fun contains :: "string \<Rightarrow> string \<Rightarrow> bool" where
  "contains sub [] = (sub = [])"
| "contains sub (c # cs) = (startswith (c # cs) sub \<or> contains sub cs)"

fun join :: "string \<Rightarrow> string list \<Rightarrow> string" where
  "join sep [] = []"
| "join sep [x] = x"
| "join sep (x # xs) = x @ sep @ join sep xs"

text \<open>\<open>s.rpartition(sep)[2]\<close> for a one-character separator: what follows its last occurrence,
  the whole string when there is none.\<close>

definition after_last :: "char \<Rightarrow> string \<Rightarrow> string" where
  "after_last sep s = rev (takeWhile (\<lambda>c. c \<noteq> sep) (rev s))"

text \<open>\<open>a or b\<close> on strings.\<close>

definition str_or :: "string \<Rightarrow> string \<Rightarrow> string" where
  "str_or a b = (if a = [] then b else a)"

lemma startswith_iff: "startswith s p \<longleftrightarrow> (\<exists>t. s = p @ t)"
  by (induction s p rule: startswith.induct) auto

lemma endswith_iff: "endswith s p \<longleftrightarrow> (\<exists>t. s = t @ p)"
proof -
  have "(\<exists>t. rev s = rev p @ t) \<longleftrightarrow> (\<exists>t. s = t @ p)"
    by (metis rev_append rev_rev_ident)
  then show ?thesis by (simp add: endswith_def startswith_iff)
qed

lemma contains_iff: "contains sub s \<longleftrightarrow> (\<exists>a b. s = a @ sub @ b)"
proof (induction s)
  case Nil
  then show ?case by auto
next
  case (Cons c cs)
  have "(\<exists>a b. c # cs = a @ sub @ b) \<longleftrightarrow> (\<exists>b. c # cs = sub @ b) \<or> (\<exists>a b. cs = a @ sub @ b)"
    by (metis append_Cons append_Nil list.exhaust list.inject)
  with Cons show ?case by (simp add: startswith_iff)
qed

lemma lower_append [simp]: "lower (a @ b) = lower a @ lower b"
  by (simp add: lower_def)

lemma lower_char_idem [simp]: "lower_char (lower_char c) = lower_char c"
proof (cases "65 \<le> (of_char c :: nat) \<and> (of_char c :: nat) \<le> 90")
  case True
  then have "lower_char c = char_of ((of_char c :: nat) + 32)"
    by (simp add: lower_char_def Let_def)
  moreover have "(of_char (char_of ((of_char c :: nat) + 32)) :: nat) = of_char c + 32"
    using True by (simp only: of_char_of) simp
  ultimately have "(of_char (lower_char c) :: nat) = of_char c + 32" by simp
  with True show ?thesis by (subst lower_char_def) (simp add: Let_def)
next
  case False
  then have "lower_char c = c" unfolding lower_char_def Let_def by (simp only: if_False)
  then show ?thesis by simp
qed

lemma lower_idem [simp]: "lower (lower s) = lower s"
  by (simp add: lower_def comp_def)

lemma after_last_no_sep: "sep \<notin> set (after_last sep s)"
  by (auto simp: after_last_def dest: set_takeWhileD)

lemma strip_Nil [simp]: "strip [] = []"
  by (simp add: strip_def lstrip_def)

lemma lstrip_empty_iff: "lstrip s = [] \<longleftrightarrow> (\<forall>c \<in> set s. is_space c)"
  by (simp add: lstrip_def)

lemma lstrip_all_space: "\<forall>c \<in> set (lstrip s). is_space c \<Longrightarrow> lstrip s = []"
proof (induction s)
  case Nil
  show ?case by (simp add: lstrip_def)
next
  case (Cons c s)
  then show ?case by (cases "is_space c") (simp_all add: lstrip_def)
qed

lemma strip_empty_iff: "strip s = [] \<longleftrightarrow> (\<forall>c \<in> set s. is_space c)"
proof -
  have "strip s = [] \<longleftrightarrow> (\<forall>c \<in> set (rev (lstrip s)). is_space c)"
    unfolding strip_def by (simp only: rev_is_Nil_conv lstrip_empty_iff)
  moreover have "(\<forall>c \<in> set (lstrip s). is_space c) \<longleftrightarrow> lstrip s = []"
    using lstrip_all_space [of s] by force
  ultimately show ?thesis by (simp only: set_rev lstrip_empty_iff)
qed

section \<open>Numbers as text\<close>

definition digit :: "nat \<Rightarrow> char" where
  "digit n = ''0123456789'' ! n"

fun show_nat :: "nat \<Rightarrow> string" where
  "show_nat n = (if n < 10 then [digit n] else show_nat (n div 10) @ [digit (n mod 10)])"

declare show_nat.simps [simp del]

definition show_int :: "int \<Rightarrow> string" where
  "show_int i = (if i < 0 then CHR ''-'' # show_nat (nat (- i)) else show_nat (nat i))"

text \<open>\<open>f"{n:0w}"\<close> for a natural number.\<close>

definition zpad :: "nat \<Rightarrow> nat \<Rightarrow> string" where
  "zpad w n = replicate (w - length (show_nat n)) CHR ''0'' @ show_nat n"

text \<open>\<open>f"{n:,}"\<close>.\<close>

fun group3 :: "string \<Rightarrow> string" where
  "group3 (a # b # c # d # ds) = a # b # c # CHR '','' # group3 (d # ds)"
| "group3 ds = ds"

definition show_thousands :: "int \<Rightarrow> string" where
  "show_thousands i =
     (if i < 0 then CHR ''-'' # rev (group3 (rev (show_nat (nat (- i)))))
      else rev (group3 (rev (show_nat (nat i)))))"

definition digit_val :: "char \<Rightarrow> nat" where
  "digit_val c = of_char c - 48"

definition read_nat :: "string \<Rightarrow> nat" where
  "read_nat s = foldl (\<lambda>v c. 10 * v + digit_val c) 0 s"

lemma digit_val_digit [simp]: "n < 10 \<Longrightarrow> digit_val (digit n) = n"
  by (auto simp: digit_val_def digit_def less_Suc_eq numeral_eq_Suc)

lemma read_nat_snoc [simp]: "read_nat (s @ [c]) = 10 * read_nat s + digit_val c"
  by (simp add: read_nat_def)

lemma read_show_nat [simp]: "read_nat (show_nat n) = n"
proof (induction n rule: show_nat.induct)
  case (1 n)
  show ?case
  proof (cases "n < 10")
    case True
    then show ?thesis
      by (simp add: show_nat.simps [of n] read_nat_def)
  next
    case False
    with 1 show ?thesis
      by (simp add: show_nat.simps [of n])
  qed
qed

lemma read_nat_zeros [simp]: "read_nat (replicate k CHR ''0'' @ s) = read_nat s"
  by (induction k) (simp_all add: read_nat_def digit_val_def)

lemma show_nat_inject [simp]: "show_nat m = show_nat n \<longleftrightarrow> m = n"
  by (metis read_show_nat)

lemma zpad_inject [simp]: "zpad w m = zpad w n \<longleftrightarrow> m = n"
  by (metis read_nat_zeros read_show_nat zpad_def)

lemma show_nat_nonempty [simp]: "show_nat n \<noteq> []"
  by (simp add: show_nat.simps [of n])

definition is_digit :: "char \<Rightarrow> bool" where
  "is_digit c \<longleftrightarrow> (let n = (of_char c :: nat) in 48 \<le> n \<and> n \<le> 57)"

lemma is_digit_digit [simp]: "n < 10 \<Longrightarrow> is_digit (digit n)"
  by (auto simp: is_digit_def digit_def less_Suc_eq numeral_eq_Suc)

lemma show_nat_digits: "c \<in> set (show_nat n) \<Longrightarrow> is_digit c"
proof (induction n rule: show_nat.induct)
  case (1 n)
  show ?case
  proof (cases "n < 10")
    case True
    with "1.prems" show ?thesis by (simp add: show_nat.simps [of n])
  next
    case False
    with "1.prems" "1.IH" show ?thesis
      by (auto simp: show_nat.simps [of n] split: if_splits)
  qed
qed

lemma zpad_digits: "c \<in> set (zpad w n) \<Longrightarrow> is_digit c"
  by (auto simp: zpad_def dest: show_nat_digits) (simp add: is_digit_def)

lemma length_show_nat: "n < 10 ^ Suc k \<Longrightarrow> length (show_nat n) \<le> Suc k"
proof (induction k arbitrary: n)
  case 0
  then show ?case by (simp add: show_nat.simps [of n])
next
  case (Suc k)
  show ?case
  proof (cases "n < 10")
    case True
    then show ?thesis by (simp add: show_nat.simps [of n])
  next
    case False
    have "n div 10 < 10 ^ Suc k"
      using Suc.prems by (simp add: less_mult_imp_div_less mult.commute)
    with Suc.IH False show ?thesis by (simp add: show_nat.simps [of n])
  qed
qed

section \<open>Code points\<close>

text \<open>The code points of a text.\<close>

fun code_points :: "nat list \<Rightarrow> nat list" where
  "code_points [] = []"
| "code_points (a # bs) =
     (if a < 128 then a # code_points bs
      else if a < 224 then
        (case bs of b # r \<Rightarrow> ((a - 192) * 64 + (b - 128)) # code_points r | [] \<Rightarrow> [a])
      else if a < 240 then
        (case bs of b # c # r \<Rightarrow> ((a - 224) * 4096 + (b - 128) * 64 + (c - 128)) # code_points r | _ \<Rightarrow> [a])
      else
        (case bs of
           b # c # d # r \<Rightarrow>
             ((a - 240) * 262144 + (b - 128) * 4096 + (c - 128) * 64 + (d - 128)) # code_points r
         | _ \<Rightarrow> [a]))"

text \<open>
  \<open>\d\<close> on a \<open>str\<close> is every decimal digit of Unicode 15: a block of ten from each of these zeros.
\<close>

definition decimal_zeros :: "nat list" where
  "decimal_zeros =
     [0x30, 0x660, 0x6F0, 0x7C0, 0x966, 0x9E6, 0xA66, 0xAE6, 0xB66, 0xBE6, 0xC66, 0xCE6, 0xD66, 0xDE6,
      0xE50, 0xED0, 0xF20, 0x1040, 0x1090, 0x17E0, 0x1810, 0x1946, 0x19D0, 0x1A80, 0x1A90, 0x1B50,
      0x1BB0, 0x1C40, 0x1C50, 0xA620, 0xA8D0, 0xA900, 0xA9D0, 0xA9F0, 0xAA50, 0xABF0, 0xFF10, 0x104A0,
      0x10D30, 0x11066, 0x110F0, 0x11136, 0x111D0, 0x112F0, 0x11450, 0x114D0, 0x11650, 0x116C0,
      0x11730, 0x118E0, 0x11950, 0x11C50, 0x11D50, 0x11DA0, 0x11F50, 0x16A60, 0x16AC0, 0x16B50,
      0x1D7CE, 0x1D7D8, 0x1D7E2, 0x1D7EC, 0x1D7F6, 0x1E140, 0x1E2F0, 0x1E4F0, 0x1E950, 0x1FBF0]"

definition is_decimal :: "nat \<Rightarrow> bool" where
  "is_decimal c \<longleftrightarrow> list_ex (\<lambda>z. z \<le> c \<and> c < z + 10) decimal_zeros"

section \<open>Quoted text\<close>

definition hex2 :: "nat \<Rightarrow> string" where
  "hex2 n = [''0123456789abcdef'' ! (n div 16), ''0123456789abcdef'' ! (n mod 16)]"

definition repr_char :: "char \<Rightarrow> char \<Rightarrow> string" where
  "repr_char q c =
     (let n = (of_char c :: nat)
      in if c = q \<or> n = 92 then [CHR 0x5C, c]
         else if n = 10 then [CHR 0x5C, CHR ''n''] else if n = 13 then [CHR 0x5C, CHR ''r'']
         else if n = 9 then [CHR 0x5C, CHR ''t'']
         else if n < 32 \<or> n = 127 then [CHR 0x5C, CHR ''x''] @ hex2 n else [c])"

text \<open>\<open>f"{s!r}"\<close>; characters beyond ASCII are taken to be printable.\<close>

definition py_repr :: "string \<Rightarrow> string" where
  "py_repr s =
     (let q = (if CHR 0x27 \<in> set s \<and> CHR 0x22 \<notin> set s then CHR 0x22 else CHR 0x27)
      in [q] @ concat (map (repr_char q) s) @ [q])"

section \<open>Dates\<close>

type_synonym date = int

definition date_min :: date where "date_min = 1"
definition date_max :: date where "date_max = 3652059"

text \<open>\<open>d + timedelta(days=n)\<close>.\<close>

definition date_add :: "date \<Rightarrow> int \<Rightarrow> exn + date" where
  "date_add d n =
     (if date_min \<le> d + n \<and> d + n \<le> date_max then Inr (d + n) else Inl OverflowError)"

definition days_before_year :: "int \<Rightarrow> int" where
  "days_before_year y = (let p = y - 1 in p * 365 + p div 4 - p div 100 + p div 400)"

definition is_leap :: "int \<Rightarrow> bool" where
  "is_leap y \<longleftrightarrow> y mod 4 = 0 \<and> (y mod 100 \<noteq> 0 \<or> y mod 400 = 0)"

definition days_in_month :: "int \<Rightarrow> nat list" where
  "days_in_month y = [31, if is_leap y then 29 else 28, 31, 30, 31, 30, 31, 31, 30, 31, 30, 31]"

text \<open>The month and the day of the month of the \<open>n\<close>-th day (from 0) of a year.\<close>

fun month_day :: "nat list \<Rightarrow> nat \<Rightarrow> nat \<Rightarrow> nat \<times> nat" where
  "month_day [] m n = (m, n + 1)"
| "month_day (l # ls) m n = (if n < l then (m, n + 1) else month_day ls (m + 1) (n - l))"

text \<open>The year of an ordinal, as \<open>_ord2ymd\<close> of the standard library finds it.\<close>

definition ord_ymd :: "date \<Rightarrow> int \<times> nat \<times> nat" where
  "ord_ymd d =
     (let n = d - 1; n400 = n div 146097; n = n mod 146097;
          n100 = n div 36524; n = n mod 36524;
          n4 = n div 1461; n = n mod 1461;
          n1 = n div 365; n = n mod 365;
          y = n400 * 400 + n100 * 100 + n4 * 4 + n1 + 1
      in if n1 = 4 \<or> n100 = 4 then (y - 1, 12, 31)
         else (let (m, k) = month_day (days_in_month y) 1 (nat n) in (y, m, k)))"

definition ymd_ord :: "int \<Rightarrow> nat \<Rightarrow> nat \<Rightarrow> date" where
  "ymd_ord y m d =
     days_before_year y + int (sum_list (take (m - 1) (days_in_month y))) + int d"

definition isoformat :: "date \<Rightarrow> string" where
  "isoformat d =
     (case ord_ymd d of (y, m, k) \<Rightarrow> zpad 4 (nat y) @ ''-'' @ zpad 2 m @ ''-'' @ zpad 2 k)"

lemma isoformat_examples:
  "isoformat 739000 = ''2024-04-24''" "isoformat 738945 = ''2024-02-29''"
  "isoformat 730850 = ''2001-12-31''" "isoformat 1 = ''0001-01-01''"
  by code_simp+

lemma date_add_Inr:
  "date_add d n = Inr e \<longleftrightarrow> e = d + n \<and> date_min \<le> d + n \<and> d + n \<le> date_max"
  by (auto simp: date_add_def)

lemma date_add_Inl: "date_add d n = Inl e \<Longrightarrow> e = OverflowError"
  by (auto simp: date_add_def split: if_splits)

end
