(* ===== verification/Secrets.thy ===== *)
theory Secrets
  imports PyText
begin

text \<open>
  The secret value shapes of \<open>core/services/egress.py\<close>. Every \<open>SECRET_VALUE_PATTERNS\<close> entry is a
  sequence of word boundaries, single characters and repeated character classes, so a pattern is
  a list of such items and the matcher backtracks over the repetition counts in the order
  Python's \<open>re\<close> tries them (longest first, or shortest first for a lazy repetition). The text is
  bytes: a byte of a character beyond ASCII counts as neither a word character nor white space.
\<close>

section \<open>Patterns\<close>

type_synonym ranges = "(nat \<times> nat) list"

definition in_ranges :: "ranges \<Rightarrow> char \<Rightarrow> bool" where
  "in_ranges rs c \<longleftrightarrow> list_ex (\<lambda>(a, b). a \<le> of_char c \<and> of_char c \<le> b) rs"

text \<open>A class is a list of ranges, or the complement of one.\<close>

datatype cls = In ranges | NotIn ranges

fun in_cls :: "cls \<Rightarrow> char \<Rightarrow> bool" where
  "in_cls (In rs) c = in_ranges rs c"
| "in_cls (NotIn rs) c = (\<not> in_ranges rs c)"

datatype item = Bound | One cls | Rep cls nat "nat option" bool

type_synonym pattern = "item list"

definition word_ranges :: ranges where
  "word_ranges = [(48, 57), (65, 90), (95, 95), (97, 122)]"

definition is_word :: "char \<Rightarrow> bool" where
  "is_word c = in_ranges word_ranges c"

text \<open>\<open>\b\<close> between the character before and the rest.\<close>

definition boundary :: "char option \<Rightarrow> string \<Rightarrow> bool" where
  "boundary prev s \<longleftrightarrow>
     (case prev of None \<Rightarrow> False | Some c \<Rightarrow> is_word c) \<noteq>
     (case s of [] \<Rightarrow> False | c # _ \<Rightarrow> is_word c)"

fun first_some :: "('a \<Rightarrow> 'b option) \<Rightarrow> 'a list \<Rightarrow> 'b option" where
  "first_some f [] = None"
| "first_some f (x # xs) = (case f x of None \<Rightarrow> first_some f xs | Some y \<Rightarrow> Some y)"

definition prev_of :: "char option \<Rightarrow> string \<Rightarrow> nat \<Rightarrow> char option" where
  "prev_of prev s k = (if k = 0 then prev else Some (s ! (k - 1)))"

text \<open>The repetition counts to try, in order.\<close>

definition counts :: "cls \<Rightarrow> nat \<Rightarrow> nat option \<Rightarrow> bool \<Rightarrow> string \<Rightarrow> nat list" where
  "counts c lo hi greedy s =
     (let run = length (takeWhile (in_cls c) s);
          most = (case hi of None \<Rightarrow> run | Some h \<Rightarrow> min h run);
          ks = [lo..<Suc most]
      in if greedy then rev ks else ks)"

text \<open>The length of the match at this position, if there is one.\<close>

fun match_at :: "pattern \<Rightarrow> char option \<Rightarrow> string \<Rightarrow> nat option" where
  "match_at [] prev s = Some 0"
| "match_at (Bound # r) prev s = (if boundary prev s then match_at r prev s else None)"
| "match_at (One c # r) prev s =
     (case s of [] \<Rightarrow> None
      | x # xs \<Rightarrow> if in_cls c x then map_option Suc (match_at r (Some x) xs) else None)"
| "match_at (Rep c lo hi greedy # r) prev s =
     first_some (\<lambda>k. map_option ((+) k) (match_at r (prev_of prev s k) (drop k s)))
       (counts c lo hi greedy s)"

text \<open>\<open>pattern.sub(marker, s)\<close>: leftmost matches, left to right; an empty match is skipped.\<close>

function sub_pattern :: "pattern \<Rightarrow> string \<Rightarrow> char option \<Rightarrow> string \<Rightarrow> string" where
  "sub_pattern p marker prev [] = []"
| "sub_pattern p marker prev (x # xs) =
     (case match_at p prev (x # xs) of
        Some (Suc k) \<Rightarrow> marker @ sub_pattern p marker (Some ((x # xs) ! k)) (drop k xs)
      | _ \<Rightarrow> x # sub_pattern p marker (Some x) xs)"
  by pat_completeness auto
termination
  by (relation "measure (\<lambda>(p, marker, prev, s). length s)") auto

section \<open>The table\<close>

definition chr_item :: "char \<Rightarrow> item" where
  "chr_item c = One (In [(of_char c, of_char c)])"

definition lit :: "string \<Rightarrow> pattern" where
  "lit s = map chr_item s"

definition az :: "nat \<times> nat" where "az = (97, 122)"
definition AZ :: "nat \<times> nat" where "AZ = (65, 90)"
definition d09 :: "nat \<times> nat" where "d09 = (48, 57)"

definition chr :: "char \<Rightarrow> nat \<times> nat" where
  "chr c = (of_char c, of_char c)"

text \<open>\<open>\s\<close> on ASCII.\<close>

definition space_ranges :: ranges where
  "space_ranges = [(9, 13), (28, 32)]"

definition plus :: "cls \<Rightarrow> nat \<Rightarrow> item" where
  "plus c lo = Rep c lo None True"

text \<open>A letter in either case.\<close>

definition ci :: "char \<Rightarrow> item" where
  "ci c = One (In [(of_char c, of_char c), (of_char c - 32, of_char c - 32)])"

definition pem_pattern :: pattern where
  "pem_pattern =
     lit ''-----BEGIN '' @ [plus (In [AZ, chr CHR '' '']) 0] @ lit ''PRIVATE KEY-----'' @
     [Rep (NotIn []) 1 None False] @
     lit ''-----END '' @ [plus (In [AZ, chr CHR '' '']) 0] @ lit ''PRIVATE KEY-----''"

definition url_pattern :: pattern where
  "url_pattern =
     [Bound, One (In [az, AZ]),
      plus (In [az, AZ, d09, chr CHR ''+'', chr CHR ''.'', chr CHR ''-'']) 0] @ lit ''://'' @
     [plus (NotIn ([chr CHR ''/'', chr CHR '':'', chr CHR ''@''] @ space_ranges)) 1] @ lit '':'' @
     [plus (NotIn (chr CHR ''@'' # space_ranges)) 1] @ lit ''@''"

definition bearer_pattern :: pattern where
  "bearer_pattern =
     Bound # map ci ''bearer'' @ [plus (In space_ranges) 1,
       plus (In [az, AZ, d09, chr CHR ''.'', chr CHR ''_'', chr CHR ''~'', chr CHR ''+'',
                 chr CHR ''/'', chr CHR ''-'']) 16,
       plus (In [chr CHR ''='']) 0]"

definition sk_pattern :: pattern where
  "sk_pattern =
     Bound # lit ''sk-'' @
     [plus (In [az, AZ, d09, chr CHR ''_'', chr CHR ''-'']) 16, Bound]"

definition akia_pattern :: pattern where
  "akia_pattern = Bound # lit ''AKIA'' @ [Rep (In [d09, AZ]) 16 (Some 16) True, Bound]"

definition gh_pattern :: pattern where
  "gh_pattern =
     Bound # lit ''gh'' @
     [One (In [chr CHR ''p'', chr CHR ''o'', chr CHR ''u'', chr CHR ''s'', chr CHR ''r''])] @
     lit ''_'' @ [plus (In [az, AZ, d09]) 20, Bound]"

definition xox_pattern :: pattern where
  "xox_pattern =
     Bound # lit ''xox'' @
     [One (In [chr CHR ''b'', chr CHR ''a'', chr CHR ''p'', chr CHR ''r'', chr CHR ''s''])] @
     lit ''-'' @ [plus (In [az, AZ, d09, chr CHR ''-'']) 10, Bound]"

definition b64url :: ranges where
  "b64url = [az, AZ, d09, chr CHR ''_'', chr CHR ''-'']"

definition jwt_pattern :: pattern where
  "jwt_pattern =
     Bound # lit ''eyJ'' @ [plus (In b64url) 8] @ lit ''.'' @ [plus (In b64url) 8] @ lit ''.'' @
     [plus (In b64url) 8, Bound]"

definition secret_value_patterns :: "pattern list" where
  "secret_value_patterns =
     [pem_pattern, url_pattern, bearer_pattern, sk_pattern, akia_pattern, gh_pattern, xox_pattern,
      jwt_pattern]"

definition secret_redacted :: string where
  "secret_redacted = ''[redacted:secret]''"

text \<open>\<open>_scrub_text\<close>, without the finding: the patterns one after the other.\<close>

definition scrub_text :: "string \<Rightarrow> string" where
  "scrub_text s = foldl (\<lambda>t p. sub_pattern p secret_redacted None t) s secret_value_patterns"

section \<open>What the scrub does\<close>

text \<open>Whether the pattern matches a non-empty span somewhere in the text.\<close>

fun has_match :: "pattern \<Rightarrow> char option \<Rightarrow> string \<Rightarrow> bool" where
  "has_match p prev [] = False"
| "has_match p prev (x # xs) =
     ((case match_at p prev (x # xs) of Some (Suc k) \<Rightarrow> True | _ \<Rightarrow> False) \<or> has_match p (Some x) xs)"

lemma sub_no_match: "\<not> has_match p prev s \<Longrightarrow> sub_pattern p marker prev s = s"
  by (induction s arbitrary: prev) (auto split: option.splits nat.splits)

lemma contains_append: "contains m a \<Longrightarrow> contains m (a @ b)" "contains m b \<Longrightarrow> contains m (a @ b)"
  unfolding contains_iff by (metis append.assoc)+

lemma contains_Cons: "contains m b \<Longrightarrow> contains m (x # b)"
  using contains_append(2) [of m b "[x]"] by simp

lemma contains_self: "contains m (m @ b)"
  unfolding contains_iff by (metis append_Nil)

lemma sub_match: "has_match p prev s \<Longrightarrow> contains marker (sub_pattern p marker prev s)"
  by (induction s arbitrary: prev)
    (auto simp: contains_self intro: contains_Cons split: option.splits nat.splits)

definition any_match :: "string \<Rightarrow> bool" where
  "any_match s \<longleftrightarrow> list_ex (\<lambda>p. has_match p None s) secret_value_patterns"

lemma scrub_fold:
  "(\<forall>p \<in> set ps. \<not> has_match p None s) \<and>
     foldl (\<lambda>t p. sub_pattern p marker None t) s ps = s \<or>
   contains marker (foldl (\<lambda>t p. sub_pattern p marker None t) s ps)"
proof (induction ps arbitrary: s)
  case Nil
  then show ?case by simp
next
  case (Cons p ps)
  have keep: "contains marker t \<Longrightarrow> contains marker (foldl (\<lambda>t p. sub_pattern p marker None t) t qs)" for t qs
  proof (induction qs arbitrary: t)
    case Nil
    then show ?case by simp
  next
    case (Cons q qs)
    have "contains marker (sub_pattern q marker None t)"
      using Cons.prems sub_match [of q None t marker] sub_no_match [of q None t marker]
      by (cases "has_match q None t") auto
    with Cons.IH show ?case by simp
  qed
  show ?case
  proof (cases "has_match p None s")
    case True
    with keep [OF sub_match [OF True]] show ?thesis by simp
  next
    case False
    with Cons.IH [of s] show ?thesis by (simp add: sub_no_match)
  qed
qed

lemma scrub_text_no_match: "\<not> any_match s \<Longrightarrow> scrub_text s = s"
proof -
  assume no: "\<not> any_match s"
  have "(\<forall>p \<in> set ps. \<not> has_match p None s) \<Longrightarrow> foldl (\<lambda>t p. sub_pattern p secret_redacted None t) s ps = s" for ps
    by (induction ps) (simp_all add: sub_no_match)
  with no show ?thesis by (auto simp: any_match_def scrub_text_def list_ex_iff)
qed

lemma scrub_text_match: "any_match s \<Longrightarrow> contains secret_redacted (scrub_text s)"
  using scrub_fold [of secret_value_patterns s secret_redacted]
  by (auto simp: any_match_def scrub_text_def list_ex_iff)

text \<open>A match of a pattern spells out the pattern's literal parts.\<close>

lemma match_lit: "match_at (lit l @ q) prev s \<noteq> None \<Longrightarrow> startswith s l"
proof (induction l arbitrary: prev s)
  case Nil
  then show ?case by simp
next
  case (Cons c l)
  then show ?case
    by (cases s) (auto simp: lit_def chr_item_def in_ranges_def split: if_splits)
qed

lemma first_some_Some: "first_some f xs = Some y \<Longrightarrow> \<exists>x \<in> set xs. f x = Some y"
  by (induction xs) (auto split: option.splits)

lemma match_suffix:
  "match_at (a @ q) prev s \<noteq> None \<Longrightarrow> \<exists>k prev'. match_at q prev' (drop k s) \<noteq> None"
proof (induction a arbitrary: prev s)
  case Nil
  then show ?case by (metis append_Nil drop0)
next
  case (Cons i a)
  show ?case
  proof (cases i)
    case Bound
    with Cons show ?thesis by (auto split: if_splits)
  next
    case (One c)
    then obtain x xs where s: "s = x # xs"
      and m: "match_at (a @ q) (Some x) xs \<noteq> None"
      using Cons.prems by (cases s) (auto split: if_splits)
    from Cons.IH [OF m] obtain k prev' where "match_at q prev' (drop (Suc k) s) \<noteq> None"
      by (auto simp: s)
    then show ?thesis by blast
  next
    case (Rep c lo hi g)
    obtain k where m: "match_at (a @ q) (prev_of prev s k) (drop k s) \<noteq> None"
      using Cons.prems Rep by (auto dest!: first_some_Some)
    from Cons.IH [OF m] obtain j prev' where "match_at q prev' (drop (j + k) s) \<noteq> None"
      by (auto simp: add.commute)
    then show ?thesis by blast
  qed
qed

lemma contains_drop: "contains m (drop k s) \<Longrightarrow> contains m s"
  using contains_append(2) [of m "drop k s" "take k s"] by simp

lemma startswith_contains: "startswith s l \<Longrightarrow> contains l s"
  by (auto simp: startswith_iff contains_self)

lemma has_match_lit:
  "has_match p prev s \<Longrightarrow> p = a @ lit l @ q \<Longrightarrow> contains l s"
proof (induction s arbitrary: prev)
  case Nil
  then show ?case by simp
next
  case (Cons x xs)
  show ?case
  proof (cases "match_at p prev (x # xs)")
    case None
    with Cons show ?thesis by (auto intro: contains_Cons)
  next
    case (Some n)
    then have "match_at (a @ lit l @ q) prev (x # xs) \<noteq> None" using Cons.prems(2) by simp
    from match_suffix [OF this] obtain k prev' where
      "match_at (lit l @ q) prev' (drop k (x # xs)) \<noteq> None" by blast
    from startswith_contains [OF match_lit [OF this]] show ?thesis by (rule contains_drop)
  qed
qed

lemma match_ci_Cons:
  "match_at (ci c # r) prev s \<noteq> None \<longleftrightarrow>
   (\<exists>x xs. s = x # xs \<and> in_ranges [(of_char c, of_char c), (of_char c - 32, of_char c - 32)] x \<and>
      match_at r (Some x) xs \<noteq> None)"
  by (cases s) (simp_all add: ci_def)

lemma match_ci:
  "match_at (map ci l @ q) prev s \<noteq> None \<Longrightarrow> \<forall>c \<in> set l. 97 \<le> (of_char c :: nat) \<and> of_char c \<le> (122 :: nat) \<Longrightarrow>
   startswith (lower s) l"
proof (induction l arbitrary: prev s)
  case Nil
  then show ?case by simp
next
  case (Cons c l)
  then obtain x xs where s: "s = x # xs"
    and x: "in_ranges [(of_char c, of_char c), (of_char c - 32, of_char c - 32)] x"
    and m: "match_at (map ci l @ q) (Some x) xs \<noteq> None"
    using match_ci_Cons [of c "map ci l @ q" prev s] by auto
  have "lower_char x = c"
  proof -
    have "of_char x = (of_char c :: nat) \<or> of_char x = (of_char c :: nat) - 32"
      using x by (auto simp: in_ranges_def)
    then have "(of_char (lower_char x) :: nat) = of_char c"
      using Cons.prems(2) by (auto simp: lower_char_def Let_def)
    then show ?thesis by simp
  qed
  with Cons.IH [OF m] Cons.prems(2) s show ?case by (simp add: lower_def)
qed

lemma has_match_bearer: "has_match bearer_pattern prev s \<Longrightarrow> contains ''bearer'' (lower s)"
proof (induction s arbitrary: prev)
  case Nil
  then show ?case by simp
next
  case (Cons x xs)
  show ?case
  proof (cases "match_at bearer_pattern prev (x # xs)")
    case None
    with Cons show ?thesis by (auto simp: lower_def intro: contains_Cons)
  next
    case (Some n)
    then have "match_at ([Bound] @ map ci ''bearer'' @ drop 7 bearer_pattern) prev (x # xs) \<noteq> None"
      by (simp add: bearer_pattern_def)
    from match_suffix [OF this] obtain k prev' where
      m: "match_at (map ci ''bearer'' @ drop 7 bearer_pattern) prev' (drop k (x # xs)) \<noteq> None" by blast
    have "startswith (lower (drop k (x # xs))) ''bearer''"
      by (rule match_ci [OF m]) simp
    from startswith_contains [OF this] have "contains ''bearer'' (drop k (lower (x # xs)))"
      by (simp only: lower_def drop_map)
    then show ?thesis by (rule contains_drop)
  qed
qed

text \<open>The literal anchors, one of which every secret shape contains.\<close>

definition anchors :: "string list" where
  "anchors = [''-----BEGIN '', ''://'', ''sk-'', ''AKIA'', ''gh'', ''xox'', ''eyJ'']"

lemma no_anchor_no_match:
  assumes "\<forall>a \<in> set anchors. \<not> contains a s" and "\<not> contains ''bearer'' (lower s)"
  shows "\<not> any_match s"
proof -
  note no = assms(1) [unfolded anchors_def]
  have "\<not> has_match pem_pattern None s"
    using no has_match_lit [of pem_pattern None s "[]" "''-----BEGIN ''"] by (auto simp: pem_pattern_def)
  moreover have "\<not> has_match url_pattern None s"
    using no has_match_lit [of url_pattern None s "take 3 url_pattern" "''://''"]
    by (auto simp: url_pattern_def)
  moreover have "\<not> has_match bearer_pattern None s"
    using assms(2) has_match_bearer by blast
  moreover have "\<not> has_match sk_pattern None s"
    using no has_match_lit [of sk_pattern None s "[Bound]" "''sk-''"] by (auto simp: sk_pattern_def)
  moreover have "\<not> has_match akia_pattern None s"
    using no has_match_lit [of akia_pattern None s "[Bound]" "''AKIA''"] by (auto simp: akia_pattern_def)
  moreover have "\<not> has_match gh_pattern None s"
    using no has_match_lit [of gh_pattern None s "[Bound]" "''gh''"] by (auto simp: gh_pattern_def)
  moreover have "\<not> has_match xox_pattern None s"
    using no has_match_lit [of xox_pattern None s "[Bound]" "''xox''"] by (auto simp: xox_pattern_def)
  moreover have "\<not> has_match jwt_pattern None s"
    using no has_match_lit [of jwt_pattern None s "[Bound]" "''eyJ''"] by (auto simp: jwt_pattern_def)
  ultimately show ?thesis by (simp add: any_match_def secret_value_patterns_def)
qed

end
