(* ===== verification/Scrub_Tokens.thy ===== *)
theory Scrub_Tokens
  imports Secrets
begin

text \<open>
  What the redaction of \<open>core/services/egress.py\<close> leaves behind: in the scrubbed text no token of the five
  shapes that are delimited by word boundaries (\<open>sk-\<close> keys, AWS, GitHub and Slack tokens, JWTs) can be
  found any more, although each of the eight substitutions changes the text the others look at.
\<close>

section \<open>Where a pattern can match\<close>

definition can :: "pattern \<Rightarrow> char option \<Rightarrow> string \<Rightarrow> bool" where
  "can p prev s \<longleftrightarrow> match_at p prev s \<noteq> None"

lemma first_some_None: "first_some f xs = None \<longleftrightarrow> (\<forall>x \<in> set xs. f x = None)"
  by (induction xs) (auto split: option.splits)

definition in_count :: "cls \<Rightarrow> nat \<Rightarrow> nat option \<Rightarrow> string \<Rightarrow> nat \<Rightarrow> bool" where
  "in_count c lo hi s k \<longleftrightarrow> lo \<le> k \<and> k \<le> length (takeWhile (in_cls c) s) \<and> (\<forall>h. hi = Some h \<longrightarrow> k \<le> h)"

lemma counts_set: "k \<in> set (counts c lo hi greedy s) \<longleftrightarrow> in_count c lo hi s k"
  by (auto simp: counts_def in_count_def Let_def split: option.splits)

lemma can_simps:
  "can [] prev s"
  "can (Bound # r) prev s \<longleftrightarrow> boundary prev s \<and> can r prev s"
  "can (One c # r) prev s \<longleftrightarrow> (\<exists>x xs. s = x # xs \<and> in_cls c x \<and> can r (Some x) xs)"
  "can (Rep c lo hi g # r) prev s \<longleftrightarrow> (\<exists>k. in_count c lo hi s k \<and> can r (prev_of prev s k) (drop k s))"
proof -
  show "can (One c # r) prev s \<longleftrightarrow> (\<exists>x xs. s = x # xs \<and> in_cls c x \<and> can r (Some x) xs)"
    by (cases s) (auto simp: can_def)
  show "can (Rep c lo hi g # r) prev s \<longleftrightarrow> (\<exists>k. in_count c lo hi s k \<and> can r (prev_of prev s k) (drop k s))"
    by (auto simp: can_def first_some_None counts_set Bex_def)
qed (auto simp: can_def)

text \<open>The character before the end of a stretch.\<close>

definition before_end :: "char option \<Rightarrow> string \<Rightarrow> char option" where
  "before_end prev a = (if a = [] then prev else Some (last a))"

lemma before_end_simps [simp]:
  "before_end prev [] = prev" "before_end prev (x # a) = before_end (Some x) a"
  by (simp_all add: before_end_def)

section \<open>Patterns within one stretch\<close>

text \<open>No class of the pattern has an opening bracket, with which every mask begins.\<close>

fun no_bracket :: "pattern \<Rightarrow> bool" where
  "no_bracket [] = True"
| "no_bracket (Bound # r) = no_bracket r"
| "no_bracket (One c # r) = (\<not> in_cls c CHR ''['' \<and> no_bracket r)"
| "no_bracket (Rep c lo hi g # r) = (\<not> in_cls c CHR ''['' \<and> no_bracket r)"

definition stops_at_bracket :: "string \<Rightarrow> bool" where
  "stops_at_bracket x \<longleftrightarrow> x = [] \<or> hd x = CHR ''[''"

lemma run_within:
  "\<not> in_cls c CHR ''['' \<Longrightarrow> stops_at_bracket x \<Longrightarrow> takeWhile (in_cls c) (a @ x) = takeWhile (in_cls c) a"
  by (induction a) (cases x; auto simp: stops_at_bracket_def)+

lemma run_longer: "length (takeWhile (in_cls c) a) \<le> length (takeWhile (in_cls c) (a @ y))"
  by (induction a) auto

lemma before_end_drop:
  "k \<le> length a \<Longrightarrow> before_end (prev_of prev (a @ y) k) (drop k a) = before_end prev a"
  by (cases "k = length a") (auto simp: before_end_def prev_of_def nth_append last_conv_nth)

text \<open>
  What matches in a stretch that ends before a mask also matches when the stretch goes on, provided there
  is a word boundary where it ended.
\<close>

lemma can_extends:
  "no_bracket p \<Longrightarrow> can p prev (a @ x) \<Longrightarrow> stops_at_bracket x \<Longrightarrow> boundary (before_end prev a) y \<Longrightarrow> can p prev (a @ y)"
proof (induction p arbitrary: prev a)
  case Nil
  then show ?case by (simp add: can_simps)
next
  case (Cons i p)
  show ?case
  proof (cases i)
    case Bound
    with Cons.prems have "boundary prev (a @ y)" by (cases a) (auto simp: boundary_def can_simps)
    with Bound Cons show ?thesis by (simp add: can_simps)
  next
    case (One c)
    with Cons.prems obtain z zs where z: "a @ x = z # zs" "in_cls c z" "can p (Some z) zs" by (auto simp: can_simps)
    with One Cons.prems(1,3) obtain b where a: "a = z # b" "zs = b @ x"
      by (cases a) (auto simp: stops_at_bracket_def)
    with Cons.IH [of "Some z" b] Cons.prems One z have "can p (Some z) (b @ y)" by simp
    with One a z show ?thesis by (simp add: can_simps)
  next
    case (Rep c lo hi g)
    with Cons.prems obtain k where k: "in_count c lo hi (a @ x) k" "can p (prev_of prev (a @ x) k) (drop k (a @ x))"
      by (auto simp: can_simps)
    have within: "k \<le> length (takeWhile (in_cls c) a)"
      using k(1) Rep Cons.prems(1,3) by (auto simp: in_count_def run_within)
    then have le: "k \<le> length a" using length_takeWhile_le [of "in_cls c" a] by linarith
    have prev: "prev_of prev (a @ x) k = prev_of prev (a @ y) k" using le by (auto simp: prev_of_def nth_append)
    have "can p (prev_of prev (a @ y) k) (drop k a @ y)"
      using Cons.IH [of "prev_of prev (a @ y) k" "drop k a"] Cons.prems Rep k(2) le prev
      by (simp add: before_end_drop)
    moreover have "in_count c lo hi (a @ y) k"
      using k(1) within run_longer [of c a y] by (auto simp: in_count_def)
    ultimately show ?thesis using Rep le by (auto simp: can_simps)
  qed
qed

section \<open>Substitution\<close>

text \<open>The pattern starts and ends at a word boundary.\<close>

definition bounded :: "pattern \<Rightarrow> bool" where
  "bounded p \<longleftrightarrow> (\<exists>c r. p = Bound # One c # r @ [Bound])"

lemma match_ends: "match_at (p @ [Bound]) prev s = Some n \<Longrightarrow> n \<le> length s \<and> boundary (prev_of prev s n) (drop n s)"
proof (induction p arbitrary: prev s n)
  case Nil
  then show ?case by (auto simp: prev_of_def split: if_splits)
next
  case (Cons i p)
  show ?case
  proof (cases i)
    case Bound
    with Cons show ?thesis by (auto split: if_splits)
  next
    case (One c)
    with Cons.prems obtain x xs m where s: "s = x # xs" "n = Suc m" "match_at (p @ [Bound]) (Some x) xs = Some m"
      by (cases s) (auto split: if_splits)
    with Cons.IH [OF s(3)] show ?thesis by (cases m) (auto simp: prev_of_def)
  next
    case (Rep c lo hi g)
    with Cons.prems obtain k m where k: "in_count c lo hi s k" "match_at (p @ [Bound]) (prev_of prev s k) (drop k s) = Some m"
      "n = k + m"
      by (auto dest!: first_some_Some simp: counts_set)
    have "k \<le> length s" using k(1) length_takeWhile_le [of "in_cls c" s] by (simp add: in_count_def)
    then have "prev_of (prev_of prev s k) (drop k s) m = prev_of prev s (k + m)"
      by (auto simp: prev_of_def)
    with Cons.IH [OF k(2)] k(3) \<open>k \<le> length s\<close> show ?thesis by (auto simp: add.commute)
  qed
qed

lemma bounded_match:
  assumes "bounded p" "match_at p prev s = Some n"
  shows "boundary prev s" "0 < n" "n \<le> length s" "boundary (prev_of prev s n) (drop n s)"
proof -
  from assms(1) obtain c r where p: "p = Bound # One c # r @ [Bound]" by (auto simp: bounded_def)
  with assms(2) show "boundary prev s" by (auto split: if_splits)
  from p assms(2) show "0 < n" by (cases s) (auto split: if_splits)
  have "match_at ((Bound # One c # r) @ [Bound]) prev s = Some n" using p assms(2) by simp
  from match_ends [OF this] show "n \<le> length s" "boundary (prev_of prev s n) (drop n s)" by simp_all
qed

text \<open>A substituted text is the text itself up to the first mask, which stands at a word boundary.\<close>

lemma redacted_hd: "stops_at_bracket (secret_redacted @ r)"
  by (simp add: stops_at_bracket_def secret_redacted_def)

lemma sub_stretch:
  "bounded q \<Longrightarrow> \<exists>a x y. s = a @ y \<and> sub_pattern q secret_redacted prev s = a @ x \<and> stops_at_bracket x \<and>
    (x = [] \<and> y = [] \<or> boundary (before_end prev a) y)"
proof (induction s arbitrary: prev)
  case Nil
  then show ?case by (simp add: stops_at_bracket_def)
next
  case (Cons z zs)
  show ?case
  proof (cases "match_at q prev (z # zs)")
    case (Some n)
    with bounded_match(2) [OF Cons.prems] obtain k where k: "n = Suc k" by (cases n) auto
    let ?x = "sub_pattern q secret_redacted prev (z # zs)"
    have x: "?x = secret_redacted @ sub_pattern q secret_redacted (Some ((z # zs) ! k)) (drop k zs)"
      using Some k by simp
    have "stops_at_bracket ?x" unfolding x by (rule redacted_hd)
    with bounded_match(1) [OF Cons.prems Some] show ?thesis
      by (intro exI [of _ "[]"] exI [of _ ?x] exI [of _ "z # zs"]) (simp add: before_end_def)
  next
    case None
    from Cons.IH [OF Cons.prems, of "Some z"] obtain a x y where a: "zs = a @ y"
      "sub_pattern q secret_redacted (Some z) zs = a @ x" "stops_at_bracket x"
      "x = [] \<and> y = [] \<or> boundary (before_end (Some z) a) y" by blast
    with None show ?thesis
      by (intro exI [of _ "z # a"] exI [of _ x] exI [of _ y]) simp
  qed
qed

lemma has_match_step: "bounded p \<Longrightarrow> has_match p prev (x # xs) \<longleftrightarrow> can p prev (x # xs) \<or> has_match p (Some x) xs"
  using bounded_match(2) [of p prev "x # xs"] by (auto simp: can_def split: option.splits nat.splits)

lemma can_from: "bounded p \<Longrightarrow> can p prevt s \<Longrightarrow> boundary prev s \<Longrightarrow> can p prev s"
  by (auto simp: bounded_def can_simps)

lemma can_boundary: "bounded p \<Longrightarrow> can p prev s \<Longrightarrow> boundary prev s"
  by (auto simp: bounded_def can_simps)

lemma has_match_drop: "bounded p \<Longrightarrow> has_match p (Some ((x # xs) ! k)) (drop k xs) \<Longrightarrow> k < length (x # xs) \<Longrightarrow> has_match p prev (x # xs)"
proof (induction k arbitrary: prev x xs)
  case 0
  then show ?case by (simp add: has_match_step)
next
  case (Suc k)
  then obtain y ys where "xs = y # ys" by (cases xs) auto
  with Suc show ?case by (simp only: has_match_step) simp
qed

text \<open>No token starts inside a mask.\<close>

definition skips_mask :: "pattern \<Rightarrow> bool" where
  "skips_mask p \<longleftrightarrow> (\<forall>prev r. has_match p prev (secret_redacted @ r) = has_match p (Some CHR '']'') r)"

definition token_like :: "pattern \<Rightarrow> bool" where
  "token_like p \<longleftrightarrow> bounded p \<and> no_bracket p \<and> skips_mask p"

lemma sub_keeps_out:
  assumes p: "token_like p" and q: "bounded q"
  shows "q = p \<or> \<not> has_match p prev s \<Longrightarrow> prevt = prev \<or> prevt = Some CHR '']'' \<and> boundary prev s \<Longrightarrow>
    \<not> has_match p prevt (sub_pattern q secret_redacted prev s)"
proof (induction "length s" arbitrary: s prev prevt rule: less_induct)
  case less
  have bp: "bounded p" using p by (simp add: token_like_def)
  show ?case
  proof (cases s)
    case Nil
    then show ?thesis by simp
  next
    case (Cons z zs)
    show ?thesis
    proof (cases "match_at q prev (z # zs)")
      case (Some n)
      with bounded_match(2) [OF q] obtain k where k: "n = Suc k" by (cases n) auto
      note m = bounded_match(3,4) [OF q Some]
      have b: "boundary (Some ((z # zs) ! k)) (drop k zs)" using m(2) k by (simp add: prev_of_def)
      have rest: "q = p \<or> \<not> has_match p (Some ((z # zs) ! k)) (drop k zs)"
        using less.prems(1) Cons has_match_drop [OF bp, of z zs k prev] m(1) k by auto
      have "\<not> has_match p (Some CHR '']'') (sub_pattern q secret_redacted (Some ((z # zs) ! k)) (drop k zs))"
        using less.hyps [OF _ rest] b Cons by simp
      with Some k Cons p show ?thesis by (simp add: token_like_def skips_mask_def)
    next
      case None
      obtain a x y where a: "zs = a @ y" "sub_pattern q secret_redacted (Some z) zs = a @ x" "stops_at_bracket x"
        "x = [] \<and> y = [] \<or> boundary (before_end (Some z) a) y" using sub_stretch [OF q] by blast
      have out: "\<not> can p prev (z # zs)"
        using less.prems(1) None Cons has_match_step [OF bp] by (auto simp: can_def simp del: has_match.simps)
      have "\<not> can p prevt (z # sub_pattern q secret_redacted (Some z) zs)"
      proof
        assume c: "can p prevt (z # sub_pattern q secret_redacted (Some z) zs)"
        have "can p prevt (z # zs)"
        proof (cases "x = [] \<and> y = []")
          case True
          with a c show ?thesis by simp
        next
          case False
          with a(4) have "boundary (before_end prevt (z # a)) y" by simp
          with can_extends [of p prevt "z # a" x y] p c a show ?thesis by (simp add: token_like_def)
        qed
        with can_from [OF bp] less.prems(2) Cons out show False by auto
      qed
      moreover have "\<not> has_match p (Some z) (sub_pattern q secret_redacted (Some z) zs)"
        using less.hyps [of zs "Some z" "Some z"] less.prems(1) Cons has_match_step [OF bp] by (auto simp del: has_match.simps)
      ultimately show ?thesis using None Cons has_match_step [OF bp] by (auto simp del: has_match.simps)
    qed
  qed
qed

section \<open>The five token shapes\<close>

definition token_patterns :: "pattern list" where
  "token_patterns = [sk_pattern, akia_pattern, gh_pattern, xox_pattern, jwt_pattern]"

lemmas pattern_defs = sk_pattern_def akia_pattern_def gh_pattern_def xox_pattern_def jwt_pattern_def
  lit_def chr_item_def plus_def b64url_def az_def AZ_def d09_def chr_def in_ranges_def

lemma token_bounded: "p \<in> set token_patterns \<Longrightarrow> bounded p"
  by (auto simp: token_patterns_def pattern_defs bounded_def)

lemma token_no_bracket: "p \<in> set token_patterns \<Longrightarrow> no_bracket p"
  by (auto simp: token_patterns_def pattern_defs)

lemma can_pair: "can (Bound # One c # One d # r) prev (x # s) \<Longrightarrow> in_cls c x \<and> (\<exists>y ys. s = y # ys \<and> in_cls d y)"
  by (cases s) (auto simp: can_simps)

fun no_pair :: "cls \<Rightarrow> cls \<Rightarrow> string \<Rightarrow> bool" where
  "no_pair c d [] = True"
| "no_pair c d [x] = (\<not> in_cls c x)"
| "no_pair c d (x # y # s) = (\<not> (in_cls c x \<and> in_cls d y) \<and> no_pair c d (y # s))"

lemma no_pair_quiet:
  "p = Bound # One c # One d # r \<Longrightarrow> bounded p \<Longrightarrow> no_pair c d (a @ [z]) \<Longrightarrow>
    has_match p prev (a @ z # w) = has_match p (Some z) w"
proof (induction a arbitrary: prev)
  case Nil
  have "\<not> can p prev (z # w)" using Nil can_pair [of c d r prev z w] by auto
  with Nil show ?case by (simp add: has_match_step del: has_match.simps)
next
  case (Cons x a)
  have "\<not> can p prev (x # a @ z # w)"
    using Cons.prems can_pair [of c d r prev x "a @ z # w"] by (cases a) auto
  moreover have "no_pair c d (a @ [z])" using Cons.prems(3) by (cases a) auto
  ultimately show ?case using Cons by (simp add: has_match_step del: has_match.simps)
qed

lemma redacted_split: "secret_redacted @ r = ''[redacted:secret'' @ CHR '']'' # r"
  by (simp add: secret_redacted_def)

lemma token_skips:
  assumes "p \<in> set token_patterns"
  shows "skips_mask p"
proof -
  obtain c d r where p: "p = Bound # One c # One d # r" "no_pair c d (''[redacted:secret'' @ [CHR '']''])"
    using assms by (auto simp: token_patterns_def pattern_defs)
  show ?thesis
    unfolding skips_mask_def redacted_split
    by (intro allI no_pair_quiet [OF p(1) token_bounded [OF assms] p(2)])
qed

lemma token_like: "p \<in> set token_patterns \<Longrightarrow> token_like p"
  by (simp add: token_like_def token_bounded token_no_bracket token_skips)

lemma sub_tokens_out:
  "q \<in> set token_patterns \<Longrightarrow> p \<in> set token_patterns \<Longrightarrow> q = p \<or> \<not> has_match p None s \<Longrightarrow>
    \<not> has_match p None (sub_pattern q secret_redacted None s)"
  by (rule sub_keeps_out [OF token_like token_bounded]) simp_all

text \<open>After all the substitutions none of the five token shapes is left.\<close>

lemma tokens_gone:
  "set ps \<subseteq> set token_patterns \<Longrightarrow> p \<in> set token_patterns \<Longrightarrow> p \<in> set ps \<or> \<not> has_match p None s \<Longrightarrow>
    \<not> has_match p None (foldl (\<lambda>t q. sub_pattern q secret_redacted None t) s ps)"
proof (induction ps arbitrary: s)
  case Nil
  then show ?case by simp
next
  case (Cons q ps)
  have "p \<in> set ps \<or> \<not> has_match p None (sub_pattern q secret_redacted None s)"
    using Cons.prems sub_tokens_out [of q p s] by (cases "p \<in> set ps") auto
  with Cons show ?case by simp
qed

lemma pattern_split: "secret_value_patterns = [pem_pattern, url_pattern, bearer_pattern] @ token_patterns"
  by (simp add: secret_value_patterns_def token_patterns_def)

lemma scrub_leaves_no_token: "p \<in> set token_patterns \<Longrightarrow> \<not> has_match p None (scrub_text s)"
  unfolding scrub_text_def pattern_split foldl_append by (rule tokens_gone) simp_all

text \<open>
  What a text becomes on its way out: one in which no secret shape matches goes out as it is; any other goes
  out with the mask in it; and in what goes out no token can be found.
\<close>

definition masked_text :: "string \<Rightarrow> string \<Rightarrow> bool" where
  "masked_text s t \<longleftrightarrow> (if any_match s then contains secret_redacted t else t = s) \<and>
     list_all (\<lambda>p. \<not> has_match p None t) token_patterns"

lemma scrub_masks: "masked_text s (scrub_text s)"
  using scrub_text_match [of s] scrub_text_no_match [of s] scrub_leaves_no_token
  by (auto simp: masked_text_def list_all_iff)

end
