(* ===== verification/Models.thy ===== *)
theory Models
  imports PyText
begin

text \<open>
  The data of \<open>core/src/brokerops_core/models\<close>: one datatype per \<open>StrEnum\<close> with its wire
  values, one record per Pydantic model (fields in the source's order, prefixed with the
  model's short name because Isabelle record fields share one name space), and the rules the
  models carry themselves: the role order, the send-lifecycle ranks, the semantic identity of
  a message and the boundary check of an edited payload. \<open>pyv\<close> is the JSON-shaped data of
  the \<open>dict[str, Any]\<close> fields; an instant is an integer number of microseconds.
\<close>

section \<open>Open data\<close>

datatype pyv =
    PNone
  | PBool bool
  | PInt int
  | PStr string
  | PList "pyv list"
  | PDict "(string \<times> pyv) list"

type_synonym pydict = "(string \<times> pyv) list"
type_synonym instant = int

definition opt_str :: "string option \<Rightarrow> pyv" where
  "opt_str s = (case s of None \<Rightarrow> PNone | Some x \<Rightarrow> PStr x)"

text \<open>\<open>str(v)\<close> and truth of open data.\<close>

fun py_str :: "pyv \<Rightarrow> string" and py_repr_v :: "pyv \<Rightarrow> string" where
  "py_str (PStr s) = s"
| "py_str v = py_repr_v v"
| "py_repr_v PNone = ''None''"
| "py_repr_v (PBool b) = (if b then ''True'' else ''False'')"
| "py_repr_v (PInt i) = show_int i"
| "py_repr_v (PStr s) = py_repr s"
| "py_repr_v (PList xs) = ''['' @ join '', '' (map py_repr_v xs) @ '']''"
| "py_repr_v (PDict d) = ''{'' @ join '', '' (map (\<lambda>(k, v). py_repr k @ '': '' @ py_repr_v v) d) @ ''}''"

fun truthy :: "pyv \<Rightarrow> bool" where
  "truthy PNone = False"
| "truthy (PBool b) = b"
| "truthy (PInt i) = (i \<noteq> 0)"
| "truthy (PStr s) = (s \<noteq> [])"
| "truthy (PList xs) = (xs \<noteq> [])"
| "truthy (PDict d) = (d \<noteq> [])"

section \<open>Roles\<close>

datatype role = Viewer | Operator | Admin

fun role_rank :: "role \<Rightarrow> nat" where
  "role_rank Viewer = 0"
| "role_rank Operator = 1"
| "role_rank Admin = 2"

definition role_allows :: "role \<Rightarrow> role \<Rightarrow> bool" where
  "role_allows r required \<longleftrightarrow> role_rank r \<ge> role_rank required"

fun role_value :: "role \<Rightarrow> string" where
  "role_value Viewer = ''viewer''"
| "role_value Operator = ''operator''"
| "role_value Admin = ''admin''"

text \<open>\<open>Role(value)\<close>: the member with that value, \<open>None\<close> for the \<open>ValueError\<close>.\<close>

definition role_of :: "string \<Rightarrow> role option" where
  "role_of v =
     (if v = ''viewer'' then Some Viewer else if v = ''operator'' then Some Operator
      else if v = ''admin'' then Some Admin else None)"

instantiation role :: linorder
begin

definition less_eq_role :: "role \<Rightarrow> role \<Rightarrow> bool" where
  "less_eq_role a b \<longleftrightarrow> role_rank a \<le> role_rank b"

definition less_role :: "role \<Rightarrow> role \<Rightarrow> bool" where
  "less_role a b \<longleftrightarrow> role_rank a < role_rank b"

instance
proof
  fix a b :: role
  show "a \<le> b \<Longrightarrow> b \<le> a \<Longrightarrow> a = b"
    by (cases a; cases b) (simp_all add: less_eq_role_def)
qed (auto simp: less_eq_role_def less_role_def)

end

lemma role_allows_le: "role_allows r required \<longleftrightarrow> required \<le> r"
  by (simp add: role_allows_def less_eq_role_def)

lemma role_of_value [simp]: "role_of (role_value r) = Some r"
  by (cases r) (simp_all add: role_of_def)

section \<open>Approvals\<close>

datatype approval_status = ApPending | ApApproved | ApRejected

fun approval_status_value :: "approval_status \<Rightarrow> string" where
  "approval_status_value ApPending = ''pending''"
| "approval_status_value ApApproved = ''approved''"
| "approval_status_value ApRejected = ''rejected''"

record approval_request =
  apr_tenant_id :: string
  apr_id :: string
  apr_workflow :: string
  apr_graph_thread_id :: string
  apr_kind :: string
  apr_payload :: "pydict option"
  apr_status :: approval_status
  apr_decided_by :: "string option"
  apr_created_at :: instant
  apr_decided_at :: "instant option"

record approval_decision =
  dec_decision :: approval_status
  dec_decided_by :: string
  dec_edited_payload :: "pydict option"

section \<open>Outbound messages\<close>

datatype message_channel = Email | Sms

fun channel_value :: "message_channel \<Rightarrow> string" where
  "channel_value Email = ''email''"
| "channel_value Sms = ''sms''"

datatype message_status = Drafted | PendingApproval | Sent | Delivered | Failed | Rejected

fun message_status_value :: "message_status \<Rightarrow> string" where
  "message_status_value Drafted = ''drafted''"
| "message_status_value PendingApproval = ''pending_approval''"
| "message_status_value Sent = ''sent''"
| "message_status_value Delivered = ''delivered''"
| "message_status_value Failed = ''failed''"
| "message_status_value Rejected = ''rejected''"

definition message_statuses :: "message_status list" where
  "message_statuses = [Drafted, PendingApproval, Sent, Delivered, Failed, Rejected]"

fun status_rank :: "message_status \<Rightarrow> nat" where
  "status_rank Drafted = 0"
| "status_rank PendingApproval = 1"
| "status_rank Sent = 2"
| "status_rank Delivered = 3"
| "status_rank Failed = 3"
| "status_rank Rejected = 3"

lemma message_statuses_all [simp]: "s \<in> set message_statuses"
  by (cases s) (simp_all add: message_statuses_def)

record message =
  msg_id :: string
  msg_tenant_id :: string
  msg_channel :: message_channel
  msg_recipient :: string
  msg_subject :: string
  msg_body :: string
  msg_template_ref :: string
  msg_contact_id :: string
  msg_listing_key :: string
  msg_transaction_id :: string
  msg_status :: message_status
  msg_provider_message_id :: string
  msg_created_at :: "instant option"
  msg_sent_at :: "instant option"

text \<open>The message without its \<open>VOLATILE_MESSAGE_FIELDS\<close>.\<close>

definition semantic_send_args :: "message \<Rightarrow> pydict" where
  "semantic_send_args m =
     [(''channel'', PStr (channel_value (msg_channel m))),
      (''recipient'', PStr (msg_recipient m)),
      (''subject'', PStr (msg_subject m)),
      (''body'', PStr (msg_body m)),
      (''template_ref'', PStr (msg_template_ref m)),
      (''contact_id'', PStr (msg_contact_id m)),
      (''listing_key'', PStr (msg_listing_key m)),
      (''transaction_id'', PStr (msg_transaction_id m))]"

lemma channel_value_inject [simp]: "channel_value a = channel_value b \<longleftrightarrow> a = b"
  by (cases a; cases b) simp_all

lemma semantic_send_args_eq_iff:
  "semantic_send_args m = semantic_send_args n \<longleftrightarrow>
     msg_channel m = msg_channel n \<and> msg_recipient m = msg_recipient n \<and>
     msg_subject m = msg_subject n \<and> msg_body m = msg_body n \<and>
     msg_template_ref m = msg_template_ref n \<and> msg_contact_id m = msg_contact_id n \<and>
     msg_listing_key m = msg_listing_key n \<and> msg_transaction_id m = msg_transaction_id n"
  by (auto simp: semantic_send_args_def)

section \<open>Drafting shapes\<close>

record draft_context =
  dctx_channel :: message_channel
  dctx_recipient :: string
  dctx_template_ref :: string
  dctx_params :: "(string \<times> string) list"
  dctx_contact_id :: string
  dctx_listing_key :: string
  dctx_transaction_id :: string

text \<open>\<open>context.model_dump(mode="json")\<close>.\<close>

definition draft_context_json :: "draft_context \<Rightarrow> pydict" where
  "draft_context_json c =
     [(''channel'', PStr (channel_value (dctx_channel c))),
      (''recipient'', PStr (dctx_recipient c)),
      (''template_ref'', PStr (dctx_template_ref c)),
      (''params'', PDict (map (\<lambda>(k, v). (k, PStr v)) (dctx_params c))),
      (''contact_id'', PStr (dctx_contact_id c)),
      (''listing_key'', PStr (dctx_listing_key c)),
      (''transaction_id'', PStr (dctx_transaction_id c))]"

record drafted_message =
  dm_channel :: message_channel
  dm_recipient :: string
  dm_subject :: string
  dm_body :: string
  dm_template_ref :: string
  dm_contact_id :: string
  dm_listing_key :: string
  dm_transaction_id :: string

definition edited_body_max_chars :: nat where
  "edited_body_max_chars = 1000000"

text \<open>\<open>[\x00-\x08\x0b\x0c\x0e-\x1f\x7f]\<close>.\<close>

definition is_forbidden_control :: "char \<Rightarrow> bool" where
  "is_forbidden_control c \<longleftrightarrow>
     (let n = (of_char c :: nat)
      in n \<le> 8 \<or> n = 11 \<or> n = 12 \<or> (14 \<le> n \<and> n \<le> 31) \<or> n = 127)"

text \<open>
  \<open>EditedMessagePayload.model_validate\<close>: every key but \<open>body\<close> is refused, and a \<open>body\<close> is
  absent, null, or sendable text within the length ceiling. \<open>Inl\<close> is the
  \<open>ValidationError\<close> the route turns into a 422.
\<close>

definition edited_message_payload :: "pydict \<Rightarrow> exn + string option" where
  "edited_message_payload p =
     (if list_ex (\<lambda>(k, _). k \<noteq> ''body'') p then Inl (ValueError ''extra_forbidden'')
      else case dict_get p ''body'' of
        None \<Rightarrow> Inr None
      | Some PNone \<Rightarrow> Inr None
      | Some (PStr b) \<Rightarrow>
          if py_len b > edited_body_max_chars then Inl (ValueError ''string_too_long'')
          else if strip b = [] then Inl (ValueError ''edited body is blank'')
          else if list_ex is_forbidden_control b
            then Inl (ValueError ''edited body contains control characters'')
          else Inr (Some b)
      | Some _ \<Rightarrow> Inl (ValueError ''string_type''))"

section \<open>Documents and files\<close>

datatype document_kind =
    PurchaseAgreement | Disclosures | InspectionReport | AppraisalReport | LoanApproval
  | ClosingStatement | OtherDocument

record file_ref =
  fr_file_id :: string
  fr_name :: string
  fr_mime_type :: string
  fr_size_bytes :: "int option"
  fr_web_url :: string

record document =
  doc_tenant_id :: string
  doc_id :: string
  doc_transaction_id :: string
  doc_milestone_id :: "string option"
  doc_kind :: document_kind
  doc_title :: string
  doc_file :: file_ref
  doc_uploaded_by :: string
  doc_created_at :: instant

section \<open>Transactions and milestones\<close>

datatype transaction_stage =
    UnderContract | Contingencies | ClearToClose | Closed | Cancelled

definition active_stages :: "transaction_stage list" where
  "active_stages = [UnderContract, Contingencies, ClearToClose]"

record transaction_party =
  pty_role :: string
  pty_name :: string
  pty_contact_id :: "string option"
  pty_email :: string

record transaction =
  txn_tenant_id :: string
  txn_id :: string
  txn_listing_key :: string
  txn_stage :: transaction_stage
  txn_parties :: "transaction_party list"
  txn_contract_date :: date
  txn_close_date :: "date option"

definition txn_is_active :: "transaction \<Rightarrow> bool" where
  "txn_is_active t \<longleftrightarrow> txn_stage t \<in> set active_stages"

datatype milestone_type = Inspection | Appraisal | Financing | Closing | Custom

fun milestone_type_value :: "milestone_type \<Rightarrow> string" where
  "milestone_type_value Inspection = ''inspection''"
| "milestone_type_value Appraisal = ''appraisal''"
| "milestone_type_value Financing = ''financing''"
| "milestone_type_value Closing = ''closing''"
| "milestone_type_value Custom = ''custom''"

datatype milestone_status = MsPending | MsComplete | MsWaived

record milestone =
  ms_tenant_id :: string
  ms_id :: string
  ms_transaction_id :: string
  ms_type :: milestone_type
  ms_title :: string
  ms_due_date :: date
  ms_status :: milestone_status
  ms_owner :: string
  ms_escalation_level :: int
  ms_blocked_reason :: "string option"
  ms_expected_document :: "document_kind option"

datatype due_rule = AfterContract | BeforeClose

record milestone_template =
  mt_type :: milestone_type
  mt_title :: string
  mt_owner :: string
  mt_rule :: due_rule
  mt_days :: int
  mt_expected_document :: "document_kind option"

section \<open>Calls and feedback\<close>

datatype sentiment = Positive | Neutral | Negative

fun sentiment_value :: "sentiment \<Rightarrow> string" where
  "sentiment_value Positive = ''positive''"
| "sentiment_value Neutral = ''neutral''"
| "sentiment_value Negative = ''negative''"

datatype price_opinion = Overpriced | Fair | Underpriced

fun price_opinion_value :: "price_opinion \<Rightarrow> string" where
  "price_opinion_value Overpriced = ''overpriced''"
| "price_opinion_value Fair = ''fair''"
| "price_opinion_value Underpriced = ''underpriced''"

text \<open>The schema every extraction backend answers with, and its JSON dump.\<close>

record extracted_feedback =
  ef_sentiment :: sentiment
  ef_hot_signal :: bool
  ef_highlights :: "string list"
  ef_concerns :: "string list"
  ef_price_opinion :: "price_opinion option"
  ef_budget_min :: "int option"
  ef_budget_max :: "int option"
  ef_desired_features :: "string list"
  ef_summary :: string

definition opt_int :: "int option \<Rightarrow> pyv" where
  "opt_int i = (case i of None \<Rightarrow> PNone | Some n \<Rightarrow> PInt n)"

definition extracted_json :: "extracted_feedback \<Rightarrow> pydict" where
  "extracted_json e =
     [(''sentiment'', PStr (sentiment_value (ef_sentiment e))), (''hot_signal'', PBool (ef_hot_signal e)),
      (''highlights'', PList (map PStr (ef_highlights e))), (''concerns'', PList (map PStr (ef_concerns e))),
      (''price_opinion'', opt_str (map_option price_opinion_value (ef_price_opinion e))),
      (''budget_min'', opt_int (ef_budget_min e)), (''budget_max'', opt_int (ef_budget_max e)),
      (''desired_features'', PList (map PStr (ef_desired_features e))), (''summary'', PStr (ef_summary e))]"

datatype feedback_source = FromCall | FromForm

record call_record =
  cr_tenant_id :: string
  cr_vapi_call_id :: string
  cr_contact_id :: string
  cr_listing_key :: string
  cr_transcript :: string
  cr_outcome :: string
  cr_extracted :: pydict
  cr_created_at :: "instant option"

record showing_feedback =
  fb_tenant_id :: string
  fb_id :: string
  fb_listing_key :: string
  fb_contact_id :: string
  fb_call_id :: "string option"
  fb_source :: feedback_source
  fb_sentiment :: sentiment
  fb_structured_answers :: pydict
  fb_created_at :: "instant option"

section \<open>Contacts, listings, marketing\<close>

record contact =
  ct_crm_id :: string
  ct_name :: string
  ct_role :: string
  ct_email :: "string option"
  ct_phone :: "string option"

record contact_create =
  cc_first_name :: string
  cc_last_name :: string
  cc_email :: "string option"
  cc_phone :: "string option"
  cc_source :: string

text \<open>\<open>draft.model_dump(mode="json")\<close>.\<close>

definition contact_create_json :: "contact_create \<Rightarrow> pydict" where
  "contact_create_json d =
     [(''first_name'', PStr (cc_first_name d)), (''last_name'', PStr (cc_last_name d)),
      (''email'', opt_str (cc_email d)), (''phone'', opt_str (cc_phone d)),
      (''source'', PStr (cc_source d))]"

record crm_task =
  tk_id :: string
  tk_name :: string
  tk_due_date :: "date option"
  tk_contact_id :: "string option"

datatype listing_status = LsActive | LsPending | LsClosed

record listing_media =
  lm_media_key :: string
  lm_listing_key :: string
  lm_url :: string
  lm_order :: int
  lm_description :: string

record listing =
  li_mls_id :: string
  li_status :: listing_status
  li_address :: string
  li_city :: string
  li_state :: string
  li_postal_code :: string
  li_list_price :: "int option"
  li_bedrooms :: "int option"
  li_bathrooms :: "int option"
  li_living_area_sqft :: "int option"
  li_year_built :: "int option"
  li_agent_id :: string
  li_agent_name :: string
  li_remarks :: string
  li_modified_at :: instant
  li_media :: "listing_media list"

record listing_query =
  lq_status :: "listing_status option"
  lq_city :: "string option"
  lq_min_price :: "int option"
  lq_max_price :: "int option"
  lq_min_bedrooms :: "int option"
  lq_limit :: int

record marketing_draft =
  md_listing_key :: string
  md_headline :: string
  md_body :: string
  md_channels :: "string list"

section \<open>The audit ledger and idempotency claims\<close>

datatype mutation_outcome = Success | Failure

record mutation_record =
  mut_id :: string
  mut_workflow_run_id :: string
  mut_workflow :: string
  mut_transaction_id :: string
  mut_tool :: string
  mut_integration :: string
  mut_args :: "pydict option"
  mut_approval_id :: "string option"
  mut_actor :: "string option"
  mut_outcome :: mutation_outcome
  mut_external_id :: "string option"
  mut_error :: "string option"
  mut_created_at :: instant

datatype claim_status = ClaimNew | ClaimPending | ClaimCompleted

record idempotency_claim =
  cl_status :: claim_status
  cl_result :: "string option"

section \<open>Workflow state\<close>

datatype workflow_stage = StIntake | StNotFound | StNotEligible | StDrafted | StPublished | StRejected

fun workflow_stage_value :: "workflow_stage \<Rightarrow> string" where
  "workflow_stage_value StIntake = ''intake''"
| "workflow_stage_value StNotFound = ''not_found''"
| "workflow_stage_value StNotEligible = ''not_eligible''"
| "workflow_stage_value StDrafted = ''drafted''"
| "workflow_stage_value StPublished = ''published''"
| "workflow_stage_value StRejected = ''rejected''"

record approval_outcome =
  ao_decision :: approval_status
  ao_decided_by :: string

record listing_state =
  ls_listing_key :: string
  ls_stage :: workflow_stage
  ls_draft :: "marketing_draft option"
  ls_approval :: "approval_outcome option"
  ls_planned_tasks :: "string list"
  ls_fub_task_ids :: "string list"

text \<open>
  \<open>extracted\<close> is the empty dict until the extraction node stores the dump of its answer there; it
  is kept here as that answer, and \<open>extracted_json\<close> gives the dict where one is written out.
\<close>

record vapi_state =
  vs_call_id :: string
  vs_listing_key :: string
  vs_contact_id :: string
  vs_transcript :: string
  vs_call_outcome :: string
  vs_extracted :: "extracted_feedback option"
  vs_feedback_id :: string
  vs_note_id :: string
  vs_call_log_id :: string
  vs_hot_approval :: "approval_outcome option"
  vs_hot_task_id :: string
  vs_followup_message_id :: string
  vs_followup_approval :: "approval_outcome option"
  vs_followup_edited_subject :: string
  vs_followup_edited_body :: string
  vs_outcome :: string

text \<open>An assessment is stored as its JSON: milestone id, class value, days until due.\<close>

record coordination_state =
  cs_transaction_id :: string
  cs_outcome :: string
  cs_worst :: string
  cs_assessments :: "(string \<times> string \<times> int) list"
  cs_reminders :: "string list"
  cs_reminder_task_ids :: "string list"
  cs_escalation_approval :: "approval_outcome option"
  cs_escalated_task_ids :: "string list"
  cs_planned_calls :: "string list"
  cs_suppress_reminder_email :: bool
  cs_reminder_message_id :: string
  cs_reminder_approval :: "approval_outcome option"
  cs_reminder_edited_subject :: string
  cs_reminder_edited_body :: string

datatype run_state =
    ListingRun listing_state
  | VapiRun vapi_state
  | CoordinationRun coordination_state

section \<open>Scheduled jobs\<close>

record cron_run =
  cron_job :: string
  cron_outcome :: string
  cron_finished_at :: instant
  cron_checked :: nat
  cron_skipped :: nat
  cron_suppressed :: nat
  cron_error :: "string option"

end
