(* ===== verification/PyHash.thy ===== *)
theory PyHash
  imports Models "HOL-Library.Word"
begin

unbundle bit_operations_syntax

text \<open>
  The two standard-library functions the derived identities rest on:
  \<open>hashlib.sha256(...).hexdigest()\<close> (FIPS 180-4, over the UTF-8 bytes of a text) and
  \<open>json.dumps(..., sort_keys=True, separators=(",", ":"))\<close> with its default
  \<open>ensure_ascii\<close>. Collision freedom of SHA-256 is never a fact here: where a property needs
  two digests to differ it says so in a hypothesis.
\<close>

section \<open>SHA-256\<close>

type_synonym u32 = "32 word"

text \<open>
  The constants as the standard defines them: the first 32 bits of the fractional parts of the
  square roots of the first 8 primes and of the cube roots of the first 64, each by bisection on
  the integer root of \<open>p\<close> scaled up (truncation to the word drops the integer part).
\<close>

definition int_root :: "nat \<Rightarrow> nat \<Rightarrow> nat" where
  "int_root k n = foldl (\<lambda>r b. if (r + 2 ^ b) ^ k \<le> n then r + 2 ^ b else r) 0 (rev [0..<38])"

definition is_prime :: "nat \<Rightarrow> bool" where
  "is_prime n \<longleftrightarrow> 1 < n \<and> list_all (\<lambda>d. n mod d \<noteq> 0) [2..<n]"

definition sha_k :: "u32 list" where
  "sha_k = map (\<lambda>p. of_nat (int_root 3 (p * 2 ^ 96))) (filter is_prime [0..<312])"

definition sha_h0 :: "u32 list" where
  "sha_h0 = map (\<lambda>p. of_nat (int_root 2 (p * 2 ^ 64))) [2, 3, 5, 7, 11, 13, 17, 19]"

definition rotr :: "nat \<Rightarrow> u32 \<Rightarrow> u32" where
  "rotr n x = drop_bit n x OR push_bit (32 - n) x"

definition big_sigma0 :: "u32 \<Rightarrow> u32" where
  "big_sigma0 x = rotr 2 x XOR rotr 13 x XOR rotr 22 x"

definition big_sigma1 :: "u32 \<Rightarrow> u32" where
  "big_sigma1 x = rotr 6 x XOR rotr 11 x XOR rotr 25 x"

definition small_sigma0 :: "u32 \<Rightarrow> u32" where
  "small_sigma0 x = rotr 7 x XOR rotr 18 x XOR drop_bit 3 x"

definition small_sigma1 :: "u32 \<Rightarrow> u32" where
  "small_sigma1 x = rotr 17 x XOR rotr 19 x XOR drop_bit 10 x"

text \<open>The message schedule, newest word first while it grows.\<close>

fun sha_schedule :: "nat \<Rightarrow> u32 list \<Rightarrow> u32 list" where
  "sha_schedule 0 ws = rev ws"
| "sha_schedule (Suc n) ws =
     sha_schedule n
       ((small_sigma1 (ws ! 1) + ws ! 6 + small_sigma0 (ws ! 14) + ws ! 15) # ws)"

fun sha_round :: "u32 list \<Rightarrow> u32 \<times> u32 \<Rightarrow> u32 list" where
  "sha_round [a, b, c, d, e, f, g, h] (k, w) =
     (let t1 = h + big_sigma1 e + ((e AND f) XOR (NOT e AND g)) + k + w;
          t2 = big_sigma0 a + ((a AND b) XOR (a AND c) XOR (b AND c))
      in [t1 + t2, a, b, c, d + t1, e, f, g])"
| "sha_round st _ = st"

definition sha_block :: "u32 list \<Rightarrow> u32 list \<Rightarrow> u32 list" where
  "sha_block st block =
     map2 (+) st (foldl sha_round st (zip sha_k (sha_schedule 48 (rev block))))"

fun be_words :: "nat list \<Rightarrow> u32 list" where
  "be_words (a # b # c # d # bs) =
     (push_bit 24 (of_nat a) OR push_bit 16 (of_nat b) OR push_bit 8 (of_nat c) OR of_nat d)
       # be_words bs"
| "be_words _ = []"

fun blocks16 :: "nat \<Rightarrow> u32 list \<Rightarrow> u32 list list" where
  "blocks16 0 ws = []"
| "blocks16 (Suc n) ws = take 16 ws # blocks16 n (drop 16 ws)"

definition sha_pad :: "nat list \<Rightarrow> nat list" where
  "sha_pad bs =
     (let n = length bs; z = (119 - n mod 64) mod 64
      in bs @ [128] @ replicate z 0 @ map (\<lambda>i. nat (int n * 8 div 256 ^ (7 - i) mod 256)) [0..<8])"

definition hex_digit :: "nat \<Rightarrow> char" where
  "hex_digit n = ''0123456789abcdef'' ! n"

definition hex_word :: "u32 \<Rightarrow> string" where
  "hex_word x = map (\<lambda>i. hex_digit (unat (drop_bit (4 * (7 - i)) x AND 15))) [0..<8]"

definition sha256_hex :: "string \<Rightarrow> string" where
  "sha256_hex s =
     (let ws = be_words (sha_pad (map of_char s))
      in concat (map hex_word (foldl sha_block sha_h0 (blocks16 (length ws div 16) ws))))"

lemma length_hex_word [simp]: "length (hex_word x) = 8"
  by (simp add: hex_word_def)

lemma length_sha_round: "length st = 8 \<Longrightarrow> length (sha_round st kw) = 8"
  by (cases "(st, kw)" rule: sha_round.cases) (auto simp: Let_def)

lemma length_sha_block: "length st = 8 \<Longrightarrow> length (sha_block st b) = 8"
proof -
  assume st: "length st = 8"
  have "length st = 8 \<Longrightarrow> length (foldl sha_round st kws) = 8" for kws
    by (induction kws arbitrary: st) (simp_all add: length_sha_round)
  with st show ?thesis by (simp add: sha_block_def)
qed

lemma length_sha256_hex: "length (sha256_hex s) = 64"
proof -
  have len: "length st = 8 \<Longrightarrow> length (foldl sha_block st bs) = 8" for st bs
    by (induction bs arbitrary: st) (simp_all add: length_sha_block)
  have "length (concat (map hex_word ws)) = 8 * length ws" for ws
    by (induction ws) simp_all
  moreover have "length sha_h0 = 8" by (simp add: sha_h0_def)
  ultimately show ?thesis by (simp add: sha256_hex_def Let_def len)
qed

section \<open>JSON text\<close>

definition hex4 :: "int \<Rightarrow> string" where
  "hex4 n = map (\<lambda>i. hex_digit (nat (n div 16 ^ (3 - i) mod 16))) [0..<4]"

definition json_u :: "int \<Rightarrow> string" where
  "json_u n = CHR 0x5C # CHR ''u'' # hex4 n"

definition json_ascii :: "int \<Rightarrow> string" where
  "json_ascii n =
     (if n = 34 then [CHR 0x5C, CHR 0x22] else if n = 92 then [CHR 0x5C, CHR 0x5C]
      else if n = 10 then [CHR 0x5C, CHR ''n''] else if n = 13 then [CHR 0x5C, CHR ''r'']
      else if n = 9 then [CHR 0x5C, CHR ''t''] else if n = 8 then [CHR 0x5C, CHR ''b'']
      else if n = 12 then [CHR 0x5C, CHR ''f'']
      else if n < 32 \<or> 126 < n then json_u n else [char_of n])"

text \<open>\<open>ensure_ascii\<close>: a code point beyond ASCII is \<open>\uXXXX\<close>, beyond the basic plane a surrogate
  pair. The bytes are decoded as UTF-8.\<close>

fun json_escape :: "int list \<Rightarrow> string" where
  "json_escape [] = []"
| "json_escape (a # bs) =
     (if a < 128 then json_ascii a @ json_escape bs
      else if a < 224 then
        (case bs of b # r \<Rightarrow> json_u ((a - 192) * 64 + (b - 128)) @ json_escape r
         | [] \<Rightarrow> json_u a)
      else if a < 240 then
        (case bs of b # c # r \<Rightarrow>
           json_u ((a - 224) * 4096 + (b - 128) * 64 + (c - 128)) @ json_escape r
         | _ \<Rightarrow> json_u a)
      else
        (case bs of b # c # d # r \<Rightarrow>
           (let v = (a - 240) * 262144 + (b - 128) * 4096 + (c - 128) * 64 + (d - 128) - 65536
            in json_u (55296 + v div 1024) @ json_u (56320 + v mod 1024) @ json_escape r)
         | _ \<Rightarrow> json_u a))"

definition json_string :: "string \<Rightarrow> string" where
  "json_string s = [CHR 0x22] @ json_escape (map of_char s) @ [CHR 0x22]"

fun json_dumps :: "pyv \<Rightarrow> string" where
  "json_dumps PNone = ''null''"
| "json_dumps (PBool b) = (if b then ''true'' else ''false'')"
| "json_dumps (PInt i) = show_int i"
| "json_dumps (PStr s) = json_string s"
| "json_dumps (PList xs) = ''['' @ join '','' (map json_dumps xs) @ '']''"
| "json_dumps (PDict d) =
     ''{'' @ join '','' (map (\<lambda>(k, t). json_string k @ '':'' @ t)
       (sort_key fst (map (\<lambda>(k, v). (k, json_dumps v)) d))) @ ''}''"

end
