(* ===== verification/World.thy ===== *)
theory World
  imports PyHash
begin

text \<open>
  The process state the components share. Two \<open>ContextVar\<close>s (the bound tenant and the audit
  context of the running workflow), the sources a run cannot predict (the wall clock, random
  ids, the answers of external systems), the trace of the calls made to those systems, and
  the rows of every store of \<open>api/src/brokerops_api/db.py\<close>, and the checkpoints of the paused
  workflow runs (thread id to the node that waits and its state) and the last run of each job.

  The external systems (CRM, MLS, voice, email and SMS providers, file store, LLM backends) are
  code outside the repository: \<open>w_ext\<close> gives the answer, or the exception, of the \<open>n\<close>-th call
  and is otherwise arbitrary; \<open>w_sent\<close> records which calls were made. The digest function is a
  field as well, so that collision freedom is a hypothesis where it is used; the deployed value
  is \<open>sha256_hex\<close>.
\<close>

record audit_context =
  ac_workflow_run_id :: string
  ac_workflow :: string
  ac_approval_id :: "string option"
  ac_actor :: "string option"
  ac_transaction_id :: string

text \<open>The calls that cross the boundary: one constructor per method of the outbound ports.\<close>

datatype ext_req =
    EmailSend message
  | SmsSend message
  | CrmGetContact string
  | CrmCreateContact contact_create
  | CrmAddNote string string string
  | CrmCreateTask string date "string option"
  | CrmLogCall string string string int
  | VoiceStartCall string string pydict
  | VoiceGetCall string
  | FilePut string string string
  | FileGet string
  | FileList string
  | CrmSearch string int
  | MlsSearch listing_query
  | MlsGetListing string
  | MlsGetMedia string
  | ExtractFeedback string
  | DraftMessage draft_context
  | AuthEmail string string string

datatype ext_resp =
    RStr string
  | RContact "contact option"
  | RTask crm_task
  | RCall "call_record option"
  | RFile file_ref
  | RListing "listing option"
  | RFound "file_ref option"
  | RFiles "file_ref list"
  | RContacts "contact list"
  | RListings "listing list"
  | RMedia "listing_media list"
  | RExtracted extracted_feedback
  | RDrafted drafted_message
  | RUnit

text \<open>
  Pydantic's \<open>model_dump_json\<close> and \<open>model_validate_json\<close> for the results the idempotency rows
  hold: library code, so arbitrary functions here, with the round trip as a named hypothesis.
\<close>

record codec =
  cd_contact_dump :: "contact \<Rightarrow> string"
  cd_contact_load :: "string \<Rightarrow> exn + contact"
  cd_task_dump :: "crm_task \<Rightarrow> string"
  cd_task_load :: "string \<Rightarrow> exn + crm_task"
  cd_file_dump :: "file_ref \<Rightarrow> string"
  cd_file_load :: "string \<Rightarrow> exn + file_ref"

definition codec_roundtrip :: "codec \<Rightarrow> bool" where
  "codec_roundtrip c \<longleftrightarrow>
     (\<forall>x. cd_contact_load c (cd_contact_dump c x) = Inr x) \<and>
     (\<forall>x. cd_task_load c (cd_task_dump c x) = Inr x) \<and>
     (\<forall>x. cd_file_load c (cd_file_dump c x) = Inr x)"

record world =
  w_tenant :: "string option"
  w_audit :: "audit_context option"
  w_clock :: "nat \<Rightarrow> instant"
  w_today :: "nat \<Rightarrow> date"
  w_reads :: nat
  w_uuid :: "nat \<Rightarrow> string"
  w_uuids :: nat
  w_sha256 :: "string \<Rightarrow> string"
  w_codec :: codec
  w_ext :: "nat \<Rightarrow> ext_req \<Rightarrow> exn + ext_resp"
  w_sent :: "ext_req list"
  w_ledger :: "mutation_record list"
  w_idem :: "(string, claim_status \<times> string option) dict"
  w_messages :: "(string, message) dict"
  w_transactions :: "(string, transaction) dict"
  w_milestones :: "(string, milestone) dict"
  w_documents :: "(string, document) dict"
  w_calls :: "(string, call_record) dict"
  w_feedback :: "(string, showing_feedback) dict"
  w_approvals :: "(string, approval_request) dict"
  w_threads :: "(string, string \<times> run_state) dict"
  w_cron :: "(string, cron_run) dict"

type_synonym 'a W = "(world, 'a) M"

section \<open>Clock and random ids\<close>

text \<open>\<open>datetime.now(UTC)\<close>, \<open>date.today()\<close>, \<open>uuid4().hex\<close>.\<close>

definition now_utc :: "instant W" where
  "now_utc w = (Inr (w_clock w (w_reads w)), w\<lparr>w_reads := Suc (w_reads w)\<rparr>)"

definition date_today :: "date W" where
  "date_today w = (Inr (w_today w (w_reads w)), w\<lparr>w_reads := Suc (w_reads w)\<rparr>)"

definition uuid4_hex :: "string W" where
  "uuid4_hex w = (Inr (w_uuid w (w_uuids w)), w\<lparr>w_uuids := Suc (w_uuids w)\<rparr>)"

section \<open>External calls\<close>

text \<open>The call is made (and logged) whether it answers, raises or is cancelled midway.\<close>

definition ext_call :: "ext_req \<Rightarrow> ext_resp W" where
  "ext_call q w = (w_ext w (length (w_sent w)) q, w\<lparr>w_sent := w_sent w @ [q]\<rparr>)"

definition bad_answer :: exn where
  "bad_answer = ProviderError ''ValidationError'' ''malformed provider answer''"

definition as_str :: "ext_resp \<Rightarrow> string W" where
  "as_str r = (case r of RStr s \<Rightarrow> ret s | _ \<Rightarrow> raise bad_answer)"

definition as_contact :: "ext_resp \<Rightarrow> contact option W" where
  "as_contact r = (case r of RContact c \<Rightarrow> ret c | _ \<Rightarrow> raise bad_answer)"

definition as_task :: "ext_resp \<Rightarrow> crm_task W" where
  "as_task r = (case r of RTask t \<Rightarrow> ret t | _ \<Rightarrow> raise bad_answer)"

definition as_call :: "ext_resp \<Rightarrow> call_record option W" where
  "as_call r = (case r of RCall c \<Rightarrow> ret c | _ \<Rightarrow> raise bad_answer)"

definition as_file :: "ext_resp \<Rightarrow> file_ref W" where
  "as_file r = (case r of RFile f \<Rightarrow> ret f | _ \<Rightarrow> raise bad_answer)"

definition as_listing :: "ext_resp \<Rightarrow> listing option W" where
  "as_listing r = (case r of RListing l \<Rightarrow> ret l | _ \<Rightarrow> raise bad_answer)"

definition as_found :: "ext_resp \<Rightarrow> file_ref option W" where
  "as_found r = (case r of RFound f \<Rightarrow> ret f | _ \<Rightarrow> raise bad_answer)"

definition as_files :: "ext_resp \<Rightarrow> file_ref list W" where
  "as_files r = (case r of RFiles fs \<Rightarrow> ret fs | _ \<Rightarrow> raise bad_answer)"

definition as_contacts :: "ext_resp \<Rightarrow> contact list W" where
  "as_contacts r = (case r of RContacts cs \<Rightarrow> ret cs | _ \<Rightarrow> raise bad_answer)"

definition as_listings :: "ext_resp \<Rightarrow> listing list W" where
  "as_listings r = (case r of RListings ls \<Rightarrow> ret ls | _ \<Rightarrow> raise bad_answer)"

definition as_media :: "ext_resp \<Rightarrow> listing_media list W" where
  "as_media r = (case r of RMedia ms \<Rightarrow> ret ms | _ \<Rightarrow> raise bad_answer)"

definition as_extracted :: "ext_resp \<Rightarrow> extracted_feedback W" where
  "as_extracted r = (case r of RExtracted e \<Rightarrow> ret e | _ \<Rightarrow> raise bad_answer)"

definition as_drafted :: "ext_resp \<Rightarrow> drafted_message W" where
  "as_drafted r = (case r of RDrafted d \<Rightarrow> ret d | _ \<Rightarrow> raise bad_answer)"

section \<open>Context variables\<close>

text \<open>
  \<open>with audit_scope(context): body\<close> publishes the context for the body and restores the
  previous value on every exit, cancellation included.
\<close>

definition audit_scope :: "audit_context \<Rightarrow> 'a W \<Rightarrow> 'a W" where
  "audit_scope c body w =
     (case body (w\<lparr>w_audit := Some c\<rparr>) of (r, w') \<Rightarrow> (r, w'\<lparr>w_audit := w_audit w\<rparr>))"

definition current_audit_context :: "audit_context option W" where
  "current_audit_context = gets w_audit"

section \<open>What computations leave alone\<close>

text \<open>
  Two states agree on everything but the clock and id counters, the audit ledger, the external
  trace and the idempotency rows: the frame of the operations that only record.
\<close>

definition same_rows :: "world \<Rightarrow> world \<Rightarrow> bool" where
  "same_rows w w' \<longleftrightarrow>
     w_messages w' = w_messages w \<and> w_transactions w' = w_transactions w \<and>
     w_milestones w' = w_milestones w \<and> w_documents w' = w_documents w \<and>
     w_calls w' = w_calls w \<and> w_feedback w' = w_feedback w \<and> w_approvals w' = w_approvals w"

definition same_sources :: "world \<Rightarrow> world \<Rightarrow> bool" where
  "same_sources w w' \<longleftrightarrow>
     w_clock w' = w_clock w \<and> w_today w' = w_today w \<and> w_uuid w' = w_uuid w \<and>
     w_sha256 w' = w_sha256 w \<and> w_codec w' = w_codec w \<and> w_ext w' = w_ext w"

lemma same_rows_refl [simp]: "same_rows w w"
  by (simp add: same_rows_def)

lemma same_rows_trans: "same_rows a b \<Longrightarrow> same_rows b c \<Longrightarrow> same_rows a c"
  by (simp add: same_rows_def)

named_theorems world "unfolding of the primitive operations on the world"

declare now_utc_def [world] date_today_def [world] uuid4_hex_def [world] ext_call_def [world]
  audit_scope_def [world] current_audit_context_def [world]

lemmas answers = as_str_def as_contact_def as_task_def as_call_def as_file_def as_listing_def
  as_drafted_def as_extracted_def as_found_def as_files_def as_contacts_def as_listings_def as_media_def

lemma answer_state [simp]:
  "snd (as_str r w) = w" "snd (as_contact r w) = w" "snd (as_task r w) = w"
  "snd (as_call r w) = w" "snd (as_file r w) = w" "snd (as_listing r w) = w"
  "snd (as_drafted r w) = w" "snd (as_extracted r w) = w"
  "snd (as_found r w) = w" "snd (as_files r w) = w" "snd (as_contacts r w) = w"
  "snd (as_listings r w) = w" "snd (as_media r w) = w"
  by (simp_all add: answers split: ext_resp.splits)

lemma answers_InrD:
  "as_str r w = (Inr s, w') \<Longrightarrow> r = RStr s \<and> w' = w"
  by (auto simp: answers split: ext_resp.splits)

end
