(* ===== verification/Tenancy.thy ===== *)
theory Tenancy
  imports World
begin

text \<open>
  \<open>core/services/tenancy.py\<close>: the tenant bound for a request lives in a context variable no
  operation takes as an argument; data access reads it, fails closed when none is bound, and
  a claim of another tenant is refused and filed in the audit ledger as a security event.
\<close>

section \<open>The ledger\<close>

text \<open>\<open>InMemoryAuditLog.record\<close>; the SQL store's insert adds the same row.\<close>

definition audit_record :: "mutation_record \<Rightarrow> unit W" where
  "audit_record r = modify (\<lambda>w. w\<lparr>w_ledger := w_ledger w @ [r]\<rparr>)"

text \<open>\<open>str(exc)\<close> of the exceptions whose text the code stores or returns.\<close>

fun exn_str :: "exn \<Rightarrow> string" where
  "exn_str (CrossTenantError a b) =
     ''cross-tenant access denied: attempted '' @ py_repr a @ '' under '' @ py_repr b"
| "exn_str (EgressBlockedError a b) =
     ''cross-tenant access denied: attempted '' @ py_repr a @ '' under '' @ py_repr b"
| "exn_str (TenantContextMissing m) = m"
| "exn_str (ReplayInProgressError tool key) =
     tool @ '' replayed while a prior attempt is still in progress (key '' @ take 12 key @
     [CHR 0xE2, CHR 0x80, CHR 0xA6] @ ''); refusing to repeat the external side effect''"
| "exn_str (UnknownTemplateError ref) = ''unknown message template '' @ py_repr ref"
| "exn_str (TemplateParamError ref p) =
     ''template '' @ py_repr ref @ '' requires parameter '' @ py_repr p"
| "exn_str (UnknownOutboundMessageError i) = ''no outbound message '' @ py_repr i"
| "exn_str (TransactionAlreadyExists i) = i"
| "exn_str (DocumentAlreadyExists i) = i"
| "exn_str (AuthError m _) = m"
| "exn_str (HTTPException c d) = show_nat c @ '': '' @ d"
| "exn_str (ValueError m) = m"
| "exn_str (KeyError k) = py_repr k"
| "exn_str (RuntimeError m) = m"
| "exn_str AssertionError = ''''"
| "exn_str OverflowError = ''date value out of range''"
| "exn_str (HttpxError c m) = m"
| "exn_str (ProviderError c m) = m"
| "exn_str (FleetError m) = m"
| "exn_str (UpgradeError m) = m"
| "exn_str (OffboardError m) = m"
| "exn_str (CalledProcessError cmd code out) =
     ''Command '' @ [CHR 0x27] @ ''['' @ join '', '' (map py_repr cmd) @ '']'' @ [CHR 0x27] @
     '' returned non-zero exit status '' @ show_nat code @ ''.''"
| "exn_str (OSError c m) = m"
| "exn_str CancelledError = ''''"

section \<open>Binding a tenant\<close>

definition security_integration :: string where
  "security_integration = ''security''"

definition tenant_scope :: "string \<Rightarrow> 'a W \<Rightarrow> 'a W" where
  "tenant_scope t body w =
     (if t = [] then (Inl (ValueError ''tenant_id must be non-empty''), w)
      else case w_tenant w of
        Some c \<Rightarrow>
          if c \<noteq> t then (Inl (CrossTenantError t c), w)
          else (case body (w\<lparr>w_tenant := Some t\<rparr>) of (r, w') \<Rightarrow> (r, w'\<lparr>w_tenant := w_tenant w\<rparr>))
      | None \<Rightarrow>
          (case body (w\<lparr>w_tenant := Some t\<rparr>) of (r, w') \<Rightarrow> (r, w'\<lparr>w_tenant := w_tenant w\<rparr>)))"

definition current_tenant :: "string option W" where
  "current_tenant = gets w_tenant"

definition require_tenant :: "string W" where
  "require_tenant w =
     (case w_tenant w of
        None \<Rightarrow> (Inl (TenantContextMissing ''no tenant bound; data access requires a tenant scope''), w)
      | Some t \<Rightarrow> (Inr t, w))"

text \<open>A \<open>None\<close> claim behaves like the empty one.\<close>

definition enforce_tenant :: "string \<Rightarrow> string W" where
  "enforce_tenant claimed = bindM require_tenant (\<lambda>bound.
     if claimed \<noteq> [] \<and> claimed \<noteq> bound then raise (CrossTenantError claimed bound)
     else ret bound)"

definition record_cross_tenant_attempt :: "exn \<Rightarrow> string \<Rightarrow> unit W" where
  "record_cross_tenant_attempt err tool =
     bindM current_audit_context (\<lambda>context.
     bindM uuid4_hex (\<lambda>i.
     bindM now_utc (\<lambda>now.
     let (attempted, bound) =
       (case err of CrossTenantError a b \<Rightarrow> (a, b) | EgressBlockedError a b \<Rightarrow> (a, b) | _ \<Rightarrow> ([], []))
     in audit_record
       \<lparr>mut_id = i,
        mut_workflow_run_id = (case context of None \<Rightarrow> [] | Some c \<Rightarrow> ac_workflow_run_id c),
        mut_workflow = (case context of None \<Rightarrow> [] | Some c \<Rightarrow> ac_workflow c),
        mut_transaction_id = (case context of None \<Rightarrow> [] | Some c \<Rightarrow> ac_transaction_id c),
        mut_tool = tool,
        mut_integration = security_integration,
        mut_args = Some [(''attempted_tenant'', PStr attempted), (''bound_tenant'', PStr bound)],
        mut_approval_id = (case context of None \<Rightarrow> None | Some c \<Rightarrow> ac_approval_id c),
        mut_actor = (case context of None \<Rightarrow> None | Some c \<Rightarrow> ac_actor c),
        mut_outcome = Failure,
        mut_external_id = None,
        mut_error = Some (exn_str err),
        mut_created_at = now\<rparr>)))"

section \<open>What the seam guarantees\<close>

lemma require_tenant_Some [simp]: "w_tenant w = Some t \<Longrightarrow> require_tenant w = (Inr t, w)"
  by (simp add: require_tenant_def)

lemma require_tenant_None [simp]:
  "w_tenant w = None \<Longrightarrow> \<exists>m. require_tenant w = (Inl (TenantContextMissing m), w)"
  by (simp add: require_tenant_def)

lemma require_tenant_state [simp]: "snd (require_tenant w) = w"
  by (simp add: require_tenant_def split: option.splits)

lemma enforce_tenant_state [simp]: "snd (enforce_tenant c w) = w"
  by (simp add: enforce_tenant_def require_tenant_def monad split: option.splits)

lemma enforce_tenant_Some:
  "w_tenant w = Some t \<Longrightarrow>
   enforce_tenant c w = (if c = [] \<or> c = t then Inr t else Inl (CrossTenantError c t), w)"
  by (simp add: enforce_tenant_def monad)

lemma enforce_tenant_Inr:
  "enforce_tenant c w = (Inr t, w') \<longleftrightarrow> w' = w \<and> w_tenant w = Some t \<and> (c = [] \<or> c = t)"
  by (auto simp: enforce_tenant_def require_tenant_def monad split: option.splits)

text \<open>
  Filing an attempt appends exactly one record and touches no row: the shape of the new record
  is what a security review queries for.
\<close>

definition is_security_event :: "string \<Rightarrow> string \<Rightarrow> string \<Rightarrow> mutation_record \<Rightarrow> bool" where
  "is_security_event tool attempted bound r \<longleftrightarrow>
     mut_tool r = tool \<and> mut_integration r = security_integration \<and> mut_outcome r = Failure \<and>
     mut_args r = Some [(''attempted_tenant'', PStr attempted), (''bound_tenant'', PStr bound)]"

text \<open>
  The frame of an operation that records: rows, the bound tenant, the audit context, the
  sources, the external trace and the idempotency rows stay; the ledger only grows.
\<close>

definition only_logs :: "world \<Rightarrow> world \<Rightarrow> bool" where
  "only_logs w w' \<longleftrightarrow>
     same_rows w w' \<and> same_sources w w' \<and> w_tenant w' = w_tenant w \<and> w_audit w' = w_audit w \<and>
     w_sent w' = w_sent w \<and> w_idem w' = w_idem w \<and> (\<exists>rs. w_ledger w' = w_ledger w @ rs)"

lemma only_logs_refl [simp]: "only_logs w w"
  by (simp add: only_logs_def same_sources_def)

lemma only_logs_trans: "only_logs a b \<Longrightarrow> only_logs b c \<Longrightarrow> only_logs a c"
  by (auto simp: only_logs_def same_rows_def same_sources_def)

lemma only_logs_same:
  assumes "only_logs w w'"
  shows "w_messages w' = w_messages w" "w_transactions w' = w_transactions w"
    "w_milestones w' = w_milestones w" "w_documents w' = w_documents w"
    "w_calls w' = w_calls w" "w_feedback w' = w_feedback w" "w_approvals w' = w_approvals w"
    "w_tenant w' = w_tenant w" "w_audit w' = w_audit w" "w_sent w' = w_sent w"
    "w_idem w' = w_idem w" "w_ext w' = w_ext w" "w_sha256 w' = w_sha256 w" "w_codec w' = w_codec w"
  using assms by (simp_all add: only_logs_def same_rows_def same_sources_def)

lemma record_cross_tenant_attempt_run:
  assumes "err = CrossTenantError a b \<or> err = EgressBlockedError a b"
  obtains r w' where "record_cross_tenant_attempt err tool w = (Inr (), w')"
    and "w_ledger w' = w_ledger w @ [r]" and "is_security_event tool a b r"
    and "only_logs w w'"
proof -
  have "\<exists>r w'. record_cross_tenant_attempt err tool w = (Inr (), w') \<and>
      w_ledger w' = w_ledger w @ [r] \<and> is_security_event tool a b r \<and> only_logs w w'"
    using assms
    by (auto simp: record_cross_tenant_attempt_def monad world audit_record_def Let_def
        is_security_event_def only_logs_def same_rows_def same_sources_def)
  with that show ?thesis by blast
qed

end
