(* ===== verification/Samples.thy ===== *)
theory Samples
  imports Tenancy
begin

text \<open>
  Concrete values the witnesses run the model on: a process with empty tables whose providers
  always answer, and one row per table.
\<close>

text \<open>
  A concrete codec with the round trip the hypotheses ask of Pydantic's: fields are packed one
  after the other, each after its length in unary.
\<close>

fun pack :: "string list \<Rightarrow> string" where
  "pack [] = []"
| "pack (s # ss) = replicate (length s) CHR ''1'' @ CHR ''0'' # s @ pack ss"

fun unpack :: "nat \<Rightarrow> string \<Rightarrow> string list" where
  "unpack 0 s = []"
| "unpack (Suc n) s =
     (let k = length (takeWhile (\<lambda>c. c = CHR ''1'') s); r = drop (Suc k) s
      in take k r # unpack n (drop k r))"

lemma takeWhile_ones:
  "takeWhile (\<lambda>c. c = CHR ''1'') (replicate n CHR ''1'' @ CHR ''0'' # s) = replicate n CHR ''1''"
  by (induction n) simp_all

lemma unpack_pack [simp]: "unpack (length ss) (pack ss) = ss"
proof (induction ss)
  case Nil
  then show ?case by simp
next
  case (Cons s ss)
  have "takeWhile (\<lambda>c. c = CHR ''1'') (pack (s # ss)) = replicate (length s) CHR ''1''"
    by (simp add: takeWhile_ones)
  with Cons show ?case by (simp add: Let_def)
qed

definition pack_int :: "int \<Rightarrow> string" where
  "pack_int i = (if i < 0 then CHR ''-'' else CHR ''+'') # replicate (nat \<bar>i\<bar>) CHR ''1''"

definition unpack_int :: "string \<Rightarrow> int" where
  "unpack_int s = (if hd s = CHR ''-'' then - int (length (tl s)) else int (length (tl s)))"

lemma unpack_pack_int [simp]: "unpack_int (pack_int i) = i"
  by (simp add: pack_int_def unpack_int_def)

definition pack_opt :: "('a \<Rightarrow> string) \<Rightarrow> 'a option \<Rightarrow> string" where
  "pack_opt f x = (case x of None \<Rightarrow> [] | Some a \<Rightarrow> CHR ''s'' # f a)"

definition unpack_opt :: "(string \<Rightarrow> 'a) \<Rightarrow> string \<Rightarrow> 'a option" where
  "unpack_opt g s = (if s = [] then None else Some (g (tl s)))"

lemma unpack_pack_opt [simp]: "(\<And>a. g (f a) = a) \<Longrightarrow> unpack_opt g (pack_opt f x) = x"
  by (cases x) (simp_all add: pack_opt_def unpack_opt_def)

definition plain_codec :: codec where
  "plain_codec =
     \<lparr>cd_contact_dump = (\<lambda>c. pack [ct_crm_id c, ct_name c, ct_role c,
        pack_opt id (ct_email c), pack_opt id (ct_phone c)]),
      cd_contact_load = (\<lambda>s. let l = unpack 5 s in
        Inr \<lparr>ct_crm_id = l ! 0, ct_name = l ! 1, ct_role = l ! 2,
             ct_email = unpack_opt id (l ! 3), ct_phone = unpack_opt id (l ! 4)\<rparr>),
      cd_task_dump = (\<lambda>t. pack [tk_id t, tk_name t, pack_opt pack_int (tk_due_date t),
        pack_opt id (tk_contact_id t)]),
      cd_task_load = (\<lambda>s. let l = unpack 4 s in
        Inr \<lparr>tk_id = l ! 0, tk_name = l ! 1, tk_due_date = unpack_opt unpack_int (l ! 2),
             tk_contact_id = unpack_opt id (l ! 3)\<rparr>),
      cd_file_dump = (\<lambda>f. pack [fr_file_id f, fr_name f, fr_mime_type f,
        pack_opt pack_int (fr_size_bytes f), fr_web_url f]),
      cd_file_load = (\<lambda>s. let l = unpack 5 s in
        Inr \<lparr>fr_file_id = l ! 0, fr_name = l ! 1, fr_mime_type = l ! 2,
             fr_size_bytes = unpack_opt unpack_int (l ! 3), fr_web_url = l ! 4\<rparr>)\<rparr>"

lemma plain_codec_roundtrip: "codec_roundtrip plain_codec"
proof -
  have five: "unpack 5 (pack [a, b, c, d, e]) = [a, b, c, d, e]" for a b c d e
    using unpack_pack [of "[a, b, c, d, e]"] by (simp add: eval_nat_numeral del: unpack_pack pack.simps unpack.simps)
  have four: "unpack 4 (pack [a, b, c, d]) = [a, b, c, d]" for a b c d
    using unpack_pack [of "[a, b, c, d]"] by (simp add: eval_nat_numeral del: unpack_pack pack.simps unpack.simps)
  show ?thesis
    by (simp add: codec_roundtrip_def plain_codec_def five four Let_def del: pack.simps)
qed

fun ready_provider :: "nat \<Rightarrow> ext_req \<Rightarrow> exn + ext_resp" where
  "ready_provider n (EmailSend m) = Inr (RStr (''em-'' @ show_nat n))"
| "ready_provider n (SmsSend m) = Inr (RStr (''sm-'' @ show_nat n))"
| "ready_provider n (CrmAddNote c b t) = Inr (RStr (''note-'' @ show_nat n))"
| "ready_provider n (CrmLogCall c out s d) = Inr (RStr (''call-'' @ show_nat n))"
| "ready_provider n (VoiceStartCall c p m) = Inr (RStr (''vapi-'' @ show_nat n))"
| "ready_provider n (CrmCreateTask name d c) =
     Inr (RTask \<lparr>tk_id = ''task-'' @ show_nat n, tk_name = name, tk_due_date = Some d, tk_contact_id = c\<rparr>)"
| "ready_provider n (CrmCreateContact c) =
     Inr (RContact (Some \<lparr>ct_crm_id = ''c-'' @ show_nat n, ct_name = cc_first_name c, ct_role = [],
                         ct_email = cc_email c, ct_phone = cc_phone c\<rparr>))"
| "ready_provider n (FilePut name content folder) =
     Inr (RFile \<lparr>fr_file_id = ''f-'' @ show_nat n, fr_name = name, fr_mime_type = [],
                 fr_size_bytes = Some (int (length content)), fr_web_url = []\<rparr>)"
| "ready_provider n _ = Inl (HttpxError ''ConnectError'' ''unavailable'')"

definition blank_world :: world where
  "blank_world =
     \<lparr>w_tenant = None, w_audit = None, w_clock = (\<lambda>n. int n), w_today = (\<lambda>_. 738000), w_reads = 0,
      w_uuid = show_nat, w_uuids = 0, w_sha256 = (\<lambda>s. s), w_codec = plain_codec,
      w_ext = ready_provider, w_sent = [], w_ledger = [], w_idem = [], w_messages = [],
      w_transactions = [], w_milestones = [], w_documents = [], w_calls = [], w_feedback = [],
      w_approvals = [], w_threads = [], w_cron = []\<rparr>"

definition sample_message :: message where
  "sample_message =
     \<lparr>msg_id = ''m1'', msg_tenant_id = [], msg_channel = Email, msg_recipient = ''ann@example.com'',
      msg_subject = ''Showing'', msg_body = ''Hello'', msg_template_ref = [], msg_contact_id = ''c1'',
      msg_listing_key = [], msg_transaction_id = [], msg_status = Drafted,
      msg_provider_message_id = [], msg_created_at = None, msg_sent_at = None\<rparr>"

definition sample_transaction :: transaction where
  "sample_transaction =
     \<lparr>txn_tenant_id = [], txn_id = ''t1'', txn_listing_key = ''l1'', txn_stage = UnderContract,
      txn_parties = [], txn_contract_date = 738000, txn_close_date = Some 738030\<rparr>"

definition sample_milestone :: milestone where
  "sample_milestone =
     \<lparr>ms_tenant_id = [], ms_id = ''ms1'', ms_transaction_id = ''t1'', ms_type = Inspection,
      ms_title = ''Inspection'', ms_due_date = 738010, ms_status = MsPending, ms_owner = ''agent'',
      ms_escalation_level = 0, ms_blocked_reason = None, ms_expected_document = None\<rparr>"

definition sample_run :: audit_context where
  "sample_run =
     \<lparr>ac_workflow_run_id = ''run-1'', ac_workflow = ''listing'', ac_approval_id = Some ''a1'',
      ac_actor = Some ''op@example.com'', ac_transaction_id = ''t1''\<rparr>"

lemmas samples = blank_world_def plain_codec_def sample_message_def sample_transaction_def
  sample_milestone_def sample_run_def

end
