(* ===== verification/Audit_Trail.thy ===== *)
theory Audit_Trail
  imports Samples
begin

text \<open>
  \<open>core/services/audit.py\<close>: the write-boundary seam of the action ledger. Every write-capable
  port is wrapped so that each external write appends one record, success or failure, with the
  argument values of secret-looking keys masked. The ports are records of methods; the raw
  adapters hand the call to the external system.
\<close>

section \<open>Masking secrets\<close>

definition secret_hints :: "string list" where
  "secret_hints =
     [''token'', ''secret'', ''password'', ''passwd'', ''api_key'', ''apikey'', ''bearer'',
      ''authorization'', ''credential'', ''private_key'']"

definition redacted :: string where
  "redacted = ''[redacted]''"

definition is_secret_key :: "string \<Rightarrow> bool" where
  "is_secret_key key = list_ex (\<lambda>hint. contains hint (lower key)) secret_hints"

fun redact :: "pyv \<Rightarrow> pyv"
  and redact_items :: "pydict \<Rightarrow> pydict"
  and redact_list :: "pyv list \<Rightarrow> pyv list" where
  "redact (PDict d) = PDict (redact_items d)"
| "redact (PList xs) = PList (redact_list xs)"
| "redact v = v"
| "redact_items [] = []"
| "redact_items ((k, v) # d) =
     (k, if is_secret_key k then PStr redacted else redact v) # redact_items d"
| "redact_list [] = []"
| "redact_list (x # xs) = redact x # redact_list xs"

text \<open>No secret-looking key, at any depth, has a value other than the mask.\<close>

fun masked :: "pyv \<Rightarrow> bool"
  and masked_items :: "pydict \<Rightarrow> bool"
  and masked_list :: "pyv list \<Rightarrow> bool" where
  "masked (PDict d) = masked_items d"
| "masked (PList xs) = masked_list xs"
| "masked v = True"
| "masked_items [] = True"
| "masked_items ((k, v) # d) =
     ((if is_secret_key k then v = PStr redacted else masked v) \<and> masked_items d)"
| "masked_list [] = True"
| "masked_list (x # xs) = (masked x \<and> masked_list xs)"

lemma masked_redact:
  "masked (redact v)" "masked_items (redact_items d)" "masked_list (redact_list xs)"
  by (induction v and d and xs rule: redact_redact_items_redact_list.induct) simp_all

lemma redact_masked:
  "masked v \<Longrightarrow> redact v = v" "masked_items d \<Longrightarrow> redact_items d = d"
  "masked_list xs \<Longrightarrow> redact_list xs = xs"
  by (induction v and d and xs rule: redact_redact_items_redact_list.induct) (auto split: if_splits)

lemma keys_redact_items [simp]: "map fst (redact_items d) = map fst d"
  by (induction d) auto

lemma is_secret_key_sub: "is_secret_key k \<Longrightarrow> is_secret_key (a @ k @ b)"
proof -
  assume "is_secret_key k"
  then obtain h where h: "h \<in> set secret_hints" "contains h (lower k)"
    by (auto simp: is_secret_key_def list_ex_iff)
  then obtain x y where "lower k = x @ h @ y" by (auto simp: contains_iff)
  then have "lower (a @ k @ b) = (lower a @ x) @ h @ (y @ lower b)" by simp
  then have "contains h (lower (a @ k @ b))" unfolding contains_iff by blast
  with h show ?thesis by (auto simp: is_secret_key_def list_ex_iff)
qed

section \<open>Ports\<close>

record crm_port =
  cp_get_contact :: "string \<Rightarrow> contact option W"
  cp_search :: "string \<Rightarrow> int \<Rightarrow> contact list W"
  cp_create_contact :: "contact_create \<Rightarrow> contact W"
  cp_add_note :: "string \<Rightarrow> string \<Rightarrow> string \<Rightarrow> string W"
  cp_create_task :: "string \<Rightarrow> date \<Rightarrow> string option \<Rightarrow> crm_task W"
  cp_log_call :: "string \<Rightarrow> string \<Rightarrow> string \<Rightarrow> int \<Rightarrow> string W"

record files_port =
  fp_list :: "string \<Rightarrow> file_ref list W"
  fp_get :: "string \<Rightarrow> file_ref option W"
  fp_put :: "string \<Rightarrow> string \<Rightarrow> string \<Rightarrow> file_ref W"

record voice_port =
  vp_start :: "string \<Rightarrow> string \<Rightarrow> pydict \<Rightarrow> string W"
  vp_get_call :: "string \<Rightarrow> call_record option W"

record send_port =
  sp_send :: "message \<Rightarrow> string W"

definition raw_crm :: crm_port where
  "raw_crm =
     \<lparr>cp_get_contact = (\<lambda>i. bindM (ext_call (CrmGetContact i)) as_contact),
      cp_search = (\<lambda>q n. bindM (ext_call (CrmSearch q n)) as_contacts),
      cp_create_contact = (\<lambda>d. bindM (ext_call (CrmCreateContact d)) (\<lambda>r.
        bindM (as_contact r) (\<lambda>c. case c of Some x \<Rightarrow> ret x | None \<Rightarrow> raise bad_answer))),
      cp_add_note = (\<lambda>c s b. bindM (ext_call (CrmAddNote c s b)) as_str),
      cp_create_task = (\<lambda>n d c. bindM (ext_call (CrmCreateTask n d c)) as_task),
      cp_log_call = (\<lambda>c out note secs. bindM (ext_call (CrmLogCall c out note secs)) as_str)\<rparr>"

definition raw_files :: files_port where
  "raw_files =
     \<lparr>fp_list = (\<lambda>folder. bindM (ext_call (FileList folder)) as_files),
      fp_get = (\<lambda>i. bindM (ext_call (FileGet i)) as_found),
      fp_put = (\<lambda>n c f. bindM (ext_call (FilePut n c f)) as_file)\<rparr>"

definition raw_voice :: voice_port where
  "raw_voice =
     \<lparr>vp_start = (\<lambda>c a x. bindM (ext_call (VoiceStartCall c a x)) as_str),
      vp_get_call = (\<lambda>i. bindM (ext_call (VoiceGetCall i)) as_call)\<rparr>"

definition raw_email :: send_port where
  "raw_email = \<lparr>sp_send = (\<lambda>m. bindM (ext_call (EmailSend m)) as_str)\<rparr>"

definition raw_sms :: send_port where
  "raw_sms = \<lparr>sp_send = (\<lambda>m. bindM (ext_call (SmsSend m)) as_str)\<rparr>"

section \<open>Recording\<close>

definition emit ::
    "string \<Rightarrow> string \<Rightarrow> pydict \<Rightarrow> mutation_outcome \<Rightarrow> string option \<Rightarrow> string option \<Rightarrow> unit W" where
  "emit integration tool args outcome external_id err =
     bindM current_audit_context (\<lambda>context.
     bindM uuid4_hex (\<lambda>i.
     bindM now_utc (\<lambda>now. audit_record
       \<lparr>mut_id = i,
        mut_workflow_run_id = (case context of None \<Rightarrow> [] | Some c \<Rightarrow> ac_workflow_run_id c),
        mut_workflow = (case context of None \<Rightarrow> [] | Some c \<Rightarrow> ac_workflow c),
        mut_transaction_id = (case context of None \<Rightarrow> [] | Some c \<Rightarrow> ac_transaction_id c),
        mut_tool = tool,
        mut_integration = integration,
        mut_args = Some (redact_items args),
        mut_approval_id = (case context of None \<Rightarrow> None | Some c \<Rightarrow> ac_approval_id c),
        mut_actor = (case context of None \<Rightarrow> None | Some c \<Rightarrow> ac_actor c),
        mut_outcome = outcome,
        mut_external_id = external_id,
        mut_error = err,
        mut_created_at = now\<rparr>)))"

text \<open>The shape every recorded write has: record the failure and re-raise, or record the success.\<close>

definition recorded :: "string \<Rightarrow> string \<Rightarrow> pydict \<Rightarrow> 'r W \<Rightarrow> ('r \<Rightarrow> string) \<Rightarrow> 'r W" where
  "recorded integration tool args call external_id =
     bindM (try_except is_exception call
              (\<lambda>exc. thenM (emit integration tool args Failure None (Some (exn_str exc))) (raise exc)))
       (\<lambda>r. thenM (emit integration tool args Success (Some (external_id r)) None) (ret r))"

definition create_contact_args :: "contact_create \<Rightarrow> pydict" where
  "create_contact_args d = [(''draft'', PDict (contact_create_json d))]"

definition add_note_args :: "string \<Rightarrow> string \<Rightarrow> string \<Rightarrow> pydict" where
  "add_note_args c s b = [(''contact_id'', PStr c), (''subject'', PStr s), (''body'', PStr b)]"

definition create_task_args :: "string \<Rightarrow> date \<Rightarrow> string option \<Rightarrow> pydict" where
  "create_task_args n d c =
     [(''name'', PStr n), (''due_date'', PStr (isoformat d)), (''contact_id'', opt_str c)]"

definition log_call_args :: "string \<Rightarrow> string \<Rightarrow> string \<Rightarrow> int \<Rightarrow> pydict" where
  "log_call_args c out note secs =
     [(''contact_id'', PStr c), (''outcome'', PStr out), (''note'', PStr note),
      (''duration_seconds'', PInt secs)]"

definition recording_crm :: "crm_port \<Rightarrow> string \<Rightarrow> crm_port" where
  "recording_crm inner integration =
     \<lparr>cp_get_contact = cp_get_contact inner, cp_search = cp_search inner,
      cp_create_contact = (\<lambda>d. recorded integration ''create_contact'' (create_contact_args d)
        (cp_create_contact inner d) ct_crm_id),
      cp_add_note = (\<lambda>c s b. recorded integration ''add_note'' (add_note_args c s b)
        (cp_add_note inner c s b) id),
      cp_create_task = (\<lambda>n d c. recorded integration ''create_task'' (create_task_args n d c)
        (cp_create_task inner n d c) tk_id),
      cp_log_call = (\<lambda>c out note secs. recorded integration ''log_call'' (log_call_args c out note secs)
        (cp_log_call inner c out note secs) id)\<rparr>"

text \<open>The digest stands for the bytes, under the state's digest function.\<close>

definition file_write_args :: "(string \<Rightarrow> string) \<Rightarrow> string \<Rightarrow> string \<Rightarrow> string \<Rightarrow> pydict" where
  "file_write_args sha name content folder =
     [(''name'', PStr name), (''folder'', PStr folder), (''content_sha256'', PStr (sha content)),
      (''size_bytes'', PInt (int (length content)))]"

definition recording_files :: "files_port \<Rightarrow> string \<Rightarrow> files_port" where
  "recording_files inner integration =
     \<lparr>fp_list = fp_list inner, fp_get = fp_get inner,
      fp_put = (\<lambda>n c f. bindM (gets w_sha256) (\<lambda>sha.
        recorded integration ''put_file'' (file_write_args sha n c f) (fp_put inner n c f) fr_file_id))\<rparr>"

definition start_call_args :: "string \<Rightarrow> string \<Rightarrow> pydict \<Rightarrow> pydict" where
  "start_call_args c a x =
     [(''contact_id'', PStr c), (''assistant_id'', PStr a), (''context'', PDict x)]"

definition recording_voice :: "voice_port \<Rightarrow> voice_port" where
  "recording_voice inner =
     \<lparr>vp_start = (\<lambda>c a x. recorded ''vapi'' ''start_outbound_call'' (start_call_args c a x)
        (vp_start inner c a x) id),
      vp_get_call = vp_get_call inner\<rparr>"

text \<open>A datetime in Pydantic's JSON mode; instants count microseconds from 0001-01-01.\<close>

definition json_instant :: "instant \<Rightarrow> string" where
  "json_instant t =
     (let s = t div 1000000; us = t mod 1000000; d = s div 86400; r = s mod 86400
      in isoformat (d + 1) @ ''T'' @ zpad 2 (nat (r div 3600)) @ '':'' @
         zpad 2 (nat (r div 60 mod 60)) @ '':'' @ zpad 2 (nat (r mod 60)) @
         (if us = 0 then [] else ''.'' @ zpad 6 (nat us)) @ ''Z'')"

text \<open>\<open>message.model_dump\<close> without status, provider id, sending time and body.\<close>

definition send_audit_args :: "message \<Rightarrow> pydict" where
  "send_audit_args m =
     [(''id'', PStr (msg_id m)), (''tenant_id'', PStr (msg_tenant_id m)),
      (''channel'', PStr (channel_value (msg_channel m))), (''recipient'', PStr (msg_recipient m)),
      (''subject'', PStr (msg_subject m)), (''template_ref'', PStr (msg_template_ref m)),
      (''contact_id'', PStr (msg_contact_id m)), (''listing_key'', PStr (msg_listing_key m)),
      (''transaction_id'', PStr (msg_transaction_id m)),
      (''created_at'', case msg_created_at m of None \<Rightarrow> PNone | Some t \<Rightarrow> PStr (json_instant t))]"

definition recording_email :: "send_port \<Rightarrow> send_port" where
  "recording_email inner =
     \<lparr>sp_send = (\<lambda>m. recorded ''email'' ''send_email'' (send_audit_args m) (sp_send inner m) id)\<rparr>"

definition recording_sms :: "send_port \<Rightarrow> send_port" where
  "recording_sms inner =
     \<lparr>sp_send = (\<lambda>m. recorded ''twilio_sms'' ''send_sms'' (send_audit_args m) (sp_send inner m) id)\<rparr>"

section \<open>Every write of the seam\<close>

datatype write_op =
    WCreateContact contact_create
  | WAddNote string string string
  | WCreateTask string date "string option"
  | WLogCall string string string int
  | WPutFile string string string
  | WStartCall string string pydict
  | WSendEmail message
  | WSendSms message

datatype write_result = WContact contact | WTask crm_task | WFile file_ref | WStr string

record ports =
  pt_crm :: crm_port
  pt_files :: files_port
  pt_voice :: voice_port
  pt_email :: send_port
  pt_sms :: send_port

definition raw_ports :: ports where
  "raw_ports =
     \<lparr>pt_crm = raw_crm, pt_files = raw_files, pt_voice = raw_voice, pt_email = raw_email,
      pt_sms = raw_sms\<rparr>"

definition files_integration :: string where
  "files_integration = ''google_drive''"

definition recording_ports :: "ports \<Rightarrow> string \<Rightarrow> ports" where
  "recording_ports p vendor =
     \<lparr>pt_crm = recording_crm (pt_crm p) vendor, pt_files = recording_files (pt_files p) files_integration,
      pt_voice = recording_voice (pt_voice p), pt_email = recording_email (pt_email p),
      pt_sms = recording_sms (pt_sms p)\<rparr>"

fun run_write :: "ports \<Rightarrow> write_op \<Rightarrow> write_result W" where
  "run_write p (WCreateContact d) = bindM (cp_create_contact (pt_crm p) d) (\<lambda>x. ret (WContact x))"
| "run_write p (WAddNote c s b) = bindM (cp_add_note (pt_crm p) c s b) (\<lambda>x. ret (WStr x))"
| "run_write p (WCreateTask n d c) = bindM (cp_create_task (pt_crm p) n d c) (\<lambda>x. ret (WTask x))"
| "run_write p (WLogCall c out note secs) =
     bindM (cp_log_call (pt_crm p) c out note secs) (\<lambda>x. ret (WStr x))"
| "run_write p (WPutFile n c f) = bindM (fp_put (pt_files p) n c f) (\<lambda>x. ret (WFile x))"
| "run_write p (WStartCall c a x) = bindM (vp_start (pt_voice p) c a x) (\<lambda>r. ret (WStr r))"
| "run_write p (WSendEmail m) = bindM (sp_send (pt_email p) m) (\<lambda>x. ret (WStr x))"
| "run_write p (WSendSms m) = bindM (sp_send (pt_sms p) m) (\<lambda>x. ret (WStr x))"

fun op_request :: "write_op \<Rightarrow> ext_req" where
  "op_request (WCreateContact d) = CrmCreateContact d"
| "op_request (WAddNote c s b) = CrmAddNote c s b"
| "op_request (WCreateTask n d c) = CrmCreateTask n d c"
| "op_request (WLogCall c out note secs) = CrmLogCall c out note secs"
| "op_request (WPutFile n c f) = FilePut n c f"
| "op_request (WStartCall c a x) = VoiceStartCall c a x"
| "op_request (WSendEmail m) = EmailSend m"
| "op_request (WSendSms m) = SmsSend m"

fun op_tool :: "write_op \<Rightarrow> string" where
  "op_tool (WCreateContact d) = ''create_contact''"
| "op_tool (WAddNote c s b) = ''add_note''"
| "op_tool (WCreateTask n d c) = ''create_task''"
| "op_tool (WLogCall c out note secs) = ''log_call''"
| "op_tool (WPutFile n c f) = ''put_file''"
| "op_tool (WStartCall c a x) = ''start_outbound_call''"
| "op_tool (WSendEmail m) = ''send_email''"
| "op_tool (WSendSms m) = ''send_sms''"

fun op_integration :: "string \<Rightarrow> write_op \<Rightarrow> string" where
  "op_integration v (WPutFile n c f) = files_integration"
| "op_integration v (WStartCall c a x) = ''vapi''"
| "op_integration v (WSendEmail m) = ''email''"
| "op_integration v (WSendSms m) = ''twilio_sms''"
| "op_integration v _ = v"

text \<open>The argument snapshot of the ledger.\<close>

fun op_audit_args :: "(string \<Rightarrow> string) \<Rightarrow> write_op \<Rightarrow> pydict" where
  "op_audit_args sha (WCreateContact d) = create_contact_args d"
| "op_audit_args sha (WAddNote c s b) = add_note_args c s b"
| "op_audit_args sha (WCreateTask n d c) = create_task_args n d c"
| "op_audit_args sha (WLogCall c out note secs) = log_call_args c out note secs"
| "op_audit_args sha (WPutFile n c f) = file_write_args sha n c f"
| "op_audit_args sha (WStartCall c a x) = start_call_args c a x"
| "op_audit_args sha (WSendEmail m) = send_audit_args m"
| "op_audit_args sha (WSendSms m) = send_audit_args m"

fun result_id :: "write_result \<Rightarrow> string" where
  "result_id (WContact c) = ct_crm_id c"
| "result_id (WTask t) = tk_id t"
| "result_id (WFile f) = fr_file_id f"
| "result_id (WStr s) = s"

lemma recorded_map:
  assumes "\<And>x. h (g x) = f x"
  shows "bindM (recorded i tool args c f) (\<lambda>x. ret (g x)) =
         recorded i tool args (bindM c (\<lambda>x. ret (g x))) h"
proof
  fix w
  show "bindM (recorded i tool args c f) (\<lambda>x. ret (g x)) w =
      recorded i tool args (bindM c (\<lambda>x. ret (g x))) h w"
    by (cases "c w"; cases "fst (c w)")
      (auto simp: recorded_def monad assms split: prod.splits sum.splits)
qed

lemma recording_run_write:
  "run_write (recording_ports p v) op w =
   recorded (op_integration v op) (op_tool op) (op_audit_args (w_sha256 w) op) (run_write p op) result_id w"
  by (cases op)
    (simp_all add: recording_ports_def recording_crm_def recording_files_def recording_voice_def
      recording_email_def recording_sms_def bindM_assoc recorded_map [where h = result_id]
      bindM_Inr [of "gets w_sha256"])

text \<open>What a ledger record says of the run it belongs to.\<close>

definition attributed :: "audit_context option \<Rightarrow> mutation_record \<Rightarrow> bool" where
  "attributed context r \<longleftrightarrow>
     (case context of
        None \<Rightarrow> mut_workflow_run_id r = [] \<and> mut_workflow r = [] \<and> mut_transaction_id r = [] \<and>
                mut_approval_id r = None \<and> mut_actor r = None
      | Some c \<Rightarrow> mut_workflow_run_id r = ac_workflow_run_id c \<and> mut_workflow r = ac_workflow c \<and>
                  mut_transaction_id r = ac_transaction_id c \<and>
                  mut_approval_id r = ac_approval_id c \<and> mut_actor r = ac_actor c)"

definition entry ::
    "string \<Rightarrow> string \<Rightarrow> pydict \<Rightarrow> mutation_outcome \<Rightarrow> string option \<Rightarrow> string option \<Rightarrow>
     mutation_record \<Rightarrow> bool" where
  "entry integration tool args outcome external_id err r \<longleftrightarrow>
     mut_integration r = integration \<and> mut_tool r = tool \<and> mut_args r = Some (redact_items args) \<and>
     mut_outcome r = outcome \<and> mut_external_id r = external_id \<and> mut_error r = err"

definition logged ::
    "string \<Rightarrow> string \<Rightarrow> pydict \<Rightarrow> mutation_outcome \<Rightarrow> string option \<Rightarrow> string option \<Rightarrow> world \<Rightarrow> world" where
  "logged integration tool args outcome ext err w = snd (emit integration tool args outcome ext err w)"

lemma emit_run [simp]:
  "emit integration tool args outcome ext err w = (Inr (), logged integration tool args outcome ext err w)"
  by (simp add: logged_def emit_def monad world audit_record_def)

lemma logged_effect:
  "\<exists>r. w_ledger (logged i tool args outcome ext err w) = w_ledger w @ [r] \<and>
       entry i tool args outcome ext err r \<and> attributed (w_audit w) r"
  "only_logs w (logged i tool args outcome ext err w)"
  by (simp_all add: logged_def emit_def monad world audit_record_def entry_def attributed_def
      only_logs_def same_rows_def same_sources_def split: option.splits)

text \<open>One recorded write, by the outcome of the call it wraps.\<close>

lemma recorded_run:
  "recorded i tool args c f w =
     (case c w of
        (Inr x, w1) \<Rightarrow> (Inr x, logged i tool args Success (Some (f x)) None w1)
      | (Inl e, w1) \<Rightarrow>
          (Inl e, if is_exception e then logged i tool args Failure None (Some (exn_str e)) w1 else w1))"
  by (simp add: recorded_def monad split: prod.split sum.split)

lemma raw_write_run:
  "snd (run_write raw_ports op w) = w\<lparr>w_sent := w_sent w @ [op_request op]\<rparr>"
  by (cases op)
    (simp_all add: raw_ports_def raw_crm_def raw_files_def raw_voice_def raw_email_def raw_sms_def
      monad world answers split: sum.splits ext_resp.splits option.splits)

lemma recording_write_run:
  "run_write (recording_ports raw_ports vendor) op w =
     (let r = fst (run_write raw_ports op w); w1 = w\<lparr>w_sent := w_sent w @ [op_request op]\<rparr>;
          log = logged (op_integration vendor op) (op_tool op) (op_audit_args (w_sha256 w) op)
      in (r, case r of Inr x \<Rightarrow> log Success (Some (result_id x)) None w1
             | Inl e \<Rightarrow> if is_exception e then log Failure None (Some (exn_str e)) w1 else w1))"
  using raw_write_run [of op w]
  by (cases "run_write raw_ports op w") (simp add: recording_run_write recorded_run Let_def split: sum.split)

lemma recording_frame:
  assumes "run_write (recording_ports raw_ports vendor) op w = (res, w')"
  shows "only_logs (w\<lparr>w_sent := w_sent w @ [op_request op]\<rparr>) w'"
  using assms
  by (auto simp: recording_write_run Let_def logged_effect(2) split: sum.splits)

text \<open>
  C29: Every external write through the recording seam makes exactly one provider call and, when
  it returns or raises, appends exactly one ledger record: with the tool, the masked
  arguments and the attribution of the running workflow, as a success with the provider's id
  or as a failure with the error's text, the result or exception passed on unchanged. Only a
  cancellation leaves no record. No row of any store and no idempotency row changes.
\<close>

theorem every_write_recorded:
  assumes "run_write (recording_ports raw_ports vendor) op w = (res, w')"
  shows "w_sent w' = w_sent w @ [op_request op] \<and> same_rows w w' \<and> w_idem w' = w_idem w \<and>
    fst (run_write raw_ports op w) = res \<and>
    (case res of
       Inr x \<Rightarrow> \<exists>r. w_ledger w' = w_ledger w @ [r] \<and> attributed (w_audit w) r \<and>
         entry (op_integration vendor op) (op_tool op) (op_audit_args (w_sha256 w) op)
           Success (Some (result_id x)) None r
     | Inl e \<Rightarrow>
         if is_exception e
         then \<exists>r. w_ledger w' = w_ledger w @ [r] \<and> attributed (w_audit w) r \<and>
           entry (op_integration vendor op) (op_tool op) (op_audit_args (w_sha256 w) op)
             Failure None (Some (exn_str e)) r
         else w_ledger w' = w_ledger w)"
proof -
  let ?w = "w\<lparr>w_sent := w_sent w @ [op_request op]\<rparr>"
  have frame: "w_sent w' = w_sent w @ [op_request op] \<and> same_rows w w' \<and> w_idem w' = w_idem w"
    using recording_frame [OF assms] by (simp add: only_logs_def same_rows_def)
  show ?thesis
    using frame assms logged_effect(1) [of _ _ _ _ _ _ ?w]
    by (cases res) (fastforce simp: recording_write_run Let_def)+
qed

theorem every_write_recorded_witness:
  "\<exists>r. w_ledger (snd (run_write (recording_ports raw_ports ''followupboss'')
        (WAddNote ''c1'' ''s'' ''b'') (blank_world\<lparr>w_audit := Some sample_run\<rparr>))) = [r] \<and>
     entry ''followupboss'' ''add_note'' (add_note_args ''c1'' ''s'' ''b'') Success (Some ''note-0'') None r"
proof -
  let ?w = "blank_world\<lparr>w_audit := Some sample_run\<rparr>" and ?op = "WAddNote ''c1'' ''s'' ''b''"
  obtain res w' where run: "run_write (recording_ports raw_ports ''followupboss'') ?op ?w = (res, w')"
    by fastforce
  have c: "fst (run_write raw_ports ?op ?w) = Inr (WStr ''note-0'')"
    by (simp add: raw_ports_def raw_crm_def monad world answers samples show_nat.simps [of 0] digit_def)
  from every_write_recorded [OF run] c run show ?thesis
    by (auto simp: samples simp del: run_write.simps)
qed

text \<open>
  C32: The ledger's argument snapshot never shows a secret: at every depth a key that looks
  like a secret holds the mask, every key is kept, and data without such keys is unchanged
  (so masking twice is masking once).
\<close>

theorem redaction_complete:
  "masked (redact v) \<and> redact (redact v) = redact v \<and> (masked v \<longrightarrow> redact v = v) \<and>
   masked_items (redact_items d) \<and> map fst (redact_items d) = map fst d"
  by (simp add: masked_redact redact_masked(1) [OF masked_redact(1)] redact_masked(1))

theorem redaction_complete_witness:
  "redact (PDict [(''API_Token'', PStr ''x''), (''note'', PStr ''y'')]) =
     PDict [(''API_Token'', PStr redacted), (''note'', PStr ''y'')] \<and>
   redact (PStr ''x'') = PStr ''x''"
  using redaction_complete [of "PStr ''x''" "[]"] by (simp, code_simp)

end
