(* ===== verification/Stores.thy ===== *)
theory Stores
  imports Tenancy
begin

text \<open>
  The persistence of \<open>api/src/brokerops_api/db.py\<close>. Every port has two implementations, the
  in-memory one (\<open>mem_\<close>) and the SQL one (\<open>sql_\<close>), over the same rows: a table is the
  insertion-ordered dictionary of its rows by primary key. A \<open>SELECT\<close> filters the rows, an
  \<open>INSERT\<close> of a present key is the driver's \<open>IntegrityError\<close> and rolls the whole
  transaction back, an \<open>UPDATE\<close> maps the rows its \<open>WHERE\<close> matches and reports how many. Rows
  a query leaves unordered come in insertion order. A backend record bundles the methods of one
  port, so that the scoping wrappers take either implementation.
\<close>

section \<open>Messages\<close>

record message_backend =
  mb_save :: "message \<Rightarrow> unit W"
  mb_get :: "string \<Rightarrow> message option W"
  mb_get_by_provider :: "string \<Rightarrow> message option W"
  mb_list :: "string option \<Rightarrow> nat \<Rightarrow> string option \<Rightarrow> message list W"
  mb_advance :: "string \<Rightarrow> message_status \<Rightarrow> message option W"

definition mem_save_message :: "message \<Rightarrow> unit W" where
  "mem_save_message m = modify (\<lambda>w. w\<lparr>w_messages := dict_set (w_messages w) (msg_id m) m\<rparr>)"

definition mem_get_message :: "string \<Rightarrow> message option W" where
  "mem_get_message i = gets (\<lambda>w. dict_get (w_messages w) i)"

definition mem_get_message_by_provider_id :: "string \<Rightarrow> message option W" where
  "mem_get_message_by_provider_id pid =
     (if pid = [] then ret None
      else gets (\<lambda>w. List.find (\<lambda>m. msg_provider_message_id m = pid) (dict_values (w_messages w))))"

text \<open>
  The sort key \<open>m.created_at or epoch\<close>, newest first; instants count from \<open>datetime.min\<close>, so
  the epoch is 0. Python's reversed sort keeps equal elements in order, as sorting by the
  negated key does. Postgres puts \<open>NULL\<close> first in a descending order.
\<close>

definition created_key :: "instant option \<Rightarrow> int" where
  "created_key c = (case c of None \<Rightarrow> 0 | Some t \<Rightarrow> - t)"

definition sql_created_key :: "instant option \<Rightarrow> nat \<times> int" where
  "sql_created_key c = (case c of None \<Rightarrow> (0, 0) | Some t \<Rightarrow> (1, - t))"

definition mem_list_messages :: "string option \<Rightarrow> nat \<Rightarrow> string option \<Rightarrow> message list W" where
  "mem_list_messages contact limit txn = gets (\<lambda>w.
     take limit (sort_key (\<lambda>m. created_key (msg_created_at m))
       (filter (\<lambda>m. (contact = None \<or> contact = Some (msg_contact_id m)) \<and>
                    (txn = None \<or> txn = Some (msg_transaction_id m)))
          (dict_values (w_messages w)))))"

definition mem_advance_message_status :: "string \<Rightarrow> message_status \<Rightarrow> message option W" where
  "mem_advance_message_status i st w =
     (case dict_get (w_messages w) i of
        None \<Rightarrow> (Inr None, w)
      | Some row \<Rightarrow>
          if status_rank st > status_rank (msg_status row)
          then (let row' = row\<lparr>msg_status := st\<rparr>
                in (Inr (Some row'), w\<lparr>w_messages := dict_set (w_messages w) i row'\<rparr>))
          else (Inr (Some row), w))"

text \<open>Select by key, then insert or update: the upsert of the SQL stores.\<close>

definition sql_upsert :: "('v \<Rightarrow> string) \<Rightarrow> (string, 'v) dict \<Rightarrow> 'v \<Rightarrow> (string, 'v) dict" where
  "sql_upsert key d v =
     (case List.find (\<lambda>r. key r = key v) (dict_values d) of
        None \<Rightarrow> d @ [(key v, v)]
      | Some _ \<Rightarrow> map (\<lambda>(k, r). if key r = key v then (k, v) else (k, r)) d)"

definition sql_save_message :: "message \<Rightarrow> unit W" where
  "sql_save_message m = modify (\<lambda>w. w\<lparr>w_messages := sql_upsert msg_id (w_messages w) m\<rparr>)"

definition sql_get_message :: "string \<Rightarrow> message option W" where
  "sql_get_message i = gets (\<lambda>w. List.find (\<lambda>r. msg_id r = i) (dict_values (w_messages w)))"

definition sql_get_message_by_provider_id :: "string \<Rightarrow> message option W" where
  "sql_get_message_by_provider_id pid =
     (if pid = [] then ret None
      else gets (\<lambda>w. List.find (\<lambda>r. msg_provider_message_id r = pid) (dict_values (w_messages w))))"

definition sql_list_messages :: "string option \<Rightarrow> nat \<Rightarrow> string option \<Rightarrow> message list W" where
  "sql_list_messages contact limit txn = gets (\<lambda>w.
     let q1 = (case contact of None \<Rightarrow> dict_values (w_messages w)
               | Some c \<Rightarrow> filter (\<lambda>m. msg_contact_id m = c) (dict_values (w_messages w)));
         q2 = (case txn of None \<Rightarrow> q1 | Some t \<Rightarrow> filter (\<lambda>m. msg_transaction_id m = t) q1)
     in take limit (sort_key (\<lambda>m. sql_created_key (msg_created_at m)) q2))"

definition lower_ranked :: "message_status \<Rightarrow> message_status list" where
  "lower_ranked st = filter (\<lambda>s. status_rank s < status_rank st) message_statuses"

definition sql_advance_message_status :: "string \<Rightarrow> message_status \<Rightarrow> message option W" where
  "sql_advance_message_status i st =
     thenM (modify (\<lambda>w. w\<lparr>w_messages :=
       map (\<lambda>(k, r). if msg_id r = i \<and> msg_status r \<in> set (lower_ranked st)
                     then (k, r\<lparr>msg_status := st\<rparr>) else (k, r)) (w_messages w)\<rparr>))
       (sql_get_message i)"

definition mem_messages :: message_backend where
  "mem_messages =
     \<lparr>mb_save = mem_save_message, mb_get = mem_get_message,
      mb_get_by_provider = mem_get_message_by_provider_id, mb_list = mem_list_messages,
      mb_advance = mem_advance_message_status\<rparr>"

definition sql_messages :: message_backend where
  "sql_messages =
     \<lparr>mb_save = sql_save_message, mb_get = sql_get_message,
      mb_get_by_provider = sql_get_message_by_provider_id, mb_list = sql_list_messages,
      mb_advance = sql_advance_message_status\<rparr>"

section \<open>Transactions and milestones\<close>

record transaction_backend =
  tb_create :: "transaction \<Rightarrow> milestone list \<Rightarrow> unit W"
  tb_get :: "string \<Rightarrow> transaction option W"
  tb_get_milestone :: "string \<Rightarrow> milestone option W"
  tb_list_active :: "transaction list W"
  tb_list_milestones :: "string \<Rightarrow> milestone list W"
  tb_set_level :: "string \<Rightarrow> int \<Rightarrow> unit W"
  tb_count :: "nat W"
  tb_clear :: "unit W"

definition owned_row :: "string \<Rightarrow> string \<Rightarrow> bool" where
  "owned_row tenant row_tenant \<longleftrightarrow> row_tenant = tenant \<or> row_tenant = []"

definition mem_get_transaction :: "string \<Rightarrow> transaction option W" where
  "mem_get_transaction i = gets (\<lambda>w. dict_get (w_transactions w) i)"

definition mem_list_active_transactions :: "transaction list W" where
  "mem_list_active_transactions = gets (\<lambda>w. filter txn_is_active (dict_values (w_transactions w)))"

definition mem_get_milestone :: "string \<Rightarrow> milestone option W" where
  "mem_get_milestone i = gets (\<lambda>w. dict_get (w_milestones w) i)"

definition mem_list_milestones :: "string \<Rightarrow> milestone list W" where
  "mem_list_milestones i = gets (\<lambda>w.
     sort_key ms_due_date (filter (\<lambda>m. ms_transaction_id m = i) (dict_values (w_milestones w))))"

definition mem_set_escalation_level :: "string \<Rightarrow> int \<Rightarrow> unit W" where
  "mem_set_escalation_level i level w =
     (case dict_get (w_milestones w) i of
        None \<Rightarrow> (Inl (KeyError i), w)
      | Some m \<Rightarrow>
          (Inr (), w\<lparr>w_milestones := dict_set (w_milestones w) i (m\<lparr>ms_escalation_level := level\<rparr>)\<rparr>))"

definition mem_count_transactions :: "nat W" where
  "mem_count_transactions = bindM require_tenant (\<lambda>t. gets (\<lambda>w.
     length (filter (\<lambda>x. owned_row t (txn_tenant_id x)) (dict_values (w_transactions w)))))"

definition mem_create_transaction :: "transaction \<Rightarrow> milestone list \<Rightarrow> unit W" where
  "mem_create_transaction t mss w =
     (if dict_get (w_transactions w) (txn_id t) \<noteq> None
      then (Inl (TransactionAlreadyExists (txn_id t)), w)
      else (Inr (), w\<lparr>w_transactions := dict_set (w_transactions w) (txn_id t) t,
                     w_milestones := foldl (\<lambda>d m. dict_set d (ms_id m) m) (w_milestones w) mss\<rparr>))"

definition mem_clear_transactions :: "unit W" where
  "mem_clear_transactions = bindM require_tenant (\<lambda>t. modify (\<lambda>w.
     w\<lparr>w_transactions := filter (\<lambda>(k, x). \<not> owned_row t (txn_tenant_id x)) (w_transactions w),
       w_milestones := filter (\<lambda>(k, x). \<not> owned_row t (ms_tenant_id x)) (w_milestones w)\<rparr>))"

definition sql_get_transaction :: "string \<Rightarrow> transaction option W" where
  "sql_get_transaction i =
     gets (\<lambda>w. List.find (\<lambda>t. txn_id t = i) (dict_values (w_transactions w)))"

definition sql_get_milestone :: "string \<Rightarrow> milestone option W" where
  "sql_get_milestone i =
     gets (\<lambda>w. List.find (\<lambda>m. ms_id m = i) (dict_values (w_milestones w)))"

definition sql_list_active_transactions :: "transaction list W" where
  "sql_list_active_transactions = gets (\<lambda>w.
     filter (\<lambda>t. txn_stage t \<in> set active_stages) (dict_values (w_transactions w)))"

definition sql_list_milestones :: "string \<Rightarrow> milestone list W" where
  "sql_list_milestones i = gets (\<lambda>w.
     sort_key ms_due_date (filter (\<lambda>m. ms_transaction_id m = i) (dict_values (w_milestones w))))"

definition sql_set_escalation_level :: "string \<Rightarrow> int \<Rightarrow> unit W" where
  "sql_set_escalation_level i level = bindM require_tenant (\<lambda>t. \<lambda>w.
     let hit = (\<lambda>m. ms_id m = i \<and> owned_row t (ms_tenant_id m))
     in if \<not> list_ex hit (dict_values (w_milestones w)) then (Inl (KeyError i), w)
        else (Inr (), w\<lparr>w_milestones :=
          map (\<lambda>(k, m). if hit m then (k, m\<lparr>ms_escalation_level := level\<rparr>) else (k, m))
            (w_milestones w)\<rparr>))"

definition sql_count_transactions :: "nat W" where
  "sql_count_transactions = bindM require_tenant (\<lambda>t. gets (\<lambda>w.
     length (filter (\<lambda>x. owned_row t (txn_tenant_id x)) (dict_values (w_transactions w)))))"

text \<open>Inserts of one transaction block: \<open>None\<close> is the \<open>IntegrityError\<close> of a present key.\<close>

fun insert_rows :: "('v \<Rightarrow> string) \<Rightarrow> (string, 'v) dict \<Rightarrow> 'v list \<Rightarrow> (string, 'v) dict option" where
  "insert_rows key d [] = Some d"
| "insert_rows key d (r # rs) =
     (if dict_get d (key r) \<noteq> None then None else insert_rows key (d @ [(key r, r)]) rs)"

definition sql_create_transaction :: "transaction \<Rightarrow> milestone list \<Rightarrow> unit W" where
  "sql_create_transaction t mss w =
     (case insert_rows txn_id (w_transactions w) [t] of
        None \<Rightarrow> (Inl (TransactionAlreadyExists (txn_id t)), w)
      | Some ts \<Rightarrow>
          (case insert_rows ms_id (w_milestones w) mss of
             None \<Rightarrow> (Inl (TransactionAlreadyExists (txn_id t)), w)
           | Some ms \<Rightarrow> (Inr (), w\<lparr>w_transactions := ts, w_milestones := ms\<rparr>)))"

definition sql_clear_transactions :: "unit W" where
  "sql_clear_transactions = bindM require_tenant (\<lambda>t. modify (\<lambda>w.
     w\<lparr>w_milestones := filter (\<lambda>(k, x). \<not> owned_row t (ms_tenant_id x)) (w_milestones w),
       w_transactions := filter (\<lambda>(k, x). \<not> owned_row t (txn_tenant_id x)) (w_transactions w)\<rparr>))"

definition mem_transactions :: transaction_backend where
  "mem_transactions =
     \<lparr>tb_create = mem_create_transaction, tb_get = mem_get_transaction,
      tb_get_milestone = mem_get_milestone, tb_list_active = mem_list_active_transactions,
      tb_list_milestones = mem_list_milestones, tb_set_level = mem_set_escalation_level,
      tb_count = mem_count_transactions, tb_clear = mem_clear_transactions\<rparr>"

definition sql_transactions :: transaction_backend where
  "sql_transactions =
     \<lparr>tb_create = sql_create_transaction, tb_get = sql_get_transaction,
      tb_get_milestone = sql_get_milestone, tb_list_active = sql_list_active_transactions,
      tb_list_milestones = sql_list_milestones, tb_set_level = sql_set_escalation_level,
      tb_count = sql_count_transactions, tb_clear = sql_clear_transactions\<rparr>"

section \<open>Approvals\<close>

record approval_backend =
  ab_create :: "approval_request \<Rightarrow> unit W"
  ab_get :: "string \<Rightarrow> approval_request option W"
  ab_list :: "approval_status option \<Rightarrow> approval_request list W"
  ab_mark_decided :: "string \<Rightarrow> approval_status \<Rightarrow> string \<Rightarrow> instant \<Rightarrow> unit W"

definition mem_create_approval :: "approval_request \<Rightarrow> unit W" where
  "mem_create_approval a = modify (\<lambda>w. w\<lparr>w_approvals := dict_set (w_approvals w) (apr_id a) a\<rparr>)"

definition mem_get_approval :: "string \<Rightarrow> approval_request option W" where
  "mem_get_approval i = gets (\<lambda>w. dict_get (w_approvals w) i)"

definition mem_list_approvals :: "approval_status option \<Rightarrow> approval_request list W" where
  "mem_list_approvals st = gets (\<lambda>w.
     filter (\<lambda>a. st = None \<or> st = Some (apr_status a))
       (sort_key (\<lambda>a. - apr_created_at a) (dict_values (w_approvals w))))"

definition decided :: "approval_status \<Rightarrow> string \<Rightarrow> instant \<Rightarrow> approval_request \<Rightarrow> approval_request" where
  "decided st by_whom at_time a =
     a\<lparr>apr_status := st, apr_decided_by := Some by_whom, apr_decided_at := Some at_time\<rparr>"

definition mem_mark_decided :: "string \<Rightarrow> approval_status \<Rightarrow> string \<Rightarrow> instant \<Rightarrow> unit W" where
  "mem_mark_decided i st by_whom at_time w =
     (case dict_get (w_approvals w) i of
        None \<Rightarrow> (Inl (KeyError i), w)
      | Some a \<Rightarrow>
          (Inr (), w\<lparr>w_approvals := dict_set (w_approvals w) i (decided st by_whom at_time a)\<rparr>))"

definition sql_create_approval :: "approval_request \<Rightarrow> unit W" where
  "sql_create_approval a w =
     (case insert_rows apr_id (w_approvals w) [a] of
        None \<Rightarrow> (Inl (ProviderError ''IntegrityError'' ''''), w)
      | Some d \<Rightarrow> (Inr (), w\<lparr>w_approvals := d\<rparr>))"

definition sql_get_approval :: "string \<Rightarrow> approval_request option W" where
  "sql_get_approval i = gets (\<lambda>w. List.find (\<lambda>a. apr_id a = i) (dict_values (w_approvals w)))"

definition sql_list_approvals :: "approval_status option \<Rightarrow> approval_request list W" where
  "sql_list_approvals st = gets (\<lambda>w.
     let rows = (case st of None \<Rightarrow> dict_values (w_approvals w)
                 | Some s \<Rightarrow> filter (\<lambda>a. apr_status a = s) (dict_values (w_approvals w)))
     in sort_key (\<lambda>a. - apr_created_at a) rows)"

definition sql_mark_decided :: "string \<Rightarrow> approval_status \<Rightarrow> string \<Rightarrow> instant \<Rightarrow> unit W" where
  "sql_mark_decided i st by_whom at_time = bindM require_tenant (\<lambda>t. \<lambda>w.
     let hit = (\<lambda>a. apr_id a = i \<and> owned_row t (apr_tenant_id a))
     in if \<not> list_ex hit (dict_values (w_approvals w)) then (Inl (KeyError i), w)
        else (Inr (), w\<lparr>w_approvals :=
          map (\<lambda>(k, a). if hit a then (k, decided st by_whom at_time a) else (k, a)) (w_approvals w)\<rparr>))"

definition mem_approvals :: approval_backend where
  "mem_approvals =
     \<lparr>ab_create = mem_create_approval, ab_get = mem_get_approval, ab_list = mem_list_approvals,
      ab_mark_decided = mem_mark_decided\<rparr>"

definition sql_approvals :: approval_backend where
  "sql_approvals =
     \<lparr>ab_create = sql_create_approval, ab_get = sql_get_approval, ab_list = sql_list_approvals,
      ab_mark_decided = sql_mark_decided\<rparr>"

section \<open>Documents\<close>

record document_backend =
  db_add :: "document \<Rightarrow> unit W"
  db_get :: "string \<Rightarrow> document option W"
  db_list :: "string \<Rightarrow> document list W"

definition mem_add_document :: "document \<Rightarrow> unit W" where
  "mem_add_document d w =
     (if dict_get (w_documents w) (doc_id d) \<noteq> None
      then (Inl (DocumentAlreadyExists (doc_id d)), w)
      else (Inr (), w\<lparr>w_documents := dict_set (w_documents w) (doc_id d) d\<rparr>))"

definition mem_get_document :: "string \<Rightarrow> document option W" where
  "mem_get_document i = gets (\<lambda>w. dict_get (w_documents w) i)"

definition mem_list_documents :: "string \<Rightarrow> document list W" where
  "mem_list_documents i = gets (\<lambda>w.
     sort_key doc_created_at (filter (\<lambda>d. doc_transaction_id d = i) (dict_values (w_documents w))))"

definition sql_add_document :: "document \<Rightarrow> unit W" where
  "sql_add_document d w =
     (case insert_rows doc_id (w_documents w) [d] of
        None \<Rightarrow> (Inl (DocumentAlreadyExists (doc_id d)), w)
      | Some ds \<Rightarrow> (Inr (), w\<lparr>w_documents := ds\<rparr>))"

definition sql_get_document :: "string \<Rightarrow> document option W" where
  "sql_get_document i = gets (\<lambda>w. List.find (\<lambda>d. doc_id d = i) (dict_values (w_documents w)))"

definition sql_list_documents :: "string \<Rightarrow> document list W" where
  "sql_list_documents i = gets (\<lambda>w.
     sort_key doc_created_at (filter (\<lambda>d. doc_transaction_id d = i) (dict_values (w_documents w))))"

definition mem_documents :: document_backend where
  "mem_documents =
     \<lparr>db_add = mem_add_document, db_get = mem_get_document, db_list = mem_list_documents\<rparr>"

definition sql_documents :: document_backend where
  "sql_documents =
     \<lparr>db_add = sql_add_document, db_get = sql_get_document, db_list = sql_list_documents\<rparr>"

section \<open>Calls and feedback\<close>

record feedback_backend =
  fbk_save_call :: "call_record \<Rightarrow> unit W"
  fbk_get_call :: "string \<Rightarrow> call_record option W"
  fbk_upsert :: "showing_feedback \<Rightarrow> string W"
  fbk_get :: "string \<Rightarrow> showing_feedback option W"
  fbk_list :: "string \<Rightarrow> showing_feedback list W"

definition mem_save_call_record :: "call_record \<Rightarrow> unit W" where
  "mem_save_call_record r =
     modify (\<lambda>w. w\<lparr>w_calls := dict_set (w_calls w) (cr_vapi_call_id r) r\<rparr>)"

definition mem_get_call_record :: "string \<Rightarrow> call_record option W" where
  "mem_get_call_record i = gets (\<lambda>w. dict_get (w_calls w) i)"

definition mem_upsert_feedback :: "showing_feedback \<Rightarrow> string W" where
  "mem_upsert_feedback f =
     thenM (modify (\<lambda>w. w\<lparr>w_feedback := dict_set (w_feedback w) (fb_id f) f\<rparr>)) (ret (fb_id f))"

definition mem_get_feedback :: "string \<Rightarrow> showing_feedback option W" where
  "mem_get_feedback i = gets (\<lambda>w. dict_get (w_feedback w) i)"

definition mem_list_feedback :: "string \<Rightarrow> showing_feedback list W" where
  "mem_list_feedback key = gets (\<lambda>w.
     filter (\<lambda>f. fb_listing_key f = key) (dict_values (w_feedback w)))"

definition mem_feedback :: feedback_backend where
  "mem_feedback =
     \<lparr>fbk_save_call = mem_save_call_record, fbk_get_call = mem_get_call_record,
      fbk_upsert = mem_upsert_feedback, fbk_get = mem_get_feedback, fbk_list = mem_list_feedback\<rparr>"

definition sql_save_call_record :: "call_record \<Rightarrow> unit W" where
  "sql_save_call_record r =
     modify (\<lambda>w. w\<lparr>w_calls := sql_upsert cr_vapi_call_id (w_calls w) r\<rparr>)"

definition sql_get_call_record :: "string \<Rightarrow> call_record option W" where
  "sql_get_call_record i =
     gets (\<lambda>w. List.find (\<lambda>r. cr_vapi_call_id r = i) (dict_values (w_calls w)))"

definition sql_upsert_feedback :: "showing_feedback \<Rightarrow> string W" where
  "sql_upsert_feedback f =
     thenM (modify (\<lambda>w. w\<lparr>w_feedback := sql_upsert fb_id (w_feedback w) f\<rparr>)) (ret (fb_id f))"

definition sql_get_feedback :: "string \<Rightarrow> showing_feedback option W" where
  "sql_get_feedback i = gets (\<lambda>w. List.find (\<lambda>f. fb_id f = i) (dict_values (w_feedback w)))"

definition sql_list_feedback :: "string \<Rightarrow> showing_feedback list W" where
  "sql_list_feedback key = gets (\<lambda>w.
     filter (\<lambda>f. fb_listing_key f = key) (dict_values (w_feedback w)))"

definition sql_feedback :: feedback_backend where
  "sql_feedback =
     \<lparr>fbk_save_call = sql_save_call_record, fbk_get_call = sql_get_call_record,
      fbk_upsert = sql_upsert_feedback, fbk_get = sql_get_feedback, fbk_list = sql_list_feedback\<rparr>"

section \<open>The idempotency keys\<close>

record idempotency_backend =
  ib_begin :: "string \<Rightarrow> idempotency_claim W"
  ib_complete :: "string \<Rightarrow> string \<Rightarrow> unit W"

definition mem_begin :: "string \<Rightarrow> idempotency_claim W" where
  "mem_begin key w =
     (case dict_get (w_idem w) key of
        None \<Rightarrow> (Inr \<lparr>cl_status = ClaimNew, cl_result = None\<rparr>,
                 w\<lparr>w_idem := dict_set (w_idem w) key (ClaimPending, None)\<rparr>)
      | Some (st, res) \<Rightarrow> (Inr \<lparr>cl_status = st, cl_result = res\<rparr>, w))"

definition mem_complete :: "string \<Rightarrow> string \<Rightarrow> unit W" where
  "mem_complete key res =
     modify (\<lambda>w. w\<lparr>w_idem := dict_set (w_idem w) key (ClaimCompleted, Some res)\<rparr>)"

text \<open>The key is the primary key: the insert is the claim, a conflict reads the row.\<close>

definition sql_begin :: "string \<Rightarrow> idempotency_claim W" where
  "sql_begin key w =
     (if key \<notin> set (map fst (w_idem w))
      then (Inr \<lparr>cl_status = ClaimNew, cl_result = None\<rparr>,
            w\<lparr>w_idem := w_idem w @ [(key, (ClaimPending, None))]\<rparr>)
      else (case List.find (\<lambda>(k, _). k = key) (w_idem w) of
              Some (_, st, res) \<Rightarrow> (Inr \<lparr>cl_status = st, cl_result = res\<rparr>, w)
            | None \<Rightarrow> (Inl AssertionError, w)))"

definition sql_complete :: "string \<Rightarrow> string \<Rightarrow> unit W" where
  "sql_complete key res = modify (\<lambda>w. w\<lparr>w_idem :=
     map (\<lambda>(k, row). if k = key then (k, (ClaimCompleted, Some res)) else (k, row)) (w_idem w)\<rparr>)"

definition mem_idempotency :: idempotency_backend where
  "mem_idempotency = \<lparr>ib_begin = mem_begin, ib_complete = mem_complete\<rparr>"

definition sql_idempotency :: idempotency_backend where
  "sql_idempotency = \<lparr>ib_begin = sql_begin, ib_complete = sql_complete\<rparr>"

end
