(* ===== verification/Scoped_Stores.thy ===== *)
theory Scoped_Stores
  imports Stores
begin

text \<open>
  \<open>core/services/scoped_stores.py\<close>: the wrappers that confine every store to the bound tenant.
  Each takes the inner store as a backend record and reads the tenant from the context variable:
  a write of a row claiming another tenant is refused and filed, a by-id mutation reads its
  target first, a by-id read hides another tenant's row, a listing drops them.
\<close>

definition is_foreign :: "string \<Rightarrow> string \<Rightarrow> bool" where
  "is_foreign row_tenant ambient \<longleftrightarrow> row_tenant \<noteq> [] \<and> row_tenant \<noteq> ambient"

text \<open>File a denied access (\<open>_audit_read\<close>, \<open>_audit_foreign\<close>).\<close>

definition audit_foreign :: "string \<Rightarrow> string \<Rightarrow> string \<Rightarrow> unit W" where
  "audit_foreign tool attempted bound =
     record_cross_tenant_attempt (CrossTenantError attempted bound) tool"

text \<open>\<open>enforce_tenant\<close>, with a refusal filed before it is re-raised (\<open>_stamp\<close>).\<close>

definition enforce_audited :: "string \<Rightarrow> string \<Rightarrow> string W" where
  "enforce_audited tool claimed =
     try_except is_cross_tenant (enforce_tenant claimed)
       (\<lambda>err. thenM (record_cross_tenant_attempt err tool) (raise err))"

text \<open>A by-id read's result: another tenant's row is filed and hidden.\<close>

definition confine_read :: "string \<Rightarrow> ('r \<Rightarrow> string) \<Rightarrow> string \<Rightarrow> 'r option \<Rightarrow> 'r option W" where
  "confine_read tool tenant_of ambient row =
     (case row of
        Some r \<Rightarrow>
          if is_foreign (tenant_of r) ambient
          then thenM (audit_foreign tool (tenant_of r) ambient) (ret None)
          else ret (Some r)
      | None \<Rightarrow> ret None)"

text \<open>The check of a by-id mutation: another tenant's target is filed and refused.\<close>

definition refuse_foreign :: "string \<Rightarrow> ('r \<Rightarrow> string) \<Rightarrow> string \<Rightarrow> 'r option \<Rightarrow> unit W" where
  "refuse_foreign tool tenant_of ambient row =
     (case row of
        Some r \<Rightarrow>
          if is_foreign (tenant_of r) ambient
          then thenM (audit_foreign tool (tenant_of r) ambient)
                 (raise (CrossTenantError (tenant_of r) ambient))
          else ret ()
      | None \<Rightarrow> ret ())"

section \<open>Transactions\<close>

definition scoped_create_transaction ::
    "transaction_backend \<Rightarrow> transaction \<Rightarrow> milestone list \<Rightarrow> unit W" where
  "scoped_create_transaction b txn mss =
     bindM (try_except is_cross_tenant
              (bindM (enforce_tenant (txn_tenant_id txn)) (\<lambda>tenant.
               thenM (mapM (\<lambda>m. enforce_tenant (ms_tenant_id m)) mss) (ret tenant)))
              (\<lambda>err. thenM (record_cross_tenant_attempt err ''create_transaction'') (raise err)))
       (\<lambda>tenant. tb_create b (txn\<lparr>txn_tenant_id := tenant\<rparr>)
          (map (\<lambda>m. m\<lparr>ms_tenant_id := tenant\<rparr>) mss))"

definition scoped_get_transaction :: "transaction_backend \<Rightarrow> string \<Rightarrow> transaction option W" where
  "scoped_get_transaction b i =
     bindM require_tenant (\<lambda>ambient.
     bindM (tb_get b i) (confine_read ''get_transaction'' txn_tenant_id ambient))"

definition scoped_get_milestone :: "transaction_backend \<Rightarrow> string \<Rightarrow> milestone option W" where
  "scoped_get_milestone b i =
     bindM require_tenant (\<lambda>ambient.
     bindM (tb_get_milestone b i) (confine_read ''get_milestone'' ms_tenant_id ambient))"

definition scoped_list_active_transactions :: "transaction_backend \<Rightarrow> transaction list W" where
  "scoped_list_active_transactions b =
     bindM require_tenant (\<lambda>ambient.
     bindM (tb_list_active b) (\<lambda>rows. ret (filter (\<lambda>t. \<not> is_foreign (txn_tenant_id t) ambient) rows)))"

definition scoped_list_milestones :: "transaction_backend \<Rightarrow> string \<Rightarrow> milestone list W" where
  "scoped_list_milestones b i =
     bindM require_tenant (\<lambda>ambient.
     bindM (tb_list_milestones b i) (\<lambda>rows.
       ret (filter (\<lambda>m. \<not> is_foreign (ms_tenant_id m) ambient) rows)))"

definition scoped_set_escalation_level :: "transaction_backend \<Rightarrow> string \<Rightarrow> int \<Rightarrow> unit W" where
  "scoped_set_escalation_level b i level =
     bindM require_tenant (\<lambda>ambient.
     bindM (tb_get_milestone b i) (\<lambda>ms.
     thenM (refuse_foreign ''set_escalation_level'' ms_tenant_id ambient ms)
       (tb_set_level b i level)))"

definition scoped_count_transactions :: "transaction_backend \<Rightarrow> nat W" where
  "scoped_count_transactions b = bindM require_tenant (\<lambda>_. tb_count b)"

definition scoped_clear_transactions :: "transaction_backend \<Rightarrow> unit W" where
  "scoped_clear_transactions b = bindM require_tenant (\<lambda>_. tb_clear b)"

section \<open>Calls and feedback\<close>

definition scoped_save_call_record :: "feedback_backend \<Rightarrow> call_record \<Rightarrow> unit W" where
  "scoped_save_call_record b r =
     bindM (enforce_audited ''save_call_record'' (cr_tenant_id r)) (\<lambda>tenant.
     bindM (fbk_get_call b (cr_vapi_call_id r)) (\<lambda>existing.
     thenM (refuse_foreign ''save_call_record'' cr_tenant_id tenant existing)
       (fbk_save_call b (r\<lparr>cr_tenant_id := tenant\<rparr>))))"

definition scoped_get_call_record :: "feedback_backend \<Rightarrow> string \<Rightarrow> call_record option W" where
  "scoped_get_call_record b i =
     bindM require_tenant (\<lambda>ambient.
     bindM (fbk_get_call b i) (confine_read ''get_call_record'' cr_tenant_id ambient))"

definition scoped_upsert_feedback :: "feedback_backend \<Rightarrow> showing_feedback \<Rightarrow> string W" where
  "scoped_upsert_feedback b f =
     bindM (enforce_audited ''upsert_feedback'' (fb_tenant_id f)) (\<lambda>tenant.
     bindM (fbk_get b (fb_id f)) (\<lambda>existing.
     thenM (refuse_foreign ''upsert_feedback'' fb_tenant_id tenant existing)
       (fbk_upsert b (f\<lparr>fb_tenant_id := tenant\<rparr>))))"

definition scoped_get_feedback :: "feedback_backend \<Rightarrow> string \<Rightarrow> showing_feedback option W" where
  "scoped_get_feedback b i =
     bindM require_tenant (\<lambda>ambient.
     bindM (fbk_get b i) (confine_read ''get_feedback'' fb_tenant_id ambient))"

definition scoped_list_feedback :: "feedback_backend \<Rightarrow> string \<Rightarrow> showing_feedback list W" where
  "scoped_list_feedback b key =
     bindM require_tenant (\<lambda>ambient.
     bindM (fbk_list b key) (\<lambda>rows.
       ret (filter (\<lambda>f. \<not> is_foreign (fb_tenant_id f) ambient) rows)))"

section \<open>Messages\<close>

definition scoped_save_message :: "message_backend \<Rightarrow> message \<Rightarrow> unit W" where
  "scoped_save_message b m =
     bindM (enforce_audited ''save_message'' (msg_tenant_id m)) (\<lambda>tenant.
     bindM (mb_get b (msg_id m)) (\<lambda>existing.
     thenM (refuse_foreign ''save_message'' msg_tenant_id tenant existing)
       (mb_save b (m\<lparr>msg_tenant_id := tenant\<rparr>))))"

definition scoped_get_message :: "message_backend \<Rightarrow> string \<Rightarrow> message option W" where
  "scoped_get_message b i =
     bindM require_tenant (\<lambda>ambient.
     bindM (mb_get b i) (confine_read ''get_message'' msg_tenant_id ambient))"

definition scoped_get_message_by_provider_id ::
    "message_backend \<Rightarrow> string \<Rightarrow> message option W" where
  "scoped_get_message_by_provider_id b pid =
     bindM require_tenant (\<lambda>ambient.
     bindM (mb_get_by_provider b pid)
       (confine_read ''get_message_by_provider_id'' msg_tenant_id ambient))"

definition scoped_list_messages ::
    "message_backend \<Rightarrow> string option \<Rightarrow> nat \<Rightarrow> string option \<Rightarrow> message list W" where
  "scoped_list_messages b c limit txn =
     bindM require_tenant (\<lambda>ambient.
     bindM (mb_list b c limit txn) (\<lambda>rows.
       ret (filter (\<lambda>m. \<not> is_foreign (msg_tenant_id m) ambient) rows)))"

definition scoped_advance_message_status ::
    "message_backend \<Rightarrow> string \<Rightarrow> message_status \<Rightarrow> message option W" where
  "scoped_advance_message_status b i st =
     bindM require_tenant (\<lambda>ambient.
     bindM (mb_get b i) (\<lambda>existing.
       case existing of
         None \<Rightarrow> ret None
       | Some m \<Rightarrow>
           if is_foreign (msg_tenant_id m) ambient
           then thenM (audit_foreign ''advance_message_status'' (msg_tenant_id m) ambient) (ret None)
           else mb_advance b i st))"

section \<open>Documents\<close>

definition scoped_add_document :: "document_backend \<Rightarrow> document \<Rightarrow> unit W" where
  "scoped_add_document b d =
     bindM (enforce_audited ''add_document'' (doc_tenant_id d)) (\<lambda>tenant.
     bindM (db_get b (doc_id d)) (\<lambda>existing.
     thenM (refuse_foreign ''add_document'' doc_tenant_id tenant existing)
       (db_add b (d\<lparr>doc_tenant_id := tenant\<rparr>))))"

definition scoped_get_document :: "document_backend \<Rightarrow> string \<Rightarrow> document option W" where
  "scoped_get_document b i =
     bindM require_tenant (\<lambda>ambient.
     bindM (db_get b i) (confine_read ''get_document'' doc_tenant_id ambient))"

definition scoped_list_documents :: "document_backend \<Rightarrow> string \<Rightarrow> document list W" where
  "scoped_list_documents b i =
     bindM require_tenant (\<lambda>ambient.
     bindM (db_list b i) (\<lambda>rows.
       ret (filter (\<lambda>d. \<not> is_foreign (doc_tenant_id d) ambient) rows)))"

section \<open>Approvals\<close>

definition scoped_create_approval :: "approval_backend \<Rightarrow> approval_request \<Rightarrow> unit W" where
  "scoped_create_approval b a =
     bindM (enforce_audited ''create_approval'' (apr_tenant_id a)) (\<lambda>tenant.
       ab_create b (a\<lparr>apr_tenant_id := tenant\<rparr>))"

definition scoped_get_approval :: "approval_backend \<Rightarrow> string \<Rightarrow> approval_request option W" where
  "scoped_get_approval b i =
     bindM require_tenant (\<lambda>ambient.
     bindM (ab_get b i) (confine_read ''get_approval'' apr_tenant_id ambient))"

definition scoped_list_approvals ::
    "approval_backend \<Rightarrow> approval_status option \<Rightarrow> approval_request list W" where
  "scoped_list_approvals b st =
     bindM require_tenant (\<lambda>ambient.
     bindM (ab_list b st) (\<lambda>rows.
       ret (filter (\<lambda>a. \<not> is_foreign (apr_tenant_id a) ambient) rows)))"

definition scoped_mark_decided ::
    "approval_backend \<Rightarrow> string \<Rightarrow> approval_status \<Rightarrow> string \<Rightarrow> instant \<Rightarrow> unit W" where
  "scoped_mark_decided b i st by_whom at_time =
     bindM require_tenant (\<lambda>ambient.
     bindM (ab_get b i) (\<lambda>existing.
     thenM (refuse_foreign ''mark_decided'' apr_tenant_id ambient existing)
       (ab_mark_decided b i st by_whom at_time)))"

end
