(* ===== verification/Store_Laws.thy ===== *)
theory Store_Laws
  imports Scoped_Stores
begin

text \<open>
  The contracts of the persistence ports as locales, discharged for the in-memory and for the SQL
  implementation: on tables that hold each row under its own key both are the dictionary the
  port describes. The scoping wrappers are proved against the contracts only.
\<close>

section \<open>Well-formed tables\<close>

definition tables_ok :: "world \<Rightarrow> bool" where
  "tables_ok w \<longleftrightarrow>
     keyed msg_id (w_messages w) \<and> keyed txn_id (w_transactions w) \<and>
     keyed ms_id (w_milestones w) \<and> keyed doc_id (w_documents w) \<and>
     keyed cr_vapi_call_id (w_calls w) \<and> keyed fb_id (w_feedback w) \<and>
     keyed apr_id (w_approvals w)"

lemma tables_ok_only_logs: "only_logs w w' \<Longrightarrow> tables_ok w' \<longleftrightarrow> tables_ok w"
  by (simp add: tables_ok_def only_logs_same)

section \<open>The message store\<close>

locale message_store =
  fixes b :: message_backend
  assumes get_run: "tables_ok w \<Longrightarrow> mb_get b i w = (Inr (dict_get (w_messages w) i), w)"
    and save_run: "tables_ok w \<Longrightarrow>
      mb_save b m w = (Inr (), w\<lparr>w_messages := dict_set (w_messages w) (msg_id m) m\<rparr>)"
    and advance_run: "tables_ok w \<Longrightarrow> mb_advance b i st w = mem_advance_message_status i st w"
    and provider_run: "tables_ok w \<Longrightarrow>
      mb_get_by_provider b pid w = mem_get_message_by_provider_id pid w"
    and list_run: "tables_ok w \<Longrightarrow>
      \<exists>rows. mb_list b c n txn w = (Inr rows, w) \<and> set rows \<subseteq> set (dict_values (w_messages w))"

lemma mem_list_messages_rows:
  "\<exists>rows. mem_list_messages c n txn w = (Inr rows, w) \<and> set rows \<subseteq> set (dict_values (w_messages w))"
  by (auto simp: mem_list_messages_def monad dest: in_set_takeD)

lemma sql_list_messages_rows:
  "\<exists>rows. sql_list_messages c n txn w = (Inr rows, w) \<and> set rows \<subseteq> set (dict_values (w_messages w))"
  by (auto simp: sql_list_messages_def monad Let_def dest!: in_set_takeD split: option.splits)

interpretation mem_msg: message_store mem_messages
proof
qed (simp_all add: mem_messages_def mem_get_message_def mem_save_message_def monad
      mem_list_messages_rows)

lemma set_lower_ranked: "s \<in> set (lower_ranked st) \<longleftrightarrow> status_rank s < status_rank st"
  by (simp add: lower_ranked_def)

lemma sql_get_message_run:
  "keyed msg_id (w_messages w) \<Longrightarrow> sql_get_message i w = (Inr (dict_get (w_messages w) i), w)"
  by (simp add: sql_get_message_def monad find_keyed)

lemma sql_upsert_keyed:
  assumes "keyed key d"
  shows "sql_upsert key d v = dict_set d (key v) v"
proof (cases "dict_get d (key v)")
  case None
  with assms show ?thesis by (simp add: sql_upsert_def find_keyed append_fresh)
next
  case (Some r)
  with map_keyed [OF assms Some, of "\<lambda>_. True" "\<lambda>_. v"] assms show ?thesis
    by (simp add: sql_upsert_def find_keyed)
qed

lemma sql_save_message_run:
  "keyed msg_id (w_messages w) \<Longrightarrow>
   sql_save_message m w = (Inr (), w\<lparr>w_messages := dict_set (w_messages w) (msg_id m) m\<rparr>)"
  by (simp add: sql_save_message_def monad sql_upsert_keyed)

lemma sql_advance_run:
  assumes ok: "keyed msg_id (w_messages w)"
  shows "sql_advance_message_status i st w = mem_advance_message_status i st w"
proof (cases "dict_get (w_messages w) i")
  case None
  with ok map_keyed_miss [OF ok, of i "\<lambda>r. msg_status r \<in> set (lower_ranked st)"]
  show ?thesis
    by (simp add: sql_advance_message_status_def mem_advance_message_status_def monad
        sql_get_message_run)
next
  case (Some r)
  show ?thesis
  proof (cases "status_rank (msg_status r) < status_rank st")
    case True
    let ?d = "dict_set (w_messages w) i (r\<lparr>msg_status := st\<rparr>)"
    have "keyed msg_id ?d"
      using ok Some by (intro keyed_set) (auto dest: keyed_get)
    with ok Some True map_keyed [OF ok Some, of "\<lambda>r. msg_status r \<in> set (lower_ranked st)"
        "\<lambda>r. r\<lparr>msg_status := st\<rparr>"]
    show ?thesis
      by (simp add: sql_advance_message_status_def mem_advance_message_status_def monad
          sql_get_message_run set_lower_ranked Let_def)
  next
    case False
    with ok Some map_keyed_miss [OF ok, of i "\<lambda>r. msg_status r \<in> set (lower_ranked st)"]
    show ?thesis
      by (simp add: sql_advance_message_status_def mem_advance_message_status_def monad
          sql_get_message_run set_lower_ranked)
  qed
qed

interpretation sql_msg: message_store sql_messages
proof
  fix w :: world
  assume ok: "tables_ok w"
  then have k: "keyed msg_id (w_messages w)" by (simp add: tables_ok_def)
  show "mb_get sql_messages i w = (Inr (dict_get (w_messages w) i), w)" for i
    by (simp add: sql_messages_def sql_get_message_run k)
  show "mb_save sql_messages m w = (Inr (), w\<lparr>w_messages := dict_set (w_messages w) (msg_id m) m\<rparr>)" for m
    by (simp add: sql_messages_def sql_save_message_run k)
  show "mb_advance sql_messages i st w = mem_advance_message_status i st w" for i st
    by (simp add: sql_messages_def sql_advance_run k)
  show "mb_get_by_provider sql_messages pid w = mem_get_message_by_provider_id pid w" for pid
    by (simp add: sql_messages_def sql_get_message_by_provider_id_def
        mem_get_message_by_provider_id_def)
  show "\<exists>rows. mb_list sql_messages c n txn w = (Inr rows, w) \<and>
      set rows \<subseteq> set (dict_values (w_messages w))" for c n txn
    by (simp add: sql_messages_def sql_list_messages_rows)
qed

section \<open>The transaction store\<close>

definition milestones_fresh :: "world \<Rightarrow> milestone list \<Rightarrow> bool" where
  "milestones_fresh w mss \<longleftrightarrow>
     distinct (map ms_id mss) \<and> (\<forall>m \<in> set mss. dict_get (w_milestones w) (ms_id m) = None)"

definition add_milestones :: "(string, milestone) dict \<Rightarrow> milestone list \<Rightarrow> (string, milestone) dict" where
  "add_milestones d mss = foldl (\<lambda>d m. dict_set d (ms_id m) m) d mss"

locale transaction_store =
  fixes b :: transaction_backend
  assumes get_run: "tables_ok w \<Longrightarrow> tb_get b i w = (Inr (dict_get (w_transactions w) i), w)"
    and get_milestone_run: "tables_ok w \<Longrightarrow>
      tb_get_milestone b i w = (Inr (dict_get (w_milestones w) i), w)"
    and list_active_run: "tables_ok w \<Longrightarrow>
      tb_list_active b w = (Inr (filter txn_is_active (dict_values (w_transactions w))), w)"
    and list_milestones_run: "tables_ok w \<Longrightarrow> tb_list_milestones b i w =
      (Inr (sort_key ms_due_date
        (filter (\<lambda>m. ms_transaction_id m = i) (dict_values (w_milestones w)))), w)"
    and set_level_run: "tables_ok w \<Longrightarrow> w_tenant w = Some t \<Longrightarrow>
      dict_get (w_milestones w) i = Some m \<Longrightarrow> \<not> is_foreign (ms_tenant_id m) t \<Longrightarrow>
      tb_set_level b i level w =
        (Inr (), w\<lparr>w_milestones := dict_set (w_milestones w) i (m\<lparr>ms_escalation_level := level\<rparr>)\<rparr>)"
    and set_level_missing: "tables_ok w \<Longrightarrow> w_tenant w = Some t \<Longrightarrow>
      dict_get (w_milestones w) i = None \<Longrightarrow> tb_set_level b i level w = (Inl (KeyError i), w)"
    and create_present: "tables_ok w \<Longrightarrow> dict_get (w_transactions w) (txn_id x) \<noteq> None \<Longrightarrow>
      tb_create b x mss w = (Inl (TransactionAlreadyExists (txn_id x)), w)"
    and create_fresh: "tables_ok w \<Longrightarrow> dict_get (w_transactions w) (txn_id x) = None \<Longrightarrow>
      milestones_fresh w mss \<Longrightarrow>
      tb_create b x mss w =
        (Inr (), w\<lparr>w_transactions := dict_set (w_transactions w) (txn_id x) x,
                  w_milestones := add_milestones (w_milestones w) mss\<rparr>)"
    and count_run: "tables_ok w \<Longrightarrow> tb_count b w = mem_count_transactions w"
    and clear_run: "tables_ok w \<Longrightarrow> tb_clear b w = mem_clear_transactions w"

text \<open>
  A store whose milestone ids are a primary key as well refuses a whole creation that would
  reuse one; the in-memory store overwrites the row instead.
\<close>

locale keyed_transaction_store = transaction_store +
  assumes create_clash: "tables_ok w \<Longrightarrow> dict_get (w_transactions w) (txn_id x) = None \<Longrightarrow>
      \<not> milestones_fresh w mss \<Longrightarrow>
      tb_create b x mss w = (Inl (TransactionAlreadyExists (txn_id x)), w)"

interpretation mem_txn: transaction_store mem_transactions
proof
  fix w :: world
  show "tb_get mem_transactions i w = (Inr (dict_get (w_transactions w) i), w)" for i
    by (simp add: mem_transactions_def mem_get_transaction_def)
  show "tb_get_milestone mem_transactions i w = (Inr (dict_get (w_milestones w) i), w)" for i
    by (simp add: mem_transactions_def mem_get_milestone_def)
  show "tb_list_active mem_transactions w =
      (Inr (filter txn_is_active (dict_values (w_transactions w))), w)"
    by (simp add: mem_transactions_def mem_list_active_transactions_def)
  show "tb_list_milestones mem_transactions i w = (Inr (sort_key ms_due_date
      (filter (\<lambda>m. ms_transaction_id m = i) (dict_values (w_milestones w)))), w)" for i
    by (simp add: mem_transactions_def mem_list_milestones_def)
  show "tb_set_level mem_transactions i level w =
      (Inr (), w\<lparr>w_milestones := dict_set (w_milestones w) i (m\<lparr>ms_escalation_level := level\<rparr>)\<rparr>)"
    if "dict_get (w_milestones w) i = Some m" for i m level
    using that by (simp add: mem_transactions_def mem_set_escalation_level_def)
  show "tb_set_level mem_transactions i level w = (Inl (KeyError i), w)"
    if "dict_get (w_milestones w) i = None" for i level
    using that by (simp add: mem_transactions_def mem_set_escalation_level_def)
  show "tb_create mem_transactions x mss w = (Inl (TransactionAlreadyExists (txn_id x)), w)"
    if "dict_get (w_transactions w) (txn_id x) \<noteq> None" for x mss
    using that by (simp only: mem_transactions_def transaction_backend.simps
        mem_create_transaction_def not_False_eq_True if_True)
  show "tb_create mem_transactions x mss w =
      (Inr (), w\<lparr>w_transactions := dict_set (w_transactions w) (txn_id x) x,
                w_milestones := add_milestones (w_milestones w) mss\<rparr>)"
    if "dict_get (w_transactions w) (txn_id x) = None" for x mss
    using that by (simp add: mem_transactions_def mem_create_transaction_def add_milestones_def)
  show "tb_count mem_transactions w = mem_count_transactions w"
    by (simp add: mem_transactions_def)
  show "tb_clear mem_transactions w = mem_clear_transactions w"
    by (simp add: mem_transactions_def)
qed

lemma insert_rows_Some:
  "distinct (map key rs) \<Longrightarrow> \<forall>r \<in> set rs. dict_get d (key r) = None \<Longrightarrow>
   insert_rows key d rs = Some (foldl (\<lambda>d r. dict_set d (key r) r) d rs)"
proof (induction rs arbitrary: d)
  case Nil
  then show ?case by simp
next
  case (Cons r rs)
  then have a: "\<forall>x \<in> set rs. dict_get (dict_set d (key r) r) (key x) = None"
    by (metis (no_types, lifting) dict_get_set distinct.simps(2) image_eqI list.set_intros(2)
        list.simps(9) set_map)
  have b: "d @ [(key r, r)] = dict_set d (key r) r"
    using Cons.prems by (intro append_fresh) auto
  show ?case using Cons.IH [OF _ a] Cons.prems b by simp
qed

lemma insert_rows_None:
  "\<not> (distinct (map key rs) \<and> (\<forall>r \<in> set rs. dict_get d (key r) = None)) \<Longrightarrow>
   insert_rows key d rs = None"
proof (induction rs arbitrary: d)
  case Nil
  then show ?case by simp
next
  case (Cons r rs)
  show ?case
  proof (cases "dict_get d (key r)")
    case None
    let ?d = "dict_set d (key r) r"
    have "\<not> (distinct (map key rs) \<and> (\<forall>x \<in> set rs. dict_get ?d (key x) = None))"
      using Cons.prems None by (auto split: if_splits)
    then have "insert_rows key ?d rs = None" by (rule Cons.IH)
    with None show ?thesis by (simp add: append_fresh)
  next
    case (Some a)
    then show ?thesis by simp
  qed
qed

lemma sql_set_level_run:
  assumes ok: "keyed ms_id (w_milestones w)" and t: "w_tenant w = Some t"
    and m: "dict_get (w_milestones w) i = Some m" and own: "\<not> is_foreign (ms_tenant_id m) t"
  shows "sql_set_escalation_level i level w =
    (Inr (), w\<lparr>w_milestones := dict_set (w_milestones w) i (m\<lparr>ms_escalation_level := level\<rparr>)\<rparr>)"
proof -
  have o: "owned_row t (ms_tenant_id m)"
    using own by (auto simp: is_foreign_def owned_row_def)
  have "m \<in> set (dict_values (w_milestones w))" and "ms_id m = i"
    using m ok by (auto dest: dict_get_values keyed_get)
  with o have hit: "list_ex (\<lambda>m. ms_id m = i \<and> owned_row t (ms_tenant_id m)) (dict_values (w_milestones w))"
    by (auto simp: list_ex_iff)
  show ?thesis
    using hit map_keyed [OF ok m, of "\<lambda>m. owned_row t (ms_tenant_id m)" "\<lambda>m. m\<lparr>ms_escalation_level := level\<rparr>"] o
    by (simp add: sql_set_escalation_level_def monad t Let_def)
qed

lemma sql_set_level_missing:
  assumes ok: "keyed ms_id (w_milestones w)" and t: "w_tenant w = Some t"
    and m: "dict_get (w_milestones w) i = None"
  shows "sql_set_escalation_level i level w = (Inl (KeyError i), w)"
proof -
  have "\<not> list_ex (\<lambda>m. ms_id m = i \<and> owned_row t (ms_tenant_id m)) (dict_values (w_milestones w))"
    using ok m by (auto simp: list_ex_iff dict_values_def keyed_def dict_get_def dict_ok_def)
  then show ?thesis by (simp add: sql_set_escalation_level_def monad t Let_def)
qed

interpretation sql_txn: keyed_transaction_store sql_transactions
proof
  fix w :: world
  assume ok: "tables_ok w"
  then have kt: "keyed txn_id (w_transactions w)" and km: "keyed ms_id (w_milestones w)"
    by (simp_all add: tables_ok_def)
  show "tb_get sql_transactions i w = (Inr (dict_get (w_transactions w) i), w)" for i
    by (simp add: sql_transactions_def sql_get_transaction_def monad find_keyed kt)
  show "tb_get_milestone sql_transactions i w = (Inr (dict_get (w_milestones w) i), w)" for i
    by (simp add: sql_transactions_def sql_get_milestone_def monad find_keyed km)
  show "tb_list_active sql_transactions w =
      (Inr (filter txn_is_active (dict_values (w_transactions w))), w)"
    by (simp add: sql_transactions_def sql_list_active_transactions_def monad txn_is_active_def [abs_def])
  show "tb_list_milestones sql_transactions i w = (Inr (sort_key ms_due_date
      (filter (\<lambda>m. ms_transaction_id m = i) (dict_values (w_milestones w)))), w)" for i
    by (simp add: sql_transactions_def sql_list_milestones_def monad)
  show "tb_set_level sql_transactions i level w =
      (Inr (), w\<lparr>w_milestones := dict_set (w_milestones w) i (m\<lparr>ms_escalation_level := level\<rparr>)\<rparr>)"
    if "w_tenant w = Some t" "dict_get (w_milestones w) i = Some m" "\<not> is_foreign (ms_tenant_id m) t"
    for t i m level
    using sql_set_level_run [OF km that] by (simp add: sql_transactions_def)
  show "tb_set_level sql_transactions i level w = (Inl (KeyError i), w)"
    if "w_tenant w = Some t" "dict_get (w_milestones w) i = None" for t i level
    using sql_set_level_missing [OF km that] by (simp add: sql_transactions_def)
  show "tb_create sql_transactions x mss w = (Inl (TransactionAlreadyExists (txn_id x)), w)"
    if "dict_get (w_transactions w) (txn_id x) \<noteq> None" for x mss
    using that by (auto simp: sql_transactions_def sql_create_transaction_def)
  show "tb_create sql_transactions x mss w =
      (Inr (), w\<lparr>w_transactions := dict_set (w_transactions w) (txn_id x) x,
                w_milestones := add_milestones (w_milestones w) mss\<rparr>)"
    if "dict_get (w_transactions w) (txn_id x) = None" "milestones_fresh w mss" for x mss
    using that by (simp add: sql_transactions_def sql_create_transaction_def milestones_fresh_def
        insert_rows_Some append_fresh add_milestones_def)
  show "tb_create sql_transactions x mss w = (Inl (TransactionAlreadyExists (txn_id x)), w)"
    if "dict_get (w_transactions w) (txn_id x) = None" "\<not> milestones_fresh w mss" for x mss
    using that insert_rows_None [of ms_id mss "w_milestones w"]
    by (simp add: sql_transactions_def sql_create_transaction_def milestones_fresh_def)
  show "tb_count sql_transactions w = mem_count_transactions w"
    by (simp add: sql_transactions_def sql_count_transactions_def mem_count_transactions_def)
  show "tb_clear sql_transactions w = mem_clear_transactions w"
    by (simp add: sql_transactions_def sql_clear_transactions_def mem_clear_transactions_def
        require_tenant_def monad split: option.splits)
qed

section \<open>Documents\<close>

locale document_store =
  fixes b :: document_backend
  assumes get_run: "tables_ok w \<Longrightarrow> db_get b i w = (Inr (dict_get (w_documents w) i), w)"
    and add_present: "tables_ok w \<Longrightarrow> dict_get (w_documents w) (doc_id d) \<noteq> None \<Longrightarrow>
      db_add b d w = (Inl (DocumentAlreadyExists (doc_id d)), w)"
    and add_fresh: "tables_ok w \<Longrightarrow> dict_get (w_documents w) (doc_id d) = None \<Longrightarrow>
      db_add b d w = (Inr (), w\<lparr>w_documents := dict_set (w_documents w) (doc_id d) d\<rparr>)"
    and list_run: "tables_ok w \<Longrightarrow> db_list b i w =
      (Inr (sort_key doc_created_at
        (filter (\<lambda>d. doc_transaction_id d = i) (dict_values (w_documents w)))), w)"

interpretation mem_doc: document_store mem_documents
  by unfold_locales (simp_all add: mem_documents_def mem_get_document_def mem_add_document_def
      mem_list_documents_def monad)

interpretation sql_doc: document_store sql_documents
  by unfold_locales (auto simp: sql_documents_def sql_get_document_def sql_add_document_def
      sql_list_documents_def monad find_keyed tables_ok_def append_fresh)

section \<open>Approvals\<close>

locale approval_store =
  fixes b :: approval_backend
  assumes get_run: "tables_ok w \<Longrightarrow> ab_get b i w = (Inr (dict_get (w_approvals w) i), w)"
    and list_run: "tables_ok w \<Longrightarrow>
      ab_list b status w = mem_list_approvals status w"
    and mark_run: "tables_ok w \<Longrightarrow> w_tenant w = Some t \<Longrightarrow>
      dict_get (w_approvals w) i = Some a \<Longrightarrow> \<not> is_foreign (apr_tenant_id a) t \<Longrightarrow>
      ab_mark_decided b i st who at_time w =
        (Inr (), w\<lparr>w_approvals := dict_set (w_approvals w) i (decided st who at_time a)\<rparr>)"
    and mark_missing: "tables_ok w \<Longrightarrow> w_tenant w = Some t \<Longrightarrow>
      dict_get (w_approvals w) i = None \<Longrightarrow>
      ab_mark_decided b i st who at_time w = (Inl (KeyError i), w)"
    and create_fresh: "tables_ok w \<Longrightarrow> dict_get (w_approvals w) (apr_id a) = None \<Longrightarrow>
      ab_create b a w = (Inr (), w\<lparr>w_approvals := dict_set (w_approvals w) (apr_id a) a\<rparr>)"

locale keyed_approval_store = approval_store +
  assumes create_clash: "tables_ok w \<Longrightarrow> dict_get (w_approvals w) (apr_id a) \<noteq> None \<Longrightarrow>
      \<exists>e. ab_create b a w = (Inl e, w)"

interpretation mem_apr: approval_store mem_approvals
  by unfold_locales (simp_all add: mem_approvals_def mem_get_approval_def mem_create_approval_def
      mem_mark_decided_def monad)

lemma sql_list_approvals_mem: "sql_list_approvals st w = mem_list_approvals st w"
  by (cases st) (simp_all add: sql_list_approvals_def mem_list_approvals_def monad filter_sort
      eq_commute)

lemma sql_mark_decided_run:
  assumes ok: "keyed apr_id (w_approvals w)" and t: "w_tenant w = Some t"
    and a: "dict_get (w_approvals w) i = Some a" and own: "\<not> is_foreign (apr_tenant_id a) t"
  shows "sql_mark_decided i st who at_time w =
    (Inr (), w\<lparr>w_approvals := dict_set (w_approvals w) i (decided st who at_time a)\<rparr>)"
proof -
  have o: "owned_row t (apr_tenant_id a)"
    using own by (auto simp: is_foreign_def owned_row_def)
  have "a \<in> set (dict_values (w_approvals w))" and "apr_id a = i"
    using a ok by (auto dest: dict_get_values keyed_get)
  with o have hit: "list_ex (\<lambda>a. apr_id a = i \<and> owned_row t (apr_tenant_id a)) (dict_values (w_approvals w))"
    by (auto simp: list_ex_iff)
  show ?thesis
    using hit map_keyed [OF ok a, of "\<lambda>a. owned_row t (apr_tenant_id a)" "decided st who at_time"] o
    by (simp add: sql_mark_decided_def monad t Let_def)
qed

lemma sql_mark_decided_missing:
  assumes ok: "keyed apr_id (w_approvals w)" and t: "w_tenant w = Some t"
    and a: "dict_get (w_approvals w) i = None"
  shows "sql_mark_decided i st who at_time w = (Inl (KeyError i), w)"
proof -
  have "\<not> list_ex (\<lambda>a. apr_id a = i \<and> owned_row t (apr_tenant_id a)) (dict_values (w_approvals w))"
    using ok a by (auto simp: list_ex_iff dict_values_def keyed_def dict_get_def dict_ok_def)
  then show ?thesis by (simp add: sql_mark_decided_def monad t Let_def)
qed

interpretation sql_apr: keyed_approval_store sql_approvals
proof
  fix w :: world
  assume ok: "tables_ok w"
  then have k: "keyed apr_id (w_approvals w)" by (simp add: tables_ok_def)
  show "ab_get sql_approvals i w = (Inr (dict_get (w_approvals w) i), w)" for i
    by (simp add: sql_approvals_def sql_get_approval_def monad find_keyed k)
  show "ab_list sql_approvals st w = mem_list_approvals st w" for st
    by (simp add: sql_approvals_def sql_list_approvals_mem)
  show "ab_mark_decided sql_approvals i st who at_time w =
      (Inr (), w\<lparr>w_approvals := dict_set (w_approvals w) i (decided st who at_time a)\<rparr>)"
    if "w_tenant w = Some t" "dict_get (w_approvals w) i = Some a" "\<not> is_foreign (apr_tenant_id a) t"
    for t i a st who at_time
    using sql_mark_decided_run [OF k that] by (simp add: sql_approvals_def)
  show "ab_mark_decided sql_approvals i st who at_time w = (Inl (KeyError i), w)"
    if "w_tenant w = Some t" "dict_get (w_approvals w) i = None" for t i st who at_time
    using sql_mark_decided_missing [OF k that] by (simp add: sql_approvals_def)
  show "ab_create sql_approvals a w = (Inr (), w\<lparr>w_approvals := dict_set (w_approvals w) (apr_id a) a\<rparr>)"
    if "dict_get (w_approvals w) (apr_id a) = None" for a
    using that by (simp add: sql_approvals_def sql_create_approval_def append_fresh)
  show "\<exists>e. ab_create sql_approvals a w = (Inl e, w)"
    if "dict_get (w_approvals w) (apr_id a) \<noteq> None" for a
    using that by (auto simp: sql_approvals_def sql_create_approval_def)
qed

section \<open>Calls and feedback\<close>

locale feedback_store =
  fixes b :: feedback_backend
  assumes get_call_run: "tables_ok w \<Longrightarrow> fbk_get_call b i w = (Inr (dict_get (w_calls w) i), w)"
    and save_call_run: "tables_ok w \<Longrightarrow> fbk_save_call b r w =
      (Inr (), w\<lparr>w_calls := dict_set (w_calls w) (cr_vapi_call_id r) r\<rparr>)"
    and get_run: "tables_ok w \<Longrightarrow> fbk_get b i w = (Inr (dict_get (w_feedback w) i), w)"
    and upsert_run: "tables_ok w \<Longrightarrow> fbk_upsert b f w =
      (Inr (fb_id f), w\<lparr>w_feedback := dict_set (w_feedback w) (fb_id f) f\<rparr>)"
    and list_run: "tables_ok w \<Longrightarrow> fbk_list b key w =
      (Inr (filter (\<lambda>f. fb_listing_key f = key) (dict_values (w_feedback w))), w)"

interpretation mem_fbk: feedback_store mem_feedback
  by unfold_locales (simp_all add: mem_feedback_def mem_get_call_record_def
      mem_save_call_record_def mem_get_feedback_def mem_upsert_feedback_def mem_list_feedback_def
      monad)

interpretation sql_fbk: feedback_store sql_feedback
  by unfold_locales (simp_all add: sql_feedback_def sql_get_call_record_def
      sql_save_call_record_def sql_get_feedback_def sql_upsert_feedback_def sql_list_feedback_def
      monad find_keyed sql_upsert_keyed tables_ok_def)

end
