(* ===== verification/Confinement.thy ===== *)
theory Confinement
  imports Store_Laws
begin

text \<open>
  What the scoping wrappers guarantee, proved against the store contracts: every wrapped
  operation on every branch (\<open>*_run\<close> lemmas), then the confinement of any sequence of
  operations under one bound tenant: rows of other tenants are neither returned, changed,
  added nor removed.
\<close>

section \<open>Filing a denied access\<close>

definition filed :: "string \<Rightarrow> string \<Rightarrow> string \<Rightarrow> world \<Rightarrow> world" where
  "filed tool attempted bound w = snd (audit_foreign tool attempted bound w)"

lemma audit_foreign_run [simp]: "audit_foreign tool a b w = (Inr (), filed tool a b w)"
  by (simp add: filed_def audit_foreign_def record_cross_tenant_attempt_def monad world
      audit_record_def)

lemma record_attempt_run [simp]:
  "record_cross_tenant_attempt (CrossTenantError a b) tool w = (Inr (), filed tool a b w)"
  using audit_foreign_run [of tool a b w] by (simp add: audit_foreign_def)

text \<open>The one ledger record a denial adds.\<close>

definition denial :: "string \<Rightarrow> string \<Rightarrow> string \<Rightarrow> world \<Rightarrow> world \<Rightarrow> bool" where
  "denial tool a b w w' \<longleftrightarrow>
     only_logs w w' \<and> (\<exists>r. w_ledger w' = w_ledger w @ [r] \<and> is_security_event tool a b r)"

lemma filed_denial: "denial tool a b w (filed tool a b w)"
proof -
  obtain r w' where "record_cross_tenant_attempt (CrossTenantError a b) tool w = (Inr (), w')"
    and "w_ledger w' = w_ledger w @ [r]" and "is_security_event tool a b r" and "only_logs w w'"
    by (rule record_cross_tenant_attempt_run [of "CrossTenantError a b" a b tool w]) auto
  then show ?thesis by (auto simp: denial_def)
qed

lemma denial_logs: "denial tool a b w w' \<Longrightarrow> only_logs w w'"
  by (simp add: denial_def)

lemmas filed_logs = denial_logs [OF filed_denial]

lemma filed_same [simp]:
  "w_messages (filed x a b w) = w_messages w" "w_transactions (filed x a b w) = w_transactions w"
  "w_milestones (filed x a b w) = w_milestones w" "w_documents (filed x a b w) = w_documents w"
  "w_calls (filed x a b w) = w_calls w" "w_feedback (filed x a b w) = w_feedback w"
  "w_approvals (filed x a b w) = w_approvals w" "w_tenant (filed x a b w) = w_tenant w"
  by (simp_all add: only_logs_same [OF filed_logs])

lemma tables_ok_filed [simp]: "tables_ok (filed x a b w) \<longleftrightarrow> tables_ok w"
  by (simp add: tables_ok_def)

section \<open>The wrappers' shared steps\<close>

lemma enforce_audited_run:
  "w_tenant w = Some t \<Longrightarrow> enforce_audited tool c w =
     (if is_foreign c t then (Inl (CrossTenantError c t), filed tool c t w) else (Inr t, w))"
  by (auto simp: enforce_audited_def enforce_tenant_Some monad is_foreign_def)

lemma confine_read_run:
  "confine_read tool f t row w =
     (case row of
        Some r \<Rightarrow> if is_foreign (f r) t then (Inr None, filed tool (f r) t w) else (Inr (Some r), w)
      | None \<Rightarrow> (Inr None, w))"
  by (simp add: confine_read_def monad split: option.splits)

lemma refuse_foreign_run:
  "refuse_foreign tool f t row w =
     (case row of
        Some r \<Rightarrow> if is_foreign (f r) t
          then (Inl (CrossTenantError (f r) t), filed tool (f r) t w) else (Inr (), w)
      | None \<Rightarrow> (Inr (), w))"
  by (simp add: refuse_foreign_def monad split: option.splits)

lemmas scoping = enforce_audited_run confine_read_run refuse_foreign_run

lemma not_foreign_self [simp]: "\<not> is_foreign t t"
  by (simp add: is_foreign_def)

text \<open>A denied by-id read: hidden and filed. A denied write: refused and filed.\<close>

definition hide :: "string \<Rightarrow> string \<Rightarrow> string \<Rightarrow> world \<Rightarrow> (exn + 'r option) \<times> world" where
  "hide tool a t w = (Inr None, filed tool a t w)"

definition deny :: "string \<Rightarrow> string \<Rightarrow> string \<Rightarrow> world \<Rightarrow> (exn + 'r) \<times> world" where
  "deny tool a t w = (Inl (CrossTenantError a t), filed tool a t w)"

text \<open>The tenant that owns the row a key names, when that is another tenant.\<close>

definition foreign_owner :: "('r \<Rightarrow> string) \<Rightarrow> string \<Rightarrow> 'r option \<Rightarrow> string option" where
  "foreign_owner f t row =
     (case row of Some r \<Rightarrow> if is_foreign (f r) t then Some (f r) else None | None \<Rightarrow> None)"

lemma foreign_owner_Some:
  "foreign_owner f t row = Some a \<longleftrightarrow> (\<exists>r. row = Some r \<and> a = f r \<and> is_foreign (f r) t)"
  by (auto simp: foreign_owner_def split: option.splits)

lemma foreign_owner_None:
  "foreign_owner f t row = None \<longleftrightarrow> (\<forall>r. row = Some r \<longrightarrow> \<not> is_foreign (f r) t)"
  by (auto simp: foreign_owner_def split: option.splits)

definition claim_owner :: "string \<Rightarrow> string \<Rightarrow> string option" where
  "claim_owner c t = (if is_foreign c t then Some c else None)"

lemma refuse_foreign_owner:
  "refuse_foreign tool f t row w =
     (case foreign_owner f t row of Some a \<Rightarrow> deny tool a t w | None \<Rightarrow> (Inr (), w))"
  by (simp add: refuse_foreign_run foreign_owner_def deny_def split: option.splits)

lemma confine_read_owner:
  "confine_read tool f t row w =
     (case foreign_owner f t row of Some a \<Rightarrow> hide tool a t w | None \<Rightarrow> (Inr row, w))"
  by (simp add: confine_read_run foreign_owner_def hide_def split: option.splits)

section \<open>Every wrapped operation, branch by branch\<close>

context message_store
begin

lemma scoped_get_run:
  "tables_ok w \<Longrightarrow> w_tenant w = Some t \<Longrightarrow> scoped_get_message b i w =
     (case foreign_owner msg_tenant_id t (dict_get (w_messages w) i) of
        Some a \<Rightarrow> hide ''get_message'' a t w | None \<Rightarrow> (Inr (dict_get (w_messages w) i), w))"
  by (simp add: scoped_get_message_def monad get_run confine_read_owner)

lemma scoped_save_run:
  "tables_ok w \<Longrightarrow> w_tenant w = Some t \<Longrightarrow> scoped_save_message b m w =
     (if is_foreign (msg_tenant_id m) t then deny ''save_message'' (msg_tenant_id m) t w
      else case foreign_owner msg_tenant_id t (dict_get (w_messages w) (msg_id m)) of
        Some a \<Rightarrow> deny ''save_message'' a t w
      | None \<Rightarrow> (Inr (), w\<lparr>w_messages :=
          dict_set (w_messages w) (msg_id m) (m\<lparr>msg_tenant_id := t\<rparr>)\<rparr>))"
  by (simp add: scoped_save_message_def monad enforce_audited_run get_run refuse_foreign_owner
      save_run deny_def split: option.splits)

lemma scoped_provider_run:
  "tables_ok w \<Longrightarrow> w_tenant w = Some t \<Longrightarrow> scoped_get_message_by_provider_id b pid w =
     (case mem_get_message_by_provider_id pid w of
        (Inr row, _) \<Rightarrow>
          (case foreign_owner msg_tenant_id t row of
             Some a \<Rightarrow> hide ''get_message_by_provider_id'' a t w | None \<Rightarrow> (Inr row, w))
      | (Inl e, w') \<Rightarrow> (Inl e, w'))"
  by (simp add: scoped_get_message_by_provider_id_def monad provider_run confine_read_owner
      mem_get_message_by_provider_id_def)

lemma scoped_list_run:
  assumes "tables_ok w" and "w_tenant w = Some t"
  obtains rows where "scoped_list_messages b c n txn w = (Inr rows, w)"
    and "set rows \<subseteq> set (dict_values (w_messages w))"
    and "\<forall>m \<in> set rows. \<not> is_foreign (msg_tenant_id m) t"
proof -
  obtain rows where r: "mb_list b c n txn w = (Inr rows, w)"
    and sub: "set rows \<subseteq> set (dict_values (w_messages w))"
    using list_run [OF assms(1)] by blast
  let ?rs = "filter (\<lambda>m. \<not> is_foreign (msg_tenant_id m) t) rows"
  have "scoped_list_messages b c n txn w = (Inr ?rs, w)"
    using assms r by (simp add: scoped_list_messages_def monad)
  with sub show thesis by (intro that [of ?rs]) auto
qed

lemma scoped_advance_run:
  "tables_ok w \<Longrightarrow> w_tenant w = Some t \<Longrightarrow> scoped_advance_message_status b i st w =
     (case foreign_owner msg_tenant_id t (dict_get (w_messages w) i) of
        Some a \<Rightarrow> hide ''advance_message_status'' a t w
      | None \<Rightarrow> mem_advance_message_status i st w)"
  by (auto simp: scoped_advance_message_status_def monad get_run advance_run foreign_owner_def
      hide_def mem_advance_message_status_def split: option.splits)

end

context transaction_store
begin

lemma scoped_get_run:
  "tables_ok w \<Longrightarrow> w_tenant w = Some t \<Longrightarrow> scoped_get_transaction b i w =
     (case foreign_owner txn_tenant_id t (dict_get (w_transactions w) i) of
        Some a \<Rightarrow> hide ''get_transaction'' a t w | None \<Rightarrow> (Inr (dict_get (w_transactions w) i), w))"
  by (simp add: scoped_get_transaction_def monad get_run confine_read_owner)

lemma scoped_get_milestone_run:
  "tables_ok w \<Longrightarrow> w_tenant w = Some t \<Longrightarrow> scoped_get_milestone b i w =
     (case foreign_owner ms_tenant_id t (dict_get (w_milestones w) i) of
        Some a \<Rightarrow> hide ''get_milestone'' a t w | None \<Rightarrow> (Inr (dict_get (w_milestones w) i), w))"
  by (simp add: scoped_get_milestone_def monad get_milestone_run confine_read_owner)

lemma scoped_list_active_run:
  "tables_ok w \<Longrightarrow> w_tenant w = Some t \<Longrightarrow> scoped_list_active_transactions b w =
     (Inr (filter (\<lambda>x. \<not> is_foreign (txn_tenant_id x) t)
       (filter txn_is_active (dict_values (w_transactions w)))), w)"
  by (simp add: scoped_list_active_transactions_def monad list_active_run)

lemma scoped_list_milestones_run:
  "tables_ok w \<Longrightarrow> w_tenant w = Some t \<Longrightarrow> scoped_list_milestones b i w =
     (Inr (filter (\<lambda>m. \<not> is_foreign (ms_tenant_id m) t) (sort_key ms_due_date
        (filter (\<lambda>m. ms_transaction_id m = i) (dict_values (w_milestones w))))), w)"
  by (simp add: scoped_list_milestones_def monad list_milestones_run)

lemma scoped_set_level_run:
  "tables_ok w \<Longrightarrow> w_tenant w = Some t \<Longrightarrow> scoped_set_escalation_level b i level w =
     (case foreign_owner ms_tenant_id t (dict_get (w_milestones w) i) of
        Some a \<Rightarrow> deny ''set_escalation_level'' a t w
      | None \<Rightarrow>
          (case dict_get (w_milestones w) i of
             None \<Rightarrow> (Inl (KeyError i), w)
           | Some m \<Rightarrow> (Inr (), w\<lparr>w_milestones :=
               dict_set (w_milestones w) i (m\<lparr>ms_escalation_level := level\<rparr>)\<rparr>)))"
  by (auto simp: scoped_set_escalation_level_def monad get_milestone_run refuse_foreign_owner
      foreign_owner_def deny_def set_level_run set_level_missing split: option.splits)

end

text \<open>Creating a transaction: the first foreign claim among the row and its milestones.\<close>

definition creation_claim :: "string \<Rightarrow> transaction \<Rightarrow> milestone list \<Rightarrow> string option" where
  "creation_claim t txn mss =
     (if is_foreign (txn_tenant_id txn) t then Some (txn_tenant_id txn)
      else map_option ms_tenant_id (List.find (\<lambda>m. is_foreign (ms_tenant_id m) t) mss))"

lemma mapM_enforce_run:
  "w_tenant w = Some t \<Longrightarrow> mapM (\<lambda>m. enforce_tenant (ms_tenant_id m)) mss w =
     (case List.find (\<lambda>m. is_foreign (ms_tenant_id m) t) mss of
        Some m \<Rightarrow> (Inl (CrossTenantError (ms_tenant_id m) t), w)
      | None \<Rightarrow> (Inr (replicate (length mss) t), w))"
  by (induction mss) (auto simp: monad enforce_tenant_Some is_foreign_def split: option.splits)

definition stamped :: "string \<Rightarrow> milestone list \<Rightarrow> milestone list" where
  "stamped t = map (\<lambda>m. m\<lparr>ms_tenant_id := t\<rparr>)"

lemma scoped_open_run:
  "w_tenant w = Some t \<Longrightarrow> scoped_create_transaction b txn mss w =
     (case creation_claim t txn mss of
        Some a \<Rightarrow> deny ''create_transaction'' a t w
      | None \<Rightarrow> tb_create b (txn\<lparr>txn_tenant_id := t\<rparr>) (stamped t mss) w)"
  by (auto simp: scoped_create_transaction_def monad enforce_tenant_Some creation_claim_def
      mapM_enforce_run deny_def stamped_def is_foreign_def split: option.splits)

context feedback_store
begin

lemma scoped_get_call_run:
  "tables_ok w \<Longrightarrow> w_tenant w = Some t \<Longrightarrow> scoped_get_call_record b i w =
     (case foreign_owner cr_tenant_id t (dict_get (w_calls w) i) of
        Some a \<Rightarrow> hide ''get_call_record'' a t w | None \<Rightarrow> (Inr (dict_get (w_calls w) i), w))"
  by (simp add: scoped_get_call_record_def monad get_call_run confine_read_owner)

lemma scoped_save_call_run:
  "tables_ok w \<Longrightarrow> w_tenant w = Some t \<Longrightarrow> scoped_save_call_record b r w =
     (if is_foreign (cr_tenant_id r) t then deny ''save_call_record'' (cr_tenant_id r) t w
      else case foreign_owner cr_tenant_id t (dict_get (w_calls w) (cr_vapi_call_id r)) of
        Some a \<Rightarrow> deny ''save_call_record'' a t w
      | None \<Rightarrow> (Inr (), w\<lparr>w_calls :=
          dict_set (w_calls w) (cr_vapi_call_id r) (r\<lparr>cr_tenant_id := t\<rparr>)\<rparr>))"
  by (simp add: scoped_save_call_record_def monad enforce_audited_run get_call_run
      refuse_foreign_owner save_call_run deny_def split: option.splits)

lemma scoped_get_feedback_run:
  "tables_ok w \<Longrightarrow> w_tenant w = Some t \<Longrightarrow> scoped_get_feedback b i w =
     (case foreign_owner fb_tenant_id t (dict_get (w_feedback w) i) of
        Some a \<Rightarrow> hide ''get_feedback'' a t w | None \<Rightarrow> (Inr (dict_get (w_feedback w) i), w))"
  by (simp add: scoped_get_feedback_def monad get_run confine_read_owner)

lemma scoped_upsert_run:
  "tables_ok w \<Longrightarrow> w_tenant w = Some t \<Longrightarrow> scoped_upsert_feedback b f w =
     (if is_foreign (fb_tenant_id f) t then deny ''upsert_feedback'' (fb_tenant_id f) t w
      else case foreign_owner fb_tenant_id t (dict_get (w_feedback w) (fb_id f)) of
        Some a \<Rightarrow> deny ''upsert_feedback'' a t w
      | None \<Rightarrow> (Inr (fb_id f), w\<lparr>w_feedback :=
          dict_set (w_feedback w) (fb_id f) (f\<lparr>fb_tenant_id := t\<rparr>)\<rparr>))"
  by (simp add: scoped_upsert_feedback_def monad enforce_audited_run get_run
      refuse_foreign_owner upsert_run deny_def split: option.splits)

lemma scoped_list_feedback_run:
  "tables_ok w \<Longrightarrow> w_tenant w = Some t \<Longrightarrow> scoped_list_feedback b key w =
     (Inr (filter (\<lambda>f. \<not> is_foreign (fb_tenant_id f) t)
       (filter (\<lambda>f. fb_listing_key f = key) (dict_values (w_feedback w)))), w)"
  by (simp add: scoped_list_feedback_def monad list_run)

end

context document_store
begin

lemma scoped_get_run:
  "tables_ok w \<Longrightarrow> w_tenant w = Some t \<Longrightarrow> scoped_get_document b i w =
     (case foreign_owner doc_tenant_id t (dict_get (w_documents w) i) of
        Some a \<Rightarrow> hide ''get_document'' a t w | None \<Rightarrow> (Inr (dict_get (w_documents w) i), w))"
  by (simp add: scoped_get_document_def monad get_run confine_read_owner)

lemma scoped_add_run:
  "tables_ok w \<Longrightarrow> w_tenant w = Some t \<Longrightarrow> scoped_add_document b d w =
     (if is_foreign (doc_tenant_id d) t then deny ''add_document'' (doc_tenant_id d) t w
      else case dict_get (w_documents w) (doc_id d) of
        None \<Rightarrow> (Inr (), w\<lparr>w_documents :=
          dict_set (w_documents w) (doc_id d) (d\<lparr>doc_tenant_id := t\<rparr>)\<rparr>)
      | Some x \<Rightarrow> if is_foreign (doc_tenant_id x) t
          then deny ''add_document'' (doc_tenant_id x) t w
          else (Inl (DocumentAlreadyExists (doc_id d)), w))"
  by (simp add: scoped_add_document_def monad enforce_audited_run get_run refuse_foreign_owner
      foreign_owner_def add_fresh add_present deny_def split: option.splits)

lemma scoped_list_run:
  "tables_ok w \<Longrightarrow> w_tenant w = Some t \<Longrightarrow> scoped_list_documents b i w =
     (Inr (filter (\<lambda>d. \<not> is_foreign (doc_tenant_id d) t) (sort_key doc_created_at
        (filter (\<lambda>d. doc_transaction_id d = i) (dict_values (w_documents w))))), w)"
  by (simp add: scoped_list_documents_def monad list_run)

end

context approval_store
begin

lemma scoped_get_run:
  "tables_ok w \<Longrightarrow> w_tenant w = Some t \<Longrightarrow> scoped_get_approval b i w =
     (case foreign_owner apr_tenant_id t (dict_get (w_approvals w) i) of
        Some a \<Rightarrow> hide ''get_approval'' a t w | None \<Rightarrow> (Inr (dict_get (w_approvals w) i), w))"
  by (simp add: scoped_get_approval_def monad get_run confine_read_owner)

lemma scoped_create_run:
  "tables_ok w \<Longrightarrow> w_tenant w = Some t \<Longrightarrow> scoped_create_approval b a w =
     (if is_foreign (apr_tenant_id a) t then deny ''create_approval'' (apr_tenant_id a) t w
      else ab_create b (a\<lparr>apr_tenant_id := t\<rparr>) w)"
  by (simp add: scoped_create_approval_def monad enforce_audited_run deny_def)

lemma scoped_list_run:
  "tables_ok w \<Longrightarrow> w_tenant w = Some t \<Longrightarrow> scoped_list_approvals b status w =
     (Inr (filter (\<lambda>a. \<not> is_foreign (apr_tenant_id a) t)
        (filter (\<lambda>a. status = None \<or> status = Some (apr_status a))
          (sort_key (\<lambda>a. - apr_created_at a) (dict_values (w_approvals w))))), w)"
  by (simp add: scoped_list_approvals_def monad list_run mem_list_approvals_def)

lemma scoped_mark_run:
  "tables_ok w \<Longrightarrow> w_tenant w = Some t \<Longrightarrow> scoped_mark_decided b i st who at_time w =
     (case foreign_owner apr_tenant_id t (dict_get (w_approvals w) i) of
        Some a \<Rightarrow> deny ''mark_decided'' a t w
      | None \<Rightarrow>
          (case dict_get (w_approvals w) i of
             None \<Rightarrow> (Inl (KeyError i), w)
           | Some a \<Rightarrow> (Inr (), w\<lparr>w_approvals :=
               dict_set (w_approvals w) i (decided st who at_time a)\<rparr>)))"
  by (auto simp: scoped_mark_decided_def monad get_run refuse_foreign_owner
      foreign_owner_def deny_def mark_run mark_missing split: option.splits)

end

end
