(* ===== verification/Egress.thy ===== *)
theory Egress
  imports Scrub_Tokens Audit_Trail Confinement
begin

text \<open>
  The both-directions tool seam: \<open>core/services/tool_authz.py\<close> (no argument may commit a call to
  another tenant) and \<open>core/services/egress.py\<close> (no result may carry another tenant's id, and
  secrets and restricted personal data leave redacted). A payload is the tree of the Python
  value; every model, mapping and sequence carries its object identity, on which the code's
  \<open>seen\<close> and \<open>_stack\<close> guards work. A field of a model carries the \<open>min_role\<close> of its \<open>Pii\<close> marker.
\<close>

section \<open>Payloads\<close>

datatype payload =
    VNone
  | VStr string
  | VAtom pyv
  | VModel nat "(string \<times> role option \<times> payload) list"
  | VMap nat "(string \<times> payload) list"
  | VSeq nat "payload list"

definition pii_redacted :: string where
  "pii_redacted = ''[redacted:pii]''"

definition finding_secret :: string where
  "finding_secret = ''secret_shape''"

definition finding_pii :: string where
  "finding_pii = ''restricted_pii''"

text \<open>\<open>raw in (None, "", marker)\<close>.\<close>

definition blank_or :: "string \<Rightarrow> payload \<Rightarrow> bool" where
  "blank_or marker v \<longleftrightarrow> v = VNone \<or> v = VStr [] \<or> v = VStr marker"

section \<open>Scrubbing\<close>

definition scrub_string :: "string \<Rightarrow> payload \<times> string list" where
  "scrub_string s = (let t = scrub_text s in (VStr t, if t = s then [] else [finding_secret]))"

fun scrub_payload :: "role \<Rightarrow> nat list \<Rightarrow> payload \<Rightarrow> payload \<times> string list"
  and scrub_fields :: "role \<Rightarrow> nat list \<Rightarrow> (string \<times> role option \<times> payload) list \<Rightarrow>
    (string \<times> role option \<times> payload) list \<times> string list"
  and scrub_entries :: "role \<Rightarrow> nat list \<Rightarrow> (string \<times> payload) list \<Rightarrow> (string \<times> payload) list \<times> string list"
  and scrub_items :: "role \<Rightarrow> nat list \<Rightarrow> payload list \<Rightarrow> payload list \<times> string list" where
  "scrub_payload r st (VStr s) = scrub_string s"
| "scrub_payload r st (VModel i fs) =
     (if i \<in> set st then (VModel i fs, [])
      else let q = scrub_fields r (i # st) fs in (VModel i (fst q), snd q))"
| "scrub_payload r st (VMap i es) =
     (if i \<in> set st then (VMap i es, [])
      else let q = scrub_entries r (i # st) es in (VMap i (fst q), snd q))"
| "scrub_payload r st (VSeq i vs) =
     (if i \<in> set st then (VSeq i vs, [])
      else let q = scrub_items r (i # st) vs in (VSeq i (fst q), snd q))"
| "scrub_payload r st v = (v, [])"
| "scrub_fields r st [] = ([], [])"
| "scrub_fields r st ((name, rule, raw) # fs) =
     (let p =
        (if is_secret_key name
         then (if blank_or secret_redacted raw then (raw, []) else (VStr secret_redacted, [finding_secret]))
         else if (case rule of None \<Rightarrow> False | Some m \<Rightarrow> \<not> role_allows r m)
         then (if blank_or pii_redacted raw then (raw, [])
               else (case raw of VStr _ \<Rightarrow> VStr pii_redacted | _ \<Rightarrow> VNone, [finding_pii]))
         else scrub_payload r st raw);
        q = scrub_fields r st fs
      in ((name, rule, fst p) # fst q, snd p @ snd q))"
| "scrub_entries r st [] = ([], [])"
| "scrub_entries r st ((key, item) # es) =
     (let p =
        (if is_secret_key key \<and> \<not> blank_or secret_redacted item
         then (VStr secret_redacted, [finding_secret]) else scrub_payload r st item);
        q = scrub_entries r st es
      in ((key, fst p) # fst q, snd p @ snd q))"
| "scrub_items r st [] = ([], [])"
| "scrub_items r st (x # xs) =
     (let p = scrub_payload r st x; q = scrub_items r st xs in (fst p # fst q, snd p @ snd q))"

section \<open>The tenant surface of a value\<close>

definition tenant_field :: string where
  "tenant_field = ''tenant_id''"

definition is_tenant_param_name :: "string \<Rightarrow> bool" where
  "is_tenant_param_name name \<longleftrightarrow> name = tenant_field \<or> endswith name (''_'' @ tenant_field)"

fun tenant_values :: "string \<Rightarrow> bool \<Rightarrow> nat list \<Rightarrow> payload \<Rightarrow> string list \<times> nat list"
  and tenant_of_fields :: "nat list \<Rightarrow> (string \<times> role option \<times> payload) list \<Rightarrow> string list \<times> nat list"
  and tenant_of_items :: "string \<Rightarrow> bool \<Rightarrow> nat list \<Rightarrow> payload list \<Rightarrow> string list \<times> nat list" where
  "tenant_values param within seen (VModel i fs) =
     (if i \<in> set seen then ([], seen)
      else let own = (case map_of (map (\<lambda>(n, _, v). (n, v)) fs) tenant_field of
                        None \<Rightarrow> [] | Some (VStr s) \<Rightarrow> [s] | Some _ \<Rightarrow> [[]]);
               (rest, seen') = tenant_of_fields (i # seen) fs
           in (own @ rest, seen'))"
| "tenant_values param within seen (VMap i es) =
     (if within then ([], seen)
      else case map_of es tenant_field of Some (VStr s) \<Rightarrow> ([s], seen) | _ \<Rightarrow> ([], seen))"
| "tenant_values param within seen (VSeq i vs) =
     (if i \<in> set seen then ([], seen) else tenant_of_items param within (i # seen) vs)"
| "tenant_values param within seen (VStr s) =
     (if is_tenant_param_name param then ([s], seen) else ([], seen))"
| "tenant_values param within seen v = ([], seen)"
| "tenant_of_fields seen [] = ([], seen)"
| "tenant_of_fields seen ((name, rule, v) # fs) =
     (let (found, seen') =
        (case v of
           VModel i fs' \<Rightarrow> if name = tenant_field then ([], seen) else tenant_values name True seen v
         | VSeq i vs \<Rightarrow> if name = tenant_field then ([], seen) else tenant_values name True seen v
         | _ \<Rightarrow> ([], seen));
        (rest, seen'') = tenant_of_fields seen' fs
      in (found @ rest, seen''))"
| "tenant_of_items param within seen [] = ([], seen)"
| "tenant_of_items param within seen (v # vs) =
     (let (found, seen') = tenant_values param within seen v;
          (rest, seen'') = tenant_of_items param within seen' vs
      in (found @ rest, seen''))"

definition tenants :: "string \<Rightarrow> payload \<Rightarrow> string list" where
  "tenants param v = fst (tenant_values param False [] v)"

section \<open>The guard around a tool\<close>

text \<open>\<open>enforce_tenant\<close> on each id, a refusal filed and raised as \<open>mk\<close> makes it.\<close>

definition check_tenants :: "string \<Rightarrow> (exn \<Rightarrow> exn) \<Rightarrow> string list \<Rightarrow> string list W" where
  "check_tenants tool mk =
     mapM (\<lambda>t. try_except is_cross_tenant (enforce_tenant t)
       (\<lambda>err. thenM (record_cross_tenant_attempt (mk err) tool) (raise (mk err))))"

definition authorize_args :: "string \<Rightarrow> (string \<times> payload) list \<Rightarrow> string list list W" where
  "authorize_args tool = mapM (\<lambda>(param, v). check_tenants tool id (tenants param v))"

fun as_egress_block :: "exn \<Rightarrow> exn" where
  "as_egress_block (CrossTenantError a b) = EgressBlockedError a b"
| "as_egress_block (EgressBlockedError a b) = EgressBlockedError a b"
| "as_egress_block e = e"

definition filter_tool_response :: "string \<Rightarrow> role \<Rightarrow> payload \<Rightarrow> payload W" where
  "filter_tool_response tool r p =
     thenM (check_tenants tool as_egress_block (tenants ''result'' p))
       (ret (fst (scrub_payload r [] p)))"

text \<open>\<open>guard_tool_ports\<close> on one method: authorize the arguments, run the body, filter the result.\<close>

definition guarded_call :: "string \<Rightarrow> role \<Rightarrow> (string \<times> payload) list \<Rightarrow> payload W \<Rightarrow> payload W" where
  "guarded_call tool r args body =
     bindM (thenM (authorize_args tool args) body) (filter_tool_response tool r)"

section \<open>What scrubbing guarantees\<close>

text \<open>
  A recipient of a role may see a payload when every secret-named field or key holds nothing or
  the mask, and every marked field above the role holds nothing or its mask.
\<close>

fun entitled :: "role \<Rightarrow> payload \<Rightarrow> bool"
  and entitled_fields :: "role \<Rightarrow> (string \<times> role option \<times> payload) list \<Rightarrow> bool"
  and entitled_entries :: "role \<Rightarrow> (string \<times> payload) list \<Rightarrow> bool"
  and entitled_items :: "role \<Rightarrow> payload list \<Rightarrow> bool" where
  "entitled r (VModel i fs) = entitled_fields r fs"
| "entitled r (VMap i es) = entitled_entries r es"
| "entitled r (VSeq i vs) = entitled_items r vs"
| "entitled r v = True"
| "entitled_fields r [] = True"
| "entitled_fields r ((name, rule, v) # fs) =
     ((if is_secret_key name then blank_or secret_redacted v
       else if (case rule of None \<Rightarrow> False | Some m \<Rightarrow> \<not> role_allows r m) then blank_or pii_redacted v
       else entitled r v) \<and> entitled_fields r fs)"
| "entitled_entries r [] = True"
| "entitled_entries r ((key, v) # es) =
     ((if is_secret_key key then blank_or secret_redacted v else entitled r v) \<and> entitled_entries r es)"
| "entitled_items r [] = True"
| "entitled_items r (v # vs) = (entitled r v \<and> entitled_items r vs)"

text \<open>No object is its own ancestor, given the ancestors.\<close>

fun acyclic_below :: "nat list \<Rightarrow> payload \<Rightarrow> bool"
  and acyclic_fields :: "nat list \<Rightarrow> (string \<times> role option \<times> payload) list \<Rightarrow> bool"
  and acyclic_entries :: "nat list \<Rightarrow> (string \<times> payload) list \<Rightarrow> bool"
  and acyclic_items :: "nat list \<Rightarrow> payload list \<Rightarrow> bool" where
  "acyclic_below st (VModel i fs) = (i \<notin> set st \<and> acyclic_fields (i # st) fs)"
| "acyclic_below st (VMap i es) = (i \<notin> set st \<and> acyclic_entries (i # st) es)"
| "acyclic_below st (VSeq i vs) = (i \<notin> set st \<and> acyclic_items (i # st) vs)"
| "acyclic_below st v = True"
| "acyclic_fields st [] = True"
| "acyclic_fields st ((name, rule, v) # fs) = (acyclic_below st v \<and> acyclic_fields st fs)"
| "acyclic_entries st [] = True"
| "acyclic_entries st ((key, v) # es) = (acyclic_below st v \<and> acyclic_entries st es)"
| "acyclic_items st [] = True"
| "acyclic_items st (v # vs) = (acyclic_below st v \<and> acyclic_items st vs)"

text \<open>
  What the recipient is shown of a payload: secret-named fields and keys and the fields above the role
  masked unless they hold nothing, every text masked where a secret shape matches, and all the rest, the
  names, the other values and the structure, as it is.
\<close>

fun shown :: "role \<Rightarrow> payload \<Rightarrow> payload \<Rightarrow> bool"
  and shown_fields :: "role \<Rightarrow> (string \<times> role option \<times> payload) list \<Rightarrow> (string \<times> role option \<times> payload) list \<Rightarrow> bool"
  and shown_entries :: "role \<Rightarrow> (string \<times> payload) list \<Rightarrow> (string \<times> payload) list \<Rightarrow> bool"
  and shown_items :: "role \<Rightarrow> payload list \<Rightarrow> payload list \<Rightarrow> bool" where
  "shown r (VStr s) p' = (case p' of VStr t \<Rightarrow> masked_text s t | _ \<Rightarrow> False)"
| "shown r (VModel i fs) p' = (case p' of VModel j fs' \<Rightarrow> j = i \<and> shown_fields r fs fs' | _ \<Rightarrow> False)"
| "shown r (VMap i es) p' = (case p' of VMap j es' \<Rightarrow> j = i \<and> shown_entries r es es' | _ \<Rightarrow> False)"
| "shown r (VSeq i vs) p' = (case p' of VSeq j vs' \<Rightarrow> j = i \<and> shown_items r vs vs' | _ \<Rightarrow> False)"
| "shown r VNone p' = (p' = VNone)"
| "shown r (VAtom a) p' = (p' = VAtom a)"
| "shown_fields r [] fs' = (fs' = [])"
| "shown_fields r ((name, rule, v) # fs) fs' =
     (case fs' of [] \<Rightarrow> False
      | (name', rule', v') # fs'' \<Rightarrow> name' = name \<and> rule' = rule \<and>
          (if is_secret_key name
           then (if blank_or secret_redacted v then v' = v else v' = VStr secret_redacted)
           else if (case rule of None \<Rightarrow> False | Some m \<Rightarrow> \<not> role_allows r m)
           then (if blank_or pii_redacted v then v' = v
                 else v' = (case v of VStr _ \<Rightarrow> VStr pii_redacted | _ \<Rightarrow> VNone))
           else shown r v v') \<and> shown_fields r fs fs'')"
| "shown_entries r [] es' = (es' = [])"
| "shown_entries r ((key, v) # es) es' =
     (case es' of [] \<Rightarrow> False
      | (key', v') # es'' \<Rightarrow> key' = key \<and>
          (if is_secret_key key
           then (if blank_or secret_redacted v then v' = v else v' = VStr secret_redacted)
           else shown r v v') \<and> shown_entries r es es'')"
| "shown_items r [] vs' = (vs' = [])"
| "shown_items r (v # vs) vs' =
     (case vs' of [] \<Rightarrow> False | v' # vs'' \<Rightarrow> shown r v v' \<and> shown_items r vs vs'')"

lemma blank_or_simps [simp]:
  "blank_or m VNone" "blank_or m (VStr m)" "blank_or m (VStr [])"
  "blank_or m (case v of VStr _ \<Rightarrow> VStr m | _ \<Rightarrow> VNone)"
  by (simp_all add: blank_or_def split: payload.split)

lemma marker_no_anchor:
  "scrub_text secret_redacted = secret_redacted" "scrub_text [] = []" "scrub_text pii_redacted = pii_redacted"
proof -
  show "scrub_text secret_redacted = secret_redacted"
    by (rule scrub_text_no_match, rule no_anchor_no_match) (code_simp, code_simp)
  show "scrub_text [] = []"
    by (rule scrub_text_no_match, rule no_anchor_no_match) (code_simp, code_simp)
  show "scrub_text pii_redacted = pii_redacted"
    by (rule scrub_text_no_match, rule no_anchor_no_match) (code_simp, code_simp)
qed

lemma scrub_blank: "blank_or secret_redacted v \<Longrightarrow> scrub_payload r st v = (v, [])"
  by (auto simp: blank_or_def scrub_string_def marker_no_anchor Let_def)

lemma scrub_entitled:
  "acyclic_below st v \<Longrightarrow> entitled r (fst (scrub_payload r st v))"
  "acyclic_fields st fs \<Longrightarrow> entitled_fields r (fst (scrub_fields r st fs))"
  "acyclic_entries st es \<Longrightarrow> entitled_entries r (fst (scrub_entries r st es))"
  "acyclic_items st vs \<Longrightarrow> entitled_items r (fst (scrub_items r st vs))"
  by (induction r st v and r st fs and r st es and r st vs
      rule: scrub_payload_scrub_fields_scrub_entries_scrub_items.induct)
    (auto simp: scrub_string_def scrub_blank Let_def split: prod.splits option.splits)

lemma shown_iff:
  "shown r (VStr s) p' \<longleftrightarrow> (\<exists>t. p' = VStr t \<and> masked_text s t)"
  "shown r (VModel i fs) p' \<longleftrightarrow> (\<exists>fs'. p' = VModel i fs' \<and> shown_fields r fs fs')"
  "shown r (VMap i es) p' \<longleftrightarrow> (\<exists>es'. p' = VMap i es' \<and> shown_entries r es es')"
  "shown r (VSeq i vs) p' \<longleftrightarrow> (\<exists>vs'. p' = VSeq i vs' \<and> shown_items r vs vs')"
  "shown_items r (v # vs) vs' \<longleftrightarrow> (\<exists>v' vs''. vs' = v' # vs'' \<and> shown r v v' \<and> shown_items r vs vs'')"
  by (cases p', simp_all)+ (cases vs', simp_all)

lemma shown_field_iff:
  "shown_fields r ((name, rule, v) # fs) fs' \<longleftrightarrow>
     (\<exists>v' fs''. fs' = (name, rule, v') # fs'' \<and> shown_fields r fs fs'' \<and>
       (if is_secret_key name then (if blank_or secret_redacted v then v' = v else v' = VStr secret_redacted)
        else if (case rule of None \<Rightarrow> False | Some m \<Rightarrow> \<not> role_allows r m)
        then (if blank_or pii_redacted v then v' = v else v' = (case v of VStr _ \<Rightarrow> VStr pii_redacted | _ \<Rightarrow> VNone))
        else shown r v v'))"
proof (cases fs')
  case Nil
  then show ?thesis by simp
next
  case (Cons f fs'')
  obtain n rl x where "f = (n, rl, x)" by (cases f)
  with Cons show ?thesis by simp blast
qed

lemma scrub_shown:
  "acyclic_below st v \<Longrightarrow> shown r v (fst (scrub_payload r st v))"
  "acyclic_fields st fs \<Longrightarrow> shown_fields r fs (fst (scrub_fields r st fs))"
  "acyclic_entries st es \<Longrightarrow> shown_entries r es (fst (scrub_entries r st es))"
  "acyclic_items st vs \<Longrightarrow> shown_items r vs (fst (scrub_items r st vs))"
  by (induction r st v and r st fs and r st es and r st vs
      rule: scrub_payload_scrub_fields_scrub_entries_scrub_items.induct)
    (simp_all add: scrub_string_def scrub_masks scrub_blank Let_def)

text \<open>Without a finding the value comes back as it was.\<close>

lemma scrub_no_finding:
  "snd (scrub_payload r st v) = [] \<Longrightarrow> fst (scrub_payload r st v) = v"
  "snd (scrub_fields r st fs) = [] \<Longrightarrow> fst (scrub_fields r st fs) = fs"
  "snd (scrub_entries r st es) = [] \<Longrightarrow> fst (scrub_entries r st es) = es"
  "snd (scrub_items r st vs) = [] \<Longrightarrow> fst (scrub_items r st vs) = vs"
  by (induction r st v and r st fs and r st es and r st vs
      rule: scrub_payload_scrub_fields_scrub_entries_scrub_items.induct)
    (auto simp: scrub_string_def Let_def split: prod.splits option.splits if_splits)

section \<open>What the guard guarantees\<close>

lemma record_egress_run [simp]:
  "record_cross_tenant_attempt (EgressBlockedError a b) tool w = (Inr (), filed tool a b w)"
proof -
  have "record_cross_tenant_attempt (EgressBlockedError a b) tool w =
      record_cross_tenant_attempt (CrossTenantError a b) tool w"
    by (simp add: record_cross_tenant_attempt_def)
  then show ?thesis by simp
qed

definition first_foreign :: "string \<Rightarrow> string list \<Rightarrow> string option" where
  "first_foreign t = List.find (\<lambda>x. is_foreign x t)"

lemma first_foreign_None: "first_foreign t ts = None \<longleftrightarrow> (\<forall>x \<in> set ts. \<not> is_foreign x t)"
  by (auto simp: first_foreign_def find_None_iff)

lemma first_foreign_Some: "first_foreign t ts = Some a \<Longrightarrow> a \<in> set ts \<and> is_foreign a t"
  unfolding first_foreign_def by (auto simp: find_Some_iff)

lemma check_tenants_run:
  assumes "w_tenant w = Some t" and "mk = id \<or> mk = as_egress_block"
  shows "check_tenants tool mk ts w =
    (case first_foreign t ts of
       None \<Rightarrow> (Inr (replicate (length ts) t), w)
     | Some a \<Rightarrow> (Inl (mk (CrossTenantError a t)), filed tool a t w))"
proof (induction ts)
  case Nil
  then show ?case by (simp add: check_tenants_def first_foreign_def)
next
  case (Cons x ts)
  then show ?case
    using assms
    by (auto simp: check_tenants_def monad enforce_tenant_Some first_foreign_def is_foreign_def
        split: option.splits)
qed

lemma check_tenants_Inr:
  assumes "check_tenants tool mk ts w = (Inr x, w')" and "mk = id \<or> mk = as_egress_block"
  shows "w' = w"
proof (cases "w_tenant w")
  case None
  with assms(1) show ?thesis
    by (cases ts) (auto simp: check_tenants_def monad enforce_tenant_def require_tenant_def)
next
  case (Some t)
  from check_tenants_run [OF this assms(2), of tool ts] assms(1) show ?thesis
    by (auto split: option.splits)
qed

definition arg_tenants :: "(string \<times> payload) list \<Rightarrow> string list" where
  "arg_tenants args = concat (map (\<lambda>(param, v). tenants param v) args)"

lemma first_foreign_append:
  "first_foreign t (xs @ ys) = (case first_foreign t xs of None \<Rightarrow> first_foreign t ys | Some a \<Rightarrow> Some a)"
  by (induction xs) (auto simp: first_foreign_def)

lemma authorize_args_run:
  assumes "w_tenant w = Some t"
  shows "\<exists>rs. authorize_args tool args w =
    (case first_foreign t (arg_tenants args) of
       None \<Rightarrow> (Inr rs, w) | Some a \<Rightarrow> (Inl (CrossTenantError a t), filed tool a t w))"
proof (induction args)
  case Nil
  then show ?case by (simp add: authorize_args_def arg_tenants_def first_foreign_def)
next
  case (Cons x args)
  obtain param v where x: "x = (param, v)" by (cases x)
  have "arg_tenants (x # args) = tenants param v @ arg_tenants args"
    by (simp add: arg_tenants_def x)
  with Cons show ?case
    using check_tenants_run [OF assms, of id tool "tenants param v"]
    by (auto simp: authorize_args_def x monad first_foreign_append split: option.splits)
qed

lemma guarded_call_run:
  assumes "w_tenant w = Some t"
  shows "guarded_call tool r args body w =
    (case first_foreign t (arg_tenants args) of
       Some a \<Rightarrow> (Inl (CrossTenantError a t), filed tool a t w)
     | None \<Rightarrow>
         (case body w of
            (Inl e, w1) \<Rightarrow> (Inl e, w1)
          | (Inr p, w1) \<Rightarrow> filter_tool_response tool r p w1))"
  using authorize_args_run [OF assms, of tool args]
  by (auto simp: guarded_call_def monad split: option.splits)

text \<open>
  A tool call any of whose arguments carries another tenant's id, at any depth the tenant
  surface reaches, is refused before the tool runs: whatever the tool does, the only effect is
  one security event naming a foreign id and the bound tenant.
\<close>

theorem foreign_argument_refused:
  assumes "w_tenant w = Some t" and "a \<in> set (arg_tenants args)" and "is_foreign a t"
  shows "\<exists>b w'. is_foreign b t \<and> b \<in> set (arg_tenants args) \<and>
    guarded_call tool r args body w = (Inl (CrossTenantError b t), w') \<and> denial tool b t w w'"
proof -
  obtain b where b: "first_foreign t (arg_tenants args) = Some b"
    using assms(2,3) first_foreign_None [of t "arg_tenants args"] by (cases "first_foreign t (arg_tenants args)") auto
  from first_foreign_Some [OF b] filed_denial [of tool b t w] show ?thesis
    by (intro exI [of _ b] exI [of _ "filed tool b t w"]) (simp add: guarded_call_run [OF assms(1)] b)
qed

definition sample_args :: "(string \<times> payload) list" where
  "sample_args = [(''message'', VModel 1 [(''id'', None, VStr ''m1''),
     (''parts'', None, VSeq 2 [VModel 3 [(''tenant_id'', None, VStr ''rival'')]])])]"

theorem foreign_argument_refused_witness:
  "\<exists>b w'. guarded_call ''save_message'' Operator sample_args (ret VNone)
      (blank_world\<lparr>w_tenant := Some ''acme''\<rparr>) = (Inl (CrossTenantError b ''acme''), w')"
proof -
  have "''rival'' \<in> set (arg_tenants sample_args)"
    by (simp add: arg_tenants_def sample_args_def tenants_def tenant_field_def Let_def)
  from foreign_argument_refused [OF _ this, of "blank_world\<lparr>w_tenant := Some ''acme''\<rparr>" "''acme''"
      "''save_message''" Operator "ret VNone"]
  show ?thesis by (auto simp: is_foreign_def)
qed

text \<open>
  C27: What a guarded tool call returns was authorized in both directions: no argument and no
  part of the tool's result carried another tenant's id, and the returned value is the result as its
  recipient may see it: every secret-named field or key and every field above the recipient's role masked
  unless it holds nothing; every other text, at any depth, unchanged where none of the eight secret shapes
  matches it and with the mask in it where one does, and in either case free of the five token shapes (the
  \<open>sk-\<close>, AWS, GitHub and Slack tokens and JWTs); names, other values and structure as they were. This last
  part is of results in which no object contains itself: the code leaves such a back reference as it is.
\<close>

theorem guarded_result_filtered:
  assumes "w_tenant w = Some t" and "guarded_call tool r args body w = (Inr p', w')"
    and "w_tenant w' = Some t"
  shows "\<exists>p. body w = (Inr p, w') \<and> (\<forall>x \<in> set (arg_tenants args @ tenants ''result'' p). \<not> is_foreign x t) \<and>
    p' = fst (scrub_payload r [] p) \<and> (acyclic_below [] p \<longrightarrow> shown r p p' \<and> entitled r p') \<and>
    (snd (scrub_payload r [] p) = [] \<longrightarrow> p' = p)"
proof -
  have args: "first_foreign t (arg_tenants args) = None"
    using assms(2) by (auto simp: guarded_call_run [OF assms(1)] split: option.splits)
  obtain p w1 where body: "body w = (Inr p, w1)" and f: "filter_tool_response tool r p w1 = (Inr p', w')"
    using assms(2) args by (auto simp: guarded_call_run [OF assms(1)] split: prod.splits sum.splits)
  have "w' = w1"
  proof -
    obtain x where "check_tenants tool as_egress_block (tenants ''result'' p) w1 = (Inr x, w')"
      using f by (auto simp: filter_tool_response_def elim!: thenM_InrE)
    then show ?thesis by (rule check_tenants_Inr) simp
  qed
  with assms(3) have t1: "w_tenant w1 = Some t" by simp
  have res: "first_foreign t (tenants ''result'' p) = None" "p' = fst (scrub_payload r [] p)"
    using f check_tenants_run [OF t1, of as_egress_block tool "tenants ''result'' p"]
    by (auto simp: filter_tool_response_def monad split: option.splits)
  show ?thesis
    using body args res \<open>w' = w1\<close> scrub_entitled(1) [of "[]" p r] scrub_shown(1) [of "[]" p r] scrub_no_finding(1) [of r "[]" p]
    by (simp add: first_foreign_None) blast
qed

definition sample_key :: string where
  "sample_key = ''AKIA0123456789ABCDEF''"

definition sample_result :: payload where
  "sample_result = VModel 1 [(''tenant_id'', None, VStr ''acme''), (''email'', Some Operator, VStr ''a@b.c''),
     (''api_token'', None, VStr ''xyz''), (''notes'', None, VSeq 2 [VStr sample_key])]"

lemma sample_key_found: "any_match sample_key"
proof -
  have "has_match akia_pattern None sample_key" by code_simp
  then show ?thesis by (simp add: any_match_def secret_value_patterns_def)
qed

theorem guarded_result_filtered_witness:
  "\<exists>note fs. guarded_call ''get_contact'' Viewer [] (ret sample_result) (blank_world\<lparr>w_tenant := Some ''acme''\<rparr>) =
     (Inr (VModel 1 (fs @ [(''email'', Some Operator, VStr pii_redacted), (''api_token'', None, VStr secret_redacted),
        (''notes'', None, VSeq 2 [VStr note])])), blank_world\<lparr>w_tenant := Some ''acme''\<rparr>) \<and>
     contains secret_redacted note \<and> \<not> has_match akia_pattern None note"
proof -
  let ?w = "blank_world\<lparr>w_tenant := Some ''acme''\<rparr>"
  have "tenants ''result'' sample_result = [''acme'']"
    by code_simp
  then obtain p' where run: "guarded_call ''get_contact'' Viewer [] (ret sample_result) ?w = (Inr p', ?w)"
    by (simp add: guarded_call_run [of ?w "''acme''"] arg_tenants_def first_foreign_def
        filter_tool_response_def check_tenants_run [of ?w "''acme''"] monad is_foreign_def)
  have acyclic: "acyclic_below [] sample_result" by (simp add: sample_result_def)
  obtain p where "ret sample_result ?w = (Inr p, ?w)" and "acyclic_below [] p \<longrightarrow> shown Viewer p p'"
    using guarded_result_filtered [OF _ run, of "''acme''"] by auto
  with acyclic have sh: "shown Viewer sample_result p'" by simp
  have names: "is_secret_key ''api_token''" "\<not> is_secret_key ''tenant_id''" "\<not> is_secret_key ''email''"
    "\<not> is_secret_key ''notes''" "\<not> role_allows Viewer Operator" "\<not> blank_or secret_redacted (VStr ''xyz'')"
    "\<not> blank_or pii_redacted (VStr ''a@b.c'')" by code_simp+
  obtain tid shown_note where shape: "p' = VModel 1 ([(''tenant_id'', None, tid)] @ [(''email'', Some Operator, VStr pii_redacted),
      (''api_token'', None, VStr secret_redacted), (''notes'', None, VSeq 2 [VStr shown_note])])"
    and masked: "masked_text sample_key shown_note"
    using sh names by (auto simp: sample_result_def shown_iff shown_field_iff simp del: shown.simps(1-4) shown_fields.simps(2) shown_items.simps(2))
  from masked sample_key_found have "contains secret_redacted shown_note" "\<not> has_match akia_pattern None shown_note"
    by (simp_all add: masked_text_def token_patterns_def)
  with run shape show ?thesis by blast
qed

text \<open>
  A result that carries another tenant's id never leaves: the caller gets
  \<open>EgressBlockedError\<close>, no part of the value, and one security event is filed.
\<close>

theorem foreign_result_blocked:
  assumes "w_tenant w = Some t" and "\<forall>x \<in> set (arg_tenants args). \<not> is_foreign x t"
    and "body w = (Inr p, w1)" and "w_tenant w1 = Some t"
    and "a \<in> set (tenants ''result'' p)" and "is_foreign a t"
  shows "\<exists>b w2. is_foreign b t \<and> guarded_call tool r args body w = (Inl (EgressBlockedError b t), w2) \<and>
    denial tool b t w1 w2"
proof -
  obtain b where b: "first_foreign t (tenants ''result'' p) = Some b"
    using assms(5,6) first_foreign_None [of t "tenants ''result'' p"]
    by (cases "first_foreign t (tenants ''result'' p)") auto
  have args: "first_foreign t (arg_tenants args) = None"
    using assms(2) by (simp add: first_foreign_None)
  from first_foreign_Some [OF b] filed_denial [of tool b t w1] show ?thesis
    using check_tenants_run [OF assms(4), of as_egress_block tool "tenants ''result'' p"]
    by (intro exI [of _ b] exI [of _ "filed tool b t w1"])
      (simp add: guarded_call_run [OF assms(1)] args assms(3) filter_tool_response_def monad b)
qed

theorem foreign_result_blocked_witness:
  "\<exists>b w2. guarded_call ''get_contact'' Operator [] (ret (VModel 1 [(''tenant_id'', None, VStr ''rival'')]))
      (blank_world\<lparr>w_tenant := Some ''acme''\<rparr>) = (Inl (EgressBlockedError b ''acme''), w2)"
  using foreign_result_blocked [of "blank_world\<lparr>w_tenant := Some ''acme''\<rparr>" "''acme''" "[]"
      "ret (VModel 1 [(''tenant_id'', None, VStr ''rival'')])"
      "VModel 1 [(''tenant_id'', None, VStr ''rival'')]" "blank_world\<lparr>w_tenant := Some ''acme''\<rparr>" "''rival''"
      "''get_contact''" Operator]
  by (auto simp: arg_tenants_def tenants_def tenant_field_def Let_def is_foreign_def)

end
