(* ===== verification/Tool_Surface.thy ===== *)
theory Tool_Surface
  imports Egress
begin

text \<open>
  The static half of \<open>core/services/tool_authz.py\<close>: which parameters of a tool are tenant-bearing by
  their annotation, and that a call whose arguments are of the annotated types never commits to a tenant
  through a parameter the static half does not flag.
\<close>

section \<open>Annotations\<close>

text \<open>
  What the detector sees of an annotation: a Pydantic model class, a mapping (plain or subscripted), a
  subscripted list, tuple or union with its arguments, any other class. A model class is an index into
  the table of classes; a class of the table is its fields, with the marker \<open>Pii\<close> puts on them.
\<close>

datatype annotation =
    AModel nat
  | AMapping "annotation list"
  | AGeneric "annotation list"
  | AOther

type_synonym class_table = "(string \<times> role option \<times> annotation) list list"

definition field_annotations :: "class_table \<Rightarrow> nat \<Rightarrow> annotation list" where
  "field_annotations T k = map (\<lambda>(name, rule, a). a) (T ! k)"

definition has_tenant_field :: "class_table \<Rightarrow> nat \<Rightarrow> bool" where
  "has_tenant_field T k \<longleftrightarrow> tenant_field \<in> set (map fst (T ! k))"

fun annotation_is_mapping :: "annotation \<Rightarrow> bool" where
  "annotation_is_mapping (AMapping args) = True"
| "annotation_is_mapping (AGeneric args) = list_ex annotation_is_mapping args"
| "annotation_is_mapping (AModel k) = False"
| "annotation_is_mapping AOther = False"

text \<open>
  \<open>_annotation_nests_tenant_model\<close>, with the set of classes seen so far passed on: \<open>any\<close> stops at the
  first hit, so the set is read again only after a miss.
\<close>

function nests_tenant_model :: "class_table \<Rightarrow> nat list \<Rightarrow> annotation \<Rightarrow> bool \<times> nat list"
  and any_nests :: "class_table \<Rightarrow> nat list \<Rightarrow> annotation list \<Rightarrow> bool \<times> nat list" where
  "nests_tenant_model T seen (AModel k) =
     (if k \<in> set seen \<or> length T \<le> k then (False, seen)
      else if has_tenant_field T k then (True, k # seen)
      else any_nests T (k # seen) (field_annotations T k))"
| "nests_tenant_model T seen (AMapping args) = (False, seen)"
| "nests_tenant_model T seen (AGeneric args) = any_nests T seen args"
| "nests_tenant_model T seen AOther = (False, seen)"
| "any_nests T seen [] = (False, seen)"
| "any_nests T seen (a # as) =
     (let r = nests_tenant_model T seen a in if fst r then r else any_nests T (snd r) as)"
  by pat_completeness auto

text \<open>A class is entered once; the set of classes seen only grows.\<close>

lemma seen_grows_dom:
  "nests_tenant_model_any_nests_dom (Inl (T, seen, a)) \<Longrightarrow> set seen \<subseteq> set (snd (nests_tenant_model T seen a))"
  "nests_tenant_model_any_nests_dom (Inr (T, seen, as)) \<Longrightarrow> set seen \<subseteq> set (snd (any_nests T seen as))"
  by (induction T seen a and T seen as rule: nests_tenant_model_any_nests.pinduct)
    (auto simp: nests_tenant_model.psimps any_nests.psimps Let_def)

definition unseen :: "class_table \<Rightarrow> nat list \<Rightarrow> nat" where
  "unseen T seen = card ({..<length T} - set seen)"

lemma unseen_mono: "set seen \<subseteq> set seen' \<Longrightarrow> unseen T seen' \<le> unseen T seen"
  unfolding unseen_def by (rule card_mono) auto

lemma unseen_enter: "k \<notin> set seen \<Longrightarrow> k < length T \<Longrightarrow> unseen T (k # seen) < unseen T seen"
  unfolding unseen_def by (rule psubset_card_mono) auto

termination nests_tenant_model
proof (relation "inv_image (less_than <*lex*> less_than)
    (\<lambda>x. case x of Inl (T, seen, a) \<Rightarrow> (unseen T seen, size a) | Inr (T, seen, as) \<Rightarrow> (unseen T seen, size_list size as))",
    goal_cases)
  case (4 T seen a as)
  then show ?case by simp
next
  case (5 T seen a as r)
  then show ?case using unseen_mono [OF seen_grows_dom(1) [of T seen a]] by (auto simp: order_le_less)
qed (auto simp: unseen_enter)

section \<open>The detector\<close>

definition annotation_is_tenant_bearing :: "class_table \<Rightarrow> annotation \<Rightarrow> bool" where
  "annotation_is_tenant_bearing T a \<longleftrightarrow> fst (nests_tenant_model T [] a) \<or> annotation_is_mapping a"

definition accepts_tenant_bearing_param :: "class_table \<Rightarrow> (string \<times> annotation) list \<Rightarrow> bool" where
  "accepts_tenant_bearing_param T sig =
     list_ex (\<lambda>(name, a). is_tenant_param_name name \<or> annotation_is_tenant_bearing T a) sig"

section \<open>What the search finds\<close>

text \<open>A model with a tenant field can be reached through fields, lists, tuples and unions.\<close>

inductive reaches_tenant :: "class_table \<Rightarrow> annotation \<Rightarrow> bool" for T where
  here: "k < length T \<Longrightarrow> has_tenant_field T k \<Longrightarrow> reaches_tenant T (AModel k)"
| nested: "k < length T \<Longrightarrow> a \<in> set (field_annotations T k) \<Longrightarrow> reaches_tenant T a \<Longrightarrow> reaches_tenant T (AModel k)"
| argument: "a \<in> set args \<Longrightarrow> reaches_tenant T a \<Longrightarrow> reaches_tenant T (AGeneric args)"

inductive_simps reaches_simps [simp]:
  "reaches_tenant T (AMapping args)" "reaches_tenant T AOther" "reaches_tenant T (AGeneric args)"

lemma nests_sound:
  "fst (nests_tenant_model T seen a) \<Longrightarrow> reaches_tenant T a"
  "fst (any_nests T seen as) \<Longrightarrow> \<exists>a \<in> set as. reaches_tenant T a"
  by (induction T seen a and T seen as rule: nests_tenant_model_any_nests.induct)
    (auto simp: Let_def intro: reaches_tenant.intros split: if_splits)

text \<open>The classes an annotation names outside mappings.\<close>

fun named_classes :: "annotation \<Rightarrow> nat set" where
  "named_classes (AModel k) = {k}"
| "named_classes (AGeneric args) = (\<Union>a \<in> set args. named_classes a)"
| "named_classes _ = {}"

definition settled :: "class_table \<Rightarrow> nat set \<Rightarrow> nat set \<Rightarrow> bool" where
  "settled T old new \<longleftrightarrow> (\<forall>k \<in> new - old. k < length T \<and> \<not> has_tenant_field T k \<and>
     (\<forall>a \<in> set (field_annotations T k). named_classes a \<inter> {..<length T} \<subseteq> new))"

lemma settled_trans: "settled T A B \<Longrightarrow> settled T B C \<Longrightarrow> B \<subseteq> C \<Longrightarrow> settled T A C"
  unfolding settled_def by blast

lemma seen_grows:
  "set seen \<subseteq> set (snd (nests_tenant_model T seen a))"
  "set seen \<subseteq> set (snd (any_nests T seen as))"
  by (induction T seen a and T seen as rule: nests_tenant_model_any_nests.induct) (auto simp: Let_def)

lemma miss_settles:
  "\<not> fst (nests_tenant_model T seen a) \<Longrightarrow>
     settled T (set seen) (set (snd (nests_tenant_model T seen a))) \<and>
     named_classes a \<inter> {..<length T} \<subseteq> set (snd (nests_tenant_model T seen a))"
  "\<not> fst (any_nests T seen as) \<Longrightarrow>
     settled T (set seen) (set (snd (any_nests T seen as))) \<and>
     (\<forall>a \<in> set as. named_classes a \<inter> {..<length T} \<subseteq> set (snd (any_nests T seen as)))"
proof (induction T seen a and T seen as rule: nests_tenant_model_any_nests.induct)
  case (1 T seen k)
  show ?case
  proof (cases "k \<in> set seen \<or> length T \<le> k")
    case True
    then show ?thesis by (auto simp: settled_def)
  next
    case False
    with 1 have "\<not> has_tenant_field T k" by (auto split: if_splits)
    with False 1 show ?thesis
      using seen_grows(2) [of "k # seen" T "field_annotations T k"] by (auto simp: settled_def)
  qed
next
  case (6 T seen a as)
  let ?r = "nests_tenant_model T seen a"
  from 6(3) have miss: "\<not> fst ?r" "\<not> fst (any_nests T (snd ?r) as)" by (auto simp: Let_def split: if_splits)
  from 6(1) [OF miss(1)] 6(2) [OF refl miss] show ?case
    using miss seen_grows(2) [of "snd ?r" T as] settled_trans [of T "set seen" "set (snd ?r)"]
    by (fastforce simp: Let_def)
qed (auto simp: settled_def)

lemma reaches_named:
  "reaches_tenant T a \<Longrightarrow> settled T {} S \<Longrightarrow> \<not> named_classes a \<inter> {..<length T} \<subseteq> S"
  by (induction rule: reaches_tenant.induct) (fastforce simp: settled_def)+

theorem nests_iff_reaches: "fst (nests_tenant_model T [] a) \<longleftrightarrow> reaches_tenant T a"
  using nests_sound(1) [of T "[]" a] miss_settles(1) [of T "[]" a] reaches_named [of T a] by auto

section \<open>Values of an annotated type\<close>

text \<open>
  A value of exactly the annotated type: a model of the class itself with a value of each field, a
  scalar of a class the detector does not look into, a value of a member of a union, a list of values of
  the arguments.
\<close>

inductive conforms :: "class_table \<Rightarrow> annotation \<Rightarrow> payload \<Rightarrow> bool" for T where
  none: "conforms T AOther VNone"
| string: "conforms T AOther (VStr s)"
| atom: "conforms T AOther (VAtom p)"
| model: "k < length T \<Longrightarrow>
     list_all2 (\<lambda>d f. fst d = fst f \<and> fst (snd d) = fst (snd f) \<and> conforms T (snd (snd d)) (snd (snd f))) (T ! k) fs \<Longrightarrow>
     conforms T (AModel k) (VModel i fs)"
| mapping: "conforms T (AMapping args) (VMap i es)"
| member: "a \<in> set args \<Longrightarrow> conforms T a v \<Longrightarrow> conforms T (AGeneric args) v"
| sequence: "(\<forall>v \<in> set vs. \<exists>a \<in> set args. conforms T a v) \<Longrightarrow> conforms T (AGeneric args) (VSeq i vs)"

text \<open>No field but \<open>tenant_id\<close> itself is named like a bare tenant identifier.\<close>

definition plainly_named :: "class_table \<Rightarrow> bool" where
  "plainly_named T \<longleftrightarrow> (\<forall>fields \<in> set T. \<forall>f \<in> set fields. is_tenant_param_name (fst f) \<longrightarrow> fst f = tenant_field)"

lemma items_quiet:
  "(\<And>v seen. v \<in> set vs \<Longrightarrow> fst (tenant_values param within seen v) = []) \<Longrightarrow>
     fst (tenant_of_items param within seen vs) = []"
  by (induction vs arbitrary: seen) (simp_all add: split_beta)

lemma fields_quiet:
  "(\<And>name rule v seen. (name, rule, v) \<in> set fs \<Longrightarrow> fst (tenant_values name True seen v) = []) \<Longrightarrow>
     fst (tenant_of_fields seen fs) = []"
proof (induction fs arbitrary: seen)
  case (Cons f fs)
  obtain name rule v where f: "f = (name, rule, v)" by (cases f)
  have "fst (tenant_values name True s v) = []" for s
    by (rule Cons.prems [of name rule]) (simp add: f)
  moreover have "fst (tenant_of_fields s fs) = []" for s
    using Cons.prems by (intro Cons.IH) auto
  ultimately show ?case by (cases v) (simp_all add: f split_beta del: tenant_values.simps)
qed simp

lemma unreached_quiet:
  assumes "conforms T a v" "plainly_named T" "\<not> reaches_tenant T a" "\<not> is_tenant_param_name param"
    "within \<or> \<not> annotation_is_mapping a"
  shows "fst (tenant_values param within seen v) = []"
  using assms
proof (induction arbitrary: param within seen)
  case (model k fs i)
  have absent: "tenant_field \<notin> fst ` set (T ! k)"
    using model reaches_tenant.here [of k T] by (auto simp: has_tenant_field_def)
  have same: "map fst (T ! k) = map fst fs"
    using model(2) by (auto simp: list_all2_conv_all_nth intro!: nth_equalityI)
  have "fst ` set (map (\<lambda>(n, _, v). (n, v)) fs) = set (map fst fs)"
    by (force simp: image_iff)
  also have "\<dots> = fst ` set (T ! k)" by (simp flip: same)
  finally have "map_of (map (\<lambda>(n, _, v). (n, v)) fs) tenant_field = None"
    using absent by (simp add: map_of_eq_None_iff)
  moreover have "fst (tenant_of_fields (i # seen) fs) = []"
  proof (rule fields_quiet)
    fix name rule v seen' assume "(name, rule, v) \<in> set fs"
    then obtain j where j: "j < length fs" "fs ! j = (name, rule, v)" by (auto simp: in_set_conv_nth)
    let ?d = "T ! k ! j"
    from model(2) j have d: "j < length (T ! k)" "fst ?d = name" and
      ih: "\<And>p w s. plainly_named T \<Longrightarrow> \<not> reaches_tenant T (snd (snd ?d)) \<Longrightarrow> \<not> is_tenant_param_name p \<Longrightarrow>
        w \<or> \<not> annotation_is_mapping (snd (snd ?d)) \<Longrightarrow> fst (tenant_values p w s v) = []"
      by (auto simp: list_all2_conv_all_nth)
    have "snd (snd ?d) \<in> set (field_annotations T k)"
      using d by (force simp: field_annotations_def split_beta)
    then have "\<not> reaches_tenant T (snd (snd ?d))" using model reaches_tenant.nested by blast
    moreover have "\<not> is_tenant_param_name name"
    proof
      assume "is_tenant_param_name name"
      moreover have "T ! k \<in> set T" "T ! k ! j \<in> set (T ! k)" using model(1) d by simp_all
      ultimately have "name = tenant_field" using model(3) d by (fastforce simp: plainly_named_def)
      with absent d show False by (metis imageI nth_mem)
    qed
    ultimately show "fst (tenant_values name True seen' v) = []" using ih model by blast
  qed
  ultimately show ?case by (simp add: split_beta)
next
  case (member a args v)
  then show ?case by (auto simp: list_ex_iff)
next
  case (sequence vs args i)
  then have "fst (tenant_of_items param within (i # seen) vs) = []"
    by (intro items_quiet) (auto simp: list_ex_iff)
  then show ?case by simp
qed simp_all

lemma unflagged_quiet:
  assumes "plainly_named T" "\<not> accepts_tenant_bearing_param T sig" "(param, a) \<in> set sig" "conforms T a v"
  shows "tenants param v = []"
proof -
  have "\<not> is_tenant_param_name param" "\<not> reaches_tenant T a" "\<not> annotation_is_mapping a"
    using assms(2,3)
    by (auto simp: accepts_tenant_bearing_param_def annotation_is_tenant_bearing_def list_ex_iff nests_iff_reaches)
  then show ?thesis unfolding tenants_def using unreached_quiet [OF assms(4,1)] by blast
qed


text \<open>
  \<open>create_contact(draft: ContactCreate)\<close>, the fields of \<open>ContactCreate\<close> as the detector sees them.
\<close>

definition contact_create_classes :: class_table where
  "contact_create_classes =
     [[(''first_name'', None, AOther), (''last_name'', None, AOther),
       (''email'', Some Operator, AGeneric [AOther, AOther]),
       (''phone'', Some Operator, AGeneric [AOther, AOther]), (''source'', None, AOther)]]"

definition a_new_contact :: payload where
  "a_new_contact = VModel 7 [(''first_name'', None, VStr ''Ana''), (''last_name'', None, VStr ''Ortiz''),
     (''email'', Some Operator, VNone), (''phone'', Some Operator, VStr ''555''), (''source'', None, VStr ''brokerops'')]"


text \<open>
  The two halves differ on a model with a list of texts named like a tenant: the runtime half reads its
  items as bare tenant identifiers, the static half looks at the name of a parameter only.
\<close>

theorem nested_names_differ:
  "\<not> accepts_tenant_bearing_param [[(''partner_tenant_id'', None, AGeneric [AOther])]] [(''deal'', AModel 0)]"
  "conforms [[(''partner_tenant_id'', None, AGeneric [AOther])]] (AModel 0)
     (VModel 1 [(''partner_tenant_id'', None, VSeq 2 [VStr ''acme''])])"
  "tenants ''deal'' (VModel 1 [(''partner_tenant_id'', None, VSeq 2 [VStr ''acme''])]) = [''acme'']"
  by (simp_all add: accepts_tenant_bearing_param_def annotation_is_tenant_bearing_def is_tenant_param_name_def
      tenant_field_def endswith_def has_tenant_field_def field_annotations_def tenants_def)
    (rule conforms.model, auto intro: conforms.intros intro!: conforms.sequence)

end
