(* ===== verification/Http.thy ===== *)
theory Http
  imports Prelude PyText
begin

text \<open>
  The HTTP exchange of the vendor adapters: a request as \<open>httpx\<close> is asked to send it, an answer as the
  adapters read it, a server as a function from the one to the other over its own state. The text a
  status error carries is its status.
\<close>

text \<open>One step after another of a computation that may raise.\<close>

definition thenE :: "exn + 'a \<Rightarrow> ('a \<Rightarrow> exn + 'b) \<Rightarrow> exn + 'b" where
  "thenE r k = (case r of Inl e \<Rightarrow> Inl e | Inr a \<Rightarrow> k a)"

lemma thenE_simps [simp]: "thenE (Inl e) k = Inl e" "thenE (Inr a) k = k a"
  by (simp_all add: thenE_def)

datatype 'j http_body = NoBody | JsonBody 'j | FormBody "(string \<times> string) list" | RawBody string

record 'j http_request =
  rq_method :: string
  rq_path :: string
  rq_params :: "(string \<times> string) list"
  rq_headers :: "(string \<times> string) list"
  rq_body :: "'j http_body"

text \<open>The body of an answer is \<open>None\<close> when it is not JSON.\<close>

record 'j http_response =
  rs_status :: nat
  rs_headers :: "(string \<times> string) list"
  rs_body :: "'j option"

type_synonym ('s, 'j) http_client = "'j http_request \<Rightarrow> ('s, 'j http_response) M"

definition http_get :: "string \<Rightarrow> (string \<times> string) list \<Rightarrow> (string \<times> string) list \<Rightarrow> 'j http_request" where
  "http_get path params headers =
     \<lparr>rq_method = ''GET'', rq_path = path, rq_params = params, rq_headers = headers, rq_body = NoBody\<rparr>"

definition http_post :: "string \<Rightarrow> (string \<times> string) list \<Rightarrow> 'j http_body \<Rightarrow> 'j http_request" where
  "http_post path headers body =
     \<lparr>rq_method = ''POST'', rq_path = path, rq_params = [], rq_headers = headers, rq_body = body\<rparr>"

definition answer :: "nat \<Rightarrow> 'j \<Rightarrow> 'j http_response" where
  "answer status body = \<lparr>rs_status = status, rs_headers = [], rs_body = Some body\<rparr>"

text \<open>\<open>response.raise_for_status()\<close> and \<open>response.json()\<close>.\<close>

definition raise_for_status :: "'j http_response \<Rightarrow> ('s, unit) M" where
  "raise_for_status r =
     (if 200 \<le> rs_status r \<and> rs_status r < 300 then ret ()
      else raise (HttpxError ''HTTPStatusError'' (show_nat (rs_status r))))"

definition json_of :: "'j http_response \<Rightarrow> ('s, 'j) M" where
  "json_of r = (case rs_body r of Some j \<Rightarrow> ret j | None \<Rightarrow> raise (ValueError ''Expecting value''))"

text \<open>A header, by its name in lower case.\<close>

definition header :: "(string \<times> string) list \<Rightarrow> string \<Rightarrow> string option" where
  "header hs name = map_of (map (\<lambda>(n, v). (lower n, v)) hs) (lower name)"

lemma answer_simps [simp]:
  "rs_status (answer n j) = n" "rs_body (answer n j) = Some j" "rs_headers (answer n j) = []"
  by (simp_all add: answer_def)

lemma request_simps [simp]:
  "rq_method (http_get p q h) = ''GET''" "rq_path (http_get p q h) = p" "rq_params (http_get p q h) = q"
  "rq_headers (http_get p q h) = h" "rq_body (http_get p q h) = NoBody"
  "rq_method (http_post p h b) = ''POST''" "rq_path (http_post p h b) = p" "rq_params (http_post p h b) = []"
  "rq_headers (http_post p h b) = h" "rq_body (http_post p h b) = b"
  by (simp_all add: http_get_def http_post_def)

lemma raise_for_status_ok [simp]:
  "200 \<le> rs_status r \<Longrightarrow> rs_status r < 300 \<Longrightarrow> raise_for_status r s = (Inr (), s)"
  by (simp add: raise_for_status_def)

lemma json_of_answer [simp]: "json_of (answer n j) s = (Inr j, s)"
  by (simp add: json_of_def)

end
