(* ===== verification/Identity.thy ===== *)
theory Identity
  imports Tenancy
begin

text \<open>
  Who may call: the allowlist and the role resolver (\<open>core/services/identity.py\<close>), magic-link login
  (\<open>core/services/magic_link.py\<close> over both token stores of \<open>api/db.py\<close>), session tokens
  (\<open>api/auth/session.py\<close>), the Google verifier, the composite verifier, and the auth routes with
  their throttle. Signing and checking of a JWT and of a Google ID token are library code: the
  parameters \<open>au_jwt\<close> and \<open>au_google\<close>.
\<close>

section \<open>State\<close>

text \<open>
  \<open>PyJWT\<close>: \<open>encode(claims, key)\<close>, and \<open>decode(token, key)\<close> at an instant, with the text of the
  \<open>PyJWTError\<close> where it raises.
\<close>

record jwt_lib =
  jw_encode :: "pydict \<Rightarrow> string \<Rightarrow> string"
  jw_decode :: "instant \<Rightarrow> string \<Rightarrow> string \<Rightarrow> string + pydict"

text \<open>
  The rows of \<open>magic_login_tokens\<close> with their \<open>consumed_at\<close>, the rows and the consumed set of the
  in-memory store, the throttle's recent requests, and what a process cannot predict: both clocks, the
  minted tokens, the mail server's answers and the libraries. Instants and ticks are microseconds.
\<close>

record auth_world =
  au_clock :: "nat \<Rightarrow> instant"
  au_reads :: nat
  au_ticks :: "nat \<Rightarrow> int"
  au_tick_reads :: nat
  au_token :: "nat \<Rightarrow> string"
  au_minted :: nat
  au_sha256 :: "string \<Rightarrow> string"
  au_mail :: "nat \<Rightarrow> exn option"
  au_mailed :: "(string \<times> string \<times> string) list"
  au_google :: "nat \<Rightarrow> string \<Rightarrow> string \<Rightarrow> exn + pydict"
  au_google_calls :: nat
  au_jwt :: jwt_lib
  au_logins :: "(string, string \<times> instant \<times> instant option) dict"
  au_rows :: "(string, string \<times> instant) dict"
  au_consumed :: "string list"
  au_recent :: "(string, int list) dict"

type_synonym 'a A = "(auth_world, 'a) M"

definition auth_now :: "instant A" where
  "auth_now w = (Inr (au_clock w (au_reads w)), w\<lparr>au_reads := Suc (au_reads w)\<rparr>)"

definition monotonic :: "int A" where
  "monotonic w = (Inr (au_ticks w (au_tick_reads w)), w\<lparr>au_tick_reads := Suc (au_tick_reads w)\<rparr>)"

definition token_urlsafe :: "string A" where
  "token_urlsafe w = (Inr (au_token w (au_minted w)), w\<lparr>au_minted := Suc (au_minted w)\<rparr>)"

text \<open>\<open>EmailSender.send\<close>: SMTP, or the console sender that only prints.\<close>

definition send_mail :: "string \<Rightarrow> string \<Rightarrow> string \<Rightarrow> unit A" where
  "send_mail to subject text w =
     (case au_mail w (length (au_mailed w)) of None \<Rightarrow> Inr () | Some e \<Rightarrow> Inl e,
      w\<lparr>au_mailed := au_mailed w @ [(to, subject, text)]\<rparr>)"

named_theorems auth "unfolding of the primitive operations on the auth state"

declare auth_now_def [auth] monotonic_def [auth] token_urlsafe_def [auth] send_mail_def [auth]

text \<open>The last instant of 9999-12-31, and 1970-01-01.\<close>

definition instant_max :: instant where
  "instant_max = 3652059 * 86400000000 - 1"

definition epoch :: instant where
  "epoch = 719162 * 86400000000"

definition instant_add :: "instant \<Rightarrow> int \<Rightarrow> exn + instant" where
  "instant_add t d = (if 0 \<le> t + d \<and> t + d \<le> instant_max then Inr (t + d) else Inl OverflowError)"

section \<open>Principals, allowlist, roles\<close>

record principal =
  pr_subject :: string
  pr_email :: string
  pr_name :: string
  pr_verified :: bool
  pr_role :: role

definition demo_principal :: principal where
  "demo_principal = \<lparr>pr_subject = ''demo-operator'', pr_email = ''operator@demo.brokerops'',
     pr_name = ''Demo Operator'', pr_verified = True, pr_role = Admin\<rparr>"

text \<open>\<open>x or None\<close> on an optional string; \<open>e.strip().lower()\<close> of the entries that are not blank.\<close>

definition non_empty :: "string option \<Rightarrow> string option" where
  "non_empty s = (if s = Some [] then None else s)"

definition cleaned :: "string list \<Rightarrow> string list" where
  "cleaned es = map (\<lambda>e. lower (strip e)) (filter (\<lambda>e. strip e \<noteq> []) es)"

text \<open>A frozenset is the list of its members.\<close>

definition lower_set :: "string list option \<Rightarrow> string list option" where
  "lower_set es = (case es of None \<Rightarrow> None | Some xs \<Rightarrow> if cleaned xs = [] then None else Some (cleaned xs))"

record email_allowlist =
  al_domain :: "string option"
  al_emails :: "string list option"

definition new_allowlist :: "string option \<Rightarrow> string list option \<Rightarrow> email_allowlist" where
  "new_allowlist domain emails =
     \<lparr>al_domain = non_empty domain,
      al_emails = (case emails of None \<Rightarrow> None | Some es \<Rightarrow> if es = [] then None else Some (cleaned es))\<rparr>"

definition allowlist_unrestricted :: "email_allowlist \<Rightarrow> bool" where
  "allowlist_unrestricted a \<longleftrightarrow> al_emails a = None \<and> al_domain a = None"

text \<open>The hosted domain is the \<open>hd\<close> claim of a Google token, whatever it holds.\<close>

definition matches :: "string \<Rightarrow> pyv \<Rightarrow> string list option \<Rightarrow> string option \<Rightarrow> bool" where
  "matches email hosted emails domain \<longleftrightarrow>
     (let e = lower email
      in (case emails of None \<Rightarrow> False | Some es \<Rightarrow> e \<in> set es) \<or>
         (case domain of None \<Rightarrow> False | Some d \<Rightarrow> hosted = PStr d \<or> after_last CHR ''@'' e = d))"

definition permits :: "email_allowlist \<Rightarrow> string \<Rightarrow> pyv \<Rightarrow> bool" where
  "permits a email hosted \<longleftrightarrow>
     allowlist_unrestricted a \<or> matches email hosted (al_emails a) (al_domain a)"

record role_resolver =
  rr_admin_emails :: "string list option"
  rr_admin_domain :: "string option"
  rr_viewer_emails :: "string list option"
  rr_viewer_domain :: "string option"

definition new_roles ::
    "string list option \<Rightarrow> string option \<Rightarrow> string list option \<Rightarrow> string option \<Rightarrow> role_resolver" where
  "new_roles admins admin_domain viewers viewer_domain =
     \<lparr>rr_admin_emails = lower_set admins, rr_admin_domain = non_empty admin_domain,
      rr_viewer_emails = lower_set viewers, rr_viewer_domain = non_empty viewer_domain\<rparr>"

definition roles_unrestricted :: "role_resolver \<Rightarrow> bool" where
  "roles_unrestricted r \<longleftrightarrow> rr_admin_emails r = None \<and> rr_admin_domain r = None \<and>
     rr_viewer_emails r = None \<and> rr_viewer_domain r = None"

definition role_for :: "role_resolver \<Rightarrow> string \<Rightarrow> pyv \<Rightarrow> role" where
  "role_for r email hosted =
     (if roles_unrestricted r then Admin
      else if matches email hosted (rr_admin_emails r) (rr_admin_domain r) then Admin
      else if matches email hosted (rr_viewer_emails r) (rr_viewer_domain r) then Viewer
      else Operator)"

section \<open>Token stores\<close>

record token_store =
  ts_create :: "string \<Rightarrow> string \<Rightarrow> instant \<Rightarrow> unit A"
  ts_consume :: "string \<Rightarrow> (string \<times> instant) option A"

text \<open>The SQL store: the primary key refuses a second row; the update claims an unused one.\<close>

definition sql_create_token :: "string \<Rightarrow> string \<Rightarrow> instant \<Rightarrow> unit A" where
  "sql_create_token h email expires w =
     (if dict_get (au_logins w) h \<noteq> None then (Inl (ProviderError ''IntegrityError'' ''''), w)
      else (Inr (), w\<lparr>au_logins := dict_set (au_logins w) h (email, expires, None)\<rparr>))"

definition sql_consume_token :: "string \<Rightarrow> (string \<times> instant) option A" where
  "sql_consume_token h = bindM auth_now (\<lambda>now. \<lambda>w.
     (case dict_get (au_logins w) h of
        Some (email, expires, None) \<Rightarrow>
          (Inr (Some (email, expires)),
           w\<lparr>au_logins := dict_set (au_logins w) h (email, expires, Some now)\<rparr>)
      | _ \<Rightarrow> (Inr None, w)))"

definition mem_create_token :: "string \<Rightarrow> string \<Rightarrow> instant \<Rightarrow> unit A" where
  "mem_create_token h email expires = modify (\<lambda>w. w\<lparr>au_rows := dict_set (au_rows w) h (email, expires)\<rparr>)"

definition mem_consume_token :: "string \<Rightarrow> (string \<times> instant) option A" where
  "mem_consume_token h w =
     (case dict_get (au_rows w) h of
        None \<Rightarrow> (Inr None, w)
      | Some row \<Rightarrow>
          if h \<in> set (au_consumed w) then (Inr None, w)
          else (Inr (Some row), w\<lparr>au_consumed := h # au_consumed w\<rparr>))"

definition sql_tokens :: token_store where
  "sql_tokens = \<lparr>ts_create = sql_create_token, ts_consume = sql_consume_token\<rparr>"

definition mem_tokens :: token_store where
  "mem_tokens = \<lparr>ts_create = mem_create_token, ts_consume = mem_consume_token\<rparr>"

section \<open>Session tokens\<close>

definition issuer :: string where
  "issuer = ''brokerops''"

definition access_ttl :: int where
  "access_ttl = 3600 * 1000000"

definition refresh_ttl :: int where
  "refresh_ttl = 24 * 3600 * 1000000"

definition access_typ :: string where
  "access_typ = ''access''"

definition refresh_typ :: string where
  "refresh_typ = ''refresh''"

text \<open>PyJWT stores a \<open>datetime\<close> claim as whole seconds since the epoch.\<close>

definition numeric_date :: "instant \<Rightarrow> int" where
  "numeric_date t = (t - epoch) div 1000000"

record session_service =
  ss_key :: string
  ss_access_ttl :: int
  ss_refresh_ttl :: int

definition new_session_service :: "string \<Rightarrow> session_service" where
  "new_session_service key = \<lparr>ss_key = key, ss_access_ttl = access_ttl, ss_refresh_ttl = refresh_ttl\<rparr>"

definition session_claims :: "principal \<Rightarrow> string \<Rightarrow> instant \<Rightarrow> instant \<Rightarrow> pydict" where
  "session_claims p typ now expires =
     [(''iss'', PStr issuer), (''typ'', PStr typ), (''sub'', PStr (pr_subject p)),
      (''email'', PStr (pr_email p)), (''name'', PStr (pr_name p)), (''role'', PStr (role_value (pr_role p))),
      (''iat'', PInt (numeric_date now)), (''exp'', PInt (numeric_date expires))]"

definition clamped :: "instant option \<Rightarrow> instant \<Rightarrow> instant" where
  "clamped not_after t = (case not_after of None \<Rightarrow> t | Some d \<Rightarrow> if d < t then d else t)"

definition encode_session ::
    "session_service \<Rightarrow> principal \<Rightarrow> string \<Rightarrow> int \<Rightarrow> instant option \<Rightarrow> string A" where
  "encode_session s p typ ttl not_after =
     bindM auth_now (\<lambda>now.
     bindM (liftE (instant_add now ttl)) (\<lambda>t.
       gets (\<lambda>w. jw_encode (au_jwt w) (session_claims p typ now (clamped not_after t)) (ss_key s))))"

definition issue :: "session_service \<Rightarrow> principal \<Rightarrow> instant option \<Rightarrow> string A" where
  "issue s p not_after = encode_session s p access_typ (ss_access_ttl s) not_after"

definition issue_refresh :: "session_service \<Rightarrow> principal \<Rightarrow> string A" where
  "issue_refresh s p = encode_session s p refresh_typ (ss_refresh_ttl s) None"

text \<open>\<open>str(claims.get(name, ""))\<close>; a missing \<open>sub\<close> is a \<open>KeyError\<close>.\<close>

definition claim_str :: "pydict \<Rightarrow> string \<Rightarrow> string" where
  "claim_str claims name = (case dict_get claims name of None \<Rightarrow> [] | Some v \<Rightarrow> py_str v)"

definition claim_sub :: "pydict \<Rightarrow> exn + string" where
  "claim_sub claims =
     (case dict_get claims ''sub'' of None \<Rightarrow> Inl (KeyError ''sub'') | Some v \<Rightarrow> Inr (py_str v))"

definition claimed_role :: "pydict \<Rightarrow> role" where
  "claimed_role claims =
     (case dict_get claims ''role'' of
        Some (PStr s) \<Rightarrow> (case role_of s of Some r \<Rightarrow> r | None \<Rightarrow> Viewer)
      | _ \<Rightarrow> Viewer)"

definition principal_from_claims :: "pydict \<Rightarrow> exn + principal" where
  "principal_from_claims claims =
     (case claim_sub claims of
        Inl e \<Rightarrow> Inl e
      | Inr sub \<Rightarrow> Inr \<lparr>pr_subject = sub, pr_email = claim_str claims ''email'',
          pr_name = claim_str claims ''name'', pr_verified = True, pr_role = claimed_role claims\<rparr>)"

text \<open>\<open>_decode\<close>, with the \<open>PyJWTError\<close> turned into the caller's \<open>AuthError\<close>.\<close>

definition decode_session :: "string \<Rightarrow> string \<Rightarrow> string \<Rightarrow> pydict A" where
  "decode_session prefix token key =
     bindM auth_now (\<lambda>now.
     bindM (gets au_jwt) (\<lambda>jwt.
       case jw_decode jwt now token key of
         Inl m \<Rightarrow> raise (AuthError (prefix @ m) False)
       | Inr claims \<Rightarrow> ret claims))"

definition claim_typ :: "pydict \<Rightarrow> pyv" where
  "claim_typ claims = (case dict_get claims ''typ'' of None \<Rightarrow> PNone | Some v \<Rightarrow> v)"

type_synonym verifier = "string option \<Rightarrow> principal A"

definition missing_bearer :: exn where
  "missing_bearer = AuthError ''missing bearer token'' False"

definition session_verify :: "string \<Rightarrow> verifier" where
  "session_verify key token =
     (case token of
        None \<Rightarrow> raise missing_bearer
      | Some t \<Rightarrow>
          if t = [] then raise missing_bearer
          else bindM (decode_session ''invalid session token: '' t key) (\<lambda>claims.
            if claim_typ claims \<noteq> PStr access_typ
            then raise (AuthError (''token type '' @ py_repr_v (claim_typ claims) @
                   '' cannot be used as a bearer'') False)
            else liftE (principal_from_claims claims)))"

record session_refresher =
  sr_key :: string
  sr_allowlist :: email_allowlist
  sr_roles :: role_resolver
  sr_service :: session_service

text \<open>\<open>datetime.fromtimestamp(float(claims["exp"]), UTC)\<close>: a \<open>ValueError\<close> outside the calendar.\<close>

definition expiry_of :: "pydict \<Rightarrow> exn + instant" where
  "expiry_of claims =
     (case dict_get claims ''exp'' of
        None \<Rightarrow> Inl (KeyError ''exp'')
      | Some (PInt e) \<Rightarrow>
          (let t = epoch + e * 1000000
           in if 0 \<le> t \<and> t \<le> instant_max then Inr t else Inl (ValueError ''year is out of range''))
      | Some _ \<Rightarrow> Inl (ValueError ''exp''))"

definition refresh :: "session_refresher \<Rightarrow> string \<Rightarrow> string A" where
  "refresh r token =
     bindM (decode_session ''invalid refresh token: '' token (sr_key r)) (\<lambda>claims.
       if claim_typ claims \<noteq> PStr refresh_typ then raise (AuthError ''not a refresh token'' False)
       else let email = claim_str claims ''email''
         in if email = [] then raise (AuthError ''refresh token missing email'' False)
         else if \<not> permits (sr_allowlist r) email PNone
         then raise (AuthError (email @ '' is not permitted'') True)
         else bindM (liftE (claim_sub claims)) (\<lambda>sub.
           let p = \<lparr>pr_subject = sub, pr_email = email, pr_name = claim_str claims ''name'',
                    pr_verified = True, pr_role = role_for (sr_roles r) email PNone\<rparr>
           in bindM (liftE (expiry_of claims)) (\<lambda>expires. issue (sr_service r) p (Some expires))))"

section \<open>The other verifiers\<close>

definition demo_verify :: verifier where
  "demo_verify _ = ret demo_principal"

definition verify_oauth2_token :: "string \<Rightarrow> string \<Rightarrow> pydict A" where
  "verify_oauth2_token token client_id w =
     (au_google w (au_google_calls w) token client_id, w\<lparr>au_google_calls := Suc (au_google_calls w)\<rparr>)"

definition google_issuers :: "string list" where
  "google_issuers = [''accounts.google.com'', ''https://accounts.google.com'']"

record google_verifier =
  gv_client_id :: string
  gv_allowlist :: email_allowlist
  gv_roles :: role_resolver

definition google_principal :: "google_verifier \<Rightarrow> pydict \<Rightarrow> exn + principal" where
  "google_principal g claims =
     (let email = lower (claim_str claims ''email'');
          hosted = (case dict_get claims ''hd'' of None \<Rightarrow> PNone | Some v \<Rightarrow> v)
      in if \<not> (\<exists>i \<in> set google_issuers. dict_get claims ''iss'' = Some (PStr i))
         then Inl (AuthError ''unexpected token issuer'' False)
         else if email = [] \<or> \<not> (case dict_get claims ''email_verified'' of None \<Rightarrow> False | Some v \<Rightarrow> truthy v)
         then Inl (AuthError ''token has no verified email'' False)
         else if \<not> permits (gv_allowlist g) email hosted
         then Inl (AuthError (email @ '' is not permitted'') True)
         else (case claim_sub claims of
                 Inl e \<Rightarrow> Inl e
               | Inr sub \<Rightarrow> Inr \<lparr>pr_subject = sub, pr_email = email, pr_name = claim_str claims ''name'',
                   pr_verified = True, pr_role = role_for (gv_roles g) email hosted\<rparr>))"

definition google_verify :: "google_verifier \<Rightarrow> verifier" where
  "google_verify g token =
     (case token of
        None \<Rightarrow> raise missing_bearer
      | Some t \<Rightarrow>
          if t = [] then raise missing_bearer
          else bindM (try_except is_value_error (verify_oauth2_token t (gv_client_id g))
                 (\<lambda>e. raise (AuthError (''invalid id token: '' @ exn_str e) False)))
               (\<lambda>claims. liftE (google_principal g claims)))"

text \<open>
  The composite: the first verifier that accepts; after the last, \<open>forbidden or last\<close>, the most
  recent refusal of each kind.
\<close>

fun composite_from :: "exn option \<Rightarrow> exn option \<Rightarrow> verifier list \<Rightarrow> verifier" where
  "composite_from forbidden last_error [] token =
     raise (case forbidden of Some e \<Rightarrow> e | None \<Rightarrow>
       (case last_error of Some e \<Rightarrow> e | None \<Rightarrow> AuthError ''no identity verifier accepted the token'' False))"
| "composite_from forbidden last_error (v # vs) token =
     (\<lambda>w. case v token w of
        (Inr p, w') \<Rightarrow> (Inr p, w')
      | (Inl (AuthError m f), w') \<Rightarrow>
          composite_from (if f then Some (AuthError m f) else forbidden) (Some (AuthError m f)) vs token w'
      | (Inl e, w') \<Rightarrow> (Inl e, w'))"

definition composite_verify :: "verifier list \<Rightarrow> verifier" where
  "composite_verify vs = composite_from None None vs"

section \<open>Magic links\<close>

definition magic_ttl :: int where
  "magic_ttl = 15 * 60 * 1000000"

record magic_service =
  mg_store :: token_store
  mg_issuer :: session_service
  mg_allowlist :: email_allowlist
  mg_base_url :: string
  mg_roles :: role_resolver
  mg_ttl :: int

definition rstrip_slash :: "string \<Rightarrow> string" where
  "rstrip_slash s = rev (dropWhile (\<lambda>c. c = CHR ''/'') (rev s))"

definition new_magic_service ::
    "token_store \<Rightarrow> session_service \<Rightarrow> email_allowlist \<Rightarrow> role_resolver \<Rightarrow> string \<Rightarrow> magic_service" where
  "new_magic_service store service allowlist roles url =
     \<lparr>mg_store = store, mg_issuer = service, mg_allowlist = allowlist, mg_base_url = rstrip_slash url,
      mg_roles = roles, mg_ttl = magic_ttl\<rparr>"

definition link_subject :: string where
  "link_subject = ''Your brokerops sign-in link''"

definition link_text :: "magic_service \<Rightarrow> string \<Rightarrow> string" where
  "link_text s token =
     ''Sign in to brokerops by opening this link (valid for '' @ show_int (mg_ttl s div 60000000) @
     '' minutes):'' @ [CHR 0x0A, CHR 0x0A] @ mg_base_url s @ ''/auth/callback?token='' @ token @
     [CHR 0x0A, CHR 0x0A] @ ''If you didn'' @ [CHR 0x27] @ ''t request this, you can ignore this email.''"

definition magic_request :: "magic_service \<Rightarrow> string \<Rightarrow> unit A" where
  "magic_request s raw =
     (let email = lower (strip raw)
      in if email = [] \<or> \<not> permits (mg_allowlist s) email PNone then ret ()
         else bindM token_urlsafe (\<lambda>token.
              bindM auth_now (\<lambda>now.
              bindM (liftE (instant_add now (mg_ttl s))) (\<lambda>expires.
              bindM (gets au_sha256) (\<lambda>sha.
                thenM (ts_create (mg_store s) (sha token) email expires)
                  (send_mail email link_subject (link_text s token)))))))"

definition magic_principal :: "magic_service \<Rightarrow> string \<Rightarrow> principal" where
  "magic_principal s email =
     \<lparr>pr_subject = email, pr_email = email, pr_name = [], pr_verified = True,
      pr_role = role_for (mg_roles s) email PNone\<rparr>"

text \<open>The pair of tokens: access and refresh.\<close>

definition magic_redeem :: "magic_service \<Rightarrow> string \<Rightarrow> (string \<times> string) A" where
  "magic_redeem s token =
     bindM (gets au_sha256) (\<lambda>sha.
     bindM (ts_consume (mg_store s) (sha token)) (\<lambda>record.
       case record of
         None \<Rightarrow> raise (AuthError ''invalid or already-used sign-in link'' False)
       | Some (email, expires) \<Rightarrow>
           bindM auth_now (\<lambda>now.
             if expires < now then raise (AuthError ''sign-in link expired'' False)
             else if \<not> permits (mg_allowlist s) email PNone
             then raise (AuthError (email @ '' is not permitted'') True)
             else bindM (issue (mg_issuer s) (magic_principal s email) None) (\<lambda>access.
                  bindM (issue_refresh (mg_issuer s) (magic_principal s email)) (\<lambda>again.
                    ret (access, again))))))"

section \<open>Routes\<close>

text \<open>\<open>HTTPException(403 if exc.forbidden else 401)\<close>.\<close>

fun is_auth_error :: "exn \<Rightarrow> bool" where
  "is_auth_error (AuthError _ _) = True"
| "is_auth_error _ = False"

fun auth_response :: "exn \<Rightarrow> exn" where
  "auth_response (AuthError m forbidden) = HTTPException (if forbidden then 403 else 401) m"
| "auth_response e = e"

definition rate_window :: int where
  "rate_window = 60 * 1000000"

definition rate_max :: nat where
  "rate_max = 3"

definition recent_hits :: "auth_world \<Rightarrow> string \<Rightarrow> int \<Rightarrow> int list" where
  "recent_hits w email now =
     filter (\<lambda>t. now - t < rate_window)
       (case dict_get (au_recent w) email of None \<Rightarrow> [] | Some hits \<Rightarrow> hits)"

definition throttle :: "string \<Rightarrow> unit A" where
  "throttle email =
     bindM monotonic (\<lambda>now. \<lambda>w.
       (let hits = recent_hits w email now
        in if rate_max \<le> length hits
           then (Inl (HTTPException 429 ''too many requests; try again shortly''), w)
           else (Inr (), w\<lparr>au_recent := dict_set (au_recent w) email (hits @ [now])\<rparr>)))"

definition request_magic_link :: "magic_service \<Rightarrow> string \<Rightarrow> unit A" where
  "request_magic_link s body_email =
     (let email = lower body_email in thenM (throttle email) (magic_request s email))"

definition redeem_magic_link :: "magic_service \<Rightarrow> string \<Rightarrow> (string \<times> string) A" where
  "redeem_magic_link s token =
     try_except is_auth_error (magic_redeem s token) (\<lambda>e. raise (auth_response e))"

definition refresh_session :: "session_refresher \<Rightarrow> string \<Rightarrow> string A" where
  "refresh_session r token =
     try_except is_auth_error (refresh r token) (\<lambda>e. raise (auth_response e))"

text \<open>The bearer of a request, and the dependency every operator route has.\<close>

definition bearer_token :: "string option \<Rightarrow> string option" where
  "bearer_token authorization =
     (case authorization of
        None \<Rightarrow> None
      | Some t \<Rightarrow> if startswith (lower t) ''bearer '' then Some (strip (drop 7 t)) else Some t)"

definition get_current_principal :: "verifier \<Rightarrow> string option \<Rightarrow> principal A" where
  "get_current_principal verify authorization =
     try_except is_auth_error (verify (bearer_token authorization)) (\<lambda>e. raise (auth_response e))"

definition require_role :: "role \<Rightarrow> principal \<Rightarrow> exn + principal" where
  "require_role minimum p =
     (if role_allows (pr_role p) minimum then Inr p
      else Inl (HTTPException 403 (''requires '' @ role_value minimum @ '' role (you are '' @
             role_value (pr_role p) @ '')'')))"

end
