(* ===== verification/Sessions.thy ===== *)
theory Sessions
  imports Identity Samples
begin

text \<open>
  What the session tokens and the throttle guarantee: a token is accepted as what it was issued as and
  carries its principal, refreshing never extends a session, and link requests are bounded.
\<close>

section \<open>The JWT library\<close>

text \<open>
  What PyJWT documents of \<open>decode\<close> with \<open>issuer\<close> and \<open>require\<close>: the registered claims it checks. A
  token it encoded decodes, under the same key, to its claims while these hold and is refused after.
\<close>

definition jwt_valid :: "instant \<Rightarrow> pydict \<Rightarrow> bool" where
  "jwt_valid now claims \<longleftrightarrow>
     dict_get claims ''iss'' = Some (PStr issuer) \<and> dict_get claims ''sub'' \<noteq> None \<and>
     (case dict_get claims ''exp'' of Some (PInt e) \<Rightarrow> now < epoch + e * 1000000 | _ \<Rightarrow> False) \<and>
     (case dict_get claims ''iat'' of None \<Rightarrow> True | Some (PInt i) \<Rightarrow> epoch + i * 1000000 \<le> now | _ \<Rightarrow> False)"

definition jwt_library :: "jwt_lib \<Rightarrow> bool" where
  "jwt_library j \<longleftrightarrow>
     (\<forall>p ty t0 t1 key.
        let claims = session_claims p ty t0 t1; token = jw_encode j claims key
        in token \<noteq> [] \<and> (\<forall>c \<in> set token. \<not> is_space c) \<and>
           (\<forall>now. if jwt_valid now claims then jw_decode j now token key = Inr claims
                  else \<exists>m. jw_decode j now token key = Inl m))"

lemma jwt_token:
  assumes "jwt_library j"
  shows "jw_encode j (session_claims p ty t0 t1) key \<noteq> []"
    and "\<forall>c \<in> set (jw_encode j (session_claims p ty t0 t1) key). \<not> is_space c"
  using assms [unfolded jwt_library_def Let_def, rule_format, of p ty t0 t1 key] by blast+

lemma jwt_decodes:
  assumes "jwt_library j"
  shows "jwt_valid now (session_claims p ty t0 t1) \<Longrightarrow>
      jw_decode j now (jw_encode j (session_claims p ty t0 t1) key) key = Inr (session_claims p ty t0 t1)"
    and "\<not> jwt_valid now (session_claims p ty t0 t1) \<Longrightarrow>
      \<exists>m. jw_decode j now (jw_encode j (session_claims p ty t0 t1) key) key = Inl m"
  using assms [unfolded jwt_library_def Let_def, THEN spec, THEN spec, THEN spec, THEN spec, THEN spec,
      of p ty t0 t1 key]
  by simp_all

lemma numeric_date_le: "epoch + numeric_date t * 1000000 \<le> t"
  unfolding numeric_date_def minus_mod_eq_div_mult [symmetric]
  using pos_mod_sign [of 1000000 "t - epoch"] by linarith

lemma numeric_date_gt: "t < epoch + numeric_date t * 1000000 + 1000000"
  unfolding numeric_date_def minus_mod_eq_div_mult [symmetric]
  using pos_mod_bound [of 1000000 "t - epoch"] by linarith

lemma numeric_date_mono: "s \<le> t \<Longrightarrow> numeric_date s \<le> numeric_date t"
  unfolding numeric_date_def by (simp add: zdiv_mono1)

lemma session_claims_get [simp]:
  "dict_get (session_claims p ty now expires) ''iss'' = Some (PStr issuer)"
  "dict_get (session_claims p ty now expires) ''typ'' = Some (PStr ty)"
  "dict_get (session_claims p ty now expires) ''sub'' = Some (PStr (pr_subject p))"
  "dict_get (session_claims p ty now expires) ''email'' = Some (PStr (pr_email p))"
  "dict_get (session_claims p ty now expires) ''name'' = Some (PStr (pr_name p))"
  "dict_get (session_claims p ty now expires) ''role'' = Some (PStr (role_value (pr_role p)))"
  "dict_get (session_claims p ty now expires) ''iat'' = Some (PInt (numeric_date now))"
  "dict_get (session_claims p ty now expires) ''exp'' = Some (PInt (numeric_date expires))"
  by (simp_all add: session_claims_def dict_get_def)

lemma session_claims_valid:
  "jwt_valid t (session_claims p ty now expires) \<longleftrightarrow>
     t < epoch + numeric_date expires * 1000000 \<and> epoch + numeric_date now * 1000000 \<le> t"
  by (simp add: jwt_valid_def)

lemma principal_of_session:
  "principal_from_claims (session_claims p ty now expires) = Inr (p\<lparr>pr_verified := True\<rparr>)"
  by (cases p) (simp add: principal_from_claims_def claim_sub_def claim_str_def claimed_role_def)

section \<open>Issuing and accepting\<close>

text \<open>The instant the next clock read gives.\<close>

definition next_now :: "auth_world \<Rightarrow> instant" where
  "next_now w = au_clock w (au_reads w)"

lemma encode_session_run:
  "encode_session s p ty ttl d w =
     (case instant_add (next_now w) ttl of
        Inl e \<Rightarrow> (Inl e, w\<lparr>au_reads := Suc (au_reads w)\<rparr>)
      | Inr t \<Rightarrow> (Inr (jw_encode (au_jwt w) (session_claims p ty (next_now w) (clamped d t)) (ss_key s)),
                 w\<lparr>au_reads := Suc (au_reads w)\<rparr>))"
  by (simp add: encode_session_def monad auth next_now_def split: sum.split)

lemma instant_add_Inr: "instant_add t d = Inr u \<longleftrightarrow> u = t + d \<and> 0 \<le> t + d \<and> t + d \<le> instant_max"
  by (auto simp: instant_add_def)

lemma decode_session_run:
  fixes p ty t0 t1
  assumes "jwt_library (au_jwt w)"
  defines "c \<equiv> session_claims p ty t0 t1"
  shows "\<exists>m. decode_session prefix (jw_encode (au_jwt w) c key) key w =
    (if jwt_valid (next_now w) c then Inr c else Inl (AuthError (prefix @ m) False),
     w\<lparr>au_reads := Suc (au_reads w)\<rparr>)"
proof (cases "jwt_valid (next_now w) c")
  case True
  with jwt_decodes(1) [OF assms(1) True [unfolded c_def], of key] show ?thesis
    by (simp add: decode_session_def monad auth next_now_def c_def)
next
  case False
  with jwt_decodes(2) [OF assms(1) False [unfolded c_def], of key] show ?thesis
    by (auto simp: decode_session_def monad auth next_now_def c_def)
qed

lemma typ_distinct [simp]: "access_typ \<noteq> refresh_typ" "refresh_typ \<noteq> access_typ"
  by (simp_all add: access_typ_def refresh_typ_def)

text \<open>A token on a request: what follows "Bearer ".\<close>

lemma strip_token: "\<forall>c \<in> set t. \<not> is_space c \<Longrightarrow> strip t = t"
proof -
  have lstrip: "lstrip u = u" if "\<forall>c \<in> set u. \<not> is_space c" for u
    using that by (cases u) (simp_all add: lstrip_def)
  assume "\<forall>c \<in> set t. \<not> is_space c"
  then show ?thesis by (simp add: strip_def lstrip)
qed

lemma bearer_of_token: "\<forall>c \<in> set t. \<not> is_space c \<Longrightarrow> bearer_token (Some (''Bearer '' @ t)) = Some t"
proof -
  have "lower ''Bearer '' = ''bearer ''" by code_simp
  then have "lower (''Bearer '' @ t) = ''bearer '' @ lower t" by (simp only: lower_append)
  then have "startswith (lower (''Bearer '' @ t)) ''bearer ''" unfolding startswith_iff by blast
  moreover assume "\<forall>c \<in> set t. \<not> is_space c"
  ultimately show ?thesis by (simp add: bearer_token_def strip_token)
qed

text \<open>The operator dependency, given a token with the claims of a principal.\<close>

lemma present_session:
  fixes p ty t0 t1
  assumes j: "jwt_library (au_jwt w)"
  defines "c \<equiv> session_claims p ty t0 t1"
  shows "\<exists>m. fst (get_current_principal (session_verify key) (Some (''Bearer '' @ jw_encode (au_jwt w) c key)) w) =
    (if jwt_valid (next_now w) c \<and> ty = access_typ then Inr (p\<lparr>pr_verified := True\<rparr>)
     else Inl (HTTPException 401 m))"
proof -
  note t = jwt_token [OF j, of p ty t0 t1 key, folded c_def]
  obtain m where "decode_session ''invalid session token: '' (jw_encode (au_jwt w) c key) key w =
    (if jwt_valid (next_now w) c then Inr c else Inl (AuthError (''invalid session token: '' @ m) False),
     w\<lparr>au_reads := Suc (au_reads w)\<rparr>)"
    using decode_session_run [OF j, of _ p ty t0 t1 key, folded c_def] by blast
  moreover have "get_current_principal (session_verify key) (Some (''Bearer '' @ jw_encode (au_jwt w) c key)) =
      try_except is_auth_error (session_verify key (Some (jw_encode (au_jwt w) c key))) (\<lambda>e. raise (auth_response e))"
    by (simp only: get_current_principal_def bearer_of_token [OF t(2)])
  ultimately show ?thesis
    using t(1) principal_of_session [of p ty t0 t1]
    by (auto simp: session_verify_def monad claim_typ_def c_def)
qed

section \<open>Refreshing\<close>

lemma refresh_other_kind:
  fixes p t0 t1
  assumes j: "jwt_library (au_jwt w)" and "ty \<noteq> refresh_typ"
  defines "c \<equiv> session_claims p ty t0 t1"
  shows "\<exists>m. fst (refresh_session r (jw_encode (au_jwt w) c (sr_key r)) w) = Inl (HTTPException 401 m)"
proof -
  obtain m where "decode_session ''invalid refresh token: '' (jw_encode (au_jwt w) c (sr_key r)) (sr_key r) w =
    (if jwt_valid (next_now w) c then Inr c else Inl (AuthError (''invalid refresh token: '' @ m) False),
     w\<lparr>au_reads := Suc (au_reads w)\<rparr>)"
    using decode_session_run [OF j, of _ p ty t0 t1 "sr_key r", folded c_def] by blast
  with assms(2) show ?thesis
    by (auto simp: refresh_session_def refresh_def monad claim_typ_def c_def)
qed

text \<open>An exchange that succeeds: the access token's claims, bounded by the refresh token's expiry.\<close>

lemma refresh_run:
  assumes j: "jwt_library (au_jwt w)"
    and run: "refresh_session r (jw_encode (au_jwt w) (session_claims p refresh_typ t0 t1) (sr_key r)) w = (Inr access, w')"
  shows "permits (sr_allowlist r) (pr_email p) PNone \<and>
    (\<exists>s0 s1. s1 \<le> epoch + numeric_date t1 * 1000000 \<and>
       access = jw_encode (au_jwt w) (session_claims
         (p\<lparr>pr_verified := True, pr_role := role_for (sr_roles r) (pr_email p) PNone\<rparr>) access_typ s0 s1)
         (ss_key (sr_service r)))"
proof -
  let ?c = "session_claims p refresh_typ t0 t1"
  let ?p = "\<lparr>pr_subject = pr_subject p, pr_email = pr_email p, pr_name = pr_name p, pr_verified = True,
    pr_role = role_for (sr_roles r) (pr_email p) PNone\<rparr>"
  obtain m where d: "decode_session ''invalid refresh token: '' (jw_encode (au_jwt w) ?c (sr_key r)) (sr_key r) w =
    (if jwt_valid (next_now w) ?c then Inr ?c else Inl (AuthError (''invalid refresh token: '' @ m) False),
     w\<lparr>au_reads := Suc (au_reads w)\<rparr>)"
    using decode_session_run [OF j, of _ p refresh_typ t0 t1 "sr_key r"] by blast
  have e: "expiry_of ?c = Inr x \<Longrightarrow> x = epoch + numeric_date t1 * 1000000" for x
    by (auto simp: expiry_of_def Let_def split: if_splits)
  have p: "?p = p\<lparr>pr_verified := True, pr_role := role_for (sr_roles r) (pr_email p) PNone\<rparr>"
    by (cases p) simp
  show ?thesis
    using run d e unfolding p [symmetric]
    by (auto simp: refresh_session_def refresh_def monad claim_typ_def claim_str_def claim_sub_def Let_def
        issue_def encode_session_run clamped_def split: if_splits sum.splits prod.splits)
      (metis linorder_le_less_linear)
qed

section \<open>A concrete library\<close>

text \<open>
  The hypotheses on PyJWT hold of a library whose token is its packed key and claims, written in ones
  and zeros.
\<close>

definition plain_token :: "string \<Rightarrow> string" where
  "plain_token s = concat (map (\<lambda>c. replicate (of_char c) CHR ''1'' @ ''0'') s)"

fun read_token :: "nat \<Rightarrow> string \<Rightarrow> string" where
  "read_token k [] = []"
| "read_token k (c # cs) = (if c = CHR ''1'' then read_token (Suc k) cs else char_of k # read_token 0 cs)"

lemma read_ones: "read_token k (replicate n CHR ''1'' @ CHR ''0'' # s) = char_of (k + n) # read_token 0 s"
  by (induction n arbitrary: k) simp_all

lemma read_plain [simp]: "read_token 0 (plain_token s) = s"
  by (induction s) (simp_all add: plain_token_def read_ones)

lemma plain_token_bits: "c \<in> set (plain_token s) \<Longrightarrow> c = CHR ''1'' \<or> c = CHR ''0''"
  by (auto simp: plain_token_def split: if_splits)

definition claim_int :: "pydict \<Rightarrow> string \<Rightarrow> int" where
  "claim_int claims name = (case dict_get claims name of Some (PInt i) \<Rightarrow> i | _ \<Rightarrow> 0)"

definition plain_claims :: "string list \<Rightarrow> pydict" where
  "plain_claims l =
     [(''iss'', PStr issuer), (''typ'', PStr (l ! 1)), (''sub'', PStr (l ! 2)), (''email'', PStr (l ! 3)),
      (''name'', PStr (l ! 4)), (''role'', PStr (l ! 5)), (''iat'', PInt (unpack_int (l ! 6))),
      (''exp'', PInt (unpack_int (l ! 7)))]"

definition plain_fields :: "pydict \<Rightarrow> string \<Rightarrow> string list" where
  "plain_fields claims key =
     [key, claim_str claims ''typ'', claim_str claims ''sub'', claim_str claims ''email'',
      claim_str claims ''name'', claim_str claims ''role'', pack_int (claim_int claims ''iat''),
      pack_int (claim_int claims ''exp'')]"

definition plain_jwt :: jwt_lib where
  "plain_jwt =
     \<lparr>jw_encode = (\<lambda>claims key. plain_token (pack (plain_fields claims key))),
      jw_decode = (\<lambda>now token key.
        let l = unpack 8 (read_token 0 token); claims = plain_claims l
        in if l ! 0 \<noteq> key then Inl ''Signature verification failed''
           else if jwt_valid now claims then Inr claims else Inl ''Signature has expired'')\<rparr>"

lemma jwt_library_plain: "jwt_library plain_jwt"
proof -
  have eight: "unpack 8 (pack (plain_fields c key)) = plain_fields c key" for c key
    using unpack_pack [of "plain_fields c key"]
    by (simp add: plain_fields_def eval_nat_numeral del: unpack_pack pack.simps unpack.simps)
  have claims: "plain_claims (plain_fields (session_claims p ty t0 t1) key) = session_claims p ty t0 t1"
    for p ty t0 t1 key
    by (simp add: plain_claims_def plain_fields_def claim_str_def claim_int_def)
      (simp add: session_claims_def)
  have ne: "plain_token (pack (plain_fields c key)) \<noteq> []" for c key
    by (simp add: plain_fields_def plain_token_def)
  have key: "plain_fields c key ! 0 = key" for c key
    by (simp add: plain_fields_def)
  have no_space: "\<forall>c \<in> set (plain_token s). \<not> is_space c" for s
    using plain_token_bits [of _ s] by (fastforce simp: is_space_def)
  show ?thesis
    by (simp add: jwt_library_def plain_jwt_def eight claims key ne no_space Let_def)
qed

definition sample_auth :: auth_world where
  "sample_auth =
     \<lparr>au_clock = (\<lambda>n. epoch + int n * 1000000), au_reads = 0, au_ticks = (\<lambda>n. int n * 1000000),
      au_tick_reads = 0, au_token = (\<lambda>n. ''tok-'' @ show_nat n), au_minted = 0, au_sha256 = (\<lambda>s. s),
      au_mail = (\<lambda>_. None), au_mailed = [], au_google = (\<lambda>_ _ _. Inl (ValueError ''no'')),
      au_google_calls = 0, au_jwt = plain_jwt, au_logins = [], au_rows = [], au_consumed = [],
      au_recent = []\<rparr>"

definition sample_service :: session_service where
  "sample_service = new_session_service ''k''"

definition sample_principal :: principal where
  "sample_principal = \<lparr>pr_subject = ''ann@x'', pr_email = ''ann@x'', pr_name = [], pr_verified = True,
     pr_role = Operator\<rparr>"

lemma sample_auth_simps [simp]:
  "au_jwt sample_auth = plain_jwt" "next_now sample_auth = epoch"
  "next_now (sample_auth\<lparr>au_reads := n\<rparr>) = epoch + int n * 1000000"
  "ss_key sample_service = ''k''" "ss_access_ttl sample_service = 3600000000"
  "ss_refresh_ttl sample_service = 86400000000"
  by (simp_all add: sample_auth_def next_now_def sample_service_def new_session_service_def access_ttl_def
      refresh_ttl_def)

lemma sample_issue:
  "\<exists>t w'. issue sample_service sample_principal None sample_auth = (Inr t, w')"
  "\<exists>t w'. issue_refresh sample_service sample_principal sample_auth = (Inr t, w')"
  by (simp_all add: issue_def issue_refresh_def encode_session_run instant_add_def epoch_def instant_max_def)

section \<open>What a token is good for\<close>

text \<open>The answer of the operator dependency to a session token.\<close>

definition authenticate :: "string \<Rightarrow> string \<Rightarrow> auth_world \<Rightarrow> exn + principal" where
  "authenticate key token w =
     fst (get_current_principal (session_verify key) (Some (''Bearer '' @ token)) w)"

text \<open>
  C39: A session token gives back its principal. An access token issued for a principal is accepted on
  any later request as exactly that principal, role included, until a second before the earlier of its
  lifetime's end and the deadline it was clamped to (the claims hold whole seconds), and from then on it
  is a 401.
\<close>

theorem session_roundtrip:
  assumes j: "jwt_library (au_jwt w)" and a: "issue s p d w = (Inr token, w')"
    and v: "au_jwt v = au_jwt w" and after: "next_now w \<le> next_now v"
  shows "(next_now v + 1000000 \<le> clamped d (next_now w + ss_access_ttl s) \<longrightarrow>
      authenticate (ss_key s) token v = Inr (p\<lparr>pr_verified := True\<rparr>)) \<and>
    (clamped d (next_now w + ss_access_ttl s) \<le> next_now v \<longrightarrow>
      (\<exists>m. authenticate (ss_key s) token v = Inl (HTTPException 401 m)))"
proof -
  let ?e = "clamped d (next_now w + ss_access_ttl s)"
  let ?c = "session_claims p access_typ (next_now w) ?e"
  have t: "token = jw_encode (au_jwt v) ?c (ss_key s)"
    using a v by (auto simp: issue_def encode_session_run instant_add_Inr split: sum.splits)
  obtain m where m: "authenticate (ss_key s) token v =
      (if jwt_valid (next_now v) ?c then Inr (p\<lparr>pr_verified := True\<rparr>) else Inl (HTTPException 401 m))"
    using present_session [where w = v and p = p and ty = access_typ and ?t0.0 = "next_now w" and ?t1.0 = ?e and key = "ss_key s"] j v t by (auto simp: authenticate_def)
  have "jwt_valid (next_now v) ?c" if "next_now v + 1000000 \<le> ?e"
    using that numeric_date_gt [of ?e] numeric_date_le [of "next_now w"] after by (simp add: session_claims_valid)
  moreover have "\<not> jwt_valid (next_now v) ?c" if "?e \<le> next_now v"
    using that numeric_date_le [of ?e] by (simp add: session_claims_valid)
  ultimately show ?thesis using m by auto
qed

theorem session_roundtrip_witness:
  "\<exists>t w'. issue sample_service sample_principal None sample_auth = (Inr t, w') \<and>
     authenticate ''k'' t (sample_auth\<lparr>au_reads := 10\<rparr>) = Inr sample_principal \<and>
     (\<exists>m. authenticate ''k'' t (sample_auth\<lparr>au_reads := 4000\<rparr>) = Inl (HTTPException 401 m))"
proof -
  obtain t w' where i: "issue sample_service sample_principal None sample_auth = (Inr t, w')"
    using sample_issue(1) by blast
  have "jwt_library (au_jwt sample_auth)" by (simp add: jwt_library_plain)
  note r = session_roundtrip [OF this i]
  have "authenticate ''k'' t (sample_auth\<lparr>au_reads := 10\<rparr>) = Inr sample_principal"
    using r [of "sample_auth\<lparr>au_reads := 10\<rparr>"] by (simp add: clamped_def sample_principal_def)
  moreover have "\<exists>m. authenticate ''k'' t (sample_auth\<lparr>au_reads := 4000\<rparr>) = Inl (HTTPException 401 m)"
    using r [of "sample_auth\<lparr>au_reads := 4000\<rparr>"] by (simp add: clamped_def)
  ultimately show ?thesis using i by blast
qed

text \<open>
  The two kinds of token are closed. A refresh token is never a bearer, and an access token is never
  accepted by the refresh endpoint: each is a 401, at any time.
\<close>

theorem session_kinds_closed:
  assumes j: "jwt_library (au_jwt w)" and v: "au_jwt v = au_jwt w" and k: "sr_key r = ss_key s"
  shows "(issue_refresh s p w = (Inr token, w') \<longrightarrow>
      (\<exists>m. authenticate (ss_key s) token v = Inl (HTTPException 401 m))) \<and>
    (issue s p d w = (Inr token, w') \<longrightarrow> (\<exists>m. fst (refresh_session r token v) = Inl (HTTPException 401 m)))"
proof (intro conjI impI)
  assume "issue_refresh s p w = (Inr token, w')"
  then have t: "token = jw_encode (au_jwt v)
      (session_claims p refresh_typ (next_now w) (next_now w + ss_refresh_ttl s)) (ss_key s)"
    using v by (auto simp: issue_refresh_def encode_session_run instant_add_Inr clamped_def split: sum.splits)
  show "\<exists>m. authenticate (ss_key s) token v = Inl (HTTPException 401 m)"
    using present_session [where w = v and p = p and ty = refresh_typ and ?t0.0 = "next_now w" and
      ?t1.0 = "next_now w + ss_refresh_ttl s" and key = "ss_key s"] j v t
    by (auto simp: authenticate_def)
next
  assume "issue s p d w = (Inr token, w')"
  then have t: "token = jw_encode (au_jwt v)
      (session_claims p access_typ (next_now w) (clamped d (next_now w + ss_access_ttl s))) (ss_key s)"
    using v by (auto simp: issue_def encode_session_run instant_add_Inr split: sum.splits)
  show "\<exists>m. fst (refresh_session r token v) = Inl (HTTPException 401 m)"
    using refresh_other_kind [where w = v and ty = access_typ and r = r] j v t k by simp
qed

definition sample_refresher :: session_refresher where
  "sample_refresher = \<lparr>sr_key = ''k'', sr_allowlist = new_allowlist None None,
     sr_roles = new_roles None None None None, sr_service = sample_service\<rparr>"

theorem session_kinds_closed_witness:
  "\<exists>t w' m. issue_refresh sample_service sample_principal sample_auth = (Inr t, w') \<and>
     authenticate ''k'' t sample_auth = Inl (HTTPException 401 m)"
proof -
  obtain t w' where i: "issue_refresh sample_service sample_principal sample_auth = (Inr t, w')"
    using sample_issue(2) by blast
  have "jwt_library (au_jwt sample_auth)" by (simp add: jwt_library_plain)
  from session_kinds_closed [OF this, of sample_auth sample_refresher sample_service] i show ?thesis
    by (simp add: sample_refresher_def)
qed

text \<open>
  C37: Refreshing never extends a session. If a refresh token issued at some instant is ever exchanged
  for an access token, then its email was permitted at that moment, every request that access token
  authenticates carries the role the current configuration gives the email, and from one refresh lifetime
  (24 hours as deployed) after the issue on it is a 401.
\<close>

theorem refresh_capped:
  assumes j: "jwt_library (au_jwt w)" and i: "issue_refresh s p w = (Inr token, w')"
    and r: "refresh_session r token v = (Inr access, v')" and k: "sr_key r = ss_key s" "ss_key (sr_service r) = ss_key s"
    and same: "au_jwt v = au_jwt w" "au_jwt u = au_jwt w"
  shows "permits (sr_allowlist r) (pr_email p) PNone \<and>
    (\<forall>q. authenticate (ss_key s) access u = Inr q \<longrightarrow>
       q = p\<lparr>pr_verified := True, pr_role := role_for (sr_roles r) (pr_email p) PNone\<rparr>) \<and>
    (next_now w + ss_refresh_ttl s \<le> next_now u \<longrightarrow>
       (\<exists>m. authenticate (ss_key s) access u = Inl (HTTPException 401 m)))"
proof -
  let ?e = "next_now w + ss_refresh_ttl s" and ?p = "p\<lparr>pr_verified := True, pr_role := role_for (sr_roles r) (pr_email p) PNone\<rparr>"
  have t: "token = jw_encode (au_jwt v) (session_claims p refresh_typ (next_now w) ?e) (ss_key s)"
    using i same by (auto simp: issue_refresh_def encode_session_run instant_add_Inr clamped_def split: sum.splits)
  obtain t0 t1 where a: "access = jw_encode (au_jwt v) (session_claims ?p access_typ t0 t1) (ss_key s)"
    and cap: "t1 \<le> epoch + numeric_date ?e * 1000000" and ok: "permits (sr_allowlist r) (pr_email p) PNone"
    using refresh_run [of v r p "next_now w" ?e access v'] j same r k t by auto
  obtain m where m: "authenticate (ss_key s) access u =
      (if jwt_valid (next_now u) (session_claims ?p access_typ t0 t1) then Inr (?p\<lparr>pr_verified := True\<rparr>)
       else Inl (HTTPException 401 m))"
    using present_session [where w = u and p = ?p and ty = access_typ and ?t0.0 = t0 and ?t1.0 = t1 and key = "ss_key s"] j same a by (auto simp: authenticate_def)
  have "\<not> jwt_valid (next_now u) (session_claims ?p access_typ t0 t1)" if "?e \<le> next_now u"
    using that cap numeric_date_le [of ?e] numeric_date_le [of t1] by (simp add: session_claims_valid)
  with m ok show ?thesis by auto
qed

lemma sample_refresh:
  assumes "issue_refresh sample_service sample_principal sample_auth = (Inr t, w')"
  shows "\<exists>a v'. refresh_session sample_refresher t (sample_auth\<lparr>au_reads := 10\<rparr>) = (Inr a, v')"
proof -
  let ?c = "session_claims sample_principal refresh_typ epoch (epoch + 86400000000)"
  have t: "t = jw_encode plain_jwt ?c ''k''"
    using assms by (auto simp: issue_refresh_def encode_session_run instant_add_Inr clamped_def split: sum.splits)
  have "jwt_valid (epoch + 10000000) ?c"
    by (simp add: session_claims_valid numeric_date_def)
  with t jwt_decodes(1) [OF jwt_library_plain this, of "''k''"] show ?thesis
    by (auto simp: refresh_session_def refresh_def sample_refresher_def decode_session_def monad auth next_now_def
        sample_auth_def claim_typ_def claim_str_def claim_sub_def sample_principal_def permits_def
        allowlist_unrestricted_def new_allowlist_def non_empty_def expiry_of_def numeric_date_def Let_def issue_def
        encode_session_run instant_add_def epoch_def instant_max_def sample_service_def new_session_service_def
        access_ttl_def)
qed

theorem refresh_capped_witness:
  "\<exists>t w' a v' m. issue_refresh sample_service sample_principal sample_auth = (Inr t, w') \<and>
     refresh_session sample_refresher t (sample_auth\<lparr>au_reads := 10\<rparr>) = (Inr a, v') \<and>
     authenticate ''k'' a (sample_auth\<lparr>au_reads := 86400\<rparr>) = Inl (HTTPException 401 m)"
proof -
  obtain t w' where i: "issue_refresh sample_service sample_principal sample_auth = (Inr t, w')"
    using sample_issue(2) by blast
  obtain a v' where r: "refresh_session sample_refresher t (sample_auth\<lparr>au_reads := 10\<rparr>) = (Inr a, v')"
    using sample_refresh [OF i] by blast
  have "jwt_library (au_jwt sample_auth)" by (simp add: jwt_library_plain)
  from refresh_capped [OF this i r, of "sample_auth\<lparr>au_reads := 86400\<rparr>"]
  have "\<exists>m. authenticate ''k'' a (sample_auth\<lparr>au_reads := 86400\<rparr>) = Inl (HTTPException 401 m)"
    by (simp add: sample_refresher_def)
  with i r show ?thesis by blast
qed

end
