(* ===== verification/Magic_Links.thy ===== *)
theory Magic_Links
  imports Sessions
begin

text \<open>
  What magic-link login promises, whichever of the two token stores it runs on: a link works once and
  in time, and requests for links are throttled.
\<close>

section \<open>Runs\<close>

datatype login_op = LinkRequested string | LinkRedeemed string

text \<open>The digests of the tokens exchanged for a session, in order.\<close>

fun redeemed :: "magic_service \<Rightarrow> login_op list \<Rightarrow> auth_world \<Rightarrow> string list" where
  "redeemed s [] w = []"
| "redeemed s (LinkRequested e # ops) w = redeemed s ops (snd (request_magic_link s e w))"
| "redeemed s (LinkRedeemed t # ops) w =
     (case fst (redeem_magic_link s t w) of Inl _ \<Rightarrow> [] | Inr _ \<Rightarrow> [au_sha256 w t]) @
     redeemed s ops (snd (redeem_magic_link s t w))"

section \<open>The contract of a token store\<close>

text \<open>What a store operation leaves alone; it may read the clock.\<close>

definition token_frame :: "auth_world \<Rightarrow> auth_world \<Rightarrow> bool" where
  "token_frame w w' \<longleftrightarrow>
     au_clock w' = au_clock w \<and> au_ticks w' = au_ticks w \<and> au_tick_reads w' = au_tick_reads w \<and>
     au_token w' = au_token w \<and> au_minted w' = au_minted w \<and> au_sha256 w' = au_sha256 w \<and>
     au_mail w' = au_mail w \<and> au_mailed w' = au_mailed w \<and> au_jwt w' = au_jwt w \<and>
     au_recent w' = au_recent w \<and> au_reads w' \<in> {au_reads w, Suc (au_reads w)}"

locale token_table =
  fixes b :: token_store
    and pending :: "auth_world \<Rightarrow> string \<Rightarrow> (string \<times> instant) option"
    and spent :: "auth_world \<Rightarrow> string set"
  assumes blind: "au_logins w' = au_logins w \<Longrightarrow> au_rows w' = au_rows w \<Longrightarrow> au_consumed w' = au_consumed w \<Longrightarrow>
      pending w' = pending w \<and> spent w' = spent w"
    and spent_gone: "h \<in> spent w \<Longrightarrow> pending w h = None"
    and consume_none: "pending w h = None \<Longrightarrow>
      \<exists>w'. ts_consume b h w = (Inr None, w') \<and> pending w' = pending w \<and> spent w' = spent w \<and> token_frame w w'"
    and consume_some: "pending w h = Some r \<Longrightarrow>
      \<exists>w'. ts_consume b h w = (Inr (Some r), w') \<and> pending w' = (pending w)(h := None) \<and>
        spent w' = insert h (spent w) \<and> token_frame w w'"
    and create_keeps: "ts_create b h e t w = (res, w') \<Longrightarrow> spent w' = spent w \<and> token_frame w w'"
    and create_fresh: "pending w h = None \<Longrightarrow> h \<notin> spent w \<Longrightarrow>
      \<exists>w'. ts_create b h e t w = (Inr (), w') \<and> pending w' = (pending w)(h := Some (e, t)) \<and>
        token_frame w w' \<and> au_reads w' = au_reads w"
begin

text \<open>A redemption: nothing, or the row is spent whatever comes of it.\<close>

lemma redeem_none:
  assumes "mg_store s = b" and "pending w (au_sha256 w t) = None"
  shows "fst (redeem_magic_link s t w) =
    Inl (HTTPException 401 ''invalid or already-used sign-in link'') \<and>
    spent (snd (redeem_magic_link s t w)) = spent w"
proof -
  obtain w1 where w1: "ts_consume b (au_sha256 w t) w = (Inr None, w1)" "spent w1 = spent w"
    using consume_none [OF assms(2)] by blast
  then show ?thesis using assms(1) by (simp add: redeem_magic_link_def magic_redeem_def monad)
qed

lemma issue_blind:
  "encode_session i p k ttl d w = (x, w') \<Longrightarrow> pending w' = pending w \<and> spent w' = spent w"
  using blind [of w' w] by (auto simp: encode_session_run split: sum.splits)

lemma clock_blind: "pending (w\<lparr>au_reads := n\<rparr>) = pending w \<and> spent (w\<lparr>au_reads := n\<rparr>) = spent w"
  by (rule blind) simp_all

lemma redeem_some:
  assumes s: "mg_store s = b" and r: "pending w (au_sha256 w t) = Some (email, expires)"
  shows "spent (snd (redeem_magic_link s t w)) = insert (au_sha256 w t) (spent w)"
proof -
  obtain w1 where w1: "ts_consume b (au_sha256 w t) w = (Inr (Some (email, expires)), w1)"
    "spent w1 = insert (au_sha256 w t) (spent w)"
    using consume_some [OF r] by blast
  let ?w2 = "w1\<lparr>au_reads := Suc (au_reads w1)\<rparr>"
  have w2: "spent ?w2 = spent w1" using clock_blind by blast
  obtain x w3 where i: "issue (mg_issuer s) (magic_principal s email) None ?w2 = (x, w3)" by fastforce
  obtain y w4 where j: "issue_refresh (mg_issuer s) (magic_principal s email) w3 = (y, w4)" by fastforce
  have "spent w3 = spent w1" "spent w4 = spent w1"
    using issue_blind [OF i [unfolded issue_def]] issue_blind [OF j [unfolded issue_refresh_def]] w2 by simp_all
  then show ?thesis
    using s w1 w2 i j
    by (cases x; cases y) (auto simp: redeem_magic_link_def magic_redeem_def monad auth)
qed

lemma request_keeps:
  assumes "mg_store s = b"
  shows "spent (snd (request_magic_link s e w)) = spent w"
proof -
  have th: "spent (snd (throttle x w)) = spent w" for x w
    using blind [of "snd (throttle x w)" w] by (simp add: throttle_def monad auth Let_def)
  have rq: "spent (snd (magic_request s x w)) = spent w" for x w
  proof -
    let ?w1 = "w\<lparr>au_minted := Suc (au_minted w), au_reads := Suc (au_reads w)\<rparr>"
    have b1: "spent ?w1 = spent w" using blind [of ?w1 w] by simp
    have c: "spent (snd (ts_create b h e' t' ?w1)) = spent w" for h e' t'
      using create_keeps [of h e' t' ?w1] b1 by (metis prod.collapse)
    have m: "spent (snd (send_mail x' y' z' v)) = spent v" for x' y' z' v
      using blind [of "snd (send_mail x' y' z' v)" v] by (simp add: auth)
    show ?thesis
      using assms b1 c m
      by (auto simp: magic_request_def monad auth Let_def split: sum.splits prod.splits)
        (metis snd_conv)+
  qed
  show ?thesis
    using th [of "lower e" w] rq [of "lower e" "snd (throttle (lower e) w)"]
    by (auto simp: request_magic_link_def monad Let_def split: sum.splits prod.splits)
qed

text \<open>A day at the sign-in endpoints: requests and redemptions, in any order.\<close>

lemma redeemed_once_here:
  "mg_store s = b \<Longrightarrow>
   distinct (redeemed s ops w) \<and> set (redeemed s ops w) \<inter> spent w = {}"
proof (induction ops arbitrary: w)
  case Nil
  then show ?case by simp
next
  case (Cons op ops)
  show ?case
  proof (cases op)
    case (LinkRequested e)
    with Cons.IH [OF Cons.prems, of "snd (request_magic_link s e w)"] request_keeps [OF Cons.prems]
    show ?thesis by simp
  next
    case (LinkRedeemed t)
    show ?thesis
    proof (cases "pending w (au_sha256 w t)")
      case None
      with redeem_none [OF Cons.prems None] LinkRedeemed
        Cons.IH [OF Cons.prems, of "snd (redeem_magic_link s t w)"] show ?thesis by simp
    next
      case (Some r)
      have "au_sha256 w t \<notin> spent w" using spent_gone [of "au_sha256 w t" w] Some by auto
      with redeem_some [OF Cons.prems, of w t] Some LinkRedeemed
        Cons.IH [OF Cons.prems, of "snd (redeem_magic_link s t w)"]
      show ?thesis by (cases r) (auto split: sum.split)
    qed
  qed
qed

text \<open>A link opened in time.\<close>

lemma redeem_run:
  assumes s: "mg_store s = b" and r: "pending w (au_sha256 w t) = Some (email, expires)"
    and ok: "permits (mg_allowlist s) email PNone"
    and time: "au_clock w (au_reads w) \<le> expires" "au_clock w (Suc (au_reads w)) \<le> expires"
    and calendar: "\<And>n. 0 \<le> au_clock w n \<and> au_clock w n + ss_access_ttl (mg_issuer s) \<le> instant_max \<and>
      au_clock w n + ss_refresh_ttl (mg_issuer s) \<le> instant_max"
    and ttl: "0 \<le> ss_access_ttl (mg_issuer s)" "0 \<le> ss_refresh_ttl (mg_issuer s)"
  shows "\<exists>n again v. redeem_magic_link s t w =
      (Inr (jw_encode (au_jwt w) (session_claims (magic_principal s email) access_typ (au_clock w n)
         (au_clock w n + ss_access_ttl (mg_issuer s))) (ss_key (mg_issuer s)), again), v) \<and>
    pending v (au_sha256 v t) = None"
proof -
  obtain w1 where w1: "ts_consume b (au_sha256 w t) w = (Inr (Some (email, expires)), w1)"
    "pending w1 = (pending w)(au_sha256 w t := None)" "token_frame w w1"
    using consume_some [OF r] by blast
  let ?n = "Suc (au_reads w1)"
  let ?v = "w1\<lparr>au_reads := Suc (Suc ?n)\<rparr>"
  have f: "au_clock w1 = au_clock w" "au_jwt w1 = au_jwt w" "au_sha256 w1 = au_sha256 w"
    "au_clock w1 (au_reads w1) \<le> expires"
    using w1(3) time by (auto simp: token_frame_def)
  have add: "instant_add (au_clock w m) (ss_access_ttl (mg_issuer s)) = Inr (au_clock w m + ss_access_ttl (mg_issuer s))"
    "instant_add (au_clock w m) (ss_refresh_ttl (mg_issuer s)) = Inr (au_clock w m + ss_refresh_ttl (mg_issuer s))" for m
    using calendar [of m] ttl by (simp_all add: instant_add_def)
  have i: "issue (mg_issuer s) (magic_principal s email) None (w1\<lparr>au_reads := ?n\<rparr>) =
      (Inr (jw_encode (au_jwt w) (session_claims (magic_principal s email) access_typ (au_clock w ?n)
         (au_clock w ?n + ss_access_ttl (mg_issuer s))) (ss_key (mg_issuer s))), w1\<lparr>au_reads := Suc ?n\<rparr>)"
    by (simp add: issue_def encode_session_run next_now_def f add clamped_def)
  obtain again where j: "issue_refresh (mg_issuer s) (magic_principal s email) (w1\<lparr>au_reads := Suc ?n\<rparr>) = (Inr again, ?v)"
    by (simp add: issue_refresh_def encode_session_run next_now_def f add clamped_def)
  have "pending ?v (au_sha256 ?v t) = None" using clock_blind w1(2) f(3) by simp
  moreover have "redeem_magic_link s t w = (Inr (jw_encode (au_jwt w) (session_claims (magic_principal s email) access_typ
      (au_clock w ?n) (au_clock w ?n + ss_access_ttl (mg_issuer s))) (ss_key (mg_issuer s)), again), ?v)"
    using s w1(1) f(4) ok i j by (simp add: redeem_magic_link_def magic_redeem_def monad auth f(1))
  ultimately show ?thesis by blast
qed

text \<open>A permitted request whose mail goes out leaves the row of its token.\<close>

lemma request_run:
  assumes s: "mg_store s = b" and req: "request_magic_link s e w = (Inr (), w')"
    and email: "email = lower (strip (lower e))" "email \<noteq> []" "permits (mg_allowlist s) email PNone"
    and fresh: "pending w (au_sha256 w (au_token w (au_minted w))) = None" "au_sha256 w (au_token w (au_minted w)) \<notin> spent w"
  shows "pending w' (au_sha256 w (au_token w (au_minted w))) = Some (email, au_clock w (au_reads w) + mg_ttl s) \<and>
    au_mailed w' = au_mailed w @ [(email, link_subject, link_text s (au_token w (au_minted w)))]"
proof -
  let ?t = "au_token w (au_minted w)"
  obtain w1 where th: "throttle (lower e) w = (Inr (), w1)" and rq: "magic_request s (lower e) w1 = (Inr (), w')"
    using req by (auto simp: request_magic_link_def monad Let_def split: prod.splits sum.splits)
  have f: "au_logins w1 = au_logins w \<and> au_rows w1 = au_rows w \<and> au_consumed w1 = au_consumed w \<and>
      au_clock w1 = au_clock w \<and> au_reads w1 = au_reads w \<and> au_token w1 = au_token w \<and> au_minted w1 = au_minted w \<and>
      au_sha256 w1 = au_sha256 w \<and> au_mailed w1 = au_mailed w"
    using th by (auto simp: throttle_def monad auth Let_def split: if_splits)
  let ?w2 = "w1\<lparr>au_minted := Suc (au_minted w1), au_reads := Suc (au_reads w1)\<rparr>"
  have p: "pending ?w2 = pending w" "spent ?w2 = spent w" using blind [of ?w2 w] f by simp_all
  obtain w3 where c: "ts_create b (au_sha256 w ?t) email (au_clock w (au_reads w) + mg_ttl s) ?w2 = (Inr (), w3)"
    "pending w3 = (pending w)(au_sha256 w ?t := Some (email, au_clock w (au_reads w) + mg_ttl s))"
    "token_frame ?w2 w3"
    using create_fresh [of ?w2 "au_sha256 w ?t" email] p fresh by auto
  have add: "instant_add (au_clock w (au_reads w)) (mg_ttl s) = Inr (au_clock w (au_reads w) + mg_ttl s)"
    using rq email f s by (cases "instant_add (au_clock w (au_reads w)) (mg_ttl s)")
      (auto simp: magic_request_def monad auth Let_def instant_add_Inr)
  have w': "w' = w3\<lparr>au_mailed := au_mailed w3 @ [(email, link_subject, link_text s ?t)]\<rparr>"
    using rq email f s c(1) add by (auto simp: magic_request_def monad auth Let_def)
  have "pending w' = pending w3" using blind [of w' w3] w' by simp
  with c w' f show ?thesis by (simp add: token_frame_def)
qed

end

section \<open>The two stores\<close>

definition sql_pending :: "auth_world \<Rightarrow> string \<Rightarrow> (string \<times> instant) option" where
  "sql_pending w h = (case dict_get (au_logins w) h of Some (e, t, None) \<Rightarrow> Some (e, t) | _ \<Rightarrow> None)"

definition sql_spent :: "auth_world \<Rightarrow> string set" where
  "sql_spent w = {h. \<exists>e t c. dict_get (au_logins w) h = Some (e, t, Some c)}"

interpretation sql_login: token_table sql_tokens sql_pending sql_spent
proof
  fix w w' h r e t and res :: "exn + unit"
  show "sql_pending w' = sql_pending w \<and> sql_spent w' = sql_spent w" if "au_logins w' = au_logins w"
    using that by (simp add: sql_pending_def sql_spent_def fun_eq_iff)
  show "sql_pending w h = None" if "h \<in> sql_spent w"
    using that by (auto simp: sql_pending_def sql_spent_def)
  show "\<exists>w'. ts_consume sql_tokens h w = (Inr None, w') \<and> sql_pending w' = sql_pending w \<and>
      sql_spent w' = sql_spent w \<and> token_frame w w'" if "sql_pending w h = None"
    using that
    by (auto simp: sql_tokens_def sql_consume_token_def monad auth sql_pending_def sql_spent_def token_frame_def
        fun_eq_iff split: option.splits)
  show "\<exists>w'. ts_consume sql_tokens h w = (Inr (Some r), w') \<and> sql_pending w' = (sql_pending w)(h := None) \<and>
      sql_spent w' = insert h (sql_spent w) \<and> token_frame w w'" if "sql_pending w h = Some r"
    using that
    by (auto simp: sql_tokens_def sql_consume_token_def monad auth sql_pending_def sql_spent_def token_frame_def
        fun_eq_iff split: option.splits)
  show "sql_spent w' = sql_spent w \<and> token_frame w w'" if "ts_create sql_tokens h e t w = (res, w')"
    using that
    by (auto simp: sql_tokens_def sql_create_token_def sql_spent_def token_frame_def split: if_splits)
  show "\<exists>w'. ts_create sql_tokens h e t w = (Inr (), w') \<and> sql_pending w' = (sql_pending w)(h := Some (e, t)) \<and>
      token_frame w w' \<and> au_reads w' = au_reads w" if "sql_pending w h = None" "h \<notin> sql_spent w"
    using that
    by (auto simp: sql_tokens_def sql_create_token_def sql_pending_def sql_spent_def token_frame_def fun_eq_iff
        split: option.splits)
qed

definition mem_pending :: "auth_world \<Rightarrow> string \<Rightarrow> (string \<times> instant) option" where
  "mem_pending w h = (if h \<in> set (au_consumed w) then None else dict_get (au_rows w) h)"

definition mem_spent :: "auth_world \<Rightarrow> string set" where
  "mem_spent w = set (au_consumed w)"

interpretation mem_login: token_table mem_tokens mem_pending mem_spent
proof
  fix w w' h r e t and res :: "exn + unit"
  show "mem_pending w' = mem_pending w \<and> mem_spent w' = mem_spent w"
    if "au_rows w' = au_rows w" "au_consumed w' = au_consumed w"
    using that by (simp add: mem_pending_def mem_spent_def fun_eq_iff)
  show "mem_pending w h = None" if "h \<in> mem_spent w"
    using that by (simp add: mem_pending_def mem_spent_def)
  show "\<exists>w'. ts_consume mem_tokens h w = (Inr None, w') \<and> mem_pending w' = mem_pending w \<and>
      mem_spent w' = mem_spent w \<and> token_frame w w'" if "mem_pending w h = None"
    using that
    by (auto simp: mem_tokens_def mem_consume_token_def mem_pending_def token_frame_def split: if_splits option.splits)
  show "\<exists>w'. ts_consume mem_tokens h w = (Inr (Some r), w') \<and> mem_pending w' = (mem_pending w)(h := None) \<and>
      mem_spent w' = insert h (mem_spent w) \<and> token_frame w w'" if "mem_pending w h = Some r"
    using that
    by (auto simp: mem_tokens_def mem_consume_token_def mem_pending_def mem_spent_def token_frame_def fun_eq_iff
        split: if_splits option.splits)
  show "mem_spent w' = mem_spent w \<and> token_frame w w'" if "ts_create mem_tokens h e t w = (res, w')"
    using that by (auto simp: mem_tokens_def mem_create_token_def mem_spent_def token_frame_def)
  show "\<exists>w'. ts_create mem_tokens h e t w = (Inr (), w') \<and> mem_pending w' = (mem_pending w)(h := Some (e, t)) \<and>
      token_frame w w' \<and> au_reads w' = au_reads w" if "mem_pending w h = None" "h \<notin> mem_spent w"
    using that
    by (auto simp: mem_tokens_def mem_create_token_def mem_pending_def mem_spent_def token_frame_def fun_eq_iff)
qed

lemma stores_differ: "sql_tokens \<noteq> mem_tokens"
proof
  assume "sql_tokens = mem_tokens"
  then have "ts_create sql_tokens [] [] 0 v = ts_create mem_tokens [] [] 0 v" for v by simp
  from this [of "sample_auth\<lparr>au_logins := [([], [], 0, None)]\<rparr>"] show False
    by (simp add: sql_tokens_def mem_tokens_def sql_create_token_def mem_create_token_def dict_get_def)
qed

definition is_token_store :: "token_store \<Rightarrow> bool" where
  "is_token_store b \<longleftrightarrow> b = sql_tokens \<or> b = mem_tokens"

text \<open>
  C36: A sign-in link works at most once. Over any sequence of link requests and redemptions at the two
  endpoints, on either store, no token is exchanged for a session twice, and none that was used before
  the sequence began is exchanged at all, whatever expired, was refused or was requested in between.
\<close>

theorem magic_single_use:
  assumes "is_token_store (mg_store s)"
  shows "distinct (redeemed s ops w) \<and>
    (mg_store s = mem_tokens \<longrightarrow> set (redeemed s ops w) \<inter> set (au_consumed w) = {}) \<and>
    (mg_store s = sql_tokens \<longrightarrow>
       (\<forall>h \<in> set (redeemed s ops w). \<forall>e t c. dict_get (au_logins w) h \<noteq> Some (e, t, Some c)))"
proof -
  consider "mg_store s = sql_tokens" | "mg_store s = mem_tokens" using assms by (auto simp: is_token_store_def)
  then show ?thesis
  proof cases
    case 1
    then have "mg_store s \<noteq> mem_tokens" using stores_differ by simp
    with sql_login.redeemed_once_here [OF 1, of ops w] show ?thesis by (auto simp: sql_spent_def)
  next
    case 2
    then have "mg_store s \<noteq> sql_tokens" using stores_differ by simp
    with mem_login.redeemed_once_here [OF 2, of ops w] show ?thesis by (auto simp: mem_spent_def)
  qed
qed

definition sample_links :: magic_service where
  "sample_links = new_magic_service mem_tokens sample_service (new_allowlist (Some ''x'') None)
     (new_roles (Some [''ann@x'']) None None None) ''http://h/''"

theorem magic_single_use_witness:
  "distinct (redeemed sample_links [LinkRequested ''ann@x'', LinkRedeemed ''tok-0'', LinkRedeemed ''tok-0''] sample_auth)"
proof -
  have "is_token_store (mg_store sample_links)"
    by (simp add: is_token_store_def sample_links_def new_magic_service_def)
  from magic_single_use [OF this] show ?thesis by blast
qed

section \<open>Signing in\<close>

text \<open>The same login rows: nothing happened to a store since.\<close>

definition same_logins :: "auth_world \<Rightarrow> auth_world \<Rightarrow> bool" where
  "same_logins w v \<longleftrightarrow> au_logins v = au_logins w \<and> au_rows v = au_rows w \<and> au_consumed v = au_consumed w"

text \<open>The digest of the next token names no row yet.\<close>

definition fresh_token :: "auth_world \<Rightarrow> bool" where
  "fresh_token w \<longleftrightarrow>
     (let h = au_sha256 w (au_token w (au_minted w))
      in dict_get (au_logins w) h = None \<and> dict_get (au_rows w) h = None \<and> h \<notin> set (au_consumed w))"

text \<open>The clock stays inside the calendar, with a session to spare.\<close>

definition calendar :: "auth_world \<Rightarrow> bool" where
  "calendar w \<longleftrightarrow> (\<forall>n. 0 \<le> au_clock w n \<and> au_clock w n + refresh_ttl \<le> instant_max)"

context token_table
begin

lemma sign_in:
  assumes s: "s = new_magic_service b (new_session_service key) allow roles url"
    and req: "request_magic_link s e w = (Inr (), w1)"
    and email: "email = lower (strip (lower e))" "email \<noteq> []" "permits allow email PNone"
    and fresh: "pending w (au_sha256 w (au_token w (au_minted w))) = None" "au_sha256 w (au_token w (au_minted w)) \<notin> spent w"
    and v: "same_logins w1 v" "au_sha256 v = au_sha256 w" "calendar v"
    and time: "au_clock v (au_reads v) \<le> next_now w + magic_ttl" "au_clock v (Suc (au_reads v)) \<le> next_now w + magic_ttl"
  shows "au_mailed w1 = au_mailed w @ [(email, link_subject, link_text s (au_token w (au_minted w)))] \<and>
    (\<exists>n again v1. redeem_magic_link s (au_token w (au_minted w)) v =
        (Inr (jw_encode (au_jwt v) (session_claims (magic_principal s email) access_typ (au_clock v n)
           (au_clock v n + access_ttl)) key, again), v1) \<and>
      fst (redeem_magic_link s (au_token w (au_minted w)) v1) =
        Inl (HTTPException 401 ''invalid or already-used sign-in link''))"
proof -
  let ?t = "au_token w (au_minted w)"
  have st: "mg_store s = b" "mg_allowlist s = allow" "mg_ttl s = magic_ttl"
    "ss_access_ttl (mg_issuer s) = access_ttl" "ss_refresh_ttl (mg_issuer s) = refresh_ttl" "ss_key (mg_issuer s) = key"
    using s by (simp_all add: new_magic_service_def new_session_service_def)
  have perm: "permits (mg_allowlist s) email PNone" using email(3) st by simp
  have m: "pending w1 (au_sha256 w ?t) = Some (email, next_now w + magic_ttl)"
    "au_mailed w1 = au_mailed w @ [(email, link_subject, link_text s ?t)]"
    using request_run [OF st(1) req email(1,2) perm fresh] st(3) by (simp_all add: next_now_def)
  have "pending v = pending w1" using blind [of v w1] v(1) by (simp add: same_logins_def)
  with m v(2) have r: "pending v (au_sha256 v ?t) = Some (email, next_now w + magic_ttl)" by simp
  have cal: "0 \<le> au_clock v n \<and> au_clock v n + ss_access_ttl (mg_issuer s) \<le> instant_max \<and>
      au_clock v n + ss_refresh_ttl (mg_issuer s) \<le> instant_max" for n
    using spec [OF v(3) [unfolded calendar_def], of n] unfolding st by (simp add: access_ttl_def refresh_ttl_def)
  have ttl: "0 \<le> ss_access_ttl (mg_issuer s)" "0 \<le> ss_refresh_ttl (mg_issuer s)"
    unfolding st by (simp_all add: access_ttl_def refresh_ttl_def)
  obtain n again v1 where run: "redeem_magic_link s ?t v = (Inr (jw_encode (au_jwt v)
      (session_claims (magic_principal s email) access_typ (au_clock v n) (au_clock v n + access_ttl)) key, again), v1)"
    and gone: "pending v1 (au_sha256 v1 ?t) = None"
    using redeem_run [OF st(1) r perm time cal ttl] unfolding st by blast
  from redeem_none [OF st(1) gone] run m(2) show ?thesis by blast
qed

end

text \<open>
  C38: A sign-in link signs its owner in, once. A permitted address (trimmed, in lower case) that requests a
  link is mailed exactly one, carrying the minted token. Opened within 15 minutes, on either store, it
  yields a session whose bearer is accepted, for an hour less a second, as that address with the
  configured role; opening it again is a 401.
\<close>

theorem login_link_works:
  assumes store: "is_token_store b" and s: "s = new_magic_service b (new_session_service key) allow roles url"
    and req: "request_magic_link s e w = (Inr (), w1)"
    and email: "email = lower (strip (lower e))" "email \<noteq> []" "permits allow email PNone"
    and fresh: "fresh_token w" and j: "jwt_library (au_jwt v)"
    and v: "same_logins w1 v" "au_sha256 v = au_sha256 w" "calendar v"
    and time: "au_clock v (au_reads v) \<le> next_now w + magic_ttl" "au_clock v (Suc (au_reads v)) \<le> next_now w + magic_ttl"
  shows "au_mailed w1 = au_mailed w @ [(email, link_subject, link_text s (au_token w (au_minted w)))] \<and>
    (\<exists>access again n v1. redeem_magic_link s (au_token w (au_minted w)) v = (Inr (access, again), v1) \<and>
      (\<forall>u. au_jwt u = au_jwt v \<and> au_clock v n \<le> next_now u \<and> next_now u + 1000000 \<le> au_clock v n + access_ttl \<longrightarrow>
         authenticate key access u =
           Inr \<lparr>pr_subject = email, pr_email = email, pr_name = [], pr_verified = True,
                pr_role = role_for roles email PNone\<rparr>) \<and>
      fst (redeem_magic_link s (au_token w (au_minted w)) v1) =
        Inl (HTTPException 401 ''invalid or already-used sign-in link''))"
proof -
  let ?t = "au_token w (au_minted w)"
  obtain n again v1 where mail: "au_mailed w1 = au_mailed w @ [(email, link_subject, link_text s ?t)]"
    and run: "redeem_magic_link s ?t v = (Inr (jw_encode (au_jwt v)
      (session_claims (magic_principal s email) access_typ (au_clock v n) (au_clock v n + access_ttl)) key, again), v1)"
    and twice: "fst (redeem_magic_link s ?t v1) = Inl (HTTPException 401 ''invalid or already-used sign-in link'')"
  proof (cases "b = sql_tokens")
    case True
    have "sql_pending w (au_sha256 w ?t) = None" "au_sha256 w ?t \<notin> sql_spent w"
      using fresh by (simp_all add: fresh_token_def Let_def sql_pending_def sql_spent_def)
    from sql_login.sign_in [OF s [unfolded True] req email this v time] that show ?thesis by blast
  next
    case False
    with store have b: "b = mem_tokens" by (simp add: is_token_store_def)
    have "mem_pending w (au_sha256 w ?t) = None" "au_sha256 w ?t \<notin> mem_spent w"
      using fresh by (simp_all add: fresh_token_def Let_def mem_pending_def mem_spent_def)
    from mem_login.sign_in [OF s [unfolded b] req email this v time] that show ?thesis by blast
  qed
  have "authenticate key (jw_encode (au_jwt v) (session_claims (magic_principal s email) access_typ (au_clock v n)
      (au_clock v n + access_ttl)) key) u = Inr \<lparr>pr_subject = email, pr_email = email, pr_name = [],
      pr_verified = True, pr_role = role_for roles email PNone\<rparr>"
    if u: "au_jwt u = au_jwt v" "au_clock v n \<le> next_now u" "next_now u + 1000000 \<le> au_clock v n + access_ttl" for u
  proof -
    have "jwt_valid (next_now u) (session_claims (magic_principal s email) access_typ (au_clock v n)
        (au_clock v n + access_ttl))"
      using u numeric_date_gt [of "au_clock v n + access_ttl"] numeric_date_le [of "au_clock v n"]
      by (simp add: session_claims_valid)
    with present_session [where w = u and p = "magic_principal s email" and ty = access_typ and ?t0.0 = "au_clock v n" and
        ?t1.0 = "au_clock v n + access_ttl" and key = key] j u(1) s
    show ?thesis by (simp add: authenticate_def magic_principal_def new_magic_service_def)
  qed
  with mail run twice show ?thesis by blast
qed

lemma sample_request:
  "\<exists>w1. request_magic_link sample_links '' Ann@x'' sample_auth = (Inr (), w1)"
proof -
  have "lower (strip (lower '' Ann@x'')) = ''ann@x''" "permits (new_allowlist (Some ''x'') None) ''ann@x'' PNone"
    by code_simp+
  then show ?thesis
    by (simp add: request_magic_link_def throttle_def magic_request_def monad auth sample_auth_def Let_def
        recent_hits_def rate_max_def dict_get_def sample_links_def new_magic_service_def mem_tokens_def
        mem_create_token_def instant_add_def epoch_def instant_max_def magic_ttl_def)
qed

theorem login_link_works_witness:
  "\<exists>w1 access again v1. request_magic_link sample_links '' Ann@x'' sample_auth = (Inr (), w1) \<and>
     redeem_magic_link sample_links ''tok-0'' (sample_auth\<lparr>au_rows := au_rows w1, au_logins := au_logins w1,
       au_consumed := au_consumed w1, au_clock := (\<lambda>_. epoch + 60000000)\<rparr>) = (Inr (access, again), v1) \<and>
     fst (redeem_magic_link sample_links ''tok-0'' v1) =
       Inl (HTTPException 401 ''invalid or already-used sign-in link'')"
proof -
  obtain w1 where req: "request_magic_link sample_links '' Ann@x'' sample_auth = (Inr (), w1)"
    using sample_request by blast
  let ?v = "sample_auth\<lparr>au_rows := au_rows w1, au_logins := au_logins w1, au_consumed := au_consumed w1,
    au_clock := (\<lambda>_. epoch + 60000000)\<rparr>"
  have e: "''ann@x'' = lower (strip (lower '' Ann@x''))" "permits (new_allowlist (Some ''x'') None) ''ann@x'' PNone"
    by code_simp+
  have st: "is_token_store mem_tokens" by (simp add: is_token_store_def)
  have j: "jwt_library (au_jwt ?v)" by (simp add: jwt_library_plain)
  have fresh: "fresh_token sample_auth" by (simp add: fresh_token_def sample_auth_def dict_get_def)
  have same: "same_logins w1 ?v" "au_sha256 ?v = au_sha256 sample_auth" "calendar ?v"
    by (simp_all add: same_logins_def calendar_def epoch_def refresh_ttl_def instant_max_def)
  have s: "sample_links = new_magic_service mem_tokens (new_session_service ''k'') (new_allowlist (Some ''x'') None)
      (new_roles (Some [''ann@x'']) None None None) ''http://h/''"
    by (simp add: sample_links_def sample_service_def)
  have t: "au_token sample_auth (au_minted sample_auth) = ''tok-0''"
    by code_simp
  obtain access again v1 where "redeem_magic_link sample_links ''tok-0'' ?v = (Inr (access, again), v1)"
    "fst (redeem_magic_link sample_links ''tok-0'' v1) =
       Inl (HTTPException 401 ''invalid or already-used sign-in link'')"
    using login_link_works [OF st s req e(1) _ e(2) fresh j same, unfolded t]
    by (simp add: magic_ttl_def) blast
  with req show ?thesis by blast
qed

section \<open>The throttle\<close>

text \<open>The ticks at which requests passed, one list per spelling of the address.\<close>

fun passed :: "string list \<Rightarrow> auth_world \<Rightarrow> (string \<times> int) list" where
  "passed [] w = []"
| "passed (e # es) w =
     (case fst (throttle (lower e) w) of Inl _ \<Rightarrow> [] | Inr _ \<Rightarrow> [(lower e, au_ticks w (au_tick_reads w))]) @
     passed es (snd (throttle (lower e) w))"

text \<open>How many requests of an address passed in the window that starts at \<open>t\<close>.\<close>

definition in_window :: "int \<Rightarrow> string \<Rightarrow> (string \<times> int) list \<Rightarrow> nat" where
  "in_window t e ps = length (filter (\<lambda>(x, u). x = e \<and> t \<le> u \<and> u < t + rate_window) ps)"

text \<open>The store remembers every passed request that is still inside a window.\<close>

definition remembers :: "auth_world \<Rightarrow> (string \<times> int) list \<Rightarrow> bool" where
  "remembers w ps \<longleftrightarrow>
     (\<forall>p \<in> set ps. snd p \<le> au_ticks w (au_tick_reads w)) \<and>
     (\<forall>e now. au_ticks w (au_tick_reads w) \<le> now \<longrightarrow>
        recent_hits w e now = filter (\<lambda>t. now - t < rate_window) (map snd (filter (\<lambda>p. fst p = e) ps)))"

lemma filter_length_mono:
  "(\<And>x. x \<in> set xs \<Longrightarrow> P x \<Longrightarrow> Q x) \<Longrightarrow> length (filter P xs) \<le> length (filter Q xs)"
  by (induction xs) (auto simp: le_SucI)

lemma window_hits:
  assumes "\<forall>p \<in> set ps. snd p \<le> now" and "t \<le> now" and "now < t + rate_window"
  shows "in_window t e ps \<le> length (filter (\<lambda>u. now - u < rate_window) (map snd (filter (\<lambda>p. fst p = e) ps)))"
proof -
  have "in_window t e ps = length (filter (\<lambda>p. t \<le> snd p \<and> snd p < t + rate_window) (filter (\<lambda>p. fst p = e) ps))"
    by (simp add: in_window_def case_prod_unfold conj_assoc conj_commute)
  also have "\<dots> \<le> length (filter (\<lambda>p. now - snd p < rate_window) (filter (\<lambda>p. fst p = e) ps))"
    using assms by (intro filter_length_mono) auto
  finally show ?thesis by (simp add: filter_map comp_def)
qed

lemma remembers_later:
  assumes "remembers w ps" and "au_recent v = au_recent w" and "au_ticks w (au_tick_reads w) \<le> au_ticks v (au_tick_reads v)"
  shows "remembers v ps"
  using assms by (force simp: remembers_def recent_hits_def)

lemma throttle_step:
  fixes e
  assumes mono: "\<And>n. au_ticks w n \<le> au_ticks w (Suc n)" and inv: "remembers w ps"
    and few: "\<And>t x. in_window t x ps \<le> rate_max"
  defines "w' \<equiv> snd (throttle e w)"
    and "ps' \<equiv> ps @ (case fst (throttle e w) of Inl _ \<Rightarrow> [] | Inr _ \<Rightarrow> [(e, au_ticks w (au_tick_reads w))])"
  shows "remembers w' ps' \<and> (\<forall>t x. in_window t x ps' \<le> rate_max) \<and> au_ticks w' = au_ticks w"
proof -
  let ?now = "au_ticks w (au_tick_reads w)" and ?w0 = "w\<lparr>au_tick_reads := Suc (au_tick_reads w)\<rparr>"
  let ?hits = "recent_hits w e ?now"
  have h0: "recent_hits ?w0 e ?now = ?hits" by (simp add: recent_hits_def)
  have hits: "?hits = filter (\<lambda>t. ?now - t < rate_window) (map snd (filter (\<lambda>p. fst p = e) ps))"
    using inv by (simp add: remembers_def)
  have past: "\<forall>p \<in> set ps. snd p \<le> ?now" using inv by (simp add: remembers_def)
  have later: "remembers ?w0 ps" by (rule remembers_later [OF inv]) (simp_all add: mono)
  show ?thesis
  proof (cases "rate_max \<le> length ?hits")
    case True
    then have "w' = ?w0" "ps' = ps" using h0 by (simp_all add: w'_def ps'_def throttle_def monad auth Let_def)
    with later few show ?thesis by simp
  next
    case False
    then have w': "w' = ?w0\<lparr>au_recent := dict_set (au_recent w) e (?hits @ [?now])\<rparr>" and ps': "ps' = ps @ [(e, ?now)]"
      using h0 by (simp_all add: w'_def ps'_def throttle_def monad auth Let_def)
    have "in_window t x ps' \<le> rate_max" for t x
    proof (cases "x = e \<and> t \<le> ?now \<and> ?now < t + rate_window")
      case True
      with window_hits [OF past, of t e] hits False show ?thesis
        by (simp add: ps' in_window_def)
    next
      case False
      with few [of t x] show ?thesis by (auto simp: ps' in_window_def)
    qed
    moreover have "recent_hits w' x now = filter (\<lambda>t. now - t < rate_window) (map snd (filter (\<lambda>p. fst p = x) ps'))"
      if "au_ticks w' (au_tick_reads w') \<le> now" for x now
    proof (cases "x = e")
      case True
      have le: "?now \<le> now" using that mono [of "au_tick_reads w"] by (simp add: w')
      have "filter (\<lambda>t. now - t < rate_window) ?hits =
          filter (\<lambda>t. now - t < rate_window) (map snd (filter (\<lambda>p. fst p = e) ps))"
        unfolding hits filter_filter by (rule filter_cong) (use le in auto)
      with True show ?thesis by (simp add: recent_hits_def w' ps')
    next
      case False
      with later that show ?thesis by (simp add: remembers_def recent_hits_def w' ps')
    qed
    moreover have "\<forall>p \<in> set ps'. snd p \<le> au_ticks w' (au_tick_reads w')"
      using past mono [of "au_tick_reads w"] by (force simp: w' ps')
    ultimately show ?thesis by (simp add: remembers_def w')
  qed
qed

lemma passed_bounded:
  assumes "\<And>n. au_ticks w n \<le> au_ticks w (Suc n)" and "remembers w ps" and "\<And>t x. in_window t x ps \<le> rate_max"
  shows "in_window t x (ps @ passed es w) \<le> rate_max"
  using assms
proof (induction es arbitrary: w ps)
  case Nil
  then show ?case by simp
next
  case (Cons e es)
  have step: "remembers (snd (throttle (lower e) w)) (ps @ (case fst (throttle (lower e) w) of Inl _ \<Rightarrow> []
        | Inr _ \<Rightarrow> [(lower e, au_ticks w (au_tick_reads w))]))"
    "\<And>t x. in_window t x (ps @ (case fst (throttle (lower e) w) of Inl _ \<Rightarrow> []
        | Inr _ \<Rightarrow> [(lower e, au_ticks w (au_tick_reads w))])) \<le> rate_max"
    "au_ticks (snd (throttle (lower e) w)) = au_ticks w"
    using throttle_step [OF Cons.prems(1,2,3), of "lower e"] by blast+
  from Cons.IH [OF _ step(1,2)] Cons.prems(1) step(3) show ?case by simp
qed

text \<open>
  Link requests are throttled. However the requests for links are spelled and ordered, on a clock
  that never goes back, at most three for one spelling of an address (in lower case) pass in any sixty
  seconds, refused ones in between or not; the others are a 429 that sends nothing and changes no list.
\<close>

theorem requests_throttled:
  assumes mono: "\<And>n. au_ticks w n \<le> au_ticks w (Suc n)" and start: "au_recent w = []"
  shows "in_window t x (passed es w) \<le> 3 \<and>
    (\<forall>s e v m. fst (throttle (lower e) v) = Inl m \<longrightarrow>
       request_magic_link s e v = (Inl (HTTPException 429 ''too many requests; try again shortly''),
         v\<lparr>au_tick_reads := Suc (au_tick_reads v)\<rparr>))"
proof -
  have "remembers w []" using start by (simp add: remembers_def recent_hits_def dict_get_def)
  then have "in_window t x ([] @ passed es w) \<le> rate_max"
    by (rule passed_bounded [OF mono]) (simp add: in_window_def)
  moreover have "request_magic_link s e v = (Inl (HTTPException 429 ''too many requests; try again shortly''),
      v\<lparr>au_tick_reads := Suc (au_tick_reads v)\<rparr>)" if "fst (throttle (lower e) v) = Inl m" for s e v m
    using that by (auto simp: request_magic_link_def throttle_def monad auth Let_def split: if_splits)
  ultimately show ?thesis by (simp add: rate_max_def)
qed

theorem requests_throttled_witness:
  "in_window 0 ''a@x'' (passed [''a@x'', ''A@x'', ''a@x'', ''a@x'', ''b@x''] sample_auth) \<le> 3"
  by (rule requests_throttled [THEN conjunct1]) (simp_all add: sample_auth_def)

text \<open>
  The throttle sees the address as it was sent, the mail goes to the trimmed one: two spellings that
  differ in blanks are throttled apart and mailed alike.
\<close>

lemma throttle_by_spelling:
  "lower (strip (CHR '' '' # e)) = lower (strip e) \<and>
   recent_hits (snd (throttle e w)) (CHR '' '' # e) now = recent_hits w (CHR '' '' # e) now"
proof -
  have "strip (CHR '' '' # e) = strip e" by (simp add: strip_def lstrip_def is_space_def)
  then show ?thesis by (simp add: throttle_def monad auth Let_def recent_hits_def)
qed

end
