(* ===== verification/Wiring.thy ===== *)
theory Wiring
  imports Magic_Links
begin

text \<open>
  The selectors of \<open>api/deps.py\<close>: which adapter a deployment runs, decided by its environment alone.
  An adapter is what its constructor is given; \<open>Internal\<close> is the bundled stub run in-process.
\<close>

section \<open>The environment\<close>

type_synonym env = "string \<Rightarrow> string option"

definition env_get :: "env \<Rightarrow> string \<Rightarrow> string \<Rightarrow> string" where
  "env_get env name fallback = (case env name of None \<Rightarrow> fallback | Some v \<Rightarrow> v)"

definition selector :: "env \<Rightarrow> string \<Rightarrow> string" where
  "selector env name = lower (strip (env_get env name []))"

definition unset_value :: string where
  "unset_value = ''unset''"

text \<open>A value a deployment really set: not missing, not empty, not Terraform's placeholder.\<close>

definition real_value :: "env \<Rightarrow> string \<Rightarrow> bool" where
  "real_value env name \<longleftrightarrow> env_get env name [] \<noteq> [] \<and> env_get env name [] \<noteq> unset_value"

text \<open>\<open>f"{selector}={choice!r} requires {name} to be set to a real value"\<close>.\<close>

definition require_value :: "string \<Rightarrow> string \<Rightarrow> string \<Rightarrow> env \<Rightarrow> string \<Rightarrow> exn + string" where
  "require_value what choice kind env name =
     (if real_value env name then Inr (env_get env name [])
      else Inl (RuntimeError (what @ ''='' @ py_repr choice @ '' requires '' @ name @ '' to be set to a real '' @ kind)))"

definition unknown_choice :: "string \<Rightarrow> string \<Rightarrow> string list \<Rightarrow> exn" where
  "unknown_choice what choice known =
     RuntimeError (''unknown '' @ what @ '' '' @ py_repr choice @ ''; expected one of ['' @
       join '', '' (map py_repr (sort known)) @ '']'')"

definition or_none_value :: "env \<Rightarrow> string \<Rightarrow> string option" where
  "or_none_value env name = non_empty (env name)"

definition internal :: string where
  "internal = ''internal''"

text \<open>\<open>base_url\<close>: the in-process stub, or a server.\<close>

datatype endpoint = Internal | Server string

definition endpoint_of :: "string \<Rightarrow> endpoint" where
  "endpoint_of url = (if url = internal then Internal else Server url)"

text \<open>\<open>int(text)\<close>: blanks around, a sign, digits with single underscores between them.\<close>

fun int_digits :: "string \<Rightarrow> string option" where
  "int_digits [] = None"
| "int_digits [c] = (if is_digit c then Some [c] else None)"
| "int_digits (c # d # cs) =
     (if \<not> is_digit c then None
      else if d = CHR ''_'' then map_option ((#) c) (int_digits cs)
      else map_option ((#) c) (int_digits (d # cs)))"

definition py_int :: "string \<Rightarrow> exn + int" where
  "py_int text =
     (let s = strip text;
          neg = startswith s ''-''; body = (if neg \<or> startswith s ''+'' then drop 1 s else s)
      in case int_digits body of
           None \<Rightarrow> Inl (ValueError (''invalid literal for int() with base 10: '' @ py_repr text))
         | Some ds \<Rightarrow> Inr (if neg then - int (read_nat ds) else int (read_nat ds)))"

definition demo_routes_enabled :: "env \<Rightarrow> bool" where
  "demo_routes_enabled env \<longleftrightarrow>
     lower (strip (env_get env ''ENABLE_DEMO_ROUTES'' ''false'')) \<in> {''1'', ''true'', ''yes''}"

definition deploy_tenant :: "env \<Rightarrow> string" where
  "deploy_tenant env = env_get env ''TENANT_ID'' ''demo''"

section \<open>CRM, MLS, voice\<close>

datatype mls_adapter = ResoInternal | Reso string "string option"

definition build_mls_adapter :: "env \<Rightarrow> mls_adapter" where
  "build_mls_adapter env =
     (let url = env_get env ''RESO_BASE_URL'' ''http://localhost:8001/odata''
      in if url = internal then ResoInternal else Reso url (or_none_value env ''RESO_AUTH_TOKEN''))"

datatype crm_adapter =
    Fub string endpoint
  | Sierra string endpoint int string

definition crm_vendors :: "string list" where
  "crm_vendors = [''followupboss'', ''sierra'']"

definition crm_vendor :: "env \<Rightarrow> exn + string" where
  "crm_vendor env =
     (let vendor = selector env ''CRM_VENDOR''
      in if vendor = [] then Inr ''followupboss''
         else if vendor \<notin> set crm_vendors then Inl (unknown_choice ''CRM_VENDOR'' vendor crm_vendors)
         else Inr vendor)"

definition build_fub_adapter :: "env \<Rightarrow> crm_adapter" where
  "build_fub_adapter env =
     Fub (env_get env ''FUB_API_KEY'' [])
       (endpoint_of (env_get env ''FUB_BASE_URL'' ''https://api.followupboss.com/v1''))"

definition require_env :: "env \<Rightarrow> string \<Rightarrow> string \<Rightarrow> exn + string" where
  "require_env env name vendor = require_value ''CRM_VENDOR'' vendor ''value'' env name"

definition build_sierra_adapter :: "env \<Rightarrow> exn + crm_adapter" where
  "build_sierra_adapter env =
     (let url = env_get env ''SIERRA_BASE_URL'' ''https://api.sierrainteractivedev.com''
      in if url = internal
         then (case py_int (env_get env ''SIERRA_TASK_ASSIGNEE_ID'' ''4321'') of
                 Inl e \<Rightarrow> Inl e
               | Inr assignee \<Rightarrow> Inr (Sierra (env_get env ''SIERRA_API_KEY'' []) Internal assignee
                   (env_get env ''SIERRA_TASK_ANCHOR_LEAD_ID'' ''501'')))
         else case require_env env ''SIERRA_API_KEY'' ''sierra'' of
                Inl e \<Rightarrow> Inl e
              | Inr key \<Rightarrow>
                  (case require_env env ''SIERRA_TASK_ASSIGNEE_ID'' ''sierra'' of
                     Inl e \<Rightarrow> Inl e
                   | Inr text \<Rightarrow>
                       (case py_int text of
                          Inl e \<Rightarrow> Inl e
                        | Inr assignee \<Rightarrow>
                            (case require_env env ''SIERRA_TASK_ANCHOR_LEAD_ID'' ''sierra'' of
                               Inl e \<Rightarrow> Inl e
                             | Inr lead \<Rightarrow> Inr (Sierra key (Server url) assignee lead)))))"

definition build_crm_adapter :: "env \<Rightarrow> exn + crm_adapter" where
  "build_crm_adapter env =
     (case crm_vendor env of
        Inl e \<Rightarrow> Inl e
      | Inr vendor \<Rightarrow> if vendor = ''sierra'' then build_sierra_adapter env else Inr (build_fub_adapter env))"

datatype voice_adapter = Vapi string endpoint "string option"

definition build_voice_adapter :: "env \<Rightarrow> voice_adapter" where
  "build_voice_adapter env =
     (let url = env_get env ''VAPI_BASE_URL'' ''https://api.vapi.ai''
      in Vapi (env_get env ''VAPI_API_KEY'' []) (endpoint_of url)
           (if url = internal then None else or_none_value env ''VAPI_PHONE_NUMBER_ID''))"

section \<open>Messages\<close>

datatype email_adapter =
    StubEmail endpoint
  | Ses string string string string "string option"
  | SendGrid string string string

definition email_providers :: "string list" where
  "email_providers = [''stub'', ''ses'', ''sendgrid'']"

definition env_or :: "env \<Rightarrow> string \<Rightarrow> string \<Rightarrow> string" where
  "env_or env name fallback = str_or (env_get env name []) fallback"

definition require_ses_env :: "env \<Rightarrow> string \<Rightarrow> exn + string" where
  "require_ses_env env name = require_value ''EMAIL_PROVIDER'' ''ses'' ''value'' env name"

definition build_ses_email_adapter :: "env \<Rightarrow> exn + email_adapter" where
  "build_ses_email_adapter env =
     (case require_ses_env env ''SES_ACCESS_KEY_ID'' of
        Inl e \<Rightarrow> Inl e
      | Inr i \<Rightarrow>
          (case require_ses_env env ''SES_SECRET_ACCESS_KEY'' of
             Inl e \<Rightarrow> Inl e
           | Inr key \<Rightarrow>
               (case require_ses_env env ''SES_FROM_ADDRESS'' of
                  Inl e \<Rightarrow> Inl e
                | Inr sender \<Rightarrow> Inr (Ses i key sender (env_get env ''SES_REGION'' ''us-west-2'')
                    (or_none_value env ''SES_BASE_URL'')))))"

definition build_sendgrid_adapter :: "env \<Rightarrow> exn + email_adapter" where
  "build_sendgrid_adapter env =
     (case require_value ''EMAIL_PROVIDER'' ''sendgrid'' ''value'' env ''SENDGRID_API_KEY'' of
        Inl e \<Rightarrow> Inl e
      | Inr key \<Rightarrow>
          (case require_value ''EMAIL_PROVIDER'' ''sendgrid'' ''value'' env ''SENDGRID_FROM_EMAIL'' of
             Inl e \<Rightarrow> Inl e
           | Inr sender \<Rightarrow> Inr (SendGrid key sender (env_or env ''SENDGRID_BASE_URL'' ''https://api.sendgrid.com''))))"

definition build_email_port :: "env \<Rightarrow> exn + email_adapter" where
  "build_email_port env =
     (let provider = str_or (selector env ''EMAIL_PROVIDER'') ''stub''
      in if provider = ''stub'' then Inr (StubEmail (endpoint_of (env_or env ''EMAIL_BASE_URL'' internal)))
         else if provider = ''ses'' then build_ses_email_adapter env
         else if provider = ''sendgrid'' then build_sendgrid_adapter env
         else Inl (unknown_choice ''EMAIL_PROVIDER'' provider email_providers))"

record twilio_config =
  tw_account_sid :: string
  tw_auth_token :: string
  tw_from_number :: string
  tw_messaging_service_sid :: string
  tw_status_callback_url :: string
  tw_endpoint :: endpoint

definition sms_providers :: "string list" where
  "sms_providers = [''stub'', ''twilio'']"

definition stub_twilio :: "endpoint \<Rightarrow> twilio_config" where
  "stub_twilio url = \<lparr>tw_account_sid = ''ACstub00000000000000000000000000'', tw_auth_token = ''stub-token'',
     tw_from_number = ''+15005550006'', tw_messaging_service_sid = [], tw_status_callback_url = [],
     tw_endpoint = url\<rparr>"

definition missing_sender :: exn where
  "missing_sender = RuntimeError (''SMS_PROVIDER='' @ py_repr ''twilio'' @ '' requires TWILIO_FROM_NUMBER or '' @
     ''TWILIO_MESSAGING_SERVICE_SID (the A2P 10DLC sender '' @ em_dash @
     '' see docs/A2P_10DLC_ONBOARDING.md)'')"

definition build_twilio_adapter :: "env \<Rightarrow> exn + twilio_config" where
  "build_twilio_adapter env =
     (case require_value ''SMS_PROVIDER'' ''twilio'' ''value'' env ''TWILIO_ACCOUNT_SID'' of
        Inl e \<Rightarrow> Inl e
      | Inr sid \<Rightarrow>
          (case require_value ''SMS_PROVIDER'' ''twilio'' ''value'' env ''TWILIO_AUTH_TOKEN'' of
             Inl e \<Rightarrow> Inl e
           | Inr token \<Rightarrow>
               let number = env_get env ''TWILIO_FROM_NUMBER'' [];
                   service = env_get env ''TWILIO_MESSAGING_SERVICE_SID'' []
               in if number = [] \<and> service = [] then Inl missing_sender
                  else Inr \<lparr>tw_account_sid = sid, tw_auth_token = token, tw_from_number = number,
                    tw_messaging_service_sid = service,
                    tw_status_callback_url = env_get env ''TWILIO_STATUS_CALLBACK_URL'' [],
                    tw_endpoint = Server (env_get env ''SMS_BASE_URL'' ''https://api.twilio.com'')\<rparr>))"

definition build_sms_port :: "env \<Rightarrow> exn + twilio_config" where
  "build_sms_port env =
     (let provider = str_or (selector env ''SMS_PROVIDER'') ''stub''
      in if provider = ''stub'' then Inr (stub_twilio (endpoint_of (env_get env ''SMS_BASE_URL'' internal)))
         else if provider = ''twilio'' then build_twilio_adapter env
         else Inl (unknown_choice ''SMS_PROVIDER'' provider sms_providers))"

section \<open>Drafting, extraction, files\<close>

definition require_llm_api_key :: "env \<Rightarrow> string \<Rightarrow> string \<Rightarrow> exn + string" where
  "require_llm_api_key env backend selector_name = require_value selector_name backend ''key'' env ''LLM_API_KEY''"

datatype drafting_backend = DeterministicDrafting | LlmDrafting string string

definition drafting_backends :: "string list" where
  "drafting_backends = [''deterministic'', ''pydantic_ai'']"

text \<open>A channel is what matters of it here: whether its port carries the egress marker.\<close>

definition unfiltered_channel :: exn where
  "unfiltered_channel = RuntimeError (''DRAFTING_BACKEND='' @ py_repr ''pydantic_ai'' @
     '' requires the outbound channel seam to be egress-filtered (BOP-012); refusing to wire an LLM drafter '' @
     ''onto a send path that is not egress-filtered'')"

definition require_egress_filtered_channels :: "bool list \<Rightarrow> exn option" where
  "require_egress_filtered_channels marked =
     (if marked = [] \<or> filter Not marked \<noteq> [] then Some unfiltered_channel else None)"

definition build_drafting_port :: "env \<Rightarrow> bool list \<Rightarrow> exn + drafting_backend" where
  "build_drafting_port env marked =
     (let backend = str_or (selector env ''DRAFTING_BACKEND'') ''deterministic''
      in if backend = ''deterministic'' then Inr DeterministicDrafting
         else if backend = ''pydantic_ai''
         then (case require_egress_filtered_channels marked of
                 Some e \<Rightarrow> Inl e
               | None \<Rightarrow>
                   (case require_llm_api_key env backend ''DRAFTING_BACKEND'' of
                      Inl e \<Rightarrow> Inl e
                    | Inr key \<Rightarrow> Inr (LlmDrafting key (env_or env ''LLM_MODEL'' ''claude-sonnet-5''))))
         else Inl (unknown_choice ''DRAFTING_BACKEND'' backend drafting_backends))"

datatype files_adapter = DriveStub endpoint "string option" | Drive string string "string option"

definition files_providers :: "string list" where
  "files_providers = [''stub'', ''google_drive'']"

definition missing_drive_credentials :: exn where
  "missing_drive_credentials = RuntimeError (''FILES_PROVIDER='' @ py_repr ''google_drive'' @
     '' requires GOOGLE_DRIVE_CREDENTIALS_FILE (a per-client service-account JSON mounted from Secret Manager)'')"

definition build_files_adapter :: "env \<Rightarrow> exn + files_adapter" where
  "build_files_adapter env =
     (let provider = selector env ''FILES_PROVIDER'';
          root = or_none_value env ''GOOGLE_DRIVE_ROOT_FOLDER_ID''
      in if provider = [] \<or> provider = ''stub''
         then Inr (DriveStub (endpoint_of (env_get env ''GOOGLE_DRIVE_BASE_URL'' internal)) root)
         else if provider = ''google_drive''
         then (if real_value env ''GOOGLE_DRIVE_CREDENTIALS_FILE''
               then Inr (Drive (env_get env ''GOOGLE_DRIVE_CREDENTIALS_FILE'' [])
                 (env_get env ''GOOGLE_DRIVE_BASE_URL'' ''https://www.googleapis.com'') root)
               else Inl missing_drive_credentials)
         else Inl (unknown_choice ''FILES_PROVIDER'' provider files_providers))"

datatype extraction_backend = DeterministicExtraction | Claude string string | PydanticAI string string

definition extraction_backends :: "string list" where
  "extraction_backends = [''deterministic'', ''llm'', ''pydantic_ai'']"

definition build_extraction_port :: "env \<Rightarrow> exn + extraction_backend" where
  "build_extraction_port env =
     (let backend = selector env ''EXTRACTION_BACKEND''
      in if backend = [] \<or> backend = ''deterministic'' then Inr DeterministicExtraction
         else if backend = ''llm''
         then (case require_llm_api_key env backend ''EXTRACTION_BACKEND'' of
                 Inl e \<Rightarrow> Inl e
               | Inr key \<Rightarrow> Inr (Claude key (env_or env ''LLM_MODEL'' ''claude-sonnet-4-6'')))
         else if backend = ''pydantic_ai''
         then (case require_llm_api_key env backend ''EXTRACTION_BACKEND'' of
                 Inl e \<Rightarrow> Inl e
               | Inr key \<Rightarrow> Inr (PydanticAI key (env_or env ''LLM_MODEL'' ''claude-sonnet-5'')))
         else Inl (unknown_choice ''EXTRACTION_BACKEND'' backend extraction_backends))"

section \<open>Login\<close>

text \<open>\<open>text.split(",")\<close>.\<close>

function split_on :: "char \<Rightarrow> string \<Rightarrow> string list" where
  "split_on sep s =
     takeWhile (\<lambda>c. c \<noteq> sep) s #
     (case dropWhile (\<lambda>c. c \<noteq> sep) s of [] \<Rightarrow> [] | _ # rest \<Rightarrow> split_on sep rest)"
  by pat_completeness auto
termination
proof (relation "measure (length \<circ> snd)")
  fix sep s c and rest :: string
  assume "dropWhile (\<lambda>c. c \<noteq> sep) s = c # rest"
  then have "length (c # rest) \<le> length s" by (metis length_dropWhile_le)
  then show "((sep, rest), (sep, s)) \<in> measure (length \<circ> snd)" by simp
qed simp

definition csv_env :: "env \<Rightarrow> string \<Rightarrow> string list option" where
  "csv_env env name =
     (let values = filter (\<lambda>e. e \<noteq> []) (map strip (split_on CHR '','' (env_get env name [])))
      in if values = [] then None else Some values)"

definition google_client_id :: "env \<Rightarrow> string option" where
  "google_client_id env =
     (if real_value env ''GOOGLE_OIDC_CLIENT_ID'' then Some (env_get env ''GOOGLE_OIDC_CLIENT_ID'' []) else None)"

definition build_allowlist :: "env \<Rightarrow> email_allowlist" where
  "build_allowlist env =
     new_allowlist (or_none_value env ''AUTH_ALLOWED_DOMAIN'') (csv_env env ''AUTH_ALLOWED_EMAILS'')"

definition build_role_resolver :: "env \<Rightarrow> role_resolver" where
  "build_role_resolver env =
     new_roles (csv_env env ''AUTH_ADMIN_EMAILS'') (or_none_value env ''AUTH_ADMIN_DOMAIN'')
       (csv_env env ''AUTH_VIEWER_EMAILS'') (or_none_value env ''AUTH_VIEWER_DOMAIN'')"

definition session_signing_key :: "env \<Rightarrow> exn + string" where
  "session_signing_key env =
     (if env_get env ''SESSION_SIGNING_KEY'' [] = []
      then Inl (RuntimeError
        ''SESSION_SIGNING_KEY is required when a session-issuing auth method (magic) is on'')
      else Inr (env_get env ''SESSION_SIGNING_KEY'' []))"

definition requested_methods :: "env \<Rightarrow> string list" where
  "requested_methods env =
     (let named = filter (\<lambda>m. m \<noteq> [])
            (map (\<lambda>m. lower (strip m)) (split_on CHR '','' (env_get env ''AUTH_METHODS'' [])))
      in if named = [] \<and> google_client_id env \<noteq> None then [''google''] else named)"

definition configured_auth_methods :: "env \<Rightarrow> string list" where
  "configured_auth_methods env =
     (if ''magic'' \<in> set (requested_methods env) then [''magic''] else []) @
     (if ''google'' \<in> set (requested_methods env) \<and> google_client_id env \<noteq> None then [''google''] else [])"

definition magic_verifiers :: "env \<Rightarrow> exn + verifier list" where
  "magic_verifiers env =
     (if ''magic'' \<in> set (configured_auth_methods env)
      then (case session_signing_key env of Inl e \<Rightarrow> Inl e | Inr key \<Rightarrow> Inr [session_verify key])
      else Inr [])"

definition google_verifiers :: "env \<Rightarrow> verifier list" where
  "google_verifiers env =
     (if ''google'' \<in> set (configured_auth_methods env)
      then (case google_client_id env of
              None \<Rightarrow> []
            | Some i \<Rightarrow> [google_verify \<lparr>gv_client_id = i, gv_allowlist = build_allowlist env,
                gv_roles = build_role_resolver env\<rparr>])
      else [])"

definition build_identity_verifier :: "env \<Rightarrow> exn + verifier" where
  "build_identity_verifier env =
     (if configured_auth_methods env = [] then Inr demo_verify
      else case magic_verifiers env of
             Inl e \<Rightarrow> Inl e
           | Inr vs \<Rightarrow> Inr (composite_verify (vs @ google_verifiers env)))"

definition build_magic_link_service :: "env \<Rightarrow> token_store \<Rightarrow> exn + magic_service option" where
  "build_magic_link_service env store =
     (if ''magic'' \<notin> set (configured_auth_methods env) then Inr None
      else case session_signing_key env of
             Inl e \<Rightarrow> Inl e
           | Inr key \<Rightarrow> Inr (Some (new_magic_service store (new_session_service key) (build_allowlist env)
               (build_role_resolver env) (env_get env ''PUBLIC_BASE_URL'' ''http://localhost:5173''))))"

definition build_session_refresher :: "env \<Rightarrow> exn + session_refresher option" where
  "build_session_refresher env =
     (if ''magic'' \<notin> set (configured_auth_methods env) then Inr None
      else case session_signing_key env of
             Inl e \<Rightarrow> Inl e
           | Inr key \<Rightarrow> Inr (Some \<lparr>sr_key = key, sr_allowlist = build_allowlist env,
               sr_roles = build_role_resolver env, sr_service = new_session_service key\<rparr>))"

text \<open>The routes that need a service answer 404 where it is off.\<close>

definition get_session_refresher :: "session_refresher option \<Rightarrow> exn + session_refresher" where
  "get_session_refresher r =
     (case r of None \<Rightarrow> Inl (HTTPException 404 ''token refresh is not enabled'') | Some x \<Rightarrow> Inr x)"

definition get_magic_link_service :: "magic_service option \<Rightarrow> exn + magic_service" where
  "get_magic_link_service s =
     (case s of None \<Rightarrow> Inl (HTTPException 404 ''magic-link login is not enabled'') | Some x \<Rightarrow> Inr x)"

definition auth_config :: "env \<Rightarrow> bool \<times> string list \<times> string option" where
  "auth_config env =
     (let methods = configured_auth_methods env
      in (methods \<noteq> [], methods,
          if ''google'' \<in> set methods then env ''GOOGLE_OIDC_CLIENT_ID'' else None))"

text \<open>
  \<open>main._require_status_access\<close>: the internal key where one is set, otherwise a viewer or above.
\<close>

definition require_status_access :: "env \<Rightarrow> verifier \<Rightarrow> string option \<Rightarrow> string option \<Rightarrow> unit A" where
  "require_status_access env verify authorization status_key =
     (let secret = env_get env ''STATUS_INTERNAL_KEY'' []
      in if secret \<noteq> [] \<and> status_key = Some secret then ret ()
         else bindM (get_current_principal verify authorization) (\<lambda>p.
           bindM (liftE (require_role Viewer p)) (\<lambda>_. ret ())))"

section \<open>What the wiring guarantees\<close>

definition real_text :: "string \<Rightarrow> bool" where
  "real_text s \<longleftrightarrow> s \<noteq> [] \<and> s \<noteq> unset_value"

lemma require_value_Inr: "require_value what choice kind env name = Inr v \<Longrightarrow> real_text v"
  by (auto simp: require_value_def real_value_def real_text_def split: if_splits)

lemma str_or_stub: "x \<noteq> [] \<Longrightarrow> str_or s x = x \<longleftrightarrow> s \<in> {[], x}"
  by (auto simp: str_or_def)

text \<open>
  No silent downgrade. An adapter is wired exactly for the value its selector names: the stub or the
  deterministic backend only when the selector is unset or names it, a real provider only when named and
  only with credentials that are set and no placeholder, an LLM drafter only when every channel is
  egress-filtered; every other environment is an error at start.
\<close>

theorem selectors_fail_loud:
  shows "(\<forall>a. build_email_port env = Inr a \<longrightarrow>
      (case a of
         StubEmail _ \<Rightarrow> selector env ''EMAIL_PROVIDER'' \<in> {[], ''stub''}
       | Ses i key sender _ _ \<Rightarrow> selector env ''EMAIL_PROVIDER'' = ''ses'' \<and> real_text i \<and> real_text key \<and> real_text sender
       | SendGrid key sender _ \<Rightarrow> selector env ''EMAIL_PROVIDER'' = ''sendgrid'' \<and> real_text key \<and> real_text sender)) \<and>
    (\<forall>c. build_sms_port env = Inr c \<longrightarrow>
      selector env ''SMS_PROVIDER'' \<in> {[], ''stub''} \<and> c = stub_twilio (tw_endpoint c) \<or>
      selector env ''SMS_PROVIDER'' = ''twilio'' \<and> real_text (tw_account_sid c) \<and> real_text (tw_auth_token c) \<and>
        (tw_from_number c \<noteq> [] \<or> tw_messaging_service_sid c \<noteq> [])) \<and>
    (\<forall>b. build_drafting_port env marked = Inr b \<longrightarrow>
      (case b of
         DeterministicDrafting \<Rightarrow> selector env ''DRAFTING_BACKEND'' \<in> {[], ''deterministic''}
       | LlmDrafting key _ \<Rightarrow> selector env ''DRAFTING_BACKEND'' = ''pydantic_ai'' \<and> real_text key \<and>
           marked \<noteq> [] \<and> (\<forall>m \<in> set marked. m))) \<and>
    (\<forall>b. build_extraction_port env = Inr b \<longrightarrow>
      (case b of
         DeterministicExtraction \<Rightarrow> selector env ''EXTRACTION_BACKEND'' \<in> {[], ''deterministic''}
       | Claude key _ \<Rightarrow> selector env ''EXTRACTION_BACKEND'' = ''llm'' \<and> real_text key
       | PydanticAI key _ \<Rightarrow> selector env ''EXTRACTION_BACKEND'' = ''pydantic_ai'' \<and> real_text key)) \<and>
    (\<forall>f. build_files_adapter env = Inr f \<longrightarrow>
      (case f of
         DriveStub _ _ \<Rightarrow> selector env ''FILES_PROVIDER'' \<in> {[], ''stub''}
       | Drive credentials _ _ \<Rightarrow> selector env ''FILES_PROVIDER'' = ''google_drive'' \<and> real_text credentials)) \<and>
    (\<forall>c. build_crm_adapter env = Inr c \<longrightarrow>
      (case c of
         Fub _ _ \<Rightarrow> selector env ''CRM_VENDOR'' \<in> {[], ''followupboss''}
       | Sierra key url _ lead \<Rightarrow> selector env ''CRM_VENDOR'' = ''sierra'' \<and>
           (url = Internal \<or> real_text key \<and> real_text lead)))"
proof (intro conjI allI impI)
  fix a assume "build_email_port env = Inr a"
  then show "case a of
         StubEmail _ \<Rightarrow> selector env ''EMAIL_PROVIDER'' \<in> {[], ''stub''}
       | Ses i key sender _ _ \<Rightarrow> selector env ''EMAIL_PROVIDER'' = ''ses'' \<and> real_text i \<and> real_text key \<and> real_text sender
       | SendGrid key sender _ \<Rightarrow> selector env ''EMAIL_PROVIDER'' = ''sendgrid'' \<and> real_text key \<and> real_text sender"
    by (auto simp: build_email_port_def build_ses_email_adapter_def build_sendgrid_adapter_def require_ses_env_def
        str_or_def Let_def dest: require_value_Inr split: if_splits sum.splits)
next
  fix c assume "build_sms_port env = Inr c"
  then show "selector env ''SMS_PROVIDER'' \<in> {[], ''stub''} \<and> c = stub_twilio (tw_endpoint c) \<or>
      selector env ''SMS_PROVIDER'' = ''twilio'' \<and> real_text (tw_account_sid c) \<and> real_text (tw_auth_token c) \<and>
        (tw_from_number c \<noteq> [] \<or> tw_messaging_service_sid c \<noteq> [])"
    by (auto simp: build_sms_port_def build_twilio_adapter_def str_or_def stub_twilio_def Let_def
        dest: require_value_Inr split: if_splits sum.splits)
next
  fix b assume "build_drafting_port env marked = Inr b"
  then show "case b of
         DeterministicDrafting \<Rightarrow> selector env ''DRAFTING_BACKEND'' \<in> {[], ''deterministic''}
       | LlmDrafting key _ \<Rightarrow> selector env ''DRAFTING_BACKEND'' = ''pydantic_ai'' \<and> real_text key \<and>
           marked \<noteq> [] \<and> (\<forall>m \<in> set marked. m)"
    by (auto simp: build_drafting_port_def require_egress_filtered_channels_def require_llm_api_key_def str_or_def
        Let_def filter_empty_conv dest: require_value_Inr split: if_splits sum.splits)
next
  fix b assume "build_extraction_port env = Inr b"
  then show "case b of
         DeterministicExtraction \<Rightarrow> selector env ''EXTRACTION_BACKEND'' \<in> {[], ''deterministic''}
       | Claude key _ \<Rightarrow> selector env ''EXTRACTION_BACKEND'' = ''llm'' \<and> real_text key
       | PydanticAI key _ \<Rightarrow> selector env ''EXTRACTION_BACKEND'' = ''pydantic_ai'' \<and> real_text key"
    by (auto simp: build_extraction_port_def require_llm_api_key_def Let_def dest: require_value_Inr
        split: if_splits sum.splits)
next
  fix f assume "build_files_adapter env = Inr f"
  then show "case f of
         DriveStub _ _ \<Rightarrow> selector env ''FILES_PROVIDER'' \<in> {[], ''stub''}
       | Drive credentials _ _ \<Rightarrow> selector env ''FILES_PROVIDER'' = ''google_drive'' \<and> real_text credentials"
    by (auto simp: build_files_adapter_def real_value_def real_text_def Let_def split: if_splits)
next
  fix c assume "build_crm_adapter env = Inr c"
  then show "case c of
         Fub _ _ \<Rightarrow> selector env ''CRM_VENDOR'' \<in> {[], ''followupboss''}
       | Sierra key url _ lead \<Rightarrow> selector env ''CRM_VENDOR'' = ''sierra'' \<and>
           (url = Internal \<or> real_text key \<and> real_text lead)"
    by (auto simp: build_crm_adapter_def crm_vendor_def crm_vendors_def build_sierra_adapter_def build_fub_adapter_def
        require_env_def Let_def dest: require_value_Inr split: if_splits sum.splits)
qed

definition ses_env :: env where
  "ses_env = map_of [(''EMAIL_PROVIDER'', '' SES''), (''SES_ACCESS_KEY_ID'', ''AK''),
     (''SES_SECRET_ACCESS_KEY'', ''s3''), (''SES_FROM_ADDRESS'', ''a@b''), (''AUTH_METHODS'', ''google'')]"

theorem selectors_fail_loud_witness:
  "build_email_port ses_env = Inr (Ses ''AK'' ''s3'' ''a@b'' ''us-west-2'' None) \<and>
   selector ses_env ''EMAIL_PROVIDER'' = ''ses'' \<and> real_text ''AK'' \<and> real_text ''s3''"
proof -
  have b: "build_email_port ses_env = Inr (Ses ''AK'' ''s3'' ''a@b'' ''us-west-2'' None)" by code_simp
  with selectors_fail_loud [of ses_env "[]"] show ?thesis by (auto split: email_adapter.splits)
qed

lemma no_bearer:
  assumes "bearer_token a \<in> {None, Some []}"
  shows "session_verify key (bearer_token a) w = (Inl missing_bearer, w)"
    and "google_verify g (bearer_token a) w = (Inl missing_bearer, w)"
  using assms by (auto simp: session_verify_def google_verify_def)

text \<open>
  C40: Login is required exactly when a login method is on. With none on, every request, with any bearer or
  none, is the demo administrator; with one on, a request without a bearer is a 401. No method is on exactly
  when neither "magic" is requested nor "google" with a client id: an AUTH_METHODS that names only
  unknown methods, or google without its client id, leaves the deployment open.
\<close>

theorem login_required_iff_configured:
  assumes "build_identity_verifier env = Inr verify"
  shows "(configured_auth_methods env = [] \<longrightarrow> (\<forall>a w. get_current_principal verify a w = (Inr demo_principal, w))) \<and>
    (configured_auth_methods env \<noteq> [] \<longrightarrow>
       (\<forall>a w. bearer_token a \<in> {None, Some []} \<longrightarrow>
          get_current_principal verify a w = (Inl (HTTPException 401 ''missing bearer token''), w))) \<and>
    (configured_auth_methods env = [] \<longleftrightarrow>
       ''magic'' \<notin> set (requested_methods env) \<and> (''google'' \<notin> set (requested_methods env) \<or> google_client_id env = None))"
proof -
  have off: "configured_auth_methods env = [] \<longleftrightarrow>
      ''magic'' \<notin> set (requested_methods env) \<and> (''google'' \<notin> set (requested_methods env) \<or> google_client_id env = None)"
    by (auto simp: configured_auth_methods_def)
  show ?thesis
  proof (cases "configured_auth_methods env = []")
    case True
    with assms off show ?thesis
      by (simp add: build_identity_verifier_def get_current_principal_def demo_verify_def monad)
  next
    case False
    from assms False obtain vs where vs: "magic_verifiers env = Inr vs" "verify = composite_verify (vs @ google_verifiers env)"
      by (auto simp: build_identity_verifier_def split: sum.splits)
    have "get_current_principal verify a w = (Inl (HTTPException 401 ''missing bearer token''), w)"
      if "bearer_token a \<in> {None, Some []}" for a w
      using vs False no_bearer [OF that]
      by (auto simp: magic_verifiers_def google_verifiers_def configured_auth_methods_def composite_verify_def
          get_current_principal_def monad missing_bearer_def split: if_splits sum.splits option.splits)
    with False off show ?thesis by blast
  qed
qed

theorem login_required_iff_configured_witness:
  "get_current_principal demo_verify (Some ''Bearer junk'') sample_auth = (Inr demo_principal, sample_auth)"
proof -
  have "configured_auth_methods ses_env = []" by code_simp
  moreover have "build_identity_verifier ses_env = Inr demo_verify"
    using calculation by (simp add: build_identity_verifier_def)
  ultimately show ?thesis using login_required_iff_configured by blast
qed

end
