(* ===== verification/Wire.thy ===== *)
theory Wire
  imports Http PyHash Wiring
begin

text \<open>
  What the vendor adapters and their stubs do with JSON values and texts: lookups that may raise,
  splitting, numbers in hexadecimal, \<open>json.dumps\<close> in insertion order.
\<close>

section \<open>JSON values\<close>

definition no_get :: exn where
  "no_get = ProviderError ''AttributeError'' ''object has no attribute get''"

text \<open>\<open>v.get(k)\<close>, \<open>v.get(k, d)\<close>, \<open>v[k]\<close> and \<open>v[0]\<close>.\<close>

definition get_default :: "pyv \<Rightarrow> string \<Rightarrow> pyv \<Rightarrow> exn + pyv" where
  "get_default v k d =
     (case v of PDict es \<Rightarrow> Inr (case map_of es k of None \<Rightarrow> d | Some x \<Rightarrow> x) | _ \<Rightarrow> Inl no_get)"

definition get_key :: "pyv \<Rightarrow> string \<Rightarrow> exn + pyv" where
  "get_key v k = get_default v k PNone"

definition item_key :: "pyv \<Rightarrow> string \<Rightarrow> exn + pyv" where
  "item_key v k =
     (case v of
        PDict es \<Rightarrow> (case map_of es k of None \<Rightarrow> Inl (KeyError k) | Some x \<Rightarrow> Inr x)
      | _ \<Rightarrow> Inl (ProviderError ''TypeError'' ''indices must be integers''))"

definition first_item :: "pyv \<Rightarrow> exn + pyv" where
  "first_item v =
     (case v of
        PList (x # xs) \<Rightarrow> Inr x
      | PList [] \<Rightarrow> Inl (ProviderError ''IndexError'' ''list index out of range'')
      | PStr (c # cs) \<Rightarrow> Inr (PStr [c])
      | PStr [] \<Rightarrow> Inl (ProviderError ''IndexError'' ''string index out of range'')
      | PDict es \<Rightarrow> Inl (KeyError ''0'')
      | _ \<Rightarrow> Inl (ProviderError ''TypeError'' ''object is not subscriptable''))"

text \<open>\<open>a or b\<close>.\<close>

definition py_or :: "pyv \<Rightarrow> pyv \<Rightarrow> pyv" where
  "py_or a b = (if truthy a then a else b)"

lemma get_key_dict [simp]:
  "get_key (PDict es) k = Inr (case map_of es k of None \<Rightarrow> PNone | Some x \<Rightarrow> x)"
  "get_default (PDict es) k d = Inr (case map_of es k of None \<Rightarrow> d | Some x \<Rightarrow> x)"
  by (simp_all add: get_key_def get_default_def)

lemma first_item_Cons [simp]: "first_item (PList (x # xs)) = Inr x"
  by (simp add: first_item_def)

lemma item_key_dict [simp]:
  "item_key (PDict es) k = (case map_of es k of None \<Rightarrow> Inl (KeyError k) | Some x \<Rightarrow> Inr x)"
  by (simp add: item_key_def)

lemma py_or_simps [simp]:
  "py_or PNone b = b" "py_or (PList (x # xs)) b = PList (x # xs)" "py_or (PDict (e # es)) b = PDict (e # es)"
  "py_or (PStr (c # cs)) b = PStr (c # cs)" "py_or (PStr []) b = b"
  by (simp_all add: py_or_def)

text \<open>\<open>json.dumps(v, separators=(",", ":"))\<close>: keys in their order.\<close>

fun json_text :: "pyv \<Rightarrow> string" where
  "json_text (PList xs) = ''['' @ join '','' (map json_text xs) @ '']''"
| "json_text (PDict d) = ''{'' @ join '','' (map (\<lambda>(k, v). json_string k @ '':'' @ json_text v) d) @ ''}''"
| "json_text v = json_dumps v"

section \<open>Texts\<close>

text \<open>What stands before and after the first occurrence of a separator.\<close>

fun cut :: "string \<Rightarrow> string \<Rightarrow> (string \<times> string) option" where
  "cut sep [] = None"
| "cut sep (c # cs) =
     (if startswith (c # cs) sep then Some ([], drop (length sep) (c # cs))
      else map_option (\<lambda>(a, b). (c # a, b)) (cut sep cs))"

lemma cut_append: "cut sep s = Some (a, b) \<Longrightarrow> s = a @ sep @ b"
  by (induction s arbitrary: a) (auto simp: startswith_iff split: if_splits)

lemma cut_first:
  assumes "sep \<noteq> []" "hd sep \<notin> set a"
  shows "cut sep (a @ sep @ b) = Some (a, b)"
  using assms
proof (induction a)
  case Nil
  then show ?case by (cases sep) (auto simp: startswith_iff)
next
  case (Cons c a)
  then have "\<not> startswith (c # a @ sep @ b) sep" by (cases sep) auto
  with Cons show ?case by simp
qed

lemma cut_none: "sep \<noteq> [] \<Longrightarrow> hd sep \<notin> set s \<Longrightarrow> cut sep s = None"
  by (induction s) (cases sep; auto)+

text \<open>\<open>s.split(sep)\<close> for a separator that is not empty.\<close>

function split_text :: "string \<Rightarrow> string \<Rightarrow> string list" where
  "split_text sep s =
     (if sep = [] then [s] else (case cut sep s of None \<Rightarrow> [s] | Some (a, b) \<Rightarrow> a # split_text sep b))"
  by pat_completeness auto
termination
  by (relation "measure (\<lambda>(sep, s). length s)") (auto dest: cut_append)

declare split_text.simps [simp del]

lemma split_text_first:
  "sep \<noteq> [] \<Longrightarrow> hd sep \<notin> set a \<Longrightarrow> split_text sep (a @ sep @ b) = a # split_text sep b"
  by (subst split_text.simps) (simp add: cut_first)

lemma split_text_last: "sep \<noteq> [] \<Longrightarrow> hd sep \<notin> set a \<Longrightarrow> split_text sep a = [a]"
  by (subst split_text.simps) (simp add: cut_none)

lemma split_on_first: "sep \<notin> set a \<Longrightarrow> split_on sep (a @ sep # b) = a # split_on sep b"
proof -
  assume "sep \<notin> set a"
  then have "takeWhile (\<lambda>c. c \<noteq> sep) (a @ sep # b) = a" "dropWhile (\<lambda>c. c \<noteq> sep) (a @ sep # b) = sep # b"
    by (auto simp: takeWhile_append dropWhile_append)
  then show ?thesis by (subst split_on.simps) simp
qed

lemma split_on_last: "sep \<notin> set a \<Longrightarrow> split_on sep a = [a]"
proof -
  assume "sep \<notin> set a"
  then have "takeWhile (\<lambda>c. c \<noteq> sep) a = a" "dropWhile (\<lambda>c. c \<noteq> sep) a = []" by auto
  then show ?thesis by (subst split_on.simps) (simp only: list.case)
qed

text \<open>\<open>f"{n:0wx}"\<close>.\<close>

fun show_hex :: "nat \<Rightarrow> string" where
  "show_hex n = (if n < 16 then [hex_digit n] else show_hex (n div 16) @ [hex_digit (n mod 16)])"

declare show_hex.simps [simp del]

definition hex_pad :: "nat \<Rightarrow> nat \<Rightarrow> string" where
  "hex_pad w n = replicate (w - length (show_hex n)) CHR ''0'' @ show_hex n"

definition hex_val :: "char \<Rightarrow> nat" where
  "hex_val c = (let n = of_char c in if n < 58 then n - 48 else n - 87)"

definition read_hex :: "string \<Rightarrow> nat" where
  "read_hex s = foldl (\<lambda>v c. 16 * v + hex_val c) 0 s"

lemma hex_val_digit: "n < 16 \<Longrightarrow> hex_val (hex_digit n) = n"
  by (auto simp: hex_val_def hex_digit_def less_Suc_eq numeral_eq_Suc)

lemma read_hex_show: "read_hex (show_hex n) = n"
proof (induction n rule: show_hex.induct)
  case (1 n)
  then show ?case by (cases "n < 16") (simp_all add: show_hex.simps [of n] read_hex_def hex_val_digit)
qed

lemma read_hex_pad: "read_hex (hex_pad w n) = n"
proof -
  have "read_hex (replicate k CHR ''0'' @ s) = read_hex s" for k s
    by (induction k) (simp_all add: read_hex_def hex_val_def)
  then show ?thesis by (simp add: hex_pad_def read_hex_show)
qed

lemma hex_pad_inject [simp]: "hex_pad w m = hex_pad w n \<longleftrightarrow> m = n"
  by (metis read_hex_pad)

end
