(* ===== verification/Crm_FUB.thy ===== *)
theory Crm_FUB
  imports Complex_Main Wire
begin

text \<open>
  The FollowUpBoss adapter (\<open>integrations/followupboss\<close>) and its stub. What a request waits for before it
  is sent, the token bucket, is an argument of the adapter; the bucket itself is at the end. A byte of a
  character beyond ASCII is no digit.
\<close>

section \<open>Contacts\<close>

definition invalid_contact :: exn where
  "invalid_contact = ProviderError ''ValidationError'' ''Contact''"

definition text_field :: "pyv \<Rightarrow> exn + string" where
  "text_field v = (case v of PStr s \<Rightarrow> Inr s | _ \<Rightarrow> Inl invalid_contact)"

definition optional_text :: "pyv \<Rightarrow> exn + string option" where
  "optional_text v = (case v of PNone \<Rightarrow> Inr None | PStr s \<Rightarrow> Inr (Some s) | _ \<Rightarrow> Inl invalid_contact)"

text \<open>\<open>f"{first} {last}".strip()\<close>.\<close>

definition full_name :: "pyv \<Rightarrow> pyv \<Rightarrow> string" where
  "full_name first last_name = strip (py_str first @ '' '' @ py_str last_name)"

text \<open>\<open>entries[0]["value"] if entries else None\<close>.\<close>

definition first_value :: "pyv \<Rightarrow> exn + pyv" where
  "first_value entries =
     (if truthy entries then thenE (first_item entries) (\<lambda>e. item_key e ''value'') else Inr PNone)"

definition contact_from_fub :: "pyv \<Rightarrow> exn + contact" where
  "contact_from_fub person =
     thenE (get_key person ''emails'') (\<lambda>emails.
     thenE (get_key person ''phones'') (\<lambda>phones.
     thenE (get_key person ''firstName'') (\<lambda>first.
     thenE (get_key person ''lastName'') (\<lambda>last_name.
     thenE (item_key person ''id'') (\<lambda>i.
     thenE (get_key person ''name'') (\<lambda>name.
     thenE (get_key person ''stage'') (\<lambda>stage.
     thenE (first_value emails) (\<lambda>email.
     thenE (first_value phones) (\<lambda>phone.
     thenE (text_field (py_or name (PStr (full_name (py_or first (PStr [])) (py_or last_name (PStr [])))))) (\<lambda>nm.
     thenE (text_field (py_or stage (PStr ''Lead''))) (\<lambda>rl.
     thenE (optional_text email) (\<lambda>em.
     thenE (optional_text phone) (\<lambda>ph.
       Inr \<lparr>ct_crm_id = py_str i, ct_name = nm, ct_role = rl, ct_email = em, ct_phone = ph\<rparr>)))))))))))))"

section \<open>The adapter\<close>

definition fub_outcomes :: "(string \<times> string) list" where
  "fub_outcomes =
     [(''positive'', ''Interested''), (''neutral'', ''Interested''), (''negative'', ''Interested''),
      (''interested'', ''Interested''), (''not interested'', ''Not Interested''), (''left message'', ''Left Message''),
      (''no answer'', ''No Answer''), (''busy'', ''Busy''), (''bad number'', ''Bad Number'')]"

definition fub_request :: "('s, unit) M \<Rightarrow> ('s, pyv) http_client \<Rightarrow> ('s, pyv) http_client" where
  "fub_request gate client rq = thenM gate (client rq)"

text \<open>\<open>raise_for_status\<close>, then the JSON body.\<close>

definition checked_json :: "pyv http_response \<Rightarrow> ('s, pyv) M" where
  "checked_json r = thenM (raise_for_status r) (json_of r)"

definition fub_get_contact :: "('s, unit) M \<Rightarrow> ('s, pyv) http_client \<Rightarrow> string \<Rightarrow> ('s, contact option) M" where
  "fub_get_contact gate client contact_id =
     bindM (fub_request gate client (http_get (''/people/'' @ contact_id) [] [])) (\<lambda>response.
     if rs_status response = 404 then ret None
     else bindM (checked_json response) (\<lambda>body. bindM (liftE (contact_from_fub body)) (\<lambda>c. ret (Some c))))"

definition items_of :: "pyv \<Rightarrow> exn + pyv list" where
  "items_of v =
     (case v of PList xs \<Rightarrow> Inr xs | PDict es \<Rightarrow> Inr (map (PStr \<circ> fst) es) | PStr s \<Rightarrow> Inr (map (\<lambda>c. PStr [c]) s)
      | _ \<Rightarrow> Inl (ProviderError ''TypeError'' ''object is not iterable''))"

definition fub_search_contacts ::
    "('s, unit) M \<Rightarrow> ('s, pyv) http_client \<Rightarrow> string \<Rightarrow> int \<Rightarrow> ('s, contact list) M" where
  "fub_search_contacts gate client query limit =
     bindM (fub_request gate client (http_get ''/people'' [(''q'', query), (''limit'', show_int limit)] [])) (\<lambda>response.
     bindM (checked_json response) (\<lambda>body.
     bindM (liftE (item_key body ''people'')) (\<lambda>people.
     bindM (liftE (items_of people)) (\<lambda>xs. liftE (mapE contact_from_fub xs)))))"

definition value_list :: "string \<Rightarrow> pyv" where
  "value_list s = PList [PDict [(''value'', PStr s)]]"

definition given :: "string option \<Rightarrow> string option" where
  "given v = (case v of Some s \<Rightarrow> if s = [] then None else Some s | None \<Rightarrow> None)"

definition fub_person_payload :: "contact_create \<Rightarrow> pyv" where
  "fub_person_payload d =
     PDict ([(''firstName'', PStr (cc_first_name d)), (''lastName'', PStr (cc_last_name d)),
             (''source'', PStr (cc_source d))] @
            (case given (cc_email d) of Some e \<Rightarrow> [(''emails'', value_list e)] | None \<Rightarrow> []) @
            (case given (cc_phone d) of Some p \<Rightarrow> [(''phones'', value_list p)] | None \<Rightarrow> []))"

definition fub_create_contact :: "('s, unit) M \<Rightarrow> ('s, pyv) http_client \<Rightarrow> contact_create \<Rightarrow> ('s, contact) M" where
  "fub_create_contact gate client d =
     bindM (fub_request gate client (http_post ''/people'' [] (JsonBody (fub_person_payload d)))) (\<lambda>response.
     bindM (checked_json response) (\<lambda>body. liftE (contact_from_fub body)))"

text \<open>\<open>str(response.json()["id"])\<close>.\<close>

definition id_of :: "pyv \<Rightarrow> ('s, string) M" where
  "id_of body = bindM (liftE (item_key body ''id'')) (\<lambda>i. ret (py_str i))"

definition fub_add_note ::
    "('s, unit) M \<Rightarrow> ('s, pyv) http_client \<Rightarrow> string \<Rightarrow> string \<Rightarrow> string \<Rightarrow> ('s, string) M" where
  "fub_add_note gate client contact_id subject body =
     bindM (liftE (py_int contact_id)) (\<lambda>person.
     bindM (fub_request gate client (http_post ''/notes'' []
       (JsonBody (PDict [(''personId'', PInt person), (''subject'', PStr subject), (''body'', PStr body)])))) (\<lambda>response.
     bindM (checked_json response) id_of))"

definition fub_create_task ::
    "('s, unit) M \<Rightarrow> ('s, pyv) http_client \<Rightarrow> string \<Rightarrow> date option \<Rightarrow> string option \<Rightarrow> ('s, crm_task) M" where
  "fub_create_task gate client name due_date contact_id =
     bindM (liftE (case contact_id of None \<Rightarrow> Inr [] | Some c \<Rightarrow>
       (case py_int c of Inl e \<Rightarrow> Inl e | Inr p \<Rightarrow> Inr [(''personId'', PInt p)]))) (\<lambda>person.
     bindM (fub_request gate client (http_post ''/tasks'' [] (JsonBody (PDict
       ([(''name'', PStr name)] @ (case due_date of None \<Rightarrow> [] | Some d \<Rightarrow> [(''dueDate'', PStr (isoformat d))]) @ person))))) (\<lambda>response.
     bindM (checked_json response) (\<lambda>body.
     bindM (id_of body) (\<lambda>i.
     bindM (liftE (get_default body ''name'' (PStr name))) (\<lambda>nm.
     bindM (liftE (text_field nm)) (\<lambda>n.
     ret \<lparr>tk_id = i, tk_name = n, tk_due_date = due_date, tk_contact_id = contact_id\<rparr>))))))"

definition fub_log_call ::
    "('s, unit) M \<Rightarrow> ('s, pyv) http_client \<Rightarrow> string \<Rightarrow> string \<Rightarrow> string \<Rightarrow> int \<Rightarrow> ('s, string) M" where
  "fub_log_call gate client contact_id outcome note_text duration =
     bindM (fub_get_contact gate client contact_id) (\<lambda>contact.
     bindM (liftE (py_int contact_id)) (\<lambda>person.
     bindM (fub_request gate client (http_post ''/calls'' [] (JsonBody (PDict
       ([(''personId'', PInt person), (''isIncoming'', PBool False), (''note'', PStr note_text), (''duration'', PInt duration)] @
        (case contact of None \<Rightarrow> [] | Some c \<Rightarrow> (case given (ct_phone c) of Some p \<Rightarrow> [(''phone'', PStr p)] | None \<Rightarrow> [])) @
        (case map_of fub_outcomes (lower (strip outcome)) of Some x \<Rightarrow> [(''outcome'', PStr x)] | None \<Rightarrow> [])))))) (\<lambda>response.
     bindM (checked_json response) id_of)))"

section \<open>The stub\<close>

record fub_stub =
  fs_people :: "(int, pyv) dict"
  fs_tasks :: "(int, pyv) dict"
  fs_notes :: "(int, pyv) dict"
  fs_calls :: "(int, pyv) dict"
  fs_next :: nat

definition detail :: "nat \<Rightarrow> string \<Rightarrow> pyv http_response" where
  "detail status m = answer status (PDict [(''detail'', PStr m)])"

text \<open>An exception leaves a handler as a 500 that is not JSON.\<close>

definition serve :: "('s, pyv http_response) M \<Rightarrow> ('s, pyv http_response) M" where
  "serve m = try_except (\<lambda>e. True) m (\<lambda>e. ret \<lparr>rs_status = 500, rs_headers = [], rs_body = None\<rparr>)"

definition object_body :: "pyv http_request \<Rightarrow> ((string \<times> pyv) list \<Rightarrow> ('s, pyv http_response) M) \<Rightarrow> ('s, pyv http_response) M" where
  "object_body rq k = (case rq_body rq of JsonBody (PDict es) \<Rightarrow> k es | _ \<Rightarrow> ret (detail 422 ''dict_type''))"

text \<open>\<open>xs[:limit]\<close>.\<close>

definition slice_to :: "int \<Rightarrow> 'a list \<Rightarrow> 'a list" where
  "slice_to n xs = (if 0 \<le> n then take (nat n) xs else take (length xs - nat (- n)) xs)"

definition joinable :: "pyv \<Rightarrow> exn + string" where
  "joinable v = (case v of PStr s \<Rightarrow> Inr s | _ \<Rightarrow> Inl (ProviderError ''TypeError'' ''expected str instance''))"

definition fub_matches :: "string \<Rightarrow> pyv \<Rightarrow> exn + bool" where
  "fub_matches needle person =
     (if needle = [] then Inr True
      else thenE (get_default person ''name'' (PStr [])) (\<lambda>name.
           thenE (get_default person ''emails'' (PList [])) (\<lambda>emails.
           thenE (items_of emails) (\<lambda>entries.
           thenE (mapE (\<lambda>e. item_key e ''value'') entries) (\<lambda>values.
           thenE (mapE joinable (name # values)) (\<lambda>texts.
             Inr (contains needle (lower (join '' '' texts)))))))))"

fun selectE :: "('a \<Rightarrow> exn + bool) \<Rightarrow> 'a list \<Rightarrow> exn + 'a list" where
  "selectE p [] = Inr []"
| "selectE p (x # xs) = thenE (p x) (\<lambda>b. thenE (selectE p xs) (\<lambda>ys. Inr (if b then x # ys else ys)))"

definition fub_search :: "(string \<times> string) list \<Rightarrow> (fub_stub, pyv http_response) M" where
  "fub_search params =
     (case py_int (case map_of params ''limit'' of None \<Rightarrow> ''20'' | Some l \<Rightarrow> l) of
        Inl e \<Rightarrow> ret (detail 422 ''int_parsing'')
      | Inr limit \<Rightarrow>
          (\<lambda>s. case selectE (fub_matches (lower (case map_of params ''q'' of None \<Rightarrow> [] | Some q \<Rightarrow> q))) (dict_values (fs_people s)) of
                 Inl e \<Rightarrow> (Inl e, s)
               | Inr found \<Rightarrow> (Inr (answer 200 (PDict [(''people'', PList (slice_to limit found))])), s)))"

text \<open>\<open>s.isdigit()\<close> and the person of such an id.\<close>

definition all_digits :: "string \<Rightarrow> bool" where
  "all_digits s \<longleftrightarrow> s \<noteq> [] \<and> list_all is_digit s"

definition fub_person :: "string \<Rightarrow> fub_stub \<Rightarrow> pyv option" where
  "fub_person i s = (if all_digits i then dict_get (fs_people s) (int (read_nat i)) else None)"

definition fub_new_person :: "int \<Rightarrow> (string \<times> pyv) list \<Rightarrow> pyv" where
  "fub_new_person i body =
     (let get = (\<lambda>k d. case map_of body k of None \<Rightarrow> d | Some v \<Rightarrow> v)
      in PDict [(''id'', PInt i), (''firstName'', get ''firstName'' (PStr [])), (''lastName'', get ''lastName'' (PStr [])),
           (''name'', PStr (full_name (get ''firstName'' (PStr [])) (get ''lastName'' (PStr [])))),
           (''stage'', PStr ''Lead''), (''source'', get ''source'' (PStr [])),
           (''emails'', get ''emails'' (PList [])), (''phones'', get ''phones'' (PList []))])"

text \<open>\<open>{"id": i, **body}\<close>.\<close>

definition with_id :: "int \<Rightarrow> (string \<times> pyv) list \<Rightarrow> pyv" where
  "with_id i body = PDict (foldl (\<lambda>d (k, v). dict_set d k v) [(''id'', PInt i)] body)"

definition call_outcomes :: "string list" where
  "call_outcomes = [''Bad Number'', ''Busy'', ''Interested'', ''Left Message'', ''No Answer'', ''Not Interested'']"

text \<open>An outcome that cannot be hashed cannot be looked up in the set of outcomes.\<close>

definition call_problem :: "(string \<times> pyv) list \<Rightarrow> exn + string option" where
  "call_problem body =
     (case filter (\<lambda>f. map_of body f \<in> {None, Some PNone}) [''personId'', ''phone'', ''isIncoming''] of
        f # fs \<Rightarrow> Inr (Some (''Missing required field in the request body: '' @ f @ ''.''))
      | [] \<Rightarrow>
          (case map_of body ''outcome'' of
             Some (PList xs) \<Rightarrow> Inl (ProviderError ''TypeError'' ''unhashable type'')
           | Some (PDict es) \<Rightarrow> Inl (ProviderError ''TypeError'' ''unhashable type'')
           | Some v \<Rightarrow> if v \<in> set (map PStr call_outcomes) then Inr None
               else Inr (Some (''Invalid field value, field name: outcome, allowed values: '' @ join '', '' call_outcomes))
           | None \<Rightarrow> Inr None))"

definition next_id :: "(fub_stub, int) M" where
  "next_id s = (Inr (int (fs_next s)), s\<lparr>fs_next := fs_next s + 1\<rparr>)"

definition fub_server :: "(fub_stub, pyv) http_client" where
  "fub_server rq = serve
     (if rq_method rq = ''GET'' \<and> rq_path rq = ''/people'' then fub_search (rq_params rq)
      else if rq_method rq = ''GET'' \<and> rq_path rq = ''/tasks''
      then (\<lambda>s. (Inr (answer 200 (PDict [(''tasks'', PList (dict_values (fs_tasks s)))])), s))
      else if rq_method rq = ''GET'' \<and> startswith (rq_path rq) ''/people/''
      then (\<lambda>s. let i = drop (length ''/people/'') (rq_path rq)
                in if i = [] \<or> CHR ''/'' \<in> set i then (Inr (detail 404 ''Not Found''), s)
                   else (Inr (case fub_person i s of None \<Rightarrow> detail 404 ''person not found'' | Some p \<Rightarrow> answer 200 p), s))
      else if rq_method rq = ''POST'' \<and> rq_path rq = ''/people''
      then object_body rq (\<lambda>body. bindM next_id (\<lambda>i.
             thenM (modify (\<lambda>s. s\<lparr>fs_people := dict_set (fs_people s) i (fub_new_person i body)\<rparr>))
               (ret (answer 201 (fub_new_person i body)))))
      else if rq_method rq = ''POST'' \<and> rq_path rq = ''/tasks''
      then object_body rq (\<lambda>body. bindM next_id (\<lambda>i.
             thenM (modify (\<lambda>s. s\<lparr>fs_tasks := dict_set (fs_tasks s) i (with_id i body)\<rparr>)) (ret (answer 201 (with_id i body)))))
      else if rq_method rq = ''POST'' \<and> rq_path rq = ''/notes''
      then object_body rq (\<lambda>body. bindM next_id (\<lambda>i.
             thenM (modify (\<lambda>s. s\<lparr>fs_notes := dict_set (fs_notes s) i (with_id i body)\<rparr>)) (ret (answer 201 (with_id i body)))))
      else if rq_method rq = ''POST'' \<and> rq_path rq = ''/calls''
      then object_body rq (\<lambda>body.
             bindM (liftE (call_problem body)) (\<lambda>problem.
             case problem of
               Some m \<Rightarrow> ret (detail 400 m)
             | None \<Rightarrow> bindM next_id (\<lambda>i.
                 thenM (modify (\<lambda>s. s\<lparr>fs_calls := dict_set (fs_calls s) i (with_id i body)\<rparr>)) (ret (answer 201 (with_id i body))))))
      else ret (detail 404 ''Not Found''))"

definition seed_person :: "int \<Rightarrow> string \<Rightarrow> string \<Rightarrow> string \<Rightarrow> string \<Rightarrow> string list \<Rightarrow> pyv" where
  "seed_person i first last_name stage email phones =
     PDict [(''id'', PInt i), (''firstName'', PStr first), (''lastName'', PStr last_name),
       (''name'', PStr (first @ '' '' @ last_name)), (''stage'', PStr stage), (''emails'', value_list email),
       (''phones'', PList (map (\<lambda>p. PDict [(''value'', PStr p)]) phones))]"

definition fub_seed :: fub_stub where
  "fub_seed = \<lparr>fs_people =
     [(101, seed_person 101 ''Jordan'' ''Pike'' ''Lead'' ''jordan.pike@example.test'' [''+1-555-0101'']),
      (102, seed_person 102 ''Casey'' ''Romero'' ''Hot Prospect'' ''casey.romero@example.test'' [''+1-555-0102'']),
      (103, seed_person 103 ''Alex'' ''Yuen'' ''Lead'' ''alex.yuen@example.test'' [])],
     fs_tasks = [], fs_notes = [], fs_calls = [], fs_next = 1000\<rparr>"

section \<open>The token bucket\<close>

text \<open>
  The token bucket in front of the FollowUpBoss API (\<open>ratelimit.py\<close>). The clock is the list of its
  readings, one per turn of the loop; tokens and times are exact rationals, so the rounding of binary floats
  (at most one part in \<open>2 ^ 53\<close> per operation) is not in the model. The lock makes acquisitions one after
  another.
\<close>

record bucket =
  tb_capacity :: rat
  tb_tokens :: rat
  tb_refill :: rat
  tb_last :: rat

definition new_bucket :: "int \<Rightarrow> rat \<Rightarrow> rat \<Rightarrow> bucket" where
  "new_bucket capacity refill_per_second now =
     \<lparr>tb_capacity = of_int capacity, tb_tokens = of_int capacity, tb_refill = refill_per_second, tb_last = now\<rparr>"

text \<open>The bucket of an adapter that is given none.\<close>

definition fub_bucket :: "rat \<Rightarrow> bucket" where
  "fub_bucket now = new_bucket 10 2 now"

definition refilled :: "rat \<Rightarrow> bucket \<Rightarrow> bucket" where
  "refilled now b =
     b\<lparr>tb_tokens := min (tb_capacity b) (tb_tokens b + (now - tb_last b) * tb_refill b), tb_last := now\<rparr>"

text \<open>
  One acquisition: its outcome, the bucket, what it slept, the readings left; \<open>None\<close> when the readings run
  out while it waits.
\<close>

fun acquire :: "rat list \<Rightarrow> bucket \<Rightarrow> ((exn + unit) \<times> bucket \<times> rat list \<times> rat list) option" where
  "acquire [] b = None"
| "acquire (now # clock) b =
     (let r = refilled now b
      in if 1 \<le> tb_tokens r then Some (Inr (), r\<lparr>tb_tokens := tb_tokens r - 1\<rparr>, [], clock)
         else if tb_refill r = 0
         then Some (Inl (ProviderError ''ZeroDivisionError'' ''float division by zero''), r, [], clock)
         else map_option (\<lambda>(res, b', sleeps, rest). (res, b', (1 - tb_tokens r) / tb_refill r # sleeps, rest))
                (acquire clock r))"

text \<open>\<open>n\<close> requests that all got through, one after another.\<close>

fun acquires :: "nat \<Rightarrow> rat list \<Rightarrow> bucket \<Rightarrow> (bucket \<times> rat list) option" where
  "acquires 0 clock b = Some (b, clock)"
| "acquires (Suc n) clock b =
     (case acquire clock b of
        Some (Inr u, b', sleeps, rest) \<Rightarrow> acquires n rest b'
      | _ \<Rightarrow> None)"

section \<open>The rate\<close>

definition sound_bucket :: "bucket \<Rightarrow> bool" where
  "sound_bucket b \<longleftrightarrow> 0 \<le> tb_tokens b \<and> tb_tokens b \<le> tb_capacity b \<and> 0 \<le> tb_refill b"

text \<open>From one bucket to a later one: at most \<open>n\<close> tokens left with what the time in between put in.\<close>

definition spends :: "rat \<Rightarrow> bucket \<Rightarrow> bucket \<Rightarrow> bool" where
  "spends n b b' \<longleftrightarrow> sound_bucket b' \<and> tb_capacity b' = tb_capacity b \<and> tb_refill b' = tb_refill b \<and> tb_last b \<le> tb_last b' \<and>
     n + tb_tokens b' \<le> tb_tokens b + tb_refill b * (tb_last b' - tb_last b)"

lemma spends_trans: "spends m a b \<Longrightarrow> spends n b c \<Longrightarrow> spends (m + n) a c"
  by (simp add: spends_def algebra_simps)

lemma refilled_spends: "sound_bucket b \<Longrightarrow> tb_last b \<le> now \<Longrightarrow> spends 0 b (refilled now b)"
  by (auto simp: spends_def refilled_def sound_bucket_def mult.commute)

lemma takes_one: "sound_bucket b \<Longrightarrow> 1 \<le> tb_tokens b \<Longrightarrow> spends 1 b (b\<lparr>tb_tokens := tb_tokens b - 1\<rparr>)"
  by (simp add: spends_def sound_bucket_def)

lemma acquire_spends:
  "sound_bucket b \<Longrightarrow> sorted (tb_last b # clock) \<Longrightarrow> acquire clock b = Some (Inr u, b', sleeps, rest) \<Longrightarrow>
     spends 1 b b' \<and> sorted (tb_last b' # rest)"
proof (induction clock b arbitrary: b' sleeps rest rule: acquire.induct)
  case (2 now clock b)
  let ?r = "refilled now b"
  have now: "tb_last b \<le> now" "tb_last ?r = now" using "2.prems"(2) by (simp_all add: refilled_def)
  have first: "spends 0 b ?r" using refilled_spends [OF "2.prems"(1) now(1)] .
  then have r: "sound_bucket ?r" "sorted (tb_last ?r # clock)"
    using "2.prems"(2) now(2) by (simp_all add: spends_def)
  show ?case
  proof (cases "1 \<le> tb_tokens ?r")
    case True
    then have "spends (0 + 1) b b'" "tb_last b' = now" "rest = clock"
      using spends_trans [OF first takes_one [OF r(1) True]] "2.prems"(3) now(2) by (auto simp: Let_def)
    with r(2) now(2) show ?thesis by simp
  next
    case False
    with "2.prems"(3) obtain sl where "tb_refill ?r \<noteq> 0" "acquire clock ?r = Some (Inr u, b', sl, rest)"
      by (auto simp: Let_def split: if_splits)
    with "2.IH" [OF refl False _ r] have "spends 1 ?r b'" "sorted (tb_last b' # rest)" by blast+
    with spends_trans [OF first] show ?thesis by fastforce
  qed
qed simp

lemma acquires_spends:
  "sound_bucket b \<Longrightarrow> sorted (tb_last b # clock) \<Longrightarrow> acquires n clock b = Some (b', rest) \<Longrightarrow> spends (of_nat n) b b'"
proof (induction n arbitrary: clock b)
  case 0
  then show ?case by (simp add: spends_def)
next
  case (Suc n)
  then obtain c sl left where first: "acquire clock b = Some (Inr (), c, sl, left)" "acquires n left c = Some (b', rest)"
    by (auto split: option.splits sum.splits)
  with acquire_spends [OF Suc.prems(1,2) first(1)] have "spends 1 b c" "sorted (tb_last c # left)" by blast+
  moreover from this have "spends (of_nat n) c b'" using Suc.IH [of c left] first(2) by (simp add: spends_def)
  ultimately show ?case using spends_trans [of 1 b c "of_nat n" b'] by simp
qed

section \<open>Waiting\<close>

lemma waits_once:
  assumes "sound_bucket b" "1 \<le> tb_capacity b" "0 < tb_refill b" "tb_last b \<le> now"
    "now + (1 - tb_tokens (refilled now b)) / tb_refill b \<le> later"
  shows "\<exists>b' sleeps rest. acquire (now # later # clock) b = Some (Inr (), b', sleeps, rest) \<and> length sleeps \<le> 1"
proof (cases "1 \<le> tb_tokens (refilled now b)")
  case False
  let ?r = "refilled now b"
  have "(1 - tb_tokens ?r) / tb_refill b \<le> later - now" using assms(5) by simp
  then have "1 - tb_tokens ?r \<le> (later - now) * tb_refill b" using assms(3) by (simp add: pos_divide_le_eq)
  then have "1 \<le> tb_tokens (refilled later ?r)" using assms(2) by (simp add: refilled_def)
  moreover have "tb_refill ?r \<noteq> 0" using assms(3) by (simp add: refilled_def)
  ultimately show ?thesis using False by (simp add: Let_def)
qed (simp add: Let_def)

text \<open>
  The rate limiter holds FollowUpBoss's quota and never holds a request up for good. In whatever state
  the bucket is, requests that got through while its clock went from one reading to a later one are at most
  its capacity plus what that time refills; and a request that has slept as long as it computed gets through
  at the next reading.
\<close>

theorem rate_bounded:
  assumes "sound_bucket b" "sorted (tb_last b # clock)" "acquires n clock b = Some (b', rest)"
  shows "of_nat n \<le> tb_capacity b + tb_refill b * (tb_last b' - tb_last b) \<and>
    (1 \<le> tb_capacity b \<and> 0 < tb_refill b \<and> tb_last b \<le> now \<and>
       now + (1 - tb_tokens (refilled now b)) / tb_refill b \<le> later \<longrightarrow>
     (\<exists>c sleeps left. acquire (now # later # more_readings) b = Some (Inr (), c, sleeps, left) \<and> length sleeps \<le> 1))"
  using acquires_spends [OF assms] assms(1) waits_once [OF assms(1), of now later more_readings]
  by (auto simp: spends_def sound_bucket_def)

theorem rate_bounded_witness:
  "(\<exists>b' rest. acquires 3 [1, 1, 1, 2] (new_bucket 2 1 0) = Some (b', rest) \<and> (3 :: rat) \<le> 2 + 1 * (tb_last b' - 0)) \<and>
   (\<exists>c sleeps left. acquire [0, 5] (new_bucket 1 1 0) = Some (Inr (), c, sleeps, left) \<and> length sleeps \<le> 1)"
proof -
  let ?b = "new_bucket 2 1 0"
  have run: "acquires 3 [1, 1, 1, 2] ?b =
      Some (\<lparr>tb_capacity = 2, tb_tokens = 0, tb_refill = 1, tb_last = 2\<rparr>, [])"
    by (simp add: new_bucket_def refilled_def numeral_3_eq_3 Let_def)
  have ok: "sound_bucket ?b" "sorted (tb_last ?b # [1, 1, 1, 2])" by (simp_all add: sound_bucket_def new_bucket_def)
  have other: "sound_bucket (new_bucket 1 1 0)" "sorted (tb_last (new_bucket 1 1 0) # [])"
    "acquires 0 [] (new_bucket 1 1 0) = Some (new_bucket 1 1 0, [])"
    by (simp_all add: sound_bucket_def new_bucket_def)
  show ?thesis
    using rate_bounded [OF ok run] rate_bounded [OF other, of 0 5 "[]"] run
    by (simp add: new_bucket_def refilled_def)
qed

end
