(* ===== verification/Crm_Sierra.thy ===== *)
theory Crm_Sierra
  imports Crm_FUB
begin

text \<open>
  The Sierra Interactive adapter (\<open>integrations/sierra_crm\<close>) and its stub. The throwaway password of a new
  lead is an argument; a byte of a character beyond ASCII is neither a digit nor white space.
\<close>

section \<open>URL segments\<close>

definition unreserved :: "char \<Rightarrow> bool" where
  "unreserved c \<longleftrightarrow>
     (let n = (of_char c :: nat)
      in (48 \<le> n \<and> n \<le> 57) \<or> (65 \<le> n \<and> n \<le> 90) \<or> (97 \<le> n \<and> n \<le> 122) \<or> n \<in> {45, 46, 95, 126})"

definition upper_hex :: "nat \<Rightarrow> char" where
  "upper_hex n = ''0123456789ABCDEF'' ! n"

text \<open>\<open>urllib.parse.quote(s, safe="")\<close>, and what a server makes of a path.\<close>

definition quote :: "string \<Rightarrow> string" where
  "quote s = concat (map (\<lambda>c. if unreserved c then [c]
     else [CHR ''%'', upper_hex (of_char c div 16), upper_hex (of_char c mod 16)]) s)"

definition hex_digit_val :: "char \<Rightarrow> nat option" where
  "hex_digit_val c =
     (let n = (of_char c :: nat)
      in if 48 \<le> n \<and> n \<le> 57 then Some (n - 48) else if 65 \<le> n \<and> n \<le> 70 then Some (n - 55)
         else if 97 \<le> n \<and> n \<le> 102 then Some (n - 87) else None)"

fun unquote :: "string \<Rightarrow> string" where
  "unquote (c # a # b # s) =
     (if c = CHR ''%''
      then (case (hex_digit_val a, hex_digit_val b) of
              (Some x, Some y) \<Rightarrow> char_of (16 * x + y) # unquote s
            | _ \<Rightarrow> c # unquote (a # b # s))
      else c # unquote (a # b # s))"
| "unquote s = s"

text \<open>
  \<open>_EMAIL_SEGMENT\<close>: one at sign, none of the characters a path could be rewritten with, a dot inside the
  domain; a final line break may follow.
\<close>

definition segment_char :: "char \<Rightarrow> bool" where
  "segment_char c \<longleftrightarrow> c \<notin> {CHR ''@'', CHR ''/'', CHR 0x5C, CHR ''?'', CHR ''#''} \<and> \<not> is_space c"

definition email_segment :: "string \<Rightarrow> bool" where
  "email_segment value =
     (let v = (if endswith value [CHR 0x0A] then butlast value else value)
      in case split_on CHR ''@'' v of
           [local, domain] \<Rightarrow> local \<noteq> [] \<and> list_all segment_char local \<and> list_all segment_char domain \<and>
             CHR ''.'' \<in> set (butlast (tl domain))
         | _ \<Rightarrow> False)"

definition lead_segment :: "string \<Rightarrow> exn + string" where
  "lead_segment value =
     (if all_digits value then Inr value
      else if email_segment value then Inr (quote value)
      else Inl (ValueError (''not a Sierra lead id or email: '' @ py_repr value)))"

section \<open>The adapter\<close>

record sierra_config =
  sa_assignee :: int
  sa_anchor :: string

definition contact_from_sierra :: "pyv \<Rightarrow> exn + contact" where
  "contact_from_sierra lead =
     thenE (get_key lead ''firstName'') (\<lambda>first.
     thenE (get_key lead ''lastName'') (\<lambda>last_name.
     thenE (item_key lead ''id'') (\<lambda>i.
     thenE (get_key lead ''leadStatus'') (\<lambda>stage.
     thenE (get_key lead ''email'') (\<lambda>email.
     thenE (get_key lead ''phone'') (\<lambda>phone.
     thenE (text_field (py_or stage (PStr ''Lead''))) (\<lambda>rl.
     thenE (optional_text (py_or email PNone)) (\<lambda>em.
     thenE (optional_text (py_or phone PNone)) (\<lambda>ph.
       Inr \<lparr>ct_crm_id = py_str i, ct_name = full_name (py_or first (PStr [])) (py_or last_name (PStr [])), ct_role = rl,
            ct_email = em, ct_phone = ph\<rparr>)))))))))"

text \<open>
  \<open>SierraApiError\<close> is a \<open>RuntimeError\<close>. What an answer failed with: a status of at least 300 or an envelope
  that does not say success.
\<close>

definition sierra_error :: "nat \<Rightarrow> string \<Rightarrow> exn" where
  "sierra_error status m = RuntimeError (''Sierra API error '' @ show_nat status @ '': '' @ m)"

definition envelope :: "pyv http_response \<Rightarrow> (string \<times> pyv) list" where
  "envelope r = (case rs_body r of Some (PDict es) \<Rightarrow> es | _ \<Rightarrow> [])"

definition sierra_failure :: "pyv http_response \<Rightarrow> string option" where
  "sierra_failure r =
     (if 300 \<le> rs_status r \<or> map_of (envelope r) ''success'' \<noteq> Some (PBool True)
      then Some (case map_of (envelope r) ''errorMessage'' of
             Some m \<Rightarrow> if truthy m then py_str m else ''HTTP '' @ show_nat (rs_status r)
           | None \<Rightarrow> ''HTTP '' @ show_nat (rs_status r))
      else None)"

definition sierra_data :: "pyv http_response \<Rightarrow> exn + pyv" where
  "sierra_data r =
     (case sierra_failure r of
        Some m \<Rightarrow> Inl (sierra_error (rs_status r) m)
      | None \<Rightarrow> item_key (PDict (envelope r)) ''data'')"

definition sierra_get_contact :: "('s, pyv) http_client \<Rightarrow> string \<Rightarrow> ('s, contact option) M" where
  "sierra_get_contact client contact_id =
     (case lead_segment contact_id of
        Inl e \<Rightarrow> ret None
      | Inr segment \<Rightarrow>
          bindM (client (http_get (''/leads/get/'' @ segment) [] [])) (\<lambda>response.
          if rs_status response = 404 then ret None
          else bindM (liftE (sierra_data response)) (\<lambda>lead.
               bindM (liftE (contact_from_sierra lead)) (\<lambda>c. ret (Some c)))))"

definition sierra_search_contacts :: "('s, pyv) http_client \<Rightarrow> string \<Rightarrow> int \<Rightarrow> ('s, contact list) M" where
  "sierra_search_contacts client query limit =
     bindM (client (http_get ''/leads/find''
       [(if CHR ''@'' \<in> set query then ''email'' else ''name'', query), (''pageSize'', show_int (min (max limit 1) 100))] []))
       (\<lambda>response.
     bindM (liftE (sierra_data response)) (\<lambda>data.
     bindM (liftE (item_key data ''leads'')) (\<lambda>leads.
     bindM (liftE (items_of leads)) (\<lambda>xs. liftE (mapE contact_from_sierra xs)))))"

definition sierra_lead_payload :: "string \<Rightarrow> string \<Rightarrow> contact_create \<Rightarrow> pyv" where
  "sierra_lead_payload password email d =
     PDict ([(''firstName'', PStr (cc_first_name d)), (''lastName'', PStr (cc_last_name d)), (''email'', PStr email),
             (''password'', PStr password), (''sendRegistrationEmail'', PBool False), (''source'', PStr (cc_source d))] @
            (case given (cc_phone d) of Some p \<Rightarrow> [(''phone'', PStr p)] | None \<Rightarrow> []))"

definition sierra_create_contact ::
    "('s, pyv) http_client \<Rightarrow> string \<Rightarrow> contact_create \<Rightarrow> ('s, contact) M" where
  "sierra_create_contact client password d =
     (case given (cc_email d) of
        None \<Rightarrow> raise (ValueError ''Sierra Interactive requires an email address to create a lead'')
      | Some email \<Rightarrow>
          bindM (client (http_post ''/leads'' [] (JsonBody (sierra_lead_payload password email d)))) (\<lambda>response.
          bindM (liftE (sierra_data response)) (\<lambda>data.
          bindM (liftE (item_key data ''leadId'')) (\<lambda>i.
          bindM (sierra_get_contact client (py_str i)) (\<lambda>created.
          case created of
            None \<Rightarrow> raise (RuntimeError (''Sierra lead '' @ py_str i @ '' vanished after creation''))
          | Some c \<Rightarrow> ret c)))))"

text \<open>A note on a lead: \<open>add_note\<close> folds the subject in, \<open>log_call\<close> journals the call.\<close>

definition sierra_note :: "('s, pyv) http_client \<Rightarrow> string \<Rightarrow> string \<Rightarrow> ('s, string) M" where
  "sierra_note client contact_id note_text =
     bindM (liftE (lead_segment contact_id)) (\<lambda>segment.
     bindM (client (http_post (''/leads/'' @ segment @ ''/note'') [] (JsonBody (PDict [(''message'', PStr note_text)]))))
       (\<lambda>response.
     bindM (liftE (sierra_data response)) id_of))"

definition sierra_add_note :: "('s, pyv) http_client \<Rightarrow> string \<Rightarrow> string \<Rightarrow> string \<Rightarrow> ('s, string) M" where
  "sierra_add_note client contact_id subject body =
     sierra_note client contact_id (if subject = [] then body else subject @ [CHR 0x0A, CHR 0x0A] @ body)"

definition sierra_log_call :: "('s, pyv) http_client \<Rightarrow> string \<Rightarrow> string \<Rightarrow> string \<Rightarrow> int \<Rightarrow> ('s, string) M" where
  "sierra_log_call client contact_id outcome note_text duration =
     (let m = ''Call log '' @ em_dash @ '' outcome: '' @ outcome @ ''; duration: '' @ show_int duration @ ''s''
      in sierra_note client contact_id (if note_text = [] then m else m @ [CHR 0x0A, CHR 0x0A] @ note_text))"

definition sierra_create_task ::
    "sierra_config \<Rightarrow> ('s, pyv) http_client \<Rightarrow> string \<Rightarrow> date \<Rightarrow> string option \<Rightarrow> ('s, crm_task) M" where
  "sierra_create_task sa client name due_date contact_id =
     (let lead_id = (case contact_id of Some c \<Rightarrow> c | None \<Rightarrow> sa_anchor sa);
          payload = PDict [(''toUserId'', PInt (sa_assignee sa)), (''dueOn'', PStr (isoformat due_date @ ''T00:00:00Z'')),
                           (''taskType'', PStr ''Other''), (''contents'', PStr name)]
      in bindM (liftE (lead_segment lead_id)) (\<lambda>segment.
         bindM (client (http_post (''/leads/'' @ segment @ ''/task'') [] (JsonBody payload))) (\<lambda>response.
         if contact_id = None \<and> rs_status response = 404 \<and> sierra_failure response \<noteq> None
         then raise (sierra_error 404 (''task anchor lead '' @ py_repr (sa_anchor sa) @ '' not found '' @ em_dash @
                '' check SIERRA_TASK_ANCHOR_LEAD_ID''))
         else bindM (liftE (sierra_data response)) (\<lambda>body.
              bindM (id_of body) (\<lambda>i.
              ret \<lparr>tk_id = i, tk_name = name, tk_due_date = Some due_date, tk_contact_id = contact_id\<rparr>)))))"

section \<open>The stub\<close>

record sierra_stub =
  si_leads :: "(int, pyv) dict"
  si_notes :: "(int, pyv) dict"
  si_tasks :: "(int, pyv) dict"
  si_next :: nat

definition sierra_ok :: "nat \<Rightarrow> pyv \<Rightarrow> pyv http_response" where
  "sierra_ok status data = answer status (PDict [(''success'', PBool True), (''data'', data)])"

definition sierra_refusal :: "nat \<Rightarrow> string \<Rightarrow> pyv http_response" where
  "sierra_refusal status m = answer status (PDict [(''success'', PBool False), (''errorMessage'', PStr m)])"

text \<open>A lead by its number, or the first one with the email.\<close>

definition find_lead :: "string \<Rightarrow> sierra_stub \<Rightarrow> pyv option" where
  "find_lead key s =
     (if all_digits key then dict_get (si_leads s) (int (read_nat key))
      else List.find (\<lambda>l. item_key l ''email'' = Inr (PStr key)) (dict_values (si_leads s)))"

definition lowered :: "pyv \<Rightarrow> exn + string" where
  "lowered v = (case v of PStr s \<Rightarrow> Inr (lower s) | _ \<Rightarrow> Inl (ProviderError ''AttributeError'' ''object has no attribute lower''))"

definition query_text :: "(string \<times> string) list \<Rightarrow> string \<Rightarrow> string" where
  "query_text params k = (case map_of params k of None \<Rightarrow> [] | Some v \<Rightarrow> v)"

definition lead_matches :: "string \<Rightarrow> string \<Rightarrow> string \<Rightarrow> pyv \<Rightarrow> exn + bool" where
  "lead_matches name email phone lead =
     thenE (item_key lead ''firstName'') (\<lambda>first.
     thenE (item_key lead ''lastName'') (\<lambda>last_name.
       if name \<noteq> [] \<and> \<not> contains (lower name) (lower (py_str first @ '' '' @ py_str last_name)) then Inr False
       else thenE (if email = [] then Inr True
                   else thenE (item_key lead ''email'') (\<lambda>e. thenE (lowered e) (\<lambda>t. Inr (contains (lower email) t)))) (\<lambda>mail_ok.
            if \<not> mail_ok then Inr False
            else if phone = [] then Inr True
            else thenE (item_key lead ''phone'') (\<lambda>p. thenE (joinable p) (\<lambda>t. Inr (contains phone t))))))"

definition sierra_find :: "(string \<times> string) list \<Rightarrow> (sierra_stub, pyv http_response) M" where
  "sierra_find params =
     (case py_int (case map_of params ''pageSize'' of None \<Rightarrow> ''100'' | Some l \<Rightarrow> l) of
        Inl e \<Rightarrow> ret (detail 422 ''int_parsing'')
      | Inr page_size \<Rightarrow>
          (\<lambda>s. case selectE (lead_matches (query_text params ''name'') (query_text params ''email'') (query_text params ''phone''))
                       (dict_values (si_leads s)) of
                 Inl e \<Rightarrow> (Inl e, s)
               | Inr found \<Rightarrow> (let page = slice_to page_size found
                   in (Inr (sierra_ok 200 (PDict [(''totalRecords'', PInt (int (length page))), (''totalPages'', PInt 1),
                        (''pageSize'', PInt page_size), (''leads'', PList page)])), s))))"

definition sierra_next :: "(sierra_stub, int) M" where
  "sierra_next s = (Inr (int (si_next s)), s\<lparr>si_next := si_next s + 1\<rparr>)"

definition new_lead :: "int \<Rightarrow> (string \<times> pyv) list \<Rightarrow> pyv" where
  "new_lead i body =
     (let get = (\<lambda>k d. case map_of body k of None \<Rightarrow> d | Some v \<Rightarrow> v)
      in PDict [(''id'', PInt i), (''firstName'', get ''firstName'' (PStr [])), (''lastName'', get ''lastName'' (PStr [])),
           (''leadStatus'', get ''leadStatus'' (PStr ''New'')), (''email'', get ''email'' PNone),
           (''phone'', get ''phone'' (PStr [])), (''source'', get ''source'' (PStr ''SierraApi''))])"

definition truthy_at :: "(string \<times> pyv) list \<Rightarrow> string \<Rightarrow> bool" where
  "truthy_at body k = (case map_of body k of None \<Rightarrow> False | Some v \<Rightarrow> truthy v)"

text \<open>The fields of the JSON body: \<open>body.get\<close> of anything but an object raises.\<close>

definition body_fields :: "pyv http_request \<Rightarrow> exn + (string \<times> pyv) list" where
  "body_fields rq =
     (case rq_body rq of JsonBody (PDict es) \<Rightarrow> Inr es | JsonBody j \<Rightarrow> Inl no_get | _ \<Rightarrow> Inl (ValueError ''Expecting value''))"

definition add_lead :: "pyv http_request \<Rightarrow> (sierra_stub, pyv http_response) M" where
  "add_lead rq =
     bindM (liftE (body_fields rq)) (\<lambda>body.
     if \<not> truthy_at body ''email'' then ret (sierra_refusal 400 ''Invalid email address format'')
     else if \<not> truthy_at body ''password'' then ret (sierra_refusal 400 ''Missing required field: password'')
     else bindM sierra_next (\<lambda>i.
          thenM (modify (\<lambda>s. s\<lparr>si_leads := dict_set (si_leads s) i (new_lead i body)\<rparr>))
            (ret (sierra_ok 201 (PDict [(''leadId'', PInt i), (''agentUserId'', PInt (- 1)), (''agentUserEmail'', PStr []),
               (''agentSiteId'', PInt (- 1)), (''updateDate'', PStr ''2026-01-01T00:00:00.000Z'')])))))"

definition add_lead_note :: "string \<Rightarrow> pyv http_request \<Rightarrow> (sierra_stub, pyv http_response) M" where
  "add_lead_note key rq =
     bindM (gets (find_lead key)) (\<lambda>lead.
     case lead of
       None \<Rightarrow> ret (sierra_refusal 404 ''Lead not found'')
     | Some l \<Rightarrow>
         bindM (liftE (body_fields rq)) (\<lambda>body.
         if \<not> truthy_at body ''message'' then ret (sierra_refusal 400 ''Missing required field: message'')
         else bindM sierra_next (\<lambda>i.
              thenM (modify (\<lambda>s. s\<lparr>si_notes := dict_set (si_notes s) i
                  (PDict [(''id'', PInt i), (''lead'', PStr key), (''message'', case map_of body ''message'' of Some v \<Rightarrow> v | None \<Rightarrow> PNone)])\<rparr>))
                (ret (sierra_ok 201 (PDict [(''id'', PInt i)]))))))"

definition task_types :: "string list" where
  "task_types = [''Other'', ''Email'', ''PhoneCall'', ''TextMessage'', ''OnSiteMessage'']"

definition task_problem :: "(string \<times> pyv) list \<Rightarrow> exn + string option" where
  "task_problem body =
     (let kind = (case map_of body ''taskType'' of None \<Rightarrow> PStr ''Other'' | Some v \<Rightarrow> v)
      in case kind of
           PList xs \<Rightarrow> Inl (ProviderError ''TypeError'' ''unhashable type'')
         | PDict es \<Rightarrow> Inl (ProviderError ''TypeError'' ''unhashable type'')
         | _ \<Rightarrow> Inr
             (if kind \<notin> set (map PStr task_types)
              then Some (''Invalid field value, field name: taskType, value: '' @ py_str kind)
              else if map_of body ''toUserId'' \<in> {None, Some PNone} then Some ''Missing required field: toUserId''
              else if \<not> truthy_at body ''dueOn'' then Some ''Missing required field: dueOn''
              else if kind = PStr ''Other'' \<and> \<not> truthy_at body ''contents'' then Some ''Missing required field: contents''
              else None))"

definition new_task :: "int \<Rightarrow> pyv \<Rightarrow> (string \<times> pyv) list \<Rightarrow> pyv" where
  "new_task i lead_id body =
     (let get = (\<lambda>k d. case map_of body k of None \<Rightarrow> d | Some v \<Rightarrow> v)
      in PDict [(''id'', PInt i), (''leadId'', lead_id), (''toUserId'', get ''toUserId'' PNone), (''dueOn'', get ''dueOn'' PNone),
           (''taskType'', get ''taskType'' (PStr ''Other'')), (''contents'', get ''contents'' (PStr [])),
           (''isFavorite'', PBool (truthy_at body ''isFavorite'')), (''dateCreated'', PStr ''2026-01-01T00:00:00.000Z''),
           (''dateUpdated'', PStr ''2026-01-01T00:00:00.000Z'')])"

definition add_lead_task :: "string \<Rightarrow> pyv http_request \<Rightarrow> (sierra_stub, pyv http_response) M" where
  "add_lead_task key rq =
     bindM (gets (find_lead key)) (\<lambda>lead.
     case lead of
       None \<Rightarrow> ret (sierra_refusal 404 ''Lead not found'')
     | Some l \<Rightarrow>
         bindM (liftE (body_fields rq)) (\<lambda>body.
         bindM (liftE (task_problem body)) (\<lambda>problem.
         case problem of
           Some m \<Rightarrow> ret (sierra_refusal 400 m)
         | None \<Rightarrow>
             bindM sierra_next (\<lambda>i.
             bindM (liftE (item_key l ''id'')) (\<lambda>lead_id.
             thenM (modify (\<lambda>s. s\<lparr>si_tasks := dict_set (si_tasks s) i (new_task i lead_id body)\<rparr>))
               (ret (sierra_ok 201 (new_task i lead_id body))))))))"

definition lead_tasks :: "string \<Rightarrow> (sierra_stub, pyv http_response) M" where
  "lead_tasks key =
     bindM (gets (find_lead key)) (\<lambda>lead.
     case lead of
       None \<Rightarrow> ret (sierra_refusal 404 ''Lead not found'')
     | Some l \<Rightarrow>
         bindM (liftE (item_key l ''id'')) (\<lambda>lead_id.
         bindM (gets (\<lambda>s. filter (\<lambda>t. item_key t ''leadId'' = Inr lead_id) (dict_values (si_tasks s)))) (\<lambda>found.
         ret (sierra_ok 200 (PDict [(''totalRecords'', PInt (int (length found))), (''tasks'', PList found)])))))"

text \<open>The routes: the path is decoded first, then split at its slashes.\<close>

definition sierra_server :: "(sierra_stub, pyv) http_client" where
  "sierra_server rq = serve
     (case split_on CHR ''/'' (unquote (rq_path rq)) of
        [before, a] \<Rightarrow>
          if a = ''leads'' \<and> rq_method rq = ''POST'' then add_lead rq else ret (detail 404 ''Not Found'')
      | [before, a, b] \<Rightarrow>
          if a = ''leads'' \<and> b = ''find'' \<and> rq_method rq = ''GET'' then sierra_find (rq_params rq)
          else ret (detail 404 ''Not Found'')
      | [before, a, b, c] \<Rightarrow>
          if a = ''leads'' \<and> b = ''get'' \<and> c \<noteq> [] \<and> rq_method rq = ''GET''
          then bindM (gets (find_lead c)) (\<lambda>lead. ret (case lead of
                 None \<Rightarrow> sierra_refusal 404 ''Lead not found'' | Some l \<Rightarrow> sierra_ok 200 l))
          else if a = ''leads'' \<and> b \<noteq> [] \<and> c = ''note'' \<and> rq_method rq = ''POST'' then add_lead_note b rq
          else if a = ''leads'' \<and> b \<noteq> [] \<and> c = ''task'' \<and> rq_method rq = ''POST'' then add_lead_task b rq
          else if a = ''leads'' \<and> b \<noteq> [] \<and> c = ''task'' \<and> rq_method rq = ''GET'' then lead_tasks b
          else ret (detail 404 ''Not Found'')
      | _ \<Rightarrow> ret (detail 404 ''Not Found''))"

definition seed_lead :: "int \<Rightarrow> string \<Rightarrow> string \<Rightarrow> string \<Rightarrow> string \<Rightarrow> string \<Rightarrow> pyv" where
  "seed_lead i first last_name status email phone =
     PDict [(''id'', PInt i), (''firstName'', PStr first), (''lastName'', PStr last_name), (''leadStatus'', PStr status),
       (''email'', PStr email), (''phone'', PStr phone), (''source'', PStr ''SierraApi'')]"

definition sierra_seed :: sierra_stub where
  "sierra_seed = \<lparr>si_leads =
     [(501, seed_lead 501 ''Morgan'' ''Ellis'' ''New'' ''morgan.ellis@example.test'' ''(555) 010-0501''),
      (502, seed_lead 502 ''Priya'' ''Nair'' ''Active'' ''priya.nair@example.test'' ''(555) 010-0502''),
      (503, seed_lead 503 ''Sam'' ''Okafor'' ''Qualify'' ''sam.okafor@example.test'' [])],
     si_notes = [], si_tasks = [], si_next = 9000\<rparr>"

end
