(* ===== verification/Py_Float.thy ===== *)
theory Py_Float
  imports Complex_Main PyText
begin

text \<open>
  Python's \<open>float\<close>: a binary64 number as the rational it is, an infinity or not a number (the sign of a
  zero never shows in a comparison). Converting an integer or a decimal rounds to the nearest number with
  a significand of 53 bits, ties to an even one, as IEEE 754 asks; an integer beyond the range raises
  \<open>OverflowError\<close>, a decimal literal beyond it is an infinity.
\<close>

section \<open>Rounding\<close>

text \<open>\<open>round(x)\<close>: the nearest integer, ties to the even one.\<close>

definition half_even :: "rat \<Rightarrow> int" where
  "half_even x =
     (let n = \<lfloor>x\<rfloor>; d = x - of_int n
      in if d < 1 / 2 then n else if 1 / 2 < d then n + 1 else if even n then n else n + 1)"

fun bits :: "nat \<Rightarrow> nat" where
  "bits n = (if n = 0 then 0 else Suc (bits (n div 2)))"

declare bits.simps [simp del]

definition pow2 :: "int \<Rightarrow> rat" where
  "pow2 e = (if 0 \<le> e then 2 ^ nat e else 1 / 2 ^ nat (- e))"

text \<open>
  The weight of the last bit of a number: such that the significand has 53 bits, but not below the
  weight of the smallest number.
\<close>

definition last_bit :: "rat \<Rightarrow> int" where
  "last_bit x =
     (case quotient_of \<bar>x\<bar> of (a, b) \<Rightarrow>
        let e = int (bits (nat a)) - int (bits (nat b)) - 53
        in max (if 2 ^ 53 \<le> \<bar>x\<bar> / pow2 e then e + 1 else e) (- 1074))"

definition round_binary :: "rat \<Rightarrow> rat" where
  "round_binary x = (if x = 0 then 0 else of_int (half_even (x / pow2 (last_bit x))) * pow2 (last_bit x))"

definition float_range :: rat where
  "float_range = 2 ^ 1024"

section \<open>Values\<close>

datatype py_float = Fin rat | PosInf | NegInf | NotANumber

definition float_of_int :: "int \<Rightarrow> exn + py_float" where
  "float_of_int i =
     (let r = round_binary (of_int i)
      in if \<bar>r\<bar> < float_range then Inr (Fin r) else Inl OverflowError)"

definition float_of_decimal :: "rat \<Rightarrow> py_float" where
  "float_of_decimal x =
     (let r = round_binary x
      in if \<bar>r\<bar> < float_range then Fin r else if 0 < r then PosInf else NegInf)"

fun float_eq :: "py_float \<Rightarrow> py_float \<Rightarrow> bool" where
  "float_eq (Fin x) (Fin y) = (x = y)"
| "float_eq PosInf PosInf = True"
| "float_eq NegInf NegInf = True"
| "float_eq _ _ = False"

fun float_less :: "py_float \<Rightarrow> py_float \<Rightarrow> bool" where
  "float_less (Fin x) (Fin y) = (x < y)"
| "float_less (Fin x) PosInf = True"
| "float_less NegInf (Fin x) = True"
| "float_less NegInf PosInf = True"
| "float_less _ _ = False"

text \<open>\<open>round(x)\<close> of a float.\<close>

fun round_float :: "py_float \<Rightarrow> exn + int" where
  "round_float (Fin x) = Inr (half_even x)"
| "round_float NotANumber = Inl (ValueError ''cannot convert float NaN to integer'')"
| "round_float _ = Inl OverflowError"

section \<open>Integers that are represented exactly\<close>

lemma half_even_int [simp]: "half_even (of_int n) = n"
  by (simp add: half_even_def)

lemma half_even_near: "\<bar>of_int (half_even x) - x\<bar> \<le> 1 / 2"
proof -
  have "of_int \<lfloor>x\<rfloor> \<le> x" "x < of_int \<lfloor>x\<rfloor> + 1" using floor_correct [of x] by simp_all
  then show ?thesis unfolding half_even_def Let_def by (simp add: abs_if) linarith
qed

lemma bits_le: "n < 2 ^ k \<Longrightarrow> bits n \<le> k"
proof (induction k arbitrary: n)
  case 0
  then show ?case by (simp add: bits.simps)
next
  case (Suc k)
  from Suc.IH [of "n div 2"] Suc.prems have "bits (n div 2) \<le> k" by (simp add: less_mult_imp_div_less)
  then show ?case by (subst bits.simps) simp
qed

lemma pow2_nonzero [simp]: "pow2 e \<noteq> 0"
  by (simp add: pow2_def)

lemma quotient_of_abs_int: "quotient_of \<bar>of_int i\<bar> = (\<bar>i\<bar>, 1)"
  by (metis of_int_abs quotient_of_rat_of_int)

lemma bits_1 [simp]: "bits (Suc 0) = 1"
  by (simp add: bits.simps)

lemma round_binary_int:
  assumes "\<bar>i\<bar> < 2 ^ 53"
  shows "round_binary (of_int i) = of_int i"
proof (cases "i = 0")
  case False
  let ?e = "int (bits (nat \<bar>i\<bar>)) - 1 - 53"
  have "bits (nat \<bar>i\<bar>) \<le> 53" using assms by (intro bits_le) (simp add: nat_less_iff)
  then have "?e \<le> - 1" by simp
  then obtain e where e: "last_bit (of_int i) = e" "e \<le> 0"
    by (auto simp: last_bit_def quotient_of_abs_int Let_def)
  then have "of_int i / pow2 e = of_int (i * 2 ^ nat (- e))" by (auto simp: pow2_def)
  moreover have "of_int (i * 2 ^ nat (- e)) * pow2 e = of_int i" using e(2) by (cases "e = 0") (simp_all add: pow2_def)
  ultimately show ?thesis unfolding round_binary_def using False by (simp only: e half_even_int) simp
qed (simp add: round_binary_def)

lemma float_of_small_int: "\<bar>i\<bar> < 2 ^ 53 \<Longrightarrow> float_of_int i = Inr (Fin (of_int i))"
proof -
  assume i: "\<bar>i\<bar> < 2 ^ 53"
  have "(of_int \<bar>i\<bar> :: rat) < of_int (2 ^ 53)" using i by (simp only: of_int_less_iff)
  also have "\<dots> < float_range" by (simp add: float_range_def)
  finally show ?thesis using i by (simp add: float_of_int_def round_binary_int Let_def)
qed

end
