(* ===== verification/Mls_OData.thy ===== *)
theory Mls_OData
  imports Py_Float Http Wiring
begin

text \<open>
  \<open>integrations/mls_reso/.../odata.py\<close>: the query options the mock of the RESO Web API understands.
  Records are flat, as the Data Dictionary has them: a field is null, a truth value, a number or a text.
  A byte of a character beyond ASCII counts as neither white space nor a digit.
\<close>

section \<open>Records\<close>

datatype field_value = FNull | FBool bool | FInt int | FFloat py_float | FText string

type_synonym reso_record = "(string \<times> field_value) list"

text \<open>\<open>record.get(field)\<close>.\<close>

definition field_of :: "reso_record \<Rightarrow> string \<Rightarrow> field_value" where
  "field_of r f = (case map_of r f of None \<Rightarrow> FNull | Some v \<Rightarrow> v)"

type_synonym predicate = "reso_record \<Rightarrow> exn + bool"

text \<open>\<open>ODataError\<close> is a \<open>ValueError\<close>.\<close>

definition odata_error :: "string \<Rightarrow> exn" where
  "odata_error m = ValueError m"

section \<open>Tokens\<close>

text \<open>
  The rest of \<open>'(?:[^']|'')*'\<close> after its opening quote: two quotes are read as one character of the
  text if the text can still be closed after them.
\<close>

fun quoted_rest :: "string \<Rightarrow> string option" where
  "quoted_rest [] = None"
| "quoted_rest (c # cs) =
     (if c \<noteq> CHR 0x27 then map_option ((#) c) (quoted_rest cs)
      else case cs of
             d # ds \<Rightarrow> if d = CHR 0x27
                        then (case quoted_rest ds of Some t \<Rightarrow> Some (c # d # t) | None \<Rightarrow> Some [c])
                        else Some [c]
           | [] \<Rightarrow> Some [c])"

text \<open>\<open>-?\d+(?:\.\d+)?\<close>.\<close>

definition number_token :: "string \<Rightarrow> string option" where
  "number_token s =
     (let sign = takeWhile (\<lambda>c. c = CHR ''-'') (take 1 s); r = drop (length sign) s;
          whole = takeWhile is_digit r; r' = drop (length whole) r;
          frac = (if startswith r' ''.'' then takeWhile is_digit (drop 1 r') else [])
      in if whole = [] then None
         else Some (sign @ whole @ (if frac = [] then [] else CHR ''.'' # frac)))"

definition is_name_start :: "char \<Rightarrow> bool" where
  "is_name_start c \<longleftrightarrow>
     (let n = (of_char c :: nat) in (65 \<le> n \<and> n \<le> 90) \<or> (97 \<le> n \<and> n \<le> 122) \<or> n = 95)"

definition name_token :: "string \<Rightarrow> string option" where
  "name_token s =
     (case s of [] \<Rightarrow> None
      | c # cs \<Rightarrow> if is_name_start c then Some (c # takeWhile (\<lambda>d. is_name_start d \<or> is_digit d) cs) else None)"

text \<open>\<open>_TOKEN_RE.match\<close>: the first alternative that matches.\<close>

definition token_at :: "string \<Rightarrow> string option" where
  "token_at s =
     (case s of [] \<Rightarrow> None
      | c # cs \<Rightarrow>
          if c = CHR ''('' \<or> c = CHR '')'' then Some [c]
          else if c = CHR 0x27 then map_option ((#) c) (quoted_rest cs)
          else (case number_token s of Some t \<Rightarrow> Some t | None \<Rightarrow> name_token s))"

text \<open>The character a byte starts.\<close>

definition first_character :: "string \<Rightarrow> string" where
  "first_character s = take 1 s @ takeWhile is_continuation (drop 1 s)"

lemma token_at_nonempty: "token_at s = Some t \<Longrightarrow> t \<noteq> []"
  by (auto simp: token_at_def number_token_def name_token_def Let_def split: list.splits if_splits option.splits)

function tokenize :: "string \<Rightarrow> exn + string list" where
  "tokenize s =
     (case s of [] \<Rightarrow> Inr []
      | c # cs \<Rightarrow>
          if is_space c then tokenize cs
          else (case token_at s of
                  None \<Rightarrow> Inl (odata_error (''unexpected character '' @ py_repr (first_character s) @ '' in $filter''))
                | Some t \<Rightarrow>
                    (case tokenize (drop (length t) s) of Inl e \<Rightarrow> Inl e | Inr ts \<Rightarrow> Inr (t # ts))))"
  by pat_completeness auto
termination
  by (relation "measure length") (auto dest: token_at_nonempty)

declare tokenize.simps [simp del]

section \<open>Literals and comparisons\<close>

datatype literal = LText string | LInt int | LFloat py_float

text \<open>\<open>s.replace("''", "'")\<close>.\<close>

fun undouble :: "string \<Rightarrow> string" where
  "undouble (c # d # cs) = (if c = CHR 0x27 \<and> d = CHR 0x27 then CHR 0x27 # undouble cs else c # undouble (d # cs))"
| "undouble cs = cs"

text \<open>
  \<open>float(token)\<close> of a token that is no integer: a number with a fraction, or one of the names Python
  reads as a float.
\<close>

definition decimal_value :: "string \<Rightarrow> rat" where
  "decimal_value token =
     (let neg = startswith token ''-''; s = (if neg then drop 1 token else token);
          whole = takeWhile is_digit s; frac = drop (length whole + 1) s;
          v = of_nat (read_nat whole) + of_nat (read_nat frac) / 10 ^ length frac
      in if neg then - v else v)"

definition parse_float :: "string \<Rightarrow> exn + py_float" where
  "parse_float token =
     (if list_ex is_digit token \<and> number_token token = Some token then Inr (float_of_decimal (decimal_value token))
      else if lower token = ''inf'' \<or> lower token = ''infinity'' then Inr PosInf
      else if lower token = ''nan'' then Inr NotANumber
      else Inl (odata_error (''invalid literal '' @ py_repr token @ '' in $filter'')))"

definition parse_literal :: "string \<Rightarrow> exn + literal" where
  "parse_literal token =
     (if startswith token [CHR 0x27] then Inr (LText (undouble (butlast (tl token))))
      else (case py_int token of
              Inr i \<Rightarrow> Inr (LInt i)
            | Inl _ \<Rightarrow> (case parse_float token of Inl e \<Rightarrow> Inl e | Inr x \<Rightarrow> Inr (LFloat x))))"

definition compare_floats :: "string \<Rightarrow> py_float \<Rightarrow> py_float \<Rightarrow> bool" where
  "compare_floats op v l =
     (if op = ''eq'' then float_eq v l else if op = ''gt'' then float_less l v else float_less v l)"

definition compare_texts :: "string \<Rightarrow> string \<Rightarrow> string \<Rightarrow> bool" where
  "compare_texts op v l = (if op = ''eq'' then v = l else if op = ''gt'' then l < v else v < l)"

fun to_float :: "literal \<Rightarrow> exn + py_float" where
  "to_float (LInt i) = float_of_int i"
| "to_float (LFloat x) = Inr x"
| "to_float (LText s) = Inl AssertionError"

definition comparison :: "string \<Rightarrow> string \<Rightarrow> literal \<Rightarrow> predicate" where
  "comparison f op l r =
     (case l of
        LText t \<Rightarrow> (case field_of r f of FText v \<Rightarrow> Inr (compare_texts op v t) | _ \<Rightarrow> Inr False)
      | _ \<Rightarrow>
          (let v = (case field_of r f of FInt i \<Rightarrow> Some (float_of_int i) | FFloat x \<Rightarrow> Some (Inr x) | _ \<Rightarrow> None)
           in case v of
                None \<Rightarrow> Inr False
              | Some (Inl e) \<Rightarrow> Inl e
              | Some (Inr x) \<Rightarrow> (case to_float l of Inl e \<Rightarrow> Inl e | Inr y \<Rightarrow> Inr (compare_floats op x y))))"

section \<open>The parser\<close>

text \<open>\<open>mode([left(record), right(record)])\<close>: both are evaluated, the left one first.\<close>

definition combine :: "predicate \<Rightarrow> predicate \<Rightarrow> (bool \<Rightarrow> bool \<Rightarrow> bool) \<Rightarrow> predicate" where
  "combine p q mode r =
     (case p r of Inl e \<Rightarrow> Inl e
      | Inr a \<Rightarrow> (case q r of Inl e \<Rightarrow> Inl e | Inr b \<Rightarrow> Inr (mode a b)))"

definition end_of_filter :: exn where
  "end_of_filter = odata_error ''unexpected end of $filter''"

text \<open>A comparison: a field, an operator and a literal.\<close>

definition parse_comparison :: "string list \<Rightarrow> exn + predicate \<times> string list" where
  "parse_comparison ts =
     (case ts of
        f # op # rest \<Rightarrow>
          if op \<notin> {''eq'', ''gt'', ''lt''}
          then Inl (odata_error (''unsupported operator '' @ py_repr op @ '' in $filter''))
          else (case rest of
                  [] \<Rightarrow> Inl end_of_filter
                | t # rest' \<Rightarrow> (case parse_literal t of Inl e \<Rightarrow> Inl e | Inr l \<Rightarrow> Inr (comparison f op l, rest')))
      | _ \<Rightarrow> Inl end_of_filter)"

text \<open>
  \<open>_parse_or\<close>, \<open>_parse_and\<close> and their loops, and \<open>_parse_factor\<close>, from the tokens to a predicate and the
  tokens left.
\<close>

function parse_or :: "string list \<Rightarrow> exn + predicate \<times> string list"
  and or_loop :: "predicate \<Rightarrow> string list \<Rightarrow> exn + predicate \<times> string list"
  and parse_and :: "string list \<Rightarrow> exn + predicate \<times> string list"
  and and_loop :: "predicate \<Rightarrow> string list \<Rightarrow> exn + predicate \<times> string list"
  and parse_factor :: "string list \<Rightarrow> exn + predicate \<times> string list" where
  "parse_or ts = (case parse_and ts of Inl e \<Rightarrow> Inl e | Inr (p, rest) \<Rightarrow> or_loop p rest)"
| "or_loop p ts =
     (case ts of
        [] \<Rightarrow> Inr (p, [])
      | t # rest \<Rightarrow>
          if t = ''or''
          then (case parse_and rest of Inl e \<Rightarrow> Inl e | Inr (q, rest') \<Rightarrow> or_loop (combine p q (\<or>)) rest')
          else Inr (p, ts))"
| "parse_and ts = (case parse_factor ts of Inl e \<Rightarrow> Inl e | Inr (p, rest) \<Rightarrow> and_loop p rest)"
| "and_loop p ts =
     (case ts of
        [] \<Rightarrow> Inr (p, [])
      | t # rest \<Rightarrow>
          if t = ''and''
          then (case parse_factor rest of Inl e \<Rightarrow> Inl e | Inr (q, rest') \<Rightarrow> and_loop (combine p q (\<and>)) rest')
          else Inr (p, ts))"
| "parse_factor ts =
     (case ts of
        [] \<Rightarrow> Inl end_of_filter
      | t # rest \<Rightarrow>
          if t = ''(''
          then (case parse_or rest of
                  Inl e \<Rightarrow> Inl e
                | Inr (p, []) \<Rightarrow> Inl end_of_filter
                | Inr (p, c # rest') \<Rightarrow>
                    if c = '')'' then Inr (p, rest') else Inl (odata_error (''expected '' @ py_repr '')'' @ '' in $filter'')))
          else parse_comparison ts)"
  by pat_completeness auto

text \<open>A factor uses up a token, a loop puts none back.\<close>

lemma parse_comparison_shorter: "parse_comparison ts = Inr (p, rest) \<Longrightarrow> length rest < length ts"
  by (auto simp: parse_comparison_def split: list.splits if_splits sum.splits)

lemma parse_shorter_dom:
  "parse_or_or_loop_parse_and_and_loop_parse_factor_dom (Inl (Inl ts)) \<Longrightarrow>
     parse_or ts = Inr (q, rest) \<Longrightarrow> length rest < length ts"
  "parse_or_or_loop_parse_and_and_loop_parse_factor_dom (Inl (Inr (p, ts))) \<Longrightarrow>
     or_loop p ts = Inr (q, rest) \<Longrightarrow> length rest \<le> length ts"
  "parse_or_or_loop_parse_and_and_loop_parse_factor_dom (Inr (Inl ts)) \<Longrightarrow>
     parse_and ts = Inr (q, rest) \<Longrightarrow> length rest < length ts"
  "parse_or_or_loop_parse_and_and_loop_parse_factor_dom (Inr (Inr (Inl (p, ts)))) \<Longrightarrow>
     and_loop p ts = Inr (q, rest) \<Longrightarrow> length rest \<le> length ts"
  "parse_or_or_loop_parse_and_and_loop_parse_factor_dom (Inr (Inr (Inr ts))) \<Longrightarrow>
     parse_factor ts = Inr (q, rest) \<Longrightarrow> length rest < length ts"
proof (induction ts and p ts and ts and p ts and ts arbitrary: q rest and q rest and q rest and q rest and q rest
    rule: parse_or_or_loop_parse_and_and_loop_parse_factor.pinduct)
  case (1 ts)
  then show ?case
    by (auto simp: parse_or.psimps split: sum.splits prod.splits) fastforce
next
  case (2 p ts)
  then show ?case
    by (cases ts) (fastforce simp: or_loop.psimps split: sum.splits prod.splits if_splits)+
next
  case (3 ts)
  then show ?case
    by (auto simp: parse_and.psimps split: sum.splits prod.splits) fastforce
next
  case (4 p ts)
  then show ?case
    by (cases ts) (fastforce simp: and_loop.psimps split: sum.splits prod.splits if_splits)+
next
  case (5 ts)
  then show ?case
    by (cases ts)
      (fastforce simp: parse_factor.psimps dest: parse_comparison_shorter
        split: sum.splits prod.splits if_splits list.splits)+
qed

termination parse_or
  by (relation "measures
      [\<lambda>x. case x of Inl (Inl ts) \<Rightarrow> length ts | Inl (Inr (p, ts)) \<Rightarrow> length ts | Inr (Inl ts) \<Rightarrow> length ts
          | Inr (Inr (Inl (p, ts))) \<Rightarrow> length ts | Inr (Inr (Inr ts)) \<Rightarrow> length ts,
       \<lambda>x. case x of Inl (Inl ts) \<Rightarrow> 2 | Inr (Inl ts) \<Rightarrow> 1 | _ \<Rightarrow> 0]")
    (auto dest: parse_shorter_dom)

declare parse_or.simps [simp del] or_loop.simps [simp del] parse_and.simps [simp del] and_loop.simps [simp del]
  parse_factor.simps [simp del]

definition parse_filter :: "string \<Rightarrow> exn + predicate" where
  "parse_filter expression =
     (case tokenize expression of
        Inl e \<Rightarrow> Inl e
      | Inr ts \<Rightarrow>
          (case parse_or ts of
             Inl e \<Rightarrow> Inl e
           | Inr (p, []) \<Rightarrow> Inr p
           | Inr (p, t # rest) \<Rightarrow> Inl (odata_error (''unexpected token '' @ py_repr t @ '' in $filter''))))"

section \<open>The other options\<close>

type_synonym query_params = "(string \<times> string) list"

definition parse_non_negative_int :: "query_params \<Rightarrow> string \<Rightarrow> exn + int option" where
  "parse_non_negative_int params name =
     (case map_of params name of
        None \<Rightarrow> Inr None
      | Some raw \<Rightarrow>
          (case py_int raw of
             Inl e \<Rightarrow> Inl (odata_error (name @ '' must be an integer''))
           | Inr v \<Rightarrow> if v < 0 then Inl (odata_error (name @ '' must be non-negative'')) else Inr (Some v)))"

text \<open>
  \<open><\<close> on the second part of two sort keys that are not equal. Records are compared in the order of an
  insertion sort: which pairs a sort compares shows only in an order that is none (not a number), for
  any sort meets two neighbours of the sorted list that cannot be compared.
\<close>

definition number_of :: "field_value \<Rightarrow> py_float option" where
  "number_of v =
     (case v of FBool b \<Rightarrow> Some (Fin (if b then 1 else 0)) | FInt i \<Rightarrow> Some (Fin (of_int i)) | FFloat x \<Rightarrow> Some x
      | _ \<Rightarrow> None)"

definition value_eq :: "field_value \<Rightarrow> field_value \<Rightarrow> bool" where
  "value_eq v w \<longleftrightarrow>
     (case (number_of v, number_of w) of (Some x, Some y) \<Rightarrow> float_eq x y | _ \<Rightarrow> v = w)"

definition not_comparable :: exn where
  "not_comparable = ProviderError ''TypeError'' ''not supported between instances''"

definition value_less :: "field_value \<Rightarrow> field_value \<Rightarrow> exn + bool" where
  "value_less v w =
     (case (number_of v, number_of w) of
        (Some x, Some y) \<Rightarrow> Inr (float_less x y)
      | _ \<Rightarrow> (case (v, w) of (FText s, FText t) \<Rightarrow> Inr (s < t) | _ \<Rightarrow> Inl not_comparable))"

text \<open>\<open>key(r) < key(s)\<close> with the key \<open>(r.get(field) is None, r.get(field))\<close>.\<close>

definition key_less :: "field_value \<Rightarrow> field_value \<Rightarrow> exn + bool" where
  "key_less v w =
     (if (v = FNull) \<noteq> (w = FNull) then Inr (w = FNull)
      else if value_eq v w then Inr False else value_less v w)"

text \<open>The stable sort: a record goes before the first one whose key is not smaller.\<close>

fun insert_by :: "(reso_record \<Rightarrow> field_value) \<Rightarrow> reso_record \<Rightarrow> reso_record list \<Rightarrow> exn + reso_record list" where
  "insert_by key r [] = Inr [r]"
| "insert_by key r (s # ss) =
     (case key_less (key s) (key r) of
        Inl e \<Rightarrow> Inl e
      | Inr True \<Rightarrow> (case insert_by key r ss of Inl e \<Rightarrow> Inl e | Inr ts \<Rightarrow> Inr (s # ts))
      | Inr False \<Rightarrow> Inr (r # s # ss))"

fun sort_by :: "(reso_record \<Rightarrow> field_value) \<Rightarrow> reso_record list \<Rightarrow> exn + reso_record list" where
  "sort_by key [] = Inr []"
| "sort_by key (r # rs) = (case sort_by key rs of Inl e \<Rightarrow> Inl e | Inr ss \<Rightarrow> insert_by key r ss)"

text \<open>\<open>sorted(..., reverse=True)\<close> keeps the order of records with equal keys.\<close>

definition sorted_records :: "(reso_record \<Rightarrow> field_value) \<Rightarrow> bool \<Rightarrow> reso_record list \<Rightarrow> exn + reso_record list" where
  "sorted_records key reverse rs =
     (if reverse then (case sort_by key (rev rs) of Inl e \<Rightarrow> Inl e | Inr ss \<Rightarrow> Inr (rev ss))
      else sort_by key rs)"

text \<open>\<open>s.split()\<close>.\<close>

function words_of :: "string \<Rightarrow> string list" where
  "words_of s =
     (case dropWhile is_space s of [] \<Rightarrow> []
      | c # cs \<Rightarrow> (c # takeWhile (\<lambda>d. \<not> is_space d) cs) # words_of (dropWhile (\<lambda>d. \<not> is_space d) cs))"
  by pat_completeness auto
termination
proof (relation "measure length")
  fix s c and cs :: string
  assume "dropWhile is_space s = c # cs"
  then have "length (c # cs) \<le> length s" by (metis length_dropWhile_le)
  then show "(dropWhile (\<lambda>d. \<not> is_space d) cs, s) \<in> measure length"
    using length_dropWhile_le [of "\<lambda>d. \<not> is_space d" cs] by simp
qed simp

declare words_of.simps [simp del]

definition apply_orderby :: "reso_record list \<Rightarrow> string \<Rightarrow> exn + reso_record list" where
  "apply_orderby records orderby =
     (let parts = words_of orderby
      in case parts of
           [f] \<Rightarrow> sorted_records (\<lambda>r. field_of r f) False records
         | [f, d] \<Rightarrow>
             if d = ''asc'' \<or> d = ''desc'' then sorted_records (\<lambda>r. field_of r f) (d = ''desc'') records
             else Inl (odata_error (''invalid $orderby '' @ py_repr orderby))
         | _ \<Rightarrow> Inl (odata_error (''invalid $orderby '' @ py_repr orderby)))"

text \<open>A comprehension with a condition that may raise.\<close>

fun filterE :: "('a \<Rightarrow> exn + bool) \<Rightarrow> 'a list \<Rightarrow> exn + 'a list" where
  "filterE p [] = Inr []"
| "filterE p (x # xs) =
     (case p x of Inl e \<Rightarrow> Inl e
      | Inr b \<Rightarrow> (case filterE p xs of Inl e \<Rightarrow> Inl e | Inr ys \<Rightarrow> Inr (if b then x # ys else ys)))"

text \<open>A query option that is given and not empty.\<close>

definition option_text :: "query_params \<Rightarrow> string \<Rightarrow> string option" where
  "option_text params name =
     (case map_of params name of None \<Rightarrow> None | Some s \<Rightarrow> if s = [] then None else Some s)"

definition apply_filter :: "query_params \<Rightarrow> reso_record list \<Rightarrow> exn + reso_record list" where
  "apply_filter params records =
     (case option_text params ''$filter'' of
        None \<Rightarrow> Inr records
      | Some expression \<Rightarrow>
          (case parse_filter expression of Inl e \<Rightarrow> Inl e | Inr p \<Rightarrow> filterE p records))"

definition apply_sort :: "query_params \<Rightarrow> reso_record list \<Rightarrow> exn + reso_record list" where
  "apply_sort params records =
     (case option_text params ''$orderby'' of None \<Rightarrow> Inr records | Some orderby \<Rightarrow> apply_orderby records orderby)"

definition apply_skip :: "query_params \<Rightarrow> reso_record list \<Rightarrow> exn + reso_record list" where
  "apply_skip params records =
     (case parse_non_negative_int params ''$skip'' of
        Inl e \<Rightarrow> Inl e | Inr None \<Rightarrow> Inr records | Inr (Some n) \<Rightarrow> Inr (drop (nat n) records))"

definition apply_top :: "query_params \<Rightarrow> reso_record list \<Rightarrow> exn + reso_record list" where
  "apply_top params records =
     (case parse_non_negative_int params ''$top'' of
        Inl e \<Rightarrow> Inl e | Inr None \<Rightarrow> Inr records | Inr (Some n) \<Rightarrow> Inr (take (nat n) records))"

text \<open>A dictionary of the selected fields: a field named twice stands where it was named first.\<close>

definition selected_fields :: "string \<Rightarrow> string list" where
  "selected_fields select = rev (remdups (rev (filter (\<lambda>f. f \<noteq> []) (map strip (split_on CHR '','' select)))))"

definition apply_select :: "query_params \<Rightarrow> reso_record list \<Rightarrow> reso_record list" where
  "apply_select params records =
     (case option_text params ''$select'' of
        None \<Rightarrow> records
      | Some select \<Rightarrow> map (\<lambda>r. map (\<lambda>f. (f, field_of r f)) (selected_fields select)) records)"

definition apply_query :: "reso_record list \<Rightarrow> query_params \<Rightarrow> exn + reso_record list" where
  "apply_query records params =
     thenE (apply_filter params records) (\<lambda>filtered.
     thenE (apply_sort params filtered) (\<lambda>sorted.
     thenE (apply_skip params sorted) (\<lambda>rest.
     thenE (apply_top params rest) (\<lambda>page.
     Inr (apply_select params page)))))"

end
