(* ===== verification/Mls_Adapter.thy ===== *)
theory Mls_Adapter
  imports Mls_OData Http Models
begin

text \<open>
  \<open>integrations/mls_reso/.../adapter.py\<close>, the MLS port over a RESO Web API, and \<open>server.py\<close>, the mock of
  one. The lax coercions of Pydantic from a text to an integer and from a value to an instant, and the
  representation of a float in a message, are parameters.
\<close>

section \<open>Requests and answers\<close>

datatype reso_body = Entity reso_record | Collection "reso_record list" | Detail string

text \<open>\<open>response.json()["value"]\<close>.\<close>

fun value_of :: "reso_body \<Rightarrow> exn + reso_record list" where
  "value_of (Collection rs) = Inr rs"
| "value_of _ = Inl (KeyError ''value'')"

fun entity_of :: "reso_body \<Rightarrow> reso_record" where
  "entity_of (Entity r) = r"
| "entity_of (Detail d) = [(''detail'', FText d)]"
| "entity_of (Collection rs) = []"

section \<open>A record as a listing\<close>

record coercions =
  co_int :: "string \<Rightarrow> int option"
  co_instant :: "field_value \<Rightarrow> instant option"
  co_repr :: "py_float \<Rightarrow> string"

definition reso_status :: "listing_status \<Rightarrow> string" where
  "reso_status s = (case s of LsActive \<Rightarrow> ''Active'' | LsPending \<Rightarrow> ''Pending'' | LsClosed \<Rightarrow> ''Closed'')"

definition status_of_reso :: "field_value \<Rightarrow> listing_status option" where
  "status_of_reso v =
     (if v = FText ''Active'' then Some LsActive else if v = FText ''Pending'' then Some LsPending
      else if v = FText ''Closed'' then Some LsClosed else None)"

fun value_repr :: "coercions \<Rightarrow> field_value \<Rightarrow> string" where
  "value_repr co FNull = ''None''"
| "value_repr co (FBool b) = (if b then ''True'' else ''False'')"
| "value_repr co (FInt i) = show_int i"
| "value_repr co (FFloat x) = co_repr co x"
| "value_repr co (FText s) = py_repr s"

definition required_field :: "reso_record \<Rightarrow> string \<Rightarrow> exn + field_value" where
  "required_field r f = (case map_of r f of None \<Rightarrow> Inl (KeyError f) | Some v \<Rightarrow> Inr v)"

definition get_or :: "reso_record \<Rightarrow> string \<Rightarrow> field_value \<Rightarrow> field_value" where
  "get_or r f d = (case map_of r f of None \<Rightarrow> d | Some v \<Rightarrow> v)"

fun value_truthy :: "field_value \<Rightarrow> bool" where
  "value_truthy FNull = False"
| "value_truthy (FBool b) = b"
| "value_truthy (FInt i) = (i \<noteq> 0)"
| "value_truthy (FFloat x) = (x \<noteq> Fin 0)"
| "value_truthy (FText s) = (s \<noteq> [])"

text \<open>\<open>record.get(field) or ""\<close>.\<close>

definition or_empty :: "field_value \<Rightarrow> field_value" where
  "or_empty v = (if value_truthy v then v else FText [])"

fun round_value :: "field_value \<Rightarrow> exn + int option" where
  "round_value FNull = Inr None"
| "round_value (FInt i) = Inr (Some i)"
| "round_value (FBool b) = Inr (Some (if b then 1 else 0))"
| "round_value (FFloat x) = (case round_float x of Inl e \<Rightarrow> Inl e | Inr i \<Rightarrow> Inr (Some i))"
| "round_value (FText s) = Inl (ProviderError ''TypeError'' ''no __round__ method'')"

text \<open>Pydantic's validation of a field: \<open>None\<close> is a validation error.\<close>

fun as_text :: "field_value \<Rightarrow> string option" where
  "as_text (FText s) = Some s"
| "as_text _ = None"

fun as_int_or_none :: "coercions \<Rightarrow> field_value \<Rightarrow> int option option" where
  "as_int_or_none co FNull = Some None"
| "as_int_or_none co (FInt i) = Some (Some i)"
| "as_int_or_none co (FBool b) = Some (Some (if b then 1 else 0))"
| "as_int_or_none co (FFloat (Fin x)) = (if of_int \<lfloor>x\<rfloor> = x then Some (Some \<lfloor>x\<rfloor>) else None)"
| "as_int_or_none co (FFloat _) = None"
| "as_int_or_none co (FText s) = map_option Some (co_int co s)"

definition invalid_model :: "string \<Rightarrow> exn" where
  "invalid_model m = ProviderError ''ValidationError'' m"

definition valid_or :: "string \<Rightarrow> 'a option \<Rightarrow> exn + 'a" where
  "valid_or m v = (case v of None \<Rightarrow> Inl (invalid_model m) | Some x \<Rightarrow> Inr x)"

definition listing_from_reso :: "coercions \<Rightarrow> reso_record \<Rightarrow> exn + listing" where
  "listing_from_reso co r =
     (let raw_status = get_or r ''StandardStatus'' (FText [])
      in case status_of_reso raw_status of
           None \<Rightarrow> Inl (ValueError (''unmapped RESO StandardStatus '' @ value_repr co raw_status))
         | Some status \<Rightarrow>
             thenE (required_field r ''ListingKey'') (\<lambda>key.
             thenE (required_field r ''StateOrProvince'') (\<lambda>state.
             thenE (required_field r ''PostalCode'') (\<lambda>postal.
             thenE (round_value (field_of r ''ListPrice'')) (\<lambda>price.
             thenE (required_field r ''ListAgentKey'') (\<lambda>agent.
             thenE (required_field r ''ListAgentFullName'') (\<lambda>agent_name.
             thenE (required_field r ''ModificationTimestamp'') (\<lambda>modified.
             (case (as_text key, as_text (or_empty (field_of r ''UnparsedAddress'')),
                    as_text (or_empty (field_of r ''City'')), as_text state, as_text postal) of
                (Some k, Some a, Some c, Some st, Some p) \<Rightarrow>
                  (case (as_int_or_none co (field_of r ''BedroomsTotal''),
                         as_int_or_none co (field_of r ''BathroomsTotalInteger''),
                         as_int_or_none co (field_of r ''LivingArea''), as_int_or_none co (field_of r ''YearBuilt'')) of
                     (Some beds, Some baths, Some area, Some year) \<Rightarrow>
                       (case (as_text agent, as_text agent_name, as_text (get_or r ''PublicRemarks'' (FText [])),
                              co_instant co modified) of
                          (Some ag, Some an, Some rem, Some changed) \<Rightarrow>
                            Inr \<lparr>li_mls_id = k, li_status = status, li_address = a, li_city = c, li_state = st,
                                 li_postal_code = p, li_list_price = price, li_bedrooms = beds, li_bathrooms = baths,
                                 li_living_area_sqft = area, li_year_built = year, li_agent_id = ag,
                                 li_agent_name = an, li_remarks = rem, li_modified_at = changed, li_media = []\<rparr>
                        | _ \<Rightarrow> Inl (invalid_model ''Listing''))
                   | _ \<Rightarrow> Inl (invalid_model ''Listing''))
              | _ \<Rightarrow> Inl (invalid_model ''Listing''))))))))))"

definition media_from_reso :: "coercions \<Rightarrow> reso_record \<Rightarrow> exn + listing_media" where
  "media_from_reso co r =
     thenE (required_field r ''MediaKey'') (\<lambda>key.
     thenE (required_field r ''ResourceRecordKey'') (\<lambda>listing.
     thenE (required_field r ''MediaURL'') (\<lambda>url.
     (case (as_text key, as_text listing, as_text url, as_int_or_none co (get_or r ''Order'' (FInt 0)),
            as_text (get_or r ''ShortDescription'' (FText []))) of
        (Some k, Some l, Some u, Some (Some n), Some d) \<Rightarrow>
          Inr \<lparr>lm_media_key = k, lm_listing_key = l, lm_url = u, lm_order = n, lm_description = d\<rparr>
      | _ \<Rightarrow> Inl (invalid_model ''ListingMedia'')))))"

section \<open>The adapter\<close>

text \<open>\<open>value.replace("'", "''")\<close>.\<close>

definition double_quotes :: "string \<Rightarrow> string" where
  "double_quotes s = concat (map (\<lambda>c. if c = CHR 0x27 then [c, c] else [c]) s)"

definition odata_string :: "string \<Rightarrow> string" where
  "odata_string s = [CHR 0x27] @ double_quotes s @ [CHR 0x27]"

definition auth_headers :: "string option \<Rightarrow> (string \<times> string) list" where
  "auth_headers token =
     (case token of None \<Rightarrow> [] | Some t \<Rightarrow> if t = [] then [] else [(''Authorization'', ''Bearer '' @ t)])"

definition clauses :: "listing_query \<Rightarrow> string list" where
  "clauses q =
     (case lq_status q of None \<Rightarrow> [] | Some s \<Rightarrow> [''StandardStatus eq '' @ odata_string (reso_status s)]) @
     (case lq_city q of None \<Rightarrow> [] | Some c \<Rightarrow> [''City eq '' @ odata_string c]) @
     (case lq_min_price q of None \<Rightarrow> [] | Some n \<Rightarrow> [''ListPrice gt '' @ show_int (n - 1)]) @
     (case lq_max_price q of None \<Rightarrow> [] | Some n \<Rightarrow> [''ListPrice lt '' @ show_int (n + 1)]) @
     (case lq_min_bedrooms q of None \<Rightarrow> [] | Some n \<Rightarrow> [''BedroomsTotal gt '' @ show_int (n - 1)])"

definition search_params :: "listing_query \<Rightarrow> query_params" where
  "search_params q =
     [(''$top'', show_int (lq_limit q)), (''$orderby'', ''ListPrice desc'')] @
     (if clauses q = [] then [] else [(''$filter'', join '' and '' (clauses q))])"

definition reso_search_listings ::
    "coercions \<Rightarrow> ('s, reso_body) http_client \<Rightarrow> string option \<Rightarrow> listing_query \<Rightarrow> ('s, listing list) M" where
  "reso_search_listings co client token q =
     bindM (client (http_get ''Property'' (search_params q) (auth_headers token))) (\<lambda>response.
     thenM (raise_for_status response)
       (bindM (json_of response) (\<lambda>body.
        bindM (liftE (value_of body)) (\<lambda>records. liftE (mapE (listing_from_reso co) records)))))"

definition reso_get_listing ::
    "coercions \<Rightarrow> ('s, reso_body) http_client \<Rightarrow> string option \<Rightarrow> string \<Rightarrow> ('s, listing option) M" where
  "reso_get_listing co client token listing_key =
     bindM (client (http_get (''Property('' @ odata_string listing_key @ '')'') [] (auth_headers token))) (\<lambda>response.
     if rs_status response = 404 then ret None
     else thenM (raise_for_status response)
            (bindM (json_of response) (\<lambda>body.
             bindM (liftE (listing_from_reso co (entity_of body))) (\<lambda>l. ret (Some l)))))"

definition reso_get_listing_media ::
    "coercions \<Rightarrow> ('s, reso_body) http_client \<Rightarrow> string option \<Rightarrow> string \<Rightarrow> ('s, listing_media list) M" where
  "reso_get_listing_media co client token listing_key =
     bindM (client (http_get ''Media''
       [(''$filter'', ''ResourceRecordKey eq '' @ odata_string listing_key), (''$orderby'', ''Order'')]
       (auth_headers token))) (\<lambda>response.
     thenM (raise_for_status response)
       (bindM (json_of response) (\<lambda>body.
        bindM (liftE (value_of body)) (\<lambda>records. liftE (mapE (media_from_reso co) records)))))"

section \<open>The mock server\<close>

record reso_seed =
  rd_property :: "reso_record list"
  rd_media :: "reso_record list"

text \<open>
  A query that cannot be parsed is a 400; any other exception leaves the handler and is the server's
  plain 500.
\<close>

definition server_error :: "reso_body http_response" where
  "server_error = \<lparr>rs_status = 500, rs_headers = [], rs_body = None\<rparr>"

definition run_query :: "reso_record list \<Rightarrow> query_params \<Rightarrow> reso_body http_response" where
  "run_query records params =
     (case apply_query records params of
        Inr value \<Rightarrow> answer 200 (Collection value)
      | Inl (ValueError m) \<Rightarrow> answer 400 (Detail m)
      | Inl _ \<Rightarrow> server_error)"

text \<open>\<open>next((p for p in properties if p["ListingKey"] == listing_key), None)\<close>.\<close>

fun find_property :: "string \<Rightarrow> reso_record list \<Rightarrow> exn + reso_record option" where
  "find_property key [] = Inr None"
| "find_property key (p # ps) =
     (case map_of p ''ListingKey'' of
        None \<Rightarrow> Inl (KeyError ''ListingKey'')
      | Some v \<Rightarrow> if v = FText key then Inr (Some p) else find_property key ps)"

definition get_property :: "reso_record list \<Rightarrow> string \<Rightarrow> reso_body http_response" where
  "get_property properties key =
     (case find_property key properties of
        Inl e \<Rightarrow> server_error
      | Inr None \<Rightarrow> answer 404 (Detail (''Property '' @ py_repr key @ '' not found''))
      | Inr (Some r) \<Rightarrow> answer 200 (Entity ((''@odata.context'', FText ''$metadata#Property/$entity'') # r)))"

text \<open>
  The route \<open>/odata/Property('{listing_key}')\<close>: the key is what stands between the quotes, without a
  slash and not empty.
\<close>

definition property_key :: "string \<Rightarrow> string option" where
  "property_key path =
     (let pre = ''Property('' @ [CHR 0x27]; post = CHR 0x27 # '')''; rest = drop (length pre) path;
          key = take (length rest - length post) rest
      in if startswith path pre \<and> endswith rest post \<and> key \<noteq> [] \<and> CHR ''/'' \<notin> set key then Some key else None)"

definition mls_server :: "reso_seed \<Rightarrow> ('s, reso_body) http_client" where
  "mls_server seed rq =
     ret (if rq_method rq \<noteq> ''GET'' then answer 405 (Detail ''Method Not Allowed'')
          else if rq_path rq = ''Property'' then run_query (rd_property seed) (rq_params rq)
          else if rq_path rq = ''Media'' then run_query (rd_media seed) (rq_params rq)
          else (case property_key (rq_path rq) of
                  Some key \<Rightarrow> get_property (rd_property seed) key
                | None \<Rightarrow> answer 404 (Detail ''Not Found'')))"

end
