(* ===== verification/Mls_Properties.thy ===== *)
theory Mls_Properties
  imports Mls_Adapter
begin

text \<open>
  What a listing search promises over the mock: the filter the adapter writes reads back as the query,
  whatever text the city is, so the answer is the matching listings, dearest first, up to the limit.
\<close>

section \<open>Tokens of what the adapter writes\<close>

definition stops :: "string \<Rightarrow> bool" where
  "stops rest \<longleftrightarrow> rest = [] \<or> hd rest = CHR '' ''"

lemma stops_simps [simp]: "stops []" "stops (CHR '' '' # s)"
  by (simp_all add: stops_def)

definition prepend :: "'a \<Rightarrow> exn + 'a list \<Rightarrow> exn + 'a list" where
  "prepend t r = (case r of Inl e \<Rightarrow> Inl e | Inr ts \<Rightarrow> Inr (t # ts))"

lemma prepend_Inr [simp]: "prepend t (Inr ts) = Inr (t # ts)"
  by (simp add: prepend_def)

lemma tokenize_Nil [simp]: "tokenize [] = Inr []"
  by (simp add: tokenize.simps)

lemma tokenize_blank [simp]: "tokenize (CHR '' '' # s) = tokenize s"
  by (simp add: tokenize.simps [of "CHR '' '' # s"] is_space_def)

lemma tokenize_token:
  assumes "token_at (t @ rest) = Some t" "t = c # t'" "\<not> is_space c"
  shows "tokenize (t @ rest) = prepend t (tokenize rest)"
  using assms by (simp add: tokenize.simps [of "c # t' @ rest"] prepend_def)

definition name_char :: "char \<Rightarrow> bool" where
  "name_char d \<longleftrightarrow> is_name_start d \<or> is_digit d"

lemma takeWhile_stops: "(\<And>c. c \<in> set s \<Longrightarrow> P c) \<Longrightarrow> stops rest \<Longrightarrow> \<not> P (CHR '' '') \<Longrightarrow> takeWhile P (s @ rest) = s"
  by (cases rest) (auto simp: takeWhile_append stops_def)

lemma char_kinds:
  "\<not> name_char (CHR '' '')" "\<not> is_digit (CHR '' '')"
  "is_name_start c \<Longrightarrow> c \<noteq> CHR ''('' \<and> c \<noteq> CHR '')'' \<and> c \<noteq> CHR 0x27 \<and> c \<noteq> CHR ''-'' \<and> \<not> is_digit c \<and> \<not> is_space c"
  "is_digit c \<Longrightarrow> c \<noteq> CHR ''('' \<and> c \<noteq> CHR '')'' \<and> c \<noteq> CHR 0x27 \<and> c \<noteq> CHR ''-'' \<and> \<not> is_space c"
  "\<not> is_space (CHR 0x27)"
proof -
  show "\<not> is_space (CHR 0x27)" by code_simp
qed (auto simp: name_char_def is_name_start_def is_digit_def is_space_def Let_def)

lemma tokenize_name:
  assumes "is_name_start c" "\<forall>d \<in> set cs. name_char d" "stops rest"
  shows "tokenize (c # cs @ rest) = prepend (c # cs) (tokenize rest)"
proof -
  have "takeWhile (\<lambda>d. is_name_start d \<or> is_digit d) (cs @ rest) = cs"
    using assms(2,3) char_kinds(1) by (intro takeWhile_stops) (auto simp: name_char_def)
  then have "token_at ((c # cs) @ rest) = Some (c # cs)"
    using char_kinds(3) [OF assms(1)] assms(1) by (simp add: token_at_def number_token_def name_token_def)
  with tokenize_token [of "c # cs" rest c cs] char_kinds(3) [OF assms(1)] show ?thesis by simp
qed

lemma show_int_cases:
  obtains n where "show_int i = show_nat n" "i = int n"
  | n where "show_int i = CHR ''-'' # show_nat n" "i = - int n"
proof (cases "i < 0")
  case True
  with that(2) [of "nat (- i)"] show ?thesis by (simp add: show_int_def)
next
  case False
  with that(1) [of "nat i"] show ?thesis by (simp add: show_int_def)
qed

lemma show_nat_Cons: obtains c cs where "show_nat n = c # cs" "is_digit c" "\<forall>d \<in> set cs. is_digit d"
proof (cases "show_nat n")
  case (Cons c cs)
  with that show ?thesis using show_nat_digits [of _ n] by auto
qed simp

lemma number_token_digits:
  assumes "stops rest" "ds \<noteq> []" "\<forall>d \<in> set ds. is_digit d" "sign = [] \<or> sign = ''-''"
  shows "number_token (sign @ ds @ rest) = Some (sign @ ds)"
proof -
  have whole: "takeWhile is_digit (ds @ rest) = ds"
    using assms char_kinds(2) by (intro takeWhile_stops) auto
  have frac: "\<not> startswith rest ''.''" using assms(1) by (cases rest) (auto simp: stops_def)
  have "takeWhile (\<lambda>c. c = CHR ''-'') (take 1 (sign @ ds @ rest)) = sign"
    using assms(2,3,4) char_kinds(4) by (cases ds) auto
  with whole frac assms(2) show ?thesis by (simp add: number_token_def Let_def)
qed

lemma number_token_show: "stops rest \<Longrightarrow> number_token (show_int i @ rest) = Some (show_int i)"
  using number_token_digits [of rest "show_nat _" "[]"] number_token_digits [of rest "show_nat _" "''-''"]
  by (cases i rule: show_int_cases) (auto dest: show_nat_digits)

lemma tokenize_number: "stops rest \<Longrightarrow> tokenize (show_int i @ rest) = prepend (show_int i) (tokenize rest)"
proof -
  assume rest: "stops rest"
  obtain c cs where s: "show_int i = c # cs" "c \<noteq> CHR ''('' \<and> c \<noteq> CHR '')'' \<and> c \<noteq> CHR 0x27 \<and> \<not> is_space c"
  proof (cases i rule: show_int_cases)
    case (1 n)
    obtain c cs where "show_nat n = c # cs" "is_digit c" by (rule show_nat_Cons)
    with 1 that char_kinds(4) show ?thesis by metis
  next
    case (2 n)
    with that show ?thesis by (simp add: is_space_def)
  qed
  have "token_at (show_int i @ rest) = Some (show_int i)"
    using s number_token_show [OF rest, of i] by (simp add: token_at_def)
  with tokenize_token s show ?thesis by metis
qed

lemma quoted_rest_doubled: "stops rest \<Longrightarrow> quoted_rest (double_quotes s @ CHR 0x27 # rest) = Some (double_quotes s @ [CHR 0x27])"
proof (induction s)
  case Nil
  then show ?case by (cases rest) (auto simp: double_quotes_def stops_def)
next
  case (Cons c s)
  then show ?case by (simp add: double_quotes_def)
qed

lemma tokenize_quoted: "stops rest \<Longrightarrow> tokenize (odata_string s @ rest) = prepend (odata_string s) (tokenize rest)"
  by (rule tokenize_token [of _ _ "CHR 0x27"]) (simp_all add: token_at_def odata_string_def quoted_rest_doubled char_kinds(5))

section \<open>Literals\<close>

lemma undouble_doubled [simp]: "undouble (double_quotes s) = s"
proof (induction s)
  case (Cons c s)
  show ?case
  proof (cases "c = CHR 0x27")
    case True
    with Cons show ?thesis by (simp add: double_quotes_def)
  next
    case False
    then have "double_quotes (c # s) = c # double_quotes s" by (simp add: double_quotes_def)
    with False Cons show ?thesis by (cases "double_quotes s") auto
  qed
qed (simp add: double_quotes_def)

lemma parse_quoted [simp]: "parse_literal (odata_string s) = Inr (LText s)"
  by (simp add: parse_literal_def odata_string_def butlast_append)

lemma int_digits_all: "s \<noteq> [] \<Longrightarrow> \<forall>c \<in> set s. is_digit c \<Longrightarrow> int_digits s = Some s"
proof (induction s rule: int_digits.induct)
  case (3 c d cs)
  then have "d \<noteq> CHR ''_''" by (auto simp: is_digit_def)
  with 3 show ?case by simp
qed auto

lemma lstrip_nonspace: "s = [] \<or> \<not> is_space (hd s) \<Longrightarrow> lstrip s = s"
  by (cases s) (auto simp: lstrip_def)

lemma strip_nonspace: "\<forall>c \<in> set s. \<not> is_space c \<Longrightarrow> strip s = s"
proof -
  assume s: "\<forall>c \<in> set s. \<not> is_space c"
  then have "lstrip s = s" by (intro lstrip_nonspace) (cases s; auto)
  moreover have "lstrip (rev s) = rev s" using s by (intro lstrip_nonspace) (cases s rule: rev_cases; auto)
  ultimately show ?thesis by (simp add: strip_def)
qed

lemma py_int_show [simp]: "py_int (show_int i) = Inr i"
proof (cases i rule: show_int_cases)
  case (1 n)
  have "strip (show_nat n) = show_nat n" using char_kinds(4) by (intro strip_nonspace) (auto dest: show_nat_digits)
  moreover have "int_digits (show_nat n) = Some (show_nat n)" by (intro int_digits_all) (auto dest: show_nat_digits)
  moreover have "\<not> startswith (show_nat n) ''-''" "\<not> startswith (show_nat n) ''+''"
    by (cases n rule: show_nat_Cons, auto simp: is_digit_def)+
  ultimately show ?thesis using 1 by (simp add: py_int_def)
next
  case (2 n)
  have "strip (CHR ''-'' # show_nat n) = CHR ''-'' # show_nat n"
    using char_kinds(4) by (intro strip_nonspace) (auto dest: show_nat_digits simp: is_space_def)
  moreover have "int_digits (show_nat n) = Some (show_nat n)" by (intro int_digits_all) (auto dest: show_nat_digits)
  ultimately show ?thesis using 2 by (simp add: py_int_def)
qed

lemma parse_number [simp]: "parse_literal (show_int i) = Inr (LInt i)"
proof -
  have "\<not> startswith (show_int i) [CHR 0x27]"
  proof (cases i rule: show_int_cases)
    case (1 n)
    obtain c cs where "show_nat n = c # cs" "is_digit c" by (rule show_nat_Cons)
    with 1 char_kinds(4) show ?thesis by auto
  qed simp
  then show ?thesis by (simp add: parse_literal_def)
qed

section \<open>The filter\<close>

text \<open>A condition the adapter writes: a field, an operator and a literal.\<close>

fun literal_text :: "literal \<Rightarrow> string" where
  "literal_text (LText s) = odata_string s"
| "literal_text (LInt i) = show_int i"
| "literal_text (LFloat x) = []"

definition condition_text :: "string \<times> string \<times> literal \<Rightarrow> string" where
  "condition_text c = (case c of (f, op, l) \<Rightarrow> f @ '' '' @ op @ '' '' @ literal_text l)"

definition condition_tokens :: "string \<times> string \<times> literal \<Rightarrow> string list" where
  "condition_tokens c = (case c of (f, op, l) \<Rightarrow> [f, op, literal_text l])"

definition is_name :: "string \<Rightarrow> bool" where
  "is_name s \<longleftrightarrow> s \<noteq> [] \<and> is_name_start (hd s) \<and> (\<forall>d \<in> set (tl s). name_char d)"

definition written :: "string \<times> string \<times> literal \<Rightarrow> bool" where
  "written c \<longleftrightarrow> (case c of (f, op, l) \<Rightarrow> is_name f \<and> op \<in> {''eq'', ''gt'', ''lt''} \<and> (\<forall>x. l \<noteq> LFloat x))"

lemma tokenize_word: "is_name s \<Longrightarrow> stops rest \<Longrightarrow> tokenize (s @ rest) = prepend s (tokenize rest)"
  using tokenize_name [of "hd s" "tl s" rest] by (cases s) (auto simp: is_name_def)

lemma words_are_names [simp]: "is_name ''eq''" "is_name ''gt''" "is_name ''lt''" "is_name ''and''"
  by (simp_all add: is_name_def name_char_def is_name_start_def)

lemma tokenize_condition:
  assumes "written c" "stops rest"
  shows "tokenize (condition_text c @ rest) =
    (case tokenize rest of Inl e \<Rightarrow> Inl e | Inr ts \<Rightarrow> Inr (condition_tokens c @ ts))"
proof -
  obtain f op l where c: "c = (f, op, l)" by (cases c)
  have op: "is_name op" using assms(1) c by (auto simp: written_def)
  have "tokenize (literal_text l @ rest) = prepend (literal_text l) (tokenize rest)"
    using assms c by (cases l) (auto simp: written_def tokenize_quoted tokenize_number)
  then show ?thesis using assms(1) c op
    by (simp add: condition_text_def condition_tokens_def written_def tokenize_word prepend_def split: sum.split)
qed

lemma tokenize_conditions:
  "\<forall>c \<in> set (c # cs). written c \<Longrightarrow>
     tokenize (join '' and '' (map condition_text (c # cs))) =
       Inr (condition_tokens c @ concat (map (\<lambda>c. ''and'' # condition_tokens c) cs))"
proof (induction cs arbitrary: c)
  case Nil
  then show ?case using tokenize_condition [of c "[]"] by simp
next
  case (Cons d cs)
  have "tokenize (''and'' @ CHR '' '' # join '' and '' (map condition_text (d # cs))) =
      Inr (''and'' # condition_tokens d @ concat (map (\<lambda>c. ''and'' # condition_tokens c) cs))"
    using Cons.IH [of d] Cons.prems by (subst tokenize_word) simp_all
  then show ?case
    using tokenize_condition [of c "'' and '' @ join '' and '' (map condition_text (d # cs))"] Cons.prems by simp
qed

definition condition_holds :: "string \<times> string \<times> literal \<Rightarrow> predicate" where
  "condition_holds c = (case c of (f, op, l) \<Rightarrow> comparison f op l)"

lemma parse_literal_text: "\<forall>x. l \<noteq> LFloat x \<Longrightarrow> parse_literal (literal_text l) = Inr l"
  by (cases l) auto

lemma parse_condition: "written c \<Longrightarrow> parse_factor (condition_tokens c @ ts) = Inr (condition_holds c, ts)"
proof -
  assume w: "written c"
  obtain f op l where c: "c = (f, op, l)" by (cases c)
  with w have "f \<noteq> ''(''" by (auto simp: written_def is_name_def is_name_start_def)
  with w c show ?thesis
    by (auto simp: parse_factor.simps condition_tokens_def condition_holds_def parse_comparison_def written_def
        parse_literal_text)
qed

lemma and_loop_conditions:
  "\<forall>c \<in> set cs. written c \<Longrightarrow>
     and_loop p (concat (map (\<lambda>c. ''and'' # condition_tokens c) cs)) =
       Inr (foldl (\<lambda>p c. combine p (condition_holds c) (\<and>)) p cs, [])"
  by (induction cs arbitrary: p) (simp_all add: and_loop.simps [of _ "[]"] and_loop.simps [of _ "_ # _"] parse_condition)

lemma parse_conditions:
  "\<forall>c \<in> set (c # cs). written c \<Longrightarrow>
     parse_filter (join '' and '' (map condition_text (c # cs))) =
       Inr (foldl (\<lambda>p c. combine p (condition_holds c) (\<and>)) (condition_holds c) cs)"
  using tokenize_conditions [of c cs] and_loop_conditions [of cs "condition_holds c"]
  by (simp add: parse_filter_def parse_or.simps parse_and.simps parse_condition or_loop.simps)

lemma conjunction_of:
  "p r = Inr a \<Longrightarrow> \<forall>c \<in> set cs. condition_holds c r = Inr (v c) \<Longrightarrow>
     foldl (\<lambda>p c. combine p (condition_holds c) (\<and>)) p cs r = Inr (a \<and> (\<forall>c \<in> set cs. v c))"
  by (induction cs arbitrary: p a) (auto simp: combine_def)

section \<open>The query\<close>

definition conditions :: "listing_query \<Rightarrow> (string \<times> string \<times> literal) list" where
  "conditions q =
     (case lq_status q of None \<Rightarrow> [] | Some s \<Rightarrow> [(''StandardStatus'', ''eq'', LText (reso_status s))]) @
     (case lq_city q of None \<Rightarrow> [] | Some c \<Rightarrow> [(''City'', ''eq'', LText c)]) @
     (case lq_min_price q of None \<Rightarrow> [] | Some n \<Rightarrow> [(''ListPrice'', ''gt'', LInt (n - 1))]) @
     (case lq_max_price q of None \<Rightarrow> [] | Some n \<Rightarrow> [(''ListPrice'', ''lt'', LInt (n + 1))]) @
     (case lq_min_bedrooms q of None \<Rightarrow> [] | Some n \<Rightarrow> [(''BedroomsTotal'', ''gt'', LInt (n - 1))])"

lemma clauses_conditions: "clauses q = map condition_text (conditions q)"
  by (simp add: clauses_def conditions_def condition_text_def split: option.split)

lemma fields_are_names: "is_name ''StandardStatus''" "is_name ''City''" "is_name ''ListPrice''" "is_name ''BedroomsTotal''"
  by (simp_all add: is_name_def name_char_def is_name_start_def)

lemma conditions_written: "\<forall>c \<in> set (conditions q). written c"
  by (auto simp: conditions_def written_def fields_are_names split: option.split)

text \<open>What a query asks of a record: the status, the city and the inclusive bounds.\<close>

definition number_field :: "reso_record \<Rightarrow> string \<Rightarrow> (int \<Rightarrow> bool) \<Rightarrow> bool" where
  "number_field r f P = (case field_of r f of FInt i \<Rightarrow> P i | _ \<Rightarrow> False)"

definition meets :: "listing_query \<Rightarrow> reso_record \<Rightarrow> bool" where
  "meets q r \<longleftrightarrow>
     (case lq_status q of None \<Rightarrow> True | Some s \<Rightarrow> field_of r ''StandardStatus'' = FText (reso_status s)) \<and>
     (case lq_city q of None \<Rightarrow> True | Some c \<Rightarrow> field_of r ''City'' = FText c) \<and>
     (case lq_min_price q of None \<Rightarrow> True | Some n \<Rightarrow> number_field r ''ListPrice'' (\<lambda>i. n \<le> i)) \<and>
     (case lq_max_price q of None \<Rightarrow> True | Some n \<Rightarrow> number_field r ''ListPrice'' (\<lambda>i. i \<le> n)) \<and>
     (case lq_min_bedrooms q of None \<Rightarrow> True | Some n \<Rightarrow> number_field r ''BedroomsTotal'' (\<lambda>i. n \<le> i))"

text \<open>A number field is absent or an integer a float represents exactly.\<close>

definition whole_number :: "field_value \<Rightarrow> bool" where
  "whole_number v \<longleftrightarrow> (case v of FNull \<Rightarrow> True | FInt i \<Rightarrow> \<bar>i\<bar> < 2 ^ 53 | _ \<Rightarrow> False)"

definition whole_numbers :: "reso_record \<Rightarrow> bool" where
  "whole_numbers r \<longleftrightarrow> whole_number (field_of r ''ListPrice'') \<and> whole_number (field_of r ''BedroomsTotal'')"

definition exact_bounds :: "listing_query \<Rightarrow> bool" where
  "exact_bounds q \<longleftrightarrow> 0 \<le> lq_limit q \<and>
     (\<forall>n \<in> set_option (lq_min_price q) \<union> set_option (lq_max_price q) \<union> set_option (lq_min_bedrooms q).
        0 \<le> n \<and> n + 1 < 2 ^ 53)"

text \<open>The price, a listing without one counting as dearer than any.\<close>

definition price_rank :: "reso_record \<Rightarrow> bool \<times> int" where
  "price_rank r = (case field_of r ''ListPrice'' of FInt i \<Rightarrow> (False, i) | _ \<Rightarrow> (True, 0))"

definition dearest_first :: "reso_record list \<Rightarrow> reso_record list" where
  "dearest_first rs = rev (sort_key price_rank (rev rs))"

definition condition_value :: "string \<times> string \<times> literal \<Rightarrow> reso_record \<Rightarrow> bool" where
  "condition_value c r =
     (case c of (f, op, LText t) \<Rightarrow> field_of r f = FText t
      | (f, op, LInt n) \<Rightarrow> number_field r f (\<lambda>i. if op = ''gt'' then n < i else i < n)
      | _ \<Rightarrow> False)"

lemma text_condition: "condition_holds (f, ''eq'', LText t) r = Inr (field_of r f = FText t)"
  by (simp add: condition_holds_def comparison_def compare_texts_def split: field_value.split)

lemma number_condition:
  assumes "whole_number (field_of r f)" "\<bar>n\<bar> < 2 ^ 53" "op = ''gt'' \<or> op = ''lt''"
  shows "condition_holds (f, op, LInt n) r = Inr (number_field r f (\<lambda>i. if op = ''gt'' then n < i else i < n))"
  using assms
  by (auto simp: condition_holds_def comparison_def number_field_def whole_number_def float_of_small_int
      compare_floats_def split: field_value.splits)

lemma bounds_exact:
  assumes "exact_bounds q"
  shows "Some n = lq_min_price q \<Longrightarrow> \<bar>n - 1\<bar> < 2 ^ 53" "Some n = lq_max_price q \<Longrightarrow> \<bar>n + 1\<bar> < 2 ^ 53"
    "Some n = lq_min_bedrooms q \<Longrightarrow> \<bar>n - 1\<bar> < 2 ^ 53"
proof -
  have small: "\<bar>n - 1\<bar> < 2 ^ 53 \<and> \<bar>n + 1\<bar> < 2 ^ 53"
    if "n \<in> set_option (lq_min_price q) \<union> set_option (lq_max_price q) \<union> set_option (lq_min_bedrooms q)"
    using assms that by (force simp: exact_bounds_def)
  show "\<bar>n - 1\<bar> < 2 ^ 53" if "Some n = lq_min_price q" using small that [symmetric] by simp
  show "\<bar>n + 1\<bar> < 2 ^ 53" if "Some n = lq_max_price q" using small that [symmetric] by simp
  show "\<bar>n - 1\<bar> < 2 ^ 53" if "Some n = lq_min_bedrooms q" using small that [symmetric] by simp
qed

lemma conditions_hold:
  assumes "whole_numbers r" "exact_bounds q" "c \<in> set (conditions q)"
  shows "condition_holds c r = Inr (condition_value c r)"
  using assms bounds_exact [OF assms(2)]
  by (auto simp: conditions_def whole_numbers_def condition_value_def text_condition number_condition
      split: option.splits)

lemma conditions_meet: "(\<forall>c \<in> set (conditions q). condition_value c r) \<longleftrightarrow> meets q r"
  by (auto simp: conditions_def meets_def condition_value_def number_field_def
      split: option.splits field_value.splits)

lemma filterE_pure: "\<forall>x \<in> set xs. p x = Inr (f x) \<Longrightarrow> filterE p xs = Inr (filter f xs)"
  by (induction xs) auto

lemma filter_reads_back:
  assumes "conditions q \<noteq> []"
  obtains p where "parse_filter (join '' and '' (clauses q)) = Inr p"
    "\<And>r. whole_numbers r \<Longrightarrow> exact_bounds q \<Longrightarrow> p r = Inr (meets q r)"
proof -
  obtain c cs where q: "conditions q = c # cs" using assms by (cases "conditions q") auto
  let ?p = "foldl (\<lambda>p c. combine p (condition_holds c) (\<and>)) (condition_holds c) cs"
  have "?p r = Inr (meets q r)" if r: "whole_numbers r" "exact_bounds q" for r
  proof -
    have "condition_holds c r = Inr (condition_value c r)" "\<forall>d \<in> set cs. condition_holds d r = Inr (condition_value d r)"
      using conditions_hold [OF r] q by auto
    then have "?p r = Inr (condition_value c r \<and> (\<forall>d \<in> set cs. condition_value d r))" by (rule conjunction_of)
    with conditions_meet [of q r] q show ?thesis by simp
  qed
  moreover have "parse_filter (join '' and '' (clauses q)) = Inr ?p"
    using parse_conditions [of c cs] conditions_written [of q] q by (simp add: clauses_conditions)
  ultimately show ?thesis using that by blast
qed

section \<open>The order\<close>

lemma key_less_rank:
  assumes "whole_number (field_of r ''ListPrice'')" "whole_number (field_of s ''ListPrice'')"
  shows "key_less (field_of s ''ListPrice'') (field_of r ''ListPrice'') = Inr (price_rank s < price_rank r)"
  using assms
  by (auto simp: key_less_def value_eq_def value_less_def number_of_def price_rank_def whole_number_def
      split: field_value.splits)

lemma insert_by_rank:
  "whole_number (field_of r ''ListPrice'') \<Longrightarrow> \<forall>s \<in> set ss. whole_number (field_of s ''ListPrice'') \<Longrightarrow>
     insert_by (\<lambda>r. field_of r ''ListPrice'') r ss = Inr (insort_key price_rank r ss)"
  by (induction ss) (auto simp: key_less_rank split: bool.split)

lemma sort_by_rank:
  "\<forall>r \<in> set rs. whole_number (field_of r ''ListPrice'') \<Longrightarrow>
     sort_by (\<lambda>r. field_of r ''ListPrice'') rs = Inr (sort_key price_rank rs)"
  by (induction rs) (simp_all add: insert_by_rank)

lemma words_of_order: "words_of ''ListPrice desc'' = [''ListPrice'', ''desc'']"
  by code_simp

lemma orderby_dearest:
  "\<forall>r \<in> set rs. whole_number (field_of r ''ListPrice'') \<Longrightarrow>
     apply_orderby rs ''ListPrice desc'' = Inr (dearest_first rs)"
  by (simp add: apply_orderby_def words_of_order sorted_records_def sort_by_rank dearest_first_def)

section \<open>The search\<close>

lemma join_nonempty: "x \<noteq> [] \<Longrightarrow> join sep (x # xs) \<noteq> []"
  by (cases xs) simp_all

lemma filter_option:
  "option_text (search_params q) ''$filter'' =
     (if conditions q = [] then None else Some (join '' and '' (clauses q)))"
proof (cases "conditions q")
  case (Cons c cs)
  have "condition_text c \<noteq> []" by (cases c) (simp add: condition_text_def)
  with Cons show ?thesis
    by (simp add: option_text_def search_params_def clauses_conditions join_nonempty)
qed (simp add: option_text_def search_params_def clauses_conditions)

lemma query_answer:
  assumes "\<forall>r \<in> set records. whole_numbers r" "exact_bounds q"
  shows "apply_query records (search_params q) =
    Inr (take (nat (lq_limit q)) (dearest_first (filter (meets q) records)))"
proof -
  have "apply_filter (search_params q) records = Inr (filter (meets q) records)"
  proof (cases "conditions q = []")
    case True
    then have "\<And>r. meets q r" using conditions_meet [of q] by auto
    with True show ?thesis by (simp add: apply_filter_def filter_option)
  next
    case False
    then obtain p where "parse_filter (join '' and '' (clauses q)) = Inr p"
      "\<And>r. whole_numbers r \<Longrightarrow> p r = Inr (meets q r)"
      using filter_reads_back assms(2) by metis
    with False assms(1) show ?thesis by (simp add: apply_filter_def filter_option filterE_pure)
  qed
  moreover have "apply_sort (search_params q) (filter (meets q) records) = Inr (dearest_first (filter (meets q) records))"
    using orderby_dearest [of "filter (meets q) records"] assms(1)
    by (simp add: apply_sort_def option_text_def search_params_def whole_numbers_def)
  moreover have "apply_skip (search_params q) rs = Inr rs" "apply_top (search_params q) rs = Inr (take (nat (lq_limit q)) rs)"
    "apply_select (search_params q) rs = rs" for rs
    using assms(2)
    by (simp_all add: apply_skip_def apply_top_def apply_select_def parse_non_negative_int_def option_text_def
        search_params_def exact_bounds_def)
  ultimately show ?thesis by (simp add: apply_query_def)
qed

text \<open>
  C12: A listing search answers the query exactly. Over the mock, for any city text whatever (quotes,
  parentheses and operators in it included), the filter the adapter writes reads back as the status, the
  city and the inclusive bounds that were asked for, so the adapter returns the listings of the matching
  records and no other, dearest first (a listing without a price counting as the dearest), records of the
  same price in the order of the feed, at most as many as the limit.
\<close>

theorem search_exact:
  assumes "\<forall>r \<in> set (rd_property seed). whole_numbers r" "exact_bounds q"
  shows "reso_search_listings co (mls_server seed) token q s =
    (mapE (listing_from_reso co)
       (take (nat (lq_limit q)) (dearest_first (filter (meets q) (rd_property seed)))), s)"
  using query_answer [OF assms]
  by (simp add: reso_search_listings_def mls_server_def run_query_def monad split: sum.split)

definition sample_home :: "string \<Rightarrow> string \<Rightarrow> int \<Rightarrow> reso_record" where
  "sample_home key city price =
     [(''ListingKey'', FText key), (''StandardStatus'', FText ''Active''), (''ListPrice'', FInt price),
      (''City'', FText city), (''StateOrProvince'', FText ''CA''), (''PostalCode'', FText ''95890''),
      (''BedroomsTotal'', FInt 3), (''ListAgentKey'', FText ''AGT-001''), (''ListAgentFullName'', FText ''Dana''),
      (''ModificationTimestamp'', FText ''2026-06-08T14:30:00Z'')]"

definition sample_seed :: reso_seed where
  "sample_seed =
     \<lparr>rd_property = [sample_home ''RM1'' ''Coeur d'Alene'' 400000, sample_home ''RM2'' ''Reno'' 500000,
        sample_home ''RM3'' ''Coeur d'Alene'' 450000], rd_media = []\<rparr>"

definition sample_query :: listing_query where
  "sample_query = \<lparr>lq_status = Some LsActive, lq_city = Some ''Coeur d'Alene'', lq_min_price = Some 400000,
     lq_max_price = None, lq_min_bedrooms = None, lq_limit = 5\<rparr>"

definition sample_coercions :: coercions where
  "sample_coercions = \<lparr>co_int = \<lambda>_. None, co_instant = \<lambda>_. Some 0, co_repr = \<lambda>_. ''1.5''\<rparr>"

theorem search_exact_witness:
  "map_sum id (map li_mls_id)
     (fst (reso_search_listings sample_coercions (mls_server sample_seed) None sample_query ())) = Inr [''RM3'', ''RM1'']"
proof -
  have seed: "\<forall>r \<in> set (rd_property sample_seed). whole_numbers r" "exact_bounds sample_query"
    by (simp_all add: sample_seed_def sample_home_def whole_numbers_def whole_number_def field_of_def
        exact_bounds_def sample_query_def)
  have "take (nat (lq_limit sample_query)) (dearest_first (filter (meets sample_query) (rd_property sample_seed))) =
      [sample_home ''RM3'' ''Coeur d'Alene'' 450000, sample_home ''RM1'' ''Coeur d'Alene'' 400000]"
    by (simp add: sample_query_def sample_seed_def dearest_first_def meets_def sample_home_def field_of_def
        number_field_def reso_status_def price_rank_def)
  then show ?thesis
    using search_exact [OF seed, of sample_coercions None "()"]
    by (simp add: listing_from_reso_def sample_home_def get_or_def status_of_reso_def required_field_def field_of_def
        or_empty_def sample_coercions_def)
qed

section \<open>What the mock does not promise\<close>

text \<open>
  The bounds are inclusive for whole prices only. A feed's fractional price just below the asked minimum
  passes the shifted bound and is then rounded to a whole price below the minimum.
\<close>

theorem fractional_price_slips_through:
  "condition_holds (''ListPrice'', ''gt'', LInt (400000 - 1)) [(''ListPrice'', FFloat (Fin (1999996 / 5)))] = Inr True"
  "round_value (FFloat (Fin (1999996 / 5))) = Inr (Some 399999)"
proof -
  have "\<lfloor>1999996 / 5 :: rat\<rfloor> = 399999" by (simp add: floor_eq_iff)
  then show "round_value (FFloat (Fin (1999996 / 5))) = Inr (Some 399999)" by (simp add: half_even_def)
qed (simp add: condition_holds_def comparison_def field_of_def float_of_small_int compare_floats_def)

text \<open>
  The adapter doubles the quotes of a key as OData asks; the mock compares the key as it stands in the
  path, so a listing whose key has a quote is listed by a search and missing by its key.
\<close>

theorem quoted_key_not_found:
  "fst (reso_get_listing sample_coercions (mls_server \<lparr>rd_property = [sample_home [CHR ''O'', CHR 0x27, CHR ''1''] ''Reno'' 1], rd_media = []\<rparr>)
     None [CHR ''O'', CHR 0x27, CHR ''1''] ()) = Inr None"
  by code_simp

end
