(* ===== verification/Crm_Contract.thy ===== *)
theory Crm_Contract
  imports Crm_Sierra Mls_Properties
begin

text \<open>
  What the workflows rely on in a CRM, as a locale over any \<open>CRMPort\<close>, discharged for both adapters over
  their own stubs: a contact that is created can be read back from then on, with what the draft said.
\<close>

declare split_on.simps [simp del]

section \<open>The contract\<close>

definition drafted :: "contact_create \<Rightarrow> contact \<Rightarrow> bool" where
  "drafted d c \<longleftrightarrow> ct_name c = strip (cc_first_name d @ '' '' @ cc_last_name d) \<and>
     ct_email c = given (cc_email d) \<and> ct_phone c = given (cc_phone d)"

locale crm =
  fixes create :: "contact_create \<Rightarrow> ('s, contact) M"
    and lookup :: "string \<Rightarrow> ('s, contact option) M"
    and add_note :: "string \<Rightarrow> string \<Rightarrow> string \<Rightarrow> ('s, string) M"
    and view :: "'s \<Rightarrow> string \<Rightarrow> contact option"
    and acceptable :: "contact_create \<Rightarrow> bool"
    and sound :: "'s \<Rightarrow> bool"
  assumes created:
    "sound s \<Longrightarrow> acceptable d \<Longrightarrow>
       \<exists>c s'. create d s = (Inr c, s') \<and> drafted d c \<and> view s (ct_crm_id c) = None \<and>
         view s' (ct_crm_id c) = Some c \<and> view s \<subseteq>\<^sub>m view s' \<and> sound s'"
    and looked_up: "sound s \<Longrightarrow> view s i = Some c \<Longrightarrow> lookup i s = (Inr (Some c), s)"
    and noted:
    "sound s \<Longrightarrow> view s i = Some c \<Longrightarrow> body \<noteq> [] \<Longrightarrow>
       \<exists>n s'. add_note i subject body s = (Inr n, s') \<and> view s' = view s \<and> sound s'"
begin

lemma created_stays:
  "sound s \<Longrightarrow> \<forall>d \<in> set ds. acceptable d \<Longrightarrow>
     \<exists>cs s'. mapM create ds s = (Inr cs, s') \<and> list_all2 drafted ds cs \<and> distinct (map ct_crm_id cs) \<and>
       (\<forall>c \<in> set cs. view s (ct_crm_id c) = None \<and> lookup (ct_crm_id c) s' = (Inr (Some c), s')) \<and>
       view s \<subseteq>\<^sub>m view s' \<and> sound s'"
proof (induction ds arbitrary: s)
  case (Cons d ds)
  from Cons.prems obtain c t where step: "create d s = (Inr c, t)" "drafted d c" "view s (ct_crm_id c) = None"
    "view t (ct_crm_id c) = Some c" "view s \<subseteq>\<^sub>m view t" "sound t"
    using created [of s d] by auto
  with Cons.IH [of t] Cons.prems obtain cs s' where rest: "mapM create ds t = (Inr cs, s')" "list_all2 drafted ds cs"
    "distinct (map ct_crm_id cs)"
    "\<forall>c \<in> set cs. view t (ct_crm_id c) = None \<and> lookup (ct_crm_id c) s' = (Inr (Some c), s')"
    "view t \<subseteq>\<^sub>m view s'" "sound s'"
    by auto
  have kept: "view s' (ct_crm_id c) = Some c" using rest(5) step(4) by (auto simp: map_le_def dom_def)
  then have "lookup (ct_crm_id c) s' = (Inr (Some c), s')" using rest(6) by (rule looked_up [rotated])
  moreover have "view s (ct_crm_id e) = None" if "e \<in> set cs" for e
    using rest(4) that step(5) by (cases "view s (ct_crm_id e)") (auto simp: map_le_def dom_def)
  moreover have "ct_crm_id c \<notin> ct_crm_id ` set cs" using rest(4) step(4) by auto
  moreover have "view s \<subseteq>\<^sub>m view s'" using step(5) rest(5) by (rule map_le_trans)
  ultimately show ?case using step rest
    by (intro exI [of _ "c # cs"] exI [of _ s']) (auto simp: monad)
qed simp

lemma known_stays:
  "sound s \<Longrightarrow> \<forall>d \<in> set ds. acceptable d \<Longrightarrow> view s i = Some c \<Longrightarrow>
     \<exists>cs s'. mapM create ds s = (Inr cs, s') \<and> lookup i s' = (Inr (Some c), s')"
  using created_stays [of s ds] looked_up by (fastforce simp: map_le_def dom_def)

end

section \<open>Ids\<close>

lemma all_digits_show [simp]: "all_digits (show_nat n)"
  by (auto simp: all_digits_def list_all_iff dest: show_nat_digits)

lemma show_int_nat [simp]: "show_int (int n) = show_nat n"
  by (simp add: show_int_def)

lemma py_int_digits: "all_digits s \<Longrightarrow> py_int s = Inr (int (read_nat s))"
proof -
  assume s: "all_digits s"
  then have "strip s = s" using char_kinds(4) by (intro strip_nonspace) (auto simp: all_digits_def list_all_iff)
  moreover have "int_digits s = Some s" using s by (intro int_digits_all) (auto simp: all_digits_def list_all_iff)
  moreover have "\<not> startswith s ''-''" "\<not> startswith s ''+''"
    using s by (cases s, auto simp: all_digits_def is_digit_def)+
  ultimately show ?thesis by (simp add: py_int_def)
qed

lemma digit_apart: "is_digit c \<Longrightarrow> c \<noteq> CHR ''/''" "is_digit c \<Longrightarrow> c \<noteq> CHR ''%''" "is_digit c \<Longrightarrow> c \<noteq> CHR ''@''"
  by (auto simp: is_digit_def)

lemma all_digits_apart: "all_digits s \<Longrightarrow> CHR ''/'' \<notin> set s" "all_digits s \<Longrightarrow> CHR ''@'' \<notin> set s"
  "all_digits s \<Longrightarrow> s \<noteq> []"
  by (auto simp: all_digits_def list_all_iff is_digit_def)

lemma map_leI: "(\<And>j c. f j = Some c \<Longrightarrow> g j = Some c) \<Longrightarrow> f \<subseteq>\<^sub>m g"
  by (auto simp: map_le_def)

section \<open>FollowUpBoss\<close>

definition readable_rows :: "(pyv \<Rightarrow> exn + contact) \<Rightarrow> nat \<Rightarrow> (int, pyv) dict \<Rightarrow> bool" where
  "readable_rows read n d \<longleftrightarrow> (\<forall>(k, p) \<in> set d. k < int n \<and> (\<exists>c. read p = Inr c))"

lemma readable_step:
  assumes "readable_rows read n d" "read p = Inr c"
  shows "dict_get d (int n) = None" "dict_set d (int n) p = d @ [(int n, p)]"
    "readable_rows read (Suc n) (d @ [(int n, p)])"
proof -
  show fresh: "dict_get d (int n) = None"
    using assms(1) by (auto simp: readable_rows_def dict_get_def map_of_eq_None_iff)
  show same: "dict_set d (int n) p = d @ [(int n, p)]" using append_fresh [OF fresh, of p] by simp
  show "readable_rows read (Suc n) (d @ [(int n, p)])" using assms by (auto simp: readable_rows_def)
qed

lemma readable_get: "readable_rows read n d \<Longrightarrow> dict_get d k = Some p \<Longrightarrow> \<exists>c. read p = Inr c"
  by (auto simp: readable_rows_def dict_get_def dest!: map_of_SomeD)

text \<open>The contact of a row, when there is one and it can be read.\<close>

definition read_row :: "(pyv \<Rightarrow> exn + contact) \<Rightarrow> pyv option \<Rightarrow> contact option" where
  "read_row read row = (case row of None \<Rightarrow> None | Some p \<Rightarrow> (case read p of Inl e \<Rightarrow> None | Inr c \<Rightarrow> Some c))"

lemma read_row_Some: "read_row read row = Some c \<longleftrightarrow> (\<exists>p. row = Some p \<and> read p = Inr c)"
  by (auto simp: read_row_def split: option.splits sum.splits)

definition fub_view :: "fub_stub \<Rightarrow> string \<Rightarrow> contact option" where
  "fub_view s i = read_row contact_from_fub (fub_person i s)"

definition fub_sound :: "fub_stub \<Rightarrow> bool" where
  "fub_sound s \<longleftrightarrow> readable_rows contact_from_fub (fs_next s) (fs_people s)"

definition fub_contact :: "int \<Rightarrow> contact_create \<Rightarrow> contact" where
  "fub_contact i d = \<lparr>ct_crm_id = show_int i, ct_name = strip (cc_first_name d @ '' '' @ cc_last_name d), ct_role = ''Lead'',
     ct_email = given (cc_email d), ct_phone = given (cc_phone d)\<rparr>"

definition fub_body :: "contact_create \<Rightarrow> (string \<times> pyv) list" where
  "fub_body d = (case fub_person_payload d of PDict es \<Rightarrow> es | _ \<Rightarrow> [])"

lemma fub_payload_body: "fub_person_payload d = PDict (fub_body d)"
  by (simp add: fub_body_def fub_person_payload_def)

lemma py_str_PStr [simp]: "py_str (PStr s) = s" "py_str (PInt i) = show_int i"
  by (simp_all)

lemma py_or_text: "py_or (PStr s) (PStr []) = PStr s"
  by (cases s) simp_all

lemma fub_fields:
  "map_of (fub_body d) ''firstName'' = Some (PStr (cc_first_name d))"
  "map_of (fub_body d) ''lastName'' = Some (PStr (cc_last_name d))"
  "map_of (fub_body d) ''source'' = Some (PStr (cc_source d))"
  "map_of (fub_body d) ''emails'' = map_option value_list (given (cc_email d))"
  "map_of (fub_body d) ''phones'' = map_option value_list (given (cc_phone d))"
  by (simp_all add: fub_body_def fub_person_payload_def split: option.splits)

lemma fub_reads_new: "contact_from_fub (fub_new_person i (fub_body d)) = Inr (fub_contact i d)"
proof -
  have "py_or (PStr (full_name (PStr a) (PStr b))) (PStr (full_name (PStr a) (PStr b))) = PStr (strip (a @ '' '' @ b))" for a b
    by (simp add: full_name_def py_or_def)
  then show ?thesis
    by (cases "given (cc_email d)"; cases "given (cc_phone d)")
      (simp_all add: contact_from_fub_def fub_new_person_def Let_def fub_fields py_or_text text_field_def fub_contact_def
        first_value_def value_list_def optional_text_def)
qed

lemma fub_create_step:
  "fub_create_contact (ret ()) fub_server d s =
     (Inr (fub_contact (int (fs_next s)) d),
      s\<lparr>fs_next := fs_next s + 1, fs_people := dict_set (fs_people s) (int (fs_next s)) (fub_new_person (int (fs_next s)) (fub_body d))\<rparr>)"
  by (simp add: fub_create_contact_def fub_request_def fub_server_def serve_def object_body_def fub_payload_body next_id_def
      checked_json_def monad fub_reads_new)

lemma fub_person_None: "\<not> all_digits i \<Longrightarrow> fub_person i s = None"
  by (simp add: fub_person_def)

lemma fub_lookup_step:
  assumes "fub_view s i = Some c"
  shows "fub_get_contact (ret ()) fub_server i s = (Inr (Some c), s)"
proof -
  from assms obtain p where p: "fub_person i s = Some p" "contact_from_fub p = Inr c"
    by (auto simp: fub_view_def read_row_Some)
  then have "all_digits i" using fub_person_None [of i s] by fastforce
  with p show ?thesis
    by (simp add: fub_get_contact_def fub_request_def fub_server_def serve_def checked_json_def monad all_digits_apart)
qed

lemma fub_note_step:
  assumes "fub_view s i = Some c"
  shows "\<exists>n row. fub_add_note (ret ()) fub_server i subject body s =
    (Inr n, s\<lparr>fs_next := fs_next s + 1, fs_notes := dict_set (fs_notes s) (int (fs_next s)) row\<rparr>)"
proof -
  from assms obtain p where "fub_person i s = Some p" by (auto simp: fub_view_def read_row_Some)
  then have "all_digits i" using fub_person_None [of i s] by fastforce
  then show ?thesis
    by (simp add: fub_add_note_def fub_request_def fub_server_def serve_def checked_json_def monad py_int_digits
        object_body_def next_id_def id_of_def with_id_def dict_set_def)
      (rule exI, rule refl)
qed

interpretation fub: crm "fub_create_contact (ret ()) fub_server" "fub_get_contact (ret ()) fub_server"
    "fub_add_note (ret ()) fub_server" fub_view "\<lambda>d. True" fub_sound
proof unfold_locales
  fix s :: fub_stub and d :: contact_create
  assume s: "fub_sound s"
  let ?i = "int (fs_next s)" let ?p = "fub_new_person ?i (fub_body d)"
  let ?s = "s\<lparr>fs_next := fs_next s + 1, fs_people := dict_set (fs_people s) ?i ?p\<rparr>"
  have rows: "dict_get (fs_people s) ?i = None" "fub_sound ?s"
    using s readable_step [of contact_from_fub "fs_next s" "fs_people s" ?p] fub_reads_new by (auto simp: fub_sound_def)
  have new: "ct_crm_id (fub_contact ?i d) = show_nat (fs_next s)" by (simp add: fub_contact_def)
  have person: "fub_person j s = Some q \<Longrightarrow> fub_person j ?s = Some q" for j q
    using rows(1) by (auto simp: fub_person_def split: if_splits)
  have "fub_view s (show_nat (fs_next s)) = None" using rows(1) by (simp add: fub_view_def fub_person_def read_row_def)
  moreover have "fub_view ?s (show_nat (fs_next s)) = Some (fub_contact ?i d)"
    by (simp add: fub_view_def fub_person_def read_row_def fub_reads_new)
  moreover have "fub_view s \<subseteq>\<^sub>m fub_view ?s"
    by (rule map_leI) (auto simp: fub_view_def read_row_Some dest: person)
  moreover have "drafted d (fub_contact ?i d)" by (simp add: drafted_def fub_contact_def)
  ultimately show "\<exists>c s'. fub_create_contact (ret ()) fub_server d s = (Inr c, s') \<and> drafted d c \<and>
      fub_view s (ct_crm_id c) = None \<and> fub_view s' (ct_crm_id c) = Some c \<and> fub_view s \<subseteq>\<^sub>m fub_view s' \<and> fub_sound s'"
    using rows(2) new fub_create_step [of d s] by (intro exI [of _ "fub_contact ?i d"] exI [of _ ?s]) simp
next
  fix s :: fub_stub and i c
  assume "fub_sound s" "fub_view s i = Some c"
  then show "fub_get_contact (ret ()) fub_server i s = (Inr (Some c), s)" by (simp add: fub_lookup_step)
next
  fix s :: fub_stub and i c subject and body :: string
  assume s: "fub_sound s" "fub_view s i = Some c"
  obtain n row where step: "fub_add_note (ret ()) fub_server i subject body s =
      (Inr n, s\<lparr>fs_next := fs_next s + 1, fs_notes := dict_set (fs_notes s) (int (fs_next s)) row\<rparr>)"
    using fub_note_step [OF s(2)] by blast
  have "fub_view (s\<lparr>fs_next := fs_next s + 1, fs_notes := x\<rparr>) = fub_view s" for x
    by (simp add: fub_view_def fub_person_def fun_eq_iff)
  moreover have "fub_sound (s\<lparr>fs_next := fs_next s + 1, fs_notes := x\<rparr>)" for x
    using s(1) by (auto simp: fub_sound_def readable_rows_def)
  ultimately show "\<exists>n s'. fub_add_note (ret ()) fub_server i subject body s = (Inr n, s') \<and> fub_view s' = fub_view s \<and> fub_sound s'"
    using step by blast
qed

section \<open>Sierra's paths\<close>

lemma hex_digit_upper: "n < 16 \<Longrightarrow> hex_digit_val (upper_hex n) = Some n"
  by (auto simp: hex_digit_val_def upper_hex_def less_Suc_eq numeral_eq_Suc)

lemma unquote_plain: "c \<noteq> CHR ''%'' \<Longrightarrow> unquote (c # t) = c # unquote t"
  by (cases t; cases "tl t") auto

lemma unquote_apart: "CHR ''%'' \<notin> set s \<Longrightarrow> unquote (s @ t) = s @ unquote t"
  by (induction s) (auto simp: unquote_plain)

lemma quote_Cons: "quote (c # s) = (if unreserved c then [c]
    else [CHR ''%'', upper_hex (of_char c div 16), upper_hex (of_char c mod 16)]) @ quote s"
  by (simp add: quote_def)

lemma unquote_quote: "unquote (quote s @ t) = s @ unquote t"
proof (induction s)
  case (Cons c s)
  show ?case
  proof (cases "unreserved c")
    case True
    then have "c \<noteq> CHR ''%''" by (auto simp: unreserved_def)
    with True Cons show ?thesis by (simp add: quote_Cons unquote_plain)
  next
    case False
    have "(of_char c :: nat) < 256" by (rule nat_of_char_less_256)
    then have "hex_digit_val (upper_hex (of_char c div 16)) = Some (of_char c div 16)"
      "hex_digit_val (upper_hex (of_char c mod 16)) = Some (of_char c mod 16)"
      by (auto intro!: hex_digit_upper simp: less_mult_imp_div_less)
    moreover have "char_of (16 * (of_char c div 16) + (of_char c mod 16 :: nat)) = c" by simp
    ultimately show ?thesis using False Cons by (simp add: quote_Cons)
  qed
qed (simp add: quote_def)

lemma in_split: "c \<in> set s \<Longrightarrow> c = sep \<or> (\<exists>p \<in> set (split_on sep s). c \<in> set p)"
proof (induction sep s rule: split_on.induct)
  case (1 sep s)
  have "c \<in> set (takeWhile (\<lambda>c. c \<noteq> sep) s) \<or> c \<in> set (dropWhile (\<lambda>c. c \<noteq> sep) s)"
    using 1(2) takeWhile_dropWhile_id [of "\<lambda>c. c \<noteq> sep" s] by (metis Un_iff set_append)
  then show ?case
  proof
    assume "c \<in> set (dropWhile (\<lambda>c. c \<noteq> sep) s)"
    then obtain d rest where d: "dropWhile (\<lambda>c. c \<noteq> sep) s = d # rest" "c = d \<or> c \<in> set rest"
      by (cases "dropWhile (\<lambda>c. c \<noteq> sep) s") auto
    moreover have "d = sep" using d(1) hd_dropWhile [of "\<lambda>c. c \<noteq> sep" s] by simp
    ultimately show ?thesis using 1(1) [OF d(1)] by (auto simp: split_on.simps [of sep s])
  qed (auto simp: split_on.simps [of sep s])
qed

text \<open>What may stand in a path decodes to the lead it names, which is one segment.\<close>

lemma email_segment_apart: "email_segment key \<Longrightarrow> CHR ''/'' \<notin> set key"
proof -
  assume email: "email_segment key"
  define v where "v = (if endswith key [CHR 0x0A] then butlast key else key)"
  obtain a b where v: "split_on CHR ''@'' v = [a, b]" "list_all segment_char a" "list_all segment_char b"
    using email by (auto simp: email_segment_def Let_def v_def [symmetric] simp del: split_on.simps
        split: list.splits)
  have "CHR ''/'' \<notin> set v"
  proof
    assume "CHR ''/'' \<in> set v"
    then have "CHR ''/'' \<in> set a \<union> set b" using in_split [of "CHR ''/''" v "CHR ''@''"] v(1) by (simp del: split_on.simps)
    with v(2,3) show False by (auto simp: list_all_iff segment_char_def)
  qed
  then show ?thesis
    by (auto simp: v_def endswith_iff split: if_splits)
qed

lemma lead_segment_decodes:
  assumes "lead_segment key = Inr segment"
  shows "unquote (segment @ t) = key @ unquote t" "CHR ''/'' \<notin> set key" "key \<noteq> []"
proof -
  have "all_digits key \<and> segment = key \<or> email_segment key \<and> segment = quote key"
    using assms unfolding lead_segment_def by (metis sum.distinct(1) sum.inject(2))
  then consider "all_digits key" "segment = key" | "email_segment key" "segment = quote key" by blast
  note cases = this
  show "unquote (segment @ t) = key @ unquote t"
    by (rule cases) (auto simp: all_digits_def list_all_iff is_digit_def unquote_quote intro!: unquote_apart)
  show "CHR ''/'' \<notin> set key" by (rule cases) (auto simp: all_digits_apart email_segment_apart)
  show "key \<noteq> []"
  proof (rule cases)
    assume "email_segment key"
    then show ?thesis by (cases key) (simp_all add: email_segment_def endswith_def split_on_last)
  qed (simp add: all_digits_apart)
qed

lemma lead_path:
  assumes "lead_segment key = Inr segment"
  shows "split_on CHR ''/'' (unquote (''/leads/get/'' @ segment)) = [[], ''leads'', ''get'', key]"
    "split_on CHR ''/'' (unquote (''/leads/'' @ segment @ ''/note'')) = [[], ''leads'', key, ''note'']"
    "split_on CHR ''/'' (unquote (''/leads/'' @ segment @ ''/task'')) = [[], ''leads'', key, ''task'']"
proof -
  note decoded = lead_segment_decodes [OF assms]
  have apart: "CHR ''/'' \<notin> set []" "CHR ''/'' \<notin> set ''leads''" "CHR ''/'' \<notin> set ''get''" by simp_all
  have "''/leads/'' @ r = [] @ CHR ''/'' # ''leads'' @ CHR ''/'' # r" for r by simp
  then have lead: "split_on CHR ''/'' (''/leads/'' @ r) = [] # ''leads'' # split_on CHR ''/'' r" for r
    by (simp only: split_on_first [OF apart(1)] split_on_first [OF apart(2)])
  have "''get/'' @ r = ''get'' @ CHR ''/'' # r" for r by simp
  then have get: "split_on CHR ''/'' (''get/'' @ r) = ''get'' # split_on CHR ''/'' r" for r
    by (simp only: split_on_first [OF apart(3)])
  have words: "split_on CHR ''/'' ''note'' = [''note'']" "split_on CHR ''/'' ''task'' = [''task'']"
    by (rule split_on_last, simp)+
  have "unquote (''/leads/get/'' @ segment) = ''/leads/'' @ ''get/'' @ key"
    using decoded(1) [of "[]"] unquote_apart [of "''/leads/get/''" segment] by (simp del: unquote.simps(1))
  then show "split_on CHR ''/'' (unquote (''/leads/get/'' @ segment)) = [[], ''leads'', ''get'', key]"
    by (simp only: lead get split_on_last [OF decoded(2)])
  have "unquote (''/leads/'' @ segment @ ''/note'') = ''/leads/'' @ key @ CHR ''/'' # ''note''"
    "unquote (''/leads/'' @ segment @ ''/task'') = ''/leads/'' @ key @ CHR ''/'' # ''task''"
    using decoded(1) unquote_apart [of "''/leads/''" "segment @ ''/note''"]
      unquote_apart [of "''/leads/''" "segment @ ''/task''"] unquote_apart [of "''/note''" "[]"] unquote_apart [of "''/task''" "[]"]
    by (simp_all del: unquote.simps(1))
  then show "split_on CHR ''/'' (unquote (''/leads/'' @ segment @ ''/note'')) = [[], ''leads'', key, ''note'']"
    "split_on CHR ''/'' (unquote (''/leads/'' @ segment @ ''/task'')) = [[], ''leads'', key, ''task'']"
    by (simp_all only: lead split_on_first [OF decoded(2)] words)
qed

section \<open>Sierra Interactive\<close>

definition sierra_view :: "sierra_stub \<Rightarrow> string \<Rightarrow> contact option" where
  "sierra_view s key = (if all_digits key \<or> email_segment key then read_row contact_from_sierra (find_lead key s) else None)"

definition sierra_sound :: "sierra_stub \<Rightarrow> bool" where
  "sierra_sound s \<longleftrightarrow> readable_rows contact_from_sierra (si_next s) (si_leads s)"

definition sierra_contact :: "int \<Rightarrow> contact_create \<Rightarrow> contact" where
  "sierra_contact i d = \<lparr>ct_crm_id = show_int i, ct_name = strip (cc_first_name d @ '' '' @ cc_last_name d), ct_role = ''New'',
     ct_email = given (cc_email d), ct_phone = given (cc_phone d)\<rparr>"

lemma serve_get:
  assumes "lead_segment key = Inr segment"
  shows "sierra_server (http_get (''/leads/get/'' @ segment) [] []) s =
    (Inr (case find_lead key s of None \<Rightarrow> sierra_refusal 404 ''Lead not found'' | Some l \<Rightarrow> sierra_ok 200 l), s)"
  unfolding sierra_server_def request_simps lead_path [OF assms]
  using lead_segment_decodes(3) [OF assms] by (simp add: serve_def monad)

lemma serve_note:
  assumes "lead_segment key = Inr segment"
  shows "sierra_server (http_post (''/leads/'' @ segment @ ''/note'') [] b) =
    serve (add_lead_note key (http_post (''/leads/'' @ segment @ ''/note'') [] b))"
  unfolding sierra_server_def request_simps lead_path [OF assms]
  using lead_segment_decodes(3) [OF assms] by simp

lemma serve_new: "sierra_server (http_post ''/leads'' [] b) = serve (add_lead (http_post ''/leads'' [] b))"
proof -
  have "unquote ''/leads'' = [] @ CHR ''/'' # ''leads''" by simp
  moreover have apart: "CHR ''/'' \<notin> set []" "CHR ''/'' \<notin> set ''leads''" by simp_all
  ultimately have "split_on CHR ''/'' (unquote ''/leads'') = [[], ''leads'']"
    by (simp only: split_on_first [OF apart(1)] split_on_last [OF apart(2)])
  then show ?thesis unfolding sierra_server_def request_simps by simp
qed

lemma ok_data [simp]: "sierra_data (sierra_ok n d) = (if n < 300 then Inr d else Inl (sierra_error n (''HTTP '' @ show_nat n)))"
  by (simp add: sierra_data_def sierra_failure_def sierra_ok_def envelope_def)

lemma ok_status [simp]: "rs_status (sierra_ok n d) = n" "rs_status (sierra_refusal n m) = n"
  by (simp_all add: sierra_ok_def sierra_refusal_def)

lemma lead_segment_ok: "all_digits key \<or> email_segment key \<Longrightarrow> \<exists>segment. lead_segment key = Inr segment"
  by (auto simp: lead_segment_def)

lemma sierra_view_Some:
  "sierra_view s key = Some c \<longleftrightarrow>
     (all_digits key \<or> email_segment key) \<and> (\<exists>l. find_lead key s = Some l \<and> contact_from_sierra l = Inr c)"
  by (simp add: sierra_view_def read_row_Some)

lemma sierra_lookup_step:
  assumes "sierra_view s key = Some c"
  shows "sierra_get_contact sierra_server key s = (Inr (Some c), s)"
proof -
  from assms obtain l segment where l: "find_lead key s = Some l" "contact_from_sierra l = Inr c"
    "lead_segment key = Inr segment"
    using lead_segment_ok [of key] by (auto simp: sierra_view_Some)
  then show ?thesis by (simp add: sierra_get_contact_def serve_get monad del: append_Cons append.simps)
qed

definition sierra_fields :: "string \<Rightarrow> string \<Rightarrow> contact_create \<Rightarrow> (string \<times> pyv) list" where
  "sierra_fields password email d = (case sierra_lead_payload password email d of PDict es \<Rightarrow> es | _ \<Rightarrow> [])"

lemma sierra_payload_fields: "sierra_lead_payload password email d = PDict (sierra_fields password email d)"
  by (simp add: sierra_fields_def sierra_lead_payload_def)

lemma sierra_field:
  "map_of (sierra_fields password email d) ''firstName'' = Some (PStr (cc_first_name d))"
  "map_of (sierra_fields password email d) ''lastName'' = Some (PStr (cc_last_name d))"
  "map_of (sierra_fields password email d) ''email'' = Some (PStr email)"
  "map_of (sierra_fields password email d) ''password'' = Some (PStr password)"
  "map_of (sierra_fields password email d) ''source'' = Some (PStr (cc_source d))"
  "map_of (sierra_fields password email d) ''leadStatus'' = None"
  "map_of (sierra_fields password email d) ''phone'' = map_option PStr (given (cc_phone d))"
  by (simp_all add: sierra_fields_def sierra_lead_payload_def split: option.splits)

lemma given_nonempty: "given v = Some e \<Longrightarrow> e \<noteq> []"
  by (auto simp: given_def split: option.splits if_splits)

lemma sierra_reads_new:
  assumes "given (cc_email d) = Some email"
  shows "contact_from_sierra (new_lead i (sierra_fields password email d)) = Inr (sierra_contact i d)"
  using assms given_nonempty [OF assms] given_nonempty [of "cc_phone d"]
  by (cases "given (cc_phone d)")
    (simp_all add: contact_from_sierra_def new_lead_def Let_def sierra_field py_or_text text_field_def sierra_contact_def
      optional_text_def full_name_def py_or_def)

lemma sierra_create_step:
  assumes s: "sierra_sound s" and d: "given (cc_email d) = Some email" and "password \<noteq> []"
  defines "i \<equiv> int (si_next s)" and "row \<equiv> new_lead (int (si_next s)) (sierra_fields password email d)"
  shows "sierra_create_contact sierra_server password d s =
    (Inr (sierra_contact i d), s\<lparr>si_next := si_next s + 1, si_leads := dict_set (si_leads s) i row\<rparr>)"
proof -
  let ?s = "s\<lparr>si_next := si_next s + 1, si_leads := dict_set (si_leads s) i row\<rparr>"
  have "find_lead (show_nat (si_next s)) ?s = Some row" by (simp add: find_lead_def i_def)
  moreover have "lead_segment (show_nat (si_next s)) = Inr (show_nat (si_next s))" by (simp add: lead_segment_def)
  ultimately have "sierra_get_contact sierra_server (show_nat (si_next s)) ?s = (Inr (Some (sierra_contact i d)), ?s)"
    using sierra_reads_new [OF d, of i password]
    by (intro sierra_lookup_step) (simp add: sierra_view_def read_row_def row_def i_def)
  then show ?thesis using assms(3) given_nonempty [OF d] d
    by (simp add: sierra_create_contact_def serve_new serve_def add_lead_def body_fields_def sierra_payload_fields truthy_at_def
        sierra_field sierra_next_def monad i_def row_def)
qed

lemma find_lead_stays:
  assumes "sierra_sound s" "find_lead key s = Some l" "contact_from_sierra row = Inr c"
  shows "find_lead key (s\<lparr>si_next := si_next s + 1, si_leads := dict_set (si_leads s) (int (si_next s)) row\<rparr>) = Some l"
proof -
  note row = readable_step [of contact_from_sierra "si_next s" "si_leads s" row c]
  have "List.find P (xs @ ys) = Some x" if "List.find P xs = Some x" for P :: "pyv \<Rightarrow> bool" and xs ys x
    using that by (induction xs) auto
  then show ?thesis using assms row
    by (cases "all_digits key") (auto simp: find_lead_def sierra_sound_def dict_values_def dict_get_def map_add_def
        split: option.splits)
qed

lemma sierra_note_step:
  assumes "sierra_view s key = Some c" "body \<noteq> []"
  shows "\<exists>row. sierra_add_note sierra_server key subject body s =
    (Inr (show_nat (si_next s)), s\<lparr>si_next := si_next s + 1, si_notes := dict_set (si_notes s) (int (si_next s)) row\<rparr>)"
proof -
  from assms obtain l segment where l: "find_lead key s = Some l" "lead_segment key = Inr segment"
    using lead_segment_ok [of key] by (auto simp: sierra_view_Some)
  have "\<exists>row. sierra_note sierra_server key m s =
    (Inr (show_nat (si_next s)), s\<lparr>si_next := si_next s + 1, si_notes := dict_set (si_notes s) (int (si_next s)) row\<rparr>)"
    if "m \<noteq> []" for m
    using l that
    by (simp add: sierra_note_def serve_note serve_def add_lead_note_def body_fields_def truthy_at_def sierra_next_def id_of_def
        monad del: append_Cons append.simps) (rule exI, rule refl)
  then show ?thesis using assms(2) by (simp add: sierra_add_note_def)
qed

interpretation sierra: crm "sierra_create_contact sierra_server password" "sierra_get_contact sierra_server"
    "sierra_add_note sierra_server" sierra_view "\<lambda>d. given (cc_email d) \<noteq> None \<and> password \<noteq> []" sierra_sound
    for password
proof unfold_locales
  fix s :: sierra_stub and d :: contact_create
  assume s: "sierra_sound s" and d: "given (cc_email d) \<noteq> None \<and> password \<noteq> []"
  then obtain email where email: "given (cc_email d) = Some email" by auto
  let ?i = "int (si_next s)" let ?l = "new_lead ?i (sierra_fields password email d)"
  let ?s = "s\<lparr>si_next := si_next s + 1, si_leads := dict_set (si_leads s) ?i ?l\<rparr>"
  note reads = sierra_reads_new [OF email, of ?i password]
  have rows: "dict_get (si_leads s) ?i = None" "sierra_sound ?s"
    using s readable_step [of contact_from_sierra "si_next s" "si_leads s" ?l] reads by (auto simp: sierra_sound_def)
  have new: "ct_crm_id (sierra_contact ?i d) = show_nat (si_next s)" by (simp add: sierra_contact_def)
  have "sierra_view s (show_nat (si_next s)) = None" using rows(1) by (simp add: sierra_view_def find_lead_def read_row_def)
  moreover have "sierra_view ?s (show_nat (si_next s)) = Some (sierra_contact ?i d)"
    by (simp add: sierra_view_def find_lead_def read_row_def reads)
  moreover have "sierra_view s \<subseteq>\<^sub>m sierra_view ?s"
    by (rule map_leI) (use find_lead_stays [OF s _ reads] in \<open>auto simp: sierra_view_Some\<close>)
  moreover have "drafted d (sierra_contact ?i d)" by (simp add: drafted_def sierra_contact_def)
  ultimately show "\<exists>c s'. sierra_create_contact sierra_server password d s = (Inr c, s') \<and> drafted d c \<and>
      sierra_view s (ct_crm_id c) = None \<and> sierra_view s' (ct_crm_id c) = Some c \<and> sierra_view s \<subseteq>\<^sub>m sierra_view s' \<and> sierra_sound s'"
    using rows(2) new sierra_create_step [OF s email] d by (intro exI [of _ "sierra_contact ?i d"] exI [of _ ?s]) simp
next
  fix s :: sierra_stub and i c
  assume "sierra_sound s" "sierra_view s i = Some c"
  then show "sierra_get_contact sierra_server i s = (Inr (Some c), s)" by (simp add: sierra_lookup_step)
next
  fix s :: sierra_stub and i c subject and body :: string
  assume s: "sierra_sound s" "sierra_view s i = Some c" "body \<noteq> []"
  obtain row where step: "sierra_add_note sierra_server i subject body s =
      (Inr (show_nat (si_next s)), s\<lparr>si_next := si_next s + 1, si_notes := dict_set (si_notes s) (int (si_next s)) row\<rparr>)"
    using sierra_note_step [OF s(2,3)] by blast
  have "find_lead j (s\<lparr>si_next := si_next s + 1, si_notes := x\<rparr>) = find_lead j s" for j x by (simp add: find_lead_def)
  then have "sierra_view (s\<lparr>si_next := si_next s + 1, si_notes := x\<rparr>) = sierra_view s" for x
    by (simp add: sierra_view_def fun_eq_iff)
  moreover have "sierra_sound (s\<lparr>si_next := si_next s + 1, si_notes := x\<rparr>)" for x
    using s(1) by (auto simp: sierra_sound_def readable_rows_def)
  ultimately show "\<exists>n s'. sierra_add_note sierra_server i subject body s = (Inr n, s') \<and> sierra_view s' = sierra_view s \<and> sierra_sound s'"
    using step by blast
qed

section \<open>Both CRMs\<close>

text \<open>
  Both CRM adapters keep the contract of \<open>CRMPort\<close>. Over its stub, each of FollowUpBoss and Sierra
  Interactive (with a password, and drafts that have an email) creates a list of contacts without an error:
  every contact that comes back says what its draft says, has an id that named nothing before and no two
  have the same, and at the end a lookup of each id, as of every contact known before, still finds it.
\<close>

theorem created_contacts_stay:
  assumes "fub_sound s" "sierra_sound t" "password \<noteq> []" "\<forall>d \<in> set es. given (cc_email d) \<noteq> None"
  shows "(\<exists>cs s'. mapM (fub_create_contact (ret ()) fub_server) ds s = (Inr cs, s') \<and>
        list_all2 drafted ds cs \<and> distinct (map ct_crm_id cs) \<and>
        (\<forall>c \<in> set cs. fub_view s (ct_crm_id c) = None \<and>
           fub_get_contact (ret ()) fub_server (ct_crm_id c) s' = (Inr (Some c), s')) \<and>
        (\<forall>i c. fub_view s i = Some c \<longrightarrow> fub_get_contact (ret ()) fub_server i s' = (Inr (Some c), s'))) \<and>
    (\<exists>cs t'. mapM (sierra_create_contact sierra_server password) es t = (Inr cs, t') \<and>
        list_all2 drafted es cs \<and> distinct (map ct_crm_id cs) \<and>
        (\<forall>c \<in> set cs. sierra_view t (ct_crm_id c) = None \<and>
           sierra_get_contact sierra_server (ct_crm_id c) t' = (Inr (Some c), t')) \<and>
        (\<forall>i c. sierra_view t i = Some c \<longrightarrow> sierra_get_contact sierra_server i t' = (Inr (Some c), t')))"
proof
  have "\<forall>d \<in> set ds. True" by simp
  from fub.created_stays [OF assms(1) this] fub.looked_up
  show "\<exists>cs s'. mapM (fub_create_contact (ret ()) fub_server) ds s = (Inr cs, s') \<and>
        list_all2 drafted ds cs \<and> distinct (map ct_crm_id cs) \<and>
        (\<forall>c \<in> set cs. fub_view s (ct_crm_id c) = None \<and>
           fub_get_contact (ret ()) fub_server (ct_crm_id c) s' = (Inr (Some c), s')) \<and>
        (\<forall>i c. fub_view s i = Some c \<longrightarrow> fub_get_contact (ret ()) fub_server i s' = (Inr (Some c), s'))"
    by (fastforce simp: map_le_def dom_def)
  have "\<forall>d \<in> set es. given (cc_email d) \<noteq> None \<and> password \<noteq> []" using assms(3,4) by simp
  from sierra.created_stays [OF assms(2) this] sierra.looked_up
  show "\<exists>cs t'. mapM (sierra_create_contact sierra_server password) es t = (Inr cs, t') \<and>
        list_all2 drafted es cs \<and> distinct (map ct_crm_id cs) \<and>
        (\<forall>c \<in> set cs. sierra_view t (ct_crm_id c) = None \<and>
           sierra_get_contact sierra_server (ct_crm_id c) t' = (Inr (Some c), t')) \<and>
        (\<forall>i c. sierra_view t i = Some c \<longrightarrow> sierra_get_contact sierra_server i t' = (Inr (Some c), t'))"
    by (fastforce simp: map_le_def dom_def)
qed

definition a_draft :: contact_create where
  "a_draft = \<lparr>cc_first_name = ''Ana'', cc_last_name = ''Ortiz'', cc_email = Some ''ana@example.test'', cc_phone = None,
     cc_source = ''open house''\<rparr>"

lemma seeds_sound: "fub_sound fub_seed" "sierra_sound sierra_seed"
  by (simp_all add: fub_sound_def sierra_sound_def readable_rows_def fub_seed_def sierra_seed_def seed_person_def seed_lead_def
      value_list_def contact_from_fub_def contact_from_sierra_def first_value_def text_field_def optional_text_def)

theorem created_contacts_stay_witness:
  "\<exists>cs t'. mapM (sierra_create_contact sierra_server ''pw'') [a_draft, a_draft] sierra_seed = (Inr cs, t') \<and>
     distinct (map ct_crm_id cs) \<and> list_all2 drafted [a_draft, a_draft] cs"
proof -
  have "\<forall>d \<in> set [a_draft, a_draft]. given (cc_email d) \<noteq> None" by (simp add: a_draft_def given_def)
  then show ?thesis
    using created_contacts_stay [OF seeds_sound, of "''pw''" "[a_draft, a_draft]" "[]"] by (auto simp del: mapM.simps list_all2_Cons list_all2_Cons1)
qed

section \<open>What a lead id may do to a path\<close>

text \<open>A client that answers anything and keeps what it was asked.\<close>

definition recording :: "(pyv http_request \<Rightarrow> pyv http_response) \<Rightarrow> (pyv http_request list, pyv) http_client" where
  "recording f rq sent = (Inr (f rq), sent @ [rq])"

text \<open>The path, decoded, is one of the three routes of a lead, with the whole key as its one segment.\<close>

definition names_lead :: "string \<Rightarrow> pyv http_request \<Rightarrow> bool" where
  "names_lead key rq \<longleftrightarrow> (all_digits key \<or> email_segment key) \<and> CHR ''/'' \<notin> set key \<and>
     split_on CHR ''/'' (unquote (rq_path rq)) \<in>
       {[[], ''leads'', ''get'', key], [[], ''leads'', key, ''note''], [[], ''leads'', key, ''task'']}"

definition silent :: "('s, 'a) M \<Rightarrow> bool" where
  "silent m \<longleftrightarrow> (\<forall>s. snd (m s) = s)"

lemma quiet_bind: "silent m \<Longrightarrow> (\<And>a. silent (k a)) \<Longrightarrow> silent (bindM m k)"
  unfolding silent_def
proof
  fix s
  assume m: "\<forall>s. snd (m s) = s" and k: "\<And>a. \<forall>s. snd (k a s) = s"
  obtain r where "m s = (r, s)" using m by (metis prod.collapse)
  with k show "snd (bindM m k s) = s" by (cases r) (simp_all add: bindM_def)
qed

lemma quiet_rules [intro!]: "silent (ret a)" "silent (raise e)" "silent (liftE r)"
  by (cases r) (simp_all add: silent_def monad)

declare quiet_bind [intro!]

lemma liftE_Inr_bind: "bindM (liftE (Inr a)) k = k a"
  by (simp add: fun_eq_iff monad)

lemma quiet_after: "silent (k (f rq)) \<Longrightarrow> snd (bindM (recording f rq) k sent) = sent @ [rq]"
  by (simp add: recording_def monad silent_def)

lemma quiet_id_of: "silent (id_of v)"
  by (auto simp: id_of_def)

lemma lead_segment_names:
  assumes "lead_segment key = Inr segment"
  shows "names_lead key (http_get (''/leads/get/'' @ segment) [] [])"
    "names_lead key (http_post (''/leads/'' @ segment @ ''/note'') [] b)"
    "names_lead key (http_post (''/leads/'' @ segment @ ''/task'') [] b)"
proof -
  have "all_digits key \<or> email_segment key"
    using assms unfolding lead_segment_def by (metis sum.distinct(1))
  then show "names_lead key (http_get (''/leads/get/'' @ segment) [] [])"
    "names_lead key (http_post (''/leads/'' @ segment @ ''/note'') [] b)"
    "names_lead key (http_post (''/leads/'' @ segment @ ''/task'') [] b)"
    unfolding names_lead_def request_simps lead_path [OF assms]
    using lead_segment_decodes(2) [OF assms] by simp_all
qed

lemma note_confined: "list_all (names_lead key) (snd (sierra_note (recording f) key m []))"
proof (cases "lead_segment key")
  case (Inr segment)
  have "snd (sierra_note (recording f) key m []) = [http_post (''/leads/'' @ segment @ ''/note'') []
      (JsonBody (PDict [(''message'', PStr m)]))]"
    unfolding sierra_note_def Inr using quiet_id_of
    by (subst liftE_Inr_bind) (subst quiet_after, auto)
  then show ?thesis using lead_segment_names(2) [OF Inr] by (simp del: append_Cons append.simps)
qed (simp add: sierra_note_def monad)

lemma paths_confined:
  "list_all (names_lead key) (snd (sierra_get_contact (recording f) key []))"
  "list_all (names_lead key) (snd (sierra_add_note (recording f) key subject body []))"
  "list_all (names_lead key) (snd (sierra_log_call (recording f) key outcome note_text duration []))"
  "list_all (names_lead key) (snd (sierra_create_task sa (recording f) name due (Some key) []))"
proof -
  show "list_all (names_lead key) (snd (sierra_get_contact (recording f) key []))"
  proof (cases "lead_segment key")
    case (Inr segment)
    then have "snd (sierra_get_contact (recording f) key []) = [http_get (''/leads/get/'' @ segment) [] []]"
      unfolding sierra_get_contact_def Inr sum.case by (subst quiet_after) auto
    then show ?thesis using lead_segment_names(1) [OF Inr] by (simp del: append_Cons append.simps)
  qed (simp add: sierra_get_contact_def monad)
  show "list_all (names_lead key) (snd (sierra_add_note (recording f) key subject body []))"
    "list_all (names_lead key) (snd (sierra_log_call (recording f) key outcome note_text duration []))"
    unfolding sierra_add_note_def sierra_log_call_def Let_def by (rule note_confined)+
  show "list_all (names_lead key) (snd (sierra_create_task sa (recording f) name due (Some key) []))"
  proof (cases "lead_segment key")
    case (Inr segment)
    let ?b = "JsonBody (PDict [(''toUserId'', PInt (sa_assignee sa)), (''dueOn'', PStr (isoformat due @ ''T00:00:00Z'')),
       (''taskType'', PStr ''Other''), (''contents'', PStr name)])"
    have "snd (sierra_create_task sa (recording f) name due (Some key) []) =
        [http_post (''/leads/'' @ segment @ ''/task'') [] ?b]"
      unfolding sierra_create_task_def Let_def option.case Inr using quiet_id_of
      by (subst liftE_Inr_bind) (subst quiet_after, auto)
    then show ?thesis using lead_segment_names(3) [OF Inr] by (simp del: append_Cons append.simps)
  qed (simp add: sierra_create_task_def monad)
qed

text \<open>
  An id cannot rewrite the path of a request Sierra's key is sent with. Whatever a caller passes for the
  contact of a lookup, a note, a call or a task, and whatever the vendor answers, a request is sent only for
  a number or an email address, and the path it names decodes to one of a lead's three routes with the id,
  which holds no slash, as the lead's segment.
\<close>

theorem sierra_paths_confined:
  "list_all (names_lead key) (snd (sierra_get_contact (recording f) key [])) \<and>
   list_all (names_lead key) (snd (sierra_add_note (recording f) key subject body [])) \<and>
   list_all (names_lead key) (snd (sierra_log_call (recording f) key outcome note_text duration [])) \<and>
   list_all (names_lead key) (snd (sierra_create_task sa (recording f) name due (Some key) []))"
  by (intro conjI paths_confined)

end
