(* ===== verification/Drive.thy ===== *)
theory Drive
  imports Crm_Contract "HOL-Library.Multiset"
begin

text \<open>
  The Google Drive adapter (\<open>integrations/google_drive\<close>) and its stub. The authorization headers, refreshed
  when the token is no longer valid, come from the Google library and are an argument, as is the guess of a
  content type from a name, which reads the system's tables. The listing loop follows pages for as long as
  the server has one more; \<open>pages\<close> bounds how many are asked for, and asking for another one is the
  exception \<open>more_pages\<close>, which the code does not have.

  The properties, over the stub: the queries the adapter writes say what the stub reads, a listing is the
  whole folder whatever the page size, and a file that is put is in its folder from then on.
\<close>

section \<open>The adapter\<close>

definition drive_folder_mime :: string where
  "drive_folder_mime = ''application/vnd.google-apps.folder''"

definition invalid_file_ref :: exn where
  "invalid_file_ref = ProviderError ''TypeError'' ''int() argument must be a string or a number''"

text \<open>\<open>int(size)\<close> of a JSON value.\<close>

definition int_of_json :: "pyv \<Rightarrow> exn + int" where
  "int_of_json v =
     (case v of PInt i \<Rightarrow> Inr i | PBool b \<Rightarrow> Inr (if b then 1 else 0) | PStr s \<Rightarrow> py_int s | _ \<Rightarrow> Inl invalid_file_ref)"

definition file_ref_from_drive :: "pyv \<Rightarrow> exn + file_ref" where
  "file_ref_from_drive payload =
     thenE (get_key payload ''size'') (\<lambda>file_size.
     thenE (item_key payload ''id'') (\<lambda>i.
     thenE (get_default payload ''name'' (PStr [])) (\<lambda>name.
     thenE (get_default payload ''mimeType'' (PStr [])) (\<lambda>mime.
     thenE (if file_size = PNone then Inr None else thenE (int_of_json file_size) (\<lambda>n. Inr (Some n))) (\<lambda>bytes.
     thenE (get_default payload ''webViewLink'' (PStr [])) (\<lambda>url.
       Inr \<lparr>fr_file_id = py_str i, fr_name = py_str name, fr_mime_type = py_str mime, fr_size_bytes = bytes,
            fr_web_url = py_str url\<rparr>))))))"

text \<open>\<open>value.replace("\\", "\\\\").replace("'", "\\'")\<close>, character by character.\<close>

definition escape_char :: "char \<Rightarrow> string" where
  "escape_char c = (if c = CHR 0x5C \<or> c = CHR 0x27 then [CHR 0x5C, c] else [c])"

definition drive_escape :: "string \<Rightarrow> string" where
  "drive_escape s = concat (map escape_char s)"

definition drive_quoted :: "string \<Rightarrow> string" where
  "drive_quoted s = CHR 0x27 # drive_escape s @ [CHR 0x27]"

definition file_path :: "string \<Rightarrow> string" where
  "file_path file_id = quote file_id"

definition file_fields :: string where
  "file_fields = ''id,name,mimeType,size,webViewLink''"

type_synonym 's auth = "('s, (string \<times> string) list) M"

text \<open>The query parameters of one page.\<close>

definition page_params :: "string \<Rightarrow> string \<Rightarrow> string \<Rightarrow> pyv \<Rightarrow> (string \<times> string) list" where
  "page_params query wanted order_by page_token =
     [(''q'', query), (''fields'', ''nextPageToken,files('' @ wanted @ '')''), (''orderBy'', order_by), (''pageSize'', ''1000'')] @
     (if truthy page_token then [(''pageToken'', py_str page_token)] else [])"

definition more_pages :: exn where
  "more_pages = ProviderError ''Unfinished'' ''one more page''"

fun drive_search ::
    "nat \<Rightarrow> 's auth \<Rightarrow> ('s, pyv) http_client \<Rightarrow> string \<Rightarrow> string \<Rightarrow> string \<Rightarrow> pyv list \<Rightarrow> pyv \<Rightarrow> ('s, pyv list) M" where
  "drive_search 0 auth client query wanted order_by results page_token = raise more_pages"
| "drive_search (Suc pages) auth client query wanted order_by results page_token =
     bindM auth (\<lambda>headers.
     bindM (client (http_get ''/drive/v3/files'' (page_params query wanted order_by page_token) headers)) (\<lambda>response.
     bindM (checked_json response) (\<lambda>payload.
     bindM (liftE (get_default payload ''files'' (PList []))) (\<lambda>files.
     bindM (liftE (items_of files)) (\<lambda>items.
     bindM (liftE (get_key payload ''nextPageToken'')) (\<lambda>token.
       if truthy token then drive_search pages auth client query wanted order_by (results @ items) token
       else ret (results @ items)))))))"

record drive_config =
  dc_pages :: nat
  dc_root :: "string option"

definition folder_query :: "drive_config \<Rightarrow> string \<Rightarrow> string" where
  "folder_query dc folder =
     ''name = '' @ drive_quoted folder @ '' and mimeType = '' @ drive_quoted drive_folder_mime @ '' and trashed = false'' @
     (case given (dc_root dc) of Some folder \<Rightarrow> '' and '' @ drive_quoted folder @ '' in parents'' | None \<Rightarrow> [])"

text \<open>The oldest folder of that name; a warning about duplicates is logged.\<close>

definition find_folder_id :: "drive_config \<Rightarrow> 's auth \<Rightarrow> ('s, pyv) http_client \<Rightarrow> string \<Rightarrow> ('s, string option) M" where
  "find_folder_id dc auth client folder =
     bindM (drive_search (dc_pages dc) auth client (folder_query dc folder) ''id'' ''createdTime'' [] PNone) (\<lambda>matches.
     case matches of
       [] \<Rightarrow> ret None
     | m # ms \<Rightarrow> bindM (liftE (item_key m ''id'')) (\<lambda>i. ret (Some (py_str i))))"

definition create_folder :: "drive_config \<Rightarrow> 's auth \<Rightarrow> ('s, pyv) http_client \<Rightarrow> string \<Rightarrow> ('s, string) M" where
  "create_folder dc auth client folder =
     bindM auth (\<lambda>headers.
     bindM (client (http_post ''/drive/v3/files'' headers (JsonBody (PDict
         ([(''name'', PStr folder), (''mimeType'', PStr drive_folder_mime)] @
          (case given (dc_root dc) of Some folder \<Rightarrow> [(''parents'', PList [PStr folder])] | None \<Rightarrow> [])))) \<lparr>rq_params := [(''fields'', ''id'')]\<rparr>))
       (\<lambda>response.
     bindM (checked_json response) id_of))"

definition drive_list :: "drive_config \<Rightarrow> 's auth \<Rightarrow> ('s, pyv) http_client \<Rightarrow> string \<Rightarrow> ('s, file_ref list) M" where
  "drive_list dc auth client folder =
     bindM (find_folder_id dc auth client folder) (\<lambda>folder_id.
     case folder_id of
       None \<Rightarrow> ret []
     | Some i \<Rightarrow>
         bindM (drive_search (dc_pages dc) auth client (drive_quoted i @ '' in parents and trashed = false'') file_fields ''name'' [] PNone)
           (\<lambda>items. liftE (mapE file_ref_from_drive items)))"

definition drive_get :: "'s auth \<Rightarrow> ('s, pyv) http_client \<Rightarrow> string \<Rightarrow> ('s, file_ref option) M" where
  "drive_get auth client file_id =
     bindM auth (\<lambda>headers.
     bindM (client (http_get (''/drive/v3/files/'' @ file_path file_id) [(''fields'', file_fields)] headers)) (\<lambda>response.
     if rs_status response = 404 then ret None
     else bindM (checked_json response) (\<lambda>payload. bindM (liftE (file_ref_from_drive payload)) (\<lambda>f. ret (Some f)))))"

definition media_request :: "string \<Rightarrow> string \<Rightarrow> string \<Rightarrow> (string \<times> string) list \<Rightarrow> pyv http_request" where
  "media_request file_id content mime_type headers =
     \<lparr>rq_method = ''PATCH'', rq_path = ''/upload/drive/v3/files/'' @ file_path file_id,
      rq_params = [(''uploadType'', ''media''), (''fields'', file_fields)],
      rq_headers = headers @ [(''Content-Type'', mime_type)], rq_body = RawBody content\<rparr>"

definition drive_put ::
    "drive_config \<Rightarrow> (string \<Rightarrow> string option) \<Rightarrow> 's auth \<Rightarrow> ('s, pyv) http_client \<Rightarrow> string \<Rightarrow> string \<Rightarrow> string \<Rightarrow> ('s, file_ref) M" where
  "drive_put dc guess auth client name content folder =
     bindM (find_folder_id dc auth client folder) (\<lambda>found.
     bindM (case found of Some i \<Rightarrow> ret i | None \<Rightarrow> create_folder dc auth client folder) (\<lambda>folder_id.
     let mime_type = str_or (case guess name of Some g \<Rightarrow> g | None \<Rightarrow> []) ''application/octet-stream''
     in bindM auth (\<lambda>headers.
     bindM (client (http_post ''/drive/v3/files'' headers (JsonBody (PDict [(''name'', PStr name), (''parents'', PList [PStr folder_id]),
          (''mimeType'', PStr mime_type)])) \<lparr>rq_params := [(''fields'', ''id'')]\<rparr>)) (\<lambda>created.
     bindM (checked_json created) (\<lambda>body.
     bindM (id_of body) (\<lambda>file_id.
     bindM auth (\<lambda>fresh.
     bindM (client (media_request file_id content mime_type fresh)) (\<lambda>uploaded.
     bindM (checked_json uploaded) (\<lambda>payload. liftE (file_ref_from_drive payload))))))))))"

section \<open>The stub\<close>

record drive_node =
  nd_id :: string
  nd_name :: string
  nd_mime :: string
  nd_parents :: "string list"
  nd_content :: string
  nd_seq :: nat

record drive_stub =
  dr_nodes :: "(string, drive_node) dict"
  dr_next :: nat
  dr_seq :: nat

definition drive_id :: "nat \<Rightarrow> string" where
  "drive_id n = ''drive-'' @ zpad 4 n"

text \<open>A node with a given id, or with the next number.\<close>

definition add_node :: "string \<Rightarrow> string \<Rightarrow> string option \<Rightarrow> string \<Rightarrow> string option \<Rightarrow> (drive_stub, drive_node) M" where
  "add_node name mime_type parent content node_id s =
     (let i = (case given node_id of Some i \<Rightarrow> i | None \<Rightarrow> drive_id (dr_next s));
          n = \<lparr>nd_id = i, nd_name = name, nd_mime = mime_type,
               nd_parents = (case given parent of Some p \<Rightarrow> [p] | None \<Rightarrow> []), nd_content = content, nd_seq = dr_seq s\<rparr>
      in (Inr n, s\<lparr>dr_nodes := dict_set (dr_nodes s) i n,
                   dr_next := (if given node_id = None then dr_next s + 1 else dr_next s), dr_seq := dr_seq s + 1\<rparr>))"

definition node_payload :: "string \<Rightarrow> drive_node \<Rightarrow> pyv" where
  "node_payload view_base n =
     PDict ([(''id'', PStr (nd_id n)), (''name'', PStr (nd_name n)), (''mimeType'', PStr (nd_mime n)),
             (''webViewLink'', PStr (view_base @ ''/view/'' @ nd_id n))] @
            (if nd_mime n \<noteq> drive_folder_mime then [(''size'', PStr (show_nat (length (nd_content n))))] else []))"

text \<open>
  What \<open>((?:[^'\\]|\\.)*)'\<close> matches after an opening quote, with the rest; an escaped line break stops it.
\<close>

fun quoted_literal :: "string \<Rightarrow> (string \<times> string) option" where
  "quoted_literal [] = None"
| "quoted_literal [c] = (if c = CHR 0x27 then Some ([], []) else None)"
| "quoted_literal (c # d # s) =
     (if c = CHR 0x27 then Some ([], d # s)
      else if c = CHR 0x5C
      then (if d = CHR 0x0A then None else map_option (\<lambda>(a, b). (c # d # a, b)) (quoted_literal s))
      else map_option (\<lambda>(a, b). (c # a, b)) (quoted_literal (d # s)))"

text \<open>\<open>_NAME_QUERY.search\<close> and \<open>_PARENT_QUERY.search\<close>.\<close>

definition name_intro :: string where
  "name_intro = ''name = '' @ [CHR 0x27]"

definition parent_outro :: string where
  "parent_outro = '' in parents''"

fun find_name :: "string \<Rightarrow> string option" where
  "find_name [] = None"
| "find_name (c # s) =
     (if startswith (c # s) name_intro
      then (case quoted_literal (drop (length name_intro) (c # s)) of Some (lit, rest) \<Rightarrow> Some lit | None \<Rightarrow> find_name s)
      else find_name s)"

fun find_parent :: "string \<Rightarrow> string option" where
  "find_parent [] = None"
| "find_parent (c # s) =
     (if c = CHR 0x27
      then (case quoted_literal s of
              Some (lit, rest) \<Rightarrow> if startswith rest parent_outro then Some lit else find_parent s
            | None \<Rightarrow> find_parent s)
      else find_parent s)"

text \<open>\<open>value.replace("\\'", "'").replace("\\\\", "\\")\<close>.\<close>

fun replace_pair :: "char \<Rightarrow> char \<Rightarrow> string \<Rightarrow> string" where
  "replace_pair a b (c # d # s) = (if c = a \<and> d = b then b # replace_pair a b s else c # replace_pair a b (d # s))"
| "replace_pair a b s = s"

definition drive_unescape :: "string \<Rightarrow> string" where
  "drive_unescape s = replace_pair (CHR 0x5C) (CHR 0x5C) (replace_pair (CHR 0x5C) (CHR 0x27) s)"

text \<open>\<open>xs[a:b]\<close>.\<close>

definition py_slice :: "int \<Rightarrow> int \<Rightarrow> 'a list \<Rightarrow> 'a list" where
  "py_slice a b xs =
     (let n = int (length xs);
          norm = (\<lambda>i. if i < 0 then max 0 (n + i) else min n i)
      in take (nat (norm b - norm a)) (drop (nat (norm a)) xs))"

definition query_nodes :: "string \<Rightarrow> string \<Rightarrow> drive_stub \<Rightarrow> drive_node list" where
  "query_nodes q order_by s =
     (let found = dict_values (dr_nodes s);
          found = (case find_parent q of None \<Rightarrow> found
                   | Some lit \<Rightarrow> filter (\<lambda>n. drive_unescape lit \<in> set (nd_parents n)) found);
          found = (case find_name q of None \<Rightarrow> found | Some lit \<Rightarrow> filter (\<lambda>n. nd_name n = drive_unescape lit) found);
          found = (if contains drive_folder_mime q then filter (\<lambda>n. nd_mime n = drive_folder_mime) found else found)
      in if startswith order_by ''createdTime'' then sort_key nd_seq found else sort_key nd_name found)"

definition stub_page_size :: int where
  "stub_page_size = 2"

definition stub_list_files :: "string \<Rightarrow> (string \<times> string) list \<Rightarrow> (drive_stub, pyv http_response) M" where
  "stub_list_files view_base params =
     (case (case map_of params ''pageSize'' of None \<Rightarrow> Inr stub_page_size | Some v \<Rightarrow> py_int v) of
        Inl e \<Rightarrow> ret (detail 422 ''int_parsing'')
      | Inr page_size \<Rightarrow>
          bindM (gets (query_nodes (query_text params ''q'') (query_text params ''orderBy''))) (\<lambda>found.
          bindM (if query_text params ''pageToken'' = [] then ret 0 else liftE (py_int (query_text params ''pageToken''))) (\<lambda>offset.
          let limit = max 1 (min page_size stub_page_size)
          in ret (answer 200 (PDict ([(''files'', PList (map (node_payload view_base) (py_slice offset (offset + limit) found)))] @
               (if offset + limit < int (length found) then [(''nextPageToken'', PStr (show_int (offset + limit)))] else [])))))))"

definition create_file :: "string \<Rightarrow> pyv http_request \<Rightarrow> (drive_stub, pyv http_response) M" where
  "create_file view_base rq =
     object_body rq (\<lambda>body.
       let get = (\<lambda>k d. case map_of body k of None \<Rightarrow> d | Some v \<Rightarrow> v);
           parents = py_or (get ''parents'' PNone) (PList [])
       in bindM (if truthy parents then bindM (liftE (first_item parents)) (\<lambda>p. ret (Some (py_str p))) else ret None) (\<lambda>parent.
          bindM (add_node (py_str (get ''name'' (PStr []))) (py_str (get ''mimeType'' (PStr ''application/octet-stream''))) parent [] None)
            (\<lambda>n. ret (answer 200 (node_payload view_base n)))))"

definition upload_media :: "string \<Rightarrow> string \<Rightarrow> pyv http_request \<Rightarrow> (drive_stub, pyv http_response) M" where
  "upload_media view_base file_id rq =
     bindM (gets (\<lambda>s. dict_get (dr_nodes s) file_id)) (\<lambda>node.
     case node of
       None \<Rightarrow> ret (detail 404 ''file not found'')
     | Some n \<Rightarrow>
         (let m = n\<lparr>nd_content := (case rq_body rq of RawBody c \<Rightarrow> c | _ \<Rightarrow> [])\<rparr>
          in thenM (modify (\<lambda>s. s\<lparr>dr_nodes := dict_set (dr_nodes s) file_id m\<rparr>)) (ret (answer 200 (node_payload view_base m)))))"

definition drive_server :: "string \<Rightarrow> (drive_stub, pyv) http_client" where
  "drive_server view_base rq = serve
     (let parts = split_on CHR ''/'' (unquote (rq_path rq))
      in if parts = [[], ''drive'', ''v3'', ''files'']
         then (if rq_method rq = ''GET'' then stub_list_files view_base (rq_params rq)
               else if rq_method rq = ''POST'' then create_file view_base rq else ret (detail 405 ''Method Not Allowed''))
         else if length parts = 5 \<and> take 4 parts = [[], ''drive'', ''v3'', ''files''] \<and> parts ! 4 \<noteq> [] \<and> rq_method rq = ''GET''
         then bindM (gets (\<lambda>s. dict_get (dr_nodes s) (parts ! 4))) (\<lambda>node. ret (case node of
                None \<Rightarrow> detail 404 ''file not found'' | Some n \<Rightarrow> answer 200 (node_payload view_base n)))
         else if length parts = 6 \<and> take 5 parts = [[], ''upload'', ''drive'', ''v3'', ''files''] \<and> parts ! 5 \<noteq> [] \<and> rq_method rq = ''PATCH''
         then upload_media view_base (parts ! 5) rq
         else ret (detail 404 ''Not Found''))"

section \<open>Queries\<close>

lemma escape_Cons: "drive_escape (c # s) = escape_char c @ drive_escape s"
  by (simp add: drive_escape_def)

lemma escape_Nil [simp]: "drive_escape [] = []"
  by (simp add: drive_escape_def)

lemma quoted_step: "c \<noteq> CHR 0x27 \<Longrightarrow> c \<noteq> CHR 0x5C \<Longrightarrow> quoted_literal (c # s) = map_option (\<lambda>(a, b). (c # a, b)) (quoted_literal s)"
  by (cases s) auto

lemma quoted_end [simp]: "quoted_literal (CHR 0x27 # r) = Some ([], r)"
  by (cases r) auto

lemma quoted_escape: "quoted_literal (drive_escape x @ CHR 0x27 # r) = Some (drive_escape x, r)"
proof (induction x)
  case (Cons c x)
  then show ?case by (cases "c = CHR 0x5C \<or> c = CHR 0x27") (auto simp: escape_Cons escape_char_def quoted_step)
qed simp

lemma quoted_plain:
  "\<forall>c \<in> set p. c \<noteq> CHR 0x27 \<and> c \<noteq> CHR 0x5C \<Longrightarrow> quoted_literal (p @ CHR 0x27 # r) = Some (p, r)"
  by (induction p) (auto simp: quoted_step)

lemma quoted_open: "\<forall>c \<in> set p. c \<noteq> CHR 0x27 \<and> c \<noteq> CHR 0x5C \<Longrightarrow> quoted_literal p = None"
  by (induction p) (auto simp: quoted_step)

lemma replace_pair_skip: "c \<noteq> a \<Longrightarrow> replace_pair a b (c # s) = c # replace_pair a b s"
  by (cases s) auto

text \<open>Unescaping takes the quotes out first, which leaves every backslash doubled.\<close>

definition doubled :: "string \<Rightarrow> string" where
  "doubled s = concat (map (\<lambda>c. if c = CHR 0x5C then [c, c] else [c]) s)"

lemma doubled_Cons: "doubled (c # s) = (if c = CHR 0x5C then [c, c] else [c]) @ doubled s"
  by (simp add: doubled_def)

lemma unquotes: "replace_pair (CHR 0x5C) (CHR 0x27) (drive_escape x) = doubled x"
proof (induction x)
  case (Cons c x)
  have "drive_escape x = [] \<or> hd (drive_escape x) \<noteq> CHR 0x27"
    by (cases x) (auto simp: escape_Cons escape_char_def)
  then have "replace_pair (CHR 0x5C) (CHR 0x27) (CHR 0x5C # CHR 0x5C # drive_escape x) =
      CHR 0x5C # CHR 0x5C # replace_pair (CHR 0x5C) (CHR 0x27) (drive_escape x)"
    by (cases "drive_escape x") auto
  with Cons show ?case by (auto simp: escape_Cons escape_char_def doubled_Cons replace_pair_skip)
qed (simp add: doubled_def)

lemma halves: "replace_pair (CHR 0x5C) (CHR 0x5C) (doubled x) = x"
  by (induction x) (auto simp: doubled_Cons replace_pair_skip, simp add: doubled_def)

lemma unescape_escape [simp]: "drive_unescape (drive_escape x) = x"
  by (simp add: drive_unescape_def unquotes halves)

text \<open>An id a query may carry as it is.\<close>

definition plain_id :: "string \<Rightarrow> bool" where
  "plain_id i \<longleftrightarrow> i \<noteq> [] \<and> list_all unreserved i"

lemma plain_chars: "plain_id i \<Longrightarrow> c \<in> set i \<Longrightarrow> c \<notin> {CHR 0x27, CHR 0x5C, CHR '' '', CHR ''='', CHR ''/'', CHR ''%''}"
  by (auto simp: plain_id_def list_all_iff unreserved_def)

lemma plain_escape [simp]: "plain_id i \<Longrightarrow> drive_escape i = i"
proof -
  have "list_all unreserved i \<Longrightarrow> drive_escape i = i"
    by (induction i) (auto simp: escape_Cons escape_char_def unreserved_def)
  then show "plain_id i \<Longrightarrow> drive_escape i = i" by (simp add: plain_id_def)
qed

lemma plain_quote [simp]: "plain_id i \<Longrightarrow> quote i = i"
proof -
  have "list_all unreserved i \<Longrightarrow> quote i = i" by (induction i) (simp_all add: quote_def)
  then show "plain_id i \<Longrightarrow> quote i = i" by (simp add: plain_id_def)
qed

lemma drive_id_plain [simp]: "plain_id (drive_id n)"
  by (auto simp: plain_id_def drive_id_def unreserved_def list_all_iff is_digit_def Let_def dest!: zpad_digits)

text \<open>Looking for a parent skips what holds no quote, and a quoted name whatever it is.\<close>

lemma find_parent_plain: "CHR 0x27 \<notin> set p \<Longrightarrow> find_parent (p @ r) = find_parent r"
  by (induction p) auto

lemma find_parent_none: "CHR 0x27 \<notin> set p \<Longrightarrow> find_parent p = None"
  by (induction p) auto

lemma find_parent_escaped:
  assumes "\<not> startswith r parent_outro"
  shows "find_parent (drive_escape x @ CHR 0x27 # r) = find_parent (CHR 0x27 # r)"
proof (induction x)
  case (Cons c x)
  then show ?case using assms quoted_escape [of x r]
    by (cases "c = CHR 0x5C \<or> c = CHR 0x27") (auto simp: escape_Cons escape_char_def)
qed simp

lemma find_parent_at:
  "quoted_literal s = Some (lit, rest) \<Longrightarrow> find_parent (CHR 0x27 # s) = (if startswith rest parent_outro then Some lit else find_parent s)"
  by simp

lemma mime_chars: "c \<in> set drive_folder_mime \<Longrightarrow> c \<noteq> CHR 0x27 \<and> c \<noteq> CHR 0x5C"
  by (auto simp: drive_folder_mime_def)

lemma mime_escape [simp]: "drive_escape drive_folder_mime = drive_folder_mime"
  by (simp add: drive_folder_mime_def drive_escape_def escape_char_def)

text \<open>The folder query: its name, its parent if it has one, and the folder type.\<close>

definition mime_part :: string where
  "mime_part = '' and mimeType = ''"

definition trashed_part :: string where
  "trashed_part = '' and trashed = false''"

definition root_part :: "string option \<Rightarrow> string" where
  "root_part anchor = (case anchor of Some r \<Rightarrow> '' and '' @ drive_quoted r @ parent_outro | None \<Rightarrow> [])"

lemma folder_query_parts:
  "folder_query dc folder =
     name_intro @ drive_escape folder @ CHR 0x27 # mime_part @ CHR 0x27 # drive_folder_mime @ CHR 0x27 # trashed_part @
     root_part (given (dc_root dc))"
  by (simp add: folder_query_def name_intro_def drive_quoted_def mime_part_def trashed_part_def root_part_def parent_outro_def
      split: option.splits)

lemma part_chars: "CHR 0x27 \<notin> set mime_part" "CHR 0x27 \<notin> set trashed_part" "CHR 0x5C \<notin> set mime_part"
  "CHR 0x5C \<notin> set trashed_part" "\<not> startswith (mime_part @ t) parent_outro" "\<not> startswith (trashed_part @ t) parent_outro"
  "\<not> startswith (drive_folder_mime @ t) parent_outro"
  by (simp_all add: mime_part_def trashed_part_def parent_outro_def drive_folder_mime_def)

lemma find_name_folder: "find_name (folder_query dc folder) = Some (drive_escape folder)"
proof -
  let ?r = "mime_part @ CHR 0x27 # drive_folder_mime @ CHR 0x27 # trashed_part @ root_part (given (dc_root dc))"
  have q: "folder_query dc folder = name_intro @ drive_escape folder @ CHR 0x27 # ?r" by (simp add: folder_query_parts)
  obtain c s where s: "name_intro @ drive_escape folder @ CHR 0x27 # ?r = c # s" "name_intro \<noteq> []"
    by (cases "name_intro @ drive_escape folder @ CHR 0x27 # ?r") (auto simp: name_intro_def)
  have "startswith (c # s) name_intro" unfolding s(1) [symmetric] by (auto simp: startswith_iff)
  moreover have "drop (length name_intro) (c # s) = drive_escape folder @ CHR 0x27 # ?r"
    unfolding s(1) [symmetric] by simp
  ultimately show ?thesis unfolding q s(1) by (simp only: find_name.simps if_True quoted_escape) simp
qed

lemma find_parent_folder:
  assumes root: "given (dc_root dc) = None \<or> (\<exists>r. given (dc_root dc) = Some r \<and> plain_id r)"
  shows "find_parent (folder_query dc folder) = given (dc_root dc)"
proof -
  let ?root = "root_part (given (dc_root dc))"
  let ?t = "trashed_part @ ?root" let ?m = "drive_folder_mime @ CHR 0x27 # ?t" let ?r = "mime_part @ CHR 0x27 # ?m"
  have intro: "name_intro = ''name = '' @ [CHR 0x27]" "CHR 0x27 \<notin> set ''name = ''" by (simp_all add: name_intro_def)
  have "find_parent (folder_query dc folder) = find_parent (CHR 0x27 # drive_escape folder @ CHR 0x27 # ?r)"
    unfolding folder_query_parts intro(1) append_assoc find_parent_plain [OF intro(2)] by simp
  also have "\<dots> = find_parent (drive_escape folder @ CHR 0x27 # ?r)"
    using find_parent_at [OF quoted_escape [of folder ?r]] part_chars(5) by (simp only: if_False)
  also have "\<dots> = find_parent (CHR 0x27 # ?r)" by (rule find_parent_escaped) (rule part_chars(5))
  also have "\<dots> = find_parent ?r"
  proof -
    have "quoted_literal ?r = Some (mime_part, ?m)" using part_chars(1,3) by (intro quoted_plain) metis
    from find_parent_at [OF this] part_chars(7) show ?thesis by (simp only: if_False)
  qed
  also have "\<dots> = find_parent (CHR 0x27 # ?m)" by (rule find_parent_plain) (rule part_chars(1))
  also have "\<dots> = find_parent ?m"
  proof -
    have "quoted_literal ?m = Some (drive_folder_mime, ?t)" using mime_chars by (intro quoted_plain) blast
    from find_parent_at [OF this] part_chars(6) show ?thesis by (simp only: if_False)
  qed
  also have "\<dots> = find_parent (CHR 0x27 # ?t)" using mime_chars by (intro find_parent_plain) blast
  also have "\<dots> = given (dc_root dc)"
  proof (cases "given (dc_root dc)")
    case None
    then have t: "?t = trashed_part" by (simp add: root_part_def)
    have "quoted_literal trashed_part = None" using part_chars(2,4) by (intro quoted_open) metis
    with None find_parent_none [OF part_chars(2)] show ?thesis unfolding t by simp
  next
    case (Some r)
    then have r: "plain_id r" using root by simp
    have open_root: "?t = (trashed_part @ '' and '') @ CHR 0x27 # r @ CHR 0x27 # parent_outro"
      using Some r by (simp add: root_part_def drive_quoted_def)
    have "\<forall>c \<in> set (trashed_part @ '' and ''). c \<noteq> CHR 0x27 \<and> c \<noteq> CHR 0x5C" by (simp add: trashed_part_def)
    note lit = quoted_plain [OF this, of "r @ CHR 0x27 # parent_outro"]
    have "\<not> startswith (r @ CHR 0x27 # parent_outro) parent_outro"
      using r plain_chars [OF r, of "hd r"] by (cases r) (auto simp: parent_outro_def plain_id_def)
    then have "find_parent (CHR 0x27 # ?t) = find_parent ?t"
      using find_parent_at [OF lit] unfolding open_root by (simp only: if_False)
    also have "\<dots> = find_parent (CHR 0x27 # r @ CHR 0x27 # parent_outro)"
      unfolding open_root by (rule find_parent_plain) (simp add: trashed_part_def)
    also have "\<dots> = Some r"
    proof -
      have "quoted_literal (r @ CHR 0x27 # parent_outro) = Some (r, parent_outro)"
        using plain_chars [OF r] by (intro quoted_plain) blast
      from find_parent_at [OF this] show ?thesis by (simp add: startswith_iff)
    qed
    finally show ?thesis using Some by simp
  qed
  finally show ?thesis .
qed

text \<open>The query for a folder's files.\<close>

definition files_query :: "string \<Rightarrow> string" where
  "files_query i = drive_quoted i @ '' in parents and trashed = false''"

lemma files_query_parts: "plain_id i \<Longrightarrow> files_query i = CHR 0x27 # i @ CHR 0x27 # parent_outro @ trashed_part"
  by (simp add: files_query_def drive_quoted_def parent_outro_def trashed_part_def)

lemma find_parent_files: "plain_id i \<Longrightarrow> find_parent (files_query i) = Some i"
proof -
  assume i: "plain_id i"
  have "quoted_literal (i @ CHR 0x27 # parent_outro @ trashed_part) = Some (i, parent_outro @ trashed_part)"
    using plain_chars [OF i] by (intro quoted_plain) blast
  from find_parent_at [OF this] i show ?thesis by (simp add: files_query_parts startswith_iff)
qed

lemma find_name_contains: "find_name s = Some lit \<Longrightarrow> contains name_intro s"
  by (induction s) (auto split: if_splits)

lemma contains_apart: "set sub \<inter> set p = {} \<Longrightarrow> sub \<noteq> [] \<Longrightarrow> contains sub (p @ r) = contains sub r"
  by (induction p) (cases sub; auto)+

lemma files_query_other:
  assumes "plain_id i"
  shows "find_name (files_query i) = None" "\<not> contains drive_folder_mime (files_query i)"
proof -
  let ?gap = "[CHR '' '', CHR 0x27]"
  have tail: "\<not> contains ?gap (CHR 0x27 # parent_outro @ trashed_part)" by (simp add: parent_outro_def trashed_part_def)
  have "contains ?gap (p @ CHR 0x27 # t) = contains ?gap (CHR 0x27 # t)" if "CHR '' '' \<notin> set p" for p t
    using that by (induction p) auto
  from this [of i "parent_outro @ trashed_part"] plain_chars [OF assms] tail
  have "\<not> contains ?gap (files_query i)" by (auto simp: files_query_parts [OF assms])
  moreover have "contains name_intro s \<Longrightarrow> contains ?gap s" for s
  proof -
    assume "contains name_intro s"
    then obtain a b where "s = a @ name_intro @ b" by (auto simp: contains_iff)
    then have "s = (a @ ''name ='') @ ?gap @ b" by (simp add: name_intro_def)
    then show "contains ?gap s" unfolding contains_iff by blast
  qed
  ultimately show "find_name (files_query i) = None" using find_name_contains by (cases "find_name (files_query i)") auto
  show "\<not> contains drive_folder_mime (files_query i)"
  proof
    assume "contains drive_folder_mime (files_query i)"
    then obtain a b where "files_query i = a @ drive_folder_mime @ b" by (auto simp: contains_iff)
    then have "CHR ''/'' \<in> set (files_query i)" by (simp add: drive_folder_mime_def)
    with plain_chars [OF assms] show False by (auto simp: files_query_parts [OF assms] parent_outro_def trashed_part_def)
  qed
qed

section \<open>What the stub finds\<close>

definition folders_named :: "string option \<Rightarrow> string \<Rightarrow> drive_stub \<Rightarrow> drive_node list" where
  "folders_named anchor folder s =
     filter (\<lambda>n. nd_name n = folder \<and> nd_mime n = drive_folder_mime \<and>
       (case anchor of None \<Rightarrow> True | Some r \<Rightarrow> r \<in> set (nd_parents n))) (dict_values (dr_nodes s))"

definition files_in :: "string \<Rightarrow> drive_stub \<Rightarrow> drive_node list" where
  "files_in i s = filter (\<lambda>n. i \<in> set (nd_parents n)) (dict_values (dr_nodes s))"

definition good_root :: "drive_config \<Rightarrow> bool" where
  "good_root dc \<longleftrightarrow> (case given (dc_root dc) of None \<Rightarrow> True | Some r \<Rightarrow> plain_id r)"

lemma folder_query_finds:
  assumes "good_root dc"
  shows "query_nodes (folder_query dc folder) ''createdTime'' s = sort_key nd_seq (folders_named (given (dc_root dc)) folder s)"
proof -
  have "given (dc_root dc) = None \<or> (\<exists>r. given (dc_root dc) = Some r \<and> plain_id r)"
    using assms by (simp add: good_root_def split: option.splits)
  note parent = find_parent_folder [OF this, of folder]
  have mime: "contains drive_folder_mime (folder_query dc folder)"
  proof -
    have "folder_query dc folder = (name_intro @ drive_escape folder @ CHR 0x27 # mime_part @ [CHR 0x27]) @ drive_folder_mime @
        (CHR 0x27 # trashed_part @ root_part (given (dc_root dc)))" by (simp add: folder_query_parts)
    then show ?thesis unfolding contains_iff by blast
  qed
  have lit: "drive_unescape r = r" if "given (dc_root dc) = Some r" for r
    using assms that unescape_escape [of r] plain_escape [of r] by (simp add: good_root_def)
  show ?thesis
    unfolding query_nodes_def Let_def parent find_name_folder folders_named_def using mime
    by (cases "given (dc_root dc)") (simp_all add: lit conj_commute conj_left_commute)
qed

lemma files_query_finds:
  "plain_id i \<Longrightarrow> query_nodes (files_query i) ''name'' s = sort_key nd_name (files_in i s)"
  using unescape_escape [of i] plain_escape [of i]
  by (simp add: query_nodes_def find_parent_files files_query_other files_in_def)

section \<open>Pages\<close>

lemma slice_page: "py_slice (int k) (int k + 2) xs = take 2 (drop k xs)"
proof -
  have "int k + 2 = int (k + 2)" by simp
  moreover have "nat (int a - int b) = a - b" for a b by simp
  ultimately have "py_slice (int k) (int k + 2) xs = take (min (length xs) (k + 2) - min (length xs) k) (drop (min (length xs) k) xs)"
    unfolding py_slice_def Let_def by (simp only: of_nat_min [symmetric] nat_int of_nat_less_0_iff if_False)
  then show ?thesis by (cases "k \<le> length xs") (simp_all add: min_def)
qed

definition page_token :: "nat \<Rightarrow> pyv" where
  "page_token k = (if k = 0 then PNone else PStr (show_nat k))"

lemma files_route: "split_on CHR ''/'' (unquote ''/drive/v3/files'') = [[], ''drive'', ''v3'', ''files'']"
  by code_simp

lemma page_size_read: "py_int ''1000'' = Inr 1000"
  by code_simp

lemma page_served:
  "drive_server view_base (http_get ''/drive/v3/files'' (page_params q w ord (page_token k)) headers) s =
     (Inr (answer 200 (PDict ([(''files'', PList (map (node_payload view_base) (take 2 (drop k (query_nodes q ord s)))))] @
        (if k + 2 < length (query_nodes q ord s) then [(''nextPageToken'', page_token (k + 2))] else [])))), s)"
proof -
  let ?p = "page_params q w ord (page_token k)"
  have params: "map_of ?p ''pageSize'' = Some ''1000''" "query_text ?p ''q'' = q" "query_text ?p ''orderBy'' = ord"
    "query_text ?p ''pageToken'' = (if k = 0 then [] else show_nat k)"
    by (auto simp: page_params_def page_token_def query_text_def)
  have more: "int k + 2 < int n \<longleftrightarrow> k + 2 < n" for n by linarith
  have token: "PStr (show_int (int k + 2)) = page_token (k + 2)"
  proof -
    have "int k + 2 = int (k + 2)" by simp
    then show ?thesis by (simp only: show_int_nat page_token_def) simp
  qed
  have offset: "(if (if k = 0 then [] else show_nat k) = [] then ret 0 else liftE (py_int (if k = 0 then [] else show_nat k))) = ret (int k)"
    by (cases "k = 0") (simp_all add: py_int_digits fun_eq_iff monad)
  have limit: "max 1 (min 1000 stub_page_size) = 2" by (simp add: stub_page_size_def)
  have "stub_list_files view_base ?p s = (Inr (answer 200 (PDict ([(''files'', PList (map (node_payload view_base) (take 2 (drop k (query_nodes q ord s)))))] @
        (if k + 2 < length (query_nodes q ord s) then [(''nextPageToken'', page_token (k + 2))] else [])))), s)"
    unfolding stub_list_files_def params page_size_read option.case sum.case offset limit Let_def
    by (simp only: bindM_def gets_def ret_def sum.case prod.case slice_page more token)
  then show ?thesis unfolding drive_server_def request_simps files_route Let_def by (simp add: serve_def monad)
qed

lemma search_pages:
  "length (query_nodes q ord s) \<le> k + 2 * pages \<Longrightarrow> 0 < pages \<Longrightarrow>
     drive_search pages (ret headers) (drive_server view_base) q w ord results (page_token k) s =
       (Inr (results @ map (node_payload view_base) (drop k (query_nodes q ord s))), s)"
proof (induction pages arbitrary: k results)
  case (Suc pages)
  let ?found = "query_nodes q ord s"
  have split: "drop k ?found = take 2 (drop k ?found) @ drop (k + 2) ?found"
    using append_take_drop_id [of 2 "drop k ?found"] by (simp add: add.commute)
  show ?case
  proof (cases "k + 2 < length ?found")
    case True
    then have "drive_search pages (ret headers) (drive_server view_base) q w ord (results @ map (node_payload view_base) (take 2 (drop k ?found)))
        (page_token (k + 2)) s = (Inr ((results @ map (node_payload view_base) (take 2 (drop k ?found))) @
          map (node_payload view_base) (drop (k + 2) ?found)), s)"
      using Suc.prems by (intro Suc.IH) auto
    moreover have "truthy (page_token (k + 2))" by (simp add: page_token_def)
    ultimately show ?thesis using True
      by (subst split) (simp add: page_served checked_json_def monad items_of_def del: drop_drop)
  next
    case False
    then show ?thesis by (subst split) (simp add: page_served checked_json_def monad items_of_def)
  qed
qed simp

section \<open>Listing\<close>

definition node_ref :: "string \<Rightarrow> drive_node \<Rightarrow> file_ref" where
  "node_ref view_base n =
     \<lparr>fr_file_id = nd_id n, fr_name = nd_name n, fr_mime_type = nd_mime n,
      fr_size_bytes = (if nd_mime n = drive_folder_mime then None else Some (int (length (nd_content n)))),
      fr_web_url = view_base @ ''/view/'' @ nd_id n\<rparr>"

lemma reads_node [simp]: "file_ref_from_drive (node_payload view_base n) = Inr (node_ref view_base n)"
  by (simp add: file_ref_from_drive_def node_payload_def node_ref_def int_of_json_def py_int_digits)

lemma reads_nodes [simp]: "mapE (file_ref_from_drive \<circ> node_payload view_base) ns = Inr (map (node_ref view_base) ns)"
  by (induction ns) simp_all

lemma mapE_map: "mapE f (map g xs) = mapE (f \<circ> g) xs"
  by (induction xs) (simp_all split: sum.splits)

text \<open>The oldest folder of a name, and all that is in it.\<close>

definition oldest_folder :: "drive_config \<Rightarrow> string \<Rightarrow> drive_stub \<Rightarrow> string option" where
  "oldest_folder dc folder s =
     (case sort_key nd_seq (folders_named (given (dc_root dc)) folder s) of [] \<Rightarrow> None | f # fs \<Rightarrow> Some (nd_id f))"

definition folder_listing :: "string \<Rightarrow> drive_config \<Rightarrow> string \<Rightarrow> drive_stub \<Rightarrow> file_ref list" where
  "folder_listing view_base dc folder s =
     (case oldest_folder dc folder s of
        None \<Rightarrow> []
      | Some i \<Rightarrow> map (node_ref view_base) (sort_key nd_name (files_in i s)))"

definition ids_plain :: "drive_stub \<Rightarrow> bool" where
  "ids_plain s \<longleftrightarrow> (\<forall>n \<in> set (dict_values (dr_nodes s)). plain_id (nd_id n))"

definition enough_pages :: "drive_config \<Rightarrow> drive_stub \<Rightarrow> bool" where
  "enough_pages dc s \<longleftrightarrow> length (dr_nodes s) \<le> 2 * dc_pages dc \<and> 0 < dc_pages dc"

lemma found_length: "length (query_nodes q ord s) \<le> length (dr_nodes s)"
proof -
  have "length (filter P (dict_values (dr_nodes s))) \<le> length (dr_nodes s)" for P
    using length_filter_le [of P "dict_values (dr_nodes s)"] by (simp add: dict_values_def)
  then show ?thesis
    by (auto simp: query_nodes_def Let_def dict_values_def split: option.splits intro: order_trans [OF length_filter_le])
qed

lemma search_all:
  assumes "enough_pages dc s"
  shows "drive_search (dc_pages dc) (ret headers) (drive_server view_base) q w ord [] PNone s =
    (Inr (map (node_payload view_base) (query_nodes q ord s)), s)"
  using search_pages [of q ord s 0 "dc_pages dc" headers view_base w "[]"] assms found_length [of q ord s]
  by (simp add: enough_pages_def page_token_def)

lemma item_id [simp]: "item_key (node_payload view_base n) ''id'' = Inr (PStr (nd_id n))"
  by (simp add: node_payload_def)

lemma folder_found:
  assumes "good_root dc" "enough_pages dc s"
  shows "find_folder_id dc (ret headers) (drive_server view_base) folder s = (Inr (oldest_folder dc folder s), s)"
  by (simp add: find_folder_id_def bindM_def search_all [OF assms(2)] folder_query_finds [OF assms(1)] oldest_folder_def
      monad split: list.splits)

lemma oldest_in: "oldest_folder dc folder s = Some i \<Longrightarrow> \<exists>n \<in> set (dict_values (dr_nodes s)). nd_id n = i"
proof -
  assume "oldest_folder dc folder s = Some i"
  then obtain f fs where "sort_key nd_seq (folders_named (given (dc_root dc)) folder s) = f # fs" "nd_id f = i"
    by (auto simp: oldest_folder_def split: list.splits)
  then have "f \<in> set (folders_named (given (dc_root dc)) folder s)" by (metis list.set_intros(1) set_sort)
  with \<open>nd_id f = i\<close> show ?thesis by (auto simp: folders_named_def)
qed

lemma lists_folder:
  assumes "good_root dc" "enough_pages dc s" "ids_plain s"
  shows "drive_list dc (ret headers) (drive_server view_base) folder s = (Inr (folder_listing view_base dc folder s), s)"
proof (cases "oldest_folder dc folder s")
  case None
  then show ?thesis by (simp add: drive_list_def bindM_def folder_found [OF assms(1,2)] folder_listing_def monad)
next
  case (Some i)
  then have "plain_id i" using oldest_in [OF Some] assms(3) by (auto simp: ids_plain_def)
  from files_query_finds [OF this] Some show ?thesis
    by (simp add: drive_list_def bindM_def folder_found [OF assms(1,2)] folder_listing_def files_query_def [symmetric]
        search_all [OF assms(2)] mapE_map monad)
qed

section \<open>Putting a file\<close>

definition new_node :: "string \<Rightarrow> string \<Rightarrow> string option \<Rightarrow> drive_stub \<Rightarrow> drive_node" where
  "new_node name mime parent s =
     \<lparr>nd_id = drive_id (dr_next s), nd_name = name, nd_mime = mime,
      nd_parents = (case parent of Some p \<Rightarrow> [p] | None \<Rightarrow> []), nd_content = [], nd_seq = dr_seq s\<rparr>"

definition with_node :: "drive_node \<Rightarrow> drive_stub \<Rightarrow> drive_stub" where
  "with_node n s = s\<lparr>dr_nodes := dict_set (dr_nodes s) (nd_id n) n, dr_next := dr_next s + 1, dr_seq := dr_seq s + 1\<rparr>"

lemma create_served:
  assumes "map_of es ''name'' = Some (PStr name)" "map_of es ''mimeType'' = Some (PStr mime)"
    "map_of es ''parents'' = (case parent of None \<Rightarrow> None | Some p \<Rightarrow> Some (PList [PStr p]))" "given parent = parent"
  shows "drive_server view_base (http_post ''/drive/v3/files'' h (JsonBody (PDict es)) \<lparr>rq_params := ps\<rparr>) s =
    (Inr (answer 200 (node_payload view_base (new_node name mime parent s))), with_node (new_node name mime parent s) s)"
proof -
  have request: "rq_path (http_post p h b \<lparr>rq_params := ps\<rparr>) = p" "rq_method (http_post p h b \<lparr>rq_params := ps\<rparr>) = ''POST''"
    "rq_body (http_post p h b \<lparr>rq_params := ps\<rparr>) = b" for p h and b :: "pyv http_body" and ps
    by (simp_all add: http_post_def)
  have "given None = None" by (simp add: given_def)
  then show ?thesis unfolding drive_server_def request files_route Let_def
    using assms by (cases parent) (simp_all add: serve_def create_file_def object_body_def request add_node_def monad new_node_def
        with_node_def Let_def)
qed

lemma upload_route:
  "plain_id i \<Longrightarrow> split_on CHR ''/'' (unquote (''/upload/drive/v3/files/'' @ file_path i)) =
     [[], ''upload'', ''drive'', ''v3'', ''files'', i]"
proof -
  assume i: "plain_id i"
  have apart: "CHR ''/'' \<notin> set []" "CHR ''/'' \<notin> set ''upload''" "CHR ''/'' \<notin> set ''drive''" "CHR ''/'' \<notin> set ''v3''"
    "CHR ''/'' \<notin> set ''files''" "CHR ''/'' \<notin> set i" using plain_chars [OF i] by auto
  have "CHR ''%'' \<notin> set (''/upload/drive/v3/files/'' @ i)" using plain_chars [OF i] by auto
  from unquote_apart [OF this, of "[]"] i
  have "unquote (''/upload/drive/v3/files/'' @ file_path i) = ''/upload/drive/v3/files/'' @ i"
    by (simp add: file_path_def del: unquote.simps(1))
  also have "\<dots> = [] @ CHR ''/'' # ''upload'' @ CHR ''/'' # ''drive'' @ CHR ''/'' # ''v3'' @ CHR ''/'' # ''files'' @ CHR ''/'' # i"
    by simp
  finally show ?thesis
    by (simp only: split_on_first [OF apart(1)] split_on_first [OF apart(2)] split_on_first [OF apart(3)]
        split_on_first [OF apart(4)] split_on_first [OF apart(5)] split_on_last [OF apart(6)])
qed

lemma upload_served:
  assumes "plain_id i" "dict_get (dr_nodes s) i = Some n"
  shows "drive_server view_base (media_request i content mime h) s =
    (Inr (answer 200 (node_payload view_base (n\<lparr>nd_content := content\<rparr>))),
     s\<lparr>dr_nodes := dict_set (dr_nodes s) i (n\<lparr>nd_content := content\<rparr>)\<rparr>)"
proof -
  have request: "rq_path (media_request i content mime h) = ''/upload/drive/v3/files/'' @ file_path i"
    "rq_method (media_request i content mime h) = ''PATCH''" "rq_body (media_request i content mime h) = RawBody content"
    by (simp_all add: media_request_def)
  have "i \<noteq> []" using assms(1) by (simp add: plain_id_def)
  then show ?thesis unfolding drive_server_def request upload_route [OF assms(1)] Let_def
    using assms(2) by (simp add: serve_def upload_media_def request monad Let_def)
qed

text \<open>
  A drive whose ids are numbered: nothing names a node that is still to come, and the nodes' order is their
  age.
\<close>

definition not_yet :: "drive_stub \<Rightarrow> string \<Rightarrow> bool" where
  "not_yet s i \<longleftrightarrow> (\<exists>j \<ge> dr_next s. i = drive_id j)"

definition drive_sound :: "drive_stub \<Rightarrow> bool" where
  "drive_sound s \<longleftrightarrow> ids_plain s \<and> (\<forall>k \<in> fst ` set (dr_nodes s). \<not> not_yet s k) \<and>
     (\<forall>n \<in> set (dict_values (dr_nodes s)). \<not> not_yet s (nd_id n) \<and> (\<forall>p \<in> set (nd_parents n). \<not> not_yet s p))"

lemma drive_id_inject [simp]: "drive_id m = drive_id n \<longleftrightarrow> m = n"
  by (simp add: drive_id_def)

lemma next_id_new: "not_yet s (drive_id (dr_next s))"
  by (auto simp: not_yet_def)

lemma fresh_node:
  assumes "drive_sound s"
  shows "dict_get (dr_nodes s) (drive_id (dr_next s)) = None"
    "dict_set (dr_nodes s) (drive_id (dr_next s)) n = dr_nodes s @ [(drive_id (dr_next s), n)]"
proof -
  have "drive_id (dr_next s) \<notin> fst ` set (dr_nodes s)" using assms next_id_new [of s] by (auto simp: drive_sound_def)
  then show fresh: "dict_get (dr_nodes s) (drive_id (dr_next s)) = None" by (simp add: dict_get_def map_of_eq_None_iff)
  show "dict_set (dr_nodes s) (drive_id (dr_next s)) n = dr_nodes s @ [(drive_id (dr_next s), n)]"
    using append_fresh [OF fresh, of n] by simp
qed

lemma with_node_values:
  "drive_sound s \<Longrightarrow> dict_values (dr_nodes (with_node (new_node name mime parent s) s)) =
     dict_values (dr_nodes s) @ [new_node name mime parent s]"
  by (simp add: with_node_def new_node_def fresh_node dict_values_def)

lemma with_node_sound:
  assumes "drive_sound s" "case parent of None \<Rightarrow> True | Some p \<Rightarrow> \<not> not_yet s p"
  shows "drive_sound (with_node (new_node name mime parent s) s)"
proof -
  have later: "\<not> not_yet (with_node n s) i" if "\<not> not_yet s i" for n i
    using that by (auto simp: not_yet_def with_node_def)
  have now: "\<not> not_yet (with_node n s) (drive_id (dr_next s))" for n by (auto simp: not_yet_def with_node_def)
  have keys: "fst ` set (dr_nodes (with_node (new_node name mime parent s) s)) = insert (drive_id (dr_next s)) (fst ` set (dr_nodes s))"
    using assms(1) by (simp add: with_node_def new_node_def fresh_node)
  show ?thesis
    unfolding drive_sound_def ids_plain_def keys with_node_values [OF assms(1)]
    using assms later now by (auto simp: drive_sound_def ids_plain_def new_node_def split: option.splits)
qed

lemma new_name: "nd_name (new_node name mime parent s) = name" "nd_mime (new_node name mime parent s) = mime"
  "nd_id (new_node name mime parent s) = drive_id (dr_next s)" "nd_seq (new_node name mime parent s) = dr_seq s"
  "nd_parents (new_node name mime parent s) = (case parent of Some p \<Rightarrow> [p] | None \<Rightarrow> [])"
  by (simp_all add: new_node_def)

text \<open>The two requests that put a file: its row, then its bytes.\<close>

definition stored_file :: "string \<Rightarrow> string \<Rightarrow> string \<Rightarrow> string \<Rightarrow> drive_stub \<Rightarrow> drive_node" where
  "stored_file name mime content folder_id s = new_node name mime (Some folder_id) s\<lparr>nd_content := content\<rparr>"

definition with_file :: "drive_node \<Rightarrow> drive_stub \<Rightarrow> drive_stub" where
  "with_file n s = s\<lparr>dr_nodes := dr_nodes s @ [(nd_id n, n)], dr_next := dr_next s + 1, dr_seq := dr_seq s + 1\<rparr>"

lemma id_of_node: "id_of (node_payload view_base n) s = (Inr (nd_id n), s)"
  by (simp add: id_of_def monad)

lemma puts_in:
  assumes "drive_sound s" "folder_id \<noteq> []"
    and found: "bindM (find_folder_id dc (ret h) (drive_server vb) folder) (\<lambda>found.
       case found of Some i \<Rightarrow> ret i | None \<Rightarrow> create_folder dc (ret h) (drive_server vb) folder) s0 = (Inr folder_id, s)"
    and mime: "mime = str_or (case guess name of Some g \<Rightarrow> g | None \<Rightarrow> []) ''application/octet-stream''"
  shows "drive_put dc guess (ret h) (drive_server vb) name content folder s0 =
    (Inr (node_ref vb (stored_file name mime content folder_id s)), with_file (stored_file name mime content folder_id s) s)"
proof -
  let ?n = "new_node name mime (Some folder_id) s" let ?s = "with_node ?n s" let ?i = "drive_id (dr_next s)"
  have "given (Some folder_id) = Some folder_id" using assms(2) by (simp add: given_def)
  then have row: "drive_server vb (http_post ''/drive/v3/files'' h (JsonBody (PDict [(''name'', PStr name),
      (''parents'', PList [PStr folder_id]), (''mimeType'', PStr mime)])) \<lparr>rq_params := [(''fields'', ''id'')]\<rparr>) s =
      (Inr (answer 200 (node_payload vb ?n)), ?s)"
    by (intro create_served) simp_all
  have "dict_get (dr_nodes ?s) ?i = Some ?n" by (simp add: with_node_def new_name)
  note bytes = upload_served [OF drive_id_plain this, of vb content mime h]
  have upd: "dict_set (d @ [(i, x)]) i y = d @ [(i, y)]" if "i \<notin> fst ` set d" for d :: "(string, drive_node) dict" and i x y
    using that by (induction d) (auto simp: dict_set_def)
  have "?i \<notin> fst ` set (dr_nodes s)" using fresh_node(1) [OF assms(1)] by (simp add: dict_get_def map_of_eq_None_iff)
  then have "?s\<lparr>dr_nodes := dict_set (dr_nodes ?s) ?i (?n\<lparr>nd_content := content\<rparr>)\<rparr> =
      with_file (stored_file name mime content folder_id s) s"
    by (simp add: with_node_def new_name fresh_node [OF assms(1)] upd with_file_def stored_file_def)
  with bytes have bytes': "drive_server vb (media_request ?i content mime h) ?s =
      (Inr (answer 200 (node_payload vb (stored_file name mime content folder_id s))), with_file (stored_file name mime content folder_id s) s)"
    by (simp add: stored_file_def)
  obtain f t where first: "find_folder_id dc (ret h) (drive_server vb) folder s0 = (Inr f, t)"
    "(case f of Some i \<Rightarrow> ret i | None \<Rightarrow> create_folder dc (ret h) (drive_server vb) folder) t = (Inr folder_id, s)"
    using found by (auto simp: bindM_def split: prod.splits sum.splits)
  show ?thesis
    unfolding drive_put_def Let_def mime [symmetric]
    by (simp add: monad first row checked_json_def id_of_node new_name bytes')
qed

lemma with_file_values: "dict_values (dr_nodes (with_file n s)) = dict_values (dr_nodes s) @ [n]"
  by (simp add: with_file_def dict_values_def)

lemma with_file_sound:
  assumes "drive_sound s" "\<not> not_yet s p"
  shows "drive_sound (with_file (stored_file name mime content p s) s)"
proof -
  have later: "\<not> not_yet (with_file n s) i" if "\<not> not_yet s i" for n i
    using that by (auto simp: not_yet_def with_file_def)
  have now: "\<not> not_yet (with_file n s) (drive_id (dr_next s))" for n by (auto simp: not_yet_def with_file_def)
  have id: "nd_id (stored_file name mime content p s) = drive_id (dr_next s)"
    "nd_parents (stored_file name mime content p s) = [p]" by (simp_all add: stored_file_def new_node_def)
  have keys: "fst ` set (dr_nodes (with_file (stored_file name mime content p s) s)) =
      insert (drive_id (dr_next s)) (fst ` set (dr_nodes s))" by (simp add: with_file_def id)
  show ?thesis
    unfolding drive_sound_def ids_plain_def keys with_file_values
    using assms later now by (auto simp: drive_sound_def ids_plain_def id)
qed

lemma folders_after_file:
  "mime \<noteq> drive_folder_mime \<Longrightarrow>
     oldest_folder dc folder (with_file (stored_file name mime content p s) s) = oldest_folder dc folder s"
  by (simp add: oldest_folder_def folders_named_def with_file_values stored_file_def new_node_def)

text \<open>The folder a file is put in: the oldest of that name, or a new one, which is then the oldest.\<close>

definition anchored :: "drive_config \<Rightarrow> drive_stub \<Rightarrow> bool" where
  "anchored dc s \<longleftrightarrow> good_root dc \<and> (case given (dc_root dc) of None \<Rightarrow> True | Some r \<Rightarrow> \<not> not_yet s r)"

definition put_folder :: "drive_config \<Rightarrow> string \<Rightarrow> drive_stub \<Rightarrow> string \<times> drive_stub" where
  "put_folder dc folder s =
     (case oldest_folder dc folder s of
        Some i \<Rightarrow> (i, s)
      | None \<Rightarrow> (drive_id (dr_next s), with_node (new_node folder drive_folder_mime (given (dc_root dc)) s) s))"

lemma given_given [simp]: "given (given v) = given v"
  by (simp add: given_def split: option.splits)

lemma folder_ready:
  assumes "anchored dc s" "enough_pages dc s"
  shows "bindM (find_folder_id dc (ret h) (drive_server vb) folder) (\<lambda>found.
       case found of Some i \<Rightarrow> ret i | None \<Rightarrow> create_folder dc (ret h) (drive_server vb) folder) s =
    (Inr (fst (put_folder dc folder s)), snd (put_folder dc folder s))"
proof (cases "oldest_folder dc folder s")
  case None
  let ?b = "[(''name'', PStr folder), (''mimeType'', PStr drive_folder_mime)] @
     (case given (dc_root dc) of Some r \<Rightarrow> [(''parents'', PList [PStr r])] | None \<Rightarrow> [])"
  have "drive_server vb (http_post ''/drive/v3/files'' h (JsonBody (PDict ?b)) \<lparr>rq_params := [(''fields'', ''id'')]\<rparr>) s =
      (Inr (answer 200 (node_payload vb (new_node folder drive_folder_mime (given (dc_root dc)) s))),
       with_node (new_node folder drive_folder_mime (given (dc_root dc)) s) s)"
    by (rule create_served) (auto split: option.splits)
  then show ?thesis using None assms
    by (simp add: bindM_def folder_found anchored_def create_folder_def put_folder_def monad checked_json_def id_of_node new_name)
next
  case (Some i)
  with assms show ?thesis by (simp add: bindM_def folder_found anchored_def put_folder_def monad)
qed

lemma put_folder_sound:
  assumes "drive_sound s" "anchored dc s" "put_folder dc folder s = (i, t)"
  shows "drive_sound t" "\<not> not_yet t i" "plain_id i" "oldest_folder dc folder t = Some i"
    "folder_listing vb dc folder t = folder_listing vb dc folder s" "length (dr_nodes t) \<le> Suc (length (dr_nodes s))"
proof -
  have all: "drive_sound t \<and> \<not> not_yet t i \<and> plain_id i \<and> oldest_folder dc folder t = Some i \<and>
      folder_listing vb dc folder t = folder_listing vb dc folder s \<and> length (dr_nodes t) \<le> Suc (length (dr_nodes s))"
  proof (cases "oldest_folder dc folder s")
    case (Some j)
    then obtain n where "n \<in> set (dict_values (dr_nodes s))" "nd_id n = j" using oldest_in by blast
    with Some assms show ?thesis by (auto simp: put_folder_def drive_sound_def ids_plain_def dict_values_def)
  next
    case None
    let ?n = "new_node folder drive_folder_mime (given (dc_root dc)) s"
    have t: "i = drive_id (dr_next s)" "t = with_node ?n s" using None assms(3) by (simp_all add: put_folder_def)
    note vals = with_node_values [OF assms(1), of folder drive_folder_mime "given (dc_root dc)"]
    have "folders_named (given (dc_root dc)) folder s = []"
      using None by (simp add: oldest_folder_def split: list.splits) (metis set_empty set_sort)
    then have "folders_named (given (dc_root dc)) folder t = [?n]"
      unfolding folders_named_def t(2) vals by (simp add: new_name split: option.splits)
    then have "oldest_folder dc folder t = Some i" by (simp add: oldest_folder_def t(1) new_name)
    moreover have "files_in i t = []"
    proof -
      have "i \<notin> set (nd_parents n)" if "n \<in> set (dict_values (dr_nodes s))" for n
        using assms(1) that next_id_new [of s] by (auto simp: drive_sound_def t(1))
      moreover have "i \<notin> set (nd_parents ?n)"
        using assms(2) next_id_new [of s] by (auto simp: new_name t(1) anchored_def split: option.splits)
      ultimately show ?thesis unfolding files_in_def t(2) vals by (simp add: filter_empty_conv)
    qed
    ultimately have "folder_listing vb dc folder t = folder_listing vb dc folder s" "oldest_folder dc folder t = Some i"
      using None by (simp_all add: folder_listing_def)
    moreover have "drive_sound t" unfolding t(2)
      using assms(2) by (intro with_node_sound assms(1)) (simp add: anchored_def)
    moreover have "\<not> not_yet t i" by (auto simp: not_yet_def t with_node_def)
    ultimately show ?thesis using fresh_node(2) [OF assms(1), of ?n] by (simp add: t with_node_def new_name)
  qed
  then show "drive_sound t" "\<not> not_yet t i" "plain_id i" "oldest_folder dc folder t = Some i"
    "folder_listing vb dc folder t = folder_listing vb dc folder s" "length (dr_nodes t) \<le> Suc (length (dr_nodes s))"
    by blast+
qed

lemma put_listed:
  assumes "drive_sound s" "anchored dc s" "length (dr_nodes s) + 2 \<le> 2 * dc_pages dc"
    and mime: "mime = str_or (case guess name of Some g \<Rightarrow> g | None \<Rightarrow> []) ''application/octet-stream''"
    and "mime \<noteq> drive_folder_mime"
  shows "\<exists>ref s'. drive_put dc guess (ret h) (drive_server vb) name content folder s = (Inr ref, s') \<and>
     fr_name ref = name \<and> fr_mime_type ref = mime \<and> fr_size_bytes ref = Some (int (length content)) \<and>
     mset (folder_listing vb dc folder s') = add_mset ref (mset (folder_listing vb dc folder s)) \<and>
     drive_sound s' \<and> length (dr_nodes s') \<le> length (dr_nodes s) + 2"
proof -
  obtain i t where t: "put_folder dc folder s = (i, t)" by (cases "put_folder dc folder s")
  note folder = put_folder_sound [OF assms(1,2) t]
  let ?n = "stored_file name mime content i t" let ?s = "with_file ?n t"
  have "enough_pages dc s" using assms(3) by (simp add: enough_pages_def)
  from folder_ready [OF assms(2) this, of h vb folder] t
  have "drive_put dc guess (ret h) (drive_server vb) name content folder s = (Inr (node_ref vb ?n), ?s)"
    using folder(1,3) mime by (intro puts_in) (auto simp: plain_id_def)
  moreover have "fr_name (node_ref vb ?n) = name" "fr_mime_type (node_ref vb ?n) = mime"
    "fr_size_bytes (node_ref vb ?n) = Some (int (length content))"
    using assms(5) by (simp_all add: node_ref_def stored_file_def new_node_def)
  moreover have "mset (folder_listing vb dc folder ?s) = add_mset (node_ref vb ?n) (mset (folder_listing vb dc folder s))"
  proof -
    have "files_in i ?s = files_in i t @ [?n]" by (simp add: files_in_def with_file_values stored_file_def new_node_def)
    then show ?thesis
      using folder(4) folders_after_file [OF assms(5), of dc folder name content i t]
      unfolding folder(5) [of vb, symmetric] unfolding folder_listing_def by simp
  qed
  moreover have "drive_sound ?s" using folder(1,2) by (rule with_file_sound)
  moreover have "length (dr_nodes ?s) \<le> length (dr_nodes s) + 2" using folder(6) by (simp add: with_file_def)
  ultimately show ?thesis by blast
qed

end
