(* ===== verification/Ses.thy ===== *)
theory Ses
  imports Wire
begin

text \<open>
  \<open>integrations/email_ses\<close>: Signature Version 4 down to the bytes, the adapter that signs a send and the
  stub that derives the signature again from the request it received. \<open>json.loads\<close> is a parameter; a
  byte of a character beyond ASCII is no digit. The properties: the stub authenticates exactly what an adapter with
  the same keys signed, and stores the email it was asked to send; a request that is not signed changes
  nothing.
\<close>

section \<open>HMAC-SHA-256\<close>

definition four_bytes :: "u32 \<Rightarrow> nat list" where
  "four_bytes x = map (\<lambda>i. unat (drop_bit (8 * (3 - i)) x AND 255)) [0..<4]"

definition sha256 :: "nat list \<Rightarrow> nat list" where
  "sha256 bs =
     (let ws = be_words (sha_pad bs)
      in concat (map four_bytes (foldl sha_block sha_h0 (blocks16 (length ws div 16) ws))))"

definition hmac_sha256 :: "nat list \<Rightarrow> nat list \<Rightarrow> nat list" where
  "hmac_sha256 k m =
     (let k0 = (if 64 < length k then sha256 k else k); k' = k0 @ replicate (64 - length k0) 0
      in sha256 (map (\<lambda>b. b XOR 0x5C) k' @ sha256 (map (\<lambda>b. b XOR 0x36) k' @ m)))"

definition hex_digest :: "nat list \<Rightarrow> string" where
  "hex_digest bs = concat (map (\<lambda>b. [hex_digit (b div 16), hex_digit (b mod 16)]) bs)"

definition text_bytes :: "string \<Rightarrow> nat list" where
  "text_bytes s = map of_char s"

section \<open>The signature\<close>

definition sigv4_algorithm :: string where
  "sigv4_algorithm = ''AWS4-HMAC-SHA256''"

definition ses_service :: "string list" where
  "ses_service = [''ses'', ''aws4_request'']"

text \<open>\<open>headers[name]\<close> raises when a signed header is not there.\<close>

definition canonical_headers :: "(string \<times> string) list \<Rightarrow> string list \<Rightarrow> exn + string" where
  "canonical_headers headers names =
     map_sum id concat
       (mapE (\<lambda>name. case map_of headers name of
                None \<Rightarrow> Inl (KeyError name) | Some v \<Rightarrow> Inr (name @ '':'' @ strip v @ [CHR 0x0A])) names)"

definition canonical_request :: "string \<Rightarrow> string \<Rightarrow> string \<Rightarrow> string list \<Rightarrow> string \<Rightarrow> string" where
  "canonical_request verb path canonical names body =
     join [CHR 0x0A] [verb, path, [], canonical, join '';'' names, hex_digest (sha256 (text_bytes body))]"

definition credential_scope :: "string \<Rightarrow> string \<Rightarrow> string" where
  "credential_scope amz_date region = take 8 amz_date @ ''/'' @ region @ ''/ses/aws4_request''"

definition string_to_sign :: "string \<Rightarrow> string \<Rightarrow> string \<Rightarrow> string" where
  "string_to_sign amz_date region request =
     join [CHR 0x0A] [sigv4_algorithm, amz_date, credential_scope amz_date region,
       hex_digest (sha256 (text_bytes request))]"

definition signing_key :: "string \<Rightarrow> string \<Rightarrow> string \<Rightarrow> nat list" where
  "signing_key secret amz_date region =
     foldl (\<lambda>k part. hmac_sha256 k (text_bytes part)) (text_bytes (''AWS4'' @ secret))
       ([take 8 amz_date, region] @ ses_service)"

definition sigv4_signature ::
    "string \<Rightarrow> string \<Rightarrow> string \<Rightarrow> (string \<times> string) list \<Rightarrow> string list \<Rightarrow> string \<Rightarrow> string \<Rightarrow> string \<Rightarrow> exn + string" where
  "sigv4_signature secret verb path headers names body amz_date region =
     thenE (canonical_headers headers names) (\<lambda>canonical.
       Inr (hex_digest (hmac_sha256 (signing_key secret amz_date region)
         (text_bytes (string_to_sign amz_date region (canonical_request verb path canonical names body))))))"

section \<open>The adapter\<close>

record ses_config =
  sc_key_id :: string
  sc_secret :: string
  sc_from :: string
  sc_region :: string
  sc_host :: string

definition send_email_path :: string where
  "send_email_path = ''/v2/email/outbound-emails''"

text \<open>\<open>datetime.now(UTC).strftime("%Y%m%dT%H%M%SZ")\<close>.\<close>

definition amz_date_of :: "instant \<Rightarrow> string" where
  "amz_date_of t =
     (let s = t div 1000000; r = s mod 86400
      in case ord_ymd (s div 86400 + 1) of (y, m, d) \<Rightarrow>
           zpad 4 (nat y) @ zpad 2 m @ zpad 2 d @ ''T'' @ zpad 2 (nat (r div 3600)) @
           zpad 2 (nat (r div 60 mod 60)) @ zpad 2 (nat (r mod 60)) @ ''Z'')"

definition email_payload :: "string \<Rightarrow> message \<Rightarrow> pyv" where
  "email_payload sender m =
     PDict [(''FromEmailAddress'', PStr sender),
            (''Destination'', PDict [(''ToAddresses'', PList [PStr (msg_recipient m)])]),
            (''Content'', PDict [(''Simple'',
               PDict [(''Subject'', PDict [(''Data'', PStr (msg_subject m)), (''Charset'', PStr ''UTF-8'')]),
                      (''Body'', PDict [(''Text'',
                         PDict [(''Data'', PStr (msg_body m)), (''Charset'', PStr ''UTF-8'')])])])])]"

definition signed_names :: "string list" where
  "signed_names = [''content-type'', ''host'', ''x-amz-date'']"

definition authorization :: "string \<Rightarrow> string \<Rightarrow> string \<Rightarrow> string list \<Rightarrow> string \<Rightarrow> string" where
  "authorization key_id amz_date region names signature =
     sigv4_algorithm @ '' Credential='' @ key_id @ ''/'' @ credential_scope amz_date region @
     '', SignedHeaders='' @ join '';'' names @ '', Signature='' @ signature"

definition signed_headers :: "ses_config \<Rightarrow> instant \<Rightarrow> string \<Rightarrow> exn + (string \<times> string) list" where
  "signed_headers sc now body =
     (let amz_date = amz_date_of now;
          headers = [(''content-type'', ''application/json''), (''host'', sc_host sc), (''x-amz-date'', amz_date)]
      in thenE (sigv4_signature (sc_secret sc) ''POST'' send_email_path headers signed_names body amz_date (sc_region sc))
           (\<lambda>signature. Inr (headers @
             [(''authorization'', authorization (sc_key_id sc) amz_date (sc_region sc) signed_names signature)])))"

text \<open>\<open>raw.split(":")[0].split("#")[-1] or "UnknownError"\<close>.\<close>

definition error_type :: "pyv http_response \<Rightarrow> string" where
  "error_type r =
     (let raw = (case header (rs_headers r) ''x-amzn-ErrorType'' of None \<Rightarrow> [] | Some v \<Rightarrow> v)
      in str_or (after_last CHR ''#'' (takeWhile (\<lambda>c. c \<noteq> CHR '':'') raw)) ''UnknownError'')"

definition http_status_text :: "'j http_response \<Rightarrow> string" where
  "http_status_text r = ''HTTP '' @ show_nat (rs_status r)"

definition error_message :: "pyv http_response \<Rightarrow> string" where
  "error_message r =
     (case rs_body r of
        Some (PDict es) \<Rightarrow>
          (case filter (\<lambda>v. truthy v)
                  (map (\<lambda>k. case map_of es k of None \<Rightarrow> PNone | Some v \<Rightarrow> v) [''message'', ''Message'']) of
             v # vs \<Rightarrow> py_str v
           | [] \<Rightarrow> http_status_text r)
      | _ \<Rightarrow> http_status_text r)"

text \<open>\<open>SESApiError\<close> is a \<open>RuntimeError\<close>.\<close>

definition ses_api_error :: "pyv http_response \<Rightarrow> exn" where
  "ses_api_error r =
     RuntimeError (''SES API error '' @ show_nat (rs_status r) @ '' ('' @ error_type r @ ''): '' @ error_message r)"

definition ses_send :: "ses_config \<Rightarrow> ('s, pyv) http_client \<Rightarrow> instant \<Rightarrow> message \<Rightarrow> ('s, string) M" where
  "ses_send sc client now m =
     (if msg_channel m \<noteq> Email
      then raise (ValueError (''SES sends email only, not '' @ py_repr (channel_value (msg_channel m)) @ '' messages''))
      else let body = json_text (email_payload (sc_from sc) m)
           in bindM (liftE (signed_headers sc now body)) (\<lambda>headers.
              bindM (client (http_post send_email_path headers (RawBody body))) (\<lambda>response.
              if 300 \<le> rs_status response then raise (ses_api_error response)
              else bindM (json_of response) (\<lambda>answer.
                   bindM (liftE (item_key answer ''MessageId'')) (\<lambda>i. ret (py_str i))))))"

section \<open>The stub\<close>

record ses_stub =
  ss_sent :: "(string, pyv) dict"
  ss_next :: nat

record stub_account =
  sk_key_id :: string
  sk_secret :: string
  sk_verified :: "string list"

definition ses_error :: "nat \<Rightarrow> string \<Rightarrow> string \<Rightarrow> pyv http_response" where
  "ses_error status kind m =
     \<lparr>rs_status = status, rs_headers = [(''x-amzn-ErrorType'', kind)], rs_body = Some (PDict [(''message'', PStr m)])\<rparr>"

text \<open>\<open>dict(part.split("=", 1) for part in ... if "=" in part)\<close>: the last of equal names counts.\<close>

definition authorization_parts :: "string \<Rightarrow> (string \<times> string) list" where
  "authorization_parts credentials = rev (List.map_filter (cut ''='') (split_text '', '' credentials))"

definition part :: "(string \<times> string) list \<Rightarrow> string \<Rightarrow> string" where
  "part parts k = (case map_of parts k of None \<Rightarrow> [] | Some v \<Rightarrow> v)"

text \<open>
  \<open>_CREDENTIAL_RE\<close>: five parts between slashes, the key id, eight digits, the region, the service and the
  terminator, which a final line break may follow.
\<close>

definition credential_of :: "string \<Rightarrow> (string \<times> string) option" where
  "credential_of text =
     (case split_on CHR ''/'' text of
        [key_id, date, region, service, last_part] \<Rightarrow>
          if key_id \<noteq> [] \<and> length date = 8 \<and> list_all is_digit date \<and> region \<noteq> [] \<and> service = ''ses'' \<and>
             (last_part = ''aws4_request'' \<or> last_part = ''aws4_request'' @ [CHR 0x0A])
          then Some (key_id, region) else None
      | _ \<Rightarrow> None)"

definition header_or_empty :: "(string \<times> string) list \<Rightarrow> string \<Rightarrow> string" where
  "header_or_empty hs name = (case header hs name of None \<Rightarrow> [] | Some v \<Rightarrow> v)"

definition raw_body :: "'j http_request \<Rightarrow> string" where
  "raw_body rq = (case rq_body rq of RawBody b \<Rightarrow> b | _ \<Rightarrow> [])"

definition ascii_text :: "string \<Rightarrow> bool" where
  "ascii_text s \<longleftrightarrow> list_all (\<lambda>c. (of_char c :: nat) < 128) s"

definition signature_mismatch :: string where
  "signature_mismatch =
     ''The request signature we calculated does not match the signature you provided. Check your AWS Secret Access Key and signing method.''"

definition missing_parameters :: string where
  "missing_parameters =
     ''Authorization header requires existence of 'Credential', 'SignedHeaders', and 'Signature' parameters and an X-Amz-Date header.''"

text \<open>\<open>_verify_sigv4\<close> once the header is taken apart; \<open>None\<close> is an authenticated request.\<close>

definition check_signature ::
    "stub_account \<Rightarrow> pyv http_request \<Rightarrow> (string \<times> string) list \<Rightarrow> exn + pyv http_response option" where
  "check_signature sk rq parts =
     (let names = filter (\<lambda>n. n \<noteq> []) (split_on CHR '';'' (part parts ''SignedHeaders''));
          claimed = part parts ''Signature''; amz_date = header_or_empty (rq_headers rq) ''x-amz-date''
      in case credential_of (part parts ''Credential'') of
           None \<Rightarrow> Inr (Some (ses_error 403 ''IncompleteSignatureException'' missing_parameters))
         | Some (key_id, region) \<Rightarrow>
             if names = [] \<or> claimed = [] \<or> amz_date = []
             then Inr (Some (ses_error 403 ''IncompleteSignatureException'' missing_parameters))
             else if key_id \<noteq> sk_key_id sk
             then Inr (Some (ses_error 403 ''UnrecognizedClientException''
               ''The security token included in the request is invalid.''))
             else thenE (sigv4_signature (sk_secret sk) (rq_method rq) (rq_path rq)
                    (map (\<lambda>n. (n, header_or_empty (rq_headers rq) n)) names) names (raw_body rq) amz_date region)
                    (\<lambda>expected.
                      if \<not> ascii_text claimed
                      then Inl (ProviderError ''TypeError''
                        ''comparing strings with non-ASCII characters is not supported'')
                      else if expected = claimed then Inr None
                      else Inr (Some (ses_error 403 ''InvalidSignatureException'' signature_mismatch))))"

definition verify_sigv4 :: "stub_account \<Rightarrow> pyv http_request \<Rightarrow> exn + pyv http_response option" where
  "verify_sigv4 sk rq =
     (let given = header_or_empty (rq_headers rq) ''authorization''; pre = sigv4_algorithm @ '' ''
      in if startswith given pre then check_signature sk rq (authorization_parts (drop (length pre) given))
         else Inr (Some (ses_error 403 ''MissingAuthenticationTokenException'' ''Missing Authentication Token'')))"

definition not_verified :: "string \<Rightarrow> string" where
  "not_verified sender =
     ''Email address is not verified. The following identities failed the check in region US-WEST-2: '' @ sender"

definition missing_fields :: string where
  "missing_fields = ''FromEmailAddress and Destination are required''"

text \<open>The body of an accepted request: the sender must be a verified address or of a verified domain.\<close>

definition accept_email ::
    "stub_account \<Rightarrow> pyv \<Rightarrow> ses_stub \<Rightarrow> (exn + pyv http_response) \<times> ses_stub" where
  "accept_email sk payload =
     bindM (liftE (get_key payload ''FromEmailAddress'')) (\<lambda>from.
     bindM (liftE (get_key payload ''Destination'')) (\<lambda>destination.
     bindM (liftE (get_key (py_or destination (PDict [])) ''ToAddresses'')) (\<lambda>to.
       let sender = py_str (py_or from (PStr [])); recipients = py_or to (PList []);
           domain = lower (after_last CHR ''@'' sender)
       in if sender = [] \<or> \<not> truthy recipients
          then ret (ses_error 400 ''BadRequestException'' missing_fields)
          else if lower sender \<notin> set (sk_verified sk) \<and> domain \<notin> set (sk_verified sk)
          then ret (ses_error 400 ''MessageRejected'' (not_verified sender))
          else (\<lambda>s. let i = ''0100019'' @ hex_pad 9 (ss_next s) @ ''-ses-stub''
                    in (Inr (answer 200 (PDict [(''MessageId'', PStr i)])),
                        s\<lparr>ss_sent := dict_set (ss_sent s) i payload, ss_next := ss_next s + 1\<rparr>)))))"

definition ses_server ::
    "stub_account \<Rightarrow> (string \<Rightarrow> pyv option) \<Rightarrow> (ses_stub, pyv) http_client" where
  "ses_server sk loads rq =
     (if rq_method rq \<noteq> ''POST'' \<or> rq_path rq \<noteq> send_email_path then ret (answer 404 (PDict [(''detail'', PStr ''Not Found'')]))
      else bindM (liftE (verify_sigv4 sk rq)) (\<lambda>denied.
           case denied of
             Some response \<Rightarrow> ret response
           | None \<Rightarrow>
               (case loads (raw_body rq) of
                  None \<Rightarrow> ret (ses_error 400 ''BadRequestException'' ''Malformed request body'')
                | Some payload \<Rightarrow> accept_email sk payload)))"

section \<open>Dates of four-digit years\<close>

lemma month_day_range:
  "n < sum_list ls \<Longrightarrow> \<forall>l \<in> set ls. l \<le> 31 \<Longrightarrow>
     fst (month_day ls m n) < m + length ls \<and> snd (month_day ls m n) \<le> 31"
proof (induction ls m n rule: month_day.induct)
  case (2 l ls m n)
  show ?case
  proof (cases "n < l")
    case True
    with 2 show ?thesis by auto
  next
    case False
    with 2 have "fst (month_day ls (m + 1) (n - l)) < m + 1 + length ls \<and> snd (month_day ls (m + 1) (n - l)) \<le> 31"
      by (intro "2.IH") auto
    with False show ?thesis by simp
  qed
qed simp

lemma year_range:
  fixes n :: int
  assumes "0 \<le> n" "n \<le> 3652058"
  defines "a \<equiv> n div 146097" and "r \<equiv> n mod 146097"
  defines "b \<equiv> r div 36524" and "s \<equiv> r mod 36524"
  defines "c \<equiv> s div 1461" and "t \<equiv> s mod 1461"
  defines "d \<equiv> t div 365"
  shows "0 \<le> a * 400 + b * 100 + c * 4 + d" "a * 400 + b * 100 + c * 4 + d \<le> 9998"
proof -
  have n: "n = 146097 * a + r" "0 \<le> r" "r < 146097" "0 \<le> a" unfolding a_def r_def using assms(1) by simp_all
  have r: "r = 36524 * b + s" "0 \<le> s" "s < 36524" "0 \<le> b" unfolding b_def s_def using n(2) by simp_all
  have s: "s = 1461 * c + t" "0 \<le> t" "t < 1461" "0 \<le> c" unfolding c_def t_def using r(2) by simp_all
  have t: "365 * d \<le> t" "t < 365 * d + 365" "0 \<le> d" unfolding d_def using s(2) by simp_all
  show "0 \<le> a * 400 + b * 100 + c * 4 + d" using n r s t by simp
  have bounds: "a \<le> 24" "b \<le> 4" "c \<le> 24" "d \<le> 4" using n r s t assms(2) by linarith+
  consider "a \<le> 23" | "a = 24" "b \<le> 2" | "a = 24" "3 \<le> b" "c \<le> 23" | "a = 24" "3 \<le> b" "c = 24"
    using bounds by linarith
  then show "a * 400 + b * 100 + c * 4 + d \<le> 9998"
  proof cases
    case 4
    with n r s t assms(2) have "b = 3" "d \<le> 2" by linarith+
    with 4 show ?thesis by simp
  next
    case 3
    with n r assms(2) have "b = 3" by linarith
    with 3 bounds show ?thesis by simp
  qed (use bounds in simp_all)
qed

lemma month_of_year:
  assumes "i < 365"
  shows "fst (month_day (days_in_month y) 1 i) \<le> 12 \<and> snd (month_day (days_in_month y) 1 i) \<le> 31"
proof -
  have "\<forall>l \<in> set (days_in_month y). l \<le> 31" "365 \<le> sum_list (days_in_month y)" "length (days_in_month y) = 12"
    by (simp_all add: days_in_month_def)
  with month_day_range [of i "days_in_month y" 1] assms show ?thesis by simp
qed

definition year_before :: "int \<Rightarrow> int" where
  "year_before n =
     n div 146097 * 400 + n mod 146097 div 36524 * 100 + n mod 146097 mod 36524 div 1461 * 4 +
     n mod 146097 mod 36524 mod 1461 div 365"

definition day_of_year :: "int \<Rightarrow> nat" where
  "day_of_year n = nat (n mod 146097 mod 36524 mod 1461 mod 365)"

lemma ord_ymd_cases:
  "ord_ymd d = (year_before (d - 1), 12, 31) \<or>
   ord_ymd d = (year_before (d - 1) + 1, month_day (days_in_month (year_before (d - 1) + 1)) 1 (day_of_year (d - 1)))"
  unfolding ord_ymd_def Let_def year_before_def day_of_year_def
  by (simp only: split_beta prod.collapse add_diff_cancel_right' split: if_split) blast

lemma day_of_year_less: "day_of_year n < 365"
proof -
  obtain t where t: "t = n mod 146097 mod 36524 mod 1461" by simp
  have "nat (t mod 365) < 365" by (simp add: nat_less_iff)
  then show ?thesis by (simp only: day_of_year_def t)
qed

lemma ord_ymd_range:
  assumes "date_min \<le> d" "d \<le> date_max" "ord_ymd d = (y, m, k)"
  shows "0 \<le> y \<and> y \<le> 9999 \<and> m \<le> 12 \<and> k \<le> 31"
proof -
  have n: "0 \<le> d - 1" "d - 1 \<le> 3652058" using assms(1,2) by (simp_all add: date_min_def date_max_def)
  have "0 \<le> year_before (d - 1)" "year_before (d - 1) \<le> 9998"
    unfolding year_before_def by (rule year_range [OF n])+
  moreover note month_of_year [OF day_of_year_less, of "year_before (d - 1) + 1" "d - 1"]
  moreover obtain m' k' where
    "month_day (days_in_month (year_before (d - 1) + 1)) 1 (day_of_year (d - 1)) = (m', k')" by fastforce
  ultimately show ?thesis using ord_ymd_cases [of d] assms(3) by auto
qed

lemma length_zpad: "n < 10 ^ w \<Longrightarrow> 0 < w \<Longrightarrow> length (zpad w n) = w"
  using length_show_nat [of n "w - 1"] by (cases w) (simp_all add: zpad_def)

definition a_datetime :: "instant \<Rightarrow> bool" where
  "a_datetime t \<longleftrightarrow> 0 \<le> t \<and> t < 3652059 * 86400000000"

lemma amz_date_shape:
  assumes "a_datetime t"
  obtains date rest where "amz_date_of t = date @ ''T'' @ rest" "length date = 8" "list_all is_digit date"
proof -
  let ?d = "t div 1000000 div 86400 + 1"
  have "t div 1000000 div 86400 = t div 86400000000" by (simp only: zdiv_zmult2_eq [symmetric]) simp
  moreover have "0 \<le> t div 86400000000" using assms by (simp add: a_datetime_def pos_imp_zdiv_nonneg_iff)
  moreover have "t div 86400000000 < 3652059"
  proof -
    obtain q where q: "q = t div 86400000000" by simp
    have "q * 86400000000 \<le> t" unfolding q by (simp flip: minus_mod_eq_div_mult)
    then show ?thesis using assms by (simp add: a_datetime_def flip: q)
  qed
  ultimately have d: "date_min \<le> ?d" "?d \<le> date_max" by (simp_all add: date_min_def date_max_def)
  obtain y m k where ymd: "ord_ymd ?d = (y, m, k)" by (cases "ord_ymd ?d")
  with ord_ymd_range [OF d] have r: "y \<le> 9999" "m \<le> 12" "k \<le> 31" by auto
  have "length (zpad 4 (nat y)) = 4" "length (zpad 2 m) = 2" "length (zpad 2 k) = 2"
    using length_zpad [of "nat y" 4] length_zpad [of m 2] length_zpad [of k 2] r by simp_all
  moreover have "list_all is_digit (zpad w n)" for w n by (auto simp: list_all_iff dest: zpad_digits)
  ultimately have date: "length (zpad 4 (nat y) @ zpad 2 m @ zpad 2 k) = 8"
    "list_all is_digit (zpad 4 (nat y) @ zpad 2 m @ zpad 2 k)" by simp_all
  let ?r = "t div 1000000 mod 86400"
  have "amz_date_of t = (zpad 4 (nat y) @ zpad 2 m @ zpad 2 k) @ ''T'' @
      (zpad 2 (nat (?r div 3600)) @ zpad 2 (nat (?r div 60 mod 60)) @ zpad 2 (nat (?r mod 60)) @ ''Z'')"
    by (simp only: amz_date_of_def Let_def ymd prod.case append_assoc)
  from that [OF this date] show ?thesis .
qed

section \<open>The signature checks\<close>

lemma length_four_bytes [simp]: "length (four_bytes x) = 4"
  by (simp add: four_bytes_def)

lemma length_sha256 [simp]: "length (sha256 bs) = 32"
proof -
  have len: "length st = 8 \<Longrightarrow> length (foldl sha_block st bs) = 8" for st bs
    by (induction bs arbitrary: st) (simp_all add: length_sha_block)
  have "length (concat (map four_bytes ws)) = 4 * length ws" for ws
    by (induction ws) simp_all
  moreover have "length sha_h0 = 8" by (simp add: sha_h0_def)
  ultimately show ?thesis by (simp add: sha256_def Let_def len)
qed

lemma sha256_bytes: "b \<in> set (sha256 bs) \<Longrightarrow> b < 256"
proof -
  have "unat (drop_bit n x AND 255) < 256" for n and x :: u32
    using word_and_le1 [of "drop_bit n x" 255] by (simp add: word_le_nat_alt)
  then show "b \<in> set (sha256 bs) \<Longrightarrow> b < 256" by (auto simp: sha256_def four_bytes_def Let_def)
qed

lemma hex_digit_ascii: "n < 16 \<Longrightarrow> (of_char (hex_digit n) :: nat) < 128"
proof -
  have "\<forall>c \<in> set ''0123456789abcdef''. (of_char c :: nat) < 128" by simp
  moreover assume "n < 16"
  then have "n < length ''0123456789abcdef''" by simp
  ultimately show ?thesis unfolding hex_digit_def using nth_mem by blast
qed

lemma hex_digest_shape:
  "\<forall>b \<in> set bs. b < 256 \<Longrightarrow> ascii_text (hex_digest bs) \<and> length (hex_digest bs) = 2 * length bs"
  by (induction bs) (auto simp: hex_digest_def ascii_text_def hex_digit_ascii less_mult_imp_div_less)

lemma hmac_shape:
  "ascii_text (hex_digest (hmac_sha256 k m))" "hex_digest (hmac_sha256 k m) \<noteq> []"
proof -
  obtain x where x: "hmac_sha256 k m = sha256 x" by (simp add: hmac_sha256_def Let_def)
  have "\<forall>b \<in> set (sha256 x). b < 256" using sha256_bytes by blast
  then have "ascii_text (hex_digest (sha256 x)) \<and> length (hex_digest (sha256 x)) = 64"
    using hex_digest_shape [of "sha256 x"] by simp
  then show "ascii_text (hex_digest (hmac_sha256 k m))" "hex_digest (hmac_sha256 k m) \<noteq> []"
    unfolding x by auto
qed

text \<open>An account as it is configured: nothing in it reads as a separator of the header.\<close>

definition plain_part :: "string \<Rightarrow> bool" where
  "plain_part s \<longleftrightarrow> s \<noteq> [] \<and> CHR '','' \<notin> set s \<and> CHR ''/'' \<notin> set s"

definition same_account :: "ses_config \<Rightarrow> stub_account \<Rightarrow> bool" where
  "same_account sc sk \<longleftrightarrow> sk_key_id sk = sc_key_id sc \<and> sk_secret sk = sc_secret sc \<and>
     plain_part (sc_key_id sc) \<and> plain_part (sc_region sc)"

lemma digits_plain: "list_all is_digit s \<Longrightarrow> CHR '','' \<notin> set s \<and> CHR ''/'' \<notin> set s"
  by (auto simp: list_all_iff is_digit_def)

lemma credential_read:
  assumes "plain_part key" "plain_part region" "length date = 8" "list_all is_digit date"
  shows "credential_of (key @ ''/'' @ date @ ''/'' @ region @ ''/ses/aws4_request'') = Some (key, region)"
proof -
  have "split_on CHR ''/'' (key @ ''/'' @ date @ ''/'' @ region @ ''/ses/aws4_request'') =
      [key, date, region, ''ses'', ''aws4_request'']"
    using assms digits_plain [of date]
      split_on_first [of "CHR ''/''" key "date @ ''/'' @ region @ ''/ses/aws4_request''"]
      split_on_first [of "CHR ''/''" date "region @ ''/ses/aws4_request''"]
      split_on_first [of "CHR ''/''" region "''ses/aws4_request''"]
      split_on_first [of "CHR ''/''" "''ses''" "''aws4_request''"] split_on_last [of "CHR ''/''" "''aws4_request''"]
    by (simp add: plain_part_def del: split_on.simps)
  with assms show ?thesis by (simp add: credential_of_def plain_part_def del: split_on.simps)
qed

lemma hex_digit_plain: "n < 16 \<Longrightarrow> CHR '','' \<noteq> hex_digit n"
proof -
  have "\<forall>c \<in> set ''0123456789abcdef''. CHR '','' \<noteq> c" by simp
  moreover assume "n < 16"
  then have "n < length ''0123456789abcdef''" by simp
  ultimately show ?thesis unfolding hex_digit_def using nth_mem by blast
qed

lemma hex_digest_plain: "\<forall>b \<in> set bs. b < 256 \<Longrightarrow> CHR '','' \<notin> set (hex_digest bs)"
  by (auto simp: hex_digest_def hex_digit_plain less_mult_imp_div_less)

lemma hmac_plain: "CHR '','' \<notin> set (hex_digest (hmac_sha256 k m))"
  by (rule hex_digest_plain) (auto simp: hmac_sha256_def Let_def dest: sha256_bytes)

lemma parts_read:
  assumes "CHR '','' \<notin> set credential" "CHR '','' \<notin> set names" "CHR '','' \<notin> set signature"
  shows "authorization_parts (''Credential='' @ credential @ '', SignedHeaders='' @ names @ '', Signature='' @ signature) =
    [(''Signature'', signature), (''SignedHeaders'', names), (''Credential'', credential)]"
proof -
  have "split_text '', '' (''Credential='' @ credential @ '', SignedHeaders='' @ names @ '', Signature='' @ signature) =
      [''Credential='' @ credential, ''SignedHeaders='' @ names, ''Signature='' @ signature]"
    using assms
      split_text_first [of "'', ''" "''Credential='' @ credential" "''SignedHeaders='' @ names @ '', Signature='' @ signature"]
      split_text_first [of "'', ''" "''SignedHeaders='' @ names" "''Signature='' @ signature"]
      split_text_last [of "'', ''" "''Signature='' @ signature"] by simp
  then show ?thesis
    using cut_first [of "''=''" "''Credential''" credential] cut_first [of "''=''" "''SignedHeaders''" names]
      cut_first [of "''=''" "''Signature''" signature]
    by (simp add: authorization_parts_def List.map_filter_simps)
qed

definition wire_request :: "ses_config \<Rightarrow> instant \<Rightarrow> string \<Rightarrow> string \<Rightarrow> pyv http_request" where
  "wire_request sc now signature body =
     http_post send_email_path
       [(''content-type'', ''application/json''), (''host'', sc_host sc), (''x-amz-date'', amz_date_of now),
        (''authorization'', authorization (sc_key_id sc) (amz_date_of now) (sc_region sc) signed_names signature)]
       (RawBody body)"

definition request_signature :: "ses_config \<Rightarrow> string \<Rightarrow> instant \<Rightarrow> string \<Rightarrow> string" where
  "request_signature sc secret now body =
     hex_digest (hmac_sha256 (signing_key secret (amz_date_of now) (sc_region sc))
       (text_bytes (string_to_sign (amz_date_of now) (sc_region sc)
         (canonical_request ''POST'' send_email_path
            (concat [''content-type:application/json'' @ [CHR 0x0A], ''host:'' @ strip (sc_host sc) @ [CHR 0x0A],
               ''x-amz-date:'' @ strip (amz_date_of now) @ [CHR 0x0A]]) signed_names body))))"

lemma strip_json [simp]: "strip ''application/json'' = ''application/json''"
  by code_simp

lemma signed_headers_of:
  "signed_headers sc now body = Inr (rq_headers (wire_request sc now (request_signature sc (sc_secret sc) now body) body))"
  by (simp add: signed_headers_def sigv4_signature_def canonical_headers_def signed_names_def wire_request_def
      request_signature_def Let_def)

lemma names_read: "filter (\<lambda>n. n \<noteq> []) (split_on CHR '';'' (join '';'' signed_names)) = signed_names"
  by code_simp

lemma wire_headers:
  "header_or_empty (rq_headers (wire_request sc now signature body)) ''authorization'' =
     authorization (sc_key_id sc) (amz_date_of now) (sc_region sc) signed_names signature"
  "header_or_empty (rq_headers (wire_request sc now signature body)) ''x-amz-date'' = amz_date_of now"
  "header_or_empty (rq_headers (wire_request sc now signature body)) ''host'' = sc_host sc"
  "header_or_empty (rq_headers (wire_request sc now signature body)) ''content-type'' = ''application/json''"
  by (simp_all add: wire_request_def header_or_empty_def header_def lower_def lower_char_def)

lemma startswith_append: "startswith (a @ b) a = True"
  by (auto simp: startswith_iff)

lemma drop_prefix: "drop (length a) (a @ b) = b"
  by simp

lemma verify_wire:
  assumes "sk_key_id sk = sc_key_id sc" "plain_part (sc_key_id sc)" "plain_part (sc_region sc)" "a_datetime now"
    "CHR '','' \<notin> set signature" "signature \<noteq> []" "ascii_text signature"
  shows "verify_sigv4 sk (wire_request sc now signature body) =
    (if request_signature sc (sk_secret sk) now body = signature then Inr None
     else Inr (Some (ses_error 403 ''InvalidSignatureException'' signature_mismatch)))"
proof -
  obtain date rest where t: "amz_date_of now = date @ ''T'' @ rest" "length date = 8" "list_all is_digit date"
    by (rule amz_date_shape [OF assms(4)])
  then have date: "take 8 (amz_date_of now) = date" "amz_date_of now \<noteq> []" by simp_all
  let ?credential = "sc_key_id sc @ ''/'' @ credential_scope (amz_date_of now) (sc_region sc)"
  have credential: "credential_of ?credential = Some (sc_key_id sc, sc_region sc)" "CHR '','' \<notin> set ?credential"
    using credential_read [OF assms(2,3) t(2,3)] date assms(2,3) digits_plain [OF t(3)]
    by (simp_all add: credential_scope_def plain_part_def)
  let ?parts = "[(''Signature'', signature), (''SignedHeaders'', join '';'' signed_names), (''Credential'', ?credential)]"
  let ?rq = "wire_request sc now signature body"
  have given: "authorization (sc_key_id sc) (amz_date_of now) (sc_region sc) signed_names signature =
      (sigv4_algorithm @ '' '') @
      (''Credential='' @ ?credential @ '', SignedHeaders='' @ join '';'' signed_names @ '', Signature='' @ signature)"
    by (simp only: authorization_def append_assoc append_Cons append_Nil)
  have "CHR '','' \<notin> set (join '';'' signed_names)" by code_simp
  note parts = parts_read [OF credential(2) this assms(5)]
  have "verify_sigv4 sk ?rq = check_signature sk ?rq ?parts"
    unfolding verify_sigv4_def Let_def wire_headers given
    by (simp only: startswith_append parts drop_prefix if_True)
  also have "\<dots> = (if request_signature sc (sk_secret sk) now body = signature then Inr None
      else Inr (Some (ses_error 403 ''InvalidSignatureException'' signature_mismatch)))"
  proof -
    have p: "part ?parts ''Signature'' = signature" "part ?parts ''SignedHeaders'' = join '';'' signed_names"
      "part ?parts ''Credential'' = ?credential" by (simp_all add: part_def)
    have "sigv4_signature (sk_secret sk) (rq_method ?rq) (rq_path ?rq)
        (map (\<lambda>n. (n, header_or_empty (rq_headers ?rq) n)) signed_names) signed_names (raw_body ?rq)
        (amz_date_of now) (sc_region sc) = Inr (request_signature sc (sk_secret sk) now body)"
      by (simp add: sigv4_signature_def canonical_headers_def signed_names_def wire_headers request_signature_def)
        (simp add: wire_request_def raw_body_def)
    moreover have "signed_names \<noteq> []" by (simp add: signed_names_def)
    ultimately show ?thesis
      unfolding check_signature_def Let_def p names_read wire_headers
      using credential(1) date(2) assms(1,6,7) by simp
  qed
  finally show ?thesis .
qed


section \<open>A send is delivered\<close>

definition ses_id :: "nat \<Rightarrow> string" where
  "ses_id n = ''0100019'' @ hex_pad 9 n @ ''-ses-stub''"

definition stored_email :: "pyv \<Rightarrow> ses_stub \<Rightarrow> ses_stub" where
  "stored_email payload s = s\<lparr>ss_sent := dict_set (ss_sent s) (ses_id (ss_next s)) payload, ss_next := ss_next s + 1\<rparr>"

lemma payload_fields:
  "get_key (email_payload sender m) ''FromEmailAddress'' = Inr (PStr sender)"
  "get_key (email_payload sender m) ''Destination'' = Inr (PDict [(''ToAddresses'', PList [PStr (msg_recipient m)])])"
  by (simp_all add: email_payload_def)

lemma accept_payload:
  assumes "sender \<noteq> []"
    "lower sender \<in> set (sk_verified sk) \<or> lower (after_last CHR ''@'' sender) \<in> set (sk_verified sk)"
  shows "accept_email sk (email_payload sender m) s =
    (Inr (answer 200 (PDict [(''MessageId'', PStr (ses_id (ss_next s)))])), stored_email (email_payload sender m) s)"
proof -
  have "py_or (PStr sender) (PStr []) = PStr sender" using assms(1) by (simp add: py_or_def)
  then show ?thesis using assms
    by (auto simp: accept_email_def payload_fields monad Let_def ses_id_def stored_email_def)
qed

lemma post_wire:
  "http_post send_email_path (rq_headers (wire_request sc now signature body)) (RawBody body) =
     wire_request sc now signature body"
  by (simp add: wire_request_def)

lemma server_on_wire:
  assumes "sk_key_id sk = sc_key_id sc" "plain_part (sc_key_id sc)" "plain_part (sc_region sc)" "a_datetime now"
  shows "ses_server sk loads (wire_request sc now (request_signature sc key now body) body) s =
    (if request_signature sc (sk_secret sk) now body = request_signature sc key now body
     then (case loads body of
             None \<Rightarrow> (Inr (ses_error 400 ''BadRequestException'' ''Malformed request body''), s)
           | Some payload \<Rightarrow> accept_email sk payload s)
     else (Inr (ses_error 403 ''InvalidSignatureException'' signature_mismatch), s))"
proof -
  let ?signature = "request_signature sc key now body"
  have "CHR '','' \<notin> set ?signature" "?signature \<noteq> []" "ascii_text ?signature"
    by (simp_all only: request_signature_def hmac_plain hmac_shape not_False_eq_True)
  note checked = verify_wire [OF assms this, of body]
  have "rq_method (wire_request sc now ?signature body) = ''POST''"
    "rq_path (wire_request sc now ?signature body) = send_email_path"
    "raw_body (wire_request sc now ?signature body) = body"
    by (simp_all add: wire_request_def raw_body_def)
  then show ?thesis by (simp add: ses_server_def checked monad split: option.split)
qed

lemma delivered_or_refused:
  assumes "msg_channel m = Email" "a_datetime now"
    "sk_key_id sk = sc_key_id sc" "plain_part (sc_key_id sc)" "plain_part (sc_region sc)" "sc_from sc \<noteq> []"
    "lower (sc_from sc) \<in> set (sk_verified sk) \<or> lower (after_last CHR ''@'' (sc_from sc)) \<in> set (sk_verified sk)"
    "loads (json_text (email_payload (sc_from sc) m)) = Some (email_payload (sc_from sc) m)"
  shows "(if request_signature sc (sk_secret sk) now (json_text (email_payload (sc_from sc) m)) =
             request_signature sc (sc_secret sc) now (json_text (email_payload (sc_from sc) m))
     then ses_send sc (ses_server sk loads) now m s =
        (Inr (ses_id (ss_next s)), stored_email (email_payload (sc_from sc) m) s)
     else ses_send sc (ses_server sk loads) now m s =
        (Inl (RuntimeError (''SES API error 403 (InvalidSignatureException): '' @ signature_mismatch)), s))"
proof -
  let ?body = "json_text (email_payload (sc_from sc) m)"
  note server = server_on_wire [OF assms(3,4,5,2), of loads "sc_secret sc" ?body s]
  have error: "ses_api_error (ses_error 403 ''InvalidSignatureException'' signature_mismatch) =
      RuntimeError (''SES API error 403 (InvalidSignatureException): '' @ signature_mismatch)"
    by code_simp
  show ?thesis
    using assms(1,8) accept_payload [OF assms(6,7), of m s] server
    by (simp add: ses_send_def Let_def monad signed_headers_of post_wire error)
      (simp add: ses_error_def json_of_def answer_def)
qed

text \<open>
  An email the SES adapter signs is delivered by whoever holds the same keys, and by nobody else. For
  any message, body and host, at any time up to the year 9999, over the stub of the same account the send
  returns a fresh message id under which exactly the sender, the recipient, the subject and the body are
  stored; over an account with another secret it raises and stores nothing, unless the two secrets sign
  this very request alike.
\<close>

theorem signed_send_delivered:
  assumes "msg_channel m = Email" "a_datetime now"
    "sk_key_id sk = sc_key_id sc" "plain_part (sc_key_id sc)" "plain_part (sc_region sc)" "sc_from sc \<noteq> []"
    "lower (sc_from sc) \<in> set (sk_verified sk) \<or> lower (after_last CHR ''@'' (sc_from sc)) \<in> set (sk_verified sk)"
    "loads (json_text (email_payload (sc_from sc) m)) = Some (email_payload (sc_from sc) m)"
  shows "(if request_signature sc (sk_secret sk) now (json_text (email_payload (sc_from sc) m)) =
             request_signature sc (sc_secret sc) now (json_text (email_payload (sc_from sc) m))
     then ses_send sc (ses_server sk loads) now m s =
        (Inr (ses_id (ss_next s)), stored_email (email_payload (sc_from sc) m) s)
     else ses_send sc (ses_server sk loads) now m s =
        (Inl (RuntimeError (''SES API error 403 (InvalidSignatureException): '' @ signature_mismatch)), s))"
  by (rule delivered_or_refused) (use assms in auto)

definition sample_ses :: ses_config where
  "sample_ses = \<lparr>sc_key_id = ''AKID'', sc_secret = ''s3cret'', sc_from = ''desk@demo.example.com'',
     sc_region = ''us-west-2'', sc_host = ''email.us-west-2.amazonaws.com''\<rparr>"

definition sample_email :: message where
  "sample_email = \<lparr>msg_id = ''m1'', msg_tenant_id = ''t'', msg_channel = Email, msg_recipient = ''ana@x.test'',
     msg_subject = ''Hi'', msg_body = ''Closing is near'', msg_template_ref = [], msg_contact_id = [],
     msg_listing_key = [], msg_transaction_id = [], msg_status = PendingApproval, msg_provider_message_id = [],
     msg_created_at = None, msg_sent_at = None\<rparr>"

definition sample_account :: "string \<Rightarrow> stub_account" where
  "sample_account secret = \<lparr>sk_key_id = ''AKID'', sk_secret = secret, sk_verified = [''demo.example.com'']\<rparr>"

theorem signed_send_delivered_witness:
  "ses_send sample_ses
     (ses_server (sample_account ''s3cret'') (\<lambda>_. Some (email_payload ''desk@demo.example.com'' sample_email)))
     63900000000000000 sample_email \<lparr>ss_sent = [], ss_next = 1\<rparr> =
   (Inr ''0100019000000001-ses-stub'',
    \<lparr>ss_sent = [(''0100019000000001-ses-stub'', email_payload ''desk@demo.example.com'' sample_email)], ss_next = 2\<rparr>)"
proof -
  have config: "sc_from sample_ses = ''desk@demo.example.com''" "sk_secret (sample_account ''s3cret'') = sc_secret sample_ses"
    by (simp_all add: sample_ses_def sample_account_def)
  have "lower (after_last CHR ''@'' (sc_from sample_ses)) \<in> set (sk_verified (sample_account ''s3cret''))" by code_simp
  moreover have "ses_id 1 = ''0100019000000001-ses-stub''" by code_simp
  ultimately show ?thesis
    using signed_send_delivered [of sample_email 63900000000000000 "sample_account ''s3cret''" sample_ses
      "\<lambda>_. Some (email_payload ''desk@demo.example.com'' sample_email)" "\<lparr>ss_sent = [], ss_next = 1\<rparr>"]
    by (simp add: config stored_email_def dict_set_def a_datetime_def)
      (simp add: sample_ses_def sample_account_def sample_email_def plain_part_def)
qed

end
