(* ===== verification/Send_Vendors.thy ===== *)
theory Send_Vendors
  imports Wire
begin

text \<open>
  The other adapters of the send ports and their stubs: SendGrid (\<open>integrations/email_sendgrid\<close>), the
  zero-credential email stub (\<open>integrations/email_stub\<close>) and Twilio (\<open>integrations/twilio_sms\<close>). A body
  sent as JSON or as a form arrives as it was sent.
\<close>

section \<open>SendGrid\<close>

definition channel_repr :: "message_channel \<Rightarrow> string" where
  "channel_repr c = (case c of Email \<Rightarrow> ''<MessageChannel.EMAIL: 'email'>'' | Sms \<Rightarrow> ''<MessageChannel.SMS: 'sms'>'')"

definition sendgrid_error :: "nat \<Rightarrow> string \<Rightarrow> exn" where
  "sendgrid_error status m = RuntimeError (''SendGrid API error '' @ show_nat status @ '': '' @ m)"

definition first_error :: "pyv http_response \<Rightarrow> string" where
  "first_error r =
     (let fallback = ''HTTP '' @ show_nat (rs_status r)
      in case rs_body r of
           Some (PDict es) \<Rightarrow>
             (case map_of es ''errors'' of
                Some (PList (PDict e # others)) \<Rightarrow>
                  (case map_of e ''message'' of
                     Some m \<Rightarrow> if truthy m then py_str m else fallback
                   | None \<Rightarrow> fallback)
              | _ \<Rightarrow> fallback)
         | _ \<Rightarrow> fallback)"

definition sendgrid_payload :: "string \<Rightarrow> message \<Rightarrow> pyv" where
  "sendgrid_payload sender m =
     PDict [(''personalizations'', PList [PDict [(''to'', PList [PDict [(''email'', PStr (msg_recipient m))]])]]),
            (''from'', PDict [(''email'', PStr sender)]),
            (''subject'', PStr (msg_subject m)),
            (''content'', PList [PDict [(''type'', PStr ''text/plain''), (''value'', PStr (msg_body m))]])]"

definition sendgrid_send :: "string \<Rightarrow> string \<Rightarrow> ('s, pyv) http_client \<Rightarrow> message \<Rightarrow> ('s, string) M" where
  "sendgrid_send api_key sender client m =
     (if msg_channel m \<noteq> Email
      then raise (ValueError (''SendGrid sends email only, got channel '' @ channel_repr (msg_channel m)))
      else bindM (client (http_post ''/v3/mail/send'' [(''Authorization'', ''Bearer '' @ api_key)]
                    (JsonBody (sendgrid_payload sender m)))) (\<lambda>response.
           if 300 \<le> rs_status response then raise (sendgrid_error (rs_status response) (first_error response))
           else (case header (rs_headers response) ''X-Message-Id'' of
                   None \<Rightarrow> raise (sendgrid_error (rs_status response)
                     ''accepted response is missing the X-Message-Id header'')
                 | Some i \<Rightarrow> if i = [] then raise (sendgrid_error (rs_status response)
                     ''accepted response is missing the X-Message-Id header'') else ret i)))"

record 'p outbox =
  ob_items :: "(string, 'p) dict"
  ob_next :: nat

text \<open>Keep a payload under the next id.\<close>

definition keep :: "(nat \<Rightarrow> string) \<Rightarrow> 'p \<Rightarrow> 'p outbox \<Rightarrow> 'p outbox" where
  "keep ident p s = s\<lparr>ob_items := dict_set (ob_items s) (ident (ob_next s)) p, ob_next := ob_next s + 1\<rparr>"

definition sendgrid_errors :: "nat \<Rightarrow> string \<Rightarrow> pyv \<Rightarrow> pyv http_response" where
  "sendgrid_errors status m f =
     answer status (PDict [(''errors'', PList [PDict [(''message'', PStr m), (''field'', f), (''help'', PNone)]])])"

definition json_body :: "pyv http_request \<Rightarrow> exn + pyv" where
  "json_body rq = (case rq_body rq of JsonBody j \<Rightarrow> Inr j | _ \<Rightarrow> Inl (ValueError ''Expecting value''))"

definition stub_api_key :: string where
  "stub_api_key = ''stub-sendgrid-key''"

definition sendgrid_id :: "nat \<Rightarrow> string" where
  "sendgrid_id n = ''stub-sg-'' @ show_nat n"

text \<open>\<open>(v[0].get(k) or [])\<close> of a list that is not empty, and whether its first entry has a field.\<close>

definition first_has :: "pyv \<Rightarrow> string \<Rightarrow> exn + bool" where
  "first_has v k =
     (if \<not> truthy v then Inr False
      else thenE (first_item v) (\<lambda>x. thenE (get_key x k) (\<lambda>y. Inr (truthy y))))"

text \<open>What is wrong with a request body, with the field it is about.\<close>

definition sendgrid_checks :: "pyv \<Rightarrow> exn + (string \<times> pyv) option" where
  "sendgrid_checks body =
     thenE (get_key body ''personalizations'') (\<lambda>personalizations.
     thenE (if truthy personalizations then thenE (first_item personalizations) (\<lambda>p. get_key p ''to'') else Inr (PList []))
       (\<lambda>recipients.
     thenE (first_has recipients ''email'') (\<lambda>addressed.
       if \<not> addressed
       then Inr (Some (''The personalizations field is required and must have at least one personalization with a to recipient.'',
                       PStr ''personalizations''))
       else thenE (get_key body ''from'') (\<lambda>from.
            thenE (get_key (py_or from (PDict [])) ''email'') (\<lambda>sender.
              if \<not> truthy sender then Inr (Some (''The from object must be provided for every email send.'', PStr ''from''))
              else thenE (get_key body ''subject'') (\<lambda>subject.
                if \<not> truthy subject then Inr (Some (''The subject is required.'', PStr ''subject''))
                else thenE (get_key body ''content'') (\<lambda>content.
                     thenE (first_has content ''value'') (\<lambda>filled.
                       if \<not> filled
                       then Inr (Some (''The content value must be a string at least one character in length.'', PStr ''content''))
                       else Inr None))))))))"

definition sendgrid_server :: "(pyv outbox, pyv) http_client" where
  "sendgrid_server rq =
     (if rq_method rq \<noteq> ''POST'' \<or> rq_path rq \<noteq> ''/v3/mail/send'' then ret (answer 404 (PDict [(''detail'', PStr ''Not Found'')]))
      else if header (rq_headers rq) ''Authorization'' \<noteq> Some (''Bearer '' @ stub_api_key)
      then ret (sendgrid_errors 401 ''The provided authorization grant is invalid, expired, or revoked'' PNone)
      else bindM (liftE (json_body rq)) (\<lambda>body.
           bindM (liftE (sendgrid_checks body)) (\<lambda>problem.
           case problem of
             Some (m, f) \<Rightarrow> ret (sendgrid_errors 400 m f)
           | None \<Rightarrow> (\<lambda>s. (Inr \<lparr>rs_status = 202, rs_headers = [(''X-Message-Id'', sendgrid_id (ob_next s))], rs_body = None\<rparr>,
                          keep sendgrid_id body s)))))"

section \<open>The email stub\<close>

definition stub_payload :: "message \<Rightarrow> pyv" where
  "stub_payload m =
     PDict [(''channel'', PStr (channel_value (msg_channel m))), (''to'', PStr (msg_recipient m)),
            (''subject'', PStr (msg_subject m)), (''body'', PStr (msg_body m))]"

definition stub_email_send :: "('s, pyv) http_client \<Rightarrow> message \<Rightarrow> ('s, string) M" where
  "stub_email_send client m =
     bindM (client (http_post ''/messages'' [] (JsonBody (stub_payload m)))) (\<lambda>response.
     thenM (raise_for_status response)
       (bindM (json_of response) (\<lambda>body. bindM (liftE (item_key body ''id'')) (\<lambda>i. ret (py_str i)))))"

definition stub_email_id :: "nat \<Rightarrow> string" where
  "stub_email_id n = ''stub-email-'' @ show_nat n"

text \<open>The handler takes an object: anything else is refused before it runs.\<close>

definition is_object :: "pyv \<Rightarrow> bool" where
  "is_object v = (case v of PDict es \<Rightarrow> True | _ \<Rightarrow> False)"

definition stub_email_server :: "(pyv outbox, pyv) http_client" where
  "stub_email_server rq =
     (if rq_method rq = ''POST'' \<and> rq_path rq = ''/messages''
      then (case json_body rq of
              Inr body \<Rightarrow>
                if is_object body
                then (\<lambda>s. (Inr (answer 201 (PDict [(''id'', PStr (stub_email_id (ob_next s)))])), keep stub_email_id body s))
                else ret (answer 422 (PDict [(''detail'', PStr ''dict_type'')]))
            | Inl e \<Rightarrow> ret (answer 422 (PDict [(''detail'', PStr ''json_invalid'')])))
      else if rq_method rq = ''GET'' \<and> startswith (rq_path rq) ''/messages/''
      then (\<lambda>s. (Inr (case dict_get (ob_items s) (drop (length ''/messages/'') (rq_path rq)) of
                         Some p \<Rightarrow> answer 200 p | None \<Rightarrow> answer 404 (PDict [(''detail'', PStr ''message not found'')])), s))
      else ret (answer 404 (PDict [(''detail'', PStr ''Not Found'')])))"

section \<open>Twilio\<close>

record twilio_account =
  ta_sid :: string
  ta_from :: string
  ta_service :: string
  ta_callback :: string

definition twilio_error :: "nat \<Rightarrow> pyv option \<Rightarrow> string \<Rightarrow> exn" where
  "twilio_error status code m =
     RuntimeError ((case code of Some c \<Rightarrow> ''Twilio error '' @ py_str c | None \<Rightarrow> ''Twilio API error'') @
       '' (HTTP '' @ show_nat status @ ''): '' @ m)"

text \<open>\<open>isinstance(code, int)\<close>: a truth value is an integer.\<close>

definition int_code :: "pyv \<Rightarrow> pyv option" where
  "int_code c = (case c of PInt i \<Rightarrow> Some c | PBool b \<Rightarrow> Some c | _ \<Rightarrow> None)"

definition envelope_of :: "pyv http_response \<Rightarrow> pyv" where
  "envelope_of r = (case rs_body r of Some (PDict es) \<Rightarrow> PDict es | _ \<Rightarrow> PDict [])"

definition check_twilio :: "pyv http_response \<Rightarrow> exn + pyv" where
  "check_twilio r =
     (if 300 \<le> rs_status r
      then thenE (get_key (envelope_of r) ''code'') (\<lambda>code.
           thenE (get_key (envelope_of r) ''message'') (\<lambda>m.
             Inl (twilio_error (rs_status r) (int_code code) (py_str (py_or m (PStr (''HTTP '' @ show_nat (rs_status r))))))))
      else Inr (case rs_body r of Some b \<Rightarrow> b | None \<Rightarrow> PNone))"

definition messages_path :: "string \<Rightarrow> string" where
  "messages_path sid = ''/2010-04-01/Accounts/'' @ sid @ ''/Messages.json''"

definition sms_form :: "twilio_account \<Rightarrow> message \<Rightarrow> (string \<times> string) list" where
  "sms_form a m =
     [(''To'', msg_recipient m), (''Body'', msg_body m)] @
     (if ta_service a \<noteq> [] then [(''MessagingServiceSid'', ta_service a)] else [(''From'', ta_from a)]) @
     (if ta_callback a \<noteq> [] then [(''StatusCallback'', ta_callback a)] else [])"

definition twilio_send :: "twilio_account \<Rightarrow> ('s, pyv) http_client \<Rightarrow> message \<Rightarrow> ('s, string) M" where
  "twilio_send a client m =
     bindM (client (http_post (messages_path (ta_sid a)) [] (FormBody (sms_form a m)))) (\<lambda>response.
     bindM (liftE (check_twilio response)) (\<lambda>body.
     bindM (liftE (item_key body ''sid'')) (\<lambda>sid. ret (py_str sid))))"

definition form_value :: "pyv http_request \<Rightarrow> string \<Rightarrow> string" where
  "form_value rq k =
     (case rq_body rq of FormBody f \<Rightarrow> (case map_of (rev f) k of Some v \<Rightarrow> v | None \<Rightarrow> []) | _ \<Rightarrow> [])"

definition twilio_sid :: "nat \<Rightarrow> string" where
  "twilio_sid n = ''SM'' @ hex_pad 30 n"

definition or_null :: "string \<Rightarrow> pyv" where
  "or_null s = (if s = [] then PNone else PStr s)"

definition sms_resource :: "string \<Rightarrow> string \<Rightarrow> pyv http_request \<Rightarrow> pyv" where
  "sms_resource account sid rq =
     PDict [(''sid'', PStr sid), (''account_sid'', PStr account), (''api_version'', PStr ''2010-04-01''),
            (''to'', PStr (form_value rq ''To'')), (''from'', PStr (form_value rq ''From'')),
            (''messaging_service_sid'', or_null (form_value rq ''MessagingServiceSid'')),
            (''body'', PStr (form_value rq ''Body'')), (''status'', PStr ''queued''),
            (''direction'', PStr ''outbound-api''), (''num_segments'', PStr ''1''), (''error_code'', PNone),
            (''error_message'', PNone),
            (''uri'', PStr (''/2010-04-01/Accounts/'' @ account @ ''/Messages/'' @ sid @ ''.json''))]"

text \<open>The routes of one account: a path segment has no slash.\<close>

definition account_of :: "string \<Rightarrow> string option" where
  "account_of path =
     (case split_on CHR ''/'' path of
        [a, v, accounts, sid, messages] \<Rightarrow>
          if a = [] \<and> v = ''2010-04-01'' \<and> accounts = ''Accounts'' \<and> sid \<noteq> [] \<and> messages = ''Messages.json''
          then Some sid else None
      | _ \<Rightarrow> None)"

definition twilio_server :: "(pyv outbox, pyv) http_client" where
  "twilio_server rq =
     (case account_of (rq_path rq) of
        Some account \<Rightarrow>
          if rq_method rq = ''POST''
          then (\<lambda>s. let m = sms_resource account (twilio_sid (ob_next s)) rq
                    in (Inr (answer 201 m), keep twilio_sid m s))
          else ret (answer 405 (PDict [(''detail'', PStr ''Method Not Allowed'')]))
      | None \<Rightarrow> ret (answer 404 (PDict [(''detail'', PStr ''Not Found'')])))"

end
