(* ===== verification/Delivery.thy ===== *)
theory Delivery
  imports Ses Send_Vendors
begin

text \<open>
  The contract of the send adapters, as a locale, discharged for the four of them over their own stubs: a
  message that can be sent is stored once, under an id nothing else was stored under.
\<close>

section \<open>The contract\<close>

locale delivery =
  fixes send :: "message \<Rightarrow> ('s, string) M"
    and delivered :: "'s \<Rightarrow> (string \<times> 'p) list"
    and content :: "message \<Rightarrow> string \<Rightarrow> 'p"
    and sendable :: "message \<Rightarrow> bool"
    and sound :: "'s \<Rightarrow> bool"
  assumes delivers:
    "sound s \<Longrightarrow> sendable m \<Longrightarrow>
       \<exists>i s'. send m s = (Inr i, s') \<and> i \<notin> fst ` set (delivered s) \<and>
         delivered s' = delivered s @ [(i, content m i)] \<and> sound s'"
begin

lemma delivers_batch:
  "sound s \<Longrightarrow> \<forall>m \<in> set ms. sendable m \<Longrightarrow> distinct (map fst (delivered s)) \<Longrightarrow>
     \<exists>ids s'. mapM send ms s = (Inr ids, s') \<and> length ids = length ms \<and>
       delivered s' = delivered s @ map2 (\<lambda>i m. (i, content m i)) ids ms \<and>
       distinct (map fst (delivered s')) \<and> sound s'"
proof (induction ms arbitrary: s)
  case (Cons m ms)
  from Cons.prems obtain i t where step: "send m s = (Inr i, t)" "i \<notin> fst ` set (delivered s)"
    "delivered t = delivered s @ [(i, content m i)]" "sound t"
    using delivers [of s m] by auto
  with Cons.prems have "distinct (map fst (delivered t))" by simp
  with Cons.IH [of t] Cons.prems step obtain ids s' where rest: "mapM send ms t = (Inr ids, s')" "length ids = length ms"
    "delivered s' = delivered t @ map2 (\<lambda>i m. (i, content m i)) ids ms" "distinct (map fst (delivered s'))" "sound s'"
    by auto
  have "mapM send (m # ms) s = (Inr (i # ids), s')" using step(1) rest(1) by (simp add: monad)
  moreover have "delivered s' = delivered s @ map2 (\<lambda>i m. (i, content m i)) (i # ids) (m # ms)"
    using step(3) rest(3) by simp
  ultimately show ?case using rest(2,4,5) by (intro exI [of _ "i # ids"] exI [of _ s']) simp
qed simp

end

section \<open>The four adapters\<close>

text \<open>Every id in the box came from the counter.\<close>

definition numbered :: "(nat \<Rightarrow> string) \<Rightarrow> nat \<Rightarrow> (string, 'p) dict \<Rightarrow> bool" where
  "numbered ident n d \<longleftrightarrow> (\<forall>k \<in> fst ` set d. \<exists>j < n. k = ident j)"

lemma numbered_step:
  assumes "inj ident" "numbered ident n d"
  shows "ident n \<notin> fst ` set d" "dict_set d (ident n) p = d @ [(ident n, p)]"
    "numbered ident (Suc n) (d @ [(ident n, p)])"
proof -
  show fresh: "ident n \<notin> fst ` set d"
  proof
    assume "ident n \<in> fst ` set d"
    then obtain j where "j < n" "ident n = ident j" using assms(2) by (auto simp: numbered_def)
    with assms(1) show False by (auto dest: injD)
  qed
  then have "dict_get d (ident n) = None" by (simp add: dict_get_def map_of_eq_None_iff)
  from append_fresh [OF this, of p] show "dict_set d (ident n) p = d @ [(ident n, p)]" by simp
  show "numbered ident (Suc n) (d @ [(ident n, p)])"
    using assms(2) by (auto simp: numbered_def intro: less_SucI)
qed

lemma idents_inj: "inj sendgrid_id" "inj stub_email_id" "inj twilio_sid" "inj ses_id"
  by (simp_all add: inj_def sendgrid_id_def stub_email_id_def twilio_sid_def ses_id_def)

definition box_sound :: "(nat \<Rightarrow> string) \<Rightarrow> 'p outbox \<Rightarrow> bool" where
  "box_sound ident s \<longleftrightarrow> numbered ident (ob_next s) (ob_items s)"

definition sendgrid_sendable :: "string \<Rightarrow> message \<Rightarrow> bool" where
  "sendgrid_sendable sender m \<longleftrightarrow> msg_channel m = Email \<and> sender \<noteq> [] \<and> msg_recipient m \<noteq> [] \<and>
     msg_subject m \<noteq> [] \<and> msg_body m \<noteq> []"

lemma sendgrid_checks_ok: "sendgrid_sendable sender m \<Longrightarrow> sendgrid_checks (sendgrid_payload sender m) = Inr None"
  by (simp add: sendgrid_checks_def sendgrid_payload_def sendgrid_sendable_def first_has_def)

lemma sendgrid_step:
  assumes "sendgrid_sendable sender m"
  shows "sendgrid_send stub_api_key sender sendgrid_server m s =
    (Inr (sendgrid_id (ob_next s)), keep sendgrid_id (sendgrid_payload sender m) s)"
proof -
  have "sendgrid_id n \<noteq> []" for n by (simp add: sendgrid_id_def)
  with assms show ?thesis
    by (simp add: sendgrid_send_def sendgrid_server_def sendgrid_checks_ok json_body_def monad)
      (simp add: sendgrid_sendable_def header_def lower_def lower_char_def)
qed

lemma stub_email_step:
  "stub_email_send stub_email_server m s = (Inr (stub_email_id (ob_next s)), keep stub_email_id (stub_payload m) s)"
  by (simp add: stub_email_send_def stub_email_server_def json_body_def monad stub_payload_def is_object_def)

definition sms_stored :: "twilio_account \<Rightarrow> message \<Rightarrow> string \<Rightarrow> pyv" where
  "sms_stored a m sid =
     sms_resource (ta_sid a) sid (http_post (messages_path (ta_sid a)) [] (FormBody (sms_form a m)))"

lemma account_read: "sid \<noteq> [] \<Longrightarrow> CHR ''/'' \<notin> set sid \<Longrightarrow> account_of (messages_path sid) = Some sid"
proof -
  assume sid: "sid \<noteq> []" "CHR ''/'' \<notin> set sid"
  have "split_on CHR ''/'' (messages_path sid) = [[], ''2010-04-01'', ''Accounts'', sid, ''Messages.json'']"
    using sid split_on_first [of "CHR ''/''" "[]" "''2010-04-01/Accounts/'' @ sid @ ''/Messages.json''"]
      split_on_first [of "CHR ''/''" "''2010-04-01''" "''Accounts/'' @ sid @ ''/Messages.json''"]
      split_on_first [of "CHR ''/''" "''Accounts''" "sid @ ''/Messages.json''"]
      split_on_first [of "CHR ''/''" sid "''Messages.json''"] split_on_last [of "CHR ''/''" "''Messages.json''"]
    by (simp add: messages_path_def del: split_on.simps)
  with sid show ?thesis by (simp add: account_of_def del: split_on.simps)
qed

lemma twilio_step:
  "ta_sid a \<noteq> [] \<Longrightarrow> CHR ''/'' \<notin> set (ta_sid a) \<Longrightarrow>
     twilio_send a twilio_server m s =
       (Inr (twilio_sid (ob_next s)), keep twilio_sid (sms_stored a m (twilio_sid (ob_next s))) s)"
  by (simp add: twilio_send_def twilio_server_def account_read monad check_twilio_def sms_stored_def Let_def
      sms_resource_def [of _ _ "http_post _ _ _"])

interpretation sendgrid: delivery "sendgrid_send stub_api_key sender sendgrid_server" ob_items
    "\<lambda>m i. sendgrid_payload sender m" "sendgrid_sendable sender" "box_sound sendgrid_id" for sender
  by unfold_locales
    (auto simp: sendgrid_step keep_def box_sound_def numbered_step idents_inj)

interpretation stub_email: delivery "stub_email_send stub_email_server" ob_items
    "\<lambda>m i. stub_payload m" "\<lambda>m. True" "box_sound stub_email_id"
  by unfold_locales
    (auto simp: stub_email_step keep_def box_sound_def numbered_step idents_inj)

interpretation twilio: delivery "twilio_send a twilio_server" ob_items
    "sms_stored a" "\<lambda>m. ta_sid a \<noteq> [] \<and> CHR ''/'' \<notin> set (ta_sid a)" "box_sound twilio_sid" for a
  by unfold_locales
    (auto simp: twilio_step keep_def box_sound_def numbered_step idents_inj)

definition ses_sendable :: "ses_config \<Rightarrow> stub_account \<Rightarrow> (string \<Rightarrow> pyv option) \<Rightarrow> message \<Rightarrow> bool" where
  "ses_sendable sc sk loads m \<longleftrightarrow> msg_channel m = Email \<and> sk_key_id sk = sc_key_id sc \<and> sk_secret sk = sc_secret sc \<and>
     plain_part (sc_key_id sc) \<and> plain_part (sc_region sc) \<and> sc_from sc \<noteq> [] \<and>
     (lower (sc_from sc) \<in> set (sk_verified sk) \<or> lower (after_last CHR ''@'' (sc_from sc)) \<in> set (sk_verified sk)) \<and>
     loads (json_text (email_payload (sc_from sc) m)) = Some (email_payload (sc_from sc) m)"

lemma ses_step:
  assumes "ses_sendable sc sk loads m" "a_datetime now"
  shows "ses_send sc (ses_server sk loads) now m s =
    (Inr (ses_id (ss_next s)), stored_email (email_payload (sc_from sc) m) s)"
  using assms delivered_or_refused [of m now sk sc loads s] by (simp add: ses_sendable_def)

interpretation ses: delivery "ses_send sc (ses_server sk loads) now" ss_sent
    "\<lambda>m i. email_payload (sc_from sc) m" "\<lambda>m. ses_sendable sc sk loads m \<and> a_datetime now"
    "\<lambda>s. numbered ses_id (ss_next s) (ss_sent s)" for sc sk loads now
  by unfold_locales (auto simp: ses_step stored_email_def numbered_step idents_inj)

section \<open>A batch of messages\<close>

text \<open>
  The send adapters keep one contract. Over its stub, each of SendGrid, the email stub and Twilio
  sends a batch of messages it can send without an error: as many ids come back as messages went in, the
  stub holds under them exactly what each message says, in the order of the batch and after what it held
  before, and no id was ever used twice.
\<close>

theorem batches_delivered:
  assumes "\<forall>m \<in> set emails. sendgrid_sendable sender m" "ta_sid a \<noteq> []" "CHR ''/'' \<notin> set (ta_sid a)"
    "box_sound sendgrid_id s" "distinct (map fst (ob_items s))"
    "box_sound stub_email_id t" "distinct (map fst (ob_items t))"
    "box_sound twilio_sid u" "distinct (map fst (ob_items u))"
  shows "(\<exists>ids s'. mapM (sendgrid_send stub_api_key sender sendgrid_server) emails s = (Inr ids, s') \<and>
        length ids = length emails \<and> distinct (map fst (ob_items s')) \<and>
        ob_items s' = ob_items s @ map2 (\<lambda>i m. (i, sendgrid_payload sender m)) ids emails) \<and>
    (\<exists>ids t'. mapM (stub_email_send stub_email_server) ms t = (Inr ids, t') \<and>
        length ids = length ms \<and> distinct (map fst (ob_items t')) \<and>
        ob_items t' = ob_items t @ map2 (\<lambda>i m. (i, stub_payload m)) ids ms) \<and>
    (\<exists>ids u'. mapM (twilio_send a twilio_server) ms u = (Inr ids, u') \<and>
        length ids = length ms \<and> distinct (map fst (ob_items u')) \<and>
        ob_items u' = ob_items u @ map2 (\<lambda>i m. (i, sms_stored a m i)) ids ms)"
  using sendgrid.delivers_batch [of s emails sender] stub_email.delivers_batch [of t ms] twilio.delivers_batch [of u ms a] assms
  by blast

theorem batches_delivered_witness:
  "\<exists>ids s'. mapM (sendgrid_send stub_api_key ''desk@demo.example.com'' sendgrid_server) [sample_email, sample_email]
      \<lparr>ob_items = [], ob_next = 9000\<rparr> = (Inr ids, s') \<and> length ids = 2 \<and> distinct (map fst (ob_items s'))"
proof -
  have "\<forall>m \<in> set [sample_email, sample_email]. sendgrid_sendable ''desk@demo.example.com'' m"
    by (simp add: sendgrid_sendable_def sample_email_def)
  then show ?thesis
    using batches_delivered [of "[sample_email, sample_email]" "''desk@demo.example.com''"
      "\<lparr>ta_sid = ''AC1'', ta_from = [], ta_service = ''MG1'', ta_callback = []\<rparr>" "\<lparr>ob_items = [], ob_next = 9000\<rparr>"
      "\<lparr>ob_items = [], ob_next = 9000\<rparr>" "\<lparr>ob_items = [], ob_next = 4000\<rparr>" "[]"]
    by (force simp: box_sound_def numbered_def)
qed

end
