(* ===== verification/Templates.thy ===== *)
theory Templates
  imports World
begin

text \<open>
  \<open>core/models/message_templates.py\<close>, \<open>core/services/drafting.py\<close>, \<open>drafting_prompt.py\<close> and
  \<open>followup_rules.py\<close>: the versioned message templates, their rendering with
  \<open>string.Template.substitute\<close>, the deterministic drafter and the rules that decide who is written to.
\<close>

section \<open>Substitution\<close>

definition is_id_start :: "char \<Rightarrow> bool" where
  "is_id_start c \<longleftrightarrow>
     (let n = (of_char c :: nat) in n = 95 \<or> (97 \<le> n \<and> n \<le> 122) \<or> (65 \<le> n \<and> n \<le> 90))"

definition is_id_char :: "char \<Rightarrow> bool" where
  "is_id_char c \<longleftrightarrow> is_id_start c \<or> is_digit c"

text \<open>
  The pattern of \<open>string.Template\<close> at one position: \<open>$$\<close> is a dollar, \<open>$name\<close> and \<open>${name}\<close> are
  holes, any other dollar is invalid. The token and the text after it.
\<close>

datatype tok = Chr char | Hole string | Bad

definition lex :: "char \<Rightarrow> string \<Rightarrow> tok \<times> string" where
  "lex c s =
     (if c \<noteq> CHR ''$'' then (Chr c, s)
      else case s of
        [] \<Rightarrow> (Bad, [])
      | d # r \<Rightarrow>
          if d = CHR ''$'' then (Chr d, r)
          else if is_id_start d then (Hole (d # takeWhile is_id_char r), dropWhile is_id_char r)
          else if d = CHR ''{'' \<and> r \<noteq> [] \<and> is_id_start (hd r) then
            (case dropWhile is_id_char (tl r) of
               [] \<Rightarrow> (Bad, [])
             | e # rest \<Rightarrow>
                 if e = CHR ''}'' then (Hole (hd r # takeWhile is_id_char (tl r)), rest) else (Bad, []))
          else (Bad, []))"

lemma lex_length: "lex c s = (t, r) \<Longrightarrow> length r \<le> length s"
proof -
  assume l: "lex c s = (t, r)"
  have d: "length (dropWhile is_id_char x) \<le> length x" for x by (rule length_dropWhile_le)
  show ?thesis
  proof (cases s)
    case Nil
    with l show ?thesis by (auto simp: lex_def split: if_splits)
  next
    case (Cons a b)
    with l d [of b] d [of "tl b"] show ?thesis
      by (auto simp: lex_def split: if_splits list.splits)
  qed
qed

function tokens :: "string \<Rightarrow> tok list" where
  "tokens [] = []"
| "tokens (c # s) = (case lex c s of (t, r) \<Rightarrow> t # tokens r)"
  by pat_completeness auto
termination
  by (relation "measure length") (auto dest: lex_length [OF sym])

text \<open>
  The conversion of each match, from left to right: the first absent name is the \<open>KeyError\<close>, the
  first invalid dollar the \<open>ValueError\<close>.
\<close>

fun fill :: "(string \<times> string) list \<Rightarrow> tok list \<Rightarrow> exn + string" where
  "fill params [] = Inr []"
| "fill params (Chr c # ts) = (case fill params ts of Inl e \<Rightarrow> Inl e | Inr t \<Rightarrow> Inr (c # t))"
| "fill params (Hole n # ts) =
     (case dict_get params n of
        None \<Rightarrow> Inl (KeyError n)
      | Some v \<Rightarrow> (case fill params ts of Inl e \<Rightarrow> Inl e | Inr t \<Rightarrow> Inr (v @ t)))"
| "fill params (Bad # ts) = Inl (ValueError ''Invalid placeholder in string'')"

definition substitute :: "(string \<times> string) list \<Rightarrow> string \<Rightarrow> exn + string" where
  "substitute params s = fill params (tokens s)"

section \<open>The registered templates\<close>

record message_template =
  tpl_name :: string
  tpl_version :: nat
  tpl_subject :: string
  tpl_body :: string

definition template_ref :: "message_template \<Rightarrow> string" where
  "template_ref t = tpl_name t @ '':v'' @ show_nat (tpl_version t)"

definition render :: "message_template \<Rightarrow> (string \<times> string) list \<Rightarrow> exn + (string \<times> string)" where
  "render t params =
     (let wrap = (\<lambda>e. case e of KeyError p \<Rightarrow> TemplateParamError (template_ref t) p | _ \<Rightarrow> e)
      in case substitute params (tpl_subject t) of
           Inl e \<Rightarrow> Inl (wrap e)
         | Inr subject \<Rightarrow>
             (case substitute params (tpl_body t) of
                Inl e \<Rightarrow> Inl (wrap e) | Inr body \<Rightarrow> Inr (subject, body)))"

definition nl :: string where
  "nl = [CHR 0x0A]"

definition showing_followup_v1 :: message_template where
  "showing_followup_v1 =
     \<lparr>tpl_name = ''showing_followup'', tpl_version = 1,
      tpl_subject = ''Following up on your tour of $listing_address'',
      tpl_body = ''Hi $recipient_name,'' @ nl @ nl @
        ''Thank you for touring $listing_address. We would love to hear what you '' @
        ''thought of the home '' @ em_dash @ '' any feedback helps us find you the right fit.'' @ nl @ nl @
        ''Reply to this email or give us a call anytime.'' @ nl @ nl @ ''$sender_name''\<rparr>"

definition milestone_reminder_v1 :: message_template where
  "milestone_reminder_v1 =
     \<lparr>tpl_name = ''milestone_reminder'', tpl_version = 1,
      tpl_subject = ''Reminder: $milestone_title is due $due_date'',
      tpl_body = ''Hi $recipient_name,'' @ nl @ nl @
        ''This is a reminder that $milestone_title for $listing_address is due '' @
        ''on $due_date. Let us know if anything is blocking it.'' @ nl @ nl @ ''$sender_name''\<rparr>"

definition showing_followup_sms_v1 :: message_template where
  "showing_followup_sms_v1 =
     \<lparr>tpl_name = ''showing_followup_sms'', tpl_version = 1, tpl_subject = [],
      tpl_body = ''Hi $recipient_name, thanks for touring $listing_address! We'' @ [CHR 0x27] @
        ''d love your feedback '' @ em_dash @ '' just reply to this text. '' @ em_dash @ '' $sender_name''\<rparr>"

definition templates :: "message_template list" where
  "templates = [showing_followup_v1, milestone_reminder_v1, showing_followup_sms_v1]"

definition get_template :: "string \<Rightarrow> exn + message_template" where
  "get_template ref =
     (case List.find (\<lambda>t. template_ref t = ref) templates of
        None \<Rightarrow> Inl (UnknownTemplateError ref) | Some t \<Rightarrow> Inr t)"

section \<open>Drafting\<close>

definition sender_name :: string where
  "sender_name = ''The Brokerage Team''"

definition deterministic_draft :: "draft_context \<Rightarrow> exn + drafted_message" where
  "deterministic_draft c =
     (case get_template (dctx_template_ref c) of
        Inl e \<Rightarrow> Inl e
      | Inr t \<Rightarrow>
          (case render t (dctx_params c) of
             Inl e \<Rightarrow> Inl e
           | Inr (subject, body) \<Rightarrow>
               Inr \<lparr>dm_channel = dctx_channel c, dm_recipient = dctx_recipient c,
                    dm_subject = subject, dm_body = body, dm_template_ref = template_ref t,
                    dm_contact_id = dctx_contact_id c, dm_listing_key = dctx_listing_key c,
                    dm_transaction_id = dctx_transaction_id c\<rparr>))"

definition blank_edit_error :: exn where
  "blank_edit_error = ValueError (''edited draft body is blank '' @ em_dash @
     '' reject the draft instead of sending an empty message'')"

text \<open>The empty string means the part was not edited.\<close>

definition edited_draft_fields :: "pydict option \<Rightarrow> exn + (string \<times> string)" where
  "edited_draft_fields edited =
     (case edited of
        None \<Rightarrow> Inr ([], [])
      | Some [] \<Rightarrow> Inr ([], [])
      | Some d \<Rightarrow>
          (let subject = (case dict_get d ''subject'' of
               None \<Rightarrow> [] | Some v \<Rightarrow> if truthy v then py_str v else [])
           in case dict_get d ''body'' of
                None \<Rightarrow> Inr (subject, [])
              | Some PNone \<Rightarrow> Inr (subject, [])
              | Some v \<Rightarrow>
                  if strip (py_str v) = [] then Inl blank_edit_error else Inr (subject, py_str v)))"

definition plan_showing_followup_email :: "contact option \<Rightarrow> string \<Rightarrow> draft_context option" where
  "plan_showing_followup_email c listing_key =
     (case c of
        None \<Rightarrow> None
      | Some x \<Rightarrow>
          (case ct_email x of
             None \<Rightarrow> None
           | Some email \<Rightarrow>
               if email = [] then None
               else Some \<lparr>dctx_channel = Email, dctx_recipient = email,
                 dctx_template_ref = template_ref showing_followup_v1,
                 dctx_params = [(''recipient_name'', str_or (ct_name x) email),
                   (''listing_address'', listing_key), (''sender_name'', sender_name)],
                 dctx_contact_id = ct_crm_id x, dctx_listing_key = listing_key,
                 dctx_transaction_id = []\<rparr>))"

definition render_draft_request :: "draft_context \<Rightarrow> string" where
  "render_draft_request c =
     join nl ([''Channel: '' @ channel_value (dctx_channel c),
               ''Message purpose: '' @ dctx_template_ref c] @
       (if dctx_params c = [] then []
        else ''Details to ground the message in (use only these facts):'' #
             map (\<lambda>(k, v). ''- '' @ k @ '': '' @ v) (dctx_params c)))"

section \<open>Marketing rules\<close>

definition is_marketable :: "listing \<Rightarrow> bool" where
  "is_marketable l \<longleftrightarrow> li_status l = LsActive \<and> li_address l \<noteq> [] \<and> li_list_price l \<noteq> None"

definition plan_marketing_tasks :: "listing \<Rightarrow> marketing_draft \<Rightarrow> string list" where
  "plan_marketing_tasks l d =
     [''Publish approved marketing copy for '' @ li_mls_id l @ '' to: '' @ join '', '' (md_channels d),
      ''Add listing flyer for '' @ li_address l @ '' to the office print queue'',
      ''Schedule first open house for '' @ li_mls_id l] @
     (case li_list_price l of
        None \<Rightarrow> []
      | Some p \<Rightarrow> if p \<ge> 750000 then [''Notify luxury buyer list about '' @ li_mls_id l] else [])"

section \<open>What rendering guarantees\<close>

fun holes :: "tok list \<Rightarrow> string list" where
  "holes [] = []"
| "holes (Hole n # ts) = n # holes ts"
| "holes (_ # ts) = holes ts"

text \<open>The text with every hole replaced by its value.\<close>

definition filled :: "(string \<times> string) list \<Rightarrow> tok list \<Rightarrow> string" where
  "filled params ts = concat (map (\<lambda>t. case t of Chr c \<Rightarrow> [c] | Hole n \<Rightarrow> the (dict_get params n) | Bad \<Rightarrow> []) ts)"

definition first_missing :: "(string \<times> string) list \<Rightarrow> string list \<Rightarrow> string option" where
  "first_missing params = List.find (\<lambda>n. dict_get params n = None)"

lemma fill_wellformed:
  "Bad \<notin> set ts \<Longrightarrow> fill params ts =
     (case first_missing params (holes ts) of Some n \<Rightarrow> Inl (KeyError n) | None \<Rightarrow> Inr (filled params ts))"
  by (induction ts rule: holes.induct) (auto simp: first_missing_def filled_def split: option.splits)

lemma first_missing_append:
  "first_missing params (xs @ ys) =
     (case first_missing params xs of Some n \<Rightarrow> Some n | None \<Rightarrow> first_missing params ys)"
  by (induction xs) (auto simp: first_missing_def)

definition required :: "message_template \<Rightarrow> string list" where
  "required t = holes (tokens (tpl_subject t)) @ holes (tokens (tpl_body t))"

lemma required_params:
  "required showing_followup_v1 = [''listing_address'', ''recipient_name'', ''listing_address'', ''sender_name'']"
  "required milestone_reminder_v1 =
     [''milestone_title'', ''due_date'', ''recipient_name'', ''milestone_title'', ''listing_address'',
      ''due_date'', ''sender_name'']"
  "required showing_followup_sms_v1 = [''recipient_name'', ''listing_address'', ''sender_name'']"
  by code_simp+

lemma templates_wellformed:
  "t \<in> set templates \<Longrightarrow> Bad \<notin> set (tokens (tpl_subject t)) \<and> Bad \<notin> set (tokens (tpl_body t))"
proof -
  have "list_all (\<lambda>t. \<not> List.member (tokens (tpl_subject t)) Bad \<and> \<not> List.member (tokens (tpl_body t)) Bad) templates"
    by code_simp
  then show "t \<in> set templates \<Longrightarrow> Bad \<notin> set (tokens (tpl_subject t)) \<and> Bad \<notin> set (tokens (tpl_body t))"
    by (auto simp: list_all_iff)
qed

lemma render_run:
  assumes "t \<in> set templates"
  shows "render t params =
    (case first_missing params (required t) of
       Some n \<Rightarrow> Inl (TemplateParamError (template_ref t) n)
     | None \<Rightarrow> Inr (filled params (tokens (tpl_subject t)), filled params (tokens (tpl_body t))))"
  using templates_wellformed [OF assms]
  by (simp add: render_def substitute_def fill_wellformed required_def first_missing_append Let_def
      split: option.splits)

text \<open>
  A registered template renders exactly when every parameter it mentions is supplied, to its
  text with the parameters in place; otherwise it raises \<open>TemplateParamError\<close> naming the first
  one missing. It never produces a half-filled text and never an invalid placeholder.
\<close>

theorem render_complete:
  assumes "t \<in> set templates"
  shows "render t params =
    (case first_missing params (required t) of
       Some n \<Rightarrow> Inl (TemplateParamError (template_ref t) n)
     | None \<Rightarrow> Inr (filled params (tokens (tpl_subject t)), filled params (tokens (tpl_body t))))"
  by (rule render_run [OF assms])

theorem render_complete_witness:
  "render showing_followup_sms_v1 [(''recipient_name'', ''Ann''), (''sender_name'', ''Us'')] =
     Inl (TemplateParamError ''showing_followup_sms:v1'' ''listing_address'')"
proof -
  have m: "showing_followup_sms_v1 \<in> set templates" by (simp add: templates_def)
  have "first_missing [(''recipient_name'', ''Ann''), (''sender_name'', ''Us'')]
      (required showing_followup_sms_v1) = Some ''listing_address''"
    by (simp add: required_params first_missing_def dict_get_def)
  moreover have "template_ref showing_followup_sms_v1 = ''showing_followup_sms:v1''" by code_simp
  ultimately show ?thesis using render_complete [OF m] by simp
qed

lemma get_showing_followup: "get_template (template_ref showing_followup_v1) = Inr showing_followup_v1"
  by (simp add: get_template_def templates_def)

text \<open>
  The follow-up rule offers a draft exactly for a contact with an email on file, addressed to
  that contact, and the deterministic drafter always renders what the rule plans.
\<close>

theorem followup_plan_renders:
  "(plan_showing_followup_email c key = None \<longleftrightarrow>
      (case c of None \<Rightarrow> True | Some x \<Rightarrow> ct_email x = None \<or> ct_email x = Some [])) \<and>
   (plan_showing_followup_email c key = Some ctx \<longrightarrow>
      (\<exists>x d. c = Some x \<and> deterministic_draft ctx = Inr d \<and> ct_email x = Some (dm_recipient d) \<and>
         dm_recipient d \<noteq> [] \<and> dm_contact_id d = ct_crm_id x \<and> dm_listing_key d = key \<and>
         dm_template_ref d = template_ref showing_followup_v1))"
proof -
  have m: "showing_followup_v1 \<in> set templates" by (simp add: templates_def)
  have r: "render showing_followup_v1
      [(''recipient_name'', a), (''listing_address'', b), (''sender_name'', s)] \<noteq> Inl e" for a b s e
    using render_run [OF m, of "[(''recipient_name'', a), (''listing_address'', b), (''sender_name'', s)]"]
    by (simp add: required_params first_missing_def dict_get_def)
  show ?thesis
    using r
    by (auto simp: plan_showing_followup_email_def deterministic_draft_def get_showing_followup
        split: option.splits sum.splits if_splits)
qed

definition sample_contact :: contact where
  "sample_contact = \<lparr>ct_crm_id = ''c1'', ct_name = ''Ann'', ct_role = ''buyer'',
     ct_email = Some ''ann@example.com'', ct_phone = None\<rparr>"

theorem followup_plan_renders_witness:
  "\<exists>ctx x d. plan_showing_followup_email (Some sample_contact) ''l1'' = Some ctx \<and>
     deterministic_draft ctx = Inr d \<and> Some x = ct_email sample_contact \<and> dm_recipient d = x"
proof -
  obtain ctx where p: "plan_showing_followup_email (Some sample_contact) ''l1'' = Some ctx"
    by (simp add: plan_showing_followup_email_def sample_contact_def)
  with followup_plan_renders [of "Some sample_contact" "''l1''" ctx] show ?thesis
    by (auto simp: sample_contact_def)
qed

text \<open>
  What the HTTP boundary accepts as an edit, the gate accepts too: a validated payload never
  raises in \<open>edited_draft_fields\<close>, carries no subject, and its body arrives unchanged and is
  not blank (an absent or null body counts as not edited).
\<close>

theorem validated_edit_accepted:
  assumes "edited_message_payload p = Inr b"
  shows "edited_draft_fields (Some p) = Inr ([], case b of None \<Rightarrow> [] | Some t \<Rightarrow> t) \<and>
    (\<forall>t. b = Some t \<longrightarrow> strip t \<noteq> [] \<and> py_len t \<le> edited_body_max_chars \<and>
       (\<forall>c \<in> set t. \<not> is_forbidden_control c))"
proof -
  have keys: "\<forall>x \<in> set p. fst x = ''body''"
    using assms by (auto simp: edited_message_payload_def list_ex_iff split: if_splits)
  then have no_subject: "dict_get p ''subject'' = None"
    by (force simp: dict_get_def map_of_eq_None_iff)
  show ?thesis
  proof (cases "dict_get p ''body''")
    case None
    with assms no_subject show ?thesis
      by (cases p) (auto simp: edited_message_payload_def edited_draft_fields_def split: if_splits)
  next
    case (Some v)
    then have "p \<noteq> []" by auto
    with assms no_subject Some show ?thesis
      by (cases p; cases v)
        (auto simp: edited_message_payload_def edited_draft_fields_def list_ex_iff
          split: if_splits)
  qed
qed

theorem validated_edit_accepted_witness:
  "edited_draft_fields (Some [(''body'', PStr ''Hi'')]) = Inr ([], ''Hi'')"
proof -
  have "edited_message_payload [(''body'', PStr ''Hi'')] = Inr (Some ''Hi'')"
    by (simp add: edited_message_payload_def dict_get_def py_len_def edited_body_max_chars_def
        is_forbidden_control_def is_continuation_def) code_simp
  from validated_edit_accepted [OF this] show ?thesis by simp
qed

end
