(* ===== verification/Milestones.thy ===== *)
theory Milestones
  imports Templates Samples "HOL-Library.Multiset"
begin

text \<open>
  The deadline rules of \<open>core/services/milestone_engine.py\<close>: classification, the worst class a
  run routes on, the portfolio's deadline queue, the reminder texts and the reminder email.
\<close>

section \<open>Assessment\<close>

definition due_soon_days :: int where
  "due_soon_days = 3"

datatype milestone_class = OnTrack | DueSoon | Overdue | BlockedExternal

fun milestone_class_value :: "milestone_class \<Rightarrow> string" where
  "milestone_class_value OnTrack = ''on_track''"
| "milestone_class_value DueSoon = ''due_soon''"
| "milestone_class_value Overdue = ''overdue''"
| "milestone_class_value BlockedExternal = ''blocked_external''"

definition severity_order :: "milestone_class list" where
  "severity_order = [Overdue, DueSoon, BlockedExternal, OnTrack]"

record milestone_assessment =
  as_milestone_id :: string
  as_classification :: milestone_class
  as_days_until_due :: int

definition assess_milestone :: "milestone \<Rightarrow> date \<Rightarrow> milestone_assessment" where
  "assess_milestone m today =
     (let days = ms_due_date m - today;
          c = (if (case ms_blocked_reason m of None \<Rightarrow> False | Some r \<Rightarrow> r \<noteq> []) then BlockedExternal
               else if days < 0 then Overdue
               else if days \<le> due_soon_days then DueSoon
               else OnTrack)
      in \<lparr>as_milestone_id = ms_id m, as_classification = c, as_days_until_due = days\<rparr>)"

definition assess_milestones :: "milestone list \<Rightarrow> date \<Rightarrow> milestone_assessment list" where
  "assess_milestones ms today = map (\<lambda>m. assess_milestone m today) (filter (\<lambda>m. ms_status m = MsPending) ms)"

definition worst_classification :: "milestone_assessment list \<Rightarrow> milestone_class" where
  "worst_classification as =
     (case List.find (\<lambda>c. c \<in> as_classification ` set as) severity_order of
        Some c \<Rightarrow> c | None \<Rightarrow> OnTrack)"

section \<open>The deadline queue\<close>

definition queue_classes :: "milestone_class list" where
  "queue_classes = [Overdue, DueSoon, BlockedExternal]"

fun severity_rank :: "milestone_class \<Rightarrow> nat" where
  "severity_rank Overdue = 0"
| "severity_rank DueSoon = 1"
| "severity_rank BlockedExternal = 2"
| "severity_rank OnTrack = 3"

record deadline_item =
  di_transaction_id :: string
  di_milestone_id :: string
  di_type :: milestone_type
  di_title :: string
  di_due_date :: date
  di_classification :: milestone_class
  di_days_until_due :: int
  di_blocked_reason :: "string option"

definition urgency_key :: "deadline_item \<Rightarrow> nat \<times> int \<times> string \<times> string" where
  "urgency_key i =
     (severity_rank (di_classification i), di_days_until_due i, di_transaction_id i, di_milestone_id i)"

definition deadline_of :: "milestone \<Rightarrow> milestone_assessment \<Rightarrow> deadline_item" where
  "deadline_of m a =
     \<lparr>di_transaction_id = ms_transaction_id m, di_milestone_id = as_milestone_id a,
      di_type = ms_type m, di_title = ms_title m, di_due_date = ms_due_date m,
      di_classification = as_classification a, di_days_until_due = as_days_until_due a,
      di_blocked_reason = ms_blocked_reason m\<rparr>"

text \<open>\<open>{m.id: m for m in milestones}\<close>: a later milestone with the same id replaces an earlier one.\<close>

definition milestones_by_id :: "milestone list \<Rightarrow> (string, milestone) dict" where
  "milestones_by_id ms = fold (\<lambda>m d. dict_set d (ms_id m) m) ms []"

definition build_deadline_queue :: "milestone list \<Rightarrow> date \<Rightarrow> exn + deadline_item list" where
  "build_deadline_queue ms today =
     (let by_id = milestones_by_id ms
      in case mapE (\<lambda>a. case dict_get by_id (as_milestone_id a) of
                None \<Rightarrow> Inl (KeyError (as_milestone_id a)) | Some m \<Rightarrow> Inr (deadline_of m a))
              (filter (\<lambda>a. as_classification a \<in> set queue_classes) (assess_milestones ms today)) of
           Inl e \<Rightarrow> Inl e
         | Inr items \<Rightarrow> Inr (sort_key urgency_key items))"

section \<open>Documents and texts\<close>

definition expected_document_satisfied :: "milestone \<Rightarrow> document list \<Rightarrow> bool option" where
  "expected_document_satisfied m ds =
     (case ms_expected_document m of
        None \<Rightarrow> None
      | Some k \<Rightarrow> Some (list_ex (\<lambda>d. doc_kind d = k \<and>
          (case doc_milestone_id d of None \<Rightarrow> True | Some i \<Rightarrow> i = ms_id m)) ds))"

definition draft_milestone_reminder :: "transaction \<Rightarrow> milestone \<Rightarrow> int \<Rightarrow> string" where
  "draft_milestone_reminder txn m days =
     ''Reminder: '' @ ms_title m @ '' for transaction '' @ txn_id txn @ '' ('' @ txn_listing_key txn @
     '') is due '' @ isoformat (ms_due_date m) @ '' '' @ em_dash @ '' '' @ show_int days @
     '' day(s) out. Owner: '' @ str_or (ms_owner m) ''unassigned'' @ ''.''"

definition draft_escalation_note :: "transaction \<Rightarrow> milestone \<Rightarrow> int \<Rightarrow> string" where
  "draft_escalation_note txn m days =
     ''OVERDUE: '' @ ms_title m @ '' for transaction '' @ txn_id txn @ '' ('' @ txn_listing_key txn @
     '') was due '' @ isoformat (ms_due_date m) @ '' '' @ em_dash @ '' '' @ show_int days @
     '' day(s) overdue (escalation level '' @ show_int (ms_escalation_level m) @ '').''"

text \<open>The party of the transaction that owns the milestone and can be written to.\<close>

definition reachable_party :: "transaction \<Rightarrow> milestone \<Rightarrow> transaction_party option" where
  "reachable_party txn m =
     List.find (\<lambda>p. pty_name p \<noteq> [] \<and> pty_name p = ms_owner m \<and>
       pty_email p \<noteq> []) (txn_parties txn)"

definition reminder_context :: "transaction \<Rightarrow> milestone \<Rightarrow> transaction_party \<Rightarrow> draft_context" where
  "reminder_context txn m p =
     \<lparr>dctx_channel = Email, dctx_recipient = pty_email p,
      dctx_template_ref = template_ref milestone_reminder_v1,
      dctx_params = [(''recipient_name'', pty_name p), (''milestone_title'', ms_title m),
        (''listing_address'', txn_listing_key txn), (''due_date'', isoformat (ms_due_date m)),
        (''sender_name'', sender_name)],
      dctx_contact_id = (case pty_contact_id p of None \<Rightarrow> [] | Some c \<Rightarrow> c),
      dctx_listing_key = txn_listing_key txn, dctx_transaction_id = txn_id txn\<rparr>"

fun first_reachable :: "transaction \<Rightarrow> (milestone \<times> int) list \<Rightarrow> draft_context option" where
  "first_reachable txn [] = None"
| "first_reachable txn ((m, days) # xs) =
     (case reachable_party txn m of
        None \<Rightarrow> first_reachable txn xs | Some p \<Rightarrow> Some (reminder_context txn m p))"

definition plan_reminder_email :: "transaction \<Rightarrow> (milestone \<times> int) list \<Rightarrow> draft_context option" where
  "plan_reminder_email txn due_soon = first_reachable txn (sort_key snd due_soon)"

section \<open>Lemmas\<close>

definition blocked :: "milestone \<Rightarrow> bool" where
  "blocked m \<longleftrightarrow> (case ms_blocked_reason m of None \<Rightarrow> False | Some r \<Rightarrow> r \<noteq> [])"

text \<open>What belongs on the worklist: pending, and blocked or due within three days.\<close>

definition needs_attention :: "milestone \<Rightarrow> date \<Rightarrow> bool" where
  "needs_attention m today \<longleftrightarrow> ms_status m = MsPending \<and> (blocked m \<or> ms_due_date m \<le> today + 3)"

lemma assess_id [simp]: "as_milestone_id (assess_milestone m today) = ms_id m"
  by (simp add: assess_milestone_def Let_def)

lemma assess_queued:
  "as_classification (assess_milestone m today) \<in> set queue_classes \<longleftrightarrow> blocked m \<or> ms_due_date m \<le> today + 3"
  by (auto simp: assess_milestone_def queue_classes_def blocked_def due_soon_days_def Let_def
      split: option.splits)

lemma fold_by_id:
  "dict_get (fold (\<lambda>m d. dict_set d (ms_id m) m) ms d) i =
     (case List.find (\<lambda>m. ms_id m = i) (rev ms) of Some m \<Rightarrow> Some m | None \<Rightarrow> dict_get d i)"
proof (induction ms arbitrary: d)
  case Nil
  then show ?case by simp
next
  case (Cons m ms)
  then show ?case by (simp add: find_append split: option.split)
qed

lemma by_id_found:
  assumes "m \<in> set ms"
  shows "\<exists>m' \<in> set ms. dict_get (milestones_by_id ms) (ms_id m) = Some m' \<and> ms_id m' = ms_id m"
proof (cases "List.find (\<lambda>x. ms_id x = ms_id m) (rev ms)")
  case None
  with assms show ?thesis by (auto simp: find_None_iff)
next
  case (Some m')
  then have "m' \<in> set ms" "ms_id m' = ms_id m" by (auto dest: find_SomeD)
  with Some show ?thesis by (simp add: milestones_by_id_def fold_by_id)
qed

text \<open>The queue before sorting: every milestone that needs attention, described by the last
  milestone with its id.\<close>

definition queued :: "milestone list \<Rightarrow> date \<Rightarrow> deadline_item list" where
  "queued ms today = map (\<lambda>m. deadline_of (the (dict_get (milestones_by_id ms) (ms_id m))) (assess_milestone m today))
     (filter (\<lambda>m. needs_attention m today) ms)"

lemma queue_run: "build_deadline_queue ms today = Inr (sort_key urgency_key (queued ms today))"
proof -
  let ?f = "\<lambda>a. case dict_get (milestones_by_id ms) (as_milestone_id a) of
      None \<Rightarrow> Inl (KeyError (as_milestone_id a)) | Some m \<Rightarrow> Inr (deadline_of m a)"
  let ?g = "\<lambda>a. deadline_of (the (dict_get (milestones_by_id ms) (as_milestone_id a))) a"
  let ?as = "filter (\<lambda>a. as_classification a \<in> set queue_classes) (assess_milestones ms today)"
  have as: "?as = map (\<lambda>m. assess_milestone m today) (filter (\<lambda>m. needs_attention m today) ms)"
    by (simp add: assess_milestones_def filter_map o_def assess_queued needs_attention_def conj_commute)
  have "mapE ?f ?as = Inr (map ?g ?as)"
  proof (rule mapE_all)
    fix a assume "a \<in> set ?as"
    then obtain m where "m \<in> set ms" "a = assess_milestone m today" by (auto simp: assess_milestones_def)
    then show "?f a = Inr (?g a)" using by_id_found by fastforce
  qed
  moreover have "map ?g ?as = queued ms today" by (simp add: as queued_def o_def)
  ultimately show ?thesis by (simp add: build_deadline_queue_def Let_def)
qed

lemma queued_distinct:
  assumes "distinct (map ms_id ms)"
  shows "queued ms today = map (\<lambda>m. deadline_of m (assess_milestone m today))
    (filter (\<lambda>m. needs_attention m today) ms)"
proof -
  have "dict_get (milestones_by_id ms) (ms_id m) = Some m" if "m \<in> set ms" for m
    using by_id_found [OF that] that assms by (auto simp: distinct_map inj_on_def)
  then show ?thesis by (simp add: queued_def)
qed

lemma severity_rank_inject: "severity_rank a = severity_rank b \<longleftrightarrow> a = b"
  by (cases a; cases b) simp_all

lemma first_reachable_None: "first_reachable txn xs = None \<longleftrightarrow> (\<forall>(m, d) \<in> set xs. reachable_party txn m = None)"
  by (induction txn xs rule: first_reachable.induct) (auto split: option.split)

lemma first_reachable_Some:
  assumes "first_reachable txn xs = Some c" and "sorted (map snd xs)"
  shows "\<exists>m d p. (m, d) \<in> set xs \<and> reachable_party txn m = Some p \<and> c = reminder_context txn m p \<and>
    (\<forall>(m', d') \<in> set xs. reachable_party txn m' \<noteq> None \<longrightarrow> d \<le> d')"
  using assms
proof (induction txn xs rule: first_reachable.induct)
  case (1 txn)
  then show ?case by simp
next
  case (2 txn m days xs)
  show ?case
  proof (cases "reachable_party txn m")
    case None
    with 2 obtain m' d p where "(m', d) \<in> set xs" "reachable_party txn m' = Some p"
        "c = reminder_context txn m' p" "\<forall>(m', d') \<in> set xs. reachable_party txn m' \<noteq> None \<longrightarrow> d \<le> d'"
      by auto
    with None show ?thesis by (intro exI [of _ m'] exI [of _ d] exI [of _ p]) auto
  next
    case (Some p)
    with 2 show ?thesis by (intro exI [of _ m] exI [of _ days] exI [of _ p]) auto
  qed
qed

lemma reminder_renders:
  "\<exists>d. deterministic_draft (reminder_context txn m p) = Inr d \<and> dm_recipient d = pty_email p \<and>
     dm_transaction_id d = txn_id txn"
proof -
  have t: "get_template (template_ref milestone_reminder_v1) = Inr milestone_reminder_v1" by code_simp
  have m: "milestone_reminder_v1 \<in> set templates" by (simp add: templates_def)
  have "first_missing (dctx_params (reminder_context txn m p)) (required milestone_reminder_v1) = None"
    by (simp add: required_params first_missing_def reminder_context_def dict_get_def)
  with t m show ?thesis
    by (simp add: deterministic_draft_def render_run reminder_context_def)
qed

section \<open>Properties\<close>

text \<open>
  C33: The deadline queue is total, sorted most urgent first (severity band, then days until due,
  then ids), and for milestones with distinct ids it holds exactly one row for each pending
  milestone that is blocked or due within three days, no other row and none twice.
\<close>

theorem deadline_queue_exact:
  "\<exists>items. build_deadline_queue ms today = Inr items \<and> sorted (map urgency_key items) \<and>
     (distinct (map ms_id ms) \<longrightarrow> mset items =
        image_mset (\<lambda>m. deadline_of m (assess_milestone m today))
          (filter_mset (\<lambda>m. needs_attention m today) (mset ms)))"
  by (simp add: queue_run queued_distinct flip: mset_map mset_filter)

theorem deadline_queue_exact_witness:
  "\<exists>items. build_deadline_queue [sample_milestone, sample_milestone\<lparr>ms_id := ''ms2'', ms_due_date := 738001\<rparr>]
       738000 = Inr items \<and> size (mset items) = 1"
proof -
  let ?ms = "[sample_milestone, sample_milestone\<lparr>ms_id := ''ms2'', ms_due_date := 738001\<rparr>]"
  have "distinct (map ms_id ?ms)" by (simp add: sample_milestone_def)
  with deadline_queue_exact [of ?ms 738000] show ?thesis
    by (auto simp: needs_attention_def blocked_def sample_milestone_def)
qed

text \<open>
  A run routes on the most severe class present: the worst classification is the class of
  some assessment and no assessment is more severe; with nothing to assess it is on track.
\<close>

theorem worst_is_most_severe:
  "worst_classification [] = OnTrack \<and>
   (as \<noteq> [] \<longrightarrow> worst_classification as \<in> as_classification ` set as \<and>
     (\<forall>a \<in> set as. severity_rank (worst_classification as) \<le> severity_rank (as_classification a)))"
proof -
  have "worst_classification as \<in> as_classification ` set as \<and>
     (\<forall>a \<in> set as. severity_rank (worst_classification as) \<le> severity_rank (as_classification a))"
    if ne: "as \<noteq> []"
  proof -
    let ?C = "as_classification ` set as"
    from ne obtain a where "a \<in> set as" by (cases as) auto
    then have "Overdue \<in> ?C \<or> DueSoon \<in> ?C \<or> BlockedExternal \<in> ?C \<or> OnTrack \<in> ?C"
      by (cases "as_classification a") (auto intro: rev_image_eqI)
    then have "worst_classification as \<in> ?C"
      unfolding worst_classification_def severity_order_def by (auto simp del: image_iff)
    moreover have "severity_rank (worst_classification as) \<le> severity_rank c" if "c \<in> ?C" for c
      using that unfolding worst_classification_def severity_order_def
      by (cases c) (simp_all del: image_iff)
    ultimately show ?thesis by blast
  qed
  then show ?thesis by (simp add: worst_classification_def severity_order_def)
qed

theorem worst_is_most_severe_witness:
  "severity_rank (worst_classification [assess_milestone sample_milestone 738020]) = 0"
proof -
  let ?as = "[assess_milestone sample_milestone 738020]"
  have "worst_classification ?as \<in> as_classification ` set ?as"
    using worst_is_most_severe [of ?as] by simp
  then show ?thesis by (simp add: assess_milestone_def sample_milestone_def)
qed

text \<open>
  The reminder email goes to the most urgent due-soon milestone somebody outside can be
  reached about: no draft exactly when no owner is a party with an email, otherwise the draft for
  such a milestone, none of the others being due earlier, and the deterministic drafter renders it.
\<close>

theorem reminder_plan_most_urgent:
  "case plan_reminder_email txn xs of
     None \<Rightarrow> \<forall>(m, d) \<in> set xs. reachable_party txn m = None
   | Some c \<Rightarrow> \<exists>m d p. (m, d) \<in> set xs \<and> reachable_party txn m = Some p \<and>
       (\<forall>(m', d') \<in> set xs. reachable_party txn m' \<noteq> None \<longrightarrow> d \<le> d') \<and>
       c = reminder_context txn m p \<and> pty_email p \<noteq> [] \<and> pty_name p = ms_owner m \<and>
       (\<exists>r. deterministic_draft c = Inr r \<and> dm_recipient r = pty_email p)"
proof (cases "plan_reminder_email txn xs")
  case None
  then have "first_reachable txn (sort_key snd xs) = None" by (simp add: plan_reminder_email_def)
  with None show ?thesis by (simp only: first_reachable_None option.case set_sort)
next
  case (Some c)
  then have "first_reachable txn (sort_key snd xs) = Some c" by (simp add: plan_reminder_email_def)
  from first_reachable_Some [OF this] obtain m d p where
    "(m, d) \<in> set xs" and p: "reachable_party txn m = Some p" and "c = reminder_context txn m p"
    and "\<forall>(m', d') \<in> set xs. reachable_party txn m' \<noteq> None \<longrightarrow> d \<le> d'"
    by auto
  moreover have "pty_email p \<noteq> []" "pty_name p = ms_owner m"
    using p by (auto simp: reachable_party_def find_Some_iff)
  moreover have "\<exists>r. deterministic_draft c = Inr r \<and> dm_recipient r = pty_email p"
    using reminder_renders \<open>c = _\<close> by blast
  ultimately show ?thesis unfolding Some option.case by blast
qed

definition sample_party :: transaction_party where
  "sample_party = \<lparr>pty_role = ''escrow'', pty_name = ''agent'', pty_contact_id = None, pty_email = ''e@example.com''\<rparr>"

theorem reminder_plan_most_urgent_witness:
  "\<exists>c r. plan_reminder_email (sample_transaction\<lparr>txn_parties := [sample_party]\<rparr>)
       [(sample_milestone\<lparr>ms_owner := ''nobody''\<rparr>, 1), (sample_milestone, 2)] = Some c \<and>
     deterministic_draft c = Inr r \<and> dm_recipient r \<noteq> []"
proof -
  let ?txn = "sample_transaction\<lparr>txn_parties := [sample_party]\<rparr>"
  let ?xs = "[(sample_milestone\<lparr>ms_owner := ''nobody''\<rparr>, 1), (sample_milestone, 2)]"
  have "reachable_party ?txn sample_milestone = Some sample_party"
    by (simp add: reachable_party_def sample_party_def sample_milestone_def)
  with reminder_plan_most_urgent [of ?xs ?txn] show ?thesis
    by (cases "plan_reminder_email ?txn ?xs") auto
qed

end
