(* ===== verification/Timeline.thy ===== *)
theory Timeline
  imports Milestones
begin

text \<open>
  \<open>core/services/milestone_schedule.py\<close> (the milestone timeline of a transaction from a template)
  and \<open>transaction_open.py\<close> (the validation of a new transaction).
\<close>

section \<open>The timeline\<close>

definition default_timeline :: "milestone_template list" where
  "default_timeline =
     [\<lparr>mt_type = Inspection, mt_title = ''Home inspection'', mt_owner = ''Buyer'' @ [CHR 0x27] @ ''s agent'',
       mt_rule = AfterContract, mt_days = 10, mt_expected_document = Some InspectionReport\<rparr>,
      \<lparr>mt_type = Appraisal, mt_title = ''Appraisal'', mt_owner = ''Lender'',
       mt_rule = AfterContract, mt_days = 17, mt_expected_document = None\<rparr>,
      \<lparr>mt_type = Financing, mt_title = ''Loan approval'', mt_owner = ''Lender'',
       mt_rule = AfterContract, mt_days = 21, mt_expected_document = Some LoanApproval\<rparr>,
      \<lparr>mt_type = Custom, mt_title = ''Final walkthrough'', mt_owner = ''Buyer'' @ [CHR 0x27] @ ''s agent'',
       mt_rule = BeforeClose, mt_days = 1, mt_expected_document = None\<rparr>,
      \<lparr>mt_type = Closing, mt_title = ''Closing'', mt_owner = ''Escrow'',
       mt_rule = BeforeClose, mt_days = 0, mt_expected_document = None\<rparr>]"

definition due_date :: "transaction \<Rightarrow> milestone_template \<Rightarrow> exn + date" where
  "due_date txn entry =
     (if mt_rule entry = AfterContract then date_add (txn_contract_date txn) (mt_days entry)
      else case txn_close_date txn of
        None \<Rightarrow> Inl (ValueError (''milestone '' @ [CHR 0x27] @ mt_title entry @ [CHR 0x27] @
          '' is anchored before close, but transaction '' @ txn_id txn @ '' has no close_date''))
      | Some c \<Rightarrow> date_add c (- mt_days entry))"

definition upper_char :: "char \<Rightarrow> char" where
  "upper_char c =
     (let n = (of_char c :: nat) in if 97 \<le> n \<and> n \<le> 122 then char_of (n - 32) else c)"

definition milestone_id :: "string \<Rightarrow> nat \<Rightarrow> milestone_type \<Rightarrow> string" where
  "milestone_id tid index ty =
     tid @ ''-MS'' @ zpad 2 index @ ''-'' @ map upper_char (take 3 (milestone_type_value ty))"

definition scheduled :: "transaction \<Rightarrow> nat \<times> milestone_template \<Rightarrow> exn + milestone" where
  "scheduled txn ie = (case ie of (index, entry) \<Rightarrow>
     (case due_date txn entry of
        Inl e \<Rightarrow> Inl e
      | Inr d \<Rightarrow> Inr \<lparr>ms_tenant_id = [], ms_id = milestone_id (txn_id txn) index (mt_type entry),
          ms_transaction_id = txn_id txn, ms_type = mt_type entry, ms_title = mt_title entry,
          ms_due_date = d, ms_status = MsPending, ms_owner = mt_owner entry,
          ms_escalation_level = 0, ms_blocked_reason = None,
          ms_expected_document = mt_expected_document entry\<rparr>))"

definition generate_milestones :: "transaction \<Rightarrow> milestone_template list \<Rightarrow> exn + milestone list" where
  "generate_milestones txn template = mapE (scheduled txn) (enumerate 1 template)"

section \<open>Opening a transaction\<close>

definition listing_key_max_length :: nat where
  "listing_key_max_length = 36"

definition transaction_id_for_listing :: "(string \<Rightarrow> string) \<Rightarrow> string \<Rightarrow> string" where
  "transaction_id_for_listing sha listing_key = ''TXN-'' @ take 16 (sha listing_key)"

text \<open>The first milestone outside the window from contract to close, as the error it raises.\<close>

fun check_window :: "date \<Rightarrow> date option \<Rightarrow> milestone list \<Rightarrow> exn option" where
  "check_window contract close [] = None"
| "check_window contract close (m # ms) =
     (if ms_due_date m < contract
      then Some (ValueError (''milestone '' @ [CHR 0x27] @ ms_title m @ [CHR 0x27] @ '' due '' @
             isoformat (ms_due_date m) @ '' is before contract_date '' @ isoformat contract))
      else case close of
        None \<Rightarrow> check_window contract close ms
      | Some c \<Rightarrow>
          if ms_due_date m > c
          then Some (ValueError (''milestone '' @ [CHR 0x27] @ ms_title m @ [CHR 0x27] @ '' due '' @
                 isoformat (ms_due_date m) @ '' is after close_date '' @ isoformat c))
          else check_window contract close ms)"

definition opened :: "(string \<Rightarrow> string) \<Rightarrow> string \<Rightarrow> date \<Rightarrow> date option \<Rightarrow> transaction_party list \<Rightarrow> transaction" where
  "opened sha listing_key contract close parties =
     \<lparr>txn_tenant_id = [], txn_id = transaction_id_for_listing sha listing_key,
      txn_listing_key = listing_key, txn_stage = UnderContract, txn_parties = parties,
      txn_contract_date = contract, txn_close_date = close\<rparr>"

definition build_open_transaction ::
    "(string \<Rightarrow> string) \<Rightarrow> string \<Rightarrow> date \<Rightarrow> date option \<Rightarrow> transaction_party list \<Rightarrow> milestone_template list \<Rightarrow>
     exn + transaction \<times> milestone list" where
  "build_open_transaction sha listing_key contract close parties template =
     (if py_len listing_key > listing_key_max_length
      then Inl (ValueError (''listing_key exceeds '' @ show_nat listing_key_max_length @
             '' characters ('' @ show_nat (py_len listing_key) @ '')''))
      else case (case close of None \<Rightarrow> None | Some c \<Rightarrow> if c < contract then Some c else None) of
        Some c \<Rightarrow> Inl (ValueError (''close_date '' @ isoformat c @ '' is before contract_date '' @
          isoformat contract))
      | None \<Rightarrow>
          let txn = opened sha listing_key contract close parties
          in case generate_milestones txn template of
                Inl e \<Rightarrow> Inl e
              | Inr ms \<Rightarrow> (case check_window contract close ms of
                  Some e \<Rightarrow> Inl e | None \<Rightarrow> Inr (txn, ms)))"

section \<open>Lemmas\<close>

lemma length_type_tag [simp]: "min (length (milestone_type_value ty)) 3 = 3"
  by (cases ty) simp_all

lemma milestone_id_inject:
  assumes "milestone_id tid i ty = milestone_id tid j ty'"
  shows "i = j"
proof -
  have "zpad 2 i @ ''-'' @ map upper_char (take 3 (milestone_type_value ty)) =
      zpad 2 j @ ''-'' @ map upper_char (take 3 (milestone_type_value ty'))"
    using assms by (simp add: milestone_id_def)
  then have "zpad 2 i = zpad 2 j" by (rule append_eq_append_conv [THEN iffD1, THEN conjunct1, rotated]) simp
  then show ?thesis by simp
qed

lemma scheduled_fields:
  assumes "scheduled txn (i, entry) = Inr m"
  shows "ms_id m = milestone_id (txn_id txn) i (mt_type entry)" and "ms_transaction_id m = txn_id txn"
    and "ms_status m = MsPending" and "ms_tenant_id m = []" and "ms_escalation_level m = 0"
    and "ms_type m = mt_type entry" and "ms_title m = mt_title entry" and "ms_owner m = mt_owner entry"
    and "due_date txn entry = Inr (ms_due_date m)" and "ms_blocked_reason m = None"
  using assms by (auto simp: scheduled_def split: sum.splits)

lemma generated:
  assumes "generate_milestones txn template = Inr ms"
  shows "length ms = length template" and "distinct (map ms_id ms)"
    and "i < length ms \<Longrightarrow> scheduled txn (Suc i, template ! i) = Inr (ms ! i)"
proof -
  have l: "list_all2 (\<lambda>x y. scheduled txn x = Inr y) (enumerate 1 template) ms"
    using assms by (simp add: generate_milestones_def mapE_Inr)
  then show len: "length ms = length template" by (auto dest: list_all2_lengthD)
  show at: "scheduled txn (Suc i, template ! i) = Inr (ms ! i)" if "i < length ms" for i
    using list_all2_nthD2 [OF l that] that len by (simp add: nth_enumerate_eq)
  show "distinct (map ms_id ms)"
    unfolding distinct_conv_nth
  proof (intro allI impI)
    fix i j assume ij: "i < length (map ms_id ms)" "j < length (map ms_id ms)" "i \<noteq> j"
    then show "map ms_id ms ! i \<noteq> map ms_id ms ! j"
      using scheduled_fields(1) [OF at [of i]] scheduled_fields(1) [OF at [of j]]
      by (auto dest: milestone_id_inject)
  qed
qed

lemma check_window_None:
  "check_window contract close ms = None \<longleftrightarrow>
     (\<forall>m \<in> set ms. contract \<le> ms_due_date m \<and> (\<forall>c. close = Some c \<longrightarrow> ms_due_date m \<le> c))"
  by (induction contract close ms rule: check_window.induct) (auto split: option.split)

lemma check_window_Some: "check_window contract close ms = Some e \<Longrightarrow> is_value_error e"
  by (induction contract close ms rule: check_window.induct) (auto split: if_splits option.splits)

lemma build_Inr:
  "build_open_transaction sha k contract close parties template = Inr (txn, ms) \<longleftrightarrow>
     py_len k \<le> listing_key_max_length \<and> (\<forall>c. close = Some c \<longrightarrow> contract \<le> c) \<and>
     txn = opened sha k contract close parties \<and> generate_milestones txn template = Inr ms \<and>
     check_window contract close ms = None"
  by (auto simp: build_open_transaction_def Let_def split: option.splits sum.splits if_splits)

lemma build_Inl:
  assumes "build_open_transaction sha k contract close parties template = Inl e"
  shows "is_value_error e \<or> e = OverflowError"
proof -
  have "is_value_error e \<or> e = OverflowError" if g: "generate_milestones txn template = Inl e" for txn
  proof -
    obtain p where "scheduled txn p = Inl e" using g by (auto simp: generate_milestones_def dest: mapE_Inl)
    then show ?thesis
      by (auto simp: scheduled_def due_date_def split: prod.splits sum.splits if_splits option.splits
          dest: date_add_Inl)
  qed
  with assms show ?thesis
    by (auto simp: build_open_transaction_def Let_def split: option.splits sum.splits if_splits
        dest: check_window_Some)
qed

section \<open>Properties\<close>

text \<open>
  What opening a transaction yields: an id of twenty characters derived from the listing
  alone, and one pending milestone per template step, in order, with its own id within the
  36-character column (for up to 99 steps), due between contract and close.
\<close>

theorem opened_timeline_sound:
  assumes "build_open_transaction sha256_hex k contract close parties template = Inr (txn, ms)"
  shows "txn_id txn = transaction_id_for_listing sha256_hex k \<and> length (txn_id txn) = 20 \<and>
    txn_is_active txn \<and> length ms = length template \<and> distinct (map ms_id ms) \<and>
    (\<forall>m \<in> set ms. ms_transaction_id m = txn_id txn \<and> ms_status m = MsPending \<and>
       contract \<le> ms_due_date m \<and> (\<forall>c. close = Some c \<longrightarrow> ms_due_date m \<le> c)) \<and>
    (length template \<le> 99 \<longrightarrow> (\<forall>m \<in> set ms. length (ms_id m) \<le> 36))"
proof -
  have txn: "txn = opened sha256_hex k contract close parties"
    and gen: "generate_milestones txn template = Inr ms" and win: "check_window contract close ms = None"
    using assms by (auto simp: build_Inr)
  have id: "txn_id txn = transaction_id_for_listing sha256_hex k" "txn_is_active txn"
    by (simp_all add: txn opened_def txn_is_active_def active_stages_def)
  then have len: "length (txn_id txn) = 20"
    by (simp add: transaction_id_for_listing_def length_sha256_hex)
  have field: "ms_transaction_id m = txn_id txn \<and> ms_status m = MsPending \<and>
      (length template \<le> 99 \<longrightarrow> length (ms_id m) \<le> 36)" if "m \<in> set ms" for m
  proof -
    from that obtain i where i: "i < length ms" "m = ms ! i" by (auto simp: in_set_conv_nth)
    note f = scheduled_fields [OF generated(3) [OF gen i(1)]]
    have "length (show_nat (Suc i)) \<le> 2" if "length template \<le> 99"
      using that i(1) generated(1) [OF gen] length_show_nat [of "Suc i" 1] by simp
    then have "length (ms_id m) \<le> 36" if "length template \<le> 99"
      using that f(1) i(2) len by (simp add: milestone_id_def zpad_def)
    with f(2,3) i(2) show ?thesis by simp
  qed
  show ?thesis
    using id len generated(1,2) [OF gen] win field unfolding check_window_None by blast
qed

theorem opened_timeline_sound_witness:
  "\<exists>txn ms. build_open_transaction sha256_hex ''l1'' 738000 (Some 738030) [] (take 2 default_timeline) =
     Inr (txn, ms) \<and> length (txn_id txn) = 20 \<and> length ms = 2 \<and> (\<forall>m \<in> set ms. length (ms_id m) \<le> 36)"
proof -
  have "\<exists>txn ms. build_open_transaction sha256_hex ''l1'' 738000 (Some 738030) [] (take 2 default_timeline) =
     Inr (txn, ms)"
    by (simp add: build_open_transaction_def generate_milestones_def scheduled_def default_timeline_def
        due_date_def opened_def date_add_def date_min_def date_max_def listing_key_max_length_def
        py_len_def is_continuation_def Let_def)
  then obtain txn ms where b: "build_open_transaction sha256_hex ''l1'' 738000 (Some 738030) []
      (take 2 default_timeline) = Inr (txn, ms)" by blast
  from opened_timeline_sound [OF b] b show ?thesis by (auto simp: default_timeline_def)
qed

text \<open>
  C34: With the default timeline a transaction opens exactly when the listing key fits its column
  and the close date is at least 21 days after the contract; every refusal is the \<open>ValueError\<close> the
  route maps to 422, but for the first and the last days of the calendar, where it is an
  \<open>OverflowError\<close>.
\<close>

theorem default_timeline_outcome:
  assumes "date_min \<le> contract" and "contract \<le> date_max"
    and "\<And>c. close = Some c \<Longrightarrow> date_min \<le> c \<and> c \<le> date_max"
  shows "case build_open_transaction sha k contract close parties default_timeline of
     Inr _ \<Rightarrow> py_len k \<le> 36 \<and> (\<exists>c. close = Some c \<and> contract + 21 \<le> c)
   | Inl e \<Rightarrow> \<not> (py_len k \<le> 36 \<and> (\<exists>c. close = Some c \<and> contract + 21 \<le> c)) \<and>
       (is_value_error e \<or> e = OverflowError \<and> (date_max < contract + 21 \<or> close = Some date_min))"
proof -
  have t: "enumerate 1 default_timeline = [(1, default_timeline ! 0), (2, default_timeline ! 1),
      (3, default_timeline ! 2), (4, default_timeline ! 3), (5, default_timeline ! 4)]"
    by (simp add: default_timeline_def)
  show ?thesis
    using assms
    by (cases close) (auto simp: build_open_transaction_def generate_milestones_def t scheduled_def
        default_timeline_def due_date_def opened_def date_add_def listing_key_max_length_def Let_def)
qed

theorem default_timeline_outcome_witness:
  "\<exists>e. build_open_transaction sha256_hex ''l1'' 738000 (Some 738020) [] default_timeline = Inl e \<and> is_value_error e"
proof -
  have "date_min \<le> 738000" "738000 \<le> date_max" by (simp_all add: date_min_def date_max_def)
  moreover have "date_min \<le> c \<and> c \<le> date_max" if "Some 738020 = Some c" for c
    using that by (auto simp: date_min_def date_max_def)
  ultimately show ?thesis
    using default_timeline_outcome [where contract = 738000 and close = "Some 738020" and sha = sha256_hex
        and k = "''l1''" and parties = "[]"]
    by (auto simp: date_min_def date_max_def split: sum.splits)
qed

end
