(* ===== verification/Idempotency.thy ===== *)
theory Idempotency
  imports Audit_Trail Store_Laws
begin

text \<open>
  \<open>core/services/idempotency.py\<close>: the second write-boundary seam. A write claims a key derived
  from the run, the tool and the write's semantic arguments before it is performed; a completed
  key answers with the stored result, a pending one refuses. The wrapper sits outside the
  recording wrapper, so a replay leaves no ledger record.
\<close>

section \<open>Claiming and recording\<close>

definition idempotency_key :: "(string \<Rightarrow> string) \<Rightarrow> string \<Rightarrow> string \<Rightarrow> pydict \<Rightarrow> string" where
  "idempotency_key sha run tool args =
     sha (json_dumps (PDict [(''workflow_run_id'', PStr run), (''tool'', PStr tool), (''args'', PDict args)]))"

definition run_id_of :: "audit_context option \<Rightarrow> string option" where
  "run_id_of context =
     (case context of None \<Rightarrow> None
      | Some c \<Rightarrow> if ac_workflow_run_id c = [] then None else Some (ac_workflow_run_id c))"

definition current_run_id :: "string option W" where
  "current_run_id = bindM current_audit_context (\<lambda>context. ret (run_id_of context))"

definition require_result :: "string option \<Rightarrow> string W" where
  "require_result r =
     (case r of None \<Rightarrow> raise (RuntimeError ''completed idempotency claim is missing its stored result'')
      | Some s \<Rightarrow> ret s)"

definition claim ::
    "idempotency_backend \<Rightarrow> string \<Rightarrow> pydict \<Rightarrow> (string option \<times> idempotency_claim option) W" where
  "claim ib tool args =
     bindM current_run_id (\<lambda>run_id.
       case run_id of
         None \<Rightarrow> ret (None, None)
       | Some run \<Rightarrow>
           bindM (gets (\<lambda>w. idempotency_key (w_sha256 w) run tool args)) (\<lambda>key.
           bindM (ib_begin ib key) (\<lambda>c.
             if cl_status c = ClaimPending then raise (ReplayInProgressError tool key)
             else ret (Some key, Some c))))"

definition record_result :: "idempotency_backend \<Rightarrow> string option \<Rightarrow> string \<Rightarrow> unit W" where
  "record_result ib key result =
     (case key of None \<Rightarrow> ret () | Some k \<Rightarrow> ib_complete ib k result)"

text \<open>The shape every deduplicated write has: perform and record, unless the key is completed.\<close>

definition perform ::
    "idempotency_backend \<Rightarrow> string option \<Rightarrow> (codec \<Rightarrow> 'r \<Rightarrow> string) \<Rightarrow> 'r W \<Rightarrow> 'r W" where
  "perform ib key dump call =
     bindM call (\<lambda>r. bindM (gets w_codec) (\<lambda>cd. thenM (record_result ib key (dump cd r)) (ret r)))"

definition deduped ::
    "idempotency_backend \<Rightarrow> string \<Rightarrow> pydict \<Rightarrow> (codec \<Rightarrow> string \<Rightarrow> exn + 'r) \<Rightarrow>
     (codec \<Rightarrow> 'r \<Rightarrow> string) \<Rightarrow> 'r W \<Rightarrow> 'r W" where
  "deduped ib tool args load dump call =
     bindM (claim ib tool args) (\<lambda>(key, cl).
       case cl of
         None \<Rightarrow> perform ib key dump call
       | Some c \<Rightarrow>
           if cl_status c = ClaimCompleted
           then bindM (require_result (cl_result c)) (\<lambda>s.
                bindM (gets w_codec) (\<lambda>cd. liftE (load cd s)))
           else perform ib key dump call)"

text \<open>String results are stored as they are.\<close>

definition load_str :: "codec \<Rightarrow> string \<Rightarrow> exn + string" where
  "load_str cd s = Inr s"

definition dump_str :: "codec \<Rightarrow> string \<Rightarrow> string" where
  "dump_str cd s = s"

section \<open>The wrapped ports\<close>

definition idempotent_crm :: "crm_port \<Rightarrow> idempotency_backend \<Rightarrow> crm_port" where
  "idempotent_crm inner ib =
     \<lparr>cp_get_contact = cp_get_contact inner, cp_search = cp_search inner,
      cp_create_contact = (\<lambda>d. deduped ib ''create_contact'' (create_contact_args d)
        cd_contact_load cd_contact_dump (cp_create_contact inner d)),
      cp_add_note = (\<lambda>c s b. deduped ib ''add_note'' (add_note_args c s b)
        load_str dump_str (cp_add_note inner c s b)),
      cp_create_task = (\<lambda>n d c. deduped ib ''create_task'' (create_task_args n d c)
        cd_task_load cd_task_dump (cp_create_task inner n d c)),
      cp_log_call = (\<lambda>c out note secs. deduped ib ''log_call'' (log_call_args c out note secs)
        load_str dump_str (cp_log_call inner c out note secs))\<rparr>"

definition idempotent_files :: "files_port \<Rightarrow> idempotency_backend \<Rightarrow> files_port" where
  "idempotent_files inner ib =
     \<lparr>fp_list = fp_list inner, fp_get = fp_get inner,
      fp_put = (\<lambda>n c f. bindM (gets w_sha256) (\<lambda>sha.
        deduped ib ''put_file'' (file_write_args sha n c f) cd_file_load cd_file_dump (fp_put inner n c f)))\<rparr>"

definition idempotent_voice :: "voice_port \<Rightarrow> idempotency_backend \<Rightarrow> voice_port" where
  "idempotent_voice inner ib =
     \<lparr>vp_start = (\<lambda>c a x. deduped ib ''start_outbound_call'' (start_call_args c a x)
        load_str dump_str (vp_start inner c a x)),
      vp_get_call = vp_get_call inner\<rparr>"

definition idempotent_email :: "send_port \<Rightarrow> idempotency_backend \<Rightarrow> send_port" where
  "idempotent_email inner ib =
     \<lparr>sp_send = (\<lambda>m. deduped ib ''send_email'' (semantic_send_args m) load_str dump_str (sp_send inner m))\<rparr>"

definition idempotent_sms :: "send_port \<Rightarrow> idempotency_backend \<Rightarrow> send_port" where
  "idempotent_sms inner ib =
     \<lparr>sp_send = (\<lambda>m. deduped ib ''send_sms'' (semantic_send_args m) load_str dump_str (sp_send inner m))\<rparr>"

definition idempotent_ports :: "ports \<Rightarrow> idempotency_backend \<Rightarrow> ports" where
  "idempotent_ports p ib =
     \<lparr>pt_crm = idempotent_crm (pt_crm p) ib, pt_files = idempotent_files (pt_files p) ib,
      pt_voice = idempotent_voice (pt_voice p) ib, pt_email = idempotent_email (pt_email p) ib,
      pt_sms = idempotent_sms (pt_sms p) ib\<rparr>"

text \<open>The seam as \<open>main.py\<close> wires it: dedupe outside, record inside, adapter innermost.\<close>

definition seam_ports :: "idempotency_backend \<Rightarrow> string \<Rightarrow> ports" where
  "seam_ports ib vendor = idempotent_ports (recording_ports raw_ports vendor) ib"

section \<open>One write through the seam\<close>

fun op_key_args :: "(string \<Rightarrow> string) \<Rightarrow> write_op \<Rightarrow> pydict" where
  "op_key_args sha (WSendEmail m) = semantic_send_args m"
| "op_key_args sha (WSendSms m) = semantic_send_args m"
| "op_key_args sha op = op_audit_args sha op"

definition write_key :: "(string \<Rightarrow> string) \<Rightarrow> string \<Rightarrow> write_op \<Rightarrow> string" where
  "write_key sha run op = idempotency_key sha run (op_tool op) (op_key_args sha op)"

definition map_res :: "('a \<Rightarrow> 'b) \<Rightarrow> exn + 'a \<Rightarrow> exn + 'b" where
  "map_res f r = (case r of Inl e \<Rightarrow> Inl e | Inr a \<Rightarrow> Inr (f a))"

fun load_write :: "write_op \<Rightarrow> codec \<Rightarrow> string \<Rightarrow> exn + write_result" where
  "load_write (WCreateContact d) cd s = map_res WContact (cd_contact_load cd s)"
| "load_write (WCreateTask n d c) cd s = map_res WTask (cd_task_load cd s)"
| "load_write (WPutFile n c f) cd s = map_res WFile (cd_file_load cd s)"
| "load_write op cd s = Inr (WStr s)"

fun dump_write :: "codec \<Rightarrow> write_result \<Rightarrow> string" where
  "dump_write cd (WContact c) = cd_contact_dump cd c"
| "dump_write cd (WTask t) = cd_task_dump cd t"
| "dump_write cd (WFile f) = cd_file_dump cd f"
| "dump_write cd (WStr s) = s"

lemma liftE_map: "bindM (liftE r) (\<lambda>x. ret (g x)) = liftE (map_res g r)"
  by (rule ext) (simp add: monad map_res_def split: sum.split)

lemma perform_map:
  assumes "\<And>cd x. dump' cd (g x) = dump cd x"
  shows "bindM (perform ib key dump c) (\<lambda>x. ret (g x)) = perform ib key dump' (bindM c (\<lambda>x. ret (g x)))"
  by (simp only: perform_def thenM_def bindM_assoc bindM_ret assms)

lemma deduped_map:
  assumes "\<And>cd s. load' cd s = map_res g (load cd s)" and "\<And>cd x. dump' cd (g x) = dump cd x"
  shows "bindM (deduped ib tool args load dump c) (\<lambda>x. ret (g x)) =
         deduped ib tool args load' dump' (bindM c (\<lambda>x. ret (g x)))"
  unfolding deduped_def bindM_assoc
  by (rule arg_cong [where f = "bindM (claim ib tool args)"], rule ext)
    (simp add: bindM_assoc liftE_map assms(1) perform_map [of dump' g dump, OF assms(2)]
      split: prod.split option.split)

lemma idempotent_run_write:
  "run_write (idempotent_ports p ib) op w =
   deduped ib (op_tool op) (op_key_args (w_sha256 w) op) (load_write op) dump_write (run_write p op) w"
  by (cases op)
    (simp_all add: idempotent_ports_def idempotent_crm_def idempotent_files_def idempotent_voice_def
      idempotent_email_def idempotent_sms_def bindM_assoc map_res_def load_str_def dump_str_def
      deduped_map [where load' = "load_write op" and dump' = dump_write]
      bindM_Inr [of "gets w_sha256"])

section \<open>The store's contract\<close>

locale idempotency_store =
  fixes ib :: idempotency_backend
  assumes begin_run: "dict_ok (w_idem w) \<Longrightarrow> ib_begin ib key w = mem_begin key w"
    and complete_run: "dict_ok (w_idem w) \<Longrightarrow> dict_get (w_idem w) key \<noteq> None \<Longrightarrow>
      ib_complete ib key res w = mem_complete key res w"

interpretation mem_ib: idempotency_store mem_idempotency
  by unfold_locales (simp_all add: mem_idempotency_def)

lemma find_key: "List.find (\<lambda>(k, _). k = key) d = map_option (Pair key) (dict_get d key)"
  by (induction d) (auto simp: dict_get_def)

lemma map_row: "dict_ok d \<Longrightarrow> dict_get d key \<noteq> None \<Longrightarrow>
    map (\<lambda>(k, row). if k = key then (k, v) else (k, row)) d = dict_set d key v"
proof (induction d)
  case Nil
  then show ?case by simp
next
  case (Cons p d)
  obtain k row where p: "p = (k, row)" by (cases p)
  have "map (\<lambda>(k, row). if k = key then (k, v) else (k, row)) d = d" if "key \<notin> fst ` set d"
    using that by (intro map_idI) force
  with Cons p show ?case
    by (cases "k = key") (simp_all add: dict_ok_def dict_get_def dict_set_def)
qed

interpretation sql_ib: idempotency_store sql_idempotency
proof
  fix w :: world and key res
  assume ok: "dict_ok (w_idem w)"
  have dom: "key \<in> set (map fst (w_idem w)) \<longleftrightarrow> dict_get (w_idem w) key \<noteq> None"
    by (force simp: dict_get_def map_of_eq_None_iff)
  show "ib_begin sql_idempotency key w = mem_begin key w"
    by (cases "dict_get (w_idem w) key")
      (auto simp: sql_idempotency_def sql_begin_def mem_begin_def dom [simplified] append_fresh find_key)
  show "ib_complete sql_idempotency key res w = mem_complete key res w"
    if "dict_get (w_idem w) key \<noteq> None"
    using map_row [OF ok that] by (simp add: sql_idempotency_def sql_complete_def mem_complete_def)
qed

section \<open>One write, by the state of its key\<close>

lemma claim_outside:
  "run_id_of (w_audit w) = None \<Longrightarrow> claim ib tool args w = (Inr (None, None), w)"
  by (simp add: claim_def current_run_id_def monad world)

text \<open>The state in which a fresh write reaches the recording wrapper.\<close>

definition claimed :: "string \<Rightarrow> world \<Rightarrow> world" where
  "claimed key w = w\<lparr>w_idem := dict_set (w_idem w) key (ClaimPending, None)\<rparr>"

definition completed :: "string \<Rightarrow> string \<Rightarrow> world \<Rightarrow> world" where
  "completed key result w = w\<lparr>w_idem := dict_set (w_idem w) key (ClaimCompleted, Some result)\<rparr>"

context idempotency_store
begin

lemma claim_run:
  assumes "dict_ok (w_idem w)" and "run_id_of (w_audit w) = Some run"
    and "key = idempotency_key (w_sha256 w) run tool args"
  shows "claim ib tool args w =
    (case dict_get (w_idem w) key of
       None \<Rightarrow> (Inr (Some key, Some \<lparr>cl_status = ClaimNew, cl_result = None\<rparr>),
               w\<lparr>w_idem := dict_set (w_idem w) key (ClaimPending, None)\<rparr>)
     | Some (st, r) \<Rightarrow>
         (if st = ClaimPending then Inl (ReplayInProgressError tool key)
          else Inr (Some key, Some \<lparr>cl_status = st, cl_result = r\<rparr>), w))"
  using assms
  by (auto simp: claim_def current_run_id_def monad world begin_run mem_begin_def split: option.splits)

lemma seam_completed:
  assumes "dict_ok (w_idem w)" and "run_id_of (w_audit w) = Some run"
    and "dict_get (w_idem w) (write_key (w_sha256 w) run op) = Some (ClaimCompleted, Some s)"
  shows "run_write (seam_ports ib vendor) op w = (load_write op (w_codec w) s, w)"
  using assms claim_run [OF assms(1,2) refl, of "op_tool op" "op_key_args (w_sha256 w) op"]
  by (simp add: seam_ports_def idempotent_run_write deduped_def write_key_def require_result_def monad)

lemma seam_pending:
  assumes "dict_ok (w_idem w)" and "run_id_of (w_audit w) = Some run"
    and "dict_get (w_idem w) (write_key (w_sha256 w) run op) = Some (ClaimPending, r)"
  shows "run_write (seam_ports ib vendor) op w =
    (Inl (ReplayInProgressError (op_tool op) (write_key (w_sha256 w) run op)), w)"
  using assms claim_run [OF assms(1,2) refl, of "op_tool op" "op_key_args (w_sha256 w) op"]
  by (simp add: seam_ports_def idempotent_run_write deduped_def write_key_def monad)

lemma seam_resultless:
  assumes "dict_ok (w_idem w)" and "run_id_of (w_audit w) = Some run"
    and "dict_get (w_idem w) (write_key (w_sha256 w) run op) = Some (ClaimCompleted, None)"
  shows "\<exists>e. run_write (seam_ports ib vendor) op w = (Inl e, w)"
  using assms claim_run [OF assms(1,2) refl, of "op_tool op" "op_key_args (w_sha256 w) op"]
  by (simp add: seam_ports_def idempotent_run_write deduped_def write_key_def require_result_def monad)

lemma seam_fresh:
  assumes ok: "dict_ok (w_idem w)" and run: "run_id_of (w_audit w) = Some run"
    and key: "key = write_key (w_sha256 w) run op" and none: "dict_get (w_idem w) key = None"
  shows "run_write (seam_ports ib vendor) op w =
    (case run_write (recording_ports raw_ports vendor) op (claimed key w) of
       (Inl e, w2) \<Rightarrow> (Inl e, w2)
     | (Inr x, w2) \<Rightarrow> (Inr x, completed key (dump_write (w_codec w2) x) w2))"
proof -
  have c: "claim ib (op_tool op) (op_key_args (w_sha256 w) op) w =
      (Inr (Some key, Some \<lparr>cl_status = ClaimNew, cl_result = None\<rparr>), claimed key w)"
    using claim_run [OF ok run, of key "op_tool op" "op_key_args (w_sha256 w) op"] key none
    by (simp add: write_key_def claimed_def)
  obtain r w2 where p: "run_write (recording_ports raw_ports vendor) op (claimed key w) = (r, w2)"
    by fastforce
  have idem: "w_idem w2 = dict_set (w_idem w) key (ClaimPending, None)"
    using recording_frame [OF p] by (simp add: only_logs_def claimed_def)
  have done_: "ib_complete ib key res w2 = (Inr (), completed key res w2)" for res
    using complete_run [of w2 key res] ok idem
    by (simp add: mem_complete_def completed_def)
  show ?thesis
    using c p done_
    by (cases r) (simp_all add: seam_ports_def idempotent_run_write deduped_def perform_def
        record_result_def monad)
qed

end

section \<open>Sequences of writes in one run\<close>

fun run_writes :: "ports \<Rightarrow> write_op list \<Rightarrow> world \<Rightarrow> (exn + write_result) list \<times> world" where
  "run_writes p [] w = ([], w)"
| "run_writes p (x # xs) w =
     (case run_write p x w of (r, w1) \<Rightarrow> (case run_writes p xs w1 of (rs, w2) \<Rightarrow> (r # rs, w2)))"

text \<open>The write an external call performs, when it performs one.\<close>

fun req_op :: "ext_req \<Rightarrow> write_op option" where
  "req_op (CrmCreateContact d) = Some (WCreateContact d)"
| "req_op (CrmAddNote c s b) = Some (WAddNote c s b)"
| "req_op (CrmCreateTask n d c) = Some (WCreateTask n d c)"
| "req_op (CrmLogCall c out note secs) = Some (WLogCall c out note secs)"
| "req_op (FilePut n c f) = Some (WPutFile n c f)"
| "req_op (VoiceStartCall c a x) = Some (WStartCall c a x)"
| "req_op (EmailSend m) = Some (WSendEmail m)"
| "req_op (SmsSend m) = Some (WSendSms m)"
| "req_op _ = None"

lemma req_op_request [simp]: "req_op (op_request op) = Some op"
  by (cases op) simp_all

definition request_key :: "(string \<Rightarrow> string) \<Rightarrow> string \<Rightarrow> ext_req \<Rightarrow> string option" where
  "request_key sha run q = map_option (write_key sha run) (req_op q)"

text \<open>How often the calls of a trace performed the write of a key.\<close>

definition performed :: "(string \<Rightarrow> string) \<Rightarrow> string \<Rightarrow> string \<Rightarrow> ext_req list \<Rightarrow> nat" where
  "performed sha run key qs = length (filter (\<lambda>q. request_key sha run q = Some key) qs)"

definition idem_rows_ok :: "world \<Rightarrow> bool" where
  "idem_rows_ok w \<longleftrightarrow>
     dict_ok (w_idem w) \<and> (\<forall>k st r. dict_get (w_idem w) k = Some (st, r) \<longrightarrow> st \<noteq> ClaimNew)"

text \<open>
  What a run keeps, from its first state on: the rows present stay as they are, and a key's
  write was performed at most once, and only if its row is new.
\<close>

definition run_inv :: "string \<Rightarrow> world \<Rightarrow> world \<Rightarrow> bool" where
  "run_inv run w0 w \<longleftrightarrow>
     idem_rows_ok w \<and> run_id_of (w_audit w) = Some run \<and> w_sha256 w = w_sha256 w0 \<and>
     w_codec w = w_codec w0 \<and> same_rows w0 w \<and>
     (\<forall>k row. dict_get (w_idem w0) k = Some row \<longrightarrow> dict_get (w_idem w) k = Some row) \<and>
     (\<exists>new. w_sent w = w_sent w0 @ new \<and>
        (\<forall>k. performed (w_sha256 w0) run k new \<le>
             (if dict_get (w_idem w0) k = None \<and> dict_get (w_idem w) k \<noteq> None then 1 else 0)))"

lemma run_inv_refl:
  "idem_rows_ok w \<Longrightarrow> run_id_of (w_audit w) = Some run \<Longrightarrow> run_inv run w w"
  by (simp add: run_inv_def performed_def)

text \<open>The outcome of performing a fresh write: its row, its one call, nothing else.\<close>

lemma run_inv_fresh:
  assumes I: "run_inv run w0 w" and key: "key = write_key (w_sha256 w) run op"
    and none: "dict_get (w_idem w) key = None"
    and logs: "only_logs ((claimed key w)\<lparr>w_sent := w_sent w @ [op_request op]\<rparr>) w2"
    and w': "w' = w2 \<or> w' = completed key res w2"
  shows "run_inv run w0 w'" and "dict_get (w_idem w') key \<noteq> None"
proof -
  have w2: "w_idem w2 = dict_set (w_idem w) key (ClaimPending, None)"
      "w_sent w2 = w_sent w @ [op_request op]" "w_audit w2 = w_audit w" "w_sha256 w2 = w_sha256 w"
      "w_codec w2 = w_codec w" "same_rows w w2"
    using logs by (simp_all add: only_logs_def claimed_def same_rows_def same_sources_def)
  have inv: "idem_rows_ok w" "run_id_of (w_audit w) = Some run" "w_sha256 w = w_sha256 w0"
      "w_codec w = w_codec w0" "same_rows w0 w"
    and keep0: "\<And>k row. dict_get (w_idem w0) k = Some row \<Longrightarrow> dict_get (w_idem w) k = Some row"
    using I unfolding run_inv_def by blast+
  obtain new where new: "w_sent w = w_sent w0 @ new"
    and cnt: "\<And>k. performed (w_sha256 w0) run k new \<le>
        (if dict_get (w_idem w0) k = None \<and> dict_get (w_idem w) k \<noteq> None then 1 else 0)"
    using I by (auto simp: run_inv_def)
  have idem': "w_idem w' = dict_set (w_idem w) key (ClaimPending, None) \<or>
      w_idem w' = dict_set (dict_set (w_idem w) key (ClaimPending, None)) key (ClaimCompleted, Some res)"
    using w' w2(1) by (auto simp: completed_def)
  have rows: "dict_get (w_idem w') k = (if k = key then dict_get (w_idem w') key else dict_get (w_idem w) k)"
    for k using idem' by auto
  have ok': "dict_ok (w_idem w')"
    using idem' inv(1) by (auto simp: idem_rows_ok_def)
  have st: "\<exists>st r. dict_get (w_idem w') key = Some (st, r) \<and> st \<noteq> ClaimNew"
    using idem' by auto
  then show present: "dict_get (w_idem w') key \<noteq> None" by auto
  have w'_same: "w_sent w' = w_sent w2" "w_audit w' = w_audit w2" "w_sha256 w' = w_sha256 w2"
      "w_codec w' = w_codec w2" "same_rows w2 w'"
    using w' by (auto simp: completed_def same_rows_def)
  have sent: "w_sent w' = w_sent w0 @ (new @ [op_request op])"
    using w'_same w2 new by simp
  have none0: "dict_get (w_idem w0) key = None"
    using keep0 none by (cases "dict_get (w_idem w0) key") auto
  have cnt': "performed (w_sha256 w0) run k (new @ [op_request op]) \<le>
      (if dict_get (w_idem w0) k = None \<and> dict_get (w_idem w') k \<noteq> None then 1 else 0)" for k
    using cnt [of k] none none0 present key inv(3) rows [of k]
    by (cases "k = key") (auto simp: performed_def request_key_def)
  have rest: "run_id_of (w_audit w') = Some run" "w_sha256 w' = w_sha256 w0" "w_codec w' = w_codec w0"
      "same_rows w0 w'"
    using w'_same w2 inv by (simp_all add: same_rows_def)
  have keep: "dict_get (w_idem w') k = Some row" if "dict_get (w_idem w0) k = Some row" for k row
    using that none0 rows [of k] keep0 by auto
  have "idem_rows_ok w'"
    unfolding idem_rows_ok_def
  proof (intro conjI allI impI)
    fix k s r
    assume "dict_get (w_idem w') k = Some (s, r)"
    with rows [of k] st inv(1) show "s \<noteq> ClaimNew"
      unfolding idem_rows_ok_def by (metis Pair_inject option.inject)
  qed (rule ok')
  with rest keep sent cnt' show "run_inv run w0 w'"
    unfolding run_inv_def by blast
qed

context idempotency_store
begin

lemma seam_step:
  assumes I: "run_inv run w0 w" and step: "run_write (seam_ports ib vendor) op w = (r, w')"
  shows "run_inv run w0 w'" and "dict_get (w_idem w') (write_key (w_sha256 w) run op) \<noteq> None"
    and "dict_get (w_idem w) k = Some row \<Longrightarrow> dict_get (w_idem w') k = Some row"
proof -
  let ?k = "write_key (w_sha256 w) run op"
  have ok: "dict_ok (w_idem w)" and run: "run_id_of (w_audit w) = Some run"
    and new: "\<And>st r. dict_get (w_idem w) ?k = Some (st, r) \<Longrightarrow> st \<noteq> ClaimNew"
    using I by (auto simp: run_inv_def idem_rows_ok_def)
  have "run_inv run w0 w' \<and> dict_get (w_idem w') ?k \<noteq> None \<and>
    (\<forall>k row. dict_get (w_idem w) k = Some row \<longrightarrow> dict_get (w_idem w') k = Some row)"
  proof (cases "dict_get (w_idem w) ?k")
    case None
    obtain r2 w2 where p: "run_write (recording_ports raw_ports vendor) op (claimed ?k w) = (r2, w2)"
      by fastforce
    have logs: "only_logs ((claimed ?k w)\<lparr>w_sent := w_sent w @ [op_request op]\<rparr>) w2"
      using recording_frame [OF p] by (simp add: claimed_def)
    obtain res where w': "w' = w2 \<or> w' = completed ?k res w2"
      using seam_fresh [OF ok run refl None, of vendor] step p by (cases r2) auto
    have "dict_get (w_idem w') k = dict_get (w_idem w) k" if "k \<noteq> ?k" for k
      using w' logs that by (auto simp: completed_def claimed_def only_logs_def)
    then have "dict_get (w_idem w') k = Some row" if "dict_get (w_idem w) k = Some row" for k row
      using that None by (cases "k = ?k") simp_all
    with run_inv_fresh [OF I refl None logs w'] show ?thesis by blast
  next
    case (Some row)
    obtain st res where row: "row = (st, res)" by (cases row)
    have "w' = w"
      using seam_completed [OF ok run, of op] seam_pending [OF ok run, of op]
        seam_resultless [OF ok run, of op vendor] step Some row new [of st res]
      by (cases st; cases res) auto
    with I Some show ?thesis by auto
  qed
  then show "run_inv run w0 w'" "dict_get (w_idem w') ?k \<noteq> None"
    "dict_get (w_idem w) k = Some row \<Longrightarrow> dict_get (w_idem w') k = Some row"
    by blast+
qed

lemma seam_sequence:
  "run_inv run w0 w \<Longrightarrow> run_writes (seam_ports ib vendor) ops w = (outs, w') \<Longrightarrow>
   run_inv run w0 w' \<and>
   (\<forall>k row. dict_get (w_idem w) k = Some row \<longrightarrow> dict_get (w_idem w') k = Some row)"
proof (induction ops arbitrary: w outs)
  case Nil
  then show ?case by simp
next
  case (Cons op ops)
  obtain r w1 rs where s: "run_write (seam_ports ib vendor) op w = (r, w1)"
      "run_writes (seam_ports ib vendor) ops w1 = (rs, w')"
    using Cons.prems(2) by (auto split: prod.splits simp del: run_write.simps)
  from seam_step [OF Cons.prems(1) s(1)] Cons.IH [OF _ s(2)] show ?case by blast
qed

text \<open>After a first attempt: what any later attempt of the same write in the run does.\<close>

lemma seam_again:
  assumes I: "idem_rows_ok w" "run_id_of (w_audit w) = Some run"
    and none: "dict_get (w_idem w) (write_key (w_sha256 w) run op) = None"
    and first: "run_write (seam_ports ib vendor) op w = (r, w1)"
    and more: "run_writes (seam_ports ib vendor) ops w1 = (outs, w2)"
    and same: "op_tool op' = op_tool op" "op_key_args (w_sha256 w) op' = op_key_args (w_sha256 w) op"
  shows "run_write (seam_ports ib vendor) op' w2 =
    (case r of
       Inl e \<Rightarrow> Inl (ReplayInProgressError (op_tool op) (write_key (w_sha256 w) run op))
     | Inr x \<Rightarrow> load_write op' (w_codec w) (dump_write (w_codec w) x), w2)"
proof -
  let ?k = "write_key (w_sha256 w) run op"
  have ok: "dict_ok (w_idem w)" using I(1) by (simp add: idem_rows_ok_def)
  note inv = run_inv_refl [OF I]
  have inv1: "run_inv run w w1" by (rule seam_step(1) [OF inv first])
  note seq = seam_sequence [OF inv1 more]
  then have w2: "dict_ok (w_idem w2)" "run_id_of (w_audit w2) = Some run" "w_sha256 w2 = w_sha256 w"
      "w_codec w2 = w_codec w"
    by (auto simp: run_inv_def idem_rows_ok_def)
  have k': "write_key (w_sha256 w2) run op' = ?k"
    using same w2(3) by (simp add: write_key_def)
  obtain r2 v where p: "run_write (recording_ports raw_ports vendor) op (claimed ?k w) = (r2, v)"
    by fastforce
  have v: "w_idem v = dict_set (w_idem w) ?k (ClaimPending, None)" "w_codec v = w_codec w"
    using recording_frame [OF p] by (simp_all add: claimed_def only_logs_def same_sources_def)
  note run = seam_fresh [OF ok I(2) refl none, of vendor, unfolded first p]
  show ?thesis
  proof (cases r2)
    case (Inl e)
    with run have "r = Inl e" "w1 = v" by auto
    with v(1) seq have "dict_get (w_idem w2) ?k = Some (ClaimPending, None)" by auto
    from seam_pending [OF w2(1,2), of op', unfolded k', OF this] \<open>r = Inl e\<close> same(1) show ?thesis by simp
  next
    case (Inr x)
    with run v(2) have r: "r = Inr x" "w1 = completed ?k (dump_write (w_codec w) x) v" by auto
    then have "dict_get (w_idem w1) ?k = Some (ClaimCompleted, Some (dump_write (w_codec w) x))"
      by (simp add: completed_def)
    with seq have "dict_get (w_idem w2) ?k = Some (ClaimCompleted, Some (dump_write (w_codec w) x))"
      by blast
    from seam_completed [OF w2(1,2), of op', unfolded k', OF this] w2(4) r show ?thesis by simp
  qed
qed

end

section \<open>At most once\<close>

text \<open>
  C24: Within one workflow run, whatever sequence of writes the engine issues through the seam,
  with failures and cancellations on the way, each logical write (tool and semantic arguments)
  reaches its provider at most once, and not at all when the run's key was taken before.
\<close>

theorem writes_at_most_once:
  assumes "ib = sql_idempotency \<or> ib = mem_idempotency"
    and "idem_rows_ok w" and "run_id_of (w_audit w) = Some run"
    and "run_writes (seam_ports ib vendor) ops w = (outs, w')"
  shows "\<exists>new. w_sent w' = w_sent w @ new \<and>
    (\<forall>key. performed (w_sha256 w) run key new \<le>
       (if dict_get (w_idem w) key = None then 1 else 0))"
proof -
  have "run_inv run w w'"
    using assms(1) sql_ib.seam_sequence [OF run_inv_refl [OF assms(2,3)]]
      mem_ib.seam_sequence [OF run_inv_refl [OF assms(2,3)]] assms(4) by blast
  then obtain new where new: "w_sent w' = w_sent w @ new"
    and cnt: "\<And>k. performed (w_sha256 w) run k new \<le>
        (if dict_get (w_idem w) k = None \<and> dict_get (w_idem w') k \<noteq> None then 1 else 0)"
    by (auto simp: run_inv_def)
  have "performed (w_sha256 w) run k new \<le> (if dict_get (w_idem w) k = None then 1 else 0)" for k
    using cnt [of k] by (auto split: if_splits)
  with new show ?thesis by blast
qed

definition in_run :: world where
  "in_run = blank_world\<lparr>w_tenant := Some ''acme'', w_audit := Some sample_run\<rparr>"

lemma in_run_ok: "idem_rows_ok in_run" "run_id_of (w_audit in_run) = Some ''run-1''"
  by (simp_all add: in_run_def idem_rows_ok_def run_id_of_def samples)

theorem writes_at_most_once_witness:
  "performed (\<lambda>s. s) ''run-1'' (write_key (\<lambda>s. s) ''run-1'' (WAddNote ''c1'' ''s'' ''b''))
     (w_sent (snd (run_writes (seam_ports sql_idempotency ''followupboss'')
        [WAddNote ''c1'' ''s'' ''b'', WAddNote ''c1'' ''s'' ''b''] in_run))) \<le> 1"
proof -
  obtain outs w' where r: "run_writes (seam_ports sql_idempotency ''followupboss'')
      [WAddNote ''c1'' ''s'' ''b'', WAddNote ''c1'' ''s'' ''b''] in_run = (outs, w')" by fastforce
  have "w_sent in_run = []" "w_sha256 in_run = (\<lambda>s. s)" "w_idem in_run = []"
    by (simp_all add: in_run_def samples)
  with writes_at_most_once [OF _ in_run_ok r] r show ?thesis by auto
qed

text \<open>A write's result has the shape its tool promises.\<close>

fun fits :: "write_op \<Rightarrow> write_result \<Rightarrow> bool" where
  "fits (WCreateContact d) (WContact c) = True"
| "fits (WCreateTask n d c) (WTask t) = True"
| "fits (WPutFile n c f) (WFile r) = True"
| "fits (WAddNote c s b) (WStr r) = True"
| "fits (WLogCall c out note secs) (WStr r) = True"
| "fits (WStartCall c a x) (WStr r) = True"
| "fits (WSendEmail m) (WStr r) = True"
| "fits (WSendSms m) (WStr r) = True"
| "fits _ _ = False"

lemma result_fits: "run_write p op w = (Inr x, w') \<Longrightarrow> fits op x"
  by (cases op) (auto elim!: bindM_InrE)

lemma reload_result:
  "codec_roundtrip cd \<Longrightarrow> fits op x \<Longrightarrow> op_tool op' = op_tool op \<Longrightarrow>
   load_write op' cd (dump_write cd x) = Inr x"
  by (cases op; cases op'; cases x) (auto simp: codec_roundtrip_def map_res_def)

text \<open>
  C25: A write that returned answers every later re-issue in the run with the same result, without
  a provider call, a ledger record or any other change of state, even when the caller rebuilt
  its arguments (another row id or timestamps of the same logical message).
\<close>

theorem replay_returns_original:
  assumes "ib = sql_idempotency \<or> ib = mem_idempotency" and "codec_roundtrip (w_codec w)"
    and "idem_rows_ok w" and "run_id_of (w_audit w) = Some run"
    and "dict_get (w_idem w) (write_key (w_sha256 w) run op) = None"
    and "run_write (seam_ports ib vendor) op w = (Inr x, w1)"
    and "run_writes (seam_ports ib vendor) ops w1 = (outs, w2)"
    and "op_tool op' = op_tool op" and "op_key_args (w_sha256 w) op' = op_key_args (w_sha256 w) op"
  shows "run_write (seam_ports ib vendor) op' w2 = (Inr x, w2)"
proof -
  have again: "run_write (seam_ports ib vendor) op' w2 =
      (load_write op' (w_codec w) (dump_write (w_codec w) x), w2)"
    using assms(1) sql_ib.seam_again [OF assms(3-5) _ _ assms(8,9), where vendor = vendor]
      mem_ib.seam_again [OF assms(3-5) _ _ assms(8,9), where vendor = vendor] assms(6,7) by force
  have "load_write op' (w_codec w) (dump_write (w_codec w) x) = Inr x"
    by (rule reload_result [OF assms(2) result_fits [OF assms(6)] assms(8)])
  with again show ?thesis by simp
qed

lemma in_run_empty: "dict_get (w_idem in_run) k = None" "w_codec in_run = plain_codec"
  by (simp_all add: in_run_def blank_world_def)

lemma in_run_note:
  "\<exists>w1. run_write (seam_ports sql_idempotency ''followupboss'') (WAddNote ''c1'' ''s'' ''b'') in_run =
     (Inr (WStr ''note-0''), w1)"
proof -
  have "fst (run_write raw_ports (WAddNote ''c1'' ''s'' ''b'') (claimed k in_run)) = Inr (WStr ''note-0'')" for k
    by (simp add: raw_ports_def raw_crm_def monad world answers claimed_def in_run_def blank_world_def
        show_nat.simps [of 0] digit_def)
  then show ?thesis
    using in_run_ok in_run_empty(1)
    by (subst sql_ib.seam_fresh [OF _ _ refl])
      (simp_all add: recording_write_run Let_def idem_rows_ok_def del: run_write.simps)
qed

theorem replay_returns_original_witness:
  "\<exists>w1. run_write (seam_ports sql_idempotency ''followupboss'') (WAddNote ''c1'' ''s'' ''b'') in_run =
     (Inr (WStr ''note-0''), w1) \<and>
   run_write (seam_ports sql_idempotency ''followupboss'') (WAddNote ''c1'' ''s'' ''b'') w1 =
     (Inr (WStr ''note-0''), w1)"
proof -
  obtain w1 where r: "run_write (seam_ports sql_idempotency ''followupboss'')
      (WAddNote ''c1'' ''s'' ''b'') in_run = (Inr (WStr ''note-0''), w1)"
    using in_run_note by blast
  have "run_write (seam_ports sql_idempotency ''followupboss'') (WAddNote ''c1'' ''s'' ''b'') w1 =
      (Inr (WStr ''note-0''), w1)"
    by (rule replay_returns_original [OF _ _ in_run_ok in_run_empty(1) r, where ops = "[]" and outs = "[]"])
      (simp_all add: in_run_empty plain_codec_roundtrip)
  with r show ?thesis by blast
qed

text \<open>
  A write whose attempt raised, or was cancelled, is never repeated in its run: every later
  re-issue raises \<open>ReplayInProgressError\<close> and changes nothing, since the provider may have
  performed the side effect.
\<close>

theorem failed_write_not_repeated:
  assumes "ib = sql_idempotency \<or> ib = mem_idempotency"
    and "idem_rows_ok w" and "run_id_of (w_audit w) = Some run"
    and "dict_get (w_idem w) (write_key (w_sha256 w) run op) = None"
    and "run_write (seam_ports ib vendor) op w = (Inl e, w1)"
    and "run_writes (seam_ports ib vendor) ops w1 = (outs, w2)"
  shows "run_write (seam_ports ib vendor) op w2 =
    (Inl (ReplayInProgressError (op_tool op) (write_key (w_sha256 w) run op)), w2)"
  using assms(1) sql_ib.seam_again [OF assms(2-4) _ _ refl refl, where vendor = vendor]
    mem_ib.seam_again [OF assms(2-4) _ _ refl refl, where vendor = vendor] assms(5,6) by force

definition failing_run :: world where
  "failing_run = in_run\<lparr>w_ext := (\<lambda>n q. Inl (HttpxError ''ReadTimeout'' ''timeout''))\<rparr>"

theorem failed_write_not_repeated_witness:
  "\<exists>w1 k. run_write (seam_ports sql_idempotency ''followupboss'') (WAddNote ''c1'' ''s'' ''b'') failing_run =
     (Inl (HttpxError ''ReadTimeout'' ''timeout''), w1) \<and>
   run_write (seam_ports sql_idempotency ''followupboss'') (WAddNote ''c1'' ''s'' ''b'') w1 =
     (Inl (ReplayInProgressError ''add_note'' k), w1)"
proof -
  have ok: "idem_rows_ok failing_run" "run_id_of (w_audit failing_run) = Some ''run-1''"
      "dict_get (w_idem failing_run) k = None" for k
    using in_run_ok in_run_empty by (simp_all add: failing_run_def idem_rows_ok_def)
  have "fst (run_write raw_ports (WAddNote ''c1'' ''s'' ''b'') (claimed k failing_run)) =
      Inl (HttpxError ''ReadTimeout'' ''timeout'')" for k
    by (simp add: raw_ports_def raw_crm_def monad world answers claimed_def failing_run_def)
  then have "\<exists>w1. run_write (seam_ports sql_idempotency ''followupboss'') (WAddNote ''c1'' ''s'' ''b'') failing_run =
      (Inl (HttpxError ''ReadTimeout'' ''timeout''), w1)"
    using ok
    by (subst sql_ib.seam_fresh [OF _ _ refl])
      (simp_all add: recording_write_run Let_def idem_rows_ok_def del: run_write.simps)
  then obtain w1 where r: "run_write (seam_ports sql_idempotency ''followupboss'')
      (WAddNote ''c1'' ''s'' ''b'') failing_run = (Inl (HttpxError ''ReadTimeout'' ''timeout''), w1)" by blast
  have "run_write (seam_ports sql_idempotency ''followupboss'') (WAddNote ''c1'' ''s'' ''b'') w1 =
      (Inl (ReplayInProgressError (op_tool (WAddNote ''c1'' ''s'' ''b''))
        (write_key (w_sha256 failing_run) ''run-1'' (WAddNote ''c1'' ''s'' ''b''))), w1)"
    by (rule failed_write_not_repeated [OF _ ok r, where ops = "[]" and outs = "[]"]) simp_all
  with r show ?thesis by (auto simp del: run_write.simps)
qed

text \<open>
  Outside a workflow run there is nothing to scope a key to: the write is recorded and
  performed as by the recording seam alone, and no idempotency row is read or written.
\<close>

theorem undeduped_outside_run:
  assumes "run_id_of (w_audit w) = None"
  shows "run_write (seam_ports ib vendor) op w = run_write (recording_ports raw_ports vendor) op w"
proof -
  have "perform ib None dump_write c w = c w" for c :: "write_result W"
    by (simp add: perform_def record_result_def monad split: prod.split sum.split)
  with claim_outside [OF assms, of ib] show ?thesis
    by (simp add: seam_ports_def idempotent_run_write deduped_def monad)
qed

theorem undeduped_outside_run_witness:
  "run_write (seam_ports sql_idempotency ''sierra'') (WAddNote ''c1'' ''s'' ''b'') blank_world =
   run_write (recording_ports raw_ports ''sierra'') (WAddNote ''c1'' ''s'' ''b'') blank_world"
  by (rule undeduped_outside_run) (simp add: blank_world_def run_id_of_def)

end
