(* ===== verification/Confined_Runs.thy ===== *)
theory Confined_Runs
  imports Confinement Samples
begin

text \<open>
  Sequences of store operations under one bound tenant, over the stores as \<open>main.py\<close> wires
  them: one constructor of \<open>store_op\<close> per method of the scoped wrappers. Each answer is
  reported as the list of tenant tags of the rows it hands out; \<open>answer_op\<close> reports it in full.
\<close>

section \<open>Operations\<close>

record store_bundle =
  sb_messages :: message_backend
  sb_transactions :: transaction_backend
  sb_feedback :: feedback_backend
  sb_documents :: document_backend
  sb_approvals :: approval_backend

text \<open>The durable wiring and the database-less one.\<close>

definition sql_stores :: store_bundle where
  "sql_stores =
     \<lparr>sb_messages = sql_messages, sb_transactions = sql_transactions, sb_feedback = sql_feedback,
      sb_documents = sql_documents, sb_approvals = sql_approvals\<rparr>"

definition mem_stores :: store_bundle where
  "mem_stores =
     \<lparr>sb_messages = mem_messages, sb_transactions = mem_transactions, sb_feedback = mem_feedback,
      sb_documents = mem_documents, sb_approvals = mem_approvals\<rparr>"

datatype store_op =
    CreateTransaction transaction "milestone list"
  | GetTransaction string
  | GetMilestone string
  | ListActive
  | ListMilestones string
  | SetEscalationLevel string int
  | CountTransactions
  | ClearTransactions
  | SaveCall call_record
  | GetCall string
  | UpsertFeedback showing_feedback
  | GetFeedback string
  | ListFeedback string
  | SaveMessage message
  | GetMessage string
  | GetMessageByProvider string
  | ListMessages "string option" nat "string option"
  | AdvanceMessage string message_status
  | AddDocument document
  | GetDocument string
  | ListDocuments string
  | CreateApproval approval_request
  | GetApproval string
  | ListApprovals "approval_status option"
  | MarkDecided string approval_status string instant

definition tag :: "('r \<Rightarrow> string) \<Rightarrow> 'r option \<Rightarrow> string list" where
  "tag f r = (case r of None \<Rightarrow> [] | Some x \<Rightarrow> [f x])"

fun run_op :: "store_bundle \<Rightarrow> store_op \<Rightarrow> string list W" where
  "run_op s (CreateTransaction x ms) =
     thenM (scoped_create_transaction (sb_transactions s) x ms) (ret [])"
| "run_op s (GetTransaction i) =
     bindM (scoped_get_transaction (sb_transactions s) i) (\<lambda>r. ret (tag txn_tenant_id r))"
| "run_op s (GetMilestone i) =
     bindM (scoped_get_milestone (sb_transactions s) i) (\<lambda>r. ret (tag ms_tenant_id r))"
| "run_op s ListActive =
     bindM (scoped_list_active_transactions (sb_transactions s)) (\<lambda>rs. ret (map txn_tenant_id rs))"
| "run_op s (ListMilestones i) =
     bindM (scoped_list_milestones (sb_transactions s) i) (\<lambda>rs. ret (map ms_tenant_id rs))"
| "run_op s (SetEscalationLevel i l) =
     thenM (scoped_set_escalation_level (sb_transactions s) i l) (ret [])"
| "run_op s CountTransactions = bindM (scoped_count_transactions (sb_transactions s)) (\<lambda>_. ret [])"
| "run_op s ClearTransactions = thenM (scoped_clear_transactions (sb_transactions s)) (ret [])"
| "run_op s (SaveCall r) = thenM (scoped_save_call_record (sb_feedback s) r) (ret [])"
| "run_op s (GetCall i) =
     bindM (scoped_get_call_record (sb_feedback s) i) (\<lambda>r. ret (tag cr_tenant_id r))"
| "run_op s (UpsertFeedback f) = thenM (scoped_upsert_feedback (sb_feedback s) f) (ret [])"
| "run_op s (GetFeedback i) =
     bindM (scoped_get_feedback (sb_feedback s) i) (\<lambda>r. ret (tag fb_tenant_id r))"
| "run_op s (ListFeedback key) =
     bindM (scoped_list_feedback (sb_feedback s) key) (\<lambda>rs. ret (map fb_tenant_id rs))"
| "run_op s (SaveMessage m) = thenM (scoped_save_message (sb_messages s) m) (ret [])"
| "run_op s (GetMessage i) =
     bindM (scoped_get_message (sb_messages s) i) (\<lambda>r. ret (tag msg_tenant_id r))"
| "run_op s (GetMessageByProvider p) =
     bindM (scoped_get_message_by_provider_id (sb_messages s) p) (\<lambda>r. ret (tag msg_tenant_id r))"
| "run_op s (ListMessages c n x) =
     bindM (scoped_list_messages (sb_messages s) c n x) (\<lambda>rs. ret (map msg_tenant_id rs))"
| "run_op s (AdvanceMessage i st) =
     bindM (scoped_advance_message_status (sb_messages s) i st) (\<lambda>r. ret (tag msg_tenant_id r))"
| "run_op s (AddDocument d) = thenM (scoped_add_document (sb_documents s) d) (ret [])"
| "run_op s (GetDocument i) =
     bindM (scoped_get_document (sb_documents s) i) (\<lambda>r. ret (tag doc_tenant_id r))"
| "run_op s (ListDocuments i) =
     bindM (scoped_list_documents (sb_documents s) i) (\<lambda>rs. ret (map doc_tenant_id rs))"
| "run_op s (CreateApproval a) = thenM (scoped_create_approval (sb_approvals s) a) (ret [])"
| "run_op s (GetApproval i) =
     bindM (scoped_get_approval (sb_approvals s) i) (\<lambda>r. ret (tag apr_tenant_id r))"
| "run_op s (ListApprovals st) =
     bindM (scoped_list_approvals (sb_approvals s) st) (\<lambda>rs. ret (map apr_tenant_id rs))"
| "run_op s (MarkDecided i st who at_time) =
     thenM (scoped_mark_decided (sb_approvals s) i st who at_time) (ret [])"

text \<open>A caller handles each exception and goes on with the next operation.\<close>

fun run_ops :: "store_bundle \<Rightarrow> store_op list \<Rightarrow> world \<Rightarrow> (exn + string list) list \<times> world" where
  "run_ops s [] w = ([], w)"
| "run_ops s (x # xs) w =
     (case run_op s x w of (r, w1) \<Rightarrow> (case run_ops s xs w1 of (rs, w2) \<Rightarrow> (r # rs, w2)))"

section \<open>The rows of other tenants\<close>

definition foreign_part :: "('r \<Rightarrow> string) \<Rightarrow> string \<Rightarrow> (string, 'r) dict \<Rightarrow> (string, 'r) dict" where
  "foreign_part f t d = filter (\<lambda>(_, r). is_foreign (f r) t) d"

lemma foreign_part_set:
  "foreign_owner f t (dict_get d k) = None \<Longrightarrow> \<not> is_foreign (f v) t \<Longrightarrow>
   foreign_part f t (dict_set d k v) = foreign_part f t d"
  unfolding foreign_owner_None
  by (induction d) (auto simp: foreign_part_def dict_set_def dict_get_def split: if_splits)

lemma foreign_part_fresh:
  "dict_get d k = None \<Longrightarrow> \<not> is_foreign (f v) t \<Longrightarrow>
   foreign_part f t (dict_set d k v) = foreign_part f t d"
  by (rule foreign_part_set) (simp_all add: foreign_owner_def)

lemma foreign_part_clear:
  "foreign_part f t (filter (\<lambda>(k, x). \<not> owned_row t (f x)) d) = foreign_part f t d"
  unfolding foreign_part_def filter_filter
  by (rule filter_cong) (auto simp: owned_row_def is_foreign_def)

text \<open>
  A state is sealed from an initial one when it is well formed, bound to the tenant, and holds
  exactly the initial rows of other tenants; the ledger only grows.
\<close>

definition sealed :: "string \<Rightarrow> world \<Rightarrow> world \<Rightarrow> bool" where
  "sealed t w0 w \<longleftrightarrow>
     tables_ok w \<and> w_tenant w = Some t \<and>
     foreign_part msg_tenant_id t (w_messages w) = foreign_part msg_tenant_id t (w_messages w0) \<and>
     foreign_part txn_tenant_id t (w_transactions w) = foreign_part txn_tenant_id t (w_transactions w0) \<and>
     foreign_part ms_tenant_id t (w_milestones w) = foreign_part ms_tenant_id t (w_milestones w0) \<and>
     foreign_part doc_tenant_id t (w_documents w) = foreign_part doc_tenant_id t (w_documents w0) \<and>
     foreign_part cr_tenant_id t (w_calls w) = foreign_part cr_tenant_id t (w_calls w0) \<and>
     foreign_part fb_tenant_id t (w_feedback w) = foreign_part fb_tenant_id t (w_feedback w0) \<and>
     foreign_part apr_tenant_id t (w_approvals w) = foreign_part apr_tenant_id t (w_approvals w0) \<and>
     (\<exists>rs. w_ledger w = w_ledger w0 @ rs)"

lemma sealed_refl: "tables_ok w \<Longrightarrow> w_tenant w = Some t \<Longrightarrow> sealed t w w"
  by (simp add: sealed_def)

lemma sealed_D: "sealed t w0 w \<Longrightarrow> tables_ok w" "sealed t w0 w \<Longrightarrow> w_tenant w = Some t"
  by (simp_all add: sealed_def)

lemma sealed_logs:
  assumes "sealed t w0 w" and logs: "only_logs w w'"
  shows "sealed t w0 w'"
proof -
  obtain rs where "w_ledger w' = w_ledger w @ rs"
    using logs by (auto simp: only_logs_def)
  with assms(1) only_logs_same [OF logs] tables_ok_only_logs [OF logs] show ?thesis
    by (auto simp: sealed_def)
qed

lemma sealed_filed: "sealed t w0 w \<Longrightarrow> sealed t w0 (filed x a b w)"
  by (rule sealed_logs [OF _ filed_logs])

text \<open>One step: sealed before, sealed after, and every row handed out is the tenant's.\<close>

definition confined :: "string \<Rightarrow> world \<Rightarrow> (exn + string list) \<times> world \<Rightarrow> bool" where
  "confined t w0 p \<longleftrightarrow>
     sealed t w0 (snd p) \<and> (case fst p of Inl _ \<Rightarrow> True | Inr tags \<Rightarrow> \<forall>x \<in> set tags. \<not> is_foreign x t)"

lemma confined_simps [simp]:
  "confined t w0 (Inl e, w) \<longleftrightarrow> sealed t w0 w"
  "confined t w0 (Inr tags, w) \<longleftrightarrow> sealed t w0 w \<and> (\<forall>x \<in> set tags. \<not> is_foreign x t)"
  by (simp_all add: confined_def)

text \<open>The three kinds of answers the wrappers give.\<close>

lemma confined_read:
  assumes "sealed t w0 w"
    and "m w = (case foreign_owner f t row of Some a \<Rightarrow> hide tool a t w | None \<Rightarrow> (Inr row, w))"
  shows "confined t w0 (bindM m (\<lambda>r. ret (tag f r)) w)"
  using assms by (auto simp: monad hide_def tag_def foreign_owner_None sealed_filed
      split: option.splits)

lemma confined_list:
  assumes "sealed t w0 w" and "m w = (Inr rows, w)" and "\<forall>r \<in> set rows. \<not> is_foreign (f r) t"
  shows "confined t w0 (bindM m (\<lambda>rs. ret (map f rs)) w)"
  using assms by (auto simp: monad)

lemma confined_write:
  assumes "sealed t w0 w"
    and "(\<exists>a. m w = deny tool a t w) \<or> (\<exists>e. m w = (Inl e, w)) \<or> (\<exists>r w'. m w = (Inr r, w') \<and> sealed t w0 w')"
  shows "confined t w0 (thenM m (ret []) w)"
  using assms by (auto simp: monad deny_def sealed_filed)

lemma sealed_set:
  assumes "sealed t w0 w"
  shows
    "\<lbrakk>foreign_owner msg_tenant_id t (dict_get (w_messages w) i) = None; msg_id m = i;
       \<not> is_foreign (msg_tenant_id m) t\<rbrakk> \<Longrightarrow>
     sealed t w0 (w\<lparr>w_messages := dict_set (w_messages w) i m\<rparr>)"
    "\<lbrakk>foreign_owner txn_tenant_id t (dict_get (w_transactions w) i) = None; txn_id x = i;
       \<not> is_foreign (txn_tenant_id x) t\<rbrakk> \<Longrightarrow>
     sealed t w0 (w\<lparr>w_transactions := dict_set (w_transactions w) i x\<rparr>)"
    "\<lbrakk>foreign_owner ms_tenant_id t (dict_get (w_milestones w) i) = None; ms_id y = i;
       \<not> is_foreign (ms_tenant_id y) t\<rbrakk> \<Longrightarrow>
     sealed t w0 (w\<lparr>w_milestones := dict_set (w_milestones w) i y\<rparr>)"
    "\<lbrakk>foreign_owner doc_tenant_id t (dict_get (w_documents w) i) = None; doc_id d = i;
       \<not> is_foreign (doc_tenant_id d) t\<rbrakk> \<Longrightarrow>
     sealed t w0 (w\<lparr>w_documents := dict_set (w_documents w) i d\<rparr>)"
    "\<lbrakk>foreign_owner cr_tenant_id t (dict_get (w_calls w) i) = None; cr_vapi_call_id r = i;
       \<not> is_foreign (cr_tenant_id r) t\<rbrakk> \<Longrightarrow>
     sealed t w0 (w\<lparr>w_calls := dict_set (w_calls w) i r\<rparr>)"
    "\<lbrakk>foreign_owner fb_tenant_id t (dict_get (w_feedback w) i) = None; fb_id f = i;
       \<not> is_foreign (fb_tenant_id f) t\<rbrakk> \<Longrightarrow>
     sealed t w0 (w\<lparr>w_feedback := dict_set (w_feedback w) i f\<rparr>)"
    "\<lbrakk>foreign_owner apr_tenant_id t (dict_get (w_approvals w) i) = None; apr_id a = i;
       \<not> is_foreign (apr_tenant_id a) t\<rbrakk> \<Longrightarrow>
     sealed t w0 (w\<lparr>w_approvals := dict_set (w_approvals w) i a\<rparr>)"
  using assms by (simp_all add: sealed_def tables_ok_def foreign_part_set keyed_set)

lemma sealed_keyed:
  assumes "sealed t w0 w"
  shows "keyed msg_id (w_messages w)" "keyed txn_id (w_transactions w)"
    "keyed ms_id (w_milestones w)" "keyed doc_id (w_documents w)"
    "keyed cr_vapi_call_id (w_calls w)" "keyed fb_id (w_feedback w)" "keyed apr_id (w_approvals w)"
  using assms by (simp_all add: sealed_def tables_ok_def)

lemma milestones_fresh_Cons:
  "milestones_fresh w (m # ms) \<longleftrightarrow>
     dict_get (w_milestones w) (ms_id m) = None \<and>
     milestones_fresh (w\<lparr>w_milestones := dict_set (w_milestones w) (ms_id m) m\<rparr>) ms"
  by (auto simp: milestones_fresh_def) (metis image_eqI)

lemma sealed_add_milestones:
  "sealed t w0 w \<Longrightarrow> milestones_fresh w ms \<Longrightarrow> \<forall>m \<in> set ms. \<not> is_foreign (ms_tenant_id m) t \<Longrightarrow>
   sealed t w0 (w\<lparr>w_milestones := add_milestones (w_milestones w) ms\<rparr>)"
proof (induction ms arbitrary: w)
  case Nil
  then show ?case by (simp add: add_milestones_def)
next
  case (Cons m ms)
  let ?w = "w\<lparr>w_milestones := dict_set (w_milestones w) (ms_id m) m\<rparr>"
  have "sealed t w0 ?w"
    using Cons.prems
    by (intro sealed_set(3)) (simp_all add: milestones_fresh_Cons foreign_owner_def)
  with Cons.prems Cons.IH [of ?w] show ?case
    by (simp add: add_milestones_def milestones_fresh_Cons)
qed

section \<open>The wired stores as one contract\<close>

locale stores =
  fixes s :: store_bundle
  assumes messages: "message_store (sb_messages s)"
    and transactions: "transaction_store (sb_transactions s)"
    and feedback: "feedback_store (sb_feedback s)"
    and documents: "document_store (sb_documents s)"
    and approvals: "approval_store (sb_approvals s)"

locale keyed_stores = stores +
  assumes keyed_transactions: "keyed_transaction_store (sb_transactions s)"
    and keyed_approvals: "keyed_approval_store (sb_approvals s)"

sublocale stores < msg: message_store "sb_messages s" by (rule messages)
sublocale stores < txn: transaction_store "sb_transactions s" by (rule transactions)
sublocale stores < fbk: feedback_store "sb_feedback s" by (rule feedback)
sublocale stores < docs: document_store "sb_documents s" by (rule documents)
sublocale stores < apr: approval_store "sb_approvals s" by (rule approvals)

text \<open>The two operations whose inner insert the wrapper does not guard with a read.\<close>

fun creates :: "store_op \<Rightarrow> bool" where
  "creates (CreateTransaction _ _) = True"
| "creates (CreateApproval _) = True"
| "creates _ = False"

context stores
begin

lemma message_ops_confined:
  assumes S: "sealed t w0 w"
  shows "confined t w0 (run_op s (SaveMessage m) w)"
    and "confined t w0 (run_op s (GetMessage i) w)"
    and "confined t w0 (run_op s (GetMessageByProvider p) w)"
    and "confined t w0 (run_op s (ListMessages c n x) w)"
proof -
  note wt = sealed_D [OF S]
  show "confined t w0 (run_op s (SaveMessage m) w)"
    unfolding run_op.simps
    by (rule confined_write [OF S])
      (auto simp: msg.scoped_save_run [OF wt] intro: sealed_set [OF S] split: option.splits)
  show "confined t w0 (run_op s (GetMessage i) w)"
    unfolding run_op.simps by (rule confined_read [OF S]) (rule msg.scoped_get_run [OF wt])
  show "confined t w0 (run_op s (GetMessageByProvider p) w)"
    unfolding run_op.simps
    by (rule confined_read [OF S, where tool = "''get_message_by_provider_id''" and row = "if p = [] then None else
        List.find (\<lambda>m. msg_provider_message_id m = p) (dict_values (w_messages w))"])
      (simp add: msg.scoped_provider_run [OF wt] mem_get_message_by_provider_id_def)
  obtain rows where "scoped_list_messages (sb_messages s) c n x w = (Inr rows, w)"
    and "\<forall>m \<in> set rows. \<not> is_foreign (msg_tenant_id m) t"
    by (rule msg.scoped_list_run [OF wt])
  with S show "confined t w0 (run_op s (ListMessages c n x) w)"
    by (simp add: monad)
qed

lemma advance_confined:
  assumes S: "sealed t w0 w"
  shows "confined t w0 (run_op s (AdvanceMessage i st) w)"
proof -
  note wt = sealed_D [OF S] and k = sealed_keyed [OF S]
  show ?thesis
    using S keyed_get [OF k(1), of i]
    by (auto simp: msg.scoped_advance_run [OF wt] monad hide_def tag_def sealed_filed
        mem_advance_message_status_def foreign_owner_None Let_def intro!: sealed_set [OF S]
        split: option.splits)
qed

lemma transaction_ops_confined:
  assumes S: "sealed t w0 w"
  shows "confined t w0 (run_op s (GetTransaction i) w)"
    and "confined t w0 (run_op s (GetMilestone i) w)"
    and "confined t w0 (run_op s ListActive w)"
    and "confined t w0 (run_op s (ListMilestones i) w)"
    and "confined t w0 (run_op s (SetEscalationLevel i l) w)"
    and "confined t w0 (run_op s CountTransactions w)"
    and "confined t w0 (run_op s ClearTransactions w)"
proof -
  note wt = sealed_D [OF S] and k = sealed_keyed [OF S]
  show "confined t w0 (run_op s (GetTransaction i) w)"
    unfolding run_op.simps by (rule confined_read [OF S]) (rule txn.scoped_get_run [OF wt])
  show "confined t w0 (run_op s (GetMilestone i) w)"
    unfolding run_op.simps by (rule confined_read [OF S]) (rule txn.scoped_get_milestone_run [OF wt])
  show "confined t w0 (run_op s ListActive w)"
    unfolding run_op.simps by (rule confined_list [OF S], rule txn.scoped_list_active_run [OF wt]) simp
  show "confined t w0 (run_op s (ListMilestones i) w)"
    unfolding run_op.simps by (rule confined_list [OF S], rule txn.scoped_list_milestones_run [OF wt]) simp
  show "confined t w0 (run_op s (SetEscalationLevel i l) w)"
    unfolding run_op.simps
    by (rule confined_write [OF S])
      (auto simp: txn.scoped_set_level_run [OF wt] foreign_owner_None intro!: sealed_set [OF S]
        dest: keyed_get [OF k(3)] split: option.splits)
  show "confined t w0 (run_op s CountTransactions w)"
    using wt S by (simp add: scoped_count_transactions_def txn.count_run mem_count_transactions_def monad)
  have "sealed t w0 (w\<lparr>w_transactions := filter (\<lambda>(k, x). \<not> owned_row t (txn_tenant_id x)) (w_transactions w),
      w_milestones := filter (\<lambda>(k, x). \<not> owned_row t (ms_tenant_id x)) (w_milestones w)\<rparr>)"
    using S by (auto simp: sealed_def tables_ok_def foreign_part_clear keyed_def dict_ok_def
        distinct_map_filter)
  with wt show "confined t w0 (run_op s ClearTransactions w)"
    by (simp add: scoped_clear_transactions_def txn.clear_run mem_clear_transactions_def monad)
qed

lemma feedback_ops_confined:
  assumes S: "sealed t w0 w"
  shows "confined t w0 (run_op s (SaveCall r) w)"
    and "confined t w0 (run_op s (GetCall i) w)"
    and "confined t w0 (run_op s (UpsertFeedback f) w)"
    and "confined t w0 (run_op s (GetFeedback i) w)"
    and "confined t w0 (run_op s (ListFeedback key) w)"
proof -
  note wt = sealed_D [OF S]
  show "confined t w0 (run_op s (SaveCall r) w)"
    unfolding run_op.simps
    by (rule confined_write [OF S])
      (auto simp: fbk.scoped_save_call_run [OF wt] intro: sealed_set [OF S] split: option.splits)
  show "confined t w0 (run_op s (GetCall i) w)"
    unfolding run_op.simps by (rule confined_read [OF S]) (rule fbk.scoped_get_call_run [OF wt])
  show "confined t w0 (run_op s (UpsertFeedback f) w)"
    unfolding run_op.simps
    by (rule confined_write [OF S])
      (auto simp: fbk.scoped_upsert_run [OF wt] intro: sealed_set [OF S] split: option.splits)
  show "confined t w0 (run_op s (GetFeedback i) w)"
    unfolding run_op.simps by (rule confined_read [OF S]) (rule fbk.scoped_get_feedback_run [OF wt])
  show "confined t w0 (run_op s (ListFeedback key) w)"
    unfolding run_op.simps by (rule confined_list [OF S], rule fbk.scoped_list_feedback_run [OF wt]) simp
qed

lemma document_ops_confined:
  assumes S: "sealed t w0 w"
  shows "confined t w0 (run_op s (AddDocument d) w)"
    and "confined t w0 (run_op s (GetDocument i) w)"
    and "confined t w0 (run_op s (ListDocuments j) w)"
proof -
  note wt = sealed_D [OF S]
  show "confined t w0 (run_op s (AddDocument d) w)"
    unfolding run_op.simps
    by (rule confined_write [OF S])
      (auto simp: docs.scoped_add_run [OF wt] foreign_owner_def intro!: sealed_set [OF S]
        split: option.splits)
  show "confined t w0 (run_op s (GetDocument i) w)"
    unfolding run_op.simps by (rule confined_read [OF S]) (rule docs.scoped_get_run [OF wt])
  show "confined t w0 (run_op s (ListDocuments j) w)"
    unfolding run_op.simps by (rule confined_list [OF S], rule docs.scoped_list_run [OF wt]) simp
qed

lemma approval_ops_confined:
  assumes S: "sealed t w0 w"
  shows "confined t w0 (run_op s (GetApproval i) w)"
    and "confined t w0 (run_op s (ListApprovals status) w)"
    and "confined t w0 (run_op s (MarkDecided i st who at_time) w)"
proof -
  note wt = sealed_D [OF S] and k = sealed_keyed [OF S]
  show "confined t w0 (run_op s (GetApproval i) w)"
    unfolding run_op.simps by (rule confined_read [OF S]) (rule apr.scoped_get_run [OF wt])
  show "confined t w0 (run_op s (ListApprovals status) w)"
    unfolding run_op.simps by (rule confined_list [OF S], rule apr.scoped_list_run [OF wt]) simp
  show "confined t w0 (run_op s (MarkDecided i st who at_time) w)"
    unfolding run_op.simps
    by (rule confined_write [OF S])
      (auto simp: apr.scoped_mark_run [OF wt] foreign_owner_None decided_def
        intro!: sealed_set [OF S] dest: keyed_get [OF k(7)] split: option.splits)
qed

lemma run_op_confined:
  assumes "sealed t w0 w" and "\<not> creates op"
  shows "confined t w0 (run_op s op w)"
  using assms(2)
  by (cases op)
    (simp_all only: creates.simps not_True_eq_False message_ops_confined [OF assms(1)]
      advance_confined [OF assms(1)] transaction_ops_confined [OF assms(1)]
      feedback_ops_confined [OF assms(1)] document_ops_confined [OF assms(1)]
      approval_ops_confined [OF assms(1)])

end

context keyed_stores
begin

lemma create_approval_confined:
  assumes S: "sealed t w0 w"
  shows "confined t w0 (run_op s (CreateApproval a) w)"
proof -
  note wt = sealed_D [OF S]
  note clash = keyed_approval_store.create_clash [OF keyed_approvals wt(1)]
  have "(\<exists>a'. scoped_create_approval (sb_approvals s) a w = deny ''create_approval'' a' t w) \<or>
      (\<exists>e. scoped_create_approval (sb_approvals s) a w = (Inl e, w)) \<or>
      (\<exists>r w'. scoped_create_approval (sb_approvals s) a w = (Inr r, w') \<and> sealed t w0 w')"
  proof (cases "dict_get (w_approvals w) (apr_id a)")
    case None
    then have "sealed t w0 (w\<lparr>w_approvals := dict_set (w_approvals w) (apr_id a) (a\<lparr>apr_tenant_id := t\<rparr>)\<rparr>)"
      by (intro sealed_set [OF S]) (simp_all add: foreign_owner_def)
    with None show ?thesis
      by (auto simp: apr.scoped_create_run [OF wt] apr.create_fresh [OF wt(1)])
  next
    case (Some x)
    then show ?thesis
      using clash [of "a\<lparr>apr_tenant_id := t\<rparr>"] by (auto simp: apr.scoped_create_run [OF wt])
  qed
  then show ?thesis
    unfolding run_op.simps by (rule confined_write [OF S])
qed


lemma create_transaction_confined:
  assumes S: "sealed t w0 w"
  shows "confined t w0 (run_op s (CreateTransaction x ms) w)"
proof -
  note wt = sealed_D [OF S]
  let ?x = "x\<lparr>txn_tenant_id := t\<rparr>" and ?ms = "stamped t ms"
  have "(\<exists>a. scoped_create_transaction (sb_transactions s) x ms w = deny ''create_transaction'' a t w) \<or>
      (\<exists>e. scoped_create_transaction (sb_transactions s) x ms w = (Inl e, w)) \<or>
      (\<exists>r w'. scoped_create_transaction (sb_transactions s) x ms w = (Inr r, w') \<and> sealed t w0 w')"
  proof (cases "creation_claim t x ms = None \<and> dict_get (w_transactions w) (txn_id x) = None \<and>
      milestones_fresh w ?ms")
    case True
    let ?w = "w\<lparr>w_transactions := dict_set (w_transactions w) (txn_id x) ?x\<rparr>"
    have "sealed t w0 ?w"
      using True by (intro sealed_set [OF S]) (simp_all add: foreign_owner_def)
    moreover have "milestones_fresh ?w ?ms"
      using True by (simp add: milestones_fresh_def)
    ultimately have "sealed t w0 (?w\<lparr>w_milestones := add_milestones (w_milestones ?w) ?ms\<rparr>)"
      by (rule sealed_add_milestones) (simp add: stamped_def)
    with True show ?thesis
      by (simp add: scoped_open_run [OF wt(2)] txn.create_fresh [OF wt(1)])
  next
    case False
    then show ?thesis
      using txn.create_present [OF wt(1), of ?x ?ms]
        keyed_transaction_store.create_clash [OF keyed_transactions wt(1), of ?x ?ms]
      by (cases "creation_claim t x ms")
        (auto simp: scoped_open_run [OF wt(2)])
  qed
  then show ?thesis
    unfolding run_op.simps by (rule confined_write [OF S])
qed

lemma any_op_confined: "sealed t w0 w \<Longrightarrow> confined t w0 (run_op s op w)"
  by (cases "creates op"; cases op)
    (simp_all add: run_op_confined create_approval_confined create_transaction_confined
      del: run_op.simps)

lemma run_ops_sealed:
  "sealed t w0 w \<Longrightarrow> run_ops s ops w = (outs, w') \<Longrightarrow>
   sealed t w0 w' \<and> (\<forall>tags. Inr tags \<in> set outs \<longrightarrow> (\<forall>x \<in> set tags. \<not> is_foreign x t))"
proof (induction ops arbitrary: w outs)
  case Nil
  then show ?case by simp
next
  case (Cons op ops)
  obtain r w1 rs where step: "run_op s op w = (r, w1)" "run_ops s ops w1 = (rs, w')"
      "outs = r # rs"
    using Cons.prems(2) by (auto split: prod.splits)
  have "confined t w0 (r, w1)"
    using any_op_confined [OF Cons.prems(1), of op] step(1) by simp
  with Cons.IH [OF _ step(2)] step(3) show ?case
    by (cases r) auto
qed

end

interpretation sql_suite: keyed_stores sql_stores
  by (intro keyed_stores.intro stores.intro keyed_stores_axioms.intro)
    (simp_all add: sql_stores_def sql_msg.message_store_axioms sql_txn.transaction_store_axioms
      sql_fbk.feedback_store_axioms sql_doc.document_store_axioms sql_apr.approval_store_axioms
      sql_txn.keyed_transaction_store_axioms sql_apr.keyed_approval_store_axioms)

interpretation mem_suite: stores mem_stores
  by (rule stores.intro)
    (simp_all add: mem_stores_def mem_msg.message_store_axioms mem_txn.transaction_store_axioms
      mem_fbk.feedback_store_axioms mem_doc.document_store_axioms mem_apr.approval_store_axioms)

section \<open>Confinement, denials and failing closed\<close>

text \<open>
  C1: Under one bound tenant, no sequence of scoped store operations over the SQL stores, with
  any keys, claims and exceptions on the way, changes, adds or removes a row of another tenant
  in any of the seven tables, or hands one out.
\<close>

theorem foreign_rows_sealed:
  assumes "tables_ok w" and "w_tenant w = Some t" and "run_ops sql_stores ops w = (outs, w')"
  shows "foreign_part msg_tenant_id t (w_messages w') = foreign_part msg_tenant_id t (w_messages w) \<and>
    foreign_part txn_tenant_id t (w_transactions w') = foreign_part txn_tenant_id t (w_transactions w) \<and>
    foreign_part ms_tenant_id t (w_milestones w') = foreign_part ms_tenant_id t (w_milestones w) \<and>
    foreign_part doc_tenant_id t (w_documents w') = foreign_part doc_tenant_id t (w_documents w) \<and>
    foreign_part cr_tenant_id t (w_calls w') = foreign_part cr_tenant_id t (w_calls w) \<and>
    foreign_part fb_tenant_id t (w_feedback w') = foreign_part fb_tenant_id t (w_feedback w) \<and>
    foreign_part apr_tenant_id t (w_approvals w') = foreign_part apr_tenant_id t (w_approvals w) \<and>
    (\<forall>tags. Inr tags \<in> set outs \<longrightarrow> (\<forall>x \<in> set tags. \<not> is_foreign x t))"
  using sql_suite.run_ops_sealed [OF sealed_refl [OF assms(1,2)] assms(3)]
  by (auto simp: sealed_def)

text \<open>
  The tenant an operation reaches out to when that is another tenant: the one a write claims,
  or the one that owns the row its key names.
\<close>

fun reached :: "string \<Rightarrow> world \<Rightarrow> store_op \<Rightarrow> string option" where
  "reached t w (CreateTransaction x ms) = creation_claim t x ms"
| "reached t w (GetTransaction i) = foreign_owner txn_tenant_id t (dict_get (w_transactions w) i)"
| "reached t w (GetMilestone i) = foreign_owner ms_tenant_id t (dict_get (w_milestones w) i)"
| "reached t w (SetEscalationLevel i l) = foreign_owner ms_tenant_id t (dict_get (w_milestones w) i)"
| "reached t w (SaveCall r) =
     (if is_foreign (cr_tenant_id r) t then Some (cr_tenant_id r)
      else foreign_owner cr_tenant_id t (dict_get (w_calls w) (cr_vapi_call_id r)))"
| "reached t w (GetCall i) = foreign_owner cr_tenant_id t (dict_get (w_calls w) i)"
| "reached t w (UpsertFeedback f) =
     (if is_foreign (fb_tenant_id f) t then Some (fb_tenant_id f)
      else foreign_owner fb_tenant_id t (dict_get (w_feedback w) (fb_id f)))"
| "reached t w (GetFeedback i) = foreign_owner fb_tenant_id t (dict_get (w_feedback w) i)"
| "reached t w (SaveMessage m) =
     (if is_foreign (msg_tenant_id m) t then Some (msg_tenant_id m)
      else foreign_owner msg_tenant_id t (dict_get (w_messages w) (msg_id m)))"
| "reached t w (GetMessage i) = foreign_owner msg_tenant_id t (dict_get (w_messages w) i)"
| "reached t w (GetMessageByProvider p) =
     (if p = [] then None
      else foreign_owner msg_tenant_id t
        (List.find (\<lambda>m. msg_provider_message_id m = p) (dict_values (w_messages w))))"
| "reached t w (AdvanceMessage i st) = foreign_owner msg_tenant_id t (dict_get (w_messages w) i)"
| "reached t w (AddDocument d) =
     (if is_foreign (doc_tenant_id d) t then Some (doc_tenant_id d)
      else foreign_owner doc_tenant_id t (dict_get (w_documents w) (doc_id d)))"
| "reached t w (GetDocument i) = foreign_owner doc_tenant_id t (dict_get (w_documents w) i)"
| "reached t w (CreateApproval a) = claim_owner (apr_tenant_id a) t"
| "reached t w (GetApproval i) = foreign_owner apr_tenant_id t (dict_get (w_approvals w) i)"
| "reached t w (MarkDecided i st who at_time) =
     foreign_owner apr_tenant_id t (dict_get (w_approvals w) i)"
| "reached t w _ = None"

text \<open>Reads hide the row, writes are refused.\<close>

fun reads :: "store_op \<Rightarrow> bool" where
  "reads (GetTransaction _) = True"
| "reads (GetMilestone _) = True"
| "reads (GetCall _) = True"
| "reads (GetFeedback _) = True"
| "reads (GetMessage _) = True"
| "reads (GetMessageByProvider _) = True"
| "reads (AdvanceMessage _ _) = True"
| "reads (GetDocument _) = True"
| "reads (GetApproval _) = True"
| "reads _ = False"

context stores
begin

lemma reach_denied:
  assumes S: "tables_ok w" "w_tenant w = Some t" and r: "reached t w op = Some a"
  shows "\<exists>tool. run_op s op w =
    (if reads op then Inr [] else Inl (CrossTenantError a t), filed tool a t w)"
  using r
  by (cases op)
    (auto simp: monad tag_def hide_def deny_def claim_owner_def foreign_owner_def
      msg.scoped_save_run [OF S] msg.scoped_get_run [OF S] msg.scoped_provider_run [OF S]
      msg.scoped_advance_run [OF S] mem_get_message_by_provider_id_def
      scoped_open_run [OF S(2)] txn.scoped_get_run [OF S] txn.scoped_get_milestone_run [OF S]
      txn.scoped_set_level_run [OF S] fbk.scoped_save_call_run [OF S] fbk.scoped_get_call_run [OF S]
      fbk.scoped_upsert_run [OF S] fbk.scoped_get_feedback_run [OF S] docs.scoped_add_run [OF S]
      docs.scoped_get_run [OF S] apr.scoped_create_run [OF S] apr.scoped_get_run [OF S]
      apr.scoped_mark_run [OF S] split: if_splits option.splits)

end

definition foreign_message :: message where
  "foreign_message = sample_message\<lparr>msg_id := ''m9'', msg_tenant_id := ''rival''\<rparr>"

definition two_tenant_world :: world where
  "two_tenant_world = blank_world\<lparr>w_tenant := Some ''acme'', w_messages := [(''m9'', foreign_message)]\<rparr>"

lemma two_tenant_ok: "tables_ok two_tenant_world" "w_tenant two_tenant_world = Some ''acme''"
  by (simp_all add: tables_ok_def two_tenant_world_def keyed_def dict_ok_def samples foreign_message_def)

theorem foreign_rows_sealed_witness:
  "foreign_part msg_tenant_id ''acme''
     (w_messages (snd (run_ops sql_stores
        [GetMessage ''m9'', SaveMessage (sample_message\<lparr>msg_id := ''m9''\<rparr>), SaveMessage sample_message]
        two_tenant_world))) = [(''m9'', foreign_message)]"
proof -
  obtain outs w' where r: "run_ops sql_stores
      [GetMessage ''m9'', SaveMessage (sample_message\<lparr>msg_id := ''m9''\<rparr>), SaveMessage sample_message]
      two_tenant_world = (outs, w')" by fastforce
  from foreign_rows_sealed [OF two_tenant_ok r]
  have "foreign_part msg_tenant_id ''acme'' (w_messages w') =
      foreign_part msg_tenant_id ''acme'' (w_messages two_tenant_world)" by blast
  with r show ?thesis
    by (simp add: two_tenant_world_def foreign_part_def foreign_message_def is_foreign_def)
qed



text \<open>
  C30: With no tenant bound every scoped operation, whatever the stores behind it, raises
  \<open>TenantContextMissing\<close> before it reads or changes anything.
\<close>

theorem unbound_fails_closed:
  assumes "w_tenant w = None"
  shows "\<exists>m. run_op s op w = (Inl (TenantContextMissing m), w)"
proof -
  obtain m where r: "require_tenant w = (Inl (TenantContextMissing m), w)"
    using assms by (auto simp: require_tenant_def)
  then have e: "enforce_tenant c w = (Inl (TenantContextMissing m), w)" for c
    by (simp add: enforce_tenant_def)
  then have a: "enforce_audited tool c w = (Inl (TenantContextMissing m), w)" for tool c
    by (simp add: enforce_audited_def try_except_apply)
  have "run_op s op w = (Inl (TenantContextMissing m), w)"
    by (cases op)
      (simp_all only: run_op.simps bindM_apply thenM_apply try_except_apply prod.case sum.case r e a
        is_cross_tenant.simps if_False
        scoped_create_transaction_def scoped_get_transaction_def scoped_get_milestone_def
        scoped_list_active_transactions_def scoped_list_milestones_def
        scoped_set_escalation_level_def scoped_count_transactions_def scoped_clear_transactions_def
        scoped_save_call_record_def scoped_get_call_record_def scoped_upsert_feedback_def scoped_get_feedback_def
        scoped_list_feedback_def scoped_save_message_def scoped_get_message_def
        scoped_get_message_by_provider_id_def scoped_list_messages_def
        scoped_advance_message_status_def scoped_add_document_def scoped_get_document_def
        scoped_list_documents_def scoped_create_approval_def scoped_get_approval_def
        scoped_list_approvals_def scoped_mark_decided_def)
  then show ?thesis by blast
qed

theorem unbound_fails_closed_witness:
  "\<exists>m. run_op mem_stores ClearTransactions blank_world = (Inl (TenantContextMissing m), blank_world)"
  by (rule unbound_fails_closed) (simp add: blank_world_def)

section \<open>The two implementations agree\<close>

lemma insort_key_order:
  "\<forall>x \<in> insert a (set xs). \<forall>y \<in> insert a (set xs). f x \<le> f y \<longleftrightarrow> g x \<le> g y \<Longrightarrow>
   insort_key f a xs = insort_key g a xs" for f :: "'a \<Rightarrow> 'b::linorder" and g :: "'a \<Rightarrow> 'c::linorder"
  by (induction xs) auto

lemma sort_key_order:
  "\<forall>x \<in> set xs. \<forall>y \<in> set xs. f x \<le> f y \<longleftrightarrow> g x \<le> g y \<Longrightarrow> sort_key f xs = sort_key g xs"
  for f :: "'a \<Rightarrow> 'b::linorder" and g :: "'a \<Rightarrow> 'c::linorder"
proof (induction xs)
  case Nil
  then show ?case by simp
next
  case (Cons a xs)
  then have "sort_key f xs = sort_key g xs" by simp
  moreover have "insort_key f a (sort_key g xs) = insort_key g a (sort_key g xs)"
    using Cons.prems by (intro insort_key_order) simp
  ultimately show ?case by simp
qed

lemma created_key_order:
  "a \<noteq> None \<Longrightarrow> b \<noteq> None \<Longrightarrow> sql_created_key a \<le> sql_created_key b \<longleftrightarrow> created_key a \<le> created_key b"
  by (auto simp: sql_created_key_def created_key_def)

lemma list_messages_agree:
  assumes "\<forall>m \<in> set (dict_values (w_messages w)). msg_created_at m \<noteq> None"
  shows "sql_list_messages c n x w = mem_list_messages c n x w"
proof -
  let ?q = "filter (\<lambda>m. (c = None \<or> c = Some (msg_contact_id m)) \<and>
      (x = None \<or> x = Some (msg_transaction_id m))) (dict_values (w_messages w))"
  have "sort_key (\<lambda>m. sql_created_key (msg_created_at m)) ?q =
      sort_key (\<lambda>m. created_key (msg_created_at m)) ?q"
    using assms by (intro sort_key_order ballI created_key_order) auto
  moreover have "(case x of
        None \<Rightarrow> (case c of None \<Rightarrow> dict_values (w_messages w)
          | Some d \<Rightarrow> filter (\<lambda>m. msg_contact_id m = d) (dict_values (w_messages w)))
      | Some t \<Rightarrow> filter (\<lambda>m. msg_transaction_id m = t) (case c of None \<Rightarrow> dict_values (w_messages w)
          | Some d \<Rightarrow> filter (\<lambda>m. msg_contact_id m = d) (dict_values (w_messages w)))) = ?q"
    by (cases c; cases x) (auto simp: conj_commute intro: filter_cong)
  ultimately show ?thesis
    by (simp add: sql_list_messages_def mem_list_messages_def Let_def)
qed

text \<open>The whole answer of an operation.\<close>

datatype store_answer =
    NoAnswer
  | ATransaction "transaction option" | ATransactions "transaction list" | ACount nat
  | AMilestone "milestone option" | AMilestones "milestone list"
  | ACall "call_record option" | AFeedback "showing_feedback option" | AFeedbacks "showing_feedback list"
  | AMessage "message option" | AMessages "message list"
  | ADocument "document option" | ADocuments "document list"
  | AApproval "approval_request option" | AApprovals "approval_request list"

definition answering :: "'a W \<Rightarrow> ('a \<Rightarrow> store_answer) \<Rightarrow> store_answer W" where
  "answering m f = bindM m (\<lambda>a. ret (f a))"

fun answer_op :: "store_bundle \<Rightarrow> store_op \<Rightarrow> store_answer W" where
  "answer_op s (CreateTransaction x ms) = answering (scoped_create_transaction (sb_transactions s) x ms) (\<lambda>_. NoAnswer)"
| "answer_op s (GetTransaction i) = answering (scoped_get_transaction (sb_transactions s) i) ATransaction"
| "answer_op s (GetMilestone i) = answering (scoped_get_milestone (sb_transactions s) i) AMilestone"
| "answer_op s ListActive = answering (scoped_list_active_transactions (sb_transactions s)) ATransactions"
| "answer_op s (ListMilestones i) = answering (scoped_list_milestones (sb_transactions s) i) AMilestones"
| "answer_op s (SetEscalationLevel i l) = answering (scoped_set_escalation_level (sb_transactions s) i l) (\<lambda>_. NoAnswer)"
| "answer_op s CountTransactions = answering (scoped_count_transactions (sb_transactions s)) ACount"
| "answer_op s ClearTransactions = answering (scoped_clear_transactions (sb_transactions s)) (\<lambda>_. NoAnswer)"
| "answer_op s (SaveCall r) = answering (scoped_save_call_record (sb_feedback s) r) (\<lambda>_. NoAnswer)"
| "answer_op s (GetCall i) = answering (scoped_get_call_record (sb_feedback s) i) ACall"
| "answer_op s (UpsertFeedback f) = answering (scoped_upsert_feedback (sb_feedback s) f) (\<lambda>_. NoAnswer)"
| "answer_op s (GetFeedback i) = answering (scoped_get_feedback (sb_feedback s) i) AFeedback"
| "answer_op s (ListFeedback key) = answering (scoped_list_feedback (sb_feedback s) key) AFeedbacks"
| "answer_op s (SaveMessage m) = answering (scoped_save_message (sb_messages s) m) (\<lambda>_. NoAnswer)"
| "answer_op s (GetMessage i) = answering (scoped_get_message (sb_messages s) i) AMessage"
| "answer_op s (GetMessageByProvider p) = answering (scoped_get_message_by_provider_id (sb_messages s) p) AMessage"
| "answer_op s (ListMessages c n x) = answering (scoped_list_messages (sb_messages s) c n x) AMessages"
| "answer_op s (AdvanceMessage i st) = answering (scoped_advance_message_status (sb_messages s) i st) AMessage"
| "answer_op s (AddDocument d) = answering (scoped_add_document (sb_documents s) d) (\<lambda>_. NoAnswer)"
| "answer_op s (GetDocument i) = answering (scoped_get_document (sb_documents s) i) ADocument"
| "answer_op s (ListDocuments i) = answering (scoped_list_documents (sb_documents s) i) ADocuments"
| "answer_op s (CreateApproval a) = answering (scoped_create_approval (sb_approvals s) a) (\<lambda>_. NoAnswer)"
| "answer_op s (GetApproval i) = answering (scoped_get_approval (sb_approvals s) i) AApproval"
| "answer_op s (ListApprovals st) = answering (scoped_list_approvals (sb_approvals s) st) AApprovals"
| "answer_op s (MarkDecided i st who at_time) =
     answering (scoped_mark_decided (sb_approvals s) i st who at_time) (\<lambda>_. NoAnswer)"

text \<open>
  The three places where the implementations differ: a creation whose milestone ids are not new and
  distinct, an approval that reuses an id, and the order of messages without a creation time.
\<close>

fun same_meaning :: "world \<Rightarrow> store_op \<Rightarrow> bool" where
  "same_meaning w (CreateTransaction x ms) \<longleftrightarrow>
     dict_get (w_transactions w) (txn_id x) \<noteq> None \<or> milestones_fresh w ms"
| "same_meaning w (CreateApproval a) \<longleftrightarrow> dict_get (w_approvals w) (apr_id a) = None"
| "same_meaning w (ListMessages c n x) \<longleftrightarrow> (\<forall>m \<in> set (dict_values (w_messages w)). msg_created_at m \<noteq> None)"
| "same_meaning w _ \<longleftrightarrow> True"

lemma creates_agree:
  assumes S: "tables_ok w" "w_tenant w = Some t" and same: "same_meaning w op" and op: "creates op"
  shows "answer_op sql_stores op w = answer_op mem_stores op w"
proof (cases op)
  case (CreateTransaction x ms)
  let ?x = "x\<lparr>txn_tenant_id := t\<rparr>"
  have fresh: "milestones_fresh w (stamped t ms) = milestones_fresh w ms"
    by (simp add: milestones_fresh_def stamped_def comp_def)
  have "tb_create (sb_transactions sql_stores) ?x (stamped t ms) w = tb_create (sb_transactions mem_stores) ?x (stamped t ms) w"
  proof (cases "dict_get (w_transactions w) (txn_id x)")
    case None
    with same CreateTransaction fresh show ?thesis
      using sql_suite.txn.create_fresh [OF S(1), of ?x] mem_suite.txn.create_fresh [OF S(1), of ?x] by simp
  next
    case (Some y)
    then show ?thesis
      using sql_suite.txn.create_present [OF S(1), of ?x] mem_suite.txn.create_present [OF S(1), of ?x] by simp
  qed
  then show ?thesis
    by (simp add: CreateTransaction answering_def monad scoped_open_run [OF S(2)] split: option.splits)
next
  case (CreateApproval a)
  with same show ?thesis
    using sql_suite.apr.create_fresh [OF S(1)] mem_suite.apr.create_fresh [OF S(1)]
    by (simp add: answering_def monad sql_suite.apr.scoped_create_run [OF S] mem_suite.apr.scoped_create_run [OF S]
        split: option.splits)
qed (use op in simp_all)



text \<open>
  A delivery event moves a message only forward: the status rank never decreases, a
  terminal status (delivered, failed, rejected) is never left, and every other field stays.
\<close>

theorem advance_only_forward:
  assumes "s = sql_stores \<or> s = mem_stores" and "tables_ok w" and "w_tenant w = Some t"
    and "dict_get (w_messages w) i = Some m" and "\<not> is_foreign (msg_tenant_id m) t"
  shows "\<exists>st'. run_op s (AdvanceMessage i st) w =
      (Inr [msg_tenant_id m], w\<lparr>w_messages := dict_set (w_messages w) i (m\<lparr>msg_status := st'\<rparr>)\<rparr>) \<and>
    status_rank (msg_status m) \<le> status_rank st' \<and>
    (status_rank (msg_status m) = 3 \<longrightarrow> st' = msg_status m) \<and>
    (status_rank (msg_status m) < status_rank st \<longrightarrow> st' = st)"
proof -
  note S = assms(2,3)
  have up: "status_rank x \<le> 3" for x by (cases x) simp_all
  have "run_op s (AdvanceMessage i st) w =
      bindM (mem_advance_message_status i st) (\<lambda>r. ret (tag msg_tenant_id r)) w"
    using assms(1,4,5)
    by (auto simp: monad sql_suite.msg.scoped_advance_run [OF S]
        mem_suite.msg.scoped_advance_run [OF S] foreign_owner_def)
  then have run: "run_op s (AdvanceMessage i st) w =
      (Inr [msg_tenant_id m], w\<lparr>w_messages := dict_set (w_messages w) i (m\<lparr>msg_status :=
         (if status_rank (msg_status m) < status_rank st then st else msg_status m)\<rparr>)\<rparr>)"
    using assms(4)
    by (simp del: run_op.simps add: mem_advance_message_status_def monad tag_def Let_def dict_set_same)
  show ?thesis
    using up [of st]
    by (intro exI [of _ "if status_rank (msg_status m) < status_rank st then st else msg_status m"])
      (auto simp del: run_op.simps simp: run)
qed

theorem advance_only_forward_witness:
  "\<exists>st'. run_op sql_stores (AdvanceMessage ''m9'' Delivered) (two_tenant_world\<lparr>w_tenant := Some ''rival''\<rparr>) =
      (Inr [''rival''], two_tenant_world\<lparr>w_tenant := Some ''rival'',
         w_messages := dict_set (w_messages two_tenant_world) ''m9'' (foreign_message\<lparr>msg_status := st'\<rparr>)\<rparr>)"
  using advance_only_forward [of sql_stores "two_tenant_world\<lparr>w_tenant := Some ''rival''\<rparr>" "''rival''" "''m9''"
      foreign_message Delivered] two_tenant_ok
  by (auto simp: tables_ok_def two_tenant_world_def dict_get_def foreign_message_def)

end
