(* ===== verification/Message_Send.thy ===== *)
theory Message_Send
  imports Templates Egress Idempotency Confined_Runs
begin

text \<open>
  \<open>core/services/message_send.py\<close>: the one place the send lifecycle lives. A service is its wired
  ports: the channel ports (the seam's), the message store (the scoped one) and the drafting
  backend.
\<close>

section \<open>The service\<close>

record send_service =
  sv_email :: send_port
  sv_store :: message_backend
  sv_sms :: "send_port option"
  sv_drafting :: "(draft_context \<Rightarrow> drafted_message W) option"

text \<open>\<open>ScopedMessageStore\<close> as a store.\<close>

definition scoped_messages :: "message_backend \<Rightarrow> message_backend" where
  "scoped_messages b =
     \<lparr>mb_save = scoped_save_message b, mb_get = scoped_get_message b,
      mb_get_by_provider = scoped_get_message_by_provider_id b, mb_list = scoped_list_messages b,
      mb_advance = scoped_advance_message_status b\<rparr>"

definition deterministic_drafter :: "draft_context \<Rightarrow> drafted_message W" where
  "deterministic_drafter c = liftE (deterministic_draft c)"

definition llm_drafter :: "draft_context \<Rightarrow> drafted_message W" where
  "llm_drafter c = bindM (ext_call (DraftMessage c)) as_drafted"

fun send_tool :: "message_channel \<Rightarrow> string" where
  "send_tool Email = ''send_email''"
| "send_tool Sms = ''send_sms''"

definition message_id :: "message \<Rightarrow> string W" where
  "message_id draft = bindM current_run_id (\<lambda>run.
     case run of
       None \<Rightarrow> uuid4_hex
     | Some r \<Rightarrow> gets (\<lambda>w. idempotency_key (w_sha256 w) r (send_tool (msg_channel draft))
         (semantic_send_args draft)))"

definition draft_id :: "draft_context \<Rightarrow> string W" where
  "draft_id context = bindM current_run_id (\<lambda>run.
     case run of
       None \<Rightarrow> uuid4_hex
     | Some r \<Rightarrow> gets (\<lambda>w. idempotency_key (w_sha256 w) r ''draft_message'' (draft_context_json context)))"

definition port_for :: "send_service \<Rightarrow> message_channel \<Rightarrow> send_port W" where
  "port_for svc channel =
     (case channel of
        Email \<Rightarrow> ret (sv_email svc)
      | Sms \<Rightarrow>
          (case sv_sms svc of
             None \<Rightarrow> raise (RuntimeError ''no SMS provider is wired (SMS_PROVIDER)'')
           | Some p \<Rightarrow> ret p))"

text \<open>
  \<open>_dlp_scrub\<close>: every text field through the secret-shape redaction. At the operator tier no
  annotated field of a message is withheld, and no field name looks like a secret.
\<close>

definition dlp_scrub :: "message \<Rightarrow> message" where
  "dlp_scrub m = m\<lparr>
     msg_id := scrub_text (msg_id m), msg_tenant_id := scrub_text (msg_tenant_id m),
     msg_recipient := scrub_text (msg_recipient m), msg_subject := scrub_text (msg_subject m),
     msg_body := scrub_text (msg_body m), msg_template_ref := scrub_text (msg_template_ref m),
     msg_contact_id := scrub_text (msg_contact_id m), msg_listing_key := scrub_text (msg_listing_key m),
     msg_transaction_id := scrub_text (msg_transaction_id m),
     msg_provider_message_id := scrub_text (msg_provider_message_id m)\<rparr>"

text \<open>
  The tail every send shares: hand the message to the port, persist \<open>FAILED\<close> and re-raise, or
  persist \<open>SENT\<close> and return the row as stored.
\<close>

definition deliver :: "send_service \<Rightarrow> send_port \<Rightarrow> message \<Rightarrow> message W" where
  "deliver svc port m =
     bindM (try_except is_exception (sp_send port m)
              (\<lambda>e. thenM (mb_save (sv_store svc) (m\<lparr>msg_status := Failed\<rparr>)) (raise e)))
       (\<lambda>provider_id.
     bindM now_utc (\<lambda>now.
     let sent = m\<lparr>msg_status := Sent, msg_provider_message_id := provider_id, msg_sent_at := Some now\<rparr>
     in thenM (mb_save (sv_store svc) sent)
          (bindM (mb_get (sv_store svc) (msg_id sent)) (\<lambda>stored.
             ret (case stored of Some s \<Rightarrow> s | None \<Rightarrow> sent)))))"

definition send_core ::
    "send_service \<Rightarrow> send_port \<Rightarrow> message_channel \<Rightarrow> string \<Rightarrow> string \<Rightarrow> (string \<times> string) list \<Rightarrow>
     string \<Rightarrow> string \<Rightarrow> string \<Rightarrow> message W" where
  "send_core svc port channel recipient ref params contact_id listing_key transaction_id =
     bindM (liftE (get_template ref)) (\<lambda>t.
     bindM (liftE (render t params)) (\<lambda>(subject, body).
     bindM now_utc (\<lambda>now.
     let draft = dlp_scrub
       \<lparr>msg_id = [], msg_tenant_id = [], msg_channel = channel, msg_recipient = recipient,
        msg_subject = (if channel = Email then subject else []), msg_body = body,
        msg_template_ref = template_ref t, msg_contact_id = contact_id,
        msg_listing_key = listing_key, msg_transaction_id = transaction_id,
        msg_status = Drafted, msg_provider_message_id = [], msg_created_at = Some now,
        msg_sent_at = None\<rparr>
     in bindM (message_id draft) (\<lambda>i.
     let m = draft\<lparr>msg_id := i\<rparr>
     in bindM (mb_get (sv_store svc) i) (\<lambda>existing.
       case existing of
         Some row \<Rightarrow>
           if msg_status row \<in> {Sent, Delivered} then ret row
           else thenM (mb_save (sv_store svc) m) (deliver svc port m)
       | None \<Rightarrow> thenM (mb_save (sv_store svc) m) (deliver svc port m))))))"

definition send_email ::
    "send_service \<Rightarrow> string \<Rightarrow> string \<Rightarrow> (string \<times> string) list \<Rightarrow> string \<Rightarrow> string \<Rightarrow> string \<Rightarrow> message W" where
  "send_email svc = send_core svc (sv_email svc) Email"

definition send_sms ::
    "send_service \<Rightarrow> string \<Rightarrow> string \<Rightarrow> (string \<times> string) list \<Rightarrow> string \<Rightarrow> string \<Rightarrow> string \<Rightarrow> message W" where
  "send_sms svc recipient ref params contact_id listing_key transaction_id =
     bindM (port_for svc Sms) (\<lambda>port.
       send_core svc port Sms recipient ref params contact_id listing_key transaction_id)"

definition service_get_message :: "send_service \<Rightarrow> string \<Rightarrow> message option W" where
  "service_get_message svc i = mb_get (sv_store svc) i"

definition draft_for_approval :: "send_service \<Rightarrow> draft_context \<Rightarrow> message W" where
  "draft_for_approval svc context =
     (case sv_drafting svc of
        None \<Rightarrow> raise (RuntimeError ''no drafting backend wired (DraftingPort is required to draft)'')
      | Some drafter \<Rightarrow>
          bindM (draft_id context) (\<lambda>i.
          bindM (mb_get (sv_store svc) i) (\<lambda>existing.
            case existing of
              Some row \<Rightarrow> ret row
            | None \<Rightarrow>
                bindM (drafter context) (\<lambda>d.
                bindM now_utc (\<lambda>now.
                let m = dlp_scrub
                  \<lparr>msg_id = i, msg_tenant_id = [], msg_channel = dm_channel d,
                   msg_recipient = dm_recipient d,
                   msg_subject = (if dm_channel d = Email then dm_subject d else []),
                   msg_body = dm_body d, msg_template_ref = dm_template_ref d,
                   msg_contact_id = dm_contact_id d, msg_listing_key = dm_listing_key d,
                   msg_transaction_id = dm_transaction_id d, msg_status = PendingApproval,
                   msg_provider_message_id = [], msg_created_at = Some now, msg_sent_at = None\<rparr>
                in thenM (mb_save (sv_store svc) m)
                     (bindM (mb_get (sv_store svc) i) (\<lambda>stored.
                        ret (case stored of Some s \<Rightarrow> s | None \<Rightarrow> m))))))))"

text \<open>The row with the approver's edits; a part that is absent or equal stays.\<close>

definition with_edits :: "string option \<Rightarrow> string option \<Rightarrow> message \<Rightarrow> message" where
  "with_edits subject body row =
     row\<lparr>msg_subject := (case subject of None \<Rightarrow> msg_subject row | Some s \<Rightarrow> s),
         msg_body := (case body of None \<Rightarrow> msg_body row | Some b \<Rightarrow> b)\<rparr>"

definition send_approved ::
    "send_service \<Rightarrow> string \<Rightarrow> string option \<Rightarrow> string option \<Rightarrow> message W" where
  "send_approved svc i subject body =
     (if (case body of None \<Rightarrow> False | Some b \<Rightarrow> strip b = []) then raise blank_edit_error
      else bindM (mb_get (sv_store svc) i) (\<lambda>found.
        case found of
          None \<Rightarrow> raise (UnknownOutboundMessageError i)
        | Some row \<Rightarrow>
            if msg_status row \<notin> {PendingApproval, Failed} then ret row
            else bindM (port_for svc (msg_channel row)) (\<lambda>port.
              let m = dlp_scrub (with_edits subject body row)
              in thenM (if m \<noteq> row then mb_save (sv_store svc) m else ret ())
                   (deliver svc port m))))"

definition mark_rejected :: "send_service \<Rightarrow> string \<Rightarrow> message W" where
  "mark_rejected svc i =
     bindM (mb_get (sv_store svc) i) (\<lambda>found.
       case found of
         None \<Rightarrow> raise (UnknownOutboundMessageError i)
       | Some row \<Rightarrow>
           if msg_status row \<noteq> PendingApproval then ret row
           else (let rejected = row\<lparr>msg_status := Rejected\<rparr>
                 in thenM (mb_save (sv_store svc) rejected)
                      (bindM (mb_get (sv_store svc) (msg_id rejected)) (\<lambda>stored.
                         ret (case stored of Some s \<Rightarrow> s | None \<Rightarrow> rejected)))))"

section \<open>The scrub is the egress scrub\<close>

text \<open>A message as a payload: its fields in order, with their markers.\<close>

definition json_date :: "instant option \<Rightarrow> payload" where
  "json_date t = (case t of None \<Rightarrow> VNone | Some i \<Rightarrow> VAtom (PInt i))"

definition message_payload :: "nat \<Rightarrow> message \<Rightarrow> payload" where
  "message_payload n m = VModel n
     [(''id'', None, VStr (msg_id m)), (''tenant_id'', None, VStr (msg_tenant_id m)),
      (''channel'', None, VStr (channel_value (msg_channel m))),
      (''recipient'', Some Operator, VStr (msg_recipient m)),
      (''subject'', Some Operator, VStr (msg_subject m)), (''body'', Some Operator, VStr (msg_body m)),
      (''template_ref'', None, VStr (msg_template_ref m)), (''contact_id'', None, VStr (msg_contact_id m)),
      (''listing_key'', None, VStr (msg_listing_key m)),
      (''transaction_id'', None, VStr (msg_transaction_id m)),
      (''status'', None, VStr (message_status_value (msg_status m))),
      (''provider_message_id'', None, VStr (msg_provider_message_id m)),
      (''created_at'', None, json_date (msg_created_at m)), (''sent_at'', None, json_date (msg_sent_at m))]"

lemma message_field_names:
  "\<not> is_secret_key ''id''" "\<not> is_secret_key ''tenant_id''" "\<not> is_secret_key ''channel''"
  "\<not> is_secret_key ''recipient''" "\<not> is_secret_key ''subject''" "\<not> is_secret_key ''body''"
  "\<not> is_secret_key ''template_ref''" "\<not> is_secret_key ''contact_id''" "\<not> is_secret_key ''listing_key''"
  "\<not> is_secret_key ''transaction_id''" "\<not> is_secret_key ''status''"
  "\<not> is_secret_key ''provider_message_id''" "\<not> is_secret_key ''created_at''" "\<not> is_secret_key ''sent_at''"
  by code_simp+

lemma enum_clean:
  "scrub_text (channel_value c) = channel_value c"
  "scrub_text (message_status_value s) = message_status_value s"
proof -
  show "scrub_text (channel_value c) = channel_value c"
    by (cases c; simp only: channel_value.simps; rule scrub_text_no_match; rule no_anchor_no_match)
      (code_simp, code_simp, code_simp, code_simp)
  show "scrub_text (message_status_value s) = message_status_value s"
    by (cases s; simp only: message_status_value.simps; rule scrub_text_no_match; rule no_anchor_no_match)
      (code_simp, code_simp, code_simp, code_simp, code_simp, code_simp, code_simp, code_simp,
       code_simp, code_simp, code_simp, code_simp)
qed

text \<open>
  The send service's DLP scrub is the egress filter's: on a message it redacts exactly what
  the response filter redacts for the agent's tier (secret shapes in every text field; the
  recipient is kept).
\<close>

theorem dlp_is_egress_scrub:
  "fst (scrub_payload Operator [] (message_payload n m)) = message_payload n (dlp_scrub m)"
  by (simp add: message_payload_def dlp_scrub_def message_field_names scrub_string_def enum_clean
      json_date_def role_allows_def Let_def split: option.split)

section \<open>The wired service\<close>

text \<open>\<open>guard_tool_ports\<close> around a send port: the message is the argument, the provider id the result.\<close>

definition guarded_send :: "send_port \<Rightarrow> send_port" where
  "guarded_send inner =
     \<lparr>sp_send = (\<lambda>m. bindM
        (guarded_call ''send'' Operator [(''message'', message_payload 0 m)]
           (bindM (sp_send inner m) (\<lambda>s. ret (VStr s))))
        (\<lambda>v. case v of VStr s \<Rightarrow> ret s | _ \<Rightarrow> raise bad_answer))\<rparr>"

definition seam_email :: "idempotency_backend \<Rightarrow> send_port" where
  "seam_email ib = guarded_send (idempotent_email (recording_email raw_email) ib)"

definition seam_sms :: "idempotency_backend \<Rightarrow> send_port" where
  "seam_sms ib = guarded_send (idempotent_sms (recording_sms raw_sms) ib)"

definition wired_service ::
    "idempotency_backend \<Rightarrow> message_backend \<Rightarrow> (draft_context \<Rightarrow> drafted_message W) \<Rightarrow> send_service" where
  "wired_service ib b drafter =
     \<lparr>sv_email = seam_email ib, sv_store = scoped_messages b, sv_sms = Some (seam_sms ib),
      sv_drafting = Some drafter\<rparr>"

section \<open>What a send leaves alone\<close>

text \<open>The message an external call hands to a provider, by its id.\<close>

fun sent_id :: "ext_req \<Rightarrow> string option" where
  "sent_id (EmailSend m) = Some (msg_id m)"
| "sent_id (SmsSend m) = Some (msg_id m)"
| "sent_id _ = None"

text \<open>
  A call that touches no row of a store, nor the bound tenant, the audit context or the digest,
  and hands no message but the given one to a provider: the ledger and the idempotency rows are
  its own.
\<close>

definition quiet :: "string option \<Rightarrow> world \<Rightarrow> world \<Rightarrow> bool" where
  "quiet i w w' \<longleftrightarrow>
     same_rows w w' \<and> w_tenant w' = w_tenant w \<and> w_audit w' = w_audit w \<and> w_sha256 w' = w_sha256 w \<and>
     (\<exists>new. w_sent w' = w_sent w @ new \<and> (\<forall>q \<in> set new. sent_id q = None \<or> sent_id q = i))"

lemma quiet_refl [simp]: "quiet i w w"
  by (simp add: quiet_def)

lemma quiet_trans: "quiet i a b \<Longrightarrow> quiet i b c \<Longrightarrow> quiet i a c"
  by (auto simp: quiet_def same_rows_def)

lemma quiet_logs: "only_logs w w' \<Longrightarrow> quiet i w w'"
  by (simp add: quiet_def only_logs_def same_sources_def)

definition quietly :: "string option \<Rightarrow> 'a W \<Rightarrow> bool" where
  "quietly i m \<longleftrightarrow> (\<forall>w. quiet i w (snd (m w)))"

lemma quietlyD: "quietly i m \<Longrightarrow> m w = (r, w') \<Longrightarrow> quiet i w w'"
  by (metis quietly_def snd_conv)

lemma quietly_pure [intro, simp]:
  "quietly i (ret a)" "quietly i (raise e)" "quietly i (gets f)" "quietly i (liftE r)"
  by (simp_all add: quietly_def)

lemma quietly_bindM [intro]: "quietly i m \<Longrightarrow> (\<And>a. quietly i (k a)) \<Longrightarrow> quietly i (bindM m k)"
  unfolding quietly_def monad
  by (auto split: prod.split sum.split) (metis quiet_trans snd_conv)+

lemma quietly_thenM [intro]: "quietly i m \<Longrightarrow> quietly i k \<Longrightarrow> quietly i (thenM m k)"
  unfolding thenM_def by (rule quietly_bindM)

lemma quietly_try [intro]: "quietly i m \<Longrightarrow> (\<And>e. quietly i (h e)) \<Longrightarrow> quietly i (try_except p m h)"
  unfolding quietly_def monad
  by (auto split: prod.split sum.split) (metis quiet_trans snd_conv)+

lemma quietly_mapM: "(\<And>x. quietly i (f x)) \<Longrightarrow> quietly i (mapM f xs)"
  by (induction xs) auto

lemma quietly_ext: "sent_id q = None \<or> sent_id q = i \<Longrightarrow> quietly i (ext_call q)"
  by (simp add: quietly_def world quiet_def same_rows_def)

lemma quietly_as_str: "quietly i (as_str r)" "quietly i (as_drafted r)"
  by (simp_all add: quietly_def)

lemma quietly_emit: "quietly i (emit g tool args outcome ext err)"
  by (simp add: quietly_def quiet_logs logged_effect(2))

lemma quietly_uuid: "quietly i uuid4_hex" "quietly i now_utc"
  by (simp_all add: quietly_def world quiet_def same_rows_def)

lemma quietly_recorded: "quietly i c \<Longrightarrow> quietly i (recorded g tool args c f)"
  unfolding recorded_def
  by (intro quietly_bindM quietly_thenM quietly_try quietly_emit quietly_pure)

lemma quietly_enforce: "quietly i (enforce_tenant x)"
  by (simp add: quietly_def)

lemma quietly_attempt: "quietly i (record_cross_tenant_attempt e tool)"
  by (auto simp: quietly_def record_cross_tenant_attempt_def monad world audit_record_def quiet_def
      same_rows_def Let_def split: exn.split)

lemma quietly_guarded_send:
  "quietly i (sp_send inner m) \<Longrightarrow> quietly i (sp_send (guarded_send inner) m)"
  unfolding guarded_send_def guarded_call_def authorize_args_def check_tenants_def filter_tool_response_def
  by (auto intro!: quietly_bindM quietly_thenM quietly_mapM quietly_try quietly_enforce
      quietly_attempt split: payload.split)

lemma quietly_deduped:
  assumes "\<And>k. quietly i (ib_begin ib k)" and "\<And>k r. quietly i (ib_complete ib k r)" and "quietly i call"
  shows "quietly i (deduped ib tool args load dump call)"
  using assms
  unfolding deduped_def claim_def current_run_id_def current_audit_context_def perform_def
    record_result_def require_result_def
  by (auto intro!: quietly_bindM quietly_thenM split: option.split)

lemma quietly_store:
  "quietly i (mem_begin k)" "quietly i (mem_complete k r)"
  "quietly i (sql_begin k)" "quietly i (sql_complete k r)"
  by (auto simp: quietly_def mem_begin_def mem_complete_def sql_begin_def sql_complete_def quiet_def
      same_rows_def split: option.split)

lemma quietly_seam:
  assumes "ib = sql_idempotency \<or> ib = mem_idempotency"
  shows "quietly (Some (msg_id m)) (sp_send (seam_email ib) m)"
    and "quietly (Some (msg_id m)) (sp_send (seam_sms ib) m)"
  using assms
  by (auto simp: seam_email_def seam_sms_def idempotent_email_def idempotent_sms_def
      recording_email_def recording_sms_def raw_email_def raw_sms_def sql_idempotency_def
      mem_idempotency_def quietly_store
      intro!: quietly_guarded_send quietly_deduped quietly_recorded quietly_bindM quietly_ext quietly_as_str)

lemma quietly_drafters: "quietly None (deterministic_drafter c)" "quietly None (llm_drafter c)"
  by (auto simp: deterministic_drafter_def llm_drafter_def intro!: quietly_bindM quietly_ext quietly_as_str)

end
