(* ===== verification/Engine.thy ===== *)
theory Engine
  imports Message_Send Milestones Identity
begin

text \<open>
  The workflow engine: \<open>orchestration/langgraph/.../engine.py\<close> (start, decide, the interrupt that
  becomes an approval row), \<open>core/services/workflow_runs.py\<close> (reading a finished run) and the decide
  route of \<open>api/.../routes/approvals.py\<close>. LangGraph itself is not in the repository: the engine takes
  its \<open>ainvoke\<close> as a parameter, and \<open>runs_graphs\<close> states what the graphs rely on it for.
\<close>

section \<open>Graphs\<close>

text \<open>
  A node is a coroutine from the state to the updated state. A gate calls \<open>interrupt\<close>: the first
  time the run pauses with the gate's value; when the run is resumed the node runs again and the
  call returns the decision.
\<close>

datatype 'st node_result = Updated 'st | Paused pydict

type_synonym 'st node = "approval_decision option \<Rightarrow> 'st \<Rightarrow> 'st node_result W"

text \<open>The nodes by name and, for each, the edge taken from its result (\<open>None\<close> is \<open>END\<close>).\<close>

record 'st graph =
  g_start :: string
  g_nodes :: "(string \<times> 'st node) list"
  g_edges :: "(string \<times> ('st \<Rightarrow> exn + string option)) list"
  g_pack :: "'st \<Rightarrow> run_state"
  g_unpack :: "run_state \<Rightarrow> 'st option"

datatype 'st run_end = Interrupted pydict | Finished 'st

datatype 'st run_input = Fresh 'st | Resume approval_decision

section \<open>What LangGraph is relied on for\<close>

text \<open>
  Nodes run one after the other along the edges, from the first node or, on resume, from the node
  that paused; a pause keeps that node and its state under the thread; an exception of a node or
  of an edge ends the invocation. \<open>walk k\<close> follows at most \<open>k\<close> nodes.
\<close>

fun walk :: "nat \<Rightarrow> 'st graph \<Rightarrow> string \<Rightarrow> string \<Rightarrow> approval_decision option \<Rightarrow> 'st \<Rightarrow> world \<Rightarrow>
    ((exn + 'st run_end) \<times> world) option" where
  "walk 0 g thread node resume st w = None"
| "walk (Suc k) g thread node resume st w =
     (case map_of (g_nodes g) node of
        None \<Rightarrow> None
      | Some f \<Rightarrow>
          (case f resume st w of
             (Inl e, w') \<Rightarrow> Some (Inl e, w')
           | (Inr (Paused v), w') \<Rightarrow>
               Some (Inr (Interrupted v),
                     w'\<lparr>w_threads := dict_set (w_threads w') thread (node, g_pack g st)\<rparr>)
           | (Inr (Updated st'), w') \<Rightarrow>
               (case map_of (g_edges g) node of
                  None \<Rightarrow> None
                | Some route \<Rightarrow>
                    (case route st' of
                       Inl e \<Rightarrow> Some (Inl e, w')
                     | Inr None \<Rightarrow> Some (Inr (Finished st'), w')
                     | Inr (Some next) \<Rightarrow> walk k g thread next None st' w'))))"

definition walk_from :: "nat \<Rightarrow> 'st graph \<Rightarrow> string \<Rightarrow> 'st run_input \<Rightarrow> world \<Rightarrow>
    ((exn + 'st run_end) \<times> world) option" where
  "walk_from k g thread input w =
     (case input of
        Fresh st \<Rightarrow> walk k g thread (g_start g) None st w
      | Resume d \<Rightarrow>
          (case dict_get (w_threads w) thread of
             None \<Rightarrow> None
           | Some (node, s) \<Rightarrow>
               (case g_unpack g s of
                  None \<Rightarrow> None | Some st \<Rightarrow> walk k g thread node (Some d) st w)))"

type_synonym 'st runner = "'st graph \<Rightarrow> string \<Rightarrow> 'st run_input \<Rightarrow> 'st run_end W"

text \<open>LangGraph's default limit on the steps of one invocation.\<close>

definition recursion_limit :: nat where
  "recursion_limit = 25"

definition runs_graphs :: "'st runner \<Rightarrow> bool" where
  "runs_graphs invoke \<longleftrightarrow>
     (\<forall>g thread input w out. walk_from recursion_limit g thread input w = Some out \<longrightarrow>
        invoke g thread input w = out)"

text \<open>An instance of the contract.\<close>

definition walker :: "'st runner" where
  "walker g thread input w =
     (case walk_from recursion_limit g thread input w of
        Some out \<Rightarrow> out | None \<Rightarrow> (Inl (RuntimeError ''recursion limit''), w))"

lemma runs_graphs_walker: "runs_graphs walker"
  by (simp add: runs_graphs_def walker_def)

section \<open>Runs\<close>

definition completed_values :: "string list" where
  "completed_values =
     [''published'', ''on_track'', ''reminders_sent'', ''escalated'', ''call_queued'', ''synced'',
      ''agent_notified'', ''reminder_email_sent'', ''followup_sent'']"

text \<open>\<open>output\<close> is the terminal state, from which the API reads the surfaced channels.\<close>

record run_result =
  rr_thread_id :: string
  rr_status :: string
  rr_approval :: "approval_request option"
  rr_output :: "run_state option"

fun terminal_value :: "run_state \<Rightarrow> string" where
  "terminal_value (ListingRun s) = workflow_stage_value (ls_stage s)"
| "terminal_value (VapiRun s) = vs_outcome s"
| "terminal_value (CoordinationRun s) = cs_outcome s"

definition terminal_run_result :: "string \<Rightarrow> run_state \<Rightarrow> run_result" where
  "terminal_run_result thread s =
     (let v = terminal_value s
      in \<lparr>rr_thread_id = thread, rr_status = (if v \<in> set completed_values then ''completed'' else v),
          rr_approval = None, rr_output = Some s\<rparr>)"

text \<open>\<open>str(d.get(key, default))\<close>.\<close>

definition get_str :: "pydict \<Rightarrow> string \<Rightarrow> string \<Rightarrow> string" where
  "get_str d key fallback = (case dict_get d key of None \<Rightarrow> fallback | Some v \<Rightarrow> py_str v)"

definition engine_run ::
    "'st runner \<Rightarrow> approval_backend \<Rightarrow> string \<Rightarrow> 'st graph \<Rightarrow> string \<Rightarrow> 'st run_input \<Rightarrow> run_result W" where
  "engine_run invoke repo workflow g thread input =
     bindM (invoke g thread input) (\<lambda>r.
       case r of
         Interrupted v \<Rightarrow>
           bindM uuid4_hex (\<lambda>i.
           bindM now_utc (\<lambda>now.
             let approval =
               \<lparr>apr_tenant_id = [], apr_id = i, apr_workflow = workflow, apr_graph_thread_id = thread,
                apr_kind = get_str v ''kind'' ''unknown'', apr_payload = Some v,
                apr_status = ApPending, apr_decided_by = None, apr_created_at = now,
                apr_decided_at = None\<rparr>
             in thenM (ab_create repo approval)
                  (ret \<lparr>rr_thread_id = thread, rr_status = ''awaiting_approval'',
                        rr_approval = Some approval, rr_output = None\<rparr>)))
       | Finished st \<Rightarrow> ret (terminal_run_result thread (g_pack g st)))"

definition engine_start ::
    "'st runner \<Rightarrow> approval_backend \<Rightarrow> string \<Rightarrow> 'st graph \<Rightarrow> 'st \<Rightarrow> string \<Rightarrow> string option \<Rightarrow> run_result W" where
  "engine_start invoke repo workflow g st transaction_id actor =
     bindM uuid4_hex (\<lambda>thread.
       audit_scope
         \<lparr>ac_workflow_run_id = thread, ac_workflow = workflow, ac_approval_id = None, ac_actor = actor,
          ac_transaction_id = transaction_id\<rparr>
         (engine_run invoke repo workflow g thread (Fresh st)))"

definition decide_scope :: "approval_request \<Rightarrow> approval_decision \<Rightarrow> audit_context" where
  "decide_scope approval decision =
     \<lparr>ac_workflow_run_id = apr_graph_thread_id approval, ac_workflow = apr_workflow approval,
      ac_approval_id = Some (apr_id approval), ac_actor = Some (dec_decided_by decision),
      ac_transaction_id = (case apr_payload approval of
        None \<Rightarrow> [] | Some d \<Rightarrow> get_str d ''transaction_id'' [])\<rparr>"

definition engine_decide ::
    "'st runner \<Rightarrow> approval_backend \<Rightarrow> 'st graph \<Rightarrow> approval_request \<Rightarrow> approval_decision \<Rightarrow> run_result W" where
  "engine_decide invoke repo g approval decision =
     bindM now_utc (\<lambda>now.
       thenM (ab_mark_decided repo (apr_id approval) (dec_decision decision) (dec_decided_by decision) now)
         (audit_scope (decide_scope approval decision)
           (engine_run invoke repo (apr_workflow approval) g (apr_graph_thread_id approval)
             (Resume decision))))"

definition outcome_of :: "approval_decision \<Rightarrow> approval_outcome" where
  "outcome_of d = \<lparr>ao_decision = dec_decision d, ao_decided_by = dec_decided_by d\<rparr>"

section \<open>The decide route\<close>

definition approve_outbound_message :: string where
  "approve_outbound_message = ''approve_outbound_message''"

fun is_unknown_message :: "exn \<Rightarrow> bool" where
  "is_unknown_message (UnknownOutboundMessageError _) = True"
| "is_unknown_message _ = False"

text \<open>
  The route, behind its \<open>AdminDep\<close>: a caller below the admin role is a 403 before anything is read. The
  engine is its protocol: what a decision does, whatever workflow it resumes. The decider is the
  principal's address.
\<close>

definition decide_approval ::
    "approval_backend \<Rightarrow> (approval_request \<Rightarrow> approval_decision \<Rightarrow> run_result W) \<Rightarrow>
     string \<Rightarrow> approval_status \<Rightarrow> pydict option \<Rightarrow> principal \<Rightarrow> (approval_request \<times> run_result) W" where
  "decide_approval repo decide i decision edited p =
     bindM (liftE (require_role Admin p)) (\<lambda>p.
      if decision = ApPending then raise (HTTPException 422 ''decision must be approved or rejected'')
      else bindM (ab_get repo i) (\<lambda>found.
        case found of
          None \<Rightarrow> raise (HTTPException 404 (''approval '' @ py_repr i @ '' not found''))
        | Some approval \<Rightarrow>
            if apr_status approval \<noteq> ApPending
            then raise (HTTPException 409
                   (''approval already '' @ approval_status_value (apr_status approval)))
            else case (if apr_kind approval = approve_outbound_message
                       then case edited of None \<Rightarrow> Inr None | Some d \<Rightarrow> edited_message_payload d
                       else Inr None) of
              Inl e \<Rightarrow> raise (HTTPException 422 (exn_str e))
            | Inr _ \<Rightarrow>
                bindM (try_except is_unknown_message
                   (decide approval
                     \<lparr>dec_decision = decision, dec_decided_by = pr_email p,
                      dec_edited_payload = edited\<rparr>)
                   (\<lambda>e. raise (HTTPException 409 (exn_str e))))
                 (\<lambda>workflow.
                   bindM (ab_get repo i) (\<lambda>decided.
                     case decided of None \<Rightarrow> raise AssertionError | Some a \<Rightarrow> ret (a, workflow)))))"

end
