(* ===== verification/Coordination.thy ===== *)
theory Coordination
  imports Engine
begin

text \<open>
  The transaction_coordination graph (\<open>orchestration/langgraph/.../graphs/transaction_coordination.py\<close>):
  one run per active transaction. Due-soon milestones get CRM reminders and a drafted email behind
  a gate; overdue ones pause at an escalation gate, and only an approval files URGENT tasks and
  ratchets the escalation levels.
\<close>

section \<open>Nodes\<close>

definition milestones_in ::
    "transaction_backend \<Rightarrow> coordination_state \<Rightarrow> milestone_class \<Rightarrow> (milestone \<times> int) list W" where
  "milestones_in store st c =
     bindM (tb_list_milestones store (cs_transaction_id st)) (\<lambda>ms.
       let by_id = milestones_by_id ms
       in ret (concat (map (\<lambda>(i, cl, days).
            if cl = milestone_class_value c
            then (case dict_get by_id i of None \<Rightarrow> [] | Some m \<Rightarrow> [(m, days)]) else [])
            (cs_assessments st))))"

definition need_transaction :: "transaction_backend \<Rightarrow> coordination_state \<Rightarrow> transaction W" where
  "need_transaction store st =
     bindM (tb_get store (cs_transaction_id st)) (\<lambda>t.
       case t of None \<Rightarrow> raise AssertionError | Some txn \<Rightarrow> ret txn)"

definition load_txn :: "transaction_backend \<Rightarrow> coordination_state node" where
  "load_txn store _ st =
     bindM (tb_get store (cs_transaction_id st)) (\<lambda>t.
       ret (Updated (if t = None then st\<lparr>cs_outcome := ''not_found''\<rparr> else st)))"

definition evaluate_milestones :: "transaction_backend \<Rightarrow> coordination_state node" where
  "evaluate_milestones store _ st =
     bindM (tb_list_milestones store (cs_transaction_id st)) (\<lambda>ms.
     bindM date_today (\<lambda>today.
       let as = assess_milestones ms today
       in ret (Updated (st\<lparr>cs_assessments := map (\<lambda>a. (as_milestone_id a,
                milestone_class_value (as_classification a), as_days_until_due a)) as,
              cs_worst := milestone_class_value (worst_classification as)\<rparr>))))"

definition log_on_track :: "coordination_state node" where
  "log_on_track _ st = ret (Updated (st\<lparr>cs_outcome := ''on_track''\<rparr>))"

definition draft_reminders :: "transaction_backend \<Rightarrow> coordination_state node" where
  "draft_reminders store _ st =
     bindM (need_transaction store st) (\<lambda>txn.
     bindM (milestones_in store st DueSoon) (\<lambda>due_soon.
       ret (Updated (st\<lparr>cs_reminders :=
         map (\<lambda>(m, days). draft_milestone_reminder txn m days) due_soon\<rparr>))))"

text \<open>\<open>zip(..., strict=True)\<close>: the pairs are worked through before a difference in length raises.\<close>

definition send_reminders :: "transaction_backend \<Rightarrow> crm_port \<Rightarrow> coordination_state node" where
  "send_reminders store crm _ st =
     bindM (milestones_in store st DueSoon) (\<lambda>due_soon.
     bindM (mapM (\<lambda>(text, m, _). bindM (cp_create_task crm text (ms_due_date m) None) (\<lambda>t. ret (tk_id t)))
              (zip (cs_reminders st) due_soon)) (\<lambda>ids.
       if length (cs_reminders st) \<noteq> length due_soon
       then raise (ValueError ''zip() argument lengths differ'')
       else ret (Updated (st\<lparr>cs_reminder_task_ids := ids, cs_outcome := ''reminders_sent''\<rparr>))))"

definition draft_reminder_email :: "transaction_backend \<Rightarrow> send_service \<Rightarrow> coordination_state node" where
  "draft_reminder_email store svc _ st =
     (if cs_suppress_reminder_email st then ret (Updated st)
      else bindM (need_transaction store st) (\<lambda>txn.
           bindM (milestones_in store st DueSoon) (\<lambda>due_soon.
             case plan_reminder_email txn due_soon of
               None \<Rightarrow> ret (Updated st)
             | Some context \<Rightarrow>
                 bindM (draft_for_approval svc context) (\<lambda>message.
                   ret (Updated (st\<lparr>cs_reminder_message_id := msg_id message\<rparr>))))))"

text \<open>What a message gate shows; \<open>extra\<close> names the run's transaction or contact.\<close>

definition message_gate :: "message \<Rightarrow> string \<times> string \<Rightarrow> pydict" where
  "message_gate m extra =
     [(''kind'', PStr approve_outbound_message), (''message_id'', PStr (msg_id m)),
      (''channel'', PStr (channel_value (msg_channel m))), (''recipient'', PStr (msg_recipient m)),
      (''subject'', PStr (msg_subject m)), (''body'', PStr (msg_body m)),
      (''template_ref'', PStr (msg_template_ref m)), (fst extra, PStr (snd extra)),
      (''listing_key'', PStr (msg_listing_key m))]"

definition approve_reminder_email :: "send_service \<Rightarrow> coordination_state node" where
  "approve_reminder_email svc resume st =
     bindM (service_get_message svc (cs_reminder_message_id st)) (\<lambda>found.
       case found of
         None \<Rightarrow> raise (UnknownOutboundMessageError (cs_reminder_message_id st))
       | Some m \<Rightarrow>
           (case resume of
              None \<Rightarrow> ret (Paused (message_gate m (''transaction_id'', cs_transaction_id st)))
            | Some d \<Rightarrow>
                bindM (liftE (edited_draft_fields (dec_edited_payload d))) (\<lambda>(subject, body).
                  let s1 = st\<lparr>cs_reminder_approval := Some (outcome_of d)\<rparr>;
                      s2 = (if subject = [] then s1 else s1\<lparr>cs_reminder_edited_subject := subject\<rparr>);
                      s3 = (if body = [] then s2 else s2\<lparr>cs_reminder_edited_body := body\<rparr>)
                  in ret (Updated s3))))"

definition or_none :: "string \<Rightarrow> string option" where
  "or_none s = (if s = [] then None else Some s)"

definition send_reminder_email :: "send_service \<Rightarrow> coordination_state node" where
  "send_reminder_email svc _ st =
     thenM (send_approved svc (cs_reminder_message_id st) (or_none (cs_reminder_edited_subject st))
              (or_none (cs_reminder_edited_body st)))
       (ret (Updated (st\<lparr>cs_outcome := ''reminder_email_sent''\<rparr>)))"

definition dismiss_reminder_email :: "send_service \<Rightarrow> coordination_state node" where
  "dismiss_reminder_email svc _ st =
     thenM (mark_rejected svc (cs_reminder_message_id st))
       (ret (Updated (st\<lparr>cs_outcome := ''reminder_email_dismissed''\<rparr>)))"

definition approve_escalation :: string where
  "approve_escalation = ''approve_escalation''"

definition escalation_gate :: "transaction \<Rightarrow> (milestone \<times> int) list \<Rightarrow> pydict" where
  "escalation_gate txn overdue =
     [(''kind'', PStr approve_escalation), (''transaction_id'', PStr (txn_id txn)),
      (''listing_key'', PStr (txn_listing_key txn)),
      (''milestones'', PList (map (\<lambda>(m, days). PDict
         [(''id'', PStr (ms_id m)), (''title'', PStr (ms_title m)),
          (''due_date'', PStr (isoformat (ms_due_date m))), (''days_overdue'', PInt (- days)),
          (''escalation_level'', PInt (ms_escalation_level m)),
          (''note'', PStr (draft_escalation_note txn m (- days)))]) overdue))]"

definition escalate :: "transaction_backend \<Rightarrow> coordination_state node" where
  "escalate store resume st =
     bindM (need_transaction store st) (\<lambda>txn.
     bindM (milestones_in store st Overdue) (\<lambda>overdue.
       case resume of
         None \<Rightarrow> ret (Paused (escalation_gate txn overdue))
       | Some d \<Rightarrow> ret (Updated (st\<lparr>cs_escalation_approval := Some (outcome_of d)\<rparr>))))"

definition urgent :: string where
  "urgent = ''URGENT: ''"

definition notify_one :: "transaction_backend \<Rightarrow> crm_port \<Rightarrow> transaction \<Rightarrow> milestone \<times> int \<Rightarrow> string W" where
  "notify_one store crm txn md = (case md of (m, days) \<Rightarrow>
     bindM date_today (\<lambda>today.
     bindM (cp_create_task crm (urgent @ draft_escalation_note txn m (- days)) today None) (\<lambda>task.
       thenM (tb_set_level store (ms_id m) (ms_escalation_level m + 1)) (ret (tk_id task)))))"

definition notify :: "transaction_backend \<Rightarrow> crm_port \<Rightarrow> coordination_state node" where
  "notify store crm _ st =
     bindM (need_transaction store st) (\<lambda>txn.
     bindM (milestones_in store st Overdue) (\<lambda>overdue.
     bindM (mapM (notify_one store crm txn) overdue) (\<lambda>ids.
       ret (Updated (st\<lparr>cs_escalated_task_ids := ids, cs_outcome := ''escalated''\<rparr>)))))"

definition dismiss :: "coordination_state node" where
  "dismiss _ st = ret (Updated (st\<lparr>cs_outcome := ''escalation_dismissed''\<rparr>))"

definition py_opt_str :: "string option \<Rightarrow> string" where
  "py_opt_str s = (case s of None \<Rightarrow> ''None'' | Some x \<Rightarrow> x)"

definition queue_vapi_call :: "transaction_backend \<Rightarrow> coordination_state node" where
  "queue_vapi_call store _ st =
     bindM (milestones_in store st BlockedExternal) (\<lambda>blocked.
       ret (Updated (st\<lparr>cs_planned_calls := map (\<lambda>(m, _).
            ''Status-check call for '' @ ms_title m @ '' ('' @ py_opt_str (ms_blocked_reason m) @ '') '' @
            em_dash @ '' owner '' @ str_or (ms_owner m) ''unknown'') blocked,
          cs_outcome := ''call_queued''\<rparr>)))"

section \<open>Edges\<close>

definition route_after_load :: "coordination_state \<Rightarrow> exn + string option" where
  "route_after_load st = Inr (if cs_outcome st = ''not_found'' then None else Some ''evaluate_milestones'')"

definition route_by_severity :: "coordination_state \<Rightarrow> exn + string option" where
  "route_by_severity st =
     (case map_of [(milestone_class_value Overdue, ''escalate''),
                   (milestone_class_value DueSoon, ''draft_reminders''),
                   (milestone_class_value BlockedExternal, ''queue_vapi_call''),
                   (milestone_class_value OnTrack, ''log_on_track'')] (cs_worst st) of
        None \<Rightarrow> Inl (KeyError (cs_worst st)) | Some n \<Rightarrow> Inr (Some n))"

definition route_after_escalation :: "coordination_state \<Rightarrow> exn + string option" where
  "route_after_escalation st =
     (case cs_escalation_approval st of
        None \<Rightarrow> Inl AssertionError
      | Some a \<Rightarrow> Inr (Some (if ao_decision a = ApApproved then ''notify'' else ''dismiss'')))"

definition route_after_draft_email :: "coordination_state \<Rightarrow> exn + string option" where
  "route_after_draft_email st =
     Inr (if cs_reminder_message_id st \<noteq> [] then Some approve_outbound_message else None)"

definition route_after_message_gate :: "coordination_state \<Rightarrow> exn + string option" where
  "route_after_message_gate st =
     (case cs_reminder_approval st of
        None \<Rightarrow> Inl AssertionError
      | Some a \<Rightarrow> Inr (Some (if ao_decision a = ApApproved then ''send_reminder_email''
                              else ''dismiss_reminder_email'')))"

definition to_node :: "string \<Rightarrow> 'st \<Rightarrow> exn + string option" where
  "to_node n _ = Inr (Some n)"

definition to_end :: "'st \<Rightarrow> exn + string option" where
  "to_end _ = Inr None"

fun unpack_coordination :: "run_state \<Rightarrow> coordination_state option" where
  "unpack_coordination (CoordinationRun s) = Some s"
| "unpack_coordination _ = None"

definition transaction_coordination ::
    "transaction_backend \<Rightarrow> crm_port \<Rightarrow> send_service \<Rightarrow> coordination_state graph" where
  "transaction_coordination store crm svc =
     \<lparr>g_start = ''load_txn'',
      g_nodes =
        [(''load_txn'', load_txn store), (''evaluate_milestones'', evaluate_milestones store),
         (''log_on_track'', log_on_track), (''draft_reminders'', draft_reminders store),
         (''send_reminders'', send_reminders store crm),
         (''draft_reminder_email'', draft_reminder_email store svc),
         (approve_outbound_message, approve_reminder_email svc),
         (''send_reminder_email'', send_reminder_email svc),
         (''dismiss_reminder_email'', dismiss_reminder_email svc),
         (''escalate'', escalate store), (''notify'', notify store crm), (''dismiss'', dismiss),
         (''queue_vapi_call'', queue_vapi_call store)],
      g_edges =
        [(''load_txn'', route_after_load), (''evaluate_milestones'', route_by_severity),
         (''draft_reminders'', to_node ''send_reminders''),
         (''send_reminders'', to_node ''draft_reminder_email''),
         (''draft_reminder_email'', route_after_draft_email),
         (approve_outbound_message, route_after_message_gate),
         (''escalate'', route_after_escalation),
         (''log_on_track'', to_end), (''send_reminder_email'', to_end),
         (''dismiss_reminder_email'', to_end), (''notify'', to_end), (''dismiss'', to_end),
         (''queue_vapi_call'', to_end)],
      g_pack = CoordinationRun, g_unpack = unpack_coordination\<rparr>"

definition coordination_input :: "string \<Rightarrow> bool \<Rightarrow> coordination_state" where
  "coordination_input tid suppress =
     \<lparr>cs_transaction_id = tid, cs_outcome = [], cs_worst = [], cs_assessments = [], cs_reminders = [],
      cs_reminder_task_ids = [], cs_escalation_approval = None, cs_escalated_task_ids = [],
      cs_planned_calls = [], cs_suppress_reminder_email = suppress, cs_reminder_message_id = [],
      cs_reminder_approval = None, cs_reminder_edited_subject = [], cs_reminder_edited_body = []\<rparr>"

end
