(* ===== verification/Guarded_Ports.thy ===== *)
theory Guarded_Ports
  imports Message_Send
begin

text \<open>
  \<open>guard_tool_ports\<close> around the CRM port and the transaction store, as \<open>main.py\<close> wires the engine:
  each argument is authorized, the body runs, the result is checked for foreign tenant ids and
  scrubbed. The result is scrubbed on the Python object; \<open>scrub_*\<close> says field by field what the
  payload filter of \<open>Egress\<close> does to it, and the coherence lemmas prove that it is that.
\<close>

section \<open>The guard on typed results\<close>

definition guarded :: "string \<Rightarrow> (string \<times> payload) list \<Rightarrow> ('r \<Rightarrow> payload) \<Rightarrow> ('r \<Rightarrow> 'r) \<Rightarrow> 'r W \<Rightarrow> 'r W" where
  "guarded tool args enc scrub body =
     bindM (thenM (authorize_args tool args) body) (\<lambda>r.
       thenM (check_tenants tool as_egress_block (tenants ''result'' (enc r))) (ret (scrub r)))"

text \<open>A copy is a new object: values are compared up to the identities of their objects.\<close>

fun erase :: "payload \<Rightarrow> payload" where
  "erase (VModel _ fs) = VModel 0 (map (\<lambda>(n, r, v). (n, r, erase v)) fs)"
| "erase (VMap _ es) = VMap 0 (map (\<lambda>(k, v). (k, erase v)) es)"
| "erase (VSeq _ vs) = VSeq 0 (map erase vs)"
| "erase v = v"

definition coherent :: "('r \<Rightarrow> payload) \<Rightarrow> ('r \<Rightarrow> 'r) \<Rightarrow> bool" where
  "coherent enc scrub \<longleftrightarrow> (\<forall>r. erase (fst (scrub_payload Operator [] (enc r))) = erase (enc (scrub r)))"

lemma guarded_is_guarded_call:
  assumes "coherent enc scrub"
  shows "bindM (guarded tool args enc scrub body) (\<lambda>r. ret (erase (enc r))) =
    bindM (guarded_call tool Operator args (bindM body (\<lambda>r. ret (enc r)))) (\<lambda>v. ret (erase v))"
proof
  fix w
  show "bindM (guarded tool args enc scrub body) (\<lambda>r. ret (erase (enc r))) w =
      bindM (guarded_call tool Operator args (bindM body (\<lambda>r. ret (enc r)))) (\<lambda>v. ret (erase v)) w"
    using assms
    by (auto simp: guarded_def guarded_call_def filter_tool_response_def coherent_def monad
        split: prod.split sum.split)
qed

section \<open>Results as payloads\<close>

definition opt_payload :: "string option \<Rightarrow> payload" where
  "opt_payload s = (case s of None \<Rightarrow> VNone | Some x \<Rightarrow> VStr x)"

definition date_payload :: "date option \<Rightarrow> payload" where
  "date_payload d = (case d of None \<Rightarrow> VNone | Some x \<Rightarrow> VAtom (PInt x))"

definition str_payload :: "string \<Rightarrow> payload" where
  "str_payload s = VStr s"

definition unit_payload :: "unit \<Rightarrow> payload" where
  "unit_payload _ = VNone"

definition task_payload :: "nat \<Rightarrow> crm_task \<Rightarrow> payload" where
  "task_payload n t = VModel n
     [(''id'', None, VStr (tk_id t)), (''name'', None, VStr (tk_name t)),
      (''due_date'', None, date_payload (tk_due_date t)),
      (''contact_id'', None, opt_payload (tk_contact_id t))]"

definition scrub_task :: "crm_task \<Rightarrow> crm_task" where
  "scrub_task t = t\<lparr>tk_id := scrub_text (tk_id t), tk_name := scrub_text (tk_name t),
     tk_contact_id := map_option scrub_text (tk_contact_id t)\<rparr>"

definition contact_payload :: "nat \<Rightarrow> contact \<Rightarrow> payload" where
  "contact_payload n c = VModel n
     [(''crm_id'', None, VStr (ct_crm_id c)), (''name'', None, VStr (ct_name c)),
      (''role'', None, VStr (ct_role c)), (''email'', Some Operator, opt_payload (ct_email c)),
      (''phone'', Some Operator, opt_payload (ct_phone c))]"

definition scrub_contact :: "contact \<Rightarrow> contact" where
  "scrub_contact c = c\<lparr>ct_crm_id := scrub_text (ct_crm_id c), ct_name := scrub_text (ct_name c),
     ct_role := scrub_text (ct_role c), ct_email := map_option scrub_text (ct_email c),
     ct_phone := map_option scrub_text (ct_phone c)\<rparr>"

definition contact_create_payload :: "contact_create \<Rightarrow> payload" where
  "contact_create_payload c = VModel 0
     [(''first_name'', None, VStr (cc_first_name c)), (''last_name'', None, VStr (cc_last_name c)),
      (''email'', Some Operator, opt_payload (cc_email c)),
      (''phone'', Some Operator, opt_payload (cc_phone c)), (''source'', None, VStr (cc_source c))]"

definition opt_model :: "(nat \<Rightarrow> 'a \<Rightarrow> payload) \<Rightarrow> 'a option \<Rightarrow> payload" where
  "opt_model enc x = (case x of None \<Rightarrow> VNone | Some a \<Rightarrow> enc 0 a)"

text \<open>An enum member is a \<open>str\<close> whose text no pattern touches: an atom.\<close>

fun stage_value :: "transaction_stage \<Rightarrow> string" where
  "stage_value UnderContract = ''under_contract''"
| "stage_value Contingencies = ''contingencies''"
| "stage_value ClearToClose = ''clear_to_close''"
| "stage_value Closed = ''closed''"
| "stage_value Cancelled = ''cancelled''"

fun milestone_status_value :: "milestone_status \<Rightarrow> string" where
  "milestone_status_value MsPending = ''pending''"
| "milestone_status_value MsComplete = ''complete''"
| "milestone_status_value MsWaived = ''waived''"

fun document_kind_value :: "document_kind \<Rightarrow> string" where
  "document_kind_value PurchaseAgreement = ''purchase_agreement''"
| "document_kind_value Disclosures = ''disclosures''"
| "document_kind_value InspectionReport = ''inspection_report''"
| "document_kind_value AppraisalReport = ''appraisal_report''"
| "document_kind_value LoanApproval = ''loan_approval''"
| "document_kind_value ClosingStatement = ''closing_statement''"
| "document_kind_value OtherDocument = ''other''"

definition party_payload :: "nat \<Rightarrow> transaction_party \<Rightarrow> payload" where
  "party_payload n p = VModel n
     [(''role'', None, VStr (pty_role p)), (''name'', None, VStr (pty_name p)),
      (''contact_id'', None, opt_payload (pty_contact_id p)),
      (''email'', Some Operator, VStr (pty_email p))]"

definition scrub_party :: "transaction_party \<Rightarrow> transaction_party" where
  "scrub_party p = p\<lparr>pty_role := scrub_text (pty_role p), pty_name := scrub_text (pty_name p),
     pty_contact_id := map_option scrub_text (pty_contact_id p), pty_email := scrub_text (pty_email p)\<rparr>"

text \<open>A list of objects: every element's objects come after those of the element before.\<close>

fun rows_payload :: "(nat \<Rightarrow> 'a \<Rightarrow> payload) \<Rightarrow> ('a \<Rightarrow> nat) \<Rightarrow> nat \<Rightarrow> 'a list \<Rightarrow> payload list" where
  "rows_payload enc width n [] = []"
| "rows_payload enc width n (x # xs) = enc n x # rows_payload enc width (n + width x) xs"

definition list_payload :: "(nat \<Rightarrow> 'a \<Rightarrow> payload) \<Rightarrow> ('a \<Rightarrow> nat) \<Rightarrow> nat \<Rightarrow> 'a list \<Rightarrow> payload" where
  "list_payload enc width n xs = VSeq n (rows_payload enc width (Suc n) xs)"

definition one_object :: "'a \<Rightarrow> nat" where
  "one_object _ = 1"

definition transaction_payload :: "nat \<Rightarrow> transaction \<Rightarrow> payload" where
  "transaction_payload n t = VModel n
     [(''tenant_id'', None, VStr (txn_tenant_id t)), (''id'', None, VStr (txn_id t)),
      (''listing_key'', None, VStr (txn_listing_key t)),
      (''stage'', None, VAtom (PStr (stage_value (txn_stage t)))),
      (''parties'', None, list_payload party_payload one_object (Suc n) (txn_parties t)),
      (''contract_date'', None, VAtom (PInt (txn_contract_date t))),
      (''close_date'', None, date_payload (txn_close_date t))]"

definition scrub_transaction :: "transaction \<Rightarrow> transaction" where
  "scrub_transaction t = t\<lparr>txn_tenant_id := scrub_text (txn_tenant_id t), txn_id := scrub_text (txn_id t),
     txn_listing_key := scrub_text (txn_listing_key t), txn_parties := map scrub_party (txn_parties t)\<rparr>"

definition milestone_payload :: "nat \<Rightarrow> milestone \<Rightarrow> payload" where
  "milestone_payload n m = VModel n
     [(''tenant_id'', None, VStr (ms_tenant_id m)), (''id'', None, VStr (ms_id m)),
      (''transaction_id'', None, VStr (ms_transaction_id m)),
      (''type'', None, VAtom (PStr (milestone_type_value (ms_type m)))),
      (''title'', None, VStr (ms_title m)), (''due_date'', None, VAtom (PInt (ms_due_date m))),
      (''status'', None, VAtom (PStr (milestone_status_value (ms_status m)))), (''owner'', None, VStr (ms_owner m)),
      (''escalation_level'', None, VAtom (PInt (ms_escalation_level m))),
      (''blocked_reason'', None, opt_payload (ms_blocked_reason m)),
      (''expected_document'', None, VAtom (case ms_expected_document m of
         None \<Rightarrow> PNone | Some k \<Rightarrow> PStr (document_kind_value k)))]"

definition scrub_milestone :: "milestone \<Rightarrow> milestone" where
  "scrub_milestone m = m\<lparr>ms_tenant_id := scrub_text (ms_tenant_id m), ms_id := scrub_text (ms_id m),
     ms_transaction_id := scrub_text (ms_transaction_id m), ms_title := scrub_text (ms_title m),
     ms_owner := scrub_text (ms_owner m),
     ms_blocked_reason := map_option scrub_text (ms_blocked_reason m)\<rparr>"

definition transaction_size :: "transaction \<Rightarrow> nat" where
  "transaction_size t = 2 + length (txn_parties t)"

lemma field_names:
  "\<not> is_secret_key ''id''" "\<not> is_secret_key ''name''" "\<not> is_secret_key ''due_date''"
  "\<not> is_secret_key ''contact_id''" "\<not> is_secret_key ''crm_id''" "\<not> is_secret_key ''role''"
  "\<not> is_secret_key ''email''" "\<not> is_secret_key ''phone''" "\<not> is_secret_key ''tenant_id''"
  "\<not> is_secret_key ''listing_key''" "\<not> is_secret_key ''stage''" "\<not> is_secret_key ''parties''"
  "\<not> is_secret_key ''contract_date''" "\<not> is_secret_key ''close_date''"
  "\<not> is_secret_key ''transaction_id''" "\<not> is_secret_key ''type''" "\<not> is_secret_key ''title''"
  "\<not> is_secret_key ''status''" "\<not> is_secret_key ''owner''" "\<not> is_secret_key ''escalation_level''"
  "\<not> is_secret_key ''blocked_reason''" "\<not> is_secret_key ''expected_document''"
  by code_simp+

lemma scrub_string_text: "fst (scrub_string s) = VStr (scrub_text s)"
  by (simp add: scrub_string_def Let_def)

lemma scrub_leaves [simp]:
  "fst (scrub_payload r st (VStr s)) = VStr (scrub_text s)"
  "fst (scrub_payload r st (opt_payload x)) = opt_payload (map_option scrub_text x)"
  "fst (scrub_payload r st (date_payload d)) = date_payload d"
  by (simp_all add: scrub_string_def opt_payload_def date_payload_def Let_def split: option.split)

lemmas payload_simps = field_names scrub_string_text scrub_leaves role_allows_def Let_def

text \<open>The scrub of a typed value, wherever it stands: \<open>st\<close> are its ancestors.\<close>

definition scrubs :: "(nat \<Rightarrow> 'a \<Rightarrow> payload) \<Rightarrow> ('a \<Rightarrow> 'a) \<Rightarrow> bool" where
  "scrubs enc f \<longleftrightarrow> (\<forall>x n m st. (\<forall>j \<in> set st. j < n) \<longrightarrow>
     erase (fst (scrub_payload Operator st (enc n x))) = erase (enc m (f x)))"

lemma scrubs_coherent: "scrubs enc f \<Longrightarrow> coherent (enc n) f"
  by (simp add: scrubs_def coherent_def)

lemma scrubs_rows:
  "scrubs enc f \<Longrightarrow> \<forall>j \<in> set st. j < n \<Longrightarrow>
   map erase (fst (scrub_items Operator st (rows_payload enc width n xs))) =
   map erase (rows_payload enc width m (map f xs))"
proof (induction xs arbitrary: n m)
  case Nil
  then show ?case by simp
next
  case (Cons x xs)
  from Cons.prems(2) have k: "\<forall>j \<in> set st. j < n + width x" by auto
  have x: "erase (fst (scrub_payload Operator st (enc n x))) = erase (enc m (f x))"
    using Cons.prems by (simp add: scrubs_def)
  show ?case using Cons.IH [OF Cons.prems(1) k, of "m + width (f x)"] x by (simp add: Let_def)
qed

lemma scrubs_list: "scrubs enc f \<Longrightarrow> scrubs (list_payload enc width) (map f)"
proof -
  assume enc: "scrubs enc f"
  have "map erase (fst (scrub_items Operator (n # st) (rows_payload enc width (Suc n) xs))) =
      map erase (rows_payload enc width (Suc m) (map f xs))" if "\<forall>j \<in> set st. j < n" for n m st xs
    by (rule scrubs_rows [OF enc]) (use that in auto)
  then show ?thesis
    unfolding scrubs_def list_payload_def by (force simp: Let_def)
qed

lemma scrubs_opt: "scrubs enc f \<Longrightarrow> coherent (opt_model enc) (map_option f)"
  by (simp add: scrubs_def coherent_def opt_model_def split: option.split)

lemma not_ancestor: "\<forall>j \<in> set st. j < n \<Longrightarrow> n \<notin> set (st :: nat list)"
  by auto

lemma scrubs_rows_of:
  "scrubs task_payload scrub_task" "scrubs contact_payload scrub_contact" "scrubs party_payload scrub_party"
  "scrubs milestone_payload scrub_milestone"
  by (simp_all add: scrubs_def task_payload_def scrub_task_def contact_payload_def scrub_contact_def
      party_payload_def scrub_party_def milestone_payload_def scrub_milestone_def payload_simps not_ancestor
      split: option.split)

text \<open>A list of models inside a model.\<close>

lemma scrubs_nested:
  assumes "scrubs enc f" and "\<forall>j \<in> set st. j < n"
  shows "erase (fst (scrub_payload Operator (n # st) (list_payload enc one_object (Suc n) xs))) =
    erase (list_payload enc one_object (Suc m) (map f xs))"
  using scrubs_list [OF assms(1), of one_object] assms(2)
  unfolding scrubs_def by (metis less_Suc_eq set_ConsD)

lemma scrubs_transaction: "scrubs transaction_payload scrub_transaction"
  using scrubs_nested [OF scrubs_rows_of(3)]
  by (simp add: scrubs_def transaction_payload_def scrub_transaction_def payload_simps not_ancestor
      del: scrub_payload.simps(4) add: scrub_payload.simps(2))

lemma coherent_plain: "coherent str_payload scrub_text" "coherent unit_payload id"
  by (simp_all add: coherent_def str_payload_def unit_payload_def payload_simps)

section \<open>Open data, calls, feedback, approvals, listings\<close>

text \<open>
  JSON data as Python objects: every list and dict built from JSON is an object of its own, so
  identities are handed out in order; the counter after the value is returned with it.
\<close>

fun pyv_payload :: "nat \<Rightarrow> pyv \<Rightarrow> payload \<times> nat"
  and list_items :: "nat \<Rightarrow> pyv list \<Rightarrow> payload list \<times> nat"
  and dict_items :: "nat \<Rightarrow> (string \<times> pyv) list \<Rightarrow> (string \<times> payload) list \<times> nat" where
  "pyv_payload n PNone = (VNone, n)"
| "pyv_payload n (PBool b) = (VAtom (PBool b), n)"
| "pyv_payload n (PInt i) = (VAtom (PInt i), n)"
| "pyv_payload n (PStr s) = (VStr s, n)"
| "pyv_payload n (PList vs) = (let q = list_items (Suc n) vs in (VSeq n (fst q), snd q))"
| "pyv_payload n (PDict es) = (let q = dict_items (Suc n) es in (VMap n (fst q), snd q))"
| "list_items n [] = ([], n)"
| "list_items n (v # vs) =
     (let p = pyv_payload n v; q = list_items (snd p) vs in (fst p # fst q, snd q))"
| "dict_items n [] = ([], n)"
| "dict_items n ((key, v) # es) =
     (let p = pyv_payload n v; q = dict_items (snd p) es in ((key, fst p) # fst q, snd q))"

definition dict_payload :: "nat \<Rightarrow> pydict \<Rightarrow> payload" where
  "dict_payload n d = fst (pyv_payload n (PDict d))"

definition blank_pyv :: "pyv \<Rightarrow> bool" where
  "blank_pyv v \<longleftrightarrow> v = PNone \<or> v = PStr [] \<or> v = PStr secret_redacted"

fun scrub_pyv :: "pyv \<Rightarrow> pyv"
  and scrub_list :: "pyv list \<Rightarrow> pyv list"
  and scrub_dict :: "(string \<times> pyv) list \<Rightarrow> (string \<times> pyv) list" where
  "scrub_pyv (PStr s) = PStr (scrub_text s)"
| "scrub_pyv (PList vs) = PList (scrub_list vs)"
| "scrub_pyv (PDict es) = PDict (scrub_dict es)"
| "scrub_pyv v = v"
| "scrub_list [] = []"
| "scrub_list (v # vs) = scrub_pyv v # scrub_list vs"
| "scrub_dict [] = []"
| "scrub_dict ((key, v) # es) =
     (key, if is_secret_key key \<and> \<not> blank_pyv v then PStr secret_redacted else scrub_pyv v) # scrub_dict es"

definition call_payload :: "nat \<Rightarrow> call_record \<Rightarrow> payload" where
  "call_payload n c = VModel n
     [(''tenant_id'', None, VStr (cr_tenant_id c)), (''vapi_call_id'', None, VStr (cr_vapi_call_id c)),
      (''contact_id'', None, VStr (cr_contact_id c)), (''listing_key'', None, VStr (cr_listing_key c)),
      (''transcript'', Some Operator, VStr (cr_transcript c)), (''outcome'', None, VStr (cr_outcome c)),
      (''extracted'', None, dict_payload (Suc n) (cr_extracted c)),
      (''created_at'', None, json_date (cr_created_at c))]"

definition scrub_call :: "call_record \<Rightarrow> call_record" where
  "scrub_call c = c\<lparr>cr_tenant_id := scrub_text (cr_tenant_id c),
     cr_vapi_call_id := scrub_text (cr_vapi_call_id c), cr_contact_id := scrub_text (cr_contact_id c),
     cr_listing_key := scrub_text (cr_listing_key c), cr_transcript := scrub_text (cr_transcript c),
     cr_outcome := scrub_text (cr_outcome c), cr_extracted := scrub_dict (cr_extracted c)\<rparr>"

fun feedback_source_value :: "feedback_source \<Rightarrow> string" where
  "feedback_source_value FromCall = ''call''"
| "feedback_source_value FromForm = ''form''"

definition feedback_payload :: "nat \<Rightarrow> showing_feedback \<Rightarrow> payload" where
  "feedback_payload n f = VModel n
     [(''tenant_id'', None, VStr (fb_tenant_id f)), (''id'', None, VStr (fb_id f)),
      (''listing_key'', None, VStr (fb_listing_key f)), (''contact_id'', None, VStr (fb_contact_id f)),
      (''call_id'', None, opt_payload (fb_call_id f)),
      (''source'', None, VAtom (PStr (feedback_source_value (fb_source f)))),
      (''sentiment'', None, VAtom (PStr (sentiment_value (fb_sentiment f)))),
      (''structured_answers'', None, dict_payload (Suc n) (fb_structured_answers f)),
      (''created_at'', None, json_date (fb_created_at f))]"

definition scrub_feedback :: "showing_feedback \<Rightarrow> showing_feedback" where
  "scrub_feedback f = f\<lparr>fb_tenant_id := scrub_text (fb_tenant_id f), fb_id := scrub_text (fb_id f),
     fb_listing_key := scrub_text (fb_listing_key f), fb_contact_id := scrub_text (fb_contact_id f),
     fb_call_id := map_option scrub_text (fb_call_id f),
     fb_structured_answers := scrub_dict (fb_structured_answers f)\<rparr>"

definition feedback_size :: "showing_feedback \<Rightarrow> nat" where
  "feedback_size f = snd (pyv_payload 1 (PDict (fb_structured_answers f)))"

definition approval_payload :: "nat \<Rightarrow> approval_request \<Rightarrow> payload" where
  "approval_payload n a = VModel n
     [(''tenant_id'', None, VStr (apr_tenant_id a)), (''id'', None, VStr (apr_id a)),
      (''workflow'', None, VStr (apr_workflow a)), (''graph_thread_id'', None, VStr (apr_graph_thread_id a)),
      (''kind'', None, VStr (apr_kind a)),
      (''payload'', Some Operator, (case apr_payload a of None \<Rightarrow> VNone | Some d \<Rightarrow> dict_payload (Suc n) d)),
      (''status'', None, VAtom (PStr (approval_status_value (apr_status a)))),
      (''decided_by'', None, opt_payload (apr_decided_by a)),
      (''created_at'', None, VAtom (PInt (apr_created_at a))),
      (''decided_at'', None, json_date (apr_decided_at a))]"

definition approval_size :: "approval_request \<Rightarrow> nat" where
  "approval_size a = (case apr_payload a of None \<Rightarrow> 1 | Some d \<Rightarrow> snd (pyv_payload 1 (PDict d)))"

definition scrub_approval :: "approval_request \<Rightarrow> approval_request" where
  "scrub_approval a = a\<lparr>apr_tenant_id := scrub_text (apr_tenant_id a), apr_id := scrub_text (apr_id a),
     apr_workflow := scrub_text (apr_workflow a),
     apr_graph_thread_id := scrub_text (apr_graph_thread_id a), apr_kind := scrub_text (apr_kind a),
     apr_payload := map_option scrub_dict (apr_payload a),
     apr_decided_by := map_option scrub_text (apr_decided_by a)\<rparr>"

fun listing_status_value :: "listing_status \<Rightarrow> string" where
  "listing_status_value LsActive = ''active''"
| "listing_status_value LsPending = ''pending''"
| "listing_status_value LsClosed = ''closed''"

definition int_payload :: "int option \<Rightarrow> payload" where
  "int_payload i = (case i of None \<Rightarrow> VNone | Some n \<Rightarrow> VAtom (PInt n))"

definition media_payload :: "nat \<Rightarrow> listing_media \<Rightarrow> payload" where
  "media_payload n m = VModel n
     [(''media_key'', None, VStr (lm_media_key m)), (''listing_key'', None, VStr (lm_listing_key m)),
      (''url'', None, VStr (lm_url m)), (''order'', None, VAtom (PInt (lm_order m))),
      (''description'', None, VStr (lm_description m))]"

definition scrub_media :: "listing_media \<Rightarrow> listing_media" where
  "scrub_media m = m\<lparr>lm_media_key := scrub_text (lm_media_key m),
     lm_listing_key := scrub_text (lm_listing_key m), lm_url := scrub_text (lm_url m),
     lm_description := scrub_text (lm_description m)\<rparr>"

definition listing_payload :: "nat \<Rightarrow> listing \<Rightarrow> payload" where
  "listing_payload n l = VModel n
     [(''mls_id'', None, VStr (li_mls_id l)),
      (''status'', None, VAtom (PStr (listing_status_value (li_status l)))),
      (''address'', None, VStr (li_address l)), (''city'', None, VStr (li_city l)),
      (''state'', None, VStr (li_state l)), (''postal_code'', None, VStr (li_postal_code l)),
      (''list_price'', None, int_payload (li_list_price l)),
      (''bedrooms'', None, int_payload (li_bedrooms l)), (''bathrooms'', None, int_payload (li_bathrooms l)),
      (''living_area_sqft'', None, int_payload (li_living_area_sqft l)),
      (''year_built'', None, int_payload (li_year_built l)),
      (''agent_id'', None, VStr (li_agent_id l)), (''agent_name'', None, VStr (li_agent_name l)),
      (''remarks'', None, VStr (li_remarks l)), (''modified_at'', None, VAtom (PInt (li_modified_at l))),
      (''media'', None, list_payload media_payload one_object (Suc n) (li_media l))]"

definition listing_size :: "listing \<Rightarrow> nat" where
  "listing_size l = 2 + length (li_media l)"

definition scrub_listing :: "listing \<Rightarrow> listing" where
  "scrub_listing l = l\<lparr>li_mls_id := scrub_text (li_mls_id l), li_address := scrub_text (li_address l),
     li_city := scrub_text (li_city l), li_state := scrub_text (li_state l),
     li_postal_code := scrub_text (li_postal_code l), li_agent_id := scrub_text (li_agent_id l),
     li_agent_name := scrub_text (li_agent_name l), li_remarks := scrub_text (li_remarks l),
     li_media := map scrub_media (li_media l)\<rparr>"

lemma more_field_names:
  "\<not> is_secret_key ''vapi_call_id''" "\<not> is_secret_key ''transcript''" "\<not> is_secret_key ''outcome''"
  "\<not> is_secret_key ''extracted''" "\<not> is_secret_key ''created_at''" "\<not> is_secret_key ''call_id''"
  "\<not> is_secret_key ''source''" "\<not> is_secret_key ''sentiment''" "\<not> is_secret_key ''structured_answers''"
  "\<not> is_secret_key ''workflow''" "\<not> is_secret_key ''graph_thread_id''" "\<not> is_secret_key ''kind''"
  "\<not> is_secret_key ''payload''" "\<not> is_secret_key ''decided_by''" "\<not> is_secret_key ''decided_at''"
  "\<not> is_secret_key ''mls_id''" "\<not> is_secret_key ''address''" "\<not> is_secret_key ''city''"
  "\<not> is_secret_key ''list_price''" "\<not> is_secret_key ''bedrooms''" "\<not> is_secret_key ''bathrooms''"
  "\<not> is_secret_key ''living_area_sqft''" "\<not> is_secret_key ''year_built''"
  "\<not> is_secret_key ''agent_name''" "\<not> is_secret_key ''remarks''" "\<not> is_secret_key ''state''"
  "\<not> is_secret_key ''postal_code''" "\<not> is_secret_key ''agent_id''" "\<not> is_secret_key ''modified_at''"
  "\<not> is_secret_key ''media''" "\<not> is_secret_key ''media_key''" "\<not> is_secret_key ''url''"
  "\<not> is_secret_key ''order''" "\<not> is_secret_key ''description''"
  by code_simp+

lemma pyv_next: "n \<le> snd (pyv_payload n v)" "n \<le> snd (list_items n vs)" "n \<le> snd (dict_items n es)"
  by (induction n v and n vs and n es rule: pyv_payload_list_items_dict_items.induct)
    (auto simp: Let_def)

lemma blank_payload: "blank_or secret_redacted (fst (pyv_payload n v)) = blank_pyv v"
  by (cases v) (simp_all add: blank_or_def blank_pyv_def Let_def)

lemma erase_scrub_pyv:
  "\<forall>j \<in> set st. j < n \<Longrightarrow>
     erase (fst (scrub_payload Operator st (fst (pyv_payload n v)))) = erase (fst (pyv_payload m (scrub_pyv v)))"
  "\<forall>j \<in> set st. j < n \<Longrightarrow>
     map erase (fst (scrub_items Operator st (fst (list_items n vs)))) = map erase (fst (list_items m (scrub_list vs)))"
  "\<forall>j \<in> set st. j < n \<Longrightarrow>
     map (\<lambda>(k, v). (k, erase v)) (fst (scrub_entries Operator st (fst (dict_items n es)))) =
     map (\<lambda>(k, v). (k, erase v)) (fst (dict_items m (scrub_dict es)))"
proof (induction n v and n vs and n es arbitrary: st m and st m and st m
    rule: pyv_payload_list_items_dict_items.induct)
  case (5 n vs)
  have "\<forall>j \<in> set (n # st). j < Suc n" using 5(2) by auto
  with 5(1) [OF this, of "Suc m"] 5(2) show ?case by (auto simp: Let_def)
next
  case (6 n es)
  have "\<forall>j \<in> set (n # st). j < Suc n" using 6(2) by auto
  with 6(1) [OF this, of "Suc m"] 6(2) show ?case by (auto simp: Let_def)
next
  case (8 n v vs)
  have "\<forall>j \<in> set st. j < snd (pyv_payload n v)" using 8(3) pyv_next(1) [of n v] by fastforce
  from 8(1) [OF 8(3)] 8(2) [OF refl this] show ?case by (simp add: Let_def)
next
  case (10 n key v es)
  have "\<forall>j \<in> set st. j < snd (pyv_payload n v)" using 10(3) pyv_next(1) [of n v] by fastforce
  from 10(1) [OF 10(3)] 10(2) [OF refl this] show ?case by (simp add: Let_def blank_payload)
qed (simp_all add: scrub_string_text)

lemma dict_payload_scrub:
  "\<forall>j \<in> set st. j < n \<Longrightarrow>
     erase (fst (scrub_payload Operator st (dict_payload n d))) = erase (dict_payload m (scrub_dict d))"
  using erase_scrub_pyv(1) [of st n "PDict d" m] by (simp add: dict_payload_def)

lemma dict_field_scrub:
  "\<forall>j \<in> set st. j < n \<Longrightarrow>
     erase (fst (scrub_payload Operator (n # st) (dict_payload (Suc n) d))) = erase (dict_payload m (scrub_dict d))"
  by (rule dict_payload_scrub) auto

lemma json_date_scrub [simp]: "fst (scrub_payload r st (json_date t)) = json_date t"
  by (simp add: json_date_def split: option.split)

lemma int_payload_scrub [simp]: "fst (scrub_payload r st (int_payload i)) = int_payload i"
  by (simp add: int_payload_def split: option.split)

lemma scrubs_more_rows:
  "scrubs call_payload scrub_call" "scrubs feedback_payload scrub_feedback"
  "scrubs approval_payload scrub_approval" "scrubs media_payload scrub_media"
  by (simp_all add: scrubs_def not_ancestor call_payload_def scrub_call_def feedback_payload_def scrub_feedback_def
      approval_payload_def scrub_approval_def media_payload_def scrub_media_def payload_simps
      more_field_names dict_field_scrub split: option.split)

lemma scrubs_listing: "scrubs listing_payload scrub_listing"
  using scrubs_nested [OF scrubs_more_rows(4)]
  by (simp add: scrubs_def listing_payload_def scrub_listing_def payload_simps more_field_names not_ancestor
      del: scrub_payload.simps(4) add: scrub_payload.simps(2))

section \<open>The guarded ports\<close>

record mls_port =
  mp_search :: "listing_query \<Rightarrow> listing list W"
  mp_get_listing :: "string \<Rightarrow> listing option W"
  mp_get_media :: "string \<Rightarrow> listing_media list W"

definition raw_mls :: mls_port where
  "raw_mls =
     \<lparr>mp_search = (\<lambda>q. bindM (ext_call (MlsSearch q)) as_listings),
      mp_get_listing = (\<lambda>key. bindM (ext_call (MlsGetListing key)) as_listing),
      mp_get_media = (\<lambda>key. bindM (ext_call (MlsGetMedia key)) as_media)\<rparr>"

definition query_payload :: "listing_query \<Rightarrow> payload" where
  "query_payload q = VModel 0
     [(''status'', None, (case lq_status q of
         None \<Rightarrow> VNone | Some x \<Rightarrow> VAtom (PStr (listing_status_value x)))),
      (''city'', None, opt_payload (lq_city q)), (''min_price'', None, int_payload (lq_min_price q)),
      (''max_price'', None, int_payload (lq_max_price q)),
      (''min_bedrooms'', None, int_payload (lq_min_bedrooms q)),
      (''limit'', None, VAtom (PInt (lq_limit q)))]"

definition guarded_crm :: "crm_port \<Rightarrow> crm_port" where
  "guarded_crm crm =
     \<lparr>cp_get_contact = (\<lambda>i. guarded ''get_contact'' [(''contact_id'', VStr i)]
        (opt_model contact_payload) (map_option scrub_contact) (cp_get_contact crm i)),
      cp_search = (\<lambda>q n. guarded ''search_contacts'' [(''query'', VStr q), (''limit'', VAtom (PInt n))]
        (list_payload contact_payload one_object 0) (map scrub_contact) (cp_search crm q n)),
      cp_create_contact = (\<lambda>d. guarded ''create_contact'' [(''draft'', contact_create_payload d)]
        (contact_payload 0) scrub_contact (cp_create_contact crm d)),
      cp_add_note = (\<lambda>c s b. guarded ''add_note''
        [(''contact_id'', VStr c), (''subject'', VStr s), (''body'', VStr b)]
        str_payload scrub_text (cp_add_note crm c s b)),
      cp_create_task = (\<lambda>n d c. guarded ''create_task''
        [(''name'', VStr n), (''due_date'', VAtom (PInt d)), (''contact_id'', opt_payload c)]
        (task_payload 0) scrub_task (cp_create_task crm n d c)),
      cp_log_call = (\<lambda>c out note secs. guarded ''log_call''
        [(''contact_id'', VStr c), (''outcome'', VStr out), (''note'', VStr note),
         (''duration_seconds'', VAtom (PInt secs))]
        str_payload scrub_text (cp_log_call crm c out note secs))\<rparr>"

definition scoped_transactions :: "transaction_backend \<Rightarrow> transaction_backend" where
  "scoped_transactions b =
     \<lparr>tb_create = scoped_create_transaction b, tb_get = scoped_get_transaction b,
      tb_get_milestone = scoped_get_milestone b, tb_list_active = scoped_list_active_transactions b,
      tb_list_milestones = scoped_list_milestones b,
      tb_set_level = scoped_set_escalation_level b, tb_count = scoped_count_transactions b,
      tb_clear = scoped_clear_transactions b\<rparr>"

definition guarded_transactions :: "transaction_backend \<Rightarrow> transaction_backend" where
  "guarded_transactions b =
     \<lparr>tb_create = (\<lambda>txn mss. guarded ''create_transaction''
        [(''transaction'', transaction_payload 0 txn), (''milestones'', list_payload milestone_payload one_object 0 mss)]
        unit_payload id (tb_create b txn mss)),
      tb_get = (\<lambda>i. guarded ''get_transaction'' [(''transaction_id'', VStr i)]
        (opt_model transaction_payload) (map_option scrub_transaction) (tb_get b i)),
      tb_get_milestone = (\<lambda>i. guarded ''get_milestone'' [(''milestone_id'', VStr i)]
        (opt_model milestone_payload) (map_option scrub_milestone) (tb_get_milestone b i)),
      tb_list_active = guarded ''list_active_transactions'' []
        (list_payload transaction_payload transaction_size 0) (map scrub_transaction) (tb_list_active b),
      tb_list_milestones = (\<lambda>i. guarded ''list_milestones'' [(''transaction_id'', VStr i)]
        (list_payload milestone_payload one_object 0) (map scrub_milestone) (tb_list_milestones b i)),
      tb_set_level = (\<lambda>i l. guarded ''set_escalation_level''
        [(''milestone_id'', VStr i), (''level'', VAtom (PInt l))] unit_payload id (tb_set_level b i l)),
      tb_count = guarded ''count_transactions'' [] (\<lambda>n. VAtom (PInt (int n))) id (tb_count b),
      tb_clear = guarded ''clear'' [] unit_payload id (tb_clear b)\<rparr>"

definition guarded_mls :: "mls_port \<Rightarrow> mls_port" where
  "guarded_mls mls =
     \<lparr>mp_search = (\<lambda>q. guarded ''search_listings'' [(''query'', query_payload q)]
        (list_payload listing_payload listing_size 0) (map scrub_listing) (mp_search mls q)),
      mp_get_listing = (\<lambda>key. guarded ''get_listing'' [(''listing_key'', VStr key)]
        (opt_model listing_payload) (map_option scrub_listing) (mp_get_listing mls key)),
      mp_get_media = (\<lambda>key. guarded ''get_listing_media'' [(''listing_key'', VStr key)]
        (list_payload media_payload one_object 0) (map scrub_media) (mp_get_media mls key))\<rparr>"

definition guarded_voice :: "voice_port \<Rightarrow> voice_port" where
  "guarded_voice voice =
     \<lparr>vp_start = (\<lambda>c a x. guarded ''start_outbound_call''
        [(''contact_id'', VStr c), (''assistant_id'', VStr a), (''context'', dict_payload 0 x)]
        str_payload scrub_text (vp_start voice c a x)),
      vp_get_call = (\<lambda>i. guarded ''get_call'' [(''call_id'', VStr i)]
        (opt_model call_payload) (map_option scrub_call) (vp_get_call voice i))\<rparr>"

definition scoped_feedback :: "feedback_backend \<Rightarrow> feedback_backend" where
  "scoped_feedback b =
     \<lparr>fbk_save_call = scoped_save_call_record b, fbk_get_call = scoped_get_call_record b,
      fbk_upsert = scoped_upsert_feedback b, fbk_get = scoped_get_feedback b,
      fbk_list = scoped_list_feedback b\<rparr>"

definition guarded_feedback :: "feedback_backend \<Rightarrow> feedback_backend" where
  "guarded_feedback b =
     \<lparr>fbk_save_call = (\<lambda>c. guarded ''save_call_record'' [(''record'', call_payload 0 c)]
        unit_payload id (fbk_save_call b c)),
      fbk_get_call = (\<lambda>i. guarded ''get_call_record'' [(''vapi_call_id'', VStr i)]
        (opt_model call_payload) (map_option scrub_call) (fbk_get_call b i)),
      fbk_upsert = (\<lambda>f. guarded ''upsert_feedback'' [(''feedback'', feedback_payload 0 f)]
        str_payload scrub_text (fbk_upsert b f)),
      fbk_get = (\<lambda>i. guarded ''get_feedback'' [(''feedback_id'', VStr i)]
        (opt_model feedback_payload) (map_option scrub_feedback) (fbk_get b i)),
      fbk_list = (\<lambda>key. guarded ''list_feedback'' [(''listing_key'', VStr key)]
        (list_payload feedback_payload feedback_size 0) (map scrub_feedback)
        (fbk_list b key))\<rparr>"

definition scoped_approvals :: "approval_backend \<Rightarrow> approval_backend" where
  "scoped_approvals b =
     \<lparr>ab_create = scoped_create_approval b, ab_get = scoped_get_approval b,
      ab_list = scoped_list_approvals b, ab_mark_decided = scoped_mark_decided b\<rparr>"

definition guarded_approvals :: "approval_backend \<Rightarrow> approval_backend" where
  "guarded_approvals b =
     \<lparr>ab_create = (\<lambda>a. guarded ''create'' [(''approval'', approval_payload 0 a)] unit_payload id (ab_create b a)),
      ab_get = (\<lambda>i. guarded ''get'' [(''approval_id'', VStr i)]
        (opt_model approval_payload) (map_option scrub_approval) (ab_get b i)),
      ab_list = (\<lambda>st. guarded ''list''
        [(''status'', (case st of None \<Rightarrow> VNone | Some x \<Rightarrow> VAtom (PStr (approval_status_value x))))]
        (list_payload approval_payload approval_size 0) (map scrub_approval) (ab_list b st)),
      ab_mark_decided = (\<lambda>i st who at_time. guarded ''mark_decided''
        [(''approval_id'', VStr i), (''status'', VAtom (PStr (approval_status_value st))),
         (''decided_by'', VStr who), (''decided_at'', VAtom (PInt at_time))]
        unit_payload id (ab_mark_decided b i st who at_time))\<rparr>"

end
