(* ===== verification/Listing_Workflow.thy ===== *)
theory Listing_Workflow
  imports Coordination Guarded_Ports
begin

text \<open>
  The listing_to_contract graph (\<open>orchestration/langgraph/.../graphs/listing_to_contract.py\<close>) with the
  marketing draft of \<open>core/services/marketing.py\<close>: intake, draft, the approval gate, the CRM tasks.
\<close>

section \<open>The marketing draft\<close>

definition default_channels :: "string list" where
  "default_channels = [''mls_portals'', ''facebook'', ''email_list'']"

definition line_feed :: string where
  "line_feed = [CHR 0x0A]"

definition draft_marketing :: "listing \<Rightarrow> marketing_draft" where
  "draft_marketing l =
     (let sqft = (case li_living_area_sqft l of
                    Some n \<Rightarrow> if n \<noteq> 0 then '' | '' @ show_thousands n @ '' sqft'' else [] | None \<Rightarrow> []);
          location = (if li_city l \<noteq> [] then '' in '' @ li_city l else []);
          price = (case li_list_price l of
                     Some p \<Rightarrow> '' '' @ em_dash @ '' $'' @ show_thousands p | None \<Rightarrow> []);
          (headline, facts) =
            (case (li_bedrooms l, li_bathrooms l) of
               (Some bd, Some ba) \<Rightarrow>
                 (''Just Listed: '' @ show_int bd @ '' bed / '' @ show_int ba @ '' bath'' @ location @ price,
                  show_int bd @ '' bd / '' @ show_int ba @ '' ba'')
             | _ \<Rightarrow> (''Just Listed'' @ location @ price, li_city l));
          built = (case li_year_built l of
                     Some y \<Rightarrow> if y \<noteq> 0 then '' | built '' @ show_int y else [] | None \<Rightarrow> [])
      in \<lparr>md_listing_key = li_mls_id l, md_headline = headline,
          md_body = li_address l @ line_feed @ facts @ sqft @ built @ line_feed @ line_feed @
            li_remarks l @ line_feed @ line_feed @ ''Contact '' @ li_agent_name l @
            '' to schedule a showing. MLS# '' @ li_mls_id l @ ''.'',
          md_channels = default_channels\<rparr>)"

text \<open>\<open>draft.model_dump()\<close> and \<open>MarketingDraft.model_validate\<close>; unknown keys are ignored.\<close>

definition marketing_json :: "marketing_draft \<Rightarrow> pyv" where
  "marketing_json d = PDict
     [(''listing_key'', PStr (md_listing_key d)), (''headline'', PStr (md_headline d)),
      (''body'', PStr (md_body d)), (''channels'', PList (map PStr (md_channels d)))]"

fun strings_of :: "pyv list \<Rightarrow> string list option" where
  "strings_of [] = Some []"
| "strings_of (PStr s # vs) = map_option ((#) s) (strings_of vs)"
| "strings_of _ = None"

definition marketing_error :: exn where
  "marketing_error = ValueError ''MarketingDraft''"

fun load_marketing :: "pyv \<Rightarrow> exn + marketing_draft" where
  "load_marketing (PDict d) =
     (case (dict_get d ''listing_key'', dict_get d ''headline'', dict_get d ''body'') of
        (Some (PStr key), Some (PStr headline), Some (PStr body)) \<Rightarrow>
          (case (case dict_get d ''channels'' of None \<Rightarrow> Some []
                 | Some (PList vs) \<Rightarrow> strings_of vs | Some _ \<Rightarrow> None) of
             None \<Rightarrow> Inl marketing_error
           | Some channels \<Rightarrow> Inr \<lparr>md_listing_key = key, md_headline = headline, md_body = body,
                                   md_channels = channels\<rparr>)
      | _ \<Rightarrow> Inl marketing_error)"
| "load_marketing _ = Inl marketing_error"

lemma strings_of_map [simp]: "strings_of (map PStr xs) = Some xs"
  by (induction xs) simp_all

lemma load_marketing_json [simp]: "load_marketing (marketing_json d) = Inr d"
  by (simp add: marketing_json_def dict_get_def)

section \<open>Nodes\<close>

definition approve_marketing_kind :: string where
  "approve_marketing_kind = ''approve_marketing''"

definition intake :: "mls_port \<Rightarrow> listing_state node" where
  "intake mls _ st =
     bindM (mp_get_listing mls (ls_listing_key st)) (\<lambda>l.
       ret (Updated (st\<lparr>ls_stage := (case l of
         None \<Rightarrow> StNotFound
       | Some x \<Rightarrow> if is_marketable x then StIntake else StNotEligible)\<rparr>)))"

definition make_draft :: "mls_port \<Rightarrow> listing_state node" where
  "make_draft mls _ st =
     bindM (mp_get_listing mls (ls_listing_key st)) (\<lambda>l.
       ret (Updated (case l of
         None \<Rightarrow> st\<lparr>ls_stage := StNotFound\<rparr>
       | Some x \<Rightarrow> st\<lparr>ls_draft := Some (draft_marketing x), ls_stage := StDrafted\<rparr>)))"

definition edited_marketing :: "pydict option \<Rightarrow> exn + marketing_draft option" where
  "edited_marketing edited =
     (case edited of
        None \<Rightarrow> Inr None
      | Some d \<Rightarrow>
          (case dict_get d ''draft'' of
             None \<Rightarrow> Inr None
           | Some v \<Rightarrow>
               if truthy v
               then (case load_marketing v of Inl e \<Rightarrow> Inl e | Inr m \<Rightarrow> Inr (Some m))
               else Inr None))"

definition approve_marketing :: "listing_state node" where
  "approve_marketing resume st =
     (case ls_draft st of
        None \<Rightarrow> raise AssertionError
      | Some draft \<Rightarrow>
          (case resume of
             None \<Rightarrow> ret (Paused
               [(''kind'', PStr approve_marketing_kind), (''listing_key'', PStr (ls_listing_key st)),
                (''draft'', marketing_json draft)])
           | Some d \<Rightarrow>
               bindM (liftE (edited_marketing (dec_edited_payload d))) (\<lambda>edited.
                 let s1 = st\<lparr>ls_approval := Some (outcome_of d)\<rparr>
                 in ret (Updated (case edited of None \<Rightarrow> s1 | Some m \<Rightarrow> s1\<lparr>ls_draft := Some m\<rparr>)))))"

definition task_due_days :: int where
  "task_due_days = 2"

text \<open>The date of an instant: microseconds since 0001-01-01, whose ordinal is 1.\<close>

definition instant_date :: "instant \<Rightarrow> date" where
  "instant_date t = t div 86400000000 + 1"

definition publish_tasks :: "mls_port \<Rightarrow> crm_port \<Rightarrow> listing_state node" where
  "publish_tasks mls crm _ st =
     (case ls_draft st of
        None \<Rightarrow> raise AssertionError
      | Some draft \<Rightarrow>
          bindM (mp_get_listing mls (ls_listing_key st)) (\<lambda>l.
            case l of
              None \<Rightarrow> ret (Updated (st\<lparr>ls_stage := StNotFound\<rparr>))
            | Some listing \<Rightarrow>
                let tasks = plan_marketing_tasks listing draft
                in bindM now_utc (\<lambda>now.
                   bindM (liftE (date_add (instant_date now) task_due_days)) (\<lambda>due.
                   bindM (mapM (\<lambda>name. bindM (cp_create_task crm name due None) (\<lambda>t. ret (tk_id t))) tasks)
                     (\<lambda>ids. ret (Updated (st\<lparr>ls_planned_tasks := tasks, ls_fub_task_ids := ids,
                        ls_stage := StPublished\<rparr>)))))))"

definition handle_rejection :: "listing_state node" where
  "handle_rejection _ st = ret (Updated (st\<lparr>ls_stage := StRejected\<rparr>))"

section \<open>Edges\<close>

definition route_after_intake :: "listing_state \<Rightarrow> exn + string option" where
  "route_after_intake st =
     Inr (if ls_stage st \<in> {StNotFound, StNotEligible} then None else Some ''make_draft'')"

definition route_after_approval :: "listing_state \<Rightarrow> exn + string option" where
  "route_after_approval st =
     (case ls_approval st of
        None \<Rightarrow> Inl AssertionError
      | Some a \<Rightarrow> Inr (Some (if ao_decision a = ApApproved then ''publish_tasks'' else ''handle_rejection'')))"

fun unpack_listing :: "run_state \<Rightarrow> listing_state option" where
  "unpack_listing (ListingRun s) = Some s"
| "unpack_listing _ = None"

definition listing_to_contract :: "mls_port \<Rightarrow> crm_port \<Rightarrow> listing_state graph" where
  "listing_to_contract mls crm =
     \<lparr>g_start = ''intake'',
      g_nodes =
        [(''intake'', intake mls), (''make_draft'', make_draft mls),
         (approve_marketing_kind, approve_marketing), (''publish_tasks'', publish_tasks mls crm),
         (''handle_rejection'', handle_rejection)],
      g_edges =
        [(''intake'', route_after_intake), (''make_draft'', to_node approve_marketing_kind),
         (approve_marketing_kind, route_after_approval), (''publish_tasks'', to_end),
         (''handle_rejection'', to_end)],
      g_pack = ListingRun, g_unpack = unpack_listing\<rparr>"

definition listing_input :: "string \<Rightarrow> listing_state" where
  "listing_input key =
     \<lparr>ls_listing_key = key, ls_stage = StIntake, ls_draft = None, ls_approval = None,
      ls_planned_tasks = [], ls_fub_task_ids = []\<rparr>"

end
