(* ===== verification/Feedback.thy ===== *)
theory Feedback
  imports Models
begin

text \<open>
  \<open>core/services/feedback_extraction.py\<close>: cues, features and the budget a transcript mentions.
  A regular expression is a matcher: from a position (the character before and the rest) to the
  ways it can match there, in the order Python's \<open>re\<close> tries them; \<open>search\<close> takes the first way at
  the leftmost position that has one. \<open>\d\<close>, \<open>\w\<close>, \<open>\s\<close> and case folding are those of ASCII.
\<close>

section \<open>Cues\<close>

definition positive_cues :: "string list" where
  "positive_cues = [''loved'', ''love'', ''great'', ''beautiful'', ''perfect'', ''amazing'', ''wonderful'',
     ''impressed'', ''spacious'']"

definition negative_cues :: "string list" where
  "negative_cues = [''overpriced'', ''too expensive'', ''dated'', ''needs updating'', ''needs work'',
     ''small'', ''cramped'', ''disappointed'', ''keep looking'', ''not for us'']"

definition hot_phrases :: "string list" where
  "hot_phrases = [''write an offer'', ''make an offer'', ''put in an offer'', ''submit an offer'',
     ''ready to move forward'']"

definition features :: "string list" where
  "features = [''kitchen'', ''backyard'', ''yard'', ''garage'', ''bathroom'', ''bath'', ''bedroom'',
     ''location'', ''neighborhood'', ''light'', ''layout'', ''pool'', ''view'']"

definition units :: "(string \<times> int) list" where
  "units = [(''one'', 1), (''two'', 2), (''three'', 3), (''four'', 4), (''five'', 5), (''six'', 6),
     (''seven'', 7), (''eight'', 8), (''nine'', 9)]"

definition tens :: "(string \<times> int) list" where
  "tens = [(''ten'', 10), (''twenty'', 20), (''thirty'', 30), (''forty'', 40), (''fifty'', 50),
     (''sixty'', 60), (''seventy'', 70), (''eighty'', 80), (''ninety'', 90)]"

section \<open>Matching\<close>

type_synonym pos = "char option \<times> string"

definition word_char :: "char \<Rightarrow> bool" where
  "word_char c \<longleftrightarrow> (let n = (of_char c :: nat) in
     (48 \<le> n \<and> n \<le> 57) \<or> (65 \<le> n \<and> n \<le> 90) \<or> n = 95 \<or> (97 \<le> n \<and> n \<le> 122))"

definition at_boundary :: "pos \<Rightarrow> bool" where
  "at_boundary p \<longleftrightarrow>
     (case fst p of None \<Rightarrow> False | Some c \<Rightarrow> word_char c) \<noteq>
     (case snd p of [] \<Rightarrow> False | c # _ \<Rightarrow> word_char c)"

definition advance :: "nat \<Rightarrow> pos \<Rightarrow> pos" where
  "advance k p = (if k = 0 then fst p else Some (snd p ! (k - 1)), drop k (snd p))"

text \<open>A word in any case; \<open>\s*\<close> and \<open>\s+\<close>, longest first.\<close>

definition word_at :: "string \<Rightarrow> pos \<Rightarrow> pos list" where
  "word_at w p = (if startswith (lower (snd p)) w then [advance (length w) p] else [])"

definition spaces_at :: "nat \<Rightarrow> pos \<Rightarrow> pos list" where
  "spaces_at lo p =
     (let n = length (takeWhile is_space (snd p)) in map (\<lambda>k. advance k p) (rev [lo..<Suc n]))"

text \<open>An alternation of table words captures the entry it matched.\<close>

definition entry_at :: "(string \<times> int) list \<Rightarrow> pos \<Rightarrow> (int \<times> pos) list" where
  "entry_at table p = concat (map (\<lambda>(w, v). map (Pair v) (word_at w p)) table)"

fun search :: "(pos \<Rightarrow> 'a list) \<Rightarrow> char option \<Rightarrow> string \<Rightarrow> 'a option" where
  "search f prev [] = (case f (prev, []) of [] \<Rightarrow> None | x # _ \<Rightarrow> Some x)"
| "search f prev (c # cs) = (case f (prev, c # cs) of [] \<Rightarrow> search f (Some c) cs | x # _ \<Rightarrow> Some x)"

section \<open>Prices\<close>

text \<open>\<open>\b(units)\s+(tens)(?:\s+(units))?\b\<close>.\<close>

definition spoken_at :: "pos \<Rightarrow> (int \<times> int \<times> int option) list" where
  "spoken_at p =
     (if \<not> at_boundary p then []
      else concat (map (\<lambda>(h, p1). concat (map (\<lambda>p2. concat (map (\<lambda>(t, p3).
        concat (map (\<lambda>p4. concat (map (\<lambda>(u, p5).
          if at_boundary p5 then [(h, t, Some u)] else []) (entry_at units p4))) (spaces_at 1 p3)) @
        (if at_boundary p3 then [(h, t, None)] else [])) (entry_at tens p2)))
        (spaces_at 1 p1))) (entry_at units p)))"

text \<open>\<open>\d{2,3}\<close>, then \<open>(?:,\d{3})*\<close>: the lengths to try, longest first.\<close>

fun comma_groups :: "string \<Rightarrow> nat" where
  "comma_groups (s # a # b # c # r) =
     (if s = CHR '','' \<and> is_digit a \<and> is_digit b \<and> is_digit c then Suc (comma_groups r) else 0)"
| "comma_groups _ = 0"

definition digits_at :: "string \<Rightarrow> nat list" where
  "digits_at s = (let n = length (takeWhile is_digit s) in rev [2..<Suc (min 3 n)])"

definition amount_at :: "string \<Rightarrow> nat list" where
  "amount_at s =
     concat (map (\<lambda>k. map (\<lambda>g. k + 4 * g) (rev [0..<Suc (comma_groups (drop k s))])) (digits_at s)) @
     digits_at s"

text \<open>\<open>\$?(amount)\s*(k|thousand)?\<close>: the digits and whether the unit follows.\<close>

definition unit_at :: "pos \<Rightarrow> bool" where
  "unit_at p \<longleftrightarrow> word_at ''k'' p \<noteq> [] \<or> word_at ''thousand'' p \<noteq> []"

definition numeric_from :: "pos \<Rightarrow> (string \<times> bool) list" where
  "numeric_from p =
     concat (map (\<lambda>k. map (\<lambda>p2. (take k (snd p), unit_at p2)) (spaces_at 0 (advance k p)))
       (amount_at (snd p)))"

definition numeric_at :: "pos \<Rightarrow> (string \<times> bool) list" where
  "numeric_at p =
     (case snd p of
        c # _ \<Rightarrow> (if c = CHR ''$'' then numeric_from (advance 1 p) else []) @ numeric_from p
      | [] \<Rightarrow> [])"

definition parse_price_phrase :: "string \<Rightarrow> int option" where
  "parse_price_phrase phrase =
     (case search spoken_at None phrase of
        Some (h, t, u) \<Rightarrow> Some ((h * 100 + t + (case u of None \<Rightarrow> 0 | Some n \<Rightarrow> n)) * 1000)
      | None \<Rightarrow>
          (case search numeric_at None phrase of
             None \<Rightarrow> None
           | Some (digits, thousands) \<Rightarrow>
               let value = int (read_nat (filter (\<lambda>c. c \<noteq> CHR '','') digits))
               in Some (if thousands \<or> value < 1000 then value * 1000 else value)))"

text \<open>
  \<open>.{1,40}?\<close>: one to forty characters other than the line feed, shortest first; a character is its
  first byte and the continuation bytes after it.
\<close>

fun dots_at :: "nat \<Rightarrow> pos \<Rightarrow> nat list" where
  "dots_at 0 p = []"
| "dots_at (Suc m) p =
     (case snd p of
        [] \<Rightarrow> []
      | c # cs \<Rightarrow>
          if c = CHR 0x0A then []
          else (let k = Suc (length (takeWhile is_continuation cs))
                in k # map ((+) k) (dots_at m (advance k p))))"

text \<open>\<open>(?:[.,;]|$)\<close>; \<open>$\<close> also matches before a final line feed.\<close>

definition range_end :: "pos \<Rightarrow> bool" where
  "range_end p \<longleftrightarrow>
     (case snd p of
        [] \<Rightarrow> True
      | c # cs \<Rightarrow> c \<in> {CHR ''.'', CHR '','', CHR '';''} \<or> (c = CHR 0x0A \<and> cs = []))"

text \<open>\<open>between\s+(.{1,40}?)\s+and\s+(.{1,40}?)(?:[.,;]|$)\<close>.\<close>

definition range_at :: "pos \<Rightarrow> (string \<times> string) list" where
  "range_at p =
     concat (map (\<lambda>p1. concat (map (\<lambda>p2. concat (map (\<lambda>j. concat (map (\<lambda>p3. concat (map (\<lambda>p4.
       concat (map (\<lambda>p5. concat (map (\<lambda>k.
         if range_end (advance k p5) then [(take j (snd p2), take k (snd p5))] else [])
       (dots_at 40 p5))) (spaces_at 1 p4))) (word_at ''and'' p3))) (spaces_at 1 (advance j p2))))
       (dots_at 40 p2))) (spaces_at 1 p1))) (word_at ''between'' p))"

definition parse_budget_range :: "string \<Rightarrow> (int \<times> int) option" where
  "parse_budget_range text =
     (case search range_at None text of
        None \<Rightarrow> None
      | Some (a, b) \<Rightarrow>
          (case (parse_price_phrase a, parse_price_phrase b) of
             (Some low, Some high) \<Rightarrow> Some (min low high, max low high)
           | _ \<Rightarrow> None))"

section \<open>Extraction\<close>

definition sentence_features :: "string \<Rightarrow> string list" where
  "sentence_features sentence = filter (\<lambda>f. contains f (lower sentence)) features"

text \<open>\<open>re.split(r"[.!?]+", transcript)\<close>.\<close>

definition is_stop :: "char \<Rightarrow> bool" where
  "is_stop c \<longleftrightarrow> c \<in> {CHR ''.'', CHR ''!'', CHR ''?''}"

function sentences :: "string \<Rightarrow> string list" where
  "sentences s =
     takeWhile (\<lambda>c. \<not> is_stop c) s #
     (case dropWhile (\<lambda>c. \<not> is_stop c) s of [] \<Rightarrow> [] | c # cs \<Rightarrow> sentences (dropWhile is_stop cs))"
  by pat_completeness auto
termination
proof (relation "measure length")
  fix s c and cs :: string
  assume "dropWhile (\<lambda>c. \<not> is_stop c) s = c # cs"
  then have "length (c # cs) \<le> length s" by (metis length_dropWhile_le)
  then show "(dropWhile is_stop cs, s) \<in> measure length"
    using length_dropWhile_le [of is_stop cs] by simp
qed simp

definition extend_new :: "string list \<Rightarrow> string list \<Rightarrow> string list" where
  "extend_new xs ys = foldl (\<lambda>acc f. if f \<in> set acc then acc else acc @ [f]) xs ys"

record reading =
  rd_score :: int
  rd_highlights :: "string list"
  rd_concerns :: "string list"

definition read_sentence :: "reading \<Rightarrow> string \<Rightarrow> reading" where
  "read_sentence r sentence =
     (let l = lower sentence;
          positive = list_ex (\<lambda>cue. contains cue l) positive_cues;
          negative = list_ex (\<lambda>cue. contains cue l) negative_cues
      in \<lparr>rd_score = rd_score r + of_bool positive - of_bool negative,
          rd_highlights = (if positive \<and> \<not> negative
            then extend_new (rd_highlights r) (sentence_features sentence) else rd_highlights r),
          rd_concerns = (if negative
            then extend_new (rd_concerns r) (sentence_features sentence) else rd_concerns r)\<rparr>)"

definition en_dash :: string where
  "en_dash = [CHR 0xE2, CHR 0x80, CHR 0x93]"

definition price_opinion_of :: "string \<Rightarrow> price_opinion option" where
  "price_opinion_of l =
     (if contains ''overpriced'' l \<or> contains ''too expensive'' l then Some Overpriced
      else if contains ''good value'' l \<or> contains ''great price'' l \<or> contains ''priced right'' l
      then Some Fair else None)"

definition extract_feedback :: "string \<Rightarrow> extracted_feedback" where
  "extract_feedback transcript =
     (let l = lower transcript;
          r = foldl read_sentence \<lparr>rd_score = 0, rd_highlights = [], rd_concerns = []\<rparr> (sentences transcript);
          sentiment = (if rd_score r > 0 then Positive else if rd_score r < 0 then Negative else Neutral);
          hot = list_ex (\<lambda>phrase. contains phrase l) hot_phrases;
          opinion = price_opinion_of l;
          budget = parse_budget_range transcript;
          parts = [''Sentiment: '' @ sentiment_value sentiment @ ''.''] @
            (if hot then [''HOT: buyer signaled offer intent.''] else []) @
            (if rd_highlights r \<noteq> [] then [''Liked: '' @ join '', '' (rd_highlights r) @ ''.''] else []) @
            (if rd_concerns r \<noteq> [] then [''Concerns: '' @ join '', '' (rd_concerns r) @ ''.''] else []) @
            (case opinion of None \<Rightarrow> [] | Some p \<Rightarrow> [''Price opinion: '' @ price_opinion_value p @ ''.'']) @
            (case budget of None \<Rightarrow> []
             | Some (a, b) \<Rightarrow> [''Budget: $'' @ show_thousands a @ en_dash @ ''$'' @ show_thousands b @ ''.''])
      in \<lparr>ef_sentiment = sentiment, ef_hot_signal = hot, ef_highlights = rd_highlights r,
          ef_concerns = rd_concerns r, ef_price_opinion = opinion,
          ef_budget_min = map_option fst budget, ef_budget_max = map_option snd budget,
          ef_desired_features = [], ef_summary = join '' '' parts\<rparr>)"

end
