(* ===== verification/Vapi_Followup.thy ===== *)
theory Vapi_Followup
  imports Coordination Guarded_Ports Feedback
begin

text \<open>
  The vapi_followup graph (\<open>orchestration/langgraph/.../graphs/vapi_followup.py\<close>): one run per completed
  feedback call. The transcript is extracted and stored, the CRM is synced; a buyer who signals an
  offer pauses the run at the notify gate, otherwise a follow-up email is drafted behind the message
  gate.
\<close>

section \<open>The extraction port\<close>

type_synonym extraction_port = "string \<Rightarrow> extracted_feedback W"

definition deterministic_extractor :: extraction_port where
  "deterministic_extractor transcript = ret (extract_feedback transcript)"

definition llm_extractor :: extraction_port where
  "llm_extractor transcript = bindM (ext_call (ExtractFeedback transcript)) as_extracted"

section \<open>Nodes\<close>

definition ingest_call :: "voice_port \<Rightarrow> feedback_backend \<Rightarrow> vapi_state node" where
  "ingest_call voice store _ st =
     bindM (if vs_transcript st \<noteq> [] then ret None else vp_get_call voice (vs_call_id st)) (\<lambda>record.
       let (transcript, listing_key, contact_id, outcome) =
         (case record of
            None \<Rightarrow> (vs_transcript st, vs_listing_key st, vs_contact_id st, vs_call_outcome st)
          | Some r \<Rightarrow> (cr_transcript r, str_or (vs_listing_key st) (cr_listing_key r),
                       str_or (vs_contact_id st) (cr_contact_id r), str_or (vs_call_outcome st) (cr_outcome r)))
       in if transcript = [] then ret (Updated (st\<lparr>vs_outcome := ''no_transcript''\<rparr>))
          else bindM now_utc (\<lambda>now.
            thenM (fbk_save_call store
                \<lparr>cr_tenant_id = [], cr_vapi_call_id = vs_call_id st, cr_contact_id = contact_id,
                 cr_listing_key = listing_key, cr_transcript = transcript, cr_outcome = outcome,
                 cr_extracted = [], cr_created_at = Some now\<rparr>)
              (ret (Updated (st\<lparr>vs_transcript := transcript, vs_listing_key := listing_key,
                 vs_contact_id := contact_id, vs_call_outcome := outcome\<rparr>)))))"

definition extract_structured :: "extraction_port \<Rightarrow> vapi_state node" where
  "extract_structured extraction _ st =
     bindM (extraction (vs_transcript st)) (\<lambda>e. ret (Updated (st\<lparr>vs_extracted := Some e\<rparr>)))"

text \<open>\<open>ExtractedFeedback.model_validate(state.extracted)\<close>; the empty dict has no sentiment.\<close>

definition validated :: "vapi_state \<Rightarrow> extracted_feedback W" where
  "validated st =
     (case vs_extracted st of None \<Rightarrow> raise (ValueError ''ExtractedFeedback'') | Some e \<Rightarrow> ret e)"

definition upsert_feedback :: "feedback_backend \<Rightarrow> vapi_state node" where
  "upsert_feedback store _ st =
     bindM (validated st) (\<lambda>extracted.
     bindM now_utc (\<lambda>now.
     bindM (fbk_upsert store
         \<lparr>fb_tenant_id = [], fb_id = ''FB-'' @ vs_call_id st, fb_listing_key = vs_listing_key st,
          fb_contact_id = vs_contact_id st, fb_call_id = Some (vs_call_id st), fb_source = FromCall,
          fb_sentiment = ef_sentiment extracted, fb_structured_answers = extracted_json extracted,
          fb_created_at = Some now\<rparr>) (\<lambda>feedback_id.
     bindM (fbk_get_call store (vs_call_id st)) (\<lambda>record.
     thenM (case record of None \<Rightarrow> ret ()
            | Some r \<Rightarrow> fbk_save_call store (r\<lparr>cr_extracted := extracted_json extracted\<rparr>))
       (ret (Updated (st\<lparr>vs_feedback_id := feedback_id\<rparr>)))))))"

definition sync_crm :: "crm_port \<Rightarrow> vapi_state node" where
  "sync_crm crm _ st =
     bindM (validated st) (\<lambda>extracted.
     bindM (cp_add_note crm (vs_contact_id st)
         (''Showing feedback '' @ em_dash @ '' '' @ vs_listing_key st) (ef_summary extracted)) (\<lambda>note_id.
     bindM (cp_log_call crm (vs_contact_id st) (sentiment_value (ef_sentiment extracted))
         (''Feedback call for '' @ vs_listing_key st @ '' ('' @ vs_call_id st @ '')'') 0) (\<lambda>call_log_id.
       ret (Updated (st\<lparr>vs_note_id := note_id, vs_call_log_id := call_log_id\<rparr>)))))"

definition notify_agent_kind :: string where
  "notify_agent_kind = ''notify_agent''"

definition notify_agent :: "vapi_state node" where
  "notify_agent resume st =
     bindM (validated st) (\<lambda>extracted.
       case resume of
         None \<Rightarrow> ret (Paused
           [(''kind'', PStr notify_agent_kind), (''listing_key'', PStr (vs_listing_key st)),
            (''contact_id'', PStr (vs_contact_id st)), (''call_id'', PStr (vs_call_id st)),
            (''reason'', PStr ''Buyer signaled offer intent on the feedback call''),
            (''summary'', PStr (ef_summary extracted))])
       | Some d \<Rightarrow> ret (Updated (st\<lparr>vs_hot_approval := Some (outcome_of d)\<rparr>)))"

definition create_hot_task :: "crm_port \<Rightarrow> vapi_state node" where
  "create_hot_task crm _ st =
     bindM date_today (\<lambda>today.
     bindM (cp_create_task crm
         (''HOT LEAD: contact '' @ vs_contact_id st @ '' signaled offer intent on '' @ vs_listing_key st @
          '' '' @ em_dash @ '' call back today'') today (or_none (vs_contact_id st))) (\<lambda>task.
       ret (Updated (st\<lparr>vs_hot_task_id := tk_id task, vs_outcome := ''agent_notified''\<rparr>))))"

definition finish_synced :: "vapi_state node" where
  "finish_synced _ st = ret (Updated (st\<lparr>vs_outcome := ''synced''\<rparr>))"

definition dismiss_hot :: "vapi_state node" where
  "dismiss_hot _ st = ret (Updated (st\<lparr>vs_outcome := ''hot_signal_dismissed''\<rparr>))"

definition draft_followup_email :: "crm_port \<Rightarrow> send_service \<Rightarrow> vapi_state node" where
  "draft_followup_email crm svc _ st =
     bindM (if vs_contact_id st \<noteq> [] then cp_get_contact crm (vs_contact_id st) else ret None) (\<lambda>contact.
       case plan_showing_followup_email contact (vs_listing_key st) of
         None \<Rightarrow> ret (Updated st)
       | Some context \<Rightarrow>
           bindM (draft_for_approval svc context) (\<lambda>message.
             ret (Updated (st\<lparr>vs_followup_message_id := msg_id message\<rparr>))))"

definition approve_followup_email :: "send_service \<Rightarrow> vapi_state node" where
  "approve_followup_email svc resume st =
     bindM (service_get_message svc (vs_followup_message_id st)) (\<lambda>found.
       case found of
         None \<Rightarrow> raise (UnknownOutboundMessageError (vs_followup_message_id st))
       | Some m \<Rightarrow>
           (case resume of
              None \<Rightarrow> ret (Paused (message_gate m (''contact_id'', vs_contact_id st)))
            | Some d \<Rightarrow>
                bindM (liftE (edited_draft_fields (dec_edited_payload d))) (\<lambda>(subject, body).
                  let s1 = st\<lparr>vs_followup_approval := Some (outcome_of d)\<rparr>;
                      s2 = (if subject = [] then s1 else s1\<lparr>vs_followup_edited_subject := subject\<rparr>);
                      s3 = (if body = [] then s2 else s2\<lparr>vs_followup_edited_body := body\<rparr>)
                  in ret (Updated s3))))"

definition send_followup_email :: "send_service \<Rightarrow> vapi_state node" where
  "send_followup_email svc _ st =
     thenM (send_approved svc (vs_followup_message_id st) (or_none (vs_followup_edited_subject st))
              (or_none (vs_followup_edited_body st)))
       (ret (Updated (st\<lparr>vs_outcome := ''followup_sent''\<rparr>)))"

definition dismiss_followup_email :: "send_service \<Rightarrow> vapi_state node" where
  "dismiss_followup_email svc _ st =
     thenM (mark_rejected svc (vs_followup_message_id st))
       (ret (Updated (st\<lparr>vs_outcome := ''followup_dismissed''\<rparr>)))"

section \<open>Edges\<close>

definition route_after_ingest :: "vapi_state \<Rightarrow> exn + string option" where
  "route_after_ingest st =
     Inr (if vs_outcome st = ''no_transcript'' then None else Some ''extract_structured'')"

definition route_after_sync :: "vapi_state \<Rightarrow> exn + string option" where
  "route_after_sync st =
     (case vs_extracted st of
        None \<Rightarrow> Inl (ValueError ''ExtractedFeedback'')
      | Some e \<Rightarrow> Inr (Some (if ef_hot_signal e then notify_agent_kind else ''draft_followup_email'')))"

definition route_after_notify :: "vapi_state \<Rightarrow> exn + string option" where
  "route_after_notify st =
     (case vs_hot_approval st of
        None \<Rightarrow> Inl AssertionError
      | Some a \<Rightarrow> Inr (Some (if ao_decision a = ApApproved then ''create_hot_task'' else ''dismiss_hot'')))"

definition route_after_followup :: "vapi_state \<Rightarrow> exn + string option" where
  "route_after_followup st =
     Inr (Some (if vs_followup_message_id st \<noteq> [] then approve_outbound_message else ''finish_synced''))"

definition route_after_followup_gate :: "vapi_state \<Rightarrow> exn + string option" where
  "route_after_followup_gate st =
     (case vs_followup_approval st of
        None \<Rightarrow> Inl AssertionError
      | Some a \<Rightarrow> Inr (Some (if ao_decision a = ApApproved then ''send_followup_email''
                              else ''dismiss_followup_email'')))"

fun unpack_vapi :: "run_state \<Rightarrow> vapi_state option" where
  "unpack_vapi (VapiRun s) = Some s"
| "unpack_vapi _ = None"

definition vapi_followup ::
    "voice_port \<Rightarrow> crm_port \<Rightarrow> feedback_backend \<Rightarrow> extraction_port \<Rightarrow> send_service \<Rightarrow> vapi_state graph" where
  "vapi_followup voice crm store extraction svc =
     \<lparr>g_start = ''ingest_call'',
      g_nodes =
        [(''ingest_call'', ingest_call voice store), (''extract_structured'', extract_structured extraction),
         (''upsert_feedback'', upsert_feedback store), (''sync_crm'', sync_crm crm),
         (notify_agent_kind, notify_agent), (''create_hot_task'', create_hot_task crm),
         (''finish_synced'', finish_synced), (''dismiss_hot'', dismiss_hot),
         (''draft_followup_email'', draft_followup_email crm svc),
         (approve_outbound_message, approve_followup_email svc),
         (''send_followup_email'', send_followup_email svc),
         (''dismiss_followup_email'', dismiss_followup_email svc)],
      g_edges =
        [(''ingest_call'', route_after_ingest), (''extract_structured'', to_node ''upsert_feedback''),
         (''upsert_feedback'', to_node ''sync_crm''), (''sync_crm'', route_after_sync),
         (notify_agent_kind, route_after_notify),
         (''draft_followup_email'', route_after_followup),
         (approve_outbound_message, route_after_followup_gate),
         (''create_hot_task'', to_end), (''finish_synced'', to_end), (''dismiss_hot'', to_end),
         (''send_followup_email'', to_end), (''dismiss_followup_email'', to_end)],
      g_pack = VapiRun, g_unpack = unpack_vapi\<rparr>"

definition vapi_input :: "string \<Rightarrow> string \<Rightarrow> string \<Rightarrow> string \<Rightarrow> string \<Rightarrow> vapi_state" where
  "vapi_input call_id transcript listing_key contact_id outcome =
     \<lparr>vs_call_id = call_id, vs_listing_key = listing_key, vs_contact_id = contact_id,
      vs_transcript = transcript, vs_call_outcome = outcome, vs_extracted = None, vs_feedback_id = [],
      vs_note_id = [], vs_call_log_id = [], vs_hot_approval = None, vs_hot_task_id = [],
      vs_followup_message_id = [], vs_followup_approval = None, vs_followup_edited_subject = [],
      vs_followup_edited_body = [], vs_outcome = []\<rparr>"

end
