(* ===== verification/Workflows.thy ===== *)
theory Workflows
  imports Listing_Workflow Vapi_Followup
begin

text \<open>
  The three graphs over the ports as \<open>main.py\<close> wires them, and the engine that runs them: one start
  and one decide path, dispatching on the workflow's name (\<open>engine.py\<close>, \<open>build_engine\<close>).
\<close>

section \<open>The wiring\<close>

text \<open>What the environment decides: the stores, the CRM vendor's name, drafter and extractor.\<close>

record deployment =
  dp_stores :: store_bundle
  dp_idempotency :: idempotency_backend
  dp_vendor :: string
  dp_drafter :: "draft_context \<Rightarrow> drafted_message W"
  dp_extraction :: extraction_port

definition engine_crm :: "deployment \<Rightarrow> crm_port" where
  "engine_crm d = guarded_crm (pt_crm (seam_ports (dp_idempotency d) (dp_vendor d)))"

definition engine_voice :: "deployment \<Rightarrow> voice_port" where
  "engine_voice d = guarded_voice (pt_voice (seam_ports (dp_idempotency d) (dp_vendor d)))"

definition engine_mls :: mls_port where
  "engine_mls = guarded_mls raw_mls"

definition transaction_port :: "deployment \<Rightarrow> transaction_backend" where
  "transaction_port d = guarded_transactions (scoped_transactions (sb_transactions (dp_stores d)))"

definition feedback_port :: "deployment \<Rightarrow> feedback_backend" where
  "feedback_port d = guarded_feedback (scoped_feedback (sb_feedback (dp_stores d)))"

definition approval_repo :: "deployment \<Rightarrow> approval_backend" where
  "approval_repo d = guarded_approvals (scoped_approvals (sb_approvals (dp_stores d)))"

definition message_service :: "deployment \<Rightarrow> send_service" where
  "message_service d = wired_service (dp_idempotency d) (sb_messages (dp_stores d)) (dp_drafter d)"

definition listing_graph :: "deployment \<Rightarrow> listing_state graph" where
  "listing_graph d = listing_to_contract engine_mls (engine_crm d)"

definition coordination_graph :: "deployment \<Rightarrow> coordination_state graph" where
  "coordination_graph d = transaction_coordination (transaction_port d) (engine_crm d) (message_service d)"

definition vapi_graph :: "deployment \<Rightarrow> vapi_state graph" where
  "vapi_graph d = vapi_followup (engine_voice d) (engine_crm d) (feedback_port d) (dp_extraction d)
     (message_service d)"

text \<open>The two deployments \<open>main.py\<close> builds, with either drafter and either extractor.\<close>

definition is_deployment :: "deployment \<Rightarrow> bool" where
  "is_deployment d \<longleftrightarrow>
     (dp_stores d = sql_stores \<and> dp_idempotency d = sql_idempotency \<or>
      dp_stores d = mem_stores \<and> dp_idempotency d = mem_idempotency) \<and>
     (dp_drafter d = deterministic_drafter \<or> dp_drafter d = llm_drafter) \<and>
     (dp_extraction d = deterministic_extractor \<or> dp_extraction d = llm_extractor)"

section \<open>The engine\<close>

text \<open>\<open>ainvoke\<close> of each compiled graph.\<close>

record runners =
  rn_listing :: "listing_state runner"
  rn_coordination :: "coordination_state runner"
  rn_vapi :: "vapi_state runner"

definition langgraph :: "runners \<Rightarrow> bool" where
  "langgraph r \<longleftrightarrow> runs_graphs (rn_listing r) \<and> runs_graphs (rn_coordination r) \<and> runs_graphs (rn_vapi r)"

definition walkers :: runners where
  "walkers = \<lparr>rn_listing = walker, rn_coordination = walker, rn_vapi = walker\<rparr>"

lemma langgraph_walkers: "langgraph walkers"
  by (simp add: langgraph_def walkers_def runs_graphs_walker)

definition listing_to_contract_name :: string where
  "listing_to_contract_name = ''listing_to_contract''"

definition transaction_coordination_name :: string where
  "transaction_coordination_name = ''transaction_coordination''"

definition vapi_followup_name :: string where
  "vapi_followup_name = ''vapi_followup''"

text \<open>
  \<open>engine.start(workflow, run_input)\<close>: the input is the initial state of the workflow's graph, and
  only a coordination run's input names a transaction.
\<close>

fun start_workflow :: "deployment \<Rightarrow> runners \<Rightarrow> run_state \<Rightarrow> string option \<Rightarrow> run_result W" where
  "start_workflow d r (ListingRun st) actor =
     engine_start (rn_listing r) (approval_repo d) listing_to_contract_name (listing_graph d) st [] actor"
| "start_workflow d r (CoordinationRun st) actor =
     engine_start (rn_coordination r) (approval_repo d) transaction_coordination_name
       (coordination_graph d) st (cs_transaction_id st) actor"
| "start_workflow d r (VapiRun st) actor =
     engine_start (rn_vapi r) (approval_repo d) vapi_followup_name (vapi_graph d) st [] actor"

text \<open>
  \<open>engine.decide\<close>: the row is marked before the graph is looked up, so an unknown workflow name is a
  \<open>KeyError\<close> on a decided row.
\<close>

definition decide_workflow ::
    "deployment \<Rightarrow> runners \<Rightarrow> approval_request \<Rightarrow> approval_decision \<Rightarrow> run_result W" where
  "decide_workflow d r a dec =
     (if apr_workflow a = listing_to_contract_name
      then engine_decide (rn_listing r) (approval_repo d) (listing_graph d) a dec
      else if apr_workflow a = transaction_coordination_name
      then engine_decide (rn_coordination r) (approval_repo d) (coordination_graph d) a dec
      else if apr_workflow a = vapi_followup_name
      then engine_decide (rn_vapi r) (approval_repo d) (vapi_graph d) a dec
      else bindM now_utc (\<lambda>now.
        thenM (ab_mark_decided (approval_repo d) (apr_id a) (dec_decision dec) (dec_decided_by dec) now)
          (raise (KeyError (apr_workflow a)))))"

text \<open>The approvals router over it.\<close>

definition decide_route ::
    "deployment \<Rightarrow> runners \<Rightarrow> string \<Rightarrow> approval_status \<Rightarrow> pydict option \<Rightarrow> principal \<Rightarrow>
     (approval_request \<times> run_result) W" where
  "decide_route d r = decide_approval (approval_repo d) (decide_workflow d r)"

end
