(* ===== verification/Graph_Runs.thy ===== *)
theory Graph_Runs
  imports Workflows
begin

text \<open>
  How runs of the graphs are reasoned about: a workflow's shape as a locale (its edges lead to nodes
  of lower rank, only gates pause), the assertion rule for \<open>walk\<close>, and the three graphs as
  interpretations.
\<close>

section \<open>The assertion rule\<close>

text \<open>
  \<open>P\<close> holds of the node about to run, with the decision and the state it is given; \<open>I\<close> of the world
  between nodes; \<open>Q\<close> of the way the invocation ends.
\<close>

lemma walk_rule:
  assumes "walk k g thread n resume st w = Some (out, w')" and "P n resume st" and "I w"
    and threads: "\<And>w th. I w \<Longrightarrow> I (w\<lparr>w_threads := th\<rparr>)"
    and node: "\<And>n resume st f w res w'. P n resume st \<Longrightarrow> I w \<Longrightarrow> map_of (g_nodes g) n = Some f \<Longrightarrow>
      f resume st w = (res, w') \<Longrightarrow> I w' \<and>
      (\<forall>st' route n'. res = Inr (Updated st') \<longrightarrow> map_of (g_edges g) n = Some route \<longrightarrow>
         route st' = Inr (Some n') \<longrightarrow> P n' None st')"
  shows "I w'"
  using assms(1-3)
proof (induction k arbitrary: n resume st w)
  case 0
  then show ?case by simp
next
  case (Suc k)
  then obtain f where f: "map_of (g_nodes g) n = Some f" by (auto split: option.splits)
  obtain res w1 where r: "f resume st w = (res, w1)" by fastforce
  from node [OF Suc.prems(2,3) f r] have I1: "I w1"
    and next_ok: "\<And>st' route n'. res = Inr (Updated st') \<Longrightarrow> map_of (g_edges g) n = Some route \<Longrightarrow>
      route st' = Inr (Some n') \<Longrightarrow> P n' None st'" by blast+
  show ?case
  proof (cases res)
    case (Inl e)
    with Suc.prems(1) f r I1 show ?thesis by auto
  next
    case (Inr x)
    show ?thesis
    proof (cases x)
      case (Paused v)
      with Suc.prems(1) f r I1 Inr threads show ?thesis by auto
    next
      case (Updated st')
      with Suc.prems(1) f r Inr obtain route where e: "map_of (g_edges g) n = Some route"
        by (auto split: option.splits)
      with Suc.prems(1) f r Inr Updated have
        "(case route st' of Inl e \<Rightarrow> Some (Inl e, w1) | Inr None \<Rightarrow> Some (Inr (Finished st'), w1)
          | Inr (Some m) \<Rightarrow> walk k g thread m None st' w1) = Some (out, w')" by simp
      then show ?thesis
        using Suc.IH [OF _ next_ok [OF _ e] I1] Inr Updated I1
        by (auto split: sum.splits option.splits)
    qed
  qed
qed

section \<open>The shape of a workflow\<close>

locale workflow =
  fixes g :: "'st graph" and rank :: "string \<Rightarrow> nat" and gates :: "string set"
  assumes start_node: "map_of (g_nodes g) (g_start g) \<noteq> None"
    and edge_node: "map_of (g_nodes g) n \<noteq> None \<Longrightarrow> map_of (g_edges g) n \<noteq> None"
    and target: "map_of (g_edges g) n = Some route \<Longrightarrow> route st = Inr (Some n') \<Longrightarrow>
      map_of (g_nodes g) n' \<noteq> None \<and> rank n' < rank n"
    and gate_node: "n \<in> gates \<Longrightarrow> map_of (g_nodes g) n \<noteq> None"
    and pause: "map_of (g_nodes g) n = Some f \<Longrightarrow> f resume st w = (Inr (Paused v), w') \<Longrightarrow>
      n \<in> gates \<and> resume = None"
    and unpack_pack: "g_unpack g (g_pack g st) = Some st"
begin

lemma walk_ends:
  "map_of (g_nodes g) n \<noteq> None \<Longrightarrow> rank n < k \<Longrightarrow> walk k g thread n resume st w \<noteq> None"
proof (induction k arbitrary: n resume st w)
  case 0
  then show ?case by simp
next
  case (Suc k)
  obtain f where f: "map_of (g_nodes g) n = Some f" using Suc.prems by auto
  obtain route where e: "map_of (g_edges g) n = Some route" using edge_node Suc.prems by blast
  have "walk k g thread n' None st' w1 \<noteq> None" if "route st' = Inr (Some n')" for n' st' w1
    using target [OF e that] Suc.prems(2) by (intro Suc.IH) auto
  with f e show ?case
    by (auto split: prod.split sum.split node_result.split option.split)
qed

text \<open>More fuel than an ended run needed changes nothing.\<close>

lemma walk_more: "walk k g thread n resume st w = Some out \<Longrightarrow> walk (k + j) g thread n resume st w = Some out"
proof (induction k arbitrary: n resume st w)
  case 0
  then show ?case by simp
next
  case (Suc k)
  then show ?case
    by (auto split: option.splits prod.splits sum.splits node_result.splits)
qed

lemma walk_fuel:
  assumes "map_of (g_nodes g) n \<noteq> None" and "rank n < k" and "k \<le> j"
  shows "walk j g thread n resume st w = walk k g thread n resume st w"
proof -
  obtain out where o: "walk k g thread n resume st w = Some out" using walk_ends [OF assms(1,2)] by blast
  from walk_more [OF o, of "j - k"] assms(3) o show ?thesis by simp
qed

text \<open>A pause leaves the thread at a gate, with the state the gate was given.\<close>

lemma walk_pauses:
  "walk k g thread n resume st w = Some (Inr (Interrupted v), w') \<Longrightarrow>
   \<exists>n' st'. n' \<in> gates \<and> dict_get (w_threads w') thread = Some (n', g_pack g st')"
proof (induction k arbitrary: n resume st w)
  case 0
  then show ?case by simp
next
  case (Suc k)
  then show ?case
    by (fastforce dest: pause split: option.splits prod.splits sum.splits node_result.splits)
qed

text \<open>A resumed run whose gate has no gate below it does not pause again.\<close>

lemma walk_resumed:
  assumes "\<forall>n' \<in> gates. rank n \<le> rank n'"
    and "walk k g thread n (Some d) st w = Some (Inr e, w')"
  shows "\<exists>st'. e = Finished st'"
proof -
  have low: "\<forall>n' \<in> gates. rank m < rank n' \<Longrightarrow> walk k g thread m None st w = Some (Inr (Interrupted v), w') \<Longrightarrow> False"
    for k m st w w' v
  proof (induction k arbitrary: m st w)
    case 0
    then show ?case by simp
  next
    case (Suc k)
    have "\<forall>n' \<in> gates. rank m' < rank n'"
      if "map_of (g_edges g) m = Some route" "route st' = Inr (Some m')" for m' route st'
      using target [OF that] Suc.prems(1) by auto
    with Suc show ?case
      by (fastforce dest: pause split: option.splits prod.splits sum.splits node_result.splits)
  qed
  have "\<forall>n' \<in> gates. rank m' < rank n'"
    if "map_of (g_edges g) n = Some route" "route st' = Inr (Some m')" for m' route st'
    using target [OF that] assms(1) by auto
  with assms(2) low show ?thesis
    by (cases k; cases e)
      (fastforce dest: pause split: option.splits prod.splits sum.splits node_result.splits)+
qed

lemma start_ends:
  assumes "rank (g_start g) < k"
  shows "walk_from k g thread (Fresh st) w \<noteq> None"
  using walk_ends [OF start_node assms] by (simp add: walk_from_def)

lemma resume_ends:
  assumes "n \<in> gates" and "rank n < k" and "dict_get (w_threads w) thread = Some (n, g_pack g st)"
  shows "walk_from k g thread (Resume d) w \<noteq> None"
  using walk_ends [OF gate_node [OF assms(1)] assms(2)] assms(3) by (simp add: walk_from_def unpack_pack)

end

section \<open>The three graphs\<close>

definition no_pause :: "'st node_result W \<Rightarrow> bool" where
  "no_pause m \<longleftrightarrow> (\<forall>w v w'. m w \<noteq> (Inr (Paused v), w'))"

lemma no_pause_rules [intro]:
  "no_pause (ret (Updated st))" "no_pause (raise e)"
  "(\<And>a. no_pause (k a)) \<Longrightarrow> no_pause (bindM m k)" "no_pause n \<Longrightarrow> no_pause (thenM m n)"
  by (auto simp: no_pause_def monad split: prod.splits sum.splits)

lemma no_pause_cases [intro]:
  "no_pause a \<Longrightarrow> no_pause b \<Longrightarrow> no_pause (if c then a else b)"
  "no_pause n \<Longrightarrow> (\<And>x. no_pause (s x)) \<Longrightarrow> no_pause (case opt of None \<Rightarrow> n | Some x \<Rightarrow> s x)"
  "(\<And>x y. no_pause (h x y)) \<Longrightarrow> no_pause (case p of (x, y) \<Rightarrow> h x y)"
  by (simp_all split: option.split prod.split)

lemma no_pauseD: "no_pause m \<Longrightarrow> m w \<noteq> (Inr (Paused v), w')"
  by (simp add: no_pause_def)

named_theorems graph "the graphs, their nodes' names and their edges"

lemmas coordination_names = approve_outbound_message_def
lemmas listing_names = approve_marketing_kind_def
lemmas vapi_names = notify_agent_kind_def approve_outbound_message_def

lemmas coordination_nodes = load_txn_def evaluate_milestones_def log_on_track_def draft_reminders_def
  send_reminders_def draft_reminder_email_def approve_reminder_email_def send_reminder_email_def
  dismiss_reminder_email_def escalate_def notify_def dismiss_def queue_vapi_call_def

lemmas coordination_routes = route_after_load_def route_by_severity_def route_after_escalation_def
  route_after_draft_email_def route_after_message_gate_def to_node_def to_end_def

lemmas listing_nodes = intake_def make_draft_def approve_marketing_def publish_tasks_def handle_rejection_def

lemmas listing_routes = route_after_intake_def route_after_approval_def to_node_def to_end_def

lemmas vapi_nodes = ingest_call_def extract_structured_def upsert_feedback_def sync_crm_def notify_agent_def
  create_hot_task_def finish_synced_def dismiss_hot_def draft_followup_email_def approve_followup_email_def
  send_followup_email_def dismiss_followup_email_def

lemmas vapi_routes = route_after_ingest_def route_after_sync_def route_after_notify_def
  route_after_followup_def route_after_followup_gate_def to_node_def to_end_def

text \<open>Which nodes pause: the gates, and only when they are not resumed.\<close>

lemma coordination_pauses:
  "no_pause (load_txn s r st)" "no_pause (evaluate_milestones s r st)" "no_pause (log_on_track r st)"
  "no_pause (draft_reminders s r st)" "no_pause (send_reminders s c r st)"
  "no_pause (draft_reminder_email s v r st)" "no_pause (send_reminder_email v r st)"
  "no_pause (dismiss_reminder_email v r st)" "no_pause (notify s c r st)" "no_pause (dismiss r st)"
  "no_pause (queue_vapi_call s r st)" "no_pause (escalate s (Some d) st)"
  "no_pause (approve_reminder_email v (Some d) st)"
  by (simp only: coordination_nodes Let_def option.case; intro no_pause_rules no_pause_cases)+

lemma listing_pauses:
  "no_pause (intake m r ls)" "no_pause (make_draft m r ls)" "no_pause (publish_tasks m c r ls)"
  "no_pause (handle_rejection r ls)" "no_pause (approve_marketing (Some d) ls)"
  by (simp only: listing_nodes Let_def option.case; intro no_pause_rules no_pause_cases)+

lemma vapi_pauses:
  "no_pause (ingest_call v f r vs)" "no_pause (extract_structured x r vs)" "no_pause (upsert_feedback f r vs)"
  "no_pause (sync_crm c r vs)" "no_pause (create_hot_task c r vs)" "no_pause (finish_synced r vs)"
  "no_pause (dismiss_hot r vs)" "no_pause (draft_followup_email c s r vs)"
  "no_pause (send_followup_email s r vs)" "no_pause (dismiss_followup_email s r vs)"
  "no_pause (notify_agent (Some d) vs)" "no_pause (approve_followup_email s (Some d) vs)"
  by (simp only: vapi_nodes Let_def option.case; intro no_pause_rules no_pause_cases)+

definition rank_in :: "(string \<times> nat) list \<Rightarrow> string \<Rightarrow> nat" where
  "rank_in ranks n = (case map_of ranks n of None \<Rightarrow> 0 | Some k \<Rightarrow> k)"

definition coordination_rank :: "string \<Rightarrow> nat" where
  "coordination_rank = rank_in
     [(''load_txn'', 6), (''evaluate_milestones'', 5), (''draft_reminders'', 4), (''send_reminders'', 3),
      (''draft_reminder_email'', 2), (approve_outbound_message, 1), (''escalate'', 1)]"

definition coordination_gates :: "string set" where
  "coordination_gates = {approve_outbound_message, ''escalate''}"

definition listing_rank :: "string \<Rightarrow> nat" where
  "listing_rank = rank_in [(''intake'', 3), (''make_draft'', 2), (approve_marketing_kind, 1)]"

definition vapi_rank :: "string \<Rightarrow> nat" where
  "vapi_rank = rank_in
     [(''ingest_call'', 6), (''extract_structured'', 5), (''upsert_feedback'', 4), (''sync_crm'', 3),
      (''draft_followup_email'', 2), (notify_agent_kind, 1), (approve_outbound_message, 1)]"

definition vapi_gates :: "string set" where
  "vapi_gates = {notify_agent_kind, approve_outbound_message}"

interpretation coordination: workflow "transaction_coordination store crm svc" coordination_rank coordination_gates
  for store crm svc
proof
  fix n route st n' f resume w v w'
  show "g_unpack (transaction_coordination store crm svc) (g_pack (transaction_coordination store crm svc) st) = Some st"
    by (simp add: transaction_coordination_def)
  show "map_of (g_nodes (transaction_coordination store crm svc)) (g_start (transaction_coordination store crm svc)) \<noteq> None"
    by (simp add: transaction_coordination_def)
  show "map_of (g_edges (transaction_coordination store crm svc)) n \<noteq> None"
    if "map_of (g_nodes (transaction_coordination store crm svc)) n \<noteq> None"
    using that by (auto simp: transaction_coordination_def coordination_names split: if_splits)
  show "map_of (g_nodes (transaction_coordination store crm svc)) n' \<noteq> None \<and>
      coordination_rank n' < coordination_rank n"
    if "map_of (g_edges (transaction_coordination store crm svc)) n = Some route" "route st = Inr (Some n')"
    using that
    by (auto simp: transaction_coordination_def coordination_names coordination_rank_def rank_in_def
        coordination_routes split: if_splits option.splits)
  show "map_of (g_nodes (transaction_coordination store crm svc)) n \<noteq> None" if "n \<in> coordination_gates"
    using that by (auto simp: transaction_coordination_def coordination_gates_def coordination_names)
  show "n \<in> coordination_gates \<and> resume = None"
    if "map_of (g_nodes (transaction_coordination store crm svc)) n = Some f"
      "f resume st w = (Inr (Paused v), w')"
    using that
    by (cases resume) (auto simp: transaction_coordination_def coordination_gates_def coordination_names
        dest!: coordination_pauses [THEN no_pauseD, THEN notE] split: if_splits)
qed

interpretation listing: workflow "listing_to_contract mls crm" listing_rank "{approve_marketing_kind}" for mls crm
proof
  fix n route st n' f resume w v w'
  show "g_unpack (listing_to_contract mls crm) (g_pack (listing_to_contract mls crm) st) = Some st"
    by (simp add: listing_to_contract_def)
  show "map_of (g_nodes (listing_to_contract mls crm)) (g_start (listing_to_contract mls crm)) \<noteq> None"
    by (simp add: listing_to_contract_def)
  show "map_of (g_edges (listing_to_contract mls crm)) n \<noteq> None"
    if "map_of (g_nodes (listing_to_contract mls crm)) n \<noteq> None"
    using that by (auto simp: listing_to_contract_def listing_names split: if_splits)
  show "map_of (g_nodes (listing_to_contract mls crm)) n' \<noteq> None \<and> listing_rank n' < listing_rank n"
    if "map_of (g_edges (listing_to_contract mls crm)) n = Some route" "route st = Inr (Some n')"
    using that
    by (auto simp: listing_to_contract_def listing_names listing_rank_def rank_in_def listing_routes
        split: if_splits option.splits)
  show "map_of (g_nodes (listing_to_contract mls crm)) n \<noteq> None" if "n \<in> {approve_marketing_kind}"
    using that by (auto simp: listing_to_contract_def listing_names)
  show "n \<in> {approve_marketing_kind} \<and> resume = None"
    if "map_of (g_nodes (listing_to_contract mls crm)) n = Some f" "f resume st w = (Inr (Paused v), w')"
    using that
    by (cases resume) (auto simp: listing_to_contract_def listing_names
        dest!: listing_pauses [THEN no_pauseD, THEN notE] split: if_splits)
qed

interpretation vapi: workflow "vapi_followup voice crm store extraction svc" vapi_rank vapi_gates
  for voice crm store extraction svc
proof
  fix n route st n' f resume w v w'
  let ?g = "vapi_followup voice crm store extraction svc"
  show "g_unpack ?g (g_pack ?g st) = Some st" by (simp add: vapi_followup_def)
  show "map_of (g_nodes ?g) (g_start ?g) \<noteq> None" by (simp add: vapi_followup_def)
  show "map_of (g_edges ?g) n \<noteq> None" if "map_of (g_nodes ?g) n \<noteq> None"
    using that by (auto simp: vapi_followup_def vapi_names split: if_splits)
  show "map_of (g_nodes ?g) n' \<noteq> None \<and> vapi_rank n' < vapi_rank n"
    if "map_of (g_edges ?g) n = Some route" "route st = Inr (Some n')"
    using that
    by (auto simp: vapi_followup_def vapi_names vapi_rank_def rank_in_def vapi_routes
        split: if_splits option.splits)
  show "map_of (g_nodes ?g) n \<noteq> None" if "n \<in> vapi_gates"
    using that by (auto simp: vapi_followup_def vapi_gates_def vapi_names)
  show "n \<in> vapi_gates \<and> resume = None"
    if "map_of (g_nodes ?g) n = Some f" "f resume st w = (Inr (Paused v), w')"
    using that
    by (cases resume) (auto simp: vapi_followup_def vapi_gates_def vapi_names
        dest!: vapi_pauses [THEN no_pauseD, THEN notE] split: if_splits)
qed

end
