(* ===== verification/Run_Frames.thy ===== *)
theory Run_Frames
  imports Graph_Runs
begin

text \<open>
  What a workflow run can do to the world through its wired ports, layer by layer. An invariant of
  the world that looks at none of a run's own books (clock, ids, ledger, idempotency rows, message,
  call and feedback rows, checkpoints) is kept by every layer of the seam; what is left to check is
  the external calls.
\<close>

section \<open>Invariants blind to a run's books\<close>

text \<open>
  \<open>ledgers\<close> looks at no record an operation writes on its way; \<open>books\<close> is also blind to the audit
  context and the idempotency rows, which the write seam needs, and \<open>run_books\<close> to the checkpoints,
  which the graphs write and the ports do not.
\<close>

locale ledgers =
  fixes I :: "world \<Rightarrow> bool"
  assumes reads: "I w \<Longrightarrow> I (w\<lparr>w_reads := r\<rparr>)"
    and uuids: "I w \<Longrightarrow> I (w\<lparr>w_uuids := u\<rparr>)"
    and ledger: "I w \<Longrightarrow> I (w\<lparr>w_ledger := l\<rparr>)"
    and messages: "I w \<Longrightarrow> I (w\<lparr>w_messages := ms\<rparr>)"
    and calls: "I w \<Longrightarrow> I (w\<lparr>w_calls := cs\<rparr>)"
    and feedback: "I w \<Longrightarrow> I (w\<lparr>w_feedback := fs\<rparr>)"
begin

lemma keeps_sources [intro]: "keeps I now_utc" "keeps I date_today" "keeps I uuid4_hex"
  by (auto simp: keeps_def now_utc_def date_today_def uuid4_hex_def intro: reads uuids)

lemma keeps_record [intro]: "keeps I (audit_record r)"
  unfolding audit_record_def by (intro keeps_modify ledger)

lemma keeps_tenancy [intro]: "keeps I require_tenant" "keeps I (enforce_tenant c)"
  by (simp_all add: keeps_def)

lemma keeps_context [intro]: "keeps I current_audit_context" "keeps I current_run_id"
  unfolding current_audit_context_def current_run_id_def by (auto intro!: keeps_rules)

lemma keeps_attempt [intro]: "keeps I (record_cross_tenant_attempt e tool)"
  unfolding record_cross_tenant_attempt_def Let_def
  by (intro keeps_bindM keeps_context keeps_sources) (auto split: prod.split)

lemma keeps_emit [intro]: "keeps I (emit i tool args out ext err)"
  unfolding emit_def by (intro keeps_bindM keeps_context keeps_sources keeps_record)

lemma keeps_recorded: "keeps I c \<Longrightarrow> keeps I (recorded i tool args c f)"
  unfolding recorded_def by (intro keeps_rules keeps_emit)

subsection \<open>The guard\<close>

lemma keeps_check: "keeps I (check_tenants tool mk ts)"
  unfolding check_tenants_def by (intro keeps_mapM keeps_rules keeps_tenancy keeps_attempt)

lemma keeps_authorize: "keeps I (authorize_args tool args)"
  unfolding authorize_args_def by (rule keeps_mapM) (auto intro: keeps_check)

lemma keeps_guarded: "keeps I body \<Longrightarrow> keeps I (guarded tool args enc scrub body)"
  unfolding guarded_def by (intro keeps_rules keeps_authorize keeps_check)

lemma keeps_guarded_call: "keeps I body \<Longrightarrow> keeps I (guarded_call tool r args body)"
  unfolding guarded_call_def filter_tool_response_def
  by (intro keeps_rules keeps_authorize keeps_check)

subsection \<open>Scoped reads and writes\<close>

lemma keeps_confine [intro]: "keeps I (confine_read tool f t row)"
  unfolding confine_read_def audit_foreign_def
  by (auto intro!: keeps_rules keeps_attempt split: option.split)

lemma keeps_refuse [intro]: "keeps I (refuse_foreign tool f t row)"
  unfolding refuse_foreign_def audit_foreign_def
  by (auto intro!: keeps_rules keeps_attempt split: option.split)

lemma keeps_enforce_audited [intro]: "keeps I (enforce_audited tool c)"
  unfolding enforce_audited_def by (intro keeps_rules keeps_tenancy keeps_attempt)

lemma keeps_raw_reads:
  assumes "s = sql_stores \<or> s = mem_stores"
  shows "keeps I (tb_get (sb_transactions s) i)" "keeps I (tb_list_milestones (sb_transactions s) i)"
    "keeps I (tb_get_milestone (sb_transactions s) i)"
    "keeps I (mb_get (sb_messages s) i)" "keeps I (fbk_get_call (sb_feedback s) i)"
    "keeps I (fbk_get (sb_feedback s) i)" "keeps I (ab_get (sb_approvals s) i)"
  using assms
  by (auto simp: sql_stores_def mem_stores_def sql_transactions_def mem_transactions_def sql_messages_def
      mem_messages_def sql_feedback_def mem_feedback_def sql_approvals_def mem_approvals_def
      sql_get_transaction_def mem_get_transaction_def sql_list_milestones_def mem_list_milestones_def
      sql_get_milestone_def mem_get_milestone_def sql_get_message_def mem_get_message_def
      sql_get_call_record_def mem_get_call_record_def sql_get_feedback_def mem_get_feedback_def
      sql_get_approval_def mem_get_approval_def)

lemma keeps_raw_writes:
  assumes "s = sql_stores \<or> s = mem_stores"
  shows "keeps I (mb_save (sb_messages s) m)" "keeps I (fbk_save_call (sb_feedback s) c)"
    "keeps I (fbk_upsert (sb_feedback s) f)"
  using assms
  by (auto simp: sql_stores_def mem_stores_def sql_messages_def mem_messages_def sql_feedback_def
      mem_feedback_def sql_save_message_def mem_save_message_def sql_save_call_record_def
      mem_save_call_record_def sql_upsert_feedback_def mem_upsert_feedback_def
      intro!: keeps_rules keeps_modify messages calls feedback)

subsection \<open>The wired ports\<close>

lemma keeps_transaction_port:
  assumes "is_deployment d"
  shows "keeps I (tb_get (transaction_port d) i)" "keeps I (tb_list_milestones (transaction_port d) i)"
  using assms keeps_raw_reads(1,2)
  by (auto simp: is_deployment_def transaction_port_def guarded_transactions_def scoped_transactions_def
      scoped_get_transaction_def scoped_list_milestones_def
      intro!: keeps_guarded keeps_bindM keeps_tenancy)

lemma keeps_feedback_port:
  assumes "is_deployment d"
  shows "keeps I (fbk_save_call (feedback_port d) c)" "keeps I (fbk_get_call (feedback_port d) i)"
    "keeps I (fbk_upsert (feedback_port d) f)"
  using assms keeps_raw_reads(5,6) keeps_raw_writes(2,3)
  by (auto simp: is_deployment_def feedback_port_def guarded_feedback_def scoped_feedback_def
      scoped_save_call_record_def scoped_get_call_record_def scoped_upsert_feedback_def
      intro!: keeps_guarded keeps_rules keeps_tenancy)

lemma keeps_service_store:
  assumes "is_deployment d"
  shows "keeps I (mb_get (sv_store (message_service d)) i)" "keeps I (mb_save (sv_store (message_service d)) m)"
  using assms keeps_raw_reads(4) keeps_raw_writes(1)
  by (auto simp: is_deployment_def message_service_def wired_service_def scoped_messages_def
      scoped_get_message_def scoped_save_message_def intro!: keeps_rules keeps_tenancy)

lemma keeps_answer [intro]:
  "keeps I (as_str r)" "keeps I (as_contact r)" "keeps I (as_task r)" "keeps I (as_call r)"
  "keeps I (as_listing r)" "keeps I (as_drafted r)" "keeps I (as_extracted r)"
  by (simp_all add: keeps_def)

lemma keeps_engine_mls:
  "keeps I (ext_call (MlsGetListing key)) \<Longrightarrow> keeps I (mp_get_listing engine_mls key)"
  by (auto simp: engine_mls_def guarded_mls_def raw_mls_def intro!: keeps_guarded keeps_bindM)

lemma keeps_extraction:
  assumes "is_deployment d" and "keeps I (ext_call (ExtractFeedback s))"
  shows "keeps I (dp_extraction d s)"
  using assms
  by (auto simp: is_deployment_def deterministic_extractor_def llm_extractor_def intro!: keeps_bindM)

lemma keeps_draft:
  assumes d: "is_deployment d" and "keeps I (ext_call (DraftMessage c))"
  shows "keeps I (draft_for_approval (message_service d) c)"
proof -
  have dr: "keeps I (dp_drafter d c)"
    using assms by (auto simp: is_deployment_def deterministic_drafter_def llm_drafter_def intro!: keeps_bindM)
  have "sv_drafting (message_service d) = Some (dp_drafter d)"
    by (simp add: message_service_def wired_service_def)
  then show ?thesis
    unfolding draft_for_approval_def draft_id_def Let_def
    by (auto intro!: keeps_rules keeps_sources keeps_context keeps_service_store [OF d] dr split: option.split)
qed

lemma keeps_reject:
  "is_deployment d \<Longrightarrow> keeps I (mark_rejected (message_service d) i)"
  unfolding mark_rejected_def Let_def
  by (auto intro!: keeps_rules keeps_service_store split: option.split)

end

locale books = ledgers +
  assumes audit: "I w \<Longrightarrow> I (w\<lparr>w_audit := a\<rparr>)"
    and idem: "I w \<Longrightarrow> I (w\<lparr>w_idem := d\<rparr>)"
begin

lemma keeps_scope:
  assumes "keeps I body"
  shows "keeps I (audit_scope c body)"
proof (rule keepsI)
  fix w assume "I w"
  with assms audit show "I (snd (audit_scope c body w))"
    by (auto simp: keeps_def audit_scope_def split: prod.split) (metis snd_conv)
qed

subsection \<open>The idempotency layer\<close>

lemma keeps_begin [intro]: "keeps I (ib_begin mem_idempotency k)" "keeps I (ib_begin sql_idempotency k)"
  by (auto simp: keeps_def mem_idempotency_def mem_begin_def sql_idempotency_def sql_begin_def
      intro: idem split: option.splits)

lemma keeps_complete [intro]:
  "keeps I (ib_complete mem_idempotency k v)" "keeps I (ib_complete sql_idempotency k v)"
  by (auto simp: mem_idempotency_def mem_complete_def sql_idempotency_def sql_complete_def
      intro!: keeps_modify idem)

lemma keeps_deduped:
  assumes "ib = sql_idempotency \<or> ib = mem_idempotency" and "keeps I c"
  shows "keeps I (deduped ib tool args load dump c)"
proof -
  have b: "keeps I (ib_begin ib k)" and k: "keeps I (ib_complete ib k v)" for k v
    using assms(1) by auto
  have cl: "keeps I (claim ib tool args)"
    unfolding claim_def by (auto intro!: keeps_rules keeps_context b split: option.split)
  have "keeps I (perform ib key dump c)" for key
    unfolding perform_def record_result_def
    by (intro keeps_rules assms(2)) (auto intro: k split: option.split)
  then show ?thesis
    unfolding deduped_def require_result_def
    by (auto intro!: keeps_bindM [OF cl] keeps_bindM split: option.split)
qed

lemma deployment_idempotency:
  "is_deployment d \<Longrightarrow> dp_idempotency d = sql_idempotency \<or> dp_idempotency d = mem_idempotency"
  by (auto simp: is_deployment_def)

lemma keeps_engine_crm:
  assumes "is_deployment d"
  shows "keeps I (ext_call (CrmGetContact i)) \<Longrightarrow> keeps I (cp_get_contact (engine_crm d) i)"
    and "keeps I (ext_call (CrmAddNote c s b)) \<Longrightarrow> keeps I (cp_add_note (engine_crm d) c s b)"
    and "keeps I (ext_call (CrmCreateTask n t x)) \<Longrightarrow> keeps I (cp_create_task (engine_crm d) n t x)"
    and "keeps I (ext_call (CrmLogCall c out s secs)) \<Longrightarrow> keeps I (cp_log_call (engine_crm d) c out s secs)"
  using deployment_idempotency [OF assms]
  by (auto simp: engine_crm_def guarded_crm_def seam_ports_def idempotent_ports_def idempotent_crm_def
      recording_ports_def recording_crm_def raw_ports_def raw_crm_def
      intro!: keeps_guarded keeps_deduped keeps_recorded keeps_bindM)

lemma keeps_engine_voice:
  "keeps I (ext_call (VoiceGetCall i)) \<Longrightarrow> keeps I (vp_get_call (engine_voice d) i)"
  by (auto simp: engine_voice_def guarded_voice_def seam_ports_def idempotent_ports_def
      idempotent_voice_def recording_ports_def recording_voice_def raw_ports_def raw_voice_def
      intro!: keeps_guarded keeps_bindM)

lemma keeps_send_approved:
  assumes d: "is_deployment d" and "\<And>m. keeps I (ext_call (EmailSend m))" and "\<And>m. keeps I (ext_call (SmsSend m))"
  shows "keeps I (send_approved (message_service d) i subject body)"
proof -
  have e: "keeps I (sp_send (seam_email (dp_idempotency d)) m)"
      "keeps I (sp_send (seam_sms (dp_idempotency d)) m)" for m
    using deployment_idempotency [OF d] assms(2,3)
    by (auto simp: seam_email_def seam_sms_def guarded_send_def idempotent_email_def idempotent_sms_def
        recording_email_def recording_sms_def raw_email_def raw_sms_def
        intro!: keeps_rules keeps_guarded_call keeps_deduped keeps_recorded split: payload.split)
  have p: "port_for (message_service d) ch = ret (if ch = Email then seam_email (dp_idempotency d)
      else seam_sms (dp_idempotency d))" for ch
    by (cases ch) (simp_all add: port_for_def message_service_def wired_service_def)
  have dl: "keeps I (deliver (message_service d) (seam_email (dp_idempotency d)) m)"
      "keeps I (deliver (message_service d) (seam_sms (dp_idempotency d)) m)" for m
    unfolding deliver_def Let_def
    by (auto intro!: keeps_rules keeps_sources keeps_service_store [OF d] e split: option.split)
  show ?thesis
    unfolding send_approved_def Let_def p bindM_ret
    by (auto intro!: keeps_rules keeps_service_store [OF d] dl split: option.split)
qed

end

locale run_books = books +
  assumes threads: "I w \<Longrightarrow> I (w\<lparr>w_threads := th\<rparr>)"

end
