(* ===== verification/Run_Effects.thy ===== *)
theory Run_Effects
  imports Run_Frames
begin

text \<open>
  The effects of the three graphs before and after the human decision, for every invariant of
  \<open>run_books\<close>: each walk keeps it when the external calls it can make do.
\<close>

section \<open>Nodes and edges by name\<close>

definition coordination_edges :: "(string \<times> string) set" where
  "coordination_edges =
     {(''load_txn'', ''evaluate_milestones''), (''evaluate_milestones'', ''escalate''),
      (''evaluate_milestones'', ''draft_reminders''), (''evaluate_milestones'', ''queue_vapi_call''),
      (''evaluate_milestones'', ''log_on_track''), (''draft_reminders'', ''send_reminders''),
      (''send_reminders'', ''draft_reminder_email''), (''draft_reminder_email'', approve_outbound_message),
      (approve_outbound_message, ''send_reminder_email''), (approve_outbound_message, ''dismiss_reminder_email''),
      (''escalate'', ''notify''), (''escalate'', ''dismiss'')}"

lemma coordination_edge:
  "map_of (g_edges (transaction_coordination s c v)) n = Some route \<Longrightarrow> route st = Inr (Some n') \<Longrightarrow>
   (n, n') \<in> coordination_edges"
  by (auto simp: transaction_coordination_def coordination_edges_def coordination_routes
      split: if_splits option.splits)

definition listing_edges :: "(string \<times> string) set" where
  "listing_edges =
     {(''intake'', ''make_draft''), (''make_draft'', approve_marketing_kind),
      (approve_marketing_kind, ''publish_tasks''), (approve_marketing_kind, ''handle_rejection'')}"

lemma listing_edge:
  "map_of (g_edges (listing_to_contract m c)) n = Some route \<Longrightarrow> route st = Inr (Some n') \<Longrightarrow>
   (n, n') \<in> listing_edges"
  by (auto simp: listing_to_contract_def listing_edges_def listing_routes
      split: if_splits option.splits)

definition vapi_edges :: "(string \<times> string) set" where
  "vapi_edges =
     {(''ingest_call'', ''extract_structured''), (''extract_structured'', ''upsert_feedback''),
      (''upsert_feedback'', ''sync_crm''), (''sync_crm'', notify_agent_kind),
      (''sync_crm'', ''draft_followup_email''), (''draft_followup_email'', approve_outbound_message),
      (''draft_followup_email'', ''finish_synced''), (notify_agent_kind, ''create_hot_task''),
      (notify_agent_kind, ''dismiss_hot''), (approve_outbound_message, ''send_followup_email''),
      (approve_outbound_message, ''dismiss_followup_email'')}"

lemma vapi_edge:
  "map_of (g_edges (vapi_followup v c f x s)) n = Some route \<Longrightarrow> route st = Inr (Some n') \<Longrightarrow>
   (n, n') \<in> vapi_edges"
  by (auto simp: vapi_followup_def vapi_edges_def vapi_routes split: if_splits option.splits)

lemma node_names:
  "approve_outbound_message \<noteq> ''send_reminders''" "approve_outbound_message \<noteq> ''escalate''"
  "approve_outbound_message \<noteq> notify_agent_kind"
  by (simp_all add: approve_outbound_message_def notify_agent_kind_def)

text \<open>A gate that is given a decision keeps it in its state.\<close>

lemma gates_record:
  "escalate store (Some d) st w = (Inr (Updated st'), w') \<Longrightarrow> cs_escalation_approval st' = Some (outcome_of d)"
  "approve_reminder_email svc (Some d) st w = (Inr (Updated st'), w') \<Longrightarrow>
     cs_reminder_approval st' = Some (outcome_of d)"
  "approve_marketing (Some d) ls w = (Inr (Updated ls'), w') \<Longrightarrow> ls_approval ls' = Some (outcome_of d)"
  "notify_agent (Some d) vs w = (Inr (Updated vs'), w') \<Longrightarrow> vs_hot_approval vs' = Some (outcome_of d)"
  "approve_followup_email svc (Some d) vs w = (Inr (Updated vs'), w') \<Longrightarrow>
     vs_followup_approval vs' = Some (outcome_of d)"
  by (auto simp: escalate_def approve_reminder_email_def approve_marketing_def notify_agent_def
      approve_followup_email_def monad Let_def split: prod.splits sum.splits option.splits if_splits)

lemma gates_wait:
  "approve_reminder_email svc None st w \<noteq> (Inr (Updated st'), w')"
  "escalate store None st w \<noteq> (Inr (Updated st'), w')"
  "approve_marketing None ls w \<noteq> (Inr (Updated ls'), w')"
  "notify_agent None vs w \<noteq> (Inr (Updated vs'), w')"
  "approve_followup_email svc None vs w \<noteq> (Inr (Updated vs'), w')"
  by (auto simp: approve_reminder_email_def escalate_def approve_marketing_def notify_agent_def
      approve_followup_email_def monad split: prod.splits sum.splits option.splits)

context run_books
begin

section \<open>transaction_coordination\<close>

lemma keeps_lookups:
  assumes "is_deployment d"
  shows "keeps I (need_transaction (transaction_port d) st)" "keeps I (milestones_in (transaction_port d) st c)"
  unfolding need_transaction_def milestones_in_def Let_def
  by (auto intro!: keeps_rules keeps_transaction_port [OF assms] split: option.split)

lemma reminders_drafted:
  "draft_reminders s r st w = (Inr (Updated st'), w') \<Longrightarrow> \<forall>t \<in> set (cs_reminders st'). startswith t ''Reminder: ''"
  by (auto simp: draft_reminders_def monad draft_milestone_reminder_def startswith_iff
      split: prod.splits sum.splits)

text \<open>What holds of the node about to run before a decision is given.\<close>

definition coordination_draft :: "string \<Rightarrow> approval_decision option \<Rightarrow> coordination_state \<Rightarrow> bool" where
  "coordination_draft n resume st \<longleftrightarrow> resume = None \<and>
     n \<in> {''load_txn'', ''evaluate_milestones'', ''log_on_track'', ''draft_reminders'', ''send_reminders'',
          ''draft_reminder_email'', approve_outbound_message, ''escalate'', ''queue_vapi_call''} \<and>
     (n = ''send_reminders'' \<longrightarrow> (\<forall>t \<in> set (cs_reminders st). startswith t ''Reminder: ''))"

lemma keeps_send_reminders:
  assumes d: "is_deployment d"
    and task: "\<And>text t. startswith text ''Reminder: '' \<Longrightarrow> keeps I (ext_call (CrmCreateTask text t None))"
    and st: "\<forall>t \<in> set (cs_reminders st). startswith t ''Reminder: ''"
  shows "keeps I (send_reminders (transaction_port d) (engine_crm d) r st)"
proof -
  have "keeps I (mapM (\<lambda>(text, m, _). bindM (cp_create_task (engine_crm d) text (ms_due_date m) None)
      (\<lambda>t. ret (tk_id t))) (zip (cs_reminders st) ms))" for ms
    using st
    by (intro keeps_mapM) (auto dest!: set_zip_leftD intro!: keeps_rules keeps_engine_crm [OF d] task)
  then show ?thesis
    unfolding send_reminders_def by (auto intro!: keeps_bindM keeps_lookups [OF d])
qed

lemma coordination_quiet_nodes:
  assumes d: "is_deployment d" and draft: "\<And>c. keeps I (ext_call (DraftMessage c))"
  shows "keeps I (load_txn (transaction_port d) r st)" "keeps I (evaluate_milestones (transaction_port d) r st)"
    "keeps I (log_on_track r st)" "keeps I (draft_reminders (transaction_port d) r st)"
    "keeps I (draft_reminder_email (transaction_port d) (message_service d) r st)"
    "keeps I (queue_vapi_call (transaction_port d) r st)"
  unfolding coordination_nodes Let_def
  by (auto intro!: keeps_rules keeps_lookups [OF d] keeps_transaction_port [OF d] keeps_sources
      keeps_draft [OF d draft] split: option.split)

lemma coordination_gate_nodes:
  assumes d: "is_deployment d"
  shows "keeps I (approve_reminder_email (message_service d) r st)" "keeps I (escalate (transaction_port d) r st)"
    "keeps I (dismiss r st)" "keeps I (dismiss_reminder_email (message_service d) r st)"
  unfolding coordination_nodes Let_def service_get_message_def
  by (auto intro!: keeps_rules keeps_lookups [OF d] keeps_service_store [OF d] keeps_reject [OF d]
      split: option.split prod.split)

lemma coordination_fresh:
  assumes d: "is_deployment d"
    and task: "\<And>text t. startswith text ''Reminder: '' \<Longrightarrow> keeps I (ext_call (CrmCreateTask text t None))"
    and draft: "\<And>c. keeps I (ext_call (DraftMessage c))"
    and run: "walk k (coordination_graph d) thread ''load_txn'' None st w = Some (out, w')" and w: "I w"
  shows "I w'"
proof (rule walk_rule [OF run, of coordination_draft I])
  show "coordination_draft ''load_txn'' None st" by (simp add: coordination_draft_def)
  show "I w" by (rule w)
  show "I (v\<lparr>w_threads := th\<rparr>)" if "I v" for v th using that by (rule threads)
next
  fix n resume st f v res v'
  assume P: "coordination_draft n resume st" and I: "I v"
    and f: "map_of (g_nodes (coordination_graph d)) n = Some f" and r: "f resume st v = (res, v')"
  have in_nodes: "(n, f) \<in> set (g_nodes (coordination_graph d))" using f by (rule map_of_SomeD)
  have K: "keeps I (f resume st)"
    using P in_nodes coordination_quiet_nodes [OF d draft] coordination_gate_nodes [OF d]
      keeps_send_reminders [OF d task]
    by (auto simp: coordination_draft_def coordination_graph_def transaction_coordination_def coordination_names)
  have "coordination_draft n' None st'"
    if u: "res = Inr (Updated st')" and e: "map_of (g_edges (coordination_graph d)) n = Some route"
      and t: "route st' = Inr (Some n')" for st' route n'
  proof -
    have edge: "(n, n') \<in> coordination_edges"
      using coordination_edge [OF e [unfolded coordination_graph_def] t] .
    have none: "resume = None" using P by (simp add: coordination_draft_def)
    have "n \<noteq> approve_outbound_message"
    proof
      assume "n = approve_outbound_message"
      with f have "f = approve_reminder_email (message_service d)"
        by (simp add: coordination_graph_def transaction_coordination_def coordination_names)
      with r u none gates_wait(1) show False by blast
    qed
    moreover have "n \<noteq> ''escalate''"
    proof
      assume "n = ''escalate''"
      with f have "f = escalate (transaction_port d)"
        by (simp add: coordination_graph_def transaction_coordination_def coordination_names)
      with r u none gates_wait(2) show False by blast
    qed
    moreover
    have "\<forall>t \<in> set (cs_reminders st'). startswith t ''Reminder: ''" if "n = ''draft_reminders''"
      using f r u that reminders_drafted [of "transaction_port d"]
      by (simp add: coordination_graph_def transaction_coordination_def coordination_names)
    ultimately show ?thesis
      using edge node_names by (auto simp: coordination_draft_def coordination_edges_def)
  qed
  with keepsD [OF K I r] show "I v' \<and> (\<forall>st' route n'. res = Inr (Updated st') \<longrightarrow>
      map_of (g_edges (coordination_graph d)) n = Some route \<longrightarrow> route st' = Inr (Some n') \<longrightarrow>
      coordination_draft n' None st')" by blast
qed

definition coordination_refused :: "approval_decision \<Rightarrow> string \<Rightarrow> approval_decision option \<Rightarrow> coordination_state \<Rightarrow> bool" where
  "coordination_refused d n resume st \<longleftrightarrow>
     n \<in> coordination_gates \<and> resume = Some d \<or> n = ''dismiss'' \<or> n = ''dismiss_reminder_email''"

lemma coordination_rejected:
  assumes d: "is_deployment d" and dec: "dec_decision dec \<noteq> ApApproved" and n: "n \<in> coordination_gates"
    and run: "walk k (coordination_graph d) thread n (Some dec) st w = Some (out, w')" and w: "I w"
  shows "I w'"
proof (rule walk_rule [OF run, of "coordination_refused dec" I])
  show "coordination_refused dec n (Some dec) st" using n by (simp add: coordination_refused_def)
  show "I w" by (rule w)
  show "I (v\<lparr>w_threads := th\<rparr>)" if "I v" for v th using that by (rule threads)
next
  fix n resume st f v res v'
  assume P: "coordination_refused dec n resume st" and I: "I v"
    and f: "map_of (g_nodes (coordination_graph d)) n = Some f" and r: "f resume st v = (res, v')"
  note nodes = coordination_graph_def transaction_coordination_def coordination_names
  have K: "keeps I (f resume st)"
    using P f coordination_gate_nodes [OF d]
    by (auto simp: coordination_refused_def coordination_gates_def nodes)
  have "coordination_refused dec n' None st'"
    if u: "res = Inr (Updated st')" and e: "map_of (g_edges (coordination_graph d)) n = Some route"
      and t: "route st' = Inr (Some n')" for st' route n'
  proof -
    consider "n = ''escalate''" "resume = Some dec" | "n = approve_outbound_message" "resume = Some dec"
      | "n = ''dismiss''" | "n = ''dismiss_reminder_email''"
      using P by (auto simp: coordination_refused_def coordination_gates_def)
    then show ?thesis
    proof cases
      case 1
      from f 1(1) have "f = escalate (transaction_port d)" by (simp add: nodes)
      with r u 1(2) gates_record(1) have "cs_escalation_approval st' = Some (outcome_of dec)" by blast
      with 1 e t dec show ?thesis
        by (simp add: nodes route_after_escalation_def outcome_of_def coordination_refused_def)
    next
      case 2
      from f 2(1) have "f = approve_reminder_email (message_service d)" by (simp add: nodes)
      with r u 2(2) gates_record(2) have "cs_reminder_approval st' = Some (outcome_of dec)" by blast
      with 2 e t dec show ?thesis
        by (simp add: nodes route_after_message_gate_def outcome_of_def coordination_refused_def)
    next
      case 3
      with e t show ?thesis by (simp add: nodes to_end_def)
    next
      case 4
      with e t show ?thesis by (simp add: nodes to_end_def)
    qed
  qed
  with keepsD [OF K I r] show "I v' \<and> (\<forall>st' route n'. res = Inr (Updated st') \<longrightarrow>
      map_of (g_edges (coordination_graph d)) n = Some route \<longrightarrow> route st' = Inr (Some n') \<longrightarrow>
      coordination_refused dec n' None st')" by blast
qed

section \<open>listing_to_contract\<close>

definition listing_draft :: "string \<Rightarrow> approval_decision option \<Rightarrow> listing_state \<Rightarrow> bool" where
  "listing_draft n resume st \<longleftrightarrow> resume = None \<and> n \<in> {''intake'', ''make_draft'', approve_marketing_kind}"

lemma listing_fresh:
  assumes mls: "\<And>key. keeps I (ext_call (MlsGetListing key))"
    and run: "walk k (listing_graph d) thread ''intake'' None st w = Some (out, w')" and w: "I w"
  shows "I w'"
proof (rule walk_rule [OF run, of listing_draft I])
  show "listing_draft ''intake'' None st" by (simp add: listing_draft_def)
  show "I w" by (rule w)
  show "I (v\<lparr>w_threads := th\<rparr>)" if "I v" for v th using that by (rule threads)
next
  fix n resume st f v res v'
  assume P: "listing_draft n resume st" and I: "I v"
    and f: "map_of (g_nodes (listing_graph d)) n = Some f" and r: "f resume st v = (res, v')"
  note nodes = listing_graph_def listing_to_contract_def listing_names
  have kn: "keeps I (intake engine_mls r st)" "keeps I (make_draft engine_mls r st)" "keeps I (approve_marketing r st)" for r st
    unfolding listing_nodes Let_def
    by (auto intro!: keeps_rules keeps_engine_mls mls split: option.split)
  have K: "keeps I (f resume st)"
    using P f kn by (auto simp: listing_draft_def nodes)
  have "listing_draft n' None st'"
    if u: "res = Inr (Updated st')" and e: "map_of (g_edges (listing_graph d)) n = Some route"
      and t: "route st' = Inr (Some n')" for st' route n'
  proof -
    have "n \<noteq> approve_marketing_kind"
    proof
      assume "n = approve_marketing_kind"
      with f have "f = approve_marketing" by (simp add: nodes)
      with r u P gates_wait(3) show False by (auto simp: listing_draft_def)
    qed
    with listing_edge [OF e [unfolded listing_graph_def] t] P show ?thesis
      by (auto simp: listing_draft_def listing_edges_def)
  qed
  with keepsD [OF K I r] show "I v' \<and> (\<forall>st' route n'. res = Inr (Updated st') \<longrightarrow>
      map_of (g_edges (listing_graph d)) n = Some route \<longrightarrow> route st' = Inr (Some n') \<longrightarrow>
      listing_draft n' None st')" by blast
qed

definition listing_refused :: "approval_decision \<Rightarrow> string \<Rightarrow> approval_decision option \<Rightarrow> listing_state \<Rightarrow> bool" where
  "listing_refused d n resume st \<longleftrightarrow>
     n = approve_marketing_kind \<and> resume = Some d \<or> n = ''handle_rejection''"

lemma listing_rejected:
  assumes dec: "dec_decision dec \<noteq> ApApproved"
    and run: "walk k (listing_graph d) thread approve_marketing_kind (Some dec) st w = Some (out, w')" and w: "I w"
  shows "I w'"
proof (rule walk_rule [OF run, of "listing_refused dec" I])
  show "listing_refused dec approve_marketing_kind (Some dec) st" by (simp add: listing_refused_def)
  show "I w" by (rule w)
  show "I (v\<lparr>w_threads := th\<rparr>)" if "I v" for v th using that by (rule threads)
next
  fix n resume st f v res v'
  assume P: "listing_refused dec n resume st" and I: "I v"
    and f: "map_of (g_nodes (listing_graph d)) n = Some f" and r: "f resume st v = (res, v')"
  note nodes = listing_graph_def listing_to_contract_def listing_names
  have kn: "keeps I (approve_marketing r st)" "keeps I (handle_rejection r st)" for r st
    unfolding listing_nodes Let_def by (auto intro!: keeps_rules split: option.split)
  have K: "keeps I (f resume st)"
    using P f kn by (auto simp: listing_refused_def nodes)
  have "listing_refused dec n' None st'"
    if u: "res = Inr (Updated st')" and e: "map_of (g_edges (listing_graph d)) n = Some route"
      and t: "route st' = Inr (Some n')" for st' route n'
  proof (cases "n = approve_marketing_kind")
    case True
    with P f r u gates_record(3) have "ls_approval st' = Some (outcome_of dec)"
      by (auto simp: nodes listing_refused_def)
    with True e t dec show ?thesis
      by (simp add: nodes route_after_approval_def outcome_of_def listing_refused_def)
  next
    case False
    with P e t show ?thesis by (simp add: nodes to_end_def listing_refused_def)
  qed
  with keepsD [OF K I r] show "I v' \<and> (\<forall>st' route n'. res = Inr (Updated st') \<longrightarrow>
      map_of (g_edges (listing_graph d)) n = Some route \<longrightarrow> route st' = Inr (Some n') \<longrightarrow>
      listing_refused dec n' None st')" by blast
qed

section \<open>vapi_followup\<close>

lemma vapi_sync_nodes:
  assumes d: "is_deployment d" and "\<And>i. keeps I (ext_call (VoiceGetCall i))"
    and "\<And>s. keeps I (ext_call (ExtractFeedback s))" and "\<And>c s b. keeps I (ext_call (CrmAddNote c s b))"
    and "\<And>c o' s secs. keeps I (ext_call (CrmLogCall c o' s secs))"
    and "\<And>i. keeps I (ext_call (CrmGetContact i))" and "\<And>c. keeps I (ext_call (DraftMessage c))"
  shows "keeps I (ingest_call (engine_voice d) (feedback_port d) r st)"
    "keeps I (extract_structured (dp_extraction d) r st)" "keeps I (upsert_feedback (feedback_port d) r st)"
    "keeps I (sync_crm (engine_crm d) r st)" "keeps I (draft_followup_email (engine_crm d) (message_service d) r st)"
  unfolding vapi_nodes Let_def validated_def
  by (auto intro!: keeps_rules keeps_sources keeps_feedback_port [OF d] keeps_engine_voice
      keeps_extraction [OF d] keeps_engine_crm [OF d] keeps_draft [OF d] assms(2-)
      split: option.split prod.split)

lemma vapi_gate_nodes:
  assumes d: "is_deployment d"
  shows "keeps I (notify_agent r st)" "keeps I (approve_followup_email (message_service d) r st)"
    "keeps I (finish_synced r st)" "keeps I (dismiss_hot r st)"
    "keeps I (dismiss_followup_email (message_service d) r st)"
  unfolding vapi_nodes Let_def validated_def service_get_message_def
  by (auto intro!: keeps_rules keeps_service_store [OF d] keeps_reject [OF d] split: option.split prod.split)

definition vapi_draft :: "string \<Rightarrow> approval_decision option \<Rightarrow> vapi_state \<Rightarrow> bool" where
  "vapi_draft n resume st \<longleftrightarrow> resume = None \<and>
     n \<in> {''ingest_call'', ''extract_structured'', ''upsert_feedback'', ''sync_crm'', notify_agent_kind,
          ''draft_followup_email'', approve_outbound_message, ''finish_synced''}"

lemma vapi_fresh:
  assumes d: "is_deployment d" and calls: "\<And>i. keeps I (ext_call (VoiceGetCall i))"
    "\<And>s. keeps I (ext_call (ExtractFeedback s))" "\<And>c s b. keeps I (ext_call (CrmAddNote c s b))"
    "\<And>c o' s secs. keeps I (ext_call (CrmLogCall c o' s secs))"
    "\<And>i. keeps I (ext_call (CrmGetContact i))" "\<And>c. keeps I (ext_call (DraftMessage c))"
    and run: "walk k (vapi_graph d) thread ''ingest_call'' None st w = Some (out, w')" and w: "I w"
  shows "I w'"
proof (rule walk_rule [OF run, of vapi_draft I])
  show "vapi_draft ''ingest_call'' None st" by (simp add: vapi_draft_def)
  show "I w" by (rule w)
  show "I (v\<lparr>w_threads := th\<rparr>)" if "I v" for v th using that by (rule threads)
next
  fix n resume st f v res v'
  assume P: "vapi_draft n resume st" and I: "I v"
    and f: "map_of (g_nodes (vapi_graph d)) n = Some f" and r: "f resume st v = (res, v')"
  note nodes = vapi_graph_def vapi_followup_def vapi_names
  have K: "keeps I (f resume st)"
    using P f vapi_sync_nodes [OF d calls] vapi_gate_nodes [OF d]
    by (auto simp: vapi_draft_def nodes)
  have none: "resume = None" using P by (simp add: vapi_draft_def)
  have "vapi_draft n' None st'"
    if u: "res = Inr (Updated st')" and e: "map_of (g_edges (vapi_graph d)) n = Some route"
      and t: "route st' = Inr (Some n')" for st' route n'
  proof -
    have "n \<noteq> notify_agent_kind"
    proof
      assume "n = notify_agent_kind"
      with f have "f = notify_agent" by (simp add: nodes)
      with r u none gates_wait(4) show False by blast
    qed
    moreover have "n \<noteq> approve_outbound_message"
    proof
      assume "n = approve_outbound_message"
      with f have "f = approve_followup_email (message_service d)" by (simp add: nodes)
      with r u none gates_wait(5) show False by blast
    qed
    ultimately show ?thesis
      using vapi_edge [OF e [unfolded vapi_graph_def] t] P by (auto simp: vapi_draft_def vapi_edges_def)
  qed
  with keepsD [OF K I r] show "I v' \<and> (\<forall>st' route n'. res = Inr (Updated st') \<longrightarrow>
      map_of (g_edges (vapi_graph d)) n = Some route \<longrightarrow> route st' = Inr (Some n') \<longrightarrow>
      vapi_draft n' None st')" by blast
qed

definition vapi_refused :: "approval_decision \<Rightarrow> string \<Rightarrow> approval_decision option \<Rightarrow> vapi_state \<Rightarrow> bool" where
  "vapi_refused d n resume st \<longleftrightarrow>
     n \<in> vapi_gates \<and> resume = Some d \<or> n = ''dismiss_hot'' \<or> n = ''dismiss_followup_email''"

lemma vapi_rejected:
  assumes d: "is_deployment d" and dec: "dec_decision dec \<noteq> ApApproved" and n: "n \<in> vapi_gates"
    and run: "walk k (vapi_graph d) thread n (Some dec) st w = Some (out, w')" and w: "I w"
  shows "I w'"
proof (rule walk_rule [OF run, of "vapi_refused dec" I])
  show "vapi_refused dec n (Some dec) st" using n by (simp add: vapi_refused_def)
  show "I w" by (rule w)
  show "I (v\<lparr>w_threads := th\<rparr>)" if "I v" for v th using that by (rule threads)
next
  fix n resume st f v res v'
  assume P: "vapi_refused dec n resume st" and I: "I v"
    and f: "map_of (g_nodes (vapi_graph d)) n = Some f" and r: "f resume st v = (res, v')"
  note nodes = vapi_graph_def vapi_followup_def vapi_names
  have K: "keeps I (f resume st)"
    using P f vapi_gate_nodes [OF d] by (auto simp: vapi_refused_def vapi_gates_def nodes)
  have "vapi_refused dec n' None st'"
    if u: "res = Inr (Updated st')" and e: "map_of (g_edges (vapi_graph d)) n = Some route"
      and t: "route st' = Inr (Some n')" for st' route n'
  proof -
    consider "n = notify_agent_kind" "resume = Some dec" | "n = approve_outbound_message" "resume = Some dec"
      | "n = ''dismiss_hot''" | "n = ''dismiss_followup_email''"
      using P by (auto simp: vapi_refused_def vapi_gates_def)
    then show ?thesis
    proof cases
      case 1
      from f 1(1) have "f = notify_agent" by (simp add: nodes)
      with r u 1(2) gates_record(4) have "vs_hot_approval st' = Some (outcome_of dec)" by blast
      with 1 e t dec show ?thesis
        by (simp add: nodes route_after_notify_def outcome_of_def vapi_refused_def)
    next
      case 2
      from f 2(1) have "f = approve_followup_email (message_service d)" by (simp add: nodes)
      with r u 2(2) gates_record(5) have "vs_followup_approval st' = Some (outcome_of dec)" by blast
      with 2 e t dec show ?thesis
        by (simp add: nodes route_after_followup_gate_def outcome_of_def vapi_refused_def)
    next
      case 3
      with e t show ?thesis by (simp add: nodes to_end_def)
    next
      case 4
      with e t show ?thesis by (simp add: nodes to_end_def)
    qed
  qed
  with keepsD [OF K I r] show "I v' \<and> (\<forall>st' route n'. res = Inr (Updated st') \<longrightarrow>
      map_of (g_edges (vapi_graph d)) n = Some route \<longrightarrow> route st' = Inr (Some n') \<longrightarrow>
      vapi_refused dec n' None st')" by blast
qed

end

end
