(* ===== verification/Gate_Runs.thy ===== *)
theory Gate_Runs
  imports Run_Effects
begin

text \<open>
  Starting and deciding a workflow, as runs of the engine: what the engine does around the graph, the
  approval rows it writes, and the frames the properties are stated with.
\<close>

section \<open>The graph call\<close>

lemma invoke_walk:
  "runs_graphs invoke \<Longrightarrow> walk_from recursion_limit g thread input w = Some out \<Longrightarrow> invoke g thread input w = out"
  unfolding runs_graphs_def by blast

context workflow
begin

lemma invoke_fresh:
  assumes "runs_graphs invoke" and "rank (g_start g) < recursion_limit"
  obtains out where "walk recursion_limit g thread (g_start g) None st w = Some out"
    and "invoke g thread (Fresh st) w = out"
proof -
  from start_ends [OF assms(2)] obtain out where o: "walk_from recursion_limit g thread (Fresh st) w = Some out"
    by blast
  with invoke_walk [OF assms(1) o] show thesis by (intro that) (simp_all add: walk_from_def)
qed

lemma invoke_resume:
  assumes "runs_graphs invoke" and "n \<in> gates" and "rank n < recursion_limit"
    and "dict_get (w_threads w) thread = Some (n, g_pack g st)"
  obtains out where "walk recursion_limit g thread n (Some d) st w = Some out"
    and "invoke g thread (Resume d) w = out"
proof -
  from resume_ends [OF assms(2-4)] obtain out where
    o: "walk_from recursion_limit g thread (Resume d) w = Some out" by blast
  with invoke_walk [OF assms(1) o] assms(4) show thesis
    by (intro that) (simp_all add: walk_from_def unpack_pack)
qed

end

section \<open>Invariants of the engine\<close>

context books
begin

lemma keeps_engine_run:
  assumes "keeps I (invoke g thread input)" and "\<And>a. keeps I (ab_create repo a)"
  shows "keeps I (engine_run invoke repo name g thread input)"
  unfolding engine_run_def Let_def
  by (intro keeps_bindM assms(1)) (auto intro!: keeps_rules keeps_sources assms(2) split: run_end.split)

lemma keeps_engine_start:
  assumes "\<And>thread. keeps I (invoke g thread (Fresh st))" and "\<And>a. keeps I (ab_create repo a)"
  shows "keeps I (engine_start invoke repo name g st txn actor)"
  unfolding engine_start_def by (intro keeps_bindM keeps_sources keeps_scope keeps_engine_run assms)

text \<open>A decision: the row is marked, then the graph is resumed from the state after the mark.\<close>

lemma engine_decide_keeps:
  assumes I: "I w" and mark: "\<And>now. keeps I (ab_mark_decided repo (apr_id a) (dec_decision dec) (dec_decided_by dec) now)"
    and create: "\<And>x. keeps I (ab_create repo x)"
    and threads: "\<And>now v r v'. ab_mark_decided repo (apr_id a) (dec_decision dec) (dec_decided_by dec) now v = (r, v')
      \<Longrightarrow> w_threads v' = w_threads v"
    and resume: "\<And>v. I v \<Longrightarrow> w_threads v = w_threads w \<Longrightarrow>
      I (snd (invoke g (apr_graph_thread_id a) (Resume dec) v))"
  shows "I (snd (engine_decide invoke repo g a dec w))"
proof -
  let ?now = "w_clock w (w_reads w)" and ?w1 = "w\<lparr>w_reads := Suc (w_reads w)\<rparr>"
  obtain r w2 where m: "ab_mark_decided repo (apr_id a) (dec_decision dec) (dec_decided_by dec) ?now ?w1 = (r, w2)"
    by fastforce
  have I2: "I w2" using keepsD [OF mark reads [OF I] m] .
  have t2: "w_threads w2 = w_threads w" using threads [OF m] by simp
  let ?w3 = "w2\<lparr>w_audit := Some (decide_scope a dec)\<rparr>"
  obtain res w4 where i: "invoke g (apr_graph_thread_id a) (Resume dec) ?w3 = (res, w4)" by fastforce
  have I4: "I w4" using resume [of ?w3] audit [OF I2] t2 i by simp
  have "keeps I (case x of Interrupted v \<Rightarrow> bindM uuid4_hex (\<lambda>i. bindM now_utc (\<lambda>now.
      let approval = \<lparr>apr_tenant_id = [], apr_id = i, apr_workflow = apr_workflow a,
          apr_graph_thread_id = apr_graph_thread_id a, apr_kind = get_str v ''kind'' ''unknown'',
          apr_payload = Some v, apr_status = ApPending, apr_decided_by = None, apr_created_at = now,
          apr_decided_at = None\<rparr>
      in thenM (ab_create repo approval) (ret \<lparr>rr_thread_id = apr_graph_thread_id a,
          rr_status = ''awaiting_approval'', rr_approval = Some approval, rr_output = None\<rparr>)))
      | Finished st \<Rightarrow> ret (terminal_run_result (apr_graph_thread_id a) (g_pack g st)))" for x
    unfolding Let_def
    by (cases x) (auto intro!: keeps_rules keeps_sources create)
  then have "I (snd (engine_run invoke repo (apr_workflow a) g (apr_graph_thread_id a) (Resume dec) ?w3))"
    using i I4 by (cases res) (auto simp: engine_run_def monad keeps_def)
  then have "I (snd (audit_scope (decide_scope a dec)
      (engine_run invoke repo (apr_workflow a) g (apr_graph_thread_id a) (Resume dec)) w2))"
    by (auto simp: audit_scope_def intro: audit split: prod.split)
  with m I2 show ?thesis
    by (cases r) (auto simp: engine_decide_def monad world)
qed

end

end
