(* ===== verification/Gate_Properties.thy ===== *)
theory Gate_Properties
  imports Gate_Runs
begin

text \<open>
  What the human gates guarantee: what a run can do before a decision and after a refusal, that every
  run ends and leaves its gate open, and how the decide route moves an approval.
\<close>

section \<open>Frames\<close>

text \<open>
  Transactions, milestones, documents and the bound tenant are as they were, and every external call
  since then satisfies \<open>P\<close>.
\<close>

definition run_frame :: "(ext_req \<Rightarrow> bool) \<Rightarrow> world \<Rightarrow> world \<Rightarrow> bool" where
  "run_frame P w0 w \<longleftrightarrow>
     w_transactions w = w_transactions w0 \<and> w_milestones w = w_milestones w0 \<and>
     w_documents w = w_documents w0 \<and> w_tenant w = w_tenant w0 \<and>
     (\<exists>new. w_sent w = w_sent w0 @ new \<and> (\<forall>q \<in> set new. P q))"

lemma run_frame_refl: "run_frame P w w"
  by (simp add: run_frame_def)

interpretation frame: run_books "run_frame P w0" for P w0
  by unfold_locales (simp_all add: run_frame_def)

interpretation checkpoints: books "\<lambda>w. w_threads w = x" for x
  by unfold_locales simp_all

lemma frame_call: "P q \<Longrightarrow> keeps (run_frame P w0) (ext_call q)"
  by (auto simp: keeps_def run_frame_def ext_call_def)

context books
begin

lemma keeps_approval_port:
  assumes "is_deployment d" and rows: "\<And>w as. I w \<Longrightarrow> I (w\<lparr>w_approvals := as\<rparr>)"
  shows "keeps I (ab_create (approval_repo d) a)" "keeps I (ab_mark_decided (approval_repo d) i st who now)"
proof -
  have c: "keeps I (ab_create sql_approvals a)" "keeps I (ab_create mem_approvals a)" for a
    by (auto simp: keeps_def sql_approvals_def mem_approvals_def sql_create_approval_def mem_create_approval_def
        modify_def intro: rows split: option.split)
  have m: "keeps I (ab_mark_decided sql_approvals i st who now)" "keeps I (ab_mark_decided mem_approvals i st who now)"
    for i st who now
    by (auto simp: keeps_def sql_approvals_def mem_approvals_def sql_mark_decided_def mem_mark_decided_def
        bindM_apply Let_def require_tenant_def intro: rows split: option.split sum.split prod.split)
  have g: "keeps I (ab_get sql_approvals i)" "keeps I (ab_get mem_approvals i)" for i
    using keeps_raw_reads(7) [of sql_stores] keeps_raw_reads(7) [of mem_stores]
    by (simp_all add: sql_stores_def mem_stores_def)
  show "keeps I (ab_create (approval_repo d) a)" "keeps I (ab_mark_decided (approval_repo d) i st who now)"
    using assms(1) c m g
    by (auto simp: is_deployment_def approval_repo_def guarded_approvals_def scoped_approvals_def
        scoped_create_approval_def scoped_mark_decided_def sql_stores_def mem_stores_def
        intro!: keeps_guarded keeps_rules keeps_tenancy)
qed

end

section \<open>Before the decision\<close>

text \<open>The external calls a run may make before its gate.\<close>

fun before_decision :: "run_state \<Rightarrow> ext_req \<Rightarrow> bool" where
  "before_decision (ListingRun _) (MlsGetListing _) = True"
| "before_decision (CoordinationRun _) (CrmCreateTask text _ c) = (startswith text ''Reminder: '' \<and> c = None)"
| "before_decision (CoordinationRun _) (DraftMessage _) = True"
| "before_decision (VapiRun _) (VoiceGetCall _) = True"
| "before_decision (VapiRun _) (ExtractFeedback _) = True"
| "before_decision (VapiRun _) (CrmAddNote _ _ _) = True"
| "before_decision (VapiRun _) (CrmLogCall _ _ _ _) = True"
| "before_decision (VapiRun _) (CrmGetContact _) = True"
| "before_decision (VapiRun _) (DraftMessage _) = True"
| "before_decision _ _ = False"

lemma starts:
  "g_start (listing_graph d) = ''intake''" "g_start (coordination_graph d) = ''load_txn''"
  "g_start (vapi_graph d) = ''ingest_call''"
  by (simp_all add: listing_graph_def listing_to_contract_def coordination_graph_def
      transaction_coordination_def vapi_graph_def vapi_followup_def)

lemma ranks_in_limit:
  "listing_rank n < recursion_limit" "coordination_rank n < recursion_limit" "vapi_rank n < recursion_limit"
  by (simp_all add: listing_rank_def coordination_rank_def vapi_rank_def rank_in_def recursion_limit_def)

lemma fresh_keeps:
  assumes d: "is_deployment d" and r: "langgraph r"
  shows "keeps (run_frame (before_decision (ListingRun ls)) w0) (rn_listing r (listing_graph d) thread (Fresh ls'))"
    and "keeps (run_frame (before_decision (CoordinationRun st)) w0)
      (rn_coordination r (coordination_graph d) thread (Fresh st'))"
    and "keeps (run_frame (before_decision (VapiRun vs)) w0) (rn_vapi r (vapi_graph d) thread (Fresh vs'))"
proof -
  have rg: "runs_graphs (rn_listing r)" "runs_graphs (rn_coordination r)" "runs_graphs (rn_vapi r)"
    using r by (simp_all add: langgraph_def)
  note call = frame_call [of "before_decision _"]
  show "keeps (run_frame (before_decision (ListingRun ls)) w0) (rn_listing r (listing_graph d) thread (Fresh ls'))"
  proof (rule keepsI)
    fix w assume w: "run_frame (before_decision (ListingRun ls)) w0 w"
    obtain out where o: "walk recursion_limit (listing_graph d) thread ''intake'' None ls' w = Some out"
      "rn_listing r (listing_graph d) thread (Fresh ls') w = out"
      using listing.invoke_fresh [OF rg(1) ranks_in_limit(1), of "engine_mls" "engine_crm d" thread ls' w]
        starts(1) [of d] by (metis listing_graph_def)
    have "run_frame (before_decision (ListingRun ls)) w0 (snd out)"
      by (rule frame.listing_fresh [OF _ _ w, of recursion_limit d thread ls' "fst out"])
        (use o in \<open>auto intro: call\<close>)
    with o show "run_frame (before_decision (ListingRun ls)) w0 (snd (rn_listing r (listing_graph d) thread (Fresh ls') w))"
      by simp
  qed
  show "keeps (run_frame (before_decision (CoordinationRun st)) w0)
      (rn_coordination r (coordination_graph d) thread (Fresh st'))"
  proof (rule keepsI)
    fix w assume w: "run_frame (before_decision (CoordinationRun st)) w0 w"
    obtain out where o: "walk recursion_limit (coordination_graph d) thread ''load_txn'' None st' w = Some out"
      "rn_coordination r (coordination_graph d) thread (Fresh st') w = out"
      using coordination.invoke_fresh [OF rg(2) ranks_in_limit(2),
          of "transaction_port d" "engine_crm d" "message_service d" thread st' w]
        starts(2) [of d] by (metis coordination_graph_def)
    have "run_frame (before_decision (CoordinationRun st)) w0 (snd out)"
      by (rule frame.coordination_fresh [OF d _ _ _ w, of recursion_limit thread st' "fst out"])
        (use o in \<open>auto intro: call\<close>)
    with o show "run_frame (before_decision (CoordinationRun st)) w0
        (snd (rn_coordination r (coordination_graph d) thread (Fresh st') w))" by simp
  qed
  show "keeps (run_frame (before_decision (VapiRun vs)) w0) (rn_vapi r (vapi_graph d) thread (Fresh vs'))"
  proof (rule keepsI)
    fix w assume w: "run_frame (before_decision (VapiRun vs)) w0 w"
    obtain out where o: "walk recursion_limit (vapi_graph d) thread ''ingest_call'' None vs' w = Some out"
      "rn_vapi r (vapi_graph d) thread (Fresh vs') w = out"
      using vapi.invoke_fresh [OF rg(3) ranks_in_limit(3),
          of "engine_voice d" "engine_crm d" "feedback_port d" "dp_extraction d" "message_service d" thread vs' w]
        starts(3) [of d] by (metis vapi_graph_def)
    have "run_frame (before_decision (VapiRun vs)) w0 (snd out)"
      by (rule frame.vapi_fresh [OF d _ _ _ _ _ _ _ w, of recursion_limit thread vs' "fst out"])
        (use o in \<open>auto intro: call\<close>)
    with o show "run_frame (before_decision (VapiRun vs)) w0
        (snd (rn_vapi r (vapi_graph d) thread (Fresh vs') w))" by simp
  qed
qed

lemma frame_approvals:
  assumes "is_deployment d"
  shows "keeps (run_frame P w0) (ab_create (approval_repo d) a)"
    "keeps (run_frame P w0) (ab_mark_decided (approval_repo d) i st who now)"
  using frame.keeps_approval_port [OF assms] by (simp_all add: run_frame_def)

text \<open>
  C3: Nothing consequential happens before a human decides. Starting any of the three workflows, on
  the wired ports of either deployment and whatever the providers answer, sends no email and no text
  message, files no urgent, hot-lead or marketing task, and changes no transaction, milestone or
  document: the run may look things up, draft, log a call to the CRM, and remind (a task that
  says "Reminder: ").
\<close>

theorem quiet_until_decided:
  assumes "is_deployment d" and "langgraph r" and "start_workflow d r input actor w = (out, w')"
  shows "run_frame (before_decision input) w w'"
proof (cases input)
  case (ListingRun st)
  have "keeps (run_frame (before_decision input) w) (start_workflow d r input actor)"
    using ListingRun fresh_keeps(1) [OF assms(1,2)] frame_approvals(1) [OF assms(1)]
    by (simp add: frame.keeps_engine_start)
  with assms(3) show ?thesis using run_frame_refl by (metis keepsD)
next
  case (VapiRun st)
  have "keeps (run_frame (before_decision input) w) (start_workflow d r input actor)"
    using VapiRun fresh_keeps(3) [OF assms(1,2)] frame_approvals(1) [OF assms(1)]
    by (simp add: frame.keeps_engine_start)
  with assms(3) show ?thesis using run_frame_refl by (metis keepsD)
next
  case (CoordinationRun st)
  have "keeps (run_frame (before_decision input) w) (start_workflow d r input actor)"
    using CoordinationRun fresh_keeps(2) [OF assms(1,2)] frame_approvals(1) [OF assms(1)]
    by (simp add: frame.keeps_engine_start)
  with assms(3) show ?thesis using run_frame_refl by (metis keepsD)
qed

definition sample_deployment :: deployment where
  "sample_deployment = \<lparr>dp_stores = mem_stores, dp_idempotency = mem_idempotency, dp_vendor = ''fub'',
     dp_drafter = deterministic_drafter, dp_extraction = deterministic_extractor\<rparr>"

lemma sample_is_deployment: "is_deployment sample_deployment"
  by (simp add: is_deployment_def sample_deployment_def)

theorem quiet_until_decided_witness:
  "run_frame (before_decision (CoordinationRun (coordination_input ''t1'' False))) blank_world
     (snd (start_workflow sample_deployment walkers (CoordinationRun (coordination_input ''t1'' False)) None blank_world))"
  by (rule quiet_until_decided [OF sample_is_deployment langgraph_walkers surjective_pairing])

section \<open>The end of a run\<close>

text \<open>The checkpoint of an approval's run: a gate of its workflow, with a state of that workflow.\<close>

fun gate_of :: "run_state \<Rightarrow> string \<Rightarrow> string \<Rightarrow> bool" where
  "gate_of (ListingRun _) name n \<longleftrightarrow> name = listing_to_contract_name \<and> n = approve_marketing_kind"
| "gate_of (CoordinationRun _) name n \<longleftrightarrow>
     name = transaction_coordination_name \<and> n \<in> coordination_gates"
| "gate_of (VapiRun _) name n \<longleftrightarrow> name = vapi_followup_name \<and> n \<in> vapi_gates"

definition at_gate :: "approval_request \<Rightarrow> world \<Rightarrow> bool" where
  "at_gate a w \<longleftrightarrow>
     (case dict_get (w_threads w) (apr_graph_thread_id a) of
        None \<Rightarrow> False | Some (n, s) \<Rightarrow> gate_of s (apr_workflow a) n)"

lemma names_distinct [simp]:
  "transaction_coordination_name \<noteq> listing_to_contract_name" "vapi_followup_name \<noteq> listing_to_contract_name"
  "vapi_followup_name \<noteq> transaction_coordination_name"
  by (simp_all add: transaction_coordination_name_def listing_to_contract_name_def vapi_followup_name_def)

lemma mark_threads:
  assumes "is_deployment d" and "ab_mark_decided (approval_repo d) i st who now v = (r, v')"
  shows "w_threads v' = w_threads v"
  using keepsD [OF checkpoints.keeps_approval_port(2) [OF assms(1), of "w_threads v" i st who now] _ assms(2)]
  by simp

lemma packs [simp]:
  "g_pack (listing_graph d) = ListingRun" "g_pack (coordination_graph d) = CoordinationRun"
  "g_pack (vapi_graph d) = VapiRun"
  by (simp_all add: listing_graph_def listing_to_contract_def coordination_graph_def
      transaction_coordination_def vapi_graph_def vapi_followup_def)

text \<open>
  Resuming an approval at its gate, for any invariant its walk keeps: the one step the three
  workflows share.
\<close>

context run_books
begin

lemma decide_workflow_keeps:
  assumes d: "is_deployment d" and r: "langgraph r" and gate: "at_gate a w" and w: "I w"
    and rows: "\<And>w as. I w \<Longrightarrow> I (w\<lparr>w_approvals := as\<rparr>)"
    and walks: "\<And>n st out v v'. n = approve_marketing_kind \<Longrightarrow> I v \<Longrightarrow>
        walk recursion_limit (listing_graph d) (apr_graph_thread_id a) n (Some dec) st v = Some (out, v') \<Longrightarrow> I v'"
      "\<And>n st out v v'. n \<in> coordination_gates \<Longrightarrow> I v \<Longrightarrow>
        walk recursion_limit (coordination_graph d) (apr_graph_thread_id a) n (Some dec) st v = Some (out, v') \<Longrightarrow> I v'"
      "\<And>n st out v v'. n \<in> vapi_gates \<Longrightarrow> I v \<Longrightarrow>
        walk recursion_limit (vapi_graph d) (apr_graph_thread_id a) n (Some dec) st v = Some (out, v') \<Longrightarrow> I v'"
  shows "I (snd (decide_workflow d r a dec w))"
proof -
  have rg: "runs_graphs (rn_listing r)" "runs_graphs (rn_coordination r)" "runs_graphs (rn_vapi r)"
    using r by (simp_all add: langgraph_def)
  note ports = keeps_approval_port [OF d rows]
  obtain n s where c: "dict_get (w_threads w) (apr_graph_thread_id a) = Some (n, s)"
    and g: "gate_of s (apr_workflow a) n"
    using gate by (auto simp: at_gate_def split: option.splits)
  show ?thesis
  proof (cases s)
    case (ListingRun st)
    have "I (snd (engine_decide (rn_listing r) (approval_repo d) (listing_graph d) a dec w))"
    proof (rule engine_decide_keeps [OF w ports(2) ports(1) mark_threads [OF d]])
      fix v assume v: "I v" and t: "w_threads v = w_threads w"
      obtain out where "walk recursion_limit (listing_graph d) (apr_graph_thread_id a) n (Some dec) st v = Some out"
        "rn_listing r (listing_graph d) (apr_graph_thread_id a) (Resume dec) v = out"
        using listing.invoke_resume [OF rg(1) _ ranks_in_limit(1), of n v "apr_graph_thread_id a"
            "engine_mls" "engine_crm d" st dec] c g t ListingRun packs(1) [of d]
        unfolding listing_graph_def by auto
      with walks(1) [OF _ v, of n st "fst out" "snd out"] g ListingRun
      show "I (snd (rn_listing r (listing_graph d) (apr_graph_thread_id a) (Resume dec) v))" by simp
    qed
    with g ListingRun show ?thesis by (simp add: decide_workflow_def)
  next
    case (CoordinationRun st)
    have "I (snd (engine_decide (rn_coordination r) (approval_repo d) (coordination_graph d) a dec w))"
    proof (rule engine_decide_keeps [OF w ports(2) ports(1) mark_threads [OF d]])
      fix v assume v: "I v" and t: "w_threads v = w_threads w"
      obtain out where "walk recursion_limit (coordination_graph d) (apr_graph_thread_id a) n (Some dec) st v = Some out"
        "rn_coordination r (coordination_graph d) (apr_graph_thread_id a) (Resume dec) v = out"
        using coordination.invoke_resume [OF rg(2) _ ranks_in_limit(2), of n v "apr_graph_thread_id a"
            "transaction_port d" "engine_crm d" "message_service d" st dec] c g t CoordinationRun packs(2) [of d]
        unfolding coordination_graph_def by auto
      with walks(2) [OF _ v, of n st "fst out" "snd out"] g CoordinationRun
      show "I (snd (rn_coordination r (coordination_graph d) (apr_graph_thread_id a) (Resume dec) v))" by simp
    qed
    with g CoordinationRun show ?thesis by (simp add: decide_workflow_def)
  next
    case (VapiRun st)
    have "I (snd (engine_decide (rn_vapi r) (approval_repo d) (vapi_graph d) a dec w))"
    proof (rule engine_decide_keeps [OF w ports(2) ports(1) mark_threads [OF d]])
      fix v assume v: "I v" and t: "w_threads v = w_threads w"
      obtain out where "walk recursion_limit (vapi_graph d) (apr_graph_thread_id a) n (Some dec) st v = Some out"
        "rn_vapi r (vapi_graph d) (apr_graph_thread_id a) (Resume dec) v = out"
        using vapi.invoke_resume [OF rg(3) _ ranks_in_limit(3), of n v "apr_graph_thread_id a"
            "engine_voice d" "engine_crm d" "feedback_port d" "dp_extraction d" "message_service d" st dec]
          c g t VapiRun packs(3) [of d]
        unfolding vapi_graph_def by auto
      with walks(3) [OF _ v, of n st "fst out" "snd out"] g VapiRun
      show "I (snd (rn_vapi r (vapi_graph d) (apr_graph_thread_id a) (Resume dec) v))" by simp
    qed
    with g VapiRun show ?thesis by (simp add: decide_workflow_def)
  qed
qed

end

text \<open>
  C19: A refusal is final and silent. Deciding a waiting approval with anything but "approved" makes no
  external call at all, in any of the three workflows, and leaves every transaction, milestone and
  document as it was.
\<close>

theorem refusal_is_silent:
  assumes "is_deployment d" and "langgraph r" and "at_gate a w" and "dec_decision dec \<noteq> ApApproved"
    and "decide_workflow d r a dec w = (out, w')"
  shows "w_sent w' = w_sent w \<and> w_transactions w' = w_transactions w \<and> w_milestones w' = w_milestones w \<and>
    w_documents w' = w_documents w"
proof -
  have "run_frame (\<lambda>_. False) w (snd (decide_workflow d r a dec w))"
  proof (rule frame.decide_workflow_keeps [OF assms(1-3) run_frame_refl])
    show "run_frame (\<lambda>_. False) w (v\<lparr>w_approvals := as\<rparr>)" if "run_frame (\<lambda>_. False) w v" for v as
      using that by (simp add: run_frame_def)
  qed (auto intro: frame.listing_rejected [OF assms(4)] frame.coordination_rejected [OF assms(1,4)]
      frame.vapi_rejected [OF assms(1,4)])
  with assms(5) show ?thesis by (simp add: run_frame_def)
qed

definition sample_refusal :: approval_decision where
  "sample_refusal = \<lparr>dec_decision = ApRejected, dec_decided_by = ''op@example.com'', dec_edited_payload = None\<rparr>"

definition sample_gate :: approval_request where
  "sample_gate = \<lparr>apr_tenant_id = ''acme'', apr_id = ''a1'', apr_workflow = ''transaction_coordination'',
     apr_graph_thread_id = ''th1'', apr_kind = ''approve_escalation'', apr_payload = Some [],
     apr_status = ApPending, apr_decided_by = None, apr_created_at = 0, apr_decided_at = None\<rparr>"

definition gate_world :: world where
  "gate_world = blank_world\<lparr>w_tenant := Some ''acme'', w_approvals := [(''a1'', sample_gate)],
     w_threads := [(''th1'', (''escalate'', CoordinationRun (coordination_input ''t1'' False)))]\<rparr>"

lemma sample_at_gate: "at_gate sample_gate gate_world"
  by (simp add: at_gate_def sample_gate_def gate_world_def dict_get_def transaction_coordination_name_def
      coordination_gates_def)

theorem refusal_is_silent_witness:
  "w_sent (snd (decide_workflow sample_deployment walkers sample_gate sample_refusal gate_world)) = []"
  using refusal_is_silent [OF sample_is_deployment langgraph_walkers sample_at_gate _ surjective_pairing,
      of sample_refusal]
  by (simp add: sample_refusal_def gate_world_def blank_world_def)

text \<open>
  C35: Every run ends. Starting a workflow, or resuming it at the gate it waits at, visits at most seven
  nodes and so stays inside LangGraph's limit of 25 steps, whatever the ports do: with any budget from
  seven nodes on the invocation has an outcome.
\<close>

theorem runs_end:
  assumes "7 \<le> k"
  shows "walk_from k (listing_to_contract mls crm) thread (Fresh ls) w \<noteq> None \<and>
    walk_from k (transaction_coordination store crm svc) thread (Fresh st) w \<noteq> None \<and>
    walk_from k (vapi_followup voice crm fbk extraction svc) thread (Fresh vs) w \<noteq> None \<and>
    (dict_get (w_threads w) thread = Some (n, s) \<and> gate_of s name n \<longrightarrow>
       (case s of
          ListingRun _ \<Rightarrow> walk_from k (listing_to_contract mls crm) thread (Resume dec) w \<noteq> None
        | CoordinationRun _ \<Rightarrow>
            walk_from k (transaction_coordination store crm svc) thread (Resume dec) w \<noteq> None
        | VapiRun _ \<Rightarrow> walk_from k (vapi_followup voice crm fbk extraction svc) thread (Resume dec) w \<noteq> None))"
proof -
  have r: "listing_rank m < k" "coordination_rank m < k" "vapi_rank m < k" for m
    using assms by (auto simp: listing_rank_def coordination_rank_def vapi_rank_def rank_in_def)
  have p: "g_pack (listing_to_contract mls crm) = ListingRun"
    "g_pack (transaction_coordination store crm svc) = CoordinationRun"
    "g_pack (vapi_followup voice crm fbk extraction svc) = VapiRun"
    by (simp_all add: listing_to_contract_def transaction_coordination_def vapi_followup_def)
  note resume = listing.resume_ends [OF _ r(1)] coordination.resume_ends [OF _ r(2)] vapi.resume_ends [OF _ r(3)]
  show ?thesis
    using listing.start_ends [OF r(1)] coordination.start_ends [OF r(2)] vapi.start_ends [OF r(3)] resume p
    by (auto split: run_state.split)
qed

theorem runs_end_witness:
  "walk_from 7 (transaction_coordination mem_transactions raw_crm
     (wired_service mem_idempotency mem_messages deterministic_drafter)) ''th1'' (Resume sample_refusal) gate_world \<noteq> None"
  using runs_end [of 7 "raw_mls" raw_crm "''th1''" "listing_input []" gate_world mem_transactions
      "wired_service mem_idempotency mem_messages deterministic_drafter" "coordination_input [] False"
      raw_voice mem_feedback deterministic_extractor "vapi_input [] [] [] [] []" "''escalate''"
      "CoordinationRun (coordination_input ''t1'' False)" transaction_coordination_name sample_refusal]
  by (simp add: gate_world_def dict_get_def coordination_gates_def)

section \<open>What a pause files\<close>

lemma approval_create_run:
  assumes d: "is_deployment d" and t: "w_tenant w = Some t" and a: "apr_tenant_id a = []"
  shows "ab_create (approval_repo d) a w =
      (Inr (), w\<lparr>w_approvals := dict_set (w_approvals w) (apr_id a) (a\<lparr>apr_tenant_id := t\<rparr>)\<rparr>) \<or>
    dict_get (w_approvals w) (apr_id a) \<noteq> None \<and> (\<exists>e. ab_create (approval_repo d) a w = (Inl e, w))"
proof -
  have ten: "tenants ''approval'' (approval_payload 0 a) = [[]]"
    using a by (simp add: tenants_def approval_payload_def tenant_field_def opt_payload_def json_date_def
        dict_payload_def Let_def split: option.split)
  have auth: "\<exists>x. authorize_args ''create'' [(''approval'', approval_payload 0 a)] w = (Inr x, w)"
    using authorize_args_run [OF t, of "''create''" "[(''approval'', approval_payload 0 a)]"] ten
    by (simp add: arg_tenants_def first_foreign_def is_foreign_def)
  have unit: "tenants ''result'' (unit_payload u) = []" for u
    by (simp add: tenants_def unit_payload_def is_tenant_param_name_def)
  from d consider "sb_approvals (dp_stores d) = sql_approvals" | "sb_approvals (dp_stores d) = mem_approvals"
    by (auto simp: is_deployment_def sql_stores_def mem_stores_def)
  then show ?thesis
  proof cases
    case 1
    with auth t unit a show ?thesis
      by (cases "dict_get (w_approvals w) (apr_id a)")
        (auto simp: approval_repo_def guarded_approvals_def scoped_approvals_def guarded_def monad
          scoped_create_approval_def enforce_audited_run is_foreign_def sql_approvals_def sql_create_approval_def
          check_tenants_def append_fresh)
  next
    case 2
    with auth t unit a show ?thesis
      by (auto simp: approval_repo_def guarded_approvals_def scoped_approvals_def guarded_def monad
          scoped_create_approval_def enforce_audited_run is_foreign_def mem_approvals_def mem_create_approval_def
          check_tenants_def)
  qed
qed

lemma approval_create_fresh:
  "is_deployment d \<Longrightarrow> w_tenant w = Some t \<Longrightarrow> apr_tenant_id a = [] \<Longrightarrow>
   dict_get (w_approvals w) (apr_id a) = None \<Longrightarrow>
   ab_create (approval_repo d) a w =
     (Inr (), w\<lparr>w_approvals := dict_set (w_approvals w) (apr_id a) (a\<lparr>apr_tenant_id := t\<rparr>)\<rparr>)"
  using approval_create_run by fastforce

interpretation rows: run_books "\<lambda>w. w_approvals w = x \<and> w_tenant w = t" for x t
  by unfold_locales simp_all

lemma rows_call: "keeps (\<lambda>w. w_approvals w = x \<and> w_tenant w = t) (ext_call q)"
  by (simp add: keeps_def ext_call_def)

lemma fresh_rows:
  assumes d: "is_deployment d"
  shows "walk k (listing_graph d) thread ''intake'' None ls w = Some (o1, w') \<Longrightarrow>
      w_approvals w' = w_approvals w \<and> w_tenant w' = w_tenant w"
    and "walk k (coordination_graph d) thread ''load_txn'' None st w = Some (o2, w') \<Longrightarrow>
      w_approvals w' = w_approvals w \<and> w_tenant w' = w_tenant w"
    and "walk k (vapi_graph d) thread ''ingest_call'' None vs w = Some (o3, w') \<Longrightarrow>
      w_approvals w' = w_approvals w \<and> w_tenant w' = w_tenant w"
  by (erule rows.listing_fresh [OF rows_call], simp)
    (erule rows.coordination_fresh [OF d rows_call rows_call], simp,
     erule rows.vapi_fresh [OF d rows_call rows_call rows_call rows_call rows_call rows_call], simp)

text \<open>The engine around an invocation that leaves the approvals alone.\<close>

lemma engine_run_files:
  assumes d: "is_deployment d" and t: "w_tenant w = Some t"
    and run: "engine_run invoke (approval_repo d) name g thread input w = (Inr res, w')"
    and call: "invoke g thread input w = (r, w1)" "w_approvals w1 = w_approvals w" "w_tenant w1 = w_tenant w"
    and pause: "\<And>v. r = Inr (Interrupted v) \<Longrightarrow> gate (w_threads w1)"
  shows "case rr_approval res of
      None \<Rightarrow> w_approvals w' = w_approvals w
    | Some a \<Rightarrow> rr_status res = ''awaiting_approval'' \<and> apr_status a = ApPending \<and> apr_workflow a = name \<and>
        apr_graph_thread_id a = thread \<and> gate (w_threads w') \<and>
        w_approvals w' = dict_set (w_approvals w) (apr_id a) (a\<lparr>apr_tenant_id := t\<rparr>)"
proof (cases r)
  case (Inl e)
  with run call(1) show ?thesis by (simp add: engine_run_def monad)
next
  case (Inr x)
  show ?thesis
  proof (cases x)
    case (Finished st)
    with run call Inr show ?thesis
      by (auto simp: engine_run_def monad terminal_run_result_def Let_def)
  next
    case (Interrupted v)
    let ?w2 = "w1\<lparr>w_uuids := Suc (w_uuids w1), w_reads := Suc (w_reads w1)\<rparr>"
    let ?a = "\<lparr>apr_tenant_id = [], apr_id = w_uuid w1 (w_uuids w1), apr_workflow = name,
        apr_graph_thread_id = thread, apr_kind = get_str v ''kind'' ''unknown'', apr_payload = Some v,
        apr_status = ApPending, apr_decided_by = None, apr_created_at = w_clock w1 (w_reads w1),
        apr_decided_at = None\<rparr>"
    have c: "ab_create (approval_repo d) ?a ?w2 =
        (Inr (), ?w2\<lparr>w_approvals := dict_set (w_approvals w1) (apr_id ?a) (?a\<lparr>apr_tenant_id := t\<rparr>)\<rparr>) \<or>
        (\<exists>e. ab_create (approval_repo d) ?a ?w2 = (Inl e, ?w2))"
      using approval_create_run [OF d, of ?w2 t ?a] t call(3) by auto
    with run call Inr Interrupted pause show ?thesis
      by (auto simp: engine_run_def monad world Let_def)
  qed
qed

lemma engine_start_files:
  assumes d: "is_deployment d" and t: "w_tenant w = Some t"
    and run: "engine_start invoke (approval_repo d) name g st txn actor w = (Inr res, w')"
    and call: "\<And>v r v'. invoke g (w_uuid w (w_uuids w)) (Fresh st) v = (r, v') \<Longrightarrow>
      w_approvals v' = w_approvals v \<and> w_tenant v' = w_tenant v"
    and pause: "\<And>v r v' x. invoke g (w_uuid w (w_uuids w)) (Fresh st) v = (Inr (Interrupted x), v') \<Longrightarrow>
      gate (w_threads v')"
  shows "case rr_approval res of
      None \<Rightarrow> w_approvals w' = w_approvals w
    | Some a \<Rightarrow> rr_status res = ''awaiting_approval'' \<and> apr_status a = ApPending \<and> apr_workflow a = name \<and>
        apr_graph_thread_id a = w_uuid w (w_uuids w) \<and> gate (w_threads w') \<and>
        w_approvals w' = dict_set (w_approvals w) (apr_id a) (a\<lparr>apr_tenant_id := t\<rparr>)"
proof -
  let ?c = "\<lparr>ac_workflow_run_id = w_uuid w (w_uuids w), ac_workflow = name, ac_approval_id = None,
      ac_actor = actor, ac_transaction_id = txn\<rparr>"
  let ?w1 = "w\<lparr>w_uuids := Suc (w_uuids w), w_audit := Some ?c\<rparr>"
  obtain w2 where e: "engine_run invoke (approval_repo d) name g (w_uuid w (w_uuids w)) (Fresh st) ?w1 = (Inr res, w2)"
    and w': "w' = w2\<lparr>w_audit := w_audit w\<rparr>"
    using run by (auto simp: engine_start_def monad world split: prod.splits)
  obtain r v where i: "invoke g (w_uuid w (w_uuids w)) (Fresh st) ?w1 = (r, v)" by fastforce
  have t1: "w_tenant ?w1 = Some t" using t by simp
  have v: "w_approvals v = w_approvals ?w1" "w_tenant v = w_tenant ?w1" using call [OF i] by simp_all
  have "gate (w_threads v)" if "r = Inr (Interrupted x)" for x
    using pause i that by blast
  from engine_run_files [where gate = gate, OF d t1 e i v this] w' show ?thesis by (auto split: option.splits)
qed

context workflow
begin

lemma start_files:
  assumes d: "is_deployment d" and t: "w_tenant w = Some t" and inv: "runs_graphs invoke"
    and low: "rank (g_start g) < recursion_limit"
    and run: "engine_start invoke (approval_repo d) name g st txn actor w = (Inr res, w')"
    and frame: "\<And>th v out v'. walk recursion_limit g th (g_start g) None st v = Some (out, v') \<Longrightarrow>
      w_approvals v' = w_approvals v \<and> w_tenant v' = w_tenant v"
  shows "case rr_approval res of
      None \<Rightarrow> w_approvals w' = w_approvals w
    | Some a \<Rightarrow> rr_status res = ''awaiting_approval'' \<and> apr_status a = ApPending \<and> apr_workflow a = name \<and>
        (\<exists>n s. n \<in> gates \<and> dict_get (w_threads w') (apr_graph_thread_id a) = Some (n, g_pack g s)) \<and>
        w_approvals w' = dict_set (w_approvals w) (apr_id a) (a\<lparr>apr_tenant_id := t\<rparr>)"
proof -
  let ?th = "w_uuid w (w_uuids w)" and ?gate = "\<lambda>th. \<exists>n s. n \<in> gates \<and> dict_get th (w_uuid w (w_uuids w)) = Some (n, g_pack g s)"
  have "w_approvals v' = w_approvals v \<and> w_tenant v' = w_tenant v"
    if i: "invoke g ?th (Fresh st) v = (r, v')" for v r v'
  proof -
    obtain out where "walk recursion_limit g ?th (g_start g) None st v = Some out" "invoke g ?th (Fresh st) v = out"
      by (rule invoke_fresh [OF inv low])
    with i frame [of ?th v "fst out" "snd out"] show ?thesis by simp
  qed
  moreover have "?gate (w_threads v')" if i: "invoke g ?th (Fresh st) v = (Inr (Interrupted x), v')" for v v' x
  proof -
    obtain out where "walk recursion_limit g ?th (g_start g) None st v = Some out" "invoke g ?th (Fresh st) v = out"
      by (rule invoke_fresh [OF inv low])
    with i walk_pauses [of recursion_limit ?th "g_start g" None st v x v'] show ?thesis by simp
  qed
  ultimately show ?thesis
    using engine_start_files [OF d t run, where gate = ?gate] by (auto split: option.splits)
qed

end

text \<open>
  C21: A pause files exactly one open approval. When starting a workflow under a bound tenant returns,
  either it finished and the approvals are as before, or it waits: the result names one approval, PENDING,
  owned by the tenant, added under its id and nothing else changed, whose thread stands at a gate of its
  workflow, ready to be resumed.
\<close>

theorem pause_files_gate:
  assumes d: "is_deployment d" and r: "langgraph r" and t: "w_tenant w = Some t"
    and run: "start_workflow d r input actor w = (Inr res, w')"
  shows "case rr_approval res of
      None \<Rightarrow> w_approvals w' = w_approvals w
    | Some a \<Rightarrow> rr_status res = ''awaiting_approval'' \<and> apr_status a = ApPending \<and> at_gate a w' \<and>
        w_approvals w' = dict_set (w_approvals w) (apr_id a) (a\<lparr>apr_tenant_id := t\<rparr>)"
proof -
  have rg: "runs_graphs (rn_listing r)" "runs_graphs (rn_coordination r)" "runs_graphs (rn_vapi r)"
    using r by (simp_all add: langgraph_def)
  show ?thesis
  proof (cases input)
    case (ListingRun st)
    from listing.start_files [OF d t rg(1) ranks_in_limit(1)
        run [unfolded ListingRun start_workflow.simps listing_graph_def]]
      fresh_rows(1) [OF d] starts(1) [of d] packs(1) [of d] show ?thesis
      by (fastforce simp: listing_graph_def at_gate_def split: option.split)
  next
    case (CoordinationRun st)
    from coordination.start_files [OF d t rg(2) ranks_in_limit(2)
        run [unfolded CoordinationRun start_workflow.simps coordination_graph_def]]
      fresh_rows(2) [OF d] starts(2) [of d] packs(2) [of d] show ?thesis
      by (fastforce simp: coordination_graph_def at_gate_def split: option.split)
  next
    case (VapiRun st)
    from vapi.start_files [OF d t rg(3) ranks_in_limit(3)
        run [unfolded VapiRun start_workflow.simps vapi_graph_def]]
      fresh_rows(3) [OF d] starts(3) [of d] packs(3) [of d] show ?thesis
      by (fastforce simp: vapi_graph_def at_gate_def split: option.split)
  qed
qed

definition bare_listing :: listing where
  "bare_listing = \<lparr>li_mls_id = [], li_status = LsActive, li_address = ''x'', li_city = [], li_state = [], li_postal_code = [],
     li_list_price = Some 5, li_bedrooms = None, li_bathrooms = None, li_living_area_sqft = None,
     li_year_built = None, li_agent_id = [], li_agent_name = [], li_remarks = [], li_modified_at = 0,
     li_media = []\<rparr>"

definition listing_world :: world where
  "listing_world = blank_world\<lparr>w_tenant := Some ''acme'',
     w_ext := (\<lambda>n q. case q of MlsGetListing key \<Rightarrow> Inr (RListing (Some bare_listing)) | _ \<Rightarrow> ready_provider n q)\<rparr>"

lemma bare_clean: "scrub_listing bare_listing = bare_listing"
  by code_simp

lemma get_bare:
  assumes "w_ext w = w_ext listing_world" and "w_tenant w = Some ''acme''"
  shows "mp_get_listing engine_mls key w = (Inr (Some bare_listing), w\<lparr>w_sent := w_sent w @ [MlsGetListing key]\<rparr>)"
proof -
  have a: "\<exists>x. authorize_args ''get_listing'' [(''listing_key'', VStr key)] w = (Inr x, w)"
    using authorize_args_run [OF assms(2), of "''get_listing''" "[(''listing_key'', VStr key)]"]
    by (simp add: arg_tenants_def first_foreign_def tenants_def is_tenant_param_name_def tenant_field_def
        endswith_def)
  have r: "tenants ''result'' (opt_model listing_payload (Some bare_listing)) = []"
    by (simp add: tenants_def opt_model_def listing_payload_def bare_listing_def tenant_field_def int_payload_def list_payload_def)
  show ?thesis
    using a r assms(1)
    by (auto simp: engine_mls_def guarded_mls_def guarded_def raw_mls_def monad ext_call_def listing_world_def
        as_listing_def check_tenants_def bare_clean)
qed

lemma bare_start:
  "\<exists>res w' a. start_workflow sample_deployment walkers (ListingRun (listing_input ''L1'')) None listing_world =
     (Inr res, w') \<and> rr_approval res = Some a"
  by (simp add: engine_start_def engine_run_def walkers_def walker_def walk_from_def recursion_limit_def
      eval_nat_numeral listing_graph_def listing_to_contract_def intake_def make_draft_def get_bare monad world
      listing_world_def blank_world_def bare_listing_def is_marketable_def listing_input_def
      route_after_intake_def approve_marketing_def approve_marketing_kind_def to_node_def Let_def
      approval_create_fresh [OF sample_is_deployment])

theorem pause_files_gate_witness:
  "\<exists>res w' a. start_workflow sample_deployment walkers (ListingRun (listing_input ''L1'')) None listing_world =
     (Inr res, w') \<and> rr_approval res = Some a \<and> apr_status a = ApPending \<and> at_gate a w'"
proof -
  obtain res w' a where s: "start_workflow sample_deployment walkers (ListingRun (listing_input ''L1'')) None
      listing_world = (Inr res, w')" "rr_approval res = Some a"
    using bare_start by blast
  have "w_tenant listing_world = Some ''acme''" by (simp add: listing_world_def)
  from pause_files_gate [OF sample_is_deployment langgraph_walkers this s(1)] s show ?thesis by auto
qed

end
