(* ===== verification/Decide_Refinement.thy ===== *)
theory Decide_Refinement
  imports Gate_Properties
begin

text \<open>
  The decide route against its specification: a register of gates in which a waiting gate can be
  settled once. The route, through the guard, the scoped repository, the engine and the resumed graph,
  does to the approval rows exactly what the register does.
\<close>

section \<open>The specification\<close>

datatype gate_state = Waiting | Settled approval_status string

definition gate_state_of :: "approval_request \<Rightarrow> gate_state" where
  "gate_state_of a =
     (if apr_status a = ApPending then Waiting
      else Settled (apr_status a) (case apr_decided_by a of None \<Rightarrow> [] | Some x \<Rightarrow> x))"

definition gates_of :: "world \<Rightarrow> string \<Rightarrow> gate_state option" where
  "gates_of w i = map_option gate_state_of (dict_get (w_approvals w) i)"

definition settle :: "string \<Rightarrow> approval_status \<Rightarrow> string \<Rightarrow> (string \<Rightarrow> gate_state option) \<Rightarrow> string \<Rightarrow> gate_state option" where
  "settle i st who g =
     (if st \<noteq> ApPending \<and> g i = Some Waiting then g(i := Some (Settled st who)) else g)"

text \<open>The refusals: a decision that is none, an unknown gate, a settled gate.\<close>

definition gate_refusal :: "string \<Rightarrow> approval_status \<Rightarrow> (string \<Rightarrow> gate_state option) \<Rightarrow> exn option" where
  "gate_refusal i st g =
     (if st = ApPending then Some (HTTPException 422 ''decision must be approved or rejected'')
      else case g i of
             None \<Rightarrow> Some (HTTPException 404 (''approval '' @ py_repr i @ '' not found''))
           | Some (Settled s _) \<Rightarrow> Some (HTTPException 409 (''approval already '' @ approval_status_value s))
           | Some Waiting \<Rightarrow> None)"

text \<open>An edit of a drafted message must pass the boundary check.\<close>

definition edit_accepted :: "approval_request \<Rightarrow> pydict option \<Rightarrow> bool" where
  "edit_accepted a edited \<longleftrightarrow>
     (case edited of None \<Rightarrow> True
      | Some p \<Rightarrow> apr_kind a = approve_outbound_message \<longrightarrow> (\<exists>b. edited_message_payload p = Inr b))"

text \<open>A row of the tenant whose ids carry no secret shape.\<close>

definition plain_row :: "string \<Rightarrow> approval_request \<Rightarrow> bool" where
  "plain_row t a \<longleftrightarrow>
     \<not> is_foreign (apr_tenant_id a) t \<and> scrub_text (apr_id a) = apr_id a \<and>
     scrub_text (apr_workflow a) = apr_workflow a \<and>
     scrub_text (apr_graph_thread_id a) = apr_graph_thread_id a \<and> scrub_text (apr_kind a) = apr_kind a"

section \<open>The approval port on such a row\<close>

lemma scoped_find:
  assumes "is_deployment d" and "keyed apr_id (w_approvals w)"
  shows "ab_get (sb_approvals (dp_stores d)) i w = (Inr (dict_get (w_approvals w) i), w)"
  using assms find_keyed [of apr_id "w_approvals w" i]
  by (auto simp: is_deployment_def sql_stores_def mem_stores_def sql_approvals_def mem_approvals_def
      sql_get_approval_def mem_get_approval_def)

lemma approval_tenants: "tenants ''result'' (opt_model approval_payload (Some a)) = [apr_tenant_id a]"
  by (simp add: tenants_def opt_model_def approval_payload_def tenant_field_def opt_payload_def json_date_def
      dict_payload_def Let_def split: option.split)

lemma plain_arg: "w_tenant w = Some t \<Longrightarrow> \<exists>x. authorize_args tool [(''approval_id'', VStr i)] w = (Inr x, w)"
  using authorize_args_run [of w t tool "[(''approval_id'', VStr i)]"]
  by (simp add: arg_tenants_def first_foreign_def tenants_def is_tenant_param_name_def tenant_field_def
      endswith_def)

lemma check_none: "check_tenants tool mk [] w = (Inr [], w)"
  by (simp add: check_tenants_def)

lemma check_own:
  "w_tenant w = Some t \<Longrightarrow> \<not> is_foreign a t \<Longrightarrow> check_tenants tool as_egress_block [a] w = (Inr [t], w)"
  by (simp add: check_tenants_run first_foreign_def)

lemma approval_get_run:
  assumes d: "is_deployment d" and t: "w_tenant w = Some t" and k: "keyed apr_id (w_approvals w)"
    and row: "\<And>a. dict_get (w_approvals w) i = Some a \<Longrightarrow> \<not> is_foreign (apr_tenant_id a) t"
  shows "ab_get (approval_repo d) i w = (Inr (map_option scrub_approval (dict_get (w_approvals w) i)), w)"
proof -
  have none: "tenants ''result'' (opt_model approval_payload None) = []"
    by (simp add: tenants_def opt_model_def)
  obtain x where x: "authorize_args ''get'' [(''approval_id'', VStr i)] w = (Inr x, w)"
    using plain_arg [OF t] by blast
  show ?thesis
  proof (cases "dict_get (w_approvals w) i")
    case None
    with x scoped_find [OF d k, of i] t none show ?thesis
      by (simp add: approval_repo_def guarded_approvals_def guarded_def scoped_approvals_def
          scoped_get_approval_def monad confine_read_run check_none)
  next
    case (Some a)
    with x scoped_find [OF d k, of i] t row [OF Some] show ?thesis
      by (simp add: approval_repo_def guarded_approvals_def guarded_def scoped_approvals_def
          scoped_get_approval_def monad confine_read_run approval_tenants check_own)
  qed
qed

lemma approval_mark_run:
  assumes d: "is_deployment d" and t: "w_tenant w = Some t" and k: "keyed apr_id (w_approvals w)"
    and row: "dict_get (w_approvals w) i = Some a" and own: "\<not> is_foreign (apr_tenant_id a) t"
  shows "ab_mark_decided (approval_repo d) i st who now w =
    (Inr (), w\<lparr>w_approvals := dict_set (w_approvals w) i (decided st who now a)\<rparr>)"
proof -
  let ?args = "[(''approval_id'', VStr i), (''status'', VAtom (PStr (approval_status_value st))),
    (''decided_by'', VStr who), (''decided_at'', VAtom (PInt now))]"
  have args: "\<exists>x. authorize_args ''mark_decided'' ?args w = (Inr x, w)"
    using authorize_args_run [OF t, of "''mark_decided''" ?args]
    by (simp add: arg_tenants_def first_foreign_def tenants_def is_tenant_param_name_def tenant_field_def
        endswith_def)
  have unit: "tenants ''result'' (unit_payload u) = []" for u
    by (simp add: tenants_def unit_payload_def is_tenant_param_name_def)
  have raw: "ab_mark_decided (sb_approvals (dp_stores d)) i st who now w =
      (Inr (), w\<lparr>w_approvals := dict_set (w_approvals w) i (decided st who now a)\<rparr>)"
    using d sql_mark_decided_run [OF k t row own, of st who now] row
    by (auto simp: is_deployment_def sql_stores_def mem_stores_def sql_approvals_def mem_approvals_def
        mem_mark_decided_def)
  show ?thesis
    using args unit raw scoped_find [OF d k, of i] t row own
    by (auto simp: approval_repo_def guarded_approvals_def guarded_def scoped_approvals_def
        scoped_mark_decided_def monad refuse_foreign_run check_none)
qed

section \<open>Any walk\<close>

text \<open>Whatever a run may do, on any path: an invariant of every call and of escalation levels.\<close>

context run_books
begin

lemma keeps_level_port:
  assumes "is_deployment d" and rows: "\<And>w ms. I w \<Longrightarrow> I (w\<lparr>w_milestones := ms\<rparr>)"
  shows "keeps I (tb_set_level (transaction_port d) i l)"
proof -
  have raw: "keeps I (tb_set_level sql_transactions i l)" "keeps I (tb_set_level mem_transactions i l)"
    by (auto simp: keeps_def sql_transactions_def mem_transactions_def sql_set_escalation_level_def
        mem_set_escalation_level_def bindM_apply Let_def require_tenant_def intro: rows
        split: option.split sum.split prod.split)
  have get: "keeps I (tb_get_milestone (sb_transactions (dp_stores d)) i)"
    using assms(1) keeps_raw_reads(3) by (auto simp: is_deployment_def)
  show ?thesis
    using assms(1) raw get
    by (auto simp: is_deployment_def transaction_port_def guarded_transactions_def scoped_transactions_def
        scoped_set_escalation_level_def sql_stores_def mem_stores_def
        intro!: keeps_guarded keeps_rules keeps_tenancy)
qed

lemma listing_any:
  assumes d: "is_deployment d" and call: "\<And>q. keeps I (ext_call q)"
    and run: "walk k (listing_graph d) thread n resume st w = Some (out, w')" and w: "I w"
  shows "I w'"
proof (rule walk_rule [OF run, of "\<lambda>_ _ _. True" I])
  fix n resume st f v res v'
  assume f: "map_of (g_nodes (listing_graph d)) n = Some f" and r: "f resume st v = (res, v')" and I: "I v"
  have tasks: "keeps I (mapM (\<lambda>name. bindM (cp_create_task (engine_crm d) name due None) (\<lambda>t. ret (tk_id t))) ns)"
    for ns due
    by (auto intro!: keeps_mapM keeps_rules keeps_engine_crm [OF d] call)
  have "keeps I (f resume st)"
    using f unfolding listing_graph_def listing_to_contract_def listing_nodes Let_def
    by (auto intro!: keeps_rules keeps_engine_mls keeps_sources tasks call split: if_splits option.split)
  from keepsD [OF this I r] show "I v' \<and> (\<forall>st' route n'. res = Inr (Updated st') \<longrightarrow>
      map_of (g_edges (listing_graph d)) n = Some route \<longrightarrow> route st' = Inr (Some n') \<longrightarrow> True)" by simp
qed (simp_all add: w threads)

lemma coordination_any:
  assumes d: "is_deployment d" and call: "\<And>q. keeps I (ext_call q)"
    and rows: "\<And>w ms. I w \<Longrightarrow> I (w\<lparr>w_milestones := ms\<rparr>)"
    and run: "walk k (coordination_graph d) thread n resume st w = Some (out, w')" and w: "I w"
  shows "I w'"
proof (rule walk_rule [OF run, of "\<lambda>_ _ _. True" I])
  fix n resume st f v res v'
  assume f: "map_of (g_nodes (coordination_graph d)) n = Some f" and r: "f resume st v = (res, v')" and I: "I v"
  have reminders: "keeps I (send_reminders (transaction_port d) (engine_crm d) r st)" for r st
    unfolding send_reminders_def
    by (auto intro!: keeps_bindM keeps_lookups [OF d] keeps_mapM keeps_rules keeps_engine_crm [OF d] call)
  have one: "keeps I (notify_one (transaction_port d) (engine_crm d) txn m)" for txn m
    unfolding notify_one_def
    by (cases m) (auto intro!: keeps_rules keeps_engine_crm [OF d] call keeps_level_port [OF d] rows keeps_sources)
  have notify: "keeps I (notify (transaction_port d) (engine_crm d) r st)" for r st
    unfolding notify_def by (auto intro!: keeps_rules keeps_lookups [OF d] keeps_mapM one)
  have send: "keeps I (send_reminder_email (message_service d) r st)" for r st
    unfolding send_reminder_email_def by (auto intro!: keeps_rules keeps_send_approved [OF d] call split: option.split)
  have "keeps I (f resume st)"
    using f coordination_quiet_nodes [OF d call] coordination_gate_nodes [OF d] reminders notify send
    unfolding coordination_graph_def transaction_coordination_def
    by (auto split: if_splits)
  from keepsD [OF this I r] show "I v' \<and> (\<forall>st' route n'. res = Inr (Updated st') \<longrightarrow>
      map_of (g_edges (coordination_graph d)) n = Some route \<longrightarrow> route st' = Inr (Some n') \<longrightarrow> True)" by simp
qed (simp_all add: w threads)

lemma vapi_any:
  assumes d: "is_deployment d" and call: "\<And>q. keeps I (ext_call q)"
    and run: "walk k (vapi_graph d) thread n resume st w = Some (out, w')" and w: "I w"
  shows "I w'"
proof (rule walk_rule [OF run, of "\<lambda>_ _ _. True" I])
  fix n resume st f v res v'
  assume f: "map_of (g_nodes (vapi_graph d)) n = Some f" and r: "f resume st v = (res, v')" and I: "I v"
  have hot: "keeps I (create_hot_task (engine_crm d) r st)" for r st
    unfolding create_hot_task_def by (auto intro!: keeps_rules keeps_engine_crm [OF d] call keeps_sources)
  have send: "keeps I (send_followup_email (message_service d) r st)" for r st
    unfolding send_followup_email_def by (auto intro!: keeps_rules keeps_send_approved [OF d] call split: option.split)
  have "keeps I (f resume st)"
    using f vapi_sync_nodes [OF d call call call call call call] vapi_gate_nodes [OF d] hot send
    unfolding vapi_graph_def vapi_followup_def
    by (auto split: if_splits)
  from keepsD [OF this I r] show "I v' \<and> (\<forall>st' route n'. res = Inr (Updated st') \<longrightarrow>
      map_of (g_edges (vapi_graph d)) n = Some route \<longrightarrow> route st' = Inr (Some n') \<longrightarrow> True)" by simp
qed (simp_all add: w threads)

end

section \<open>The engine on a waiting gate\<close>

text \<open>The graph call a decision makes: it changes no approval row and does not pause again.\<close>

definition settles :: "'st runner \<Rightarrow> 'st graph \<Rightarrow> string \<Rightarrow> approval_decision \<Rightarrow> world \<Rightarrow> bool" where
  "settles invoke g thread dec v \<longleftrightarrow>
     w_approvals (snd (invoke g thread (Resume dec) v)) = w_approvals v \<and>
     w_tenant (snd (invoke g thread (Resume dec) v)) = w_tenant v \<and>
     (\<forall>p. fst (invoke g thread (Resume dec) v) \<noteq> Inr (Interrupted p))"

lemma engine_decide_settles:
  assumes d: "is_deployment d" and t: "w_tenant w = Some t" and k: "keyed apr_id (w_approvals w)"
    and row: "dict_get (w_approvals w) (apr_id a) = Some b" and own: "\<not> is_foreign (apr_tenant_id b) t"
    and settles: "\<And>v. w_threads v = w_threads w \<Longrightarrow> settles invoke g (apr_graph_thread_id a) dec v"
  shows "\<exists>now. w_approvals (snd (engine_decide invoke (approval_repo d) g a dec w)) =
      dict_set (w_approvals w) (apr_id a) (decided (dec_decision dec) (dec_decided_by dec) now b) \<and>
    w_tenant (snd (engine_decide invoke (approval_repo d) g a dec w)) = Some t"
proof -
  let ?now = "w_clock w (w_reads w)" and ?w1 = "w\<lparr>w_reads := Suc (w_reads w)\<rparr>"
  let ?rows = "dict_set (w_approvals w) (apr_id a) (decided (dec_decision dec) (dec_decided_by dec) ?now b)"
  let ?w3 = "?w1\<lparr>w_approvals := ?rows, w_audit := Some (decide_scope a dec)\<rparr>"
  have m: "ab_mark_decided (approval_repo d) (apr_id a) (dec_decision dec) (dec_decided_by dec) ?now ?w1 =
      (Inr (), ?w1\<lparr>w_approvals := ?rows\<rparr>)"
    using approval_mark_run [OF d, of ?w1 t "apr_id a" b] t k row own by simp
  obtain r v where i: "invoke g (apr_graph_thread_id a) (Resume dec) ?w3 = (r, v)" by fastforce
  have s: "w_approvals v = ?rows" "w_tenant v = Some t" "\<And>p. r \<noteq> Inr (Interrupted p)"
    using settles [of ?w3] i t by (simp_all add: settles_def)
  have "w_approvals (snd (engine_run invoke (approval_repo d) (apr_workflow a) g (apr_graph_thread_id a)
      (Resume dec) ?w3)) = ?rows \<and>
    w_tenant (snd (engine_run invoke (approval_repo d) (apr_workflow a) g (apr_graph_thread_id a)
      (Resume dec) ?w3)) = Some t"
    using i s by (cases r) (auto simp: engine_run_def monad split: run_end.split)
  then show ?thesis
    using m by (intro exI [of _ ?now]) (auto simp: engine_decide_def monad world split: prod.split)
qed

lemma gates_lowest:
  "n \<in> coordination_gates \<Longrightarrow> \<forall>n' \<in> coordination_gates. coordination_rank n \<le> coordination_rank n'"
  "n \<in> vapi_gates \<Longrightarrow> \<forall>n' \<in> vapi_gates. vapi_rank n \<le> vapi_rank n'"
  by (auto simp: coordination_gates_def vapi_gates_def coordination_rank_def vapi_rank_def rank_in_def
      approve_outbound_message_def notify_agent_kind_def)

lemma rows_milestones:
  "w_approvals w = x \<and> w_tenant w = t \<Longrightarrow>
   w_approvals (w\<lparr>w_milestones := ms\<rparr>) = x \<and> w_tenant (w\<lparr>w_milestones := ms\<rparr>) = t"
  by simp

lemma walks_settle:
  assumes d: "is_deployment d" and r: "langgraph r" and c: "dict_get (w_threads v) thread = Some (n, s)"
  shows "s = ListingRun ls \<Longrightarrow> n = approve_marketing_kind \<Longrightarrow> settles (rn_listing r) (listing_graph d) thread dec v"
    and "s = CoordinationRun st \<Longrightarrow> n \<in> coordination_gates \<Longrightarrow>
      settles (rn_coordination r) (coordination_graph d) thread dec v"
    and "s = VapiRun vs \<Longrightarrow> n \<in> vapi_gates \<Longrightarrow> settles (rn_vapi r) (vapi_graph d) thread dec v"
proof -
  have rg: "runs_graphs (rn_listing r)" "runs_graphs (rn_coordination r)" "runs_graphs (rn_vapi r)"
    using r by (simp_all add: langgraph_def)
  show "settles (rn_listing r) (listing_graph d) thread dec v" if s: "s = ListingRun ls" and n: "n = approve_marketing_kind"
  proof -
    obtain out where o: "walk recursion_limit (listing_graph d) thread n (Some dec) ls v = Some out"
      "rn_listing r (listing_graph d) thread (Resume dec) v = out"
      using listing.invoke_resume [OF rg(1) _ ranks_in_limit(1), of n v thread "engine_mls" "engine_crm d" ls dec]
        c s n packs(1) [of d] unfolding listing_graph_def by auto
    have o1: "walk recursion_limit (listing_graph d) thread n (Some dec) ls v = Some (fst out, snd out)"
      using o by simp
    have "fst out \<noteq> Inr (Interrupted p)" for p
    proof
      assume "fst out = Inr (Interrupted p)"
      with o1 listing.walk_resumed [of n recursion_limit engine_mls "engine_crm d" thread dec ls v] n
      show False unfolding listing_graph_def by force
    qed
    with o rows.listing_any [OF d rows_call o1, of "w_approvals v" "w_tenant v"] show ?thesis
      by (simp add: settles_def)
  qed
  show "settles (rn_coordination r) (coordination_graph d) thread dec v"
    if s: "s = CoordinationRun st" and n: "n \<in> coordination_gates"
  proof -
    obtain out where o: "walk recursion_limit (coordination_graph d) thread n (Some dec) st v = Some out"
      "rn_coordination r (coordination_graph d) thread (Resume dec) v = out"
      using coordination.invoke_resume [OF rg(2) n ranks_in_limit(2), of v thread "transaction_port d" "engine_crm d"
          "message_service d" st dec] c s packs(2) [of d] unfolding coordination_graph_def by auto
    have o1: "walk recursion_limit (coordination_graph d) thread n (Some dec) st v = Some (fst out, snd out)"
      using o by simp
    have "fst out \<noteq> Inr (Interrupted p)" for p
    proof
      assume "fst out = Inr (Interrupted p)"
      with o1 coordination.walk_resumed [OF gates_lowest(1) [OF n], of recursion_limit "transaction_port d"
          "engine_crm d" "message_service d" thread dec st v]
      show False unfolding coordination_graph_def by force
    qed
    with o rows.coordination_any [OF d rows_call rows_milestones o1, of "w_approvals v" "w_tenant v"] show ?thesis
      by (simp add: settles_def)
  qed
  show "settles (rn_vapi r) (vapi_graph d) thread dec v" if s: "s = VapiRun vs" and n: "n \<in> vapi_gates"
  proof -
    obtain out where o: "walk recursion_limit (vapi_graph d) thread n (Some dec) vs v = Some out"
      "rn_vapi r (vapi_graph d) thread (Resume dec) v = out"
      using vapi.invoke_resume [OF rg(3) n ranks_in_limit(3), of v thread "engine_voice d" "engine_crm d"
          "feedback_port d" "dp_extraction d" "message_service d" vs dec] c s packs(3) [of d]
      unfolding vapi_graph_def by auto
    have o1: "walk recursion_limit (vapi_graph d) thread n (Some dec) vs v = Some (fst out, snd out)"
      using o by simp
    have "fst out \<noteq> Inr (Interrupted p)" for p
    proof
      assume "fst out = Inr (Interrupted p)"
      with o1 vapi.walk_resumed [OF gates_lowest(2) [OF n], of recursion_limit "engine_voice d" "engine_crm d"
          "feedback_port d" "dp_extraction d" "message_service d" thread dec vs v]
      show False unfolding vapi_graph_def by force
    qed
    with o rows.vapi_any [OF d rows_call o1, of "w_approvals v" "w_tenant v"] show ?thesis
      by (simp add: settles_def)
  qed
qed

lemma decide_workflow_settles:
  assumes d: "is_deployment d" and r: "langgraph r" and t: "w_tenant w = Some t"
    and k: "keyed apr_id (w_approvals w)" and row: "dict_get (w_approvals w) (apr_id a) = Some b"
    and own: "\<not> is_foreign (apr_tenant_id b) t" and gate: "at_gate a w"
  shows "\<exists>now. w_approvals (snd (decide_workflow d r a dec w)) =
      dict_set (w_approvals w) (apr_id a) (decided (dec_decision dec) (dec_decided_by dec) now b) \<and>
    w_tenant (snd (decide_workflow d r a dec w)) = Some t"
proof -
  obtain n s where c: "dict_get (w_threads w) (apr_graph_thread_id a) = Some (n, s)"
    and g: "gate_of s (apr_workflow a) n"
    using gate by (auto simp: at_gate_def split: option.splits)
  note engine = engine_decide_settles [OF d t k row own]
  show ?thesis
  proof (cases s)
    case (ListingRun st)
    have "settles (rn_listing r) (listing_graph d) (apr_graph_thread_id a) dec v" if "w_threads v = w_threads w" for v
      by (rule walks_settle(1) [OF d r _ ListingRun]) (use c g ListingRun that in auto)
    from engine [OF this] g ListingRun show ?thesis by (simp add: decide_workflow_def)
  next
    case (CoordinationRun st)
    have "settles (rn_coordination r) (coordination_graph d) (apr_graph_thread_id a) dec v"
      if "w_threads v = w_threads w" for v
      by (rule walks_settle(2) [OF d r _ CoordinationRun]) (use c g CoordinationRun that in auto)
    from engine [OF this] g CoordinationRun show ?thesis by (simp add: decide_workflow_def)
  next
    case (VapiRun st)
    have "settles (rn_vapi r) (vapi_graph d) (apr_graph_thread_id a) dec v" if "w_threads v = w_threads w" for v
      by (rule walks_settle(3) [OF d r _ VapiRun]) (use c g VapiRun that in auto)
    from engine [OF this] g VapiRun show ?thesis by (simp add: decide_workflow_def)
  qed
qed

section \<open>The route\<close>

lemma plain_scrub:
  "plain_row t a \<Longrightarrow> apr_id (scrub_approval a) = apr_id a \<and> apr_kind (scrub_approval a) = apr_kind a \<and>
     apr_status (scrub_approval a) = apr_status a \<and> at_gate (scrub_approval a) w = at_gate a w"
  by (cases a) (auto simp: plain_row_def scrub_approval_def at_gate_def split: option.split)

lemma plain_edit: "plain_row t a \<Longrightarrow> edit_accepted (scrub_approval a) edited = edit_accepted a edited"
  using plain_scrub [of t a] by (simp add: edit_accepted_def split: option.split)

lemma gates_decided:
  assumes "w_approvals w' = dict_set (w_approvals w) i (decided st who now a)"
    and "dict_get (w_approvals w) i = Some a" and "apr_status a = ApPending" and "st \<noteq> ApPending"
  shows "gates_of w' = settle i st who (gates_of w)"
  using assms by (auto simp: gates_of_def settle_def gate_state_of_def decided_def dict_get_set fun_eq_iff)

text \<open>The route past its refusals: the engine decides, then the row is read back.\<close>

lemma decide_approval_past:
  assumes "ab_get repo i w = (Inr (Some a), w)" and "apr_status a = ApPending" and "st \<noteq> ApPending"
    and "edit_accepted a edited"
    and get: "\<And>v. P v \<Longrightarrow> snd (ab_get repo i v) = v"
    and P: "P (snd (decide a \<lparr>dec_decision = st, dec_decided_by = who, dec_edited_payload = edited\<rparr> w))"
    and role: "role_allows (pr_role p) Admin" and who: "who = pr_email p"
  shows "snd (decide_approval repo decide i st edited p w) =
    snd (decide a \<lparr>dec_decision = st, dec_decided_by = who, dec_edited_payload = edited\<rparr> w)"
proof -
  let ?dec = "\<lparr>dec_decision = st, dec_decided_by = who, dec_edited_payload = edited\<rparr>"
  have "\<exists>b. (if apr_kind a = approve_outbound_message
      then case edited of None \<Rightarrow> Inr None | Some d \<Rightarrow> edited_message_payload d else Inr None) = Inr b"
    using assms(4) by (auto simp: edit_accepted_def split: option.splits)
  then obtain b where e: "(if apr_kind a = approve_outbound_message
      then case edited of None \<Rightarrow> Inr None | Some d \<Rightarrow> edited_message_payload d else Inr None) = Inr b"
    by blast
  obtain x v where x: "decide a ?dec w = (x, v)" by fastforce
  have v: "snd (ab_get repo i v) = v" using get P x by simp
  show ?thesis
    unfolding decide_approval_def using assms(1-3) e x v role who
    by (cases x) (auto simp: monad require_role_def split: prod.splits sum.splits option.splits)
qed

lemma decide_route_settles:
  assumes d: "is_deployment d" and r: "langgraph r" and t: "w_tenant w = Some t"
    and k: "keyed apr_id (w_approvals w)" and a: "dict_get (w_approvals w) i = Some a"
    and row: "plain_row t a" "at_gate a w" and p: "apr_status a = ApPending" and st: "st \<noteq> ApPending"
    and edit: "edit_accepted a edited" and role: "role_allows (pr_role q) Admin"
  shows "gates_of (snd (decide_route d r i st edited q w)) = settle i st (pr_email q) (gates_of w)"
proof -
  let ?who = "pr_email q"
  let ?a = "scrub_approval a" and ?dec = "\<lparr>dec_decision = st, dec_decided_by = ?who, dec_edited_payload = edited\<rparr>"
  have own: "\<not> is_foreign (apr_tenant_id a) t" using row by (simp add: plain_row_def)
  have id: "apr_id a = i" using k a by (rule keyed_get)
  have found: "ab_get (approval_repo d) i w = (Inr (Some ?a), w)"
    using approval_get_run [OF d t k, of i] a own by simp
  obtain now where s: "w_approvals (snd (decide_workflow d r ?a ?dec w)) = dict_set (w_approvals w) i (decided st ?who now a)"
    "w_tenant (snd (decide_workflow d r ?a ?dec w)) = Some t"
    using decide_workflow_settles [OF d r t k, of ?a a ?dec] a own row p plain_scrub [OF row(1), of w] id
    by auto
  let ?P = "\<lambda>v. w_approvals v = dict_set (w_approvals w) i (decided st ?who now a) \<and> w_tenant v = Some t"
  have get: "snd (ab_get (approval_repo d) i v) = v" if v: "?P v" for v
  proof -
    have "keyed apr_id (w_approvals v)" using v keyed_set [OF k, of "decided st ?who now a"] id
      by (simp add: decided_def)
    moreover have "\<not> is_foreign (apr_tenant_id b) t" if "dict_get (w_approvals v) i = Some b" for b
      using that v own by (auto simp: dict_get_set decided_def)
    ultimately show ?thesis using approval_get_run [OF d, of v t i] v by simp
  qed
  have "snd (decide_route d r i st edited q w) = snd (decide_workflow d r ?a ?dec w)"
    unfolding decide_route_def
    by (rule decide_approval_past [where P = ?P, OF found _ st _ get _ role refl])
      (use p edit plain_scrub [OF row(1)] plain_edit [OF row(1)] s in auto)
  with s gates_decided [of _ w i st ?who now a] a p st show ?thesis by simp
qed

text \<open>
  C20: The decide route refines a register of gates in which a waiting gate is settled once, by an
  administrator. The bound tenant's row, if there is one, is plain (its own, with no secret shape in the
  fields the guard hands out), and while it is pending a checkpointed run of its workflow stands at its gate.
  Then, in this order: a caller below the admin role is a 403; a decision that is none, an unknown id, a
  settled gate is refused (422, 404, 409); an edit the boundary model refuses is a 422; and none of these
  changes anything at all. Every other decision, through guard, scoped repository, engine and the resumed
  graph, settles exactly that gate, with that decision and the caller's address, however the run ends: also
  when its effects raise, as with the 409 of a message that is gone, which therefore leaves the gate
  settled.
\<close>

theorem decide_route_refines:
  assumes d: "is_deployment d" and r: "langgraph r" and t: "w_tenant w = Some t"
    and k: "keyed apr_id (w_approvals w)"
    and row: "\<And>a. dict_get (w_approvals w) i = Some a \<Longrightarrow>
      plain_row t a \<and> (apr_status a = ApPending \<longrightarrow> at_gate a w)"
    and run: "decide_route d r i st edited p w = (out, w')"
  shows "if \<not> role_allows (pr_role p) Admin then w' = w \<and> (\<exists>m. out = Inl (HTTPException 403 m))
    else case gate_refusal i st (gates_of w) of
        Some e \<Rightarrow> out = Inl e \<and> w' = w
      | None \<Rightarrow>
          if \<forall>a. dict_get (w_approvals w) i = Some a \<longrightarrow> edit_accepted a edited
          then gates_of w' = settle i st (pr_email p) (gates_of w)
          else w' = w \<and> (\<exists>m. out = Inl (HTTPException 422 m))"
proof (cases "role_allows (pr_role p) Admin")
  case False
  with run show ?thesis by (auto simp: decide_route_def decide_approval_def require_role_def monad)
next
  case role: True
  show ?thesis
  proof (cases "gate_refusal i st (gates_of w)")
    case (Some e)
    have "out = Inl e \<and> w' = w"
      using Some run approval_get_run [OF d t k] row plain_scrub role
      by (auto simp: decide_route_def decide_approval_def require_role_def monad gate_refusal_def gates_of_def
          gate_state_of_def plain_row_def scrub_approval_def split: if_splits option.splits gate_state.splits)
    with Some role show ?thesis by simp
  next
    case None
    then obtain a where a: "dict_get (w_approvals w) i = Some a" and p: "apr_status a = ApPending" and st: "st \<noteq> ApPending"
      by (auto simp: gate_refusal_def gates_of_def gate_state_of_def split: if_splits option.splits gate_state.splits)
    have plain: "plain_row t a" and gate: "at_gate a w" using row [OF a] p by simp_all
    have found: "ab_get (approval_repo d) i w = (Inr (Some (scrub_approval a)), w)"
      using approval_get_run [OF d t k, of i] a plain by (simp add: plain_row_def)
    show ?thesis
    proof (cases "edit_accepted a edited")
      case True
      have "gates_of w' = settle i st (pr_email p) (gates_of w)"
        using decide_route_settles [OF d r t k a plain gate p st True role] run by simp
      with None True a role show ?thesis by simp
    next
      case False
      then have "w' = w \<and> (\<exists>m. out = Inl (HTTPException 422 m))"
        using run found p st plain_scrub [OF plain] role
        by (auto simp: decide_route_def decide_approval_def require_role_def monad edit_accepted_def
            split: option.splits sum.splits if_splits)
      with None False a role show ?thesis by auto
    qed
  qed
qed

lemma gate_clean:
  "scrub_text ''a1'' = ''a1''" "scrub_text ''transaction_coordination'' = ''transaction_coordination''"
  "scrub_text ''th1'' = ''th1''" "scrub_text ''approve_escalation'' = ''approve_escalation''"
  by code_simp+

definition boss :: principal where
  "boss = \<lparr>pr_subject = ''b'', pr_email = ''boss@x'', pr_name = [], pr_verified = True, pr_role = Admin\<rparr>"

theorem decide_route_refines_witness:
  "gates_of (snd (decide_route sample_deployment walkers ''a1'' ApRejected None boss gate_world)) ''a1'' =
     Some (Settled ApRejected ''boss@x'')"
proof -
  have row: "dict_get (w_approvals gate_world) i = (if i = ''a1'' then Some sample_gate else None)" for i
    by (simp add: gate_world_def dict_get_def)
  have k: "keyed apr_id (w_approvals gate_world)"
    by (simp add: keyed_def dict_ok_def gate_world_def sample_gate_def)
  have plain: "plain_row ''acme'' sample_gate"
    by (simp add: plain_row_def sample_gate_def is_foreign_def gate_clean)
  have t: "w_tenant gate_world = Some ''acme''" by (simp add: gate_world_def)
  have role: "role_allows (pr_role boss) Admin" "pr_email boss = ''boss@x''" by (simp_all add: boss_def role_allows_def)
  have pending: "gate_refusal ''a1'' ApRejected (gates_of gate_world) = None"
    by (simp add: gate_refusal_def gates_of_def row gate_state_of_def sample_gate_def)
  have "gates_of (snd (decide_route sample_deployment walkers ''a1'' ApRejected None boss gate_world)) =
      settle ''a1'' ApRejected ''boss@x'' (gates_of gate_world)"
    using decide_route_refines [OF sample_is_deployment langgraph_walkers t k _ surjective_pairing,
        of "''a1''" boss ApRejected None] plain sample_at_gate row role pending
    by (simp add: edit_accepted_def split: if_splits)
  then show ?thesis
    by (simp add: settle_def gates_of_def row gate_state_of_def sample_gate_def)
qed

end
