(* ===== verification/Cron.thy ===== *)
theory Cron
  imports Decide_Refinement Wiring
begin

text \<open>
  The scheduled milestone check (\<open>api/.../routes/cron.py\<close>), the record of its last outcome
  (\<open>SqlCronRunStore\<close> and \<open>InMemoryCronRunStore\<close> of \<open>db.py\<close>) and the health page that reads it
  (\<open>api/.../status.py\<close>).
\<close>

section \<open>The last run of a job\<close>

record cron_backend =
  cb_record :: "string \<Rightarrow> string \<Rightarrow> nat \<Rightarrow> nat \<Rightarrow> nat \<Rightarrow> string option \<Rightarrow> cron_run W"
  cb_latest :: "string \<Rightarrow> cron_run option W"

definition cron_row :: "string \<Rightarrow> string \<Rightarrow> nat \<Rightarrow> nat \<Rightarrow> nat \<Rightarrow> string option \<Rightarrow> instant \<Rightarrow> cron_run" where
  "cron_row job outcome checked skipped suppressed err now =
     \<lparr>cron_job = job, cron_outcome = outcome, cron_finished_at = now, cron_checked = checked,
      cron_skipped = skipped, cron_suppressed = suppressed, cron_error = err\<rparr>"

definition mem_record_cron ::
    "string \<Rightarrow> string \<Rightarrow> nat \<Rightarrow> nat \<Rightarrow> nat \<Rightarrow> string option \<Rightarrow> cron_run W" where
  "mem_record_cron job outcome checked skipped suppressed err =
     bindM now_utc (\<lambda>now.
       let r = cron_row job outcome checked skipped suppressed err now
       in thenM (modify (\<lambda>w. w\<lparr>w_cron := dict_set (w_cron w) job r\<rparr>)) (ret r))"

definition mem_latest_cron :: "string \<Rightarrow> cron_run option W" where
  "mem_latest_cron job = gets (\<lambda>w. dict_get (w_cron w) job)"

text \<open>\<open>INSERT ... ON CONFLICT (job) DO UPDATE\<close>.\<close>

definition sql_record_cron ::
    "string \<Rightarrow> string \<Rightarrow> nat \<Rightarrow> nat \<Rightarrow> nat \<Rightarrow> string option \<Rightarrow> cron_run W" where
  "sql_record_cron job outcome checked skipped suppressed err =
     bindM now_utc (\<lambda>now.
       let r = cron_row job outcome checked skipped suppressed err now
       in thenM (modify (\<lambda>w. w\<lparr>w_cron := sql_upsert cron_job (w_cron w) r\<rparr>)) (ret r))"

definition sql_latest_cron :: "string \<Rightarrow> cron_run option W" where
  "sql_latest_cron job = gets (\<lambda>w. List.find (\<lambda>r. cron_job r = job) (dict_values (w_cron w)))"

definition mem_cron :: cron_backend where
  "mem_cron = \<lparr>cb_record = mem_record_cron, cb_latest = mem_latest_cron\<rparr>"

definition sql_cron :: cron_backend where
  "sql_cron = \<lparr>cb_record = sql_record_cron, cb_latest = sql_latest_cron\<rparr>"

section \<open>The milestone check\<close>

text \<open>\<open>safe_error_label\<close>: the class of the exception, never its text.\<close>

fun safe_error_label :: "exn \<Rightarrow> string" where
  "safe_error_label (TenantContextMissing _) = ''TenantContextMissing''"
| "safe_error_label (CrossTenantError _ _) = ''CrossTenantError''"
| "safe_error_label (EgressBlockedError _ _) = ''EgressBlockedError''"
| "safe_error_label (ReplayInProgressError _ _) = ''ReplayInProgressError''"
| "safe_error_label (UnknownTemplateError _) = ''UnknownTemplateError''"
| "safe_error_label (TemplateParamError _ _) = ''TemplateParamError''"
| "safe_error_label (UnknownOutboundMessageError _) = ''UnknownOutboundMessageError''"
| "safe_error_label (TransactionAlreadyExists _) = ''TransactionAlreadyExists''"
| "safe_error_label (DocumentAlreadyExists _) = ''DocumentAlreadyExists''"
| "safe_error_label (AuthError _ _) = ''AuthError''"
| "safe_error_label (HTTPException _ _) = ''HTTPException''"
| "safe_error_label (ValueError _) = ''ValueError''"
| "safe_error_label (KeyError _) = ''KeyError''"
| "safe_error_label (RuntimeError _) = ''RuntimeError''"
| "safe_error_label AssertionError = ''AssertionError''"
| "safe_error_label OverflowError = ''OverflowError''"
| "safe_error_label (HttpxError c _) = c"
| "safe_error_label (ProviderError c _) = c"
| "safe_error_label (FleetError _) = ''FleetError''"
| "safe_error_label (UpgradeError _) = ''UpgradeError''"
| "safe_error_label (OffboardError _) = ''OffboardError''"
| "safe_error_label (CalledProcessError _ _ _) = ''CalledProcessError''"
| "safe_error_label (OSError c _) = c"
| "safe_error_label CancelledError = ''CancelledError''"

definition milestone_cron_job :: string where
  "milestone_cron_job = ''milestones''"

record cron_result =
  cres_transaction_id :: string
  cres_status :: string
  cres_outcome :: "string option"
  cres_approval_id :: "string option"

text \<open>The counts outlive an exception of the loop, so they are part of every outcome of it.\<close>

record cron_progress =
  pg_results :: "cron_result list"
  pg_skipped :: nat
  pg_suppressed :: nat

definition no_progress :: cron_progress where
  "no_progress = \<lparr>pg_results = [], pg_skipped = 0, pg_suppressed = 0\<rparr>"

text \<open>The transaction a gate is about: \<open>(payload or {}).get("transaction_id")\<close>, when truthy.\<close>

definition gate_transaction :: "approval_request \<Rightarrow> string option" where
  "gate_transaction a =
     (case apr_payload a of
        None \<Rightarrow> None
      | Some d \<Rightarrow> (case dict_get d ''transaction_id'' of
          None \<Rightarrow> None
        | Some v \<Rightarrow> if truthy v then Some (py_str v) else None))"

definition awaiting :: "string \<Rightarrow> approval_request list \<Rightarrow> string list" where
  "awaiting kind pending =
     concat (map (\<lambda>a. if apr_kind a = kind
                      then (case gate_transaction a of None \<Rightarrow> [] | Some i \<Rightarrow> [i]) else []) pending)"

text \<open>\<open>(run.output or {}).get("outcome")\<close>: the channel is part of the state once a node set it.\<close>

fun outcome_channel :: "run_state \<Rightarrow> string option" where
  "outcome_channel (CoordinationRun s) = (if cs_outcome s = [] then None else Some (cs_outcome s))"
| "outcome_channel (VapiRun s) = (if vs_outcome s = [] then None else Some (vs_outcome s))"
| "outcome_channel (ListingRun s) = None"

definition cron_result_of :: "string \<Rightarrow> run_result \<Rightarrow> cron_result" where
  "cron_result_of i run =
     \<lparr>cres_transaction_id = i, cres_status = rr_status run,
      cres_outcome = (case rr_output run of None \<Rightarrow> None | Some s \<Rightarrow> outcome_channel s),
      cres_approval_id = map_option apr_id (rr_approval run)\<rparr>"

type_synonym engine_start_fn = "run_state \<Rightarrow> string option \<Rightarrow> run_result W"

fun check_each :: "engine_start_fn \<Rightarrow> string list \<Rightarrow> string list \<Rightarrow> transaction list \<Rightarrow>
    cron_progress \<Rightarrow> world \<Rightarrow> (exn + unit) \<times> cron_progress \<times> world" where
  "check_each start esc email [] p w = (Inr (), p, w)"
| "check_each start esc email (t # ts) p w =
     (if txn_id t \<in> set esc
      then check_each start esc email ts (p\<lparr>pg_skipped := Suc (pg_skipped p)\<rparr>) w
      else let suppress = (txn_id t \<in> set email);
               p1 = (if suppress then p\<lparr>pg_suppressed := Suc (pg_suppressed p)\<rparr> else p)
           in case start (CoordinationRun (coordination_input (txn_id t) suppress)) None w of
                (Inl e, w1) \<Rightarrow> (Inl e, p1, w1)
              | (Inr run, w1) \<Rightarrow>
                  check_each start esc email ts
                    (p1\<lparr>pg_results := pg_results p1 @ [cron_result_of (txn_id t) run]\<rparr>) w1)"

definition check_pass :: "engine_start_fn \<Rightarrow> transaction_backend \<Rightarrow> approval_backend \<Rightarrow> world \<Rightarrow>
    (exn + unit) \<times> cron_progress \<times> world" where
  "check_pass start store repo w =
     (case ab_list repo (Some ApPending) w of
        (Inl e, w1) \<Rightarrow> (Inl e, no_progress, w1)
      | (Inr pending, w1) \<Rightarrow>
          (case tb_list_active store w1 of
             (Inl e, w2) \<Rightarrow> (Inl e, no_progress, w2)
           | (Inr active, w2) \<Rightarrow>
               check_each start (awaiting approve_escalation pending)
                 (awaiting approve_outbound_message pending) active no_progress w2))"

fun is_http_exception :: "exn \<Rightarrow> bool" where
  "is_http_exception (HTTPException _ _) = True"
| "is_http_exception _ = False"

definition record_progress :: "cron_backend \<Rightarrow> string \<Rightarrow> cron_progress \<Rightarrow> string option \<Rightarrow> cron_run W" where
  "record_progress runs outcome p err =
     cb_record runs milestone_cron_job outcome (length (pg_results p)) (pg_skipped p) (pg_suppressed p) err"

definition milestone_pass :: "engine_start_fn \<Rightarrow> transaction_backend \<Rightarrow> approval_backend \<Rightarrow> cron_backend \<Rightarrow>
    cron_progress W" where
  "milestone_pass start store repo runs w =
     (case check_pass start store repo w of
        (res, p, w1) \<Rightarrow>
          (case (case res of Inl e \<Rightarrow> (Inl e, w1) | Inr _ \<Rightarrow> record_progress runs ''success'' p None w1) of
             (Inr _, w2) \<Rightarrow> (Inr p, w2)
           | (Inl e, w2) \<Rightarrow>
               if is_http_exception e \<or> \<not> is_exception e then (Inl e, w2)
               else thenM (record_progress runs ''failure'' p (Some (safe_error_label e))) (raise e) w2))"

definition run_milestone_checks ::
    "env \<Rightarrow> engine_start_fn \<Rightarrow> transaction_backend \<Rightarrow> approval_backend \<Rightarrow> cron_backend \<Rightarrow> string option \<Rightarrow>
     cron_progress W" where
  "run_milestone_checks env start store repo runs x_cron_key =
     (if env_get env ''CRON_SECRET'' [] \<noteq> [] \<and> x_cron_key \<noteq> env ''CRON_SECRET''
      then raise (HTTPException 401 ''bad or missing X-Cron-Key'')
      else milestone_pass start store repo runs)"

section \<open>The health page\<close>

definition cron_stale_after_seconds :: int where
  "cron_stale_after_seconds = 24 * 60 * 60"

definition selector_envs :: "(string \<times> string \<times> string) list" where
  "selector_envs =
     [(''crm'', ''CRM_VENDOR'', ''followupboss''), (''email'', ''EMAIL_PROVIDER'', ''stub''),
      (''sms'', ''SMS_PROVIDER'', ''stub''), (''files'', ''FILES_PROVIDER'', ''stub''),
      (''extraction'', ''EXTRACTION_BACKEND'', ''deterministic''),
      (''drafting'', ''DRAFTING_BACKEND'', ''deterministic'')]"

definition instance_version :: "env \<Rightarrow> string" where
  "instance_version env =
     str_or (str_or (env_get env ''IMAGE_VERSION'' []) (env_get env ''BROKEROPS_VERSION'' [])) ''dev''"

definition orchestrator_name :: "env \<Rightarrow> string" where
  "orchestrator_name env = str_or (lower (strip (env_get env ''ORCHESTRATOR'' ''langgraph''))) ''langgraph''"

definition selector_summary :: "env \<Rightarrow> (string \<times> string) list" where
  "selector_summary env = map (\<lambda>(key, name, fallback). (key, str_or (selector env name) fallback)) selector_envs"

record migration_block =
  mig_current :: "string option"
  mig_head :: "string option"
  mig_matched :: bool
  mig_mode :: string

text \<open>
  Alembic answers the two revisions: \<open>head\<close> from the files, \<open>current\<close> from the database when there is
  one (\<open>None\<close>: no database).
\<close>

definition migration_status :: "string option \<Rightarrow> string option option \<Rightarrow> migration_block" where
  "migration_status head database =
     (case database of
        None \<Rightarrow> \<lparr>mig_current = None, mig_head = head, mig_matched = True, mig_mode = ''no-database''\<rparr>
      | Some current \<Rightarrow>
          \<lparr>mig_current = current, mig_head = head,
           mig_matched = (current \<noteq> None \<and> head \<noteq> None \<and> current = head), mig_mode = ''database''\<rparr>)"

record cron_block =
  cbl_last :: "cron_run option"
  cbl_age_seconds :: "int option"
  cbl_stale :: bool

text \<open>Instants count microseconds: \<open>int\<close> of the seconds truncates, which \<open>max(0, ...)\<close> makes a division.\<close>

definition cron_payload :: "cron_run option \<Rightarrow> instant \<Rightarrow> cron_block" where
  "cron_payload r now =
     (case r of
        None \<Rightarrow> \<lparr>cbl_last = None, cbl_age_seconds = None, cbl_stale = True\<rparr>
      | Some run \<Rightarrow>
          (let age = max 0 (now - cron_finished_at run) div 1000000
           in \<lparr>cbl_last = Some run, cbl_age_seconds = Some age,
               cbl_stale = (age > cron_stale_after_seconds \<or> cron_outcome run = ''failure'')\<rparr>))"

record status_page =
  sp_status :: string
  sp_version :: string
  sp_orchestrator :: string
  sp_selectors :: "(string \<times> string) list"
  sp_migrations :: migration_block
  sp_last_cron :: cron_block

definition build_status_payload ::
    "env \<Rightarrow> string option \<Rightarrow> string option option \<Rightarrow> cron_backend \<Rightarrow> status_page W" where
  "build_status_payload env head database runs =
     bindM (cb_latest runs milestone_cron_job) (\<lambda>last.
     bindM now_utc (\<lambda>now.
       let migrations = migration_status head database; block = cron_payload last now
       in ret \<lparr>sp_status = (if \<not> mig_matched migrations \<or> cbl_stale block then ''degraded'' else ''ok''),
               sp_version = instance_version env, sp_orchestrator = orchestrator_name env,
               sp_selectors = selector_summary env, sp_migrations = migrations, sp_last_cron = block\<rparr>))"

end
