(* ===== verification/Cron_Properties.thy ===== *)
theory Cron_Properties
  imports Cron
begin

text \<open>
  What the scheduled check guarantees: it never puts a second open gate of a kind on a transaction, and
  the health page shows how its last pass ended.
\<close>

section \<open>Where a walk pauses\<close>

lemma walk_pause:
  assumes "walk k g thread n resume st w = Some (Inr (Interrupted x), w')" and "P n resume st"
    and node: "\<And>n resume st f w st' w' route n'. P n resume st \<Longrightarrow> map_of (g_nodes g) n = Some f \<Longrightarrow>
      f resume st w = (Inr (Updated st'), w') \<Longrightarrow> map_of (g_edges g) n = Some route \<Longrightarrow>
      route st' = Inr (Some n') \<Longrightarrow> P n' None st'"
  shows "\<exists>n resume st f v v1. P n resume st \<and> map_of (g_nodes g) n = Some f \<and>
    f resume st v = (Inr (Paused x), v1) \<and>
    w' = v1\<lparr>w_threads := dict_set (w_threads v1) thread (n, g_pack g st)\<rparr>"
  using assms(1,2)
proof (induction k arbitrary: n resume st w)
  case 0
  then show ?case by simp
next
  case (Suc k)
  then obtain f where f: "map_of (g_nodes g) n = Some f" by (auto split: option.splits)
  obtain res w1 where r: "f resume st w = (res, w1)" by fastforce
  with Suc.prems(1) f obtain y where y: "res = Inr y" by (cases res) auto
  show ?case
  proof (cases y)
    case (Paused v)
    with Suc.prems(1) f r y have "v = x" "w' = w1\<lparr>w_threads := dict_set (w_threads w1) thread (n, g_pack g st)\<rparr>"
      by auto
    with Suc.prems(2) f r y Paused show ?thesis by blast
  next
    case (Updated st')
    with Suc.prems(1) f r y obtain route n' where e: "map_of (g_edges g) n = Some route" "route st' = Inr (Some n')"
      and rest: "walk k g thread n' None st' w1 = Some (Inr (Interrupted x), w')"
      by (auto split: option.splits sum.splits)
    from Suc.IH [OF rest node [OF Suc.prems(2) f _ e]] r y Updated show ?thesis by blast
  qed
qed

definition yields :: "('st \<Rightarrow> bool) \<Rightarrow> 'st node_result W \<Rightarrow> bool" where
  "yields R m \<longleftrightarrow> (\<forall>w st w'. m w = (Inr (Updated st), w') \<longrightarrow> R st)"

lemma yields_rules [intro]:
  "R st \<Longrightarrow> yields R (ret (Updated st))" "yields R (ret (Paused v))" "yields R (raise e)"
  "(\<And>a. yields R (k a)) \<Longrightarrow> yields R (bindM m k)" "yields R n \<Longrightarrow> yields R (thenM l n)"
  by (auto simp: yields_def monad split: prod.splits sum.splits)

lemma yields_cases [intro]:
  "(c \<Longrightarrow> yields R a) \<Longrightarrow> (\<not> c \<Longrightarrow> yields R b) \<Longrightarrow> yields R (if c then a else b)"
  "yields R n \<Longrightarrow> (\<And>x. yields R (s x)) \<Longrightarrow> yields R (case opt of None \<Rightarrow> n | Some x \<Rightarrow> s x)"
  "(\<And>x y. yields R (h x y)) \<Longrightarrow> yields R (case p of (x, y) \<Rightarrow> h x y)"
  by (simp_all split: option.split prod.split)

lemma yieldsD: "yields R m \<Longrightarrow> m w = (Inr (Updated st), w') \<Longrightarrow> R st"
  by (auto simp: yields_def)

text \<open>The run's transaction and flag stay, and only an unsuppressed draft names a message.\<close>

definition same_run :: "bool \<Rightarrow> coordination_state \<Rightarrow> coordination_state \<Rightarrow> bool" where
  "same_run drafts st st' \<longleftrightarrow>
     cs_transaction_id st' = cs_transaction_id st \<and>
     cs_suppress_reminder_email st' = cs_suppress_reminder_email st \<and>
     (cs_reminder_message_id st' = cs_reminder_message_id st \<or>
      drafts \<and> \<not> cs_suppress_reminder_email st)"

lemma coordination_keeps_run:
  "yields (same_run False st) (load_txn s r st)" "yields (same_run False st) (evaluate_milestones s r st)"
  "yields (same_run False st) (log_on_track r st)" "yields (same_run False st) (draft_reminders s r st)"
  "yields (same_run False st) (send_reminders s c r st)"
  "yields (same_run True st) (draft_reminder_email s v r st)"
  "yields (same_run False st) (approve_reminder_email v r st)"
  "yields (same_run False st) (send_reminder_email v r st)"
  "yields (same_run False st) (dismiss_reminder_email v r st)" "yields (same_run False st) (escalate s r st)"
  "yields (same_run False st) (notify s c r st)" "yields (same_run False st) (dismiss r st)"
  "yields (same_run False st) (queue_vapi_call s r st)"
  unfolding coordination_nodes Let_def
  by (auto intro!: yields_rules yields_cases simp: same_run_def)

definition pass_state :: "string \<Rightarrow> bool \<Rightarrow> string \<Rightarrow> approval_decision option \<Rightarrow> coordination_state \<Rightarrow> bool" where
  "pass_state i b n resume st \<longleftrightarrow>
     resume = None \<and> cs_transaction_id st = i \<and> cs_suppress_reminder_email st = b \<and>
     (b \<longrightarrow> cs_reminder_message_id st = []) \<and>
     (n = approve_outbound_message \<longrightarrow> cs_reminder_message_id st \<noteq> [])"

lemma pass_state_step:
  assumes P: "pass_state i b n resume st" and f: "map_of (g_nodes (transaction_coordination s c v)) n = Some f"
    and r: "f resume st w = (Inr (Updated st'), w')"
    and e: "map_of (g_edges (transaction_coordination s c v)) n = Some route" "route st' = Inr (Some n')"
  shows "pass_state i b n' None st'"
proof -
  have run: "same_run (n = ''draft_reminder_email'') st st'"
    using f r coordination_keeps_run [THEN yieldsD]
    by (auto simp: transaction_coordination_def coordination_names split: if_splits)
  have "cs_reminder_message_id st' \<noteq> []" if "n' = approve_outbound_message"
  proof -
    from coordination_edge [OF e] that have "n = ''draft_reminder_email''"
      by (auto simp: coordination_edges_def coordination_names)
    with e that show ?thesis
      by (auto simp: transaction_coordination_def coordination_names route_after_draft_email_def split: if_splits)
  qed
  with run P show ?thesis by (auto simp: pass_state_def same_run_def)
qed

section \<open>The gates one check files\<close>

text \<open>The open gates of a kind the check sees on a transaction, under the tenant's guarded view.\<close>

definition about :: "string \<Rightarrow> string \<Rightarrow> string \<Rightarrow> approval_request \<Rightarrow> bool" where
  "about t kind i a \<longleftrightarrow>
     \<not> is_foreign (apr_tenant_id a) t \<and> apr_status a = ApPending \<and>
     apr_kind (scrub_approval a) = kind \<and> gate_transaction (scrub_approval a) = Some i"

definition open_gates :: "string \<Rightarrow> string \<Rightarrow> string \<Rightarrow> world \<Rightarrow> nat" where
  "open_gates t kind i w = length (filter (about t kind i) (dict_values (w_approvals w)))"

lemma filter_set:
  "length (filter p (dict_values (dict_set d k v))) \<le>
   length (filter p (dict_values d)) + (if p v then 1 else 0)"
  unfolding dict_set_def dict_values_def by (induction d) auto

lemma gate_kinds:
  "scrub_text approve_escalation = approve_escalation"
  "scrub_text approve_outbound_message = approve_outbound_message"
  by (simp_all add: approve_escalation_def approve_outbound_message_def)
    (intro scrub_text_no_match no_anchor_no_match; code_simp)+

lemma gate_names:
  "\<not> is_secret_key ''kind''" "\<not> is_secret_key ''transaction_id''" "\<not> is_secret_key ''listing_key''"
  "\<not> is_secret_key ''milestones''" "\<not> is_secret_key ''message_id''"
  by code_simp+

lemma authorize_args_Inr: "authorize_args tool args w = (Inr x, w') \<Longrightarrow> w' = w"
  unfolding authorize_args_def
  by (induction args arbitrary: x w) (auto simp: monad dest: check_tenants_Inr split: prod.splits sum.splits)

lemma guarded_InrD:
  assumes "guarded tool args enc scrub body w = (Inr y, w')"
  shows "\<exists>r. body w = (Inr r, w') \<and> y = scrub r"
  using assms unfolding guarded_def
  by (auto simp: monad dest!: authorize_args_Inr check_tenants_Inr split: prod.splits sum.splits)

lemma got_transaction:
  assumes d: "is_deployment d" and k: "keyed txn_id (w_transactions w)"
    and g: "tb_get (transaction_port d) i w = (Inr (Some x), w')"
  shows "txn_id x = scrub_text i"
proof -
  from g obtain r where r: "scoped_get_transaction (sb_transactions (dp_stores d)) i w = (Inr (Some r), w')"
    and x: "x = scrub_transaction r"
    by (auto simp: transaction_port_def guarded_transactions_def scoped_transactions_def
        eq_commute [of "Some x"] dest!: guarded_InrD)
  have "tb_get (sb_transactions (dp_stores d)) i w = (Inr (dict_get (w_transactions w) i), w)"
    using d find_keyed [OF k, of i]
    by (auto simp: is_deployment_def sql_stores_def mem_stores_def sql_transactions_def mem_transactions_def
        sql_get_transaction_def mem_get_transaction_def)
  with r have "dict_get (w_transactions w) i = Some r"
    by (auto simp: scoped_get_transaction_def monad confine_read_run require_tenant_def current_tenant_def
        split: option.splits if_splits)
  from keyed_get [OF k this] x show ?thesis by (simp add: scrub_transaction_def)
qed

text \<open>What a pause of a check's run says: its kind, its transaction, and no email when suppressed.\<close>

interpretation txns: run_books "\<lambda>w. w_transactions w = x" for x
  by unfold_locales simp_all

lemma pause_about:
  assumes d: "is_deployment d" and k: "keyed txn_id (w_transactions w')" and i: "scrub_text i = i"
    and run: "walk n (coordination_graph d) thread ''load_txn'' None (coordination_input i b) w =
      Some (Inr (Interrupted x), w')"
    and g: "apr_payload a = Some x" "apr_kind a = get_str x ''kind'' ''unknown''"
    and kind: "about t kind j a"
  shows "j = i \<and> (kind = approve_outbound_message \<longrightarrow> \<not> b)"
proof -
  let ?g = "transaction_coordination (transaction_port d) (engine_crm d) (message_service d)"
  have start: "pass_state i b ''load_txn'' None (coordination_input i b)"
    by (simp add: pass_state_def coordination_input_def approve_outbound_message_def)
  have "\<exists>n resume st f v v1. pass_state i b n resume st \<and> map_of (g_nodes ?g) n = Some f \<and>
      f resume st v = (Inr (Paused x), v1) \<and>
      w' = v1\<lparr>w_threads := dict_set (w_threads v1) thread (n, g_pack ?g st)\<rparr>"
    by (rule walk_pause [OF run [unfolded coordination_graph_def], of "pass_state i b", OF start])
      (rule pass_state_step)
  then obtain m resume st f v v1 where P: "pass_state i b m resume st"
    and f: "map_of (g_nodes ?g) m = Some f" and p: "f resume st v = (Inr (Paused x), v1)"
    and w': "w' = v1\<lparr>w_threads := dict_set (w_threads v1) thread (m, g_pack ?g st)\<rparr>"
    by blast
  from P have none: "resume = None" by (simp add: pass_state_def)
  from coordination.pause [OF f p] have "m \<in> coordination_gates" by simp
  then consider "m = ''escalate''" | "m = approve_outbound_message" by (auto simp: coordination_gates_def)
  then show ?thesis
  proof cases
    case 1
    with f have "f = escalate (transaction_port d)"
      by (simp add: transaction_coordination_def coordination_names)
    with p none obtain txn overdue v0 where txn: "need_transaction (transaction_port d) st v = (Inr txn, v0)"
      and x: "x = escalation_gate txn overdue"
      by (auto simp: escalate_def monad split: prod.splits sum.splits)
    have "keeps (\<lambda>w. w_transactions w = w_transactions v) (escalate (transaction_port d) resume st)"
      by (rule txns.coordination_gate_nodes [OF d])
    from keepsD [OF this refl p [unfolded \<open>f = _\<close>]] w' k have kv: "keyed txn_id (w_transactions v)" by simp
    from txn P have "tb_get (transaction_port d) i v = (Inr (Some txn), v0)"
      by (auto simp: need_transaction_def pass_state_def monad split: prod.splits sum.splits option.splits)
    from got_transaction [OF d kv this] i have "txn_id txn = i" by simp
    with x g kind i gate_kinds show ?thesis
      by (auto simp: about_def gate_transaction_def scrub_approval_def escalation_gate_def get_str_def
          dict_get_def gate_names approve_escalation_def approve_outbound_message_def split: if_splits)
  next
    case 2
    with f have "f = approve_reminder_email (message_service d)"
      by (simp add: transaction_coordination_def coordination_names)
    with p none obtain msg where "x = message_gate msg (''transaction_id'', cs_transaction_id st)"
      by (auto simp: approve_reminder_email_def monad split: prod.splits sum.splits option.splits)
    with P 2 g kind i gate_kinds show ?thesis
      by (auto simp: about_def gate_transaction_def scrub_approval_def message_gate_def get_str_def
          dict_get_def gate_names pass_state_def split: if_splits)
  qed
qed

section \<open>One start\<close>

interpretation pass: run_books "\<lambda>w. w_approvals w = x \<and> w_tenant w = t \<and> w_transactions w = y \<and> w_cron w = c"
  for x t y c
  by unfold_locales simp_all

lemma pass_call:
  "keeps (\<lambda>w. w_approvals w = x \<and> w_tenant w = t \<and> w_transactions w = y \<and> w_cron w = c) (ext_call q)"
  by (simp add: keeps_def ext_call_def)

definition same_pass :: "world \<Rightarrow> world \<Rightarrow> bool" where
  "same_pass w w' \<longleftrightarrow> w_tenant w' = w_tenant w \<and> w_transactions w' = w_transactions w \<and> w_cron w' = w_cron w"

lemma same_pass_refl [simp]: "same_pass w w"
  by (simp add: same_pass_def)

lemma same_pass_trans: "same_pass a b \<Longrightarrow> same_pass b c \<Longrightarrow> same_pass a c"
  by (simp add: same_pass_def)

text \<open>The run of one transaction: at most one gate is filed, about it, and no email gate when suppressed.\<close>

lemma start_files_about:
  assumes d: "is_deployment d" and r: "langgraph r" and t: "w_tenant w = Some t"
    and k: "keyed txn_id (w_transactions w)" and i: "scrub_text i = i"
    and run: "start_workflow d r (CoordinationRun (coordination_input i b)) actor w = (res, w')"
  shows "same_pass w w' \<and> open_gates t kind j w' \<le> open_gates t kind j w +
    (if j = i \<and> (kind = approve_outbound_message \<longrightarrow> \<not> b) then 1 else 0)"
proof -
  let ?th = "w_uuid w (w_uuids w)" and ?st = "coordination_input i b"
  let ?c = "\<lparr>ac_workflow_run_id = ?th, ac_workflow = transaction_coordination_name, ac_approval_id = None,
      ac_actor = actor, ac_transaction_id = cs_transaction_id ?st\<rparr>"
  let ?w1 = "w\<lparr>w_uuids := Suc (w_uuids w), w_audit := Some ?c\<rparr>"
  have inv: "runs_graphs (rn_coordination r)" using r by (simp add: langgraph_def)
  have low: "coordination_rank (g_start (coordination_graph d)) < recursion_limit"
    by (simp add: starts ranks_in_limit)
  obtain out v where o: "walk recursion_limit (coordination_graph d) ?th ''load_txn'' None ?st ?w1 = Some (out, v)"
    and c: "rn_coordination r (coordination_graph d) ?th (Fresh ?st) ?w1 = (out, v)"
    using coordination.invoke_fresh [OF inv low [unfolded coordination_graph_def], of ?th ?st ?w1] starts(2) [of d]
    by (metis coordination_graph_def surj_pair)
  have same: "w_approvals v = w_approvals w" "same_pass w v" "w_tenant v = Some t"
    using pass.coordination_fresh [OF d pass_call pass_call o, of "w_approvals w" "w_tenant w" "w_transactions w" "w_cron w"] t
    by (simp_all add: same_pass_def)
  show ?thesis
  proof (cases out)
    case (Inl e)
    with run c same show ?thesis
      by (auto simp: engine_start_def engine_run_def monad world open_gates_def same_pass_def)
  next
    case (Inr y)
    show ?thesis
    proof (cases y)
      case (Finished s)
      with Inr run c same show ?thesis
        by (auto simp: engine_start_def engine_run_def monad world open_gates_def same_pass_def)
    next
      case (Interrupted x)
      let ?v = "v\<lparr>w_uuids := Suc (w_uuids v), w_reads := Suc (w_reads v)\<rparr>"
      let ?a = "\<lparr>apr_tenant_id = [], apr_id = w_uuid v (w_uuids v), apr_workflow = transaction_coordination_name,
          apr_graph_thread_id = ?th, apr_kind = get_str x ''kind'' ''unknown'', apr_payload = Some x,
          apr_status = ApPending, apr_decided_by = None, apr_created_at = w_clock v (w_reads v),
          apr_decided_at = None\<rparr>"
      let ?row = "?a\<lparr>apr_tenant_id := t\<rparr>"
      have kv: "keyed txn_id (w_transactions v)" using same(2) k by (simp add: same_pass_def)
      have about: "j = i \<and> (kind = approve_outbound_message \<longrightarrow> \<not> b)" if "about t kind j ?row"
        by (rule pause_about [OF d kv i o [unfolded Inr Interrupted] _ _ that]) simp_all
      have "ab_create (approval_repo d) ?a ?v =
          (Inr (), ?v\<lparr>w_approvals := dict_set (w_approvals v) (apr_id ?a) ?row\<rparr>) \<or>
          (\<exists>e. ab_create (approval_repo d) ?a ?v = (Inl e, ?v))"
        using approval_create_run [OF d, of ?v t ?a] same(3) by auto
      with run c Inr Interrupted same(1,2)
      have "same_pass w w' \<and> (w_approvals w' = w_approvals w \<or>
          w_approvals w' = dict_set (w_approvals w) (apr_id ?a) ?row)"
        by (auto simp: engine_start_def engine_run_def monad world same_pass_def Let_def)
      with about filter_set [of "about t kind j" "w_approvals w" "apr_id ?a" ?row] show ?thesis
        by (auto simp: open_gates_def split: if_splits)
    qed
  qed
qed

section \<open>One pass\<close>

lemma in_awaiting:
  "j \<in> set (awaiting kind xs) \<longleftrightarrow> (\<exists>a \<in> set xs. apr_kind a = kind \<and> gate_transaction a = Some j)"
proof -
  have one: "j \<in> set (if apr_kind a = kind then (case gate_transaction a of None \<Rightarrow> [] | Some i \<Rightarrow> [i]) else []) \<longleftrightarrow>
      apr_kind a = kind \<and> gate_transaction a = Some j" for a
  proof (cases "apr_kind a = kind")
    case True
    then show ?thesis by (cases "gate_transaction a"; simp only: option.case if_True) auto
  qed (simp only: if_False list.set empty_iff simp_thms)
  show ?thesis unfolding awaiting_def set_concat set_map UN_iff image_iff bex_simps one by blast
qed

lemma pending_seen:
  assumes d: "is_deployment d" and t: "w_tenant w = Some t"
    and l: "ab_list (approval_repo d) (Some ApPending) w = (Inr pending, w')"
  shows "w' = w \<and> (j \<in> set (awaiting kind pending) \<longleftrightarrow> 0 < open_gates t kind j w)"
proof -
  from l obtain rows where r: "scoped_list_approvals (sb_approvals (dp_stores d)) (Some ApPending) w = (Inr rows, w')"
    and p: "pending = map scrub_approval rows"
    by (auto simp: approval_repo_def guarded_approvals_def scoped_approvals_def dest!: guarded_InrD)
  obtain all where "ab_list (sb_approvals (dp_stores d)) (Some ApPending) w = (Inr all, w)"
    and all: "set all = {a \<in> set (dict_values (w_approvals w)). apr_status a = ApPending}"
  proof -
    have "\<exists>all. ab_list (sb_approvals (dp_stores d)) (Some ApPending) w = (Inr all, w) \<and>
        set all = {a \<in> set (dict_values (w_approvals w)). apr_status a = ApPending}"
      using d by (auto simp: is_deployment_def sql_stores_def mem_stores_def sql_approvals_def mem_approvals_def
          sql_list_approvals_def mem_list_approvals_def gets_def)
    then show thesis using that by blast
  qed
  with r t have w': "w' = w" and "rows = filter (\<lambda>a. \<not> is_foreign (apr_tenant_id a) t) all"
    by (simp_all add: scoped_list_approvals_def monad require_tenant_def current_tenant_def)
  with all have rows: "set rows = {a \<in> set (dict_values (w_approvals w)). apr_status a = ApPending \<and>
      \<not> is_foreign (apr_tenant_id a) t}" by auto
  have "j \<in> set (awaiting kind pending) \<longleftrightarrow>
      (\<exists>a \<in> set rows. apr_kind (scrub_approval a) = kind \<and> gate_transaction (scrub_approval a) = Some j)"
    by (simp add: in_awaiting p)
  also have "\<dots> \<longleftrightarrow> (\<exists>a \<in> set (dict_values (w_approvals w)). about t kind j a)"
    unfolding rows about_def by blast
  also have "\<dots> \<longleftrightarrow> 0 < open_gates t kind j w"
    by (simp add: open_gates_def filter_empty_conv)
  finally show ?thesis using w' by simp
qed

lemma active_seen:
  assumes d: "is_deployment d" and t: "w_tenant w = Some t" and k: "keyed txn_id (w_transactions w)"
    and clean: "\<forall>x \<in> set (dict_values (w_transactions w)). scrub_text (txn_id x) = txn_id x"
    and l: "tb_list_active (transaction_port d) w = (Inr ts, w')"
  shows "w' = w \<and> distinct (map txn_id ts) \<and> (\<forall>x \<in> set ts. scrub_text (txn_id x) = txn_id x)"
proof -
  from l obtain rows where r: "scoped_list_active_transactions (sb_transactions (dp_stores d)) w = (Inr rows, w')"
    and ts: "ts = map scrub_transaction rows"
    by (auto simp: transaction_port_def guarded_transactions_def scoped_transactions_def dest!: guarded_InrD)
  have "\<exists>p. tb_list_active (sb_transactions (dp_stores d)) w = (Inr (filter p (dict_values (w_transactions w))), w)"
    using d by (auto simp: is_deployment_def sql_stores_def mem_stores_def sql_transactions_def
        mem_transactions_def sql_list_active_transactions_def mem_list_active_transactions_def gets_def)
  with r t obtain p where w': "w' = w" and rows: "rows = filter p (dict_values (w_transactions w))"
    by (auto simp: scoped_list_active_transactions_def monad require_tenant_def current_tenant_def)
  have "map txn_id (dict_values (w_transactions w)) = map fst (w_transactions w)"
    using k by (auto simp: keyed_def dict_values_def)
  then have "distinct (map txn_id (dict_values (w_transactions w)))"
    using k by (simp add: keyed_def dict_ok_def)
  with rows have dist: "distinct (map txn_id rows)" by (simp add: distinct_map_filter)
  have ids: "\<forall>x \<in> set rows. scrub_text (txn_id x) = txn_id x" using rows clean by auto
  then have "map txn_id ts = map txn_id rows"
    unfolding ts by (simp add: scrub_transaction_def)
  moreover have "\<forall>x \<in> set ts. scrub_text (txn_id x) = txn_id x"
    using ids unfolding ts by (simp add: scrub_transaction_def)
  ultimately show ?thesis using w' dist by simp
qed

lemma check_each_gates:
  assumes step: "\<And>i b w res w'. J w \<Longrightarrow> scrub_text i = i \<Longrightarrow>
      start (CoordinationRun (coordination_input i b)) None w = (res, w') \<Longrightarrow>
      J w' \<and> open_gates t kind j w' \<le> open_gates t kind j w +
        (if j = i \<and> (kind = approve_outbound_message \<longrightarrow> \<not> b) then 1 else 0)"
  shows "check_each start esc email ts p w = (res, p', w') \<Longrightarrow> J w \<Longrightarrow> distinct (map txn_id ts) \<Longrightarrow>
    \<forall>x \<in> set ts. scrub_text (txn_id x) = txn_id x \<Longrightarrow>
    J w' \<and> open_gates t kind j w' \<le> open_gates t kind j w +
      (if j \<in> txn_id ` set ts \<and> j \<notin> set esc \<and> (kind = approve_outbound_message \<longrightarrow> j \<notin> set email) then 1 else 0)"
proof (induction ts arbitrary: p w)
  case Nil
  then show ?case by simp
next
  case (Cons x ts)
  let ?b = "txn_id x \<in> set email"
  show ?case
  proof (cases "txn_id x \<in> set esc")
    case True
    with Cons.prems(1) have rest: "check_each start esc email ts (p\<lparr>pg_skipped := Suc (pg_skipped p)\<rparr>) w = (res, p', w')"
      by simp
    from Cons.IH [OF rest Cons.prems(2)] Cons.prems(3,4) True show ?thesis by (auto split: if_splits)
  next
    case False
    obtain run w1 where s: "start (CoordinationRun (coordination_input (txn_id x) ?b)) None w = (run, w1)"
      by fastforce
    have one: "J w1 \<and> open_gates t kind j w1 \<le> open_gates t kind j w +
        (if j = txn_id x \<and> (kind = approve_outbound_message \<longrightarrow> \<not> ?b) then 1 else 0)"
      using step [OF Cons.prems(2) _ s] Cons.prems(4) by simp
    show ?thesis
    proof (cases run)
      case (Inl e)
      with Cons.prems(1) s False have "w' = w1" by (simp add: Let_def)
      with one False show ?thesis by (auto split: if_splits)
    next
      case (Inr y)
      with Cons.prems(1) s False obtain p1 where rest: "check_each start esc email ts p1 w1 = (res, p', w')"
        by (simp add: Let_def)
      from Cons.IH [OF rest] one Cons.prems(3,4) False show ?thesis by (auto split: if_splits)
    qed
  qed
qed

lemma same_pass_listing:
  assumes d: "is_deployment d"
  shows "ab_list (approval_repo d) st w = (res, w') \<Longrightarrow> same_pass w w' \<and> w_approvals w' = w_approvals w"
    and "tb_list_active (transaction_port d) w = (res2, w') \<Longrightarrow> same_pass w w' \<and> w_approvals w' = w_approvals w"
proof -
  let ?I = "\<lambda>v. w_approvals v = w_approvals w \<and> w_tenant v = w_tenant w \<and> w_transactions v = w_transactions w \<and>
    w_cron v = w_cron w"
  have a: "keeps ?I (ab_list (approval_repo d) st)"
    using d by (auto simp: is_deployment_def approval_repo_def guarded_approvals_def scoped_approvals_def
        scoped_list_approvals_def sql_stores_def mem_stores_def sql_approvals_def mem_approvals_def
        sql_list_approvals_def mem_list_approvals_def
        intro!: pass.keeps_guarded keeps_bindM pass.keeps_tenancy)
  have b: "keeps ?I (tb_list_active (transaction_port d))"
    using d by (auto simp: is_deployment_def transaction_port_def guarded_transactions_def scoped_transactions_def
        scoped_list_active_transactions_def sql_stores_def mem_stores_def sql_transactions_def
        mem_transactions_def sql_list_active_transactions_def mem_list_active_transactions_def
        intro!: pass.keeps_guarded keeps_bindM pass.keeps_tenancy)
  have "?I w" by simp
  from keepsD [OF a this] show "ab_list (approval_repo d) st w = (res, w') \<Longrightarrow>
      same_pass w w' \<and> w_approvals w' = w_approvals w" unfolding same_pass_def by blast
  from keepsD [OF b \<open>?I w\<close>] show "tb_list_active (transaction_port d) w = (res2, w') \<Longrightarrow>
      same_pass w w' \<and> w_approvals w' = w_approvals w" unfolding same_pass_def by blast
qed

text \<open>The pass before its outcome is recorded.\<close>

lemma check_pass_gates:
  assumes d: "is_deployment d" and r: "langgraph r" and t: "w_tenant w = Some t"
    and k: "keyed txn_id (w_transactions w)"
    and clean: "\<forall>x \<in> set (dict_values (w_transactions w)). scrub_text (txn_id x) = txn_id x"
    and kind: "kind = approve_escalation \<or> kind = approve_outbound_message"
    and run: "check_pass (start_workflow d r) (transaction_port d) (approval_repo d) w = (res, p, w')"
  shows "same_pass w w' \<and> open_gates t kind j w' \<le> max 1 (open_gates t kind j w)"
proof -
  obtain pending w1 where l: "ab_list (approval_repo d) (Some ApPending) w = (pending, w1)" by fastforce
  from same_pass_listing(1) [OF d l] have s1: "same_pass w w1" "w_approvals w1 = w_approvals w" by simp_all
  show ?thesis
  proof (cases pending)
    case (Inl e)
    with run l s1 show ?thesis by (auto simp: check_pass_def open_gates_def)
  next
    case (Inr ps)
    from pending_seen [OF d t l [unfolded Inr]] have w1: "w1 = w"
      and seen: "\<And>kind j. j \<in> set (awaiting kind ps) \<longleftrightarrow> 0 < open_gates t kind j w" by blast+
    obtain active w2 where a: "tb_list_active (transaction_port d) w = (active, w2)" by fastforce
    from same_pass_listing(2) [OF d a] have s2: "same_pass w w2" "w_approvals w2 = w_approvals w" by simp_all
    show ?thesis
    proof (cases active)
      case (Inl e)
      with run l Inr w1 a s2 show ?thesis by (auto simp: check_pass_def open_gates_def)
    next
      case (Inr ts)
      from active_seen [OF d t k clean a [unfolded Inr]] have w2: "w2 = w" and dist: "distinct (map txn_id ts)"
        and ids: "\<forall>x \<in> set ts. scrub_text (txn_id x) = txn_id x" by simp_all
      from run l \<open>pending = Inr ps\<close> w1 a Inr w2 have
        each: "check_each (start_workflow d r) (awaiting approve_escalation ps)
          (awaiting approve_outbound_message ps) ts no_progress w = (res, p, w')"
        by (simp add: check_pass_def)
      let ?J = "\<lambda>v. same_pass w v"
      have step: "?J v' \<and> open_gates t kind j v' \<le> open_gates t kind j v +
          (if j = i \<and> (kind = approve_outbound_message \<longrightarrow> \<not> b) then 1 else 0)"
        if "?J v" "scrub_text i = i" "start_workflow d r (CoordinationRun (coordination_input i b)) None v = (x, v')"
        for i b v x v'
      proof -
        from that(1) t k have "w_tenant v = Some t" "keyed txn_id (w_transactions v)"
          by (simp_all add: same_pass_def)
        from start_files_about [OF d r this that(2,3), where j = j and kind = kind] same_pass_trans [OF that(1)]
        show ?thesis by blast
      qed
      have "?J w' \<and> open_gates t kind j w' \<le> open_gates t kind j w +
          (if j \<in> txn_id ` set ts \<and> j \<notin> set (awaiting approve_escalation ps) \<and>
            (kind = approve_outbound_message \<longrightarrow> j \<notin> set (awaiting approve_outbound_message ps)) then 1 else 0)"
        by (rule check_each_gates [where J = ?J, OF _ each same_pass_refl dist ids]) (rule step)
      then have g: "same_pass w w'" and le: "open_gates t kind j w' \<le> open_gates t kind j w +
          (if j \<in> txn_id ` set ts \<and> j \<notin> set (awaiting approve_escalation ps) \<and>
            (kind = approve_outbound_message \<longrightarrow> j \<notin> set (awaiting approve_outbound_message ps)) then 1 else 0)"
        (is "_ \<le> _ + (if ?fresh then 1 else 0)")
        by blast+
      show ?thesis
      proof (cases "0 < open_gates t kind j w")
        case True
        with seen have "j \<in> set (awaiting kind ps)" by blast
        with kind have "\<not> ?fresh" by blast
        with le g show ?thesis by (simp only: if_False add_0_right max.coboundedI2 simp_thms)
      next
        case False
        have "(if ?fresh then 1 else 0) \<le> (1 :: nat)" by simp
        with le False have "open_gates t kind j w' \<le> 1" by linarith
        with g show ?thesis by (simp only: max.coboundedI1 simp_thms)
      qed
    qed
  qed
qed

section \<open>The pass and its record\<close>

definition is_cron :: "cron_backend \<Rightarrow> bool" where
  "is_cron runs \<longleftrightarrow> runs = sql_cron \<or> runs = mem_cron"

lemma record_progress_run:
  assumes c: "is_cron runs" and k: "keyed cron_job (w_cron w)"
  shows "\<exists>row. record_progress runs outcome p err w =
    (Inr row, w\<lparr>w_reads := Suc (w_reads w), w_cron := dict_set (w_cron w) milestone_cron_job row\<rparr>) \<and>
    row = cron_row milestone_cron_job outcome (length (pg_results p)) (pg_skipped p) (pg_suppressed p) err
      (w_clock w (w_reads w))"
  using c sql_upsert_keyed [OF k]
  by (auto simp: is_cron_def record_progress_def sql_cron_def mem_cron_def sql_record_cron_def
      mem_record_cron_def monad world Let_def cron_row_def)

text \<open>How a pass ends: its outcome is recorded, unless it was refused or cancelled.\<close>

lemma milestone_pass_run:
  assumes c: "is_cron runs" and pass: "check_pass start store repo w = (r, p, w1)"
    and k: "keyed cron_job (w_cron w1)" and run: "milestone_pass start store repo runs w = (res, w')"
  shows "case r of
      Inr _ \<Rightarrow> res = Inr p \<and> w' = w1\<lparr>w_reads := Suc (w_reads w1), w_cron := dict_set (w_cron w1) milestone_cron_job
        (cron_row milestone_cron_job ''success'' (length (pg_results p)) (pg_skipped p) (pg_suppressed p) None
          (w_clock w1 (w_reads w1)))\<rparr>
    | Inl e \<Rightarrow> res = Inl e \<and> (if is_http_exception e \<or> \<not> is_exception e then w' = w1
        else w' = w1\<lparr>w_reads := Suc (w_reads w1), w_cron := dict_set (w_cron w1) milestone_cron_job
        (cron_row milestone_cron_job ''failure'' (length (pg_results p)) (pg_skipped p) (pg_suppressed p)
          (Some (safe_error_label e)) (w_clock w1 (w_reads w1)))\<rparr>)"
proof (cases r)
  case (Inl e)
  with run pass record_progress_run [OF c k, of "''failure''" p "Some (safe_error_label e)"] show ?thesis
    by (auto simp: milestone_pass_def monad split: if_splits)
next
  case (Inr u)
  with run pass record_progress_run [OF c k, of "''success''" p None] show ?thesis
    by (auto simp: milestone_pass_def)
qed

text \<open>
  C4: The check never stacks gates. After a run of the milestone check, whatever it returned or raised and
  whatever the providers did, a transaction has at most one open escalation gate and at most one open
  email gate, or as many as it had before: a waiting gate suppresses a second one of its kind, also when an
  earlier pass left it.
\<close>

theorem cron_never_stacks:
  assumes d: "is_deployment d" and r: "langgraph r" and c: "is_cron runs" and t: "w_tenant w = Some t"
    and k: "keyed txn_id (w_transactions w)" and kc: "keyed cron_job (w_cron w)"
    and clean: "\<forall>x \<in> set (dict_values (w_transactions w)). scrub_text (txn_id x) = txn_id x"
    and kind: "kind = approve_escalation \<or> kind = approve_outbound_message"
    and run: "run_milestone_checks env (start_workflow d r) (transaction_port d) (approval_repo d) runs key w = (res, w')"
  shows "open_gates t kind i w' \<le> max 1 (open_gates t kind i w)"
proof (cases "milestone_pass (start_workflow d r) (transaction_port d) (approval_repo d) runs w = (res, w')")
  case True
  obtain x p w1 where pass: "check_pass (start_workflow d r) (transaction_port d) (approval_repo d) w = (x, p, w1)"
    by (metis prod_cases3)
  from check_pass_gates [OF d r t k clean kind pass, of i] have s: "same_pass w w1"
    and g: "open_gates t kind i w1 \<le> max 1 (open_gates t kind i w)" by simp_all
  from s kc have "keyed cron_job (w_cron w1)" by (simp add: same_pass_def)
  from milestone_pass_run [OF c pass this True] have "w_approvals w' = w_approvals w1"
    by (auto split: sum.splits if_splits)
  with g show ?thesis by (simp add: open_gates_def)
next
  case False
  with run have "w' = w" by (auto simp: run_milestone_checks_def monad split: if_splits)
  then show ?thesis by simp
qed

definition deal :: transaction where
  "deal = \<lparr>txn_tenant_id = ''acme'', txn_id = ''t1'', txn_listing_key = ''L1'', txn_stage = UnderContract,
     txn_parties = [], txn_contract_date = 0, txn_close_date = None\<rparr>"

definition overdue_gate :: approval_request where
  "overdue_gate = sample_gate\<lparr>apr_payload := Some [(''transaction_id'', PStr ''t1'')]\<rparr>"

definition busy_world :: world where
  "busy_world = gate_world\<lparr>w_transactions := [(''t1'', deal)], w_approvals := [(''a1'', overdue_gate)]\<rparr>"

lemma busy_gates: "open_gates ''acme'' approve_escalation ''t1'' busy_world = 1"
proof -
  have "scrub_text ''t1'' = ''t1''"
    by (intro scrub_text_no_match no_anchor_no_match) code_simp+
  then show ?thesis
    using gate_kinds(1)
    by (simp add: open_gates_def busy_world_def about_def overdue_gate_def sample_gate_def dict_values_def
        scrub_approval_def gate_transaction_def dict_get_def gate_names approve_escalation_def is_foreign_def)
qed

theorem cron_never_stacks_witness:
  "open_gates ''acme'' approve_escalation ''t1''
     (snd (run_milestone_checks (\<lambda>_. None) (start_workflow sample_deployment walkers)
       (transaction_port sample_deployment) (approval_repo sample_deployment) mem_cron None busy_world)) \<le> 1"
proof -
  have "keyed txn_id (w_transactions busy_world)" "keyed cron_job (w_cron busy_world)"
    "w_tenant busy_world = Some ''acme''"
    by (simp_all add: busy_world_def gate_world_def blank_world_def deal_def keyed_def dict_ok_def)
  moreover have "\<forall>x \<in> set (dict_values (w_transactions busy_world)). scrub_text (txn_id x) = txn_id x"
    by code_simp
  ultimately show ?thesis
    using cron_never_stacks [OF sample_is_deployment langgraph_walkers _ _ _ _ _ _ surjective_pairing,
        where runs = mem_cron and t = "''acme''" and w = busy_world and kind = approve_escalation and i = "''t1''"]
      busy_gates by (simp add: is_cron_def)
qed

section \<open>The health page after a pass\<close>

interpretation crons: run_books "\<lambda>w. w_cron w = c" for c
  by unfold_locales simp_all

lemma cron_call: "keeps (\<lambda>w. w_cron w = c) (ext_call q)"
  by (simp add: keeps_def ext_call_def)

lemma start_keeps_cron:
  assumes d: "is_deployment d" and r: "langgraph r"
  shows "keeps (\<lambda>w. w_cron w = c) (start_workflow d r (CoordinationRun st) actor)"
proof -
  have "keeps (\<lambda>w. w_cron w = c) (rn_coordination r (coordination_graph d) thread (Fresh st))" for thread
  proof (rule keepsI)
    fix w :: world assume w: "w_cron w = c"
    obtain out where o: "walk recursion_limit (coordination_graph d) thread ''load_txn'' None st w = Some out"
      "rn_coordination r (coordination_graph d) thread (Fresh st) w = out"
      using coordination.invoke_fresh [of "rn_coordination r" "transaction_port d" "engine_crm d"
          "message_service d" thread st w] r ranks_in_limit(2) starts(2) [of d]
      by (metis coordination_graph_def langgraph_def)
    with crons.coordination_fresh [OF d cron_call cron_call _ w, of recursion_limit thread st "fst out"]
    show "w_cron (snd (rn_coordination r (coordination_graph d) thread (Fresh st) w)) = c" by simp
  qed
  then show ?thesis
    by (simp add: crons.keeps_engine_start crons.keeps_approval_port(1) [OF d])
qed

lemma check_each_cron:
  assumes "\<And>st. keeps (\<lambda>w. w_cron w = c) (start (CoordinationRun st) None)"
  shows "check_each start esc email ts p w = (res, p', w') \<Longrightarrow> w_cron w = c \<Longrightarrow> w_cron w' = c"
proof (induction ts arbitrary: p w)
  case (Cons x ts)
  show ?case
  proof (cases "txn_id x \<in> set esc")
    case False
    obtain run w1 where s: "start (CoordinationRun (coordination_input (txn_id x) (txn_id x \<in> set email))) None w = (run, w1)"
      by fastforce
    have "w_cron w1 = c" using keepsD [OF assms Cons.prems(2) s] .
    with Cons.prems(1) Cons.IH s False show ?thesis by (cases run) (auto simp: Let_def)
  qed (use Cons in auto)
qed simp

lemma check_pass_cron:
  assumes d: "is_deployment d" and r: "langgraph r"
    and pass: "check_pass (start_workflow d r) (transaction_port d) (approval_repo d) w = (res, p, w')"
  shows "w_cron w' = w_cron w"
proof -
  obtain a w1 where l: "ab_list (approval_repo d) (Some ApPending) w = (a, w1)" by fastforce
  obtain b w2 where m: "tb_list_active (transaction_port d) w1 = (b, w2)" by fastforce
  have "w_cron w1 = w_cron w" "w_cron w2 = w_cron w"
    using same_pass_listing(1) [OF d l] same_pass_listing(2) [OF d m] by (simp_all add: same_pass_def)
  moreover have "w_cron w' = w_cron w"
    if "check_each (start_workflow d r) esc email ts q w2 = (res, p, w')" "w_cron w2 = w_cron w" for esc email ts q
    by (rule check_each_cron [OF _ that(1)]) (use that(2) start_keeps_cron [OF d r] in auto)
  ultimately show ?thesis
    using pass l m by (auto simp: check_pass_def split: sum.splits)
qed

lemma latest_run:
  assumes "is_cron runs" and "keyed cron_job d" and "cron_job row = job" and "w_cron v = dict_set d job row"
  shows "cb_latest runs job v = (Inr (Some row), v)"
  using assms(1,3,4) find_keyed [OF keyed_set [OF assms(2,3)], of job]
  by (auto simp: is_cron_def sql_cron_def mem_cron_def sql_latest_cron_def mem_latest_cron_def gets_def)

lemma whole_seconds: "(86400 :: int) < max 0 x div 1000000 \<longleftrightarrow> 86401 * 1000000 \<le> x"
proof -
  let ?y = "max 0 x"
  have "?y = ?y div 1000000 * 1000000 + ?y mod 1000000" by (simp only: div_mult_mod_eq)
  moreover have "0 \<le> ?y mod 1000000" "?y mod 1000000 < 1000000" by simp_all
  ultimately show ?thesis by linarith
qed

lemma page_run:
  assumes "cb_latest runs milestone_cron_job v = (Inr (Some row), v)"
  shows "\<exists>page. build_status_payload env head db runs v = (Inr page, v\<lparr>w_reads := Suc (w_reads v)\<rparr>) \<and>
    sp_last_cron page = cron_payload (Some row) (w_clock v (w_reads v)) \<and>
    (sp_status page = ''degraded'' \<longleftrightarrow>
      \<not> mig_matched (migration_status head db) \<or> cbl_stale (sp_last_cron page))"
  using assms by (simp add: build_status_payload_def monad world Let_def)

text \<open>
  C5: The health page shows how the last check ended. At any later time before the next check: after a check
  that returned, the page carries its counts and calls it stale exactly from 24 hours and one second on;
  after one that raised, the page is degraded and carries the counts so far and the class of the exception,
  not its text.
\<close>

theorem failed_check_degrades:
  assumes d: "is_deployment d" and r: "langgraph r" and c: "is_cron runs" and k: "keyed cron_job (w_cron w)"
    and key: "env_get env ''CRON_SECRET'' [] = [] \<or> x_cron_key = env ''CRON_SECRET''"
    and run: "run_milestone_checks env (start_workflow d r) (transaction_port d) (approval_repo d) runs x_cron_key w =
      (res, w')"
    and later: "w_cron v = w_cron w'"
  shows "case res of
      Inr p \<Rightarrow> (\<exists>page row. build_status_payload env head db runs v = (Inr page, v\<lparr>w_reads := Suc (w_reads v)\<rparr>) \<and>
        cbl_last (sp_last_cron page) = Some row \<and> cron_outcome row = ''success'' \<and>
        cron_checked row = length (pg_results p) \<and> cron_skipped row = pg_skipped p \<and>
        cron_suppressed row = pg_suppressed p \<and>
        (cbl_stale (sp_last_cron page) \<longleftrightarrow> w_clock v (w_reads v) - cron_finished_at row \<ge> 86401 * 1000000))
    | Inl e \<Rightarrow> is_http_exception e \<or> \<not> is_exception e \<or>
        (\<exists>page row. build_status_payload env head db runs v = (Inr page, v\<lparr>w_reads := Suc (w_reads v)\<rparr>) \<and>
        sp_status page = ''degraded'' \<and> cbl_last (sp_last_cron page) = Some row \<and>
        cron_outcome row = ''failure'' \<and> cron_error row = Some (safe_error_label e))"
proof -
  from run key have run: "milestone_pass (start_workflow d r) (transaction_port d) (approval_repo d) runs w = (res, w')"
    by (auto simp: run_milestone_checks_def split: if_splits)
  obtain x p w1 where pass: "check_pass (start_workflow d r) (transaction_port d) (approval_repo d) w = (x, p, w1)"
    by (metis prod_cases3)
  from check_pass_cron [OF d r pass] k have k1: "keyed cron_job (w_cron w1)" by simp
  note ended = milestone_pass_run [OF c pass k1 run]
  show ?thesis
  proof (cases x)
    case (Inl e)
    show ?thesis
    proof (cases "is_http_exception e \<or> \<not> is_exception e")
      case False
      let ?row = "cron_row milestone_cron_job ''failure'' (length (pg_results p)) (pg_skipped p) (pg_suppressed p)
        (Some (safe_error_label e)) (w_clock w1 (w_reads w1))"
      from ended Inl False later have "w_cron v = dict_set (w_cron w1) milestone_cron_job ?row" by simp
      from latest_run [OF c k1 _ this] have "cb_latest runs milestone_cron_job v = (Inr (Some ?row), v)"
        by (simp add: cron_row_def)
      from page_run [OF this] obtain page where
        "build_status_payload env head db runs v = (Inr page, v\<lparr>w_reads := Suc (w_reads v)\<rparr>)"
        "sp_last_cron page = cron_payload (Some ?row) (w_clock v (w_reads v))"
        "sp_status page = ''degraded'' \<longleftrightarrow> \<not> mig_matched (migration_status head db) \<or> cbl_stale (sp_last_cron page)"
        by blast
      with ended Inl show ?thesis by (simp add: cron_payload_def cron_row_def Let_def)
    qed (use ended Inl in auto)
  next
    case (Inr u)
    let ?row = "cron_row milestone_cron_job ''success'' (length (pg_results p)) (pg_skipped p) (pg_suppressed p)
      None (w_clock w1 (w_reads w1))"
    from ended Inr later have "w_cron v = dict_set (w_cron w1) milestone_cron_job ?row" by simp
    from latest_run [OF c k1 _ this] have "cb_latest runs milestone_cron_job v = (Inr (Some ?row), v)"
      by (simp add: cron_row_def)
    from page_run [OF this] obtain page where
      "build_status_payload env head db runs v = (Inr page, v\<lparr>w_reads := Suc (w_reads v)\<rparr>)"
      "sp_last_cron page = cron_payload (Some ?row) (w_clock v (w_reads v))"
      by blast
    with ended Inr show ?thesis
      using whole_seconds by (simp add: cron_payload_def cron_row_def Let_def cron_stale_after_seconds_def)
  qed
qed

definition unbound_check :: "(exn + cron_progress) \<times> world" where
  "unbound_check = run_milestone_checks (\<lambda>_. None) (start_workflow sample_deployment walkers)
     (transaction_port sample_deployment) (approval_repo sample_deployment) mem_cron None blank_world"

lemma unbound_check_raises: "\<exists>m. fst unbound_check = Inl (TenantContextMissing m)"
  by (simp add: unbound_check_def run_milestone_checks_def env_get_def milestone_pass_def check_pass_def
      approval_repo_def guarded_approvals_def guarded_def scoped_approvals_def scoped_list_approvals_def
      authorize_args_def check_tenants_def tenants_def is_tenant_param_name_def tenant_field_def endswith_def
      require_tenant_def current_tenant_def sample_deployment_def mem_stores_def blank_world_def monad
      record_progress_def mem_cron_def mem_record_cron_def world Let_def)

theorem failed_check_degrades_witness:
  "\<exists>page row. fst (build_status_payload (\<lambda>_. None) None None mem_cron (snd unbound_check)) = Inr page \<and>
    sp_status page = ''degraded'' \<and> cbl_last (sp_last_cron page) = Some row \<and>
    cron_error row = Some ''TenantContextMissing''"
proof -
  from unbound_check_raises obtain m where m: "fst unbound_check = Inl (TenantContextMissing m)" by blast
  have "keyed cron_job (w_cron blank_world)" by (simp add: blank_world_def)
  from failed_check_degrades [where env = "\<lambda>_. None" and runs = mem_cron and x_cron_key = None
      and res = "fst unbound_check" and w' = "snd unbound_check" and v = "snd unbound_check"
      and head = None and db = None, OF sample_is_deployment langgraph_walkers _ this _ _ refl] m
  show ?thesis by (auto simp: is_cron_def env_get_def unbound_check_def)
qed

end
