(* ===== verification/Twilio_Signature.thy ===== *)
theory Twilio_Signature
  imports PyHash
begin

text \<open>
  \<open>integrations/twilio_sms/.../signature.py\<close>: the signature Twilio puts on a callback, down to the
  bytes. SHA-1 and HMAC are those of \<open>hashlib\<close> and \<open>hmac\<close> (FIPS 180-4, RFC 2104), base64 is
  \<open>base64.b64encode\<close>; none of them is assumed to be hard to invert.
\<close>

section \<open>SHA-1\<close>

definition rotl :: "nat \<Rightarrow> u32 \<Rightarrow> u32" where
  "rotl n x = push_bit n x OR drop_bit (32 - n) x"

definition sha1_h0 :: "u32 list" where
  "sha1_h0 = [0x67452301, 0xEFCDAB89, 0x98BADCFE, 0x10325476, 0xC3D2E1F0]"

text \<open>The message schedule, newest word first while it grows.\<close>

fun sha1_schedule :: "nat \<Rightarrow> u32 list \<Rightarrow> u32 list" where
  "sha1_schedule 0 ws = rev ws"
| "sha1_schedule (Suc n) ws =
     sha1_schedule n (rotl 1 (ws ! 2 XOR ws ! 7 XOR ws ! 13 XOR ws ! 15) # ws)"

definition sha1_f :: "nat \<Rightarrow> u32 \<Rightarrow> u32 \<Rightarrow> u32 \<Rightarrow> u32" where
  "sha1_f t b c d =
     (if t < 20 then (b AND c) XOR (NOT b AND d)
      else if 40 \<le> t \<and> t < 60 then (b AND c) XOR (b AND d) XOR (c AND d)
      else b XOR c XOR d)"

definition sha1_k :: "nat \<Rightarrow> u32" where
  "sha1_k t =
     (if t < 20 then 0x5A827999 else if t < 40 then 0x6ED9EBA1
      else if t < 60 then 0x8F1BBCDC else 0xCA62C1D6)"

fun sha1_round :: "u32 list \<Rightarrow> nat \<times> u32 \<Rightarrow> u32 list" where
  "sha1_round [a, b, c, d, e] (t, w) =
     [rotl 5 a + sha1_f t b c d + e + sha1_k t + w, a, rotl 30 b, c, d]"
| "sha1_round st _ = st"

definition sha1_block :: "u32 list \<Rightarrow> u32 list \<Rightarrow> u32 list" where
  "sha1_block st block =
     map2 (+) st (foldl sha1_round st (zip [0..<80] (sha1_schedule 64 (rev block))))"

text \<open>The four bytes of a word, most significant first.\<close>

definition word_bytes :: "u32 \<Rightarrow> nat list" where
  "word_bytes x = map (\<lambda>i. unat (drop_bit (8 * (3 - i)) x AND 255)) [0..<4]"

definition sha1 :: "nat list \<Rightarrow> nat list" where
  "sha1 bs =
     (let ws = be_words (sha_pad bs)
      in concat (map word_bytes (foldl sha1_block sha1_h0 (blocks16 (length ws div 16) ws))))"

section \<open>HMAC and base64\<close>

definition hmac_key :: "nat list \<Rightarrow> nat list" where
  "hmac_key k =
     (let k' = (if 64 < length k then sha1 k else k) in k' @ replicate (64 - length k') 0)"

definition xor_bytes :: "nat \<Rightarrow> nat list \<Rightarrow> nat list" where
  "xor_bytes pad bs = map (\<lambda>b. b XOR pad) bs"

definition hmac_sha1 :: "nat list \<Rightarrow> nat list \<Rightarrow> nat list" where
  "hmac_sha1 k m =
     (let k' = hmac_key k in sha1 (xor_bytes 0x5C k' @ sha1 (xor_bytes 0x36 k' @ m)))"

definition b64_char :: "nat \<Rightarrow> char" where
  "b64_char n = ''ABCDEFGHIJKLMNOPQRSTUVWXYZabcdefghijklmnopqrstuvwxyz0123456789+/'' ! n"

fun b64encode :: "nat list \<Rightarrow> string" where
  "b64encode (a # b # c # bs) =
     b64_char (a div 4) # b64_char (a mod 4 * 16 + b div 16) # b64_char (b mod 16 * 4 + c div 64)
       # b64_char (c mod 64) # b64encode bs"
| "b64encode [a, b] =
     [b64_char (a div 4), b64_char (a mod 4 * 16 + b div 16), b64_char (b mod 16 * 4), CHR ''='']"
| "b64encode [a] = [b64_char (a div 4), b64_char (a mod 4 * 16), CHR ''='', CHR ''='']"
| "b64encode [] = []"

section \<open>The signature\<close>

text \<open>\<open>sorted(params)\<close> compares code points, which is the order of the UTF-8 bytes.\<close>

definition signed_payload :: "string \<Rightarrow> (string, string) dict \<Rightarrow> string" where
  "signed_payload url params =
     url @ concat (map (\<lambda>name. name @ (case dict_get params name of None \<Rightarrow> [] | Some v \<Rightarrow> v))
                     (sort (map fst params)))"

definition compute_signature :: "string \<Rightarrow> string \<Rightarrow> (string, string) dict \<Rightarrow> string" where
  "compute_signature auth_token url params =
     b64encode (hmac_sha1 (map of_char auth_token) (map of_char (signed_payload url params)))"

definition is_ascii :: "string \<Rightarrow> bool" where
  "is_ascii s \<longleftrightarrow> list_all (\<lambda>c. (of_char c :: nat) < 128) s"

text \<open>\<open>hmac.compare_digest\<close> of two \<open>str\<close> raises \<open>TypeError\<close> unless both are ASCII.\<close>

definition signature_is_valid :: "string \<Rightarrow> string \<Rightarrow> (string, string) dict \<Rightarrow> string \<Rightarrow> exn + bool" where
  "signature_is_valid auth_token url params signature =
     (if \<not> is_ascii signature
      then Inl (ProviderError ''TypeError'' ''comparing strings with non-ASCII characters is not supported'')
      else Inr (compute_signature auth_token url params = signature))"

section \<open>Its shape\<close>

lemma length_word_bytes [simp]: "length (word_bytes x) = 4"
  by (simp add: word_bytes_def)

lemma length_sha1_round: "length st = 5 \<Longrightarrow> length (sha1_round st tw) = 5"
  by (cases "(st, tw)" rule: sha1_round.cases) auto

lemma length_sha1_block: "length st = 5 \<Longrightarrow> length (sha1_block st b) = 5"
proof -
  assume st: "length st = 5"
  have "length st = 5 \<Longrightarrow> length (foldl sha1_round st tws) = 5" for tws
    by (induction tws arbitrary: st) (simp_all add: length_sha1_round)
  with st show ?thesis by (simp add: sha1_block_def)
qed

lemma length_schedule: "length (sha1_schedule n ws) = n + length ws"
  by (induction n ws rule: sha1_schedule.induct) simp_all

lemma length_sha1 [simp]: "length (sha1 bs) = 20"
proof -
  have len: "length st = 5 \<Longrightarrow> length (foldl sha1_block st bs) = 5" for st bs
    by (induction bs arbitrary: st) (simp_all add: length_sha1_block)
  have "length (concat (map word_bytes ws)) = 4 * length ws" for ws
    by (induction ws) simp_all
  moreover have "length sha1_h0 = 5" by (simp add: sha1_h0_def)
  ultimately show ?thesis by (simp add: sha1_def Let_def len)
qed

lemma b64_char_ascii: "n < 64 \<Longrightarrow> (of_char (b64_char n) :: nat) < 128 \<and> b64_char n \<noteq> CHR ''=''"
proof -
  have "\<forall>c \<in> set ''ABCDEFGHIJKLMNOPQRSTUVWXYZabcdefghijklmnopqrstuvwxyz0123456789+/''.
      (of_char c :: nat) < 128 \<and> c \<noteq> CHR ''=''"
    by simp
  moreover assume "n < 64"
  then have "n < length ''ABCDEFGHIJKLMNOPQRSTUVWXYZabcdefghijklmnopqrstuvwxyz0123456789+/''" by simp
  ultimately show ?thesis unfolding b64_char_def using nth_mem by blast
qed

lemma length_b64encode: "length (b64encode bs) = 4 * ((length bs + 2) div 3)"
proof (induction bs rule: b64encode.induct)
  case (1 a b c bs)
  have "(length bs + 3 + 2) div 3 = Suc ((length bs + 2) div 3)" by linarith
  with 1 show ?case by simp
qed simp_all

lemma b64_ascii: "\<forall>b \<in> set bs. b < 256 \<Longrightarrow> is_ascii (b64encode bs)"
  by (induction bs rule: b64encode.induct) (auto simp: is_ascii_def b64_char_ascii)

lemma sha1_bytes: "b \<in> set (sha1 bs) \<Longrightarrow> b < 256"
proof -
  have "b < 256" if "b \<in> set (word_bytes x)" for b x
  proof -
    have "unat (drop_bit n x AND 255) < 256" for n
      using word_and_le1 [of "drop_bit n x" 255] by (simp add: word_le_nat_alt)
    with that show ?thesis by (auto simp: word_bytes_def)
  qed
  then show "b \<in> set (sha1 bs) \<Longrightarrow> b < 256" by (auto simp: sha1_def Let_def)
qed

text \<open>A computed signature is ASCII, so only the header's text can make the comparison raise.\<close>

lemma signature_ascii: "is_ascii (compute_signature auth_token url params)"
  by (simp add: compute_signature_def hmac_sha1_def Let_def b64_ascii sha1_bytes)

text \<open>A signature is 28 characters long, whatever is signed: a header of another length never matches.\<close>

lemma length_signature: "length (compute_signature auth_token url params) = 28"
  by (simp add: compute_signature_def hmac_sha1_def Let_def length_b64encode)

lemma signature_valid_iff:
  "signature_is_valid tok url params s = Inr True \<longleftrightarrow> s = compute_signature tok url params"
  using signature_ascii [of tok url params] by (auto simp: signature_is_valid_def)

end
