(* ===== verification/Message_Routes.thy ===== *)
theory Message_Routes
  imports Workflows Wiring Twilio_Signature
begin

text \<open>
  The routers of outbound messages (\<open>api/.../routes/messages.py\<close>), the reads of
  \<open>routes/approvals.py\<close>, the two inbound webhooks (\<open>routes/webhooks.py\<close>) and the response filter of
  the viewer-open reads (\<open>routes/_egress.py\<close>). A route is a function of the authenticated principal
  and the parsed request; what FastAPI refuses as malformed before the handler runs is a 422.
\<close>

section \<open>The response filter\<close>

text \<open>\<open>role_scrubber(principal)(payload)\<close>: the egress filter at the caller's own role.\<close>

definition role_scrubber :: "principal \<Rightarrow> payload \<Rightarrow> payload" where
  "role_scrubber p v = fst (scrub_payload (pr_role p) [] v)"

definition not_found :: "string \<Rightarrow> string \<Rightarrow> exn" where
  "not_found what i = HTTPException 404 (what @ '' '' @ py_repr i @ '' not found'')"

text \<open>\<open>Query(ge=1, le=1000)\<close>.\<close>

definition checked_limit :: "int \<Rightarrow> exn + nat" where
  "checked_limit limit =
     (if limit < 1 then Inl (HTTPException 422 ''greater_than_equal'')
      else if limit > 1000 then Inl (HTTPException 422 ''less_than_equal'')
      else Inr (nat limit))"

section \<open>Reading approvals\<close>

text \<open>\<open>(a.payload or {}).get("transaction_id") == transaction_id\<close>.\<close>

definition payload_names :: "string \<Rightarrow> string \<Rightarrow> approval_request \<Rightarrow> bool" where
  "payload_names key i a =
     (case apr_payload a of None \<Rightarrow> False | Some d \<Rightarrow> dict_get d key = Some (PStr i))"

definition approvals_payload :: "approval_request list \<Rightarrow> payload" where
  "approvals_payload = list_payload approval_payload approval_size 0"

definition list_approvals ::
    "approval_backend \<Rightarrow> principal \<Rightarrow> approval_status option \<Rightarrow> string option \<Rightarrow> payload W" where
  "list_approvals repo p status transaction_id =
     (case transaction_id of
        Some t \<Rightarrow> bindM (ab_list repo None) (\<lambda>approvals.
          ret (role_scrubber p (approvals_payload (filter (payload_names ''transaction_id'' t) approvals))))
      | None \<Rightarrow> bindM (ab_list repo status) (\<lambda>approvals. ret (role_scrubber p (approvals_payload approvals))))"

definition get_approval :: "approval_backend \<Rightarrow> principal \<Rightarrow> string \<Rightarrow> payload W" where
  "get_approval repo p i =
     bindM (ab_get repo i) (\<lambda>found.
       case found of
         None \<Rightarrow> raise (not_found ''approval'' i)
       | Some a \<Rightarrow> ret (role_scrubber p (approval_payload 0 a)))"

section \<open>Sending a message\<close>

record send_request =
  rq_channel :: message_channel
  rq_recipient :: string
  rq_template :: string
  rq_params :: "(string \<times> string) list"
  rq_contact_id :: string
  rq_listing_key :: string
  rq_transaction_id :: string
  rq_request_id :: string

text \<open>\<open>_E164.fullmatch(recipient)\<close> for \<open>^\+[1-9]\d{1,14}$\<close>.\<close>

definition is_e164 :: "string \<Rightarrow> bool" where
  "is_e164 s =
     (case code_points (map of_char s) of
        sign # d # ds \<Rightarrow> sign = 0x2B \<and> 0x31 \<le> d \<and> d \<le> 0x39 \<and> 1 \<le> length ds \<and> length ds \<le> 14 \<and>
          list_all is_decimal ds
      | _ \<Rightarrow> False)"

definition valid_send_request :: "send_request \<Rightarrow> exn + send_request" where
  "valid_send_request rq =
     (if rq_channel rq = Sms \<and> \<not> is_e164 (rq_recipient rq)
      then Inl (HTTPException 422 ''sms recipient must be an E.164 phone number (e.g. +15551230101)'')
      else Inr rq)"

definition send_scope :: "send_request \<Rightarrow> principal \<Rightarrow> string \<Rightarrow> audit_context" where
  "send_scope rq p run =
     \<lparr>ac_workflow_run_id = run, ac_workflow = ''message_send'', ac_approval_id = None,
      ac_actor = Some (pr_email p), ac_transaction_id = rq_transaction_id rq\<rparr>"

fun send_response :: "exn \<Rightarrow> exn" where
  "send_response (UnknownTemplateError r) = HTTPException 422 (exn_str (UnknownTemplateError r))"
| "send_response (TemplateParamError r q) = HTTPException 422 (exn_str (TemplateParamError r q))"
| "send_response (ReplayInProgressError t k) = HTTPException 409 (exn_str (ReplayInProgressError t k))"
| "send_response e = e"

definition service_send :: "send_service \<Rightarrow> send_request \<Rightarrow> message W" where
  "service_send svc rq =
     (if rq_channel rq = Sms then send_sms svc else send_email svc)
       (rq_recipient rq) (rq_template rq) (rq_params rq) (rq_contact_id rq) (rq_listing_key rq)
       (rq_transaction_id rq)"

definition send_message :: "send_service \<Rightarrow> principal \<Rightarrow> send_request \<Rightarrow> message W" where
  "send_message svc p rq =
     bindM (liftE (require_role Operator p)) (\<lambda>p.
     bindM (liftE (valid_send_request rq)) (\<lambda>rq.
     bindM (if rq_request_id rq = [] then uuid4_hex else ret (rq_request_id rq)) (\<lambda>run.
       audit_scope (send_scope rq p run)
         (try_except is_exception (service_send svc rq) (\<lambda>e. raise (send_response e))))))"

section \<open>Retrying a failed send\<close>

definition retry_scope :: "string \<Rightarrow> message \<Rightarrow> approval_request list \<Rightarrow> principal \<Rightarrow> string \<Rightarrow> audit_context" where
  "retry_scope i row approvals p run =
     \<lparr>ac_workflow_run_id = run, ac_workflow = ''message_retry'',
      ac_approval_id = map_option apr_id
        (List.find (\<lambda>a. apr_kind a = approve_outbound_message \<and> payload_names ''message_id'' i a)
           approvals),
      ac_actor = Some (pr_email p), ac_transaction_id = msg_transaction_id row\<rparr>"

fun retry_response :: "exn \<Rightarrow> exn" where
  "retry_response (UnknownOutboundMessageError i) = HTTPException 404 (exn_str (UnknownOutboundMessageError i))"
| "retry_response (ReplayInProgressError t k) = HTTPException 409 (exn_str (ReplayInProgressError t k))"
| "retry_response e = HTTPException 502 (''provider send failed: '' @ exn_str e)"

definition retry_failed_message ::
    "send_service \<Rightarrow> approval_backend \<Rightarrow> principal \<Rightarrow> string \<Rightarrow> message W" where
  "retry_failed_message svc repo p i =
     bindM (liftE (require_role Admin p)) (\<lambda>p.
     bindM (service_get_message svc i) (\<lambda>found.
       case found of
         None \<Rightarrow> raise (not_found ''message'' i)
       | Some row \<Rightarrow>
           if msg_status row \<noteq> Failed
           then raise (HTTPException 409
                  (''only a failed message can be retried (this one is '' @
                   message_status_value (msg_status row) @ '')''))
           else bindM (ab_list repo None) (\<lambda>approvals.
                bindM uuid4_hex (\<lambda>run.
                  audit_scope (retry_scope i row approvals p run)
                    (try_except is_exception (send_approved svc i None None)
                       (\<lambda>e. raise (retry_response e)))))))"

section \<open>Reading messages\<close>

definition get_message :: "message_backend \<Rightarrow> principal \<Rightarrow> string \<Rightarrow> payload W" where
  "get_message store p i =
     bindM (mb_get store i) (\<lambda>found.
       case found of
         None \<Rightarrow> raise (not_found ''message'' i)
       | Some m \<Rightarrow> ret (role_scrubber p (message_payload 0 m)))"

definition messages_payload :: "message list \<Rightarrow> payload" where
  "messages_payload = list_payload message_payload one_object 0"

definition list_messages ::
    "message_backend \<Rightarrow> principal \<Rightarrow> string option \<Rightarrow> string option \<Rightarrow> int \<Rightarrow> payload W" where
  "list_messages store p contact_id transaction_id limit =
     bindM (liftE (checked_limit limit)) (\<lambda>n.
     bindM (mb_list store contact_id n transaction_id) (\<lambda>rows.
       ret (role_scrubber p (messages_payload rows))))"

section \<open>The Twilio callback\<close>

definition twilio_status_map :: "(string, message_status) dict" where
  "twilio_status_map =
     [(''sent'', Sent), (''delivered'', Delivered), (''failed'', Failed), (''undelivered'', Failed)]"

datatype twilio_ack =
    IgnoredStatus string
  | UnknownSid
  | ProcessedStatus string string

text \<open>\<open>{key: str(value) for key, value in form.items()}\<close>: the last value of a repeated field.\<close>

definition form_params :: "(string \<times> string) list \<Rightarrow> (string, string) dict" where
  "form_params items = foldl (\<lambda>d (k, v). dict_set d k v) [] items"

definition form_get :: "(string, string) dict \<Rightarrow> string \<Rightarrow> string" where
  "form_get params name = (case dict_get params name of None \<Rightarrow> [] | Some v \<Rightarrow> v)"

text \<open>What a callback whose signature is right does.\<close>

definition delivery_event :: "message_backend \<Rightarrow> (string, string) dict \<Rightarrow> twilio_ack W" where
  "delivery_event store params =
     (case dict_get twilio_status_map (form_get params ''MessageStatus'') of
        None \<Rightarrow> ret (IgnoredStatus (form_get params ''MessageStatus''))
      | Some status \<Rightarrow>
          bindM (mb_get_by_provider store (form_get params ''MessageSid'')) (\<lambda>found.
            case found of
              None \<Rightarrow> ret UnknownSid
            | Some message \<Rightarrow>
                bindM (mb_advance store (msg_id message) status) (\<lambda>row.
                  let final = (case row of Some r \<Rightarrow> r | None \<Rightarrow> message)
                  in ret (ProcessedStatus (msg_id message) (message_status_value (msg_status final))))))"

definition twilio_sms_webhook ::
    "env \<Rightarrow> message_backend \<Rightarrow> string \<Rightarrow> (string \<times> string) list \<Rightarrow> string option \<Rightarrow> twilio_ack W" where
  "twilio_sms_webhook env store request_url form x_twilio_signature =
     (let auth_token = env_get env ''TWILIO_AUTH_TOKEN'' []
      in if auth_token = [] \<or> auth_token = unset_value
         then raise (HTTPException 500 ''TWILIO_AUTH_TOKEN is not configured'')
         else let params = form_params form;
                  url = str_or (env_get env ''TWILIO_STATUS_CALLBACK_URL'' []) request_url
              in bindM (liftE (signature_is_valid auth_token url params
                          (case x_twilio_signature of None \<Rightarrow> [] | Some s \<Rightarrow> s))) (\<lambda>valid.
                   if \<not> valid then raise (HTTPException 401 ''bad or missing X-Twilio-Signature'')
                   else delivery_event store params))"

section \<open>The Vapi callback\<close>

text \<open>\<open>v.get(key)\<close>: only a JSON object has it.\<close>

definition json_get :: "pyv \<Rightarrow> string \<Rightarrow> exn + pyv option" where
  "json_get v key =
     (case v of
        PDict d \<Rightarrow> Inr (dict_get d key)
      | _ \<Rightarrow> Inl (ProviderError ''AttributeError'' ''object has no attribute get''))"

text \<open>\<open>v.get(key) or {}\<close>.\<close>

definition json_object :: "pyv \<Rightarrow> string \<Rightarrow> exn + pyv" where
  "json_object v key =
     (case json_get v key of
        Inl e \<Rightarrow> Inl e
      | Inr None \<Rightarrow> Inr (PDict [])
      | Inr (Some x) \<Rightarrow> Inr (if truthy x then x else PDict []))"

definition json_get_or :: "pyv \<Rightarrow> string \<Rightarrow> string \<Rightarrow> exn + pyv" where
  "json_get_or v key fallback =
     (case json_get v key of Inl e \<Rightarrow> Inl e | Inr None \<Rightarrow> Inr (PStr fallback) | Inr (Some x) \<Rightarrow> Inr x)"

datatype vapi_ack =
    VapiIgnored pyv
  | VapiProcessed string string "string option"

text \<open>
  The state model's \<open>transcript\<close> and \<open>call_outcome\<close> are \<open>str\<close>: Pydantic refuses anything else when the
  run's first node reads them, after the thread got its id.
\<close>

fun vapi_run_input :: "string \<Rightarrow> string \<Rightarrow> string \<Rightarrow> pyv \<Rightarrow> pyv \<Rightarrow> run_state option" where
  "vapi_run_input call_id listing_key contact_id (PStr transcript) (PStr call_outcome) =
     Some (VapiRun (vapi_input call_id listing_key contact_id transcript call_outcome))"
| "vapi_run_input _ _ _ _ _ = None"

definition start_vapi_run ::
    "(run_state \<Rightarrow> string option \<Rightarrow> run_result W) \<Rightarrow> run_state option \<Rightarrow> vapi_ack W" where
  "start_vapi_run start input =
     (case input of
        None \<Rightarrow> thenM uuid4_hex (raise (ProviderError ''ValidationError'' ''string_type''))
      | Some st \<Rightarrow> bindM (start st None) (\<lambda>run.
          ret (VapiProcessed (rr_thread_id run) (rr_status run) (map_option apr_id (rr_approval run)))))"

definition vapi_report :: "pyv \<Rightarrow> exn + pyv + run_state option" where
  "vapi_report body =
     (case json_object body ''message'' of
        Inl e \<Rightarrow> Inl e
      | Inr message \<Rightarrow>
          (case json_get message ''type'' of
             Inl e \<Rightarrow> Inl e
           | Inr kind \<Rightarrow>
               if kind \<noteq> Some (PStr ''end-of-call-report'')
               then Inr (Inl (case kind of None \<Rightarrow> PNone | Some k \<Rightarrow> k))
               else (case mapE (json_object message) [''call'', ''artifact''] of
                   Inr [call, artifact] \<Rightarrow>
                     (case json_object call ''metadata'' of
                        Inl e \<Rightarrow> Inl e
                      | Inr metadata \<Rightarrow>
                          (case mapE (\<lambda>(v, key, fallback). json_get_or v key fallback)
                             [(call, ''id'', []), (metadata, ''listing_key'', []), (metadata, ''contact_id'', []),
                              (artifact, ''transcript'', []), (message, ''endedReason'', ''completed'')] of
                             Inr [i, key, contact_id, transcript, reason] \<Rightarrow>
                               Inr (Inr (vapi_run_input (py_str i) (py_str key) (py_str contact_id) transcript reason))
                           | Inr _ \<Rightarrow> Inl AssertionError
                           | Inl e \<Rightarrow> Inl e))
                 | Inr _ \<Rightarrow> Inl AssertionError
                 | Inl e \<Rightarrow> Inl e)))"

definition vapi_webhook ::
    "env \<Rightarrow> (run_state \<Rightarrow> string option \<Rightarrow> run_result W) \<Rightarrow> string option \<Rightarrow> pyv \<Rightarrow> vapi_ack W" where
  "vapi_webhook env start x_vapi_secret body =
     (let secret = env_get env ''VAPI_WEBHOOK_SECRET'' []
      in if secret = [] \<or> secret = unset_value
         then raise (HTTPException 500 ''VAPI_WEBHOOK_SECRET is not configured'')
         else if x_vapi_secret \<noteq> Some secret then raise (HTTPException 401 ''bad or missing x-vapi-secret'')
         else bindM (liftE (vapi_report body)) (\<lambda>report.
           case report of
             Inl kind \<Rightarrow> ret (VapiIgnored kind)
           | Inr input \<Rightarrow> start_vapi_run start input))"

end
