(* ===== verification/Message_Route_Properties.thy ===== *)
theory Message_Route_Properties
  imports Message_Routes
begin

text \<open>
  What the message routes and the webhooks promise: a delivery callback is authentic or does nothing,
  a retry touches failed rows only, a repeated request sends once.
\<close>

section \<open>Delivery callbacks\<close>

text \<open>A callback the account's token signed, over the URL the deployment pins or was called at.\<close>

definition authentic_callback :: "env \<Rightarrow> string \<Rightarrow> (string \<times> string) list \<Rightarrow> string option \<Rightarrow> bool" where
  "authentic_callback env request_url form header \<longleftrightarrow>
     real_value env ''TWILIO_AUTH_TOKEN'' \<and>
     header = Some (compute_signature (env_get env ''TWILIO_AUTH_TOKEN'' [])
       (str_or (env_get env ''TWILIO_STATUS_CALLBACK_URL'' []) request_url) (form_params form))"

text \<open>The answers to the others: misconfigured, unsigned, and a header that cannot be compared.\<close>

definition callback_refusals :: "exn list" where
  "callback_refusals =
     [HTTPException 500 ''TWILIO_AUTH_TOKEN is not configured'',
      HTTPException 401 ''bad or missing X-Twilio-Signature'',
      ProviderError ''TypeError'' ''comparing strings with non-ASCII characters is not supported'']"

text \<open>The one row an event moves, and how.\<close>

definition moves_row :: "string \<Rightarrow> message_status \<Rightarrow> string \<Rightarrow> world \<Rightarrow> world \<Rightarrow> bool" where
  "moves_row sid st t w w' \<longleftrightarrow>
     sid \<noteq> [] \<and>
     (\<exists>m. dict_get (w_messages w) (msg_id m) = Some m \<and> \<not> is_foreign (msg_tenant_id m) t \<and>
        msg_provider_message_id m = sid \<and> status_rank (msg_status m) < status_rank st \<and>
        w' = w\<lparr>w_messages := dict_set (w_messages w) (msg_id m) (m\<lparr>msg_status := st\<rparr>)\<rparr>)"

lemma empty_signature: "compute_signature tok url params \<noteq> []"
  using length_signature [of tok url params] by (metis length_0_conv zero_neq_numeral)

lemma callback_run:
  "twilio_sms_webhook env store url form header w =
     (if authentic_callback env url form header then delivery_event store (form_params form) w
      else (fst (twilio_sms_webhook env store url form header w), w))"
  "\<not> authentic_callback env url form header \<Longrightarrow>
     \<exists>e \<in> set callback_refusals. fst (twilio_sms_webhook env store url form header w) = Inl e"
  using signature_ascii empty_signature
  by (auto simp: twilio_sms_webhook_def authentic_callback_def real_value_def unset_value_def Let_def monad
      signature_is_valid_def callback_refusals_def split: option.splits)

definition carrier :: "string \<Rightarrow> world \<Rightarrow> message option" where
  "carrier sid w =
     (if sid = [] then None else List.find (\<lambda>m. msg_provider_message_id m = sid) (dict_values (w_messages w)))"

lemma carrier_Some:
  assumes ok: "tables_ok w" and c: "carrier sid w = Some m"
  shows "sid \<noteq> [] \<and> msg_provider_message_id m = sid \<and> dict_get (w_messages w) (msg_id m) = Some m"
proof -
  from c have sid: "sid \<noteq> []" and f: "List.find (\<lambda>m. msg_provider_message_id m = sid) (dict_values (w_messages w)) = Some m"
    by (auto simp: carrier_def split: if_splits)
  from ok have k: "keyed msg_id (w_messages w)" by (simp add: tables_ok_def)
  from dict_values_get [OF _ keyed_dict_ok [OF k], of m] find_SomeD [OF f] obtain i
    where i: "dict_get (w_messages w) i = Some m" by blast
  with keyed_get [OF k i] sid find_SomeD [OF f] show ?thesis by auto
qed

context message_store
begin

lemma delivery_event_cases:
  assumes ok: "tables_ok w" and t: "w_tenant w = Some t"
    and st: "dict_get twilio_status_map (form_get params ''MessageStatus'') = Some st"
  shows "delivery_event (scoped_messages b) params w =
    (case carrier (form_get params ''MessageSid'') w of
       None \<Rightarrow> (Inr UnknownSid, w)
     | Some m \<Rightarrow>
         if is_foreign (msg_tenant_id m) t
         then (Inr UnknownSid, filed ''get_message_by_provider_id'' (msg_tenant_id m) t w)
         else if status_rank (msg_status m) < status_rank st
         then (Inr (ProcessedStatus (msg_id m) (message_status_value st)),
               w\<lparr>w_messages := dict_set (w_messages w) (msg_id m) (m\<lparr>msg_status := st\<rparr>)\<rparr>)
         else (Inr (ProcessedStatus (msg_id m) (message_status_value (msg_status m))), w))"
proof (cases "carrier (form_get params ''MessageSid'') w")
  case None
  then show ?thesis
    using ok t st by (cases "form_get params ''MessageSid'' = []")
      (simp_all add: delivery_event_def scoped_messages_def monad scoped_provider_run
        mem_get_message_by_provider_id_def foreign_owner_def carrier_def)
next
  case (Some m)
  with carrier_Some [OF ok Some] ok t st show ?thesis
    by (simp add: delivery_event_def scoped_messages_def monad scoped_provider_run scoped_advance_run
        mem_get_message_by_provider_id_def foreign_owner_def hide_def carrier_def Let_def
        mem_advance_message_status_def)
qed

lemma delivery_event_run:
  assumes ok: "tables_ok w" and t: "w_tenant w = Some t"
    and run: "delivery_event (scoped_messages b) params w = (r, w')"
  shows "(\<exists>ack. r = Inr ack) \<and>
    (only_logs w w' \<or>
      (\<exists>st. dict_get twilio_status_map (form_get params ''MessageStatus'') = Some st \<and>
        moves_row (form_get params ''MessageSid'') st t w w'))"
proof (cases "dict_get twilio_status_map (form_get params ''MessageStatus'')")
  case None
  with run show ?thesis by (auto simp: delivery_event_def)
next
  case (Some st)
  note event = run [unfolded delivery_event_cases [OF ok t Some]]
  show ?thesis
  proof (cases "carrier (form_get params ''MessageSid'') w")
    case None
    with event show ?thesis by auto
  next
    case c: (Some m)
    with event carrier_Some [OF ok c] Some show ?thesis
      by (auto simp: moves_row_def filed_logs split: if_splits)
  qed
qed

end

text \<open>
  C17: A delivery callback is authentic or does nothing. Unless the deployment has a real auth token and
  the header is that token's HMAC-SHA1 over the canonical URL and the sorted form, the state is
  unchanged and the answer is the 500 of a missing token, the 401 of a bad signature or the error of a
  header that is not ASCII. An authentic callback is always acknowledged; apart from security records it
  changes nothing, or only the status of one row of the bound tenant, the row that carries the
  callback's non-empty sid, to the mapped status of strictly higher rank.
\<close>

theorem callback_authentic:
  assumes store: "b = sql_messages \<or> b = mem_messages" and ok: "tables_ok w" and t: "w_tenant w = Some t"
    and run: "twilio_sms_webhook env (scoped_messages b) url form header w = (r, w')"
  shows "if authentic_callback env url form header
    then (\<exists>ack. r = Inr ack) \<and>
      (only_logs w w' \<or>
       (\<exists>st. dict_get twilio_status_map (form_get (form_params form) ''MessageStatus'') = Some st \<and>
          moves_row (form_get (form_params form) ''MessageSid'') st t w w'))
    else w' = w \<and> r \<in> Inl ` set callback_refusals"
proof (cases "authentic_callback env url form header")
  case True
  with run have ev: "delivery_event (scoped_messages b) (form_params form) w = (r, w')"
    by (simp add: callback_run(1))
  from store show ?thesis
  proof
    assume "b = sql_messages"
    with sql_msg.delivery_event_run [OF ok t] ev True show ?thesis by simp
  next
    assume "b = mem_messages"
    with mem_msg.delivery_event_run [OF ok t] ev True show ?thesis by simp
  qed
next
  case False
  with run callback_run(1) [of env "scoped_messages b" url form header w]
    callback_run(2) [OF False, of "scoped_messages b" w]
  show ?thesis by auto
qed

definition signed_env :: env where
  "signed_env name = (if name = ''TWILIO_AUTH_TOKEN'' then Some ''token'' else None)"

definition delivered_form :: "(string \<times> string) list" where
  "delivered_form = [(''MessageSid'', ''SM1''), (''MessageStatus'', ''delivered'')]"

definition signed_header :: "string option" where
  "signed_header = Some (compute_signature ''token'' ''https://hook'' (form_params delivered_form))"

definition sent_world :: world where
  "sent_world = blank_world\<lparr>w_tenant := Some ''acme'',
     w_messages := [(''m1'', sample_message\<lparr>msg_id := ''m1'', msg_tenant_id := ''acme'', msg_status := Sent,
       msg_provider_message_id := ''SM1''\<rparr>)]\<rparr>"

lemma sent_world_ok: "tables_ok sent_world" "w_tenant sent_world = Some ''acme''"
  by (simp_all add: tables_ok_def sent_world_def keyed_def dict_ok_def samples)

theorem callback_authentic_witness:
  "\<exists>ack. fst (twilio_sms_webhook signed_env (scoped_messages sql_messages) ''https://hook'' delivered_form
      signed_header sent_world) = Inr ack"
proof -
  have "authentic_callback signed_env ''https://hook'' delivered_form signed_header"
    by (simp add: authentic_callback_def real_value_def env_get_def signed_env_def signed_header_def str_or_def
        unset_value_def)
  with callback_authentic [OF _ sent_world_ok, of sql_messages signed_env "''https://hook''" delivered_form
      signed_header] show ?thesis
    by (metis prod.collapse)
qed

end
