(* ===== verification/Send_Lifecycle.thy ===== *)
theory Send_Lifecycle
  imports Message_Send
begin

text \<open>
  The send lifecycle of \<open>message_send.py\<close>, proved for any service whose store is the scoped one
  over a message store and whose channel ports leave the rows alone: the outcome of every entry
  point, and what no sequence of decisions can do.
\<close>

section \<open>Own rows\<close>

definition stored :: "string \<Rightarrow> message \<Rightarrow> world \<Rightarrow> world" where
  "stored t m w = w\<lparr>w_messages := dict_set (w_messages w) (msg_id m) (m\<lparr>msg_tenant_id := t\<rparr>)\<rparr>"

definition owns :: "string \<Rightarrow> world \<Rightarrow> string \<Rightarrow> bool" where
  "owns t w i \<longleftrightarrow> foreign_owner msg_tenant_id t (dict_get (w_messages w) i) = None"

text \<open>A well-formed state bound to a tenant.\<close>

definition under :: "string \<Rightarrow> world \<Rightarrow> bool" where
  "under t w \<longleftrightarrow> tables_ok w \<and> w_tenant w = Some t"

lemma under_quiet: "under t w \<Longrightarrow> quiet x w w' \<Longrightarrow> under t w'"
  by (simp add: under_def quiet_def tables_ok_def same_rows_def)

lemma owns_quiet: "quiet x w w' \<Longrightarrow> owns t w' i = owns t w i"
  by (simp add: owns_def quiet_def same_rows_def)

lemma messages_quiet: "quiet x w w' \<Longrightarrow> w_messages w' = w_messages w"
  by (simp add: quiet_def same_rows_def)

lemma under_stored [simp]: "under t w \<Longrightarrow> under t (stored t' m w)"
  by (simp add: under_def stored_def tables_ok_def keyed_set)

lemma get_stored [simp]:
  "dict_get (w_messages (stored t m w)) i =
     (if i = msg_id m then Some (m\<lparr>msg_tenant_id := t\<rparr>) else dict_get (w_messages w) i)"
  by (simp add: stored_def)

lemma owns_stored [simp]: "owns t (stored t m w) i \<longleftrightarrow> i = msg_id m \<or> owns t w i"
  by (simp add: owns_def foreign_owner_def)

lemma owns_row: "owns t w i \<Longrightarrow> dict_get (w_messages w) i = Some m \<Longrightarrow> \<not> is_foreign (msg_tenant_id m) t"
  by (simp add: owns_def foreign_owner_None)

lemma owns_None [simp]: "dict_get (w_messages w) i = None \<Longrightarrow> owns t w i"
  by (simp add: owns_def foreign_owner_def)

section \<open>The service's contract\<close>

locale send_lifecycle = message_store b for b :: message_backend +
  fixes svc :: send_service
  assumes store: "sv_store svc = scoped_messages b"
    and email_quiet: "quietly (Some (msg_id m)) (sp_send (sv_email svc) m)"
    and sms_quiet: "sv_sms svc = Some q \<Longrightarrow> quietly (Some (msg_id m)) (sp_send q m)"
    and drafter_quiet: "sv_drafting svc = Some d \<Longrightarrow> quietly None (d c)"
begin

lemma get_own:
  "under t w \<Longrightarrow> owns t w i \<Longrightarrow> mb_get (sv_store svc) i w = (Inr (dict_get (w_messages w) i), w)"
  by (simp add: store scoped_messages_def under_def scoped_get_run owns_def)

lemma save_own:
  "under t w \<Longrightarrow> owns t w (msg_id m) \<Longrightarrow> \<not> is_foreign (msg_tenant_id m) t \<Longrightarrow>
   mb_save (sv_store svc) m w = (Inr (), stored t m w)"
  by (simp add: store scoped_messages_def under_def scoped_save_run owns_def stored_def)

lemma deliver_run:
  assumes "under t w" and "owns t w (msg_id m)" and "\<not> is_foreign (msg_tenant_id m) t"
    and quiet: "quietly (Some (msg_id m)) (sp_send p m)"
  shows "deliver svc p m w =
    (case sp_send p m w of
       (Inr pid, w1) \<Rightarrow>
         (let sent = m\<lparr>msg_status := Sent, msg_provider_message_id := pid,
                        msg_sent_at := Some (w_clock w1 (w_reads w1))\<rparr>
          in (Inr (sent\<lparr>msg_tenant_id := t\<rparr>), stored t sent (w1\<lparr>w_reads := Suc (w_reads w1)\<rparr>)))
     | (Inl e, w1) \<Rightarrow>
         (Inl e, if is_exception e then stored t (m\<lparr>msg_status := Failed\<rparr>) w1 else w1))"
proof -
  obtain r w1 where s: "sp_send p m w = (r, w1)" by fastforce
  have q: "quiet (Some (msg_id m)) w w1" by (rule quietlyD [OF quiet s])
  have u1: "under t w1" and o1: "owns t w1 (msg_id m)"
    using under_quiet [OF assms(1) q] owns_quiet [OF q] assms(2) by simp_all
  let ?w2 = "w1\<lparr>w_reads := Suc (w_reads w1)\<rparr>"
  have u2: "under t ?w2" and o2: "owns t ?w2 (msg_id m)"
    using u1 o1 by (simp_all add: under_def owns_def tables_ok_def)
  show ?thesis
  proof (cases r)
    case (Inl e)
    with s save_own [OF u1, of "m\<lparr>msg_status := Failed\<rparr>"] o1 assms(3) show ?thesis
      by (simp add: deliver_def monad)
  next
    case (Inr pid)
    let ?sent = "m\<lparr>msg_status := Sent, msg_provider_message_id := pid,
        msg_sent_at := Some (w_clock w1 (w_reads w1))\<rparr>"
    have sv: "mb_save (sv_store svc) ?sent ?w2 = (Inr (), stored t ?sent ?w2)"
      using save_own [OF u2, of ?sent] o2 assms(3) by simp
    have gt: "mb_get (sv_store svc) (msg_id m) (stored t ?sent ?w2) =
        (Inr (Some (?sent\<lparr>msg_tenant_id := t\<rparr>)), stored t ?sent ?w2)"
      using get_own [OF under_stored [OF u2], of t ?sent "msg_id m"] by simp
    show ?thesis
      using s sv gt Inr by (simp add: deliver_def monad world Let_def)
  qed
qed

text \<open>An approval of a row that is not waiting for one: nothing happens.\<close>

lemma approve_settled:
  assumes "under t w" and "owns t w i" and "dict_get (w_messages w) i = Some row"
    and "msg_status row \<notin> {PendingApproval, Failed}"
    and "\<forall>x. body = Some x \<longrightarrow> strip x \<noteq> []"
  shows "send_approved svc i subject body w = (Inr row, w)"
  using assms get_own [OF assms(1,2)]
  by (simp add: send_approved_def monad split: option.splits)

lemma approve_blank:
  "strip x = [] \<Longrightarrow> send_approved svc i subject (Some x) w = (Inl blank_edit_error, w)"
  by (simp add: send_approved_def)

lemma approve_unknown:
  assumes "under t w" and "dict_get (w_messages w) i = None"
    and "\<forall>x. body = Some x \<longrightarrow> strip x \<noteq> []"
  shows "send_approved svc i subject body w = (Inl (UnknownOutboundMessageError i), w)"
  using assms get_own [OF assms(1), of i]
  by (auto simp: send_approved_def monad split: option.splits)

text \<open>The channel's port, when it is wired.\<close>

lemma port_for_run:
  "port_for svc ch w = (Inr p, w') \<Longrightarrow> w' = w \<and> (\<forall>m. quietly (Some (msg_id m)) (sp_send p m))"
  using email_quiet sms_quiet by (auto simp: port_for_def split: message_channel.splits option.splits)

text \<open>An approval of a waiting row delivers the scrubbed, edited text and stores that text.\<close>

lemma approve_waiting:
  assumes u: "under t w" and o: "owns t w i" and row: "dict_get (w_messages w) i = Some row"
    and st: "msg_status row \<in> {PendingApproval, Failed}"
    and body: "\<forall>x. body = Some x \<longrightarrow> strip x \<noteq> []"
    and port: "port_for svc (msg_channel row) w = (Inr p, w)"
    and m: "m = dlp_scrub (with_edits subject body row)"
    and clean: "msg_id m = i" "\<not> is_foreign (msg_tenant_id m) t"
  shows "\<exists>w1. send_approved svc i subject body w = deliver svc p m w1 \<and>
    w1 = (if m = row then w else stored t m w)"
proof -
  have "(if m \<noteq> row then mb_save (sv_store svc) m else ret ()) w =
      (Inr (), if m = row then w else stored t m w)"
    using save_own [OF u, of m] o clean by simp
  with get_own [OF u o] row st body port m show ?thesis
    by (auto simp: send_approved_def monad Let_def split: option.splits)
qed

end

section \<open>Sequences of decisions\<close>

text \<open>
  What reaches a message after its draft: the draft itself (a replay included), the human's
  decisions, and the provider's delivery events.
\<close>

datatype gate_op =
    Draft draft_context
  | Approve string "string option" "string option"
  | Reject string
  | Delivery string message_status

fun run_gate :: "send_service \<Rightarrow> gate_op \<Rightarrow> unit W" where
  "run_gate svc (Draft c) = bindM (draft_for_approval svc c) (\<lambda>_. ret ())"
| "run_gate svc (Approve i subject body) = bindM (send_approved svc i subject body) (\<lambda>_. ret ())"
| "run_gate svc (Reject i) = bindM (mark_rejected svc i) (\<lambda>_. ret ())"
| "run_gate svc (Delivery i st) = bindM (mb_advance (sv_store svc) i st) (\<lambda>_. ret ())"

fun run_gates :: "send_service \<Rightarrow> gate_op list \<Rightarrow> world \<Rightarrow> world" where
  "run_gates svc [] w = w"
| "run_gates svc (x # xs) w = run_gates svc xs (snd (run_gate svc x w))"

text \<open>
  The frame of a computation from a given state: the bound tenant and well-formed tables, rows
  outside a set of ids untouched, no message outside another set handed to a provider.
\<close>

definition gate_frame :: "string \<Rightarrow> world \<Rightarrow> string set \<Rightarrow> string set \<Rightarrow> world \<Rightarrow> bool" where
  "gate_frame t w0 A B w \<longleftrightarrow>
     under t w \<and> (\<forall>k. k \<notin> A \<longrightarrow> dict_get (w_messages w) k = dict_get (w_messages w0) k) \<and>
     (\<exists>new. w_sent w = w_sent w0 @ new \<and> (\<forall>q \<in> set new. \<forall>j. sent_id q = Some j \<longrightarrow> j \<in> B))"

lemma gate_frame_refl: "under t w \<Longrightarrow> gate_frame t w A B w"
  by (simp add: gate_frame_def)

lemma gate_frame_under: "gate_frame t w0 A B w \<Longrightarrow> under t w"
  by (simp add: gate_frame_def)

lemma gate_frame_mono: "gate_frame t w0 A B w \<Longrightarrow> A \<subseteq> A' \<Longrightarrow> B \<subseteq> B' \<Longrightarrow> gate_frame t w0 A' B' w"
  unfolding gate_frame_def by blast

lemma gate_frame_trans:
  assumes "gate_frame t a A B b" and "gate_frame t b A B c"
  shows "gate_frame t a A B c"
proof -
  obtain n1 where "w_sent b = w_sent a @ n1" "\<forall>q \<in> set n1. \<forall>j. sent_id q = Some j \<longrightarrow> j \<in> B"
    using assms(1) by (auto simp: gate_frame_def)
  moreover obtain n2 where "w_sent c = w_sent b @ n2" "\<forall>q \<in> set n2. \<forall>j. sent_id q = Some j \<longrightarrow> j \<in> B"
    using assms(2) by (auto simp: gate_frame_def)
  ultimately have "w_sent c = w_sent a @ (n1 @ n2) \<and> (\<forall>q \<in> set (n1 @ n2). \<forall>j. sent_id q = Some j \<longrightarrow> j \<in> B)"
    by auto
  with assms show ?thesis unfolding gate_frame_def by metis
qed

lemma gate_frame_quiet:
  assumes "gate_frame t w0 A B w" and "quiet i w w'" and "\<And>j. i = Some j \<Longrightarrow> j \<in> B"
  shows "gate_frame t w0 A B w'"
proof -
  obtain new where "w_sent w' = w_sent w @ new" "\<forall>q \<in> set new. sent_id q = None \<or> sent_id q = i"
    using assms(2) by (auto simp: quiet_def)
  with assms under_quiet [OF _ assms(2), of t] messages_quiet [OF assms(2)]
  have "gate_frame t w A B w'"
    unfolding gate_frame_def by (auto intro!: exI [of _ new])
  with assms(1) show ?thesis by (rule gate_frame_trans)
qed

lemma keeps_quietly:
  "quietly i m \<Longrightarrow> (\<And>j. i = Some j \<Longrightarrow> j \<in> B) \<Longrightarrow> keeps (gate_frame t w0 A B) m"
  unfolding quietly_def by (rule keepsI) (metis gate_frame_quiet)

lemma gate_frame_stored:
  "gate_frame t w0 A B w \<Longrightarrow> msg_id m \<in> A \<Longrightarrow> gate_frame t w0 A B (stored t m w)"
  by (auto simp: gate_frame_def stored_def under_def tables_ok_def keyed_set)

context send_lifecycle
begin

lemma keeps_get: "keeps (gate_frame t w0 A B) (mb_get (sv_store svc) i)"
proof (rule keepsI)
  fix w assume F: "gate_frame t w0 A B w"
  then have "tables_ok w" "w_tenant w = Some t" by (auto simp: gate_frame_def under_def)
  with F show "gate_frame t w0 A B (snd (mb_get (sv_store svc) i w))"
    using gate_frame_quiet [OF F quiet_logs [OF filed_logs], of None]
    by (auto simp: store scoped_messages_def scoped_get_run hide_def split: option.split)
qed

lemma keeps_save: "msg_id m \<in> A \<Longrightarrow> keeps (gate_frame t w0 A B) (mb_save (sv_store svc) m)"
proof (rule keepsI)
  fix w assume m: "msg_id m \<in> A" and F: "gate_frame t w0 A B w"
  then have "tables_ok w" "w_tenant w = Some t" by (auto simp: gate_frame_def under_def)
  with F m show "gate_frame t w0 A B (snd (mb_save (sv_store svc) m w))"
    using gate_frame_quiet [OF F quiet_logs [OF filed_logs], of None] gate_frame_stored [OF F m]
    by (auto simp: store scoped_messages_def scoped_save_run deny_def stored_def split: option.split)
qed

lemma keeps_deliver:
  assumes "\<And>m. quietly (Some (msg_id m)) (sp_send p m)" and "msg_id m \<in> A" and "msg_id m \<in> B"
  shows "keeps (gate_frame t w0 A B) (deliver svc p m)"
  unfolding deliver_def Let_def
  using assms
  by (intro keeps_bindM keeps_thenM keeps_try keeps_pure keeps_save keeps_get
      keeps_quietly [OF assms(1)] keeps_quietly [OF quietly_uuid(2) [of None]]) auto

lemma keeps_draft_id: "keeps (gate_frame t w0 A B) (draft_id c)"
  unfolding draft_id_def current_run_id_def current_audit_context_def
  by (intro keeps_bindM keeps_pure) (auto intro: keeps_quietly [OF quietly_uuid(1) [of None]] split: option.split)

lemma keeps_bindM_res:
  assumes "keeps P m" and "\<And>s a s'. P s \<Longrightarrow> m s = (Inr a, s') \<Longrightarrow> P s' \<Longrightarrow> P (snd (k a s'))"
  shows "keeps P (bindM m k)"
proof (rule keepsI)
  fix s assume s: "P s"
  obtain r s' where m: "m s = (r, s')" by fastforce
  with s assms(1) have "P s'" by (metis keepsD)
  with m s assms(2) show "P (snd (bindM m k s))" by (cases r) (auto simp: monad)
qed

lemma get_found:
  assumes "gate_frame t w0 A B w" and "mb_get (sv_store svc) i w = (Inr found, w')"
  shows "found = Some row \<Longrightarrow> dict_get (w_messages w) i = Some row \<and> msg_id row = i"
    and "found = None \<Longrightarrow> dict_get (w_messages w) i = None \<or> \<not> owns t w i"
  using assms keyed_get [of msg_id "w_messages w" i]
  by (auto simp: gate_frame_def under_def store scoped_messages_def scoped_get_run hide_def owns_def
      tables_ok_def split: option.splits)

lemma approve_keeps:
  assumes "scrub_text i \<in> A" and "scrub_text i \<in> B"
  shows "keeps (gate_frame t w0 A B) (send_approved svc i subject body)"
proof -
  have "keeps (gate_frame t w0 A B) (bindM (mb_get (sv_store svc) i) (\<lambda>found.
      case found of None \<Rightarrow> raise (UnknownOutboundMessageError i)
      | Some row \<Rightarrow> if msg_status row \<notin> {PendingApproval, Failed} then ret row
          else bindM (port_for svc (msg_channel row)) (\<lambda>port.
            let m = dlp_scrub (with_edits subject body row)
            in thenM (if m \<noteq> row then mb_save (sv_store svc) m else ret ()) (deliver svc port m))))"
  proof (rule keeps_bindM_res [OF keeps_get])
    fix w found w'
    assume F: "gate_frame t w0 A B w" and g: "mb_get (sv_store svc) i w = (Inr found, w')"
      and F': "gate_frame t w0 A B w'"
    show "gate_frame t w0 A B (snd ((case found of None \<Rightarrow> raise (UnknownOutboundMessageError i)
      | Some row \<Rightarrow> if msg_status row \<notin> {PendingApproval, Failed} then ret row
          else bindM (port_for svc (msg_channel row)) (\<lambda>port.
            let m = dlp_scrub (with_edits subject body row)
            in thenM (if m \<noteq> row then mb_save (sv_store svc) m else ret ()) (deliver svc port m))) w'))"
    proof (cases found)
      case None
      with F' show ?thesis by simp
    next
      case (Some row)
      let ?m = "dlp_scrub (with_edits subject body row)"
      have id: "msg_id ?m = scrub_text i"
        using get_found(1) [OF F g Some] by (simp add: dlp_scrub_def with_edits_def)
      show ?thesis
      proof (cases "port_for svc (msg_channel row) w'")
        case (Pair r v)
        show ?thesis
        proof (cases r)
          case (Inl e)
          with Some F' Pair show ?thesis
            by (auto simp: port_for_def monad split: message_channel.splits option.splits)
        next
          case (Inr p)
          with port_for_run Pair have v: "v = w'" and q: "\<And>m. quietly (Some (msg_id m)) (sp_send p m)"
            by auto
          have "keeps (gate_frame t w0 A B)
              (thenM (if ?m \<noteq> row then mb_save (sv_store svc) ?m else ret ()) (deliver svc p ?m))"
            using assms id q by (auto intro!: keeps_thenM keeps_save keeps_deliver)
          then have "gate_frame t w0 A B
              (snd (thenM (if ?m \<noteq> row then mb_save (sv_store svc) ?m else ret ()) (deliver svc p ?m) w'))"
            using F' by (simp add: keeps_def)
          with Some F' Pair Inr v show ?thesis by (auto simp: bindM_apply Let_def)
        qed
      qed
    qed
  qed
  then show ?thesis by (auto simp: send_approved_def keeps_def monad split: option.split)
qed

lemma reject_keeps: "i \<in> A \<Longrightarrow> keeps (gate_frame t w0 A B) (mark_rejected svc i)"
  unfolding mark_rejected_def
proof (rule keeps_bindM_res [OF keeps_get])
  fix w found w'
  assume i: "i \<in> A" and F: "gate_frame t w0 A B w"
    and g: "mb_get (sv_store svc) i w = (Inr found, w')" and F': "gate_frame t w0 A B w'"
  have "keeps (gate_frame t w0 A B) (thenM (mb_save (sv_store svc) (row\<lparr>msg_status := Rejected\<rparr>))
      (bindM (mb_get (sv_store svc) i) (\<lambda>stored. ret (case stored of Some s \<Rightarrow> s | None \<Rightarrow> row\<lparr>msg_status := Rejected\<rparr>))))"
    if "msg_id row = i" for row
    using that i by (intro keeps_thenM keeps_bindM keeps_save keeps_get keeps_pure) simp
  with F' get_found(1) [OF F g] show "gate_frame t w0 A B (snd ((case found of
        None \<Rightarrow> raise (UnknownOutboundMessageError i)
      | Some row \<Rightarrow> if msg_status row \<noteq> PendingApproval then ret row
          else (let rejected = row\<lparr>msg_status := Rejected\<rparr>
                in thenM (mb_save (sv_store svc) rejected)
                     (bindM (mb_get (sv_store svc) (msg_id rejected)) (\<lambda>stored.
                        ret (case stored of Some s \<Rightarrow> s | None \<Rightarrow> rejected))))) w'))"
    by (auto simp: keeps_def Let_def split: option.split)
qed

lemma delivery_keeps: "i \<in> A \<Longrightarrow> keeps (gate_frame t w0 A B) (mb_advance (sv_store svc) i st)"
proof (rule keepsI)
  fix w assume i: "i \<in> A" and F: "gate_frame t w0 A B w"
  then have u: "tables_ok w" "w_tenant w = Some t" by (auto simp: gate_frame_def under_def)
  from u(1) have k: "keyed msg_id (w_messages w)" by (simp add: tables_ok_def)
  show "gate_frame t w0 A B (snd (mb_advance (sv_store svc) i st w))"
    using F i gate_frame_quiet [OF F quiet_logs [OF filed_logs], of None] keyed_get [OF k, of i]
    by (auto simp: store scoped_messages_def scoped_advance_run [OF u] hide_def
        mem_advance_message_status_def Let_def gate_frame_def under_def tables_ok_def
        intro!: keyed_set split: option.split)
qed

lemma draft_keeps:
  assumes safe: "\<And>w i. gate_frame t w0 A B w \<Longrightarrow>
      dict_get (w_messages w) i = None \<or> \<not> owns t w i \<Longrightarrow> scrub_text i \<in> A"
  shows "keeps (gate_frame t w0 A B) (draft_for_approval svc c)"
proof (cases "sv_drafting svc")
  case None
  then show ?thesis by (simp add: draft_for_approval_def)
next
  case (Some drafter)
  note dq = drafter_quiet [OF Some]
  have fresh: "keeps (gate_frame t w0 A B) (bindM (drafter c) (\<lambda>d. bindM now_utc (\<lambda>now.
      let m = dlp_scrub
                  \<lparr>msg_id = i, msg_tenant_id = [], msg_channel = dm_channel d,
                   msg_recipient = dm_recipient d,
                   msg_subject = (if dm_channel d = Email then dm_subject d else []),
                   msg_body = dm_body d, msg_template_ref = dm_template_ref d,
                   msg_contact_id = dm_contact_id d, msg_listing_key = dm_listing_key d,
                   msg_transaction_id = dm_transaction_id d, msg_status = PendingApproval,
                   msg_provider_message_id = [], msg_created_at = Some now, msg_sent_at = None\<rparr>
      in thenM (mb_save (sv_store svc) m)
           (bindM (mb_get (sv_store svc) i) (\<lambda>stored. ret (case stored of Some s \<Rightarrow> s | None \<Rightarrow> m))))))"
    if "scrub_text i \<in> A" for i
    unfolding Let_def using that
    by (intro keeps_bindM keeps_thenM keeps_get keeps_pure keeps_save
        keeps_quietly [OF dq] keeps_quietly [OF quietly_uuid(2) [of None]]) (simp_all add: dlp_scrub_def)
  show ?thesis
    unfolding draft_for_approval_def Some option.case
  proof (rule keeps_bindM [OF keeps_draft_id], rule keeps_bindM_res [OF keeps_get])
    fix i w found w'
    assume F: "gate_frame t w0 A B w" and g: "mb_get (sv_store svc) i w = (Inr found, w')"
      and F': "gate_frame t w0 A B w'"
    show "gate_frame t w0 A B (snd ((case found of Some row \<Rightarrow> ret row
            | None \<Rightarrow>
                bindM (drafter c) (\<lambda>d.
                bindM now_utc (\<lambda>now.
                let m = dlp_scrub
                  \<lparr>msg_id = i, msg_tenant_id = [], msg_channel = dm_channel d,
                   msg_recipient = dm_recipient d,
                   msg_subject = (if dm_channel d = Email then dm_subject d else []),
                   msg_body = dm_body d, msg_template_ref = dm_template_ref d,
                   msg_contact_id = dm_contact_id d, msg_listing_key = dm_listing_key d,
                   msg_transaction_id = dm_transaction_id d, msg_status = PendingApproval,
                   msg_provider_message_id = [], msg_created_at = Some now, msg_sent_at = None\<rparr>
                in thenM (mb_save (sv_store svc) m)
                     (bindM (mb_get (sv_store svc) i) (\<lambda>stored.
                        ret (case stored of Some s \<Rightarrow> s | None \<Rightarrow> m)))))) w'))"
    proof (cases found)
      case None
      from get_found(2) [OF F g None] safe [OF F] have "scrub_text i \<in> A" by blast
      from fresh [OF this] F' None show ?thesis by (simp add: keeps_def)
    next
      case (Some row)
      with F' show ?thesis by simp
    qed
  qed
qed

text \<open>Approved messages only: what a sequence of decisions hands to a provider.\<close>

lemma gate_sends:
  assumes "under t w"
  shows "gate_frame t w UNIV {scrub_text i |i. \<exists>s x. Approve i s x \<in> set ops} (run_gates svc ops w)"
proof -
  define B where "B = {scrub_text i |i. \<exists>s x. Approve i s x \<in> set ops}"
  have "set ops' \<subseteq> set ops \<Longrightarrow> gate_frame t w UNIV B v \<Longrightarrow> gate_frame t w UNIV B (run_gates svc ops' v)" for ops' v
  proof (induction ops' arbitrary: v)
    case Nil
    then show ?case by simp
  next
    case (Cons op ops')
    have "keeps (gate_frame t w UNIV B) (run_gate svc op)"
    proof (cases op)
      case (Approve i s x)
      with Cons.prems(1) have "scrub_text i \<in> B" by (auto simp: B_def)
      with Approve show ?thesis by (auto intro!: keeps_bindM approve_keeps)
    qed (auto intro!: keeps_bindM draft_keeps reject_keeps delivery_keeps)
    with Cons show ?case by (simp add: keeps_def)
  qed
  from this [OF subset_refl gate_frame_refl [OF assms]] show ?thesis by (simp add: B_def)
qed

lemma scrub_id: "scrub_text j = i \<Longrightarrow> \<not> contains secret_redacted i \<Longrightarrow> j = i"
  by (metis scrub_text_match scrub_text_no_match)

text \<open>A rejected row: no decision, draft replay or delivery event touches or sends it.\<close>

lemma gate_rejected:
  assumes u: "under t w" and row: "dict_get (w_messages w) r = Some row" and own: "owns t w r"
    and st: "msg_status row = Rejected" and clean: "\<not> contains secret_redacted r"
  shows "gate_frame t w (- {r}) (- {r}) (run_gates svc ops w)"
proof -
  have step: "keeps (gate_frame t w (- {r}) (- {r})) (run_gate svc op)" for op
  proof -
    have at: "dict_get (w_messages v) r = Some row" "owns t v r" if "gate_frame t w (- {r}) (- {r}) v" for v
      using that row own by (simp_all add: gate_frame_def owns_def)
    show ?thesis
    proof (cases op)
      case (Draft c)
      have "scrub_text i \<in> - {r}" if "gate_frame t w (- {r}) (- {r}) v"
          "dict_get (w_messages v) i = None \<or> \<not> owns t v i" for v i
        using that at [OF that(1)] scrub_id [OF _ clean, of i] by auto
      with Draft show ?thesis by (auto intro!: keeps_bindM draft_keeps)
    next
      case (Approve i s x)
      show ?thesis
      proof (cases "i = r")
        case True
        have "snd (send_approved svc r s x v) = v" if F: "gate_frame t w (- {r}) (- {r}) v" for v
        proof (cases "\<forall>b. x = Some b \<longrightarrow> strip b \<noteq> []")
          case True
          from approve_settled [OF gate_frame_under [OF F] at(2,1) [OF F] _ True] st
          show ?thesis by simp
        next
          case False
          then show ?thesis by (auto simp: approve_blank)
        qed
        then have "keeps (gate_frame t w (- {r}) (- {r})) (send_approved svc r s x)"
          by (simp add: keeps_def)
        with True Approve show ?thesis by (auto intro!: keeps_bindM)
      next
        case False
        then have "scrub_text i \<in> - {r}" using scrub_id [OF _ clean, of i] by auto
        with Approve show ?thesis by (auto intro!: keeps_bindM approve_keeps)
      qed
    next
      case (Reject i)
      show ?thesis
      proof (cases "i = r")
        case True
        have "snd (mark_rejected svc r v) = v" if F: "gate_frame t w (- {r}) (- {r}) v" for v
          using get_own [OF gate_frame_under [OF F] at(2) [OF F]] at(1) [OF F] st
          by (simp add: mark_rejected_def monad)
        then have "keeps (gate_frame t w (- {r}) (- {r})) (mark_rejected svc r)"
          by (simp add: keeps_def)
        with True Reject show ?thesis by (auto intro!: keeps_bindM)
      next
        case False
        with Reject show ?thesis by (auto intro!: keeps_bindM reject_keeps)
      qed
    next
      case (Delivery i s)
      show ?thesis
      proof (cases "i = r")
        case True
        have "\<not> 3 < status_rank s" by (cases s) simp_all
        then have "snd (mb_advance (sv_store svc) r s v) = v" if F: "gate_frame t w (- {r}) (- {r}) v" for v
          using gate_frame_under [OF F] at [OF F] st
          by (simp add: store scoped_messages_def under_def scoped_advance_run owns_def
              mem_advance_message_status_def)
        then have "keeps (gate_frame t w (- {r}) (- {r})) (mb_advance (sv_store svc) r s)"
          by (simp add: keeps_def)
        with True Delivery show ?thesis by (auto intro!: keeps_bindM)
      next
        case False
        with Delivery show ?thesis by (auto intro!: keeps_bindM delivery_keeps)
      qed
    qed
  qed
  have "gate_frame t w (- {r}) (- {r}) v \<Longrightarrow> gate_frame t w (- {r}) (- {r}) (run_gates svc ops v)" for v
  proof (induction ops arbitrary: v)
    case Nil
    then show ?case by simp
  next
    case (Cons op ops)
    from step [of op] Cons show ?case by (simp add: keeps_def)
  qed
  from this [OF gate_frame_refl [OF u]] show ?thesis .
qed

end

end
