(* ===== verification/Send_Properties.thy ===== *)
theory Send_Properties
  imports Send_Lifecycle
begin

text \<open>
  The properties of the send lifecycle over the service as \<open>main.py\<close> wires it: scoped store,
  guarded, deduplicated and recorded ports, either drafting backend.
\<close>

section \<open>Drafting in a run\<close>

definition draft_key :: "world \<Rightarrow> string \<Rightarrow> draft_context \<Rightarrow> string" where
  "draft_key w run c = idempotency_key (w_sha256 w) run ''draft_message'' (draft_context_json c)"

definition drafted_row :: "string \<Rightarrow> drafted_message \<Rightarrow> instant \<Rightarrow> message" where
  "drafted_row i d now = dlp_scrub
     \<lparr>msg_id = i, msg_tenant_id = [], msg_channel = dm_channel d, msg_recipient = dm_recipient d,
      msg_subject = (if dm_channel d = Email then dm_subject d else []), msg_body = dm_body d,
      msg_template_ref = dm_template_ref d, msg_contact_id = dm_contact_id d,
      msg_listing_key = dm_listing_key d, msg_transaction_id = dm_transaction_id d,
      msg_status = PendingApproval, msg_provider_message_id = [], msg_created_at = Some now,
      msg_sent_at = None\<rparr>"

context send_lifecycle
begin

lemma draft_existing:
  assumes "sv_drafting svc = Some d" and "under t w" and "run_id_of (w_audit w) = Some run"
    and "owns t w (draft_key w run c)" and "dict_get (w_messages w) (draft_key w run c) = Some row"
  shows "draft_for_approval svc c w = (Inr row, w)"
  using assms get_own [OF assms(2,4)]
  by (simp add: draft_for_approval_def draft_id_def current_run_id_def current_audit_context_def
      monad draft_key_def)

lemma draft_fresh:
  assumes d: "sv_drafting svc = Some d" and u: "under t w" and run: "run_id_of (w_audit w) = Some run"
    and key: "key = draft_key w run c" and none: "dict_get (w_messages w) key = None"
    and clean: "scrub_text key = key"
  shows "draft_for_approval svc c w =
    (case d c w of
       (Inl e, w1) \<Rightarrow> (Inl e, w1)
     | (Inr x, w1) \<Rightarrow>
         (let m = drafted_row key x (w_clock w1 (w_reads w1))
          in (Inr (m\<lparr>msg_tenant_id := t\<rparr>), stored t m (w1\<lparr>w_reads := Suc (w_reads w1)\<rparr>))))"
proof -
  obtain r w1 where dr: "d c w = (r, w1)" by fastforce
  have q: "quiet None w w1" by (rule quietlyD [OF drafter_quiet [OF d] dr])
  let ?w2 = "w1\<lparr>w_reads := Suc (w_reads w1)\<rparr>"
  have u2: "under t ?w2" using under_quiet [OF u q] by (simp add: under_def tables_ok_def)
  have o2: "owns t ?w2 key"
    using messages_quiet [OF q] none by (simp add: owns_def foreign_owner_def)
  let ?m = "\<lambda>x. drafted_row key x (w_clock w1 (w_reads w1))"
  have m: "msg_id (?m x) = key" "msg_tenant_id (?m x) = []" for x
    by (simp_all add: drafted_row_def dlp_scrub_def clean marker_no_anchor)
  have sv: "mb_save (sv_store svc) (?m x) ?w2 = (Inr (), stored t (?m x) ?w2)" for x
    using save_own [OF u2, of "?m x"] o2 m [of x] by (simp add: is_foreign_def)
  have gt: "mb_get (sv_store svc) key (stored t (?m x) ?w2) =
      (Inr (Some ((?m x)\<lparr>msg_tenant_id := t\<rparr>)), stored t (?m x) ?w2)" for x
    using get_own [OF under_stored [OF u2], of t "?m x" key] m [of x] by simp
  have g0: "mb_get (sv_store svc) key w = (Inr None, w)"
    using get_own [OF u, of key] none by simp
  show ?thesis
    using d run key dr sv gt g0
    by (cases r) (simp_all add: draft_for_approval_def draft_id_def current_run_id_def
        current_audit_context_def monad draft_key_def world Let_def drafted_row_def [symmetric])
qed

end

section \<open>The wired services\<close>

definition is_wired :: "send_service \<Rightarrow> bool" where
  "is_wired svc \<longleftrightarrow>
     (\<exists>ib b drafter. svc = wired_service ib b drafter \<and>
        (ib = sql_idempotency \<or> ib = mem_idempotency) \<and> (b = sql_messages \<or> b = mem_messages) \<and>
        (drafter = deterministic_drafter \<or> drafter = llm_drafter))"

lemma wired_lifecycle:
  assumes "ib = sql_idempotency \<or> ib = mem_idempotency" and "b = sql_messages \<or> b = mem_messages"
    and "drafter = deterministic_drafter \<or> drafter = llm_drafter"
  shows "send_lifecycle b (wired_service ib b drafter)"
proof (intro send_lifecycle.intro send_lifecycle_axioms.intro)
  show "message_store b"
    using assms(2) mem_msg.message_store_axioms sql_msg.message_store_axioms by auto
  show "sv_store (wired_service ib b drafter) = scoped_messages b"
    by (simp add: wired_service_def)
  show "quietly (Some (msg_id m)) (sp_send (sv_email (wired_service ib b drafter)) m)" for m
    using quietly_seam(1) [OF assms(1)] by (simp add: wired_service_def)
  show "quietly (Some (msg_id m)) (sp_send q m)" if "sv_sms (wired_service ib b drafter) = Some q" for m q
    using that quietly_seam(2) [OF assms(1)] by (auto simp: wired_service_def)
  show "quietly None (d c)" if "sv_drafting (wired_service ib b drafter) = Some d" for d c
    using that quietly_drafters assms(3) by (auto simp: wired_service_def)
qed

interpretation sql_send: send_lifecycle sql_messages
  "wired_service sql_idempotency sql_messages deterministic_drafter"
  by (rule wired_lifecycle) simp_all

interpretation mem_send: send_lifecycle mem_messages
  "wired_service mem_idempotency mem_messages llm_drafter"
  by (rule wired_lifecycle) simp_all

lemma is_wiredE:
  assumes "is_wired svc"
  obtains b where "send_lifecycle b svc" and "\<exists>d. sv_drafting svc = Some d"
    and "\<And>ch. \<exists>p. \<forall>w. port_for svc ch w = (Inr p, w)"
proof -
  from assms obtain ib b drafter where s: "svc = wired_service ib b drafter"
    and l: "send_lifecycle b (wired_service ib b drafter)"
    unfolding is_wired_def using wired_lifecycle by blast
  have "\<exists>p. \<forall>w. port_for svc ch w = (Inr p, w)" for ch
    by (cases ch) (simp_all add: s port_for_def wired_service_def)
  with s l show thesis by (intro that [of b]) (simp_all add: wired_service_def)
qed

section \<open>Properties\<close>

text \<open>
  C2: Nothing reaches a provider but what a human approved: in any sequence of drafts, decisions
  and delivery events, every message handed to an email or SMS provider carries the id of a
  message some approval in the sequence named.
\<close>

theorem only_approved_sent:
  assumes "is_wired svc" and "under t w"
  shows "\<exists>new. w_sent (run_gates svc ops w) = w_sent w @ new \<and>
    (\<forall>q \<in> set new. \<forall>j. sent_id q = Some j \<longrightarrow> (\<exists>i s b. Approve i s b \<in> set ops \<and> j = scrub_text i))"
proof -
  obtain b where "send_lifecycle b svc" using assms(1) by (rule is_wiredE)
  from send_lifecycle.gate_sends [OF this assms(2), of ops] show ?thesis
    unfolding gate_frame_def by blast
qed

theorem only_approved_sent_witness:
  "\<exists>new. w_sent (run_gates (wired_service sql_idempotency sql_messages deterministic_drafter)
      [Reject ''m1'', Delivery ''m1'' Delivered] (blank_world\<lparr>w_tenant := Some ''acme''\<rparr>)) = new \<and>
    (\<forall>q \<in> set new. sent_id q = None)"
proof -
  have w: "is_wired (wired_service sql_idempotency sql_messages deterministic_drafter)"
    unfolding is_wired_def by blast
  have u: "under ''acme'' (blank_world\<lparr>w_tenant := Some ''acme''\<rparr>)"
    by (simp add: under_def tables_ok_def blank_world_def)
  from only_approved_sent [OF w u, of "[Reject ''m1'', Delivery ''m1'' Delivered]"]
  show ?thesis by (auto simp: blank_world_def)
qed

text \<open>
  C22: A human's no is final: whatever drafts, approvals, rejections and delivery events follow, a
  rejected row stays as it is and its message is never handed to a provider.
\<close>

theorem rejection_final:
  assumes "is_wired svc" and "under t w" and "dict_get (w_messages w) i = Some row"
    and "\<not> is_foreign (msg_tenant_id row) t" and "msg_status row = Rejected"
    and "\<not> contains secret_redacted i"
  shows "dict_get (w_messages (run_gates svc ops w)) i = Some row \<and>
    (\<exists>new. w_sent (run_gates svc ops w) = w_sent w @ new \<and> (\<forall>q \<in> set new. sent_id q \<noteq> Some i))"
proof -
  obtain b where l: "send_lifecycle b svc" using assms(1) by (rule is_wiredE)
  have "owns t w i" using assms(3,4) by (simp add: owns_def foreign_owner_def)
  from send_lifecycle.gate_rejected [OF l assms(2,3) this assms(5,6), of ops] assms(3) show ?thesis
    unfolding gate_frame_def by fastforce
qed

definition rejected_world :: world where
  "rejected_world = blank_world\<lparr>w_tenant := Some ''acme'',
     w_messages := [(''m1'', sample_message\<lparr>msg_tenant_id := ''acme'', msg_status := Rejected\<rparr>)]\<rparr>"

theorem rejection_final_witness:
  "dict_get (w_messages (run_gates (wired_service sql_idempotency sql_messages deterministic_drafter)
      [Approve ''m1'' None (Some ''please''), Delivery ''m1'' Sent] rejected_world)) ''m1'' =
    Some (sample_message\<lparr>msg_tenant_id := ''acme'', msg_status := Rejected\<rparr>)"
proof -
  have w: "is_wired (wired_service sql_idempotency sql_messages deterministic_drafter)"
    unfolding is_wired_def by blast
  have u: "under ''acme'' rejected_world"
    by (simp add: under_def tables_ok_def rejected_world_def blank_world_def keyed_def dict_ok_def
        sample_message_def)
  have row: "dict_get (w_messages rejected_world) ''m1'' =
      Some (sample_message\<lparr>msg_tenant_id := ''acme'', msg_status := Rejected\<rparr>)"
    by (simp add: rejected_world_def dict_get_def)
  have id: "\<not> contains secret_redacted ''m1''" by code_simp
  let ?row = "sample_message\<lparr>msg_tenant_id := ''acme'', msg_status := Rejected\<rparr>"
  have own: "\<not> is_foreign (msg_tenant_id ?row) ''acme''" by (simp add: is_foreign_def)
  have st: "msg_status ?row = Rejected" by simp
  show ?thesis by (rule conjunct1 [OF rejection_final [OF w u row own st id]])
qed

text \<open>What a recipient sees of a message.\<close>

definition same_text :: "message \<Rightarrow> message \<Rightarrow> bool" where
  "same_text a b \<longleftrightarrow>
     msg_channel a = msg_channel b \<and> msg_recipient a = msg_recipient b \<and>
     msg_subject a = msg_subject b \<and> msg_body a = msg_body b"

lemma same_text_simps [simp]:
  "same_text m m" "same_text m (m'\<lparr>msg_tenant_id := t\<rparr>) = same_text m m'"
  "same_text m (m'\<lparr>msg_status := st\<rparr>) = same_text m m'"
  "same_text m (m'\<lparr>msg_provider_message_id := p\<rparr>) = same_text m m'"
  "same_text m (m'\<lparr>msg_sent_at := x\<rparr>) = same_text m m'"
  by (simp_all add: same_text_def)

definition waiting_world :: world where
  "waiting_world = blank_world\<lparr>w_tenant := Some ''acme'',
     w_messages := [(''m1'', sample_message\<lparr>msg_tenant_id := ''acme'', msg_status := PendingApproval\<rparr>)]\<rparr>"

lemma waiting_under: "under ''acme'' waiting_world"
  by (simp add: under_def tables_ok_def waiting_world_def blank_world_def keyed_def dict_ok_def
      sample_message_def)

lemma clean_strings: "scrub_text ''acme'' = ''acme''" "scrub_text ''m1'' = ''m1''" "scrub_text ''k1'' = ''k1''"
  by (rule scrub_text_no_match, rule no_anchor_no_match; code_simp)+

lemma llm_wired: "is_wired (wired_service mem_idempotency mem_messages llm_drafter)"
  unfolding is_wired_def by blast

text \<open>
  An approval sends only from PENDING_APPROVAL or FAILED: for a row in any other status it
  returns the row and changes nothing; an edit that is blank is refused, and a message that does
  not exist is reported, before anything changes.
\<close>

theorem approval_guards:
  assumes "is_wired svc" and "under t w"
  shows "(\<forall>row. dict_get (w_messages w) i = Some row \<and> \<not> is_foreign (msg_tenant_id row) t \<and>
      msg_status row \<notin> {PendingApproval, Failed} \<and> (\<forall>x. body = Some x \<longrightarrow> strip x \<noteq> []) \<longrightarrow>
      send_approved svc i subject body w = (Inr row, w)) \<and>
    (\<forall>x. body = Some x \<and> strip x = [] \<longrightarrow>
      send_approved svc i subject body w = (Inl blank_edit_error, w)) \<and>
    (dict_get (w_messages w) i = None \<and> (\<forall>x. body = Some x \<longrightarrow> strip x \<noteq> []) \<longrightarrow>
      send_approved svc i subject body w = (Inl (UnknownOutboundMessageError i), w))"
proof -
  obtain b where l: "send_lifecycle b svc" using assms(1) by (rule is_wiredE)
  have "owns t w i" if "dict_get (w_messages w) i = Some row" "\<not> is_foreign (msg_tenant_id row) t" for row
    using that by (simp add: owns_def foreign_owner_def)
  then show ?thesis
    using send_lifecycle.approve_settled [OF l assms(2)] send_lifecycle.approve_blank [OF l]
      send_lifecycle.approve_unknown [OF l assms(2)] by blast
qed

theorem approval_guards_witness:
  "send_approved (wired_service mem_idempotency mem_messages llm_drafter) ''m9'' None None waiting_world =
     (Inl (UnknownOutboundMessageError ''m9''), waiting_world)"
  by (rule approval_guards [OF llm_wired waiting_under, of "''m9''" None None, THEN conjunct2,
        THEN conjunct2, THEN mp]) (simp add: waiting_world_def dict_get_def)

text \<open>
  Drafting is idempotent within a run and sends nothing: a successful draft leaves one row
  waiting for approval, with the drafted text scrubbed and the tenant stamped, and drafting the
  same context again returns that row unchanged without asking the drafting backend, even a
  nondeterministic one.
\<close>

theorem draft_once:
  assumes "is_wired svc" and "under t w" and "run_id_of (w_audit w) = Some run"
    and "dict_get (w_messages w) (draft_key w run c) = None"
    and "scrub_text (draft_key w run c) = draft_key w run c"
    and "draft_for_approval svc c w = (Inr row, w1)"
  shows "msg_status row = PendingApproval \<and> msg_id row = draft_key w run c \<and> msg_tenant_id row = t \<and>
    dict_get (w_messages w1) (msg_id row) = Some row \<and>
    (\<exists>new. w_sent w1 = w_sent w @ new \<and> (\<forall>q \<in> set new. sent_id q = None)) \<and>
    draft_for_approval svc c w1 = (Inr row, w1)"
proof -
  obtain b d where l: "send_lifecycle b svc" and d: "sv_drafting svc = Some d"
    using assms(1) by (rule is_wiredE) blast
  let ?k = "draft_key w run c"
  obtain r w2 where dr: "d c w = (r, w2)" by fastforce
  have q: "quiet None w w2"
    by (rule quietlyD [OF send_lifecycle.drafter_quiet [OF l d] dr])
  note fresh = send_lifecycle.draft_fresh [OF l d assms(2,3) refl assms(4,5), unfolded dr]
  obtain x where x: "r = Inr x" using fresh assms(6) by (cases r) auto
  let ?m = "drafted_row ?k x (w_clock w2 (w_reads w2))"
  have row: "row = ?m\<lparr>msg_tenant_id := t\<rparr>" and w1: "w1 = stored t ?m (w2\<lparr>w_reads := Suc (w_reads w2)\<rparr>)"
    using fresh assms(6) x by (auto simp: Let_def)
  have m: "msg_id ?m = ?k" "msg_status ?m = PendingApproval"
    by (simp_all add: drafted_row_def dlp_scrub_def assms(5))
  have u1: "under t w1"
    using under_quiet [OF assms(2) q] by (simp add: w1 under_def stored_def tables_ok_def keyed_set)
  have same: "w_audit w1 = w_audit w" "draft_key w1 run c = ?k"
    using q by (simp_all add: w1 stored_def quiet_def draft_key_def)
  have stored1: "dict_get (w_messages w1) ?k = Some row" "owns t w1 ?k"
    using m(1) row by (simp_all add: w1 owns_def foreign_owner_def)
  have "draft_for_approval svc c w1 = (Inr row, w1)"
    using send_lifecycle.draft_existing [OF l d u1, of run c row] same assms(3) stored1 by simp
  with m row stored1 q w1 show ?thesis
    by (auto simp: quiet_def stored_def)
qed

definition drafting_world :: world where
  "drafting_world = waiting_world\<lparr>w_audit := Some sample_run, w_sha256 := (\<lambda>_. ''k1''),
     w_ext := (\<lambda>_ _. Inr (RDrafted
       \<lparr>dm_channel = Email, dm_recipient = ''ann@example.com'', dm_subject = ''Hi'', dm_body = ''Hello'',
        dm_template_ref = [], dm_contact_id = ''c1'', dm_listing_key = [], dm_transaction_id = []\<rparr>))\<rparr>"

definition sample_context :: draft_context where
  "sample_context =
     \<lparr>dctx_channel = Email, dctx_recipient = ''ann@example.com'', dctx_template_ref = [],
      dctx_params = [], dctx_contact_id = ''c1'', dctx_listing_key = [], dctx_transaction_id = []\<rparr>"

theorem draft_once_witness:
  "\<exists>row w1. msg_id row = ''k1'' \<and> msg_status row = PendingApproval \<and>
     draft_for_approval (wired_service mem_idempotency mem_messages llm_drafter) sample_context
       drafting_world = (Inr row, w1) \<and>
     draft_for_approval (wired_service mem_idempotency mem_messages llm_drafter) sample_context w1 =
       (Inr row, w1)"
proof -
  have u: "under ''acme'' drafting_world"
    using waiting_under by (simp add: under_def tables_ok_def drafting_world_def)
  have run: "run_id_of (w_audit drafting_world) = Some ''run-1''"
    by (simp add: drafting_world_def sample_run_def run_id_of_def)
  have key: "draft_key drafting_world ''run-1'' sample_context = ''k1''"
    by (simp add: draft_key_def drafting_world_def idempotency_key_def)
  have none: "dict_get (w_messages drafting_world) ''k1'' = None"
    by (simp add: drafting_world_def waiting_world_def dict_get_def)
  have svc: "sv_drafting (wired_service mem_idempotency mem_messages llm_drafter) = Some llm_drafter"
    by (simp add: wired_service_def)
  have "\<exists>row w1. draft_for_approval (wired_service mem_idempotency mem_messages llm_drafter) sample_context
      drafting_world = (Inr row, w1)"
    unfolding mem_send.draft_fresh [OF svc u run key [symmetric] none clean_strings(3)]
    by (simp add: llm_drafter_def monad world drafting_world_def as_drafted_def Let_def)
  then obtain row w1 where d: "draft_for_approval (wired_service mem_idempotency mem_messages llm_drafter)
      sample_context drafting_world = (Inr row, w1)" by blast
  from draft_once [OF llm_wired u run _ _ d] key none clean_strings(3) d show ?thesis by metis
qed

end
