(* ===== verification/Retry.thy ===== *)
theory Retry
  imports Message_Route_Properties Send_Properties Gate_Properties
begin

text \<open>
  \<open>POST /messages/{id}/retry\<close>: nothing but a failed message is touched, and a failed message can
  always be brought to completion by an administrator, whatever happened to it before.
\<close>

section \<open>One fresh send through the wired seam\<close>

fun send_op :: "message_channel \<Rightarrow> message \<Rightarrow> write_op" where
  "send_op Email m = WSendEmail m"
| "send_op Sms m = WSendSms m"

fun seam_send :: "idempotency_backend \<Rightarrow> message_channel \<Rightarrow> send_port" where
  "seam_send ib Email = seam_email ib"
| "seam_send ib Sms = seam_sms ib"

text \<open>What the provider's answer means to the send port.\<close>

fun accepted :: "exn + ext_resp \<Rightarrow> exn + string" where
  "accepted (Inl e) = Inl e"
| "accepted (Inr (RStr s)) = Inr s"
| "accepted (Inr _) = Inl bad_answer"

lemma raw_send: "fst (run_write raw_ports (send_op ch m) w) =
    map_res WStr (accepted (w_ext w (length (w_sent w)) (op_request (send_op ch m))))"
  by (cases ch)
    (auto simp: raw_ports_def raw_email_def raw_sms_def monad world as_str_def map_res_def
      split: sum.split ext_resp.split)

text \<open>The guarded port, when the write beneath it is known.\<close>

lemma guarded_seam:
  assumes t: "w_tenant w = Some t" and own: "\<not> is_foreign (msg_tenant_id m) t"
    and put: "run_write (seam_ports ib []) (send_op ch m) w = (map_res WStr r, w1)"
    and t1: "w_tenant w1 = Some t"
  shows "sp_send (seam_send ib ch) m w = (map_res scrub_text r, w1)"
proof -
  have args: "first_foreign t (arg_tenants [(''message'', message_payload 0 m)]) = None"
    using own
    by (auto simp: first_foreign_None arg_tenants_def tenants_def message_payload_def tenant_field_def
        is_tenant_param_name_def endswith_def json_date_def Let_def split: option.splits)
  have inner: "(case ch of Email \<Rightarrow> sp_send (idempotent_email (recording_email raw_email) ib)
      | Sms \<Rightarrow> sp_send (idempotent_sms (recording_sms raw_sms) ib)) m w = (r, w1)"
    using put
    by (cases ch) (auto simp: seam_ports_def idempotent_ports_def recording_ports_def raw_ports_def monad
        map_res_def split: sum.splits prod.splits)
  then show ?thesis
    using args t t1
    by (cases ch; cases r)
      (auto simp: seam_email_def seam_sms_def guarded_send_def monad guarded_call_run map_res_def
        filter_tool_response_def check_tenants_def tenants_def is_tenant_param_name_def tenant_field_def
        endswith_def scrub_string_def Let_def)
qed

lemma seam_fresh_send:
  assumes ib: "idempotency_store ib" and t: "w_tenant w = Some t"
    and own: "\<not> is_foreign (msg_tenant_id m) t" and ok: "dict_ok (w_idem w)"
    and run: "run_id_of (w_audit w) = Some run"
    and none: "dict_get (w_idem w) (write_key (w_sha256 w) run (send_op ch m)) = None"
  shows "\<exists>w1. sp_send (seam_send ib ch) m w =
      (map_res scrub_text (accepted (w_ext w (length (w_sent w)) (op_request (send_op ch m)))), w1) \<and>
    w_sent w1 = w_sent w @ [op_request (send_op ch m)]"
proof -
  let ?op = "send_op ch m" and ?key = "write_key (w_sha256 w) run (send_op ch m)"
  let ?ans = "accepted (w_ext w (length (w_sent w)) (op_request ?op))"
  obtain x w2 where rec: "run_write (recording_ports raw_ports []) ?op (claimed ?key w) = (x, w2)" by fastforce
  have x: "x = map_res WStr ?ans"
    using rec raw_send [of ch m "claimed ?key w"] by (auto simp: recording_write_run Let_def claimed_def)
  have w2: "w_sent w2 = w_sent w @ [op_request ?op]" "w_tenant w2 = Some t"
    using recording_frame [OF rec] t by (auto simp: only_logs_def same_sources_def claimed_def)
  let ?w1 = "case ?ans of Inl e \<Rightarrow> w2 | Inr s \<Rightarrow> completed ?key s w2"
  have "run_write (seam_ports ib []) ?op w = (map_res WStr ?ans, ?w1)"
    using idempotency_store.seam_fresh [OF ib ok run refl none] rec x
    by (simp add: map_res_def split: sum.split)
  from guarded_seam [OF t own this] w2 show ?thesis
    by (intro exI [of _ ?w1]) (simp add: completed_def split: sum.split)
qed

section \<open>The retry route\<close>

lemma deployment_lifecycle:
  assumes "is_deployment d"
  shows "\<exists>b. send_lifecycle b (message_service d)" and "idempotency_store (dp_idempotency d)"
proof -
  have "send_lifecycle (sb_messages (dp_stores d)) (message_service d)"
    unfolding message_service_def using assms
    by (intro wired_lifecycle) (auto simp: is_deployment_def sql_stores_def mem_stores_def)
  then show "\<exists>b. send_lifecycle b (message_service d)" by blast
  show "idempotency_store (dp_idempotency d)"
    using assms mem_ib.idempotency_store_axioms sql_ib.idempotency_store_axioms
    by (auto simp: is_deployment_def)
qed

lemma deployment_port: "port_for (message_service d) ch w = (Inr (seam_send (dp_idempotency d) ch), w)"
  by (cases ch) (simp_all add: message_service_def wired_service_def port_for_def)

lemma retry_gate:
  assumes role: "role_allows (pr_role p) Admin" and get: "service_get_message svc i w = (Inr (Some row), w)"
    and list: "ab_list repo None w = (Inr approvals, w)"
  shows "retry_failed_message svc repo p i w =
    (if msg_status row \<noteq> Failed
     then (Inl (HTTPException 409 (''only a failed message can be retried (this one is '' @
             message_status_value (msg_status row) @ '')'')), w)
     else audit_scope (retry_scope i row approvals p (w_uuid w (w_uuids w)))
            (try_except is_exception (send_approved svc i None None) (\<lambda>e. raise (retry_response e)))
            (w\<lparr>w_uuids := Suc (w_uuids w)\<rparr>))"
  using assms by (simp add: retry_failed_message_def require_role_def monad uuid4_hex_def)

text \<open>The send a retry performs, in its own run.\<close>

lemma retry_send:
  assumes d: "is_deployment d" and u: "under t w" and ok: "dict_ok (w_idem w)"
    and row: "dict_get (w_messages w) i = Some row" and own: "\<not> is_foreign (msg_tenant_id row) t"
    and st: "msg_status row = Failed" and clean: "scrub_text i = i" "scrub_text t = t"
    and run: "run_id_of (w_audit w) = Some run" and m: "m = dlp_scrub row"
    and none: "dict_get (w_idem w) (write_key (w_sha256 w) run (send_op (msg_channel row) m)) = None"
  shows "\<exists>r w'. send_approved (message_service d) i None None w = (r, w') \<and>
    w_sent w' = w_sent w @ [op_request (send_op (msg_channel row) m)] \<and>
    (case accepted (w_ext w (length (w_sent w)) (op_request (send_op (msg_channel row) m))) of
       Inr pid \<Rightarrow> \<exists>s. r = Inr s \<and> dict_get (w_messages w') i = Some s \<and> msg_status s = Sent \<and>
         msg_provider_message_id s = scrub_text pid \<and> same_text m s
     | Inl e \<Rightarrow> r = Inl e \<and> (is_exception e \<longrightarrow>
         (\<exists>f. dict_get (w_messages w') i = Some f \<and> msg_status f = Failed \<and> same_text m f)))"
proof -
  obtain b where l: "send_lifecycle b (message_service d)" using deployment_lifecycle(1) [OF d] by blast
  note port = deployment_port
  have o: "owns t w i" using row own by (simp add: owns_def foreign_owner_def)
  have id: "msg_id row = i" using u row by (auto simp: under_def tables_ok_def dest: keyed_get)
  have "msg_tenant_id row = [] \<or> msg_tenant_id row = t" using own by (auto simp: is_foreign_def)
  then have mm: "msg_id m = i" "\<not> is_foreign (msg_tenant_id m) t"
    using clean id m by (auto simp: dlp_scrub_def is_foreign_def marker_no_anchor)
  have edits: "m = dlp_scrub (with_edits None None row)" by (simp add: m with_edits_def)
  obtain w1 where app: "send_approved (message_service d) i None None w =
      deliver (message_service d) (seam_send (dp_idempotency d) (msg_channel row)) m w1"
    and w1: "w1 = (if m = row then w else stored t m w)"
    using send_lifecycle.approve_waiting [OF l u o row _ _ port edits mm] st by auto
  have u1: "under t w1" "owns t w1 (msg_id m)" using w1 u o mm(1) by auto
  have frame: "w_tenant w1 = Some t" "dict_ok (w_idem w1)" "run_id_of (w_audit w1) = Some run"
    "w_sha256 w1 = w_sha256 w" "w_idem w1 = w_idem w" "w_ext w1 = w_ext w" "w_sent w1 = w_sent w"
    using u1 w1 u ok run by (auto simp: stored_def under_def)
  obtain w2 where s: "sp_send (seam_send (dp_idempotency d) (msg_channel row)) m w1 =
      (map_res scrub_text (accepted (w_ext w (length (w_sent w)) (op_request (send_op (msg_channel row) m)))), w2)"
    and sent: "w_sent w2 = w_sent w @ [op_request (send_op (msg_channel row) m)]"
    using seam_fresh_send [OF deployment_lifecycle(2) [OF d] frame(1) mm(2) frame(2,3),
        where ch = "msg_channel row"] none frame by auto
  have q: "quietly (Some (msg_id m)) (sp_send (seam_send (dp_idempotency d) (msg_channel row)) m)"
    using send_lifecycle.port_for_run [OF l port] by blast
  note del = send_lifecycle.deliver_run [OF l u1 mm(2) q, unfolded s]
  show ?thesis
    unfolding app del using sent mm(1)
    by (auto simp: map_res_def stored_def Let_def split: sum.split)
qed

text \<open>
  C7: A failed send can always be driven to completion. An administrator's retry of a FAILED message of
  the bound tenant, whatever happened to it before, makes exactly one provider call with the redacted
  row: when the provider accepts, the row is SENT with the provider's id, and is the answer; when it
  errors, the row is FAILED again with the same text, so that the next retry is possible, and the error
  is the mapped response. A message in any other status is a 409 that changes nothing.
\<close>

theorem failed_send_completes:
  assumes d: "is_deployment d" and u: "under t w" and ok: "dict_ok (w_idem w)"
    and role: "role_allows (pr_role p) Admin" and list: "ab_list (approval_repo d) None w = (Inr approvals, w)"
    and row: "dict_get (w_messages w) i = Some row" and own: "\<not> is_foreign (msg_tenant_id row) t"
    and clean: "scrub_text i = i" "scrub_text t = t" and run: "w_uuid w (w_uuids w) = run" "run \<noteq> []"
    and m: "m = dlp_scrub row"
    and none: "dict_get (w_idem w) (write_key (w_sha256 w) run (send_op (msg_channel row) m)) = None"
  shows "\<exists>r w'. retry_failed_message (message_service d) (approval_repo d) p i w = (r, w') \<and>
    (if msg_status row \<noteq> Failed then w' = w \<and> (\<exists>x. r = Inl (HTTPException 409 x))
     else w_sent w' = w_sent w @ [op_request (send_op (msg_channel row) m)] \<and>
       (case accepted (w_ext w (length (w_sent w)) (op_request (send_op (msg_channel row) m))) of
          Inr pid \<Rightarrow> \<exists>s. r = Inr s \<and> dict_get (w_messages w') i = Some s \<and> msg_status s = Sent \<and>
            msg_provider_message_id s = scrub_text pid \<and> same_text m s
        | Inl e \<Rightarrow> is_exception e \<longrightarrow> r = Inl (retry_response e) \<and>
            (\<exists>f. dict_get (w_messages w') i = Some f \<and> msg_status f = Failed \<and> same_text m f)))"
proof -
  obtain b where l: "send_lifecycle b (message_service d)" using deployment_lifecycle(1) [OF d] by blast
  have o: "owns t w i" using row own by (simp add: owns_def foreign_owner_def)
  have get: "service_get_message (message_service d) i w = (Inr (Some row), w)"
    using send_lifecycle.get_own [OF l u o] row by (simp add: service_get_message_def)
  note gate = retry_gate [OF role get list]
  show ?thesis
  proof (cases "msg_status row = Failed")
    case False
    with gate show ?thesis by simp
  next
    case st: True
    let ?w = "w\<lparr>w_uuids := Suc (w_uuids w), w_audit := Some (retry_scope i row approvals p run)\<rparr>"
    have w: "under t ?w" "dict_ok (w_idem ?w)" "dict_get (w_messages ?w) i = Some row"
      "run_id_of (w_audit ?w) = Some run"
      using u ok row run(2) by (auto simp: under_def tables_ok_def retry_scope_def run_id_of_def)
    obtain r w' where r: "send_approved (message_service d) i None None ?w = (r, w')"
      and rest: "w_sent w' = w_sent w @ [op_request (send_op (msg_channel row) m)]"
        "case accepted (w_ext w (length (w_sent w)) (op_request (send_op (msg_channel row) m))) of
           Inr pid \<Rightarrow> \<exists>s. r = Inr s \<and> dict_get (w_messages w') i = Some s \<and> msg_status s = Sent \<and>
             msg_provider_message_id s = scrub_text pid \<and> same_text m s
         | Inl e \<Rightarrow> r = Inl e \<and> (is_exception e \<longrightarrow>
             (\<exists>f. dict_get (w_messages w') i = Some f \<and> msg_status f = Failed \<and> same_text m f))"
      using retry_send [OF d w(1-3) own st clean w(4) m] none by auto
    with gate st run(1) show ?thesis
      by (auto simp: audit_scope_def monad split: sum.splits)
  qed
qed

definition sample_admin :: principal where
  "sample_admin = \<lparr>pr_subject = ''a'', pr_email = ''a@x'', pr_name = [], pr_verified = True, pr_role = Admin\<rparr>"

definition failed_world :: world where
  "failed_world = blank_world\<lparr>w_tenant := Some ''acme'', w_uuid := (\<lambda>_. ''r1''),
     w_ext := (\<lambda>_ _. Inr (RStr ''SM1'')),
     w_messages := [(''m1'', sample_message\<lparr>msg_id := ''m1'', msg_tenant_id := ''acme'', msg_status := Failed\<rparr>)]\<rparr>"

lemma failed_world_ready:
  "under ''acme'' failed_world" "dict_ok (w_idem failed_world)"
  "ab_list (approval_repo sample_deployment) None failed_world = (Inr [], failed_world)"
  by (simp_all add: failed_world_def samples under_def tables_ok_def keyed_def dict_ok_def approval_repo_def
      guarded_approvals_def guarded_def scoped_approvals_def scoped_list_approvals_def authorize_args_def
      check_tenants_def tenants_def is_tenant_param_name_def tenant_field_def endswith_def list_payload_def
      require_tenant_def current_tenant_def sample_deployment_def mem_stores_def mem_approvals_def
      mem_list_approvals_def dict_values_def monad)

theorem failed_send_completes_witness:
  "\<exists>s w'. retry_failed_message (message_service sample_deployment) (approval_repo sample_deployment)
      sample_admin ''m1'' failed_world = (Inr s, w') \<and> length (w_sent w') = 1 \<and>
     dict_get (w_messages w') ''m1'' = Some s \<and> msg_status s = Sent"
proof -
  let ?row = "sample_message\<lparr>msg_id := ''m1'', msg_tenant_id := ''acme'', msg_status := Failed\<rparr>"
  have row: "dict_get (w_messages failed_world) ''m1'' = Some ?row"
    by (simp add: failed_world_def dict_get_def)
  have world: "w_uuid failed_world (w_uuids failed_world) = ''r1''" "w_idem failed_world = []"
    "w_sent failed_world = []" "w_ext failed_world = (\<lambda>_ _. Inr (RStr ''SM1''))"
    by (simp_all add: failed_world_def blank_world_def)
  from failed_send_completes [OF sample_is_deployment failed_world_ready(1,2) _ failed_world_ready(3) row _
      clean_strings(2,1) world(1) _ refl, of sample_admin]
  show ?thesis
    by (auto simp: sample_admin_def role_allows_def is_foreign_def world)
qed

end
