(* ===== verification/Approved_Text.thy ===== *)
theory Approved_Text
  imports Retry
begin

text \<open>
  What an approval ships: the hand-over to the channel's provider in \<open>send_approved\<close> of
  \<open>core/services/message_send.py\<close>, and what the stored row says before, during and after it.
\<close>

section \<open>A first send through the seam, with or without a run\<close>

text \<open>No run is bound, or the write is the run's first of this message.\<close>

definition first_send :: "message_channel \<Rightarrow> message \<Rightarrow> world \<Rightarrow> bool" where
  "first_send ch m w \<longleftrightarrow> dict_ok (w_idem w) \<and>
     (case run_id_of (w_audit w) of
        None \<Rightarrow> True
      | Some run \<Rightarrow> dict_get (w_idem w) (write_key (w_sha256 w) run (send_op ch m)) = None)"

lemma first_send_stored: "first_send ch m (stored t x w) = first_send ch m w"
  by (simp add: first_send_def stored_def split: option.split)

lemma seam_unscoped_send:
  assumes t: "w_tenant w = Some t" and own: "\<not> is_foreign (msg_tenant_id m) t"
    and run: "run_id_of (w_audit w) = None"
  shows "\<exists>w1. sp_send (seam_send ib ch) m w =
      (map_res scrub_text (accepted (w_ext w (length (w_sent w)) (op_request (send_op ch m)))), w1) \<and>
    w_sent w1 = w_sent w @ [op_request (send_op ch m)]"
proof -
  let ?op = "send_op ch m"
  let ?ans = "accepted (w_ext w (length (w_sent w)) (op_request ?op))"
  obtain x w2 where rec: "run_write (recording_ports raw_ports []) ?op w = (x, w2)" by fastforce
  have x: "x = map_res WStr ?ans"
    using rec raw_send [of ch m w] by (auto simp: recording_write_run Let_def)
  have w2: "w_sent w2 = w_sent w @ [op_request ?op]" "w_tenant w2 = Some t"
    using recording_frame [OF rec] t by (auto simp: only_logs_def same_sources_def)
  have "run_write (seam_ports ib []) ?op w = (map_res WStr ?ans, w2)"
    using undeduped_outside_run [OF run] rec x by simp
  from guarded_seam [OF t own this w2(2)] w2(1) show ?thesis by blast
qed

lemma seam_first_send:
  assumes "idempotency_store ib" and "w_tenant w = Some t" and "\<not> is_foreign (msg_tenant_id m) t"
    and "first_send ch m w"
  shows "\<exists>w1. sp_send (seam_send ib ch) m w =
      (map_res scrub_text (accepted (w_ext w (length (w_sent w)) (op_request (send_op ch m)))), w1) \<and>
    w_sent w1 = w_sent w @ [op_request (send_op ch m)]"
proof (cases "run_id_of (w_audit w)")
  case None
  with assms show ?thesis by (intro seam_unscoped_send)
next
  case (Some run)
  with assms show ?thesis by (intro seam_fresh_send) (auto simp: first_send_def)
qed

lemma wired_seam:
  assumes "is_wired svc"
  obtains b ib where "send_lifecycle b svc" and "idempotency_store ib"
    and "\<And>ch w. port_for svc ch w = (Inr (seam_send ib ch), w)"
proof -
  from assms obtain ib b drafter where s: "svc = wired_service ib b drafter"
    and ib: "ib = sql_idempotency \<or> ib = mem_idempotency" and l: "send_lifecycle b (wired_service ib b drafter)"
    unfolding is_wired_def using wired_lifecycle by blast
  have "port_for svc ch w = (Inr (seam_send ib ch), w)" for ch w
    by (cases ch) (simp_all add: s wired_service_def port_for_def)
  moreover have "idempotency_store ib"
    using ib mem_ib.idempotency_store_axioms sql_ib.idempotency_store_axioms by auto
  ultimately show thesis using l s that by simp
qed

section \<open>The approved text\<close>

text \<open>
  C23: What ships is what the history shows. Let \<open>m\<close> be a waiting row of the bound tenant with the
  approver's edits, secrets redacted. Approving it calls the port of the row's channel with \<open>m\<close>, in the
  state \<open>w1\<close> in which \<open>m\<close> has been stored if it differs from the row, so that the stored row has \<open>m\<close>'s text
  at that moment; the call changes no stored row. Unless the run has sent this message before, exactly one
  request is made of the channel's provider, and it carries \<open>m\<close>. Its answer decides: when the provider
  accepts, the row is SENT with the provider's id (redacted) and \<open>m\<close>'s text, and is the answer; when it
  errors, the row is FAILED with \<open>m\<close>'s text and the error is re-raised; a cancelled call leaves the state
  the port left. Nothing else is sent.
\<close>

theorem approved_text_ships:
  assumes wired: "is_wired svc" and u: "under t w" and row: "dict_get (w_messages w) i = Some row"
    and own: "\<not> is_foreign (msg_tenant_id row) t" and st: "msg_status row \<in> {PendingApproval, Failed}"
    and body: "\<forall>x. body = Some x \<longrightarrow> strip x \<noteq> []" and clean: "scrub_text i = i" "scrub_text t = t"
    and m: "m = dlp_scrub (with_edits subject body row)" and w1: "w1 = (if m = row then w else stored t m w)"
    and q: "q = op_request (send_op (msg_channel row) m)"
  shows "\<exists>p r w2 w'. port_for svc (msg_channel row) w = (Inr p, w) \<and> sp_send p m w1 = (r, w2) \<and>
    (\<exists>x. dict_get (w_messages w1) i = Some x \<and> same_text m x) \<and> same_rows w1 w2 \<and>
    (first_send (msg_channel row) m w \<longrightarrow>
       w_sent w2 = w_sent w @ [q] \<and> r = map_res scrub_text (accepted (w_ext w (length (w_sent w)) q))) \<and>
    w_sent w' = w_sent w2 \<and>
    (case r of
       Inr pid \<Rightarrow> \<exists>s. send_approved svc i subject body w = (Inr s, w') \<and>
         dict_get (w_messages w') i = Some s \<and> msg_status s = Sent \<and>
         msg_provider_message_id s = pid \<and> same_text m s
     | Inl e \<Rightarrow> send_approved svc i subject body w = (Inl e, w') \<and>
         (if is_exception e
          then \<exists>f. dict_get (w_messages w') i = Some f \<and> msg_status f = Failed \<and> same_text m f
          else w' = w2))"
proof -
  obtain b ib where l: "send_lifecycle b svc" and ib: "idempotency_store ib"
    and port: "\<And>ch v. port_for svc ch v = (Inr (seam_send ib ch), v)" using wired_seam [OF wired] by blast
  let ?p = "seam_send ib (msg_channel row)"
  have o: "owns t w i" using row own by (simp add: owns_def foreign_owner_def)
  have id: "msg_id row = i" using u row by (auto simp: under_def tables_ok_def dest: keyed_get)
  have "msg_tenant_id row = [] \<or> msg_tenant_id row = t" using own by (auto simp: is_foreign_def)
  then have mm: "msg_id m = i" "\<not> is_foreign (msg_tenant_id m) t"
    using clean id m by (auto simp: dlp_scrub_def with_edits_def is_foreign_def marker_no_anchor)
  have run: "send_approved svc i subject body w = deliver svc ?p m w1"
    using send_lifecycle.approve_waiting [OF l u o row st body port m mm] w1 by blast
  have u1: "under t w1" "owns t w1 (msg_id m)" using w1 u o mm(1) by auto
  have same: "w_tenant w1 = Some t" "w_ext w1 = w_ext w" "w_sent w1 = w_sent w"
    "first_send (msg_channel row) m w1 = first_send (msg_channel row) m w"
    using u1 w1 u by (auto simp: first_send_stored under_def) (simp_all add: stored_def)
  have row1: "\<exists>x. dict_get (w_messages w1) i = Some x \<and> same_text m x"
    using w1 row mm(1) by (auto simp: stored_def)
  obtain r w2 where s: "sp_send ?p m w1 = (r, w2)" by fastforce
  have quiet: "quietly (Some (msg_id m)) (sp_send ?p m)"
    using send_lifecycle.port_for_run [OF l port] by blast
  have rows: "same_rows w1 w2" using quietlyD [OF quiet s] by (simp add: quiet_def)
  have first: "w_sent w2 = w_sent w @ [q] \<and> r = map_res scrub_text (accepted (w_ext w (length (w_sent w)) q))"
    if "first_send (msg_channel row) m w"
    using seam_first_send [OF ib same(1) mm(2), of "msg_channel row"] that same(2-4) s q by auto
  note del = send_lifecycle.deliver_run [OF l u1 mm(2) quiet, unfolded s]
  let ?w' = "case r of
      Inl e \<Rightarrow> if is_exception e then stored t (m\<lparr>msg_status := Failed\<rparr>) w2 else w2
    | Inr pid \<Rightarrow> stored t (m\<lparr>msg_status := Sent, msg_provider_message_id := pid,
        msg_sent_at := Some (w_clock w2 (w_reads w2))\<rparr>) (w2\<lparr>w_reads := Suc (w_reads w2)\<rparr>)"
  have "w_sent ?w' = w_sent w2" by (simp add: stored_def split: sum.split)
  moreover have "case r of
       Inr pid \<Rightarrow> \<exists>s. send_approved svc i subject body w = (Inr s, ?w') \<and>
         dict_get (w_messages ?w') i = Some s \<and> msg_status s = Sent \<and>
         msg_provider_message_id s = pid \<and> same_text m s
     | Inl e \<Rightarrow> send_approved svc i subject body w = (Inl e, ?w') \<and>
         (if is_exception e
          then \<exists>f. dict_get (w_messages ?w') i = Some f \<and> msg_status f = Failed \<and> same_text m f
          else ?w' = w2)"
    using del run mm(1) by (auto simp: stored_def Let_def split: sum.split)
  ultimately show ?thesis using port s row1 rows first by blast
qed

text \<open>An approval with an edited body, over the in-memory stores, whose provider accepts.\<close>

definition accepting_world :: world where
  "accepting_world = waiting_world\<lparr>w_ext := (\<lambda>_ _. Inr (RStr ''SM1''))\<rparr>"

lemma accepting_under: "under ''acme'' accepting_world"
  using waiting_under by (simp add: under_def tables_ok_def accepting_world_def)

lemma id_clean: "scrub_text ''SM1'' = ''SM1''"
  by (rule scrub_text_no_match, rule no_anchor_no_match; code_simp)

theorem approved_text_ships_witness:
  "\<exists>s m w'. send_approved (wired_service mem_idempotency mem_messages llm_drafter) ''m1'' None
      (Some ''See you at 5'') accepting_world = (Inr s, w') \<and>
     m = dlp_scrub (with_edits None (Some ''See you at 5'')
        (sample_message\<lparr>msg_tenant_id := ''acme'', msg_status := PendingApproval\<rparr>)) \<and>
     w_sent w' = [op_request (send_op (msg_channel sample_message) m)] \<and>
     dict_get (w_messages w') ''m1'' = Some s \<and> msg_status s = Sent \<and> msg_provider_message_id s = ''SM1'' \<and>
     msg_body s = msg_body m"
proof -
  let ?row = "sample_message\<lparr>msg_tenant_id := ''acme'', msg_status := PendingApproval\<rparr>"
  have row: "dict_get (w_messages accepting_world) ''m1'' = Some ?row"
    by (simp add: accepting_world_def waiting_world_def dict_get_def)
  have own: "\<not> is_foreign (msg_tenant_id ?row) ''acme''" by (simp add: is_foreign_def)
  have st: "msg_status ?row \<in> {PendingApproval, Failed}" by simp
  have "strip ''See you at 5'' \<noteq> []" by code_simp
  then have body: "\<forall>x. Some ''See you at 5'' = Some x \<longrightarrow> strip x \<noteq> []" by simp
  have world: "w_sent accepting_world = []" "w_ext accepting_world = (\<lambda>_ _. Inr (RStr ''SM1''))"
    "first_send ch m accepting_world" for ch m
    by (simp_all add: accepting_world_def waiting_world_def blank_world_def first_send_def dict_ok_def run_id_of_def)
  from approved_text_ships [OF llm_wired accepting_under row own st body clean_strings(2,1) refl refl refl, of None] world
  show ?thesis by (auto simp: map_res_def id_clean same_text_def)
qed

end
