(* ===== verification/Transaction_Routes.thy ===== *)
theory Transaction_Routes
  imports Message_Routes Timeline
begin

text \<open>
  The transaction router (\<open>api/.../routes/transactions.py\<close>), the document router
  (\<open>routes/documents.py\<close>), the listing service (\<open>core/services/listing_service.py\<close>) and the demo data
  (\<open>routes/demo.py\<close>, \<open>demo_seed.py\<close>), over the stores as \<open>main.py\<close> wires them: the guarded transaction
  port, the scoped but unguarded document store and the file store behind the write seam.
\<close>

section \<open>The ports of the routes\<close>

definition scoped_documents :: "document_backend \<Rightarrow> document_backend" where
  "scoped_documents b =
     \<lparr>db_add = scoped_add_document b, db_get = scoped_get_document b, db_list = scoped_list_documents b\<rparr>"

definition document_port :: "deployment \<Rightarrow> document_backend" where
  "document_port d = scoped_documents (sb_documents (dp_stores d))"

definition route_files :: "deployment \<Rightarrow> files_port" where
  "route_files d = pt_files (seam_ports (dp_idempotency d) (dp_vendor d))"

section \<open>The listing service\<close>

definition listing_search :: "mls_port \<Rightarrow> listing_query \<Rightarrow> listing list W" where
  "listing_search mls q = mp_search mls q"

definition get_with_media :: "mls_port \<Rightarrow> string \<Rightarrow> listing option W" where
  "get_with_media mls key =
     bindM (mp_get_listing mls key) (\<lambda>found.
       case found of
         None \<Rightarrow> ret None
       | Some l \<Rightarrow> bindM (mp_get_media mls key) (\<lambda>media.
           ret (Some (l\<lparr>li_media := sort_key lm_order media\<rparr>))))"

section \<open>What a transaction looks like\<close>

record milestone_view =
  mv_milestone :: milestone
  mv_classification :: string
  mv_days_until_due :: int
  mv_document_satisfied :: "bool option"

record transaction_detail =
  td_transaction :: transaction
  td_milestones :: "milestone_view list"
  td_documents :: "document list"

definition milestone_view_of :: "milestone \<Rightarrow> date \<Rightarrow> document list \<Rightarrow> milestone_view" where
  "milestone_view_of m today documents =
     (let a = assess_milestone m today
      in \<lparr>mv_milestone = m,
          mv_classification =
            (if ms_status m = MsPending then milestone_class_value (as_classification a)
             else milestone_status_value (ms_status m)),
          mv_days_until_due = (if ms_status m = MsPending then as_days_until_due a else ms_due_date m - today),
          mv_document_satisfied = expected_document_satisfied m documents\<rparr>)"

definition transaction_detail_of ::
    "transaction_backend \<Rightarrow> document_backend \<Rightarrow> transaction \<Rightarrow> transaction_detail W" where
  "transaction_detail_of store docs t =
     bindM date_today (\<lambda>today.
     bindM (tb_list_milestones store (txn_id t)) (\<lambda>milestones.
     bindM (db_list docs (txn_id t)) (\<lambda>documents.
       ret \<lparr>td_transaction = t,
            td_milestones = map (\<lambda>m. milestone_view_of m today documents) milestones,
            td_documents = documents\<rparr>)))"

text \<open>The detail as a payload of the response filter.\<close>

definition bool_payload :: "bool option \<Rightarrow> payload" where
  "bool_payload b = (case b of None \<Rightarrow> VNone | Some x \<Rightarrow> VAtom (PBool x))"

definition view_payload :: "nat \<Rightarrow> milestone_view \<Rightarrow> payload" where
  "view_payload n v =
     (case milestone_payload n (mv_milestone v) of
        VModel i fs \<Rightarrow> VModel i (fs @
          [(''classification'', None, VStr (mv_classification v)),
           (''days_until_due'', None, VAtom (PInt (mv_days_until_due v))),
           (''document_satisfied'', None, bool_payload (mv_document_satisfied v))])
      | other \<Rightarrow> other)"

definition file_payload :: "nat \<Rightarrow> file_ref \<Rightarrow> payload" where
  "file_payload n f = VModel n
     [(''file_id'', None, VStr (fr_file_id f)), (''name'', None, VStr (fr_name f)),
      (''mime_type'', None, VStr (fr_mime_type f)), (''size_bytes'', None, int_payload (fr_size_bytes f)),
      (''web_url'', None, VStr (fr_web_url f))]"

definition document_payload :: "nat \<Rightarrow> document \<Rightarrow> payload" where
  "document_payload n d = VModel n
     [(''tenant_id'', None, VStr (doc_tenant_id d)), (''id'', None, VStr (doc_id d)),
      (''transaction_id'', None, VStr (doc_transaction_id d)),
      (''milestone_id'', None, opt_payload (doc_milestone_id d)),
      (''kind'', None, VAtom (PStr (document_kind_value (doc_kind d)))),
      (''title'', None, VStr (doc_title d)), (''file'', None, file_payload (Suc n) (doc_file d)),
      (''uploaded_by'', None, VStr (doc_uploaded_by d)),
      (''created_at'', None, VAtom (PInt (doc_created_at d)))]"

definition two_objects :: "'a \<Rightarrow> nat" where
  "two_objects _ = 2"

definition detail_payload :: "nat \<Rightarrow> transaction_detail \<Rightarrow> payload" where
  "detail_payload n d =
     (let a = Suc n; b = a + transaction_size (td_transaction d); c = Suc (b + length (td_milestones d))
      in VModel n
        [(''transaction'', None, transaction_payload a (td_transaction d)),
         (''milestones'', None, list_payload view_payload one_object b (td_milestones d)),
         (''documents'', None, list_payload document_payload two_objects c (td_documents d))])"

definition detail_size :: "transaction_detail \<Rightarrow> nat" where
  "detail_size d =
     3 + transaction_size (td_transaction d) + length (td_milestones d) + 2 * length (td_documents d)"

section \<open>Opening a transaction\<close>

record open_request =
  or_listing_key :: string
  or_contract_date :: date
  or_close_date :: "date option"
  or_parties :: "transaction_party list"

definition same_terms :: "transaction \<Rightarrow> transaction \<Rightarrow> bool" where
  "same_terms existing requested \<longleftrightarrow>
     txn_contract_date existing = txn_contract_date requested \<and>
     txn_close_date existing = txn_close_date requested \<and>
     txn_parties existing = txn_parties requested"

text \<open>A response with its status code.\<close>

type_synonym 'a response = "nat \<times> 'a"

definition replay_or_conflict ::
    "transaction_backend \<Rightarrow> document_backend \<Rightarrow> transaction \<Rightarrow> transaction \<Rightarrow> transaction_detail response W" where
  "replay_or_conflict store docs existing requested =
     (if \<not> same_terms existing requested
      then raise (HTTPException 409 (''a transaction for listing '' @ py_repr (txn_listing_key existing) @
             '' already exists with different terms''))
      else bindM (transaction_detail_of store docs existing) (\<lambda>detail. ret (200, detail)))"

fun is_already_exists :: "exn \<Rightarrow> bool" where
  "is_already_exists (TransactionAlreadyExists _) = True"
| "is_already_exists _ = False"

definition create_or_lose :: "transaction_backend \<Rightarrow> transaction \<Rightarrow> milestone list \<Rightarrow> exn option W" where
  "create_or_lose store txn mss =
     try_except is_already_exists (thenM (tb_create store txn mss) (ret None)) (\<lambda>e. ret (Some e))"

definition open_built ::
    "transaction_backend \<Rightarrow> document_backend \<Rightarrow> transaction \<Rightarrow> milestone list \<Rightarrow> transaction_detail response W" where
  "open_built store docs txn mss =
     bindM (tb_get store (txn_id txn)) (\<lambda>existing.
       case existing of
         Some e \<Rightarrow> replay_or_conflict store docs e txn
       | None \<Rightarrow>
           bindM (create_or_lose store txn mss) (\<lambda>lost.
             case lost of
               None \<Rightarrow> bindM (transaction_detail_of store docs txn) (\<lambda>detail. ret (201, detail))
             | Some e \<Rightarrow>
                 bindM (tb_get store (txn_id txn)) (\<lambda>winner.
                   case winner of
                     None \<Rightarrow> raise e
                   | Some x \<Rightarrow> replay_or_conflict store docs x txn)))"

definition open_transaction ::
    "transaction_backend \<Rightarrow> document_backend \<Rightarrow> principal \<Rightarrow> open_request \<Rightarrow> transaction_detail response W" where
  "open_transaction store docs p body =
     bindM (liftE (require_role Operator p)) (\<lambda>_.
     bindM (gets w_sha256) (\<lambda>sha.
     bindM (try_except is_value_error
              (liftE (build_open_transaction sha (or_listing_key body) (or_contract_date body)
                 (or_close_date body) (or_parties body) default_timeline))
              (\<lambda>e. raise (HTTPException 422 (exn_str e)))) (\<lambda>(txn, mss).
       open_built store docs txn mss)))"

section \<open>Reading transactions\<close>

definition list_transactions :: "transaction_backend \<Rightarrow> document_backend \<Rightarrow> principal \<Rightarrow> payload W" where
  "list_transactions store docs p =
     bindM (tb_list_active store) (\<lambda>active.
     bindM (mapM (transaction_detail_of store docs) active) (\<lambda>details.
       ret (role_scrubber p (list_payload detail_payload detail_size 0 details))))"

definition get_transaction_detail ::
    "transaction_backend \<Rightarrow> document_backend \<Rightarrow> principal \<Rightarrow> string \<Rightarrow> payload W" where
  "get_transaction_detail store docs p i =
     bindM (tb_get store i) (\<lambda>found.
       case found of
         None \<Rightarrow> raise (not_found ''transaction'' i)
       | Some t \<Rightarrow> bindM (transaction_detail_of store docs t) (\<lambda>detail.
           ret (role_scrubber p (detail_payload 0 detail))))"

record deadline_row =
  dr_item :: deadline_item
  dr_listing_key :: string

definition deadline_rows :: "transaction list \<Rightarrow> milestone list \<Rightarrow> date \<Rightarrow> exn + deadline_row list" where
  "deadline_rows active milestones today =
     (let keys = foldl (\<lambda>d t. dict_set d (txn_id t) (txn_listing_key t)) [] active
      in case build_deadline_queue milestones today of
           Inl e \<Rightarrow> Inl e
         | Inr items \<Rightarrow> Inr (map (\<lambda>i. \<lparr>dr_item = i, dr_listing_key =
             (case dict_get keys (di_transaction_id i) of None \<Rightarrow> [] | Some k \<Rightarrow> k)\<rparr>) items))"

definition deadline_row_payload :: "nat \<Rightarrow> deadline_row \<Rightarrow> payload" where
  "deadline_row_payload n r =
     (let i = dr_item r in VModel n
        [(''transaction_id'', None, VStr (di_transaction_id i)), (''milestone_id'', None, VStr (di_milestone_id i)),
         (''type'', None, VAtom (PStr (milestone_type_value (di_type i)))), (''title'', None, VStr (di_title i)),
         (''due_date'', None, VAtom (PInt (di_due_date i))),
         (''classification'', None, VAtom (PStr (milestone_class_value (di_classification i)))),
         (''days_until_due'', None, VAtom (PInt (di_days_until_due i))),
         (''blocked_reason'', None, opt_payload (di_blocked_reason i)),
         (''listing_key'', None, VStr (dr_listing_key r))])"

definition deadline_queue :: "transaction_backend \<Rightarrow> principal \<Rightarrow> payload W" where
  "deadline_queue store p =
     bindM date_today (\<lambda>today.
     bindM (tb_list_active store) (\<lambda>active.
     bindM (mapM (\<lambda>t. tb_list_milestones store (txn_id t)) active) (\<lambda>milestones.
     bindM (liftE (deadline_rows active (concat milestones) today)) (\<lambda>rows.
       ret (role_scrubber p (list_payload deadline_row_payload one_object 0 rows))))))"

text \<open>Only the feed's own failures degrade to an empty address.\<close>

fun is_httpx_error :: "exn \<Rightarrow> bool" where
  "is_httpx_error (HttpxError _ _) = True"
| "is_httpx_error _ = False"

definition listing_address :: "mls_port \<Rightarrow> string \<Rightarrow> string W" where
  "listing_address mls key =
     try_except is_httpx_error
       (bindM (get_with_media mls key) (\<lambda>l. ret (case l of None \<Rightarrow> [] | Some x \<Rightarrow> li_address x)))
       (\<lambda>_. ret [])"

record search_row =
  sr_transaction :: transaction
  sr_property_address :: string

definition search_haystack :: "search_row \<Rightarrow> string" where
  "search_haystack r =
     lower (join '' '' ([txn_listing_key (sr_transaction r), sr_property_address r] @
       map pty_name (txn_parties (sr_transaction r))))"

definition search_row_payload :: "nat \<Rightarrow> search_row \<Rightarrow> payload" where
  "search_row_payload n r = VModel n
     [(''transaction'', None, transaction_payload (Suc n) (sr_transaction r)),
      (''property_address'', None, VStr (sr_property_address r))]"

definition search_rows :: "transaction_backend \<Rightarrow> mls_port \<Rightarrow> string \<Rightarrow> search_row list W" where
  "search_rows store mls q =
     (let needle = lower (strip q)
      in if needle = [] then ret []
         else bindM (tb_list_active store) (\<lambda>active.
              bindM (mapM (\<lambda>t. bindM (listing_address mls (txn_listing_key t)) (\<lambda>a.
                       ret \<lparr>sr_transaction = t, sr_property_address = a\<rparr>)) active) (\<lambda>rows.
                ret (filter (\<lambda>r. contains needle (search_haystack r)) rows))))"

definition search_transactions :: "transaction_backend \<Rightarrow> mls_port \<Rightarrow> principal \<Rightarrow> string \<Rightarrow> payload W" where
  "search_transactions store mls p q =
     bindM (search_rows store mls q) (\<lambda>rows.
       ret (role_scrubber p (list_payload search_row_payload
         (\<lambda>r. Suc (transaction_size (sr_transaction r))) 0 rows)))"

end
