(* ===== verification/Document_Routes.thy ===== *)
theory Document_Routes
  imports Transaction_Routes
begin

text \<open>
  Transaction documents (\<open>api/.../routes/documents.py\<close>): attaching a file of the office store, uploading
  a new one, listing; and the demo data (\<open>routes/demo.py\<close>, \<open>demo_seed.py\<close>).
\<close>

section \<open>Documents\<close>

definition upload_max_chars :: nat where
  "upload_max_chars = 1000000"

definition title_max_chars :: nat where
  "title_max_chars = 300"

definition document_id :: "(string \<Rightarrow> string) \<Rightarrow> string \<Rightarrow> string \<Rightarrow> string \<Rightarrow> string" where
  "document_id sha tenant txn file = ''DOC-'' @ take 28 (sha (tenant @ '':'' @ txn @ '':'' @ file))"

definition list_files :: "files_port \<Rightarrow> string \<Rightarrow> file_ref list W" where
  "list_files files folder = fp_list files folder"

definition require_transaction :: "transaction_backend \<Rightarrow> string \<Rightarrow> transaction W" where
  "require_transaction store i =
     bindM (tb_get store i) (\<lambda>found.
       case found of None \<Rightarrow> raise (not_found ''transaction'' i) | Some t \<Rightarrow> ret t)"

definition foreign_milestone :: "string \<Rightarrow> string \<Rightarrow> exn" where
  "foreign_milestone i txn =
     HTTPException 422 (''milestone '' @ py_repr i @ '' does not belong to transaction '' @ py_repr txn)"

definition validate_milestone :: "transaction_backend \<Rightarrow> string \<Rightarrow> string option \<Rightarrow> unit W" where
  "validate_milestone store txn milestone =
     (case milestone of
        None \<Rightarrow> ret ()
      | Some i \<Rightarrow> bindM (tb_get_milestone store i) (\<lambda>found.
          case found of
            None \<Rightarrow> raise (foreign_milestone i txn)
          | Some m \<Rightarrow> if ms_transaction_id m \<noteq> txn then raise (foreign_milestone i txn) else ret ()))"

fun is_document_exists :: "exn \<Rightarrow> bool" where
  "is_document_exists (DocumentAlreadyExists _) = True"
| "is_document_exists _ = False"

definition persist :: "document_backend \<Rightarrow> document \<Rightarrow> (document \<times> bool) W" where
  "persist docs d =
     try_except is_document_exists (thenM (db_add docs d) (ret (d, True)))
       (\<lambda>e. bindM (db_get docs (doc_id d)) (\<lambda>existing.
          case existing of None \<Rightarrow> raise e | Some x \<Rightarrow> ret (x, False)))"

record attach_request =
  at_file_id :: string
  at_kind :: document_kind
  at_milestone_id :: "string option"
  at_title :: string

definition too_long :: exn where
  "too_long = HTTPException 422 ''string_too_long''"

definition valid_attach :: "attach_request \<Rightarrow> exn + attach_request" where
  "valid_attach body = (if py_len (at_title body) > title_max_chars then Inl too_long else Inr body)"

definition attached :: "attach_request \<Rightarrow> string \<Rightarrow> string \<Rightarrow> file_ref \<Rightarrow> principal \<Rightarrow> instant \<Rightarrow> document" where
  "attached body i txn ref p now =
     \<lparr>doc_tenant_id = [], doc_id = i, doc_transaction_id = txn, doc_milestone_id = at_milestone_id body,
      doc_kind = at_kind body, doc_title = str_or (at_title body) (fr_name ref), doc_file = ref,
      doc_uploaded_by = pr_email p, doc_created_at = now\<rparr>"

definition attach_document ::
    "document_backend \<Rightarrow> files_port \<Rightarrow> transaction_backend \<Rightarrow> principal \<Rightarrow> string \<Rightarrow> attach_request \<Rightarrow>
     document response W" where
  "attach_document docs files store p txn body =
     bindM (liftE (require_role Operator p)) (\<lambda>p.
     bindM (liftE (valid_attach body)) (\<lambda>body.
     thenM (require_transaction store txn)
       (thenM (validate_milestone store txn (at_milestone_id body))
         (bindM (fp_get files (at_file_id body)) (\<lambda>found.
            case found of
              None \<Rightarrow> raise (not_found ''file'' (at_file_id body))
            | Some ref \<Rightarrow>
                bindM require_tenant (\<lambda>tenant.
                bindM (gets w_sha256) (\<lambda>sha.
                bindM now_utc (\<lambda>now.
                bindM (persist docs (attached body (document_id sha tenant txn (at_file_id body)) txn ref p now))
                  (\<lambda>(stored, created). ret (if created then 201 else 200, stored))))))))))"

record upload_request =
  up_name :: string
  up_content_text :: string
  up_folder :: string
  up_kind :: document_kind
  up_milestone_id :: "string option"
  up_title :: string

definition valid_upload :: "upload_request \<Rightarrow> exn + upload_request" where
  "valid_upload body =
     (if py_len (up_name body) > title_max_chars \<or> py_len (up_content_text body) > upload_max_chars \<or>
         py_len (up_title body) > title_max_chars
      then Inl too_long else Inr body)"

definition upload_document ::
    "document_backend \<Rightarrow> files_port \<Rightarrow> transaction_backend \<Rightarrow> principal \<Rightarrow> string \<Rightarrow> upload_request \<Rightarrow> document W" where
  "upload_document docs files store p txn body =
     bindM (liftE (require_role Operator p)) (\<lambda>p.
     bindM (liftE (valid_upload body)) (\<lambda>body.
     bindM (require_transaction store txn) (\<lambda>t.
     thenM (validate_milestone store txn (up_milestone_id body))
       (bindM (fp_put files (up_name body) (up_content_text body) (str_or (up_folder body) (txn_listing_key t))) (\<lambda>ref.
        bindM uuid4_hex (\<lambda>i.
        bindM now_utc (\<lambda>now.
        bindM (persist docs
            \<lparr>doc_tenant_id = [], doc_id = ''DOC-'' @ take 28 i, doc_transaction_id = txn,
             doc_milestone_id = up_milestone_id body, doc_kind = up_kind body,
             doc_title = str_or (up_title body) (fr_name ref), doc_file = ref, doc_uploaded_by = pr_email p,
             doc_created_at = now\<rparr>)
          (\<lambda>(stored, _). ret stored))))))))"

definition list_documents :: "document_backend \<Rightarrow> transaction_backend \<Rightarrow> string \<Rightarrow> document list W" where
  "list_documents docs store txn = thenM (require_transaction store txn) (db_list docs txn)"

section \<open>Demo data\<close>

text \<open>A demo transaction: its row with dates as offsets from today, and its milestones likewise.\<close>

record demo_milestone =
  dmo_id :: string
  dmo_type :: milestone_type
  dmo_title :: string
  dmo_days_out :: int
  dmo_owner :: string
  dmo_blocked_reason :: "string option"
  dmo_expected :: "document_kind option"

definition demo_ms :: "string \<Rightarrow> milestone_type \<Rightarrow> string \<Rightarrow> int \<Rightarrow> string \<Rightarrow> demo_milestone" where
  "demo_ms i ty title days owner =
     \<lparr>dmo_id = i, dmo_type = ty, dmo_title = title, dmo_days_out = days, dmo_owner = owner,
      dmo_blocked_reason = None, dmo_expected = None\<rparr>"

definition demo_milestone_of :: "date \<Rightarrow> string \<Rightarrow> demo_milestone \<Rightarrow> exn + milestone" where
  "demo_milestone_of today txn s =
     (case date_add today (dmo_days_out s) of
        Inl e \<Rightarrow> Inl e
      | Inr due \<Rightarrow> Inr \<lparr>ms_tenant_id = [], ms_id = dmo_id s, ms_transaction_id = txn, ms_type = dmo_type s,
          ms_title = dmo_title s, ms_due_date = due, ms_status = MsPending, ms_owner = dmo_owner s,
          ms_escalation_level = 0, ms_blocked_reason = dmo_blocked_reason s,
          ms_expected_document = dmo_expected s\<rparr>)"

definition demo_party :: "string \<Rightarrow> string \<Rightarrow> string option \<Rightarrow> string \<Rightarrow> transaction_party" where
  "demo_party role name contact email =
     \<lparr>pty_role = role, pty_name = name, pty_contact_id = contact, pty_email = email\<rparr>"

record demo_transaction =
  dmt_id :: string
  dmt_listing_key :: string
  dmt_stage :: transaction_stage
  dmt_parties :: "transaction_party list"
  dmt_contract_ago :: int
  dmt_close_in :: int
  dmt_milestones :: "demo_milestone list"

definition demo_plan :: "demo_transaction list" where
  "demo_plan =
     [\<lparr>dmt_id = ''TXN-1001'', dmt_listing_key = ''RM1004'', dmt_stage = Contingencies,
       dmt_parties = [demo_party ''buyer'' ''Jordan Pike'' (Some ''101'') [],
         demo_party ''listing_agent'' ''Dana Whitfield'' None ''dana.whitfield@example.test''],
       dmt_contract_ago = 10, dmt_close_in = 25,
       dmt_milestones =
         [(demo_ms ''MS-1001-INS'' Inspection ''Home inspection'' (- 2) ''Dana Whitfield'')
            \<lparr>dmo_expected := Some InspectionReport\<rparr>,
          demo_ms ''MS-1001-APP'' Appraisal ''Appraisal'' 10 ''Lender'',
          demo_ms ''MS-1001-FIN'' Financing ''Loan approval'' 15 ''Lender'',
          demo_ms ''MS-1001-CLO'' Closing ''Closing'' 25 ''Escrow'']\<rparr>,
      \<lparr>dmt_id = ''TXN-1002'', dmt_listing_key = ''RM1010'', dmt_stage = UnderContract,
       dmt_parties = [demo_party ''buyer'' ''Casey Romero'' (Some ''102'') [],
         demo_party ''listing_agent'' ''Dana Whitfield'' None ''dana.whitfield@example.test''],
       dmt_contract_ago = 5, dmt_close_in = 30,
       dmt_milestones =
         [(demo_ms ''MS-1002-INS'' Inspection ''Home inspection'' 2 ''Dana Whitfield'')
            \<lparr>dmo_expected := Some InspectionReport\<rparr>,
          demo_ms ''MS-1002-APP'' Appraisal ''Appraisal'' 12 ''Lender'',
          demo_ms ''MS-1002-CLO'' Closing ''Closing'' 30 ''Escrow'']\<rparr>,
      \<lparr>dmt_id = ''TXN-1003'', dmt_listing_key = ''RM1002'', dmt_stage = ClearToClose,
       dmt_parties = [demo_party ''buyer'' ''Alex Yuen'' (Some ''103'') [],
         demo_party ''listing_agent'' ''Marcus Bell'' None ''marcus.bell@example.test''],
       dmt_contract_ago = 20, dmt_close_in = 12,
       dmt_milestones =
         [(demo_ms ''MS-1003-FIN'' Financing ''Final loan docs'' 12 ''Lender'')
            \<lparr>dmo_blocked_reason := Some ''Awaiting lender underwriting update'',
             dmo_expected := Some LoanApproval\<rparr>,
          demo_ms ''MS-1003-CLO'' Closing ''Closing'' 12 ''Escrow'']\<rparr>]"

definition demo_transaction_of :: "date \<Rightarrow> demo_transaction \<Rightarrow> exn + transaction \<times> milestone list" where
  "demo_transaction_of today s =
     (case (date_add today (- dmt_contract_ago s), date_add today (dmt_close_in s),
            mapE (demo_milestone_of today (dmt_id s)) (dmt_milestones s)) of
        (Inr contract, Inr close, Inr mss) \<Rightarrow>
          Inr (\<lparr>txn_tenant_id = [], txn_id = dmt_id s, txn_listing_key = dmt_listing_key s,
                txn_stage = dmt_stage s, txn_parties = dmt_parties s, txn_contract_date = contract,
                txn_close_date = Some close\<rparr>, mss)
      | _ \<Rightarrow> Inl OverflowError)"

definition demo_transactions :: "date \<Rightarrow> exn + (transaction \<times> milestone list) list" where
  "demo_transactions today = mapE (demo_transaction_of today) demo_plan"

record seed_result =
  sd_seeded :: bool
  sd_transactions :: nat
  sd_milestones :: nat

definition seed_demo_data :: "transaction_backend \<Rightarrow> bool \<Rightarrow> seed_result W" where
  "seed_demo_data admin reset =
     bindM (tb_count admin) (\<lambda>existing.
       if existing \<noteq> 0 \<and> \<not> reset
       then ret \<lparr>sd_seeded = False, sd_transactions = existing, sd_milestones = 0\<rparr>
       else thenM (if reset then tb_clear admin else ret ())
         (bindM date_today (\<lambda>today.
          bindM (liftE (demo_transactions today)) (\<lambda>seeded.
          thenM (mapM (\<lambda>(t, mss). tb_create admin t mss) seeded)
            (ret \<lparr>sd_seeded = True, sd_transactions = length seeded,
                  sd_milestones = sum_list (map (length \<circ> snd) seeded)\<rparr>)))))"

text \<open>On any ordinary day the three transactions exist, and one inspection is overdue.\<close>

lemma demo_transactions_exist:
  assumes "date_min + 20 \<le> today" and "today + 30 \<le> date_max"
  obtains seeded where "demo_transactions today = Inr seeded" and "length seeded = 3"
  using assms
  by (auto simp: demo_transactions_def demo_plan_def demo_transaction_of_def demo_milestone_of_def date_add_def
      demo_ms_def)

end
