(* ===== verification/Operator_Routes.thy ===== *)
theory Operator_Routes
  imports Document_Routes
begin

text \<open>
  The remaining routers: calls and feedback (\<open>api/.../routes/calls.py\<close>), contacts, listings, the start
  of the listing workflow, the audit trail with its two stores (\<open>SqlAuditLog\<close>, \<open>InMemoryAuditLog\<close> of
  \<open>db.py\<close>), and the middleware that binds the deploy's tenant around a request. These routes use the
  vendor adapters directly, outside the write seam.
\<close>

section \<open>Calls\<close>

record call_request =
  ob_listing_key :: string
  ob_contact_id :: string
  ob_scenario :: "string option"

definition call_context :: "call_request \<Rightarrow> contact \<Rightarrow> pydict" where
  "call_context body c =
     [(''listing_key'', PStr (ob_listing_key body))] @
     (case ct_phone c of None \<Rightarrow> [] | Some x \<Rightarrow> if x = [] then [] else [(''phone'', PStr x)]) @
     (case ob_scenario body of None \<Rightarrow> [] | Some x \<Rightarrow> if x = [] then [] else [(''scenario'', PStr x)])"

text \<open>The result is the call's id; its status is always \<open>queued\<close>.\<close>

definition start_outbound_call ::
    "env \<Rightarrow> voice_port \<Rightarrow> crm_port \<Rightarrow> principal \<Rightarrow> call_request \<Rightarrow> (string \<times> string) W" where
  "start_outbound_call env voice crm p body =
     bindM (liftE (require_role Operator p)) (\<lambda>_.
     bindM (cp_get_contact crm (ob_contact_id body)) (\<lambda>found.
       case found of
         None \<Rightarrow> raise (not_found ''contact'' (ob_contact_id body))
       | Some c \<Rightarrow>
           bindM (vp_start voice (ob_contact_id body) (env_get env ''VAPI_ASSISTANT_ID'' ''demo-assistant'')
                    (call_context body c))
             (\<lambda>call_id. ret (call_id, ''queued''))))"

definition get_call_record :: "feedback_backend \<Rightarrow> principal \<Rightarrow> string \<Rightarrow> payload W" where
  "get_call_record store p i =
     bindM (fbk_get_call store i) (\<lambda>found.
       case found of
         None \<Rightarrow> raise (HTTPException 404 (''call '' @ py_repr i @ '' not recorded''))
       | Some c \<Rightarrow> ret (role_scrubber p (call_payload 0 c)))"

definition list_feedback :: "feedback_backend \<Rightarrow> string \<Rightarrow> showing_feedback list W" where
  "list_feedback store key = fbk_list store key"

section \<open>Contacts and listings\<close>

definition search_contacts :: "crm_port \<Rightarrow> principal \<Rightarrow> string \<Rightarrow> int \<Rightarrow> payload W" where
  "search_contacts crm p q limit =
     bindM (cp_search crm q limit) (\<lambda>cs. ret (role_scrubber p (list_payload contact_payload one_object 0 cs)))"

definition get_contact :: "crm_port \<Rightarrow> principal \<Rightarrow> string \<Rightarrow> payload W" where
  "get_contact crm p i =
     bindM (cp_get_contact crm i) (\<lambda>found.
       case found of
         None \<Rightarrow> raise (not_found ''contact'' i)
       | Some c \<Rightarrow> ret (role_scrubber p (contact_payload 0 c)))"

definition search_listings :: "mls_port \<Rightarrow> listing_query \<Rightarrow> listing list W" where
  "search_listings mls q = listing_search mls q"

definition get_listing :: "mls_port \<Rightarrow> string \<Rightarrow> listing W" where
  "get_listing mls key =
     bindM (get_with_media mls key) (\<lambda>found.
       case found of None \<Rightarrow> raise (not_found ''listing'' key) | Some l \<Rightarrow> ret l)"

section \<open>Starting the listing workflow\<close>

definition start_listing_to_contract ::
    "(run_state \<Rightarrow> string option \<Rightarrow> run_result W) \<Rightarrow> principal \<Rightarrow> string \<Rightarrow> run_result W" where
  "start_listing_to_contract start p key =
     bindM (liftE (require_role Operator p)) (\<lambda>p.
       start (ListingRun (listing_input key)) (Some (pr_email p)))"

section \<open>The audit trail\<close>

text \<open>Newest first; a stable sort keeps the order of entries of one instant.\<close>

record audit_backend =
  al_list :: "string option \<Rightarrow> nat \<Rightarrow> mutation_record list W"
  al_list_for_transaction :: "string \<Rightarrow> nat \<Rightarrow> mutation_record list W"

definition newest_mutations :: "mutation_record list \<Rightarrow> mutation_record list" where
  "newest_mutations rs = sort_key (\<lambda>r. - mut_created_at r) rs"

definition mem_list_mutations :: "string option \<Rightarrow> nat \<Rightarrow> mutation_record list W" where
  "mem_list_mutations run limit = gets (\<lambda>w.
     let items = newest_mutations (w_ledger w)
     in take limit (case run of None \<Rightarrow> items | Some r \<Rightarrow> filter (\<lambda>x. mut_workflow_run_id x = r) items))"

definition mem_list_for_transaction :: "string \<Rightarrow> nat \<Rightarrow> mutation_record list W" where
  "mem_list_for_transaction txn limit = gets (\<lambda>w.
     take limit (filter (\<lambda>x. mut_transaction_id x = txn) (newest_mutations (w_ledger w))))"

text \<open>\<open>WHERE\<close>, then \<open>ORDER BY created_at DESC\<close>, then \<open>LIMIT\<close>.\<close>

definition sql_list_mutations :: "string option \<Rightarrow> nat \<Rightarrow> mutation_record list W" where
  "sql_list_mutations run limit = gets (\<lambda>w.
     take limit (newest_mutations
       (case run of None \<Rightarrow> w_ledger w | Some r \<Rightarrow> filter (\<lambda>x. mut_workflow_run_id x = r) (w_ledger w))))"

definition sql_list_for_transaction :: "string \<Rightarrow> nat \<Rightarrow> mutation_record list W" where
  "sql_list_for_transaction txn limit = gets (\<lambda>w.
     take limit (newest_mutations (filter (\<lambda>x. mut_transaction_id x = txn) (w_ledger w))))"

definition mem_audit :: audit_backend where
  "mem_audit = \<lparr>al_list = mem_list_mutations, al_list_for_transaction = mem_list_for_transaction\<rparr>"

definition sql_audit :: audit_backend where
  "sql_audit = \<lparr>al_list = sql_list_mutations, al_list_for_transaction = sql_list_for_transaction\<rparr>"

fun mutation_outcome_value :: "mutation_outcome \<Rightarrow> string" where
  "mutation_outcome_value Success = ''success''"
| "mutation_outcome_value Failure = ''failure''"

definition mutation_payload :: "nat \<Rightarrow> mutation_record \<Rightarrow> payload" where
  "mutation_payload n r = VModel n
     [(''id'', None, VStr (mut_id r)), (''workflow_run_id'', None, VStr (mut_workflow_run_id r)),
      (''workflow'', None, VStr (mut_workflow r)), (''transaction_id'', None, VStr (mut_transaction_id r)),
      (''tool'', None, VStr (mut_tool r)), (''integration'', None, VStr (mut_integration r)),
      (''args'', Some Operator, (case mut_args r of None \<Rightarrow> VNone | Some d \<Rightarrow> dict_payload (Suc n) d)),
      (''approval_id'', None, opt_payload (mut_approval_id r)), (''actor'', None, opt_payload (mut_actor r)),
      (''outcome'', None, VAtom (PStr (mutation_outcome_value (mut_outcome r)))),
      (''external_id'', None, opt_payload (mut_external_id r)),
      (''error'', Some Operator, opt_payload (mut_error r)),
      (''created_at'', None, VAtom (PInt (mut_created_at r)))]"

definition mutation_size :: "mutation_record \<Rightarrow> nat" where
  "mutation_size r = (case mut_args r of None \<Rightarrow> 1 | Some d \<Rightarrow> snd (pyv_payload 1 (PDict d)))"

definition list_mutations ::
    "audit_backend \<Rightarrow> principal \<Rightarrow> string option \<Rightarrow> string option \<Rightarrow> int \<Rightarrow> payload W" where
  "list_mutations log p run txn limit =
     bindM (liftE (checked_limit limit)) (\<lambda>n.
     bindM (case txn of Some t \<Rightarrow> al_list_for_transaction log t n | None \<Rightarrow> al_list log run n) (\<lambda>records.
       ret (role_scrubber p (list_payload mutation_payload mutation_size 0 records))))"

section \<open>The tenant of a request\<close>

definition tenant_middleware :: "env \<Rightarrow> 'a W \<Rightarrow> 'a W" where
  "tenant_middleware env app = tenant_scope (deploy_tenant env) app"

section \<open>Lemmas\<close>

text \<open>Filtering and sorting commute, so the two ledgers answer the same.\<close>

lemma newest_filter: "filter P (newest_mutations rs) = newest_mutations (filter P rs)"
  by (simp add: newest_mutations_def filter_sort)

lemma audit_agree: "al_list sql_audit run n = al_list mem_audit run n"
  "al_list_for_transaction sql_audit txn n = al_list_for_transaction mem_audit txn n"
  by (auto simp: sql_audit_def mem_audit_def sql_list_mutations_def mem_list_mutations_def
      sql_list_for_transaction_def mem_list_for_transaction_def newest_filter Let_def split: option.split)

end
