(* ===== verification/Route_Reads.thy ===== *)
theory Route_Reads
  imports Operator_Routes Message_Route_Properties Gate_Properties
begin

text \<open>
  The viewer-open reads together: what each of them returns is filtered to the caller's role, because
  the values the routes build are trees for the filter (no object inside itself).
\<close>

section \<open>Payloads are trees\<close>

definition treelike :: "(nat \<Rightarrow> 'a \<Rightarrow> payload) \<Rightarrow> bool" where
  "treelike enc \<longleftrightarrow> (\<forall>x n st. (\<forall>j \<in> set st. j < n) \<longrightarrow> acyclic_below st (enc n x))"

lemma treelikeD: "treelike enc \<Longrightarrow> \<forall>j \<in> set st. j < n \<Longrightarrow> n < m \<Longrightarrow> acyclic_below (n # st) (enc m x)"
  unfolding treelike_def by (metis dual_order.strict_trans set_ConsD)

lemma treelike_rows:
  "treelike enc \<Longrightarrow> \<forall>j \<in> set st. j < n \<Longrightarrow> acyclic_items st (rows_payload enc width n xs)"
proof (induction xs arbitrary: n)
  case Nil
  then show ?case by simp
next
  case (Cons x xs)
  from Cons.prems(2) have k: "\<forall>j \<in> set st. j < n + width x" by auto
  from Cons.prems have "acyclic_below st (enc n x)" by (simp add: treelike_def)
  with Cons.IH [OF Cons.prems(1) k] show ?case by simp
qed

lemma treelike_list: "treelike enc \<Longrightarrow> treelike (list_payload enc width)"
  using treelike_rows [of enc "_ # _" "Suc _" width]
  by (auto simp: treelike_def [of "list_payload enc width"] list_payload_def not_ancestor less_SucI)

lemma acyclic_leaves [simp]:
  "acyclic_below st (opt_payload x)" "acyclic_below st (json_date t)" "acyclic_below st (int_payload i)"
  "acyclic_below st (bool_payload b)" "acyclic_below st (date_payload d)"
  by (simp_all add: opt_payload_def json_date_def int_payload_def bool_payload_def date_payload_def
      split: option.split)

lemma acyclic_pyv:
  "\<forall>j \<in> set st. j < n \<Longrightarrow> acyclic_below st (fst (pyv_payload n v))"
  "\<forall>j \<in> set st. j < n \<Longrightarrow> acyclic_items st (fst (list_items n vs))"
  "\<forall>j \<in> set st. j < n \<Longrightarrow> acyclic_entries st (fst (dict_items n es))"
proof (induction n v and n vs and n es arbitrary: st and st and st
    rule: pyv_payload_list_items_dict_items.induct)
  case (5 n vs)
  have "\<forall>j \<in> set (n # st). j < Suc n" using 5(2) by auto
  with 5(1) [OF this] 5(2) show ?case by (auto simp: Let_def)
next
  case (6 n es)
  have "\<forall>j \<in> set (n # st). j < Suc n" using 6(2) by auto
  with 6(1) [OF this] 6(2) show ?case by (auto simp: Let_def)
next
  case (8 n v vs)
  have "\<forall>j \<in> set st. j < snd (pyv_payload n v)" using 8(3) pyv_next(1) [of n v] by fastforce
  from 8(1) [OF 8(3)] 8(2) [OF refl this] show ?case by (simp add: Let_def)
next
  case (10 n key v es)
  have "\<forall>j \<in> set st. j < snd (pyv_payload n v)" using 10(3) pyv_next(1) [of n v] by fastforce
  from 10(1) [OF 10(3)] 10(2) [OF refl this] show ?case by (simp add: Let_def)
qed simp_all

lemma acyclic_dict [simp]: "\<forall>j \<in> set st. j < n \<Longrightarrow> n < m \<Longrightarrow> acyclic_below (n # st) (dict_payload m d)"
  unfolding dict_payload_def by (rule acyclic_pyv) auto

lemma treelike_rows_of:
  "treelike contact_payload" "treelike party_payload" "treelike milestone_payload" "treelike call_payload"
  "treelike approval_payload" "treelike message_payload" "treelike mutation_payload"
  "treelike deadline_row_payload" "treelike file_payload"
  by (simp_all add: treelike_def contact_payload_def party_payload_def milestone_payload_def call_payload_def
      approval_payload_def message_payload_def mutation_payload_def deadline_row_payload_def file_payload_def
      not_ancestor Let_def split: option.split)

lemma treelike_transaction: "treelike transaction_payload"
  unfolding treelike_def transaction_payload_def
  by (auto simp: not_ancestor intro: treelikeD [OF treelike_list [OF treelike_rows_of(2)]])

lemma treelike_view: "treelike view_payload"
  by (simp add: treelike_def view_payload_def milestone_payload_def not_ancestor split: option.split)

lemma treelike_document: "treelike document_payload"
  unfolding treelike_def document_payload_def
  by (auto simp: not_ancestor intro: treelikeD [OF treelike_rows_of(9)])

lemma treelike_detail: "treelike detail_payload"
  unfolding treelike_def detail_payload_def Let_def
  by (auto simp: not_ancestor intro: treelikeD [OF treelike_transaction]
      treelikeD [OF treelike_list [OF treelike_view]] treelikeD [OF treelike_list [OF treelike_document]])

lemma treelike_search: "treelike search_row_payload"
  unfolding treelike_def search_row_payload_def
  by (auto simp: not_ancestor intro: treelikeD [OF treelike_transaction])

lemma scrubber_entitled: "treelike enc \<Longrightarrow> entitled (pr_role p) (role_scrubber p (enc n x))"
  unfolding role_scrubber_def by (rule scrub_entitled) (simp add: treelike_def)

lemmas row_entitled = treelike_rows_of [THEN scrubber_entitled] treelike_detail [THEN scrubber_entitled]

lemmas rows_entitled = treelike_rows_of [THEN treelike_list, THEN scrubber_entitled]
  treelike_detail [THEN treelike_list, THEN scrubber_entitled]
  treelike_search [THEN treelike_list, THEN scrubber_entitled]

section \<open>The reads\<close>

datatype read_request =
    ReadApprovals "approval_status option" "string option"
  | ReadApproval string
  | ReadMessages "string option" "string option" int
  | ReadMessage string
  | ReadTransactions
  | ReadTransaction string
  | ReadDeadlines
  | SearchTransactions string
  | ReadCall string
  | SearchContacts string int
  | ReadContact string
  | ReadMutations "string option" "string option" int

text \<open>Each route over the ports \<open>main.py\<close> hands it.\<close>

fun run_read :: "deployment \<Rightarrow> audit_backend \<Rightarrow> principal \<Rightarrow> read_request \<Rightarrow> payload W" where
  "run_read d log p (ReadApprovals status txn) = list_approvals (approval_repo d) p status txn"
| "run_read d log p (ReadApproval i) = get_approval (approval_repo d) p i"
| "run_read d log p (ReadMessages contact txn limit) =
     list_messages (scoped_messages (sb_messages (dp_stores d))) p contact txn limit"
| "run_read d log p (ReadMessage i) = get_message (scoped_messages (sb_messages (dp_stores d))) p i"
| "run_read d log p ReadTransactions = list_transactions (transaction_port d) (document_port d) p"
| "run_read d log p (ReadTransaction i) = get_transaction_detail (transaction_port d) (document_port d) p i"
| "run_read d log p ReadDeadlines = deadline_queue (transaction_port d) p"
| "run_read d log p (SearchTransactions q) = search_transactions (transaction_port d) raw_mls p q"
| "run_read d log p (ReadCall i) = get_call_record (feedback_port d) p i"
| "run_read d log p (SearchContacts q limit) = search_contacts raw_crm p q limit"
| "run_read d log p (ReadContact i) = get_contact raw_crm p i"
| "run_read d log p (ReadMutations run txn limit) = list_mutations log p run txn limit"

text \<open>
  C18: Whatever a viewer-open route returns, the caller's role may see it: in the approvals inbox, the
  message history, the transaction board, hub, deadlines and search, the call record, the contacts and
  the audit trail, every field marked above the caller's role holds nothing or the redaction marker,
  and so does every value under a name that looks secret. This holds for every deployment, state and
  request, whatever the stores and providers answered.
\<close>

theorem reads_entitled:
  assumes "run_read d log p q w = (Inr v, w')"
  shows "entitled (pr_role p) v"
  using assms
  by (cases q)
    (auto simp: list_approvals_def approvals_payload_def get_approval_def list_messages_def messages_payload_def
      get_message_def list_transactions_def get_transaction_detail_def deadline_queue_def
      search_transactions_def get_call_record_def search_contacts_def get_contact_def list_mutations_def
      row_entitled rows_entitled elim!: bindM_InrE split: option.splits)

definition sample_viewer :: principal where
  "sample_viewer = \<lparr>pr_subject = ''v'', pr_email = ''v@x'', pr_name = [], pr_verified = True, pr_role = Viewer\<rparr>"

theorem reads_entitled_witness:
  "\<exists>v. fst (run_read sample_deployment mem_audit sample_viewer (ReadMessage ''m1'') sent_world) = Inr v \<and>
     entitled Viewer v"
proof -
  have own: "foreign_owner msg_tenant_id ''acme'' (dict_get (w_messages sent_world) ''m1'') = None"
    by (simp add: sent_world_def foreign_owner_def is_foreign_def dict_get_def)
  have "\<exists>v. run_read sample_deployment mem_audit sample_viewer (ReadMessage ''m1'') sent_world = (Inr v, sent_world)"
    using mem_msg.scoped_get_run [OF sent_world_ok, of "''m1''"] own
    by (simp add: sample_deployment_def mem_stores_def get_message_def scoped_messages_def bindM_apply)
      (simp add: sent_world_def dict_get_def)
  then obtain v where v:
    "run_read sample_deployment mem_audit sample_viewer (ReadMessage ''m1'') sent_world = (Inr v, sent_world)" ..
  from reads_entitled [OF v] v show ?thesis by (simp add: sample_viewer_def)
qed

end
