(* ===== verification/Send_Once.thy ===== *)
theory Send_Once
  imports Message_Route_Properties Gate_Properties
begin

text \<open>
  One request id, one delivery: over any sequence of requests to \<open>POST /messages/send\<close> that carry the
  same request id, a content reaches its provider at most once.
\<close>

section \<open>Counting deliveries\<close>

fun delivers :: "message_channel \<Rightarrow> pydict \<Rightarrow> ext_req \<Rightarrow> bool" where
  "delivers ch content (EmailSend m) = (ch = Email \<and> semantic_send_args m = content)"
| "delivers ch content (SmsSend m) = (ch = Sms \<and> semantic_send_args m = content)"
| "delivers ch content _ = False"

definition deliveries :: "message_channel \<Rightarrow> pydict \<Rightarrow> ext_req list \<Rightarrow> nat" where
  "deliveries ch content qs = length (filter (delivers ch content) qs)"

definition send_key :: "(string \<Rightarrow> string) \<Rightarrow> string \<Rightarrow> message_channel \<Rightarrow> pydict \<Rightarrow> string" where
  "send_key sha run ch content = idempotency_key sha run (send_tool ch) content"

lemma deliveries_performed: "deliveries ch content qs \<le> performed sha run (send_key sha run ch content) qs"
proof -
  have "delivers ch content q \<Longrightarrow> request_key sha run q = Some (send_key sha run ch content)" for q
    by (cases q) (auto simp: request_key_def write_key_def send_key_def)
  then show ?thesis
    unfolding deliveries_def performed_def by (intro filter_length_mono) auto
qed

section \<open>The tally\<close>

definition send_tally :: "string \<Rightarrow> world \<Rightarrow> world \<Rightarrow> bool" where
  "send_tally run w0 w \<longleftrightarrow>
     idem_rows_ok w \<and> w_sha256 w = w_sha256 w0 \<and>
     (\<exists>new. w_sent w = w_sent w0 @ new \<and>
        (\<forall>k. performed (w_sha256 w0) run k new \<le> (if dict_get (w_idem w) k = None then 0 else 1)))"

definition in_run_tally :: "string \<Rightarrow> world \<Rightarrow> world \<Rightarrow> bool" where
  "in_run_tally run w0 w \<longleftrightarrow> send_tally run w0 w \<and> run_id_of (w_audit w) = Some run"

interpretation tally: ledgers "in_run_tally run w0" for run w0
  by unfold_locales (simp_all add: in_run_tally_def send_tally_def idem_rows_ok_def)

lemma tally_seam:
  assumes ib: "idempotency_store ib"
  shows "keeps (in_run_tally run w0) (run_write (seam_ports ib vendor) op)"
proof (rule keepsI)
  fix w
  assume I: "in_run_tally run w0 w"
  obtain r w' where step: "run_write (seam_ports ib vendor) op w = (r, w')" by fastforce
  from I have ok: "idem_rows_ok w" and run: "run_id_of (w_audit w) = Some run"
    by (auto simp: in_run_tally_def send_tally_def)
  from idempotency_store.seam_step(1) [OF ib run_inv_refl [OF ok run] step]
  obtain new' where w': "idem_rows_ok w'" "run_id_of (w_audit w') = Some run" "w_sha256 w' = w_sha256 w"
      "\<And>k row. dict_get (w_idem w) k = Some row \<Longrightarrow> dict_get (w_idem w') k = Some row"
      "w_sent w' = w_sent w @ new'"
      "\<And>k. performed (w_sha256 w) run k new' \<le> (if dict_get (w_idem w) k = None \<and> dict_get (w_idem w') k \<noteq> None then 1 else 0)"
    unfolding run_inv_def by blast
  from I obtain new where new: "w_sha256 w = w_sha256 w0" "w_sent w = w_sent w0 @ new"
      "\<And>k. performed (w_sha256 w0) run k new \<le> (if dict_get (w_idem w) k = None then 0 else 1)"
    unfolding in_run_tally_def send_tally_def by blast
  have "performed (w_sha256 w0) run k (new @ new') \<le> (if dict_get (w_idem w') k = None then 0 else 1)" for k
    using new(1) new(3) [of k] w'(6) [of k] w'(4) [of k]
    by (cases "dict_get (w_idem w) k") (auto simp: performed_def split: if_splits)
  with w' new show "in_run_tally run w0 (snd (run_write (seam_ports ib vendor) op w))"
    unfolding step in_run_tally_def send_tally_def by auto
qed

lemma deployment_store: "is_deployment d \<Longrightarrow> idempotency_store (dp_idempotency d)"
  using mem_ib.idempotency_store_axioms sql_ib.idempotency_store_axioms by (auto simp: is_deployment_def)

lemma keeps_wrapped: "keeps I (bindM m (\<lambda>x. ret (f x))) \<Longrightarrow> keeps I m"
proof -
  have "snd (bindM m (\<lambda>x. ret (f x)) w) = snd (m w)" for w
    by (cases "m w"; cases "fst (m w)") (auto simp: monad)
  then show "keeps I (bindM m (\<lambda>x. ret (f x))) \<Longrightarrow> keeps I m" by (simp add: keeps_def)
qed

lemma tally_port:
  assumes "is_deployment d"
  shows "keeps (in_run_tally run w0) (sp_send (seam_email (dp_idempotency d)) m)"
    and "keeps (in_run_tally run w0) (sp_send (seam_sms (dp_idempotency d)) m)"
proof -
  note seam = tally_seam [OF deployment_store [OF assms], of run w0]
  have "keeps (in_run_tally run w0) (sp_send (pt_email (seam_ports (dp_idempotency d) [])) m)"
    by (rule keeps_wrapped) (use seam [of "[]" "WSendEmail m"] in \<open>simp only: run_write.simps\<close>)
  then show "keeps (in_run_tally run w0) (sp_send (seam_email (dp_idempotency d)) m)"
    by (auto simp: seam_email_def guarded_send_def seam_ports_def idempotent_ports_def recording_ports_def
        raw_ports_def intro!: keeps_rules tally.keeps_guarded_call split: payload.split)
  have "keeps (in_run_tally run w0) (sp_send (pt_sms (seam_ports (dp_idempotency d) [])) m)"
    by (rule keeps_wrapped) (use seam [of "[]" "WSendSms m"] in \<open>simp only: run_write.simps\<close>)
  then show "keeps (in_run_tally run w0) (sp_send (seam_sms (dp_idempotency d)) m)"
    by (auto simp: seam_sms_def guarded_send_def seam_ports_def idempotent_ports_def recording_ports_def
        raw_ports_def intro!: keeps_rules tally.keeps_guarded_call split: payload.split)
qed

lemma tally_deliver:
  assumes "is_deployment d" and "\<And>m. keeps (in_run_tally run w0) (sp_send port m)"
  shows "keeps (in_run_tally run w0) (deliver (message_service d) port m)"
  using assms(2) tally.keeps_service_store [OF assms(1)]
  unfolding deliver_def Let_def
  by (auto intro!: keeps_rules tally.keeps_sources split: option.split)

lemma tally_core:
  assumes "is_deployment d" and "\<And>m. keeps (in_run_tally run w0) (sp_send port m)"
  shows "keeps (in_run_tally run w0) (send_core (message_service d) port ch recipient ref params c l t)"
  using tally_deliver [OF assms] tally.keeps_service_store [OF assms(1)]
  unfolding send_core_def Let_def message_id_def
  by (auto intro!: keeps_rules tally.keeps_sources tally.keeps_context split: option.split)

lemma tally_service_send:
  assumes d: "is_deployment d"
  shows "keeps (in_run_tally run w0) (service_send (message_service d) rq)"
proof -
  have ports: "sv_email (message_service d) = seam_email (dp_idempotency d)"
    "port_for (message_service d) Sms = ret (seam_sms (dp_idempotency d))"
    by (simp_all add: message_service_def wired_service_def port_for_def)
  show ?thesis
    unfolding service_send_def send_email_def send_sms_def ports bindM_ret
    by (auto intro!: tally_core [OF d] tally_port [OF d])
qed

lemma tally_audit [simp]: "send_tally run w0 (w\<lparr>w_audit := a\<rparr>) = send_tally run w0 w"
  by (simp add: send_tally_def idem_rows_ok_def)

lemma tally_request:
  assumes d: "is_deployment d" and run: "rq_request_id rq = run" "run \<noteq> []" and I: "send_tally run w0 w"
  shows "send_tally run w0 (snd (send_message (message_service d) p rq w))"
proof -
  let ?body = "try_except is_exception (service_send (message_service d) rq) (\<lambda>e. raise (send_response e))"
  have k: "keeps (in_run_tally run w0) ?body"
    by (intro keeps_rules tally_service_send [OF d])
  have "in_run_tally run w0 (w\<lparr>w_audit := Some (send_scope rq p run)\<rparr>)"
    using I run(2) by (simp add: in_run_tally_def send_scope_def run_id_of_def)
  with k have "in_run_tally run w0 (snd (?body (w\<lparr>w_audit := Some (send_scope rq p run)\<rparr>)))"
    by (simp add: keeps_def)
  then have "send_tally run w0 (snd (audit_scope (send_scope rq p run) ?body w))"
    by (auto simp: audit_scope_def in_run_tally_def split: prod.split)
  with I run show ?thesis
    by (auto simp: send_message_def monad require_role_def valid_send_request_def)
qed

section \<open>Sequences of requests\<close>

fun run_requests :: "send_service \<Rightarrow> (principal \<times> send_request) list \<Rightarrow> world \<Rightarrow> world" where
  "run_requests svc [] w = w"
| "run_requests svc ((p, rq) # xs) w = run_requests svc xs (snd (send_message svc p rq w))"

lemma tally_requests:
  assumes "is_deployment d" and "run \<noteq> []"
  shows "\<forall>(p, rq) \<in> set xs. rq_request_id rq = run \<Longrightarrow> send_tally run w0 w \<Longrightarrow>
    send_tally run w0 (run_requests (message_service d) xs w)"
proof (induction xs arbitrary: w)
  case (Cons x xs)
  obtain p rq where x: "x = (p, rq)" by (cases x)
  with Cons.prems tally_request [OF assms(1) _ assms(2), of rq w0 w p] Cons.IH show ?case by auto
qed simp

text \<open>
  C6: A request id sends once. However often, and by whomever, requests with the same non-empty request
  id are posted, whatever they ask for and whatever the providers answer (errors and cancellations
  included): a given content leaves through the email provider at most once and through the SMS
  provider at most once.
\<close>

theorem request_sends_once:
  assumes "is_deployment d" and "idem_rows_ok w" and "run \<noteq> []"
    and "\<forall>(p, rq) \<in> set xs. rq_request_id rq = run"
  shows "\<exists>new. w_sent (run_requests (message_service d) xs w) = w_sent w @ new \<and>
    (\<forall>ch content. deliveries ch content new \<le> 1)"
proof -
  have "send_tally run w w" using assms(2) by (simp add: send_tally_def performed_def)
  from tally_requests [OF assms(1,3,4) this] obtain new where
    sent: "w_sent (run_requests (message_service d) xs w) = w_sent w @ new"
    and le: "\<And>k. performed (w_sha256 w) run k new \<le>
      (if dict_get (w_idem (run_requests (message_service d) xs w)) k = None then 0 else 1)"
    unfolding send_tally_def by blast
  have "performed (w_sha256 w) run k new \<le> 1" for k
    using le [of k] by (simp split: if_splits)
  then have "deliveries ch content new \<le> 1" for ch content
    using deliveries_performed by (rule order_trans [rotated])
  with sent show ?thesis by blast
qed

definition sample_operator :: principal where
  "sample_operator = \<lparr>pr_subject = ''o'', pr_email = ''o@x'', pr_name = [], pr_verified = True, pr_role = Operator\<rparr>"

definition sample_send :: send_request where
  "sample_send = \<lparr>rq_channel = Email, rq_recipient = ''a@x'', rq_template = ''showing_followup:v1'', 
     rq_params = [(''recipient_name'', ''Ann''), (''listing_address'', ''1 Elm St''), (''sender_name'', ''Bo'')],
     rq_contact_id = [], rq_listing_key = [], rq_transaction_id = [], rq_request_id = ''r1''\<rparr>"

theorem request_sends_once_witness:
  "\<exists>new. w_sent (run_requests (message_service sample_deployment)
        [(sample_operator, sample_send), (sample_operator, sample_send)] blank_world) = new \<and>
     (\<forall>content. deliveries Email content new \<le> 1)"
proof -
  have "idem_rows_ok blank_world" by (simp add: idem_rows_ok_def blank_world_def)
  from request_sends_once [OF sample_is_deployment this, of "''r1''"
      "[(sample_operator, sample_send), (sample_operator, sample_send)]"]
  show ?thesis by (simp add: sample_send_def blank_world_def)
qed

end
