(* ===== verification/Transaction_Route_Properties.thy ===== *)
theory Transaction_Route_Properties
  imports Document_Routes Gate_Properties
begin

text \<open>
  What the transaction routes promise: a listing is opened once, whoever opens it again and with
  whatever terms.
\<close>

section \<open>A guarded call that goes through\<close>

lemma guarded_run:
  assumes t: "w_tenant w = Some t" and args: "first_foreign t (arg_tenants args) = None"
    and body: "body w = (Inr x, w1)" and t1: "w_tenant w1 = Some t"
    and own: "\<forall>a \<in> set (tenants ''result'' (enc x)). \<not> is_foreign a t"
  shows "guarded tool args enc scrub body w = (Inr (scrub x), w1)"
proof -
  obtain rs where "authorize_args tool args w = (Inr rs, w)"
    using authorize_args_run [OF t, of tool args] args by auto
  moreover have "check_tenants tool as_egress_block (tenants ''result'' (enc x)) w1 =
      (Inr (replicate (length (tenants ''result'' (enc x))) t), w1)"
    using own first_foreign_None [of t "tenants ''result'' (enc x)"] by (simp add: check_tenants_run [OF t1])
  ultimately show ?thesis using body by (simp add: guarded_def monad)
qed

lemma plain_id_arg [simp]:
  "arg_tenants [(''transaction_id'', VStr i)] = []" "arg_tenants [(''milestone_id'', VStr i)] = []"
  "arg_tenants [] = []"
  by (simp_all add: arg_tenants_def tenants_def is_tenant_param_name_def tenant_field_def endswith_def)

lemma no_foreign [simp]: "first_foreign t [] = None"
  by (simp add: first_foreign_def)

section \<open>The tenants a payload names\<close>

text \<open>A list names no tenant but those of its rows.\<close>

lemma rows_tenants:
  assumes "\<And>n x seen. x \<in> set xs \<Longrightarrow> set (fst (tenant_values param within seen (enc n x))) \<subseteq> T"
  shows "set (fst (tenant_of_items param within seen (rows_payload enc width n xs))) \<subseteq> T"
  using assms
proof (induction xs arbitrary: n seen)
  case Nil
  then show ?case by simp
next
  case (Cons x xs)
  obtain f s1 where f: "tenant_values param within seen (enc n x) = (f, s1)" by fastforce
  obtain r s2 where r: "tenant_of_items param within s1 (rows_payload enc width (n + width x) xs) = (r, s2)"
    by fastforce
  from Cons.prems [of x seen n] f Cons.IH [of s1 "n + width x"] Cons.prems r show ?case by simp
qed

lemma party_tenants: "fst (tenant_values param within seen (party_payload n p)) = []"
  by (simp add: party_payload_def tenant_field_def opt_payload_def Let_def split: option.split)

lemma milestone_tenants: "set (fst (tenant_values param within seen (milestone_payload n m))) \<subseteq> {ms_tenant_id m}"
  by (simp add: milestone_payload_def tenant_field_def opt_payload_def Let_def split: option.split)

lemma transaction_tenants:
  "set (fst (tenant_values param within seen (transaction_payload n x))) \<subseteq> {txn_tenant_id x}"
proof -
  have "fst (tenant_of_items ''parties'' True (Suc n # n # seen)
      (rows_payload party_payload one_object (Suc (Suc n)) (txn_parties x))) = []"
    using rows_tenants [of "txn_parties x" "''parties''" True party_payload "{}"] party_tenants by auto
  then show ?thesis
    by (auto simp: transaction_payload_def tenant_field_def date_payload_def list_payload_def Let_def
        split: option.split prod.split)
qed

lemma milestones_tenants:
  "set (tenants param (list_payload milestone_payload one_object n ms)) \<subseteq> ms_tenant_id ` set ms"
proof -
  have "set (fst (tenant_of_items param False [n] (rows_payload milestone_payload one_object (Suc n) ms)))
      \<subseteq> ms_tenant_id ` set ms"
    using milestone_tenants by (intro rows_tenants) blast
  then show ?thesis by (simp add: tenants_def list_payload_def)
qed

section \<open>The transaction port\<close>

context transaction_store
begin

abbreviation port :: transaction_backend where
  "port \<equiv> guarded_transactions (scoped_transactions b)"

lemma port_get:
  assumes "tables_ok w" and t: "w_tenant w = Some t"
    and own: "\<And>x. dict_get (w_transactions w) i = Some x \<Longrightarrow> \<not> is_foreign (txn_tenant_id x) t"
  shows "tb_get port i w = (Inr (map_option scrub_transaction (dict_get (w_transactions w) i)), w)"
proof -
  have body: "scoped_get_transaction b i w = (Inr (dict_get (w_transactions w) i), w)"
    using scoped_get_run [OF assms(1) t, of i] own
    by (auto simp: foreign_owner_def split: option.splits)
  have "\<not> is_foreign a t" if "a \<in> set (tenants ''result'' (opt_model transaction_payload (dict_get (w_transactions w) i)))" for a
    using that own transaction_tenants [of "''result''" False "[]" 0]
    by (auto simp: opt_model_def tenants_def split: option.splits)
  then show ?thesis
    unfolding guarded_transactions_def scoped_transactions_def
    using guarded_run [where body = "scoped_get_transaction b i" and enc = "opt_model transaction_payload", OF t _ body t]
    by simp
qed

lemma port_milestones:
  assumes "tables_ok w" and t: "w_tenant w = Some t"
  shows "\<exists>ms. tb_list_milestones port i w = (Inr ms, w)"
proof -
  obtain ms where body: "scoped_list_milestones b i w = (Inr ms, w)"
    and own: "\<forall>m \<in> set ms. \<not> is_foreign (ms_tenant_id m) t"
    using scoped_list_milestones_run [OF assms, of i] by force
  from own milestones_tenants [of "''result''" 0 ms]
  have "\<forall>a \<in> set (tenants ''result'' (list_payload milestone_payload one_object 0 ms)). \<not> is_foreign a t"
    by auto
  from guarded_run [where body = "scoped_list_milestones b i" and
      enc = "list_payload milestone_payload one_object 0", OF t _ body t this] show ?thesis
    unfolding guarded_transactions_def scoped_transactions_def by simp
qed

lemma port_create:
  assumes ok: "tables_ok w" and t: "w_tenant w = Some t"
    and none: "dict_get (w_transactions w) (txn_id txn) = None" and fresh: "milestones_fresh w (stamped t mss)"
    and plain: "txn_tenant_id txn = []" "\<forall>m \<in> set mss. ms_tenant_id m = []"
  shows "tb_create port txn mss w =
    (Inr (), w\<lparr>w_transactions := dict_set (w_transactions w) (txn_id txn) (txn\<lparr>txn_tenant_id := t\<rparr>),
               w_milestones := add_milestones (w_milestones w) (stamped t mss)\<rparr>)"
proof -
  have claim: "creation_claim t txn mss = None"
    using plain by (auto simp: creation_claim_def is_foreign_def find_None_iff)
  have body: "scoped_create_transaction b txn mss w =
    (Inr (), w\<lparr>w_transactions := dict_set (w_transactions w) (txn_id txn) (txn\<lparr>txn_tenant_id := t\<rparr>),
               w_milestones := add_milestones (w_milestones w) (stamped t mss)\<rparr>)"
    using scoped_open_run [OF t, of b txn mss] claim create_fresh [OF ok _ fresh, of "txn\<lparr>txn_tenant_id := t\<rparr>"] none
    by simp
  have "set (tenants ''transaction'' (transaction_payload 0 txn)) \<subseteq> {[]}"
    using transaction_tenants [of "''transaction''" False "[]" 0 txn] plain(1) by (simp add: tenants_def)
  moreover have "set (tenants ''milestones'' (list_payload milestone_payload one_object 0 mss)) \<subseteq> {[]}"
    using milestones_tenants [of "''milestones''" 0 mss] plain(2) by auto
  ultimately have args: "first_foreign t (arg_tenants
      [(''transaction'', transaction_payload 0 txn), (''milestones'', list_payload milestone_payload one_object 0 mss)]) = None"
    by (auto simp: first_foreign_None arg_tenants_def is_foreign_def)
  show ?thesis
    unfolding guarded_transactions_def scoped_transactions_def
    using guarded_run [where body = "scoped_create_transaction b txn mss" and enc = unit_payload, OF t args body] t
    by (simp add: tenants_def unit_payload_def is_tenant_param_name_def tenant_field_def endswith_def)
qed

end

section \<open>The open route\<close>

lemma keyed_add_milestones: "keyed ms_id d \<Longrightarrow> keyed ms_id (add_milestones d ms)"
  unfolding add_milestones_def by (induction ms arbitrary: d) (simp_all add: keyed_set)

context stores
begin

abbreviation tport :: transaction_backend where
  "tport \<equiv> guarded_transactions (scoped_transactions (sb_transactions s))"

abbreviation dport :: document_backend where
  "dport \<equiv> scoped_documents (sb_documents s)"

lemma detail_run:
  assumes "tables_ok w" and "w_tenant w = Some t"
  shows "\<exists>det. transaction_detail_of tport dport x w = (Inr det, w\<lparr>w_reads := Suc (w_reads w)\<rparr>) \<and>
    td_transaction det = x"
proof -
  let ?w = "w\<lparr>w_reads := Suc (w_reads w)\<rparr>"
  have ok: "tables_ok ?w" "w_tenant ?w = Some t" using assms by (simp_all add: tables_ok_def)
  obtain ms where "tb_list_milestones tport (txn_id x) ?w = (Inr ms, ?w)"
    using txn.port_milestones [OF ok] by blast
  moreover obtain ds where "db_list dport (txn_id x) ?w = (Inr ds, ?w)"
    using docs.scoped_list_run [OF ok] by (simp add: scoped_documents_def)
  ultimately show ?thesis by (simp add: transaction_detail_of_def monad date_today_def)
qed

text \<open>A stored row is compared, and handed out, as the guard redacts it.\<close>

lemma open_existing:
  assumes ok: "tables_ok w" and t: "w_tenant w = Some t"
    and row: "dict_get (w_transactions w) (txn_id txn) = Some x" and own: "\<not> is_foreign (txn_tenant_id x) t"
  shows "\<exists>r w'. open_built tport dport txn mss w = (r, w') \<and> same_rows w w' \<and>
    (if same_terms (scrub_transaction x) txn
     then \<exists>det. r = Inr (200, det) \<and> td_transaction det = scrub_transaction x
     else \<exists>m. r = Inl (HTTPException 409 m))"
proof -
  have "tb_get tport (txn_id txn) w = (Inr (Some (scrub_transaction x)), w)"
    using txn.port_get [OF ok t, of "txn_id txn"] row own by simp
  moreover obtain det where "transaction_detail_of tport dport (scrub_transaction x) w = (Inr det, w\<lparr>w_reads := Suc (w_reads w)\<rparr>)"
    and "td_transaction det = scrub_transaction x" using detail_run [OF ok t] by blast
  ultimately show ?thesis
    by (simp add: open_built_def replay_or_conflict_def monad same_rows_def)
qed

lemma open_fresh:
  assumes ok: "tables_ok w" and t: "w_tenant w = Some t"
    and none: "dict_get (w_transactions w) (txn_id txn) = None" and fresh: "milestones_fresh w (stamped t mss)"
    and plain: "txn_tenant_id txn = []" "\<forall>m \<in> set mss. ms_tenant_id m = []"
  shows "\<exists>det. open_built tport dport txn mss w =
    (Inr (201, det), w\<lparr>w_reads := Suc (w_reads w),
       w_transactions := dict_set (w_transactions w) (txn_id txn) (txn\<lparr>txn_tenant_id := t\<rparr>),
       w_milestones := add_milestones (w_milestones w) (stamped t mss)\<rparr>) \<and> td_transaction det = txn"
proof -
  let ?w = "w\<lparr>w_transactions := dict_set (w_transactions w) (txn_id txn) (txn\<lparr>txn_tenant_id := t\<rparr>),
       w_milestones := add_milestones (w_milestones w) (stamped t mss)\<rparr>"
  have ok': "tables_ok ?w" using ok by (simp add: tables_ok_def keyed_set keyed_add_milestones)
  have "tb_get tport (txn_id txn) w = (Inr None, w)"
    using txn.port_get [OF ok t, of "txn_id txn"] none by simp
  moreover have "create_or_lose tport txn mss w = (Inr None, ?w)"
    using txn.port_create [OF ok t none fresh plain] by (simp add: create_or_lose_def monad)
  moreover obtain det where "transaction_detail_of tport dport txn ?w = (Inr det, ?w\<lparr>w_reads := Suc (w_reads ?w)\<rparr>)"
    and "td_transaction det = txn" using detail_run [OF ok', of t] t by auto
  ultimately show ?thesis by (simp add: open_built_def monad)
qed

end

definition opens ::
    "deployment \<Rightarrow> principal \<Rightarrow> open_request \<Rightarrow> transaction_detail response W" where
  "opens d = open_transaction (transaction_port d) (document_port d)"

text \<open>The transaction and timeline a request builds, when it is valid.\<close>

definition built :: "(string \<Rightarrow> string) \<Rightarrow> open_request \<Rightarrow> exn + transaction \<times> milestone list" where
  "built sha body = build_open_transaction sha (or_listing_key body) (or_contract_date body)
     (or_close_date body) (or_parties body) default_timeline"

lemma opens_built:
  "role_allows (pr_role p) Operator \<Longrightarrow> built (w_sha256 w) body = Inr (txn, mss) \<Longrightarrow>
   opens d p body w = open_built (transaction_port d) (document_port d) txn mss w"
  by (simp add: opens_def open_transaction_def built_def require_role_def monad)

lemma built_fields:
  assumes "built sha body = Inr (txn, mss)"
  shows "txn_tenant_id txn = []" and "txn_id txn = transaction_id_for_listing sha (or_listing_key body)"
    and "\<forall>m \<in> set mss. ms_tenant_id m = []" and "distinct (map ms_id mss)"
proof -
  from assms have txn: "txn = opened sha (or_listing_key body) (or_contract_date body) (or_close_date body) (or_parties body)"
    and gen: "generate_milestones txn default_timeline = Inr mss" by (auto simp: built_def build_Inr)
  from txn show "txn_tenant_id txn = []" "txn_id txn = transaction_id_for_listing sha (or_listing_key body)"
    by (simp_all add: opened_def)
  show "\<forall>m \<in> set mss. ms_tenant_id m = []"
  proof
    fix m assume "m \<in> set mss"
    then obtain i where "i < length mss" "m = mss ! i" by (auto simp: in_set_conv_nth)
    with scheduled_fields(4) [OF generated(3) [OF gen]] show "ms_tenant_id m = []" by simp
  qed
  show "distinct (map ms_id mss)" by (rule generated(2) [OF gen])
qed

lemma deployment_stores: "is_deployment d \<Longrightarrow> stores (dp_stores d)"
  using mem_suite.stores_axioms sql_suite.stores_axioms by (auto simp: is_deployment_def)

text \<open>
  C8: A listing is opened once. The first valid request of an operator for a listing whose transaction and
  timeline ids are free is a 201 that stores exactly the built transaction and its timeline, stamped with
  the bound tenant. From then on, in whatever state still holds a transaction of that id, anybody's request
  for the listing, with whatever valid terms, changes no row: it is compared with the row as the guarded
  store hands it out, that is, with secret shapes redacted, and is a 200 with that row when the dates and
  parties are the same and a 409 when they are not. So a repeat of the terms that opened the listing is a
  200 when the row holds no secret shape, and a 409 when a party's text does.
\<close>

theorem listing_opens_once:
  assumes d: "is_deployment d" and ok: "tables_ok w" and t: "w_tenant w = Some t"
    and p: "role_allows (pr_role p) Operator" and first: "built (w_sha256 w) body = Inr (txn, mss)"
    and none: "dict_get (w_transactions w) (txn_id txn) = None"
    and fresh: "\<forall>m \<in> set mss. dict_get (w_milestones w) (ms_id m) = None"
  shows "\<exists>det w1. opens d p body w = (Inr (201, det), w1) \<and>
    w_transactions w1 = dict_set (w_transactions w) (txn_id txn) (txn\<lparr>txn_tenant_id := t\<rparr>) \<and>
    w_milestones w1 = add_milestones (w_milestones w) (stamped t mss) \<and> tables_ok w1 \<and> w_tenant w1 = Some t \<and>
    w_sha256 w1 = w_sha256 w \<and>
    (\<forall>w2 x p2 body2 txn2 mss2.
       tables_ok w2 \<and> w_tenant w2 = Some t \<and> w_sha256 w2 = w_sha256 w \<and>
       dict_get (w_transactions w2) (txn_id txn) = Some x \<and> \<not> is_foreign (txn_tenant_id x) t \<and>
       role_allows (pr_role p2) Operator \<and> or_listing_key body2 = or_listing_key body \<and>
       built (w_sha256 w) body2 = Inr (txn2, mss2) \<longrightarrow>
       (\<exists>r w3. opens d p2 body2 w2 = (r, w3) \<and> same_rows w2 w3 \<and>
          (if same_terms (scrub_transaction x) txn2
           then \<exists>det2. r = Inr (200, det2) \<and> td_transaction det2 = scrub_transaction x
           else \<exists>m. r = Inl (HTTPException 409 m))))"
proof -
  note S = deployment_stores [OF d] and f = built_fields [OF first]
  let ?row = "txn\<lparr>txn_tenant_id := t\<rparr>"
  have port: "open_built (transaction_port d) (document_port d) = open_built
      (guarded_transactions (scoped_transactions (sb_transactions (dp_stores d))))
      (scoped_documents (sb_documents (dp_stores d)))"
    by (simp add: transaction_port_def document_port_def)
  have "milestones_fresh w (stamped t mss)"
    using fresh f(4) by (simp add: milestones_fresh_def stamped_def comp_def)
  from stores.open_fresh [OF S ok t none this f(1,3)] opens_built [OF p first]
  obtain det w1 where r1: "opens d p body w = (Inr (201, det), w1)"
    and w1: "w1 = w\<lparr>w_reads := Suc (w_reads w), w_transactions := dict_set (w_transactions w) (txn_id txn) ?row,
       w_milestones := add_milestones (w_milestones w) (stamped t mss)\<rparr>"
    by (auto simp: port)
  have "tables_ok w1" "w_tenant w1 = Some t" "w_sha256 w1 = w_sha256 w"
    using ok t by (simp_all add: w1 tables_ok_def keyed_set keyed_add_milestones)
  moreover have "\<exists>r w3. opens d p2 body2 w2 = (r, w3) \<and> same_rows w2 w3 \<and>
      (if same_terms (scrub_transaction x) txn2
       then \<exists>det2. r = Inr (200, det2) \<and> td_transaction det2 = scrub_transaction x
       else \<exists>m. r = Inl (HTTPException 409 m))"
    if w2: "tables_ok w2" "w_tenant w2 = Some t" "w_sha256 w2 = w_sha256 w"
      "dict_get (w_transactions w2) (txn_id txn) = Some x" "\<not> is_foreign (txn_tenant_id x) t"
      and q: "role_allows (pr_role p2) Operator" and same: "or_listing_key body2 = or_listing_key body"
      and again: "built (w_sha256 w) body2 = Inr (txn2, mss2)"
    for w2 x p2 body2 txn2 mss2
  proof -
    have "txn_id txn2 = txn_id txn" using f(2) built_fields(2) [OF again] same by simp
    with stores.open_existing [OF S w2(1,2), of txn2 x mss2] w2(4,5)
      opens_built [OF q, of w2 body2 txn2 mss2 d] again w2(3)
    show ?thesis by (simp add: port)
  qed
  ultimately show ?thesis using r1 w1 by auto
qed

definition sample_open :: open_request where
  "sample_open = \<lparr>or_listing_key = ''L1'', or_contract_date = 738000, or_close_date = Some 738030, or_parties = []\<rparr>"

definition sample_opener :: principal where
  "sample_opener = \<lparr>pr_subject = ''o'', pr_email = ''o@x'', pr_name = [], pr_verified = True, pr_role = Operator\<rparr>"

definition opening_world :: world where
  "opening_world = blank_world\<lparr>w_tenant := Some ''acme'', w_sha256 := (\<lambda>s. s)\<rparr>"

lemma sample_built: "\<exists>mss. built (\<lambda>s. s) sample_open = Inr (opened (\<lambda>s. s) ''L1'' 738000 (Some 738030) [], mss)"
  by (simp add: built_def sample_open_def build_open_transaction_def listing_key_max_length_def py_len_def
      is_continuation_def generate_milestones_def default_timeline_def scheduled_def due_date_def date_add_def
      date_min_def date_max_def opened_def Let_def)

theorem listing_opens_once_witness:
  "\<exists>det w1. opens sample_deployment sample_opener sample_open opening_world = (Inr (201, det), w1) \<and>
    (\<exists>det2. fst (opens sample_deployment sample_opener sample_open w1) = Inr (200, det2))"
proof -
  let ?txn = "opened (\<lambda>s. s) ''L1'' 738000 (Some 738030) []"
  let ?row = "?txn\<lparr>txn_tenant_id := ''acme''\<rparr>"
  obtain mss where b: "built (\<lambda>s. s) sample_open = Inr (?txn, mss)" using sample_built by blast
  have w: "tables_ok opening_world" "w_tenant opening_world = Some ''acme''" "w_sha256 opening_world = (\<lambda>s. s)"
    "w_transactions opening_world = []" "w_milestones opening_world = []"
    by (simp_all add: opening_world_def tables_ok_def blank_world_def)
  have role: "role_allows (pr_role sample_opener) Operator" by (simp add: sample_opener_def role_allows_def)
  have same: "same_terms (scrub_transaction ?row) ?txn" by (simp add: same_terms_def scrub_transaction_def opened_def)
  obtain det w1 where r1: "opens sample_deployment sample_opener sample_open opening_world = (Inr (201, det), w1)"
    and w1: "w_transactions w1 = [(txn_id ?txn, ?row)]" "tables_ok w1" "w_tenant w1 = Some ''acme''"
      "w_sha256 w1 = w_sha256 opening_world"
    and later: "\<And>w2 x p2 body2 txn2 mss2. tables_ok w2 \<and> w_tenant w2 = Some ''acme'' \<and>
       w_sha256 w2 = w_sha256 opening_world \<and> dict_get (w_transactions w2) (txn_id ?txn) = Some x \<and>
       \<not> is_foreign (txn_tenant_id x) ''acme'' \<and> role_allows (pr_role p2) Operator \<and>
       or_listing_key body2 = or_listing_key sample_open \<and>
       built (w_sha256 opening_world) body2 = Inr (txn2, mss2) \<Longrightarrow>
       \<exists>r w3. opens sample_deployment p2 body2 w2 = (r, w3) \<and>
          (if same_terms (scrub_transaction x) txn2
           then \<exists>det2. r = Inr (200, det2) \<and> td_transaction det2 = scrub_transaction x
           else \<exists>m. r = Inl (HTTPException 409 m))"
    using listing_opens_once [OF sample_is_deployment w(1,2) role, of sample_open ?txn mss] b w(3-5)
    by (simp add: dict_set_def) blast
  have "\<exists>r w3. opens sample_deployment sample_opener sample_open w1 = (r, w3) \<and> (\<exists>det2. r = Inr (200, det2))"
    using later [of w1 ?row sample_opener sample_open ?txn mss] w1 b w(3) role same
    by (auto simp: dict_get_def is_foreign_def)
  with r1 show ?thesis by auto
qed

end
