(* ===== verification/Fleet.thy ===== *)
theory Fleet
  imports Wiring Secrets
begin

text \<open>
  \<open>scripts/fleet.py\<close>: the committed registry of client instances and its gitignored overlay. Parsing
  YAML, the lax coercions of Pydantic to a date or a boolean and the text of a validation error are
  library code, so parameters (\<open>fleet_lib\<close>); the shape of the models, their validators and the checks
  around them are the code's.
\<close>

section \<open>Parsed documents\<close>

datatype yaml =
    YNull
  | YBool bool
  | YInt int
  | YText string
  | YDate date
  | YList "yaml list"
  | YMap "(string \<times> yaml) list"

fun yaml_truthy :: "yaml \<Rightarrow> bool" where
  "yaml_truthy YNull = False"
| "yaml_truthy (YBool b) = b"
| "yaml_truthy (YInt n) = (n \<noteq> 0)"
| "yaml_truthy (YText s) = (s \<noteq> [])"
| "yaml_truthy (YDate d) = True"
| "yaml_truthy (YList xs) = (xs \<noteq> [])"
| "yaml_truthy (YMap d) = (d \<noteq> [])"

fun yaml_repr :: "yaml \<Rightarrow> string" where
  "yaml_repr YNull = ''None''"
| "yaml_repr (YBool b) = (if b then ''True'' else ''False'')"
| "yaml_repr (YInt n) = show_int n"
| "yaml_repr (YText s) = py_repr s"
| "yaml_repr (YDate d) =
     (case ord_ymd d of (y, m, k) \<Rightarrow>
        ''datetime.date('' @ show_int y @ '', '' @ show_nat m @ '', '' @ show_nat k @ '')'')"
| "yaml_repr (YList xs) = ''['' @ join '', '' (map yaml_repr xs) @ '']''"
| "yaml_repr (YMap d) = ''{'' @ join '', '' (map (\<lambda>(k, v). py_repr k @ '': '' @ yaml_repr v) d) @ ''}''"

record fleet_lib =
  fl_yaml :: "string \<Rightarrow> exn + yaml"
  fl_date :: "yaml \<Rightarrow> date option"
  fl_bool :: "yaml \<Rightarrow> bool option"
  fl_report :: "yaml \<Rightarrow> string"

section \<open>The entries\<close>

record onboarding =
  on_ses_identity :: bool
  on_sandbox_exit :: bool
  on_ten_dlc :: bool
  on_drive_sa :: bool
  on_crm_keys :: bool

definition onboarding_flags :: "onboarding \<Rightarrow> bool list" where
  "onboarding_flags x =
     [on_ses_identity x, on_sandbox_exit x, on_ten_dlc x, on_drive_sa x, on_crm_keys x]"

definition onboarding_done :: "onboarding \<Rightarrow> nat" where
  "onboarding_done x = length (filter id (onboarding_flags x))"

definition onboarding_total :: nat where
  "onboarding_total = 5"

datatype posture = Hosted | ClientInfra

fun posture_value :: "posture \<Rightarrow> string" where
  "posture_value Hosted = ''hosted''"
| "posture_value ClientInfra = ''client-infra''"

datatype billing = Flat | Tiered

fun billing_value :: "billing \<Rightarrow> string" where
  "billing_value Flat = ''flat''"
| "billing_value Tiered = ''tiered''"

record client_entry =
  ce_slug :: string
  ce_version :: string
  ce_posture :: posture
  ce_billing_model :: billing
  ce_last_upgraded :: date
  ce_onboarding :: onboarding
  ce_offboarded_at :: "date option"

record overlay_entry =
  ov_display_name :: "string option"
  ov_project_id :: "string option"
  ov_tfvars :: "string option"
  ov_billing_amount :: "string option"
  ov_invoice_id :: "string option"

definition is_offboarded :: "client_entry \<Rightarrow> bool" where
  "is_offboarded c \<longleftrightarrow> ce_offboarded_at c \<noteq> None"

section \<open>The validators\<close>

text \<open>\<open>$\<close> of Python's \<open>re\<close> also matches before a final newline.\<close>

definition chomp :: "string \<Rightarrow> string" where
  "chomp s = (if s \<noteq> [] \<and> last s = CHR 0x0A then butlast s else s)"

text \<open>\<open>SLUG_RE.match(v)\<close>.\<close>

definition slug_ok :: "string \<Rightarrow> bool" where
  "slug_ok s =
     (case chomp s of
        [] \<Rightarrow> False
      | c # cs \<Rightarrow> in_ranges [az, d09] c \<and> list_all (in_ranges [az, d09, chr CHR ''-'']) cs)"

text \<open>\<open>\d+\<close>, then as many times a dot and \<open>\d+\<close>.\<close>

fun dotted :: "nat \<Rightarrow> nat list \<Rightarrow> bool" where
  "dotted 0 cs = (cs \<noteq> [] \<and> list_all is_decimal cs)"
| "dotted (Suc n) cs =
     (takeWhile is_decimal cs \<noteq> [] \<and>
      (case dropWhile is_decimal cs of c # r \<Rightarrow> c = 0x2E \<and> dotted n r | [] \<Rightarrow> False))"

text \<open>\<open>^v\d+\.\d+\.\d+$\<close>.\<close>

definition is_release :: "string \<Rightarrow> bool" where
  "is_release s =
     (case code_points (map of_char (chomp s)) of v # cs \<Rightarrow> v = 0x76 \<and> dotted 2 cs | [] \<Rightarrow> False)"

text \<open>\<open>VERSION_RE.match(v)\<close>.\<close>

definition version_ok :: "string \<Rightarrow> bool" where
  "version_ok s \<longleftrightarrow> chomp s = ''latest'' \<or> is_release s"

section \<open>Validation of the models\<close>

text \<open>\<open>extra="forbid"\<close>.\<close>

definition only_keys :: "string list \<Rightarrow> (string \<times> yaml) list \<Rightarrow> bool" where
  "only_keys ks d \<longleftrightarrow> list_all (\<lambda>(k, v). k \<in> set ks) d"

fun as_text :: "yaml \<Rightarrow> string option" where
  "as_text (YText s) = Some s"
| "as_text _ = None"

text \<open>An optional text: absent or null is \<open>None\<close>.\<close>

definition opt_text :: "(string \<times> yaml) list \<Rightarrow> string \<Rightarrow> string option option" where
  "opt_text d k =
     (case map_of d k of None \<Rightarrow> Some None | Some YNull \<Rightarrow> Some None
      | Some v \<Rightarrow> map_option Some (as_text v))"

definition flag :: "fleet_lib \<Rightarrow> (string \<times> yaml) list \<Rightarrow> string \<Rightarrow> bool option" where
  "flag lib d k = (case map_of d k of None \<Rightarrow> Some False | Some v \<Rightarrow> fl_bool lib v)"

definition onboarding_keys :: "string list" where
  "onboarding_keys = [''ses_identity'', ''sandbox_exit'', ''ten_dlc'', ''drive_sa'', ''crm_keys'']"

definition onboarding_of :: "fleet_lib \<Rightarrow> yaml \<Rightarrow> onboarding option" where
  "onboarding_of lib v =
     (case v of
        YMap d \<Rightarrow>
          if only_keys onboarding_keys d
          then (case map (flag lib d) onboarding_keys of
                  [Some a, Some b, Some c, Some e, Some f] \<Rightarrow>
                    Some \<lparr>on_ses_identity = a, on_sandbox_exit = b, on_ten_dlc = c, on_drive_sa = e, on_crm_keys = f\<rparr>
                | _ \<Rightarrow> None)
          else None
      | _ \<Rightarrow> None)"

definition no_onboarding :: onboarding where
  "no_onboarding = \<lparr>on_ses_identity = False, on_sandbox_exit = False, on_ten_dlc = False,
     on_drive_sa = False, on_crm_keys = False\<rparr>"

definition posture_of :: "string \<Rightarrow> posture option" where
  "posture_of s = (if s = ''hosted'' then Some Hosted else if s = ''client-infra'' then Some ClientInfra else None)"

definition billing_of :: "string \<Rightarrow> billing option" where
  "billing_of s = (if s = ''flat'' then Some Flat else if s = ''tiered'' then Some Tiered else None)"

definition entry_keys :: "string list" where
  "entry_keys = [''slug'', ''version'', ''posture'', ''billing_model'', ''last_upgraded'', ''onboarding'',
     ''offboarded_at'']"

definition checked :: "('a \<Rightarrow> bool) \<Rightarrow> 'a option \<Rightarrow> 'a option" where
  "checked P x = (case x of Some a \<Rightarrow> if P a then Some a else None | None \<Rightarrow> None)"

definition offboarded_of :: "fleet_lib \<Rightarrow> (string \<times> yaml) list \<Rightarrow> date option option" where
  "offboarded_of lib d =
     (case map_of d ''offboarded_at'' of None \<Rightarrow> Some None | Some YNull \<Rightarrow> Some None
      | Some v \<Rightarrow> map_option Some (fl_date lib v))"

text \<open>\<open>ClientEntry.model_validate\<close>; \<open>None\<close> is a validation error.\<close>

definition client_entry_of :: "fleet_lib \<Rightarrow> yaml \<Rightarrow> client_entry option" where
  "client_entry_of lib v =
     (case v of
        YMap d \<Rightarrow>
          (case (only_keys entry_keys d,
                 checked slug_ok (Option.bind (map_of d ''slug'') as_text),
                 checked version_ok (Option.bind (map_of d ''version'') as_text),
                 Option.bind (Option.bind (map_of d ''posture'') as_text) posture_of,
                 Option.bind (Option.bind (map_of d ''billing_model'') as_text) billing_of,
                 Option.bind (map_of d ''last_upgraded'') (fl_date lib),
                 (case map_of d ''onboarding'' of None \<Rightarrow> Some no_onboarding | Some x \<Rightarrow> onboarding_of lib x),
                 offboarded_of lib d) of
             (True, Some slug, Some version, Some p, Some b, Some up, Some onb, Some off) \<Rightarrow>
               Some \<lparr>ce_slug = slug, ce_version = version, ce_posture = p, ce_billing_model = b,
                 ce_last_upgraded = up, ce_onboarding = onb, ce_offboarded_at = off\<rparr>
           | _ \<Rightarrow> None)
      | _ \<Rightarrow> None)"

fun all_some :: "'a option list \<Rightarrow> 'a list option" where
  "all_some [] = Some []"
| "all_some (None # xs) = None"
| "all_some (Some x # xs) = map_option ((#) x) (all_some xs)"

text \<open>\<open>Fleet.model_validate\<close>: the slug is the key.\<close>

definition fleet_of :: "fleet_lib \<Rightarrow> (string \<times> yaml) list \<Rightarrow> client_entry list option" where
  "fleet_of lib d =
     (if \<not> only_keys [''clients''] d then None
      else (case map_of d ''clients'' of
              Some (YList vs) \<Rightarrow> checked (\<lambda>cs. distinct (map ce_slug cs)) (all_some (map (client_entry_of lib) vs))
            | _ \<Rightarrow> None))"

section \<open>Loading\<close>

definition identifying_keys :: "string list" where
  "identifying_keys =
     [''display_name'', ''name'', ''project_id'', ''gcp_project'', ''gcp_project_id'', ''tfvars'', ''tfvars_path'',
      ''fee'', ''fee_amount'', ''amount'', ''price'', ''monthly_fee'', ''billing_amount'', ''invoice_id'',
      ''invoicing_id'']"

definition manifest_name :: string where "manifest_name = ''fleet.yml''"
definition overlay_name :: string where "overlay_name = ''fleet-overlay.local.yml''"

definition identifying_error :: "nat \<Rightarrow> (string \<times> yaml) list \<Rightarrow> string list \<Rightarrow> exn" where
  "identifying_error i entry bad =
     FleetError (manifest_name @ '': entry '' @
       (case map_of entry ''slug'' of None \<Rightarrow> py_repr (CHR ''#'' # show_nat i) | Some v \<Rightarrow> yaml_repr v) @
       '' carries identifying field(s) ['' @ join '', '' (map py_repr (sort bad)) @
       ''] '' @ em_dash @ '' these live in the gitignored overlay ('' @ overlay_name @
       ''), keyed by slug, never in the committed manifest. See docs/fleet-registry.md.'')"

fun precheck_entries :: "nat \<Rightarrow> yaml list \<Rightarrow> exn option" where
  "precheck_entries i [] = None"
| "precheck_entries i (YMap entry # vs) =
     (let bad = filter (\<lambda>k. k \<in> set identifying_keys) (map fst entry)
      in if bad \<noteq> [] then Some (identifying_error i entry bad) else precheck_entries (Suc i) vs)"
| "precheck_entries i (_ # vs) = precheck_entries (Suc i) vs"

text \<open>\<open>raw.get("clients") or []\<close>; what is not a list is left to the validation.\<close>

definition precheck_identifying :: "(string \<times> yaml) list \<Rightarrow> exn option" where
  "precheck_identifying raw =
     (case map_of raw ''clients'' of Some (YList vs) \<Rightarrow> precheck_entries 0 vs | _ \<Rightarrow> None)"

definition load_manifest :: "fleet_lib \<Rightarrow> string \<Rightarrow> exn + client_entry list" where
  "load_manifest lib text =
     (case fl_yaml lib text of
        Inl e \<Rightarrow> Inl e
      | Inr (YMap raw) \<Rightarrow>
          (case precheck_identifying raw of
             Some e \<Rightarrow> Inl e
           | None \<Rightarrow>
               (case fleet_of lib raw of
                  Some cs \<Rightarrow> Inr cs
                | None \<Rightarrow> Inl (FleetError (manifest_name @ '' is invalid:'' @ [CHR 0x0A] @ fl_report lib (YMap raw)))))
      | Inr _ \<Rightarrow> Inl (FleetError (manifest_name @ '': top level must be a mapping with a 'clients' list'')))"

definition overlay_keys :: "string list" where
  "overlay_keys = [''display_name'', ''project_id'', ''tfvars'', ''billing_amount'', ''invoice_id'']"

definition overlay_entry_of :: "yaml \<Rightarrow> overlay_entry option" where
  "overlay_entry_of v =
     (case (if yaml_truthy v then v else YMap []) of
        YMap d \<Rightarrow>
          if only_keys overlay_keys d
          then (case map (opt_text d) overlay_keys of
                  [Some a, Some b, Some c, Some e, Some f] \<Rightarrow>
                    Some \<lparr>ov_display_name = a, ov_project_id = b, ov_tfvars = c, ov_billing_amount = e, ov_invoice_id = f\<rparr>
                | _ \<Rightarrow> None)
          else None
      | _ \<Rightarrow> None)"

type_synonym overlay = "(string, overlay_entry) dict"

text \<open>The overlay is optional: no file is an empty one.\<close>

definition load_overlay :: "fleet_lib \<Rightarrow> string option \<Rightarrow> exn + overlay" where
  "load_overlay lib text =
     (case text of
        None \<Rightarrow> Inr []
      | Some t \<Rightarrow>
          (case fl_yaml lib t of
             Inl e \<Rightarrow> Inl e
           | Inr v \<Rightarrow>
               (case (if yaml_truthy v then v else YMap []) of
                  YMap raw \<Rightarrow>
                    (case all_some (map (\<lambda>(k, x). map_option (Pair k) (overlay_entry_of x)) raw) of
                       Some ov \<Rightarrow> Inr ov
                     | None \<Rightarrow> Inl (FleetError (overlay_name @ '' is invalid:'' @ [CHR 0x0A] @ fl_report lib v)))
                | _ \<Rightarrow> Inl (FleetError (overlay_name @ '': top level must be a mapping keyed by slug'')))))"

section \<open>The status table\<close>

definition drift :: "string \<Rightarrow> string option \<Rightarrow> string" where
  "drift version latest =
     (if version = ''latest'' then ''tracks latest''
      else (case latest of
              None \<Rightarrow> ''no releases''
            | Some l \<Rightarrow> if version = l then ''current'' else ''behind '' @ l))"

definition warning_sign :: string where
  "warning_sign = [CHR 0xE2, CHR 0x9A, CHR 0xA0]"

definition status_headers :: "string list" where
  "status_headers = [''CLIENT'', ''VERSION'', ''DRIFT'', ''POSTURE'', ''BILLING'', ''ONBOARD'', ''UPGRADED'',
     ''STATUS'', ''PROJECT'']"

text \<open>\<open>ov.x if ov and ov.x else fallback\<close>.\<close>

definition overlaid :: "(overlay_entry \<Rightarrow> string option) \<Rightarrow> overlay \<Rightarrow> string \<Rightarrow> string \<Rightarrow> string" where
  "overlaid f ov slug fallback =
     (case Option.bind (dict_get ov slug) f of None \<Rightarrow> fallback | Some x \<Rightarrow> str_or x fallback)"

definition status_row :: "overlay \<Rightarrow> string option \<Rightarrow> client_entry \<Rightarrow> string list" where
  "status_row ov latest c =
     [overlaid ov_display_name ov (ce_slug c) (ce_slug c), ce_version c, drift (ce_version c) latest,
      posture_value (ce_posture c), billing_value (ce_billing_model c),
      show_nat (onboarding_done (ce_onboarding c)) @ ''/'' @ show_nat onboarding_total @
        (if onboarding_done (ce_onboarding c) = onboarding_total then [] else '' '' @ warning_sign),
      isoformat (ce_last_upgraded c),
      (case ce_offboarded_at c of Some d \<Rightarrow> ''offboarded '' @ isoformat d | None \<Rightarrow> ''active''),
      overlaid ov_project_id ov (ce_slug c) em_dash]"

definition ljust :: "nat \<Rightarrow> string \<Rightarrow> string" where
  "ljust n s = s @ replicate (n - py_len s) CHR '' ''"

definition widths :: "string list \<Rightarrow> string list list \<Rightarrow> nat list" where
  "widths headers rows =
     map (\<lambda>i. Max (set (map py_len (headers ! i # map (\<lambda>r. r ! i) rows)))) [0..<length headers]"

text \<open>The header, a rule and the rows, in columns two blanks apart.\<close>

definition table_lines :: "string list \<Rightarrow> string list list \<Rightarrow> string list" where
  "table_lines headers rows =
     (let ws = widths headers rows; line = (\<lambda>cells. join ''  '' (map2 ljust ws cells))
      in line headers # join ''  '' (map (\<lambda>n. replicate n CHR ''-'') ws) # map line rows)"

definition render_status :: "client_entry list \<Rightarrow> overlay \<Rightarrow> string option \<Rightarrow> string" where
  "render_status cs ov latest =
     join [CHR 0x0A] (table_lines status_headers (map (status_row ov latest) cs) @
       (if ov = []
        then [[], ''(no '' @ overlay_name @ '' '' @ em_dash @ '' CLIENT/PROJECT fall back to slug)'']
        else []))"

text \<open>
  \<open>main\<close>: the exit status, with what is printed where it is the command's answer. The manifest is
  read first, whatever the command.
\<close>

definition fleet_main ::
    "fleet_lib \<Rightarrow> string \<Rightarrow> string option \<Rightarrow> string option \<Rightarrow> string option \<Rightarrow> exn + nat \<times> string" where
  "fleet_main lib manifest overlay latest command =
     (let cmd = (case command of None \<Rightarrow> ''status'' | Some c \<Rightarrow> c);
          failed = (\<lambda>e. case e of FleetError m \<Rightarrow> Inr (1, m) | _ \<Rightarrow> Inl e)
      in case load_manifest lib manifest of
           Inl e \<Rightarrow> failed e
         | Inr cs \<Rightarrow>
             if cmd \<in> {''validate'', ''status''}
             then (case load_overlay lib overlay of
                     Inl e \<Rightarrow> failed e
                   | Inr ov \<Rightarrow>
                       Inr (0, if cmd = ''validate''
                               then manifest_name @ '' OK '' @ em_dash @ '' '' @ show_nat (length cs) @ '' client(s).''
                               else render_status cs ov latest))
             else Inr (2, ''unknown command '' @ py_repr cmd @ '' (use: status | validate)''))"

end
