(* ===== verification/Ops.thy ===== *)
theory Ops
  imports Fleet
begin

text \<open>
  The outside of the operator scripts: the environment, the files, the commands they run, the URLs they
  probe and the questions they ask. What a command, a server or the operator answers to the \<open>n\<close>-th
  event is arbitrary; the trace records every event with its answer, in order, so that a property can
  say what happened before what. Printing is left out; writing a file succeeds.
\<close>

section \<open>State\<close>

datatype proc_outcome = Exited nat string string | NotStarted string string

datatype http_outcome = Answered nat | ErrorStatus nat | NoConnection | HttpRaised exn

datatype ops_event =
    Ran "string list" proc_outcome
  | Probed string "string option" http_outcome
  | Asked string "string option"
  | Wrote string string
  | Delivered string string

text \<open>
  Library code the offboarding uses: the archive format, the CSV reader, the JSON codec (\<open>None\<close> is a
  text that is no JSON), what \<open>urlsplit\<close> accepts as a network location beyond balanced brackets, and
  the expansion of a home directory and of symbolic links.
\<close>

record script_lib =
  sl_pack :: "(string \<times> string) list \<Rightarrow> string"
  sl_csv :: "string \<Rightarrow> (string \<times> string) list list"
  sl_loads :: "string \<Rightarrow> pyv option"
  sl_dumps :: "pyv \<Rightarrow> string"
  sl_netloc_ok :: "string \<Rightarrow> bool"
  sl_expanduser :: "string \<Rightarrow> string"
  sl_resolve :: "string \<Rightarrow> string"

record ops =
  op_lib :: fleet_lib
  op_slib :: script_lib
  op_env :: env
  op_root :: string
  op_files :: "string \<Rightarrow> string option"
  op_is_dir :: "string \<Rightarrow> bool"
  op_which :: "string \<Rightarrow> string option"
  op_tmp :: string
  op_today :: date
  op_stamp :: string
  op_now :: string
  op_trace :: "ops_event list"
  op_proc :: "nat \<Rightarrow> string list \<Rightarrow> proc_outcome"
  op_http :: "nat \<Rightarrow> string \<Rightarrow> http_outcome"
  op_answer :: "nat \<Rightarrow> string option"
  op_dumped :: "nat \<Rightarrow> string option"

type_synonym 'a OM = "(ops, 'a) M"

definition emit_event :: "ops_event \<Rightarrow> unit OM" where
  "emit_event e = modify (\<lambda>s. s\<lparr>op_trace := op_trace s @ [e]\<rparr>)"

section \<open>Commands\<close>

text \<open>\<open>stderr or stdout\<close> of a failed command, and what it answered when it ended with 0.\<close>

fun proc_result :: "string list \<Rightarrow> proc_outcome \<Rightarrow> exn + string" where
  "proc_result cmd (Exited 0 out err) = Inr out"
| "proc_result cmd (Exited (Suc n) out err) = Inl (CalledProcessError cmd (Suc n) (str_or err out))"
| "proc_result cmd (NotStarted c m) = Inl (OSError c m)"

text \<open>\<open>subprocess.run(cmd, check=True)\<close>.\<close>

definition run_cmd :: "string list \<Rightarrow> string OM" where
  "run_cmd cmd =
     bindM (gets (\<lambda>s. op_proc s (length (op_trace s)) cmd)) (\<lambda>out.
     thenM (emit_event (Ran cmd out)) (liftE (proc_result cmd out)))"

fun is_process_error :: "exn \<Rightarrow> bool" where
  "is_process_error (CalledProcessError _ _ _) = True"
| "is_process_error _ = False"

fun is_not_found :: "exn \<Rightarrow> bool" where
  "is_not_found (OSError c _) = (c = ''FileNotFoundError'')"
| "is_not_found _ = False"

section \<open>Files and questions\<close>

definition read_file :: "string \<Rightarrow> string OM" where
  "read_file path =
     bindM (gets (\<lambda>s. op_files s path)) (\<lambda>found.
       case found of None \<Rightarrow> raise (OSError ''FileNotFoundError'' path) | Some t \<Rightarrow> ret t)"

definition write_file :: "string \<Rightarrow> string \<Rightarrow> unit OM" where
  "write_file path text =
     thenM (modify (\<lambda>s. s\<lparr>op_files := (op_files s)(path \<mapsto> text)\<rparr>)) (emit_event (Wrote path text))"

definition is_yes :: "string option \<Rightarrow> bool" where
  "is_yes a = (case a of None \<Rightarrow> False | Some t \<Rightarrow> lower (strip t) \<in> {''y'', ''yes''})"

text \<open>\<open>_confirm\<close>: end of input is a no.\<close>

definition confirm :: "string \<Rightarrow> bool OM" where
  "confirm prompt =
     bindM (gets (\<lambda>s. op_answer s (length (op_trace s)))) (\<lambda>a.
     thenM (emit_event (Asked prompt a)) (ret (is_yes a)))"

definition getenv :: "string \<Rightarrow> string option OM" where
  "getenv name = gets (\<lambda>s. op_env s name)"

section \<open>Lines\<close>

text \<open>The length of the line break a text starts with, 0 when it starts with none.\<close>

definition break_len :: "string \<Rightarrow> nat" where
  "break_len s =
     (case s of
        [] \<Rightarrow> 0
      | c # r \<Rightarrow>
          (let n = (of_char c :: nat)
           in if n = 13 then (if startswith r [CHR 0x0A] then 2 else 1)
              else if (10 \<le> n \<and> n \<le> 12) \<or> (28 \<le> n \<and> n \<le> 30) then 1
              else if n = 0xC2 \<and> startswith r [CHR 0x85] then 2
              else if n = 0xE2 \<and> (startswith r [CHR 0x80, CHR 0xA8] \<or> startswith r [CHR 0x80, CHR 0xA9]) then 3
              else 0))"

fun take_line :: "string \<Rightarrow> string \<times> string" where
  "take_line [] = ([], [])"
| "take_line (c # cs) =
     (let k = break_len (c # cs)
      in if 0 < k then (take k (c # cs), drop k (c # cs))
         else (case take_line cs of (l, r) \<Rightarrow> (c # l, r)))"

lemma take_line_append: "take_line s = (l, r) \<Longrightarrow> l @ r = s"
  by (induction s arbitrary: l r) (auto simp: Let_def split: if_splits prod.splits)

lemma take_line_shorter: "take_line s = (l, r) \<Longrightarrow> s \<noteq> [] \<Longrightarrow> length r < length s"
proof (induction s arbitrary: l r)
  case (Cons c cs)
  then show ?case
    by (cases cs) (fastforce simp: Let_def split: if_splits prod.splits)+
qed simp

text \<open>\<open>text.splitlines(keepends=True)\<close>.\<close>

function splitlines :: "string \<Rightarrow> string list" where
  "splitlines s = (if s = [] then [] else (case take_line s of (l, r) \<Rightarrow> l # splitlines r))"
  by pat_completeness auto
termination
  by (relation "measure length") (auto dest: take_line_shorter [OF sym])

declare splitlines.simps [simp del]

lemma concat_splitlines [simp]: "concat (splitlines s) = s"
proof (induction s rule: splitlines.induct)
  case (1 s)
  then show ?case
    by (subst splitlines.simps) (auto split: prod.split dest: take_line_append)
qed

definition nl :: string where "nl = [CHR 0x0A]"

text \<open>\<open>_split_newline\<close>.\<close>

definition split_newline :: "string \<Rightarrow> string \<times> string" where
  "split_newline line = (if endswith line nl then (butlast line, nl) else (line, []))"

text \<open>\<open>text.splitlines()\<close>: without the line breaks.\<close>

fun without_break :: "string \<Rightarrow> string" where
  "without_break [] = []"
| "without_break (c # cs) = (if 0 < break_len (c # cs) then [] else c # without_break cs)"

definition plain_lines :: "string \<Rightarrow> string list" where
  "plain_lines s = map without_break (splitlines s)"

end
