(* ===== verification/Dsn.thy ===== *)
theory Dsn
  imports Ops
begin

text \<open>
  The database URL helpers of \<open>scripts/offboard_client.py\<close>, over \<open>urlparse\<close> and \<open>urlunparse\<close> of the
  standard library. Which network locations beyond balanced brackets the library refuses (a bracketed
  host that is no address, characters that normalise to a delimiter) is a parameter.
\<close>

section \<open>URLs\<close>

record url_parts =
  up_scheme :: string
  up_netloc :: string
  up_path :: string
  up_params :: string
  up_query :: string
  up_fragment :: string

text \<open>\<open>s.partition(c)\<close>: before, whether there is one, after.\<close>

definition partition_at :: "char \<Rightarrow> string \<Rightarrow> string \<times> bool \<times> string" where
  "partition_at c s =
     (case dropWhile (\<lambda>x. x \<noteq> c) s of [] \<Rightarrow> (s, False, []) | d # r \<Rightarrow> (takeWhile (\<lambda>x. x \<noteq> c) s, True, r))"

text \<open>\<open>s.rpartition(c)\<close>: the part before is empty when there is none.\<close>

definition before_last :: "char \<Rightarrow> string \<Rightarrow> string" where
  "before_last c s = rev (tl (dropWhile (\<lambda>x. x \<noteq> c) (rev s)))"

definition is_letter :: "char \<Rightarrow> bool" where
  "is_letter c = in_ranges [az, AZ] c"

definition scheme_char :: "char \<Rightarrow> bool" where
  "scheme_char c = in_ranges [az, AZ, d09, chr CHR ''+'', chr CHR ''-'', chr CHR ''.''] c"

text \<open>The scheme, in lower case, and the rest; no scheme when what precedes the colon is none.\<close>

definition split_scheme :: "string \<Rightarrow> string \<times> string" where
  "split_scheme url =
     (case partition_at CHR '':'' url of
        (s, found, r) \<Rightarrow>
          if found \<and> s \<noteq> [] \<and> is_letter (hd s) \<and> list_all scheme_char s then (lower s, r) else ([], url))"

definition netloc_end :: "char \<Rightarrow> bool" where
  "netloc_end c \<longleftrightarrow> c \<in> {CHR ''/'', CHR ''?'', CHR ''#''}"

definition split_netloc :: "string \<Rightarrow> string \<times> string" where
  "split_netloc url =
     (if startswith url ''//''
      then (takeWhile (\<lambda>c. \<not> netloc_end c) (drop 2 url), dropWhile (\<lambda>c. \<not> netloc_end c) (drop 2 url))
      else ([], url))"

text \<open>What \<open>urlsplit\<close> drops first: leading control characters and blanks, then tabs and line ends.\<close>

definition cleaned_url :: "string \<Rightarrow> string" where
  "cleaned_url url =
     filter (\<lambda>c. c \<notin> {CHR 0x09, CHR 0x0A, CHR 0x0D}) (dropWhile (\<lambda>c. (of_char c :: nat) \<le> 32) url)"

definition uses_params :: "string list" where
  "uses_params = [[], ''ftp'', ''hdl'', ''prospero'', ''http'', ''imap'', ''https'', ''shttp'', ''rtsp'',
     ''rtsps'', ''rtspu'', ''sip'', ''sips'', ''mms'', ''sftp'', ''tel'']"

definition uses_netloc :: "string list" where
  "uses_netloc = [[], ''ftp'', ''http'', ''gopher'', ''nntp'', ''telnet'', ''imap'', ''wais'', ''file'', ''mms'',
     ''https'', ''shttp'', ''snews'', ''prospero'', ''rtsp'', ''rtsps'', ''rtspu'', ''rsync'', ''svn'', ''svn+ssh'',
     ''sftp'', ''nfs'', ''git'', ''git+ssh'', ''ws'', ''wss'']"

text \<open>The parameters of the last path segment.\<close>

definition split_params :: "string \<Rightarrow> string \<times> string" where
  "split_params url =
     (let seg = after_last CHR ''/'' url; dir = take (length url - length seg) url
      in case partition_at CHR '';'' seg of (p, found, r) \<Rightarrow> if found then (dir @ p, r) else (url, []))"

definition netloc_ok :: "script_lib \<Rightarrow> string \<Rightarrow> bool" where
  "netloc_ok lib n \<longleftrightarrow> (CHR ''['' \<in> set n \<longleftrightarrow> CHR '']'' \<in> set n) \<and> sl_netloc_ok lib n"

definition urlparse :: "script_lib \<Rightarrow> string \<Rightarrow> exn + url_parts" where
  "urlparse lib url =
     (case split_scheme (cleaned_url url) of (scheme, r1) \<Rightarrow>
      case split_netloc r1 of (netloc, r2) \<Rightarrow>
        if \<not> netloc_ok lib netloc then Inl (ValueError ''Invalid URL'')
        else (case partition_at CHR ''#'' r2 of (r3, b, fragment) \<Rightarrow>
              case partition_at CHR ''?'' r3 of (r4, b, query) \<Rightarrow>
              case (if scheme \<in> set uses_params then split_params r4 else (r4, [])) of (path, params) \<Rightarrow>
                Inr \<lparr>up_scheme = scheme, up_netloc = netloc, up_path = path, up_params = params,
                     up_query = query, up_fragment = fragment\<rparr>))"

definition with_netloc :: "string \<Rightarrow> string \<Rightarrow> string \<Rightarrow> string" where
  "with_netloc scheme netloc url =
     (if netloc \<noteq> [] \<or> scheme \<noteq> [] \<and> scheme \<in> set uses_netloc \<or> startswith url ''//''
      then ''//'' @ netloc @ (if url \<noteq> [] \<and> hd url \<noteq> CHR ''/'' then CHR ''/'' # url else url) else url)"

definition suffixed :: "char \<Rightarrow> string \<Rightarrow> string" where
  "suffixed c s = (if s = [] then [] else c # s)"

definition urlunparse :: "url_parts \<Rightarrow> string" where
  "urlunparse p =
     (if up_scheme p = [] then [] else up_scheme p @ '':'') @
     with_netloc (up_scheme p) (up_netloc p) (up_path p @ suffixed CHR '';'' (up_params p)) @
     suffixed CHR ''?'' (up_query p) @ suffixed CHR ''#'' (up_fragment p)"

section \<open>The user, the host and the port\<close>

definition user_info :: "string \<Rightarrow> (string \<times> string option) option" where
  "user_info netloc =
     (if CHR ''@'' \<in> set netloc
      then (case partition_at CHR '':'' (before_last CHR ''@'' netloc) of
              (u, found, p) \<Rightarrow> Some (u, if found then Some p else None))
      else None)"

definition url_password :: "url_parts \<Rightarrow> string option" where
  "url_password p = Option.bind (user_info (up_netloc p)) snd"

text \<open>\<open>p.username or ""\<close>.\<close>

definition url_user :: "url_parts \<Rightarrow> string" where
  "url_user p = (case user_info (up_netloc p) of None \<Rightarrow> [] | Some (u, w) \<Rightarrow> u)"

definition host_info :: "string \<Rightarrow> string \<times> string" where
  "host_info netloc =
     (let h = after_last CHR ''@'' netloc in
      case partition_at CHR ''['' h of (b, found, r) \<Rightarrow>
        if found
        then (case partition_at CHR '']'' r of (host, b2, q) \<Rightarrow> (host, snd (snd (partition_at CHR '':'' q))))
        else (case partition_at CHR '':'' h of (host, b2, port) \<Rightarrow> (host, port)))"

text \<open>\<open>p.hostname or ""\<close>: a zone keeps its case.\<close>

definition url_host :: "url_parts \<Rightarrow> string" where
  "url_host p =
     (let h = fst (host_info (up_netloc p))
      in lower (takeWhile (\<lambda>c. c \<noteq> CHR ''%'') h) @ dropWhile (\<lambda>c. c \<noteq> CHR ''%'') h)"

text \<open>\<open>p.port\<close>, 0 standing for none, which the callers do not tell from 0.\<close>

definition url_port :: "url_parts \<Rightarrow> exn + nat" where
  "url_port p =
     (let t = snd (host_info (up_netloc p))
      in if t = [] then Inr 0
         else if \<not> list_all is_digit t
         then Inl (ValueError (''Port could not be cast to integer value as '' @ py_repr t))
         else if 65535 < read_nat t then Inl (ValueError ''Port out of range 0-65535'')
         else Inr (read_nat t))"

definition port_suffix :: "nat \<Rightarrow> string" where
  "port_suffix n = (if n = 0 then [] else CHR '':'' # show_nat n)"

section \<open>Connection strings\<close>

definition resolve_database_url :: "string option \<Rightarrow> string OM" where
  "resolve_database_url explicit =
     bindM (getenv ''CLIENT_DATABASE_URL'') (\<lambda>c.
     bindM (getenv ''DATABASE_URL'') (\<lambda>d.
       let or_empty = (\<lambda>x. case x of None \<Rightarrow> [] | Some t \<Rightarrow> t);
           url = strip (str_or (or_empty explicit) (str_or (or_empty c) (or_empty d)))
       in if url = []
          then raise (OffboardError (''set CLIENT_DATABASE_URL (or DATABASE_URL / --database-url) to the client's '' @
                 ''Postgres DSN before exporting '' @ em_dash @ '' owner role preferred for a complete dump''))
          else ret url))"

text \<open>For messages: any failure hides the whole DSN.\<close>

definition redact_database_url :: "script_lib \<Rightarrow> string \<Rightarrow> string" where
  "redact_database_url lib url =
     (case urlparse lib url of
        Inl e \<Rightarrow> ''<redacted-dsn>''
      | Inr p \<Rightarrow>
          if url_password p = None then url
          else (case url_port p of
                  Inl e \<Rightarrow> ''<redacted-dsn>''
                | Inr n \<Rightarrow> urlunparse (p\<lparr>up_netloc := url_user p @ '':***@'' @ url_host p @ port_suffix n\<rparr>)))"

definition user_at_host :: "string \<Rightarrow> string \<Rightarrow> string" where
  "user_at_host user host = (if host = [] then user else if user = [] then host else user @ ''@'' @ host)"

text \<open>For the command line: the password travels in the environment. A bad port is not caught.\<close>

definition strip_dsn_password :: "script_lib \<Rightarrow> string \<Rightarrow> exn + string" where
  "strip_dsn_password lib url =
     (case urlparse lib url of
        Inl e \<Rightarrow> Inr url
      | Inr p \<Rightarrow>
          if url_password p = None then Inr url
          else (case url_port p of
                  Inl e \<Rightarrow> Inl e
                | Inr n \<Rightarrow> Inr (urlunparse (p\<lparr>up_netloc := user_at_host (url_user p) (url_host p) @ port_suffix n\<rparr>))))"

text \<open>A local host as a container sees it; a bad port there leaves the DSN to the stripping.\<close>

definition dockerize_dsn :: "script_lib \<Rightarrow> string \<Rightarrow> exn + string" where
  "dockerize_dsn lib url =
     (case urlparse lib url of
        Inl e \<Rightarrow> strip_dsn_password lib url
      | Inr p \<Rightarrow>
          if url_host p \<in> {''127.0.0.1'', ''localhost'', ''::1''}
          then (case url_port p of
                  Inl e \<Rightarrow> strip_dsn_password lib url
                | Inr n \<Rightarrow> Inr (urlunparse (p\<lparr>up_netloc :=
                    user_at_host (url_user p) ''host.docker.internal'' @ port_suffix n\<rparr>)))
          else strip_dsn_password lib url)"

text \<open>\<open>PGPASSWORD\<close> of the environment a tool is started with, when the DSN carries a password.\<close>

definition dsn_env :: "script_lib \<Rightarrow> env \<Rightarrow> string \<Rightarrow> env" where
  "dsn_env lib env url =
     (case urlparse lib url of
        Inl e \<Rightarrow> env
      | Inr p \<Rightarrow> (case url_password p of None \<Rightarrow> env
                  | Some w \<Rightarrow> if w = [] then env else env(''PGPASSWORD'' \<mapsto> w)))"

end
