(* ===== verification/Dsn_Properties.thy ===== *)
theory Dsn_Properties
  imports Dsn
begin

text \<open>No password of a connection string reaches a command line.\<close>

section \<open>Partitions\<close>

lemma until:
  "c \<notin> set a \<Longrightarrow> dropWhile (\<lambda>x. x \<noteq> c) (a @ c # r) = c # r"
  "c \<notin> set a \<Longrightarrow> takeWhile (\<lambda>x. x \<noteq> c) (a @ c # r) = a"
  "c \<notin> set a \<Longrightarrow> dropWhile (\<lambda>x. x \<noteq> c) a = []"
  by (induction a) auto

lemma partition_at_append: "c \<notin> set a \<Longrightarrow> partition_at c (a @ c # r) = (a, True, r)"
  by (simp only: partition_at_def until list.case simp_thms)

lemma partition_at_none: "c \<notin> set s \<Longrightarrow> partition_at c s = (s, False, [])"
  by (simp only: partition_at_def until list.case simp_thms)

lemma before_last_append: "c \<notin> set z \<Longrightarrow> before_last c (x @ c # z) = x"
  using until(1) [of c "rev z" "rev x"] by (simp add: before_last_def)

lemma partition_at_parts:
  assumes "partition_at c s = (a, b, r)"
  shows "c \<notin> set a \<and> s = a @ (if b then c # r else []) \<and> (\<not> b \<longrightarrow> r = [])"
proof (cases "c \<in> set s")
  case True
  then obtain x y where "s = x @ c # y" "c \<notin> set x" by (auto dest: split_list_first)
  with assms partition_at_append [of c x y] show ?thesis by simp
next
  case False
  with assms partition_at_none [of c s] show ?thesis by auto
qed

section \<open>The network location\<close>

lemma lower_char_apart: "lower_char c \<in> {CHR ''@'', CHR ''/'', CHR ''?'', CHR ''#'', CHR 0x09, CHR 0x0A, CHR 0x0D} \<Longrightarrow>
    lower_char c = c"
proof -
  have n: "(of_char (char_of (n :: nat) :: char) :: nat) = n" if "n < 256" for n using that by simp
  assume "lower_char c \<in> {CHR ''@'', CHR ''/'', CHR ''?'', CHR ''#'', CHR 0x09, CHR 0x0A, CHR 0x0D}"
  then have "(of_char (lower_char c) :: nat) \<in> {64, 47, 63, 35, 9, 10, 13}" by auto
  then show ?thesis using n [of "of_char c + 32"] by (auto simp: lower_char_def Let_def split: if_splits)
qed

lemma user_no_colon: "CHR '':'' \<notin> set (url_user p)"
  by (auto simp: url_user_def user_info_def split: prod.splits dest: partition_at_parts)

lemma partition_subset: "partition_at c s = (a, b, r) \<Longrightarrow> set a \<subseteq> set s \<and> set r \<subseteq> set s"
  by (drule partition_at_parts) (auto split: if_splits)

lemma after_last_subset: "set (after_last c s) \<subseteq> set s"
  by (auto simp: after_last_def dest: set_takeWhileD)

lemma host_info_subset: "host_info n = (h, q) \<Longrightarrow> set h \<subseteq> set (after_last CHR ''@'' n)"
  unfolding host_info_def Let_def
  by (auto split: prod.splits if_splits dest!: partition_subset)

lemma url_host_set:
  assumes "c \<in> set (url_host p)" and "c \<in> {CHR ''@'', CHR ''/'', CHR ''?'', CHR ''#'', CHR 0x09, CHR 0x0A, CHR 0x0D}"
  shows "c \<in> set (up_netloc p) \<and> c \<noteq> CHR ''@''"
proof -
  let ?h = "fst (host_info (up_netloc p))"
  have "c \<in> set ?h"
    using assms lower_char_apart
    by (auto simp: url_host_def Let_def lower_def dest: set_takeWhileD set_dropWhileD) (metis set_takeWhileD)+
  then have "c \<in> set (after_last CHR ''@'' (up_netloc p))" using host_info_subset by (metis prod.collapse subsetD)
  with after_last_no_sep [of "CHR ''@''" "up_netloc p"] after_last_subset show ?thesis by blast
qed

lemma port_suffix_chars: "c \<in> set (port_suffix n) \<Longrightarrow> c = CHR '':'' \<or> is_digit c"
  by (auto simp: port_suffix_def dest: show_nat_digits split: if_splits)

lemma is_digit_apart: "is_digit c \<Longrightarrow> c \<notin> {CHR ''@'', CHR ''/'', CHR ''?'', CHR ''#'', CHR 0x09, CHR 0x0A, CHR 0x0D}"
  by (auto simp: is_digit_def)

lemma no_password:
  assumes "CHR '':'' \<notin> set user" and "CHR ''@'' \<notin> set host"
  shows "Option.bind (user_info (user_at_host user host @ port_suffix k)) snd = None"
proof (cases "CHR ''@'' \<in> set (user_at_host user host @ port_suffix k)")
  case True
  let ?n = "user_at_host user host @ port_suffix k"
  have port: "CHR ''@'' \<notin> set (port_suffix k)" using port_suffix_chars is_digit_apart by blast
  have "CHR '':'' \<notin> set (before_last CHR ''@'' ?n)"
  proof (cases "host = []")
    case h: True
    with True port have "CHR ''@'' \<in> set user" by (simp add: user_at_host_def)
    then obtain x z where u: "user = x @ CHR ''@'' # z" "CHR ''@'' \<notin> set z" by (auto dest: split_list_last)
    have "before_last CHR ''@'' ?n = x"
      using before_last_append [of "CHR ''@''" "z @ port_suffix k" x] port u h by (simp add: user_at_host_def)
    with u assms(1) show ?thesis by simp
  next
    case False
    with True port assms(2) have "user \<noteq> []" by (auto simp: user_at_host_def split: if_splits)
    with False have "before_last CHR ''@'' ?n = user"
      using before_last_append [of "CHR ''@''" "host @ port_suffix k" user] port assms(2) by (simp add: user_at_host_def)
    with assms(1) show ?thesis by simp
  qed
  with True show ?thesis by (simp add: user_info_def partition_at_none)
qed (simp add: user_info_def)

section \<open>Parsing what was put together\<close>

definition tidy :: "string \<Rightarrow> bool" where
  "tidy s \<longleftrightarrow> set s \<inter> {CHR 0x09, CHR 0x0A, CHR 0x0D} = {}"

lemma tidy_simps [simp]: "tidy []" "tidy (a @ b) \<longleftrightarrow> tidy a \<and> tidy b"
  by (auto simp: tidy_def)

lemma cleaned_tidy: "tidy (cleaned_url u)"
  by (auto simp: tidy_def cleaned_url_def)

lemma cleaned_id: "tidy u \<Longrightarrow> u = [] \<or> 32 < (of_char (hd u) :: nat) \<Longrightarrow> cleaned_url u = u"
  by (cases u) (auto simp: cleaned_url_def tidy_def filter_id_conv)

lemma scheme_char_visible: "scheme_char c \<Longrightarrow> 32 < (of_char c :: nat) \<and> c \<noteq> CHR '':''"
  by (auto simp: scheme_char_def in_ranges_def az_def AZ_def d09_def chr_def)

text \<open>A scheme as \<open>urlsplit\<close> returns it.\<close>

definition scheme_ok :: "string \<Rightarrow> bool" where
  "scheme_ok s \<longleftrightarrow> s = [] \<or> is_letter (hd s) \<and> list_all scheme_char s \<and> lower s = s"

definition rest_ok :: "string \<Rightarrow> bool" where
  "rest_ok t \<longleftrightarrow> t = [] \<or> netloc_end (hd t)"

lemma netloc_end_chars: "netloc_end c \<Longrightarrow> 32 < (of_char c :: nat) \<and> \<not> is_letter c"
  by (auto simp: netloc_end_def is_letter_def in_ranges_def az_def AZ_def)

lemma split_scheme_built:
  assumes "scheme_ok s" and "rest_ok t"
  shows "split_scheme ((if s = [] then [] else s @ '':'') @ t) = (s, t)"
proof (cases "s = []")
  case True
  obtain a b r where p: "partition_at CHR '':'' t = (a, b, r)" by (cases "partition_at CHR '':'' t")
  from partition_at_parts [OF p] have "a = [] \<or> t \<noteq> [] \<and> hd t = hd a" by (auto simp: hd_append split: if_splits)
  with assms(2) netloc_end_chars have "a = [] \<or> \<not> is_letter (hd a)" by (auto simp: rest_ok_def)
  with True p show ?thesis by (auto simp: split_scheme_def)
next
  case False
  then have "CHR '':'' \<notin> set s" using assms(1) scheme_char_visible by (auto simp: scheme_ok_def list_all_iff)
  from partition_at_append [OF this, of t] False assms(1) show ?thesis by (auto simp: split_scheme_def scheme_ok_def)
qed

lemma split_netloc_built:
  assumes "\<forall>c \<in> set n. \<not> netloc_end c" and "rest_ok t" and "\<not> b \<Longrightarrow> n = [] \<and> \<not> startswith t ''//''"
  shows "fst (split_netloc (if b then ''//'' @ n @ t else t)) = n"
proof (cases b)
  case True
  have "takeWhile (\<lambda>c. \<not> netloc_end c) (n @ t) = n"
    using assms(1,2) by (cases t) (auto simp: rest_ok_def)
  with True show ?thesis by (simp add: split_netloc_def)
qed (use assms(3) in \<open>simp add: split_netloc_def\<close>)

lemma urlparse_shape:
  assumes "urlparse lib u = Inr q"
  shows "up_scheme q = fst (split_scheme (cleaned_url u)) \<and>
    up_netloc q = fst (split_netloc (snd (split_scheme (cleaned_url u))))"
proof -
  obtain r3 f b1 where f: "partition_at CHR ''#'' (snd (split_netloc (snd (split_scheme (cleaned_url u))))) = (r3, b1, f)"
    by (cases "partition_at CHR ''#'' (snd (split_netloc (snd (split_scheme (cleaned_url u)))))") auto
  with assms show ?thesis unfolding urlparse_def by (auto simp: case_prod_beta split: if_splits)
qed

lemma parse_netloc:
  assumes "scheme_ok s" and "\<forall>c \<in> set n. \<not> netloc_end c" and "rest_ok t" and "tidy s" and "tidy n" and "tidy t"
    and "\<not> b \<Longrightarrow> n = [] \<and> \<not> startswith t ''//''"
    and "u = (if s = [] then [] else s @ '':'') @ (if b then ''//'' @ n @ t else t)" and "urlparse lib u = Inr q"
  shows "up_netloc q = n"
proof -
  let ?t = "if b then ''//'' @ n @ t else t"
  have t: "rest_ok ?t" using assms(3) by (auto simp: rest_ok_def netloc_end_def)
  have "cleaned_url u = u"
  proof (rule cleaned_id)
    show "tidy u" using assms(4-6,8) by (auto simp: tidy_def)
    show "u = [] \<or> 32 < (of_char (hd u) :: nat)"
      using assms(1) t netloc_end_chars scheme_char_visible unfolding assms(8)
      by (cases s) (auto simp: scheme_ok_def rest_ok_def)
  qed
  with split_scheme_built [OF assms(1) t] have "split_scheme (cleaned_url u) = (s, ?t)" by (simp only: assms(8))
  with urlparse_shape [OF assms(9)] split_netloc_built [OF assms(2,3,7)] show ?thesis by simp
qed

section \<open>The stripped DSN\<close>

lemma tidy_parts: "tidy s \<Longrightarrow> set a \<subseteq> set s \<Longrightarrow> tidy a"
  by (auto simp: tidy_def)

lemma split_scheme_parts:
  assumes "split_scheme s = (a, r)" and "tidy s"
  shows "scheme_ok a \<and> tidy a \<and> tidy r"
proof -
  obtain x b y where p: "partition_at CHR '':'' s = (x, b, y)" by (cases "partition_at CHR '':'' s")
  from assms(1) p have c: "a = [] \<and> r = s \<or> a = lower x \<and> r = y \<and> x \<noteq> [] \<and> is_letter (hd x) \<and> list_all scheme_char x"
    by (auto simp: split_scheme_def split: if_splits)
  have low: "is_letter k \<Longrightarrow> is_letter (lower_char k)" "scheme_char k \<Longrightarrow> scheme_char (lower_char k)" for k
    by (auto simp: lower_char_def is_letter_def scheme_char_def in_ranges_def az_def AZ_def d09_def chr_def Let_def)
  show ?thesis
  proof (cases "a = [] \<and> r = s")
    case False
    with c have x: "a = lower x" "r = y" "x \<noteq> []" "is_letter (hd x)" "list_all scheme_char x" by auto
    have ok: "scheme_ok a" using x low by (auto simp: scheme_ok_def list_all_iff lower_def hd_map)
    have "scheme_char k" if "k \<in> set a" for k using x(1,5) low(2) that by (auto simp: list_all_iff lower_def)
    then have "tidy a" using scheme_char_visible unfolding tidy_def by fastforce
    with ok x tidy_parts [OF assms(2)] partition_subset [OF p] show ?thesis by auto
  qed (use assms(2) in \<open>auto simp: scheme_ok_def\<close>)
qed

lemma after_last_shorter: "c \<in> set s \<Longrightarrow> length (after_last c s) < length s"
proof -
  assume "c \<in> set s"
  then obtain x z where s: "s = x @ c # z" "c \<notin> set z" by (auto dest: split_list_last)
  with until(2) [of c "rev z" "rev x"] show ?thesis by (simp add: after_last_def)
qed

lemma split_params_parts:
  "split_params s = (p, q) \<Longrightarrow> s = [] \<or> hd s = CHR ''/'' \<Longrightarrow>
   set p \<subseteq> set s \<and> set q \<subseteq> set s \<and> (p = [] \<and> q = [] \<or> p \<noteq> [] \<and> hd p = CHR ''/'')"
proof -
  assume sp: "split_params s = (p, q)" and h: "s = [] \<or> hd s = CHR ''/''"
  let ?g = "after_last CHR ''/'' s"
  obtain x b y where pt: "partition_at CHR '';'' ?g = (x, b, y)" by (cases "partition_at CHR '';'' ?g")
  have sub: "set x \<subseteq> set s" "set y \<subseteq> set s" using partition_subset [OF pt] after_last_subset by blast+
  show ?thesis
  proof (cases b)
    case True
    with sp pt have pq: "p = take (length s - length ?g) s @ x" "q = y" by (auto simp: split_params_def Let_def)
    from pt True partition_at_parts [OF pt] have "?g \<noteq> []" by auto
    then have s: "s \<noteq> []" by (auto simp: after_last_def)
    with h have "CHR ''/'' \<in> set s" by (metis hd_in_set)
    then have "length ?g < length s" by (rule after_last_shorter)
    with pq h s sub show ?thesis by (cases s) (auto dest: in_set_takeD simp: Suc_diff_le take_Cons')
  next
    case False
    with sp pt h show ?thesis by (auto simp: split_params_def Let_def)
  qed
qed

text \<open>What the parts of a URL with a network location look like.\<close>

lemma urlparse_parts:
  assumes "urlparse lib url = Inr p" and "up_netloc p \<noteq> []"
  shows "scheme_ok (up_scheme p)" "tidy (up_scheme p)" "tidy (up_netloc p)"
    "\<forall>c \<in> set (up_netloc p). \<not> netloc_end c"
    "tidy (up_path p) \<and> tidy (up_params p) \<and> tidy (up_query p) \<and> tidy (up_fragment p)"
    "up_path p = [] \<and> up_params p = [] \<or> up_path p \<noteq> [] \<and> hd (up_path p) = CHR ''/''"
proof -
  obtain a r1 where a: "split_scheme (cleaned_url url) = (a, r1)" by (cases "split_scheme (cleaned_url url)")
  obtain n r2 where n: "split_netloc r1 = (n, r2)" by (cases "split_netloc r1")
  obtain r3 b1 f where f: "partition_at CHR ''#'' r2 = (r3, b1, f)" by (cases "partition_at CHR ''#'' r2")
  obtain r4 b2 q where q: "partition_at CHR ''?'' r3 = (r4, b2, q)" by (cases "partition_at CHR ''?'' r3")
  obtain x y where xy: "(if a \<in> set uses_params then split_params r4 else (r4, [])) = (x, y)"
    by (cases "if a \<in> set uses_params then split_params r4 else (r4, [])")
  from assms(1) a n f q xy have p: "p = \<lparr>up_scheme = a, up_netloc = n, up_path = x, up_params = y, up_query = q, up_fragment = f\<rparr>"
    by (simp add: urlparse_def split: if_splits)
  from split_scheme_parts [OF a cleaned_tidy] have s: "scheme_ok a" "tidy a" "tidy r1" by auto
  from n assms(2) p have nn: "n = takeWhile (\<lambda>c. \<not> netloc_end c) (drop 2 r1)" "r2 = dropWhile (\<lambda>c. \<not> netloc_end c) (drop 2 r1)"
    by (auto simp: split_netloc_def split: if_splits)
  have t2: "tidy n" "tidy r2"
    using tidy_parts [OF s(3)] unfolding nn by (meson in_set_dropD set_dropWhileD set_takeWhileD subsetI)+
  have h2: "r2 = [] \<or> netloc_end (hd r2)" unfolding nn by (metis hd_dropWhile)
  have t3: "tidy r3" "tidy f" using tidy_parts [OF t2(2)] partition_subset [OF f] by auto
  have t4: "tidy r4" "tidy q" using tidy_parts [OF t3(1)] partition_subset [OF q] by auto
  have h4: "r4 = [] \<or> hd r4 = CHR ''/''"
  proof (cases r4)
    case (Cons c cs)
    with partition_at_parts [OF q] partition_at_parts [OF f] h2 show ?thesis
      by (auto simp: netloc_end_def split: if_splits)
  qed simp
  from split_params_parts [of r4 x y] xy h4 have pq:
    "set x \<subseteq> set r4" "set y \<subseteq> set r4" "x = [] \<and> y = [] \<or> x \<noteq> [] \<and> hd x = CHR ''/''"
    by (auto split: if_splits)
  show "scheme_ok (up_scheme p)" "tidy (up_scheme p)" "tidy (up_netloc p)"
    "\<forall>c \<in> set (up_netloc p). \<not> netloc_end c"
    "tidy (up_path p) \<and> tidy (up_params p) \<and> tidy (up_query p) \<and> tidy (up_fragment p)"
    "up_path p = [] \<and> up_params p = [] \<or> up_path p \<noteq> [] \<and> hd (up_path p) = CHR ''/''"
    using s t2 t3 t4 pq tidy_parts [OF t4(1)] unfolding p nn by (auto dest: set_takeWhileD)
qed

lemma suffixed_rest:
  assumes "url = [] \<or> hd url = CHR ''/''"
  shows "rest_ok (url @ suffixed CHR ''?'' q @ suffixed CHR ''#'' f)"
    and "startswith (url @ suffixed CHR ''?'' q @ suffixed CHR ''#'' f) ''//'' = startswith url ''//''"
proof -
  show "rest_ok (url @ suffixed CHR ''?'' q @ suffixed CHR ''#'' f)"
    using assms by (cases url) (auto simp: rest_ok_def suffixed_def netloc_end_def)
  show "startswith (url @ suffixed CHR ''?'' q @ suffixed CHR ''#'' f) ''//'' = startswith url ''//''"
  proof (cases url)
    case (Cons c cs)
    then show ?thesis by (cases cs) (auto simp: suffixed_def)
  qed (auto simp: suffixed_def)
qed

lemma stripped_netloc:
  assumes p: "urlparse lib url = Inr p" "up_netloc p \<noteq> []"
    and n_def: "n = user_at_host (url_user p) (url_host p) @ port_suffix k"
    and q: "urlparse lib (urlunparse (p\<lparr>up_netloc := n\<rparr>)) = Inr q"
  shows "up_netloc q = n"
proof -
  note parts = urlparse_parts [OF p]
  let ?url = "up_path p @ suffixed CHR '';'' (up_params p)"
  let ?t = "?url @ suffixed CHR ''?'' (up_query p) @ suffixed CHR ''#'' (up_fragment p)"
  let ?b = "n \<noteq> [] \<or> up_scheme p \<noteq> [] \<and> up_scheme p \<in> set uses_netloc \<or> startswith ?url ''//''"
  have url: "?url = [] \<or> hd ?url = CHR ''/''" using parts(6) by (auto simp: suffixed_def)
  have u: "urlunparse (p\<lparr>up_netloc := n\<rparr>) =
      (if up_scheme p = [] then [] else up_scheme p @ '':'') @ (if ?b then ''//'' @ n @ ?t else ?t)"
    using url by (auto simp: urlunparse_def with_netloc_def)
  have user: "set (url_user p) \<subseteq> set (up_netloc p)"
  proof -
    have "set (before_last CHR ''@'' (up_netloc p)) \<subseteq> set (up_netloc p)"
      by (auto simp: before_last_def dest: list.set_sel(2) [rotated] set_dropWhileD) (metis list.set_sel(2) set_dropWhileD set_rev list.sel(2))
    then show ?thesis by (auto simp: url_user_def user_info_def split: prod.splits dest!: partition_subset)
  qed
  have chars: "c \<notin> set n" if "c \<in> {CHR ''/'', CHR ''?'', CHR ''#'', CHR 0x09, CHR 0x0A, CHR 0x0D}" for c
  proof
    assume "c \<in> set n"
    then have "c \<in> set (url_user p) \<or> c \<in> set (url_host p) \<or> c = CHR ''@'' \<or> c \<in> set (port_suffix k)"
      by (auto simp: n_def user_at_host_def split: if_splits)
    moreover have "c \<notin> set (port_suffix k)" using that port_suffix_chars [of c k] is_digit_apart [of c] by auto
    ultimately have "c \<in> set (up_netloc p)" using user url_host_set [of c p] that by auto
    with parts(3,4) that show False by (auto simp: tidy_def netloc_end_def)
  qed
  show ?thesis
  proof (rule parse_netloc [OF parts(1) _ suffixed_rest(1) [OF url] parts(2) _ _ _ u q])
    show "\<forall>c \<in> set n. \<not> netloc_end c" "tidy n" using chars by (auto simp: netloc_end_def tidy_def)
    show "tidy ?t" using parts(5) by (auto simp: suffixed_def tidy_def)
    show "\<not> ?b \<Longrightarrow> n = [] \<and> \<not> startswith ?t ''//''"
      using suffixed_rest(2) [OF url] by blast
  qed
qed

text \<open>
  C11: No stripped connection string carries a password. Whatever text is given, what the stripping makes
  of it, when it makes anything, has no password for any reader that takes URLs apart as the standard
  library does: not the original one, and none that odd user names, hosts or paths could turn into one.
\<close>

theorem stripped_passwordless:
  assumes "strip_dsn_password lib url = Inr u" and "urlparse lib u = Inr q"
  shows "url_password q = None"
proof (cases "\<exists>p. urlparse lib url = Inr p \<and> url_password p \<noteq> None")
  case False
  with assms show ?thesis by (auto simp: strip_dsn_password_def split: sum.splits if_splits)
next
  case True
  then obtain p where p: "urlparse lib url = Inr p" and pw: "url_password p \<noteq> None" by blast
  with assms(1) obtain k where
    u: "u = urlunparse (p\<lparr>up_netloc := user_at_host (url_user p) (url_host p) @ port_suffix k\<rparr>)"
    by (auto simp: strip_dsn_password_def split: sum.splits)
  have "up_netloc p \<noteq> []" using pw by (auto simp: url_password_def user_info_def)
  from stripped_netloc [OF p this refl assms(2) [unfolded u]]
  have n: "up_netloc q = user_at_host (url_user p) (url_host p) @ port_suffix k" .
  have "CHR ''@'' \<notin> set (url_host p)" using url_host_set by blast
  with no_password [OF user_no_colon] show ?thesis by (simp add: url_password_def n)
qed

definition permissive_lib :: script_lib where
  "permissive_lib = \<lparr>sl_pack = (\<lambda>ms. []), sl_csv = (\<lambda>t. []), sl_loads = (\<lambda>t. None), sl_dumps = (\<lambda>v. []),
     sl_netloc_ok = (\<lambda>n. True), sl_expanduser = id, sl_resolve = id\<rparr>"

lemmas url_defs = urlparse_def cleaned_url_def split_scheme_def partition_at_def is_letter_def scheme_char_def
  in_ranges_def az_def AZ_def d09_def chr_def split_netloc_def netloc_end_def netloc_ok_def permissive_lib_def
  uses_params_def lower_def lower_char_def Let_def

lemma sample_dsn:
  "strip_dsn_password permissive_lib ''pg://me:pw@db/app?a=b'' = Inr ''pg://me@db/app?a=b''"
  by (simp add: strip_dsn_password_def url_defs url_password_def user_info_def before_last_def url_port_def
      host_info_def after_last_def urlunparse_def with_netloc_def suffixed_def user_at_host_def url_user_def
      url_host_def port_suffix_def)

lemma sample_dsn_parses: "\<exists>q. urlparse permissive_lib ''pg://me@db/app?a=b'' = Inr q \<and> up_path q = ''/app''"
  by (simp add: url_defs)

theorem stripped_passwordless_witness:
  "\<exists>q. urlparse permissive_lib ''pg://me@db/app?a=b'' = Inr q \<and> up_path q = ''/app'' \<and> url_password q = None"
  using sample_dsn_parses stripped_passwordless [OF sample_dsn] by blast

end
