(* ===== verification/Archive_Scan.thy ===== *)
theory Archive_Scan
  imports Ops
begin

text \<open>
  The secret scan of \<open>scripts/offboard_client.py\<close>: the archive and every member of it are searched for
  secret shapes in overlapping windows, and a hit keeps the archive from being delivered.
\<close>

section \<open>The rules\<close>

text \<open>
  A rule is a name, the characters that may not stand right before a match, the alternatives of the
  expression and the characters that may not stand right after one. Only the rule with a match of fixed
  length has such fences, so which of several matches is taken never matters.
\<close>

record secret_rule =
  sr_name :: string
  sr_before :: ranges
  sr_alts :: "pattern list"
  sr_after :: ranges

text \<open>\<open>\s\<close> of an expression over bytes.\<close>

definition byte_space :: ranges where
  "byte_space = [(9, 13), (32, 32)]"

definition opt_item :: "ranges \<Rightarrow> item" where
  "opt_item rs = Rep (In rs) 0 (Some 1) True"

definition pem_rule :: secret_rule where
  "pem_rule = \<lparr>sr_name = ''pem-private-key'', sr_before = [],
     sr_alts = map (\<lambda>k. lit (''-----BEGIN '' @ k @ ''PRIVATE KEY-----'')) [''RSA '', ''EC '', ''OPENSSH '', []],
     sr_after = []\<rparr>"

definition dsn_rule :: secret_rule where
  "dsn_rule = \<lparr>sr_name = ''postgres-url-with-password'', sr_before = [],
     sr_alts = map (\<lambda>scheme. lit (scheme @ ''://'') @
       [plus (NotIn ([chr CHR '':'', chr CHR ''/''] @ byte_space)) 1] @ lit '':'' @
       [plus (NotIn ([chr CHR ''@'', chr CHR ''/''] @ byte_space)) 1] @ lit ''@'') [''postgresql'', ''postgres''],
     sr_after = []\<rparr>"

definition aws_rule :: secret_rule where
  "aws_rule = \<lparr>sr_name = ''aws-access-key-id'', sr_before = [AZ, d09],
     sr_alts = [lit ''AKIA'' @ [Rep (In [d09, AZ]) 16 (Some 16) True]], sr_after = [AZ, d09]\<rparr>"

definition assignment_rule :: secret_rule where
  "assignment_rule = \<lparr>sr_name = ''generic-api-key-assignment'', sr_before = [],
     sr_alts = map (\<lambda>(a, b). map ci a @ [opt_item [chr CHR ''_'', chr CHR ''-'']] @ map ci b @
       [plus (In byte_space) 0, One (In [chr CHR '':'', chr CHR ''='']), plus (In byte_space) 0,
        opt_item [chr CHR 0x27, chr CHR 0x22], plus (In [AZ, az, d09, chr CHR ''_'', chr CHR ''-'']) 16])
       [(''api'', ''key''), (''secret'', ''key''), (''auth'', ''token''), (''access'', ''token'')],
     sr_after = []\<rparr>"

definition bearer_rule :: secret_rule where
  "bearer_rule = \<lparr>sr_name = ''bearer-token'', sr_before = [],
     sr_alts = [map ci ''authorization'' @ [plus (In byte_space) 0] @ lit '':'' @ [plus (In byte_space) 0] @
       map ci ''bearer'' @ [plus (In byte_space) 1,
         plus (In [AZ, az, d09, chr CHR ''-'', chr CHR ''.'', chr CHR ''_'', chr CHR ''~'', chr CHR ''+'',
                   chr CHR ''/'']) 1,
         plus (In [chr CHR ''='']) 0]],
     sr_after = []\<rparr>"

definition secret_patterns :: "secret_rule list" where
  "secret_patterns = [pem_rule, dsn_rule, aws_rule, assignment_rule, bearer_rule]"

section \<open>Searching\<close>

definition fenced :: "ranges \<Rightarrow> char option \<Rightarrow> bool" where
  "fenced rs c \<longleftrightarrow> (case c of None \<Rightarrow> True | Some x \<Rightarrow> \<not> in_ranges rs x)"

definition head_of :: "string \<Rightarrow> char option" where
  "head_of s = (case s of [] \<Rightarrow> None | c # cs \<Rightarrow> Some c)"

definition rule_at :: "secret_rule \<Rightarrow> char option \<Rightarrow> string \<Rightarrow> bool" where
  "rule_at r prev s \<longleftrightarrow> fenced (sr_before r) prev \<and>
     list_ex (\<lambda>p. case match_at p prev s of None \<Rightarrow> False | Some k \<Rightarrow> fenced (sr_after r) (head_of (drop k s)))
       (sr_alts r)"

text \<open>\<open>pattern.search(data)\<close>; no rule matches nothing.\<close>

fun rule_found :: "secret_rule \<Rightarrow> char option \<Rightarrow> string \<Rightarrow> bool" where
  "rule_found r prev [] = False"
| "rule_found r prev (c # cs) = (rule_at r prev (c # cs) \<or> rule_found r (Some c) cs)"

record scan_hit =
  sh_path :: string
  sh_rule :: string

definition scan_bytes :: "string \<Rightarrow> string \<Rightarrow> scan_hit list" where
  "scan_bytes label data =
     map (\<lambda>r. \<lparr>sh_path = label, sh_rule = sr_name r\<rparr>) (filter (\<lambda>r. rule_found r None data) secret_patterns)"

definition scan_overlap :: nat where "scan_overlap = 128"
definition scan_chunk :: nat where "scan_chunk = 1048576"

text \<open>What successive calls of \<open>stream.read(n)\<close> return, up to the empty answer at the end.\<close>

function stream_reads :: "nat \<Rightarrow> string \<Rightarrow> string list" where
  "stream_reads n s = (if n = 0 \<or> s = [] then [] else take n s # stream_reads n (drop n s))"
  by pat_completeness auto
termination
  by (relation "measure (\<lambda>(n, s). length s)") auto

declare stream_reads.simps [simp del]

definition last_bytes :: "nat \<Rightarrow> string \<Rightarrow> string" where
  "last_bytes n s = drop (length s - n) s"

text \<open>The loop, with the rules found so far and the bytes carried over.\<close>

fun scan_windows :: "string \<Rightarrow> string list \<Rightarrow> string \<Rightarrow> string list \<Rightarrow> scan_hit list" where
  "scan_windows label found carry [] = []"
| "scan_windows label found carry (chunk # chunks) =
     (let window = carry @ chunk;
          new = filter (\<lambda>r. sr_name r \<notin> set found \<and> rule_found r None window) secret_patterns
      in map (\<lambda>r. \<lparr>sh_path = label, sh_rule = sr_name r\<rparr>) new @
         scan_windows label (found @ map sr_name new) (last_bytes scan_overlap window) chunks)"

definition scan_stream :: "string \<Rightarrow> string \<Rightarrow> scan_hit list" where
  "scan_stream label data = scan_windows label [] [] (stream_reads scan_chunk data)"

text \<open>The archive as a file, then each member as the archive's reader returns it.\<close>

definition scan_archive :: "string \<Rightarrow> string \<Rightarrow> (string \<times> string) list \<Rightarrow> scan_hit list" where
  "scan_archive name packed members =
     scan_stream name packed @ concat (map (\<lambda>(n, data). scan_stream n data) members)"

definition assert_archive_clean :: "string \<Rightarrow> string \<Rightarrow> string \<Rightarrow> (string \<times> string) list \<Rightarrow> exn + unit" where
  "assert_archive_clean path name packed members =
     (let hits = scan_archive name packed members
      in if hits = [] then Inr ()
         else Inl (OffboardError (''secret scan FAILED on '' @ path @ '' '' @ em_dash @
           '' refusing to deliver/destroy:'' @ nl @
           join nl (map (\<lambda>h. ''  - '' @ sh_path h @ '': '' @ sh_rule h) hits) @ nl @
           ''Inspect the export, redact, and re-run. See docs/OFFBOARDING.md.'')))"

section \<open>What the scan finds\<close>

definition unbounded :: "pattern \<Rightarrow> bool" where
  "unbounded p \<longleftrightarrow> Bound \<notin> set p"

lemma first_some_not_None: "x \<in> set xs \<Longrightarrow> f x \<noteq> None \<Longrightarrow> first_some f xs \<noteq> None"
  by (induction xs) (auto split: option.splits)

lemma run_append: "length (takeWhile P s) \<le> length (takeWhile P (s @ v))"
  by (induction s) auto

lemma counts_append: "k \<in> set (counts c lo hi g s) \<Longrightarrow> k \<in> set (counts c lo hi g (s @ v)) \<and> k \<le> length s"
  using run_append [of "in_cls c" s v] length_takeWhile_le [of "in_cls c" s]
  by (fastforce simp: counts_def Let_def split: option.splits if_splits)

text \<open>What follows a match does not undo it.\<close>

lemma match_extend:
  "match_at p prev s = Some k \<Longrightarrow> unbounded p \<Longrightarrow> \<exists>j. match_at p prev' (s @ v) = Some j"
proof (induction p prev s arbitrary: k prev' rule: match_at.induct)
  case (3 c r prev s)
  then show ?case by (cases s) (auto simp: unbounded_def split: if_splits)
next
  case (4 c lo hi g r prev s)
  from first_some_Some [OF 4(2) [unfolded match_at.simps]] obtain a where a: "a \<in> set (counts c lo hi g s)"
    and b: "map_option ((+) a) (match_at r (prev_of prev s a) (drop a s)) = Some k" by blast
  then obtain b where b: "match_at r (prev_of prev s a) (drop a s) = Some b" by auto
  from counts_append [OF a, of v] have a': "a \<in> set (counts c lo hi g (s @ v))" "a \<le> length s" by auto
  from 4(1) [OF b, of "prev_of prev' (s @ v) a"] 4(3) a'(2)
  have "map_option ((+) a) (match_at r (prev_of prev' (s @ v) a) (drop a (s @ v))) \<noteq> None"
    by (auto simp: unbounded_def)
  from first_some_not_None [where f = "\<lambda>k. map_option ((+) k) (match_at r (prev_of prev' (s @ v) k) (drop k (s @ v)))",
      OF a'(1) this]
  show ?case by auto
qed (auto simp: unbounded_def)

lemma match_fixed: "match_at (lit l @ [Rep c n (Some n) True]) prev s = Some k \<Longrightarrow> k = length l + n"
proof (induction l arbitrary: prev s k)
  case Nil
  then show ?case
    by (auto simp: lit_def counts_def Let_def split: if_splits dest!: first_some_Some)
next
  case (Cons x l)
  then show ?case by (cases s) (auto simp: lit_def chr_item_def split: if_splits)
qed

lemma rules_unbounded: "r \<in> set secret_patterns \<Longrightarrow> p \<in> set (sr_alts r) \<Longrightarrow> unbounded p"
  by (auto simp: secret_patterns_def pem_rule_def dsn_rule_def aws_rule_def assignment_rule_def bearer_rule_def
      unbounded_def lit_def chr_item_def ci_def plus_def opt_item_def)

text \<open>A secret: all of it is matched, and what stands around it does not make it part of something else.\<close>

definition secret_in :: "secret_rule \<Rightarrow> string \<Rightarrow> string \<Rightarrow> string \<Rightarrow> bool" where
  "secret_in r a x b \<longleftrightarrow> (\<exists>p \<in> set (sr_alts r). match_at p None x = Some (length x)) \<and>
     (a \<noteq> [] \<longrightarrow> fenced (sr_before r) (Some (last a))) \<and> fenced (sr_after r) (head_of b)"

lemma secret_seen:
  assumes r: "r \<in> set secret_patterns" and x: "secret_in r a x b" and x0: "x \<noteq> []"
    and u: "u = drop n a" "n \<le> length a" and v: "v = take m b"
  shows "rule_found r None (u @ x @ v)"
proof -
  from x obtain p where p: "p \<in> set (sr_alts r)" "match_at p None x = Some (length x)" unfolding secret_in_def by blast
  have here: "rule_at r prev (x @ v)" if prev: "prev = None \<or> a \<noteq> [] \<and> prev = Some (last a)" for prev
  proof -
    from match_extend [OF p(2) rules_unbounded [OF r p(1)], of prev v] obtain j where
      j: "match_at p prev (x @ v) = Some j" by blast
    have "fenced (sr_after r) (head_of (drop j (x @ v)))"
    proof (cases "r = aws_rule")
      case True
      with p(1) have "p = lit ''AKIA'' @ [Rep (In [d09, AZ]) 16 (Some 16) True]" by (simp add: aws_rule_def)
      with match_fixed p(2) j have "j = length x" by metis
      then show ?thesis using x v by (cases b; cases m) (auto simp: secret_in_def head_of_def fenced_def)
    next
      case False
      with r have "sr_after r = []"
        by (auto simp: secret_patterns_def pem_rule_def dsn_rule_def assignment_rule_def bearer_rule_def)
      then show ?thesis by (simp add: fenced_def in_ranges_def split: option.split)
    qed
    moreover have "fenced (sr_before r) prev" using prev x by (auto simp: secret_in_def fenced_def)
    ultimately show ?thesis using j p(1) by (auto simp: rule_at_def list_ex_iff intro!: bexI [of _ p])
  qed
  have "rule_found r prev (u @ x @ v)" if "prev = None" "u = drop n a" for prev :: "char option" and u n
  proof (cases u rule: rev_cases)
    case Nil
    with here [of None] x0 that show ?thesis by (cases x) auto
  next
    case (snoc u' c)
    have found: "rule_found r q (w @ s)" if "rule_at r (Some c) s" "s \<noteq> []" "w = w' @ [c]" for q w w' c s
      using that by (induction w' arbitrary: q w) (auto simp: neq_Nil_conv)
    have "a = take n a @ u' @ [c]" using snoc that by (metis append_take_drop_id)
    then have "a \<noteq> []" "last a = c" by (metis append_is_Nil_conv not_Cons_self2, metis append_assoc last_snoc)
    with here [of "Some c"] found [of c "x @ v" u u'] x0 snoc show ?thesis by auto
  qed
  with u show ?thesis by blast
qed

lemma last_bytes_window: "length w \<le> length d \<Longrightarrow> w = last_bytes (length w) d \<Longrightarrow> n \<le> length w \<or> w = d \<Longrightarrow>
   last_bytes n (w @ c) = last_bytes n (d @ c)"
proof -
  assume w: "length w \<le> length d" "w = last_bytes (length w) d" "n \<le> length w \<or> w = d"
  have d: "d = take (length d - length w) d @ w" using w(2) unfolding last_bytes_def by (metis append_take_drop_id)
  show ?thesis
  proof (cases "w = d")
    case False
    with w(3) have n: "n \<le> length w + length c" by simp
    have "last_bytes n (take (length d - length w) d @ (w @ c)) = last_bytes n (w @ c)"
      using n by (simp add: last_bytes_def)
    with d show ?thesis by (metis append.assoc)
  qed simp
qed

text \<open>The windows overlap far enough for a secret of at most 129 bytes.\<close>

lemma scan_windows_find:
  assumes r: "r \<in> set secret_patterns" and x: "secret_in r a x b" and x0: "x \<noteq> []"
    and short: "length x \<le> Suc scan_overlap"
  shows "seen @ concat chunks = a @ x @ b \<Longrightarrow> length seen < length (a @ x) \<Longrightarrow> [] \<notin> set chunks \<Longrightarrow>
    sr_name r \<in> set found \<or>
    \<lparr>sh_path = label, sh_rule = sr_name r\<rparr> \<in> set (scan_windows label found (last_bytes scan_overlap seen) chunks)"
proof (induction chunks arbitrary: seen found)
  case Nil
  then show ?case by (auto dest: arg_cong [of _ _ length])
next
  case (Cons c chunks)
  let ?w = "last_bytes scan_overlap seen @ c"
  define new where "new = filter (\<lambda>r. sr_name r \<notin> set found \<and> rule_found r None ?w) secret_patterns"
  have carry: "last_bytes scan_overlap ?w = last_bytes scan_overlap (seen @ c)"
    by (rule last_bytes_window) (cases "length seen \<le> scan_overlap"; simp add: last_bytes_def)+
  have step: "scan_windows label found (last_bytes scan_overlap seen) (c # chunks) =
      map (\<lambda>r. \<lparr>sh_path = label, sh_rule = sr_name r\<rparr>) new @
      scan_windows label (found @ map sr_name new) (last_bytes scan_overlap (seen @ c)) chunks"
    by (simp add: Let_def new_def carry)
  show ?case
  proof (cases "length (a @ x) \<le> length (seen @ c)")
    case True
    define n where "n = length seen - scan_overlap"
    define m where "m = length (seen @ c) - length (a @ x)"
    have "seen @ c = take (length (seen @ c)) ((a @ x) @ b)"
      using Cons.prems(1) by (metis append.assoc append_eq_conv_conj concat.simps(2))
    also have "\<dots> = (a @ x) @ take m b" using True by (simp add: m_def del: append_assoc)
    finally have v: "seen @ c = a @ x @ take m b" by simp
    have n: "n \<le> length a" using Cons.prems(2) short by (auto simp: n_def scan_overlap_def)
    have "?w = drop n (seen @ c)" by (auto simp: n_def last_bytes_def)
    with v n have "?w = drop n a @ x @ take m b" by simp
    with secret_seen [OF r x x0 refl n refl] have "rule_found r None ?w" by simp
    with r have "sr_name r \<in> set found \<or> r \<in> set new" by (auto simp: new_def)
    then show ?thesis unfolding step by auto
  next
    case False
    with Cons.IH [of "seen @ c" "found @ map sr_name new"] Cons.prems
    have "sr_name r \<in> set (found @ map sr_name new) \<or> \<lparr>sh_path = label, sh_rule = sr_name r\<rparr> \<in>
        set (scan_windows label (found @ map sr_name new) (last_bytes scan_overlap (seen @ c)) chunks)" by auto
    then show ?thesis unfolding step by auto
  qed
qed

lemma stream_reads_concat: "0 < n \<Longrightarrow> concat (stream_reads n s) = s \<and> [] \<notin> set (stream_reads n s)"
  by (induction n s rule: stream_reads.induct) (subst (1 2) stream_reads.simps, auto)

lemma scan_finds:
  assumes "data = packed \<or> data \<in> snd ` set members" and "data = a @ x @ b"
    and "r \<in> set secret_patterns" and "secret_in r a x b" and "x \<noteq> []" and "length x \<le> 129"
  shows "scan_archive name packed members \<noteq> []"
proof -
  have short: "length x \<le> Suc scan_overlap" using assms(6) by (simp add: scan_overlap_def)
  have found: "scan_stream label data \<noteq> []" for label
    using scan_windows_find [OF assms(3,4,5) short, where seen = "[]" and chunks = "stream_reads scan_chunk data" and
        found = "[]" and label = label] stream_reads_concat [of scan_chunk data] assms(2,5)
    by (auto simp: scan_stream_def scan_chunk_def last_bytes_def)
  from assms(1) show ?thesis
  proof
    assume "data = packed"
    with found show ?thesis by (simp add: scan_archive_def)
  next
    assume "data \<in> snd ` set members"
    then obtain l where "(l, data) \<in> set members" by force
    with found [of l] show ?thesis by (force simp: scan_archive_def)
  qed
qed

text \<open>
  C10: The scan misses no short secret. Whatever the archive and its members hold, however long, a match
  of a rule of at most 129 bytes, fenced off as the rule asks, anywhere in the packed bytes or in a
  member, across the borders of the one-mebibyte reads too, keeps the archive from being delivered.
\<close>

theorem scan_complete:
  assumes "data = packed \<or> data \<in> snd ` set members" and "data = a @ x @ b"
    and "r \<in> set secret_patterns" and "secret_in r a x b" and "x \<noteq> []" and "length x \<le> 129"
  shows "\<exists>m. assert_archive_clean path name packed members = Inl (OffboardError m)"
  using scan_finds [OF assms] by (simp add: assert_archive_clean_def Let_def)

definition leaked_key :: string where
  "leaked_key = ''AKIA0123456789ABCDEF''"

theorem scan_complete_witness:
  "\<exists>m. assert_archive_clean ''x.tar.gz'' ''x.tar.gz'' [] [(''audit_ledger.json'', ''key '' @ leaked_key @ '', rotated'')] =
    Inl (OffboardError m)"
proof -
  have "secret_in aws_rule ''key '' leaked_key '', rotated''"
    by (simp add: secret_in_def aws_rule_def leaked_key_def lit_def chr_item_def in_ranges_def counts_def AZ_def d09_def
        fenced_def head_of_def Let_def)
  then show ?thesis
    by (intro scan_complete [where data = "''key '' @ leaked_key @ '', rotated''" and x = leaked_key and r = aws_rule])
      (simp_all add: secret_patterns_def leaked_key_def)
qed

end
