(* ===== verification/Fleet_Upgrade.thy ===== *)
theory Fleet_Upgrade
  imports Ops
begin

text \<open>
  \<open>scripts/fleet_upgrade.py\<close>: plan, apply, verify and record each client of the registry in turn, stopping
  at the first failure. Terraform and the deployed service are outside: their answers are those of
  \<open>Ops\<close>. Deleting the plan file afterwards and the waiting between probes leave no trace here.
\<close>

section \<open>Text edits\<close>

text \<open>
  A line \<open>key = "value"\<close> of a tfvars file: the text before the value's quote, the value, the text after it.
\<close>

definition assign_at :: "string \<Rightarrow> string \<Rightarrow> (string \<times> string \<times> string) option" where
  "assign_at key s =
     (let sp = takeWhile is_space s; s1 = dropWhile is_space s; s2 = drop (length key) s1;
          sp2 = takeWhile is_space s2
      in if \<not> startswith s1 key then None
         else (case dropWhile is_space s2 of
                 [] \<Rightarrow> None
               | e # s3 \<Rightarrow>
                   (case dropWhile is_space s3 of
                      [] \<Rightarrow> None
                    | q # s4 \<Rightarrow>
                        if e = CHR ''='' \<and> q = CHR 0x22 \<and> CHR 0x22 \<in> set s4
                        then Some (sp @ key @ sp2 @ [e] @ takeWhile is_space s3,
                                   takeWhile (\<lambda>c. c \<noteq> CHR 0x22) s4, tl (dropWhile (\<lambda>c. c \<noteq> CHR 0x22) s4))
                        else None)))"

text \<open>The first such line; \<open>bol\<close> says that the text starts at the beginning of a line.\<close>

fun find_assign :: "string \<Rightarrow> bool \<Rightarrow> string \<Rightarrow> (string \<times> string \<times> string) option" where
  "find_assign key bol [] = None"
| "find_assign key bol (c # cs) =
     (case (if bol then assign_at key (c # cs) else None) of
        Some r \<Rightarrow> Some r
      | None \<Rightarrow> map_option (\<lambda>(b, v, a). (c # b, v, a)) (find_assign key (c = CHR 0x0A) cs))"

definition assigned_value :: "string \<Rightarrow> string \<Rightarrow> string option" where
  "assigned_value key text = map_option (\<lambda>(b, v, a). v) (find_assign key True text)"

definition quoted :: "string \<Rightarrow> string" where
  "quoted s = [CHR 0x22] @ s @ [CHR 0x22]"

definition update_tfvars_image_version :: "string \<Rightarrow> string \<Rightarrow> exn + string" where
  "update_tfvars_image_version text version =
     (case find_assign ''image_version'' True text of
        None \<Rightarrow> Inl (UpgradeError (''tfvars has no `image_version = '' @ quoted ''...'' @ ''` line to pin''))
      | Some (b, v, a) \<Rightarrow> Inr (b @ quoted version @ a))"

text \<open>\<open>_ENTRY_RE.match(line)\<close>: the indent and the slug.\<close>

definition marker_at :: "string \<Rightarrow> (nat \<times> string) option" where
  "marker_at line =
     (case dropWhile is_space line of
        [] \<Rightarrow> None
      | d # s2 \<Rightarrow>
          (let s3 = dropWhile is_space s2;
               v = takeWhile (\<lambda>c. \<not> is_space c \<and> c \<noteq> CHR ''#'') (dropWhile is_space (drop 5 s3))
           in if d = CHR ''-'' \<and> takeWhile is_space s2 \<noteq> [] \<and> startswith s3 ''slug:'' \<and> v \<noteq> []
              then Some (length (takeWhile is_space line), v) else None))"

text \<open>A line \<open>key: value rest\<close>: its indent and what follows the value; \<open>value\<close> says what a value is made of.\<close>

definition field_at :: "string \<Rightarrow> (char \<Rightarrow> bool) \<Rightarrow> string \<Rightarrow> (string \<times> string) option" where
  "field_at key val body =
     (let s1 = dropWhile is_space body; s2 = dropWhile is_space (drop (length key + 1) s1)
      in if startswith s1 (key @ '':'') \<and> takeWhile val s2 \<noteq> []
         then Some (takeWhile is_space body, dropWhile val s2) else None)"

definition plain_value :: "char \<Rightarrow> bool" where
  "plain_value c \<longleftrightarrow> \<not> is_space c \<and> c \<noteq> CHR ''#''"

definition entry_start :: "string list \<Rightarrow> string \<Rightarrow> nat option" where
  "entry_start ls slug =
     List.find (\<lambda>i. map_option snd (marker_at (ls ! i)) = Some slug) [0..<length ls]"

definition entry_indent :: "string \<Rightarrow> nat" where
  "entry_indent line = (case marker_at line of Some (n, s) \<Rightarrow> n | None \<Rightarrow> 0)"

text \<open>A line that starts an entry indented no deeper than \<open>n\<close>.\<close>

definition sibling :: "nat \<Rightarrow> string \<Rightarrow> bool" where
  "sibling n line = (case marker_at line of Some (k, s) \<Rightarrow> k \<le> n | None \<Rightarrow> False)"

definition entry_end :: "string list \<Rightarrow> nat \<Rightarrow> nat" where
  "entry_end ls start =
     (case List.find (\<lambda>i. sibling (entry_indent (ls ! start)) (ls ! i)) [Suc start..<length ls] of
        Some i \<Rightarrow> i | None \<Rightarrow> length ls)"

text \<open>The loop over the lines of the entry, with its two flags.\<close>

fun pin_lines :: "string \<Rightarrow> string \<Rightarrow> bool \<Rightarrow> bool \<Rightarrow> string list \<Rightarrow> bool \<times> bool \<times> string list" where
  "pin_lines version day dv du [] = (dv, du, [])"
| "pin_lines version day dv du (line # ls) =
     (let (body, nl) = split_newline line in
      case (if dv then None else field_at ''version'' plain_value body) of
        Some (i, r) \<Rightarrow>
          (case pin_lines version day True du ls of (a, b, out) \<Rightarrow> (a, b, (i @ ''version: '' @ version @ r @ nl) # out))
      | None \<Rightarrow>
          (case (if du then None else field_at ''last_upgraded'' plain_value body) of
             Some (i, r) \<Rightarrow>
               (case pin_lines version day dv True ls of (a, b, out) \<Rightarrow> (a, b, (i @ ''last_upgraded: '' @ day @ r @ nl) # out))
           | None \<Rightarrow> (case pin_lines version day dv du ls of (a, b, out) \<Rightarrow> (a, b, line # out))))"

definition update_manifest_entry :: "string \<Rightarrow> string \<Rightarrow> string \<Rightarrow> date \<Rightarrow> exn + string" where
  "update_manifest_entry text slug version upgraded =
     (let ls = splitlines text in
      case entry_start ls slug of
        None \<Rightarrow> Inl (UpgradeError (manifest_name @ '': no entry with slug '' @ py_repr slug @ '' to update''))
      | Some start \<Rightarrow>
          (let stop = entry_end ls start in
           case pin_lines version (isoformat upgraded) False False (take (stop - start) (drop start ls)) of
             (dv, du, mid) \<Rightarrow>
               if dv \<and> du then Inr (concat (take start ls @ mid @ drop stop ls))
               else Inl (UpgradeError (manifest_name @ '': entry '' @ py_repr slug @ '' is missing field(s): '' @
                      join '', '' ((if dv then [] else [''version'']) @ (if du then [] else [''last_upgraded'']))))))"

section \<open>Targets\<close>

record target =
  tg_slug :: string
  tg_current_version :: string
  tg_target_version :: string
  tg_tfvars_rel :: string
  tg_project :: string
  tg_tracks_latest :: bool

text \<open>\<open>INFRA_DIR / rel\<close>; an absolute path replaces the directory.\<close>

definition infra_path :: "string \<Rightarrow> string \<Rightarrow> string" where
  "infra_path root rel = (if startswith rel ''/'' then rel else root @ ''/infra/'' @ rel)"

definition manifest_path :: "string \<Rightarrow> string" where
  "manifest_path root = root @ ''/infra/clients/'' @ manifest_name"

definition overlay_path :: "string \<Rightarrow> string" where
  "overlay_path root = root @ ''/infra/clients/'' @ overlay_name"

definition infra_relative :: "string \<Rightarrow> string" where
  "infra_relative tfvars =
     (let p = strip tfvars
      in if startswith p ''infra/'' then drop 6 p else if startswith p ''./infra/'' then drop 8 p else p)"

definition read_tfvars_image_version :: "string \<Rightarrow> string option OM" where
  "read_tfvars_image_version path =
     gets (\<lambda>s. case op_files s path of None \<Rightarrow> None | Some t \<Rightarrow> assigned_value ''image_version'' t)"

definition read_project_id :: "string \<Rightarrow> string option OM" where
  "read_project_id path = bindM (read_file path) (\<lambda>t. ret (assigned_value ''project_id'' t))"

text \<open>The tfvars file and the project of a client: the overlay's, else the convention's.\<close>

definition tfvars_of :: "overlay \<Rightarrow> string \<Rightarrow> string" where
  "tfvars_of ov slug =
     (case Option.bind (dict_get ov slug) ov_tfvars of
        None \<Rightarrow> ''clients/'' @ slug @ ''.tfvars''
      | Some t \<Rightarrow> if t = [] then ''clients/'' @ slug @ ''.tfvars'' else infra_relative t)"

definition project_of :: "overlay \<Rightarrow> string \<Rightarrow> string \<Rightarrow> string OM" where
  "project_of ov slug path =
     (case Option.bind (dict_get ov slug) ov_project_id of
        Some p \<Rightarrow> if p \<noteq> [] then ret p
                  else bindM (read_project_id path) (\<lambda>x. ret (str_or (case x of None \<Rightarrow> [] | Some v \<Rightarrow> v) slug))
      | None \<Rightarrow> bindM (read_project_id path) (\<lambda>x. ret (str_or (case x of None \<Rightarrow> [] | Some v \<Rightarrow> v) slug)))"

definition no_tfvars :: "(string \<Rightarrow> exn) \<Rightarrow> string \<Rightarrow> string \<Rightarrow> exn" where
  "no_tfvars err slug path =
     err (''client '' @ py_repr slug @ '': no tfvars at '' @ path @ '' '' @ em_dash @
       '' add it, or point the overlay's `tfvars` at the right file ('' @ overlay_name @ '')'')"

definition resolve_one :: "overlay \<Rightarrow> string \<Rightarrow> client_entry \<Rightarrow> target OM" where
  "resolve_one ov version c =
     (let rel = tfvars_of ov (ce_slug c) in
      bindM (gets (\<lambda>s. infra_path (op_root s) rel)) (\<lambda>path.
      bindM (gets (\<lambda>s. op_files s path)) (\<lambda>found.
        if found = None then raise (no_tfvars UpgradeError (ce_slug c) path)
        else bindM (project_of ov (ce_slug c) path) (\<lambda>project.
             bindM (read_tfvars_image_version path) (\<lambda>current.
               ret \<lparr>tg_slug = ce_slug c, tg_current_version = ce_version c, tg_target_version = version,
                    tg_tfvars_rel = rel, tg_project = project,
                    tg_tracks_latest = (current = Some ''latest'')\<rparr>)))))"

text \<open>An offboarded client is kept for history and never upgraded.\<close>

definition resolve_targets ::
    "client_entry list \<Rightarrow> overlay \<Rightarrow> string \<Rightarrow> string option \<Rightarrow> target list OM" where
  "resolve_targets cs ov version client =
     (if client \<noteq> None \<and> the client \<notin> ce_slug ` set cs
      then raise (UpgradeError (''--client '' @ py_repr (the client) @ '' is not in '' @ manifest_name @
             '' (known: '' @ str_or (join '', '' (sort (map ce_slug cs))) ''none'' @ '')''))
      else mapM (resolve_one ov version)
             (filter (\<lambda>c. (client = None \<or> ce_slug c = the client) \<and> \<not> is_offboarded c) cs))"

section \<open>Terraform\<close>

definition chdir_arg :: "string \<Rightarrow> string" where
  "chdir_arg root = ''-chdir='' @ root @ ''/infra''"

definition terraform :: "string list \<Rightarrow> string OM" where
  "terraform args =
     bindM (gets op_root) (\<lambda>root. run_cmd (''terraform'' # chdir_arg root # args))"

definition tf_init :: "string \<Rightarrow> string \<Rightarrow> string OM" where
  "tf_init bucket slug =
     terraform [''init'', ''-reconfigure'', ''-input=false'', ''-backend-config=bucket='' @ bucket,
       ''-backend-config=prefix=brokerops/'' @ slug]"

definition tf_plan :: "target \<Rightarrow> string option \<Rightarrow> string OM" where
  "tf_plan t out =
     terraform ([''plan'', ''-input=false'', ''-var-file='' @ tg_tfvars_rel t,
       ''-var=image_version='' @ tg_target_version t] @
       (case out of None \<Rightarrow> [] | Some f \<Rightarrow> [''-out='' @ f]))"

definition tf_apply :: "string \<Rightarrow> string OM" where
  "tf_apply out = terraform [''apply'', ''-input=false'', out]"

definition tf_output :: "string \<Rightarrow> string OM" where
  "tf_output name = bindM (terraform [''output'', ''-raw'', name]) (\<lambda>out. ret (strip out))"

section \<open>Verification\<close>

definition readyz_retries :: nat where "readyz_retries = 12"
definition readyz_path :: string where "readyz_path = ''/readyz''"
definition smoke_path :: string where "smoke_path = ''/approvals''"

text \<open>The status, 0 when there was no response at all.\<close>

fun status_of :: "http_outcome \<Rightarrow> exn + nat" where
  "status_of (Answered n) = Inr n"
| "status_of (ErrorStatus n) = Inr n"
| "status_of NoConnection = Inr 0"
| "status_of (HttpRaised e) = Inl e"

definition http_status :: "string \<Rightarrow> string option \<Rightarrow> nat OM" where
  "http_status url token =
     bindM (gets (\<lambda>s. op_http s (length (op_trace s)) url)) (\<lambda>x.
     thenM (emit_event (Probed url token x)) (liftE (status_of x)))"

text \<open>The readiness loop with \<open>n\<close> tries left.\<close>

fun await_ready :: "string \<Rightarrow> nat \<Rightarrow> unit OM" where
  "await_ready base 0 =
     raise (UpgradeError (base @ readyz_path @ '' never returned 200 after '' @ show_nat readyz_retries @ '' tries''))"
| "await_ready base (Suc n) =
     bindM (http_status (base @ readyz_path) None) (\<lambda>st. if st = 200 then ret () else await_ready base n)"

definition smoke_ok :: "string option \<Rightarrow> nat \<Rightarrow> bool" where
  "smoke_ok token st \<longleftrightarrow> (if token \<noteq> None \<and> token \<noteq> Some [] then st = 200 else st \<in> {200, 401})"

definition smoke_error :: "string option \<Rightarrow> nat \<Rightarrow> exn" where
  "smoke_error token st =
     UpgradeError (if token \<noteq> None \<and> token \<noteq> Some []
       then ''authenticated smoke '' @ smoke_path @ '' returned '' @ show_nat st @
         '', expected 200 (check FLEET_SMOKE_TOKEN is a current session bearer)''
       else ''smoke '' @ smoke_path @ '' returned '' @ show_nat st @
         '', expected 200 (auth off) or 401 (auth on) '' @ em_dash @
         '' set FLEET_SMOKE_TOKEN for an authenticated 200'')"

definition rstrip_slash :: "string \<Rightarrow> string" where
  "rstrip_slash s = rev (dropWhile (\<lambda>c. c = CHR ''/'') (rev s))"

definition verify_upgrade :: "string \<Rightarrow> string option \<Rightarrow> unit OM" where
  "verify_upgrade api_url token =
     (let base = rstrip_slash api_url in
      thenM (await_ready base readyz_retries)
        (bindM (http_status (base @ smoke_path) token) (\<lambda>st.
           if smoke_ok token st then ret () else raise (smoke_error token st))))"

section \<open>The walk\<close>

text \<open>The manifest always, the tfvars file unless it tracks \<open>latest\<close>.\<close>

definition write_pin_at :: "string \<Rightarrow> target \<Rightarrow> date \<Rightarrow> unit OM" where
  "write_pin_at root t upgraded =
     bindM (read_file (manifest_path root)) (\<lambda>text.
     bindM (liftE (update_manifest_entry text (tg_slug t) (tg_target_version t) upgraded)) (\<lambda>new.
     bindM (gets op_lib) (\<lambda>lib.
     bindM (liftE (load_manifest lib new)) (\<lambda>_.
     thenM (write_file (manifest_path root) new)
       (if tg_tracks_latest t then ret ()
        else bindM (read_file (infra_path root (tg_tfvars_rel t))) (\<lambda>vars.
             bindM (liftE (update_tfvars_image_version vars (tg_target_version t))) (\<lambda>pinned.
               write_file (infra_path root (tg_tfvars_rel t)) pinned)))))))"

definition write_manifest_pin :: "target \<Rightarrow> date \<Rightarrow> unit OM" where
  "write_manifest_pin t upgraded = bindM (gets op_root) (\<lambda>root. write_pin_at root t upgraded)"

definition plan_file :: "string \<Rightarrow> string \<Rightarrow> string" where
  "plan_file root slug = root @ ''/infra/.fleet-'' @ slug @ ''.tfplan''"

definition apply_prompt :: "target \<Rightarrow> string" where
  "apply_prompt t = ''apply this plan to '' @ tg_slug t @ ''?''"

definition plan_and_apply :: "target \<Rightarrow> bool \<Rightarrow> string OM" where
  "plan_and_apply t assume_yes =
     bindM (gets (\<lambda>s. plan_file (op_root s) (tg_slug t))) (\<lambda>out.
     thenM (tf_plan t (Some out))
       (bindM (if assume_yes then ret True else confirm (apply_prompt t)) (\<lambda>go.
          if go then tf_apply out
          else raise (UpgradeError (tg_slug t @ '': apply declined at the confirm prompt'')))))"

definition upgrade_one :: "target \<Rightarrow> string \<Rightarrow> bool \<Rightarrow> date \<Rightarrow> unit OM" where
  "upgrade_one t bucket assume_yes upgraded =
     thenM (tf_init bucket (tg_slug t))
       (thenM (plan_and_apply t assume_yes)
          (bindM (tf_output ''api_url'') (\<lambda>api_url.
           bindM (getenv ''FLEET_SMOKE_TOKEN'') (\<lambda>token.
           thenM (verify_upgrade api_url token) (write_manifest_pin t upgraded)))))"

record outcome =
  oc_slug :: string
  oc_status :: string
  oc_detail :: string

fun is_walk_error :: "exn \<Rightarrow> bool" where
  "is_walk_error (UpgradeError _) = True"
| "is_walk_error (CalledProcessError _ _ _) = True"
| "is_walk_error _ = False"

definition first_line :: "exn \<Rightarrow> string" where
  "first_line e = (case plain_lines (exn_str e) of [] \<Rightarrow> ''UpgradeError'' | l # _ \<Rightarrow> l)"

definition not_attempted :: "target \<Rightarrow> outcome" where
  "not_attempted t = \<lparr>oc_slug = tg_slug t, oc_status = ''not-attempted'', oc_detail = []\<rparr>"

fun run_walk :: "target list \<Rightarrow> string \<Rightarrow> bool \<Rightarrow> date \<Rightarrow> outcome list OM" where
  "run_walk [] bucket assume_yes upgraded = ret []"
| "run_walk (t # ts) bucket assume_yes upgraded =
     bindM (try_except is_walk_error (thenM (upgrade_one t bucket assume_yes upgraded) (ret None))
              (\<lambda>e. ret (Some (first_line e)))) (\<lambda>failure.
       case failure of
         Some m \<Rightarrow> ret (\<lparr>oc_slug = tg_slug t, oc_status = ''failed'', oc_detail = m\<rparr> # map not_attempted ts)
       | None \<Rightarrow> bindM (run_walk ts bucket assume_yes upgraded) (\<lambda>os.
                   ret (\<lparr>oc_slug = tg_slug t, oc_status = ''upgraded'', oc_detail = []\<rparr> # os)))"

section \<open>The command line\<close>

record upgrade_args =
  ua_version :: string
  ua_client :: "string option"
  ua_yes :: bool
  ua_dry_run :: bool

fun is_registry_error :: "exn \<Rightarrow> bool" where
  "is_registry_error (FleetError _) = True"
| "is_registry_error (UpgradeError _) = True"
| "is_registry_error _ = False"

text \<open>\<open>fleet.load_manifest()\<close> and \<open>fleet.load_overlay()\<close>.\<close>

definition load_registry :: "(client_entry list \<times> overlay) OM" where
  "load_registry =
     bindM (gets op_root) (\<lambda>root.
     bindM (gets op_lib) (\<lambda>lib.
     bindM (read_file (manifest_path root)) (\<lambda>text.
     bindM (liftE (load_manifest lib text)) (\<lambda>cs.
     bindM (gets (\<lambda>s. op_files s (overlay_path root))) (\<lambda>ovt.
     bindM (liftE (load_overlay lib ovt)) (\<lambda>ov. ret (cs, ov)))))))"

definition dry_run_one :: "string \<Rightarrow> target \<Rightarrow> string OM" where
  "dry_run_one bucket t = thenM (tf_init bucket (tg_slug t)) (tf_plan t None)"

definition upgrade_targets :: "upgrade_args \<Rightarrow> target list \<Rightarrow> nat OM" where
  "upgrade_targets args targets =
     (if targets = [] then ret 0
      else bindM (getenv ''TF_STATE_BUCKET'') (\<lambda>b.
        let bucket = (case b of None \<Rightarrow> [] | Some x \<Rightarrow> x) in
        if ua_dry_run args
        then (if bucket = [] then ret 0 else bindM (mapM (dry_run_one bucket) targets) (\<lambda>_. ret 0))
        else if bucket = [] then ret 1
        else bindM (gets op_today) (\<lambda>upgraded.
             bindM (run_walk targets bucket (ua_yes args) upgraded) (\<lambda>os.
               ret (if list_all (\<lambda>x. oc_status x = ''upgraded'') os then 0 else 1)))))"

definition upgrade_main :: "upgrade_args \<Rightarrow> nat OM" where
  "upgrade_main args =
     (if \<not> is_release (ua_version args) then ret 2
      else bindM (try_except is_registry_error
               (bindM load_registry (\<lambda>(cs, ov). bindM (resolve_targets cs ov (ua_version args) (ua_client args))
                  (\<lambda>ts. ret (Some ts))))
               (\<lambda>e. ret None)) (\<lambda>found.
             case found of None \<Rightarrow> ret 1 | Some ts \<Rightarrow> upgrade_targets args ts))"

end
