(* ===== verification/Offboard_Export.thy ===== *)
theory Offboard_Export
  imports Archive_Scan Dsn Fleet_Upgrade
begin

text \<open>
  The export of \<open>scripts/offboard_client.py\<close>: which client is meant, how its database is dumped and its
  ledgers are read, what the archive holds and where it goes. The working directory is a temporary one,
  so its files are the payload itself: names and contents.
\<close>

section \<open>The client\<close>

record client_target =
  ct_slug :: string
  ct_posture :: posture
  ct_project :: string
  ct_tfvars :: "string option"
  ct_offboarded :: "date option"

definition resolve_client :: "client_entry list \<Rightarrow> overlay \<Rightarrow> string \<Rightarrow> bool \<Rightarrow> client_target OM" where
  "resolve_client cs ov slug require_tfvars =
     (case List.find (\<lambda>c. ce_slug c = slug) cs of
        None \<Rightarrow> raise (OffboardError (''slug '' @ py_repr slug @ '' is not in '' @ manifest_name @
          '' (known: '' @ str_or (join '', '' (sort (map ce_slug cs))) ''none'' @ '')''))
      | Some c \<Rightarrow>
          (let rel = tfvars_of ov slug;
               found_as = (\<lambda>project tfvars. \<lparr>ct_slug = slug, ct_posture = ce_posture c, ct_project = project,
                 ct_tfvars = tfvars, ct_offboarded = ce_offboarded_at c\<rparr>) in
           bindM (gets (\<lambda>s. infra_path (op_root s) rel)) (\<lambda>path.
           bindM (gets (\<lambda>s. op_files s path)) (\<lambda>found.
             if found \<noteq> None
             then bindM (project_of ov slug path) (\<lambda>project. ret (found_as project (Some rel)))
             else if require_tfvars then raise (no_tfvars OffboardError slug path)
             else ret (found_as (overlaid ov_project_id ov slug slug) None)))))"

section \<open>Tools\<close>

text \<open>\<open>s.split()\<close>, with the word read so far.\<close>

fun words_from :: "string \<Rightarrow> string \<Rightarrow> string list" where
  "words_from w [] = (if w = [] then [] else [w])"
| "words_from w (c # cs) =
     (if \<not> is_space c then words_from (w @ [c]) cs
      else if w = [] then words_from [] cs else w # words_from [] cs)"

text \<open>Whether the tool runs in a container, and the start of its command line.\<close>

definition client_tool :: "string \<Rightarrow> (bool \<times> string list) OM" where
  "client_tool binary =
     (let key = (if binary = ''pg_dump'' then ''OFFBOARD_PG_DUMP'' else ''OFFBOARD_PSQL'') in
      bindM (getenv key) (\<lambda>override.
      bindM (gets (\<lambda>s. op_which s binary)) (\<lambda>host.
      bindM (gets (\<lambda>s. op_which s ''docker'')) (\<lambda>docker.
        if override \<noteq> None \<and> override \<noteq> Some [] then ret (False, words_from [] (the override))
        else if host \<noteq> None then ret (False, [the host])
        else if docker \<noteq> None
        then ret (True, [''docker'', ''run'', ''--rm'', ''-e'', ''PGPASSWORD'', ''postgres:16-alpine'', binary])
        else raise (OffboardError (binary @ '' not on PATH and docker unavailable '' @ em_dash @
               '' install libpq client tools or docker, or set '' @ key @ '' to a '' @ binary @ '' binary''))))))"

text \<open>A command whose failures of some kinds become an error of the script.\<close>

definition run_as :: "(exn \<Rightarrow> bool) \<Rightarrow> (exn \<Rightarrow> exn) \<Rightarrow> string list \<Rightarrow> string OM" where
  "run_as p err cmd = try_except p (run_cmd cmd) (\<lambda>e. raise (err e))"

definition not_started_or_failed :: "exn \<Rightarrow> bool" where
  "not_started_or_failed e \<longleftrightarrow> is_not_found e \<or> is_process_error e"

definition exit_code :: "exn \<Rightarrow> string" where
  "exit_code e = (case e of CalledProcessError cmd n out \<Rightarrow> show_nat n | _ \<Rightarrow> [])"

definition process_output :: "exn \<Rightarrow> string" where
  "process_output e = (case e of CalledProcessError cmd n out \<Rightarrow> strip out | _ \<Rightarrow> [])"

definition docker_dsn :: "script_lib \<Rightarrow> string \<Rightarrow> exn + string" where
  "docker_dsn lib url =
     (case dockerize_dsn lib url of Inl e \<Rightarrow> Inl e | Inr u \<Rightarrow> strip_dsn_password lib u)"

section \<open>The database\<close>

definition dump_flags :: "string \<Rightarrow> string \<Rightarrow> string list" where
  "dump_flags file dsn = [''--format=custom'', ''--no-owner'', ''--no-acl'', ''--file='' @ file, ''--dbname'', dsn]"

definition pg_dump_error :: "script_lib \<Rightarrow> string \<Rightarrow> string \<Rightarrow> exn \<Rightarrow> exn" where
  "pg_dump_error lib tool url e =
     OffboardError (if is_not_found e then tool @ '' failed to start: '' @ exn_str e
       else ''pg_dump failed (exit '' @ exit_code e @ '') for '' @ redact_database_url lib url)"

text \<open>What the dump file holds after the command.\<close>

definition dumped_file :: "string OM" where
  "dumped_file =
     bindM (gets (\<lambda>s. op_dumped s (length (op_trace s)))) (\<lambda>d.
       if d = None \<or> d = Some [] then raise (OffboardError ''pg_dump produced an empty dump file'')
       else ret (the d))"

definition run_pg_dump :: "string \<Rightarrow> string \<Rightarrow> string \<Rightarrow> string OM" where
  "run_pg_dump url dir name =
     bindM (client_tool ''pg_dump'') (\<lambda>(docker, prefix).
     bindM (gets op_slib) (\<lambda>lib.
     thenM
       (if \<not> docker
        then bindM (liftE (strip_dsn_password lib url)) (\<lambda>dsn.
             run_as not_started_or_failed (pg_dump_error lib ''pg_dump'' url)
               (prefix @ dump_flags (dir @ ''/'' @ name) dsn))
        else bindM (liftE (docker_dsn lib url)) (\<lambda>dsn.
             run_as not_started_or_failed (pg_dump_error lib ''pg_dump (docker)'' url)
               ([''docker'', ''run'', ''--rm'', ''-e'', ''PGPASSWORD'', ''-v'', sl_resolve lib dir @ '':/out'',
                 ''postgres:16-alpine'', ''pg_dump''] @ dump_flags (''/out/'' @ name) dsn)))
       dumped_file))"

definition psql_flags :: "string \<Rightarrow> string \<Rightarrow> string list" where
  "psql_flags dsn sql =
     [''--no-psqlrc'', ''-v'', ''ON_ERROR_STOP=1'', ''-d'', dsn, ''-c'',
      ''COPY ('' @ sql @ '') TO STDOUT WITH CSV HEADER'']"

definition psql_error :: "exn \<Rightarrow> exn" where
  "psql_error e =
     OffboardError (if is_not_found e then ''psql failed to start: '' @ exn_str e
       else ''psql export failed: '' @
         (let ls = plain_lines (process_output e) in if ls = [] then ''exit '' @ exit_code e else last ls))"

definition psql_copy_csv :: "string \<Rightarrow> string \<Rightarrow> string OM" where
  "psql_copy_csv url sql =
     bindM (client_tool ''psql'') (\<lambda>(docker, prefix).
     bindM (gets op_slib) (\<lambda>lib.
     bindM (liftE ((if docker then docker_dsn else strip_dsn_password) lib url)) (\<lambda>dsn.
       run_as not_started_or_failed psql_error ((if docker then [''docker'', ''run'', ''--rm'', ''-e'', ''PGPASSWORD'',
         ''postgres:16-alpine'', ''psql''] else prefix) @ psql_flags dsn sql))))"

definition documents_sql :: string where
  "documents_sql =
     ''SELECT id, tenant_id, transaction_id, milestone_id, kind, title,'' @ nl @
     ''       file::text AS file_ref, uploaded_by, created_at'' @ nl @
     ''FROM documents'' @ nl @ ''ORDER BY created_at NULLS LAST, id''"

definition audit_sql :: string where
  "audit_sql =
     ''SELECT id, tenant_id, workflow_run_id, workflow, transaction_id, tool, integration,'' @ nl @
     ''       args::text AS args, approval_id, actor, outcome, external_id, error, created_at'' @ nl @
     ''FROM mutation_records'' @ nl @ ''ORDER BY created_at NULLS LAST, id''"

section \<open>The ledgers\<close>

definition csv_rows :: "script_lib \<Rightarrow> string \<Rightarrow> (string \<times> string) list list" where
  "csv_rows lib text = (if strip text = [] then [] else sl_csv lib text)"

definition text_row :: "(string \<times> string) list \<Rightarrow> pydict" where
  "text_row r = map (\<lambda>(k, v). (k, PStr v)) r"

definition cell :: "(string \<times> string) list \<Rightarrow> string \<Rightarrow> string" where
  "cell r k = (case dict_get r k of None \<Rightarrow> [] | Some v \<Rightarrow> v)"

text \<open>The JSON column as a nested object; a text that is no JSON stays a text.\<close>

definition document_row :: "script_lib \<Rightarrow> (string \<times> string) list \<Rightarrow> pyv" where
  "document_row lib r =
     (let raw = str_or (cell r ''file_ref'') (str_or (cell r ''file'') ''{}'')
      in PDict (filter (\<lambda>(k, v). k \<noteq> ''file_ref'')
           (dict_set (text_row r) ''file'' (case sl_loads lib raw of Some v \<Rightarrow> v | None \<Rightarrow> PStr raw))))"

definition audit_row :: "script_lib \<Rightarrow> (string \<times> string) list \<Rightarrow> pyv" where
  "audit_row lib r =
     (case sl_loads lib (str_or (cell r ''args'') ''{}'') of
        Some v \<Rightarrow> PDict (dict_set (text_row r) ''args'' v)
      | None \<Rightarrow> PDict (text_row r))"

text \<open>The documents as CSV and as JSON.\<close>

definition export_documents_manifest :: "string \<Rightarrow> (string \<times> string) list OM" where
  "export_documents_manifest url =
     bindM (psql_copy_csv url documents_sql) (\<lambda>text.
     bindM (gets op_slib) (\<lambda>lib.
       ret [(''documents_manifest.csv'', text),
            (''documents_manifest.json'', sl_dumps lib (PList (map (document_row lib) (csv_rows lib text))) @ nl)]))"

definition export_audit_ledger :: "string \<Rightarrow> (string \<times> string) list OM" where
  "export_audit_ledger url =
     bindM (psql_copy_csv url audit_sql) (\<lambda>text.
     bindM (gets op_slib) (\<lambda>lib.
       ret [(''audit_ledger.json'', sl_dumps lib (PList (map (audit_row lib) (csv_rows lib text))) @ nl)]))"

section \<open>The archive\<close>

definition export_readme :: "client_target \<Rightarrow> string \<Rightarrow> string" where
  "export_readme t now = join nl
     [''# brokerops offboarding export '' @ em_dash @ '' '' @ ct_slug t, [],
      ''Generated: '' @ now,
      ''Project:   '' @ ct_project t,
      ''Posture:   '' @ posture_value (ct_posture t), [],
      ''## Contents'', [],
      ''| File | What |'',
      ''|------|------|'',
      ''| `database.dump` | Full Postgres custom-format dump (`pg_restore -d <db> database.dump`) |'',
      ''| `documents_manifest.csv` / `.json` | `documents` table FileRefs '' @ em_dash @
        '' pointers into the client's Drive; no file bytes |'',
      ''| `audit_ledger.json` | Action audit-ledger (`mutation_records`) '' @ em_dash @
        '' every external write on record |'',
      ''| `MANIFEST.json` | This export's inventory + checksums |'', [],
      ''## Retention stance'', [],
      ''We hand over this archive. After a successful hosted (A1) destroy we keep **only** the'',
      ''fleet-registry line (`offboarded_at` date) '' @ em_dash @ '' nothing else from this client. See'',
      ''`docs/OFFBOARDING.md`.'', []]"

definition export_inventory :: "client_target \<Rightarrow> string \<Rightarrow> string list \<Rightarrow> pyv" where
  "export_inventory t now names =
     PDict [(''slug'', PStr (ct_slug t)), (''project'', PStr (ct_project t)),
       (''posture'', PStr (posture_value (ct_posture t))), (''generated_at'', PStr now),
       (''files'', PList (map PStr (sort names)))]"

definition build_export_tree :: "client_target \<Rightarrow> string \<Rightarrow> (string \<times> string) list OM" where
  "build_export_tree t url =
     bindM (gets op_now) (\<lambda>now.
     bindM (gets (\<lambda>s. op_tmp s @ ''/payload'')) (\<lambda>dir.
     bindM (run_pg_dump url dir ''database.dump'') (\<lambda>dump.
     bindM (export_documents_manifest url) (\<lambda>documents.
     bindM (export_audit_ledger url) (\<lambda>ledger.
     bindM (gets op_slib) (\<lambda>lib.
       let files = (''database.dump'', dump) # documents @ ledger @ [(''README.md'', export_readme t now)]
       in ret (files @ [(''MANIFEST.json'', sl_dumps lib (export_inventory t now (map fst files)) @ nl)])))))))"

text \<open>The members in the order of their paths.\<close>

definition archive_members :: "(string \<times> string) list \<Rightarrow> (string \<times> string) list" where
  "archive_members payload = sort_key fst payload"

definition pack_archive :: "script_lib \<Rightarrow> (string \<times> string) list \<Rightarrow> string" where
  "pack_archive lib payload = sl_pack lib (archive_members payload)"

section \<open>Delivery\<close>

text \<open>\<open>str(Path(p))\<close>: no empty and no single-dot component; two leading slashes are kept.\<close>

definition path_text :: "string \<Rightarrow> string" where
  "path_text p =
     (let parts = filter (\<lambda>x. x \<noteq> [] \<and> x \<noteq> ''.'') (split_on CHR ''/'' p);
          root = (if \<not> startswith p ''/'' then []
                  else if startswith p ''//'' \<and> \<not> startswith p ''///'' then ''//'' else ''/'')
      in str_or (root @ join ''/'' parts) ''.'')"

definition path_child :: "string \<Rightarrow> string \<Rightarrow> string" where
  "path_child dir name =
     (if dir = ''.'' then name else if endswith dir ''/'' then dir @ name else dir @ ''/'' @ name)"

definition is_archive_name :: "string \<Rightarrow> bool" where
  "is_archive_name name \<longleftrightarrow>
     endswith (dropWhile (\<lambda>c. c = CHR ''.'') name) ''.tar.gz'' \<or> endswith name ''.tgz'' \<and> name \<noteq> ''.tgz''"

definition upload_error :: "string list \<Rightarrow> exn \<Rightarrow> exn" where
  "upload_error cmd e =
     OffboardError (''GCS upload failed (exit '' @ exit_code e @ ''): '' @ join '' '' cmd)"

definition deliver_archive :: "string \<Rightarrow> string \<Rightarrow> string \<Rightarrow> string \<Rightarrow> string OM" where
  "deliver_archive dir name packed dest =
     bindM (gets (\<lambda>s. op_which s ''gsutil'')) (\<lambda>gsutil.
     bindM (gets (\<lambda>s. op_which s ''gcloud'')) (\<lambda>gcloud.
     bindM (gets op_slib) (\<lambda>lib.
       if startswith dest ''gs://''
       then if gsutil = None \<and> gcloud = None
            then raise (OffboardError ''gs:// delivery needs gsutil or gcloud on PATH'')
            else (let uri = rstrip_slash dest @ ''/'' @ name;
                      cmd = (if gsutil \<noteq> None then [''gsutil''] else [''gcloud'', ''storage'']) @
                        [''cp'', path_child dir name, uri]
                  in thenM (run_as is_process_error (upload_error cmd) cmd)
                       (thenM (emit_event (Delivered uri packed)) (ret uri)))
       else (let path = sl_expanduser lib (path_text dest) in
             bindM (gets (\<lambda>s. op_is_dir s path)) (\<lambda>is_dir.
               let final = (if \<not> is_dir \<and> is_archive_name (after_last CHR ''/'' path) then path
                            else path_child path name)
               in thenM (emit_event (Delivered final packed)) (ret (sl_resolve lib final)))))))"

end
