(* ===== verification/Offboard.thy ===== *)
theory Offboard
  imports Offboard_Export
begin

text \<open>
  The rest of \<open>scripts/offboard_client.py\<close>: the destroy behind its prompt, the probes that prove the
  cleanup, the line of the registry and the command itself. A probe that fails is an error, never an
  empty answer.
\<close>

section \<open>Destroy\<close>

text \<open>Truth of the path: an empty one is none.\<close>

definition usable_tfvars :: "client_target \<Rightarrow> string option" where
  "usable_tfvars t = (case ct_tfvars t of None \<Rightarrow> None | Some rel \<Rightarrow> if rel = [] then None else Some rel)"

definition tf_destroy :: "client_target \<Rightarrow> string \<Rightarrow> bool \<Rightarrow> unit OM" where
  "tf_destroy t bucket assume_yes =
     (case usable_tfvars t of
        None \<Rightarrow> raise (OffboardError (''client '' @ py_repr (ct_slug t) @ '': cannot destroy without tfvars '' @ em_dash @
          '' refused mark-only path''))
      | Some rel \<Rightarrow>
          thenM (tf_init bucket (ct_slug t))
            (thenM
              (try_except is_process_error
                (terraform ([''destroy'', ''-input=false'', ''-var-file='' @ rel] @
                  (if assume_yes then [''-auto-approve''] else [])))
                (\<lambda>e. raise (OffboardError (''terraform destroy failed (exit '' @ exit_code e @ '')''))))
              (ret ())))"

section \<open>Secrets\<close>

definition gcloud_present :: "bool OM" where
  "gcloud_present = gets (\<lambda>s. op_which s ''gcloud'' \<noteq> None)"

definition list_repr :: "string list \<Rightarrow> string" where
  "list_repr xs = ''['' @ join '', '' (map py_repr xs) @ '']''"

text \<open>The lines that are not blank, without surrounding blanks.\<close>

definition stripped_lines :: "string \<Rightarrow> string list" where
  "stripped_lines out = filter (\<lambda>l. l \<noteq> []) (map strip (plain_lines out))"

definition secret_prefix :: "string \<Rightarrow> string" where
  "secret_prefix slug = ''brokerops-'' @ slug @ ''-''"

definition client_secrets_in :: "string \<Rightarrow> string \<Rightarrow> string list" where
  "client_secrets_in slug out =
     sort (filter (\<lambda>i. startswith i (secret_prefix slug)) (map (after_last CHR ''/'') (stripped_lines out)))"

definition secrets_cmd :: "string \<Rightarrow> string list" where
  "secrets_cmd project = [''gcloud'', ''secrets'', ''list'', ''--project='' @ project, ''--format=value(name)'']"

definition list_client_secrets :: "string \<Rightarrow> string \<Rightarrow> string list OM" where
  "list_client_secrets project slug =
     bindM gcloud_present (\<lambda>found.
       if \<not> found
       then raise (OffboardError (''gcloud not on PATH '' @ em_dash @ '' cannot verify Secret Manager cleanup''))
       else bindM (run_as is_process_error
              (\<lambda>e. OffboardError (''gcloud secrets list failed for project '' @ py_repr project @ '' (exit '' @
                exit_code e @ '') '' @ em_dash @ '' cannot verify secrets cleanup''))
              (secrets_cmd project)) (\<lambda>out. ret (client_secrets_in slug out)))"

definition verify_secrets_gone :: "string \<Rightarrow> string \<Rightarrow> unit OM" where
  "verify_secrets_gone project slug =
     bindM (list_client_secrets project slug) (\<lambda>remaining.
       if remaining = [] then ret ()
       else raise (OffboardError (''Secret Manager still has '' @ show_nat (length remaining) @
         '' client secret(s) after destroy in project '' @ py_repr project @ '': '' @ list_repr remaining @
         ''. Destroy them explicitly, then re-run with --skip-export --mark-only if the infra is already gone.'')))"

definition add_new :: "string list \<Rightarrow> string \<Rightarrow> string list" where
  "add_new xs x = (if x \<in> set xs then xs else xs @ [x])"

text \<open>The deploy project, then the extra ones, each once.\<close>

definition secret_projects :: "client_target \<Rightarrow> string list \<Rightarrow> string list OM" where
  "secret_projects t extra =
     bindM (getenv ''OFFBOARD_SECRET_PROJECTS'') (\<lambda>env.
       ret (foldl add_new [ct_project t] (filter (\<lambda>p. p \<noteq> []) extra @
         filter (\<lambda>p. p \<noteq> []) (map strip (split_on CHR '','' (case env of None \<Rightarrow> [] | Some x \<Rightarrow> x))))))"

fun verify_secrets_gone_all :: "string list \<Rightarrow> string \<Rightarrow> unit OM" where
  "verify_secrets_gone_all [] slug = ret ()"
| "verify_secrets_gone_all (p # ps) slug = thenM (verify_secrets_gone p slug) (verify_secrets_gone_all ps slug)"

section \<open>What is left in the project\<close>

fun take_points :: "nat \<Rightarrow> string \<Rightarrow> string" where
  "take_points n [] = []"
| "take_points n (c # cs) =
     (if is_continuation c then c # take_points n cs
      else case n of 0 \<Rightarrow> [] | Suc m \<Rightarrow> c # take_points m cs)"

text \<open>The error text of a probe: at most 500 characters of what it said.\<close>

definition probe_detail :: "exn \<Rightarrow> string" where
  "probe_detail e = take_points 500 (str_or (process_output e) (exn_str e))"

definition probe_error :: "string \<Rightarrow> string \<Rightarrow> exn \<Rightarrow> exn" where
  "probe_error key project e =
     OffboardError (if is_not_found e
       then ''post-destroy probe failed for '' @ key @ '' in project '' @ py_repr project @ '': '' @ exn_str e @
         ''. Cannot confirm teardown left no billable resources.''
       else ''post-destroy probe FAILED for '' @ key @ '' in project '' @ py_repr project @ '' (exit '' @
         exit_code e @ ''): '' @ probe_detail e @ ''. Not treating as clean '' @ em_dash @
         '' fix gcloud access/format or re-run destroy.'')"

definition billable_checks :: "string \<Rightarrow> (string \<times> string list) list" where
  "billable_checks project =
     [(''run_services'', [''gcloud'', ''run'', ''services'', ''list'', ''--project='' @ project, ''--format=value(name)'']),
      (''sql_instances'', [''gcloud'', ''sql'', ''instances'', ''list'', ''--project='' @ project, ''--format=value(name)'']),
      (''service_accounts'', [''gcloud'', ''iam'', ''service-accounts'', ''list'', ''--project='' @ project,
         ''--format=value(email)''])]"

definition names_with :: "string \<Rightarrow> string \<Rightarrow> string list" where
  "names_with prefix out = map strip (filter (\<lambda>l. strip l \<noteq> [] \<and> contains prefix l) (plain_lines out))"

definition run_check :: "string \<Rightarrow> string \<Rightarrow> string \<times> string list \<Rightarrow> (string \<times> string list) OM" where
  "run_check project prefix check =
     (case check of (key, cmd) \<Rightarrow>
        bindM (run_as not_started_or_failed (probe_error key project) cmd) (\<lambda>out. ret (key, names_with prefix out)))"

definition scheduler_cmd :: "string \<Rightarrow> string \<Rightarrow> string list" where
  "scheduler_cmd project loc =
     [''gcloud'', ''scheduler'', ''jobs'', ''list'', ''--project='' @ project, ''--location='' @ loc,
      ''--format=value(name)'']"

definition scheduler_error :: "string \<Rightarrow> string \<Rightarrow> exn \<Rightarrow> exn" where
  "scheduler_error project loc e =
     OffboardError (if is_not_found e
       then ''post-destroy probe failed for scheduler_jobs@'' @ loc @ '' in project '' @ py_repr project @ '': '' @
         exn_str e @ ''. Cannot confirm teardown left no billable resources.''
       else ''post-destroy scheduler probe FAILED at location='' @ py_repr loc @ '' in project '' @ py_repr project @
         '' (exit '' @ exit_code e @ ''): '' @ probe_detail e @
         ''. Not treating as clean. Pin the region with OFFBOARD_SCHEDULER_LOCATION if jobs live elsewhere, '' @
         ''or fix gcloud credentials/API enablement.'')"

fun probe_scheduler_jobs :: "string \<Rightarrow> string \<Rightarrow> string list \<Rightarrow> string list \<Rightarrow> string list OM" where
  "probe_scheduler_jobs project prefix found [] = ret found"
| "probe_scheduler_jobs project prefix found (loc # locs) =
     bindM (run_as not_started_or_failed (scheduler_error project loc) (scheduler_cmd project loc)) (\<lambda>out.
       probe_scheduler_jobs project prefix
         (foldl add_new found (filter (contains prefix) (stripped_lines out))) locs)"

definition resource_prefix :: "string \<Rightarrow> string" where
  "resource_prefix slug = ''brokerops-'' @ slug"

definition list_billable_hints :: "string \<Rightarrow> string \<Rightarrow> string list \<Rightarrow> (string \<times> string list) list OM" where
  "list_billable_hints project slug locations =
     bindM gcloud_present (\<lambda>found.
       if \<not> found
       then raise (OffboardError (''gcloud not on PATH '' @ em_dash @ '' cannot verify post-destroy cleanup. '' @
              ''Install gcloud or pass --skip-secrets-verify only for offline unit tests.''))
       else bindM (mapM (run_check project (resource_prefix slug)) (billable_checks project)) (\<lambda>hints.
            bindM (probe_scheduler_jobs project (resource_prefix slug) [] locations) (\<lambda>jobs.
            bindM (list_client_secrets project slug) (\<lambda>secrets.
              ret (hints @ [(''scheduler_jobs'', jobs), (''secrets'', secrets)])))))"

definition terraform_default_region :: string where
  "terraform_default_region = ''us-west1''"

definition read_region :: "string \<Rightarrow> string option OM" where
  "read_region path =
     gets (\<lambda>s. case op_files s path of None \<Rightarrow> None | Some t \<Rightarrow> assigned_value ''region'' t)"

definition scheduler_locations_for :: "client_target \<Rightarrow> string list OM" where
  "scheduler_locations_for t =
     bindM (getenv ''OFFBOARD_SCHEDULER_LOCATION'') (\<lambda>env.
       let override = strip (case env of None \<Rightarrow> [] | Some x \<Rightarrow> x) in
       if override = ''-''
       then raise (OffboardError (''OFFBOARD_SCHEDULER_LOCATION='' @ py_repr ''-'' @
              '' is not supported (gcloud requires an explicit region). Set a real location e.g. us-west1.''))
       else if override \<noteq> [] then ret [override]
       else (case usable_tfvars t of
               Some rel \<Rightarrow>
                 bindM (gets (\<lambda>s. infra_path (op_root s) rel)) (\<lambda>path.
                 bindM (read_region path) (\<lambda>r.
                   ret [str_or (case r of None \<Rightarrow> [] | Some x \<Rightarrow> x) terraform_default_region]))
             | None \<Rightarrow>
                 raise (OffboardError (''client '' @ py_repr (ct_slug t) @
                   '': cannot determine the Cloud Scheduler region from Terraform config (no tfvars available). '' @
                   ''Set OFFBOARD_SCHEDULER_LOCATION to the deploy region so cleanup verification can prove no '' @
                   ''scheduler jobs remain '' @ em_dash @ '' never assume clean.''))))"

text \<open>After the destroy the state lists nothing.\<close>

definition state_error :: "string \<Rightarrow> exn \<Rightarrow> exn" where
  "state_error slug e =
     OffboardError (''terraform state list failed for '' @ py_repr slug @ '' '' @ em_dash @
       '' cannot prove destroy emptied state: '' @ exn_str e)"

definition verify_tf_state_empty :: "string \<Rightarrow> string \<Rightarrow> unit OM" where
  "verify_tf_state_empty bucket slug =
     thenM (tf_init bucket slug)
       (bindM (try_except not_started_or_failed (terraform [''state'', ''list'']) (\<lambda>e. raise (state_error slug e))) (\<lambda>out.
          let resources = stripped_lines out in
          if resources = [] then ret ()
          else raise (OffboardError (''terraform state for '' @ py_repr slug @ '' is not empty after destroy ('' @
            show_nat (length resources) @ '' resource(s)): '' @ join '', '' (take 12 resources) @
            (if 12 < length resources then '' (+'' @ show_nat (length resources - 12) @ '' more)'' else []) @
            ''. Re-run destroy until state is empty.''))))"

text \<open>\<open>str\<close> of the leftovers.\<close>

definition leftovers_repr :: "(string \<times> string list) list \<Rightarrow> string" where
  "leftovers_repr hints = ''{'' @ join '', '' (map (\<lambda>(k, v). py_repr k @ '': '' @ list_repr v) hints) @ ''}''"

definition real_leftovers :: "(string \<times> string list) list \<Rightarrow> (string \<times> string list) list" where
  "real_leftovers hints = filter (\<lambda>(k, v). v \<noteq> []) hints"

definition verify_hosted_cleanup ::
    "string \<Rightarrow> string \<Rightarrow> string list \<Rightarrow> string option \<Rightarrow> string list \<Rightarrow> unit OM" where
  "verify_hosted_cleanup project slug projects bucket locations =
     thenM (verify_secrets_gone_all projects slug)
       (bindM (list_billable_hints project slug locations) (\<lambda>hints.
          if real_leftovers hints \<noteq> []
          then raise (OffboardError (''brokerops resources still present in project '' @ py_repr project @ '': '' @
                 leftovers_repr (real_leftovers hints) @ ''. Clean them up before recording offboarded_at.''))
          else if bucket \<noteq> None \<and> bucket \<noteq> Some [] then verify_tf_state_empty (the bucket) slug
          else raise (OffboardError (''set TF_STATE_BUCKET to prove terraform state is empty after teardown '' @
                 ''(authoritative 'no billable resources we manage' check). '' @
                 ''Offline tests may pass --skip-secrets-verify.''))))"

section \<open>The registry\<close>

definition full_value :: "char \<Rightarrow> bool" where
  "full_value c \<longleftrightarrow> \<not> is_space c"

definition body_of :: "string \<Rightarrow> string" where
  "body_of line = fst (split_newline line)"

text \<open>The first line of an entry with a field: its number, and what the field's expression captures.\<close>

definition field_line :: "string \<Rightarrow> string list \<Rightarrow> (nat \<times> string \<times> string) option" where
  "field_line key ls =
     (case List.find (\<lambda>i. field_at key full_value (body_of (ls ! i)) \<noteq> None) [0..<length ls] of
        None \<Rightarrow> None
      | Some i \<Rightarrow> map_option (Pair i) (field_at key full_value (body_of (ls ! i))))"

text \<open>
  Where the new line goes in an entry, and its indent: after \<open>last_upgraded\<close>, else after the first line,
  two blanks deeper than the last marker of the slug.
\<close>

definition insertion :: "string \<Rightarrow> string list \<Rightarrow> nat \<times> string" where
  "insertion slug ls =
     (case field_line ''last_upgraded'' ls of
        Some (i, indent, r) \<Rightarrow> (Suc i, indent)
      | None \<Rightarrow>
          (1, case filter (\<lambda>l. map_option snd (marker_at (body_of l)) = Some slug) ls of
                [] \<Rightarrow> ''    ''
              | m # ms \<Rightarrow> takeWhile is_space (last (m # ms)) @ ''  ''))"

definition mark_entry :: "string \<Rightarrow> string \<Rightarrow> string list \<Rightarrow> string list" where
  "mark_entry slug day ls =
     (case field_line ''offboarded_at'' ls of
        Some (i, indent, r) \<Rightarrow> ls[i := indent @ ''offboarded_at: '' @ day @ r @ snd (split_newline (ls ! i))]
      | None \<Rightarrow>
          (case insertion slug ls of
             (at, indent) \<Rightarrow> take at ls @ [indent @ ''offboarded_at: '' @ day @ nl] @ drop at ls))"

definition mark_offboarded :: "string \<Rightarrow> string \<Rightarrow> date \<Rightarrow> exn + string" where
  "mark_offboarded text slug when =
     (let ls = splitlines text in
      case entry_start ls slug of
        None \<Rightarrow> Inl (OffboardError (manifest_name @ '': no entry with slug '' @ py_repr slug @ '' to mark offboarded''))
      | Some start \<Rightarrow>
          (let stop = entry_end ls start
           in Inr (concat (take start ls @ mark_entry slug (isoformat when) (take (stop - start) (drop start ls)) @
                drop stop ls))))"

definition write_manifest_offboarded :: "string \<Rightarrow> date \<Rightarrow> unit OM" where
  "write_manifest_offboarded slug when =
     bindM (gets (\<lambda>s. manifest_path (op_root s))) (\<lambda>path.
     bindM (read_file path) (\<lambda>text.
     bindM (liftE (mark_offboarded text slug when)) (\<lambda>new.
     bindM (gets op_lib) (\<lambda>lib.
     bindM (liftE (load_manifest lib new)) (\<lambda>_. write_file path new)))))"

section \<open>The command\<close>

text \<open>The mode is \<open>None\<close> for \<open>auto\<close>.\<close>

record offboard_args =
  oa_slug :: string
  oa_dest :: string
  oa_database_url :: "string option"
  oa_mode :: "posture option"
  oa_yes :: bool
  oa_dry_run :: bool
  oa_export_only :: bool
  oa_skip_export :: bool
  oa_skip_destroy :: bool
  oa_mark_only :: bool
  oa_skip_secrets_verify :: bool
  oa_force :: bool
  oa_secret_projects :: "string list"

text \<open>The combinations \<open>parse_args\<close> refuses.\<close>

definition args_error :: "offboard_args \<Rightarrow> string option" where
  "args_error args =
     (if oa_export_only args \<and> oa_skip_export args
      then Some ''--export-only and --skip-export are mutually exclusive''
      else if oa_mark_only args \<and> (oa_export_only args \<or> oa_skip_export args)
      then Some ''--mark-only cannot be combined with --export-only / --skip-export''
      else None)"

definition effective_mode :: "posture option \<Rightarrow> posture \<Rightarrow> posture" where
  "effective_mode m p = (case m of None \<Rightarrow> p | Some x \<Rightarrow> x)"

definition plan_steps :: "posture \<Rightarrow> offboard_args \<Rightarrow> string list" where
  "plan_steps mode args =
     (if oa_skip_export args then []
      else [''export (pg_dump + documents manifest + audit ledger)'', ''deliver archive + secret scan'']) @
     (if mode = ClientInfra
      then [''B-tier: skip terraform destroy (client keeps project)'',
            ''B-tier: operator must revoke WebDrvn access (see runbook)'']
      else if oa_export_only args then [''skip terraform destroy'']
      else if oa_skip_destroy args
      then ''skip terraform destroy'' #
        (if oa_skip_secrets_verify args then [] else [''verify cleanup still (secrets + Cloud Run + SQL empty)''])
      else ''confirm-gated terraform destroy'' #
        (if oa_skip_secrets_verify args then [] else [''verify cleanup (secrets + Cloud Run + SQL empty)''])) @
     (if oa_export_only args then [] else [''mark fleet.yml offboarded_at (history kept)''])"

definition plan_lines_of :: "client_target \<Rightarrow> posture \<Rightarrow> offboard_args \<Rightarrow> string list" where
  "plan_lines_of t mode args =
     [''client:     '' @ ct_slug t, ''project:    '' @ ct_project t,
      ''posture:    '' @ posture_value (ct_posture t) @ '' (mode='' @ posture_value mode @ '')'',
      ''tfvars:     '' @ (case ct_tfvars t of None \<Rightarrow> ''None'' | Some r \<Rightarrow> r),
      ''dest:       '' @ oa_dest args] @
     (case ct_offboarded t of None \<Rightarrow> []
      | Some d \<Rightarrow> [''note:       already marked offboarded_at='' @ isoformat d]) @
     (if oa_mark_only args then [''steps:      mark registry offboarded_at only'']
      else map (\<lambda>(i, s). ''  '' @ show_nat i @ ''. '' @ s) (enumerate 1 (plan_steps mode args)))"

text \<open>Export, pack, scan, deliver; the scan comes before the delivery.\<close>

definition archive_name :: "string \<Rightarrow> string \<Rightarrow> string" where
  "archive_name slug stamp = ''brokerops-offboard-'' @ slug @ ''-'' @ stamp @ ''.tar.gz''"

definition export_and_deliver :: "client_target \<Rightarrow> offboard_args \<Rightarrow> string OM" where
  "export_and_deliver t args =
     bindM (gets (\<lambda>s. archive_name (ct_slug t) (op_stamp s))) (\<lambda>name.
     bindM (resolve_database_url (oa_database_url args)) (\<lambda>url.
     bindM (build_export_tree t url) (\<lambda>payload.
     bindM (gets op_slib) (\<lambda>lib.
     bindM (gets op_tmp) (\<lambda>tmp.
       let packed = pack_archive lib payload in
       thenM (liftE (assert_archive_clean (path_child tmp name) name packed (archive_members payload)))
         (deliver_archive tmp name packed (oa_dest args)))))))"

definition destroy_prompt :: "client_target \<Rightarrow> string" where
  "destroy_prompt t =
     ''DESTROY all brokerops infra for '' @ ct_slug t @ '' in project '' @ ct_project t @ ''? This is irreversible.''"

definition mark_prompt :: "client_target \<Rightarrow> date \<Rightarrow> string" where
  "mark_prompt t when = ''mark '' @ ct_slug t @ '' offboarded_at='' @ isoformat when @ '' in fleet.yml?''"

definition mark_only_prompt :: "client_target \<Rightarrow> date \<Rightarrow> string" where
  "mark_only_prompt t when = ''mark '' @ ct_slug t @ '' offboarded_at='' @ isoformat when @ ''?''"

text \<open>\<open>--yes\<close>, or a yes to the prompt; what is declined raises.\<close>

definition gate :: "bool \<Rightarrow> string \<Rightarrow> string \<Rightarrow> unit OM" where
  "gate yes prompt declined =
     bindM (if yes then ret True else confirm prompt) (\<lambda>go. if go then ret () else raise (OffboardError declined))"

definition cleanup_proof :: "client_target \<Rightarrow> offboard_args \<Rightarrow> string option \<Rightarrow> unit OM" where
  "cleanup_proof t args bucket =
     bindM (secret_projects t (oa_secret_projects args)) (\<lambda>projects.
     bindM (scheduler_locations_for t) (\<lambda>locations.
       verify_hosted_cleanup (ct_project t) (ct_slug t) projects bucket locations))"

definition destroy_step :: "client_target \<Rightarrow> offboard_args \<Rightarrow> unit OM" where
  "destroy_step t args =
     bindM (getenv ''TF_STATE_BUCKET'') (\<lambda>env.
       if env = None \<or> env = Some []
       then raise (OffboardError (''set TF_STATE_BUCKET to run terraform destroy (or pass --skip-destroy / '' @
              ''--export-only / --mode client-infra)''))
       else if usable_tfvars t = None
       then raise (OffboardError (''client '' @ py_repr (ct_slug t) @ '': tfvars missing '' @ em_dash @
              '' cannot destroy; use --mark-only if infra is already gone, or restore the tfvars file''))
       else thenM (gate (oa_yes args) (destroy_prompt t) ''destroy declined at the confirm prompt'')
              (thenM (tf_destroy t (the env) True)
                 (if oa_skip_secrets_verify args then ret () else cleanup_proof t args env)))"

definition teardown :: "client_target \<Rightarrow> posture \<Rightarrow> offboard_args \<Rightarrow> unit OM" where
  "teardown t mode args =
     (if mode = ClientInfra then ret ()
      else if \<not> oa_skip_destroy args then destroy_step t args
      else if oa_skip_secrets_verify args then ret ()
      else bindM (getenv ''TF_STATE_BUCKET'') (cleanup_proof t args))"

definition offboard_steps :: "client_target \<Rightarrow> posture \<Rightarrow> offboard_args \<Rightarrow> nat OM" where
  "offboard_steps t mode args =
     bindM (gets op_today) (\<lambda>when.
       if oa_mark_only args
       then thenM (gate (oa_yes args) (mark_only_prompt t when) ''mark declined at the confirm prompt'')
              (thenM (write_manifest_offboarded (ct_slug t) when) (ret 0))
       else thenM (if oa_skip_export args then ret () else thenM (export_and_deliver t args) (ret ()))
              (if oa_export_only args then ret 0
               else thenM (teardown t mode args)
                      (thenM (gate (oa_yes args) (mark_prompt t when)
                                (''registry mark declined '' @ em_dash @ '' export/destroy may already be done; '' @
                                 ''re-run with --mark-only to record offboarded_at''))
                         (thenM (write_manifest_offboarded (ct_slug t) when) (ret 0)))))"

fun is_offboard_failure :: "exn \<Rightarrow> bool" where
  "is_offboard_failure (OffboardError _) = True"
| "is_offboard_failure (CalledProcessError _ _ _) = True"
| "is_offboard_failure _ = False"

fun is_resolve_failure :: "exn \<Rightarrow> bool" where
  "is_resolve_failure (FleetError _) = True"
| "is_resolve_failure (OffboardError _) = True"
| "is_resolve_failure _ = False"

text \<open>The command once the client is resolved.\<close>

definition offboard_client :: "client_target \<Rightarrow> offboard_args \<Rightarrow> nat OM" where
  "offboard_client t args =
     (if oa_dry_run args then ret 0
      else if ct_offboarded t \<noteq> None \<and> \<not> oa_force args then ret 1
      else try_except is_offboard_failure
             (offboard_steps t (effective_mode (oa_mode args) (ct_posture t)) args) (\<lambda>e. ret 1))"

definition offboard_resolve :: "offboard_args \<Rightarrow> client_target OM" where
  "offboard_resolve args =
     bindM load_registry (\<lambda>(cs, ov). resolve_client cs ov (oa_slug args) (\<not> oa_mark_only args))"

definition offboard_run :: "offboard_args \<Rightarrow> nat OM" where
  "offboard_run args =
     bindM (try_except is_resolve_failure (bindM (offboard_resolve args) (\<lambda>t. ret (Some t))) (\<lambda>e. ret None)) (\<lambda>found.
       case found of None \<Rightarrow> ret 1 | Some t \<Rightarrow> offboard_client t args)"

text \<open>\<open>main\<close>: argparse ends with 2.\<close>

definition offboard_main :: "offboard_args \<Rightarrow> nat OM" where
  "offboard_main args = (if args_error args \<noteq> None then ret 2 else offboard_run args)"

end
