(* ===== verification/Ops_Logic.thy ===== *)
theory Ops_Logic
  imports Ops
begin

text \<open>
  Rules for the order of events in a script. A protocol \<open>ok\<close> says which event may follow which events;
  \<open>ordered ok C P m Q\<close> says that \<open>m\<close>, started in a state of \<open>C\<close> after events that satisfy \<open>P\<close>, only
  adds events the protocol allows, changes no file but by the writes among them, and, when it returns,
  leaves events that satisfy \<open>Q\<close>.
\<close>

definition obeys :: "(ops_event list \<Rightarrow> ops_event \<Rightarrow> bool) \<Rightarrow> ops_event list \<Rightarrow> bool" where
  "obeys ok es \<longleftrightarrow> (\<forall>pre e post. es = pre @ e # post \<longrightarrow> ok pre e)"

lemma obeys_Nil [simp]: "obeys ok []"
  by (simp add: obeys_def)

lemma obeys_snoc [simp]: "obeys ok (es @ [e]) \<longleftrightarrow> obeys ok es \<and> ok es e"
proof
  assume o: "obeys ok (es @ [e])"
  have "ok pre x" if "es = pre @ x # post" for pre x post
    using o that unfolding obeys_def by (metis append.assoc append_Cons)
  with o show "obeys ok es \<and> ok es e" unfolding obeys_def by blast
next
  assume "obeys ok es \<and> ok es e"
  then show "obeys ok (es @ [e])"
    unfolding obeys_def
    by (metis append.assoc append.right_neutral append_Cons append_butlast_last_id butlast_append butlast_snoc
        last_snoc list.sel(3) neq_Nil_conv same_append_eq snoc_eq_iff_butlast)
qed

definition settings ::
    "ops \<Rightarrow> fleet_lib \<times> script_lib \<times> env \<times> string \<times> (string \<Rightarrow> bool) \<times> (string \<Rightarrow> string option) \<times> date \<times>
     string \<times> string" where
  "settings s = (op_lib s, op_slib s, op_env s, op_root s, op_is_dir s, op_which s, op_today s, op_stamp s, op_now s)"

definition same_files :: "ops_event list \<Rightarrow> ops \<Rightarrow> ops \<Rightarrow> bool" where
  "same_files es s s' \<longleftrightarrow> (\<forall>p. (\<forall>text. Wrote p text \<notin> set es) \<longrightarrow> op_files s' p = op_files s p)"

lemma same_files_refl [simp]: "same_files es s s"
  by (simp add: same_files_def)

lemma same_files_trans: "same_files a s s1 \<Longrightarrow> same_files b s1 s2 \<Longrightarrow> same_files (a @ b) s s2"
  by (simp add: same_files_def)

text \<open>The events a computation may add, from a state.\<close>

definition extends ::
    "(ops_event list \<Rightarrow> ops_event \<Rightarrow> bool) \<Rightarrow> ops_event list \<Rightarrow> ops_event list \<Rightarrow> ops \<Rightarrow> ops \<Rightarrow> bool" where
  "extends ok es es' s s' \<longleftrightarrow>
     op_trace s' = op_trace s @ es' \<and> obeys ok (es @ es') \<and> settings s' = settings s \<and> same_files es' s s'"

lemma extends_refl [simp]: "extends ok es [] s s \<longleftrightarrow> obeys ok es"
  by (simp add: extends_def)

lemma extends_trans:
  "extends ok es a s s1 \<Longrightarrow> extends ok (es @ a) b s1 s2 \<Longrightarrow> extends ok es (a @ b) s s2"
  by (auto simp: extends_def intro: same_files_trans)

definition ordered ::
    "(ops_event list \<Rightarrow> ops_event \<Rightarrow> bool) \<Rightarrow> (ops \<Rightarrow> bool) \<Rightarrow> (ops_event list \<Rightarrow> bool) \<Rightarrow> 'a OM \<Rightarrow>
     ('a \<Rightarrow> ops_event list \<Rightarrow> bool) \<Rightarrow> bool" where
  "ordered ok C P m Q \<longleftrightarrow>
     (\<forall>s es. C s \<longrightarrow> obeys ok es \<longrightarrow> P es \<longrightarrow>
        (\<exists>es'. extends ok es es' s (snd (m s)) \<and> C (snd (m s)) \<and>
           (\<forall>a. fst (m s) = Inr a \<longrightarrow> Q a (es @ es'))))"

text \<open>What has happened has happened.\<close>

definition lasting :: "(ops_event list \<Rightarrow> bool) \<Rightarrow> bool" where
  "lasting P \<longleftrightarrow> (\<forall>es es'. P es \<longrightarrow> P (es @ es'))"

lemma lastingD: "lasting P \<Longrightarrow> P es \<Longrightarrow> P (es @ es')"
  by (simp add: lasting_def)

named_theorems lasting_rules "assertions that stay true while events are added"

lemma lasting_basic [simp, lasting_rules]:
  "lasting (\<lambda>es. True)" "lasting (\<lambda>es. b)" "lasting (\<lambda>es. e \<in> set es)"
  "lasting P \<Longrightarrow> lasting Q \<Longrightarrow> lasting (\<lambda>es. P es \<and> Q es)"
  "lasting P \<Longrightarrow> lasting Q \<Longrightarrow> lasting (\<lambda>es. P es \<or> Q es)"
  "(b \<Longrightarrow> lasting Q) \<Longrightarrow> lasting (\<lambda>es. b \<longrightarrow> Q es)"
  by (auto simp: lasting_def)

lemma lasting_ex [simp, lasting_rules]: "(\<And>x. lasting (P x)) \<Longrightarrow> lasting (\<lambda>es. \<exists>x. P x es)"
  by (fastforce simp: lasting_def)

lemma lasting_all [simp, lasting_rules]: "(\<And>x. lasting (P x)) \<Longrightarrow> lasting (\<lambda>es. \<forall>x. P x es)"
  by (fastforce simp: lasting_def)

section \<open>Rules\<close>

lemma orderedI:
  assumes "\<And>s es. C s \<Longrightarrow> obeys ok es \<Longrightarrow> P es \<Longrightarrow>
    \<exists>es'. extends ok es es' s (snd (m s)) \<and> C (snd (m s)) \<and> (\<forall>a. fst (m s) = Inr a \<longrightarrow> Q a (es @ es'))"
  shows "ordered ok C P m Q"
  using assms by (auto simp: ordered_def)

lemma orderedE:
  assumes "ordered ok C P m Q" and "C s" and "obeys ok es" and "P es" and "m s = (r, s')"
  obtains es' where "extends ok es es' s s'" and "C s'" and "\<And>a. r = Inr a \<Longrightarrow> Q a (es @ es')"
  using assms unfolding ordered_def by force

lemma extends_obeys: "extends ok es es' s s' \<Longrightarrow> obeys ok (es @ es')"
  by (simp add: extends_def)

lemma ordered_pure [simp]:
  "ordered ok C P (ret a) (\<lambda>b es. P es \<and> b = a)" "ordered ok C P (raise e) Q"
  "ordered ok C P (liftE r) (\<lambda>b es. P es \<and> r = Inr b)"
  "ordered ok C P (gets f) (\<lambda>b es. P es \<and> (\<exists>s. C s \<and> b = f s))"
  unfolding ordered_def by (auto intro!: exI [of _ "[]"])

lemma ordered_weaken:
  assumes "ordered ok C P m Q" and "\<And>es. P' es \<Longrightarrow> P es" and "\<And>a es. Q a es \<Longrightarrow> Q' a es"
  shows "ordered ok C P' m Q'"
proof (rule orderedI)
  fix s es
  assume pre: "C s" "obeys ok es" "P' es"
  from assms(1) [unfolded ordered_def, rule_format, OF pre(1,2) assms(2) [OF pre(3)]] assms(3)
  show "\<exists>es'. extends ok es es' s (snd (m s)) \<and> C (snd (m s)) \<and> (\<forall>a. fst (m s) = Inr a \<longrightarrow> Q' a (es @ es'))"
    by blast
qed

lemma ordered_post: "ordered ok C P m Q \<Longrightarrow> (\<And>a es. Q a es \<Longrightarrow> Q' a es) \<Longrightarrow> ordered ok C P m Q'"
  by (rule ordered_weaken [of ok C P m Q])

lemma ordered_bindM:
  assumes m: "ordered ok C P m Q" and k: "\<And>a. ordered ok C (Q a) (k a) R"
  shows "ordered ok C P (bindM m k) R"
proof (rule orderedI)
  fix s es
  assume pre: "C s" "obeys ok es" "P es"
  obtain r s1 where run: "m s = (r, s1)" by fastforce
  from orderedE [OF m pre run] obtain e1 where e1: "extends ok es e1 s s1" "C s1"
    and post: "\<And>a. r = Inr a \<Longrightarrow> Q a (es @ e1)" by blast
  show "\<exists>es'. extends ok es es' s (snd (bindM m k s)) \<and> C (snd (bindM m k s)) \<and>
      (\<forall>b. fst (bindM m k s) = Inr b \<longrightarrow> R b (es @ es'))"
  proof (cases r)
    case (Inl e)
    with run e1 show ?thesis by auto
  next
    case (Inr a)
    obtain r2 s2 where run2: "k a s1 = (r2, s2)" by fastforce
    from orderedE [OF k e1(2) extends_obeys [OF e1(1)] post [OF Inr] run2] obtain e2
      where e2: "extends ok (es @ e1) e2 s1 s2" "C s2" and post2: "\<And>b. r2 = Inr b \<Longrightarrow> R b ((es @ e1) @ e2)" by blast
    from extends_trans [OF e1(1) e2(1)] e2(2) post2 run Inr run2 show ?thesis
      by (intro exI [of _ "e1 @ e2"]) simp
  qed
qed

lemma ordered_thenM:
  "ordered ok C P m (\<lambda>_. Q) \<Longrightarrow> ordered ok C Q k R \<Longrightarrow> ordered ok C P (thenM m k) R"
  unfolding thenM_def by (rule ordered_bindM)

lemma ordered_try:
  assumes m: "ordered ok C P m Q" and h: "\<And>e. ordered ok C P (h e) Q" and P: "lasting P"
  shows "ordered ok C P (try_except p m h) Q"
proof (rule orderedI)
  fix s es
  assume pre: "C s" "obeys ok es" "P es"
  obtain r s1 where run: "m s = (r, s1)" by fastforce
  from orderedE [OF m pre run] obtain e1 where e1: "extends ok es e1 s s1" "C s1"
    and post: "\<And>a. r = Inr a \<Longrightarrow> Q a (es @ e1)" by blast
  show "\<exists>es'. extends ok es es' s (snd (try_except p m h s)) \<and> C (snd (try_except p m h s)) \<and>
      (\<forall>b. fst (try_except p m h s) = Inr b \<longrightarrow> Q b (es @ es'))"
  proof (cases r)
    case (Inr a)
    with run e1 post show ?thesis by (auto simp: monad)
  next
    case (Inl x)
    show ?thesis
    proof (cases "p x")
      case False
      with run Inl e1 show ?thesis by (auto simp: monad)
    next
      case True
      obtain r2 s2 where run2: "h x s1 = (r2, s2)" by fastforce
      from orderedE [OF h e1(2) extends_obeys [OF e1(1)] lastingD [OF P pre(3)] run2] obtain e2
        where e2: "extends ok (es @ e1) e2 s1 s2" "C s2" and post2: "\<And>b. r2 = Inr b \<Longrightarrow> Q b ((es @ e1) @ e2)" by blast
      from extends_trans [OF e1(1) e2(1)] e2(2) post2 run Inl True run2 show ?thesis
        by (intro exI [of _ "e1 @ e2"]) (simp add: monad)
    qed
  qed
qed

text \<open>Every fact that lasts can be carried along.\<close>

lemma ordered_frame:
  assumes m: "ordered ok C P m Q" and R: "lasting R"
  shows "ordered ok C (\<lambda>es. P es \<and> R es) m (\<lambda>a es. Q a es \<and> R es)"
  using m lastingD [OF R] unfolding ordered_def by metis

lemma ordered_if:
  "(b \<Longrightarrow> ordered ok C P m Q) \<Longrightarrow> (\<not> b \<Longrightarrow> ordered ok C P n Q) \<Longrightarrow> ordered ok C P (if b then m else n) Q"
  by simp

lemma ordered_assume: "(b \<Longrightarrow> ordered ok C P m Q) \<Longrightarrow> ordered ok C (\<lambda>es. P es \<and> b) m Q"
  unfolding ordered_def by blast

text \<open>What is read off the state is known as far as the condition on the state tells.\<close>

lemma ordered_gets: "(\<And>s. C s \<Longrightarrow> ordered ok C P (k (f s)) Q) \<Longrightarrow> ordered ok C P (bindM (gets f) k) Q"
  unfolding ordered_def by (simp add: monad)

text \<open>A computation that neither adds an event nor is asked for its value.\<close>

lemma ordered_liftE: "(\<And>a. ordered ok C P (k a) Q) \<Longrightarrow> ordered ok C P (bindM (liftE r) k) Q"
proof (rule ordered_bindM [OF ordered_pure(3)], rule ordered_assume)
  fix a
  assume k: "\<And>a. ordered ok C P (k a) Q"
  show "ordered ok C P (k a) Q" by (rule k)
qed

section \<open>The primitive events\<close>

text \<open>The condition on a state only reads what a script never changes.\<close>

definition on_settings :: "(ops \<Rightarrow> bool) \<Rightarrow> bool" where
  "on_settings C \<longleftrightarrow> (\<forall>s s'. settings s' = settings s \<longrightarrow> C s \<longrightarrow> C s')"

lemma on_settingsI [simp]: "on_settings (\<lambda>s. f (settings s))"
  by (simp add: on_settings_def)

lemma ordered_emit:
  assumes "on_settings C" and "lasting P" and "\<And>es. P es \<Longrightarrow> ok es e"
  shows "ordered ok C P (emit_event e) (\<lambda>_ es. P es \<and> e \<in> set es)"
proof (rule orderedI)
  fix s es
  assume pre: "C s" "obeys ok es" "P es"
  have "C (snd (emit_event e s))"
    using assms(1) pre(1) unfolding on_settings_def by (auto simp: emit_event_def settings_def)
  with pre assms(3) lastingD [OF assms(2) pre(3)] show "\<exists>es'. extends ok es es' s (snd (emit_event e s)) \<and>
      C (snd (emit_event e s)) \<and> (\<forall>a. fst (emit_event e s) = Inr a \<longrightarrow> P (es @ es') \<and> e \<in> set (es @ es'))"
    by (intro exI [of _ "[e]"]) (simp add: emit_event_def extends_def settings_def same_files_def)
qed

lemma ordered_run:
  assumes "on_settings C" and "lasting P" and "\<And>es out. P es \<Longrightarrow> ok es (Ran cmd out)"
  shows "ordered ok C P (run_cmd cmd) (\<lambda>t es. P es \<and> (\<exists>err. Ran cmd (Exited 0 t err) \<in> set es))"
proof -
  have "ordered ok C (\<lambda>es. P es \<and> Ran cmd out \<in> set es) (liftE (proc_result cmd out))
      (\<lambda>t es. P es \<and> (\<exists>err. Ran cmd (Exited 0 t err) \<in> set es))" for out
    by (rule ordered_post [OF ordered_pure(3)])
      (cases "(cmd, out)" rule: proc_result.cases; auto)
  with assms show ?thesis
    unfolding run_cmd_def by (intro ordered_gets ordered_thenM [OF ordered_emit]) auto
qed

lemma ordered_confirm:
  assumes "on_settings C" and "lasting P" and "\<And>es a. P es \<Longrightarrow> ok es (Asked p a)"
  shows "ordered ok C P (confirm p) (\<lambda>b es. P es \<and> (b \<longrightarrow> (\<exists>a. Asked p a \<in> set es \<and> is_yes a)))"
proof -
  have "ordered ok C (\<lambda>es. P es \<and> Asked p a \<in> set es) (ret (is_yes a))
      (\<lambda>b es. P es \<and> (b \<longrightarrow> (\<exists>a. Asked p a \<in> set es \<and> is_yes a)))" for a
    by (rule ordered_post [OF ordered_pure(1)]) auto
  with assms show ?thesis
    unfolding confirm_def by (intro ordered_gets ordered_thenM [OF ordered_emit]) auto
qed

lemma ordered_read:
  "ordered ok C P (read_file path) (\<lambda>_. P)"
  unfolding read_file_def
  by (intro ordered_gets) (auto intro: ordered_post [OF ordered_pure(1)] split: option.split)

lemma ordered_write:
  assumes "on_settings C" and "lasting P" and "\<And>es. P es \<Longrightarrow> ok es (Wrote path text)"
  shows "ordered ok C P (write_file path text) (\<lambda>_ es. P es \<and> Wrote path text \<in> set es)"
proof (rule orderedI)
  fix s es
  assume pre: "C s" "obeys ok es" "P es"
  have "C (snd (write_file path text s))"
    using assms(1) pre(1) unfolding on_settings_def by (auto simp: write_file_def emit_event_def settings_def monad)
  with pre assms(3) lastingD [OF assms(2) pre(3)] show "\<exists>es'. extends ok es es' s (snd (write_file path text s)) \<and>
      C (snd (write_file path text s)) \<and>
      (\<forall>a. fst (write_file path text s) = Inr a \<longrightarrow> P (es @ es') \<and> Wrote path text \<in> set (es @ es'))"
    by (intro exI [of _ "[Wrote path text]"])
      (auto simp: write_file_def emit_event_def extends_def settings_def same_files_def monad)
qed

section \<open>Exact histories\<close>

text \<open>The event that follows a history, and no other.\<close>

definition after :: "(ops_event list \<Rightarrow> bool) \<Rightarrow> (ops_event \<Rightarrow> bool) \<Rightarrow> ops_event list \<Rightarrow> bool" where
  "after P f es \<longleftrightarrow> (\<exists>es0 e. es = es0 @ [e] \<and> P es0 \<and> f e)"

lemma after_post: "after P f es \<Longrightarrow> (\<And>e. f e \<Longrightarrow> g e) \<Longrightarrow> after P g es"
  unfolding after_def by blast

lemma ordered_emit_next:
  assumes "on_settings C" and "\<And>es. P es \<Longrightarrow> ok es e"
  shows "ordered ok C P (emit_event e) (\<lambda>_. after P (\<lambda>x. x = e))"
proof (rule orderedI)
  fix s es
  assume pre: "C s" "obeys ok es" "P es"
  have "C (snd (emit_event e s))"
    using assms(1) pre(1) unfolding on_settings_def by (auto simp: emit_event_def settings_def)
  with pre assms(2) show "\<exists>es'. extends ok es es' s (snd (emit_event e s)) \<and>
      C (snd (emit_event e s)) \<and> (\<forall>a. fst (emit_event e s) = Inr a \<longrightarrow> after P (\<lambda>x. x = e) (es @ es'))"
    by (intro exI [of _ "[e]"]) (simp add: emit_event_def extends_def settings_def same_files_def after_def)
qed

lemma ordered_run_next:
  assumes "on_settings C" and "\<And>es out. P es \<Longrightarrow> ok es (Ran cmd out)"
  shows "ordered ok C P (run_cmd cmd) (\<lambda>t. after P (\<lambda>e. \<exists>err. e = Ran cmd (Exited 0 t err)))"
proof -
  have "ordered ok C (after P (\<lambda>e. e = Ran cmd out)) (liftE (proc_result cmd out))
      (\<lambda>t. after P (\<lambda>e. \<exists>err. e = Ran cmd (Exited 0 t err)))" for out
    by (rule ordered_post [OF ordered_pure(3)])
      (cases "(cmd, out)" rule: proc_result.cases; auto elim!: after_post)
  with assms show ?thesis
    unfolding run_cmd_def by (intro ordered_gets ordered_thenM [OF ordered_emit_next]) auto
qed

lemma ordered_confirm_next:
  assumes "on_settings C" and "\<And>es a. P es \<Longrightarrow> ok es (Asked p a)"
  shows "ordered ok C P (confirm p) (\<lambda>b. after P (\<lambda>e. \<exists>a. e = Asked p a \<and> b = is_yes a))"
proof -
  have "ordered ok C (after P (\<lambda>e. e = Asked p a)) (ret (is_yes a))
      (\<lambda>b. after P (\<lambda>e. \<exists>a. e = Asked p a \<and> b = is_yes a))" for a
    by (rule ordered_post [OF ordered_pure(1)]) (auto elim!: after_post)
  with assms show ?thesis
    unfolding confirm_def by (intro ordered_gets ordered_thenM [OF ordered_emit_next]) auto
qed

lemma ordered_write_next:
  assumes "on_settings C" and "\<And>es. P es \<Longrightarrow> ok es (Wrote path text)"
  shows "ordered ok C P (write_file path text) (\<lambda>_. after P (\<lambda>e. \<exists>text. e = Wrote path text))"
proof (rule orderedI)
  fix s es
  assume pre: "C s" "obeys ok es" "P es"
  have "C (snd (write_file path text s))"
    using assms(1) pre(1) unfolding on_settings_def by (auto simp: write_file_def emit_event_def settings_def monad)
  with pre assms(2) show "\<exists>es'. extends ok es es' s (snd (write_file path text s)) \<and>
      C (snd (write_file path text s)) \<and>
      (\<forall>a. fst (write_file path text s) = Inr a \<longrightarrow> after P (\<lambda>e. \<exists>text. e = Wrote path text) (es @ es'))"
    by (intro exI [of _ "[Wrote path text]"])
      (auto simp: write_file_def emit_event_def extends_def settings_def same_files_def monad after_def)
qed

end
