(* ===== verification/Fleet_Properties.thy ===== *)
theory Fleet_Properties
  imports Fleet_Upgrade Ops_Logic
begin

text \<open>
  What the registry and the upgrade driver promise: the committed manifest holds no identifying field,
  an upgrade is planned, confirmed, applied, verified and only then recorded, the walk stops at the first
  failure, and recording it changes two lines.
\<close>

section \<open>The manifest\<close>

lemma all_some_Some: "all_some xs = Some ys \<longleftrightarrow> xs = map Some ys"
proof (induction xs arbitrary: ys)
  case (Cons x xs)
  then show ?case by (cases x; cases ys) auto
qed auto

lemma client_entry_shape:
  assumes "client_entry_of lib v = Some c"
  shows "\<exists>d. v = YMap d \<and> fst ` set d \<subseteq> set entry_keys \<and> slug_ok (ce_slug c) \<and> version_ok (ce_version c)"
  using assms
  by (auto simp: client_entry_of_def only_keys_def list_all_iff checked_def
      split: yaml.splits option.splits bool.splits if_splits)

lemma entry_keys_opaque: "set entry_keys \<inter> set identifying_keys = {}"
  by (simp add: entry_keys_def identifying_keys_def)

text \<open>
  C16: The committed manifest is opaque. Whatever text loads, every entry of its one list carries only the
  seven public fields, so none of the identifying ones; slugs are distinct opaque tokens, and every
  version is a pinned release or \<open>latest\<close>.
\<close>

theorem manifest_opaque:
  assumes "load_manifest lib text = Inr cs"
  shows "\<exists>raw vs. fl_yaml lib text = Inr (YMap raw) \<and> fst ` set raw \<subseteq> {''clients''} \<and>
    map_of raw ''clients'' = Some (YList vs) \<and> length vs = length cs \<and>
    (\<forall>v \<in> set vs. \<exists>d. v = YMap d \<and> fst ` set d \<subseteq> set entry_keys \<and> fst ` set d \<inter> set identifying_keys = {}) \<and>
    distinct (map ce_slug cs) \<and> (\<forall>c \<in> set cs. slug_ok (ce_slug c) \<and> version_ok (ce_version c))"
proof -
  from assms obtain raw where raw: "fl_yaml lib text = Inr (YMap raw)" and f: "fleet_of lib raw = Some cs"
    by (auto simp: load_manifest_def split: sum.splits yaml.splits option.splits)
  from f obtain vs where ok: "only_keys [''clients''] raw" and vs: "map_of raw ''clients'' = Some (YList vs)"
    and cs: "map (client_entry_of lib) vs = map Some cs" and dist: "distinct (map ce_slug cs)"
    unfolding fleet_of_def checked_def
    by (auto simp: all_some_Some split: if_splits option.splits yaml.splits)
  from ok have keys: "fst ` set raw \<subseteq> {''clients''}" by (auto simp: only_keys_def list_all_iff)
  have each: "\<exists>c \<in> set cs. client_entry_of lib v = Some c" if "v \<in> set vs" for v
    using cs that by (metis image_eqI imageE list.set_map)
  have source: "\<exists>v \<in> set vs. client_entry_of lib v = Some c" if "c \<in> set cs" for c
    using cs that by (metis image_eqI imageE list.set_map)
  have "length vs = length cs" using cs by (metis length_map)
  moreover have "\<forall>v \<in> set vs. \<exists>d. v = YMap d \<and> fst ` set d \<subseteq> set entry_keys \<and> fst ` set d \<inter> set identifying_keys = {}"
  proof
    fix v
    assume "v \<in> set vs"
    then obtain c where "client_entry_of lib v = Some c" using each by blast
    from client_entry_shape [OF this] obtain d where d: "v = YMap d" "fst ` set d \<subseteq> set entry_keys" by blast
    then have "fst ` set d \<inter> set identifying_keys = {}" using entry_keys_opaque by auto
    with d show "\<exists>d. v = YMap d \<and> fst ` set d \<subseteq> set entry_keys \<and> fst ` set d \<inter> set identifying_keys = {}"
      by (intro exI [of _ d]) simp
  qed
  moreover have "\<forall>c \<in> set cs. slug_ok (ce_slug c) \<and> version_ok (ce_version c)"
  proof
    fix c
    assume "c \<in> set cs"
    then obtain v where "client_entry_of lib v = Some c" using source by blast
    from client_entry_shape [OF this] show "slug_ok (ce_slug c) \<and> version_ok (ce_version c)" by blast
  qed
  ultimately show ?thesis using raw keys vs dist
    by (intro exI [of _ raw] exI [of _ vs]) (intro conjI; assumption)
qed

definition demo_manifest :: string where
  "demo_manifest = ''clients:'' @ nl @ ''  - slug: demo'' @ nl @ ''    version: v0.1.0 # pin'' @ nl @
     ''    last_upgraded: 2024-01-01'' @ nl @ ''  - slug: acme'' @ nl"

definition demo_yaml :: yaml where
  "demo_yaml = YMap [(''clients'', YList [YMap [(''slug'', YText ''demo''), (''version'', YText ''latest''),
     (''posture'', YText ''hosted''), (''billing_model'', YText ''flat''), (''last_upgraded'', YDate 739000)]])]"

definition demo_lib :: fleet_lib where
  "demo_lib = \<lparr>fl_yaml = (\<lambda>_. Inr demo_yaml),
     fl_date = (\<lambda>v. case v of YDate d \<Rightarrow> Some d | _ \<Rightarrow> None), fl_bool = (\<lambda>v. case v of YBool b \<Rightarrow> Some b | _ \<Rightarrow> None),
     fl_report = yaml_repr\<rparr>"

lemma demo_loads: "\<exists>cs. load_manifest demo_lib manifest = Inr cs \<and> cs \<noteq> []"
proof -
  have ok: "slug_ok ''demo''" "version_ok ''latest''"
    by (simp_all add: slug_ok_def version_ok_def chomp_def in_ranges_def az_def d09_def)
  show ?thesis
    by (simp add: load_manifest_def demo_lib_def demo_yaml_def precheck_identifying_def identifying_keys_def
        fleet_of_def only_keys_def client_entry_of_def entry_keys_def ok checked_def posture_of_def
        billing_of_def offboarded_of_def)
qed

theorem manifest_opaque_witness:
  "\<exists>raw vs. fl_yaml demo_lib demo_manifest = Inr (YMap raw) \<and> map_of raw ''clients'' = Some (YList vs) \<and> vs \<noteq> []"
proof -
  obtain cs where cs: "load_manifest demo_lib demo_manifest = Inr cs" "cs \<noteq> []" using demo_loads by blast
  from manifest_opaque [OF cs(1)] cs(2) show ?thesis by fastforce
qed

section \<open>Recording a version\<close>

text \<open>The line of a field with a new value: indent, line break and what follows the value are kept.\<close>

definition resets :: "string \<Rightarrow> string \<Rightarrow> string \<Rightarrow> string \<Rightarrow> bool" where
  "resets key new line line' \<longleftrightarrow>
     (\<exists>body nl i r. split_newline line = (body, nl) \<and> field_at key plain_value body = Some (i, r) \<and>
        line' = i @ key @ '': '' @ new @ r @ nl)"

definition pins :: "string \<Rightarrow> string \<Rightarrow> string \<Rightarrow> string \<Rightarrow> string \<Rightarrow> string \<Rightarrow> bool" where
  "pins version day x x' y y' \<longleftrightarrow>
     resets ''version'' version x x' \<and> resets ''last_upgraded'' day y y' \<or>
     resets ''last_upgraded'' day x x' \<and> resets ''version'' version y y'"

text \<open>What the flags say of the first line.\<close>

lemma pin_lines_Cons:
  assumes "pin_lines version day dv du (line # ls) = (a, b, out)"
  obtains (v) x' o' where "\<not> dv" "resets ''version'' version line x'" "pin_lines version day True du ls = (a, b, o')"
      "out = x' # o'"
  | (u) x' o' where "\<not> du" "resets ''last_upgraded'' day line x'" "pin_lines version day dv True ls = (a, b, o')"
      "out = x' # o'"
  | (n) o' where "pin_lines version day dv du ls = (a, b, o')" "out = line # o'"
proof -
  obtain body nl where sn: "split_newline line = (body, nl)" by fastforce
  show thesis
  proof (cases "if dv then None else field_at ''version'' plain_value body")
    case (Some p)
    then obtain i r where p: "field_at ''version'' plain_value body = Some (i, r)" and dv: "\<not> dv"
      by (cases p) (auto split: if_splits)
    have "resets ''version'' version line (i @ ''version'' @ '': '' @ version @ r @ nl)"
      using sn p unfolding resets_def by blast
    with assms sn p dv v show thesis by (auto split: prod.splits)
  next
    case nv: None
    show thesis
    proof (cases "if du then None else field_at ''last_upgraded'' plain_value body")
      case (Some p)
      then obtain i r where p: "field_at ''last_upgraded'' plain_value body = Some (i, r)" and du: "\<not> du"
        by (cases p) (auto split: if_splits)
      have "resets ''last_upgraded'' day line (i @ ''last_upgraded'' @ '': '' @ day @ r @ nl)"
        using sn p unfolding resets_def by blast
      with assms sn nv p du u show thesis by (auto split: prod.splits)
    next
      case None
      with assms sn nv n show thesis by (auto split: prod.splits)
    qed
  qed
qed

lemma pin_lines_done: "pin_lines version day True True ls = (a, b, out) \<Longrightarrow> a \<and> b \<and> out = ls"
proof (induction ls arbitrary: a b out)
  case (Cons l ls)
  from Cons.prems show ?case by (rule pin_lines_Cons) (use Cons.IH in auto)
qed simp

lemma pin_lines_one:
  "pin_lines version day True False ls = (a, b, out) \<Longrightarrow> b \<Longrightarrow>
     \<exists>l1 y y' l3. ls = l1 @ y # l3 \<and> out = l1 @ y' # l3 \<and> resets ''last_upgraded'' day y y'"
  "pin_lines version day False True ls = (a, b, out) \<Longrightarrow> a \<Longrightarrow>
     \<exists>l1 y y' l3. ls = l1 @ y # l3 \<and> out = l1 @ y' # l3 \<and> resets ''version'' version y y'"
proof (induction ls arbitrary: a b out)
  case (Cons l ls)
  { case 1
    from 1(1) show ?case
    proof (cases rule: pin_lines_Cons)
      case (u x' o')
      with pin_lines_done [OF u(3)] show ?thesis by (rule_tac exI [of _ "[]"]) auto
    next
      case (n o')
      from Cons.IH(1) [OF n(1) 1(2)] obtain l1 y y' l3
        where "ls = l1 @ y # l3" "o' = l1 @ y' # l3" "resets ''last_upgraded'' day y y'" by blast
      with n show ?thesis by (intro exI [of _ "l # l1"]) auto
    qed simp
  next
    case 2
    from 2(1) show ?case
    proof (cases rule: pin_lines_Cons)
      case (v x' o')
      with pin_lines_done [OF v(3)] show ?thesis by (rule_tac exI [of _ "[]"]) auto
    next
      case (n o')
      from Cons.IH(2) [OF n(1) 2(2)] obtain l1 y y' l3
        where "ls = l1 @ y # l3" "o' = l1 @ y' # l3" "resets ''version'' version y y'" by blast
      with n show ?thesis by (intro exI [of _ "l # l1"]) auto
    qed simp
  }
qed simp_all

lemma pin_lines_two:
  "pin_lines version day False False ls = (a, b, out) \<Longrightarrow> a \<Longrightarrow> b \<Longrightarrow>
   \<exists>l1 x x' l2 y y' l3. ls = l1 @ x # l2 @ y # l3 \<and> out = l1 @ x' # l2 @ y' # l3 \<and> pins version day x x' y y'"
proof (induction ls arbitrary: a b out)
  case (Cons l ls)
  from Cons.prems(1) show ?case
  proof (cases rule: pin_lines_Cons)
    case (v x' o')
    from pin_lines_one(1) [OF v(3) Cons.prems(3)] obtain l1 y y' l3
      where "ls = l1 @ y # l3" "o' = l1 @ y' # l3" "resets ''last_upgraded'' day y y'" by blast
    with v have "l # ls = [] @ l # l1 @ y # l3" "out = [] @ x' # l1 @ y' # l3" "pins version day l x' y y'"
      by (simp_all add: pins_def)
    then show ?thesis by blast
  next
    case (u x' o')
    from pin_lines_one(2) [OF u(3) Cons.prems(2)] obtain l1 y y' l3
      where "ls = l1 @ y # l3" "o' = l1 @ y' # l3" "resets ''version'' version y y'" by blast
    with u have "l # ls = [] @ l # l1 @ y # l3" "out = [] @ x' # l1 @ y' # l3" "pins version day l x' y y'"
      by (simp_all add: pins_def)
    then show ?thesis by blast
  next
    case (n o')
    from Cons.IH [OF n(1) Cons.prems(2,3)] obtain l1 x x' l2 y y' l3
      where "ls = l1 @ x # l2 @ y # l3" "o' = l1 @ x' # l2 @ y' # l3" "pins version day x x' y y'" by blast
    with n have "l # ls = (l # l1) @ x # l2 @ y # l3" "out = (l # l1) @ x' # l2 @ y' # l3" by simp_all
    with \<open>pins version day x x' y y'\<close> show ?thesis by blast
  qed
qed simp

lemma find_upt: "List.find P [a..<b] = Some i \<Longrightarrow> a \<le> i \<and> i < b \<and> P i \<and> (\<forall>j. a \<le> j \<longrightarrow> j < i \<longrightarrow> \<not> P j)"
proof (induction "b - a" arbitrary: a)
  case (Suc n)
  then have ab: "a < b" and n: "n = b - Suc a" by simp_all
  from Suc.prems ab show ?case
  proof (cases "P a")
    case False
    with Suc.prems ab have "List.find P [Suc a..<b] = Some i" by (simp add: upt_conv_Cons)
    from Suc.hyps(1) [OF n this] False show ?thesis by (metis Suc_le_eq le_less less_imp_le)
  qed (simp add: upt_conv_Cons)
qed simp

lemma entry_end_spec:
  assumes "start < length ls"
  shows "start < entry_end ls start \<and> entry_end ls start \<le> length ls \<and>
    (\<forall>i. start < i \<longrightarrow> i < entry_end ls start \<longrightarrow> \<not> sibling (entry_indent (ls ! start)) (ls ! i))"
proof (cases "List.find (\<lambda>i. sibling (entry_indent (ls ! start)) (ls ! i)) [Suc start..<length ls]")
  case None
  then have "entry_end ls start = length ls" by (simp add: entry_end_def)
  with None assms show ?thesis by (auto simp: find_None_iff)
next
  case (Some i)
  from find_upt [OF Some] Some show ?thesis by (auto simp: entry_end_def)
qed

text \<open>The entry of a slug: its first line, and the lines before the next entry.\<close>

lemma entry_split:
  assumes "entry_start ls slug = Some start"
  obtains m mid where "take (entry_end ls start - start) (drop start ls) = m # mid"
    and "ls = take start ls @ (m # mid) @ drop (entry_end ls start) ls"
    and "map_option snd (marker_at m) = Some slug" and "\<forall>l \<in> set mid. \<not> sibling (entry_indent m) l"
proof -
  let ?stop = "entry_end ls start"
  let ?mid = "take (?stop - start) (drop start ls)"
  from assms have st: "start < length ls" "map_option snd (marker_at (ls ! start)) = Some slug"
    unfolding entry_start_def by (auto dest!: find_SomeD)
  have stop: "start < ?stop" "?stop \<le> length ls"
    "\<And>i. start < i \<Longrightarrow> i < ?stop \<Longrightarrow> \<not> sibling (entry_indent (ls ! start)) (ls ! i)"
    using entry_end_spec [OF st(1)] by blast+
  have ls: "ls = take start ls @ ?mid @ drop ?stop ls"
    using stop(1) by (metis append.assoc append_take_drop_id drop_drop le_add_diff_inverse2 less_imp_le take_drop)
  have mid: "?mid = ls ! start # tl ?mid"
  proof -
    have "hd ?mid = ls ! start" "?mid \<noteq> []" using st(1) stop(1) by (simp_all add: hd_drop_conv_nth)
    then show ?thesis by (metis list.collapse)
  qed
  have "\<not> sibling (entry_indent (ls ! start)) l" if l: "l \<in> set (tl ?mid)" for l
  proof -
    from l obtain i where "i < length (tl ?mid)" "l = tl ?mid ! i" by (auto simp: in_set_conv_nth)
    then have "l = ls ! (start + Suc i)" "start + Suc i < ?stop"
      using stop(1,2) by (simp_all add: nth_tl)
    with stop(3) [of "start + Suc i"] show ?thesis by simp
  qed
  with that [of "ls ! start" "tl ?mid"] mid ls st(2) show thesis by simp
qed

text \<open>
  C15: Recording an upgrade changes two lines. When the manifest text is updated for a client, exactly the
  first \<open>version\<close> line and the first \<open>last_upgraded\<close> line of that client's entry are rewritten, each keeping its
  indent, its trailing comment and its line break; every other line is kept byte for byte, and the
  rewritten lines lie before the next entry.
\<close>

theorem pin_edits_two_lines:
  assumes "update_manifest_entry text slug version day = Inr text'"
  shows "\<exists>before l1 x x' l2 y y' l3 after.
    splitlines text = before @ (l1 @ x # l2 @ y # l3) @ after \<and>
    text' = concat (before @ (l1 @ x' # l2 @ y' # l3) @ after) \<and>
    pins version (isoformat day) x x' y y' \<and>
    map_option snd (marker_at (hd (l1 @ [x]))) = Some slug \<and>
    (\<forall>l \<in> set (tl (l1 @ x # l2 @ y # l3)). \<not> sibling (entry_indent (hd (l1 @ [x]))) l)"
proof -
  let ?ls = "splitlines text"
  from assms obtain start where start: "entry_start ?ls slug = Some start"
    by (auto simp: update_manifest_entry_def Let_def split: option.splits)
  let ?stop = "entry_end ?ls start" and ?mid = "take (entry_end ?ls start - start) (drop start ?ls)"
  from entry_split [OF start] obtain m rest where entry: "?mid = m # rest"
    "?ls = take start ?ls @ (m # rest) @ drop ?stop ?ls" "map_option snd (marker_at m) = Some slug"
    "\<forall>l \<in> set rest. \<not> sibling (entry_indent m) l" .
  obtain a b out where pin: "pin_lines version (isoformat day) False False ?mid = (a, b, out)" by (metis prod_cases3)
  from assms start pin have ab: "a" "b" and text': "text' = concat (take start ?ls @ out @ drop ?stop ?ls)"
    by (auto simp: update_manifest_entry_def Let_def split: if_splits)
  from pin_lines_two [OF pin ab] obtain l1 x x' l2 y y' l3
    where mid: "?mid = l1 @ x # l2 @ y # l3" and out: "out = l1 @ x' # l2 @ y' # l3"
      and p: "pins version (isoformat day) x x' y y'" by blast
  have split: "m # rest = l1 @ x # l2 @ y # l3" using mid entry(1) by simp
  then have "hd (l1 @ [x]) = m" "tl (l1 @ x # l2 @ y # l3) = rest" by (cases l1; simp)+
  with entry split have "?ls = take start ?ls @ (l1 @ x # l2 @ y # l3) @ drop ?stop ?ls"
      "map_option snd (marker_at (hd (l1 @ [x]))) = Some slug"
      "\<forall>l \<in> set (tl (l1 @ x # l2 @ y # l3)). \<not> sibling (entry_indent (hd (l1 @ [x]))) l" by simp_all
  with text' p show ?thesis
    unfolding out
    by (intro exI [of _ "take start ?ls"] exI [of _ l1] exI [of _ x] exI [of _ x'] exI [of _ l2] exI [of _ y]
        exI [of _ y'] exI [of _ l3] exI [of _ "drop ?stop ?ls"]) (intro conjI; assumption)
qed

definition demo_pinned :: string where
  "demo_pinned = ''clients:'' @ nl @ ''  - slug: demo'' @ nl @ ''    version: v0.2.0 # pin'' @ nl @
     ''    last_upgraded: 2024-04-24'' @ nl @ ''  - slug: acme'' @ nl"

lemma demo_pin: "update_manifest_entry demo_manifest ''demo'' ''v0.2.0'' 739000 = Inr demo_pinned"
  by code_simp

theorem pin_edits_two_lines_witness:
  "\<exists>before l1 x x' l2 y y' l3 after.
    splitlines demo_manifest = before @ (l1 @ x # l2 @ y # l3) @ after \<and>
    demo_pinned = concat (before @ (l1 @ x' # l2 @ y' # l3) @ after) \<and>
    pins ''v0.2.0'' (isoformat 739000) x x' y y'"
  using pin_edits_two_lines [OF demo_pin] by blast

section \<open>The walk\<close>

text \<open>The state after upgrading the clients of a list, one after the other.\<close>

fun upgraded_after :: "target list \<Rightarrow> string \<Rightarrow> bool \<Rightarrow> date \<Rightarrow> ops \<Rightarrow> ops" where
  "upgraded_after [] bucket yes day s = s"
| "upgraded_after (t # ts) bucket yes day s = upgraded_after ts bucket yes day (snd (upgrade_one t bucket yes day s))"

definition walked :: "nat \<Rightarrow> target list \<Rightarrow> outcome list \<Rightarrow> bool" where
  "walked k ts os \<longleftrightarrow>
     map oc_slug os = map tg_slug ts \<and> k \<le> length ts \<and>
     (\<forall>i < length ts. oc_status (os ! i) =
        (if i < k then ''upgraded'' else if i = k then ''failed'' else ''not-attempted''))"

text \<open>
  C14: The walk stops at the first failure. There is a first client whose upgrade raised (or none): the
  clients before it are reported upgraded and each upgrade returned, it is reported failed, those after
  it are reported not attempted, and the state is exactly that of upgrading the clients up to and
  including it, so that no command is run, no question asked and no file written for a later one.
\<close>

theorem walk_stops_at_failure:
  "run_walk ts bucket yes day s = (Inr os, s') \<Longrightarrow>
   \<exists>k. walked k ts os \<and> s' = upgraded_after (take (Suc k) ts) bucket yes day s \<and>
     (\<forall>i < k. \<exists>s1. upgrade_one (ts ! i) bucket yes day (upgraded_after (take i ts) bucket yes day s) = (Inr (), s1)) \<and>
     (k < length ts \<longrightarrow>
       (\<exists>e s1. upgrade_one (ts ! k) bucket yes day (upgraded_after (take k ts) bucket yes day s) = (Inl e, s1) \<and> is_walk_error e))"
proof (induction ts arbitrary: s os)
  case Nil
  then show ?case by (intro exI [of _ 0]) (simp add: walked_def)
next
  case (Cons t ts)
  obtain r s1 where one: "upgrade_one t bucket yes day s = (r, s1)" by fastforce
  show ?case
  proof (cases r)
    case (Inl e)
    with Cons.prems one have e: "is_walk_error e" and s': "s' = s1"
      and os: "os = \<lparr>oc_slug = tg_slug t, oc_status = ''failed'', oc_detail = first_line e\<rparr> # map not_attempted ts"
      by (auto simp: monad split: if_splits)
    then have "walked 0 (t # ts) os" by (auto simp: walked_def nth_Cons not_attempted_def split: nat.split)
    with one Inl e s' show ?thesis by (intro exI [of _ 0]) simp
  next
    case (Inr u)
    with Cons.prems one obtain os' where run: "run_walk ts bucket yes day s1 = (Inr os', s')"
      and os: "os = \<lparr>oc_slug = tg_slug t, oc_status = ''upgraded'', oc_detail = []\<rparr> # os'"
      by (auto simp: monad split: prod.splits sum.splits)
    from Cons.IH [OF run] obtain k where k: "walked k ts os'" "s' = upgraded_after (take (Suc k) ts) bucket yes day s1"
      "\<forall>i < k. \<exists>s2. upgrade_one (ts ! i) bucket yes day (upgraded_after (take i ts) bucket yes day s1) = (Inr (), s2)"
      "k < length ts \<longrightarrow>
       (\<exists>e s2. upgrade_one (ts ! k) bucket yes day (upgraded_after (take k ts) bucket yes day s1) = (Inl e, s2) \<and> is_walk_error e)"
      by blast
    from k(1) os have "walked (Suc k) (t # ts) os" by (auto simp: walked_def nth_Cons split: nat.split)
    moreover have "\<forall>i < Suc k. \<exists>s2. upgrade_one ((t # ts) ! i) bucket yes day
        (upgraded_after (take i (t # ts)) bucket yes day s) = (Inr (), s2)"
      using k(3) one Inr by (auto simp: less_Suc_eq_0_disj)
    ultimately show ?thesis using k(2,4) one by (intro exI [of _ "Suc k"]) simp
  qed
qed

section \<open>One upgrade\<close>

definition terraform_cmd :: "string \<Rightarrow> string list \<Rightarrow> string list" where
  "terraform_cmd root args = ''terraform'' # chdir_arg root # args"

definition init_cmd :: "string \<Rightarrow> string \<Rightarrow> target \<Rightarrow> string list" where
  "init_cmd root bucket t = terraform_cmd root
     [''init'', ''-reconfigure'', ''-input=false'', ''-backend-config=bucket='' @ bucket,
      ''-backend-config=prefix=brokerops/'' @ tg_slug t]"

text \<open>The plan at the pinned version, into the file that is applied.\<close>

definition plan_cmd :: "string \<Rightarrow> target \<Rightarrow> string list" where
  "plan_cmd root t = terraform_cmd root
     [''plan'', ''-input=false'', ''-var-file='' @ tg_tfvars_rel t, ''-var=image_version='' @ tg_target_version t,
      ''-out='' @ plan_file root (tg_slug t)]"

definition apply_cmd :: "string \<Rightarrow> target \<Rightarrow> string list" where
  "apply_cmd root t = terraform_cmd root [''apply'', ''-input=false'', plan_file root (tg_slug t)]"

definition output_cmd :: "string \<Rightarrow> string list" where
  "output_cmd root = terraform_cmd root [''output'', ''-raw'', ''api_url'']"

definition succeeded :: "string list \<Rightarrow> ops_event list \<Rightarrow> bool" where
  "succeeded cmd es \<longleftrightarrow> (\<exists>out err. Ran cmd (Exited 0 out err) \<in> set es)"

definition agreed :: "string \<Rightarrow> ops_event list \<Rightarrow> bool" where
  "agreed prompt es \<longleftrightarrow> (\<exists>a. Asked prompt a \<in> set es \<and> is_yes a)"

lemma lasting_facts [simp]: "lasting (succeeded cmd)" "lasting (agreed p)"
  by (auto simp: lasting_def succeeded_def agreed_def)

text \<open>The history of an upgrade up to each of its stages, event by event.\<close>

definition ended :: "string list \<Rightarrow> ops_event \<Rightarrow> bool" where
  "ended cmd e \<longleftrightarrow> (\<exists>out err. e = Ran cmd (Exited 0 out err))"

definition inited :: "string \<Rightarrow> string \<Rightarrow> target \<Rightarrow> ops_event list \<Rightarrow> bool" where
  "inited root bucket t = after (\<lambda>es. es = []) (ended (init_cmd root bucket t))"

definition planned :: "string \<Rightarrow> string \<Rightarrow> target \<Rightarrow> ops_event list \<Rightarrow> bool" where
  "planned root bucket t = after (inited root bucket t) (ended (plan_cmd root t))"

definition cleared :: "string \<Rightarrow> string \<Rightarrow> target \<Rightarrow> bool \<Rightarrow> ops_event list \<Rightarrow> bool" where
  "cleared root bucket t yes =
     (if yes then planned root bucket t
      else after (planned root bucket t) (\<lambda>e. \<exists>a. e = Asked (apply_prompt t) a \<and> is_yes a))"

definition applied :: "string \<Rightarrow> string \<Rightarrow> target \<Rightarrow> bool \<Rightarrow> ops_event list \<Rightarrow> bool" where
  "applied root bucket t yes = after (cleared root bucket t yes) (ended (apply_cmd root t))"

text \<open>The address of the upgraded service is known.\<close>

definition located :: "string \<Rightarrow> string \<Rightarrow> target \<Rightarrow> bool \<Rightarrow> string \<Rightarrow> ops_event list \<Rightarrow> bool" where
  "located root bucket t yes base = after (applied root bucket t yes)
     (\<lambda>e. \<exists>out err. e = Ran (output_cmd root) (Exited 0 out err) \<and> base = rstrip_slash (strip out))"

definition answered_with :: "string \<Rightarrow> string option \<Rightarrow> nat \<Rightarrow> ops_event \<Rightarrow> bool" where
  "answered_with url token st e \<longleftrightarrow> (\<exists>x. e = Probed url token x \<and> status_of x = Inr st)"

text \<open>A number of readiness probes have not found the service ready.\<close>

fun unready :: "string \<Rightarrow> string \<Rightarrow> target \<Rightarrow> bool \<Rightarrow> string \<Rightarrow> nat \<Rightarrow> ops_event list \<Rightarrow> bool" where
  "unready root bucket t yes base 0 = located root bucket t yes base"
| "unready root bucket t yes base (Suc n) = after (unready root bucket t yes base n)
     (\<lambda>e. \<exists>st. st \<noteq> 200 \<and> answered_with (base @ readyz_path) None st e)"

definition ready :: "string \<Rightarrow> string \<Rightarrow> target \<Rightarrow> bool \<Rightarrow> string \<Rightarrow> ops_event list \<Rightarrow> bool" where
  "ready root bucket t yes base es \<longleftrightarrow>
     (\<exists>n < readyz_retries. after (unready root bucket t yes base n) (answered_with (base @ readyz_path) None 200) es)"

definition served :: "string \<Rightarrow> string \<Rightarrow> target \<Rightarrow> bool \<Rightarrow> string option \<Rightarrow> ops_event list \<Rightarrow> bool" where
  "served root bucket t yes token es \<longleftrightarrow>
     (\<exists>base. after (ready root bucket t yes base)
        (\<lambda>e. \<exists>st. smoke_ok token st \<and> answered_with (base @ smoke_path) token st e) es)"

definition registered :: "string \<Rightarrow> string \<Rightarrow> target \<Rightarrow> bool \<Rightarrow> string option \<Rightarrow> ops_event list \<Rightarrow> bool" where
  "registered root bucket t yes token =
     after (served root bucket t yes token) (\<lambda>e. \<exists>text. e = Wrote (manifest_path root) text)"

text \<open>Which event may come next.\<close>

definition upgrade_protocol ::
    "string \<Rightarrow> string \<Rightarrow> string option \<Rightarrow> target \<Rightarrow> bool \<Rightarrow> ops_event list \<Rightarrow> ops_event \<Rightarrow> bool" where
  "upgrade_protocol root bucket token t yes es e \<longleftrightarrow>
     (case e of
        Ran cmd out \<Rightarrow>
          cmd = init_cmd root bucket t \<and> es = [] \<or>
          cmd = plan_cmd root t \<and> inited root bucket t es \<or>
          cmd = apply_cmd root t \<and> cleared root bucket t yes es \<or>
          cmd = output_cmd root \<and> applied root bucket t yes es
      | Asked prompt a \<Rightarrow> prompt = apply_prompt t \<and> \<not> yes \<and> planned root bucket t es
      | Probed url tok x \<Rightarrow>
          (\<exists>base. url = base @ readyz_path \<and> tok = None \<and> (\<exists>n < readyz_retries. unready root bucket t yes base n es) \<or>
             url = base @ smoke_path \<and> tok = token \<and> ready root bucket t yes base es)
      | Wrote path text \<Rightarrow>
          path = manifest_path root \<and> served root bucket t yes token es \<or>
          path = infra_path root (tg_tfvars_rel t) \<and> \<not> tg_tracks_latest t \<and> registered root bucket t yes token es
      | Delivered loc packed \<Rightarrow> False)"

definition setting :: "string \<Rightarrow> string option \<Rightarrow> ops \<Rightarrow> bool" where
  "setting root token s \<longleftrightarrow> op_root s = root \<and> op_env s ''FLEET_SMOKE_TOKEN'' = token"

lemma on_setting [simp]: "on_settings (setting root token)"
  by (simp add: on_settings_def setting_def settings_def)

lemma ordered_root:
  "ordered ok (setting root token) P (k (f root)) Q \<Longrightarrow>
   ordered ok (setting root token) P (bindM (gets (\<lambda>s. f (op_root s))) k) Q"
  by (rule ordered_gets) (auto simp: setting_def)

lemma ordered_terraform:
  assumes "\<And>es out. P es \<Longrightarrow> upgrade_protocol root bucket token t yes es (Ran (terraform_cmd root args) out)"
  shows "ordered (upgrade_protocol root bucket token t yes) (setting root token) P (terraform args)
    (\<lambda>out. after P (\<lambda>e. \<exists>err. e = Ran (terraform_cmd root args) (Exited 0 out err)))"
  unfolding terraform_def terraform_cmd_def [symmetric]
  by (rule ordered_root [where f = "\<lambda>r. r"]) (use assms in \<open>auto simp: terraform_cmd_def [symmetric] intro!: ordered_run_next\<close>)

lemma ordered_http:
  assumes "\<And>es x. P es \<Longrightarrow> upgrade_protocol root bucket token t yes es (Probed url tok x)"
  shows "ordered (upgrade_protocol root bucket token t yes) (setting root token) P (http_status url tok)
    (\<lambda>st. after P (answered_with url tok st))"
proof -
  let ?ok = "upgrade_protocol root bucket token t yes"
  have "ordered ?ok (setting root token) (after P (\<lambda>e. e = Probed url tok x)) (liftE (status_of x))
      (\<lambda>st. after P (answered_with url tok st))" for x
    by (rule ordered_post [OF ordered_pure(3)]) (auto simp: answered_with_def elim!: after_post)
  then show ?thesis
    unfolding http_status_def using assms by (intro ordered_gets ordered_thenM [OF ordered_emit_next]) auto
qed

lemma ordered_ready:
  "n + k = readyz_retries \<Longrightarrow>
   ordered (upgrade_protocol root bucket token t yes) (setting root token) (unready root bucket t yes base k)
     (await_ready base n) (\<lambda>_. ready root bucket t yes base)"
proof (induction n arbitrary: k)
  case 0
  show ?case unfolding await_ready.simps by (rule ordered_pure)
next
  case (Suc n)
  let ?ok = "upgrade_protocol root bucket token t yes" and ?C = "setting root token"
  let ?P = "\<lambda>st. after (unready root bucket t yes base k) (answered_with (base @ readyz_path) None st)"
  have probe: "ordered ?ok ?C (unready root bucket t yes base k) (http_status (base @ readyz_path) None) ?P"
    by (rule ordered_http) (use Suc.prems in \<open>auto simp: upgrade_protocol_def intro!: exI [of _ k]\<close>)
  have step: "ordered ?ok ?C (?P st) (if st = 200 then ret () else await_ready base n)
      (\<lambda>_. ready root bucket t yes base)" for st
  proof (rule ordered_if)
    assume "st = 200"
    with Suc.prems show "ordered ?ok ?C (?P st) (ret ()) (\<lambda>_. ready root bucket t yes base)"
      by (intro ordered_post [OF ordered_pure(1)]) (auto simp: ready_def intro!: exI [of _ k])
  next
    assume "st \<noteq> 200"
    then show "ordered ?ok ?C (?P st) (await_ready base n) (\<lambda>_. ready root bucket t yes base)"
      using Suc.prems by (intro ordered_weaken [OF Suc.IH [of "Suc k"]]) (auto elim!: after_post)
  qed
  show ?case unfolding await_ready.simps by (rule ordered_bindM [OF probe step])
qed

lemma ordered_verify:
  "ordered (upgrade_protocol root bucket token t yes) (setting root token)
     (located root bucket t yes (rstrip_slash url)) (verify_upgrade url token) (\<lambda>_. served root bucket t yes token)"
proof -
  let ?ok = "upgrade_protocol root bucket token t yes" and ?C = "setting root token"
  let ?b = "rstrip_slash url"
  let ?P = "\<lambda>st. after (ready root bucket t yes ?b) (answered_with (?b @ smoke_path) token st)"
  have wait: "ordered ?ok ?C (located root bucket t yes ?b) (await_ready ?b readyz_retries)
      (\<lambda>_. ready root bucket t yes ?b)"
    using ordered_ready [of readyz_retries 0] by simp
  have smoke: "ordered ?ok ?C (ready root bucket t yes ?b) (http_status (?b @ smoke_path) token) ?P"
    by (rule ordered_http) (auto simp: upgrade_protocol_def)
  have check: "ordered ?ok ?C (?P st) (if smoke_ok token st then ret () else raise (smoke_error token st))
      (\<lambda>_. served root bucket t yes token)" for st
    by (rule ordered_if, rule ordered_post [OF ordered_pure(1)])
      (auto simp: served_def elim!: after_post intro!: exI [of _ ?b] intro: ordered_pure(2))
  show ?thesis
    unfolding verify_upgrade_def Let_def by (rule ordered_thenM [OF wait], rule ordered_bindM [OF smoke check])
qed

lemma ordered_init:
  "ordered (upgrade_protocol root bucket token t yes) (setting root token) (\<lambda>es. es = []) (tf_init bucket (tg_slug t))
     (\<lambda>_. inited root bucket t)"
  unfolding tf_init_def inited_def
  by (rule ordered_post [OF ordered_terraform])
    (auto simp: upgrade_protocol_def init_cmd_def ended_def elim!: after_post)

lemma ordered_plan:
  "ordered (upgrade_protocol root bucket token t yes) (setting root token) (inited root bucket t)
     (tf_plan t (Some (plan_file root (tg_slug t)))) (\<lambda>_. planned root bucket t)"
  unfolding tf_plan_def planned_def append.simps option.case
  by (rule ordered_post [OF ordered_terraform])
    (auto simp: upgrade_protocol_def plan_cmd_def ended_def elim!: after_post)

lemma ordered_apply:
  "ordered (upgrade_protocol root bucket token t yes) (setting root token) (inited root bucket t) (plan_and_apply t yes)
     (\<lambda>_. applied root bucket t yes)"
proof -
  let ?ok = "upgrade_protocol root bucket token t yes" and ?C = "setting root token"
  let ?Q = "\<lambda>go es. go \<longrightarrow> cleared root bucket t yes es"
  have ask: "ordered ?ok ?C (planned root bucket t) (if yes then ret True else confirm (apply_prompt t)) ?Q"
  proof (rule ordered_if)
    assume yes
    then show "ordered ?ok ?C (planned root bucket t) (ret True) ?Q"
      by (intro ordered_post [OF ordered_pure(1)]) (simp add: cleared_def)
  next
    assume no: "\<not> yes"
    have "ordered ?ok ?C (planned root bucket t) (confirm (apply_prompt t))
        (\<lambda>b. after (planned root bucket t) (\<lambda>e. \<exists>a. e = Asked (apply_prompt t) a \<and> b = is_yes a))"
      by (rule ordered_confirm_next) (use no in \<open>auto simp: upgrade_protocol_def\<close>)
    then show "ordered ?ok ?C (planned root bucket t) (confirm (apply_prompt t)) ?Q"
      by (rule ordered_post) (use no in \<open>auto simp: cleared_def elim!: after_post\<close>)
  qed
  have "ordered ?ok ?C (cleared root bucket t yes) (tf_apply (plan_file root (tg_slug t))) (\<lambda>_. applied root bucket t yes)"
    unfolding tf_apply_def applied_def
    by (rule ordered_post [OF ordered_terraform])
      (auto simp: upgrade_protocol_def apply_cmd_def ended_def elim!: after_post)
  then have go: "ordered ?ok ?C (?Q go) (if go then tf_apply (plan_file root (tg_slug t)) else raise e)
      (\<lambda>_. applied root bucket t yes)" for go e
    by (auto intro: ordered_pure(2))
  have "ordered ?ok ?C (inited root bucket t) (thenM (tf_plan t (Some (plan_file root (tg_slug t))))
      (bindM (if yes then ret True else confirm (apply_prompt t)) (\<lambda>go.
        if go then tf_apply (plan_file root (tg_slug t))
        else raise (UpgradeError (tg_slug t @ '': apply declined at the confirm prompt'')))))
      (\<lambda>_. applied root bucket t yes)"
    by (rule ordered_thenM [OF ordered_plan], rule ordered_bindM [OF ask], rule go)
  then show ?thesis
    unfolding plan_and_apply_def by (rule ordered_root [where f = "\<lambda>r. plan_file r (tg_slug t)"])
qed

lemma ordered_output:
  "ordered (upgrade_protocol root bucket token t yes) (setting root token) (applied root bucket t yes) (tf_output ''api_url'')
     (\<lambda>url. located root bucket t yes (rstrip_slash url))"
proof -
  let ?ok = "upgrade_protocol root bucket token t yes" and ?C = "setting root token"
  let ?P = "\<lambda>out. after (applied root bucket t yes) (\<lambda>e. \<exists>err. e = Ran (output_cmd root) (Exited 0 out err))"
  have "ordered ?ok ?C (applied root bucket t yes) (terraform [''output'', ''-raw'', ''api_url'']) ?P"
    unfolding output_cmd_def by (rule ordered_terraform) (auto simp: upgrade_protocol_def output_cmd_def)
  moreover have "ordered ?ok ?C (?P out) (ret (strip out)) (\<lambda>url. located root bucket t yes (rstrip_slash url))" for out
    by (rule ordered_post [OF ordered_pure(1)]) (auto simp: located_def elim!: after_post)
  ultimately show ?thesis unfolding tf_output_def by (rule ordered_bindM)
qed

lemma ordered_pin:
  "ordered (upgrade_protocol root bucket token t yes) (setting root token) (served root bucket t yes token)
     (write_manifest_pin t day) (\<lambda>_ _. True)"
proof -
  let ?ok = "upgrade_protocol root bucket token t yes" and ?C = "setting root token"
  let ?S = "served root bucket t yes token" and ?R = "registered root bucket t yes token"
  have pin: "ordered ?ok ?C ?S (write_file (manifest_path root) new) (\<lambda>_. ?R)" for new
    unfolding registered_def by (rule ordered_write_next) (auto simp: upgrade_protocol_def)
  have vars: "ordered ?ok ?C ?R (write_file (infra_path root (tg_tfvars_rel t)) new) (\<lambda>_ _. True)"
    if "\<not> tg_tracks_latest t" for new
    by (rule ordered_post [OF ordered_write_next]) (use that in \<open>auto simp: upgrade_protocol_def\<close>)
  have "ordered ?ok ?C ?S (write_pin_at root t day) (\<lambda>_ _. True)"
    unfolding write_pin_at_def
    by (rule ordered_bindM [OF ordered_read], rule ordered_liftE, rule ordered_gets, rule ordered_liftE,
        rule ordered_thenM [OF pin], rule ordered_if, rule ordered_post [OF ordered_pure(1)], simp,
        rule ordered_bindM [OF ordered_read], rule ordered_liftE, rule vars)
  then show ?thesis
    unfolding write_manifest_pin_def by (rule ordered_root [where f = "\<lambda>r. r"])
qed

lemma ordered_upgrade:
  "ordered (upgrade_protocol root bucket token t yes) (setting root token) (\<lambda>es. es = []) (upgrade_one t bucket yes day)
     (\<lambda>_ _. True)"
proof -
  have verify: "ordered (upgrade_protocol root bucket token t yes) (setting root token)
      (located root bucket t yes (rstrip_slash url)) (thenM (verify_upgrade url token) (write_manifest_pin t day))
      (\<lambda>_ _. True)" for url
    by (rule ordered_thenM [OF ordered_verify ordered_pin])
  show ?thesis
    unfolding upgrade_one_def getenv_def
    by (rule ordered_thenM [OF ordered_init], rule ordered_thenM [OF ordered_apply], rule ordered_bindM [OF ordered_output],
        rule ordered_gets) (use verify in \<open>auto simp: setting_def\<close>)
qed


section \<open>A walk over two clients\<close>

definition demo_slib :: script_lib where
  "demo_slib = \<lparr>sl_pack = (\<lambda>ms. concat (map snd ms)), sl_csv = (\<lambda>_. []), sl_loads = (\<lambda>_. None),
     sl_dumps = py_str, sl_netloc_ok = (\<lambda>_. True), sl_expanduser = id, sl_resolve = id\<rparr>"

definition demo_ops :: ops where
  "demo_ops = \<lparr>op_lib = demo_lib, op_slib = demo_slib, op_env = (\<lambda>_. None), op_root = ''/r'',
     op_files = (\<lambda>p. if p = manifest_path ''/r'' then Some demo_manifest else None), op_is_dir = (\<lambda>_. False), op_which = (\<lambda>_. None),
     op_tmp = ''/tmp'', op_today = 739000, op_stamp = [], op_now = [], op_trace = [],
     op_proc = (\<lambda>n cmd. if n < 6 then Exited 0 ''https://api'' [] else Exited 1 [] ''boom''),
     op_http = (\<lambda>_ _. Answered 200), op_answer = (\<lambda>_. None), op_dumped = (\<lambda>_. None)\<rparr>"

definition demo_target :: "string \<Rightarrow> target" where
  "demo_target slug = \<lparr>tg_slug = slug, tg_current_version = ''v0.1.0'', tg_target_version = ''v0.2.0'',
     tg_tfvars_rel = ''clients/'' @ slug @ ''.tfvars'', tg_project = slug, tg_tracks_latest = True\<rparr>"

lemma demo_walk: "\<exists>s'. run_walk [demo_target ''demo'', demo_target ''acme''] ''b'' True 739000 demo_ops =
    (Inr [\<lparr>oc_slug = ''demo'', oc_status = ''upgraded'', oc_detail = []\<rparr>,
          \<lparr>oc_slug = ''acme'', oc_status = ''failed'', oc_detail = first_line (CalledProcessError
             (terraform_cmd ''/r'' [''init'', ''-reconfigure'', ''-input=false'', ''-backend-config=bucket=b'',
               ''-backend-config=prefix=brokerops/acme'']) 1 ''boom'')\<rparr>], s')"
proof -
  obtain cs where cs: "load_manifest demo_lib demo_pinned = Inr cs"
    using demo_loads by blast
  show ?thesis
    by (simp add: upgrade_one_def tf_init_def plan_and_apply_def tf_plan_def tf_apply_def tf_output_def terraform_def
        run_cmd_def emit_event_def getenv_def verify_upgrade_def readyz_retries_def http_status_def smoke_ok_def
        write_manifest_pin_def write_pin_at_def read_file_def write_file_def demo_ops_def demo_target_def demo_pin cs
        monad Let_def eval_nat_numeral terraform_cmd_def str_or_def)
qed

theorem walk_stops_at_failure_witness:
  "\<exists>k os. walked k [demo_target ''demo'', demo_target ''acme''] os \<and> oc_status (os ! 1) = ''failed''"
proof -
  from demo_walk obtain s' where w: "run_walk [demo_target ''demo'', demo_target ''acme''] ''b'' True 739000 demo_ops =
    (Inr [\<lparr>oc_slug = ''demo'', oc_status = ''upgraded'', oc_detail = []\<rparr>,
          \<lparr>oc_slug = ''acme'', oc_status = ''failed'', oc_detail = first_line (CalledProcessError
             (terraform_cmd ''/r'' [''init'', ''-reconfigure'', ''-input=false'', ''-backend-config=bucket=b'',
               ''-backend-config=prefix=brokerops/acme'']) 1 ''boom'')\<rparr>], s')" by blast
  from walk_stops_at_failure [OF w] show ?thesis by force
qed

end
