(* ===== verification/Offboard_Properties.thy ===== *)
theory Offboard_Properties
  imports Offboard Fleet_Properties
begin

text \<open>
  What the offboarding promises: the destroy comes after a delivered archive and a yes, the registry is
  marked only after the cleanup was proved, and a delivered archive holds no short secret.
\<close>

section \<open>Harmless phases\<close>

definition destroy_cmd :: "string \<Rightarrow> string \<Rightarrow> string list" where
  "destroy_cmd root rel = terraform_cmd root [''destroy'', ''-input=false'', ''-var-file='' @ rel, ''-auto-approve'']"

definition destroys :: "string list \<Rightarrow> bool" where
  "destroys cmd \<longleftrightarrow> (\<exists>root rel. cmd = destroy_cmd root rel)"

text \<open>An event that destroys, delivers and writes nothing.\<close>

definition harmless :: "ops_event \<Rightarrow> bool" where
  "harmless e \<longleftrightarrow> (case e of Ran cmd out \<Rightarrow> \<not> destroys cmd | _ \<Rightarrow> False)"

definition frozen :: "ops \<Rightarrow> ops \<Rightarrow> bool" where
  "frozen s0 s \<longleftrightarrow> settings s = settings s0"

lemma on_frozen [simp]: "on_settings (frozen s0)"
  by (simp add: on_settings_def frozen_def)

lemma frozenD: "frozen s0 s \<Longrightarrow> op_root s = op_root s0 \<and> op_slib s = op_slib s0 \<and> op_today s = op_today s0 \<and>
    op_env s = op_env s0"
  by (simp add: frozen_def settings_def)

abbreviation calm :: "ops \<Rightarrow> 'a OM \<Rightarrow> bool" where
  "calm s0 m \<equiv> ordered (\<lambda>_. harmless) (frozen s0) (\<lambda>_. True) m (\<lambda>_ _. True)"

named_theorems calm_rules "computations that only add harmless events"

lemma ordered_top: "ordered ok C P m Q \<Longrightarrow> ordered ok C P m (\<lambda>_ _. True)"
  by (rule ordered_post) simp_all

lemma calm_basic [calm_rules]:
  "calm s0 (ret a)" "calm s0 (raise e)" "calm s0 (gets f)" "calm s0 (liftE r)"
  "calm s0 m \<Longrightarrow> (\<And>a. calm s0 (k a)) \<Longrightarrow> calm s0 (bindM m k)"
  "calm s0 m \<Longrightarrow> calm s0 n \<Longrightarrow> calm s0 (thenM m n)"
  "calm s0 m \<Longrightarrow> (\<And>e. calm s0 (h e)) \<Longrightarrow> calm s0 (try_except p m h)"
  "(b \<Longrightarrow> calm s0 m) \<Longrightarrow> (\<not> b \<Longrightarrow> calm s0 n) \<Longrightarrow> calm s0 (if b then m else n)"
  by (auto intro: ordered_top [OF ordered_pure(1)] ordered_pure(2) ordered_top [OF ordered_pure(3)]
      ordered_top [OF ordered_pure(4)] ordered_bindM ordered_thenM ordered_try)

lemma calm_run [calm_rules]: "\<not> destroys cmd \<Longrightarrow> calm s0 (run_cmd cmd)"
  by (rule ordered_top [OF ordered_run]) (simp_all add: harmless_def)

text \<open>
  A phase that only adds events a protocol always allows: what it promises of its own events holds of a
  suffix, what held before of the prefix.
\<close>

lemma ordered_phase:
  assumes m: "ordered (\<lambda>_. g) C (\<lambda>_. True) m Y" and ok: "\<And>es e. g e \<Longrightarrow> ok es e"
  shows "ordered ok C P m (\<lambda>a es. \<exists>pre mid. es = pre @ mid \<and> P pre \<and> Y a mid)"
proof (rule orderedI)
  fix s es
  assume pre: "C s" "obeys ok es" "P es"
  obtain r s' where run: "m s = (r, s')" by fastforce
  from orderedE [OF m pre(1) obeys_Nil TrueI run] obtain mid where
    mid: "extends (\<lambda>_. g) [] mid s s'" "C s'" and post: "\<And>a. r = Inr a \<Longrightarrow> Y a mid" by auto
  have g: "\<forall>e \<in> set mid. g e"
    using mid(1) by (auto simp: extends_def obeys_def dest: split_list)
  have "obeys ok (es @ mid)"
    using g
  proof (induction mid rule: rev_induct)
    case (snoc e mid)
    then show ?case using ok by (simp flip: append_assoc)
  qed (simp add: pre(2))
  with mid have "extends ok es mid s s'" by (simp add: extends_def)
  with mid(2) post pre(3) run show "\<exists>es'. extends ok es es' s (snd (m s)) \<and> C (snd (m s)) \<and>
      (\<forall>a. fst (m s) = Inr a \<longrightarrow> (\<exists>pre mid. es @ es' = pre @ mid \<and> P pre \<and> Y a mid))"
    by (intro exI [of _ mid]) auto
qed

lemma ordered_calm:
  assumes "calm s0 m" and "\<And>es e. harmless e \<Longrightarrow> ok es e" and "lasting P"
  shows "ordered ok (frozen s0) P m (\<lambda>_. P)"
  by (rule ordered_post [OF ordered_phase [OF assms(1)]]) (use assms(2,3) in \<open>auto simp: lasting_def\<close>)

section \<open>The export is harmless\<close>

lemma destroys_end: "destroys cmd \<Longrightarrow> \<exists>v r. rev cmd = ''-auto-approve'' # (''-var-file='' @ v) # r"
  by (auto simp: destroys_def destroy_cmd_def terraform_cmd_def simp del: rev_eq_Cons_iff)

lemma destroys_start: "destroys cmd \<Longrightarrow> \<exists>c r. cmd = ''terraform'' # c # ''destroy'' # r"
  by (auto simp: destroys_def destroy_cmd_def terraform_cmd_def)

lemma flags_harmless: "\<not> destroys (p @ dump_flags f d)" "\<not> destroys (p @ psql_flags d q)"
  using destroys_end [of "p @ dump_flags f d"] destroys_end [of "p @ psql_flags d q"]
  by (auto simp: dump_flags_def psql_flags_def simp del: rev_eq_Cons_iff)

lemma calm_run_as [calm_rules]: "\<not> destroys cmd \<Longrightarrow> calm s0 (run_as p err cmd)"
  unfolding run_as_def by (intro calm_rules)

lemma calm_tool [calm_rules]: "calm s0 (client_tool b)"
  unfolding client_tool_def getenv_def Let_def by (intro calm_rules)

lemma calm_dump [calm_rules]: "calm s0 (run_pg_dump url dir name)"
  unfolding run_pg_dump_def dumped_file_def case_prod_beta by (intro calm_rules flags_harmless)

lemma calm_copy [calm_rules]: "calm s0 (psql_copy_csv url sql)"
  unfolding psql_copy_csv_def case_prod_beta by (intro calm_rules flags_harmless)

lemma calm_export [calm_rules]: "calm s0 (build_export_tree t url)"
  unfolding build_export_tree_def export_documents_manifest_def export_audit_ledger_def Let_def
  by (intro calm_rules)

lemma calm_url [calm_rules]: "calm s0 (resolve_database_url u)"
  unfolding resolve_database_url_def getenv_def Let_def by (intro calm_rules)

section \<open>What the cleanup proves\<close>

definition answered :: "string list \<Rightarrow> (string \<Rightarrow> bool) \<Rightarrow> ops_event list \<Rightarrow> bool" where
  "answered cmd P es \<longleftrightarrow> (\<exists>out err. Ran cmd (Exited 0 out err) \<in> set es \<and> P out)"

lemma lasting_answered [simp]: "lasting (answered cmd P)"
  by (auto simp: lasting_def answered_def)

definition no_secrets_in :: "string \<Rightarrow> string \<Rightarrow> ops_event list \<Rightarrow> bool" where
  "no_secrets_in slug project es \<longleftrightarrow> answered (secrets_cmd project) (\<lambda>out. client_secrets_in slug out = []) es"

text \<open>
  Every command the cleanup asks ended with 0 and named nothing of the client: no secret in the deploy
  project and in any extra one, no service, database or service account, no scheduler job where the job
  was, and no resource in the state.
\<close>

definition proven_clean :: "ops \<Rightarrow> client_target \<Rightarrow> offboard_args \<Rightarrow> ops_event list \<Rightarrow> bool" where
  "proven_clean s0 t args es \<longleftrightarrow>
     (\<forall>p \<in> insert (ct_project t) (set (oa_secret_projects args) - {[]}). no_secrets_in (ct_slug t) p es) \<and>
     (\<forall>c \<in> set (billable_checks (ct_project t)).
        answered (snd c) (\<lambda>out. names_with (resource_prefix (ct_slug t)) out = []) es) \<and>
     (\<exists>loc. answered (scheduler_cmd (ct_project t) loc)
        (\<lambda>out. filter (contains (resource_prefix (ct_slug t))) (stripped_lines out) = []) es) \<and>
     answered (terraform_cmd (op_root s0) [''state'', ''list'']) (\<lambda>out. stripped_lines out = []) es"

lemma ordered_answer:
  assumes "\<not> destroys cmd" and "lasting P"
  shows "ordered (\<lambda>_. harmless) (frozen s0) P (run_cmd cmd) (\<lambda>out es. P es \<and> answered cmd ((=) out) es)"
  by (rule ordered_post [OF ordered_run]) (use assms in \<open>auto simp: harmless_def answered_def\<close>)

lemma ordered_answer_as:
  assumes "\<not> destroys cmd" and "lasting P"
  shows "ordered (\<lambda>_. harmless) (frozen s0) P (run_as p err cmd) (\<lambda>out es. P es \<and> answered cmd ((=) out) es)"
  unfolding run_as_def by (intro ordered_try ordered_answer assms ordered_pure)

lemma answered_eq: "answered cmd ((=) out) es \<Longrightarrow> P out \<Longrightarrow> answered cmd P es"
  by (auto simp: answered_def)

lemma gcloud_harmless: "\<not> destroys (''gcloud'' # r)"
  using destroys_start by blast

lemma secrets_harmless: "\<not> destroys (secrets_cmd p)" "\<not> destroys (scheduler_cmd p loc)"
    "c \<in> set (billable_checks p) \<Longrightarrow> \<not> destroys (snd c)"
  by (auto simp: secrets_cmd_def scheduler_cmd_def billable_checks_def gcloud_harmless)

lemma ordered_secrets:
  assumes P: "lasting P"
  shows "ordered (\<lambda>_. harmless) (frozen s0) P (list_client_secrets project slug)
    (\<lambda>r es. P es \<and> (r = [] \<longrightarrow> no_secrets_in slug project es))"
proof -
  have go: "ordered (\<lambda>_. harmless) (frozen s0) P (bindM (run_as p err (secrets_cmd project)) (\<lambda>out. ret (client_secrets_in slug out)))
      (\<lambda>r es. P es \<and> (r = [] \<longrightarrow> no_secrets_in slug project es))" for p err
  proof (rule ordered_bindM [OF ordered_answer_as [OF secrets_harmless(1) P]])
    fix out
    show "ordered (\<lambda>_. harmless) (frozen s0) (\<lambda>es. P es \<and> answered (secrets_cmd project) ((=) out) es)
        (ret (client_secrets_in slug out)) (\<lambda>r es. P es \<and> (r = [] \<longrightarrow> no_secrets_in slug project es))"
      by (rule ordered_post [OF ordered_pure(1)]) (auto simp: no_secrets_in_def intro: answered_eq)
  qed
  show ?thesis
    unfolding list_client_secrets_def gcloud_present_def
    by (rule ordered_gets, rule ordered_if, rule ordered_pure(2), rule go)
qed

lemma ordered_secrets_gone:
  assumes P: "lasting P"
  shows "ordered (\<lambda>_. harmless) (frozen s0) P (verify_secrets_gone project slug) (\<lambda>_ es. P es \<and> no_secrets_in slug project es)"
  unfolding verify_secrets_gone_def
proof (rule ordered_bindM [OF ordered_secrets [OF P]])
  fix r :: "string list" and e
  show "ordered (\<lambda>_. harmless) (frozen s0) (\<lambda>es. P es \<and> (r = [] \<longrightarrow> no_secrets_in slug project es))
      (if r = [] then ret () else raise (OffboardError (''Secret Manager still has '' @ show_nat (length r) @
         '' client secret(s) after destroy in project '' @ py_repr project @ '': '' @ list_repr r @
         ''. Destroy them explicitly, then re-run with --skip-export --mark-only if the infra is already gone.'')))
      (\<lambda>_ es. P es \<and> no_secrets_in slug project es)"
    by (rule ordered_if, rule ordered_post [OF ordered_pure(1)]) (auto intro: ordered_pure(2))
qed

lemma lasting_no_secrets [simp]: "lasting (no_secrets_in slug project)"
  unfolding no_secrets_in_def by simp

lemma lasting_ball [simp]: "(\<And>x. lasting (P x)) \<Longrightarrow> lasting (\<lambda>es. \<forall>x \<in> A. P x es)"
  by (auto simp: lasting_def)

lemma ordered_secrets_all:
  "lasting P \<Longrightarrow> ordered (\<lambda>_. harmless) (frozen s0) P (verify_secrets_gone_all ps slug)
    (\<lambda>_ es. P es \<and> (\<forall>p \<in> set ps. no_secrets_in slug p es))"
proof (induction ps arbitrary: P)
  case Nil
  show ?case unfolding verify_secrets_gone_all.simps by (rule ordered_post [OF ordered_pure(1)]) simp
next
  case (Cons p ps)
  have "ordered (\<lambda>_. harmless) (frozen s0) (\<lambda>es. P es \<and> no_secrets_in slug p es) (verify_secrets_gone_all ps slug)
      (\<lambda>_ es. (P es \<and> no_secrets_in slug p es) \<and> (\<forall>p \<in> set ps. no_secrets_in slug p es))"
    using Cons.prems by (intro Cons.IH) simp
  from ordered_thenM [OF ordered_secrets_gone [OF Cons.prems] this] show ?case
    unfolding verify_secrets_gone_all.simps by (rule ordered_post) auto
qed

lemma ordered_mapM:
  assumes f: "\<And>x P. x \<in> set xs \<Longrightarrow> lasting P \<Longrightarrow> ordered ok C P (f x) (\<lambda>r es. P es \<and> R x r es)"
    and R: "\<And>x r. lasting (R x r)"
  shows "lasting P \<Longrightarrow> ordered ok C P (mapM f xs) (\<lambda>rs es. P es \<and> list_all2 (\<lambda>x r. R x r es) xs rs)"
  using f
proof (induction xs arbitrary: P)
  case Nil
  show ?case unfolding mapM.simps by (rule ordered_post [OF ordered_pure(1)]) simp
next
  case (Cons x xs)
  have rest: "ordered ok C (\<lambda>es. P es \<and> R x r es) (bindM (mapM f xs) (\<lambda>rs. ret (r # rs)))
      (\<lambda>rs es. P es \<and> list_all2 (\<lambda>x r. R x r es) (x # xs) rs)" for r
  proof (rule ordered_bindM)
    show "ordered ok C (\<lambda>es. P es \<and> R x r es) (mapM f xs)
        (\<lambda>rs es. (P es \<and> R x r es) \<and> list_all2 (\<lambda>x r. R x r es) xs rs)"
      using Cons.prems R by (intro Cons.IH) auto
    fix rs
    show "ordered ok C (\<lambda>es. (P es \<and> R x r es) \<and> list_all2 (\<lambda>x r. R x r es) xs rs) (ret (r # rs))
        (\<lambda>rs es. P es \<and> list_all2 (\<lambda>x r. R x r es) (x # xs) rs)"
      by (rule ordered_post [OF ordered_pure(1)]) auto
  qed
  show ?case
    unfolding mapM.simps using Cons.prems by (intro ordered_bindM [OF _ rest]) auto
qed

definition check_clean :: "string \<Rightarrow> string \<times> string list \<Rightarrow> string \<times> string list \<Rightarrow> ops_event list \<Rightarrow> bool" where
  "check_clean prefix c r es \<longleftrightarrow> (snd r = [] \<longrightarrow> answered (snd c) (\<lambda>out. names_with prefix out = []) es)"

lemma lasting_check [simp]: "lasting (check_clean prefix c r)"
  unfolding check_clean_def by (intro lasting_basic(6) lasting_answered)

lemma ordered_check:
  assumes "c \<in> set (billable_checks project)" and P: "lasting P"
  shows "ordered (\<lambda>_. harmless) (frozen s0) P (run_check project prefix c) (\<lambda>r es. P es \<and> check_clean prefix c r es)"
proof -
  obtain key cmd where c: "c = (key, cmd)" by fastforce
  have ret: "ordered (\<lambda>_. harmless) (frozen s0) (\<lambda>es. P es \<and> answered cmd ((=) out) es) (ret (key, names_with prefix out))
      (\<lambda>r es. P es \<and> check_clean prefix c r es)" for out
    by (rule ordered_post [OF ordered_pure(1)]) (auto simp: check_clean_def c intro: answered_eq)
  have "\<not> destroys cmd" using secrets_harmless(3) [OF assms(1)] c by simp
  from ordered_bindM [OF ordered_answer_as [OF this P] ret] show ?thesis
    by (simp add: run_check_def c)
qed

definition jobs_clean :: "string \<Rightarrow> string \<Rightarrow> string list \<Rightarrow> ops_event list \<Rightarrow> bool" where
  "jobs_clean project prefix locs es \<longleftrightarrow> (\<forall>loc \<in> set locs. answered (scheduler_cmd project loc)
     (\<lambda>out. filter (contains prefix) (stripped_lines out) = []) es)"

lemma lasting_jobs [simp]: "lasting (jobs_clean project prefix locs)"
  unfolding jobs_clean_def by simp

lemma add_new_empty: "foldl add_new xs ys = [] \<longleftrightarrow> xs = [] \<and> ys = []"
proof -
  have "set (foldl add_new xs ys) = set xs \<union> set ys"
    by (induction ys arbitrary: xs) (auto simp: add_new_def)
  then show ?thesis by (metis set_empty sup_eq_bot_iff)
qed

lemma add_new_set: "set (foldl add_new xs ys) = set xs \<union> set ys"
  by (induction ys arbitrary: xs) (auto simp: add_new_def)

lemma ordered_jobs:
  "lasting P \<Longrightarrow> ordered (\<lambda>_. harmless) (frozen s0) P (probe_scheduler_jobs project prefix found locs)
    (\<lambda>r es. P es \<and> (r = [] \<longrightarrow> found = [] \<and> jobs_clean project prefix locs es))"
proof (induction locs arbitrary: P found)
  case Nil
  show ?case
    unfolding probe_scheduler_jobs.simps by (rule ordered_post [OF ordered_pure(1)]) (simp add: jobs_clean_def)
next
  case (Cons loc locs)
  have rest: "ordered (\<lambda>_. harmless) (frozen s0) (\<lambda>es. P es \<and> answered (scheduler_cmd project loc) ((=) out) es)
      (probe_scheduler_jobs project prefix (foldl add_new found (filter (contains prefix) (stripped_lines out))) locs)
      (\<lambda>r es. P es \<and> (r = [] \<longrightarrow> found = [] \<and> jobs_clean project prefix (loc # locs) es))" for out
    using Cons.prems
    by (intro ordered_post [OF Cons.IH]) (auto simp: add_new_empty jobs_clean_def intro: answered_eq)
  show ?case
    unfolding probe_scheduler_jobs.simps
    by (rule ordered_bindM [OF ordered_answer_as [OF secrets_harmless(2) Cons.prems] rest])
qed

definition checks_clean :: "string \<Rightarrow> string \<Rightarrow> ops_event list \<Rightarrow> bool" where
  "checks_clean project slug es \<longleftrightarrow>
     (\<forall>c \<in> set (billable_checks project). answered (snd c) (\<lambda>out. names_with (resource_prefix slug) out = []) es)"

lemma lasting_checks [simp]: "lasting (checks_clean project slug)"
  unfolding checks_clean_def by simp

lemma checks_clean_of:
  assumes "list_all2 (\<lambda>c r. check_clean (resource_prefix slug) c r es) (billable_checks project) hints"
    and "real_leftovers hints = []"
  shows "checks_clean project slug es"
  unfolding checks_clean_def
proof
  fix c
  assume "c \<in> set (billable_checks project)"
  then obtain i where "i < length (billable_checks project)" "c = billable_checks project ! i" by (metis in_set_conv_nth)
  with assms(1) have "check_clean (resource_prefix slug) c (hints ! i) es" "hints ! i \<in> set hints"
    by (auto simp: list_all2_conv_all_nth)
  with assms(2) show "answered (snd c) (\<lambda>out. names_with (resource_prefix slug) out = []) es"
    by (simp add: real_leftovers_def filter_empty_conv check_clean_def case_prod_beta)
qed

lemma ordered_hints:
  assumes P: "lasting P"
  shows "ordered (\<lambda>_. harmless) (frozen s0) P (list_billable_hints project slug locs)
    (\<lambda>hints es. P es \<and> (real_leftovers hints = [] \<longrightarrow>
       checks_clean project slug es \<and> jobs_clean project (resource_prefix slug) locs es))"
proof -
  let ?h = "\<lambda>_. harmless" and ?C = "frozen s0" and ?p = "resource_prefix slug"
  let ?Q = "\<lambda>hints es. P es \<and> (real_leftovers hints = [] \<longrightarrow> checks_clean project slug es)"
  let ?R = "\<lambda>hints jobs es. ?Q hints es \<and> (jobs = [] \<longrightarrow> jobs_clean project ?p locs es)"
  have lastQ: "lasting (?Q hints)" for hints using P by simp
  have lastR: "lasting (?R hints jobs)" for hints jobs using P by simp
  have ret: "ordered ?h ?C (?R hints jobs) (ret (hints @ [(''scheduler_jobs'', jobs), (''secrets'', secrets)]))
      (\<lambda>hints es. P es \<and> (real_leftovers hints = [] \<longrightarrow> checks_clean project slug es \<and> jobs_clean project ?p locs es))"
    for hints jobs secrets
    by (rule ordered_post [OF ordered_pure(1)]) (auto simp: real_leftovers_def)
  have sec: "ordered ?h ?C (?R hints jobs) (list_client_secrets project slug) (\<lambda>_. ?R hints jobs)" for hints jobs
    by (rule ordered_post [OF ordered_secrets [OF lastR]]) simp
  have jobs: "ordered ?h ?C (?Q hints) (probe_scheduler_jobs project ?p [] locs) (?R hints)" for hints
    by (rule ordered_post [OF ordered_jobs [OF lastQ]]) simp
  have checks: "ordered ?h ?C P (mapM (run_check project ?p) (billable_checks project)) ?Q"
    by (rule ordered_post [OF ordered_mapM [OF ordered_check _ P]]) (auto intro: checks_clean_of)
  show ?thesis
    unfolding list_billable_hints_def gcloud_present_def
    by (rule ordered_gets, rule ordered_if, rule ordered_pure(2), rule ordered_bindM [OF checks],
        rule ordered_bindM [OF jobs], rule ordered_bindM [OF sec], rule ret)
qed

lemma init_harmless: "\<not> destroys (terraform_cmd root (''init'' # r))" "\<not> destroys (terraform_cmd root (''state'' # r))"
  by (auto simp: destroys_def destroy_cmd_def terraform_cmd_def)

lemma ordered_frozen_root:
  "ordered ok (frozen s0) P (k (op_root s0)) Q \<Longrightarrow> ordered ok (frozen s0) P (bindM (gets op_root) k) Q"
  by (rule ordered_gets) (auto dest: frozenD)

lemma ordered_frozen_terraform:
  "ordered ok (frozen s0) P (run_cmd (terraform_cmd (op_root s0) args)) Q \<Longrightarrow> ordered ok (frozen s0) P (terraform args) Q"
  unfolding terraform_def terraform_cmd_def by (rule ordered_frozen_root)

lemma calm_init [calm_rules]: "calm s0 (tf_init bucket slug)"
  unfolding tf_init_def by (intro ordered_frozen_terraform calm_rules init_harmless)

lemma ordered_state_empty:
  assumes P: "lasting P"
  shows "ordered (\<lambda>_. harmless) (frozen s0) P (verify_tf_state_empty bucket slug)
    (\<lambda>_ es. P es \<and> answered (terraform_cmd (op_root s0) [''state'', ''list'']) (\<lambda>out. stripped_lines out = []) es)"
proof -
  let ?cmd = "terraform_cmd (op_root s0) [''state'', ''list'']"
  have init: "ordered (\<lambda>_. harmless) (frozen s0) P (tf_init bucket slug) (\<lambda>_. P)"
    by (rule ordered_calm [OF calm_init _ P])
  have run: "ordered (\<lambda>_. harmless) (frozen s0) P (try_except p (terraform [''state'', ''list'']) (\<lambda>e. raise (f e)))
      (\<lambda>out es. P es \<and> answered ?cmd ((=) out) es)" for p f
    by (intro ordered_try ordered_frozen_terraform ordered_answer init_harmless P ordered_pure)
  have chk: "ordered (\<lambda>_. harmless) (frozen s0) (\<lambda>es. P es \<and> answered ?cmd ((=) out) es)
      (if stripped_lines out = [] then ret () else raise e) (\<lambda>_ es. P es \<and> answered ?cmd (\<lambda>out. stripped_lines out = []) es)"
    for out e
    by (rule ordered_if, rule ordered_post [OF ordered_pure(1)]) (auto intro: ordered_pure(2) answered_eq)
  show ?thesis
    unfolding verify_tf_state_empty_def Let_def by (rule ordered_thenM [OF init], rule ordered_bindM [OF run], rule chk)
qed

lemma ordered_cleanup:
  "ordered (\<lambda>_. harmless) (frozen s0) (\<lambda>_. True) (cleanup_proof t args bucket) (\<lambda>_. proven_clean s0 t args)"
proof -
  let ?h = "\<lambda>_. harmless" and ?C = "frozen s0" and ?slug = "ct_slug t" and ?project = "ct_project t"
  let ?S = "\<lambda>ps es. \<forall>p \<in> set ps. no_secrets_in ?slug p es"
  have projects: "ordered ?h ?C (\<lambda>_. True) (secret_projects t extra)
      (\<lambda>ps es. insert ?project (set extra - {[]}) \<subseteq> set ps)" for extra
    unfolding secret_projects_def getenv_def
    by (rule ordered_gets, rule ordered_post [OF ordered_pure(1)]) (auto simp: add_new_set simp del: split_on.simps)
  have locations: "ordered ?h ?C (\<lambda>es. b) (scheduler_locations_for t) (\<lambda>locs es. b \<and> locs \<noteq> [])" for b
    unfolding scheduler_locations_for_def getenv_def read_region_def Let_def
    by (rule ordered_gets, rule ordered_if, rule ordered_pure(2), rule ordered_if,
        rule ordered_post [OF ordered_pure(1)], simp, cases "usable_tfvars t")
      (auto intro!: ordered_gets ordered_post [OF ordered_pure(1)] ordered_pure(2))
  have hints: "ordered ?h ?C (\<lambda>es. ?S ps es) (list_billable_hints ?project ?slug locs)
      (\<lambda>hints es. ?S ps es \<and> (real_leftovers hints = [] \<longrightarrow>
         checks_clean ?project ?slug es \<and> jobs_clean ?project (resource_prefix ?slug) locs es))" for ps locs
    by (rule ordered_hints) simp
  have state: "ordered ?h ?C (\<lambda>es. ?S ps es \<and> checks_clean ?project ?slug es \<and> jobs_clean ?project (resource_prefix ?slug) locs es)
      (verify_tf_state_empty b ?slug) (\<lambda>_. proven_clean s0 t args)"
    if "insert ?project (set (oa_secret_projects args) - {[]}) \<subseteq> set ps" "locs \<noteq> []" for ps locs b
    by (rule ordered_post [OF ordered_state_empty])
      (use that in \<open>auto simp: proven_clean_def checks_clean_def jobs_clean_def neq_Nil_conv\<close>)
  have verify: "ordered ?h ?C (\<lambda>es. insert ?project (set (oa_secret_projects args) - {[]}) \<subseteq> set ps \<and> locs \<noteq> [])
      (verify_hosted_cleanup ?project ?slug ps bucket locs) (\<lambda>_. proven_clean s0 t args)" for ps locs
  proof -
    have "ordered ?h ?C (\<lambda>es. True) (verify_hosted_cleanup ?project ?slug ps bucket locs) (\<lambda>_. proven_clean s0 t args)"
      if ok: "insert ?project (set (oa_secret_projects args) - {[]}) \<subseteq> set ps \<and> locs \<noteq> []"
    proof -
      have first: "ordered ?h ?C (\<lambda>_. True) (verify_secrets_gone_all ps ?slug) (\<lambda>_. ?S ps)"
        by (rule ordered_post [OF ordered_secrets_all]) simp_all
      show ?thesis
        unfolding verify_hosted_cleanup_def
        by (rule ordered_thenM [OF first], rule ordered_bindM [OF hints], rule ordered_if, rule ordered_pure(2),
            rule ordered_if, rule ordered_weaken [OF state]) (use ok in \<open>auto intro: ordered_pure(2)\<close>)
    qed
    then show ?thesis unfolding ordered_def by blast
  qed
  show ?thesis
    unfolding cleanup_proof_def by (rule ordered_bindM [OF projects], rule ordered_bindM [OF locations], rule verify)
qed

section \<open>The order of an offboarding\<close>

definition no_short_secret :: "script_lib \<Rightarrow> string \<Rightarrow> bool" where
  "no_short_secret lib packed \<longleftrightarrow>
     (\<exists>members. packed = sl_pack lib members \<and>
        (\<forall>data a x b r. (data = packed \<or> data \<in> snd ` set members) \<and> data = a @ x @ b \<and> r \<in> set secret_patterns \<and>
           secret_in r a x b \<and> x \<noteq> [] \<longrightarrow> 129 < length x))"

lemma clean_no_secret:
  assumes "assert_archive_clean path name (sl_pack lib members) members = Inr ()"
  shows "no_short_secret lib (sl_pack lib members)"
proof -
  have clean: "scan_archive name (sl_pack lib members) members = []"
    using assms by (simp add: assert_archive_clean_def Let_def split: if_splits)
  have "129 < length x"
    if "(data = sl_pack lib members \<or> data \<in> snd ` set members) \<and> data = a @ x @ b \<and> r \<in> set secret_patterns \<and>
      secret_in r a x b \<and> x \<noteq> []" for data a x b r
  proof (rule ccontr)
    assume "\<not> 129 < length x"
    then have "length x \<le> 129" by simp
    with scan_finds [of data "sl_pack lib members" members a x b r name] that clean show False by blast
  qed
  then show ?thesis unfolding no_short_secret_def by blast
qed

definition delivered :: "ops_event list \<Rightarrow> bool" where
  "delivered es \<longleftrightarrow> (\<exists>loc packed. Delivered loc packed \<in> set es)"

text \<open>The destroy, unless skipped, and after it the proof of the cleanup, unless skipped.\<close>

definition swept :: "ops \<Rightarrow> client_target \<Rightarrow> offboard_args \<Rightarrow> ops_event list \<Rightarrow> bool" where
  "swept s0 t args es \<longleftrightarrow>
     (\<exists>pre mid post. es = pre @ mid @ post \<and>
        (oa_skip_destroy args \<or> (\<exists>rel. succeeded (destroy_cmd (op_root s0) rel) pre)) \<and>
        (oa_skip_secrets_verify args \<or> proven_clean s0 t args mid))"

lemma lasting_delivered [simp]: "lasting delivered"
  by (auto simp: lasting_def delivered_def)

lemma lasting_swept [simp]: "lasting (swept s0 t args)"
  unfolding lasting_def swept_def by (metis append.assoc)

definition mode_of :: "client_target \<Rightarrow> offboard_args \<Rightarrow> posture" where
  "mode_of t args = effective_mode (oa_mode args) (ct_posture t)"

text \<open>
  A destroy may run when the operator asked for the hosted mode, or left the mode open and the registry says
  that the client is hosted.
\<close>

definition destroy_mode :: "client_target \<Rightarrow> offboard_args \<Rightarrow> bool" where
  "destroy_mode t args \<longleftrightarrow> oa_mode args = Some Hosted \<or> oa_mode args = None \<and> ct_posture t = Hosted"

lemma hosted_mode: "mode_of t args = Hosted \<longleftrightarrow> destroy_mode t args"
  by (simp add: mode_of_def effective_mode_def destroy_mode_def split: option.split)

definition may_destroy :: "ops \<Rightarrow> client_target \<Rightarrow> offboard_args \<Rightarrow> ops_event list \<Rightarrow> string list \<Rightarrow> bool" where
  "may_destroy s0 t args es cmd \<longleftrightarrow>
     destroy_mode t args \<and> \<not> oa_mark_only args \<and> \<not> oa_export_only args \<and> \<not> oa_skip_destroy args \<and>
     (\<exists>rel. usable_tfvars t = Some rel \<and> cmd = destroy_cmd (op_root s0) rel) \<and>
     (oa_yes args \<or> agreed (destroy_prompt t) es) \<and> (oa_skip_export args \<or> delivered es)"

definition may_mark :: "ops \<Rightarrow> client_target \<Rightarrow> offboard_args \<Rightarrow> ops_event list \<Rightarrow> bool" where
  "may_mark s0 t args es \<longleftrightarrow>
     \<not> oa_export_only args \<and>
     (if oa_mark_only args then oa_yes args \<or> agreed (mark_only_prompt t (op_today s0)) es
      else (oa_yes args \<or> agreed (mark_prompt t (op_today s0)) es) \<and> (oa_skip_export args \<or> delivered es) \<and>
           (mode_of t args = ClientInfra \<or> swept s0 t args es))"

definition offboard_protocol ::
    "ops \<Rightarrow> client_target \<Rightarrow> offboard_args \<Rightarrow> ops_event list \<Rightarrow> ops_event \<Rightarrow> bool" where
  "offboard_protocol s0 t args es e \<longleftrightarrow>
     (case e of
        Ran cmd out \<Rightarrow> destroys cmd \<longrightarrow> may_destroy s0 t args es cmd
      | Delivered loc packed \<Rightarrow> \<not> oa_mark_only args \<and> \<not> oa_skip_export args \<and> no_short_secret (op_slib s0) packed
      | Wrote path text \<Rightarrow> path = manifest_path (op_root s0) \<and> may_mark s0 t args es
      | Probed url token x \<Rightarrow> False
      | Asked prompt a \<Rightarrow> True)"

lemma harmless_allowed: "harmless e \<Longrightarrow> offboard_protocol s0 t args es e"
  by (cases e) (simp_all add: harmless_def offboard_protocol_def)

lemma keeps_calm: "calm s0 m \<Longrightarrow> lasting P \<Longrightarrow> ordered (offboard_protocol s0 t args) (frozen s0) P m (\<lambda>_. P)"
  by (rule ordered_calm [OF _ harmless_allowed])

lemma ordered_gate:
  assumes P: "lasting P"
  shows "ordered (offboard_protocol s0 t args) (frozen s0) P (gate yes prompt msg) (\<lambda>_ es. P es \<and> (yes \<or> agreed prompt es))"
proof -
  have ask: "ordered (offboard_protocol s0 t args) (frozen s0) P (if yes then ret True else confirm prompt)
      (\<lambda>go es. P es \<and> (go \<longrightarrow> yes \<or> agreed prompt es))"
    by (rule ordered_if, rule ordered_post [OF ordered_pure(1)], simp, rule ordered_post [OF ordered_confirm])
      (auto simp: P offboard_protocol_def agreed_def)
  have go: "ordered (offboard_protocol s0 t args) (frozen s0) (\<lambda>es. P es \<and> (go \<longrightarrow> yes \<or> agreed prompt es))
      (if go then ret () else raise e) (\<lambda>_ es. P es \<and> (yes \<or> agreed prompt es))" for go e
    by (rule ordered_if, rule ordered_post [OF ordered_pure(1)]) (auto intro: ordered_pure(2))
  show ?thesis unfolding gate_def by (rule ordered_bindM [OF ask go])
qed

lemma ordered_mark:
  assumes "lasting P" and "\<And>es. P es \<Longrightarrow> may_mark s0 t args es"
  shows "ordered (offboard_protocol s0 t args) (frozen s0) P
    (thenM (write_manifest_offboarded slug when) (ret n)) (\<lambda>_ _. True)"
proof -
  let ?ok = "offboard_protocol s0 t args" and ?C = "frozen s0"
  have put: "ordered ?ok ?C P (write_file (manifest_path (op_root s0)) new) (\<lambda>_ _. True)" for new
    by (rule ordered_top [OF ordered_write]) (use assms in \<open>simp_all add: offboard_protocol_def\<close>)
  have "ordered ?ok ?C P (bindM (read_file (manifest_path (op_root s0))) (\<lambda>text.
      bindM (liftE (mark_offboarded text slug when)) (\<lambda>new. bindM (gets op_lib) (\<lambda>lib.
      bindM (liftE (load_manifest lib new)) (\<lambda>_. write_file (manifest_path (op_root s0)) new))))) (\<lambda>_ _. True)"
    by (rule ordered_bindM [OF ordered_read], rule ordered_liftE, rule ordered_gets, rule ordered_liftE, rule put)
  then have "ordered ?ok ?C P (write_manifest_offboarded slug when) (\<lambda>_ _. True)"
    unfolding write_manifest_offboarded_def by (intro ordered_gets) (auto dest: frozenD)
  then show ?thesis by (rule ordered_thenM) (rule ordered_top [OF ordered_pure(1)])
qed

lemma ordered_deliver:
  assumes "\<not> oa_mark_only args" and "\<not> oa_skip_export args"
  shows "ordered (offboard_protocol s0 t args) (frozen s0) (\<lambda>_. no_short_secret (op_slib s0) packed)
    (deliver_archive dir name packed dest) (\<lambda>_. delivered)"
proof -
  let ?ok = "offboard_protocol s0 t args" and ?C = "frozen s0" and ?P = "\<lambda>_ :: ops_event list. no_short_secret (op_slib s0) packed"
  have emit: "ordered ?ok ?C ?P (thenM (emit_event (Delivered loc packed)) (ret r)) (\<lambda>_. delivered)" for loc r
  proof (rule ordered_thenM [OF ordered_emit])
    show "ordered ?ok ?C (\<lambda>es. no_short_secret (op_slib s0) packed \<and> ops_event.Delivered loc packed \<in> set es) (ret r)
        (\<lambda>_. delivered)"
      by (rule ordered_post [OF ordered_pure(1)]) (auto simp: delivered_def)
  qed (use assms in \<open>simp_all add: offboard_protocol_def\<close>)
  have copy: "ordered ?ok ?C ?P (run_as is_process_error err ((if b then [''gsutil''] else [''gcloud'', ''storage'']) @ r))
      (\<lambda>_. ?P)" for b err r
    by (rule keeps_calm [OF calm_run_as]) (auto dest: destroys_start)
  show ?thesis
    unfolding deliver_archive_def Let_def
    by (rule ordered_gets, rule ordered_gets, rule ordered_gets, rule ordered_if, rule ordered_if, rule ordered_pure(2),
        rule ordered_thenM [OF copy emit], rule ordered_gets, rule emit)
qed

lemma ordered_export:
  assumes "\<not> oa_mark_only args" and "\<not> oa_skip_export args"
  shows "ordered (offboard_protocol s0 t args) (frozen s0) (\<lambda>_. True) (export_and_deliver t args) (\<lambda>_. delivered)"
proof -
  let ?ok = "offboard_protocol s0 t args" and ?C = "frozen s0"
  let ?packed = "\<lambda>payload. pack_archive (op_slib s0) payload"
  have scan: "ordered ?ok ?C (\<lambda>_. True) (liftE (assert_archive_clean path name (?packed payload) (archive_members payload)))
      (\<lambda>_ es. no_short_secret (op_slib s0) (?packed payload))" for path name payload
    by (rule ordered_post [OF ordered_pure(3)]) (auto simp: pack_archive_def intro: clean_no_secret)
  have send: "ordered ?ok ?C (\<lambda>_. True) (thenM
      (liftE (assert_archive_clean (path_child tmp name) name (pack_archive lib payload) (archive_members payload)))
      (deliver_archive tmp name (pack_archive lib payload) (oa_dest args))) (\<lambda>_. delivered)"
    if "lib = op_slib s0" for tmp name payload lib
    unfolding that by (rule ordered_thenM [OF scan ordered_deliver]) (use assms in auto)
  show ?thesis
    unfolding export_and_deliver_def Let_def
    by (rule ordered_gets, rule ordered_bindM [OF keeps_calm [OF calm_url]], simp,
        rule ordered_bindM [OF keeps_calm [OF calm_export]], simp, rule ordered_gets, rule ordered_gets, rule send)
      (auto dest: frozenD)
qed

lemma ordered_destroy:
  assumes "mode_of t args = Hosted" and "\<not> oa_mark_only args" and "\<not> oa_export_only args" and "\<not> oa_skip_destroy args"
    and P: "lasting P" and go: "\<And>es. P es \<Longrightarrow> (oa_yes args \<or> agreed (destroy_prompt t) es) \<and> (oa_skip_export args \<or> delivered es)"
  shows "ordered (offboard_protocol s0 t args) (frozen s0) P (tf_destroy t bucket True)
    (\<lambda>_ es. P es \<and> (\<exists>rel. succeeded (destroy_cmd (op_root s0) rel) es))"
proof (cases "usable_tfvars t")
  case None
  then show ?thesis by (simp add: tf_destroy_def)
next
  case (Some rel)
  let ?ok = "offboard_protocol s0 t args" and ?C = "frozen s0" and ?cmd = "destroy_cmd (op_root s0) rel"
  have run: "ordered ?ok ?C P (terraform [''destroy'', ''-input=false'', ''-var-file='' @ rel, ''-auto-approve''])
      (\<lambda>_ es. P es \<and> succeeded ?cmd es)"
    by (rule ordered_frozen_terraform, rule ordered_post [OF ordered_run])
      (use assms Some in \<open>auto simp: offboard_protocol_def may_destroy_def hosted_mode succeeded_def destroy_cmd_def\<close>)
  have end_: "ordered ?ok ?C (\<lambda>es. P es \<and> succeeded ?cmd es) (ret ())
      (\<lambda>_ es. P es \<and> (\<exists>rel. succeeded (destroy_cmd (op_root s0) rel) es))"
    by (rule ordered_post [OF ordered_pure(1)]) auto
  show ?thesis
    unfolding tf_destroy_def Some option.case
    by (rule ordered_thenM [OF keeps_calm [OF calm_init P]], rule ordered_thenM [OF ordered_try [OF _ _ P] end_])
      (use run in \<open>simp_all add: ordered_pure(2)\<close>)
qed

definition exported :: "offboard_args \<Rightarrow> ops_event list \<Rightarrow> bool" where
  "exported args es \<longleftrightarrow> oa_skip_export args \<or> delivered es"

lemma lasting_exported [simp]: "lasting (exported args)"
  unfolding exported_def by simp

definition torn_down :: "ops \<Rightarrow> client_target \<Rightarrow> offboard_args \<Rightarrow> ops_event list \<Rightarrow> bool" where
  "torn_down s0 t args es \<longleftrightarrow> exported args es \<and> (mode_of t args = ClientInfra \<or> swept s0 t args es)"

lemma lasting_torn_down [simp]: "lasting (torn_down s0 t args)"
  unfolding torn_down_def by simp

text \<open>The proof of the cleanup, after what went before.\<close>

lemma ordered_proof:
  assumes P: "lasting P" and ok: "\<And>es. P es \<Longrightarrow> exported args es \<and>
    (oa_skip_destroy args \<or> (\<exists>rel. succeeded (destroy_cmd (op_root s0) rel) es))"
  shows "ordered (offboard_protocol s0 t args) (frozen s0) P (cleanup_proof t args bucket) (\<lambda>_. torn_down s0 t args)"
proof (rule ordered_post [OF ordered_phase [OF ordered_cleanup harmless_allowed]])
  fix es
  assume "\<exists>pre mid. es = pre @ mid \<and> P pre \<and> proven_clean s0 t args mid"
  then obtain pre mid where es: "es = pre @ mid" "P pre" "proven_clean s0 t args mid" by blast
  have "swept s0 t args es"
    unfolding swept_def es(1) using ok [OF es(2)] es(3) by (intro exI [of _ pre] exI [of _ mid] exI [of _ "[]"]) simp
  moreover have "exported args es" using ok [OF es(2)] es(1) lastingD [OF lasting_exported] by blast
  ultimately show "torn_down s0 t args es" by (simp add: torn_down_def)
qed

lemma ordered_destroy_step:
  assumes "mode_of t args = Hosted" and "\<not> oa_mark_only args" and "\<not> oa_export_only args" and "\<not> oa_skip_destroy args"
  shows "ordered (offboard_protocol s0 t args) (frozen s0) (exported args) (destroy_step t args) (\<lambda>_. torn_down s0 t args)"
proof -
  let ?ok = "offboard_protocol s0 t args" and ?C = "frozen s0"
  let ?G = "\<lambda>es. exported args es \<and> (oa_yes args \<or> agreed (destroy_prompt t) es)"
  let ?D = "\<lambda>es. ?G es \<and> (\<exists>rel. succeeded (destroy_cmd (op_root s0) rel) es)"
  have G: "lasting ?G" by simp
  have D: "lasting ?D" by simp
  have destroy: "ordered ?ok ?C ?G (tf_destroy t bucket True) (\<lambda>_. ?D)" for bucket
    by (rule ordered_destroy [OF assms G]) (simp add: exported_def)
  have skip: "ordered ?ok ?C ?D (ret ()) (\<lambda>_. torn_down s0 t args)" if "oa_skip_secrets_verify args"
  proof (rule ordered_post [OF ordered_pure(1)])
    fix es and a :: unit
    assume d: "?D es \<and> a = ()"
    then have "swept s0 t args es"
      unfolding swept_def using that by (intro exI [of _ es] exI [of _ "[]"]) auto
    with d show "torn_down s0 t args es" by (simp add: torn_down_def)
  qed
  have proof_: "ordered ?ok ?C ?D (cleanup_proof t args bucket) (\<lambda>_. torn_down s0 t args)" for bucket
    by (rule ordered_proof [OF D]) auto
  show ?thesis
    unfolding destroy_step_def getenv_def
    by (rule ordered_gets, rule ordered_if, rule ordered_pure(2), rule ordered_if, rule ordered_pure(2),
        rule ordered_thenM [OF ordered_gate], simp, rule ordered_thenM [OF destroy], rule ordered_if, rule skip,
        assumption, rule proof_)
qed

lemma ordered_teardown:
  assumes "\<not> oa_mark_only args" and "\<not> oa_export_only args"
  shows "ordered (offboard_protocol s0 t args) (frozen s0) (exported args) (teardown t (mode_of t args) args)
    (\<lambda>_. torn_down s0 t args)"
proof -
  let ?ok = "offboard_protocol s0 t args" and ?C = "frozen s0"
  have none: "ordered ?ok ?C (exported args) (ret ()) (\<lambda>_. torn_down s0 t args)"
    if "mode_of t args = ClientInfra \<or> oa_skip_destroy args \<and> oa_skip_secrets_verify args"
  proof (rule ordered_post [OF ordered_pure(1)])
    fix es and a :: unit
    assume "exported args es \<and> a = ()"
    moreover have "swept s0 t args es" if "oa_skip_destroy args" "oa_skip_secrets_verify args"
      unfolding swept_def using that by (intro exI [of _ es] exI [of _ "[]"]) simp
    ultimately show "torn_down s0 t args es" using that by (auto simp: torn_down_def)
  qed
  show ?thesis
    unfolding teardown_def getenv_def
    by (rule ordered_if, rule none, simp, rule ordered_if, rule ordered_destroy_step [OF _ assms],
        cases "mode_of t args", simp_all, intro conjI impI none ordered_gets ordered_proof) auto
qed

lemma ordered_steps:
  assumes "args_error args = None"
  shows "ordered (offboard_protocol s0 t args) (frozen s0) (\<lambda>_. True) (offboard_steps t (mode_of t args) args) (\<lambda>_ _. True)"
proof -
  let ?ok = "offboard_protocol s0 t args" and ?C = "frozen s0"
  have not_both: "oa_mark_only args \<Longrightarrow> \<not> oa_export_only args"
    using assms by (auto simp: args_error_def split: if_splits)
  have only: "ordered ?ok ?C (\<lambda>_. True) (thenM (gate (oa_yes args) (mark_only_prompt t (op_today s0)) m)
      (thenM (write_manifest_offboarded (ct_slug t) d) (ret 0))) (\<lambda>_ _. True)"
    if "oa_mark_only args" for m d
    by (rule ordered_thenM [OF ordered_gate ordered_mark]) (use that not_both in \<open>simp_all add: may_mark_def\<close>)
  have export: "ordered ?ok ?C (\<lambda>_. True)
      (if oa_skip_export args then ret () else thenM (export_and_deliver t args) (ret ())) (\<lambda>_. exported args)"
    if "\<not> oa_mark_only args"
  proof (rule ordered_if)
    assume n: "\<not> oa_skip_export args"
    have "ordered ?ok ?C delivered (ret ()) (\<lambda>_. exported args)"
      by (rule ordered_post [OF ordered_pure(1)]) (simp add: exported_def)
    then show "ordered ?ok ?C (\<lambda>_. True) (thenM (export_and_deliver t args) (ret ())) (\<lambda>_. exported args)"
      by (rule ordered_thenM [OF ordered_export [OF that n]])
  qed (rule ordered_post [OF ordered_pure(1)], simp add: exported_def)
  have mark: "ordered ?ok ?C (torn_down s0 t args) (thenM (gate (oa_yes args) (mark_prompt t (op_today s0)) m)
      (thenM (write_manifest_offboarded (ct_slug t) d) (ret 0))) (\<lambda>_ _. True)"
    if "\<not> oa_mark_only args" "\<not> oa_export_only args" for m d
    by (rule ordered_thenM [OF ordered_gate ordered_mark])
      (use that in \<open>auto simp: may_mark_def torn_down_def exported_def\<close>)
  have all: "ordered ?ok ?C (\<lambda>_. True)
      (thenM (if oa_skip_export args then ret () else thenM (export_and_deliver t args) (ret ()))
        (if oa_export_only args then ret 0
         else thenM (teardown t (mode_of t args) args)
                (thenM (gate (oa_yes args) (mark_prompt t (op_today s0)) m)
                   (thenM (write_manifest_offboarded (ct_slug t) d) (ret 0))))) (\<lambda>_ _. True)"
    if "\<not> oa_mark_only args" for m d
    by (rule ordered_thenM [OF export [OF that]], rule ordered_if, rule ordered_top [OF ordered_pure(1)],
        rule ordered_thenM [OF ordered_teardown [OF that] mark [OF that]])
  show ?thesis
    unfolding offboard_steps_def
  proof (rule ordered_gets)
    fix s
    assume "frozen s0 s"
    then have d: "op_today s = op_today s0" by (auto dest: frozenD)
    show "ordered ?ok ?C (\<lambda>_. True)
        (if oa_mark_only args
         then thenM (gate (oa_yes args) (mark_only_prompt t (op_today s)) ''mark declined at the confirm prompt'')
                (thenM (write_manifest_offboarded (ct_slug t) (op_today s)) (ret 0))
         else thenM (if oa_skip_export args then ret () else thenM (export_and_deliver t args) (ret ()))
                (if oa_export_only args then ret 0
                 else thenM (teardown t (mode_of t args) args)
                        (thenM (gate (oa_yes args) (mark_prompt t (op_today s))
                                  (''registry mark declined '' @ em_dash @ '' export/destroy may already be done; '' @
                                   ''re-run with --mark-only to record offboarded_at''))
                           (thenM (write_manifest_offboarded (ct_slug t) (op_today s)) (ret 0)))))
        (\<lambda>_ _. True)"
      unfolding d by (rule ordered_if, erule only, erule all)
  qed
qed

section \<open>The command\<close>

text \<open>Resolving the client only reads.\<close>

definition reads_only :: "'a OM \<Rightarrow> bool" where
  "reads_only m \<longleftrightarrow> (\<forall>s. snd (m s) = s)"

lemma reads_only_basic [simp]:
  "reads_only (ret a)" "reads_only (raise e)" "reads_only (gets f)" "reads_only (liftE r)"
  "reads_only m \<Longrightarrow> (\<And>a. reads_only (k a)) \<Longrightarrow> reads_only (bindM m k)"
  by (auto simp: reads_only_def monad split: sum.splits prod.splits) (metis snd_conv)+

lemma reads_registry: "reads_only (read_file p)" "reads_only load_registry"
  unfolding load_registry_def read_file_def by (auto split: option.split)

lemma reads_resolve: "reads_only (resolve_client cs ov slug b)" "reads_only (offboard_resolve args)"
proof -
  show "reads_only (resolve_client cs ov slug b)" for cs ov slug b
    unfolding resolve_client_def project_of_def read_project_id_def Let_def
    by (auto simp: reads_registry split: option.split)
  then show "reads_only (offboard_resolve args)"
    unfolding offboard_resolve_def case_prod_beta by (simp add: reads_registry)
qed

lemma offboard_run_cases:
  obtains (failed) "snd (offboard_run args s) = s"
  | (resolved) t where "fst (offboard_resolve args s) = Inr t" "offboard_run args s = offboard_client t args s"
proof (cases "fst (offboard_resolve args s)")
  case (Inl e)
  moreover have "snd (offboard_resolve args s) = s" using reads_resolve(2) by (simp add: reads_only_def)
  ultimately have "offboard_resolve args s = (Inl e, s)" by (metis prod.collapse)
  then show thesis by (intro failed) (simp add: offboard_run_def monad)
next
  case (Inr t)
  moreover have "snd (offboard_resolve args s) = s" using reads_resolve(2) by (simp add: reads_only_def)
  ultimately have "offboard_resolve args s = (Inr t, s)" by (metis prod.collapse)
  with Inr show thesis by (intro resolved) (simp_all add: offboard_run_def monad)
qed


end
