(* ===== verification/Offboard_Mark.thy ===== *)
theory Offboard_Mark
  imports Offboard Fleet_Properties
begin

text \<open>Marking a client in the registry touches one line of its entry.\<close>

lemma body_of_prefix: "\<exists>e. line = body_of line @ e \<and> (e = [] \<or> e = nl)"
proof (cases "endswith line nl")
  case True
  then obtain t where "line = t @ nl" by (auto simp: endswith_iff)
  with True show ?thesis by (auto simp: body_of_def split_newline_def nl_def)
qed (simp add: body_of_def split_newline_def)

text \<open>The first line of an entry starts with a dash, so it is no line of a field.\<close>

lemma marker_no_field:
  assumes "marker_at m \<noteq> None" and "key \<noteq> []" and "hd key \<noteq> CHR ''-''"
  shows "field_at key v (body_of m) = None"
proof -
  from assms(1) obtain r where dash: "dropWhile is_space m = CHR ''-'' # r"
    by (auto simp: marker_at_def Let_def split: list.splits if_splits)
  obtain e where e: "m = body_of m @ e" "e = [] \<or> e = nl" using body_of_prefix by blast
  have "dropWhile is_space e = []" using e(2) by (auto simp: nl_def is_space_def)
  with dash e(1) have some: "\<exists>c \<in> set (body_of m). \<not> is_space c"
    by (metis dropWhile_append2 list.discI)
  with dash e(1) have "dropWhile is_space (body_of m) @ e = CHR ''-'' # r" by (metis dropWhile_append1)
  moreover have "dropWhile is_space (body_of m) \<noteq> []" using some by (simp add: dropWhile_eq_Nil_conv)
  ultimately have "\<exists>q. dropWhile is_space (body_of m) = CHR ''-'' # q" by (cases "dropWhile is_space (body_of m)") auto
  with assms(2,3) show ?thesis by (cases key) (auto simp: field_at_def Let_def)
qed

definition redates :: "string \<Rightarrow> string \<Rightarrow> string \<Rightarrow> bool" where
  "redates day line line' \<longleftrightarrow>
     (\<exists>i r. field_at ''offboarded_at'' full_value (body_of line) = Some (i, r) \<and>
        line' = i @ ''offboarded_at: '' @ day @ r @ snd (split_newline line))"

lemma field_line_Some:
  "field_line key ls = Some (i, a, r) \<Longrightarrow> i < length ls \<and> field_at key full_value (body_of (ls ! i)) = Some (a, r)"
  by (auto simp: field_line_def split: option.splits dest!: find_SomeD)

lemma mark_entry_one:
  assumes "map_option snd (marker_at m) = Some slug"
  shows "\<exists>b old new a. mid = b @ old @ a \<and> mark_entry slug day (m # mid) = (m # b) @ [new] @ a \<and>
    ((\<exists>line. old = [line] \<and> redates day line new) \<or>
     old = [] \<and> (\<exists>indent. list_all is_space indent \<and> new = indent @ ''offboarded_at: '' @ day @ nl))"
proof -
  have marker: "field_at ''offboarded_at'' full_value (body_of m) = None"
    using assms by (intro marker_no_field) auto
  show ?thesis
  proof (cases "field_line ''offboarded_at'' (m # mid)")
    case (Some p)
    then obtain i x r where p: "field_line ''offboarded_at'' (m # mid) = Some (i, x, r)" by (cases p) auto
    from field_line_Some [OF p] marker obtain j where j: "i = Suc j" "j < length mid"
      "field_at ''offboarded_at'' full_value (body_of (mid ! j)) = Some (x, r)"
      by (cases i) auto
    have "mid = take j mid @ [mid ! j] @ drop (Suc j) mid" using j(2) by (simp add: id_take_nth_drop)
    moreover have "mark_entry slug day (m # mid) =
        (m # take j mid) @ [x @ ''offboarded_at: '' @ day @ r @ snd (split_newline (mid ! j))] @ drop (Suc j) mid"
      using p j(1,2) by (simp add: mark_entry_def upd_conv_take_nth_drop)
    moreover have "redates day (mid ! j) (x @ ''offboarded_at: '' @ day @ r @ snd (split_newline (mid ! j)))"
      using j(3) by (auto simp: redates_def)
    ultimately show ?thesis by blast
  next
    case None
    obtain at indent where ins: "insertion slug (m # mid) = (at, indent)" by fastforce
    have "(\<exists>k. at = Suc k) \<and> list_all is_space indent"
    proof (cases "field_line ''last_upgraded'' (m # mid)")
      case (Some q)
      then obtain i x r where q: "field_line ''last_upgraded'' (m # mid) = Some (i, x, r)" by (cases q) auto
      from field_line_Some [OF q] have "list_all is_space x"
        by (auto simp: field_at_def Let_def list_all_iff dest: set_takeWhileD split: if_splits)
      with q ins show ?thesis by (auto simp: insertion_def)
    next
      case no: None
      have blanks: "is_space CHR '' ''" by (simp add: is_space_def)
      have "list_all is_space (takeWhile is_space z @ ''  '')" for z
        using blanks by (auto simp: list_all_iff dest: set_takeWhileD)
      with no ins blanks show ?thesis
        by (cases "filter (\<lambda>l. map_option snd (marker_at (body_of l)) = Some slug) (m # mid)")
          (auto simp: insertion_def simp del: filter.simps list_all_append)
    qed
    then obtain k where k: "at = Suc k" "list_all is_space indent" by blast
    have "mid = take k mid @ [] @ drop k mid" by simp
    moreover have "mark_entry slug day (m # mid) = (m # take k mid) @ [indent @ ''offboarded_at: '' @ day @ nl] @ drop k mid"
      using None ins k(1) by (simp add: mark_entry_def)
    ultimately show ?thesis using k(2) by blast
  qed
qed

text \<open>
  Marking a client offboarded touches one line. Every byte of the manifest is kept but one line of the
  client's entry, after its first line and before the next entry: the \<open>offboarded_at\<close> line gets the new date
  and keeps its indent, what follows the value and its line break, or, when there is none, one line is
  inserted.
\<close>

theorem mark_edits_one_line:
  assumes "mark_offboarded text slug day = Inr text'"
  shows "\<exists>before first b old new a after.
    splitlines text = before @ (first # b @ old @ a) @ after \<and>
    text' = concat (before @ (first # b @ [new] @ a) @ after) \<and>
    map_option snd (marker_at first) = Some slug \<and>
    (\<forall>l \<in> set (b @ old @ a). \<not> sibling (entry_indent first) l) \<and>
    ((\<exists>line. old = [line] \<and> redates (isoformat day) line new) \<or>
     old = [] \<and> (\<exists>indent. list_all is_space indent \<and> new = indent @ ''offboarded_at: '' @ isoformat day @ nl))"
proof -
  let ?ls = "splitlines text"
  from assms obtain start where start: "entry_start ?ls slug = Some start"
    by (auto simp: mark_offboarded_def Let_def split: option.splits)
  from entry_split [OF start] obtain m mid where entry:
    "take (entry_end ?ls start - start) (drop start ?ls) = m # mid"
    "?ls = take start ?ls @ (m # mid) @ drop (entry_end ?ls start) ?ls" "map_option snd (marker_at m) = Some slug"
    "\<forall>l \<in> set mid. \<not> sibling (entry_indent m) l" .
  from mark_entry_one [OF entry(3), of mid "isoformat day"] obtain b old new a where
    mid: "mid = b @ old @ a" and out: "mark_entry slug (isoformat day) (m # mid) = (m # b) @ [new] @ a"
    and one: "(\<exists>line. old = [line] \<and> redates (isoformat day) line new) \<or>
     old = [] \<and> (\<exists>indent. list_all is_space indent \<and> new = indent @ ''offboarded_at: '' @ isoformat day @ nl)"
    by blast
  have "text' = concat (take start ?ls @ (m # b @ [new] @ a) @ drop (entry_end ?ls start) ?ls)"
    using assms start entry(1) out by (simp add: mark_offboarded_def Let_def)
  moreover from entry(2) have "?ls = take start ?ls @ (m # b @ old @ a) @ drop (entry_end ?ls start) ?ls"
    by (simp only: mid)
  moreover from entry(4) have "\<forall>l \<in> set (b @ old @ a). \<not> sibling (entry_indent m) l" by (simp only: mid)
  ultimately show ?thesis
    using entry(3) one
    by (intro exI [of _ "take start ?ls"] exI [of _ m] exI [of _ b] exI [of _ old] exI [of _ new] exI [of _ a]
        exI [of _ "drop (entry_end ?ls start) ?ls"]) (intro conjI; assumption)
qed

definition demo_marked :: string where
  "demo_marked = ''clients:'' @ nl @ ''  - slug: demo'' @ nl @ ''    version: v0.1.0 # pin'' @ nl @
     ''    last_upgraded: 2024-01-01'' @ nl @ ''    offboarded_at: 2024-04-24'' @ nl @ ''  - slug: acme'' @ nl"

lemma demo_mark: "mark_offboarded demo_manifest ''demo'' 739000 = Inr demo_marked"
  by code_simp

theorem mark_edits_one_line_witness:
  "\<exists>before first b old new a after.
    splitlines demo_manifest = before @ (first # b @ old @ a) @ after \<and>
    demo_marked = concat (before @ (first # b @ [new] @ a) @ after) \<and>
    map_option snd (marker_at first) = Some ''demo''"
  using mark_edits_one_line [OF demo_mark] by blast

end
