(* ===== verification/Spec2Isabelle.thy ===== *)
theory Spec2Isabelle
  imports Tool_Surface Drive Delivery Timeline Cron_Properties Approved_Text Route_Reads Send_Once Transaction_Route_Properties Dsn_Properties Offboard_Properties Offboard_Mark
begin

text \<open>
  A verification library for BrokerOps, a back office for real-estate brokerages: a FastAPI service whose
  workflows draft what an agent would send or file, stop at a human gate, and only then act through the
  wired vendors; and the operator scripts that upgrade and offboard client installations. The library
  models the Python of \<open>src/core\<close>, \<open>src/api\<close>, \<open>src/orchestration\<close>, \<open>src/integrations\<close> and \<open>src/scripts\<close>
  (below, \<open>core/x\<close> is \<open>src/core/src/brokerops_core/x\<close>, \<open>api/x\<close> is \<open>src/api/src/brokerops_api/x\<close>, and so on)
  and proves what makes its parts correct. The properties carry the names C1 to C40.

  How the parts interact. A request enters a route with a principal (\<open>Identity\<close>, \<open>Sessions\<close>, \<open>Magic_Links\<close>,
  \<open>Wiring\<close>) and, through the middleware, a bound tenant (\<open>Tenancy\<close>). Routes and workflow nodes reach data
  only through the scoped stores (\<open>Scoped_Stores\<close> over \<open>Stores\<close>), and reach vendors only through the seam
  that \<open>main.py\<close> composes around each port: tool guard (\<open>Egress\<close>, \<open>Guarded_Ports\<close>), idempotency
  (\<open>Idempotency\<close>), recording (\<open>Audit_Trail\<close>), vendor call. A workflow (\<open>Coordination\<close>, \<open>Listing_Workflow\<close>,
  \<open>Vapi_Followup\<close>) runs in the engine (\<open>Engine\<close>, \<open>Workflows\<close>) until it ends or pauses at a gate; a pause
  files an approval row, and the decide route resumes it. Messages go through one service
  (\<open>Message_Send\<close>), whose rows the delivery webhooks advance.

  The style of the model. State is the record \<open>world\<close> (\<open>World\<close>): one field per table, ContextVar and
  external source. An operation is a function of type \<open>'a W\<close>, from a world to an exception or a value and
  the next world (\<open>Prelude\<close>); every raise of the code is a value of \<open>exn\<close>. What a provider answers to the
  \<open>n\<close>th external call is \<open>w_ext\<close>, an arbitrary function, and \<open>w_sent\<close> lists the calls made; clocks and fresh
  ids are arbitrary functions as well. So every theorem about a world is one about all answers of the
  outside, errors and cancellations included. The operator scripts have a state of their own, \<open>ops\<close> (\<open>Ops\<close>),
  with the trace of commands, probes, questions and writes.

  Theories, bottom up.

  \<^item> Ground: \<open>Prelude\<close> (exceptions, the monad, insertion-ordered dictionaries, generic lemmas), \<open>PyText\<close>
    (the \<open>str\<close> methods used), \<open>PyHash\<close> (SHA-256 and the canonical JSON encoder, as executable functions), \<open>Py_Float\<close>
    (decimal floats), \<open>Models\<close> (the enums and models of \<open>core/models\<close> and their JSON dumps), \<open>World\<close>,
    \<open>Samples\<close> (values for the witnesses), \<open>Http\<close> (requests and responses of the adapters).
  \<^item> Tenancy and stores: \<open>Tenancy\<close> (\<open>core/services/tenancy.py\<close>), \<open>Stores\<close> (both backends of \<open>api/db.py\<close>),
    \<open>Scoped_Stores\<close> (\<open>core/services/scoped_stores.py\<close>). \<open>Store_Laws\<close> states the contract of each store as a
    locale, interpreted for the in-memory and for the SQL implementation; \<open>Confinement\<close> proves every scoped
    operation on every branch from the contract alone; \<open>Confined_Runs\<close> composes them into sequences over
    the stores as wired: C1, C26, C30, C31.
  \<^item> The seam: \<open>Audit_Trail\<close> (\<open>core/services/audit.py\<close>: C29, C32), \<open>Idempotency\<close>
    (\<open>core/services/idempotency.py\<close>: C24, C25), \<open>Secrets\<close> and \<open>Scrub_Tokens\<close> (the secret shapes of
    \<open>core/services/egress.py\<close>, and what eight substitutions in a row leave of them), \<open>Egress\<close> (egress filter
    and tool authorization: C27), \<open>Tool_Surface\<close> (the static detector: C28), \<open>Guarded_Ports\<close>.
  \<^item> Messages: \<open>Templates\<close>, \<open>Message_Send\<close> (\<open>core/services/message_send.py\<close>); \<open>Send_Lifecycle\<close> (a locale for
    a service over a store contract, rule by rule), \<open>Send_Properties\<close> (C2, C22), \<open>Approved_Text\<close> (C23).
  \<^item> Milestones: \<open>Milestones\<close>, \<open>Timeline\<close> (\<open>core/services/milestone_engine.py\<close>, \<open>milestone_schedule.py\<close>,
    \<open>transaction_open.py\<close>: C33, C34).
  \<^item> Identity: \<open>Identity\<close> (\<open>core/services/identity.py\<close>, \<open>magic_link.py\<close>, \<open>api/auth\<close>), \<open>Sessions\<close> (C37, C39),
    \<open>Magic_Links\<close> (C36, C38), \<open>Wiring\<close> (\<open>api/deps.py\<close>: C40).
  \<^item> Workflows: \<open>Engine\<close> (\<open>orchestration/langgraph/engine.py\<close> and the decide route), \<open>Coordination\<close>,
    \<open>Listing_Workflow\<close>, \<open>Vapi_Followup\<close> with \<open>Feedback\<close> (the graphs), \<open>Workflows\<close> (the graphs over the wired
    ports). \<open>Graph_Runs\<close> gives the shape of a graph as a locale and the rule for its walks, \<open>Run_Frames\<close> and
    \<open>Run_Effects\<close> what each layer and each graph can do, \<open>Gate_Runs\<close> and \<open>Gate_Properties\<close> the gates (C3,
    C19, C21, C35), \<open>Decide_Refinement\<close> the decide route as a register of gates (C20).
  \<^item> Routes: \<open>Twilio_Signature\<close>, \<open>Message_Routes\<close>, \<open>Transaction_Routes\<close>, \<open>Document_Routes\<close>,
    \<open>Operator_Routes\<close> (\<open>api/routes\<close>), \<open>Cron\<close> (\<open>routes/cron.py\<close>, \<open>status.py\<close>), with \<open>Cron_Properties\<close> (C4, C5),
    \<open>Send_Once\<close> (C6), \<open>Retry\<close> (C7), \<open>Transaction_Route_Properties\<close> (C8), \<open>Message_Route_Properties\<close> (C17),
    \<open>Route_Reads\<close> (C18).
  \<^item> MLS: \<open>Mls_OData\<close>, \<open>Mls_Adapter\<close> (\<open>integrations/mls_reso\<close>: filter language, adapter and mock server),
    \<open>Mls_Properties\<close> (C12).
  \<^item> Vendors (\<open>integrations\<close>), each adapter over its own stub: \<open>Wire\<close> (JSON values and texts on the wire),
    \<open>Ses\<close> (\<open>email_ses\<close>, with the signature down to its bytes: the stub accepts what an adapter with the same
    keys signed) and \<open>Send_Vendors\<close> (\<open>email_sendgrid\<close>, \<open>email_stub\<close>, \<open>twilio_sms\<close>), with the contract of a send
    as a locale in \<open>Delivery\<close>, interpreted for all four; \<open>Crm_FUB\<close> (\<open>followupboss\<close>, with its token bucket and
    the bound it keeps) and \<open>Crm_Sierra\<close> (\<open>sierra_crm\<close>), with the contract of a CRM in \<open>Crm_Contract\<close>,
    interpreted for both; \<open>Drive\<close> (\<open>google_drive\<close>: its queries read back, a listing is the whole folder
    whatever the page size, a file put is listed).
  \<^item> Operator scripts: \<open>Fleet\<close>, \<open>Fleet_Upgrade\<close>, \<open>Archive_Scan\<close>, \<open>Dsn\<close>, \<open>Offboard_Export\<close>, \<open>Offboard\<close>
    (\<open>scripts/fleet.py\<close>, \<open>fleet_upgrade.py\<close>, \<open>offboard_client.py\<close>), with \<open>Ops_Logic\<close> (rules for the order of
    events), \<open>Fleet_Properties\<close> (C13 to C16), \<open>Offboard_Properties\<close> (C9), \<open>Offboard_Mark\<close>, \<open>Dsn_Properties\<close>
    (C11); C10 is in \<open>Archive_Scan\<close>.

  Bounds. A run of a graph gets LangGraph's recursion limit of 25 steps as fuel; no run needs more than
  seven nodes (C35), so the limit is never what ends one. The readiness loop of an upgrade has its own
  bound of 12 tries. The scan of an archive reads mebibyte chunks and carries 128 bytes over, so that
  matches of at most 129 bytes are found whatever the split (C10). All other recursion is structural or has
  a termination proof.

  Parameters, each an argument or a field of the state: the checkpointed graph runner of LangGraph (it
  walks the graph as documented: \<open>langgraph\<close>), the digest behind keys and references (a field of the state,
  so that collisions are allowed for) and the JSON codec of idempotency results, the answers of all vendors,
  PyJWT and Google's check of an id token, the Alembic revisions, YAML parsing and Pydantic's lax coercions,
  \<open>json\<close>, the archive format and the CSV reader of the offboarding, and the answers of terraform, gcloud, the
  probed service and the operator. Hypotheses about them state documented behaviour and are instantiated in
  the witnesses.

  Limits of the model. A text is a list of bytes (UTF-8): lengths are taken in code points where the code
  does, but a byte beyond ASCII counts neither as a word character nor as white space nor as a cased letter,
  whereas Python's \<open>re\<close>, \<open>lower\<close> and \<open>strip\<close> know Unicode. SQL tables are dictionaries by primary key in
  insertion order with the row-level owner predicate: column lengths, integer bounds and the unspecified
  order of unordered selects are not modelled. A request is handled to its end; concurrent requests are
  sequences. FastAPI's parsing and Pydantic's validation of well-typed bodies, logging, printing and waiting
  are left out. Not modelled: the schema migrations, the assistant upload, the TypeScript client and the
  infrastructure; the Vapi, SMTP and language-model clients and the MCP servers. In the model of the
  application itself every vendor is the arbitrary \<open>w_ext\<close>; the modelled adapters stand beside it with
  their own contracts.
\<close>

end
